(* ===== verification/Prelude.thy ===== *)
theory Prelude
  imports "HOL-Library.Word" "HOL-Library.Sublist"
begin

text \<open>
  The library every component imports: the machine types of the Rust sources, results with an
  error as a value, slices of a buffer, and the generic facts on lists that the component proofs
  use.  The program is modelled as it is built for release on a 64-bit target: \<open>usize\<close> is
  64 bits wide, so a length or a position of a buffer that fits in memory is a \<^typ>\<open>nat\<close>, and
  arithmetic on the integer types wraps.
\<close>

section \<open>Automation\<close>

text \<open>
  \<open>result_simps\<close> collects the rewriting rules for results and slices; \<open>bounds\<close> the facts that
  bound a position or a length; \<open>eval_simps\<close> what the simplifier needs to run a definition on a
  concrete input.
\<close>

named_theorems result_simps "how a result or a slice comes out"
named_theorems eval_simps "how a definition computes on a concrete input"
named_theorems bounds "positions and lengths that stay inside a buffer"

section \<open>Machine types\<close>

type_synonym u8 = "8 word"
type_synonym u16 = "16 word"
type_synonym u32 = "32 word"
type_synonym u64 = "64 word"
type_synonym bytes = "u8 list"

abbreviation u32_max :: u32 where
  "u32_max \<equiv> 0xffffffff"

lemma unat_u8_less [bounds]: "unat (x :: u8) < 256"
  using unsigned_less [of x] by simp

lemma unat_u32_less [bounds]: "unat (x :: u32) < 4294967296"
  using unsigned_less [of x] by simp

lemma unat_u16_less [bounds]: "unat (x :: u16) < 65536"
  using unsigned_less [of x] by simp

lemma unat_u64_less [bounds]: "unat (x :: u64) < 18446744073709551616"
  using unsigned_less [of x] by simp

lemma unat_mod_width [simp]:
  "unat (a :: u16) mod 65536 = unat a"
  "unat (b :: u32) mod 4294967296 = unat b"
  "unat (c :: u64) mod 18446744073709551616 = unat c"
  by (simp_all add: bounds)

lemma unat_ucast_u32_u64 [simp]: "unat (ucast (x :: u32) :: u64) = unat x"
  using unat_u32_less [of x] by (simp only: unsigned_ucast_eq take_bit_eq_mod) simp

section \<open>Results\<close>

text \<open>
  A \<open>Result<T, E>\<close> is a value of \<^typ>\<open>'e + 'a\<close>, with the error on the left; \<open>rbind r f\<close> is
  what the question mark operator does with \<open>r\<close>: return its error, or go on with its value.
  \<open>ok_or\<close> is the method of the same name.
\<close>

definition rbind :: "'e + 'a \<Rightarrow> ('a \<Rightarrow> 'e + 'b) \<Rightarrow> 'e + 'b" where
  "rbind r f = (case r of Inl e \<Rightarrow> Inl e | Inr x \<Rightarrow> f x)"

definition ok_or :: "'e \<Rightarrow> 'a option \<Rightarrow> 'e + 'a" where
  "ok_or e v = (case v of None \<Rightarrow> Inl e | Some x \<Rightarrow> Inr x)"

definition is_ok :: "'e + 'a \<Rightarrow> bool" where
  "is_ok r = (case r of Inl _ \<Rightarrow> False | Inr _ \<Rightarrow> True)"

definition ok :: "'e + 'a \<Rightarrow> 'a option" where
  "ok r = (case r of Inl _ \<Rightarrow> None | Inr x \<Rightarrow> Some x)"

definition map_err :: "('e \<Rightarrow> 'f) \<Rightarrow> 'e + 'a \<Rightarrow> 'f + 'a" where
  "map_err g r = (case r of Inl e \<Rightarrow> Inl (g e) | Inr x \<Rightarrow> Inr x)"

lemma rbind_simps [simp]:
  "rbind (Inl e) f = Inl e"
  "rbind (Inr x) f = f x"
  by (simp_all add: rbind_def)

lemma rbind_Inr_iff [result_simps]:
  "rbind r f = Inr y \<longleftrightarrow> (\<exists>x. r = Inr x \<and> f x = Inr y)"
  by (cases r) auto

lemma rbind_Inl_iff [result_simps]:
  "rbind r f = Inl e \<longleftrightarrow> r = Inl e \<or> (\<exists>x. r = Inr x \<and> f x = Inl e)"
  by (cases r) auto

lemma rbind_cong [fundef_cong]:
  assumes "r = r'" and "\<And>x. r' = Inr x \<Longrightarrow> f x = f' x"
  shows "rbind r f = rbind r' f'"
  using assms by (cases r') auto

lemma ok_or_simps [simp]:
  "ok_or e None = Inl e"
  "ok_or e (Some x) = Inr x"
  by (simp_all add: ok_or_def)

lemma ok_or_Inr_iff [result_simps]: "ok_or e v = Inr x \<longleftrightarrow> v = Some x"
  by (cases v) auto

lemma is_ok_iff [result_simps]: "is_ok r \<longleftrightarrow> (\<exists>x. r = Inr x)"
  by (cases r) (auto simp: is_ok_def)

lemma ok_simps [simp]:
  "ok (Inl e) = None"
  "ok (Inr x) = Some x"
  by (simp_all add: ok_def)

lemma ok_Some_iff [result_simps]: "ok r = Some x \<longleftrightarrow> r = Inr x"
  by (cases r) auto

lemma map_err_simps [simp]:
  "map_err g (Inl e) = Inl (g e)"
  "map_err g (Inr x) = Inr x"
  by (simp_all add: map_err_def)

lemma map_err_Inr_iff [result_simps]: "map_err g r = Inr x \<longleftrightarrow> r = Inr x"
  by (cases r) auto

section \<open>Slices\<close>

lemma update_nth: "j < length xs \<Longrightarrow> xs[i := x] ! j = (if i = j then x else xs ! j)"
  by (cases "i < length xs") (simp_all add: nth_list_update)

text \<open>
  \<open>slice_get b lo hi\<close> is \<open>b.get(lo..hi)\<close>: \<^const>\<open>None\<close> when the range is decreasing or runs past
  the end of the buffer.
\<close>

definition slice_get :: "'a list \<Rightarrow> nat \<Rightarrow> nat \<Rightarrow> 'a list option" where
  "slice_get b lo hi =
     (if lo \<le> hi \<and> hi \<le> length b then Some (take (hi - lo) (drop lo b)) else None)"

declare slice_get_def [eval_simps]

lemma slice_get_Some_iff [result_simps]:
  "slice_get b lo hi = Some s \<longleftrightarrow>
     lo \<le> hi \<and> hi \<le> length b \<and> s = take (hi - lo) (drop lo b)"
  by (auto simp: slice_get_def)

lemma slice_get_length:
  "slice_get b lo hi = Some s \<Longrightarrow> length s = hi - lo"
  by (auto simp: slice_get_Some_iff)

lemma slice_get_append:
  "slice_get (xs @ ys @ zs) (length xs) (length xs + length ys) = Some ys"
  by (simp add: slice_get_def)

lemma slice_get_appendI:
  "b = xs @ ys @ zs \<Longrightarrow> lo = length xs \<Longrightarrow> hi = length xs + length ys \<Longrightarrow>
   slice_get b lo hi = Some ys"
  by (simp add: slice_get_append)

text \<open>\<open>nth_opt xs i\<close> is \<open>xs.get(i)\<close>.\<close>

definition nth_opt :: "'a list \<Rightarrow> nat \<Rightarrow> 'a option" where
  "nth_opt xs i = (if i < length xs then Some (xs ! i) else None)"

declare nth_opt_def [eval_simps]

lemma nth_opt_Some_iff [result_simps]:
  "nth_opt xs i = Some x \<longleftrightarrow> i < length xs \<and> xs ! i = x"
  by (auto simp: nth_opt_def)

lemma nth_opt_None_iff [result_simps]: "nth_opt xs i = None \<longleftrightarrow> length xs \<le> i"
  by (auto simp: nth_opt_def)

section \<open>Little-endian integers\<close>

text \<open>
  \<open>le_nat bs\<close> is the number a little-endian byte string stands for, and \<open>le_bytes k n\<close> the \<open>k\<close>
  bytes of \<open>n\<close>: \<open>from_le_bytes\<close> and \<open>to_le_bytes\<close> for every width the formats use.
\<close>

fun le_nat :: "bytes \<Rightarrow> nat" where
  "le_nat [] = 0"
| "le_nat (b # bs) = unat b + 256 * le_nat bs"

fun le_bytes :: "nat \<Rightarrow> nat \<Rightarrow> bytes" where
  "le_bytes 0 n = []"
| "le_bytes (Suc k) n = of_nat (n mod 256) # le_bytes k (n div 256)"

lemma le_bytes_numeral [eval_simps]:
  "le_bytes (numeral v) n = of_nat (n mod 256) # le_bytes (pred_numeral v) (n div 256)"
  by (simp only: numeral_eq_Suc [of v] le_bytes.simps)

lemma length_le_bytes [simp]: "length (le_bytes k n) = k"
  by (induction k arbitrary: n) auto

lemma unat_of_nat_byte: "n < 256 \<Longrightarrow> unat (of_nat n :: u8) = n"
  by (simp add: unat_of_nat)

lemma le_nat_le_bytes: "le_nat (le_bytes k n) = n mod 256 ^ k"
proof (induction k arbitrary: n)
  case 0
  then show ?case by simp
next
  case (Suc k)
  have "le_nat (le_bytes (Suc k) n) = n mod 256 + 256 * (n div 256 mod 256 ^ k)"
    by (simp add: Suc.IH unat_of_nat_byte)
  also have "\<dots> = n mod (256 * 256 ^ k)"
    by (simp add: mod_mult2_eq add.commute)
  finally show ?case by simp
qed

lemma le_nat_bound [bounds]: "le_nat bs < 256 ^ length bs"
proof (induction bs)
  case Nil
  then show ?case by simp
next
  case (Cons b bs)
  have b: "unat b < 256"
    using unsigned_less [of b] by simp
  from Cons have "le_nat bs + 1 \<le> 256 ^ length bs" by simp
  then have "256 * le_nat bs + 256 \<le> 256 * 256 ^ length bs"
    using mult_le_mono2 [of "le_nat bs + 1" "256 ^ length bs" 256] by simp
  with b have "unat b + 256 * le_nat bs < 256 * 256 ^ length bs"
    using add_strict_right_mono [of "unat b" 256 "256 * le_nat bs"] by simp
  then show ?case by simp
qed

lemma le_bytes_le_nat: "le_bytes (length bs) (le_nat bs) = bs"
proof (induction bs)
  case Nil
  then show ?case by simp
next
  case (Cons b bs)
  have b: "unat b < 256"
    using unsigned_less [of b] by simp
  have "(unat b + 256 * le_nat bs) mod 256 = unat b"
    using b by simp
  moreover have "(unat b + 256 * le_nat bs) div 256 = le_nat bs"
    using b by simp
  ultimately show ?case by (simp add: Cons.IH)
qed

end
