(* ===== verification/Format_Base.thy ===== *)
theory Format_Base
  imports Prelude
begin

text \<open>
  What the on-disk formats share (\<open>src/format/mod.rs\<close>): the error type, the block size, and the
  readers of little-endian integers at a position of a buffer, with the laws the parsers rely on.
  The codecs of the crates the program calls are fields of the record \<open>codecs\<close>, an argument of
  every definition that uses one.
\<close>

section \<open>Errors\<close>

text \<open>
  One constructor for each call of \<open>malformed\<close> in \<open>src/format\<close>, grouped by source file, with the
  values its message prints; \<open>Zlib\<close> carries the I/O error of the decoder.
  \<open>Capacity_overflow\<close> is not an error value of the source: it is the panic of
  \<open>Vec::with_capacity\<close> on a capacity above \<open>isize::MAX\<close>, which ends the process.
\<close>

type_synonym io_error = string

datatype reader_msg = Truncated_u16 nat | Truncated_u32 nat | Truncated_u64 nat

datatype blob_msg =
    Bad_magic u16
  | Total_size nat nat
  | Key_truncated
  | Value_truncated
  | Missing_key u32
  | Expected_4_bytes u32 nat
  | Expected_8_bytes u32 nat
  | Expected_4_or_8_bytes u32 nat
  | Bad_compressed_magic u16
  | Body_truncated
  | Unpacked_size nat nat

datatype table_msg =
    Bad_table_magic
  | Unknown_version u32
  | Table_block_size u32
  | Unexpected_offsets
  | Fileblock_offset nat nat nat
  | File_id_overflow
  | Bad_mode u32 u32
  | Bad_footer
  | Item_count nat nat
  | Largest_count

datatype manifest_msg =
    Short_manifest
  | Manifest_version u32
  | Manifest_block_size u32
  | Binary_size nat nat
  | Manifest_checksum u32 u32
  | Tables_exceed
  | Name_offset nat
  | Name_too_long nat
  | Parent_out_of_range nat
  | Link_out_of_range nat string u32

datatype chunk_msg =
    Inflates_past
  | No_depot_key
  | Size_too_large
  | Encrypted_size nat nat
  | Encrypted_truncated
  | Inflated_size nat nat
  | Wrong_checksum u32 u32

datatype malformed =
    In_reader reader_msg
  | In_blob blob_msg
  | In_table table_msg
  | In_manifest manifest_msg
  | In_chunk chunk_msg

datatype format_error =
    Malformed malformed
  | Zlib io_error
  | Capacity_overflow

abbreviation reader_err :: "reader_msg \<Rightarrow> format_error + 'a" where
  "reader_err m \<equiv> Inl (Malformed (In_reader m))"

abbreviation blob_err :: "blob_msg \<Rightarrow> format_error + 'a" where
  "blob_err m \<equiv> Inl (Malformed (In_blob m))"

abbreviation table_err :: "table_msg \<Rightarrow> format_error + 'a" where
  "table_err m \<equiv> Inl (Malformed (In_table m))"

abbreviation manifest_err :: "manifest_msg \<Rightarrow> format_error + 'a" where
  "manifest_err m \<equiv> Inl (Malformed (In_manifest m))"

abbreviation chunk_err :: "chunk_msg \<Rightarrow> format_error + 'a" where
  "chunk_err m \<equiv> Inl (Malformed (In_chunk m))"

section \<open>The codecs of other crates\<close>

text \<open>
  \<open>zlib\<close> stands for \<open>flate2::read::ZlibDecoder\<close>: the bytes the stream yields, and the error that
  follows them when the stream is corrupt or cut short.  \<open>aes_cfb_dec\<close> is the AES-128-CFB decryptor
  with a zero initialisation vector, \<open>crc32\<close> the hash of \<open>crc32fast\<close>, \<open>adler32_seed0\<close> the checksum of
  \<open>adler2\<close> started from 0, \<open>sha256\<close> the digest of \<open>sha2\<close>.
\<close>

type_synonym key = bytes

record codecs =
  zlib :: "bytes \<Rightarrow> bytes \<times> io_error option"
  aes_cfb_dec :: "key \<Rightarrow> bytes \<Rightarrow> bytes"
  crc32 :: "bytes \<Rightarrow> u32"
  adler32_seed0 :: "bytes \<Rightarrow> u32"
  sha256 :: "bytes \<Rightarrow> bytes"

text \<open>
  \<open>read_to_end\<close> on the decoder fails with the stream's error; after \<open>take(n)\<close> the reader stops at
  \<open>n\<close> bytes and never sees what follows them.
\<close>

definition zlib_read_to_end :: "codecs \<Rightarrow> bytes \<Rightarrow> format_error + bytes" where
  "zlib_read_to_end cx z =
     (case zlib cx z of (out, None) \<Rightarrow> Inr out | (out, Some e) \<Rightarrow> Inl (Zlib e))"

definition zlib_take_read_to_end :: "codecs \<Rightarrow> nat \<Rightarrow> bytes \<Rightarrow> format_error + bytes" where
  "zlib_take_read_to_end cx n z =
     (case zlib cx z of (out, err) \<Rightarrow>
        if n \<le> length out then Inr (take n out)
        else (case err of None \<Rightarrow> Inr out | Some e \<Rightarrow> Inl (Zlib e)))"

section \<open>Readers\<close>

definition BLOCK_SIZE :: nat where
  "BLOCK_SIZE = 0x8000"

definition u16_at :: "bytes \<Rightarrow> nat \<Rightarrow> format_error + u16" where
  "u16_at b off =
     (case slice_get b off (off + 2) of
        Some s \<Rightarrow> Inr (of_nat (le_nat s))
      | None \<Rightarrow> reader_err (Truncated_u16 off))"

definition u32_at :: "bytes \<Rightarrow> nat \<Rightarrow> format_error + u32" where
  "u32_at b off =
     (case slice_get b off (off + 4) of
        Some s \<Rightarrow> Inr (of_nat (le_nat s))
      | None \<Rightarrow> reader_err (Truncated_u32 off))"

definition u64_at :: "bytes \<Rightarrow> nat \<Rightarrow> format_error + u64" where
  "u64_at b off =
     (case slice_get b off (off + 8) of
        Some s \<Rightarrow> Inr (of_nat (le_nat s))
      | None \<Rightarrow> reader_err (Truncated_u64 off))"

text \<open>The encoders: \<open>to_le_bytes\<close> of each width.\<close>

definition u16_le :: "u16 \<Rightarrow> bytes" where
  "u16_le x = le_bytes 2 (unat x)"

definition u32_le :: "u32 \<Rightarrow> bytes" where
  "u32_le x = le_bytes 4 (unat x)"

definition u64_le :: "u64 \<Rightarrow> bytes" where
  "u64_le x = le_bytes 8 (unat x)"

lemma length_u_le [simp]:
  "length (u16_le a) = 2"
  "length (u32_le b) = 4"
  "length (u64_le c) = 8"
  by (simp_all add: u16_le_def u32_le_def u64_le_def)

declare u16_at_def [eval_simps] u32_at_def [eval_simps] u64_at_def [eval_simps]
  u16_le_def [eval_simps] u32_le_def [eval_simps] u64_le_def [eval_simps]

section \<open>Laws\<close>

lemma u16_at_Inr_iff [result_simps]:
  "u16_at b off = Inr x \<longleftrightarrow>
     off + 2 \<le> length b \<and> x = of_nat (le_nat (take 2 (drop off b)))"
  by (auto simp: u16_at_def slice_get_def)

lemma u32_at_Inr_iff [result_simps]:
  "u32_at b off = Inr x \<longleftrightarrow>
     off + 4 \<le> length b \<and> x = of_nat (le_nat (take 4 (drop off b)))"
  by (auto simp: u32_at_def slice_get_def)

lemma u64_at_Inr_iff [result_simps]:
  "u64_at b off = Inr x \<longleftrightarrow>
     off + 8 \<le> length b \<and> x = of_nat (le_nat (take 8 (drop off b)))"
  by (auto simp: u64_at_def slice_get_def)

lemma u16_at_bound [bounds]: "u16_at b off = Inr x \<Longrightarrow> off + 2 \<le> length b"
  and u32_at_bound [bounds]: "u32_at b off = Inr y \<Longrightarrow> off + 4 \<le> length b"
  and u64_at_bound [bounds]: "u64_at b off = Inr z \<Longrightarrow> off + 8 \<le> length b"
  by (simp_all add: result_simps)

text \<open>The only way a reader fails is by running past the end, and it says where.\<close>

lemma u_at_truncated:
  "u16_at b off = Inl e \<longleftrightarrow> length b < off + 2 \<and> e = Malformed (In_reader (Truncated_u16 off))"
  "u32_at b off = Inl e \<longleftrightarrow> length b < off + 4 \<and> e = Malformed (In_reader (Truncated_u32 off))"
  "u64_at b off = Inl e \<longleftrightarrow> length b < off + 8 \<and> e = Malformed (In_reader (Truncated_u64 off))"
  by (auto simp: u16_at_def u32_at_def u64_at_def slice_get_def)

text \<open>Reading what was written, wherever it stands in the buffer.\<close>

lemma u16_at_append: "u16_at (xs @ u16_le x @ ys) (length xs) = Inr x"
  by (simp add: u16_at_def slice_get_def u16_le_def le_nat_le_bytes)

lemma u32_at_append: "u32_at (xs @ u32_le x @ ys) (length xs) = Inr x"
  by (simp add: u32_at_def slice_get_def u32_le_def le_nat_le_bytes)

lemma u64_at_append: "u64_at (xs @ u64_le x @ ys) (length xs) = Inr x"
  by (simp add: u64_at_def slice_get_def u64_le_def le_nat_le_bytes)

lemma u16_at_appendI: "b = xs @ u16_le x @ ys \<Longrightarrow> off = length xs \<Longrightarrow> u16_at b off = Inr x"
  and u32_at_appendI: "b = xs @ u32_le y @ ys \<Longrightarrow> off = length xs \<Longrightarrow> u32_at b off = Inr y"
  and u64_at_appendI: "b = xs @ u64_le z @ ys \<Longrightarrow> off = length xs \<Longrightarrow> u64_at b off = Inr z"
  by (simp_all add: u16_at_append u32_at_append u64_at_append)

text \<open>And what was read is what is written there.\<close>

lemma u32_at_slice:
  assumes "u32_at b off = Inr x"
  shows "take 4 (drop off b) = u32_le x"
proof -
  let ?s = "take 4 (drop off b)"
  from assms have len: "length ?s = 4" and x: "x = of_nat (le_nat ?s)"
    by (auto simp: result_simps)
  have "le_nat ?s < 4294967296"
    using le_nat_bound [of ?s] len by simp
  then have "unat x = le_nat ?s"
    by (simp add: x unat_of_nat)
  then show ?thesis
    using le_bytes_le_nat [of ?s] len by (simp add: u32_le_def)
qed

text \<open>A header of 32-bit words: word \<open>i\<close> is read at \<open>4 * i\<close>.\<close>

lemma length_words [simp]: "length (concat (map u32_le ws)) = 4 * length ws"
  by (induction ws) auto

lemma u32_at_words:
  assumes "i < length ws"
  shows "u32_at (concat (map u32_le ws) @ rest) (4 * i) = Inr (ws ! i)"
proof -
  have "concat (map u32_le ws) =
      concat (map u32_le (take i ws)) @ u32_le (ws ! i) @ concat (map u32_le (drop (Suc i) ws))"
    using assms by (subst id_take_nth_drop [of i ws]) simp_all
  then show ?thesis
    using assms
    by (intro u32_at_appendI [where xs = "concat (map u32_le (take i ws))"]) simp_all
qed

lemma u32_at_wordsI:
  "b = concat (map u32_le ws) @ rest \<Longrightarrow> off = 4 * i \<Longrightarrow> i < length ws \<Longrightarrow> x = ws ! i \<Longrightarrow>
   u32_at b off = Inr x"
  by (simp add: u32_at_words)

end
