(* ===== verification/Blob_Format.thy ===== *)
theory Blob_Format
  imports Format_Base
begin

text \<open>
  The key/value container of \<open>src/format/blob.rs\<close>: the parser of a plain blob, its lookups, the
  decompression of a packed one, and the metadata at the top level of a version blob.  The laws:
  parsing inverts building, a parsed entry is the slice of the buffer its header announces, and
  every lookup is the lookup in the list of entries.
\<close>

section \<open>Definitions\<close>

definition MAGIC_PLAIN :: u16 where
  "MAGIC_PLAIN = 0x5001"

definition MAGIC_COMPRESSED :: u16 where
  "MAGIC_COMPRESSED = 0x4301"

text \<open>The keys of a version blob's top level that the program reads.\<close>

definition FORMAT :: u32 where "FORMAT = 0"
definition MANIFEST_FINGERPRINT :: u32 where "MANIFEST_FINGERPRINT = 2"
definition MANIFEST :: u32 where "MANIFEST = 3"
definition CHECKSUMS :: u32 where "CHECKSUMS = 4"
definition DAT_CRC :: u32 where "DAT_CRC = 7"
definition OWN_CRC :: u32 where "OWN_CRC = 10"
definition PREV_VERSION :: u32 where "PREV_VERSION = 11"
definition PREV_CRC :: u32 where "PREV_CRC = 12"
definition DAT_SIZE :: u32 where "DAT_SIZE = 13"

record blob_entry =
  e_key :: bytes
  e_value :: bytes
  e_value_offset :: nat

record blob =
  entries :: "blob_entry list"

text \<open>The loop of \<open>Blob::parse\<close> over the entries; \<open>acc\<close> holds the entries pushed so far.\<close>

function blob_loop ::
  "bytes \<Rightarrow> nat \<Rightarrow> nat \<Rightarrow> blob_entry list \<Rightarrow> format_error + blob_entry list" where
  "blob_loop data tot pos acc =
     (if pos < tot then
        rbind (u16_at data pos) (\<lambda>k.
        rbind (u32_at data (pos + 2)) (\<lambda>v.
          let klen = unat k; vlen = unat v; pos' = pos + 6 in
          rbind (ok_or (Malformed (In_blob Key_truncated)) (slice_get data pos' (pos' + klen)))
            (\<lambda>key.
          let off = pos' + klen in
          rbind (ok_or (Malformed (In_blob Value_truncated)) (slice_get data off (off + vlen)))
            (\<lambda>value.
          blob_loop data tot (pos' + (klen + vlen))
            (acc @ [\<lparr>e_key = key, e_value = value, e_value_offset = off\<rparr>])))))
      else Inr acc)"
  by pat_completeness auto
termination
  by (relation "measure (\<lambda>(data, tot, pos, acc). tot - pos)") auto

declare blob_loop.simps [simp del]

definition parse_plain :: "bytes \<Rightarrow> format_error + blob" where
  "parse_plain data =
     rbind (u16_at data 0) (\<lambda>magic.
     if magic \<noteq> MAGIC_PLAIN then blob_err (Bad_magic magic)
     else
     rbind (u32_at data 2) (\<lambda>t.
       let tot = unat t in
       if length data < tot then blob_err (Total_size tot (length data))
       else rbind (blob_loop data tot 10 []) (\<lambda>es. Inr \<lparr>entries = es\<rparr>)))"

definition blob_get :: "blob \<Rightarrow> bytes \<Rightarrow> bytes option" where
  "blob_get b k = map_option e_value (List.find (\<lambda>e. e_key e = k) (entries b))"

definition value_offset :: "blob \<Rightarrow> u32 \<Rightarrow> format_error + nat" where
  "value_offset b key =
     ok_or (Malformed (In_blob (Missing_key key)))
       (map_option e_value_offset (List.find (\<lambda>e. e_key e = u32_le key) (entries b)))"

definition get_u32_key :: "blob \<Rightarrow> u32 \<Rightarrow> bytes option" where
  "get_u32_key b key = blob_get b (u32_le key)"

definition require :: "blob \<Rightarrow> u32 \<Rightarrow> format_error + bytes" where
  "require b key = ok_or (Malformed (In_blob (Missing_key key))) (get_u32_key b key)"

definition blob_u32 :: "blob \<Rightarrow> u32 \<Rightarrow> format_error + u32" where
  "blob_u32 b key =
     rbind (require b key) (\<lambda>v.
       if length v \<noteq> 4 then blob_err (Expected_4_bytes key (length v)) else u32_at v 0)"

definition blob_u64 :: "blob \<Rightarrow> u32 \<Rightarrow> format_error + u64" where
  "blob_u64 b key =
     rbind (require b key) (\<lambda>v.
       if length v \<noteq> 8 then blob_err (Expected_8_bytes key (length v)) else u64_at v 0)"

definition u32_or_u64 :: "blob \<Rightarrow> u32 \<Rightarrow> format_error + u64" where
  "u32_or_u64 b key =
     rbind (require b key) (\<lambda>v.
       if length v = 4 then rbind (u32_at v 0) (\<lambda>x. Inr (ucast x))
       else if length v = 8 then u64_at v 0
       else blob_err (Expected_4_or_8_bytes key (length v)))"

text \<open>
  \<open>decompress\<close>; the capacity is reserved before the stream is read.  A packed size that differs
  from the buffer's length is only logged.
\<close>

definition ISIZE_MAX :: nat where
  "ISIZE_MAX = 0x7fffffffffffffff"

definition decompress :: "codecs \<Rightarrow> bytes \<Rightarrow> format_error + bytes" where
  "decompress cx data =
     rbind (u16_at data 0) (\<lambda>magic.
     if magic \<noteq> MAGIC_COMPRESSED then blob_err (Bad_compressed_magic magic)
     else
     rbind (u64_at data 2) (\<lambda>p.
     rbind (u64_at data 10) (\<lambda>u.
       let packed = unat p; unpacked = unat u in
       rbind (ok_or (Malformed (In_blob Body_truncated))
               (slice_get data 20 (min packed (length data)))) (\<lambda>body.
       if ISIZE_MAX < unpacked then Inl Capacity_overflow
       else rbind (zlib_read_to_end cx body) (\<lambda>out.
         if length out \<noteq> unpacked then blob_err (Unpacked_size unpacked (length out))
         else Inr out)))))"

definition parse_any :: "codecs \<Rightarrow> bytes \<Rightarrow> format_error + blob" where
  "parse_any cx data =
     rbind (u16_at data 0) (\<lambda>m.
       if m = MAGIC_PLAIN then parse_plain data
       else if m = MAGIC_COMPRESSED then rbind (decompress cx data) parse_plain
       else blob_err (Bad_magic m))"

record version_meta =
  vm_format :: u32
  vm_own_crc :: u32
  vm_dat_crc :: u32
  vm_dat_size :: u64
  vm_prev :: "(u32 \<times> u32) option"

definition from_blob :: "blob \<Rightarrow> format_error + version_meta" where
  "from_blob b =
     rbind (blob_u32 b PREV_VERSION) (\<lambda>prev_version.
     rbind (blob_u32 b PREV_CRC) (\<lambda>prev_crc.
     rbind (blob_u32 b FORMAT) (\<lambda>fmt.
     rbind (blob_u32 b OWN_CRC) (\<lambda>own.
     rbind (blob_u32 b DAT_CRC) (\<lambda>dcrc.
     rbind (u32_or_u64 b DAT_SIZE) (\<lambda>dsize.
       Inr \<lparr>vm_format = fmt, vm_own_crc = own, vm_dat_crc = dcrc, vm_dat_size = dsize,
            vm_prev = (if prev_version \<noteq> u32_max then Some (prev_version, prev_crc)
                       else None)\<rparr>))))))"

text \<open>The builders of the file's unit tests: \<open>entry\<close>, with a key of any bytes, and \<open>build\<close>.\<close>

definition entry_bytes :: "bytes \<Rightarrow> bytes \<Rightarrow> bytes" where
  "entry_bytes k v = le_bytes 2 (length k) @ le_bytes 4 (length v) @ k @ v"

definition body_bytes :: "(bytes \<times> bytes) list \<Rightarrow> bytes" where
  "body_bytes kvs = concat (map (\<lambda>(k, v). entry_bytes k v) kvs)"

definition build :: "(bytes \<times> bytes) list \<Rightarrow> bytes" where
  "build kvs =
     u16_le MAGIC_PLAIN @ le_bytes 4 (length (body_bytes kvs) + 10) @ le_bytes 4 0 @
     body_bytes kvs"

text \<open>The entries a body stands for when it starts at position \<open>pos\<close>.\<close>

fun entries_from :: "nat \<Rightarrow> (bytes \<times> bytes) list \<Rightarrow> blob_entry list" where
  "entries_from pos [] = []"
| "entries_from pos ((k, v) # kvs) =
     \<lparr>e_key = k, e_value = v, e_value_offset = pos + 6 + length k\<rparr> #
     entries_from (pos + 6 + length k + length v) kvs"

definition encodable :: "(bytes \<times> bytes) list \<Rightarrow> bool" where
  "encodable kvs \<longleftrightarrow>
     (\<forall>(k, v) \<in> set kvs. length k < 65536 \<and> length v < 4294967296) \<and>
     length (body_bytes kvs) + 10 < 4294967296"

text \<open>What a parsed entry list says about the buffer: each entry is written at its place.\<close>

fun layout :: "bytes \<Rightarrow> nat \<Rightarrow> blob_entry list \<Rightarrow> nat \<Rightarrow> bool" where
  "layout data pos [] fin \<longleftrightarrow> pos = fin"
| "layout data pos (e # es) fin \<longleftrightarrow>
     e_value_offset e = pos + 6 + length (e_key e) \<and>
     take (6 + length (e_key e) + length (e_value e)) (drop pos data)
       = entry_bytes (e_key e) (e_value e) \<and>
     e_value_offset e + length (e_value e) \<le> length data \<and>
     layout data (e_value_offset e + length (e_value e)) es fin"

declare MAGIC_PLAIN_def [eval_simps] parse_plain_def [eval_simps] blob_loop.simps [eval_simps]
  entry_bytes_def [eval_simps] build_def [eval_simps]

section \<open>The loop\<close>

lemma length_entry_bytes [simp]: "length (entry_bytes k v) = 6 + length k + length v"
  by (simp add: entry_bytes_def)

lemma body_bytes_simps [simp]:
  "body_bytes [] = []"
  "body_bytes ((k, v) # kvs) = entry_bytes k v @ body_bytes kvs"
  by (simp_all add: body_bytes_def)

lemma u16_le_of_nat: "n < 65536 \<Longrightarrow> u16_le (of_nat n) = le_bytes 2 n"
  by (simp add: u16_le_def unat_of_nat)

lemma u32_le_of_nat: "n < 4294967296 \<Longrightarrow> u32_le (of_nat n) = le_bytes 4 n"
  by (simp add: u32_le_def unat_of_nat)

text \<open>One turn of the loop over a well-formed entry.\<close>

lemma blob_loop_entry:
  assumes k: "length k < 65536" and v: "length v < 4294967296"
    and data: "data = pre @ entry_bytes k v @ post" and pos: "length pre < tot"
  shows "blob_loop data tot (length pre) acc =
    blob_loop data tot (length (pre @ entry_bytes k v))
      (acc @ [\<lparr>e_key = k, e_value = v, e_value_offset = length pre + 6 + length k\<rparr>])"
proof -
  have klen: "u16_at data (length pre) = Inr (of_nat (length k))"
    by (rule u16_at_appendI [where ys = "le_bytes 4 (length v) @ k @ v @ post"])
      (simp_all add: data entry_bytes_def u16_le_of_nat k)
  have vlen: "u32_at data (length pre + 2) = Inr (of_nat (length v))"
    by (rule u32_at_appendI [where xs = "pre @ le_bytes 2 (length k)" and ys = "k @ v @ post"])
      (simp_all add: data entry_bytes_def u32_le_of_nat v)
  have key: "slice_get data (length pre + 6) (length pre + 6 + length k) = Some k"
    by (rule slice_get_appendI
        [where xs = "pre @ le_bytes 2 (length k) @ le_bytes 4 (length v)" and zs = "v @ post"])
      (simp_all add: data entry_bytes_def)
  have val: "slice_get data (length pre + 6 + length k) (length pre + 6 + length k + length v)
      = Some v"
    by (rule slice_get_appendI
        [where xs = "pre @ le_bytes 2 (length k) @ le_bytes 4 (length v) @ k" and zs = post])
      (simp_all add: data entry_bytes_def)
  have unat: "unat (of_nat (length k) :: u16) = length k"
    "unat (of_nat (length v) :: u32) = length v"
    using k v by (simp_all add: unat_of_nat)
  show ?thesis
    by (subst blob_loop.simps)
      (simp add: Let_def pos klen vlen unat key val add.assoc [symmetric] del: add_2_eq_Suc')
qed

lemma blob_loop_body:
  assumes "\<forall>(k, v) \<in> set kvs. length k < 65536 \<and> length v < 4294967296"
    and "data = pre @ body_bytes kvs @ post"
    and "tot = length pre + length (body_bytes kvs)"
  shows "blob_loop data tot (length pre) acc = Inr (acc @ entries_from (length pre) kvs)"
  using assms
proof (induction kvs arbitrary: pre acc)
  case Nil
  then show ?case by (simp add: blob_loop.simps)
next
  case (Cons kv kvs)
  obtain k v where kv: "kv = (k, v)" by (cases kv)
  let ?pre = "pre @ entry_bytes k v"
  have "blob_loop data tot (length pre) acc = blob_loop data tot (length ?pre)
      (acc @ [\<lparr>e_key = k, e_value = v, e_value_offset = length pre + 6 + length k\<rparr>])"
    using Cons.prems by (intro blob_loop_entry [where post = "body_bytes kvs @ post"])
      (auto simp: kv)
  also have "\<dots> = Inr ((acc @
      [\<lparr>e_key = k, e_value = v, e_value_offset = length pre + 6 + length k\<rparr>])
        @ entries_from (length ?pre) kvs)"
    using Cons.prems by (intro Cons.IH) (auto simp: kv)
  finally show ?case by (simp add: kv add.assoc)
qed

text \<open>Conversely, what the loop returns is laid out in the buffer from its position on.\<close>

lemma u16_at_le_bytes:
  assumes "u16_at b off = Inr x"
  shows "take 2 (drop off b) = le_bytes 2 (unat x)"
proof -
  let ?s = "take 2 (drop off b)"
  from assms have len: "length ?s = 2" and x: "x = of_nat (le_nat ?s)"
    by (auto simp: result_simps)
  have "le_nat ?s < 65536"
    using le_nat_bound [of ?s] len by simp
  then have "unat x = le_nat ?s"
    by (simp add: x unat_of_nat)
  then show ?thesis
    using le_bytes_le_nat [of ?s] len by simp
qed

lemma entry_slice:
  assumes "u16_at data pos = Inr k" and "u32_at data (pos + 2) = Inr v"
    and "slice_get data (pos + 6) (pos + 6 + unat k) = Some key"
    and "slice_get data (pos + 6 + unat k) (pos + 6 + unat k + unat v) = Some val"
  shows "take (6 + length key + length val) (drop pos data) = entry_bytes key val"
    and "length key = unat k" and "length val = unat v"
    and "pos + 6 + unat k + unat v \<le> length data"
proof -
  show lens: "length key = unat k" "length val = unat v"
    using assms(3,4) by (auto dest!: slice_get_length)
  show "pos + 6 + unat k + unat v \<le> length data"
    using assms(4) by (simp add: result_simps)
  have "take (2 + (4 + (unat k + unat v))) (drop pos data) =
      take 2 (drop pos data) @ take 4 (drop (pos + 2) data) @
      take (unat k) (drop (pos + 6) data) @ take (unat v) (drop (pos + 6 + unat k) data)"
    unfolding take_add by (simp add: add.commute add.left_commute)
  also have "\<dots> = le_bytes 2 (unat k) @ le_bytes 4 (unat v) @ key @ val"
    using assms u16_at_le_bytes [OF assms(1)] u32_at_slice [OF assms(2)]
    by (simp add: result_simps u32_le_def)
  finally show "take (6 + length key + length val) (drop pos data) = entry_bytes key val"
    by (simp add: lens entry_bytes_def add.assoc)
qed

lemma blob_loop_sound:
  assumes "blob_loop data tot pos acc = Inr es"
  shows "\<exists>es' fin. es = acc @ es' \<and> layout data pos es' fin \<and> tot \<le> fin"
  using assms
proof (induction data tot pos acc rule: blob_loop.induct)
  case (1 data tot pos acc)
  show ?case
  proof (cases "pos < tot")
    case False
    with 1 show ?thesis
      by (intro exI [of _ "[]"] exI [of _ pos]) (simp add: blob_loop.simps)
  next
    case True
    let ?e = "\<lambda>k key val. \<lparr>e_key = key, e_value = val, e_value_offset = pos + 6 + unat k\<rparr>"
    from 1(2) True obtain k v key val where
      k: "u16_at data pos = Inr k" and v: "u32_at data (pos + 2) = Inr v"
      and key: "slice_get data (pos + 6) (pos + 6 + unat k) = Some key"
      and val: "slice_get data (pos + 6 + unat k) (pos + 6 + unat k + unat v) = Some val"
      and rest: "blob_loop data tot (pos + 6 + (unat k + unat v)) (acc @ [?e (k :: u16) key val])
        = Inr es"
      by (subst (asm) blob_loop.simps) (auto simp: Let_def rbind_Inr_iff ok_or_Inr_iff)
    note slices = entry_slice [OF k v key val]
    obtain es' fin where es': "es = (acc @ [?e k key val]) @ es'"
      and lay: "layout data (pos + 6 + (unat k + unat v)) es' fin" and fin: "tot \<le> fin"
      using 1(1) [OF True k v refl refl refl _ refl _ rest] key val
      by (auto simp: ok_or_Inr_iff)
    have "layout data pos (?e k key val # es') fin"
      using lay slices by (simp add: add.assoc)
    moreover have "es = acc @ (?e k key val # es')"
      using es' by simp
    ultimately show ?thesis
      using fin by blast
  qed
qed

section \<open>Lookups\<close>

lemma find_entry_map_of:
  "map_option e_value (List.find (\<lambda>e. e_key e = k) es)
     = map_of (map (\<lambda>e. (e_key e, e_value e)) es) k"
  by (induction es) auto

lemma blob_get_map_of:
  "blob_get b k = map_of (map (\<lambda>e. (e_key e, e_value e)) (entries b)) k"
  by (simp add: blob_get_def find_entry_map_of)

lemma entries_from_pairs: "map (\<lambda>e. (e_key e, e_value e)) (entries_from pos kvs) = kvs"
  by (induction pos kvs rule: entries_from.induct) auto

lemma layout_entries:
  "layout data pos es fin \<Longrightarrow> e \<in> set es \<Longrightarrow>
     e_value_offset e + length (e_value e) \<le> length data \<and>
     take (length (e_value e)) (drop (e_value_offset e) data) = e_value e"
proof (induction es arbitrary: pos)
  case Nil
  then show ?case by simp
next
  case (Cons a es)
  let ?k = "e_key a" and ?v = "e_value a"
  have "take (length ?v) (drop (6 + length ?k) (take (6 + length ?k + length ?v) (drop pos data)))
      = ?v"
    using Cons.prems(1) by (simp add: entry_bytes_def)
  then have "take (length ?v) (drop (e_value_offset a) data) = ?v"
    using Cons.prems(1) by (simp add: drop_take add.commute add.left_commute)
  with Cons show ?case by auto
qed

text \<open>
  \<open>value_offset\<close> points at the very bytes \<open>require\<close> returns; the checksum of a blob is recomputed
  with the bytes there zeroed.
\<close>

lemma value_offset_require:
  assumes "layout data pos (entries b) fin" and "require b key = Inr v"
  shows "\<exists>off. value_offset b key = Inr off \<and> off + length v \<le> length data \<and>
      take (length v) (drop off data) = v"
proof -
  from assms(2) obtain e where e: "List.find (\<lambda>e. e_key e = u32_le key) (entries b) = Some e"
    and v: "v = e_value e"
    by (auto simp: require_def get_u32_key_def blob_get_def ok_or_Inr_iff)
  from e have "e \<in> set (entries b)"
    by (auto simp: find_Some_iff)
  with layout_entries [OF assms(1)] e v show ?thesis
    by (auto simp: value_offset_def)
qed

lemma parse_plain_build:
  assumes "encodable kvs"
  shows "parse_plain (build kvs @ slack) = Inr \<lparr>entries = entries_from 10 kvs\<rparr>"
proof -
  let ?data = "build kvs @ slack" and ?tot = "length (body_bytes kvs) + 10"
  let ?hdr = "u16_le MAGIC_PLAIN @ le_bytes 4 ?tot @ le_bytes 4 0"
  have tot: "?tot < 4294967296"
    using assms by (simp add: encodable_def)
  have magic: "u16_at ?data 0 = Inr MAGIC_PLAIN"
    by (rule u16_at_appendI [where xs = "[]"]) (simp_all add: build_def)
  have total: "u32_at ?data 2 = Inr (of_nat ?tot)"
    by (rule u32_at_appendI [where xs = "u16_le MAGIC_PLAIN"])
      (use tot in \<open>simp_all add: build_def u32_le_of_nat del: of_nat_add of_nat_numeral\<close>)
  have "blob_loop ?data ?tot (length ?hdr) [] = Inr ([] @ entries_from (length ?hdr) kvs)"
    using assms by (intro blob_loop_body [where post = slack])
      (auto simp: encodable_def build_def)
  then show ?thesis
    using tot by (simp add: parse_plain_def magic total unat_of_nat Let_def
        del: of_nat_add of_nat_numeral) (simp add: build_def)
qed

section \<open>Properties\<close>

text \<open>
  Parsing inverts building.  A blob built from any list of key/value pairs that fits the
  format's length fields, with any slack after it, parses to exactly those pairs in their order,
  each with the offset of its value in the buffer.
\<close>

theorem parse_build:
  assumes "encodable kvs"
  shows "parse_plain (build kvs @ slack) = Inr \<lparr>entries = entries_from 10 kvs\<rparr>"
  using assms by (rule parse_plain_build)

theorem parse_build_witness:
  "encodable [(u32_le 0, [3, 0, 0, 0]), (u32_le 13, [7, 0, 0, 0, 0, 0, 0, 0])] \<and>
   parse_plain (build [(u32_le 0, [3, 0, 0, 0]), (u32_le 13, [7, 0, 0, 0, 0, 0, 0, 0])] @ [9, 9])
     = Inr \<lparr>entries = entries_from 10
         [(u32_le 0, [3, 0, 0, 0]), (u32_le 13, [7, 0, 0, 0, 0, 0, 0, 0])]\<rparr>"
proof -
  have "encodable [(u32_le 0, [3, 0, 0, 0]), (u32_le 13, [7, 0, 0, 0, 0, 0, 0, 0])]"
    by (simp add: encodable_def)
  then show ?thesis using parse_build by blast
qed

text \<open>
  What the parser accepts is in the buffer.  Every entry of a parsed blob is written, header,
  key and value, one after the other from position 10 on, up to at least the declared total size;
  so every value is the slice of the buffer at its recorded offset, inside the buffer.
\<close>

theorem parse_plain_layout:
  assumes "parse_plain data = Inr b"
  shows "\<exists>tot fin. u32_at data 2 = Inr tot \<and> unat tot \<le> length data \<and> unat tot \<le> fin \<and>
      layout data 10 (entries b) fin"
proof -
  from assms obtain t es where t: "u32_at data 2 = Inr t" and le: "unat t \<le> length data"
    and es: "blob_loop data (unat t) 10 [] = Inr es" and b: "b = \<lparr>entries = es\<rparr>"
    by (auto simp: parse_plain_def rbind_Inr_iff Let_def split: if_splits)
  with blob_loop_sound [OF es] show ?thesis by auto
qed

theorem parse_plain_layout_witness:
  "\<exists>b. parse_plain (build [([1], [2, 3])]) = Inr b \<and>
     (\<exists>tot fin. u32_at (build [([1], [2, 3])]) 2 = Inr tot \<and>
        unat tot \<le> length (build [([1], [2, 3])]) \<and> unat tot \<le> fin \<and>
        layout (build [([1], [2, 3])]) 10 (entries b) fin)"
proof -
  have "parse_plain (build [([1], [2, 3])]) = Inr \<lparr>entries = entries_from 10 [([1], [2, 3])]\<rparr>"
    by (simp add: eval_simps)
  then show ?thesis using parse_plain_layout by blast
qed

text \<open>The packed form the unit test \<open>round_trips_compressed\<close> writes.\<close>

definition pack :: "nat \<Rightarrow> nat \<Rightarrow> bytes \<Rightarrow> bytes" where
  "pack unpacked level z =
     u16_le MAGIC_COMPRESSED @ le_bytes 8 (length z + 20) @ le_bytes 8 unpacked @
     le_bytes 2 level @ z"

lemma u64_le_of_nat: "n < 18446744073709551616 \<Longrightarrow> u64_le (of_nat n) = le_bytes 8 n"
  by (simp add: u64_le_def unat_of_nat)

lemma decompress_pack_eq:
  assumes "unpacked \<le> ISIZE_MAX" and "length z + 20 \<le> ISIZE_MAX"
  shows "decompress cx (pack unpacked level z) =
    rbind (zlib_read_to_end cx z) (\<lambda>out.
      if length out \<noteq> unpacked then blob_err (Unpacked_size unpacked (length out)) else Inr out)"
proof -
  let ?d = "pack unpacked level z"
  have small: "unpacked < 18446744073709551616" "length z + 20 < 18446744073709551616"
    using assms by (simp_all add: ISIZE_MAX_def)
  have magic: "u16_at ?d 0 = Inr MAGIC_COMPRESSED"
    by (rule u16_at_appendI [where xs = "[]"]) (simp_all add: pack_def)
  have packed: "u64_at ?d 2 = Inr (of_nat (length z + 20))"
    by (rule u64_at_appendI [where xs = "u16_le MAGIC_COMPRESSED"])
      (use small in \<open>simp_all add: pack_def u64_le_of_nat del: of_nat_add of_nat_numeral\<close>)
  have unpacked: "u64_at ?d 10 = Inr (of_nat unpacked)"
    by (rule u64_at_appendI
        [where xs = "u16_le MAGIC_COMPRESSED @ le_bytes 8 (length z + 20)"])
      (use small in \<open>simp_all add: pack_def u64_le_of_nat\<close>)
  have body: "slice_get ?d 20 (length z + 20) = Some z"
    by (rule slice_get_appendI [where zs = "[]"
          and xs = "u16_le MAGIC_COMPRESSED @ le_bytes 8 (length z + 20) @
            le_bytes 8 unpacked @ le_bytes 2 level"]) (simp_all add: pack_def)
  have len: "length ?d = length z + 20"
    by (simp add: pack_def)
  have "unat (of_nat (length z + 20) :: u64) = length z + 20"
    "unat (of_nat unpacked :: u64) = unpacked"
    using small by (simp_all add: unat_of_nat del: of_nat_add of_nat_numeral)
  then show ?thesis
    using assms by (simp add: decompress_def magic packed unpacked body len Let_def
        del: of_nat_add of_nat_numeral cong: if_cong)
qed

text \<open>
  A compressed blob unpacks to what was packed.  Whatever the zlib decoder is, a body it
  decodes to \<open>plain\<close>, behind a header with the two sizes, decompresses to \<open>plain\<close>; a header whose
  unpacked size is another one is refused, and so is a stream that fails.
\<close>

theorem decompress_pack:
  assumes "unpacked \<le> ISIZE_MAX" and "length z + 20 \<le> ISIZE_MAX"
  shows "decompress cx (pack unpacked level z) =
    (case zlib cx z of
       (plain, None) \<Rightarrow>
         if length plain = unpacked then Inr plain
         else blob_err (Unpacked_size unpacked (length plain))
     | (_, Some e) \<Rightarrow> Inl (Zlib e))"
  by (simp add: decompress_pack_eq [OF assms] zlib_read_to_end_def split: prod.split option.split)

theorem decompress_pack_witness:
  "let cx = \<lparr>zlib = \<lambda>z. (z @ z, None), aes_cfb_dec = \<lambda>k b. b, crc32 = \<lambda>_. 0,
             adler32_seed0 = \<lambda>_. 0, sha256 = \<lambda>_. []\<rparr> in
   4 \<le> ISIZE_MAX \<and> decompress cx (pack 4 9 [5, 6]) = Inr [5, 6, 5, 6]"
  using decompress_pack [of 4 "[5, 6]" "\<lparr>zlib = \<lambda>z. (z @ z, None), aes_cfb_dec = \<lambda>k b. b,
      crc32 = \<lambda>_. 0, adler32_seed0 = \<lambda>_. 0, sha256 = \<lambda>_. []\<rparr>" 9]
  by (simp add: ISIZE_MAX_def)

end
