(* ===== verification/Checksum_Table.thy ===== *)
theory Checksum_Table
  imports Format_Base
begin

text \<open>
  The checksum and file-id table of \<open>src/format/checksums.rs\<close>: storage modes, blocks, file records
  and the parser of the table.  The laws: parsing inverts writing for both table versions, and what
  the parser accepts has as many records as the header says, each with fewer than \<open>2 ^ 24\<close> blocks,
  the largest count being the announced one.
\<close>

unbundle bit_operations_syntax

section \<open>Definitions\<close>

definition TABLE_MAGIC :: u32 where
  "TABLE_MAGIC = 0x34457234"

datatype mode = Plain | Compressed | CompressedEncrypted | Encrypted

definition mode_from_u32 :: "u32 \<Rightarrow> mode option" where
  "mode_from_u32 v =
     (if v = 0 then Some Plain
      else if v = 1 then Some Compressed
      else if v = 2 then Some CompressedEncrypted
      else if v = 3 then Some Encrypted
      else None)"

fun mode_number :: "mode \<Rightarrow> nat" where
  "mode_number Plain = 0"
| "mode_number Compressed = 1"
| "mode_number CompressedEncrypted = 2"
| "mode_number Encrypted = 3"

fun is_encrypted :: "mode \<Rightarrow> bool" where
  "is_encrypted CompressedEncrypted = True"
| "is_encrypted Encrypted = True"
| "is_encrypted _ = False"

record block =
  compressed_size :: u32
  checksum :: u32

record file_record =
  file_id :: u32
  fr_mode :: mode
  fr_offset :: u64
  fr_size :: u64
  blocks :: "block list"

definition num_blocks :: "file_record \<Rightarrow> nat" where
  "num_blocks r = length (blocks r)"

definition block_range :: "file_record \<Rightarrow> nat \<Rightarrow> u64 \<times> u64" where
  "block_range r i =
     (let start = of_nat i * of_nat BLOCK_SIZE
      in (start, min (start + of_nat BLOCK_SIZE) (fr_size r)))"

text \<open>The innermost loop: the blocks of one file.  The position moves with the reads.\<close>

fun read_blocks :: "bytes \<Rightarrow> nat \<Rightarrow> nat \<Rightarrow> format_error + block list \<times> nat" where
  "read_blocks t 0 pos = Inr ([], pos)"
| "read_blocks t (Suc n) pos =
     rbind (u32_at t pos) (\<lambda>c.
     rbind (u32_at t (pos + 4)) (\<lambda>k.
     rbind (read_blocks t n (pos + 8)) (\<lambda>(bs, pos').
       Inr (\<lparr>compressed_size = c, checksum = k\<rparr> # bs, pos'))))"

text \<open>The head of one file: its size, its offset and the word of mode and block count.\<close>

definition read_head :: "bytes \<Rightarrow> u32 \<Rightarrow> nat \<Rightarrow> format_error + (u64 \<times> u64 \<times> u32) \<times> nat" where
  "read_head t version pos =
     (if version = 0 then
        rbind (u32_at t pos) (\<lambda>size.
        rbind (u32_at t (pos + 4)) (\<lambda>offset.
        rbind (u32_at t (pos + 8)) (\<lambda>packed.
          Inr ((ucast size, ucast offset, packed), pos + 12))))
      else
        rbind (u64_at t pos) (\<lambda>size.
        rbind (u64_at t (pos + 8)) (\<lambda>offset.
        rbind (u32_at t (pos + 16)) (\<lambda>packed.
          Inr ((size, offset, packed), pos + 20)))))"

text \<open>
  The loop over the files of one fileblock: file \<open>k\<close> and the \<open>n\<close> after it.  It returns the records,
  the position after them and the largest block count so far.
\<close>

fun read_files ::
  "bytes \<Rightarrow> u32 \<Rightarrow> u32 \<Rightarrow> nat \<Rightarrow> nat \<Rightarrow> nat \<Rightarrow> u32 \<Rightarrow> format_error + file_record list \<times> nat \<times> u32"
where
  "read_files t version start k 0 pos mx = Inr ([], pos, mx)"
| "read_files t version start k (Suc n) pos mx =
     rbind (ok_or (Malformed (In_table File_id_overflow))
             (if unat start + k < 4294967296 then Some (start + of_nat k) else None)) (\<lambda>fid.
     rbind (read_head t version pos) (\<lambda>((size, offset, packed), pos1).
     rbind (ok_or (Malformed (In_table (Bad_mode fid (drop_bit 24 packed))))
             (mode_from_u32 (drop_bit 24 packed))) (\<lambda>m.
     let nb = packed AND 0x00ffffff; mx' = max mx nb in
     rbind (read_blocks t (unat nb) pos1) (\<lambda>(bs, pos2).
     rbind (read_files t version start (Suc k) n pos2 mx') (\<lambda>(rs, pos3, mx3).
       Inr (\<lparr>file_id = fid, fr_mode = m, fr_offset = offset, fr_size = size, blocks = bs\<rparr> # rs,
            pos3, mx3))))))"

text \<open>The loop over the fileblock table: fileblock \<open>fb\<close> and the \<open>n\<close> after it.\<close>

fun read_fileblocks ::
  "bytes \<Rightarrow> u32 \<Rightarrow> nat \<Rightarrow> nat \<Rightarrow> nat \<Rightarrow> u32 \<Rightarrow> format_error + file_record list \<times> nat \<times> u32"
where
  "read_fileblocks t version fb 0 pos mx = Inr ([], pos, mx)"
| "read_fileblocks t version fb (Suc n) pos mx =
     (let base = 0x20 + fb * 0x10 in
     rbind (u32_at t base) (\<lambda>fileid_start.
     rbind (u32_at t (base + 4)) (\<lambda>filecount.
     rbind (u32_at t (base + 8)) (\<lambda>offset.
     if pos \<noteq> unat offset then table_err (Fileblock_offset fb (unat offset) pos)
     else
     rbind (read_files t version fileid_start 0 (unat filecount) pos mx) (\<lambda>(rs, pos1, mx1).
     rbind (read_fileblocks t version (Suc fb) n pos1 mx1) (\<lambda>(rs', pos2, mx2).
       Inr (rs @ rs', pos2, mx2)))))))"

definition parse_table :: "bytes \<Rightarrow> format_error + file_record list" where
  "parse_table t =
     rbind (u32_at t 0) (\<lambda>magic.
     if magic \<noteq> TABLE_MAGIC then table_err Bad_table_magic
     else
     rbind (u32_at t 4) (\<lambda>version.
     rbind (u32_at t 8) (\<lambda>num_fileblocks.
     rbind (u32_at t 12) (\<lambda>num_items.
     rbind (u32_at t 16) (\<lambda>offset1.
     rbind (u32_at t 20) (\<lambda>offset2.
     rbind (u32_at t 24) (\<lambda>blocksize.
     rbind (u32_at t 28) (\<lambda>largest.
     if 1 < version then table_err (Unknown_version version)
     else if unat blocksize \<noteq> BLOCK_SIZE then table_err (Table_block_size blocksize)
     else if unat offset1 \<noteq> 0x20 \<or> unat offset2 \<noteq> 0x20 + 0x10 * unat num_fileblocks
     then table_err Unexpected_offsets
     else
     rbind (read_fileblocks t version 0 (unat num_fileblocks) (unat offset2) 0)
       (\<lambda>(out, pos, mx).
     rbind (u32_at t pos) (\<lambda>footer.
     if footer \<noteq> TABLE_MAGIC then table_err Bad_footer
     else if length out \<noteq> unat num_items then table_err (Item_count (length out) (unat num_items))
     else if mx \<noteq> largest then table_err Largest_count
     else Inr out))))))))))"

section \<open>The format, written out\<close>

text \<open>
  The table the parser's documentation describes, as a writer: a table is a version and a list of
  fileblocks, each with the id of its first file and its files.
\<close>

definition block_bytes :: "block \<Rightarrow> bytes" where
  "block_bytes b = u32_le (compressed_size b) @ u32_le (checksum b)"

definition packed_word :: "file_record \<Rightarrow> u32" where
  "packed_word r = of_nat (mode_number (fr_mode r) * 16777216 + num_blocks r)"

definition head_bytes :: "u32 \<Rightarrow> file_record \<Rightarrow> bytes" where
  "head_bytes version r =
     (if version = 0 then u32_le (ucast (fr_size r)) @ u32_le (ucast (fr_offset r))
      else u64_le (fr_size r) @ u64_le (fr_offset r)) @ u32_le (packed_word r)"

definition file_bytes :: "u32 \<Rightarrow> file_record \<Rightarrow> bytes" where
  "file_bytes version r = head_bytes version r @ concat (map block_bytes (blocks r))"

definition files_bytes :: "u32 \<Rightarrow> file_record list \<Rightarrow> bytes" where
  "files_bytes version rs = concat (map (file_bytes version) rs)"

fun fileblock_bytes :: "u32 \<Rightarrow> nat \<Rightarrow> (u32 \<times> file_record list) list \<Rightarrow> bytes" where
  "fileblock_bytes version pos [] = []"
| "fileblock_bytes version pos ((start, rs) # fbs) =
     u32_le start @ u32_le (of_nat (length rs)) @ u32_le (of_nat pos) @ u32_le 0 @
     fileblock_bytes version (pos + length (files_bytes version rs)) fbs"

definition largest_count :: "file_record list \<Rightarrow> u32" where
  "largest_count rs = fold (\<lambda>r mx. max mx (of_nat (num_blocks r))) rs 0"

definition table_bytes :: "u32 \<Rightarrow> (u32 \<times> file_record list) list \<Rightarrow> bytes" where
  "table_bytes version fbs =
     (let rs = concat (map snd fbs); off2 = 0x20 + 0x10 * length fbs in
      u32_le TABLE_MAGIC @ u32_le version @ u32_le (of_nat (length fbs)) @
      u32_le (of_nat (length rs)) @ u32_le 0x20 @ u32_le (of_nat off2) @
      u32_le (of_nat BLOCK_SIZE) @ u32_le (largest_count rs) @
      fileblock_bytes version off2 fbs @ files_bytes version rs @ u32_le TABLE_MAGIC)"

text \<open>The tables that fit the format's fields.\<close>

definition record_fits :: "u32 \<Rightarrow> file_record \<Rightarrow> bool" where
  "record_fits version r \<longleftrightarrow>
     num_blocks r < 16777216 \<and>
     (version = 0 \<longrightarrow> unat (fr_size r) < 4294967296 \<and> unat (fr_offset r) < 4294967296)"

fun ids_from :: "u32 \<Rightarrow> nat \<Rightarrow> file_record list \<Rightarrow> bool" where
  "ids_from start k [] = True"
| "ids_from start k (r # rs) \<longleftrightarrow>
     unat start + k < 4294967296 \<and> file_id r = start + of_nat k \<and> ids_from start (Suc k) rs"

definition table_fits :: "u32 \<Rightarrow> (u32 \<times> file_record list) list \<Rightarrow> bool" where
  "table_fits version fbs \<longleftrightarrow>
     version \<le> 1 \<and>
     (\<forall>(start, rs) \<in> set fbs. ids_from start 0 rs \<and> (\<forall>r \<in> set rs. record_fits version r)) \<and>
     length (table_bytes version fbs) < 4294967296"

section \<open>Reading what is written\<close>

lemma length_block_bytes [simp]: "length (block_bytes b) = 8"
  by (simp add: block_bytes_def)

lemma length_blocks_bytes [simp]: "length (concat (map block_bytes bs)) = 8 * length bs"
  by (induction bs) auto

lemma read_blocks_append:
  "t = pre @ concat (map block_bytes bs) @ post \<Longrightarrow>
   read_blocks t (length bs) (length pre) = Inr (bs, length pre + 8 * length bs)"
proof (induction bs arbitrary: pre)
  case Nil
  then show ?case by simp
next
  case (Cons b bs)
  have c: "u32_at t (length pre) = Inr (compressed_size b)"
    by (rule u32_at_appendI [where ys = "u32_le (checksum b) @ concat (map block_bytes bs) @ post"])
      (simp_all add: Cons.prems block_bytes_def [of b])
  have k: "u32_at t (length pre + 4) = Inr (checksum b)"
    by (rule u32_at_appendI [where xs = "pre @ u32_le (compressed_size b)"
          and ys = "concat (map block_bytes bs) @ post"])
      (simp_all add: Cons.prems block_bytes_def [of b])
  have "read_blocks t (length bs) (length (pre @ block_bytes b))
      = Inr (bs, length (pre @ block_bytes b) + 8 * length bs)"
    by (rule Cons.IH) (simp add: Cons.prems)
  then show ?case by (simp add: c k add.assoc)
qed

lemma mode_from_number: "mode_from_u32 (of_nat (mode_number m)) = Some m"
  by (cases m) (simp_all add: mode_from_u32_def)

lemma unat_packed_word:
  assumes "num_blocks r < 16777216"
  shows "unat (packed_word r) = mode_number (fr_mode r) * 16777216 + num_blocks r"
proof -
  have "mode_number (fr_mode r) * 16777216 + num_blocks r < 4294967296"
    using assms by (cases "fr_mode r") auto
  then show ?thesis
    unfolding packed_word_def by (subst unat_of_nat) simp
qed

lemma packed_mode:
  assumes "num_blocks r < 16777216"
  shows "mode_from_u32 (drop_bit 24 (packed_word r)) = Some (fr_mode r)"
proof -
  have "unat (drop_bit 24 (packed_word r)) = mode_number (fr_mode r)"
    by (subst unat_drop_bit_eq) (simp add: drop_bit_eq_div unat_packed_word [OF assms] assms)
  then have "drop_bit 24 (packed_word r) = of_nat (mode_number (fr_mode r))"
    by (metis of_nat_unat ucast_id)
  then show ?thesis by (simp add: mode_from_number)
qed

lemma packed_count:
  assumes "num_blocks r < 16777216"
  shows "packed_word r AND 0x00ffffff = of_nat (num_blocks r)"
proof -
  have "packed_word r AND 0x00ffffff = take_bit 24 (packed_word r)"
    by (simp add: take_bit_eq_mask mask_eq_exp_minus_1)
  also have "\<dots> = of_nat (take_bit 24 (mode_number (fr_mode r) * 16777216 + num_blocks r))"
    by (simp only: packed_word_def take_bit_of_nat)
  also have "take_bit 24 (mode_number (fr_mode r) * 16777216 + num_blocks r) = num_blocks r"
    using assms by (simp add: take_bit_eq_mod)
  finally show ?thesis .
qed

lemma ucast_small:
  assumes "unat (x :: u64) < 4294967296"
  shows "ucast (ucast x :: u32) = x"
proof -
  have "unat (ucast x :: u32) = unat x"
    using assms by (simp add: unsigned_ucast_eq take_bit_eq_mod)
  then show ?thesis by (simp only: word_unat_eq_iff unat_ucast_u32_u64)
qed

lemma read_head_append:
  assumes "record_fits version r" and t: "t = pre @ head_bytes version r @ post"
  shows "read_head t version (length pre) =
    Inr ((fr_size r, fr_offset r, packed_word r), length pre + length (head_bytes version r))"
proof (cases "version = 0")
  case True
  have "u32_at t (length pre) = Inr (ucast (fr_size r))"
    by (rule u32_at_appendI) (simp_all add: t True head_bytes_def)
  moreover have "u32_at t (length pre + 4) = Inr (ucast (fr_offset r))"
    by (rule u32_at_appendI [where xs = "pre @ u32_le (ucast (fr_size r))"])
      (simp_all add: t True head_bytes_def)
  moreover have "u32_at t (length pre + 8) = Inr (packed_word r)"
    by (rule u32_at_appendI
        [where xs = "pre @ u32_le (ucast (fr_size r)) @ u32_le (ucast (fr_offset r))"])
      (simp_all add: t True head_bytes_def)
  ultimately show ?thesis
    using assms(1) True by (simp add: read_head_def head_bytes_def record_fits_def ucast_small)
next
  case False
  have "u64_at t (length pre) = Inr (fr_size r)"
    by (rule u64_at_appendI) (simp_all add: t False head_bytes_def)
  moreover have "u64_at t (length pre + 8) = Inr (fr_offset r)"
    by (rule u64_at_appendI [where xs = "pre @ u64_le (fr_size r)"])
      (simp_all add: t False head_bytes_def)
  moreover have "u32_at t (length pre + 16) = Inr (packed_word r)"
    by (rule u32_at_appendI [where xs = "pre @ u64_le (fr_size r) @ u64_le (fr_offset r)"])
      (simp_all add: t False head_bytes_def)
  ultimately show ?thesis
    using False by (simp add: read_head_def head_bytes_def)
qed

lemma files_bytes_simps [simp]:
  "files_bytes version [] = []"
  "files_bytes version (r # rs) = file_bytes version r @ files_bytes version rs"
  "files_bytes version (rs @ rs') = files_bytes version rs @ files_bytes version rs'"
  by (simp_all add: files_bytes_def)

lemma read_files_append:
  assumes "ids_from start k rs" and "\<forall>r \<in> set rs. record_fits version r"
    and "t = pre @ files_bytes version rs @ post"
  shows "read_files t version start k (length rs) (length pre) mx =
    Inr (rs, length pre + length (files_bytes version rs),
         fold (\<lambda>r mx. max mx (of_nat (num_blocks r))) rs mx)"
  using assms
proof (induction rs arbitrary: k pre mx)
  case Nil
  then show ?case by simp
next
  case (Cons r rs)
  let ?h = "head_bytes version r" and ?b = "concat (map block_bytes (blocks r))"
  have fits: "record_fits version r" and nb: "num_blocks r < 16777216"
    using Cons.prems by (auto simp: record_fits_def)
  have head: "read_head t version (length pre) =
      Inr ((fr_size r, fr_offset r, packed_word r), length pre + length ?h)"
    by (rule read_head_append [OF fits]) (simp add: Cons.prems(3) file_bytes_def)
  have "unat (of_nat (num_blocks r) :: u32) = length (blocks r)"
    using nb by (simp add: unat_of_nat num_blocks_def)
  then have blk: "read_blocks t (unat (of_nat (num_blocks r) :: u32)) (length pre + length ?h)
      = Inr (blocks r, length pre + length ?h + 8 * length (blocks r))"
    using read_blocks_append
      [where pre = "pre @ ?h" and bs = "blocks r" and post = "files_bytes version rs @ post"]
    by (simp add: Cons.prems(3) file_bytes_def)
  have "read_files t version start (Suc k) (length rs)
      (length (pre @ file_bytes version r)) (max mx (of_nat (num_blocks r))) =
      Inr (rs, length (pre @ file_bytes version r) + length (files_bytes version rs),
         fold (\<lambda>r mx. max mx (of_nat (num_blocks r))) rs (max mx (of_nat (num_blocks r))))"
    by (rule Cons.IH) (use Cons.prems in auto)
  then show ?case
    using Cons.prems(1)
    by (simp add: head packed_mode [OF nb] packed_count [OF nb] blk file_bytes_def add.assoc Let_def)
qed

lemma length_fileblock_bytes [simp]: "length (fileblock_bytes version pos fbs) = 0x10 * length fbs"
  by (induction version pos fbs rule: fileblock_bytes.induct) auto

text \<open>
  The fileblock loop: \<open>tpre\<close> is the table up to fileblock \<open>fb\<close>, \<open>pre\<close> the buffer up to its files.
\<close>

lemma read_fileblocks_append:
  assumes "\<forall>(start, rs) \<in> set fbs. ids_from start 0 rs \<and> (\<forall>r \<in> set rs. record_fits version r)"
    and "t = tpre @ fileblock_bytes version (length pre) fbs @ tpost"
    and "length tpre = 0x20 + fb * 0x10"
    and "t = pre @ files_bytes version (concat (map snd fbs)) @ post"
    and "length t < 4294967296" and "\<forall>(start, rs) \<in> set fbs. length rs < 4294967296"
  shows "read_fileblocks t version fb (length fbs) (length pre) mx =
    Inr (concat (map snd fbs), length pre + length (files_bytes version (concat (map snd fbs))),
         fold (\<lambda>r mx. max mx (of_nat (num_blocks r))) (concat (map snd fbs)) mx)"
  using assms
proof (induction fbs arbitrary: tpre pre fb mx)
  case Nil
  then show ?case by simp
next
  case (Cons p fbs)
  obtain start rs where p: "p = (start, rs)" by (cases p)
  let ?files = "files_bytes version rs"
  have small: "length rs < 4294967296" "length pre < 4294967296"
    using Cons.prems(5,6) by (auto simp: p Cons.prems(4))
  have st: "u32_at t (32 + fb * 16) = Inr start"
    by (rule u32_at_appendI [where xs = tpre]) (simp_all add: Cons.prems(2) p Cons.prems(3))
  have cnt: "u32_at t (36 + fb * 16) = Inr (of_nat (length rs))"
    by (rule u32_at_appendI [where xs = "tpre @ u32_le start"])
      (simp_all add: Cons.prems(2) p Cons.prems(3))
  have off: "u32_at t (40 + fb * 16) = Inr (of_nat (length pre))"
    by (rule u32_at_appendI [where xs = "tpre @ u32_le start @ u32_le (of_nat (length rs))"])
      (simp_all add: Cons.prems(2) p Cons.prems(3))
  have unat: "unat (of_nat (length rs) :: u32) = length rs"
    "unat (of_nat (length pre) :: u32) = length pre"
    using small by (simp_all add: unat_of_nat)
  have fs: "read_files t version start 0 (length rs) (length pre) mx =
      Inr (rs, length pre + length ?files, fold (\<lambda>r mx. max mx (of_nat (num_blocks r))) rs mx)"
    by (rule read_files_append
        [where post = "files_bytes version (concat (map snd fbs)) @ post"])
      (use Cons.prems in \<open>auto simp: p\<close>)
  have "read_fileblocks t version (Suc fb) (length fbs) (length (pre @ ?files))
      (fold (\<lambda>r mx. max mx (of_nat (num_blocks r))) rs mx) =
      Inr (concat (map snd fbs),
         length (pre @ ?files) + length (files_bytes version (concat (map snd fbs))),
         fold (\<lambda>r mx. max mx (of_nat (num_blocks r))) (concat (map snd fbs))
           (fold (\<lambda>r mx. max mx (of_nat (num_blocks r))) rs mx))"
    by (rule Cons.IH [where
          tpre = "tpre @ u32_le start @ u32_le (of_nat (length rs)) @ u32_le (of_nat (length pre)) @
            u32_le 0"])
      (use Cons.prems in \<open>auto simp: p\<close>)
  then show ?case
    by (simp add: p st cnt off unat fs Let_def add.assoc [symmetric])
qed

section \<open>What an accepted table looks like\<close>

lemma read_blocks_length: "read_blocks t n pos = Inr (bs, pos') \<Longrightarrow> length bs = n"
  by (induction n arbitrary: pos bs) (auto simp: rbind_Inr_iff)

lemma low_24_bits: "unat (w AND 0x00ffffff :: u32) < 16777216"
proof -
  have "w AND 0x00ffffff = take_bit 24 w"
    by (simp add: take_bit_eq_mask mask_eq_exp_minus_1)
  then show ?thesis
    by (simp only: unsigned_take_bit_eq take_bit_eq_mod [of 24 "unat w"]) simp
qed

lemma read_files_facts:
  assumes "read_files t version start k n pos mx = Inr (rs, pos', mx')"
  shows "length rs = n \<and> ids_from start k rs \<and> (\<forall>r \<in> set rs. num_blocks r < 16777216) \<and>
    mx' = fold (\<lambda>r mx. max mx (of_nat (num_blocks r))) rs mx"
  using assms
proof (induction n arbitrary: k pos mx rs)
  case 0
  then show ?case by simp
next
  case (Suc n)
  from Suc.prems obtain size offset packed pos1 m bs pos2 rs2 where
    id: "unat start + k < 4294967296"
    and blk: "read_blocks t (unat (packed AND 0x00ffffff :: u32)) pos1 = Inr (bs, pos2)"
    and rest: "read_files t version start (Suc k) n pos2 (max mx (packed AND 0x00ffffff))
      = Inr (rs2, pos', mx')"
    and rs: "rs = \<lparr>file_id = start + of_nat k, fr_mode = m, fr_offset = offset, fr_size = size,
      blocks = bs\<rparr> # rs2"
    by (auto simp: rbind_Inr_iff ok_or_Inr_iff Let_def split: if_splits)
  have len: "length bs = unat (packed AND 0x00ffffff)"
    using blk by (rule read_blocks_length)
  from Suc.IH [OF rest] show ?case
    by (simp add: rs id num_blocks_def len low_24_bits)
qed

lemma read_fileblocks_facts:
  assumes "read_fileblocks t version fb n pos mx = Inr (rs, pos', mx')"
  shows "(\<forall>r \<in> set rs. num_blocks r < 16777216) \<and>
    mx' = fold (\<lambda>r mx. max mx (of_nat (num_blocks r))) rs mx"
  using assms
proof (induction n arbitrary: fb pos mx rs)
  case 0
  then show ?case by simp
next
  case (Suc n)
  from Suc.prems obtain start cnt rs1 pos1 mx1 rs2 where
    fs: "read_files t version start 0 cnt pos mx = Inr (rs1, pos1, mx1)"
    and rest: "read_fileblocks t version (Suc fb) n pos1 mx1 = Inr (rs2, pos', mx')"
    and rs: "rs = rs1 @ rs2"
    by (auto simp: rbind_Inr_iff Let_def split: if_splits)
  from read_files_facts [OF fs] Suc.IH [OF rest] show ?case
    by (auto simp: rs)
qed

lemma unat_less_iff_max: "unat (max a b :: u32) = max (unat a) (unat b)"
  by (simp add: max_def word_le_nat_alt)

lemma largest_count_ge:
  assumes "\<forall>r \<in> set rs. num_blocks r < 16777216"
  shows "unat (fold (\<lambda>r mx. max mx (of_nat (num_blocks r))) rs (mx :: u32)) =
    fold (\<lambda>r m. max m (num_blocks r)) rs (unat mx)"
  using assms
proof (induction rs arbitrary: mx)
  case Nil
  then show ?case by simp
next
  case (Cons r rs)
  have "unat (of_nat (num_blocks r) :: u32) = num_blocks r"
    using Cons.prems by (simp add: unat_of_nat)
  with Cons show ?case by (simp add: unat_less_iff_max)
qed

lemma files_bytes_length: "length rs \<le> length (files_bytes version rs)"
proof (induction rs)
  case Nil
  then show ?case by simp
next
  case (Cons r rs)
  have "1 \<le> length (file_bytes version r)"
    by (simp add: file_bytes_def head_bytes_def)
  with Cons show ?case by simp
qed

lemma fold_max_Max:
  "fold (\<lambda>r m. max m (f r)) rs m = Max (set ((m :: nat) # map f rs))"
proof -
  have "fold (\<lambda>r m. max m (f r)) rs m = fold max (map f rs) m"
    by (induction rs arbitrary: m) (auto simp: max.commute)
  then show ?thesis by (simp only: Max.set_eq_fold)
qed

lemma parse_table_written:
  assumes "table_fits version fbs"
  shows "parse_table (table_bytes version fbs) = Inr (concat (map snd fbs))"
proof -
  define rs where "rs = concat (map snd fbs)"
  let ?t = "table_bytes version fbs" and ?off2 = "0x20 + 0x10 * length fbs"
  let ?ws = "[TABLE_MAGIC, version, of_nat (length fbs), of_nat (length rs), 0x20, of_nat ?off2,
    of_nat BLOCK_SIZE, largest_count rs]"
  let ?hdr = "concat (map u32_le ?ws)" and ?tab = "fileblock_bytes version ?off2 fbs"
    and ?files = "files_bytes version rs"
  have t: "?t = ?hdr @ ?tab @ ?files @ u32_le TABLE_MAGIC"
    by (simp add: table_bytes_def rs_def Let_def)
  have small: "length ?t < 4294967296" "length rs < 4294967296"
    using assms files_bytes_length [of rs version] by (simp_all add: table_fits_def t)
  have word: "u32_at ?t (4 * i) = Inr (?ws ! i)" if "i < 8" for i
    using u32_at_words [of i ?ws] that by (simp add: t)
  note hdr = word [of 0, simplified] word [of 1, simplified] word [of 2, simplified]
    word [of 3, simplified] word [of 4, simplified] word [of 5, simplified]
    word [of 6, simplified] word [of 7, simplified]
  have unat: "unat (of_nat (length fbs) :: u32) = length fbs"
    "unat (of_nat (length rs) :: u32) = length rs" "unat (of_nat ?off2 :: u32) = ?off2"
    using small by (simp_all add: unat_of_nat t del: of_nat_add of_nat_mult of_nat_numeral)
  have lens: "\<forall>(start, rs) \<in> set fbs. length rs < 4294967296"
  proof (clarify)
    fix start xs assume "(start, xs) \<in> set fbs"
    then have "length xs \<le> length rs"
      unfolding rs_def by (induction fbs) auto
    with small show "length xs < 4294967296" by simp
  qed
  have fb: "read_fileblocks ?t version 0 (length fbs) ?off2 0 =
      Inr (rs, ?off2 + length ?files, largest_count rs)"
    using read_fileblocks_append [of fbs version ?t ?hdr "?hdr @ ?tab"
        "?files @ u32_le TABLE_MAGIC" 0 "u32_le TABLE_MAGIC" 0] assms lens small
    by (simp add: table_fits_def t rs_def [symmetric] largest_count_def)
  have footer: "u32_at ?t (?off2 + length ?files) = Inr TABLE_MAGIC"
    by (rule u32_at_appendI [where xs = "?hdr @ ?tab @ ?files" and ys = "[]"]) (simp_all add: t)
  have v: "version \<le> 1"
    using assms by (simp add: table_fits_def)
  show ?thesis
    unfolding parse_table_def rs_def [symmetric]
    using v by (simp add: hdr unat(1,2) unat(3) [simplified] fb footer BLOCK_SIZE_def not_less)
qed

section \<open>Properties\<close>

text \<open>
  C31: the checksum table parser inverts the format.  A table of either version, written as the
  format describes it (header, fileblock table, files with their blocks, footer), whose fields fit
  their widths, parses to exactly the file records that were written, in order.
\<close>

theorem parse_table_bytes:
  assumes "table_fits version fbs"
  shows "parse_table (table_bytes version fbs) = Inr (concat (map snd fbs))"
  using assms by (rule parse_table_written)

definition sample_record :: "u32 \<Rightarrow> file_record" where
  "sample_record i =
     \<lparr>file_id = i, fr_mode = Encrypted, fr_offset = 0x100, fr_size = 5,
      blocks = [\<lparr>compressed_size = 5, checksum = 0xabcd\<rparr>]\<rparr>"

lemma sample_fits: "table_fits 1 [(7, [sample_record 7, sample_record 8]), (20, [])]"
  by (simp add: table_fits_def record_fits_def sample_record_def num_blocks_def table_bytes_def
      file_bytes_def head_bytes_def Let_def)

theorem parse_table_bytes_witness:
  "table_fits 1 [(7, [sample_record 7, sample_record 8]), (20, [])] \<and>
   parse_table (table_bytes 1 [(7, [sample_record 7, sample_record 8]), (20, [])])
     = Inr [sample_record 7, sample_record 8]"
  using parse_table_bytes [OF sample_fits] sample_fits by simp

text \<open>
  What the checksum table parser accepts is consistent.  It returns as many records as the
  header announces, each with fewer than \<open>2 ^ 24\<close> blocks, and the announced largest block count is
  the maximum over the records.
\<close>

theorem parse_table_consistent:
  assumes "parse_table t = Inr rs"
  shows "(\<exists>n. u32_at t 12 = Inr n \<and> unat n = length rs) \<and>
    (\<forall>r \<in> set rs. num_blocks r < 16777216) \<and>
    (\<exists>m. u32_at t 28 = Inr m \<and> unat m = Max (set (0 # map num_blocks rs)))"
proof -
  from assms obtain version nfb n off2 largest pos mx where
    fbs: "read_fileblocks t version 0 nfb off2 0 = Inr (rs, pos, mx)"
    and n: "u32_at t 12 = Inr n" "length rs = unat n"
    and l: "u32_at t 28 = Inr largest" "mx = largest"
    by (auto simp: parse_table_def rbind_Inr_iff split: if_splits)
  note facts = read_fileblocks_facts [OF fbs]
  then have "unat mx = Max (set (0 # map num_blocks rs))"
    using largest_count_ge [of rs 0] by (simp add: fold_max_Max)
  with facts n l show ?thesis by auto
qed

theorem parse_table_consistent_witness:
  "let t = table_bytes 1 [(7, [sample_record 7])] in
   parse_table t = Inr [sample_record 7] \<and>
   (\<exists>n. u32_at t 12 = Inr n \<and> unat n = 1) \<and>
   (\<exists>m. u32_at t 28 = Inr m \<and> unat m = Max (set (0 # map num_blocks [sample_record 7])))"
proof -
  have "parse_table (table_bytes 1 [(7, [sample_record 7])]) = Inr [sample_record 7]"
    by (simp add: table_bytes_def parse_table_def TABLE_MAGIC_def BLOCK_SIZE_def largest_count_def
        file_bytes_def head_bytes_def packed_word_def block_bytes_def sample_record_def
        num_blocks_def read_head_def mode_from_u32_def Let_def eval_simps)
  from this parse_table_consistent [OF this] show ?thesis by (simp add: Let_def)
qed

end
