(* ===== verification/Dat_Chunk.thy ===== *)
theory Dat_Chunk
  imports Checksum_Table
begin

text \<open>
  Decoding one dat block (\<open>src/format/chunk.rs\<close>) in the four storage modes, over the codecs of other
  crates.  The laws: decoding inverts the storage format, the decoder that owns its buffer agrees
  with the one that borrows it, no decoded block of a compressed mode exceeds the block size, and a
  verified block has the stored checksum.
\<close>

section \<open>Definitions\<close>

definition chunk_checksum :: "codecs \<Rightarrow> bytes \<Rightarrow> u32" where
  "chunk_checksum cx data = adler32_seed0 cx data XOR crc32 cx data"

definition inflate :: "codecs \<Rightarrow> bytes \<Rightarrow> format_error + bytes" where
  "inflate cx z =
     rbind (zlib_take_read_to_end cx (BLOCK_SIZE + 1) z) (\<lambda>out.
       if BLOCK_SIZE < length out then chunk_err Inflates_past else Inr out)"

definition decrypt :: "codecs \<Rightarrow> key \<Rightarrow> bytes \<Rightarrow> bytes" where
  "decrypt cx k buf = aes_cfb_dec cx k buf"

fun decode :: "codecs \<Rightarrow> mode \<Rightarrow> bytes \<Rightarrow> key option \<Rightarrow> format_error + bytes" where
  "decode cx Plain raw key = Inr raw"
| "decode cx Compressed raw key = inflate cx raw"
| "decode cx CompressedEncrypted raw key =
     rbind (ok_or (Malformed (In_chunk No_depot_key)) key) (\<lambda>k.
     rbind (u32_at raw 0) (\<lambda>e.
     rbind (u32_at raw 4) (\<lambda>d.
       let encrypted_size = unat e; decompressed_size = unat d in
       if BLOCK_SIZE < decompressed_size then chunk_err Size_too_large
       else if encrypted_size \<noteq> length raw - 8
       then chunk_err (Encrypted_size encrypted_size (length raw - 8))
       else
       rbind (ok_or (Malformed (In_chunk Encrypted_truncated))
               (slice_get raw 8 (length raw))) (\<lambda>body.
       rbind (inflate cx (decrypt cx k body)) (\<lambda>out.
         if length out \<noteq> decompressed_size
         then chunk_err (Inflated_size (length out) decompressed_size)
         else Inr out)))))"
| "decode cx Encrypted raw key =
     rbind (ok_or (Malformed (In_chunk No_depot_key)) key) (\<lambda>k. Inr (decrypt cx k raw))"

fun decode_owned :: "codecs \<Rightarrow> mode \<Rightarrow> bytes \<Rightarrow> key option \<Rightarrow> format_error + bytes" where
  "decode_owned cx Plain raw key = Inr raw"
| "decode_owned cx Encrypted raw key =
     rbind (ok_or (Malformed (In_chunk No_depot_key)) key) (\<lambda>k. Inr (decrypt cx k raw))"
| "decode_owned cx Compressed raw key = decode cx Compressed raw key"
| "decode_owned cx CompressedEncrypted raw key = decode cx CompressedEncrypted raw key"

definition decode_verified ::
  "codecs \<Rightarrow> mode \<Rightarrow> bytes \<Rightarrow> key option \<Rightarrow> u32 \<Rightarrow> format_error + bytes" where
  "decode_verified cx m raw key expected =
     rbind (decode cx m raw key) (\<lambda>out.
       let actual = chunk_checksum cx out in
       if actual \<noteq> expected then chunk_err (Wrong_checksum actual expected) else Inr out)"

section \<open>The storage format, written out\<close>

text \<open>
  How the four modes store a block, from the description at the head of the file: \<open>deflate\<close> is a
  compressor and \<open>enc\<close> the cipher the decoders of the codecs invert.
\<close>

fun encode :: "(bytes \<Rightarrow> bytes) \<Rightarrow> (key \<Rightarrow> bytes \<Rightarrow> bytes) \<Rightarrow> mode \<Rightarrow> key \<Rightarrow> bytes \<Rightarrow> bytes" where
  "encode deflate enc Plain k b = b"
| "encode deflate enc Compressed k b = deflate b"
| "encode deflate enc CompressedEncrypted k b =
     (let c = enc k (deflate b)
      in u32_le (of_nat (length c)) @ u32_le (of_nat (length b)) @ c)"
| "encode deflate enc Encrypted k b = enc k b"

text \<open>
  What is relied on of the codecs: the zlib decoder yields what was compressed, without an error,
  and decryption undoes encryption under the same key.
\<close>

definition codecs_invert ::
  "codecs \<Rightarrow> (bytes \<Rightarrow> bytes) \<Rightarrow> (key \<Rightarrow> bytes \<Rightarrow> bytes) \<Rightarrow> bool" where
  "codecs_invert cx deflate enc \<longleftrightarrow>
     (\<forall>b. zlib cx (deflate b) = (b, None)) \<and> (\<forall>k b. aes_cfb_dec cx k (enc k b) = b)"

section \<open>Lemmas\<close>

lemma inflate_bound [bounds]: "inflate cx z = Inr out \<Longrightarrow> length out \<le> BLOCK_SIZE"
  by (auto simp: inflate_def rbind_Inr_iff split: if_splits)

lemma inflate_stream:
  "zlib cx z = (out, None) \<Longrightarrow> length out \<le> BLOCK_SIZE \<Longrightarrow> inflate cx z = Inr out"
  by (simp add: inflate_def zlib_take_read_to_end_def)

lemma inflate_overlong:
  "zlib cx z = (out, err) \<Longrightarrow> BLOCK_SIZE < length out \<Longrightarrow> inflate cx z = chunk_err Inflates_past"
  by (simp add: inflate_def zlib_take_read_to_end_def)

lemma decode_encrypted_no_key:
  "is_encrypted m \<Longrightarrow> decode cx m raw None = chunk_err No_depot_key"
  by (cases m) auto

lemma decode_owned_decode: "decode_owned cx m raw key = decode cx m raw key"
  by (cases m) simp_all

lemma decode_compressed_encrypted:
  assumes len: "length c < 4294967296" and b: "length b \<le> BLOCK_SIZE"
  shows "decode cx CompressedEncrypted
      (u32_le (of_nat (length c)) @ u32_le (of_nat (length b)) @ c) (Some k) =
    rbind (inflate cx (decrypt cx k c)) (\<lambda>out.
      if length out \<noteq> length b then chunk_err (Inflated_size (length out) (length b)) else Inr out)"
proof -
  let ?raw = "u32_le (of_nat (length c)) @ u32_le (of_nat (length b)) @ c"
  have "u32_at ?raw 0 = Inr (of_nat (length c))"
    by (rule u32_at_appendI [where xs = "[]"]) simp_all
  moreover have "u32_at ?raw 4 = Inr (of_nat (length b))"
    by (rule u32_at_appendI [where xs = "u32_le (of_nat (length c))"]) simp_all
  moreover have "unat (of_nat (length c) :: u32) = length c"
    "unat (of_nat (length b) :: u32) = length b"
    using len b by (simp_all add: unat_of_nat BLOCK_SIZE_def)
  moreover have "slice_get ?raw 8 (length ?raw) = Some c"
    by (simp add: slice_get_def)
  ultimately show ?thesis
    using b by (simp add: Let_def cong: if_cong)
qed

section \<open>Properties\<close>

text \<open>
  C32: decoding inverts the storage format.  With a zlib decoder and a cipher that invert their
  encoders, a block of at most 32 KiB stored in any of the four modes decodes, with its key, to the
  bytes that were stored; an empty block and a full one included.
\<close>

theorem decode_encode:
  assumes "codecs_invert cx deflate enc" and "length b \<le> BLOCK_SIZE"
    and "length (enc k (deflate b)) < 4294967296"
  shows "decode cx m (encode deflate enc m k b) (Some k) = Inr b"
proof (cases m)
  case CompressedEncrypted
  then show ?thesis
    using assms decode_compressed_encrypted [OF assms(3,2)]
    by (simp add: Let_def decrypt_def codecs_invert_def inflate_stream del: decode.simps)
qed (use assms in \<open>simp_all add: codecs_invert_def inflate_stream decrypt_def\<close>)

text \<open>
  Codecs for the witnesses: a \<open>deflate\<close> that puts a marker byte in front, and a cipher that flips
  every bit.
\<close>

definition flip_codecs :: codecs where
  "flip_codecs =
     \<lparr>zlib = \<lambda>z. (case z of [] \<Rightarrow> ([], Some ''unexpected end of file'')
                  | c # b \<Rightarrow> if c = 0x78 then (b, None) else ([], Some ''corrupt deflate stream'')),
      aes_cfb_dec = \<lambda>k. map NOT,
      crc32 = \<lambda>b. of_nat (length b),
      adler32_seed0 = \<lambda>b. of_nat (sum_list (map unat b)),
      sha256 = \<lambda>b. b\<rparr>"

lemma flip_codecs_invert: "codecs_invert flip_codecs (\<lambda>b. 0x78 # b) (\<lambda>k. map NOT)"
  by (simp add: codecs_invert_def flip_codecs_def comp_def)

theorem decode_encode_witness:
  "codecs_invert flip_codecs (\<lambda>b. 0x78 # b) (\<lambda>k. map NOT) \<and>
   decode flip_codecs CompressedEncrypted
     (encode (\<lambda>b. 0x78 # b) (\<lambda>k. map NOT) CompressedEncrypted [1] [10, 20]) (Some [1])
     = Inr [10, 20]"
  using decode_encode [OF flip_codecs_invert, where b = "[10, 20]" and k = "[1]"
      and m = CompressedEncrypted] flip_codecs_invert
  by (simp add: BLOCK_SIZE_def del: decode.simps encode.simps)

text \<open>
  The two decoders agree.  \<open>decode_owned\<close>, which reuses the stored buffer for plain and
  encrypted blocks, returns in every mode and with every key, given or missing, what \<open>decode\<close>
  returns, errors included.
\<close>

theorem decode_owned_matches_decode: "decode_owned cx m raw key = decode cx m raw key"
  by (rule decode_owned_decode)

text \<open>
  A verified block is the decoded block with the stored checksum.  \<open>decode_verified\<close> succeeds
  exactly when the block decodes and the checksum of the decoded bytes is the stored one, and
  returns those bytes; a compressed block is then no longer than the block size, and an encrypted
  block never succeeds without a key.
\<close>

theorem decode_verified_iff:
  "(decode_verified cx m raw key expected = Inr out \<longleftrightarrow>
      decode cx m raw key = Inr out \<and> chunk_checksum cx out = expected) \<and>
   (decode cx m raw key = Inr out \<and> is_encrypted m \<longrightarrow> key \<noteq> None) \<and>
   (decode cx m raw key = Inr out \<and> m \<in> {Compressed, CompressedEncrypted} \<longrightarrow>
      length out \<le> BLOCK_SIZE)"
proof (intro conjI)
  show "decode_verified cx m raw key expected = Inr out \<longleftrightarrow>
      decode cx m raw key = Inr out \<and> chunk_checksum cx out = expected"
    by (auto simp: decode_verified_def rbind_Inr_iff Let_def split: if_splits)
  show "decode cx m raw key = Inr out \<and> is_encrypted m \<longrightarrow> key \<noteq> None"
    by (cases m) (auto simp: rbind_Inr_iff ok_or_Inr_iff)
  show "decode cx m raw key = Inr out \<and> m \<in> {Compressed, CompressedEncrypted} \<longrightarrow>
      length out \<le> BLOCK_SIZE"
    by (auto simp: rbind_Inr_iff Let_def bounds split: if_splits)
qed

theorem decode_verified_iff_witness:
  "decode_verified flip_codecs Compressed [0x78, 1, 2] None 1 = Inr [1, 2] \<and>
   length [1 :: u8, 2] \<le> BLOCK_SIZE"
proof -
  have d: "decode flip_codecs Compressed [0x78, 1, 2] None = Inr [1, 2]"
    by (simp add: inflate_def flip_codecs_def zlib_take_read_to_end_def BLOCK_SIZE_def)
  have c: "chunk_checksum flip_codecs [1, 2] = 1"
    by (simp add: chunk_checksum_def flip_codecs_def)
  show ?thesis
    using decode_verified_iff [of flip_codecs Compressed "[0x78, 1, 2]" None 1 "[1, 2]"] d c
    by simp
qed

end
