(* ===== verification/Rust_Slice.thy ===== *)
theory Rust_Slice
  imports Prelude "HOL-Library.List_Lexorder" "HOL-Library.Product_Lexorder"
begin

text \<open>
  What the program uses of the standard library on slices: the three-way comparison, with the
  lexicographic order on byte strings and pairs, and \<open>binary_search_by\<close> as the pinned toolchain
  implements it.  The law: over a slice sorted by a key, the search finds a matching element exactly
  when there is one, and then the last one.
\<close>

section \<open>Comparison and binary search\<close>

datatype ordering = Less | Equal | Greater

definition cmp :: "'a::linorder \<Rightarrow> 'a \<Rightarrow> ordering" where
  "cmp a b = (if a < b then Less else if a = b then Equal else Greater)"

function search_loop :: "('a \<Rightarrow> ordering) \<Rightarrow> 'a list \<Rightarrow> nat \<Rightarrow> nat \<Rightarrow> nat" where
  "search_loop f xs base len =
     (if 1 < len then
        let half = len div 2; mid = base + half in
        search_loop f xs (if f (xs ! mid) = Greater then base else mid) (len - half)
      else base)"
  by pat_completeness auto
termination
  by (relation "measure (\<lambda>(f, xs, base, len). len)") auto

declare search_loop.simps [simp del]

text \<open>\<open>Ok\<close> of the index of a match is on the right, \<open>Err\<close> of the insertion point on the left.\<close>

definition binary_search_by :: "('a \<Rightarrow> ordering) \<Rightarrow> 'a list \<Rightarrow> nat + nat" where
  "binary_search_by f xs =
     (if xs = [] then Inl 0
      else
        let base = search_loop f xs 0 (length xs) in
        case f (xs ! base) of
          Equal \<Rightarrow> Inr base
        | Less \<Rightarrow> Inl (base + 1)
        | Greater \<Rightarrow> Inl base)"

declare search_loop.simps [eval_simps] binary_search_by_def [eval_simps] cmp_def [eval_simps]

lemma cmp_iff [simp]:
  "cmp a b = Less \<longleftrightarrow> a < b"
  "cmp a b = Equal \<longleftrightarrow> a = b"
  "cmp a b = Greater \<longleftrightarrow> b < a"
  by (auto simp: cmp_def)

section \<open>The search is right on a sorted slice\<close>

lemma sorted_key_mono:
  "sorted (map key xs) \<Longrightarrow> i \<le> j \<Longrightarrow> j < length xs \<Longrightarrow> key (xs ! i) \<le> key (xs ! j)"
  using sorted_nth_mono [of "map key xs" i j] by simp

lemma search_loop_inv:
  assumes "sorted (map key xs)" and "0 < len" and "base + len \<le> length xs"
    and "base = 0 \<or> key (xs ! base) \<le> t"
    and "\<forall>j. base + len \<le> j \<and> j < length xs \<longrightarrow> t < key (xs ! j)"
  shows "let b = search_loop (\<lambda>x. cmp (key x) t) xs base len in
    b < length xs \<and> (b = 0 \<or> key (xs ! b) \<le> t) \<and> (\<forall>j. b < j \<and> j < length xs \<longrightarrow> t < key (xs ! j))"
  using assms
proof (induction "\<lambda>x. cmp (key x) t" xs base len rule: search_loop.induct)
  case (1 xs base len)
  show ?case
  proof (cases "1 < len")
    case False
    with "1.prems" have "len = 1" by simp
    with "1.prems" show ?thesis
      by (simp add: search_loop.simps [of _ xs base] Suc_le_eq)
  next
    case True
    define mid where "mid = base + len div 2"
    let ?base = "if cmp (key (xs ! mid)) t = Greater then base else mid"
    have mid: "mid < length xs" "base \<le> mid" "mid \<le> base + (len - len div 2)"
      using True "1.prems"(3) by (auto simp: mid_def)
    have upper: "t < key (xs ! j)" if "?base + (len - len div 2) \<le> j" "j < length xs" for j
    proof (cases "t < key (xs ! mid)")
      case True
      with that mid have "key (xs ! mid) \<le> key (xs ! j)"
        by (intro sorted_key_mono [OF "1.prems"(1)]) auto
      with True show ?thesis by simp
    next
      case False
      with that "1.prems"(5) True show ?thesis by (auto simp: mid_def)
    qed
    have "0 < len - len div 2"
      using True by simp
    moreover have "?base + (len - len div 2) \<le> length xs"
    proof -
      have "?base \<le> mid" using mid by simp
      then have "?base + (len - len div 2) \<le> base + len div 2 + (len - len div 2)"
        by (simp add: mid_def)
      also have "\<dots> = base + len" by simp
      finally show ?thesis using "1.prems"(3) by (rule order.trans)
    qed
    moreover have "?base = 0 \<or> key (xs ! ?base) \<le> t"
      using "1.prems"(4) by (simp add: not_less)
    moreover have "\<forall>j. ?base + (len - len div 2) \<le> j \<and> j < length xs \<longrightarrow> t < key (xs ! j)"
      using upper by blast
    ultimately have "let b = search_loop (\<lambda>x. cmp (key x) t) xs ?base (len - len div 2) in
        b < length xs \<and> (b = 0 \<or> key (xs ! b) \<le> t) \<and>
        (\<forall>j. b < j \<and> j < length xs \<longrightarrow> t < key (xs ! j))"
      by (rule "1.hyps" [OF True refl mid_def "1.prems"(1)])
    moreover have "search_loop (\<lambda>x. cmp (key x) t) xs base len =
        search_loop (\<lambda>x. cmp (key x) t) xs ?base (len - len div 2)"
      using True by (simp only: search_loop.simps [of _ xs base len] mid_def Let_def if_True)
    ultimately show ?thesis by (simp only:)
  qed
qed

lemma search_loop_start:
  fixes t :: "'k::linorder"
  assumes "sorted (map key xs)" and "xs \<noteq> []"
  defines "b \<equiv> search_loop (\<lambda>x. cmp (key x) t) xs 0 (length xs)"
  shows "b < length xs" and "b = 0 \<or> key (xs ! b) \<le> t"
    and "\<And>j. b < j \<Longrightarrow> j < length xs \<Longrightarrow> t < key (xs ! j)"
proof -
  have "\<forall>j. 0 + length xs \<le> j \<and> j < length xs \<longrightarrow> t < key (xs ! j)"
    by (metis add_0 not_less)
  from search_loop_inv [OF assms(1) _ _ _ this] assms(2)
  show "b < length xs" and "b = 0 \<or> key (xs ! b) \<le> t"
    and "\<And>j. b < j \<Longrightarrow> j < length xs \<Longrightarrow> t < key (xs ! j)"
    unfolding b_def Let_def by auto
qed

lemma binary_search_Inr:
  assumes "sorted (map key xs)" and "binary_search_by (\<lambda>x. cmp (key x) t) xs = Inr i"
  shows "i < length xs \<and> key (xs ! i) = t \<and> (\<forall>j. i < j \<and> j < length xs \<longrightarrow> t < key (xs ! j))"
proof -
  from assms(2) have "xs \<noteq> []" and i: "i = search_loop (\<lambda>x. cmp (key x) t) xs 0 (length xs)"
    and "key (xs ! i) = t"
    by (auto simp: binary_search_by_def Let_def split: if_splits ordering.splits)
  with search_loop_start [OF assms(1), of t] show ?thesis by (simp add: i)
qed

lemma binary_search_Inl:
  assumes "sorted (map key xs)" and "binary_search_by (\<lambda>x. cmp (key x) t) xs = Inl i"
  shows "t \<notin> key ` set xs"
proof (cases "xs = []")
  case True
  then show ?thesis by simp
next
  case False
  define b where "b = search_loop (\<lambda>x. cmp (key x) t) xs 0 (length xs)"
  have b: "b < length xs" "b = 0 \<or> key (xs ! b) \<le> t"
    and up: "\<And>j. b < j \<Longrightarrow> j < length xs \<Longrightarrow> t < key (xs ! j)"
    unfolding b_def using search_loop_start [OF assms(1) False, of t] by auto
  have ne: "key (xs ! b) \<noteq> t"
    using assms(2) False by (auto simp: binary_search_by_def Let_def b_def split: ordering.splits)
  have "key (xs ! j) \<noteq> t" if "j < length xs" for j
  proof (cases "b < j")
    case True
    with up that show ?thesis by force
  next
    case False
    then have "key (xs ! j) \<le> key (xs ! b)"
      using b by (intro sorted_key_mono [OF assms(1)]) auto
    with b ne False show ?thesis by (cases "b = 0") auto
  qed
  then show ?thesis by (fastforce simp: in_set_conv_nth)
qed

text \<open>The search, as a lookup.\<close>

lemma binary_search_ok:
  assumes "sorted (map key xs)"
  shows "(\<exists>i. ok (binary_search_by (\<lambda>x. cmp (key x) t) xs) = Some i) \<longleftrightarrow> t \<in> key ` set xs"
proof (cases "binary_search_by (\<lambda>x. cmp (key x) t) xs")
  case (Inl i)
  with binary_search_Inl [OF assms Inl] show ?thesis by simp
next
  case (Inr i)
  with binary_search_Inr [OF assms Inr] show ?thesis by force
qed

section \<open>Tables\<close>

text \<open>
  What a table searched by its first column relies on: the column ascends strictly.  Then the search
  is the lookup in the table read as a map.
\<close>

locale ascending_table =
  fixes rows :: "('k::linorder \<times> 'v) list"
  assumes ascending: "sorted_wrt (<) (map fst rows)"
begin

lemma sorted_column: "sorted (map fst rows)"
  using ascending by (simp add: strict_sorted_iff)

lemma distinct_column: "distinct (map fst rows)"
  using ascending by (simp add: strict_sorted_iff)

lemma search_is_lookup:
  "map_option (\<lambda>i. snd (rows ! i)) (ok (binary_search_by (\<lambda>r. cmp (fst r) t) rows)) = map_of rows t"
proof (cases "binary_search_by (\<lambda>r. cmp (fst r) t) rows")
  case (Inl i)
  with binary_search_Inl [OF sorted_column Inl] show ?thesis
    by (simp add: map_of_eq_None_iff [THEN iffD2])
next
  case (Inr i)
  from binary_search_Inr [OF sorted_column Inr] have "i < length rows" and "fst (rows ! i) = t"
    by auto
  then have "(t, snd (rows ! i)) \<in> set rows"
    by (metis nth_mem prod.collapse)
  with Inr distinct_column show ?thesis by simp
qed

end

end
