(* ===== verification/Manifest_Format.thy ===== *)
theory Manifest_Format
  imports Format_Base Rust_Slice
begin

text \<open>
  The binary manifest of \<open>src/format/manifest.rs\<close>: the directory tree of one depot version.  The
  parser with its range checks, the table of children sorted by parent and name, the iteration over
  a directory's children, the lookup of a child by name and the path of a node.  The laws: what the
  parser accepts is well formed, a lookup finds exactly the children with that name, a listing stays
  inside the node table and is bounded by the child count, and a path leads back to its node.
\<close>

section \<open>Definitions\<close>

definition HEADER_SIZE :: nat where "HEADER_SIZE = 0x38"
definition NODE_SIZE :: nat where "NODE_SIZE = 0x1c"
definition NO_NODE :: u32 where "NO_NODE = u32_max"
definition NO_FILE :: u32 where "NO_FILE = u32_max"

record node =
  name_offset :: u32
  count_or_size :: u32
  node_file_id :: u32
  node_flags :: u32
  parent :: u32
  next_sibling :: u32
  first_child :: u32

definition is_dir :: "node \<Rightarrow> bool" where
  "is_dir n \<longleftrightarrow> node_file_id n = NO_FILE"

record manifest =
  format_version :: u32
  app_id :: u32
  version_id :: u32
  depot_info :: u32
  fingerprint :: u32
  nodes :: "node list"
  string_table :: bytes
  name_len :: "u32 list"
  by_name :: "u32 list"

definition node_at :: "manifest \<Rightarrow> u32 \<Rightarrow> node option" where
  "node_at m idx = nth_opt (nodes m) (unat idx)"

definition node_name :: "manifest \<Rightarrow> u32 \<Rightarrow> bytes" where
  "node_name m idx =
     (case node_at m idx of
        None \<Rightarrow> []
      | Some n \<Rightarrow>
          let start = unat (name_offset n);
              len = (case nth_opt (name_len m) (unat idx) of None \<Rightarrow> 0 | Some l \<Rightarrow> unat l)
          in case slice_get (string_table m) start (start + len) of None \<Rightarrow> [] | Some s \<Rightarrow> s)"

definition root :: "manifest \<Rightarrow> u32" where
  "root m =
     (case List.find (\<lambda>i. parent (nodes m ! i) = NO_NODE) [0..<length (nodes m)] of
        None \<Rightarrow> 0
      | Some i \<Rightarrow> of_nat i)"

definition node_sort_key :: "manifest \<Rightarrow> u32 \<Rightarrow> u32 \<times> bytes" where
  "node_sort_key m idx =
     ((case node_at m idx of None \<Rightarrow> NO_NODE | Some n \<Rightarrow> parent n), node_name m idx)"

text \<open>
  The checksum covers the buffer with the fingerprint and checksum fields (\<open>0x30..0x38\<close>) as zeros.
\<close>

definition manifest_checksum :: "codecs \<Rightarrow> bytes \<Rightarrow> u32" where
  "manifest_checksum cx data =
     adler32_seed0 cx (take 0x30 data @ replicate 8 0 @ drop 0x38 data)"

definition read_node :: "bytes \<Rightarrow> nat \<Rightarrow> format_error + node" where
  "read_node data i =
     (let base = HEADER_SIZE + i * NODE_SIZE in
     rbind (u32_at data base) (\<lambda>f0.
     rbind (u32_at data (base + 4)) (\<lambda>f1.
     rbind (u32_at data (base + 8)) (\<lambda>f2.
     rbind (u32_at data (base + 12)) (\<lambda>f3.
     rbind (u32_at data (base + 16)) (\<lambda>f4.
     rbind (u32_at data (base + 20)) (\<lambda>f5.
     rbind (u32_at data (base + 24)) (\<lambda>f6.
       Inr \<lparr>name_offset = f0, count_or_size = f1, node_file_id = f2, node_flags = f3,
            parent = f4, next_sibling = f5, first_child = f6\<rparr>))))))))"

text \<open>The loop reading the node table: node \<open>i\<close> and the \<open>n\<close> after it.\<close>

fun read_nodes :: "bytes \<Rightarrow> nat \<Rightarrow> nat \<Rightarrow> format_error + node list" where
  "read_nodes data i 0 = Inr []"
| "read_nodes data i (Suc n) =
     rbind (read_node data i) (\<lambda>x. rbind (read_nodes data (Suc i) n) (\<lambda>xs. Inr (x # xs)))"

definition link_ok :: "nat \<Rightarrow> u32 \<Rightarrow> bool" where
  "link_ok cnt link \<longleftrightarrow> link = 0 \<or> link = NO_NODE \<or> unat link < cnt"

text \<open>
  The loop checking every node, which also measures its name: the bytes up to the first NUL, or up to
  the end of the string table.
\<close>

fun check_nodes :: "bytes \<Rightarrow> nat \<Rightarrow> nat \<Rightarrow> node list \<Rightarrow> format_error + u32 list" where
  "check_nodes st cnt i [] = Inr []"
| "check_nodes st cnt i (n # ns) =
     (if length st < unat (name_offset n) then manifest_err (Name_offset i)
      else
        let rest = drop (unat (name_offset n)) st;
            len = length (takeWhile (\<lambda>b. b \<noteq> 0) rest)
        in
        if 4294967296 \<le> len then manifest_err (Name_too_long i)
        else if parent n \<noteq> NO_NODE \<and> cnt \<le> unat (parent n)
        then manifest_err (Parent_out_of_range i)
        else if \<not> link_ok cnt (first_child n)
        then manifest_err (Link_out_of_range i ''first child'' (first_child n))
        else if \<not> link_ok cnt (next_sibling n)
        then manifest_err (Link_out_of_range i ''next sibling'' (next_sibling n))
        else rbind (check_nodes st cnt (Suc i) ns) (\<lambda>ls. Inr (of_nat len # ls)))"

definition child_indices :: "node list \<Rightarrow> u32 list" where
  "child_indices ns = map of_nat (filter (\<lambda>i. parent (ns ! i) \<noteq> NO_NODE) [0..<length ns])"

definition parse_manifest :: "codecs \<Rightarrow> bytes \<Rightarrow> format_error + manifest" where
  "parse_manifest cx data =
     (if length data < HEADER_SIZE then manifest_err Short_manifest
      else
      rbind (u32_at data 0) (\<lambda>fmt.
      if fmt \<noteq> 3 \<and> fmt \<noteq> 4 then manifest_err (Manifest_version fmt)
      else
      rbind (u32_at data 4) (\<lambda>app.
      rbind (u32_at data 8) (\<lambda>ver.
      rbind (u32_at data 12) (\<lambda>num_nodes.
      rbind (u32_at data 24) (\<lambda>binary_size.
      rbind (u32_at data 28) (\<lambda>string_table_size.
      rbind (u32_at data 20) (\<lambda>block_size.
      rbind (u32_at data 44) (\<lambda>info.
      rbind (u32_at data 48) (\<lambda>fp.
      rbind (u32_at data 52) (\<lambda>expected.
      if unat block_size \<noteq> BLOCK_SIZE then manifest_err (Manifest_block_size block_size)
      else if unat binary_size \<noteq> length data
      then manifest_err (Binary_size (unat binary_size) (length data))
      else if manifest_checksum cx data \<noteq> expected
      then manifest_err (Manifest_checksum (manifest_checksum cx data) expected)
      else
      let nodes_end = HEADER_SIZE + unat num_nodes * NODE_SIZE;
          strings_end = nodes_end + unat string_table_size
      in
      if length data < strings_end then manifest_err Tables_exceed
      else
      rbind (read_nodes data 0 (unat num_nodes)) (\<lambda>ns.
      let st = take (strings_end - nodes_end) (drop nodes_end data) in
      rbind (check_nodes st (length ns) 0 ns) (\<lambda>ls.
      let m = \<lparr>format_version = fmt, app_id = app, version_id = ver, depot_info = info,
               fingerprint = fp, nodes = ns, string_table = st, name_len = ls, by_name = []\<rparr>
      in Inr (m\<lparr>by_name := sort_key (node_sort_key m) (child_indices ns)\<rparr>))))))))))))))"

text \<open>
  The iterator over a directory's children: it follows the sibling links, at most as many steps as
  the directory counts children.
\<close>

fun children_from :: "manifest \<Rightarrow> u32 \<Rightarrow> nat \<Rightarrow> u32 list" where
  "children_from m nxt 0 = []"
| "children_from m nxt (Suc remaining) =
     (if nxt = 0 \<or> nxt = NO_NODE then []
      else case node_at m nxt of
        None \<Rightarrow> []
      | Some n \<Rightarrow> nxt # children_from m (next_sibling n) remaining)"

definition children :: "manifest \<Rightarrow> u32 \<Rightarrow> u32 list" where
  "children m dir =
     (case node_at m dir of
        None \<Rightarrow> children_from m 0 0
      | Some n \<Rightarrow> children_from m (first_child n) (if is_dir n then unat (count_or_size n) else 0))"

definition child_by_name :: "manifest \<Rightarrow> u32 \<Rightarrow> bytes \<Rightarrow> u32 option" where
  "child_by_name m dir name =
     (case binary_search_by (\<lambda>idx. cmp (node_sort_key m idx) (dir, name)) (by_name m) of
        Inl _ \<Rightarrow> None
      | Inr i \<Rightarrow> nth_opt (by_name m) i)"

text \<open>
  The path of a node follows the parent links up to the root; nothing bounds the walk, so not
  returning is \<^const>\<open>None\<close>.
\<close>

partial_function (option) path_loop :: "manifest \<Rightarrow> u32 \<Rightarrow> bytes list \<Rightarrow> bytes list option" where
  "path_loop m cur parts =
     (case node_at m cur of
        None \<Rightarrow> Some parts
      | Some n \<Rightarrow>
          if parent n = NO_NODE then Some parts
          else path_loop m (parent n) (parts @ [node_name m cur]))"

fun join_slash :: "bytes list \<Rightarrow> bytes" where
  "join_slash [] = []"
| "join_slash [p] = p"
| "join_slash (p # ps) = p @ 0x2f # join_slash ps"

definition path :: "manifest \<Rightarrow> u32 \<Rightarrow> bytes option" where
  "path m idx = map_option (\<lambda>parts. join_slash (rev parts)) (path_loop m idx [])"

section \<open>Well-formed manifests\<close>

text \<open>
  The type invariant of a parsed manifest: every name is measured and inside the string table, every
  link is a terminator or a node, and the children are sorted by parent and name.
\<close>

definition wf_manifest :: "manifest \<Rightarrow> bool" where
  "wf_manifest m \<longleftrightarrow>
     length (nodes m) < 4294967296 \<and>
     length (name_len m) = length (nodes m) \<and>
     (\<forall>i < length (nodes m).
        unat (name_offset (nodes m ! i)) \<le> length (string_table m) \<and>
        unat (name_len m ! i) =
          length (takeWhile (\<lambda>b. b \<noteq> 0)
            (drop (unat (name_offset (nodes m ! i))) (string_table m)))) \<and>
     (\<forall>n \<in> set (nodes m).
        (parent n \<noteq> NO_NODE \<longrightarrow> unat (parent n) < length (nodes m)) \<and>
        link_ok (length (nodes m)) (first_child n) \<and>
        link_ok (length (nodes m)) (next_sibling n)) \<and>
     by_name m = sort_key (node_sort_key m) (child_indices (nodes m))"

lemma length_read_nodes: "read_nodes data i n = Inr ns \<Longrightarrow> length ns = n"
  by (induction n arbitrary: i ns) (auto simp: rbind_Inr_iff)

lemma check_nodes_facts:
  assumes "check_nodes st cnt i ns = Inr ls"
  shows "length ls = length ns \<and>
    (\<forall>j < length ns. unat (name_offset (ns ! j)) \<le> length st \<and>
       unat (ls ! j) = length (takeWhile (\<lambda>b. b \<noteq> 0) (drop (unat (name_offset (ns ! j))) st))) \<and>
    (\<forall>n \<in> set ns. (parent n \<noteq> NO_NODE \<longrightarrow> unat (parent n) < cnt) \<and>
       link_ok cnt (first_child n) \<and> link_ok cnt (next_sibling n))"
  using assms
proof (induction ns arbitrary: i ls)
  case Nil
  then show ?case by simp
next
  case (Cons n ns)
  let ?len = "length (takeWhile (\<lambda>b. b \<noteq> 0) (drop (unat (name_offset n)) st))"
  from Cons.prems obtain ls' where rest: "check_nodes st cnt (Suc i) ns = Inr ls'"
    and ls: "ls = of_nat ?len # ls'" and len: "?len < 4294967296"
    and ok: "unat (name_offset n) \<le> length st" "parent n \<noteq> NO_NODE \<longrightarrow> unat (parent n) < cnt"
      "link_ok cnt (first_child n)" "link_ok cnt (next_sibling n)"
    by (auto simp: rbind_Inr_iff Let_def not_less not_le split: if_splits)
  have "unat (of_nat ?len :: u32) = ?len"
    using len by (simp add: unat_of_nat)
  with Cons.IH [OF rest] ok show ?case
    by (auto simp: ls nth_Cons split: nat.split)
qed

lemma node_sort_key_by_name [simp]: "node_sort_key (m\<lparr>by_name := xs\<rparr>) = node_sort_key m"
  by (rule ext) (simp add: node_sort_key_def node_name_def node_at_def Let_def split: option.split)

lemma parse_manifest_wf:
  assumes "parse_manifest cx data = Inr m"
  shows "wf_manifest m"
proof -
  from assms obtain num where
    ns: "read_nodes data 0 (unat (num :: u32)) = Inr (nodes m)"
    and ls: "check_nodes (string_table m) (length (nodes m)) 0 (nodes m) = Inr (name_len m)"
    and order: "by_name m = sort_key (node_sort_key (m\<lparr>by_name := []\<rparr>)) (child_indices (nodes m))"
    by (auto simp: parse_manifest_def rbind_Inr_iff Let_def simp del: node_sort_key_by_name
        split: if_splits)
  have "length (nodes m) < 4294967296"
    using length_read_nodes [OF ns] unat_u32_less [of num] by simp
  with check_nodes_facts [OF ls] order show ?thesis
    by (simp add: wf_manifest_def)
qed

section \<open>Lookup\<close>

lemma child_indices_iff:
  assumes "length ns < 4294967296"
  shows "c \<in> set (child_indices ns) \<longleftrightarrow> unat c < length ns \<and> parent (ns ! unat c) \<noteq> NO_NODE"
proof
  assume "c \<in> set (child_indices ns)"
  then obtain i where i: "i < length ns" "parent (ns ! i) \<noteq> NO_NODE" "c = of_nat i"
    by (auto simp: child_indices_def)
  then have "unat c = i"
    using assms by (simp add: unat_of_nat)
  with i show "unat c < length ns \<and> parent (ns ! unat c) \<noteq> NO_NODE" by simp
next
  assume "unat c < length ns \<and> parent (ns ! unat c) \<noteq> NO_NODE"
  then have "of_nat (unat c) \<in> set (child_indices ns)"
    unfolding child_indices_def set_map by (intro imageI) simp
  then show "c \<in> set (child_indices ns)" by simp
qed

lemma by_name_facts:
  assumes "wf_manifest m"
  shows "sorted (map (node_sort_key m) (by_name m))"
    and "c \<in> set (by_name m) \<longleftrightarrow> unat c < length (nodes m) \<and> parent (nodes m ! unat c) \<noteq> NO_NODE"
proof -
  have b: "by_name m = sort_key (node_sort_key m) (child_indices (nodes m))"
    and len: "length (nodes m) < 4294967296"
    using assms by (simp_all add: wf_manifest_def)
  show "sorted (map (node_sort_key m) (by_name m))"
    by (simp add: b)
  show "c \<in> set (by_name m) \<longleftrightarrow>
      unat c < length (nodes m) \<and> parent (nodes m ! unat c) \<noteq> NO_NODE"
    by (simp add: b child_indices_iff [OF len])
qed

text \<open>\<open>is_child m dir name c\<close>: node \<open>c\<close> is a child of \<open>dir\<close> called \<open>name\<close>.\<close>

definition is_child :: "manifest \<Rightarrow> u32 \<Rightarrow> bytes \<Rightarrow> u32 \<Rightarrow> bool" where
  "is_child m dir name c \<longleftrightarrow>
     (\<exists>n. node_at m c = Some n \<and> parent n = dir \<and> dir \<noteq> NO_NODE \<and> node_name m c = name)"

lemma is_child_key:
  assumes "wf_manifest m"
  shows "is_child m dir name c \<longleftrightarrow> c \<in> set (by_name m) \<and> node_sort_key m c = (dir, name)"
  by (auto simp: is_child_def node_sort_key_def node_at_def nth_opt_def by_name_facts [OF assms])

lemma child_by_name_Some:
  assumes "wf_manifest m" and "child_by_name m dir name = Some c"
  shows "is_child m dir name c"
proof -
  from assms(2) obtain i where
    i: "binary_search_by (\<lambda>idx. cmp (node_sort_key m idx) (dir, name)) (by_name m) = Inr i"
    and c: "nth_opt (by_name m) i = Some c"
    by (auto simp: child_by_name_def split: sum.splits)
  from binary_search_Inr [OF by_name_facts(1) [OF assms(1)] i] c show ?thesis
    by (auto simp: is_child_key [OF assms(1)] result_simps)
qed

lemma child_by_name_None:
  assumes "wf_manifest m" and "child_by_name m dir name = None"
  shows "\<not> is_child m dir name c"
proof -
  let ?s = "binary_search_by (\<lambda>idx. cmp (node_sort_key m idx) (dir, name)) (by_name m)"
  obtain i where "?s = Inl i"
  proof (cases ?s)
    case (Inr i)
    with binary_search_Inr [OF by_name_facts(1) [OF assms(1)] Inr] assms(2) show ?thesis
      by (simp add: child_by_name_def nth_opt_def)
  qed
  from binary_search_Inl [OF by_name_facts(1) [OF assms(1)] this] show ?thesis
    by (force simp: is_child_key [OF assms(1)])
qed

text \<open>Names are unique when no two children of a directory share one.\<close>

definition unique_names :: "manifest \<Rightarrow> bool" where
  "unique_names m \<longleftrightarrow>
     (\<forall>dir name c c'. is_child m dir name c \<longrightarrow> is_child m dir name c' \<longrightarrow> c = c')"

lemma child_by_name_iff:
  assumes "wf_manifest m" and "unique_names m"
  shows "child_by_name m dir name = Some c \<longleftrightarrow> is_child m dir name c"
  using assms child_by_name_Some [OF assms(1)] child_by_name_None [OF assms(1)]
  unfolding unique_names_def by (metis option.exhaust)

section \<open>Children\<close>

lemma children_from_bounds:
  "length (children_from m nxt r) \<le> r"
  "c \<in> set (children_from m nxt r) \<Longrightarrow> node_at m c \<noteq> None \<and> c \<noteq> 0 \<and> c \<noteq> NO_NODE"
  by (induction m nxt r rule: children_from.induct) (auto split: option.splits if_splits)

text \<open>The chain of siblings from a link to its terminator.\<close>

fun sibling_chain :: "manifest \<Rightarrow> u32 \<Rightarrow> u32 list \<Rightarrow> bool" where
  "sibling_chain m nxt [] \<longleftrightarrow> nxt = 0 \<or> nxt = NO_NODE"
| "sibling_chain m nxt (c # cs) \<longleftrightarrow>
     nxt = c \<and> c \<noteq> 0 \<and> c \<noteq> NO_NODE \<and>
     (\<exists>n. node_at m c = Some n \<and> sibling_chain m (next_sibling n) cs)"

lemma children_from_chain:
  "sibling_chain m nxt cs \<Longrightarrow> length cs \<le> r \<Longrightarrow> children_from m nxt r = cs"
proof (induction cs arbitrary: nxt r)
  case Nil
  then show ?case by (cases r) auto
next
  case (Cons c cs)
  then obtain r' n where "r = Suc r'" "node_at m c = Some n" "sibling_chain m (next_sibling n) cs"
    by (cases r) auto
  with Cons show ?case by auto
qed

section \<open>Paths\<close>

text \<open>
  The walk up the parent links as a relation: \<open>climb m c ps\<close> when it ends after passing the names
  \<open>ps\<close>.
\<close>

inductive climb :: "manifest \<Rightarrow> u32 \<Rightarrow> bytes list \<Rightarrow> bool" where
  stop: "node_at m c = None \<or> (\<exists>n. node_at m c = Some n \<and> parent n = NO_NODE) \<Longrightarrow> climb m c []"
| up: "node_at m c = Some n \<Longrightarrow> parent n \<noteq> NO_NODE \<Longrightarrow> climb m (parent n) ps \<Longrightarrow>
    climb m c (node_name m c # ps)"

lemma climb_path_loop: "climb m c ps \<Longrightarrow> path_loop m c parts = Some (parts @ ps)"
  by (induction arbitrary: parts rule: climb.induct) (auto simp: path_loop.simps)

lemma path_loop_climb:
  assumes ret: "path_loop m c parts = Some r"
  shows "\<exists>ps. r = parts @ ps \<and> climb m c ps"
proof (rule path_loop.raw_induct
    [where P = "\<lambda>m c parts r. \<exists>ps. r = parts @ ps \<and> climb m c ps", OF _ ret])
  fix f m c parts r
  assume IH: "\<And>m c parts r. f m c parts = Some r \<Longrightarrow> \<exists>ps. r = parts @ ps \<and> climb m c ps"
    and eq: "(case node_at m c of None \<Rightarrow> Some parts
      | Some n \<Rightarrow> if parent n = NO_NODE then Some parts
          else f m (parent n) (parts @ [node_name m c])) = Some r"
  show "\<exists>ps. r = parts @ ps \<and> climb m c ps"
  proof (cases "node_at m c = None \<or> (\<exists>n. node_at m c = Some n \<and> parent n = NO_NODE)")
    case True
    with eq have "r = parts @ []" by auto
    with True show ?thesis by (blast intro: climb.stop)
  next
    case False
    then obtain n where n: "node_at m c = Some n" "parent n \<noteq> NO_NODE" by auto
    with eq have "f m (parent n) (parts @ [node_name m c]) = Some r" by simp
    from IH [OF this] obtain ps where "r = parts @ node_name m c # ps" "climb m (parent n) ps"
      by auto
    with n show ?thesis by (blast intro: climb.up)
  qed
qed

text \<open>Following names down from a directory.\<close>

fun walk :: "manifest \<Rightarrow> u32 \<Rightarrow> bytes list \<Rightarrow> u32 option" where
  "walk m d [] = Some d"
| "walk m d (p # ps) = (case child_by_name m d p of None \<Rightarrow> None | Some c \<Rightarrow> walk m c ps)"

lemma walk_snoc:
  "walk m d (ps @ [p]) = (case walk m d ps of None \<Rightarrow> None | Some c \<Rightarrow> child_by_name m c p)"
  by (induction ps arbitrary: d) (auto split: option.split)

definition single_root :: "manifest \<Rightarrow> bool" where
  "single_root m \<longleftrightarrow> (\<forall>c n. node_at m c = Some n \<longrightarrow> parent n = NO_NODE \<longrightarrow> c = root m)"

definition parents_decrease :: "manifest \<Rightarrow> (u32 \<Rightarrow> nat) \<Rightarrow> bool" where
  "parents_decrease m rank \<longleftrightarrow>
     (\<forall>c n. node_at m c = Some n \<longrightarrow> parent n \<noteq> NO_NODE \<longrightarrow> rank (parent n) < rank c)"

lemma climb_walk:
  assumes "climb m c ps" and "wf_manifest m" and "unique_names m" and "single_root m"
    and "node_at m c \<noteq> None"
  shows "walk m (root m) (rev ps) = Some c"
  using assms
proof (induction rule: climb.induct)
  case (stop m c)
  then have "c = root m" by (auto simp: single_root_def)
  then show ?case by simp
next
  case (up m c n ps)
  have "n \<in> set (nodes m)"
    using up.hyps(1) by (auto simp: node_at_def result_simps)
  then have "node_at m (parent n) \<noteq> None"
    using up.prems(1) up.hyps(2) by (auto simp: wf_manifest_def node_at_def nth_opt_def)
  then have "walk m (root m) (rev ps) = Some (parent n)"
    using up by blast
  moreover have "child_by_name m (parent n) (node_name m c) = Some c"
    using up by (auto simp: child_by_name_iff is_child_def)
  ultimately show ?case by (simp add: walk_snoc)
qed

lemma climb_total:
  assumes "parents_decrease m rank"
  shows "\<exists>ps. climb m c ps"
proof (induction "rank c" arbitrary: c rule: less_induct)
  case less
  show ?case
  proof (cases "node_at m c = None \<or> (\<exists>n. node_at m c = Some n \<and> parent n = NO_NODE)")
    case True
    then show ?thesis by (blast intro: climb.stop)
  next
    case False
    then obtain n where n: "node_at m c = Some n" "parent n \<noteq> NO_NODE" by auto
    with assms have "rank (parent n) < rank c" by (auto simp: parents_decrease_def)
    from less [OF this] n show ?thesis by (blast intro: climb.up)
  qed
qed

section \<open>The format, written out\<close>

text \<open>
  A manifest as the parser's documentation lays it out: header, node table, string table, and a
  tail (hash buckets and lists) the parser ignores.  The checksum word is computed over the buffer
  with the fingerprint and checksum words zeroed, so it does not depend on itself.
\<close>

definition node_words :: "node \<Rightarrow> u32 list" where
  "node_words n =
     [name_offset n, count_or_size n, node_file_id n, node_flags n, parent n, next_sibling n,
      first_child n]"

definition tables_bytes :: "node list \<Rightarrow> bytes \<Rightarrow> bytes \<Rightarrow> bytes" where
  "tables_bytes ns st tail = concat (map u32_le (concat (map node_words ns))) @ st @ tail"

definition head_words :: "u32 list \<Rightarrow> node list \<Rightarrow> bytes \<Rightarrow> bytes \<Rightarrow> u32 list" where
  "head_words h ns st tail =
     [h ! 0, h ! 1, h ! 2, of_nat (length ns), h ! 4, of_nat BLOCK_SIZE,
      of_nat (56 + length ns * 28 + length st + length tail), of_nat (length st),
      h ! 8, h ! 9, h ! 10, h ! 11]"

definition manifest_bytes ::
  "codecs \<Rightarrow> u32 list \<Rightarrow> node list \<Rightarrow> bytes \<Rightarrow> bytes \<Rightarrow> bytes" where
  "manifest_bytes cx h ns st tail =
     (let w = head_words h ns st tail;
          ck = adler32_seed0 cx (concat (map u32_le w) @ replicate 8 0 @ tables_bytes ns st tail)
      in concat (map u32_le (w @ [h ! 12, ck])) @ tables_bytes ns st tail)"

lemma length_node_words: "length (concat (map node_words ns)) = 7 * length ns"
  by (induction ns) (auto simp: node_words_def)

lemma node_words_nth:
  "i < length ns \<Longrightarrow> j < 7 \<Longrightarrow> concat (map node_words ns) ! (7 * i + j) = node_words (ns ! i) ! j"
proof (induction ns arbitrary: i)
  case Nil
  then show ?case by simp
next
  case (Cons n ns)
  have len: "length (node_words n) = 7" by (simp add: node_words_def)
  show ?case
  proof (cases i)
    case 0
    with Cons.prems len show ?thesis by (simp add: nth_append)
  next
    case (Suc k)
    with Cons.prems len Cons.IH [of k] show ?thesis by (simp add: nth_append)
  qed
qed

lemma read_node_words:
  assumes "length hw = 14" and "i < length ns"
  shows "read_node (concat (map u32_le (hw @ concat (map node_words ns))) @ rest) i = Inr (ns ! i)"
proof -
  let ?ws = "hw @ concat (map node_words ns)"
  let ?d = "concat (map u32_le ?ws) @ rest"
  have at: "u32_at ?d (56 + i * 28 + 4 * j) = Inr (node_words (ns ! i) ! j)" if "j < 7" for j
  proof (rule u32_at_wordsI [where i = "14 + (7 * i + j)"])
    show "14 + (7 * i + j) < length ?ws"
      using assms that by (simp add: length_node_words)
    show "node_words (ns ! i) ! j = ?ws ! (14 + (7 * i + j))"
      using assms that by (simp add: nth_append node_words_nth)
  qed simp_all
  note at [of 0, simplified] at [of 1, simplified] at [of 2, simplified] at [of 3, simplified]
    at [of 4, simplified] at [of 5, simplified] at [of 6, simplified]
  then show ?thesis
    by (simp add: read_node_def HEADER_SIZE_def NODE_SIZE_def node_words_def)
qed

lemma read_nodes_words:
  assumes "length hw = 14"
  shows "i + n \<le> length ns \<Longrightarrow>
    read_nodes (concat (map u32_le (hw @ concat (map node_words ns))) @ rest) i n =
      Inr (take n (drop i ns))"
proof (induction n arbitrary: i)
  case 0
  then show ?case by simp
next
  case (Suc n)
  from Suc.prems have "i < length ns" by simp
  then have "take (Suc n) (drop i ns) = ns ! i # take n (drop (Suc i) ns)"
    by (simp flip: Cons_nth_drop_Suc)
  with Suc read_node_words [OF assms] show ?case by simp
qed

text \<open>The manifest a written buffer stands for.\<close>

definition written_manifest :: "u32 list \<Rightarrow> node list \<Rightarrow> bytes \<Rightarrow> u32 list \<Rightarrow> manifest" where
  "written_manifest h ns st ls =
     (let m = \<lparr>format_version = h ! 0, app_id = h ! 1, version_id = h ! 2, depot_info = h ! 11,
               fingerprint = h ! 12, nodes = ns, string_table = st, name_len = ls, by_name = []\<rparr>
      in m\<lparr>by_name := sort_key (node_sort_key m) (child_indices ns)\<rparr>)"

lemma parse_written:
  assumes fmt: "h ! 0 = 3 \<or> h ! 0 = 4"
    and len: "length (manifest_bytes cx h ns st tail) < 4294967296"
    and ls: "check_nodes st (length ns) 0 ns = Inr ls"
  shows "parse_manifest cx (manifest_bytes cx h ns st tail) = Inr (written_manifest h ns st ls)"
proof -
  let ?d = "manifest_bytes cx h ns st tail" and ?w = "head_words h ns st tail"
  define ck where
    "ck = adler32_seed0 cx (concat (map u32_le ?w) @ replicate 8 0 @ tables_bytes ns st tail)"
  let ?hw = "?w @ [h ! 12, ck]"
  have d: "?d = concat (map u32_le (?hw @ concat (map node_words ns))) @ st @ tail"
    by (simp add: manifest_bytes_def Let_def ck_def tables_bytes_def)
  have lw: "length ?w = 12" by (simp add: head_words_def)
  have ld: "length ?d = 56 + length ns * 28 + length st + length tail"
    by (simp only: d length_append length_words lw length_node_words) simp
  have word: "u32_at ?d (4 * i) = Inr (?hw ! i)" if "i < 14" for i
    using that lw
    by (intro u32_at_wordsI [where ws = ?hw and i = i
          and rest = "concat (map u32_le (concat (map node_words ns))) @ st @ tail"])
      (simp_all add: d)
  note hdr = word [of 0, simplified] word [of 1, simplified] word [of 2, simplified]
    word [of 3, simplified] word [of 5, simplified] word [of 6, simplified]
    word [of 7, simplified] word [of 11, simplified] word [of 12, simplified]
    word [of 13, simplified]
  have unat: "unat (of_nat (length ns) :: u32) = length ns"
    "unat (of_nat (length st) :: u32) = length st"
    "unat (of_nat (56 + length ns * 28 + length st + length tail) :: u32) = length ?d"
    "unat (of_nat BLOCK_SIZE :: u32) = BLOCK_SIZE"
    using len unfolding ld
    by (simp_all add: unat_of_nat BLOCK_SIZE_def del: of_nat_add of_nat_mult of_nat_numeral)
  have split: "?d = concat (map u32_le ?w) @ u32_le (h ! 12) @ u32_le ck @ tables_bytes ns st tail"
    by (simp add: d tables_bytes_def)
  have "take 0x30 ?d = concat (map u32_le ?w)" and "drop 0x38 ?d = tables_bytes ns st tail"
    unfolding split by (simp_all add: lw)
  then have sum: "manifest_checksum cx ?d = ck"
    by (simp add: manifest_checksum_def ck_def)
  have ns: "read_nodes ?d 0 (length ns) = Inr ns"
    using read_nodes_words [of ?hw 0 "length ns" ns "st @ tail"] lw by (simp add: d)
  have st: "take (length st) (drop (56 + length ns * 28) ?d) = st"
    by (simp add: d lw length_node_words)
  show ?thesis
    unfolding parse_manifest_def written_manifest_def
    using fmt lw by (simp add: hdr nth_append head_words_def unat sum ns st ls ld HEADER_SIZE_def
        NODE_SIZE_def Let_def del: of_nat_add of_nat_mult of_nat_numeral)
qed

section \<open>Properties\<close>


text \<open>The sample of the unit tests: a root with a directory \<open>a\<close> holding \<open>x\<close>, and a file \<open>y\<close>.\<close>

definition sample_head :: "u32 list" where
  "sample_head = [4, 99, 0, 0, 2, 0, 0, 0, 0, 0, 0, 0, 0xabcd]"

definition sample_nodes :: "node list" where
  "sample_nodes =
     [\<lparr>name_offset = 0, count_or_size = 2, node_file_id = NO_FILE, node_flags = 0,
       parent = NO_NODE, next_sibling = 0, first_child = 1\<rparr>,
      \<lparr>name_offset = 1, count_or_size = 1, node_file_id = NO_FILE, node_flags = 0,
       parent = 0, next_sibling = 3, first_child = 2\<rparr>,
      \<lparr>name_offset = 3, count_or_size = 10, node_file_id = 7, node_flags = 0x4000,
       parent = 1, next_sibling = 0, first_child = 0\<rparr>,
      \<lparr>name_offset = 5, count_or_size = 20, node_file_id = 8, node_flags = 0x4000,
       parent = 0, next_sibling = 0, first_child = 0\<rparr>]"

definition sample_strings :: bytes where
  "sample_strings = [0, 0x61, 0, 0x78, 0, 0x79, 0]"

lemma sample_checks: "check_nodes sample_strings (length sample_nodes) 0 sample_nodes = Inr [0, 1, 1, 1]"
  by (simp add: sample_nodes_def sample_strings_def NO_NODE_def link_ok_def Let_def)

lemma length_manifest_bytes:
  "length (manifest_bytes cx h ns st tail) = 56 + length ns * 28 + length st + length tail"
  by (simp add: manifest_bytes_def Let_def head_words_def tables_bytes_def length_node_words)

definition sample_manifest :: manifest where
  "sample_manifest = written_manifest sample_head sample_nodes sample_strings [0, 1, 1, 1]"

definition null_codecs :: codecs where
  "null_codecs = \<lparr>zlib = (\<lambda>d. (d, None)), aes_cfb_dec = (\<lambda>k d. d), crc32 = (\<lambda>d. 0),
     adler32_seed0 = (\<lambda>d. of_nat (length d)), sha256 = (\<lambda>d. d)\<rparr>"


lemma sample_by_name: "by_name sample_manifest = [1, 3, 2]"
  by (simp add: sample_manifest_def written_manifest_def Let_def sample_nodes_def sample_strings_def
      child_indices_def node_sort_key_def node_name_def node_at_def NO_NODE_def eval_simps
      upt_rec_numeral)

lemma sample_parses:
  "parse_manifest null_codecs
     (manifest_bytes null_codecs sample_head sample_nodes sample_strings [1, 2, 3])
     = Inr sample_manifest"
  unfolding sample_manifest_def
  by (rule parse_written)
    (simp_all add: sample_head_def length_manifest_bytes sample_checks,
     simp add: sample_nodes_def sample_strings_def)

lemma sample_nodes_eq: "nodes sample_manifest = sample_nodes"
  and sample_strings_eq: "string_table sample_manifest = sample_strings"
  and sample_lens_eq: "name_len sample_manifest = [0, 1, 1, 1]"
  by (simp_all add: sample_manifest_def written_manifest_def Let_def)

lemmas sample_eval = sample_nodes_eq sample_strings_eq sample_lens_eq sample_by_name
  sample_nodes_def sample_strings_def node_name_def node_at_def NO_NODE_def NO_FILE_def

lemma sample_wf: "wf_manifest sample_manifest"
  by (rule parse_manifest_wf [OF sample_parses])

text \<open>
  The parser's range checks establish the type invariant.  Whatever buffer is accepted, the
  manifest's names lie inside the string table and have the length up to their NUL, every parent is
  \<^const>\<open>NO_NODE\<close> or a node, every child and sibling link is a terminator or a node, and the children
  are sorted by parent and name.
\<close>

theorem parse_manifest_invariant:
  assumes "parse_manifest cx data = Inr m"
  shows "wf_manifest m"
  using assms by (rule parse_manifest_wf)

theorem parse_manifest_invariant_witness:
  "parse_manifest null_codecs
     (manifest_bytes null_codecs sample_head sample_nodes sample_strings [1, 2, 3])
     = Inr sample_manifest \<and> wf_manifest sample_manifest"
  using sample_parses parse_manifest_invariant [OF sample_parses] by simp

text \<open>
  The lookup of a child by name is sound and complete on every accepted manifest.  What it
  returns is a child of that directory with that name, and when it returns nothing no node is.
\<close>

theorem child_by_name_correct:
  assumes "parse_manifest cx data = Inr m"
  shows "(case child_by_name m dir name of
      None \<Rightarrow> \<forall>c. \<not> is_child m dir name c
    | Some c \<Rightarrow> is_child m dir name c)"
  using child_by_name_Some child_by_name_None parse_manifest_wf [OF assms]
  by (auto split: option.split)

theorem child_by_name_correct_witness:
  "child_by_name sample_manifest 1 [0x78] = Some 2 \<and> is_child sample_manifest 1 [0x78] 2"
proof -
  have "child_by_name sample_manifest 1 [0x78] = Some 2"
    by (simp add: child_by_name_def sample_eval binary_search_by_def node_sort_key_def cmp_def
        eval_simps)
  then show ?thesis
    using child_by_name_correct [OF sample_parses, of 1 "[0x78]"] by simp
qed

text \<open>
  Listing a directory is bounded and exact.  However corrupt the sibling links of an accepted
  manifest are, a listing ends after at most the directory's child count, holds real nodes only and
  never the root's index 0; and when the links form a chain no longer than the count, it is that
  chain.
\<close>

theorem children_bounded_exact:
  assumes "node_at m dir = Some n"
  shows "length (children m dir) \<le> unat (count_or_size n) \<and>
    (\<forall>c \<in> set (children m dir). c \<noteq> 0 \<and> node_at m c \<noteq> None) \<and>
    (\<forall>cs. is_dir n \<and> length cs \<le> unat (count_or_size n) \<and> sibling_chain m (first_child n) cs \<longrightarrow>
       children m dir = cs)"
  using assms children_from_bounds [where m = m and nxt = "first_child n"]
    children_from_chain [where m = m and nxt = "first_child n"]
  by (cases "is_dir n") (auto simp: children_def simp del: children_from.simps(2))

theorem children_bounded_exact_witness:
  "node_at sample_manifest 0 = Some (sample_nodes ! 0) \<and>
   sibling_chain sample_manifest 1 [1, 3] \<and>
   children sample_manifest 0 = [1, 3]"
proof -
  have n: "node_at sample_manifest 0 = Some (sample_nodes ! 0)"
    by (simp add: sample_eval eval_simps)
  have c: "sibling_chain sample_manifest 1 [1, 3]"
    by (simp add: sample_eval eval_simps)
  have "is_dir (sample_nodes ! 0)" "unat (count_or_size (sample_nodes ! 0)) = 2"
    "first_child (sample_nodes ! 0) = 1"
    by (simp_all add: sample_eval is_dir_def)
  then show ?thesis
    using children_bounded_exact [OF n] n c by simp
qed


text \<open>
  A path leads back to its node.  When the parent links of an accepted manifest go down in some
  rank, \<^const>\<open>path\<close> returns; and when there is one root and no two children of a directory share a name,
  looking the parts of the path up one after the other, from the root, finds the node again.
\<close>

theorem path_walks_back:
  assumes "parse_manifest cx data = Inr m" and "parents_decrease m rank"
    and "unique_names m" and "single_root m" and "node_at m c \<noteq> None"
  shows "\<exists>parts. path m c = Some (join_slash parts) \<and> walk m (root m) parts = Some c"
proof -
  obtain ps where "climb m c ps"
    using climb_total [OF assms(2)] by blast
  then have "path_loop m c [] = Some ps" and "walk m (root m) (rev ps) = Some c"
    using climb_path_loop [of m c ps "[]"] climb_walk parse_manifest_wf [OF assms(1)] assms(3-5)
    by auto
  then show ?thesis by (auto simp: path_def)
qed

lemma sample_node_cases:
  assumes "node_at sample_manifest c = Some n"
  shows "c \<in> {0, 1, 2, 3}"
proof -
  have "unat c < 4"
    using assms by (simp add: sample_eval nth_opt_def split: if_splits)
  then have "unat c \<in> {0, 1, 2, 3}" by auto
  then have "of_nat (unat c) \<in> (of_nat :: nat \<Rightarrow> u32) ` {0, 1, 2, 3}" by (rule imageI)
  then show ?thesis by simp
qed

lemma sample_unique: "unique_names sample_manifest"
proof -
  have "node_sort_key sample_manifest c \<noteq> node_sort_key sample_manifest c'"
    if "c \<in> {1, 2, 3}" "c' \<in> {1, 2, 3}" "c \<noteq> c'" for c c'
    using that by (auto simp: node_sort_key_def sample_eval eval_simps)
  then show ?thesis
    unfolding unique_names_def is_child_key [OF sample_wf] sample_by_name by force
qed

lemma sample_single_root: "single_root sample_manifest"
proof -
  have "c = root sample_manifest"
    if "node_at sample_manifest c = Some n" "parent n = NO_NODE" for c n
    using sample_node_cases [OF that(1)] that
    by (auto simp: root_def sample_eval eval_simps upt_rec_numeral)
  then show ?thesis by (auto simp: single_root_def)
qed

lemma sample_ranked: "parents_decrease sample_manifest unat"
proof -
  have "unat (parent n) < unat c"
    if "node_at sample_manifest c = Some n" "parent n \<noteq> NO_NODE" for c n
    using sample_node_cases [OF that(1)] that by (auto simp: sample_eval eval_simps)
  then show ?thesis by (auto simp: parents_decrease_def)
qed

theorem path_walks_back_witness:
  "path sample_manifest 2 = Some [0x61, 0x2f, 0x78] \<and>
   (\<exists>parts. path sample_manifest 2 = Some (join_slash parts) \<and>
      walk sample_manifest (root sample_manifest) parts = Some 2)"
proof -
  have "node_at sample_manifest 2 \<noteq> None"
    by (simp add: sample_eval eval_simps)
  moreover have "path sample_manifest 2 = Some [0x61, 0x2f, 0x78]"
    by (simp add: path_def path_loop.simps sample_eval eval_simps)
  ultimately show ?thesis
    using path_walks_back [OF sample_parses sample_ranked sample_unique sample_single_root] by blast
qed

text \<open>A node that is its own parent, which no check of the parser excludes.\<close>

definition looped_nodes :: "node list" where
  "looped_nodes =
     [(sample_nodes ! 0)\<lparr>count_or_size := 0, first_child := 0\<rparr>,
      (sample_nodes ! 3)\<lparr>parent := 1\<rparr>]"

lemma climb_self_parent:
  assumes "climb m c ps" and "node_at m c = Some n" and "parent n = c" and "c \<noteq> NO_NODE"
  shows False
  using assms by (induction rule: climb.induct) auto

text \<open>
  C34: the parent links are checked for range only.  For any codecs there is a buffer the parser
  accepts, with a correct checksum, on which \<^const>\<open>path\<close> never returns for a node of the manifest:
  the node is its own parent, so the walk up does not end.
\<close>

theorem path_diverges_on_parent_cycle:
  "\<exists>data m. parse_manifest cx data = Inr m \<and> node_at m 1 \<noteq> None \<and> path m 1 = None"
proof -
  let ?m = "written_manifest sample_head looped_nodes sample_strings [0, 1]"
  have ls: "check_nodes sample_strings (length looped_nodes) 0 looped_nodes = Inr [0, 1]"
    by (simp add: looped_nodes_def sample_nodes_def sample_strings_def NO_NODE_def link_ok_def Let_def)
  have len: "length (manifest_bytes cx sample_head looped_nodes sample_strings []) < 4294967296"
    by (simp add: length_manifest_bytes looped_nodes_def sample_strings_def)
  have "sample_head ! 0 = 3 \<or> sample_head ! 0 = 4"
    by (simp add: sample_head_def)
  from parse_written [OF this len ls]
  have "parse_manifest cx (manifest_bytes cx sample_head looped_nodes sample_strings []) = Inr ?m" .
  moreover have node: "node_at ?m 1 = Some (looped_nodes ! 1)"
    by (simp add: node_at_def written_manifest_def Let_def looped_nodes_def eval_simps)
  moreover have "parent (looped_nodes ! 1) = 1"
    by (simp add: looped_nodes_def)
  then have "\<not> climb ?m 1 ps" for ps
    using climb_self_parent [OF _ node] by (auto simp: NO_NODE_def)
  then have "path ?m 1 = None"
    using path_loop_climb [of ?m 1 "[]"] by (cases "path_loop ?m 1 []") (auto simp: path_def)
  ultimately show ?thesis by (intro exI [of _ ?m] exI) auto
qed

end
