(* ===== verification/Key_Order.thy ===== *)
theory Key_Order
  imports Format_Base
begin

text \<open>
  Rows of the built-in key table (\<open>src/keys/table.rs\<close>) and the order the table promises: depots
  strictly ascending, so that it can be binary-searched.  \<open>span\<close> states it for a run of rows by its
  first and last depot, so that the runs of the table can be checked one by one and joined.
\<close>

type_synonym key_entry = "u32 \<times> key"

fun ascends :: "u32 \<Rightarrow> key_entry list \<Rightarrow> u32 \<Rightarrow> bool" where
  "ascends d [] b \<longleftrightarrow> d = b"
| "ascends d ((e, k) # r) b \<longleftrightarrow> d < e \<and> ascends e r b"

fun span :: "u32 \<Rightarrow> key_entry list \<Rightarrow> u32 \<Rightarrow> bool" where
  "span a [] b \<longleftrightarrow> False"
| "span a ((d, k) # r) b \<longleftrightarrow> d = a \<and> ascends d r b"

lemmas span_eval = span.simps(2) ascends.simps

lemma ascends_append:
  "ascends d xs b \<Longrightarrow> span c ys e \<Longrightarrow> b < c \<Longrightarrow> ascends d (xs @ ys) e"
proof (induction xs arbitrary: d)
  case Nil
  then show ?case by (cases ys) auto
next
  case (Cons x xs)
  then show ?case by (cases x) auto
qed

lemma span_append: "span a xs b \<Longrightarrow> span c ys e \<Longrightarrow> b < c \<Longrightarrow> span a (xs @ ys) e"
  by (cases xs) (auto intro: ascends_append)

lemma ascends_sorted: "ascends d xs b \<Longrightarrow> sorted_wrt (<) (d # map fst xs)"
proof (induction xs arbitrary: d)
  case Nil
  then show ?case by simp
next
  case (Cons x xs)
  then obtain e k where "x = (e, k)" "d < e" "sorted_wrt (<) (e # map fst xs)"
    by (cases x) auto
  then show ?case by (auto intro: order.strict_trans)
qed

lemma span_sorted: "span a xs b \<Longrightarrow> sorted_wrt (<) (map fst xs)"
  by (cases xs) (fastforce dest!: ascends_sorted)+

end
