(* ===== verification/Key_Table_1.thy ===== *)
theory Key_Table_1
  imports Key_Order
begin

text \<open>
  Rows 1 to 1200 of the built-in key table of \<open>src/keys/table.rs\<close>, in runs of at most 150 rows, and
  that each run is strictly ascending in the depot.
\<close>

definition TABLE_00 :: "key_entry list" where
  "TABLE_00 = [
    (0, [0xa1, 0x0d, 0x0b, 0xcd, 0x94, 0xce, 0x61, 0x05, 0xd0, 0xe2, 0x25, 0x6f, 0xe0, 0x6b, 0x2b, 0x22]),
    (1, [0x60, 0xef, 0x87, 0x0f, 0xb4, 0xb9, 0xa2, 0xeb, 0xb5, 0xe5, 0x11, 0xbc, 0x8c, 0xec, 0x88, 0x58]),
    (3, [0xaa, 0x4c, 0xa0, 0xb6, 0x30, 0x0e, 0x96, 0x77, 0x4b, 0xc3, 0xc2, 0xb5, 0x5c, 0x33, 0x88, 0xc9]),
    (7, [0x63, 0x6d, 0xc4, 0xb3, 0x51, 0x73, 0x2e, 0xdc, 0x60, 0x22, 0x02, 0x1b, 0x89, 0x12, 0x4c, 0xc9]),
    (11, [0x0a, 0xb5, 0x2b, 0xd5, 0xe6, 0x45, 0xdc, 0xe3, 0x86, 0x56, 0xc7, 0xbb, 0xf3, 0x1c, 0xbf, 0xf0]),
    (12, [0xc1, 0xa6, 0xe8, 0x3f, 0x05, 0x81, 0x59, 0xdd, 0xb3, 0x7b, 0xb6, 0xfa, 0x39, 0xcb, 0x24, 0xd1]),
    (13, [0x2e, 0x9b, 0xe0, 0xad, 0x09, 0x84, 0x54, 0x8f, 0x20, 0x1a, 0x58, 0x54, 0xfe, 0xc6, 0x13, 0xf0]),
    (14, [0xe2, 0x18, 0x39, 0xca, 0xe1, 0x61, 0x38, 0x93, 0x60, 0xf3, 0x79, 0x04, 0xf3, 0x1a, 0xee, 0x15]),
    (15, [0x44, 0x38, 0x43, 0x16, 0x12, 0x04, 0x4e, 0x93, 0x0e, 0x41, 0x90, 0x25, 0xad, 0xa3, 0xe2, 0xc8]),
    (16, [0xd3, 0x45, 0xb8, 0x73, 0x8d, 0x6c, 0x43, 0xbe, 0x3e, 0xa4, 0x0d, 0x1c, 0x1b, 0xa5, 0x4e, 0x22]),
    (17, [0xeb, 0xa6, 0x7c, 0xb1, 0x28, 0x88, 0xd5, 0x06, 0x64, 0xa3, 0x29, 0x20, 0xc7, 0x2e, 0xb8, 0x79]),
    (18, [0xc4, 0x54, 0xde, 0xe6, 0x5d, 0x1b, 0xaf, 0x9c, 0x27, 0x13, 0xf2, 0x31, 0x6a, 0x75, 0xa4, 0x35]),
    (19, [0x12, 0x1d, 0x09, 0x09, 0x33, 0xe1, 0x6c, 0x0f, 0x65, 0x27, 0xb9, 0x27, 0x45, 0xc8, 0x09, 0x02]),
    (21, [0xd9, 0x7f, 0x36, 0x3c, 0x95, 0xc9, 0x1d, 0xfd, 0x11, 0xed, 0x94, 0xcb, 0xbc, 0x55, 0xa1, 0x12]),
    (22, [0x78, 0x80, 0x69, 0xab, 0xd3, 0xda, 0xc3, 0xe1, 0x12, 0xdd, 0x67, 0xfc, 0xdd, 0x25, 0x8c, 0x71]),
    (23, [0xe4, 0x9c, 0x89, 0x32, 0x7b, 0x20, 0x17, 0xae, 0xb0, 0x31, 0x19, 0x43, 0x1b, 0x8c, 0x05, 0xc5]),
    (24, [0x9e, 0xca, 0xd1, 0xc4, 0x24, 0x7f, 0x20, 0x91, 0x25, 0xce, 0xe7, 0xe3, 0xf4, 0x14, 0x3a, 0x95]),
    (25, [0xb2, 0x14, 0x78, 0x1a, 0xc4, 0x49, 0xec, 0x11, 0x31, 0x8b, 0x21, 0x69, 0x32, 0xd5, 0x88, 0xd0]),
    (81, [0xdf, 0xd4, 0x63, 0x72, 0xee, 0xc3, 0xac, 0xac, 0xd5, 0x1b, 0x68, 0x54, 0xd6, 0x52, 0x60, 0x47]),
    (82, [0x85, 0xec, 0x2d, 0x0a, 0xa3, 0xc3, 0x0e, 0xec, 0x3c, 0xef, 0x14, 0x66, 0x31, 0xf1, 0x12, 0xa1]),
    (83, [0xf7, 0x0a, 0x3e, 0xba, 0x97, 0xc9, 0xf0, 0xff, 0x1f, 0xbd, 0xcb, 0x4f, 0x20, 0x98, 0x1b, 0x76]),
    (84, [0xf2, 0xf3, 0x44, 0x05, 0x65, 0x7e, 0xc2, 0xad, 0x5a, 0x1f, 0x06, 0x20, 0x61, 0x0e, 0x52, 0xd0]),
    (85, [0xa9, 0x9c, 0x33, 0xbf, 0x52, 0x66, 0xe0, 0xba, 0xc6, 0xd3, 0x61, 0x59, 0xc4, 0xd7, 0x61, 0x0c]),
    (86, [0xb8, 0x36, 0xc0, 0x4e, 0xf4, 0x47, 0x0c, 0x56, 0xf0, 0xbf, 0xce, 0x1a, 0x82, 0x7c, 0x1f, 0xbe]),
    (87, [0x6c, 0x65, 0x54, 0xbd, 0xc8, 0x58, 0xfa, 0x6f, 0x8b, 0x21, 0xe7, 0xf5, 0x7d, 0xdb, 0x46, 0x0f]),
    (88, [0x57, 0xc0, 0xc0, 0xcb, 0x26, 0x78, 0xdc, 0x82, 0x4e, 0x07, 0xe0, 0xc4, 0x55, 0xc7, 0xf7, 0xee]),
    (89, [0x0f, 0x96, 0xed, 0xb1, 0xc8, 0xff, 0x76, 0x9c, 0xab, 0x6e, 0xae, 0x2f, 0x55, 0x64, 0xaf, 0x14]),
    (92, [0x02, 0xe0, 0xcd, 0xac, 0x8d, 0xd7, 0xdc, 0x43, 0x57, 0xa5, 0x60, 0xd6, 0x0c, 0x53, 0x6d, 0xd3]),
    (95, [0xc8, 0x05, 0x14, 0x05, 0xe5, 0xf5, 0xbc, 0x8e, 0x18, 0x67, 0xe7, 0x9d, 0x54, 0x58, 0x04, 0xff]),
    (96, [0x99, 0xf0, 0xdd, 0x1e, 0xa3, 0xaa, 0x6f, 0xb0, 0x96, 0xa7, 0x85, 0xd4, 0xf4, 0xbd, 0x17, 0x4f]),
    (101, [0xb5, 0xda, 0x1c, 0x9f, 0x4b, 0x73, 0x04, 0x7c, 0xa5, 0x9a, 0x87, 0xcd, 0xee, 0x3f, 0xd7, 0x44]),
    (102, [0x10, 0x4c, 0x1a, 0xd6, 0x7c, 0x9b, 0x39, 0x24, 0x30, 0xd8, 0x12, 0x99, 0xfe, 0x93, 0x83, 0x0d]),
    (103, [0x08, 0x24, 0x28, 0x06, 0x19, 0x0c, 0x95, 0x32, 0xb7, 0xd1, 0x84, 0xb5, 0xa7, 0x97, 0x77, 0xa0]),
    (104, [0x3a, 0xd2, 0xe7, 0xc3, 0x10, 0xbc, 0x13, 0x22, 0xbd, 0x6c, 0x3b, 0x1f, 0x8d, 0xb6, 0xff, 0x03]),
    (105, [0xb6, 0x96, 0xcc, 0xed, 0x3f, 0x9e, 0xaa, 0x45, 0xa7, 0x73, 0xbf, 0x88, 0x44, 0x21, 0x4b, 0x42]),
    (106, [0xe7, 0x11, 0x10, 0xea, 0x8b, 0x8b, 0x97, 0x8a, 0x51, 0x6c, 0x1f, 0x08, 0x40, 0x65, 0x29, 0xad]),
    (107, [0x0c, 0xf5, 0x25, 0xff, 0x0f, 0xf4, 0x9f, 0xa1, 0xfa, 0x3f, 0x3a, 0x54, 0x29, 0xd3, 0x7b, 0xb5]),
    (108, [0xc9, 0x04, 0x6a, 0x8b, 0xbe, 0x25, 0x6d, 0xe4, 0x33, 0x6d, 0x8f, 0x0e, 0xb0, 0xe1, 0x5b, 0x78]),
    (109, [0x46, 0xb2, 0xc8, 0x1a, 0x0f, 0xbc, 0xe9, 0x7e, 0x15, 0x9f, 0x2e, 0x2f, 0x25, 0xfc, 0xa0, 0xa6]),
    (110, [0xa7, 0x4a, 0x2e, 0x24, 0x03, 0x21, 0x99, 0x13, 0x08, 0xee, 0xf2, 0xa3, 0xdc, 0x03, 0x15, 0xe0]),
    (111, [0x30, 0x38, 0x04, 0x8e, 0x80, 0x9c, 0xd0, 0xee, 0x0c, 0x8e, 0xbb, 0x43, 0x19, 0xa9, 0x24, 0x99]),
    (200, [0xc5, 0x96, 0xd1, 0xba, 0x1f, 0xea, 0xd9, 0xa4, 0x0d, 0xd0, 0x05, 0x81, 0x18, 0xf5, 0x89, 0x75]),
    (202, [0xb9, 0x2f, 0x4e, 0x82, 0x98, 0xc9, 0xff, 0x99, 0x7d, 0x58, 0xf3, 0xf1, 0xdf, 0xb4, 0x5b, 0x66]),
    (206, [0x33, 0x64, 0x8b, 0x73, 0xe7, 0x32, 0xe0, 0x73, 0x4e, 0x34, 0xfe, 0x3c, 0xda, 0x09, 0xab, 0x74]),
    (207, [0xd1, 0x47, 0xfc, 0x33, 0x3f, 0x1b, 0x2b, 0x18, 0xa8, 0xe0, 0xb9, 0x35, 0x4b, 0x94, 0xaf, 0xf6]),
    (208, [0x9d, 0xc5, 0x7c, 0x80, 0x9a, 0x92, 0x19, 0x6e, 0x26, 0x74, 0xad, 0xa8, 0x7a, 0xea, 0x0f, 0xce]),
    (213, [0x92, 0x9c, 0xe0, 0x78, 0x40, 0xb7, 0xee, 0xb5, 0x85, 0xad, 0x89, 0x77, 0xe1, 0xdd, 0xa6, 0xdf]),
    (216, [0x59, 0x76, 0xb9, 0x7a, 0xd4, 0x1b, 0x95, 0x04, 0x57, 0x45, 0xbf, 0xaf, 0x7f, 0xe5, 0x0c, 0x25]),
    (217, [0xc1, 0xa8, 0x8c, 0x92, 0x32, 0x0d, 0x23, 0x3c, 0x96, 0x58, 0x05, 0xc8, 0x31, 0x83, 0x05, 0x7a]),
    (221, [0x18, 0x7d, 0x51, 0x6d, 0x65, 0xc6, 0x17, 0xeb, 0x6f, 0xe9, 0x0f, 0xb2, 0x02, 0x11, 0xde, 0xc6]),
    (223, [0xab, 0x07, 0x75, 0xd3, 0x36, 0x5a, 0xeb, 0x93, 0xcf, 0x71, 0x50, 0x20, 0x40, 0xde, 0x8b, 0x45]),
    (224, [0x5f, 0x6c, 0xf8, 0xa4, 0x45, 0x2d, 0x5d, 0x09, 0x3d, 0x11, 0xd6, 0xbb, 0x53, 0xca, 0x8e, 0xa7]),
    (225, [0x50, 0x7f, 0xc4, 0xbc, 0x36, 0xf1, 0x92, 0x95, 0x45, 0x4d, 0xb9, 0xc8, 0x8c, 0x69, 0xb6, 0x0c]),
    (226, [0xc7, 0x02, 0x40, 0x80, 0xcf, 0x2d, 0x1f, 0x24, 0x49, 0xe0, 0x15, 0x7f, 0xc0, 0x8f, 0x84, 0x9b]),
    (227, [0x56, 0xbf, 0x21, 0xcf, 0x42, 0xee, 0x89, 0xff, 0xde, 0x3c, 0xaa, 0xb9, 0xc5, 0xe8, 0x81, 0x12]),
    (228, [0xd7, 0x91, 0xf8, 0x99, 0xc1, 0x81, 0x3a, 0x7d, 0x4b, 0x96, 0xab, 0x75, 0x90, 0xe9, 0xaf, 0x75]),
    (229, [0xda, 0xa3, 0xda, 0xff, 0xbb, 0xd5, 0xab, 0x91, 0xb3, 0xbf, 0xfb, 0x04, 0xe1, 0x2d, 0xb1, 0x09]),
    (230, [0x4b, 0xda, 0x3f, 0xdc, 0xe8, 0x59, 0x63, 0x26, 0xd5, 0x6a, 0xd8, 0x10, 0x59, 0x8d, 0x62, 0x49]),
    (231, [0xbe, 0x5b, 0xe8, 0xb8, 0x91, 0x1f, 0x8c, 0xff, 0x65, 0x07, 0x65, 0x10, 0x2b, 0xb9, 0x6d, 0x59]),
    (232, [0xbe, 0x18, 0x7d, 0xce, 0x3a, 0xcf, 0x68, 0xc0, 0xfa, 0xa3, 0xb8, 0xb1, 0x39, 0xdf, 0x1e, 0xc1]),
    (233, [0xe5, 0x3d, 0x7f, 0x9c, 0x9b, 0x7d, 0x52, 0x1e, 0x7a, 0xcb, 0x13, 0xeb, 0x3f, 0x6b, 0x94, 0x65]),
    (236, [0xef, 0xb7, 0x64, 0x53, 0x7f, 0x4c, 0xfb, 0x90, 0x86, 0x63, 0xc4, 0xdc, 0x98, 0x22, 0x53, 0x76]),
    (241, [0x36, 0x7d, 0x02, 0x02, 0x15, 0x52, 0xdd, 0x3e, 0x2b, 0x3f, 0xab, 0x24, 0x17, 0xa5, 0x1a, 0xbc]),
    (242, [0xd1, 0xc6, 0xea, 0x82, 0x41, 0x6e, 0xf4, 0x05, 0x3e, 0x0b, 0x7e, 0x4c, 0x24, 0x2d, 0x77, 0x0f]),
    (243, [0xe6, 0x51, 0x72, 0x95, 0xee, 0x64, 0x3f, 0xd6, 0x79, 0xaf, 0x12, 0xc1, 0x37, 0x40, 0xe2, 0x52]),
    (244, [0x14, 0x10, 0x74, 0x46, 0x2c, 0x08, 0x39, 0x5b, 0xc5, 0x1e, 0xf0, 0x57, 0x6e, 0x34, 0x4c, 0xcb]),
    (245, [0x8a, 0xa4, 0x52, 0xd6, 0x0d, 0x9b, 0xe2, 0x95, 0x8a, 0xa6, 0x64, 0x47, 0x37, 0x4b, 0x11, 0xbe]),
    (246, [0x6f, 0x7e, 0x47, 0x0f, 0x01, 0xa0, 0x94, 0x64, 0xe1, 0x9b, 0x19, 0x57, 0xb5, 0xa5, 0x16, 0x95]),
    (247, [0xff, 0x1a, 0x80, 0x38, 0x4d, 0xb8, 0xea, 0x13, 0x1c, 0xd4, 0x0f, 0x01, 0x14, 0x9e, 0x1b, 0x23]),
    (248, [0xaa, 0x11, 0xb5, 0x9b, 0x65, 0x1f, 0x04, 0x90, 0xc5, 0xf0, 0xde, 0xcb, 0xe2, 0xb5, 0x37, 0x93]),
    (249, [0xd7, 0xb6, 0x6b, 0xac, 0x4f, 0x03, 0x1a, 0x86, 0xfd, 0x7c, 0x71, 0x1a, 0x66, 0x74, 0xb6, 0xd9]),
    (250, [0x14, 0xe7, 0x79, 0x20, 0x5c, 0xfa, 0x05, 0xf7, 0xc0, 0x20, 0x45, 0x84, 0xa9, 0xd8, 0x37, 0x2e]),
    (251, [0x3e, 0x4a, 0x8b, 0x50, 0xef, 0x7f, 0xb1, 0x6c, 0x1b, 0x64, 0x47, 0x55, 0x99, 0x73, 0x97, 0xf0]),
    (252, [0x99, 0xf0, 0x48, 0xb9, 0xe0, 0x36, 0x05, 0x4d, 0x02, 0x15, 0x43, 0x43, 0x55, 0xe9, 0x2f, 0x37]),
    (253, [0xaa, 0xcc, 0x0e, 0xdd, 0xa0, 0xae, 0xb8, 0xf3, 0xa1, 0x0b, 0x47, 0x19, 0xb4, 0x47, 0xcd, 0x57]),
    (254, [0x2d, 0x00, 0x5c, 0x5a, 0x96, 0x61, 0xde, 0xbc, 0xaa, 0xee, 0x78, 0x39, 0xb2, 0xd3, 0x20, 0x75]),
    (255, [0x4a, 0x5d, 0x96, 0xa2, 0x8a, 0x9f, 0xc5, 0x1f, 0x9f, 0xa2, 0x9a, 0x65, 0xa6, 0xb6, 0xe7, 0x41]),
    (256, [0x95, 0x69, 0x17, 0x99, 0x6a, 0x82, 0x7e, 0x7a, 0xc4, 0x61, 0xa9, 0x95, 0xb0, 0xe4, 0xd3, 0x22]),
    (257, [0x59, 0x4e, 0x00, 0x88, 0xf4, 0xc2, 0xad, 0x40, 0x2a, 0xa4, 0x48, 0x5b, 0x2e, 0x4e, 0xb6, 0xba]),
    (258, [0x82, 0x07, 0xcc, 0xb9, 0x0e, 0x69, 0x9d, 0x13, 0xf0, 0x70, 0x88, 0x4c, 0xb6, 0x1e, 0xdf, 0xc7]),
    (281, [0x87, 0xb3, 0xce, 0xc5, 0x9f, 0x6e, 0xc0, 0x4a, 0x8c, 0xed, 0x79, 0x07, 0xcf, 0x8a, 0xcd, 0xd6]),
    (283, [0x1c, 0x05, 0x3d, 0x5a, 0x19, 0xf8, 0xae, 0x9e, 0x15, 0xe3, 0x5f, 0xdc, 0x68, 0x45, 0x90, 0x0f]),
    (284, [0xd7, 0xa0, 0x3c, 0x47, 0xc8, 0xc0, 0x60, 0x4c, 0xda, 0x12, 0xc2, 0x96, 0xdb, 0xb5, 0x0c, 0x85]),
    (285, [0x90, 0x7d, 0xf1, 0x5e, 0x80, 0x55, 0xd5, 0xc7, 0x8f, 0xc2, 0x46, 0xa8, 0x2c, 0x55, 0x17, 0xe1]),
    (286, [0x0d, 0x2a, 0x91, 0x1e, 0x44, 0x27, 0x3a, 0x56, 0x24, 0x6d, 0xd5, 0x31, 0xe0, 0x2f, 0x38, 0x8b]),
    (287, [0x3f, 0x5e, 0x29, 0x4e, 0xb8, 0x3d, 0x8c, 0x9c, 0x74, 0x8f, 0xdb, 0x15, 0x62, 0xc7, 0x3a, 0xa0]),
    (288, [0x6d, 0x3f, 0x4e, 0x9c, 0x60, 0xf7, 0xf4, 0xda, 0x30, 0x46, 0x24, 0x80, 0x1d, 0x12, 0x9d, 0x8c]),
    (289, [0x1a, 0x9b, 0x35, 0xf7, 0x54, 0xa4, 0x8c, 0x33, 0x7a, 0xd8, 0xd7, 0x83, 0xb2, 0x74, 0xb8, 0xee]),
    (290, [0x56, 0xb0, 0x7c, 0x02, 0xe7, 0x53, 0xea, 0xfe, 0xa8, 0xb2, 0xc0, 0xf4, 0xb3, 0x6c, 0x80, 0xfc]),
    (291, [0xba, 0x59, 0x1f, 0x2c, 0x3b, 0x6e, 0xdd, 0xe7, 0x77, 0x0c, 0x45, 0x3e, 0xfd, 0x7b, 0xc4, 0x41]),
    (292, [0xc8, 0x00, 0x9e, 0x76, 0x31, 0x91, 0x7f, 0xc6, 0xa6, 0xbc, 0xbf, 0x9d, 0x76, 0x8b, 0xde, 0x34]),
    (293, [0xd8, 0xbb, 0x2a, 0x21, 0x2d, 0x11, 0xf9, 0x28, 0x64, 0xca, 0x1f, 0x4c, 0x7a, 0x37, 0x04, 0xab]),
    (301, [0x99, 0x00, 0xa4, 0xe8, 0xb3, 0x18, 0x92, 0xeb, 0x0d, 0xd9, 0xfd, 0x06, 0x95, 0x8f, 0x0e, 0x81]),
    (305, [0xad, 0x36, 0xc1, 0x07, 0x9f, 0x3b, 0x00, 0xa4, 0x3a, 0xd8, 0x12, 0xa3, 0xb8, 0xac, 0xbe, 0x48]),
    (306, [0xba, 0x78, 0x30, 0x1e, 0xe9, 0xcf, 0xe3, 0xbd, 0x97, 0x9c, 0x7f, 0xf3, 0xcd, 0xa0, 0xfb, 0x1e]),
    (307, [0x0a, 0x1e, 0xfb, 0xcf, 0x11, 0xe7, 0x3f, 0x7a, 0x9a, 0xb9, 0xf3, 0x6a, 0x19, 0x3c, 0x68, 0x81]),
    (308, [0x61, 0x30, 0x53, 0x50, 0x08, 0xc7, 0xdd, 0x9f, 0xd4, 0x46, 0x93, 0x22, 0x32, 0xbe, 0x21, 0x9c]),
    (309, [0x3c, 0xce, 0x8f, 0x1a, 0xd5, 0x9c, 0xf0, 0xa6, 0x4c, 0x60, 0x28, 0x0d, 0x4f, 0xed, 0x04, 0x0b]),
    (312, [0x2a, 0x81, 0x19, 0x23, 0xa0, 0x70, 0xb1, 0x71, 0x86, 0x7d, 0x10, 0x90, 0xac, 0x64, 0xf6, 0x0c]),
    (315, [0xc8, 0x1c, 0x81, 0x98, 0x0f, 0x8a, 0xb1, 0x00, 0x11, 0xf2, 0x99, 0x66, 0x97, 0xd1, 0xea, 0x37]),
    (316, [0x1c, 0x90, 0x9a, 0x8c, 0x17, 0x1d, 0x71, 0xd7, 0xf8, 0x93, 0x3a, 0x10, 0x51, 0x06, 0x82, 0x36]),
    (317, [0x02, 0x65, 0xbd, 0x33, 0x8e, 0xc0, 0xfb, 0x5d, 0x24, 0x9c, 0x23, 0xd9, 0xe9, 0xe0, 0x8c, 0xfe]),
    (319, [0x49, 0x38, 0xb0, 0xb6, 0xa2, 0x15, 0xdb, 0x18, 0x6a, 0x3e, 0x46, 0x11, 0xbb, 0x0e, 0x55, 0x52]),
    (321, [0xbf, 0x3c, 0xe2, 0x2d, 0x46, 0x2a, 0x77, 0x38, 0x95, 0x62, 0x80, 0x13, 0x77, 0x02, 0x30, 0xb8]),
    (322, [0x73, 0x03, 0xcb, 0x9d, 0x50, 0x0e, 0x1b, 0x3d, 0x6d, 0x53, 0x15, 0x18, 0xc4, 0x01, 0xd8, 0x2a]),
    (360, [0x7b, 0xa9, 0xc9, 0x4f, 0x4f, 0xa9, 0x6e, 0x9b, 0xc7, 0xe5, 0x96, 0x58, 0xc7, 0x46, 0xd0, 0x38]),
    (381, [0x1a, 0x21, 0x3a, 0xc7, 0x74, 0xd2, 0x3c, 0x74, 0x74, 0xbe, 0x01, 0x8f, 0x22, 0x7a, 0x6a, 0x7d]),
    (382, [0x1c, 0xfd, 0x13, 0x27, 0x4a, 0xd5, 0x60, 0x13, 0xba, 0xa3, 0xa0, 0xf5, 0xb1, 0xf6, 0x6b, 0xe3]),
    (383, [0x1c, 0x05, 0x3d, 0x5a, 0x19, 0xf8, 0xae, 0x9e, 0x15, 0xe3, 0x5f, 0xdc, 0x68, 0x45, 0x90, 0x0f]),
    (384, [0xef, 0xd6, 0x7a, 0x80, 0xa0, 0x55, 0x96, 0xe6, 0x5e, 0x35, 0xa4, 0x43, 0x31, 0x11, 0xfb, 0x5e]),
    (385, [0x17, 0xce, 0xe5, 0xcf, 0x7d, 0x99, 0xbe, 0x3e, 0xbd, 0xfd, 0xf9, 0x63, 0x37, 0x0b, 0x75, 0x2d]),
    (386, [0x72, 0xf3, 0xa9, 0x9c, 0x8d, 0xb6, 0xf9, 0x74, 0x43, 0x5b, 0xa2, 0x7a, 0x09, 0x1c, 0x4a, 0xf3]),
    (387, [0x0f, 0x8b, 0xbb, 0xea, 0x11, 0x00, 0x96, 0x23, 0x64, 0xdb, 0xc7, 0x97, 0x4e, 0xa4, 0x77, 0x47]),
    (388, [0xc2, 0xac, 0xb5, 0x18, 0x64, 0x9b, 0x3c, 0xef, 0xcc, 0x42, 0xfd, 0x0e, 0x53, 0x78, 0x21, 0xc3]),
    (389, [0x1c, 0xc0, 0x14, 0x14, 0x5a, 0xe7, 0x64, 0xc5, 0xfb, 0x36, 0x7d, 0xc7, 0x11, 0x5a, 0x28, 0xa4]),
    (390, [0xa8, 0x0b, 0x96, 0x6d, 0xc9, 0x25, 0xe9, 0xc7, 0x07, 0xec, 0x90, 0x3d, 0xe1, 0x3d, 0x14, 0xad]),
    (401, [0xcb, 0x2c, 0x35, 0xf3, 0xb2, 0x71, 0x7f, 0xd2, 0x64, 0x33, 0xd5, 0x17, 0xcf, 0xef, 0xd6, 0xa0]),
    (402, [0x3c, 0x8e, 0xda, 0xe2, 0x1a, 0xe6, 0xda, 0x2b, 0x4d, 0x4b, 0x52, 0x56, 0xfb, 0x5c, 0xb2, 0x28]),
    (403, [0x6c, 0xaf, 0xa3, 0xdb, 0x2a, 0xb9, 0x63, 0x7c, 0x15, 0x85, 0x11, 0xeb, 0x67, 0x28, 0x4d, 0xf8]),
    (404, [0xe6, 0xf1, 0xe7, 0x85, 0x4d, 0x59, 0x50, 0x95, 0x59, 0x98, 0xc1, 0x4b, 0xa7, 0x04, 0x90, 0xf7]),
    (405, [0x42, 0x09, 0x2f, 0x47, 0xd9, 0x00, 0xbe, 0xf7, 0x7e, 0x73, 0x55, 0x49, 0xdb, 0x3f, 0x80, 0xf0]),
    (406, [0x47, 0x16, 0x61, 0x75, 0xc1, 0x41, 0x30, 0x1f, 0x92, 0xcf, 0x96, 0x51, 0xcd, 0xbe, 0x51, 0x48]),
    (421, [0x27, 0xf0, 0xea, 0x71, 0xd1, 0x7a, 0x79, 0xbc, 0xdf, 0xd4, 0x2d, 0x18, 0x9c, 0x44, 0x08, 0xcc]),
    (422, [0xd9, 0x2c, 0xb1, 0x13, 0x41, 0x40, 0x58, 0xd7, 0x2b, 0xda, 0xa4, 0x9b, 0x4c, 0x5d, 0xc6, 0xbd]),
    (423, [0xd9, 0x8b, 0xd2, 0x12, 0x78, 0xd3, 0xaa, 0x21, 0x91, 0x6a, 0x7b, 0x76, 0xb8, 0x09, 0xd9, 0x87]),
    (424, [0x2f, 0x3c, 0xf7, 0x78, 0x27, 0xaa, 0x34, 0x0b, 0xf0, 0xfe, 0xaf, 0x1b, 0x4d, 0x45, 0x5e, 0x73]),
    (425, [0x45, 0x31, 0x26, 0x48, 0xc2, 0x5b, 0x2c, 0xc3, 0xcb, 0x3b, 0xba, 0xe9, 0x8d, 0x3d, 0x29, 0x6e]),
    (426, [0xb4, 0x7b, 0x95, 0x94, 0x42, 0x78, 0x11, 0x96, 0x05, 0x03, 0xce, 0xb4, 0xfe, 0x52, 0xf5, 0xe2]),
    (427, [0x2c, 0x4f, 0x07, 0x89, 0xa8, 0xb6, 0x73, 0xda, 0xa4, 0xa9, 0x39, 0xcc, 0x02, 0xa6, 0x02, 0xe5]),
    (428, [0xa1, 0x79, 0x9f, 0x31, 0x5e, 0xfb, 0x8f, 0x0e, 0x7f, 0x45, 0x77, 0x51, 0x9f, 0x51, 0x81, 0x69]),
    (429, [0x20, 0xa7, 0xc0, 0xc2, 0x2c, 0xed, 0x5a, 0x4a, 0x1f, 0x18, 0x8a, 0xdc, 0x4f, 0x67, 0x2b, 0xb9]),
    (441, [0xdd, 0x80, 0x16, 0x76, 0x33, 0x40, 0x0e, 0xad, 0xc9, 0x4c, 0xea, 0x78, 0x05, 0x28, 0xa5, 0xa2]),
    (442, [0xd8, 0xdb, 0x39, 0x89, 0xa7, 0xdc, 0x00, 0x8e, 0x22, 0x9c, 0x6d, 0xbd, 0xd4, 0xd8, 0x1c, 0x1b]),
    (443, [0xe8, 0x9d, 0x63, 0x70, 0xfd, 0x6e, 0x31, 0xd2, 0x75, 0x6d, 0x38, 0x62, 0xba, 0x49, 0x1c, 0x7f]),
    (444, [0x5e, 0x72, 0x25, 0x47, 0x52, 0x7c, 0xc9, 0x38, 0x7e, 0x10, 0xa2, 0x69, 0xc1, 0x68, 0xe9, 0x27]),
    (445, [0x97, 0x9d, 0xee, 0x48, 0x06, 0x07, 0x07, 0xd7, 0x21, 0xa9, 0xa9, 0x49, 0xa4, 0x89, 0xcd, 0x4b]),
    (446, [0x8c, 0x49, 0xde, 0x38, 0xfd, 0x6c, 0xd8, 0x21, 0xf9, 0x23, 0x85, 0xe7, 0xd0, 0xf9, 0x40, 0x06]),
    (448, [0x6c, 0x20, 0x94, 0x55, 0x02, 0x55, 0x82, 0x42, 0xa6, 0xee, 0x9a, 0xc1, 0xf5, 0xbf, 0x52, 0xee]),
    (449, [0x56, 0xed, 0x8b, 0x53, 0x97, 0x41, 0x72, 0xd0, 0x9c, 0xeb, 0xf8, 0xb1, 0x31, 0x23, 0xe8, 0x87]),
    (461, [0xe8, 0xb1, 0xc2, 0xca, 0x20, 0xac, 0xd9, 0x95, 0x17, 0x81, 0x04, 0x02, 0xc2, 0x7e, 0xd4, 0x2b]),
    (481, [0x49, 0x68, 0x41, 0x28, 0xb3, 0x6e, 0xd1, 0x2d, 0x85, 0xbc, 0x17, 0xe8, 0xbb, 0xbf, 0x6b, 0x22]),
    (501, [0x07, 0x47, 0xba, 0xc4, 0x82, 0x16, 0x98, 0x5d, 0xad, 0x34, 0xbe, 0xd4, 0xb0, 0x9f, 0x85, 0x7e]),
    (502, [0x59, 0x70, 0xe9, 0x08, 0xff, 0x17, 0xac, 0xb1, 0xbc, 0x6e, 0x4d, 0xa4, 0x4f, 0xe3, 0x2c, 0xad]),
    (503, [0xde, 0xbd, 0x79, 0xb1, 0xff, 0xcf, 0x72, 0x7c, 0xa5, 0xf2, 0xfa, 0x94, 0x72, 0x44, 0xd6, 0x77]),
    (504, [0x9b, 0x4c, 0x39, 0x42, 0xb0, 0x16, 0x84, 0x0c, 0x8b, 0x53, 0xaa, 0x21, 0x76, 0x9d, 0x4d, 0x87]),
    (505, [0xe4, 0xdd, 0xb5, 0x27, 0xfa, 0x73, 0x31, 0x2d, 0xa5, 0x90, 0x4a, 0x1e, 0x07, 0xc5, 0xb0, 0x7b]),
    (506, [0x3a, 0x2a, 0x21, 0x4a, 0x10, 0x72, 0x0e, 0xb1, 0x79, 0x08, 0xce, 0x36, 0x31, 0x0c, 0xf0, 0x3e]),
    (507, [0x65, 0x77, 0x77, 0x0e, 0x21, 0x5c, 0xc7, 0x68, 0x9c, 0xfc, 0x87, 0x97, 0x26, 0x60, 0xbd, 0x4f]),
    (508, [0x9f, 0xd7, 0x4d, 0x47, 0xbb, 0x3a, 0x9b, 0x82, 0x2d, 0xe7, 0x93, 0xf6, 0x9c, 0x8b, 0x01, 0x5e]),
    (509, [0xb2, 0x77, 0x4f, 0x9c, 0x5d, 0xa8, 0x3b, 0xd6, 0x7e, 0x9e, 0x38, 0x0f, 0x4e, 0x99, 0x02, 0xf3])]"

definition TABLE_01 :: "key_entry list" where
  "TABLE_01 = [
    (515, [0x3f, 0x51, 0xd2, 0x3a, 0x53, 0xb7, 0x71, 0xf7, 0x1c, 0xa1, 0x1a, 0x7e, 0x97, 0x83, 0x86, 0xf5]),
    (521, [0x01, 0xe6, 0x54, 0x15, 0xb2, 0xe5, 0x51, 0x14, 0xa4, 0x9e, 0xf5, 0x54, 0xa2, 0x71, 0x86, 0x69]),
    (522, [0xa6, 0x56, 0xb8, 0x25, 0x7b, 0xdd, 0x0d, 0x56, 0xb2, 0xbc, 0xa0, 0xc6, 0x9a, 0x33, 0x99, 0x9b]),
    (523, [0x2c, 0x49, 0x2e, 0x08, 0x26, 0x23, 0x58, 0x95, 0x65, 0xc6, 0xcb, 0x2a, 0x83, 0x96, 0x40, 0x11]),
    (524, [0x49, 0xa5, 0x48, 0xbd, 0x41, 0xc4, 0x0e, 0x21, 0xc9, 0x6e, 0x27, 0x70, 0xc0, 0x86, 0x23, 0x6a]),
    (525, [0x6b, 0xa2, 0xd8, 0x56, 0xf0, 0x1d, 0x47, 0x1b, 0x6f, 0xcc, 0x05, 0x5f, 0xd3, 0x47, 0xfb, 0xc9]),
    (526, [0x66, 0x9e, 0x1d, 0xb4, 0x27, 0x1f, 0x6e, 0xe2, 0x15, 0x76, 0x55, 0xda, 0x04, 0x53, 0xf5, 0xa9]),
    (527, [0xec, 0xff, 0x35, 0xc0, 0x6a, 0x97, 0xeb, 0x82, 0xaa, 0xe0, 0xf7, 0x7d, 0x2c, 0xf5, 0xb9, 0x53]),
    (531, [0x8a, 0x45, 0x02, 0x44, 0x5e, 0x41, 0xbc, 0xbc, 0x2d, 0x2b, 0x79, 0x0b, 0xd3, 0xaa, 0x91, 0x53]),
    (532, [0x05, 0x69, 0x50, 0x31, 0x0c, 0x19, 0xa6, 0x9c, 0x3c, 0xb5, 0x34, 0x4f, 0x73, 0x23, 0x0f, 0x22]),
    (533, [0xc1, 0x41, 0xb9, 0x1e, 0xdc, 0xf3, 0xea, 0xba, 0x0f, 0x1d, 0xed, 0x6b, 0xc1, 0xeb, 0x07, 0xd2]),
    (534, [0xf1, 0xc8, 0x64, 0xed, 0xba, 0x3f, 0xf0, 0x39, 0x75, 0xda, 0x53, 0xd7, 0x68, 0x09, 0xa4, 0x6e]),
    (535, [0xa6, 0x11, 0x2a, 0xfd, 0x66, 0xd4, 0x3c, 0x20, 0x40, 0x71, 0xd9, 0x62, 0x1e, 0x4e, 0x76, 0x4b]),
    (536, [0x8e, 0xbe, 0x87, 0x46, 0xe8, 0x4a, 0xda, 0x42, 0x23, 0x17, 0x2d, 0x11, 0x4f, 0x28, 0x00, 0xd5]),
    (537, [0xa1, 0x9e, 0x9b, 0x41, 0x15, 0x8c, 0x8e, 0x7b, 0x1e, 0x5e, 0xd3, 0x99, 0xe5, 0xdb, 0xd0, 0xdd]),
    (551, [0xc7, 0xb7, 0x0d, 0xdd, 0x92, 0x08, 0xe8, 0xcd, 0x35, 0x78, 0x23, 0xa5, 0x8b, 0xa8, 0x2c, 0x0a]),
    (552, [0xc6, 0xe4, 0x71, 0xf5, 0x76, 0x8a, 0xcb, 0x08, 0x0b, 0xa4, 0xf7, 0x91, 0x9c, 0xaf, 0x8f, 0x45]),
    (553, [0xdc, 0x8d, 0xa7, 0x1e, 0x63, 0x67, 0xee, 0x5a, 0x1e, 0x68, 0x99, 0xdd, 0x66, 0xf6, 0xaf, 0x43]),
    (555, [0xdd, 0xc5, 0xb1, 0x2c, 0xc0, 0x1b, 0xa5, 0xf9, 0x47, 0xd6, 0xe8, 0x25, 0x52, 0xf1, 0x5b, 0x78]),
    (556, [0xdf, 0xbb, 0x70, 0x8d, 0xcb, 0xed, 0xe7, 0xfa, 0x77, 0x67, 0xd3, 0xf8, 0x09, 0xa5, 0xc6, 0x12]),
    (557, [0xdf, 0x46, 0x6c, 0x17, 0x80, 0xc5, 0xbe, 0xe4, 0xe8, 0x45, 0xa8, 0xc7, 0x8b, 0xd7, 0xb9, 0x3c]),
    (558, [0x82, 0x41, 0x7e, 0x72, 0xd9, 0x65, 0xbc, 0x1c, 0xc9, 0x51, 0x93, 0x60, 0x37, 0x5c, 0x4e, 0x14]),
    (559, [0xf7, 0x1e, 0xae, 0x96, 0x10, 0xa9, 0x2a, 0xf8, 0x19, 0x66, 0xf4, 0x3e, 0x72, 0x53, 0xa4, 0x48]),
    (561, [0x9c, 0x8e, 0xcc, 0x45, 0xad, 0x64, 0x92, 0xe9, 0xa1, 0xe0, 0x45, 0xfb, 0x5d, 0xd3, 0x8d, 0x9e]),
    (562, [0xa1, 0xa9, 0x93, 0x8d, 0x6c, 0x35, 0x07, 0x9c, 0x53, 0x47, 0xe3, 0x26, 0x9c, 0x6a, 0xbb, 0x8a]),
    (571, [0xf3, 0x6d, 0x59, 0x63, 0x7b, 0x88, 0xae, 0x05, 0x8f, 0x31, 0x03, 0x6d, 0x36, 0x6b, 0x07, 0x3c]),
    (572, [0xba, 0x2b, 0xef, 0xe9, 0xd0, 0x81, 0x63, 0x95, 0x7e, 0x40, 0x6d, 0xf2, 0x68, 0xc7, 0x9c, 0xd5]),
    (573, [0x29, 0xd1, 0x06, 0xbe, 0xda, 0x26, 0x20, 0xde, 0xae, 0xd8, 0x29, 0x12, 0xc6, 0x8b, 0xe3, 0x9e]),
    (591, [0xb6, 0x01, 0xa3, 0x75, 0xed, 0x6a, 0xd5, 0x89, 0x02, 0x10, 0x14, 0xb9, 0x2f, 0x82, 0xf9, 0xa4]),
    (593, [0x02, 0x86, 0xb6, 0x8e, 0x8d, 0x59, 0x17, 0x62, 0xbe, 0x0c, 0x0c, 0x70, 0x06, 0xc0, 0xb3, 0xea]),
    (594, [0x59, 0xc3, 0xae, 0x64, 0xc5, 0xeb, 0xfa, 0xd0, 0x49, 0x28, 0xe3, 0x82, 0x6a, 0x47, 0xa7, 0xa1]),
    (595, [0xf7, 0x3d, 0x12, 0x1c, 0xe9, 0x2e, 0x04, 0x36, 0x04, 0x58, 0x21, 0x56, 0xb7, 0x6a, 0xb1, 0x7b]),
    (596, [0xed, 0x8f, 0x6f, 0x95, 0xfa, 0x66, 0x60, 0x07, 0x59, 0xe4, 0xdf, 0x8a, 0xbe, 0x9a, 0x4b, 0xa7]),
    (597, [0x43, 0xc6, 0xca, 0x7c, 0x66, 0xcf, 0xea, 0xb7, 0xfa, 0x89, 0x9a, 0xce, 0x8e, 0x19, 0xd6, 0xde]),
    (598, [0xe7, 0xa6, 0x78, 0x01, 0x0b, 0xeb, 0xe1, 0xad, 0xea, 0xb5, 0xd8, 0x75, 0x52, 0xba, 0x4a, 0x84]),
    (599, [0x32, 0x9d, 0x8c, 0x26, 0xfb, 0x92, 0x1d, 0x15, 0x61, 0x76, 0x9d, 0x17, 0x53, 0x82, 0x39, 0x1e]),
    (621, [0x66, 0xf6, 0x1c, 0x23, 0xe9, 0x05, 0xfa, 0x9e, 0x6c, 0xb1, 0x9b, 0xc8, 0xf8, 0xaa, 0x06, 0x98]),
    (622, [0xc6, 0x73, 0x33, 0x9e, 0xb4, 0xf9, 0xe9, 0x1c, 0xd0, 0x89, 0x6e, 0x9f, 0xf7, 0x49, 0x71, 0x97]),
    (623, [0xc6, 0x7a, 0xba, 0x09, 0x48, 0x6b, 0x83, 0x11, 0x38, 0xa4, 0x89, 0x25, 0xa0, 0xdf, 0x27, 0xfd]),
    (624, [0x72, 0x9e, 0x9d, 0xfc, 0x4c, 0x5f, 0x37, 0xcc, 0xc1, 0x2e, 0x2a, 0xee, 0x3d, 0x2b, 0x25, 0xc4]),
    (625, [0x5e, 0x14, 0xcd, 0x70, 0xd8, 0xa8, 0xf9, 0x54, 0xf3, 0xb0, 0x1d, 0xb8, 0x34, 0xd7, 0xeb, 0xaf]),
    (626, [0x67, 0xb1, 0x10, 0x71, 0x2a, 0x66, 0x90, 0x07, 0x4f, 0x5f, 0x66, 0x9f, 0x7e, 0xb9, 0xea, 0x95]),
    (627, [0xbe, 0xf9, 0xec, 0xef, 0x44, 0x71, 0xfc, 0x53, 0x8f, 0xba, 0xec, 0xb5, 0xa7, 0x37, 0xdf, 0x56]),
    (628, [0xe4, 0x67, 0xbb, 0x1c, 0xab, 0xf6, 0x9a, 0x6c, 0x46, 0xdf, 0x80, 0x71, 0x2e, 0x15, 0xb9, 0xa6]),
    (629, [0xc6, 0x38, 0xe9, 0xbb, 0x09, 0x66, 0xbf, 0x9a, 0x05, 0x16, 0x03, 0x5c, 0x5f, 0xce, 0xa3, 0xf4]),
    (631, [0x2b, 0x3e, 0x1f, 0x71, 0xfa, 0x60, 0xe2, 0xc7, 0x31, 0xdb, 0x94, 0x2e, 0xec, 0xb5, 0x44, 0x8f]),
    (641, [0xfb, 0x24, 0xd8, 0x9b, 0xcf, 0xe7, 0xb2, 0xd6, 0xd8, 0xb3, 0x05, 0x1b, 0x2c, 0x3c, 0xf0, 0x35]),
    (645, [0xc4, 0x82, 0x8b, 0xfb, 0x31, 0x6a, 0x6d, 0x50, 0xda, 0x30, 0xdf, 0x4d, 0xc0, 0x26, 0x98, 0x3d]),
    (660, [0x20, 0x71, 0xf9, 0x66, 0x5f, 0x87, 0xf6, 0x8e, 0x87, 0x50, 0xfa, 0x52, 0x75, 0x1b, 0xe0, 0x6c]),
    (711, [0xff, 0x60, 0x2c, 0x18, 0xb1, 0x1c, 0x78, 0x31, 0xdc, 0x41, 0xd6, 0x3f, 0x61, 0x61, 0x37, 0x49]),
    (712, [0x87, 0xff, 0x0a, 0x9d, 0x30, 0x73, 0x69, 0x0e, 0x71, 0x1c, 0xfc, 0x85, 0x45, 0x62, 0xc9, 0xef]),
    (713, [0x55, 0x5f, 0xc3, 0x65, 0x1a, 0xb8, 0xe6, 0x39, 0xd6, 0x31, 0x02, 0x42, 0x39, 0xf1, 0xc2, 0xd0]),
    (816, [0xdf, 0x97, 0x6c, 0xdb, 0x85, 0x95, 0x08, 0xfe, 0x26, 0x2d, 0x57, 0xe5, 0x81, 0x0b, 0x61, 0xf4]),
    (841, [0x7b, 0xd7, 0x1e, 0x1b, 0x45, 0x50, 0x8b, 0x6e, 0xdd, 0x8a, 0x8a, 0xe8, 0x40, 0xf3, 0x35, 0xba]),
    (842, [0xe9, 0x49, 0xa3, 0xf9, 0x81, 0x40, 0x61, 0x76, 0xa8, 0x22, 0xc7, 0x85, 0x58, 0xba, 0x49, 0x8d]),
    (852, [0xe2, 0x23, 0x77, 0x5b, 0xc1, 0x8b, 0xfc, 0xb0, 0x08, 0xee, 0x11, 0x49, 0x55, 0x70, 0x45, 0x07]),
    (910, [0x9b, 0x19, 0xc7, 0xac, 0xda, 0x48, 0xfd, 0xb5, 0x1c, 0xad, 0x53, 0xd1, 0xe7, 0x82, 0x8c, 0x56]),
    (1000, [0xea, 0x59, 0x29, 0x2c, 0x2a, 0xcf, 0x0c, 0x11, 0x25, 0x62, 0xc3, 0x20, 0x04, 0x42, 0xe0, 0xe7]),
    (1001, [0x65, 0x32, 0x50, 0xb9, 0xbd, 0xae, 0x6a, 0x42, 0xdc, 0xa6, 0x93, 0x74, 0x66, 0x21, 0xf9, 0xdb]),
    (1003, [0x65, 0x32, 0x50, 0xb9, 0xbd, 0xae, 0x6a, 0x42, 0xdc, 0xa6, 0x93, 0x74, 0x66, 0x21, 0xf9, 0xdb]),
    (1201, [0xf6, 0x31, 0xc0, 0x83, 0x0d, 0x7d, 0x9b, 0xe0, 0xe8, 0x26, 0x65, 0x0e, 0x22, 0xe7, 0x37, 0x34]),
    (1202, [0xc5, 0x1a, 0xe3, 0x18, 0x17, 0x37, 0x90, 0xb7, 0xea, 0x87, 0x80, 0x59, 0x2b, 0x4a, 0x11, 0xc5]),
    (1203, [0x01, 0x29, 0xb2, 0x7c, 0xab, 0x1a, 0xa4, 0xe8, 0x55, 0xfc, 0x9b, 0x88, 0xb2, 0x4a, 0xd1, 0x5d]),
    (1204, [0xf2, 0x2a, 0x62, 0x42, 0x06, 0x8a, 0x39, 0x47, 0x5d, 0xaf, 0xef, 0x70, 0xe1, 0xba, 0x8e, 0x22]),
    (1213, [0x58, 0x3e, 0x4c, 0xf2, 0xa9, 0x22, 0x7b, 0xbe, 0x88, 0x5c, 0x53, 0xac, 0x4f, 0xc9, 0x28, 0x8b]),
    (1221, [0x0d, 0x2d, 0xd9, 0xee, 0xa6, 0x6f, 0x47, 0xdd, 0x3e, 0x9f, 0x77, 0x21, 0xde, 0xc6, 0xf4, 0x50]),
    (1222, [0xc4, 0xed, 0x72, 0xba, 0xb3, 0x81, 0x1a, 0x0f, 0x17, 0xb6, 0xe9, 0xf2, 0x79, 0xc1, 0xad, 0xbe]),
    (1251, [0x63, 0xbb, 0xa7, 0xdd, 0x42, 0xca, 0x5a, 0x60, 0xa7, 0xae, 0x89, 0xc3, 0x0e, 0x6a, 0x86, 0xb1]),
    (1252, [0x7a, 0xdf, 0x6a, 0x4d, 0x22, 0x96, 0x08, 0xdf, 0xb6, 0xb4, 0x46, 0xb6, 0x0e, 0xae, 0xec, 0x57]),
    (1253, [0x5b, 0x4d, 0xf3, 0xb6, 0x98, 0xf7, 0xc1, 0x5f, 0x62, 0x5d, 0x1d, 0xd8, 0x7d, 0xd5, 0x52, 0x12]),
    (1254, [0x4d, 0xd1, 0xe7, 0xa2, 0x78, 0x62, 0x3d, 0x87, 0xda, 0xc0, 0x9b, 0x78, 0x6d, 0xbc, 0xd4, 0x1d]),
    (1258, [0x25, 0x0d, 0xfe, 0x22, 0x53, 0x5a, 0xd3, 0x7d, 0xa0, 0x6e, 0x73, 0x4a, 0xd9, 0xc2, 0xfc, 0xc3]),
    (1281, [0x79, 0xfb, 0x72, 0x26, 0xe6, 0xc0, 0x7b, 0x8e, 0xa2, 0x60, 0x35, 0x22, 0x89, 0x48, 0x2b, 0xe3]),
    (1282, [0x13, 0x4b, 0x31, 0x51, 0x77, 0x90, 0x7b, 0xab, 0xb4, 0x1c, 0xe4, 0x6b, 0x22, 0x67, 0xc8, 0x4f]),
    (1291, [0x72, 0x4e, 0x81, 0x52, 0xe6, 0x48, 0x72, 0x8c, 0x76, 0x6f, 0x96, 0x2f, 0xe3, 0x8c, 0x66, 0xa4]),
    (1301, [0xd4, 0x2b, 0xc8, 0x88, 0xd6, 0x52, 0xa4, 0xf5, 0xff, 0x3e, 0xd9, 0x3a, 0x32, 0x01, 0xcd, 0xfd]),
    (1302, [0x12, 0xe1, 0xab, 0x36, 0xfa, 0x5d, 0xb3, 0xe1, 0x9f, 0x56, 0x5f, 0x62, 0x3a, 0x27, 0x23, 0x90]),
    (1303, [0x7f, 0xa2, 0x5f, 0x96, 0xc6, 0x0a, 0x11, 0xc0, 0x85, 0x3e, 0xc5, 0x71, 0x66, 0x12, 0x91, 0x00]),
    (1304, [0xa3, 0xa9, 0xac, 0x86, 0x2e, 0x45, 0xef, 0x48, 0x1e, 0xee, 0x8a, 0x4f, 0xf2, 0xa1, 0x26, 0x30]),
    (1305, [0x6b, 0xb4, 0x3c, 0x2d, 0xa3, 0x79, 0x09, 0x81, 0x91, 0xd9, 0x6f, 0xba, 0xb1, 0x91, 0xea, 0x01]),
    (1501, [0x4b, 0x69, 0x09, 0x00, 0xfc, 0x87, 0xc0, 0x18, 0xec, 0x5a, 0x76, 0xd2, 0x98, 0xe8, 0xc8, 0x82]),
    (1512, [0xb9, 0x53, 0xc8, 0xf8, 0x1e, 0x6f, 0x7c, 0xbf, 0xb2, 0x33, 0x33, 0x79, 0xb8, 0xa0, 0x97, 0x10]),
    (1521, [0xab, 0xe5, 0xdd, 0x71, 0xc7, 0xe2, 0x26, 0x06, 0x26, 0xdf, 0xa4, 0x2b, 0xd8, 0xf2, 0xce, 0xa9]),
    (1526, [0xab, 0xe5, 0xdd, 0x71, 0xc7, 0xe2, 0x26, 0x06, 0x26, 0xdf, 0xa4, 0x2b, 0xd8, 0xf2, 0xce, 0xa9]),
    (1533, [0x5a, 0x63, 0x63, 0x04, 0x01, 0xae, 0x8b, 0xc0, 0x3b, 0x57, 0x25, 0xd8, 0xa6, 0x0d, 0xab, 0x78]),
    (1601, [0x98, 0xf0, 0x7e, 0xf0, 0xa4, 0x71, 0x6b, 0xac, 0x11, 0xf0, 0xfd, 0xd7, 0x42, 0xaa, 0x68, 0x78]),
    (1611, [0x70, 0x43, 0xa4, 0xba, 0x15, 0xfd, 0xc5, 0x9a, 0x1a, 0x09, 0x84, 0x29, 0x11, 0x40, 0xed, 0xa9]),
    (1701, [0xac, 0x65, 0x3a, 0xb3, 0x04, 0x74, 0x72, 0xcb, 0x6e, 0x4b, 0xc2, 0x51, 0xbd, 0xbc, 0x14, 0x4a]),
    (1900, [0x7a, 0xd1, 0x3c, 0xbc, 0x37, 0x52, 0xa8, 0xd1, 0x63, 0xbe, 0x29, 0x95, 0x38, 0x0f, 0xd1, 0x23]),
    (1901, [0x7a, 0xd1, 0x3c, 0xbc, 0x37, 0x52, 0xa8, 0xd1, 0x63, 0xbe, 0x29, 0x95, 0x38, 0x0f, 0xd1, 0x23]),
    (1902, [0xcd, 0xf1, 0x8b, 0x1f, 0xa0, 0x43, 0x28, 0xbb, 0xfa, 0xba, 0xda, 0xec, 0xb4, 0x6a, 0xf0, 0x6d]),
    (1903, [0x56, 0x98, 0x20, 0x3d, 0xe8, 0x23, 0x56, 0xff, 0xea, 0x2d, 0x85, 0xa7, 0x02, 0xc9, 0x70, 0xed]),
    (2101, [0x56, 0x92, 0x7d, 0x16, 0x41, 0x3d, 0xa1, 0xe7, 0xa7, 0xec, 0x3d, 0xe0, 0x0e, 0xdd, 0x73, 0xc1]),
    (2102, [0x07, 0xff, 0x36, 0xa4, 0x68, 0x67, 0x77, 0x62, 0xc9, 0x34, 0x01, 0xed, 0x26, 0x32, 0xbc, 0x69]),
    (2103, [0x13, 0x02, 0x8d, 0x77, 0x09, 0x2c, 0x10, 0x60, 0x97, 0xac, 0x67, 0xd7, 0x41, 0x98, 0x81, 0x38]),
    (2104, [0x99, 0x9d, 0xf9, 0x14, 0xe8, 0xfe, 0xdc, 0xe8, 0x37, 0x5a, 0x06, 0xac, 0x28, 0x2c, 0x8a, 0x2f]),
    (2105, [0xcd, 0xe2, 0x63, 0x79, 0x36, 0x86, 0x95, 0xbc, 0x52, 0xb3, 0xe2, 0x37, 0xb1, 0x88, 0x8a, 0xc1]),
    (2106, [0x8e, 0xe3, 0x84, 0xde, 0x35, 0x49, 0x17, 0x26, 0x65, 0xed, 0xff, 0xfc, 0x9b, 0xc5, 0xd0, 0xe5]),
    (2107, [0xf9, 0x03, 0x95, 0xd4, 0xdd, 0xc4, 0x36, 0x42, 0xab, 0x54, 0xbb, 0xa3, 0xc5, 0xbc, 0x0a, 0x93]),
    (2108, [0xd4, 0xb8, 0xd0, 0xbf, 0x9f, 0xf3, 0x27, 0x51, 0x51, 0x16, 0x50, 0x97, 0x21, 0xa2, 0xfe, 0x74]),
    (2109, [0x6f, 0x9e, 0x9a, 0x4a, 0x94, 0xf2, 0x46, 0x85, 0x57, 0xed, 0x07, 0x6d, 0x94, 0x1c, 0xd0, 0x8d]),
    (2121, [0x3b, 0x1f, 0xac, 0xb0, 0x04, 0x14, 0xb2, 0xdc, 0x18, 0x66, 0x47, 0x75, 0x10, 0x89, 0xac, 0x8e]),
    (2122, [0x08, 0x15, 0x54, 0xbc, 0x9f, 0x71, 0x66, 0x41, 0xb5, 0x06, 0x81, 0xcb, 0xc1, 0x3c, 0x7e, 0x2f]),
    (2123, [0xe3, 0xf5, 0xb6, 0x30, 0x0e, 0x5b, 0xd2, 0x66, 0x65, 0xa7, 0xee, 0x87, 0x38, 0xf0, 0xe8, 0xd3]),
    (2124, [0x4a, 0xc1, 0xa5, 0xad, 0x88, 0x1d, 0xca, 0x20, 0x56, 0x72, 0x84, 0x15, 0xeb, 0xb9, 0xe1, 0x06]),
    (2125, [0xeb, 0x8f, 0xa2, 0x93, 0x76, 0x55, 0x40, 0xa0, 0x39, 0x80, 0x6b, 0xe1, 0x8a, 0xd7, 0xf8, 0x35]),
    (2131, [0x41, 0x47, 0x8e, 0xb7, 0xd6, 0x9f, 0xf7, 0x66, 0xd5, 0x0b, 0x7a, 0x82, 0x80, 0xdf, 0x5f, 0x79]),
    (2132, [0xc7, 0x60, 0xa2, 0x65, 0x7a, 0xca, 0x40, 0xb1, 0xad, 0x15, 0x14, 0x8b, 0x70, 0xf2, 0xd8, 0xf5]),
    (2133, [0xec, 0x5b, 0x15, 0xf2, 0x90, 0x8a, 0x15, 0x6c, 0x85, 0xd4, 0xc0, 0x94, 0x0a, 0xba, 0xdb, 0xcf]),
    (2134, [0x49, 0xee, 0x7a, 0xd6, 0x5d, 0xf3, 0xb6, 0x38, 0x1d, 0x0e, 0x1a, 0x83, 0xef, 0x5f, 0x34, 0x14]),
    (2135, [0x68, 0xb7, 0x82, 0x10, 0x7a, 0x5f, 0x6b, 0x6c, 0xb7, 0xf6, 0x89, 0x2e, 0x97, 0x27, 0xcc, 0x4d]),
    (2136, [0xdd, 0xfc, 0x1a, 0xc0, 0x7d, 0x04, 0xfb, 0x46, 0xa3, 0x90, 0x3c, 0xda, 0x02, 0xc3, 0x83, 0xcf]),
    (2137, [0x6c, 0xf0, 0xf6, 0x6e, 0xab, 0x32, 0xe5, 0x6c, 0xbf, 0x3d, 0x24, 0xa6, 0x48, 0xb3, 0xf9, 0xf6]),
    (2138, [0x3d, 0xc1, 0x9b, 0x98, 0x30, 0x04, 0x77, 0x00, 0x6d, 0x4e, 0x34, 0x36, 0x75, 0x6d, 0xf3, 0x22]),
    (2139, [0xf3, 0x31, 0x19, 0xf0, 0x3c, 0x21, 0x4f, 0x1e, 0xbe, 0xf9, 0xb1, 0x0d, 0xfa, 0x6d, 0x86, 0xf9]),
    (2140, [0xab, 0xc8, 0xa6, 0x65, 0xb8, 0xcb, 0x01, 0x1c, 0x72, 0xa5, 0xf0, 0xbc, 0xb1, 0x2c, 0x66, 0x3c]),
    (2141, [0xd9, 0x63, 0x4a, 0xa0, 0xd3, 0x6b, 0x1b, 0x83, 0x5d, 0x21, 0x9a, 0xb3, 0xc1, 0x0f, 0xca, 0xae]),
    (2144, [0x41, 0x47, 0x8e, 0xb7, 0xd6, 0x9f, 0xf7, 0x66, 0xd5, 0x0b, 0x7a, 0x82, 0x80, 0xdf, 0x5f, 0x79]),
    (2151, [0xf3, 0xd3, 0xa1, 0xc6, 0xe5, 0xa3, 0xa8, 0x6f, 0x27, 0x06, 0x40, 0xa6, 0x00, 0x22, 0x48, 0x1a]),
    (2211, [0xc8, 0x33, 0x3d, 0x67, 0x12, 0x99, 0x87, 0x35, 0xd5, 0xf6, 0x60, 0x5a, 0x88, 0xa8, 0xd4, 0x50]),
    (2401, [0x92, 0x99, 0xd9, 0xb9, 0xe4, 0x8f, 0x78, 0xc2, 0x30, 0x88, 0x79, 0x77, 0xc4, 0xad, 0x13, 0xa0]),
    (2402, [0x1c, 0x44, 0xd2, 0xb0, 0x2b, 0x5a, 0x63, 0x44, 0xcb, 0xff, 0x26, 0x70, 0x70, 0xb9, 0xca, 0xc7]),
    (2465, [0x9a, 0x9d, 0xc9, 0xd3, 0xd0, 0xe3, 0xf3, 0xfd, 0xb9, 0x5b, 0x4e, 0x1e, 0x2c, 0xbc, 0x28, 0x00]),
    (2501, [0x9d, 0x9c, 0xec, 0x2a, 0x0b, 0xba, 0x87, 0x1a, 0x77, 0x15, 0x55, 0xbc, 0xf5, 0x8d, 0x54, 0x3c]),
    (2502, [0x8c, 0xf6, 0xcd, 0x02, 0x60, 0x20, 0x45, 0x69, 0xcd, 0xf2, 0x12, 0x9c, 0x53, 0x80, 0x89, 0x7b]),
    (2503, [0x93, 0xb2, 0x74, 0x87, 0xfc, 0xb3, 0x8c, 0x92, 0x00, 0x7a, 0xc1, 0x11, 0x76, 0x46, 0x59, 0xd0]),
    (2504, [0x88, 0xed, 0x4e, 0xc1, 0x8b, 0x46, 0xd6, 0x1d, 0x28, 0x66, 0x43, 0xe5, 0xee, 0x6e, 0x6e, 0x31]),
    (2506, [0x4b, 0xda, 0xfd, 0x8b, 0x1f, 0xca, 0x39, 0x5b, 0xf2, 0x9f, 0xd7, 0x9c, 0xcc, 0xae, 0xad, 0xc0]),
    (2507, [0xed, 0xca, 0x83, 0xbf, 0xda, 0xfe, 0x2d, 0x2a, 0xd2, 0x96, 0x12, 0x1e, 0x5d, 0x3b, 0x6c, 0x0e]),
    (2781, [0x84, 0xa8, 0x57, 0x2a, 0xe1, 0x3b, 0xca, 0xda, 0x03, 0x88, 0xc7, 0xfb, 0x1d, 0xdf, 0xd3, 0x1b]),
    (2821, [0xc4, 0xb5, 0x98, 0x47, 0xa9, 0x37, 0xb8, 0x86, 0x44, 0x76, 0x3f, 0x46, 0x86, 0xe0, 0x89, 0xdb]),
    (2822, [0x60, 0x77, 0xb6, 0x3f, 0xd0, 0x4d, 0x65, 0x0a, 0x7f, 0x70, 0x00, 0xe3, 0x98, 0x6a, 0xe5, 0x16]),
    (2823, [0x7d, 0xb9, 0x93, 0x81, 0x29, 0xe6, 0x95, 0x02, 0xa6, 0x6a, 0xc8, 0xc9, 0x19, 0xcd, 0x1d, 0xe9]),
    (2824, [0xbc, 0xdf, 0xb7, 0xbc, 0x89, 0x3e, 0x56, 0xb1, 0xd1, 0xdd, 0xe3, 0xd7, 0x8b, 0xb2, 0xcb, 0xeb]),
    (2825, [0x81, 0xe9, 0xfc, 0xba, 0xf8, 0x4a, 0x94, 0x3f, 0x4f, 0x9c, 0x86, 0x00, 0xde, 0xa9, 0xb5, 0xbe]),
    (2828, [0xbe, 0xd7, 0x40, 0x4b, 0x8c, 0x72, 0xe9, 0x39, 0xa3, 0x57, 0x6d, 0x51, 0x41, 0x32, 0x58, 0xeb]),
    (3171, [0x33, 0xa8, 0x04, 0x30, 0xae, 0xf2, 0x38, 0xd9, 0x73, 0x1e, 0xfb, 0x62, 0x6f, 0xf2, 0x93, 0xe6]),
    (3172, [0xb8, 0xd9, 0xbc, 0xc9, 0x2e, 0xac, 0x96, 0xda, 0x6a, 0xbd, 0xa4, 0x73, 0xba, 0x87, 0x3f, 0xfe]),
    (3173, [0x51, 0x0f, 0xfa, 0x0f, 0x1a, 0x52, 0x9b, 0x17, 0xbf, 0x72, 0xca, 0x7f, 0x8f, 0x42, 0xce, 0xad]),
    (3174, [0x83, 0xfc, 0x74, 0xaa, 0x34, 0x5c, 0xb6, 0xef, 0xe1, 0xfe, 0x5d, 0x49, 0xac, 0x2a, 0x38, 0x4d]),
    (3175, [0xc2, 0xdd, 0x34, 0x90, 0xfd, 0xb7, 0xe8, 0x92, 0xa7, 0xcb, 0x07, 0xa2, 0xad, 0x4a, 0x2e, 0xbd]),
    (3176, [0x34, 0x69, 0x12, 0x69, 0x95, 0xd6, 0x8c, 0xc6, 0x63, 0x99, 0x72, 0xd9, 0xd5, 0x35, 0x7a, 0xd6]),
    (3177, [0x52, 0x7f, 0x66, 0xad, 0x83, 0x77, 0x89, 0xa4, 0xbb, 0xec, 0xee, 0xc1, 0x03, 0xa5, 0xb9, 0x30]),
    (3331, [0xd3, 0xb5, 0x17, 0xf6, 0xf2, 0x73, 0xba, 0x77, 0xc7, 0x96, 0x9c, 0xfd, 0x96, 0x9d, 0x4c, 0x5f]),
    (3489, [0x9a, 0xc9, 0xc5, 0x82, 0xee, 0x9a, 0x1b, 0x4e, 0x19, 0x8a, 0x4c, 0xc4, 0x72, 0xc4, 0x51, 0xd2]),
    (3543, [0x88, 0xf2, 0xad, 0x61, 0xb2, 0xed, 0x16, 0x04, 0x82, 0x29, 0x81, 0xd4, 0x30, 0x08, 0x8c, 0x9a]),
    (3701, [0x7f, 0x5c, 0xfc, 0x49, 0x42, 0xdd, 0x22, 0x07, 0x38, 0x79, 0xa9, 0x29, 0xe0, 0x5c, 0x74, 0xf5]),
    (3702, [0xc9, 0x0b, 0x65, 0x15, 0x37, 0x55, 0x8e, 0x96, 0x58, 0x28, 0x48, 0xb0, 0xcf, 0x74, 0x16, 0xfe]),
    (3703, [0x07, 0xa9, 0xa9, 0x2e, 0xb8, 0xa4, 0x09, 0xd7, 0x21, 0x85, 0xce, 0x51, 0x46, 0x63, 0x60, 0xb1]),
    (3704, [0xd0, 0x59, 0x0a, 0xdf, 0x2b, 0x5f, 0x5f, 0xd7, 0x25, 0x0a, 0x2a, 0xc3, 0x9b, 0x34, 0xbd, 0xb4])]"

definition TABLE_02 :: "key_entry list" where
  "TABLE_02 = [
    (3705, [0x68, 0xbf, 0x25, 0xa4, 0xc8, 0x0c, 0xff, 0x08, 0x6c, 0xf8, 0x83, 0xbc, 0x40, 0x98, 0x2c, 0xb0]),
    (3706, [0x6d, 0x41, 0x58, 0xc2, 0xf3, 0xc5, 0x96, 0xae, 0xc1, 0x0a, 0xb4, 0x37, 0xfe, 0xeb, 0x17, 0x0b]),
    (3707, [0xe3, 0x80, 0x20, 0x83, 0x5b, 0x41, 0x40, 0x9e, 0x5c, 0xa7, 0xb5, 0x4f, 0x00, 0x50, 0x3b, 0xd2]),
    (3711, [0x09, 0xab, 0xb7, 0x04, 0x9f, 0x94, 0xaa, 0x3d, 0x13, 0xda, 0xf9, 0xad, 0x9d, 0x67, 0x36, 0x4a]),
    (3831, [0x4d, 0xc8, 0x19, 0xe6, 0x7e, 0xf8, 0x7a, 0xd6, 0x35, 0x25, 0xc6, 0x50, 0x2a, 0x9d, 0x6c, 0x14]),
    (3832, [0x1d, 0x4f, 0xa4, 0xc1, 0xd3, 0x3f, 0xcb, 0x29, 0xa6, 0x4a, 0xe8, 0x04, 0xa8, 0x06, 0x74, 0x2f]),
    (3833, [0xa8, 0xf1, 0x5e, 0x67, 0xf7, 0xdb, 0xda, 0xcb, 0x82, 0x2b, 0x71, 0xb1, 0xba, 0x14, 0x89, 0xc5]),
    (3834, [0x88, 0x00, 0xd6, 0x65, 0x21, 0x67, 0x00, 0x9e, 0xa5, 0x98, 0x82, 0xb6, 0x80, 0x8e, 0x5a, 0xfa]),
    (3835, [0x87, 0x4a, 0x5d, 0xb2, 0x08, 0xc6, 0xb2, 0xd3, 0x4f, 0x0e, 0xfa, 0x7f, 0xb1, 0x2e, 0x93, 0x16]),
    (3836, [0xf7, 0x6c, 0x09, 0xcb, 0xd3, 0xb8, 0x1b, 0x53, 0x75, 0xf2, 0xc0, 0x82, 0xc7, 0xbe, 0x13, 0x4c]),
    (3837, [0x05, 0xd8, 0x33, 0xb6, 0x63, 0xc4, 0xc8, 0xbe, 0x23, 0x7c, 0x92, 0xcc, 0x8c, 0x98, 0xe5, 0x90]),
    (3838, [0x10, 0xad, 0x55, 0x0b, 0xc3, 0x83, 0x1d, 0x5c, 0x06, 0x28, 0x7b, 0xc8, 0x0f, 0x8d, 0x99, 0xf0]),
    (3839, [0x74, 0x41, 0xfe, 0x39, 0x81, 0x00, 0x87, 0x3e, 0x0b, 0x09, 0x7a, 0x49, 0xb3, 0x8e, 0x99, 0x3d]),
    (4001, [0x52, 0x8e, 0x5c, 0xd0, 0x1d, 0x3f, 0xed, 0x31, 0x2a, 0xf2, 0x11, 0x8a, 0xd4, 0x4b, 0x0d, 0x24]),
    (4011, [0x52, 0x95, 0x4c, 0xb8, 0x25, 0x77, 0x67, 0x14, 0xde, 0x25, 0x4b, 0x1a, 0x0a, 0x6a, 0xf0, 0x0d]),
    (4201, [0xd0, 0xf0, 0xdb, 0x93, 0x16, 0xe5, 0xd7, 0x34, 0x1d, 0x5d, 0xdf, 0xb4, 0xe7, 0xe5, 0x88, 0x0f]),
    (4202, [0x0d, 0x12, 0x5a, 0xd8, 0xe0, 0x77, 0x97, 0x02, 0xa3, 0x91, 0xd8, 0xb9, 0x49, 0x06, 0xd9, 0x3e]),
    (4203, [0x8c, 0x7c, 0x56, 0x42, 0x51, 0x68, 0x42, 0x7a, 0xcc, 0x33, 0xdf, 0x8a, 0xf0, 0xc1, 0x62, 0x21]),
    (4211, [0x87, 0x72, 0x8c, 0x0a, 0x99, 0xbf, 0xd4, 0x2e, 0x81, 0xaa, 0xc1, 0xe3, 0x17, 0xcb, 0xf6, 0x3d]),
    (4231, [0x96, 0x56, 0xaa, 0x3c, 0xc1, 0xdd, 0x94, 0xce, 0x3d, 0x68, 0xd4, 0x0a, 0x2e, 0x20, 0x81, 0x84]),
    (4232, [0x14, 0x94, 0x93, 0xe2, 0xc8, 0x0d, 0x66, 0x7d, 0x41, 0x73, 0x86, 0xe0, 0x7b, 0xd3, 0x5c, 0x1f]),
    (4233, [0x52, 0x56, 0x5d, 0x86, 0xf2, 0xbf, 0x2c, 0x19, 0x6f, 0x29, 0x7e, 0x18, 0x08, 0x87, 0xdf, 0xad]),
    (4234, [0xa5, 0xac, 0x5a, 0x76, 0x7b, 0xc4, 0x32, 0x04, 0x14, 0x2f, 0xee, 0xae, 0x1b, 0x55, 0x7f, 0xc6]),
    (4291, [0x22, 0xdb, 0x83, 0x5b, 0x58, 0xd3, 0xf5, 0x49, 0x44, 0x73, 0x6d, 0x2f, 0x5c, 0x12, 0x38, 0xa8]),
    (4321, [0x2f, 0xbd, 0x86, 0xee, 0xb9, 0x0f, 0x44, 0x15, 0xb4, 0xdc, 0x07, 0x9c, 0x69, 0xf8, 0x33, 0x3a]),
    (4421, [0xc4, 0x8e, 0xbf, 0xf3, 0x0a, 0x98, 0xd2, 0x21, 0xa3, 0xb2, 0x47, 0x73, 0xca, 0x50, 0x79, 0x3e]),
    (4422, [0xc3, 0x26, 0x06, 0x40, 0x31, 0x1e, 0xb4, 0x25, 0xba, 0x1e, 0xf0, 0xed, 0xf4, 0x7c, 0xb3, 0x49]),
    (4423, [0x7e, 0x14, 0xff, 0x94, 0x39, 0x2c, 0x7b, 0xc2, 0xc2, 0xa7, 0x26, 0x50, 0x6d, 0x99, 0xf6, 0x64]),
    (4424, [0x4f, 0x27, 0xb9, 0xac, 0x21, 0x5b, 0xa9, 0x45, 0x60, 0x91, 0xcd, 0xeb, 0x9f, 0x68, 0x89, 0x92]),
    (4425, [0x1e, 0x03, 0x19, 0xaa, 0xe3, 0xd7, 0xfe, 0x11, 0x0a, 0x74, 0x89, 0xa0, 0x24, 0xcb, 0x88, 0x5e]),
    (4426, [0x66, 0x4b, 0xf4, 0xb4, 0xea, 0x05, 0x23, 0x95, 0xd9, 0x38, 0x89, 0x06, 0xe7, 0xa9, 0x4d, 0x34]),
    (4427, [0x5a, 0xee, 0x66, 0x52, 0xff, 0x2d, 0x22, 0xb7, 0x9d, 0xa1, 0xa3, 0xa2, 0xae, 0xc4, 0x75, 0x70]),
    (4428, [0xdd, 0xee, 0xce, 0xb7, 0x08, 0xec, 0x56, 0x00, 0xf3, 0xc4, 0xaf, 0xc3, 0xfb, 0x1e, 0x26, 0x02]),
    (4429, [0xa7, 0xdf, 0xd6, 0xef, 0xdc, 0x83, 0x68, 0x24, 0x97, 0xb1, 0xe4, 0x58, 0x70, 0x41, 0x25, 0xb9]),
    (4430, [0x30, 0xa6, 0xcd, 0x62, 0x71, 0x0f, 0x98, 0x42, 0x23, 0xa6, 0x4e, 0xbf, 0xe1, 0xa1, 0x73, 0x4b]),
    (4431, [0x66, 0x78, 0x9a, 0xbf, 0xcb, 0x50, 0xc3, 0x81, 0x09, 0x78, 0x4c, 0x97, 0x89, 0x4a, 0xbc, 0xf8]),
    (4432, [0xda, 0xa1, 0x4a, 0x92, 0xaf, 0xc2, 0xfa, 0x81, 0x4f, 0xc7, 0x3f, 0xae, 0x36, 0x99, 0x15, 0x1b]),
    (4541, [0x01, 0xcc, 0x47, 0xd3, 0xbe, 0x2f, 0x78, 0x76, 0xc5, 0x49, 0xad, 0x85, 0x0b, 0xfc, 0x33, 0x38]),
    (4542, [0xfc, 0x37, 0x16, 0xdb, 0x24, 0x03, 0x57, 0xd2, 0x8f, 0x65, 0x80, 0xd7, 0xa1, 0xb7, 0x98, 0x65]),
    (4543, [0x64, 0xd8, 0xab, 0xa5, 0xdf, 0xf2, 0xb1, 0xb4, 0xe2, 0xfb, 0x33, 0xb2, 0xd9, 0x03, 0xad, 0xb1]),
    (4544, [0x40, 0xd1, 0x6a, 0x3d, 0xcc, 0x9e, 0xd0, 0x08, 0x58, 0xe5, 0x15, 0x30, 0x84, 0xd7, 0xcb, 0xcb]),
    (4545, [0x13, 0x27, 0x72, 0x30, 0x4c, 0x27, 0x5e, 0x55, 0x34, 0x56, 0xce, 0x9e, 0xd4, 0x39, 0xcc, 0xb5]),
    (4546, [0xe5, 0xe0, 0x01, 0xf4, 0x5d, 0x63, 0x08, 0x74, 0xdc, 0x97, 0x03, 0x98, 0x75, 0x25, 0x3d, 0x06]),
    (4547, [0x14, 0x09, 0x7b, 0xea, 0xd2, 0xc7, 0xd7, 0x06, 0x62, 0x54, 0xb7, 0xff, 0xba, 0xb7, 0x66, 0x5f]),
    (4548, [0x5c, 0x98, 0x24, 0xaa, 0xea, 0xbb, 0xd4, 0xb2, 0x5e, 0xfa, 0xbb, 0xf1, 0x8a, 0xd1, 0xb5, 0x85]),
    (4551, [0x35, 0xfc, 0xde, 0xe3, 0xb4, 0x2e, 0x46, 0x71, 0xe2, 0x14, 0x45, 0x81, 0xec, 0xa5, 0xb9, 0xeb]),
    (4552, [0xf6, 0xfc, 0x0e, 0x46, 0xc7, 0x08, 0x0f, 0xc2, 0x74, 0x98, 0xf1, 0x48, 0x1b, 0x6c, 0x06, 0x62]),
    (4553, [0x2e, 0xb7, 0xe0, 0x6e, 0x97, 0xe3, 0xbc, 0x25, 0xa0, 0x91, 0x86, 0x4d, 0x8b, 0x81, 0xb7, 0x42]),
    (4554, [0x9d, 0x51, 0x74, 0x49, 0x66, 0xb3, 0x6f, 0xf5, 0xf9, 0x82, 0xbe, 0x40, 0x92, 0xdd, 0x59, 0xd3]),
    (4555, [0x32, 0x67, 0x87, 0x70, 0x29, 0x8a, 0x6f, 0xb6, 0x0e, 0x68, 0x13, 0x07, 0x74, 0xbe, 0x58, 0x64]),
    (4556, [0xc1, 0xbe, 0x9d, 0x94, 0x1a, 0x71, 0x4f, 0x72, 0x82, 0x5b, 0xce, 0xdf, 0xa9, 0x95, 0xb9, 0xac]),
    (4701, [0x8c, 0x6d, 0xa8, 0x31, 0x2d, 0xa2, 0x03, 0x07, 0x71, 0x40, 0xd0, 0xef, 0xa8, 0xfb, 0xf8, 0x29]),
    (4702, [0x02, 0x2d, 0xa2, 0xec, 0xf1, 0xab, 0x01, 0xe8, 0x30, 0x28, 0x60, 0x7c, 0x82, 0x97, 0x26, 0x19]),
    (4703, [0x97, 0xda, 0xfa, 0x0c, 0xe3, 0xb2, 0x0b, 0x91, 0x14, 0x38, 0xcd, 0x77, 0x44, 0x4b, 0xec, 0xe8]),
    (4704, [0x39, 0x35, 0xef, 0x87, 0x3a, 0x71, 0x81, 0xb7, 0x86, 0xba, 0x5e, 0xf1, 0x2d, 0x5e, 0xf6, 0x2a]),
    (4705, [0x90, 0x10, 0x4a, 0xc6, 0x1b, 0x42, 0xb1, 0xe1, 0x08, 0x9b, 0x6d, 0xb0, 0x54, 0xfd, 0x86, 0xc4]),
    (4706, [0x3c, 0x47, 0xda, 0xf2, 0xac, 0xf2, 0xc6, 0xb8, 0x59, 0xf9, 0x9e, 0x11, 0x3d, 0xb0, 0x51, 0xd4]),
    (4707, [0xd1, 0x2c, 0xb9, 0xfb, 0xd1, 0x0a, 0x77, 0x02, 0xd3, 0xe1, 0x65, 0x88, 0x90, 0x9a, 0x4d, 0x3f]),
    (4708, [0x85, 0x11, 0xbf, 0xce, 0xac, 0x3d, 0x86, 0xc3, 0xff, 0x1b, 0x6c, 0x48, 0xba, 0x87, 0x99, 0x3d]),
    (4801, [0xce, 0x34, 0x54, 0x36, 0xce, 0xbf, 0xa9, 0xa1, 0x64, 0x20, 0xa1, 0x36, 0xbf, 0xb9, 0xce, 0x14]),
    (4802, [0xbe, 0x7d, 0xa0, 0x40, 0x84, 0x19, 0x8f, 0xbd, 0x79, 0x2c, 0xfb, 0x14, 0x97, 0xfc, 0x89, 0xb5]),
    (4803, [0xc6, 0xe5, 0xc0, 0x5d, 0x71, 0xcf, 0xe2, 0xe6, 0xbe, 0x4c, 0x79, 0x4f, 0x57, 0x80, 0x95, 0x5f]),
    (4804, [0x2d, 0xd9, 0xad, 0x6b, 0x9e, 0x43, 0x00, 0xf1, 0x09, 0x60, 0x2c, 0x76, 0xa6, 0xa6, 0x79, 0x47]),
    (4805, [0x03, 0xfe, 0xe2, 0xac, 0x00, 0x65, 0x6f, 0x40, 0x47, 0x4d, 0x71, 0xca, 0xa2, 0xd8, 0xde, 0x49]),
    (4815, [0x1c, 0x02, 0xda, 0xf4, 0x8b, 0x8c, 0x05, 0xc6, 0x08, 0x6a, 0x54, 0x7e, 0x9f, 0xdd, 0xa4, 0x1f]),
    (4921, [0xbd, 0x7a, 0x43, 0xd8, 0x02, 0x70, 0xc8, 0x9a, 0x8a, 0x87, 0xa5, 0x8b, 0x75, 0x8c, 0xf6, 0x49]),
    (4922, [0xe4, 0xba, 0xc1, 0xaa, 0xbe, 0xff, 0x5a, 0x34, 0xa2, 0x07, 0xef, 0xde, 0x6a, 0x29, 0x9e, 0xd5]),
    (6036, [0x7e, 0x07, 0x54, 0xce, 0x8f, 0xf5, 0xb5, 0xb2, 0x92, 0x19, 0xed, 0x61, 0xb3, 0xf6, 0xe9, 0x8e]),
    (6037, [0x96, 0x3f, 0x3a, 0x8f, 0xe9, 0xc1, 0xad, 0x59, 0xfe, 0x31, 0xf0, 0xc2, 0xd6, 0x1a, 0x1c, 0xa5]),
    (6252, [0xc3, 0x7b, 0x46, 0x6e, 0x96, 0x8a, 0x1e, 0x67, 0xb4, 0x3c, 0xdc, 0x80, 0x5b, 0x91, 0x18, 0x85]),
    (6371, [0x22, 0xd0, 0x94, 0x11, 0xe6, 0x65, 0xfb, 0x1b, 0x2d, 0xd5, 0x16, 0xc7, 0x07, 0x89, 0x4e, 0x37]),
    (6501, [0x69, 0xd7, 0x88, 0x51, 0x68, 0xff, 0x47, 0x7f, 0x91, 0xb3, 0x9b, 0x8a, 0xf1, 0x3c, 0xa4, 0x18]),
    (6502, [0x85, 0xe9, 0xd3, 0x5d, 0xe6, 0x95, 0x9e, 0x58, 0x8b, 0xcd, 0xe2, 0xec, 0x56, 0x44, 0x94, 0x7b]),
    (6503, [0x09, 0xa2, 0x56, 0x9d, 0x59, 0x86, 0x42, 0x84, 0xf7, 0x3c, 0x97, 0x81, 0x7c, 0x14, 0xa1, 0xaa]),
    (6504, [0x82, 0x5b, 0xc6, 0x34, 0x10, 0xba, 0x6b, 0x38, 0xfe, 0x3a, 0x8f, 0xf0, 0x2c, 0x94, 0xe2, 0x35]),
    (6505, [0x4d, 0x79, 0x8b, 0xca, 0xe7, 0xfa, 0x83, 0x74, 0x3b, 0x8a, 0xdd, 0x98, 0x39, 0xa8, 0x0f, 0xd1]),
    (6506, [0x41, 0x28, 0x5f, 0xbb, 0x88, 0x96, 0x4a, 0x55, 0x10, 0xb2, 0x35, 0x6f, 0xe9, 0x5d, 0x95, 0x02]),
    (6507, [0x6e, 0x9c, 0x62, 0x47, 0x03, 0xf0, 0x84, 0xc3, 0x45, 0x9e, 0x1c, 0xd9, 0x16, 0xc6, 0xa2, 0x85]),
    (6511, [0x4b, 0x4e, 0x90, 0xae, 0x09, 0xb7, 0xc5, 0xef, 0x0a, 0xfe, 0x7a, 0x89, 0xff, 0x33, 0x31, 0xa4]),
    (6512, [0x5d, 0xc1, 0xb6, 0xac, 0x89, 0x8b, 0xb9, 0xe2, 0x10, 0xe2, 0xdf, 0x63, 0xba, 0xe5, 0x8e, 0x59]),
    (6513, [0x7a, 0x05, 0x2a, 0x8e, 0x48, 0x8f, 0xf2, 0xab, 0xc4, 0x1d, 0xc9, 0xf4, 0xf1, 0xb9, 0x9b, 0xb0]),
    (6514, [0x4e, 0x41, 0xbd, 0x48, 0xbc, 0x2d, 0xca, 0x02, 0x3d, 0x59, 0xb2, 0x02, 0x52, 0x9c, 0xbe, 0xd5]),
    (6515, [0x59, 0xca, 0xe8, 0x35, 0x97, 0xa7, 0x7e, 0x29, 0x8a, 0xd9, 0x1b, 0x2f, 0x5d, 0x2c, 0xbc, 0xb8]),
    (6516, [0xe8, 0xf9, 0xcd, 0x5e, 0x43, 0x0a, 0x82, 0x5f, 0x65, 0x8f, 0x07, 0x69, 0xcb, 0x30, 0x4a, 0x51]),
    (6517, [0x54, 0x73, 0x49, 0xe0, 0x0a, 0x35, 0x5a, 0x40, 0x8d, 0xb1, 0x22, 0xb8, 0x8d, 0x5e, 0x95, 0x61]),
    (6521, [0x79, 0x97, 0x92, 0x30, 0x2f, 0xac, 0x8f, 0xa1, 0x7c, 0x15, 0x4f, 0x35, 0x76, 0x2b, 0xe2, 0xdc]),
    (6522, [0x2a, 0x55, 0x08, 0x58, 0x12, 0x60, 0xe7, 0xd9, 0xda, 0x01, 0x27, 0x2b, 0xda, 0x62, 0xf2, 0x07]),
    (6523, [0x33, 0x33, 0x0c, 0xdc, 0x77, 0x53, 0x96, 0x18, 0x2c, 0x11, 0xb2, 0x9a, 0x8e, 0x3f, 0x07, 0x2b]),
    (6524, [0xf5, 0xf7, 0x07, 0x5f, 0x58, 0x23, 0xf1, 0x48, 0xce, 0xc9, 0x92, 0x12, 0x1a, 0xde, 0x1b, 0x29]),
    (6525, [0x47, 0x17, 0x35, 0x67, 0x0c, 0xec, 0xa4, 0xd3, 0xda, 0x54, 0x95, 0xee, 0x7d, 0xc0, 0xcd, 0xb0]),
    (6526, [0xb7, 0xbb, 0x1b, 0xbc, 0xdc, 0x58, 0x24, 0xfe, 0x6e, 0x28, 0xc5, 0xde, 0x7b, 0xfb, 0xa5, 0x56]),
    (6527, [0xff, 0x87, 0xee, 0x65, 0xfc, 0x45, 0x68, 0xfb, 0xcf, 0x41, 0x9f, 0x0e, 0x1b, 0x67, 0x66, 0x41]),
    (6601, [0x85, 0x21, 0xdf, 0xcd, 0x0d, 0x41, 0xfa, 0xf2, 0x1c, 0x59, 0x79, 0x62, 0xec, 0xf7, 0x69, 0xd7]),
    (6602, [0xa6, 0x0c, 0xe3, 0x36, 0xa7, 0xa3, 0x6c, 0x43, 0xe4, 0x1f, 0x8a, 0x20, 0x23, 0x62, 0x12, 0x5e]),
    (6851, [0x68, 0x98, 0xc0, 0x1b, 0xe6, 0x55, 0xa4, 0x01, 0xb1, 0xaf, 0x48, 0x86, 0xa2, 0x7e, 0x12, 0x8f]),
    (6861, [0x37, 0x1a, 0x52, 0x2b, 0x56, 0x9f, 0x7c, 0x9e, 0xb8, 0xb4, 0x5d, 0xa8, 0xcb, 0x40, 0xb2, 0xe2]),
    (6862, [0x18, 0x1e, 0x9b, 0xf0, 0x92, 0x65, 0xd7, 0xd3, 0xd6, 0x89, 0x52, 0x77, 0x19, 0x48, 0x0a, 0xbc]),
    (6863, [0xa2, 0xd3, 0x63, 0x23, 0x15, 0xbe, 0x43, 0x05, 0x22, 0xd7, 0x92, 0xb3, 0x6d, 0xfa, 0x7c, 0x27]),
    (6871, [0xea, 0xda, 0xdb, 0xd0, 0xdd, 0x7a, 0xa9, 0xdf, 0x91, 0x28, 0x25, 0xdf, 0x5e, 0x67, 0x3d, 0x19]),
    (6872, [0x01, 0x1a, 0x92, 0x66, 0x17, 0xa4, 0x84, 0x8f, 0x9d, 0xdf, 0xd6, 0x1f, 0x75, 0xa0, 0xda, 0xe0]),
    (6873, [0x94, 0x03, 0x00, 0xe4, 0x0a, 0xc2, 0x55, 0x9b, 0xda, 0xd8, 0x77, 0xae, 0x75, 0xde, 0x7f, 0x90]),
    (6874, [0x73, 0x13, 0x76, 0xca, 0x10, 0x3e, 0x29, 0x9b, 0x10, 0x7e, 0x1f, 0x71, 0x84, 0x27, 0x38, 0x2a]),
    (6881, [0x60, 0x35, 0x56, 0xe4, 0x4e, 0xeb, 0xa4, 0x71, 0xee, 0xde, 0xbc, 0x98, 0xcc, 0xaa, 0x78, 0xb4]),
    (6882, [0x0d, 0x12, 0x0d, 0x87, 0x24, 0x7e, 0xa4, 0xea, 0x06, 0x60, 0xf1, 0x30, 0x23, 0x7a, 0xda, 0xa3]),
    (6883, [0x2e, 0x97, 0x02, 0xfe, 0x45, 0xd7, 0xee, 0x85, 0xc0, 0x7f, 0x4b, 0x02, 0x7d, 0xc9, 0xa2, 0xbf]),
    (6884, [0x90, 0x05, 0x79, 0x6a, 0x7d, 0xa1, 0x53, 0x8e, 0x48, 0x8e, 0x82, 0xf7, 0xfa, 0xe0, 0x9d, 0xfe]),
    (6885, [0xa5, 0x56, 0x72, 0x69, 0xe1, 0xe9, 0x78, 0x06, 0x6b, 0x41, 0x37, 0x64, 0x68, 0xad, 0x8f, 0x89]),
    (6886, [0x9e, 0x06, 0x45, 0x7c, 0x88, 0x7a, 0x1a, 0xb2, 0xdb, 0x96, 0xdf, 0x2b, 0x3c, 0x6a, 0xc6, 0xb4]),
    (6887, [0x62, 0x9f, 0x71, 0x74, 0x43, 0xf1, 0xc5, 0xc7, 0xe2, 0x98, 0xff, 0x95, 0x12, 0xf3, 0xd9, 0x5f]),
    (6888, [0xab, 0x97, 0x26, 0x30, 0xe9, 0x7c, 0xee, 0xbf, 0xec, 0x31, 0xf8, 0x2f, 0xf7, 0x5c, 0x4f, 0x1c]),
    (6889, [0xd5, 0x57, 0x77, 0x04, 0x6c, 0x41, 0x99, 0x1e, 0x44, 0x0f, 0x13, 0x29, 0x1d, 0xb3, 0xbb, 0x7c]),
    (6890, [0xa3, 0xa9, 0x42, 0xc8, 0x94, 0xc0, 0xb7, 0xa4, 0x8b, 0x77, 0x4f, 0x46, 0xb0, 0x57, 0xc4, 0x60]),
    (6891, [0xf2, 0x8c, 0xa8, 0xdd, 0x7c, 0xae, 0x15, 0x21, 0x88, 0x59, 0x15, 0x57, 0x13, 0xd7, 0xa2, 0x0e]),
    (6901, [0x95, 0x7e, 0x0e, 0x21, 0x0a, 0x3a, 0xb1, 0x24, 0x0b, 0xe3, 0x26, 0x05, 0x10, 0x77, 0xee, 0xe6]),
    (6911, [0xe1, 0x90, 0x83, 0x3b, 0xc1, 0x12, 0x90, 0xfb, 0x82, 0xc1, 0xd5, 0x64, 0x61, 0xc8, 0x95, 0x95]),
    (6921, [0x54, 0xd5, 0x07, 0xd2, 0xbb, 0x52, 0x2a, 0xff, 0x82, 0x6d, 0xbf, 0xe0, 0xbd, 0x16, 0x8d, 0xbf]),
    (6981, [0x44, 0xba, 0xfc, 0xa5, 0x2d, 0x15, 0xf6, 0x0b, 0xe7, 0x33, 0x9e, 0x59, 0xf3, 0x28, 0x86, 0x2b]),
    (6982, [0xae, 0x5f, 0xd0, 0x0e, 0x8f, 0xed, 0xff, 0xf9, 0x8d, 0x04, 0xfe, 0x19, 0x75, 0xce, 0x78, 0x44]),
    (7001, [0x42, 0x8f, 0x04, 0x48, 0xdf, 0x0a, 0x78, 0x8a, 0xc0, 0xb4, 0x33, 0x3e, 0x25, 0xf1, 0xbe, 0x76]),
    (7002, [0xa0, 0x8d, 0x6e, 0x86, 0x2f, 0x0a, 0x8c, 0x9a, 0x3e, 0x4e, 0xe7, 0x87, 0x4a, 0xb3, 0x86, 0x25]),
    (7003, [0x9e, 0xd6, 0x7c, 0xde, 0x56, 0x4b, 0x31, 0x2c, 0xe1, 0x74, 0x64, 0x06, 0x61, 0x68, 0xa5, 0xdd]),
    (7004, [0x69, 0xfd, 0x83, 0xd7, 0x78, 0x2d, 0xd5, 0xef, 0xcc, 0x28, 0xf0, 0xe2, 0x15, 0x4f, 0xd6, 0x3d]),
    (7005, [0x32, 0xe9, 0xb3, 0xcc, 0xd8, 0x7a, 0xa0, 0x97, 0x0b, 0x34, 0xa8, 0x76, 0x16, 0x41, 0xf7, 0x27]),
    (7011, [0xb0, 0x19, 0xf9, 0x63, 0xdf, 0xb3, 0x00, 0x85, 0x38, 0x05, 0xc7, 0xcf, 0xd1, 0x5d, 0xd0, 0xbc]),
    (7012, [0xa6, 0xdd, 0x8b, 0x4a, 0x5f, 0xed, 0x42, 0x70, 0x22, 0x54, 0x8f, 0x18, 0xd7, 0x37, 0x35, 0xac]),
    (7013, [0x92, 0x51, 0xc0, 0xce, 0xaf, 0xd6, 0xb6, 0x20, 0x23, 0xb5, 0x08, 0x0c, 0xfb, 0x25, 0x98, 0x61]),
    (7021, [0x61, 0x0d, 0xd8, 0xb7, 0x81, 0x62, 0xd2, 0x8c, 0x84, 0x4c, 0x28, 0x72, 0x4d, 0x45, 0x27, 0xc7]),
    (7022, [0xcb, 0xcc, 0x07, 0x33, 0xb9, 0xd4, 0x9f, 0x82, 0xf9, 0xdb, 0x89, 0xde, 0xab, 0x86, 0xac, 0xd9]),
    (7023, [0x82, 0xfe, 0x94, 0x63, 0x36, 0xec, 0x14, 0xf3, 0x7a, 0x89, 0x57, 0x97, 0x3c, 0x5a, 0x96, 0x01]),
    (7024, [0x90, 0x55, 0x37, 0xc7, 0x1c, 0x4a, 0x7a, 0xf5, 0x3f, 0xce, 0xdd, 0x98, 0x7b, 0x31, 0x32, 0x09]),
    (7025, [0x22, 0xa9, 0xb4, 0x8e, 0xf8, 0x99, 0x5a, 0x64, 0xda, 0x94, 0xe2, 0x6c, 0x1b, 0xce, 0xfc, 0x8b]),
    (7026, [0xac, 0x52, 0x41, 0x7a, 0x98, 0xfd, 0x3a, 0xe7, 0x9b, 0x1a, 0x3d, 0x7b, 0x9a, 0xd5, 0x26, 0x3a]),
    (7061, [0x08, 0x45, 0xff, 0x91, 0xb5, 0xf8, 0xf6, 0x46, 0x8e, 0x69, 0x13, 0x63, 0xfe, 0x7b, 0x45, 0xa4]),
    (7062, [0xe8, 0xa6, 0xc4, 0xe1, 0x0c, 0x5a, 0x40, 0xdf, 0xf2, 0x29, 0x93, 0x1a, 0x2b, 0xe1, 0x0d, 0x18]),
    (7063, [0x81, 0x64, 0x03, 0xd1, 0xa8, 0x1a, 0xdd, 0xcf, 0x1d, 0x01, 0xfd, 0x18, 0xa6, 0x46, 0xfe, 0x3e]),
    (7111, [0x7d, 0xda, 0xbe, 0xa9, 0x65, 0x80, 0xa7, 0xf1, 0xe6, 0x45, 0x77, 0x9b, 0x84, 0xcb, 0x0b, 0xbb]),
    (7112, [0x40, 0xac, 0x7b, 0xc1, 0x46, 0xf8, 0x94, 0x8f, 0x37, 0x18, 0xc5, 0xf0, 0x73, 0x6f, 0xdd, 0x32]),
    (7113, [0x36, 0x40, 0x20, 0xa4, 0xb2, 0x2f, 0x01, 0x8c, 0x79, 0xfb, 0xb1, 0xd7, 0x00, 0x34, 0x29, 0x84]),
    (7114, [0x1f, 0x02, 0xd4, 0x96, 0xab, 0xb2, 0xa9, 0xa1, 0xcb, 0x03, 0x72, 0x24, 0xee, 0x74, 0x46, 0x61]),
    (7115, [0x4c, 0xa0, 0x11, 0x83, 0x7f, 0x60, 0xa0, 0xfe, 0x9f, 0x48, 0xf7, 0x19, 0x95, 0x27, 0xbd, 0xc7]),
    (7116, [0x19, 0x5c, 0x3a, 0xb1, 0x84, 0x33, 0x94, 0x2d, 0x1c, 0x86, 0x7e, 0xaf, 0x6b, 0xa5, 0x46, 0xcf]),
    (7117, [0x6e, 0x44, 0xca, 0xf7, 0xbb, 0x06, 0xe7, 0xb6, 0x58, 0xf5, 0x20, 0x1a, 0xc6, 0xcb, 0xf1, 0xb9]),
    (7118, [0xa2, 0xf7, 0x70, 0xb2, 0x7d, 0xe3, 0xea, 0xf3, 0xa0, 0x08, 0x0b, 0x89, 0xcc, 0x1c, 0x15, 0xca]),
    (7119, [0x8f, 0x97, 0xf2, 0xe4, 0x65, 0x04, 0xe5, 0x66, 0xe5, 0xb2, 0x59, 0xc8, 0xd4, 0x1c, 0x88, 0x22]),
    (7202, [0x2a, 0x16, 0xd1, 0xe0, 0x7a, 0x5a, 0x11, 0x77, 0x2d, 0x61, 0x3c, 0x99, 0xca, 0x4b, 0xb9, 0xcc]),
    (7671, [0x17, 0xf9, 0x44, 0x2c, 0xb8, 0x43, 0x32, 0x1e, 0x19, 0x4d, 0xd1, 0x83, 0xe9, 0xf4, 0xca, 0x45]),
    (7672, [0xab, 0x3a, 0xbf, 0x4d, 0xf6, 0xd7, 0xe5, 0xbf, 0x22, 0x52, 0xa1, 0xb5, 0x2d, 0xcd, 0xb2, 0xa2]),
    (7673, [0x94, 0xa9, 0x64, 0x5d, 0xc7, 0x81, 0x60, 0xf6, 0x75, 0xd2, 0xef, 0xa4, 0xfb, 0xfe, 0xc0, 0x52]),
    (7674, [0x10, 0x5a, 0x3c, 0x98, 0x06, 0x83, 0x50, 0xa5, 0x37, 0xde, 0xf4, 0xaa, 0x09, 0x22, 0x0a, 0x9b]),
    (7675, [0xe6, 0x15, 0x69, 0x7c, 0x94, 0xc5, 0x07, 0x9f, 0x1c, 0xbc, 0xa6, 0xff, 0xd5, 0xe4, 0x32, 0x35])]"

definition TABLE_03 :: "key_entry list" where
  "TABLE_03 = [
    (7676, [0x93, 0xd1, 0xdc, 0x7e, 0xa7, 0x43, 0xee, 0x8c, 0x2e, 0x7e, 0x82, 0xe9, 0x93, 0xc4, 0x92, 0x54]),
    (7677, [0x31, 0xec, 0x36, 0x91, 0xb3, 0x26, 0x0d, 0x03, 0xea, 0x97, 0x90, 0xf1, 0xed, 0x3d, 0xef, 0xae]),
    (7678, [0x70, 0x62, 0xa3, 0xa6, 0x52, 0x29, 0xb8, 0x63, 0xce, 0xff, 0x63, 0xdb, 0xf8, 0x59, 0xbd, 0x9b]),
    (7679, [0x0a, 0xce, 0x45, 0xfd, 0x50, 0x71, 0xe6, 0x01, 0x09, 0x32, 0x0d, 0xc5, 0x5e, 0x60, 0x41, 0xd6]),
    (7701, [0xfb, 0x24, 0xf6, 0x6a, 0xfa, 0x3f, 0x10, 0x32, 0xd1, 0xf6, 0x1a, 0x50, 0x28, 0xb3, 0x3f, 0x10]),
    (7702, [0x07, 0x1c, 0x54, 0xc7, 0x4f, 0xee, 0x0b, 0x79, 0x9c, 0x27, 0xed, 0x2e, 0x3a, 0xd5, 0xaf, 0xb0]),
    (7703, [0x95, 0x86, 0x1e, 0x7f, 0x67, 0x61, 0x72, 0x0f, 0xc7, 0xa7, 0xc9, 0x2a, 0xcd, 0xa6, 0xdc, 0x07]),
    (7721, [0x5e, 0x41, 0x96, 0xd6, 0x51, 0x14, 0x56, 0x81, 0x18, 0x0e, 0xb4, 0x12, 0xe3, 0x7d, 0x1d, 0x72]),
    (7722, [0x3b, 0xa2, 0x7f, 0x33, 0x58, 0x65, 0x7e, 0xe9, 0xeb, 0xd5, 0x7e, 0xdf, 0xc1, 0x6b, 0x4f, 0x13]),
    (7741, [0x1b, 0x6e, 0xd9, 0x02, 0x60, 0x4b, 0x7f, 0xf7, 0x9d, 0xaa, 0x0a, 0x9d, 0x49, 0x4a, 0x0c, 0x9f]),
    (7751, [0x2b, 0x99, 0x35, 0xee, 0x45, 0x82, 0x33, 0x4a, 0x73, 0x6f, 0x78, 0x44, 0x50, 0xe3, 0x26, 0xab]),
    (7865, [0xe7, 0x31, 0x19, 0x98, 0xb9, 0x38, 0x8f, 0x43, 0xb5, 0x63, 0x93, 0x53, 0xb2, 0xf8, 0x2a, 0x0b]),
    (7866, [0xe0, 0xa9, 0xc8, 0xd6, 0x47, 0xbd, 0xf2, 0x88, 0x59, 0x73, 0x47, 0xb5, 0x84, 0x8b, 0xfb, 0x34]),
    (7962, [0x3a, 0x85, 0x5c, 0xe0, 0x46, 0x73, 0xdc, 0xaa, 0x73, 0x06, 0xfe, 0x28, 0x3a, 0x49, 0xfe, 0xa9]),
    (7963, [0x9b, 0xb1, 0xa3, 0xf6, 0x46, 0xfc, 0xbb, 0xa3, 0x57, 0x28, 0x1d, 0xbb, 0x51, 0xd0, 0xc7, 0xac]),
    (7964, [0xf2, 0x0f, 0x2b, 0x1e, 0x24, 0xa9, 0x53, 0x42, 0xa2, 0xda, 0xa9, 0xbe, 0x87, 0x48, 0x93, 0x04]),
    (7965, [0xff, 0x1a, 0x15, 0x0f, 0x3c, 0x1e, 0x3d, 0x73, 0x77, 0x37, 0x8d, 0xee, 0x7b, 0xa1, 0x26, 0xcd]),
    (7966, [0x35, 0x82, 0x89, 0xf6, 0xa4, 0x83, 0x91, 0xc1, 0xfb, 0xc2, 0xb5, 0x53, 0x8f, 0xcf, 0xe5, 0xb9]),
    (8001, [0x2a, 0x16, 0xc2, 0x02, 0x40, 0x38, 0xfd, 0x56, 0xbd, 0x07, 0x98, 0x0d, 0xc5, 0x6a, 0x2b, 0x00]),
    (8002, [0x3a, 0x09, 0x0c, 0x77, 0x99, 0x33, 0xb7, 0xba, 0x4a, 0x6a, 0x7d, 0xba, 0x85, 0xd0, 0x47, 0x82]),
    (8003, [0x92, 0xab, 0x1d, 0x20, 0x8e, 0xd8, 0xd6, 0xc1, 0xd7, 0x17, 0xf6, 0x6a, 0xba, 0x99, 0xb3, 0x56]),
    (8101, [0xd2, 0xd0, 0xc2, 0x41, 0x45, 0xc7, 0x96, 0x3d, 0xbb, 0x83, 0xfc, 0xab, 0x56, 0xe6, 0x31, 0xc3]),
    (8102, [0x74, 0x5e, 0x2f, 0x22, 0xa3, 0x99, 0x99, 0x9c, 0x9f, 0x18, 0x17, 0xed, 0x22, 0xe7, 0x87, 0x2d]),
    (8103, [0x99, 0xe6, 0x03, 0x26, 0x3f, 0x6c, 0x7f, 0xa3, 0x27, 0x92, 0x08, 0x5b, 0x6f, 0x25, 0xc5, 0xd8]),
    (8104, [0xb7, 0x84, 0xd7, 0x9b, 0xf7, 0x60, 0x67, 0x73, 0x89, 0x19, 0x9b, 0x8f, 0xfe, 0x67, 0x77, 0x60]),
    (8105, [0xa3, 0xd6, 0xaa, 0xae, 0xba, 0xf5, 0x65, 0x79, 0x27, 0xa2, 0xdd, 0x99, 0x72, 0x4d, 0x89, 0x5c]),
    (8106, [0xf2, 0x66, 0xa2, 0xaa, 0x3c, 0xab, 0xd1, 0x1b, 0xf5, 0xb4, 0x4c, 0xa8, 0x63, 0x16, 0x60, 0xd2]),
    (8107, [0xff, 0x31, 0x0a, 0xeb, 0x31, 0x5b, 0x1c, 0xfc, 0xfb, 0x2a, 0x15, 0xe1, 0xde, 0x47, 0x8e, 0x9b]),
    (8108, [0xd3, 0x0d, 0x60, 0x65, 0x40, 0x85, 0xcf, 0xc9, 0xeb, 0x93, 0xf1, 0xa5, 0x5d, 0x67, 0x09, 0x08]),
    (8109, [0x3a, 0xde, 0xdf, 0x31, 0x04, 0x2e, 0xc4, 0x0a, 0x75, 0xe4, 0x08, 0x3a, 0x59, 0x2e, 0x0d, 0x7f]),
    (8121, [0xfc, 0xcf, 0x2c, 0xbb, 0x69, 0x66, 0x22, 0x66, 0x65, 0x7e, 0xcc, 0x75, 0x71, 0xfb, 0x28, 0xeb]),
    (8161, [0x4b, 0x5c, 0xad, 0x2a, 0xf9, 0xaa, 0xc1, 0x92, 0x07, 0x3f, 0x7d, 0xb9, 0x85, 0x9d, 0x99, 0xea]),
    (8162, [0xb4, 0x1b, 0xb5, 0x22, 0x5a, 0x14, 0x0c, 0xd3, 0x92, 0x7b, 0x85, 0x37, 0x44, 0xcb, 0x2a, 0xb6]),
    (8163, [0xda, 0xdc, 0xba, 0x71, 0x1f, 0x94, 0x13, 0x5f, 0xca, 0xf0, 0x0e, 0x25, 0xed, 0x44, 0x66, 0x35]),
    (8164, [0x0e, 0x74, 0x5a, 0x41, 0x5f, 0x3a, 0x73, 0xeb, 0x64, 0x40, 0x49, 0x83, 0xc8, 0x6a, 0x4f, 0x05]),
    (8165, [0xbe, 0xe7, 0xa9, 0xdf, 0xdb, 0x11, 0xbc, 0x97, 0x63, 0x7b, 0xce, 0xc5, 0x54, 0x20, 0x2b, 0x35]),
    (8166, [0x85, 0x75, 0x5a, 0x99, 0x23, 0x1c, 0xe8, 0x30, 0x20, 0x5e, 0xf7, 0x8b, 0x94, 0xac, 0xe8, 0x9c]),
    (8171, [0xa4, 0xac, 0xca, 0x09, 0x7f, 0xcc, 0x6b, 0xd4, 0x87, 0x0f, 0xe4, 0x5c, 0x61, 0x92, 0x89, 0xc2]),
    (8181, [0xfa, 0x33, 0xe3, 0x8e, 0x93, 0x04, 0x98, 0x90, 0xad, 0xb1, 0x34, 0xd6, 0xbd, 0xb4, 0x98, 0xba]),
    (8191, [0x9b, 0x70, 0x49, 0xb3, 0x7a, 0x4a, 0x52, 0x71, 0x0a, 0x8e, 0x77, 0x66, 0xf5, 0xd4, 0x5b, 0x57]),
    (8601, [0xc4, 0x8d, 0x83, 0x2d, 0x78, 0xd5, 0x5a, 0x42, 0x35, 0xd1, 0x78, 0x0c, 0x80, 0xf1, 0x56, 0x58]),
    (8602, [0x4e, 0x27, 0x8a, 0xae, 0xc2, 0xb7, 0x00, 0x6d, 0xeb, 0xbd, 0xf0, 0x31, 0x59, 0x24, 0xac, 0xe4]),
    (8603, [0x2f, 0x12, 0x18, 0xb9, 0xfb, 0xd9, 0x7b, 0xa4, 0x74, 0xc6, 0x69, 0x73, 0x2f, 0xc7, 0x55, 0x66]),
    (8604, [0x16, 0x28, 0x94, 0xeb, 0x21, 0x5c, 0xfe, 0x26, 0xcb, 0x77, 0x1f, 0x35, 0x32, 0x4e, 0x20, 0xc3]),
    (8605, [0x8c, 0x21, 0x2e, 0x42, 0xce, 0xf8, 0xca, 0xb3, 0xd7, 0xef, 0x07, 0x09, 0xe6, 0x6e, 0x47, 0x91]),
    (8606, [0x6c, 0xea, 0x09, 0xa3, 0x25, 0x47, 0x97, 0x5e, 0x74, 0xff, 0x2a, 0xb1, 0xbd, 0x1c, 0xfc, 0x61]),
    (8607, [0x33, 0x05, 0x1c, 0xde, 0xd9, 0x35, 0x1c, 0x83, 0xbe, 0x0b, 0xeb, 0x15, 0x0f, 0x56, 0x4b, 0x4e]),
    (8608, [0xfc, 0x22, 0x06, 0xf5, 0x8b, 0x0f, 0x5f, 0x8c, 0x31, 0x64, 0x63, 0x9e, 0x24, 0x01, 0xf2, 0x4d]),
    (8611, [0xf7, 0x3d, 0x7d, 0x39, 0xdc, 0x52, 0xbf, 0xfd, 0x80, 0x27, 0x74, 0xde, 0x05, 0xa2, 0xc1, 0xd6]),
    (8612, [0xb9, 0x7a, 0xd0, 0x98, 0x45, 0x28, 0x21, 0x81, 0xfb, 0x57, 0x8f, 0xb1, 0x18, 0x1f, 0xfa, 0xe9]),
    (8613, [0xe6, 0x6d, 0xea, 0x8f, 0x2f, 0xb6, 0x84, 0x44, 0xa5, 0x37, 0x6f, 0x48, 0x04, 0x21, 0xc6, 0xaa]),
    (8614, [0xb0, 0x26, 0x3a, 0x1a, 0xa6, 0x66, 0x16, 0x96, 0x80, 0x3f, 0x61, 0x6f, 0x48, 0xaf, 0x5d, 0x71]),
    (8615, [0x98, 0xbc, 0xcc, 0xad, 0xd0, 0x73, 0xc9, 0x44, 0x22, 0x5c, 0x05, 0x0e, 0x56, 0x00, 0x82, 0x0e]),
    (8616, [0x96, 0x3a, 0xb1, 0x8c, 0x76, 0x66, 0x85, 0x90, 0x39, 0x79, 0x62, 0xc1, 0x67, 0x6a, 0xd4, 0xa8]),
    (8618, [0x34, 0xd4, 0x17, 0xb1, 0x8d, 0x51, 0x93, 0x54, 0x93, 0x6f, 0xcf, 0x81, 0x8a, 0xda, 0x35, 0x33]),
    (8619, [0xac, 0x25, 0x3e, 0x59, 0x9b, 0xbd, 0x2c, 0xab, 0x32, 0x53, 0x6c, 0x4d, 0xe9, 0x6b, 0x77, 0xdd]),
    (8621, [0x81, 0xe2, 0xe0, 0x45, 0x87, 0xab, 0x47, 0x92, 0xa8, 0x67, 0xf8, 0xd2, 0xde, 0x79, 0xb4, 0x5a]),
    (8641, [0x10, 0xbc, 0x08, 0x1e, 0x1b, 0x78, 0x9a, 0x6e, 0xce, 0x5f, 0xb5, 0x07, 0xd5, 0x10, 0x2b, 0xa2]),
    (8661, [0xdb, 0x66, 0x7b, 0xa8, 0xed, 0x07, 0xd4, 0x4f, 0x3a, 0xb7, 0x70, 0xc9, 0x16, 0xc0, 0x31, 0x7b]),
    (8691, [0x2a, 0x06, 0x94, 0x35, 0x6e, 0x6a, 0x62, 0x6e, 0x14, 0x78, 0x89, 0xa7, 0xf2, 0x1e, 0x28, 0xdc]),
    (8701, [0x6a, 0xc5, 0x4c, 0x57, 0x96, 0xf3, 0x7a, 0xa4, 0x9c, 0xb9, 0x9c, 0xda, 0x84, 0x19, 0x71, 0x9b]),
    (8721, [0x26, 0x84, 0x80, 0x6c, 0x41, 0x05, 0x04, 0x40, 0xaf, 0xa5, 0xee, 0x92, 0x5c, 0xc1, 0xfa, 0xa7]),
    (8761, [0x67, 0x0c, 0xee, 0x39, 0xea, 0x38, 0x50, 0xa4, 0xb8, 0x84, 0x57, 0xbf, 0x0a, 0x64, 0x92, 0xe7]),
    (8791, [0x9b, 0x42, 0x57, 0x60, 0x46, 0x9d, 0xca, 0x94, 0xd7, 0x16, 0x43, 0x5f, 0xb4, 0x37, 0xce, 0xf8]),
    (8801, [0x9e, 0x3d, 0xd5, 0xb9, 0xa8, 0xae, 0xe7, 0x6f, 0x2c, 0xc9, 0x0b, 0xd4, 0x3e, 0x28, 0x7b, 0x29]),
    (8802, [0xb1, 0xe5, 0xee, 0x3e, 0x3b, 0x5f, 0xe7, 0x02, 0x0b, 0xef, 0xac, 0xfb, 0x79, 0xb7, 0x17, 0x87]),
    (8803, [0xad, 0x47, 0xb7, 0x31, 0x4f, 0xa5, 0x0a, 0x3a, 0x6c, 0xc5, 0xc3, 0xcf, 0x31, 0xf9, 0xd8, 0xbf]),
    (8851, [0x83, 0xa5, 0x77, 0x94, 0x1b, 0x5b, 0xb8, 0xa8, 0xfc, 0x2b, 0xb3, 0x22, 0xb4, 0x43, 0x93, 0xcc]),
    (8852, [0x77, 0x22, 0xc6, 0x89, 0x93, 0x4d, 0x61, 0xf9, 0x23, 0x1a, 0xfd, 0x03, 0xe8, 0xfc, 0x68, 0xf3]),
    (8853, [0x65, 0x96, 0xc4, 0x26, 0x2d, 0x63, 0xff, 0xea, 0xed, 0xb1, 0xa8, 0xa2, 0x81, 0xe0, 0xca, 0x23]),
    (8854, [0x67, 0x8b, 0x49, 0xee, 0x65, 0x62, 0x65, 0x11, 0xb0, 0x3d, 0x39, 0x36, 0xd9, 0xf7, 0x30, 0x07]),
    (8855, [0x7b, 0x1d, 0x0a, 0xe3, 0x79, 0x64, 0x87, 0x72, 0x88, 0xa5, 0x2b, 0x81, 0xcd, 0x7f, 0x89, 0x79]),
    (8931, [0x48, 0x0f, 0xbb, 0x15, 0x71, 0x0f, 0x5d, 0xa3, 0x2e, 0x1f, 0x4d, 0xdc, 0x8d, 0xd0, 0xd3, 0x25]),
    (8932, [0x98, 0xbc, 0xb2, 0x72, 0x89, 0xb7, 0x53, 0x68, 0xbf, 0x7a, 0x0d, 0x25, 0xcc, 0x18, 0x62, 0x3d]),
    (8933, [0x5a, 0x76, 0x34, 0x97, 0x52, 0x77, 0xf2, 0x03, 0x53, 0x2d, 0x2c, 0x37, 0xb2, 0x60, 0x55, 0x50]),
    (8934, [0xbf, 0x7e, 0x04, 0xf0, 0x66, 0x08, 0x5a, 0x6a, 0xb0, 0x84, 0x77, 0x56, 0x86, 0x12, 0xbd, 0x5e]),
    (8935, [0xa4, 0x51, 0x50, 0x2b, 0xc6, 0x21, 0x61, 0x16, 0x72, 0x7b, 0xc5, 0x6d, 0x00, 0xac, 0x85, 0x5d]),
    (8936, [0x65, 0x37, 0xe2, 0x04, 0x55, 0x21, 0x0c, 0xe0, 0x23, 0x89, 0x61, 0x73, 0x11, 0x0b, 0xab, 0x3e]),
    (8937, [0x50, 0x5e, 0x91, 0xfa, 0xf9, 0x4f, 0x7b, 0xbe, 0xdd, 0x27, 0x6d, 0x95, 0x93, 0x30, 0xb7, 0xe0]),
    (8938, [0xfd, 0xfb, 0x81, 0xb0, 0xf4, 0xc1, 0xa7, 0xae, 0xc3, 0xff, 0x41, 0x80, 0x1c, 0x2d, 0x03, 0x7e]),
    (8939, [0xf6, 0xfd, 0x7d, 0x31, 0x1a, 0xd6, 0xd3, 0xae, 0x18, 0x97, 0x8c, 0x53, 0x9f, 0x92, 0x12, 0x56]),
    (8941, [0x61, 0x24, 0xdf, 0x72, 0x06, 0xf9, 0x91, 0xc0, 0xeb, 0x64, 0xf1, 0x7e, 0x36, 0xe6, 0x07, 0x1e]),
    (8956, [0x9e, 0x4e, 0x88, 0x03, 0xf5, 0x5d, 0xbd, 0xdc, 0x99, 0x3d, 0x27, 0x50, 0x0e, 0x0d, 0xd6, 0xd2]),
    (8957, [0xa2, 0xaf, 0x01, 0x42, 0x5d, 0x7f, 0x8e, 0xce, 0x41, 0x62, 0xdd, 0x26, 0x01, 0xc6, 0x8e, 0x52]),
    (8958, [0x97, 0x87, 0xb2, 0x7f, 0xad, 0xe5, 0xa0, 0xf9, 0x14, 0x5c, 0x41, 0xd5, 0xae, 0xa6, 0x28, 0xe2]),
    (8959, [0xb8, 0x9b, 0x63, 0x0b, 0x00, 0x5a, 0xb4, 0x3b, 0x1e, 0x95, 0xcc, 0x3b, 0x89, 0x06, 0x51, 0x64]),
    (8981, [0xef, 0xb8, 0x1d, 0xd2, 0x0b, 0xd2, 0x42, 0x6e, 0x0c, 0x19, 0xe1, 0x2f, 0x33, 0x22, 0x6c, 0xd3]),
    (8982, [0x9e, 0x4e, 0x88, 0x03, 0xf5, 0x5d, 0xbd, 0xdc, 0x99, 0x3d, 0x27, 0x50, 0x0e, 0x0d, 0xd6, 0xd2]),
    (8983, [0xa2, 0xaf, 0x01, 0x42, 0x5d, 0x7f, 0x8e, 0xce, 0x41, 0x62, 0xdd, 0x26, 0x01, 0xc6, 0x8e, 0x52]),
    (8984, [0x97, 0x87, 0xb2, 0x7f, 0xad, 0xe5, 0xa0, 0xf9, 0x14, 0x5c, 0x41, 0xd5, 0xae, 0xa6, 0x28, 0xe2]),
    (8985, [0xb8, 0x9b, 0x63, 0x0b, 0x00, 0x5a, 0xb4, 0x3b, 0x1e, 0x95, 0xcc, 0x3b, 0x89, 0x06, 0x51, 0x64]),
    (8986, [0x84, 0xc7, 0x1b, 0x4a, 0x43, 0xbc, 0x15, 0xa1, 0x4c, 0x37, 0x7c, 0x81, 0x3d, 0x2d, 0x3c, 0xf1]),
    (8991, [0xf9, 0x68, 0x28, 0x6c, 0x66, 0xc5, 0x66, 0xd3, 0x24, 0x12, 0x9b, 0xfc, 0x16, 0x19, 0xfc, 0x2a]),
    (8992, [0xc6, 0x10, 0xcb, 0x67, 0x61, 0x06, 0x8b, 0x28, 0x94, 0xff, 0xbb, 0xbe, 0xcd, 0x1f, 0xef, 0x63]),
    (9201, [0xee, 0xb2, 0xa8, 0x66, 0x10, 0xcd, 0x9e, 0xca, 0x72, 0x5d, 0x02, 0x66, 0x5e, 0xe3, 0xed, 0x9f]),
    (9202, [0x3b, 0x00, 0xbf, 0x99, 0x11, 0x8a, 0xa3, 0xaa, 0x08, 0x22, 0x7b, 0xc9, 0xb2, 0xbe, 0x48, 0x5a]),
    (9203, [0x16, 0x73, 0xf1, 0x2a, 0xa2, 0xe5, 0xce, 0xb8, 0x0f, 0xcf, 0xc1, 0x76, 0x7d, 0x79, 0x50, 0xa0]),
    (9204, [0x11, 0xc2, 0xd6, 0xb2, 0xed, 0x12, 0x20, 0xe1, 0x05, 0xad, 0x71, 0x77, 0x60, 0xc0, 0x66, 0x5b]),
    (9205, [0xbf, 0x18, 0xed, 0x60, 0x03, 0x82, 0x11, 0x7f, 0x52, 0x02, 0xe3, 0xcc, 0x38, 0x31, 0x0d, 0x18]),
    (9206, [0xdc, 0x3d, 0x6d, 0x05, 0x38, 0x99, 0xfd, 0xdd, 0x21, 0x0e, 0xc3, 0x7e, 0x65, 0x20, 0xca, 0xc6]),
    (9207, [0x60, 0xa5, 0xaa, 0x1c, 0x07, 0xa9, 0xad, 0x92, 0x4f, 0x82, 0x41, 0x70, 0xe5, 0xd4, 0x53, 0x12]),
    (9208, [0x51, 0xc8, 0xd6, 0x43, 0x7c, 0xa1, 0x5e, 0x7a, 0x26, 0x74, 0xd4, 0x5c, 0xd9, 0x59, 0xde, 0xd7]),
    (9209, [0xf0, 0xd4, 0x06, 0xad, 0xdc, 0xa1, 0x80, 0x07, 0x91, 0xba, 0x75, 0x2b, 0xb9, 0x07, 0x1e, 0xc4]),
    (9210, [0x17, 0x75, 0x03, 0x9c, 0xf3, 0x51, 0x33, 0x2b, 0x5c, 0x76, 0xe0, 0xf0, 0x82, 0x5a, 0x1d, 0x5e]),
    (9238, [0xf6, 0x2c, 0x90, 0xba, 0xd0, 0x9d, 0x25, 0xfd, 0xb4, 0xc5, 0xe7, 0xb4, 0x77, 0xfa, 0x49, 0x6e]),
    (9239, [0xd6, 0xc1, 0xe8, 0x73, 0x5a, 0x85, 0x54, 0x4f, 0xaa, 0x37, 0x88, 0xef, 0x55, 0xf6, 0xde, 0xb1]),
    (9240, [0x0f, 0x51, 0xc5, 0x1b, 0x88, 0xce, 0xe3, 0xe0, 0x51, 0x27, 0x63, 0xb9, 0xbf, 0x1b, 0x28, 0xde]),
    (9241, [0x1e, 0xa3, 0xbc, 0x85, 0xb7, 0xf4, 0x98, 0xe1, 0x49, 0xdf, 0x80, 0x60, 0xc1, 0xd9, 0xd5, 0x5f]),
    (9351, [0x09, 0xbf, 0x40, 0x48, 0x03, 0x3c, 0xf9, 0xf2, 0xb4, 0x3a, 0x3e, 0xa0, 0x8b, 0xa2, 0x98, 0xf3]),
    (9352, [0x34, 0xe0, 0xd0, 0x3b, 0x52, 0x69, 0xd7, 0x00, 0xd0, 0x46, 0xef, 0x8b, 0x59, 0xa0, 0x91, 0x29]),
    (9353, [0x19, 0xb4, 0xbb, 0xfc, 0x97, 0x88, 0x01, 0xdb, 0x27, 0xcf, 0x31, 0x38, 0x58, 0xbc, 0x0f, 0xc4]),
    (9354, [0xbd, 0x55, 0x9a, 0x71, 0x8c, 0xf2, 0xa0, 0x10, 0xc0, 0x67, 0xb2, 0xe8, 0xca, 0x2d, 0x21, 0x10]),
    (9355, [0x46, 0x19, 0x17, 0xb9, 0x99, 0x5e, 0x01, 0x0f, 0xa2, 0x62, 0x23, 0x47, 0x00, 0x73, 0x01, 0xf9]),
    (9356, [0xc9, 0xeb, 0xa0, 0xf8, 0xf9, 0xa7, 0x38, 0x33, 0x27, 0x80, 0x26, 0x7b, 0x61, 0x9d, 0x6f, 0xd7]),
    (9357, [0x0e, 0xc2, 0x86, 0x66, 0x7f, 0x11, 0x78, 0x14, 0x30, 0x6d, 0x9d, 0xb4, 0x74, 0x84, 0x17, 0x32]),
    (9358, [0x18, 0xb7, 0xca, 0x7e, 0x9b, 0xb3, 0x7f, 0x84, 0x8f, 0xd9, 0x90, 0x9a, 0xa7, 0x23, 0x05, 0x37]),
    (9359, [0x01, 0x93, 0x80, 0x59, 0x76, 0xf3, 0x66, 0x59, 0x0b, 0x9b, 0x53, 0x3e, 0xa4, 0xa1, 0xb7, 0x89]),
    (9360, [0x77, 0xde, 0x01, 0x07, 0x1f, 0xed, 0xfd, 0x57, 0x93, 0xad, 0x89, 0xc7, 0x57, 0x1e, 0x0a, 0x4c]),
    (9361, [0x12, 0xce, 0x52, 0xb7, 0xa4, 0xcf, 0x07, 0xc1, 0x0c, 0xc9, 0xb3, 0x80, 0xfe, 0x86, 0x2c, 0x2e]),
    (9362, [0x5c, 0x22, 0xdf, 0xca, 0x02, 0x7e, 0xf3, 0x51, 0xa5, 0x25, 0x15, 0x57, 0xd9, 0x7f, 0x64, 0xc6]),
    (9363, [0x11, 0x76, 0x3b, 0x57, 0x55, 0xe5, 0xe7, 0x48, 0xc4, 0xae, 0x87, 0xc3, 0x2d, 0xcd, 0x0e, 0x29]),
    (9364, [0x11, 0xae, 0xa4, 0x19, 0x96, 0x1f, 0xfc, 0x73, 0x6d, 0xc7, 0x54, 0x21, 0xd4, 0x2a, 0x0e, 0x8f]),
    (9421, [0xa9, 0x4b, 0x4c, 0x49, 0xa9, 0xb9, 0x4b, 0x4d, 0x19, 0xb1, 0xc6, 0x64, 0x75, 0x14, 0x17, 0x90]),
    (9422, [0xed, 0x50, 0xc7, 0x58, 0xed, 0xe7, 0x55, 0x84, 0xb0, 0xcf, 0x72, 0x45, 0x43, 0x61, 0x4c, 0x72]),
    (9423, [0xba, 0x1f, 0x63, 0xae, 0x1f, 0x30, 0xfc, 0xd6, 0x91, 0xce, 0xfa, 0xe5, 0xa0, 0x32, 0xea, 0x7a]),
    (9424, [0x64, 0xd5, 0xb9, 0x19, 0x24, 0xdb, 0x38, 0xa7, 0xa5, 0x76, 0x79, 0xbb, 0x2e, 0x87, 0xf2, 0xbb]),
    (9425, [0x55, 0x69, 0x4b, 0xb1, 0x03, 0x49, 0x3e, 0xa2, 0x6c, 0xe5, 0x3e, 0x6c, 0x55, 0x00, 0x88, 0x73]),
    (9426, [0xa8, 0xcb, 0x7b, 0x29, 0x0c, 0xfa, 0x48, 0x9e, 0x64, 0x3b, 0xd7, 0x6a, 0x15, 0x7e, 0xff, 0xd1]),
    (9427, [0x92, 0xa4, 0xc0, 0x7b, 0xe0, 0x22, 0x83, 0x48, 0x4d, 0x43, 0x67, 0x43, 0xe2, 0x4b, 0x19, 0x07]),
    (9428, [0xb7, 0x08, 0x27, 0x11, 0x07, 0xdb, 0xa4, 0xfa, 0x53, 0xda, 0x43, 0x1e, 0x9f, 0x84, 0xda, 0x74]),
    (9429, [0xa1, 0x58, 0x49, 0x87, 0x58, 0x5c, 0x4a, 0x19, 0x2e, 0x03, 0x45, 0xe2, 0xa5, 0x0f, 0xa7, 0x38]),
    (9430, [0x27, 0x29, 0xdb, 0x33, 0x69, 0x5c, 0x79, 0xc0, 0xce, 0x29, 0x77, 0x9e, 0x8e, 0x00, 0xe3, 0x5b]),
    (9431, [0x82, 0xd7, 0x02, 0x20, 0x1a, 0xa6, 0x41, 0xf2, 0x54, 0x3f, 0x87, 0x23, 0x29, 0xc2, 0x35, 0x46]),
    (9432, [0x37, 0xf5, 0x04, 0xf9, 0x70, 0x54, 0xb5, 0x27, 0xe9, 0x00, 0xa9, 0xfe, 0xb8, 0xc4, 0x29, 0xd1]),
    (9433, [0xf4, 0xe9, 0xc5, 0xba, 0xf0, 0x2c, 0x1b, 0x6d, 0x60, 0x87, 0xda, 0x76, 0xdb, 0x5e, 0x2c, 0xcb]),
    (9434, [0x35, 0xeb, 0xad, 0xef, 0x3a, 0x74, 0x05, 0xf5, 0x6a, 0xa4, 0x56, 0xf2, 0x69, 0x20, 0x5f, 0x52]),
    (9461, [0x5d, 0x5c, 0xe9, 0x08, 0x10, 0x6a, 0xc1, 0x53, 0xe3, 0x47, 0x05, 0x23, 0xca, 0x98, 0x4d, 0x44]),
    (9462, [0x9c, 0xa1, 0x45, 0xf6, 0x05, 0xee, 0xda, 0x24, 0x0c, 0x1d, 0x0a, 0x72, 0x92, 0x46, 0x59, 0x43]),
    (9463, [0xbf, 0x80, 0x48, 0x66, 0x6e, 0x7f, 0x8d, 0xa1, 0xa5, 0xa6, 0xf8, 0xe1, 0xe7, 0xd3, 0x07, 0x9a]),
    (9464, [0xb2, 0x3b, 0x8f, 0x7f, 0x73, 0x5f, 0x7a, 0xd5, 0x88, 0x8d, 0x9d, 0x82, 0x5d, 0x97, 0xe9, 0x0f]),
    (9465, [0x4e, 0xd8, 0x44, 0xa8, 0xde, 0xcb, 0x93, 0xcc, 0x10, 0xbb, 0x36, 0x7c, 0x62, 0x50, 0x24, 0xf4]),
    (9466, [0x58, 0xf5, 0xc5, 0xb9, 0x07, 0x93, 0x13, 0x7e, 0x00, 0x88, 0xaa, 0x88, 0x7d, 0x59, 0x4e, 0xa9]),
    (9467, [0xaf, 0x05, 0x0a, 0x13, 0x9b, 0xbc, 0xef, 0x94, 0x6f, 0x3f, 0xf7, 0xce, 0x07, 0x0c, 0xe5, 0x55]),
    (9468, [0x83, 0x83, 0xa2, 0x91, 0xa7, 0x11, 0x6a, 0xdd, 0xb6, 0x00, 0x02, 0x0f, 0x4d, 0x82, 0x84, 0x4a]),
    (9469, [0x3f, 0xc9, 0xc4, 0x31, 0x1f, 0x54, 0xeb, 0x73, 0xe4, 0xa4, 0x43, 0x28, 0x9c, 0x7e, 0xa2, 0xe8]),
    (9471, [0xe5, 0x3c, 0xa9, 0x0d, 0xc8, 0x98, 0x46, 0x39, 0xf6, 0x7c, 0xff, 0xdb, 0xec, 0xad, 0x03, 0x62]),
    (9472, [0xd9, 0xef, 0x20, 0xb7, 0x36, 0xb4, 0x37, 0x8e, 0xbc, 0x06, 0xa6, 0xc2, 0xf4, 0x8b, 0x4c, 0xc5]),
    (9473, [0x58, 0x3c, 0xfa, 0x1a, 0x0e, 0xb0, 0xa1, 0x70, 0xcb, 0x02, 0x72, 0xf4, 0xbc, 0x45, 0xff, 0x21]),
    (9481, [0xce, 0x39, 0xa6, 0x46, 0xca, 0x00, 0x31, 0xf0, 0xc8, 0x5c, 0xc9, 0x1f, 0xe9, 0x7e, 0x49, 0x1a]),
    (9482, [0xd7, 0xc1, 0xaa, 0x8c, 0x47, 0xe2, 0x9a, 0x54, 0x56, 0xa1, 0x1c, 0x96, 0xd4, 0x19, 0x0f, 0x62])]"

definition TABLE_04 :: "key_entry list" where
  "TABLE_04 = [
    (9483, [0x88, 0xf2, 0x3e, 0x7b, 0xb1, 0xf6, 0x44, 0xe0, 0x9a, 0x1e, 0x70, 0x8e, 0x7e, 0xb1, 0x6f, 0x15]),
    (9484, [0xac, 0xf8, 0xcb, 0x1d, 0xf2, 0x45, 0x69, 0x4e, 0xf3, 0x22, 0xf8, 0x0c, 0x6b, 0xdf, 0xf6, 0x5a]),
    (9485, [0x3d, 0xfb, 0x2d, 0x15, 0xa1, 0x16, 0x49, 0x97, 0xb1, 0x1a, 0x27, 0x72, 0x2d, 0xa4, 0xcd, 0x4c]),
    (9486, [0x58, 0x6f, 0xa0, 0x06, 0x5c, 0xde, 0xc7, 0x09, 0x1e, 0x7e, 0xe4, 0xeb, 0x06, 0x8b, 0x6c, 0xb8]),
    (9487, [0x07, 0x63, 0xc8, 0xee, 0xf5, 0x6e, 0x95, 0x7c, 0xc6, 0x94, 0x6c, 0x61, 0xf0, 0xa6, 0xff, 0xc6]),
    (9488, [0x2d, 0x4b, 0x4a, 0x47, 0xd3, 0xf9, 0x05, 0x38, 0x1c, 0xeb, 0xcc, 0xb9, 0xaf, 0x02, 0xe8, 0xfd]),
    (9489, [0x5c, 0x4c, 0xa3, 0x3c, 0x74, 0x0c, 0x42, 0x59, 0x72, 0x8b, 0x82, 0x7b, 0xe4, 0xd2, 0x21, 0x82]),
    (9490, [0x9f, 0x55, 0xc2, 0x13, 0xdd, 0x97, 0x49, 0xe4, 0x41, 0x3f, 0xa5, 0xc7, 0xcd, 0xe4, 0x72, 0xdd]),
    (9491, [0xc5, 0xa7, 0x7b, 0x48, 0x88, 0xbc, 0xfe, 0x45, 0x3e, 0x85, 0x24, 0xaa, 0x49, 0x87, 0xc2, 0x55]),
    (9492, [0x21, 0x0c, 0x7b, 0xdd, 0xdb, 0xe5, 0x01, 0xc3, 0xbd, 0x2c, 0x49, 0x5d, 0x30, 0x56, 0x01, 0x8f]),
    (9494, [0x20, 0x45, 0x2d, 0x97, 0x87, 0x38, 0xff, 0xc1, 0xdb, 0x42, 0x02, 0xd3, 0xc5, 0x33, 0x28, 0x0a]),
    (9495, [0x68, 0xc6, 0x49, 0xe2, 0xcc, 0x41, 0xea, 0x28, 0x29, 0x18, 0xe0, 0xef, 0xa1, 0x80, 0xa3, 0xb8]),
    (9496, [0x34, 0xcc, 0x8f, 0x5e, 0xca, 0xcc, 0xb6, 0x07, 0x78, 0x3f, 0xc1, 0x78, 0x79, 0xce, 0x9f, 0x39]),
    (9905, [0x58, 0x66, 0x88, 0xdf, 0xeb, 0xb2, 0xf0, 0x07, 0xee, 0x6c, 0x55, 0x3d, 0xe4, 0xd5, 0xc9, 0xa8]),
    (9906, [0x99, 0xde, 0x83, 0xd1, 0x03, 0xe8, 0xd6, 0x55, 0x4b, 0x5d, 0xaf, 0x47, 0x77, 0x73, 0x57, 0xcf]),
    (9907, [0x99, 0xde, 0x83, 0xd1, 0x03, 0xe8, 0xd6, 0x55, 0x4b, 0x5d, 0xaf, 0x47, 0x77, 0x73, 0x57, 0xcf]),
    (9932, [0x11, 0xed, 0x69, 0xed, 0x74, 0x38, 0xa6, 0x8d, 0xb4, 0xed, 0x75, 0x97, 0x6d, 0xa9, 0xf3, 0x0e]),
    (9933, [0x11, 0xed, 0x69, 0xed, 0x74, 0x38, 0xa6, 0x8d, 0xb4, 0xed, 0x75, 0x97, 0x6d, 0xa9, 0xf3, 0x0e]),
    (9941, [0xb0, 0xde, 0x4c, 0xbd, 0xd5, 0x70, 0x5b, 0x2f, 0x0d, 0x2f, 0x5e, 0xca, 0x7f, 0xd1, 0xe0, 0x2e]),
    (9942, [0x75, 0xf5, 0x1c, 0x7d, 0x15, 0xb8, 0x78, 0x46, 0x74, 0x62, 0x40, 0xf5, 0x93, 0x6d, 0x43, 0x21]),
    (9971, [0x83, 0x59, 0xba, 0x50, 0x21, 0x0a, 0x6e, 0x04, 0x95, 0x99, 0x6b, 0x34, 0x76, 0x46, 0x27, 0xc5]),
    (10181, [0x6c, 0xd6, 0x48, 0x1e, 0xdf, 0xd2, 0xd9, 0x9c, 0xc0, 0xe2, 0x56, 0x2e, 0x37, 0x57, 0xc9, 0x8f]),
    (10182, [0x1c, 0xa3, 0xa6, 0x85, 0xf1, 0xcf, 0x02, 0x76, 0xfc, 0x06, 0xbf, 0x9a, 0xef, 0x9d, 0xd8, 0xaf]),
    (10183, [0x0e, 0x8d, 0x42, 0xba, 0x0c, 0xf6, 0xc5, 0xa7, 0xfa, 0x59, 0xfe, 0xb9, 0x53, 0x94, 0xb1, 0xc6]),
    (10184, [0x68, 0xbb, 0xdc, 0xe9, 0x9b, 0xef, 0xb0, 0x20, 0xbd, 0x3e, 0xe0, 0x3a, 0x20, 0x13, 0x99, 0x92]),
    (10185, [0x51, 0xfc, 0x6b, 0x98, 0xbf, 0x1f, 0x52, 0x8f, 0xa2, 0x8d, 0xbf, 0x37, 0x47, 0x71, 0x88, 0xbe]),
    (10186, [0xce, 0x99, 0x42, 0xfd, 0xbf, 0x99, 0x5d, 0x95, 0x95, 0xad, 0xa9, 0x15, 0xc4, 0xbe, 0x8e, 0x2b]),
    (10187, [0x9c, 0x22, 0x0b, 0x3c, 0x86, 0x10, 0x0f, 0x97, 0xf3, 0x35, 0x4e, 0xab, 0x29, 0x9d, 0x3d, 0x7b]),
    (10188, [0x88, 0x1c, 0x06, 0x17, 0x60, 0x85, 0x60, 0x73, 0x61, 0xc1, 0x85, 0x42, 0x42, 0x0d, 0xf9, 0x9f]),
    (10189, [0x69, 0x7d, 0xc2, 0x17, 0x2c, 0x1f, 0xac, 0x4a, 0x50, 0x2e, 0x48, 0xd6, 0x9b, 0x4c, 0x86, 0x66]),
    (10191, [0xe6, 0xf8, 0x0d, 0xdd, 0xce, 0x8a, 0x63, 0x43, 0xae, 0x67, 0xd2, 0x48, 0x2b, 0x11, 0x47, 0x1b]),
    (10192, [0x4c, 0x90, 0xcb, 0x71, 0x16, 0xc9, 0xc2, 0xac, 0xd8, 0x49, 0xc9, 0x1b, 0xef, 0xd5, 0x3e, 0xdd]),
    (10193, [0xfc, 0x28, 0xb4, 0x36, 0x00, 0x69, 0x67, 0xfe, 0x5b, 0xfc, 0x75, 0xce, 0x04, 0x3e, 0x47, 0x21]),
    (10195, [0x3e, 0x5f, 0x9a, 0xf9, 0xe8, 0x11, 0xbc, 0x49, 0xfd, 0xde, 0x47, 0xdd, 0x0d, 0x9a, 0x44, 0x2b]),
    (10196, [0xa8, 0x96, 0x25, 0x8c, 0x3c, 0x51, 0x5a, 0x36, 0xb8, 0xc4, 0x6e, 0xeb, 0x2a, 0x81, 0xde, 0xa6]),
    (10197, [0x3e, 0x5f, 0x9a, 0xf9, 0xe8, 0x11, 0xbc, 0x49, 0xfd, 0xde, 0x47, 0xdd, 0x0d, 0x9a, 0x44, 0x2b]),
    (10221, [0xf6, 0xcf, 0x8d, 0x48, 0x6e, 0x8b, 0x4a, 0x1d, 0x30, 0x6c, 0x28, 0x17, 0xa6, 0x21, 0x97, 0x73]),
    (10222, [0xd6, 0x5c, 0x91, 0xbc, 0x0f, 0x8d, 0x33, 0xe5, 0x13, 0xf7, 0x40, 0x9d, 0x7b, 0xbf, 0xec, 0x07]),
    (10223, [0xf5, 0x32, 0x8d, 0x26, 0x99, 0xb9, 0x56, 0xe1, 0xc2, 0x1c, 0xeb, 0xcf, 0x52, 0x5a, 0x7f, 0x1f]),
    (10224, [0x52, 0x36, 0xc8, 0x8a, 0xe5, 0xe0, 0x38, 0xeb, 0x7c, 0xd9, 0x17, 0xcb, 0xa5, 0xf8, 0x89, 0x85]),
    (10231, [0x89, 0x6c, 0xd8, 0xc6, 0x9b, 0xc9, 0xd9, 0xb5, 0x79, 0x87, 0x98, 0x04, 0x56, 0x33, 0x6e, 0x22]),
    (10232, [0x97, 0xf7, 0xeb, 0xcd, 0x47, 0xce, 0xd5, 0x00, 0xfa, 0x67, 0x36, 0xf4, 0xf8, 0xf5, 0x74, 0xae]),
    (10233, [0x5d, 0xf4, 0x88, 0x56, 0x04, 0x67, 0xa8, 0x4d, 0x0a, 0x56, 0xfa, 0xc6, 0x27, 0x3a, 0xfa, 0xe7]),
    (10234, [0x39, 0x3d, 0xdf, 0x25, 0x3a, 0x79, 0xfd, 0xe2, 0x41, 0x2d, 0x96, 0x99, 0x09, 0x89, 0x2e, 0xa9]),
    (10241, [0xba, 0x1b, 0x7b, 0x75, 0xd1, 0xff, 0xb4, 0x11, 0x32, 0xd6, 0x24, 0xbc, 0x3f, 0x44, 0x8b, 0xb0]),
    (10251, [0x2c, 0x55, 0x76, 0x11, 0x7a, 0x51, 0xe3, 0x59, 0x2e, 0x69, 0x0e, 0xa0, 0x0b, 0x3e, 0x49, 0x73]),
    (10252, [0x2c, 0xf3, 0x81, 0x4d, 0xe7, 0x3a, 0x3d, 0x84, 0x52, 0x73, 0x34, 0xde, 0xd6, 0xee, 0x05, 0x4b]),
    (10253, [0xc0, 0x4f, 0xc0, 0x9e, 0x42, 0x9c, 0xf1, 0x62, 0x0a, 0x3c, 0xf6, 0xcc, 0xb1, 0xcc, 0xa2, 0xdf]),
    (10261, [0x7e, 0x43, 0x81, 0xb0, 0x29, 0x25, 0xba, 0x0a, 0x5e, 0xff, 0x2b, 0x10, 0x00, 0x30, 0x6b, 0xf5]),
    (10262, [0x3f, 0xf9, 0xe4, 0xf7, 0x4c, 0xd7, 0x44, 0xc9, 0xcc, 0x91, 0x8c, 0xda, 0x5f, 0x19, 0x9c, 0xc8]),
    (10263, [0x67, 0xa2, 0x60, 0x8b, 0x8f, 0xb7, 0xec, 0xa3, 0x53, 0x5c, 0x3e, 0x7b, 0xeb, 0x12, 0x37, 0x36]),
    (10271, [0x2a, 0xcd, 0x3c, 0xcb, 0x8d, 0x29, 0x38, 0xe4, 0xab, 0x25, 0x61, 0xbe, 0x1c, 0x5e, 0x6a, 0x85]),
    (10501, [0x61, 0x43, 0xee, 0x9f, 0x1c, 0xfd, 0xf6, 0x8b, 0x0c, 0x2a, 0x34, 0xdb, 0x27, 0xa0, 0xcd, 0x6c]),
    (10502, [0x71, 0xc5, 0xfb, 0x91, 0x3c, 0x50, 0xfd, 0x95, 0x2c, 0x1d, 0xa9, 0x6e, 0x86, 0x4a, 0x66, 0xdf]),
    (10503, [0x7e, 0xe9, 0x0d, 0xe0, 0xd7, 0x4a, 0xaf, 0xe4, 0x00, 0x72, 0x7b, 0x6c, 0x09, 0x0f, 0xb2, 0xfc]),
    (10504, [0x28, 0x7b, 0x94, 0x0d, 0xc2, 0x6a, 0x63, 0x57, 0xb5, 0x46, 0x0a, 0x93, 0x05, 0xd2, 0x73, 0x3e]),
    (10505, [0x33, 0x7a, 0x22, 0x0c, 0x6f, 0xea, 0x17, 0x05, 0xc2, 0x04, 0x41, 0xc4, 0xe6, 0x40, 0x81, 0x34]),
    (10506, [0x2a, 0x19, 0xc3, 0xad, 0x71, 0xec, 0x7f, 0x35, 0x96, 0x13, 0xb9, 0x2b, 0x3c, 0x2b, 0x76, 0x20]),
    (10507, [0xb0, 0x43, 0x46, 0x61, 0xe6, 0x26, 0x47, 0xaa, 0x76, 0x92, 0x92, 0x0b, 0x72, 0x8c, 0xbb, 0xa3]),
    (10508, [0xe4, 0xaf, 0x83, 0xa1, 0xff, 0x55, 0x42, 0x88, 0xe0, 0x0a, 0x62, 0x86, 0xad, 0xd2, 0x99, 0x3b]),
    (10509, [0x71, 0xd9, 0x74, 0xf9, 0x65, 0x9d, 0xc0, 0xa4, 0x33, 0x8a, 0xe2, 0xd0, 0xaa, 0x86, 0xd8, 0x03]),
    (10512, [0x51, 0x5f, 0xef, 0xe3, 0xef, 0x7b, 0x3d, 0xbd, 0x31, 0xf7, 0x8c, 0xa7, 0x2a, 0x12, 0x3c, 0xd7]),
    (10513, [0x6c, 0xdd, 0xe2, 0x2f, 0xfa, 0x81, 0x96, 0xaf, 0xee, 0x49, 0x4f, 0x57, 0xe2, 0x7e, 0xff, 0xe2]),
    (10514, [0xfd, 0x47, 0xb3, 0xb6, 0x9f, 0x29, 0x86, 0x75, 0xc8, 0x1a, 0x5b, 0x8d, 0x57, 0xec, 0xf0, 0x34]),
    (10541, [0x9b, 0x5d, 0x6a, 0xf1, 0x6a, 0xbc, 0xc4, 0x62, 0xad, 0x08, 0x15, 0xe8, 0x50, 0x6d, 0x3f, 0x03]),
    (10542, [0x75, 0xbc, 0x0a, 0x5a, 0xb0, 0x7a, 0x3c, 0x5f, 0xb5, 0x36, 0x33, 0x22, 0x73, 0x56, 0x75, 0x83]),
    (10561, [0x6f, 0x18, 0x8e, 0x52, 0x6c, 0x51, 0x4e, 0xea, 0x78, 0x66, 0x68, 0x6b, 0x3c, 0x4e, 0x27, 0x3b]),
    (10562, [0x0b, 0x0b, 0x26, 0x15, 0xa9, 0xbe, 0xc9, 0xec, 0xfd, 0x4c, 0xd0, 0xaa, 0x53, 0x20, 0x6d, 0xb6]),
    (10571, [0xf2, 0xe1, 0xe3, 0xdc, 0x9c, 0x91, 0x52, 0xa5, 0x2f, 0xe2, 0xf1, 0x4e, 0xce, 0xe9, 0xd5, 0xed]),
    (10581, [0x8f, 0x34, 0x0e, 0x76, 0x97, 0x4b, 0x1c, 0xe3, 0xa2, 0xde, 0xc0, 0xaa, 0xee, 0x6f, 0xa7, 0xa6]),
    (10582, [0x4d, 0x64, 0x22, 0x7b, 0x55, 0x28, 0xdc, 0xef, 0xed, 0x0c, 0x0e, 0x6b, 0x4a, 0x2b, 0x1c, 0x20]),
    (10583, [0xf3, 0xaf, 0x0c, 0x69, 0x20, 0x13, 0x53, 0x02, 0x82, 0xb1, 0x81, 0xc1, 0xad, 0x29, 0x24, 0x8e]),
    (10584, [0x71, 0x86, 0x9e, 0xab, 0x1c, 0x2b, 0xe1, 0x73, 0x50, 0x29, 0x58, 0x3b, 0x39, 0xe5, 0x71, 0xd4]),
    (10591, [0x1f, 0xab, 0x88, 0xfd, 0x97, 0x0e, 0x7f, 0x8b, 0x63, 0x4f, 0xdd, 0x64, 0x63, 0xaa, 0xd2, 0xe1]),
    (10621, [0x7d, 0xc0, 0x2d, 0xde, 0x1f, 0x52, 0x94, 0x2a, 0x8d, 0xf5, 0x23, 0x6b, 0x89, 0x12, 0x80, 0x7c]),
    (10622, [0x80, 0x50, 0x64, 0x69, 0x13, 0xd6, 0x0e, 0xdd, 0x90, 0x6a, 0xfb, 0x99, 0x78, 0x96, 0x83, 0xad]),
    (10623, [0x2d, 0xec, 0x3d, 0x48, 0x22, 0x24, 0x2e, 0xda, 0x19, 0xce, 0x4f, 0xf1, 0xb7, 0x14, 0xe4, 0x37]),
    (10624, [0xbe, 0x37, 0xb6, 0x66, 0x99, 0xb6, 0x15, 0x85, 0x45, 0xf4, 0x16, 0xa5, 0x83, 0xa1, 0x47, 0x25]),
    (10681, [0xd3, 0x2a, 0x77, 0xb7, 0x04, 0x1e, 0x72, 0x28, 0x45, 0x26, 0xf7, 0xc8, 0x5b, 0x78, 0xab, 0x1d]),
    (10682, [0xd5, 0xe5, 0xe0, 0x8f, 0xd0, 0x2e, 0xe7, 0x28, 0xeb, 0x4a, 0xb0, 0x8c, 0x3a, 0xab, 0x4a, 0x75]),
    (10683, [0xb3, 0x73, 0x11, 0xf4, 0x35, 0x00, 0x1a, 0xb4, 0x8b, 0x05, 0x0e, 0xa5, 0xea, 0x93, 0xac, 0x15]),
    (10684, [0xa8, 0xb5, 0x5e, 0x61, 0x80, 0x5c, 0xb6, 0x07, 0x15, 0x00, 0x84, 0x3b, 0xe4, 0x54, 0xce, 0x8a]),
    (10685, [0xd4, 0xd2, 0x43, 0x97, 0xcc, 0xed, 0x34, 0x86, 0x01, 0x3e, 0x2e, 0x05, 0x31, 0x21, 0x3b, 0xee]),
    (10686, [0xef, 0x74, 0x92, 0xe8, 0x83, 0xd3, 0xc2, 0x66, 0x27, 0x3d, 0x33, 0x5e, 0x83, 0xcf, 0xba, 0x76]),
    (10687, [0x09, 0xa0, 0x91, 0x44, 0xc4, 0x80, 0xe1, 0x1e, 0x9d, 0xbc, 0xdf, 0x85, 0xa0, 0x53, 0xbc, 0xeb]),
    (10688, [0x27, 0xb1, 0x4a, 0x7a, 0xa2, 0x56, 0xd5, 0x94, 0x7f, 0x3b, 0x0d, 0x6c, 0x99, 0x75, 0x52, 0x9b]),
    (10689, [0xdb, 0x5f, 0x80, 0x39, 0xe2, 0x22, 0xb7, 0x7e, 0xf7, 0x4f, 0x86, 0xf0, 0x70, 0xbd, 0x1d, 0x2d]),
    (10695, [0xc7, 0x00, 0x52, 0x8e, 0x2c, 0x06, 0x15, 0x7d, 0x8c, 0x08, 0x8d, 0x4b, 0x6e, 0xd5, 0x50, 0x26]),
    (10697, [0xf1, 0x42, 0x22, 0x41, 0x8b, 0xa6, 0x03, 0x03, 0xd1, 0xef, 0x6c, 0x68, 0x86, 0x6d, 0xa5, 0xbd]),
    (10701, [0x50, 0x5c, 0x12, 0xc7, 0xb8, 0xf2, 0x09, 0xac, 0x82, 0x0d, 0xb7, 0xfd, 0x44, 0x3c, 0x50, 0xe4]),
    (11203, [0x94, 0x49, 0xd2, 0xda, 0xdf, 0x6d, 0x99, 0x12, 0xf0, 0x63, 0x7c, 0xdd, 0x93, 0x3b, 0x53, 0x88]),
    (11281, [0x71, 0x50, 0x4a, 0xc1, 0xe1, 0x2c, 0x4c, 0x1f, 0x6b, 0x91, 0x13, 0x15, 0x26, 0x1b, 0xe7, 0x5e]),
    (11421, [0xb0, 0xf6, 0xb4, 0x46, 0x0b, 0x5d, 0x28, 0x95, 0x5b, 0xfd, 0x1f, 0xad, 0x59, 0xaa, 0x71, 0x48]),
    (11422, [0x73, 0x3a, 0xb5, 0xf3, 0x5a, 0x6b, 0x05, 0x7c, 0x16, 0x5f, 0xbf, 0xe5, 0x03, 0x6a, 0xf7, 0x89]),
    (11423, [0x47, 0xa2, 0xc8, 0x85, 0x15, 0xd7, 0xb9, 0x9c, 0x8b, 0xbb, 0xd7, 0x33, 0x01, 0xb8, 0x25, 0xc6]),
    (11604, [0x9a, 0x0f, 0x81, 0x78, 0x52, 0x8a, 0x33, 0x7a, 0xfc, 0xe1, 0xea, 0x4a, 0x00, 0xe5, 0x27, 0x79]),
    (12902, [0x30, 0x39, 0x50, 0x25, 0xec, 0xc3, 0x54, 0xc1, 0xab, 0x60, 0x6e, 0x4a, 0x13, 0x63, 0x43, 0x59]),
    (13121, [0x24, 0xea, 0x7b, 0x7d, 0x9d, 0xb0, 0x68, 0x0e, 0x4b, 0xcf, 0xe0, 0xac, 0x0d, 0x41, 0x2c, 0xcb]),
    (13123, [0xc3, 0x3a, 0x12, 0xe9, 0x5f, 0xd5, 0x8e, 0x6f, 0xc5, 0x6c, 0x67, 0x24, 0x8c, 0xec, 0x74, 0x7d]),
    (13141, [0x02, 0x27, 0xd3, 0xc4, 0xcd, 0xff, 0x50, 0xd7, 0x29, 0x6b, 0x75, 0x6b, 0x72, 0xef, 0x8a, 0xa5]),
    (13163, [0xdd, 0x26, 0x00, 0xdf, 0xff, 0x58, 0xce, 0x55, 0x1c, 0xf4, 0xdb, 0x51, 0x6d, 0x86, 0x82, 0xad]),
    (13181, [0xd3, 0x1b, 0x12, 0x80, 0xdc, 0x25, 0x9f, 0xeb, 0xe9, 0x93, 0x8f, 0xde, 0x01, 0x1a, 0x62, 0xfc]),
    (13182, [0x69, 0x4b, 0xb2, 0xa6, 0x42, 0xe2, 0x06, 0x94, 0x38, 0x9f, 0x19, 0x01, 0x5f, 0xa6, 0x2f, 0xdb]),
    (13701, [0x3f, 0xf3, 0xf2, 0x05, 0x2b, 0xe3, 0x2e, 0xbc, 0x66, 0x97, 0x73, 0x50, 0x78, 0x27, 0x1a, 0xac]),
    (13702, [0xd1, 0xfe, 0xfc, 0x73, 0xeb, 0x10, 0x47, 0xbb, 0x9d, 0x75, 0xda, 0xdc, 0x77, 0x18, 0xdb, 0x50]),
    (15101, [0xeb, 0x63, 0x86, 0x07, 0xb6, 0xe1, 0x97, 0xb0, 0x72, 0x86, 0x88, 0x64, 0x6e, 0x70, 0x52, 0x2a]),
    (15102, [0xab, 0xcc, 0x16, 0xa1, 0xa0, 0xe6, 0x37, 0x79, 0x95, 0x8e, 0xb1, 0x77, 0x16, 0xe1, 0xe7, 0x61]),
    (15103, [0xee, 0x9c, 0xa9, 0x5f, 0x98, 0x74, 0x8d, 0x20, 0x73, 0x40, 0x20, 0xb6, 0xbe, 0xc3, 0x90, 0x7c]),
    (15104, [0x57, 0x21, 0x0a, 0x27, 0xad, 0x68, 0xc2, 0x59, 0x2c, 0xbe, 0xb5, 0xed, 0x57, 0x35, 0x8f, 0xee]),
    (15105, [0xd1, 0x25, 0x6c, 0x23, 0x9f, 0x17, 0xaf, 0xe9, 0x97, 0x42, 0xc0, 0xc1, 0x40, 0x13, 0xe4, 0xb0]),
    (15106, [0x1b, 0xd7, 0x7b, 0xfa, 0x3d, 0x44, 0x67, 0xf8, 0xaa, 0xc6, 0x85, 0x58, 0xfd, 0x49, 0xa5, 0xe0]),
    (15107, [0xe3, 0x6b, 0xbd, 0x26, 0x6f, 0xf2, 0x05, 0x06, 0x91, 0x52, 0x2d, 0x8a, 0x80, 0x75, 0x70, 0x1f]),
    (15108, [0xba, 0xe6, 0x95, 0x47, 0xe1, 0xf3, 0xa9, 0x51, 0x63, 0xc2, 0x4d, 0xc6, 0x3d, 0x60, 0xce, 0xb3]),
    (15109, [0x28, 0xfb, 0x85, 0xaf, 0xb1, 0x5e, 0x3f, 0xb8, 0x28, 0x46, 0x3a, 0x19, 0xed, 0x3d, 0x6c, 0xef]),
    (15401, [0xee, 0xb1, 0xf2, 0x0d, 0xa3, 0xd6, 0x9d, 0xd2, 0x16, 0x81, 0x4e, 0x1f, 0x60, 0x57, 0x11, 0xe1]),
    (15402, [0x99, 0x21, 0xee, 0xf9, 0xb5, 0xff, 0x28, 0x0c, 0xbd, 0x55, 0xa6, 0x95, 0xb1, 0xac, 0x1d, 0xb8]),
    (15501, [0x68, 0x66, 0x05, 0xf0, 0x55, 0x00, 0x99, 0x8b, 0x3f, 0x7e, 0xf1, 0x7d, 0xd6, 0x60, 0x8f, 0x82]),
    (15541, [0xb4, 0xb9, 0x05, 0x3b, 0x6d, 0xc1, 0x73, 0x32, 0xd5, 0xe8, 0xea, 0x87, 0xdb, 0x77, 0x6b, 0x93]),
    (15561, [0x77, 0xd4, 0x3b, 0x34, 0x97, 0x6e, 0x02, 0xf1, 0x26, 0xe9, 0xd8, 0x62, 0x08, 0xe1, 0xd7, 0x61]),
    (15562, [0x0e, 0x6e, 0xe3, 0xe0, 0x5c, 0x74, 0x55, 0x78, 0x07, 0x5e, 0xd4, 0x5b, 0x5b, 0x17, 0xfe, 0xa6]),
    (15621, [0xb8, 0x94, 0x19, 0xb9, 0x15, 0x52, 0x40, 0x91, 0x9a, 0xe5, 0x72, 0xcf, 0x47, 0x91, 0x23, 0x98]),
    (15622, [0xe5, 0x39, 0xe4, 0x0f, 0x99, 0x2e, 0xfd, 0x2e, 0x30, 0x31, 0xdd, 0xd1, 0x53, 0xba, 0x16, 0xa0]),
    (15623, [0x7c, 0x22, 0xaa, 0x20, 0x5d, 0x0c, 0x5c, 0xdc, 0x27, 0x8f, 0x8d, 0x1d, 0x6a, 0x06, 0x04, 0x91]),
    (15624, [0xe1, 0x0d, 0xca, 0x30, 0xa5, 0x15, 0x5e, 0x47, 0xd4, 0xcd, 0xf4, 0xcf, 0xf0, 0xb1, 0xa0, 0x03]),
    (15625, [0x53, 0x76, 0x0c, 0x13, 0x0b, 0x3d, 0x1e, 0x9e, 0x13, 0x4c, 0x02, 0x43, 0x7a, 0xb3, 0x1f, 0x8c]),
    (15626, [0x77, 0x9a, 0x40, 0x12, 0xd0, 0x6d, 0x9d, 0x1c, 0x02, 0x66, 0x7c, 0xf7, 0x14, 0xc4, 0xb0, 0x1e]),
    (15627, [0xe8, 0xa4, 0x09, 0xbb, 0x48, 0x1a, 0x17, 0xfc, 0x46, 0x34, 0x7b, 0xb4, 0xa9, 0x65, 0xe4, 0x3b]),
    (15628, [0x28, 0xee, 0xd5, 0xd2, 0xc1, 0x9c, 0x9d, 0xd6, 0xb7, 0xff, 0x1b, 0x4e, 0x03, 0x85, 0x0a, 0x2e]),
    (15629, [0x02, 0x0e, 0x34, 0x14, 0x1c, 0xf2, 0x68, 0x76, 0x6c, 0x39, 0xac, 0x19, 0xab, 0x03, 0xf5, 0x3c]),
    (15630, [0x1e, 0x9b, 0x66, 0x6f, 0xd9, 0x7d, 0x7a, 0x26, 0x6f, 0x95, 0x7e, 0x22, 0xd3, 0xda, 0x33, 0x55]),
    (15631, [0x16, 0xd6, 0x2f, 0xd8, 0xad, 0x72, 0xa9, 0x83, 0x67, 0x44, 0xd7, 0xed, 0xb4, 0xde, 0x5e, 0xf4]),
    (15641, [0x43, 0xfa, 0x78, 0x4c, 0xde, 0x78, 0x44, 0x50, 0x8b, 0x93, 0x7f, 0xc1, 0xca, 0x26, 0xf9, 0xa9]),
    (15642, [0xb9, 0x64, 0x3c, 0xda, 0x6f, 0x0a, 0x41, 0xcf, 0x59, 0xa8, 0x54, 0x36, 0x59, 0x18, 0x88, 0x40]),
    (15643, [0x49, 0x90, 0x63, 0x7d, 0xba, 0x30, 0x9e, 0x56, 0x69, 0x9e, 0xe3, 0x32, 0x2a, 0x39, 0x17, 0xa9]),
    (15644, [0xba, 0x58, 0xad, 0x73, 0xf7, 0x32, 0x43, 0xfe, 0x8e, 0xbd, 0x8b, 0xd5, 0x91, 0x1e, 0x7c, 0xe1]),
    (15645, [0x97, 0xb9, 0x11, 0x79, 0xf2, 0x24, 0x0d, 0xda, 0x17, 0xde, 0xac, 0x67, 0xe7, 0x11, 0xb1, 0x47]),
    (15646, [0x64, 0x5b, 0x9a, 0xdc, 0x82, 0x23, 0x2b, 0x66, 0xf7, 0xc1, 0xff, 0xc8, 0xcb, 0xcd, 0xe4, 0x84]),
    (15647, [0x75, 0xc9, 0x9d, 0xc2, 0x73, 0x8b, 0x59, 0x21, 0x5b, 0x7b, 0x5e, 0xa0, 0x41, 0x21, 0x25, 0x70]),
    (15648, [0x97, 0x6f, 0x74, 0x58, 0xf7, 0x62, 0x8d, 0x38, 0x3c, 0xf6, 0x55, 0xdb, 0x64, 0x70, 0x24, 0x01]),
    (15649, [0x2b, 0xcb, 0x70, 0xbe, 0x72, 0x95, 0xfc, 0xce, 0x1f, 0x6c, 0x61, 0xb3, 0x89, 0x13, 0x01, 0x47]),
    (15650, [0x22, 0x21, 0xa1, 0x53, 0x2b, 0xf4, 0xbe, 0x01, 0x52, 0x0d, 0xf1, 0x16, 0x5d, 0x28, 0x2b, 0x38]),
    (15651, [0x4f, 0x68, 0xc6, 0x75, 0x71, 0x9e, 0xb9, 0x06, 0x02, 0xa3, 0xe6, 0xe2, 0xfd, 0x76, 0x01, 0x44]),
    (15652, [0xf1, 0xb5, 0x64, 0x4b, 0xa6, 0xb7, 0x24, 0x47, 0xaa, 0x89, 0xce, 0xa4, 0x2e, 0xe7, 0x5f, 0x70]),
    (15653, [0x1a, 0x11, 0x1d, 0x33, 0xd5, 0xe7, 0xa1, 0x61, 0xc3, 0x7d, 0x59, 0xcf, 0x38, 0x6d, 0x61, 0xa8]),
    (15654, [0x98, 0x26, 0xde, 0x56, 0x71, 0x57, 0xe1, 0xcc, 0x98, 0x69, 0xa4, 0xd1, 0xa4, 0x7f, 0xb8, 0x61]),
    (15655, [0x55, 0x73, 0x89, 0xd8, 0x25, 0x4d, 0x83, 0x7c, 0xd1, 0xef, 0x1d, 0x8f, 0x7d, 0x71, 0xc5, 0x95]),
    (15656, [0x47, 0xbe, 0xa0, 0x8e, 0x06, 0x3b, 0x78, 0xaa, 0xc1, 0x51, 0x9d, 0xaf, 0x25, 0x0c, 0x19, 0x09]),
    (15661, [0xc7, 0xf5, 0xd6, 0xce, 0x5b, 0xd0, 0x09, 0x04, 0xc3, 0x8e, 0x70, 0x5e, 0xe7, 0xc6, 0xe4, 0x72]),
    (15662, [0x10, 0x38, 0xe1, 0xc5, 0x44, 0x4c, 0x82, 0x2c, 0x56, 0xd5, 0xd8, 0x76, 0xb1, 0x5b, 0xdc, 0x8b]),
    (15663, [0x91, 0x1d, 0xae, 0xac, 0xd7, 0xd5, 0xc0, 0xe3, 0xb1, 0x9a, 0x1e, 0xde, 0x1e, 0xce, 0x4d, 0x9a])]"

definition TABLE_05 :: "key_entry list" where
  "TABLE_05 = [
    (15664, [0x40, 0x5e, 0xa4, 0x87, 0x78, 0xb4, 0xc2, 0x18, 0x5a, 0x79, 0xd2, 0x3b, 0x6e, 0x30, 0x80, 0xf4]),
    (15665, [0xc1, 0x8f, 0xaf, 0x0f, 0xb7, 0xe4, 0x04, 0xe9, 0x53, 0x16, 0x01, 0x41, 0xb9, 0xcd, 0xc0, 0x05]),
    (15666, [0xc2, 0xb4, 0xbd, 0xe3, 0x2e, 0xf3, 0x0d, 0xaf, 0x76, 0xea, 0xa8, 0x26, 0xe8, 0xf0, 0x83, 0xff]),
    (15681, [0xc2, 0x10, 0xa0, 0x31, 0x0b, 0x9e, 0x11, 0x7b, 0x35, 0xb1, 0x4f, 0x31, 0x3c, 0x8c, 0x70, 0x0b]),
    (15682, [0x3b, 0x09, 0x3d, 0x2d, 0x3f, 0x83, 0x74, 0xb1, 0x0e, 0xab, 0xb5, 0xe9, 0xb1, 0x0c, 0x07, 0xd3]),
    (15683, [0x73, 0x0f, 0x58, 0xf6, 0x84, 0x2a, 0x5f, 0xbc, 0xff, 0xd0, 0xe5, 0x9e, 0xf6, 0xe9, 0xaf, 0x5f]),
    (15684, [0x66, 0xc0, 0x16, 0x46, 0xae, 0xa3, 0x4a, 0x4a, 0xec, 0xc1, 0xc6, 0xbe, 0x7c, 0x96, 0xfa, 0x17]),
    (15685, [0xc5, 0x52, 0x1f, 0xb7, 0xd9, 0x1c, 0x44, 0x35, 0xd0, 0xdf, 0x89, 0xe3, 0xac, 0xf8, 0x59, 0xb6]),
    (15686, [0xc8, 0xbb, 0x17, 0xa7, 0xba, 0xa2, 0x7b, 0x55, 0x8a, 0x44, 0x63, 0xe1, 0x18, 0xb6, 0x5f, 0x8c]),
    (15687, [0xf4, 0x4a, 0xfa, 0xb6, 0x1e, 0x38, 0x72, 0xc1, 0x44, 0x6f, 0x14, 0xed, 0xe0, 0x2e, 0x07, 0xa5]),
    (15688, [0x45, 0xeb, 0x4d, 0x07, 0x10, 0x4b, 0x4c, 0x93, 0x2b, 0x8e, 0x48, 0xf3, 0xe1, 0x77, 0x8b, 0x66]),
    (15689, [0x0b, 0x8b, 0xb9, 0x7b, 0x36, 0x93, 0x89, 0xa7, 0x5b, 0x68, 0x2e, 0xb9, 0x21, 0x3a, 0x8c, 0x41]),
    (15690, [0x6e, 0x75, 0x1f, 0xcc, 0x22, 0x00, 0xb5, 0xe4, 0xd3, 0x63, 0x70, 0x51, 0xe6, 0x69, 0x2e, 0x38]),
    (16451, [0xf1, 0x83, 0xe8, 0x45, 0xb8, 0xa0, 0xa3, 0x40, 0xcb, 0xd6, 0xf7, 0x92, 0x24, 0x27, 0xd7, 0xc1]),
    (16452, [0x4e, 0x18, 0x5b, 0xe9, 0xd1, 0x86, 0xa7, 0x92, 0xec, 0x1e, 0x1a, 0x03, 0xfe, 0xd3, 0x62, 0xc2]),
    (16453, [0xd7, 0x99, 0xd4, 0x7e, 0x9c, 0x37, 0x79, 0x95, 0x46, 0xf6, 0xf6, 0xe9, 0x57, 0xf0, 0x4b, 0xbf]),
    (16454, [0xe3, 0x4c, 0xe9, 0x7d, 0x2d, 0xc3, 0x2b, 0x73, 0xaf, 0x55, 0x36, 0xfd, 0x3f, 0x07, 0xed, 0xf0]),
    (16455, [0xfa, 0xe7, 0x57, 0x99, 0x61, 0x4e, 0x25, 0x2a, 0x6c, 0x3c, 0x5e, 0x84, 0xe9, 0xb8, 0x33, 0x63]),
    (16456, [0x61, 0x10, 0x04, 0xc5, 0x12, 0x85, 0xec, 0x56, 0xfe, 0x59, 0xcf, 0xce, 0xc7, 0x9f, 0x74, 0xd7]),
    (16457, [0xf9, 0xeb, 0xc9, 0x49, 0x22, 0x04, 0xda, 0xb9, 0x8b, 0x67, 0x25, 0x5b, 0xc6, 0xdf, 0x3e, 0x1e]),
    (16458, [0x48, 0xc8, 0x10, 0x30, 0x50, 0xc7, 0xd1, 0xe9, 0x1d, 0xfa, 0xd1, 0x45, 0x9f, 0x9d, 0x81, 0x02]),
    (16459, [0x93, 0x0c, 0x33, 0x5a, 0x9d, 0xee, 0x21, 0x0b, 0xee, 0x68, 0x9a, 0x17, 0x3b, 0x15, 0xff, 0x50]),
    (16461, [0x19, 0x45, 0xdd, 0x85, 0x66, 0xf8, 0x9c, 0x50, 0xce, 0x8e, 0x9b, 0xcc, 0xb3, 0x2b, 0x62, 0x43]),
    (16462, [0xa6, 0x3e, 0xa9, 0xf8, 0x3e, 0xac, 0x71, 0x16, 0xd2, 0x6c, 0x28, 0x0b, 0x0b, 0xae, 0xbf, 0xbf]),
    (16463, [0xd8, 0x02, 0xc8, 0x67, 0x82, 0x8b, 0xfb, 0x72, 0xf2, 0x3b, 0x04, 0x0b, 0x3b, 0x80, 0xce, 0xcf]),
    (16481, [0xfd, 0x6c, 0x31, 0x87, 0xb6, 0xe7, 0x55, 0x80, 0xc1, 0x6c, 0xd5, 0x65, 0xfd, 0x9a, 0xf6, 0xce]),
    (16482, [0x17, 0xe6, 0xa8, 0x15, 0x91, 0xe0, 0x32, 0xa3, 0xe6, 0xe9, 0x0d, 0xec, 0xc7, 0x27, 0x9b, 0x5c]),
    (16721, [0xf1, 0xed, 0x20, 0xd5, 0xbf, 0xa2, 0xa3, 0xec, 0x48, 0x78, 0x53, 0xe6, 0x78, 0xd7, 0xae, 0xea]),
    (16801, [0xc2, 0xee, 0x0d, 0x1f, 0x91, 0x1b, 0x89, 0xe7, 0xfb, 0xb5, 0x88, 0x85, 0xd3, 0x4f, 0x73, 0xba]),
    (16831, [0xe8, 0xd0, 0xc9, 0xcc, 0xad, 0x18, 0x96, 0xf2, 0xb4, 0xa2, 0x46, 0x64, 0x88, 0x16, 0xc0, 0x3c]),
    (16841, [0xb2, 0xe1, 0xed, 0x3b, 0x56, 0x07, 0x25, 0x13, 0xfc, 0xbc, 0xfe, 0x4a, 0xfc, 0x53, 0xf4, 0x90]),
    (16842, [0x31, 0x52, 0x3c, 0x3b, 0x56, 0x48, 0x4f, 0xdb, 0xb4, 0xbe, 0xa6, 0x99, 0xb7, 0x53, 0x56, 0x14]),
    (16843, [0xd3, 0xd6, 0x84, 0x45, 0xd9, 0x35, 0x16, 0x3e, 0xd3, 0x73, 0x87, 0x59, 0x94, 0xf6, 0xea, 0x45]),
    (16844, [0x9c, 0x98, 0x62, 0xb6, 0xea, 0xbe, 0x3b, 0x1c, 0x81, 0x1f, 0x78, 0x9f, 0xd2, 0xf3, 0x41, 0xea]),
    (16845, [0xfc, 0xe9, 0x10, 0x05, 0x75, 0x33, 0x58, 0xf0, 0x31, 0x75, 0xd8, 0xf7, 0xf2, 0xd0, 0xd5, 0x9b]),
    (16846, [0xd1, 0xa8, 0xe3, 0xa7, 0xa6, 0xc4, 0xaf, 0x6e, 0x63, 0x98, 0xfa, 0xa2, 0xcb, 0xc7, 0x6a, 0x1a]),
    (16847, [0x6b, 0xb9, 0x9c, 0xae, 0x3c, 0xd6, 0x5a, 0xbc, 0x98, 0x45, 0xb9, 0xfd, 0x0f, 0x7b, 0xf5, 0xea]),
    (16848, [0x7a, 0xe6, 0xec, 0x6c, 0xba, 0x9e, 0xb3, 0xbd, 0x4c, 0x16, 0x06, 0x70, 0xc0, 0x09, 0xa9, 0x82]),
    (16849, [0xb6, 0x29, 0xe0, 0x3c, 0x1c, 0xc9, 0xe1, 0x3e, 0x28, 0x1d, 0xb7, 0x37, 0x2f, 0x68, 0x9e, 0x3f]),
    (16851, [0x6b, 0x31, 0x2e, 0x38, 0xa3, 0x20, 0x69, 0xa7, 0xf9, 0xcc, 0x99, 0xd4, 0xd8, 0x98, 0x17, 0x65]),
    (16860, [0xad, 0x19, 0xbc, 0x55, 0x48, 0x63, 0xbd, 0xa6, 0xbc, 0xc5, 0x16, 0xba, 0xb1, 0x01, 0x1d, 0x92]),
    (16861, [0x51, 0x0b, 0x34, 0xe9, 0x07, 0x9b, 0x87, 0xa8, 0x1c, 0x7c, 0x2b, 0xaa, 0x27, 0xdd, 0x10, 0x1f]),
    (16862, [0x59, 0xc8, 0x6b, 0x35, 0xe1, 0xaa, 0xd5, 0x93, 0x34, 0x34, 0x2d, 0xb8, 0xd7, 0x99, 0x9e, 0x7b]),
    (16863, [0x71, 0x3a, 0xbf, 0x86, 0xbf, 0xdd, 0xeb, 0x8b, 0xaa, 0x5a, 0x9c, 0x0f, 0x62, 0xdd, 0x5c, 0xa9]),
    (16864, [0x93, 0x57, 0x70, 0x5a, 0xb5, 0xd9, 0x4a, 0x50, 0xe2, 0x78, 0xb1, 0x83, 0xbb, 0x72, 0x4e, 0x1b]),
    (16865, [0xfc, 0xf9, 0xd4, 0xce, 0x59, 0xe4, 0x6a, 0xb2, 0xb5, 0x28, 0x9c, 0x40, 0xe4, 0x64, 0x69, 0x37]),
    (16866, [0xb8, 0x5e, 0x89, 0xd0, 0x7d, 0x66, 0xe9, 0xd8, 0x0b, 0xfd, 0xa5, 0x17, 0x85, 0x17, 0x93, 0x95]),
    (16867, [0x21, 0xdf, 0xa9, 0x6b, 0xb6, 0x30, 0xc5, 0x0d, 0xb2, 0x7e, 0xb6, 0x9a, 0xfe, 0x4b, 0x83, 0x54]),
    (16868, [0x17, 0x76, 0x81, 0xad, 0x3c, 0xf4, 0x94, 0x37, 0x9f, 0x44, 0xfe, 0x7d, 0x5c, 0xd4, 0x1e, 0x99]),
    (16869, [0x58, 0x46, 0xfc, 0x20, 0x1b, 0x70, 0xb2, 0xb9, 0xe8, 0xc3, 0xc6, 0xbf, 0xdf, 0x1a, 0xd7, 0xe7]),
    (16870, [0x16, 0x5a, 0x68, 0x03, 0xea, 0x22, 0x9b, 0x45, 0x74, 0x88, 0x4a, 0xa7, 0x08, 0x03, 0x96, 0x9b]),
    (16871, [0x09, 0x52, 0xf2, 0x6c, 0x62, 0x65, 0xfa, 0xd8, 0x68, 0xa8, 0x6e, 0x4f, 0xd7, 0x61, 0x98, 0xd9]),
    (16880, [0x3d, 0xa4, 0x8c, 0x58, 0x0b, 0x37, 0x6a, 0x66, 0xad, 0x57, 0xdc, 0xf1, 0x48, 0xfd, 0x95, 0x65]),
    (16881, [0xc6, 0xe2, 0x0d, 0xe7, 0xd7, 0xb0, 0x03, 0x14, 0xce, 0x6a, 0x22, 0x33, 0x82, 0x96, 0xfb, 0x6e]),
    (16890, [0x20, 0x52, 0xa3, 0x00, 0x55, 0xd4, 0xef, 0xea, 0xad, 0x47, 0xb6, 0x38, 0xe0, 0x4b, 0x4a, 0xde]),
    (16891, [0x18, 0xca, 0x0d, 0x66, 0x04, 0x3b, 0x1a, 0xc3, 0xc9, 0xa5, 0x65, 0x96, 0x42, 0x96, 0x5e, 0xf5]),
    (16901, [0x27, 0xdf, 0x81, 0xb2, 0x75, 0x86, 0x1e, 0x48, 0x25, 0xcb, 0xb7, 0x67, 0x45, 0xe7, 0xc7, 0xff]),
    (17001, [0xce, 0x13, 0x94, 0x4d, 0x88, 0x48, 0xd0, 0x7c, 0xaf, 0xb8, 0xd5, 0xdc, 0xbb, 0xac, 0x30, 0xa6]),
    (17021, [0x48, 0x4e, 0x50, 0xeb, 0xa8, 0x5c, 0xaa, 0xbd, 0x3f, 0x21, 0x60, 0xc3, 0x3d, 0x0f, 0xe4, 0xf4]),
    (17082, [0xa7, 0x92, 0x71, 0x46, 0x09, 0x76, 0x84, 0xd8, 0x3e, 0xc7, 0x03, 0x87, 0x19, 0x8f, 0x89, 0xd5]),
    (17103, [0x6d, 0xe7, 0xa5, 0x90, 0x32, 0xc6, 0x77, 0x49, 0x92, 0x71, 0x39, 0x1f, 0x49, 0xec, 0x1b, 0xa8]),
    (17104, [0xb8, 0x84, 0xd4, 0x51, 0xa3, 0x79, 0x7f, 0x7f, 0x64, 0x33, 0x86, 0xe6, 0xc8, 0xba, 0xf8, 0x25]),
    (17105, [0xc1, 0x93, 0xd3, 0xed, 0x64, 0x30, 0xc8, 0xa9, 0xe7, 0x0c, 0xd1, 0x26, 0xfb, 0x6b, 0x2b, 0x71]),
    (17106, [0x62, 0x8a, 0x22, 0x93, 0x7f, 0x1c, 0x4e, 0x2e, 0x1b, 0xe8, 0x9c, 0x25, 0x2e, 0x4f, 0x07, 0xa1]),
    (17113, [0x89, 0x0b, 0xef, 0x58, 0x1e, 0x3b, 0x0c, 0xdd, 0xbc, 0x65, 0xcd, 0x13, 0xb7, 0x27, 0xa5, 0x63]),
    (17115, [0xe7, 0x96, 0xd8, 0xd4, 0x43, 0xef, 0x41, 0xb7, 0x72, 0x51, 0xa5, 0x8c, 0xf3, 0xf3, 0x06, 0xcb]),
    (17121, [0x62, 0x06, 0xdf, 0xb2, 0x00, 0x68, 0x00, 0xf2, 0x63, 0x5a, 0xd9, 0xcb, 0xba, 0x18, 0x3d, 0xba]),
    (17122, [0x20, 0x62, 0x95, 0x61, 0x53, 0x85, 0x5f, 0x96, 0x7f, 0x39, 0x57, 0x21, 0xcc, 0x1b, 0x66, 0x02]),
    (17132, [0x7f, 0xb3, 0xc9, 0x6d, 0x4d, 0x87, 0xc3, 0x30, 0x38, 0x09, 0x5b, 0xdb, 0x6a, 0x3d, 0x00, 0xbe]),
    (17133, [0xd5, 0x0a, 0x56, 0x9f, 0x03, 0x6f, 0x7e, 0xd6, 0x6d, 0xc3, 0x4d, 0xf4, 0x85, 0x66, 0xc1, 0x15]),
    (17134, [0xba, 0x71, 0xc1, 0x27, 0x1f, 0xf1, 0x22, 0xaf, 0xd9, 0x44, 0x91, 0x44, 0xf3, 0x8f, 0x1c, 0xf4]),
    (17135, [0xfa, 0xd2, 0x42, 0xae, 0x65, 0xd5, 0xb2, 0xa6, 0x97, 0x51, 0x64, 0x65, 0xe1, 0x24, 0x75, 0x40]),
    (17136, [0x1b, 0x2f, 0x56, 0xa0, 0xfd, 0x11, 0x78, 0xb4, 0xec, 0xe5, 0x76, 0xbd, 0x46, 0x21, 0xd9, 0xaf]),
    (17201, [0x00, 0x7f, 0x45, 0x12, 0x3d, 0xd0, 0xeb, 0x4e, 0x08, 0xf4, 0x11, 0x16, 0x36, 0xc8, 0x5d, 0xfd]),
    (17202, [0x6d, 0xe3, 0xa4, 0xf6, 0xb0, 0x51, 0xf6, 0x77, 0x30, 0xd9, 0xfc, 0x4d, 0xf4, 0x50, 0x7a, 0x95]),
    (17203, [0x10, 0xae, 0x97, 0xb8, 0x77, 0xc6, 0xeb, 0xff, 0x08, 0xea, 0xde, 0xea, 0x9b, 0x06, 0xd1, 0xd1]),
    (17204, [0x39, 0xe4, 0x9f, 0x1d, 0xc0, 0x56, 0x5a, 0xb4, 0x8d, 0x7e, 0xb2, 0xcf, 0x60, 0x50, 0xe8, 0x5e]),
    (17205, [0x16, 0x62, 0x5d, 0x1a, 0xd3, 0x63, 0xd9, 0x97, 0x71, 0x9e, 0x9e, 0xbc, 0x5f, 0xd0, 0x06, 0x70]),
    (17206, [0x6c, 0x53, 0x00, 0x40, 0xcd, 0xf2, 0x87, 0xab, 0x1b, 0x83, 0xad, 0x8b, 0xaf, 0x8d, 0xe1, 0xf0]),
    (17207, [0x80, 0x51, 0x35, 0x59, 0xc3, 0x3f, 0x79, 0xee, 0x98, 0x43, 0x74, 0x36, 0x65, 0x5e, 0x68, 0xf7]),
    (17208, [0x87, 0xb7, 0x6f, 0x20, 0x1e, 0x05, 0xea, 0x92, 0xa7, 0x20, 0xbd, 0x9c, 0xcb, 0xca, 0x36, 0x40]),
    (17209, [0xe3, 0xa5, 0xbb, 0xfd, 0x39, 0x21, 0xbc, 0x06, 0x5e, 0x02, 0xb6, 0x96, 0x5b, 0x7f, 0xbe, 0x49]),
    (17210, [0x34, 0x3b, 0xaf, 0xbc, 0x34, 0xe4, 0x82, 0x11, 0xdf, 0x76, 0xb7, 0x0e, 0x62, 0x54, 0xf5, 0xb6]),
    (17220, [0x12, 0xc2, 0xce, 0x8e, 0x77, 0x64, 0x93, 0xee, 0xbe, 0x68, 0x4f, 0xbd, 0x66, 0x52, 0x52, 0x7a]),
    (17451, [0xfc, 0xb4, 0x8f, 0x0c, 0xa0, 0xa1, 0xdd, 0x65, 0x95, 0x17, 0x11, 0xfc, 0xca, 0xa5, 0x7b, 0x2a]),
    (17452, [0x94, 0x0e, 0x8d, 0x74, 0x14, 0x43, 0x23, 0xb9, 0xcf, 0x79, 0xbe, 0xa3, 0xad, 0x74, 0xf1, 0x04]),
    (17453, [0x88, 0x8e, 0x85, 0x76, 0x66, 0x2b, 0x26, 0x83, 0x22, 0x44, 0x37, 0xe0, 0x2e, 0x6b, 0x1f, 0xd0]),
    (17454, [0x04, 0xe5, 0x7f, 0x3e, 0xc1, 0x60, 0x8f, 0x05, 0xcd, 0x7b, 0x8f, 0x37, 0xf3, 0x50, 0xc7, 0xc8]),
    (17455, [0x67, 0xff, 0x7f, 0x2b, 0x2a, 0x1f, 0xc1, 0x71, 0xae, 0xc6, 0xbc, 0x04, 0x2a, 0xdb, 0x3a, 0xe3]),
    (17456, [0x03, 0x21, 0xb7, 0xab, 0x06, 0xb2, 0x32, 0xe5, 0xee, 0xde, 0xef, 0x3f, 0x5f, 0x79, 0x82, 0xea]),
    (17457, [0x2a, 0xe1, 0x6c, 0x5a, 0xc0, 0x04, 0xf1, 0x3f, 0xbc, 0x03, 0x4c, 0x60, 0x82, 0x19, 0x3e, 0x54]),
    (17458, [0xae, 0x5f, 0x37, 0x8d, 0xf5, 0xce, 0x14, 0xfe, 0x52, 0x7c, 0x86, 0x3a, 0xb1, 0xc2, 0x51, 0x12]),
    (17459, [0xcc, 0x28, 0xe3, 0xf0, 0xf9, 0xc5, 0x15, 0x08, 0xd9, 0x08, 0x4b, 0x22, 0xcd, 0xd5, 0x4a, 0x47]),
    (17531, [0x6c, 0x34, 0xc6, 0x3e, 0xd5, 0x95, 0x87, 0x31, 0x2e, 0x30, 0x45, 0x67, 0xaa, 0x98, 0xf2, 0x7d]),
    (17551, [0xde, 0xdd, 0x5b, 0x32, 0x58, 0x96, 0xa8, 0xd1, 0xea, 0x74, 0x72, 0x03, 0x78, 0x49, 0xdf, 0x60]),
    (17571, [0xd0, 0xcc, 0xfa, 0xf8, 0x3d, 0x03, 0xbe, 0xb4, 0x00, 0x9c, 0x94, 0x9d, 0xf1, 0x51, 0x5f, 0xac]),
    (17711, [0xf9, 0x34, 0x0e, 0x93, 0x8e, 0x8d, 0xf5, 0x89, 0x1f, 0xdb, 0x9c, 0x3f, 0x4a, 0x10, 0x86, 0x44]),
    (17712, [0xac, 0x35, 0x41, 0xe0, 0x58, 0xde, 0x74, 0xdb, 0x27, 0x63, 0x82, 0xaa, 0xf6, 0x37, 0xa5, 0xa3]),
    (17713, [0x2b, 0xc7, 0x17, 0xc4, 0xd8, 0x1a, 0xe3, 0x4b, 0x8f, 0x30, 0x3f, 0x45, 0x73, 0xc3, 0x21, 0x2a]),
    (17714, [0x74, 0x19, 0x4a, 0x05, 0x1a, 0xaa, 0xec, 0xc6, 0x4f, 0xca, 0x60, 0x64, 0x11, 0x44, 0xa4, 0x81]),
    (17715, [0x2e, 0xff, 0x25, 0xe7, 0x35, 0x2f, 0x9a, 0xdf, 0x55, 0xf6, 0x93, 0x99, 0x9e, 0xe7, 0x04, 0xc2]),
    (17716, [0x13, 0x0f, 0xd1, 0xea, 0x91, 0x2b, 0x5d, 0x56, 0x4a, 0xd1, 0x8a, 0x77, 0x00, 0x05, 0x49, 0xb4]),
    (17741, [0xdd, 0xcb, 0x58, 0xf1, 0xe3, 0xcb, 0x6d, 0x22, 0xcd, 0x2d, 0x59, 0xc6, 0x06, 0x07, 0x7c, 0xf6]),
    (17742, [0x48, 0xce, 0x60, 0xae, 0x95, 0xe8, 0x7b, 0xa3, 0x91, 0x70, 0x99, 0x91, 0x13, 0x9d, 0xfe, 0x69]),
    (17743, [0x88, 0x43, 0x13, 0x35, 0x97, 0x0a, 0xa4, 0x48, 0x3a, 0x88, 0xdf, 0xd9, 0x84, 0xa9, 0x31, 0x62]),
    (18071, [0x01, 0x7c, 0xc6, 0x04, 0xd1, 0x74, 0xcb, 0x36, 0xfd, 0x1f, 0x4c, 0x38, 0x14, 0x2a, 0x4e, 0xdf]),
    (18072, [0x9b, 0x7d, 0xf2, 0xd3, 0x15, 0x42, 0x08, 0x37, 0x05, 0x3c, 0xcf, 0x40, 0xb1, 0x8c, 0xb8, 0x30]),
    (18080, [0xb0, 0x3b, 0x3d, 0xe3, 0x3c, 0xd0, 0xfc, 0xe4, 0xe8, 0xec, 0x78, 0x7a, 0xce, 0xea, 0xd2, 0xdb]),
    (18081, [0x2b, 0xe0, 0xd5, 0x08, 0x21, 0x37, 0xe3, 0x25, 0xcd, 0xdc, 0x7e, 0x30, 0x2b, 0x59, 0xcc, 0x11]),
    (18111, [0x09, 0x4c, 0xd4, 0xd3, 0x6b, 0x69, 0x95, 0x13, 0xba, 0x84, 0xc2, 0x16, 0x9a, 0x8c, 0xc0, 0x43]),
    (18112, [0x85, 0x63, 0x0e, 0xc6, 0x78, 0x78, 0x7b, 0x2c, 0x21, 0x21, 0xdb, 0x4d, 0x0e, 0x4a, 0x02, 0xa4]),
    (18121, [0x21, 0x04, 0x3b, 0xe7, 0x76, 0xd2, 0x8c, 0xb1, 0x59, 0xd7, 0x1e, 0x98, 0x85, 0x8a, 0x11, 0x95]),
    (18122, [0x45, 0x78, 0xcc, 0x22, 0x9b, 0x61, 0x71, 0x6e, 0xb5, 0x88, 0x78, 0x74, 0xff, 0xb1, 0x3a, 0xfa]),
    (18409, [0xb6, 0x62, 0xa0, 0x45, 0x43, 0x28, 0x50, 0x8c, 0xf2, 0x25, 0x81, 0x05, 0xf5, 0x8f, 0x1e, 0xea]),
    (18501, [0x7d, 0xc6, 0xbc, 0x63, 0xbe, 0x56, 0xb3, 0x0d, 0x2d, 0xfc, 0x17, 0x9e, 0x3c, 0x6b, 0xa8, 0xd8]),
    (18502, [0x70, 0x0f, 0x12, 0x2e, 0x8a, 0xdc, 0xd1, 0xcc, 0x88, 0xf9, 0x58, 0x3c, 0xf8, 0xc1, 0x89, 0x9c]),
    (18503, [0x1d, 0xe2, 0x5a, 0x54, 0xaa, 0x42, 0xe8, 0x14, 0x0f, 0xd3, 0x82, 0xef, 0xd9, 0x79, 0x27, 0xdb]),
    (18504, [0x96, 0x70, 0x6f, 0xd5, 0x9a, 0x28, 0x2a, 0x5a, 0x5b, 0x73, 0x96, 0x1b, 0xcc, 0xdd, 0x0b, 0x8f]),
    (18505, [0x26, 0x9a, 0x25, 0xa5, 0x6a, 0x4e, 0xbd, 0xe8, 0xde, 0x7a, 0xc2, 0x1a, 0x70, 0xe9, 0xfb, 0xfe]),
    (18506, [0x66, 0x54, 0x78, 0x4b, 0x64, 0x0b, 0x3c, 0x85, 0xa9, 0x09, 0x5d, 0x28, 0x05, 0x0d, 0x5c, 0x0b]),
    (18507, [0x55, 0xd8, 0xd9, 0x83, 0x22, 0x4b, 0x31, 0xca, 0xe6, 0x4f, 0x5e, 0x31, 0x65, 0xd6, 0x5e, 0x6b]),
    (18508, [0x36, 0x8d, 0xe5, 0x47, 0xd2, 0xb3, 0xb1, 0xec, 0x47, 0x4b, 0xaa, 0x98, 0xea, 0xb5, 0x9b, 0xc3]),
    (18509, [0x71, 0x57, 0x20, 0x2d, 0x73, 0x34, 0x42, 0x6d, 0xbb, 0x3b, 0xd9, 0x7d, 0x77, 0x60, 0x5c, 0x5a]),
    (18511, [0x51, 0x5d, 0x0c, 0xe3, 0x05, 0xcc, 0xa8, 0x54, 0xdc, 0x39, 0x25, 0xf9, 0xb4, 0xad, 0x51, 0xfd]),
    (18520, [0xc3, 0x85, 0xd4, 0xb0, 0x60, 0xb5, 0xa5, 0xe6, 0x43, 0xb2, 0x72, 0xa3, 0xe1, 0xbb, 0xcb, 0x0b]),
    (18521, [0x9d, 0xf3, 0x4d, 0xa9, 0x86, 0x01, 0xc3, 0x8a, 0x49, 0x8f, 0xc4, 0x7a, 0xef, 0xec, 0x17, 0x47]),
    (18522, [0xc9, 0x6d, 0x40, 0xe8, 0xa5, 0x6a, 0x0e, 0x91, 0x73, 0xd1, 0x87, 0x32, 0x4f, 0xce, 0x41, 0x87]),
    (18701, [0x09, 0x19, 0x00, 0xb9, 0x18, 0x7f, 0x3d, 0xc3, 0x75, 0x7f, 0xf7, 0x8c, 0xd9, 0x15, 0x36, 0xdd]),
    (18702, [0xf5, 0xa0, 0x1b, 0xa7, 0xeb, 0x6a, 0xfe, 0x67, 0x59, 0x32, 0xae, 0xfc, 0x38, 0x2e, 0x23, 0xe1]),
    (19002, [0x26, 0xa1, 0x16, 0x33, 0xc4, 0xdc, 0x1d, 0xb0, 0x7c, 0xa0, 0x7b, 0x25, 0x57, 0x62, 0x59, 0xda]),
    (19003, [0xd6, 0x50, 0xb5, 0xf6, 0x37, 0xae, 0x5a, 0x4c, 0xe5, 0x72, 0x85, 0xb8, 0x6c, 0x68, 0x7e, 0x05]),
    (19004, [0x9b, 0xe8, 0xa9, 0xa2, 0x35, 0x16, 0xa3, 0xb0, 0x94, 0xbe, 0x93, 0x3f, 0xb3, 0xc9, 0x0b, 0xaf]),
    (19005, [0xd1, 0x1f, 0x4d, 0x9a, 0x5d, 0x64, 0x50, 0x1d, 0xdb, 0x32, 0x22, 0x1b, 0x81, 0xb2, 0xbb, 0xdf]),
    (19006, [0xc8, 0xaa, 0x74, 0xf0, 0xc6, 0xd8, 0x9d, 0x10, 0x3d, 0x25, 0x01, 0x4e, 0xbb, 0x8e, 0x03, 0xd0]),
    (19101, [0xd5, 0xdb, 0x32, 0xef, 0x84, 0x6c, 0x75, 0x15, 0x20, 0x7f, 0x83, 0xea, 0x48, 0xa3, 0x76, 0x58]),
    (19321, [0xba, 0x8b, 0xd3, 0x16, 0x61, 0xc3, 0x08, 0x9b, 0x23, 0xa2, 0x64, 0x27, 0x1e, 0x4b, 0x49, 0x23]),
    (19331, [0xf4, 0xac, 0xf0, 0x4e, 0x49, 0x91, 0xcc, 0x6e, 0x1a, 0x41, 0x0f, 0xad, 0xc9, 0x1e, 0xcc, 0x7c]),
    (20201, [0xcf, 0xcf, 0xf1, 0xf3, 0x7e, 0x88, 0xd9, 0x43, 0x41, 0xe5, 0x25, 0x1f, 0xc4, 0x7b, 0x9c, 0xc2]),
    (20511, [0x62, 0xc3, 0x57, 0x08, 0x5e, 0x8d, 0x05, 0x5a, 0xeb, 0xfb, 0x0c, 0x4e, 0xff, 0xf2, 0xb5, 0x96]),
    (20512, [0x74, 0xf4, 0xa9, 0x73, 0x4a, 0xc3, 0xab, 0x60, 0xfb, 0x09, 0x0b, 0xad, 0xa1, 0x89, 0xda, 0x48]),
    (20513, [0x2d, 0x75, 0xaf, 0xb3, 0x6e, 0x5d, 0xe7, 0xaf, 0x14, 0x5d, 0xeb, 0xb3, 0xe9, 0x00, 0xaf, 0xdd]),
    (20514, [0xe7, 0x98, 0x8b, 0x35, 0xa7, 0x02, 0xfd, 0x51, 0x18, 0xa0, 0xe4, 0xc9, 0xcb, 0x3d, 0x8f, 0xa9]),
    (20515, [0xbf, 0x16, 0x8f, 0x08, 0xe8, 0xdb, 0x2f, 0x4c, 0x7c, 0x42, 0x3d, 0x50, 0x22, 0xb0, 0xfa, 0x6b]),
    (20516, [0x41, 0xda, 0x67, 0x56, 0x9d, 0xfb, 0xe9, 0xac, 0xfc, 0x96, 0x80, 0x1a, 0xa1, 0x9a, 0xa2, 0x05]),
    (20571, [0x6a, 0x38, 0xe9, 0xb0, 0xb6, 0xc0, 0x88, 0x41, 0x0f, 0x40, 0x5f, 0x15, 0x50, 0x10, 0x9e, 0x2e]),
    (20821, [0x7f, 0x27, 0x98, 0x67, 0xfb, 0x40, 0xd7, 0xdb, 0x55, 0x39, 0x00, 0x5d, 0x05, 0x40, 0x28, 0x28]),
    (20822, [0x57, 0x01, 0x8e, 0x9d, 0x09, 0x98, 0xd9, 0xcf, 0x90, 0x22, 0xfb, 0xc6, 0xb0, 0x80, 0x9a, 0x00]),
    (20823, [0x0a, 0x53, 0xcd, 0x16, 0x41, 0x6b, 0xee, 0xd1, 0x8d, 0x78, 0x04, 0xa9, 0xac, 0x24, 0x18, 0xe4]),
    (20824, [0xce, 0x51, 0xf8, 0xbf, 0xdb, 0x87, 0x59, 0x2f, 0xea, 0xd7, 0x06, 0x43, 0x6b, 0xed, 0xcd, 0x21]),
    (20825, [0xe1, 0x36, 0xdb, 0xcf, 0xd8, 0x39, 0xae, 0x45, 0x56, 0x42, 0x61, 0xe9, 0x1e, 0xd7, 0x24, 0x17])]"

definition TABLE_06 :: "key_entry list" where
  "TABLE_06 = [
    (20826, [0x75, 0x84, 0xaf, 0x47, 0xbc, 0x29, 0xc1, 0xf1, 0xc7, 0xcb, 0xa3, 0x2f, 0x4c, 0xae, 0xbc, 0x12]),
    (20827, [0xab, 0x1d, 0x7f, 0xd2, 0x0f, 0xcd, 0x5c, 0xbc, 0x84, 0xf4, 0xdd, 0xb5, 0x66, 0x7f, 0xa0, 0xb5]),
    (20841, [0xc7, 0xa7, 0x7e, 0x66, 0x74, 0xca, 0x84, 0x00, 0xee, 0x1f, 0x95, 0x86, 0xf7, 0x31, 0x16, 0x53]),
    (20901, [0x93, 0x9e, 0x75, 0xc5, 0xd2, 0x52, 0x46, 0x91, 0x89, 0x86, 0x06, 0xd1, 0x42, 0x26, 0x28, 0xaa]),
    (20902, [0xdb, 0x1c, 0x5b, 0x21, 0xd8, 0x68, 0x3b, 0x58, 0xfe, 0x98, 0x1b, 0x74, 0xce, 0xf3, 0x6d, 0x56]),
    (20903, [0xee, 0x7a, 0x10, 0x21, 0x28, 0x07, 0xb0, 0xb6, 0x04, 0x71, 0x40, 0xf9, 0xd3, 0x5d, 0xae, 0x6b]),
    (20904, [0x9f, 0xb4, 0x1a, 0xab, 0xab, 0xa8, 0xfc, 0x8b, 0x0d, 0xbd, 0x97, 0xea, 0x3a, 0x14, 0xb3, 0x46]),
    (20905, [0xcb, 0x8c, 0x9b, 0x6c, 0x0c, 0xd2, 0xa4, 0xab, 0x02, 0x23, 0x67, 0xc6, 0x1b, 0x9e, 0x29, 0x28]),
    (20906, [0xc7, 0x26, 0x06, 0x95, 0x23, 0x4d, 0x2a, 0x9f, 0x61, 0x7c, 0xe1, 0x8a, 0x92, 0x80, 0x61, 0x16]),
    (20907, [0x38, 0x2f, 0x2a, 0x0e, 0xff, 0x30, 0xd7, 0x80, 0xc0, 0x3a, 0x3a, 0xb6, 0xdc, 0x27, 0xad, 0x48]),
    (20908, [0xee, 0x21, 0x63, 0xdc, 0x46, 0x60, 0xe1, 0xbe, 0xac, 0x64, 0xde, 0x46, 0x95, 0x2c, 0x60, 0x82]),
    (20909, [0x49, 0x38, 0x4e, 0x18, 0xa4, 0x63, 0x4c, 0x11, 0xf2, 0xa0, 0xd3, 0x54, 0xca, 0x4e, 0x6c, 0x50]),
    (20910, [0xd9, 0xae, 0xca, 0xe4, 0x0c, 0xfd, 0x17, 0xa9, 0xfa, 0x8c, 0xa8, 0x00, 0x8b, 0x55, 0xf8, 0x43]),
    (20911, [0x37, 0x7c, 0x71, 0x94, 0xc8, 0x74, 0xd0, 0xf1, 0xbc, 0xdf, 0xe9, 0xfb, 0x15, 0x70, 0x3a, 0x4a]),
    (20912, [0xfc, 0x45, 0x42, 0xf7, 0x98, 0x1e, 0x6f, 0xf2, 0x7d, 0xbd, 0x7b, 0x3c, 0xe1, 0xeb, 0x68, 0x5d]),
    (20913, [0x65, 0x44, 0xe9, 0x21, 0x5f, 0xae, 0x32, 0xec, 0xb7, 0x86, 0xee, 0x11, 0x98, 0xb6, 0x09, 0xb0]),
    (20921, [0xad, 0x7d, 0xe9, 0xd1, 0x8e, 0x91, 0x12, 0x53, 0xb6, 0x48, 0xd3, 0xfe, 0xef, 0x95, 0xfb, 0xc2]),
    (20922, [0x6b, 0x05, 0xc5, 0x58, 0x90, 0x56, 0xfe, 0xef, 0x2b, 0x3c, 0x0e, 0x6b, 0xe9, 0xe4, 0x4d, 0x7e]),
    (20932, [0xe6, 0xb3, 0xf1, 0x74, 0x6c, 0x61, 0xa0, 0x4e, 0x94, 0x2c, 0x70, 0xda, 0x9d, 0xca, 0x63, 0xfb]),
    (20937, [0x2c, 0xae, 0x07, 0xc9, 0xd8, 0xff, 0xe1, 0x6e, 0x15, 0x9e, 0x3d, 0x8a, 0x26, 0xc3, 0xe5, 0x2a]),
    (20938, [0xd8, 0x35, 0x38, 0x17, 0x53, 0x93, 0xcb, 0xd9, 0xe7, 0xf3, 0xf2, 0xb5, 0x35, 0x78, 0x45, 0x2c]),
    (21031, [0x57, 0x5a, 0x72, 0xc7, 0xb5, 0x6d, 0x7a, 0x61, 0xf0, 0xd6, 0xea, 0x9c, 0x30, 0xd8, 0x2f, 0xee]),
    (21041, [0x62, 0x8c, 0x2b, 0x72, 0xf5, 0xd0, 0x73, 0x32, 0xa8, 0xb6, 0xcd, 0xed, 0x56, 0x7d, 0xf3, 0xba]),
    (21101, [0x2b, 0xc3, 0x57, 0x5b, 0xbc, 0xea, 0xfd, 0xd2, 0x01, 0xef, 0xff, 0x41, 0x91, 0xdb, 0x1e, 0x25]),
    (21102, [0xb8, 0x6f, 0x14, 0x7c, 0x3b, 0x2e, 0x68, 0x7b, 0x56, 0xb2, 0x5d, 0xd7, 0x7c, 0xc1, 0x31, 0xe3]),
    (21103, [0xf8, 0x51, 0x85, 0x9f, 0x9b, 0x6b, 0x6c, 0x67, 0x18, 0x94, 0xb7, 0x69, 0x80, 0xea, 0x14, 0x2a]),
    (21104, [0xc4, 0x65, 0x4f, 0xe0, 0xc0, 0x6f, 0xff, 0x5a, 0xaa, 0xa4, 0x47, 0x75, 0xc8, 0x19, 0x1c, 0xf5]),
    (21105, [0x86, 0x58, 0x3c, 0x49, 0xbf, 0xaa, 0x8e, 0xc7, 0xd0, 0xfc, 0x52, 0x9a, 0x98, 0x14, 0xc6, 0xc6]),
    (21106, [0x21, 0x52, 0xc4, 0xb7, 0x44, 0x06, 0xdf, 0xbf, 0x10, 0xee, 0xcd, 0xb3, 0x65, 0xa4, 0x59, 0xba]),
    (21107, [0x7c, 0x3e, 0xb8, 0xf7, 0x07, 0x64, 0xbb, 0x5c, 0xc7, 0xf3, 0x24, 0xbd, 0x40, 0x5f, 0x3e, 0x14]),
    (21108, [0xa5, 0x18, 0xb4, 0x63, 0x39, 0x7b, 0xcb, 0x81, 0x68, 0x16, 0xcc, 0x8c, 0x01, 0x59, 0xd4, 0x72]),
    (21109, [0x7b, 0x16, 0xe3, 0xcd, 0x51, 0x2e, 0xd1, 0xd3, 0xbd, 0xfa, 0x0d, 0xd8, 0x91, 0xbc, 0x30, 0xf7]),
    (21131, [0xb7, 0xf3, 0xf7, 0x55, 0x73, 0x82, 0x4a, 0x75, 0x1a, 0x65, 0x7f, 0x40, 0x35, 0x61, 0x1e, 0x6c]),
    (21141, [0x62, 0xd6, 0x42, 0x5c, 0x35, 0x67, 0xf0, 0xe2, 0xcb, 0xf0, 0xe0, 0x14, 0x82, 0x24, 0x97, 0x1f]),
    (21150, [0xdf, 0x8a, 0x04, 0xd1, 0xbb, 0x46, 0xad, 0x5b, 0x62, 0x79, 0x33, 0x19, 0x7f, 0x6c, 0x0e, 0x31]),
    (21160, [0xbc, 0xb7, 0x5d, 0x2c, 0xf6, 0x07, 0xa1, 0xf9, 0x89, 0xa0, 0x65, 0xd9, 0x91, 0x93, 0x49, 0x78]),
    (21171, [0x5b, 0x22, 0xc4, 0x37, 0x66, 0x19, 0x76, 0x1e, 0x65, 0xe4, 0xac, 0xd0, 0x2a, 0x38, 0xd1, 0xb4]),
    (21172, [0x34, 0x9f, 0xc3, 0xee, 0xb2, 0x56, 0x4d, 0xe5, 0x72, 0xdf, 0x69, 0x59, 0x0d, 0xfc, 0xee, 0xbf]),
    (21173, [0x83, 0x5d, 0x98, 0xda, 0x56, 0x2a, 0x2e, 0x51, 0xb4, 0x35, 0x3b, 0x01, 0x8f, 0xd8, 0x8b, 0x34]),
    (21174, [0x26, 0xb9, 0x4b, 0x27, 0x80, 0x81, 0xc3, 0x04, 0xe3, 0xb3, 0xa2, 0x67, 0x5a, 0x15, 0x7d, 0xde]),
    (21175, [0x4f, 0xe5, 0x9a, 0xd2, 0xd0, 0x29, 0xfc, 0x8b, 0x23, 0xaa, 0x56, 0x55, 0xbe, 0xaa, 0xd3, 0xbf]),
    (21176, [0x6a, 0x67, 0x06, 0x15, 0x25, 0xc6, 0xdc, 0xa9, 0x4a, 0x60, 0xb8, 0x92, 0xcb, 0x7c, 0x44, 0x42]),
    (21177, [0xa2, 0xa5, 0x57, 0x31, 0x9c, 0xf8, 0x2c, 0x98, 0x25, 0x4c, 0xa0, 0x6f, 0x63, 0x07, 0x2d, 0xe1]),
    (21178, [0x56, 0x76, 0x1d, 0xe9, 0x74, 0x9e, 0x7a, 0x55, 0xb1, 0xd2, 0xb7, 0x80, 0x79, 0xd0, 0xa2, 0x5d]),
    (21181, [0xa0, 0xf7, 0xd7, 0x80, 0x29, 0x63, 0xdd, 0x51, 0xa1, 0x97, 0xee, 0xa5, 0xca, 0x05, 0x80, 0x52]),
    (21182, [0x42, 0xb5, 0x95, 0x0d, 0x6e, 0x30, 0x13, 0x9a, 0xae, 0xab, 0x9c, 0x20, 0x2c, 0x6a, 0xb1, 0xbd]),
    (21183, [0x7b, 0xff, 0x36, 0xcd, 0x29, 0xc7, 0xf2, 0x34, 0xcb, 0x6f, 0x04, 0xfb, 0xba, 0xe7, 0x24, 0x19]),
    (21184, [0x97, 0x22, 0x02, 0x23, 0x70, 0xf2, 0xff, 0xc8, 0xb5, 0x23, 0x38, 0xde, 0x32, 0x64, 0x24, 0x69]),
    (21185, [0x97, 0x56, 0x50, 0xe3, 0x5b, 0xe1, 0xcf, 0x14, 0x5a, 0x0b, 0x56, 0xa9, 0x0e, 0xe7, 0x83, 0x16]),
    (21186, [0x3a, 0xa2, 0x0c, 0xa7, 0xc2, 0x43, 0xfb, 0x2a, 0x6d, 0x41, 0x19, 0xa3, 0x4f, 0x40, 0xa6, 0xc2]),
    (21187, [0x34, 0xf1, 0x5d, 0x0d, 0xd0, 0x70, 0x35, 0xe5, 0x48, 0xed, 0x5e, 0xd1, 0xc6, 0x1d, 0x11, 0xb8]),
    (21188, [0x10, 0xfb, 0x29, 0xf6, 0xde, 0x6b, 0xd7, 0xb0, 0x3d, 0xdd, 0xc2, 0x78, 0x28, 0xad, 0xbc, 0x3f]),
    (21661, [0x33, 0xcf, 0xb1, 0x5b, 0x31, 0x10, 0x5f, 0x5a, 0xd0, 0x87, 0xfa, 0x7c, 0xe9, 0x2d, 0xb7, 0x89]),
    (21681, [0x91, 0xb5, 0xd4, 0x41, 0x35, 0x66, 0x43, 0xc4, 0xc7, 0xf0, 0x0f, 0xf5, 0x52, 0xb0, 0xb6, 0x78]),
    (21901, [0xaa, 0x54, 0x0d, 0xfe, 0x84, 0x63, 0xb1, 0x84, 0xfb, 0x51, 0x90, 0xde, 0x05, 0xe4, 0x53, 0xa8]),
    (21962, [0x5a, 0xda, 0x94, 0xdc, 0x5e, 0x86, 0x6d, 0x7f, 0x10, 0xf5, 0x59, 0x0a, 0xcf, 0x1b, 0x01, 0xff]),
    (21963, [0x71, 0x96, 0xfe, 0x49, 0xf7, 0xbf, 0xf3, 0xa7, 0x6c, 0x39, 0x8e, 0xd7, 0x8a, 0x83, 0xf6, 0x4d]),
    (21964, [0xd0, 0x8d, 0x48, 0xfc, 0x05, 0xd1, 0x57, 0xb5, 0x94, 0x2b, 0xb5, 0xb1, 0x2d, 0xb2, 0xcf, 0xc5]),
    (21971, [0xd6, 0x90, 0xb8, 0xfe, 0xd4, 0xba, 0xe0, 0x47, 0x87, 0x09, 0x3c, 0x48, 0x5b, 0x14, 0x42, 0x98]),
    (21972, [0xbe, 0x7a, 0xfa, 0x68, 0x33, 0x49, 0xa2, 0xf1, 0xe3, 0x55, 0x46, 0x0c, 0xbe, 0x26, 0x71, 0xff]),
    (21973, [0xb2, 0x68, 0x7f, 0x72, 0x46, 0x70, 0x62, 0x2b, 0xae, 0x75, 0xa9, 0x29, 0x09, 0xd2, 0xfc, 0x4e]),
    (21974, [0xf9, 0x1b, 0x77, 0x20, 0x87, 0xa8, 0x4d, 0xa5, 0xc8, 0xb0, 0x82, 0x3b, 0x5e, 0x58, 0x36, 0x29]),
    (21975, [0xa9, 0x37, 0xa5, 0x46, 0x44, 0x3d, 0x19, 0xbe, 0x01, 0x34, 0x3a, 0x2d, 0x0b, 0x03, 0xfd, 0xb5]),
    (21976, [0x7d, 0x5c, 0x01, 0x7d, 0xdc, 0xe3, 0x51, 0x96, 0x11, 0xce, 0xed, 0x8b, 0x0a, 0x36, 0xbf, 0x72]),
    (21977, [0xf2, 0x10, 0xbd, 0x32, 0xd8, 0xf5, 0xab, 0xd1, 0x3f, 0xbb, 0x7e, 0x0d, 0xb5, 0xc1, 0xb8, 0xb2]),
    (21978, [0x79, 0x7c, 0xd1, 0x5b, 0xcc, 0x0a, 0x15, 0x3b, 0xba, 0x75, 0xeb, 0xfc, 0xee, 0xbd, 0xb1, 0x9d]),
    (21979, [0xcd, 0x0d, 0x62, 0xe9, 0xae, 0xa6, 0x11, 0xe7, 0x89, 0x58, 0xa1, 0xd6, 0x7d, 0x74, 0x42, 0xdb]),
    (21996, [0x88, 0xd3, 0xe1, 0xe7, 0xdb, 0xab, 0x12, 0xd9, 0xce, 0x5d, 0x71, 0xbc, 0x5e, 0x15, 0x27, 0x84]),
    (21999, [0x63, 0x42, 0xea, 0x95, 0x5f, 0x64, 0xa0, 0x86, 0x83, 0x57, 0xc5, 0x95, 0xf0, 0x61, 0xd1, 0xaf]),
    (22101, [0xa2, 0x99, 0xbb, 0x06, 0x0a, 0xf3, 0x4b, 0x95, 0xd1, 0x9c, 0xd1, 0x6d, 0xbc, 0xf2, 0x22, 0xea]),
    (22102, [0xd0, 0x70, 0x83, 0xde, 0xde, 0xdf, 0xb3, 0x8b, 0xec, 0xb8, 0x97, 0xfb, 0x8f, 0x4f, 0xec, 0x4b]),
    (22201, [0x8f, 0xbb, 0x9e, 0xc6, 0xf7, 0x45, 0x5b, 0xf6, 0x17, 0x39, 0x09, 0x34, 0xc6, 0xd0, 0x62, 0x52]),
    (22202, [0x52, 0xb0, 0xd6, 0x28, 0x4f, 0x3d, 0xb7, 0xe5, 0x08, 0xc8, 0xf6, 0xca, 0x97, 0x02, 0xe5, 0xa6]),
    (22203, [0x12, 0x81, 0x16, 0x9f, 0x33, 0xda, 0xeb, 0x28, 0x52, 0x9a, 0xca, 0xf5, 0x16, 0x13, 0x05, 0x92]),
    (22204, [0x4b, 0x13, 0x5d, 0x70, 0x72, 0xca, 0x56, 0xa4, 0xfa, 0xa2, 0x0b, 0x73, 0x3f, 0x38, 0x2a, 0x47]),
    (22206, [0x85, 0xb9, 0xd3, 0xaf, 0x07, 0x2f, 0x23, 0xd2, 0x46, 0x1e, 0x92, 0x12, 0x9c, 0x59, 0x32, 0x6e]),
    (22207, [0xda, 0xf0, 0xdb, 0x81, 0xfc, 0x14, 0xee, 0x6e, 0x4f, 0x09, 0x25, 0x55, 0xac, 0x09, 0x92, 0x81]),
    (22208, [0x30, 0xcd, 0xda, 0xd7, 0x94, 0x2f, 0x43, 0x96, 0x37, 0x38, 0x46, 0x62, 0xdc, 0xf0, 0x45, 0xed]),
    (22209, [0xd9, 0xb5, 0x58, 0x7b, 0x30, 0x88, 0x2e, 0x4d, 0xf2, 0x65, 0x78, 0x21, 0x49, 0x65, 0x21, 0x06]),
    (22221, [0x56, 0x57, 0xf3, 0xd3, 0x18, 0xa3, 0xbf, 0x0f, 0x08, 0xfa, 0x4e, 0xf6, 0xcd, 0x89, 0x2b, 0xa3]),
    (22222, [0x92, 0x34, 0x41, 0x82, 0x00, 0x3c, 0x29, 0xb7, 0x2a, 0xd3, 0xee, 0xb8, 0x63, 0x19, 0xf2, 0xf1]),
    (22223, [0xf3, 0xe6, 0x33, 0x76, 0x52, 0x76, 0xde, 0xec, 0xe9, 0x9c, 0x7c, 0x8b, 0x15, 0xd1, 0xd2, 0x72]),
    (22224, [0xc3, 0x7d, 0xf8, 0x6e, 0x42, 0x0e, 0x72, 0xb2, 0xf9, 0x51, 0xff, 0x59, 0xb5, 0x23, 0xc6, 0x82]),
    (22231, [0xe7, 0xe7, 0xc1, 0x68, 0xc2, 0xa8, 0x21, 0xcb, 0x61, 0x03, 0x72, 0xbf, 0xc5, 0x7a, 0xf0, 0xbb]),
    (22232, [0x9e, 0xf6, 0x7f, 0xc8, 0x27, 0x5f, 0x64, 0xf2, 0xbe, 0x03, 0x6a, 0xdb, 0xaf, 0x9b, 0x6e, 0x82]),
    (22233, [0xab, 0x08, 0x9b, 0x49, 0x40, 0x3a, 0x0d, 0xcc, 0x2d, 0x23, 0xb5, 0xfe, 0x89, 0x21, 0x90, 0x08]),
    (22234, [0x9b, 0xdb, 0xf3, 0x2a, 0x87, 0x29, 0xa9, 0x66, 0x37, 0x56, 0x42, 0x64, 0xd9, 0x25, 0x0d, 0xf7]),
    (22235, [0xd4, 0x2c, 0x00, 0x73, 0x67, 0x66, 0x13, 0x51, 0xfc, 0x25, 0xea, 0x9b, 0xe0, 0xe4, 0x69, 0xf0]),
    (22236, [0xdc, 0x75, 0x0e, 0xdc, 0x45, 0x88, 0x0a, 0x44, 0x29, 0xa4, 0x80, 0x3c, 0x56, 0xfc, 0x99, 0x41]),
    (22237, [0x78, 0x1b, 0xb0, 0x9d, 0xd8, 0xce, 0x15, 0x1e, 0xa6, 0x03, 0x91, 0x35, 0x88, 0xbf, 0x5b, 0x43]),
    (22238, [0x84, 0x41, 0x4f, 0xae, 0x37, 0x19, 0x30, 0x13, 0x09, 0x51, 0x72, 0x5c, 0xa9, 0x7d, 0x41, 0xba]),
    (22311, [0xfc, 0x01, 0x7d, 0x49, 0x4f, 0xdb, 0x08, 0xd6, 0xdb, 0x58, 0x39, 0x43, 0x74, 0x99, 0x09, 0x1d]),
    (22312, [0x1d, 0x34, 0x79, 0xf2, 0x8d, 0xbe, 0x41, 0x6c, 0xb0, 0x34, 0x00, 0xe0, 0xfe, 0x49, 0x38, 0x72]),
    (22313, [0xd0, 0xb2, 0xde, 0x2c, 0x1e, 0x99, 0x93, 0xe5, 0xca, 0x1b, 0x84, 0xfe, 0xb4, 0xe2, 0x8e, 0xc5]),
    (22314, [0x78, 0x9a, 0x40, 0x97, 0xfa, 0x77, 0xe5, 0x3f, 0x21, 0x22, 0x8c, 0x7b, 0xf7, 0xf2, 0x20, 0x75]),
    (22315, [0x0a, 0x23, 0xab, 0x45, 0xb5, 0x1f, 0xd5, 0x50, 0xb3, 0x4f, 0xb5, 0x49, 0x08, 0x9b, 0xf5, 0x43]),
    (22316, [0x0a, 0x74, 0x9e, 0x46, 0x39, 0xe9, 0xf9, 0x9d, 0xe0, 0x3a, 0x6a, 0xa0, 0xb2, 0x40, 0xf2, 0xbc]),
    (22351, [0xa2, 0x2f, 0x07, 0xea, 0x24, 0x0d, 0x21, 0x2d, 0x95, 0x9d, 0x43, 0x6b, 0x82, 0x28, 0xc1, 0xd5]),
    (22352, [0xe8, 0x61, 0x05, 0x05, 0x32, 0x2a, 0x3c, 0x61, 0x8a, 0xbf, 0x5d, 0xe8, 0x2f, 0xe7, 0x00, 0x13]),
    (22353, [0x34, 0xcc, 0x6c, 0xc5, 0xdb, 0x32, 0x11, 0xd5, 0xd7, 0x7b, 0xda, 0x91, 0xb2, 0x04, 0xf0, 0xe0]),
    (22354, [0x53, 0xd4, 0x70, 0x76, 0xd1, 0x15, 0xb9, 0x8e, 0xaf, 0xc3, 0x09, 0x76, 0xdb, 0x07, 0xff, 0xe1]),
    (22355, [0xe5, 0xe2, 0x3c, 0x7a, 0xf7, 0x48, 0x11, 0x4c, 0xdb, 0x66, 0x67, 0xf6, 0xd6, 0xb4, 0xc0, 0xae]),
    (22356, [0x21, 0x46, 0x52, 0x4f, 0x67, 0x9e, 0x3c, 0x12, 0x71, 0x34, 0xf2, 0xac, 0x8c, 0x1b, 0xf5, 0xe4]),
    (22357, [0xdd, 0x2d, 0xb0, 0xe0, 0x85, 0x4f, 0x48, 0x7b, 0x5a, 0xa0, 0xb8, 0x86, 0xcd, 0xf9, 0x16, 0xb9]),
    (22358, [0x53, 0x4a, 0xfe, 0x8b, 0x5a, 0xbe, 0xf9, 0xd7, 0x9d, 0x7f, 0x90, 0xa4, 0x94, 0xdc, 0x12, 0x7d]),
    (22364, [0x6b, 0x15, 0xd3, 0x3d, 0x50, 0xa5, 0x48, 0x4c, 0x16, 0x28, 0x53, 0x84, 0xe3, 0xf4, 0x9b, 0xf2]),
    (22381, [0x57, 0x48, 0xd8, 0x3a, 0xe0, 0x6f, 0x7e, 0x24, 0x58, 0x01, 0x3e, 0x50, 0xf3, 0xb8, 0x37, 0xc4]),
    (22382, [0x30, 0x55, 0xf8, 0x5c, 0xa1, 0xbd, 0xfc, 0x85, 0xd8, 0xaa, 0xc9, 0x78, 0x06, 0x0b, 0xca, 0x9d]),
    (22383, [0x28, 0x5d, 0x30, 0xa8, 0xea, 0x61, 0x59, 0x84, 0x14, 0x8a, 0xa9, 0x49, 0x14, 0xdf, 0x82, 0xaa]),
    (22384, [0x57, 0x51, 0x67, 0x4f, 0x3e, 0x59, 0xc6, 0xae, 0x15, 0x89, 0x9f, 0x9c, 0x6c, 0x5d, 0x8a, 0xc3]),
    (22385, [0xe6, 0x64, 0x0a, 0x84, 0xef, 0x4f, 0xd5, 0x0c, 0x7a, 0x43, 0xba, 0x8e, 0x7d, 0xa7, 0x21, 0x36]),
    (22386, [0x29, 0xa1, 0x31, 0xd8, 0x63, 0x29, 0xdd, 0xfa, 0x7d, 0xd0, 0xef, 0xad, 0xf0, 0x7d, 0x55, 0xf0]),
    (22387, [0xa2, 0x1b, 0xce, 0xdf, 0x27, 0x12, 0x69, 0x79, 0x02, 0x07, 0x94, 0x8d, 0x6a, 0x43, 0x89, 0x63]),
    (22393, [0x7f, 0x4d, 0xbd, 0xdd, 0x93, 0x70, 0x7d, 0x06, 0x4c, 0x4e, 0xcd, 0xce, 0xbc, 0x9f, 0xa3, 0xf4]),
    (22451, [0x3a, 0xa7, 0x88, 0x9b, 0x36, 0xa6, 0x20, 0xf1, 0xcc, 0xcd, 0xc9, 0x62, 0xcd, 0x11, 0x0e, 0x80]),
    (22452, [0x54, 0xe7, 0x6c, 0x4f, 0x93, 0x09, 0x14, 0x96, 0x4b, 0xdc, 0xbf, 0xb8, 0x04, 0xde, 0xfc, 0x23]),
    (22453, [0xa8, 0xad, 0xea, 0xef, 0x31, 0xb8, 0x44, 0x31, 0x89, 0x9d, 0x37, 0x21, 0x11, 0x52, 0x37, 0x7b]),
    (22454, [0x39, 0xa9, 0x8e, 0xa3, 0xc9, 0x6c, 0x8b, 0xe0, 0x2e, 0x18, 0x7d, 0x79, 0x9b, 0xd2, 0xcb, 0x93]),
    (22455, [0xc6, 0x57, 0x23, 0x4e, 0x32, 0xac, 0xe2, 0x92, 0xb6, 0x29, 0x3f, 0x30, 0x2e, 0x23, 0xf9, 0x49]),
    (22460, [0x03, 0x50, 0xe4, 0x7a, 0x70, 0x9a, 0xe5, 0x1d, 0xd1, 0xfb, 0x7c, 0x30, 0x9b, 0x96, 0x1b, 0x2a]),
    (22461, [0x7d, 0x9e, 0xa4, 0x2f, 0xcc, 0x38, 0xfa, 0xfb, 0x98, 0xeb, 0x24, 0x80, 0x03, 0xf1, 0xb6, 0x8b]),
    (22462, [0xba, 0x9b, 0xd7, 0x41, 0x99, 0xb7, 0xdf, 0x1e, 0x8a, 0x7e, 0x67, 0x74, 0x8f, 0xc3, 0x6e, 0x92]),
    (22463, [0x85, 0x66, 0xf3, 0x48, 0xa2, 0x89, 0x21, 0xa4, 0x1b, 0x5c, 0x3a, 0xfc, 0x61, 0x05, 0x80, 0xb4]),
    (22464, [0x0f, 0xe4, 0x45, 0x1e, 0xfc, 0x45, 0x13, 0x2a, 0x68, 0x46, 0x13, 0xdc, 0x48, 0x77, 0x42, 0x81]),
    (22465, [0x6a, 0x90, 0x7a, 0x77, 0x41, 0x8d, 0x67, 0x64, 0xdb, 0xdf, 0x09, 0xa2, 0x9e, 0x25, 0x37, 0xb3]),
    (22466, [0x77, 0x15, 0xd6, 0x73, 0x62, 0xe7, 0x1e, 0x9c, 0x2e, 0xcb, 0xf1, 0x71, 0xe5, 0xe9, 0x6e, 0x0a]),
    (22467, [0x53, 0x5a, 0xc3, 0xc8, 0xeb, 0x09, 0xe5, 0x83, 0xbd, 0x73, 0x59, 0x80, 0xe9, 0x08, 0x2b, 0xbf]),
    (22468, [0xc8, 0x96, 0xfd, 0xde, 0x2e, 0x3f, 0xb0, 0x2f, 0x36, 0x0a, 0x64, 0x0d, 0xd0, 0x3a, 0xab, 0x8a]),
    (22469, [0xe4, 0x4a, 0x44, 0xcb, 0xe3, 0xdf, 0xef, 0xcb, 0x85, 0xac, 0x15, 0x42, 0x3d, 0x20, 0x59, 0x41]),
    (22470, [0x31, 0x3d, 0xb6, 0x51, 0x31, 0x85, 0xe5, 0x1a, 0x69, 0x38, 0xde, 0xbe, 0x72, 0xab, 0xba, 0x0c]),
    (22471, [0x42, 0x40, 0xd6, 0x1d, 0x7f, 0x09, 0x80, 0x77, 0x56, 0xd8, 0xb2, 0x0f, 0x7a, 0x27, 0xf9, 0x08]),
    (22472, [0x36, 0xe3, 0x29, 0x37, 0xa4, 0xd8, 0x97, 0x47, 0x0f, 0xa8, 0xa6, 0xc4, 0xcd, 0x65, 0x16, 0xf0]),
    (22473, [0xb7, 0xc7, 0x55, 0xff, 0x41, 0x59, 0xa5, 0x05, 0xf0, 0x79, 0x73, 0x8a, 0x8b, 0x72, 0x00, 0x3c]),
    (22474, [0x9d, 0x87, 0x1d, 0x3c, 0xc7, 0x7b, 0x6a, 0xed, 0x95, 0x27, 0xaf, 0x2b, 0x5c, 0xcb, 0x9c, 0xd8]),
    (22475, [0xb4, 0x7c, 0x4e, 0xd8, 0x3d, 0x2b, 0xff, 0xa0, 0x84, 0x5c, 0xc8, 0xbf, 0x4c, 0xd8, 0xb6, 0x9e]),
    (22476, [0x20, 0x1f, 0xd2, 0xc3, 0x34, 0x2f, 0xa3, 0xc0, 0x80, 0x73, 0x33, 0x31, 0xfe, 0x3b, 0xa0, 0xc6]),
    (22477, [0x7e, 0x81, 0x67, 0xff, 0x3c, 0x58, 0xd6, 0x22, 0x0d, 0xa6, 0xc6, 0x0e, 0xc3, 0x06, 0x18, 0xde]),
    (22478, [0x08, 0x29, 0x7f, 0x3e, 0xc3, 0x6a, 0x8e, 0xaf, 0xe4, 0x42, 0xb2, 0x00, 0xd9, 0x85, 0x0e, 0x7f]),
    (22479, [0x11, 0xd5, 0x5c, 0xea, 0xf9, 0xa4, 0x6c, 0xcd, 0x49, 0x9f, 0xe6, 0x57, 0x01, 0xfd, 0x7c, 0x9e]),
    (22481, [0x62, 0x99, 0x6d, 0x7e, 0xaa, 0x6c, 0xc1, 0xb5, 0x6f, 0xa6, 0xfa, 0x8f, 0x8b, 0xb3, 0x7e, 0x83]),
    (22491, [0x7b, 0x62, 0xab, 0xf8, 0x45, 0xdc, 0x6d, 0x65, 0xdb, 0xde, 0xaf, 0x0c, 0xb6, 0x2d, 0x1a, 0xd1]),
    (22492, [0x0c, 0x60, 0x80, 0x47, 0x4a, 0xe4, 0xe1, 0x72, 0xa3, 0xd8, 0x96, 0x64, 0x5c, 0x16, 0x56, 0x83]),
    (22493, [0xe2, 0x7c, 0x4d, 0xfd, 0xf8, 0xf2, 0x86, 0x3b, 0xa6, 0x2e, 0xda, 0x3b, 0xdc, 0x22, 0x97, 0x6c]),
    (22494, [0x1c, 0x38, 0x8e, 0x77, 0xea, 0x61, 0x73, 0xdc, 0x67, 0x05, 0xd5, 0x06, 0xfe, 0xe1, 0xfa, 0x19]),
    (22495, [0x8d, 0x75, 0x82, 0x34, 0x29, 0xe3, 0xbb, 0x20, 0x22, 0x1f, 0xb8, 0x95, 0x49, 0xda, 0xf9, 0xb7]),
    (22496, [0xa8, 0x71, 0x85, 0x42, 0x5b, 0xc7, 0xbf, 0x86, 0x63, 0xec, 0x0c, 0x2a, 0x91, 0x1c, 0x04, 0x38]),
    (22502, [0x5a, 0xac, 0x1c, 0x84, 0x92, 0xcd, 0x73, 0x37, 0x3e, 0x9d, 0xeb, 0xa3, 0x95, 0x16, 0x00, 0x85]),
    (22510, [0x11, 0xed, 0x69, 0xed, 0x74, 0x38, 0xa6, 0x8d, 0xb4, 0xed, 0x75, 0x97, 0x6d, 0xa9, 0xf3, 0x0e]),
    (22520, [0x11, 0xed, 0x69, 0xed, 0x74, 0x38, 0xa6, 0x8d, 0xb4, 0xed, 0x75, 0x97, 0x6d, 0xa9, 0xf3, 0x0e]),
    (22601, [0x16, 0x7c, 0x16, 0x52, 0x4a, 0xba, 0xbe, 0x28, 0xc2, 0x34, 0x38, 0x6d, 0x58, 0xe9, 0xe3, 0x8c])]"

definition TABLE_07 :: "key_entry list" where
  "TABLE_07 = [
    (22608, [0xaf, 0x28, 0x28, 0xe4, 0x43, 0x2b, 0xb9, 0xaf, 0x8d, 0xfe, 0x2e, 0x7f, 0x5d, 0x59, 0x4f, 0x11]),
    (22611, [0xdd, 0xb6, 0x61, 0xea, 0x2e, 0xce, 0xd9, 0x50, 0xb6, 0xf3, 0x3a, 0xba, 0x55, 0x24, 0xb3, 0x6a]),
    (22612, [0x5b, 0x37, 0xfe, 0xb2, 0xcf, 0x9d, 0xe2, 0x3b, 0x06, 0x62, 0x8e, 0x90, 0x12, 0xbb, 0xf3, 0xc3]),
    (22613, [0x37, 0x4b, 0xef, 0xd1, 0x4a, 0x84, 0x0b, 0xf4, 0x7d, 0x29, 0x87, 0x31, 0x03, 0xc3, 0x0f, 0xdb]),
    (22614, [0x48, 0x1e, 0x0b, 0x5d, 0x55, 0x10, 0x82, 0x1c, 0xe4, 0x7c, 0x3b, 0x9a, 0x16, 0x3a, 0x4b, 0xdc]),
    (22615, [0xe2, 0xa2, 0xd0, 0x08, 0x5d, 0x90, 0xb4, 0xbb, 0x97, 0x0b, 0x5c, 0xbd, 0xae, 0xd3, 0xb0, 0x30]),
    (22616, [0xbe, 0x53, 0xcc, 0xc3, 0x18, 0x05, 0x21, 0xbf, 0x89, 0x40, 0x2f, 0x06, 0x07, 0xb4, 0x34, 0x6b]),
    (22617, [0x2c, 0xc0, 0x01, 0xea, 0x36, 0xfe, 0xb2, 0x3c, 0x29, 0x79, 0xbb, 0xd2, 0xed, 0x89, 0x99, 0x49]),
    (22651, [0x5d, 0x37, 0x6d, 0x4e, 0x49, 0xd4, 0xc2, 0xd4, 0x45, 0x1b, 0x0b, 0x80, 0xe6, 0x0e, 0xe4, 0x3c]),
    (22652, [0x4c, 0x55, 0x0b, 0xb3, 0xe2, 0x87, 0x42, 0x5a, 0x09, 0xca, 0xfa, 0xe9, 0xe2, 0x7a, 0x70, 0x8d]),
    (22653, [0xe8, 0x7a, 0x8a, 0x46, 0x55, 0x35, 0xf0, 0x07, 0x6c, 0x9b, 0x1a, 0x1e, 0x42, 0x79, 0xdc, 0xd6]),
    (22654, [0x5c, 0xca, 0x6d, 0x99, 0x58, 0xab, 0x3a, 0x5e, 0xe3, 0xcd, 0x91, 0xa0, 0xe0, 0xd2, 0x4a, 0x46]),
    (22655, [0xc4, 0x6d, 0xcb, 0xd6, 0xbc, 0xa8, 0x6c, 0x1c, 0xa3, 0x5d, 0x21, 0xdb, 0x9c, 0xb0, 0x7e, 0x6a]),
    (22656, [0xbb, 0x9f, 0x9b, 0x1d, 0x38, 0x30, 0x1b, 0x2f, 0xaa, 0xb9, 0x1d, 0x92, 0x66, 0x8d, 0x09, 0x1f]),
    (22657, [0xd2, 0x21, 0x65, 0xf1, 0x48, 0x3f, 0x8d, 0xf8, 0x81, 0xa0, 0xe3, 0xe5, 0x2a, 0x4d, 0xb4, 0xaa]),
    (22671, [0x5a, 0xb2, 0xad, 0x45, 0x79, 0x6f, 0x14, 0x6a, 0x84, 0x5b, 0x1a, 0x34, 0xeb, 0x21, 0xf0, 0x3b]),
    (22672, [0x3d, 0x3b, 0x53, 0xc9, 0x21, 0x67, 0x5d, 0x85, 0xda, 0xbe, 0x54, 0x26, 0x9a, 0xe2, 0x9b, 0x04]),
    (22673, [0xe5, 0xdd, 0x04, 0xe3, 0x10, 0x05, 0xe3, 0x7f, 0xc0, 0x0e, 0x71, 0x9c, 0x16, 0x82, 0xc5, 0x1f]),
    (22674, [0x70, 0x77, 0xda, 0xac, 0x4d, 0x7a, 0x9c, 0x64, 0xfe, 0x96, 0x1b, 0x11, 0x26, 0xfd, 0xe4, 0x5c]),
    (22675, [0x0f, 0x5d, 0xe3, 0xdb, 0x83, 0xc5, 0xe7, 0x5c, 0x02, 0x56, 0xab, 0x07, 0xac, 0xde, 0xca, 0xfb]),
    (22676, [0xc6, 0xd6, 0xdd, 0xca, 0x12, 0xdb, 0x93, 0xc2, 0x2b, 0x21, 0x5b, 0x47, 0x26, 0xfb, 0x6c, 0xce]),
    (22677, [0xdd, 0x07, 0x81, 0x37, 0x8c, 0x67, 0xf7, 0xd5, 0xd3, 0x87, 0x30, 0x9b, 0x35, 0x0d, 0x53, 0x25]),
    (23101, [0x89, 0xfb, 0x4f, 0x48, 0xf4, 0x00, 0x0f, 0x80, 0x9e, 0x7b, 0x3e, 0xee, 0x1d, 0xde, 0x4a, 0xd9]),
    (23111, [0x4c, 0x42, 0x63, 0xc5, 0x02, 0x56, 0x8e, 0x00, 0xef, 0x5c, 0xe8, 0x92, 0xc4, 0x3b, 0xcf, 0xd6]),
    (23121, [0x31, 0x19, 0x29, 0x0d, 0xd8, 0x9e, 0x98, 0xf4, 0x83, 0x86, 0x85, 0xd6, 0xb8, 0x95, 0x43, 0xce]),
    (23311, [0xd3, 0x88, 0x50, 0x2e, 0x6f, 0x16, 0x95, 0x86, 0x31, 0x98, 0xbf, 0x84, 0xfc, 0x0e, 0x60, 0x02]),
    (23531, [0x3d, 0xb0, 0x7c, 0xcb, 0xa0, 0xee, 0x54, 0xe8, 0xdc, 0xe8, 0xda, 0x86, 0xce, 0xe5, 0x99, 0x27]),
    (23532, [0xcd, 0xb7, 0x36, 0x5f, 0x5e, 0xc7, 0xde, 0xcd, 0x55, 0xf8, 0x3c, 0x1b, 0x84, 0xfe, 0x2c, 0xe6]),
    (24009, [0x70, 0x2a, 0x8d, 0x07, 0x55, 0x44, 0x9e, 0xf4, 0x00, 0x2d, 0xc2, 0x0f, 0xf7, 0x56, 0x0d, 0xd9]),
    (24012, [0x39, 0x0f, 0xb2, 0xbe, 0xc5, 0xbd, 0x5f, 0x8f, 0x38, 0x21, 0x47, 0x83, 0x1b, 0xb0, 0x06, 0x48]),
    (24019, [0x8c, 0x84, 0x02, 0x11, 0x24, 0x2b, 0x23, 0x60, 0xa1, 0x4e, 0x7e, 0x6e, 0xcc, 0xe0, 0x2f, 0x62]),
    (24021, [0xff, 0x96, 0xd5, 0x69, 0xac, 0x5c, 0x10, 0xf3, 0x01, 0xb9, 0x73, 0xba, 0x21, 0xd2, 0xe6, 0xf4]),
    (24022, [0xe9, 0xca, 0x3a, 0x78, 0xd6, 0xf8, 0x3f, 0x52, 0x7b, 0xf0, 0x7e, 0x7f, 0x7c, 0x7a, 0xf5, 0x3d]),
    (24023, [0xa3, 0xfb, 0x9b, 0x62, 0x46, 0xb2, 0x8a, 0x99, 0x89, 0x07, 0x74, 0x1c, 0x14, 0x7a, 0xa4, 0x90]),
    (24024, [0x79, 0x5c, 0x91, 0x4a, 0x52, 0xc5, 0x31, 0x41, 0x73, 0x53, 0xf4, 0x26, 0x36, 0x41, 0x2d, 0xc2]),
    (24025, [0x6f, 0x7d, 0xa0, 0xac, 0xd5, 0x9d, 0x55, 0x72, 0x2b, 0xcf, 0x4a, 0xd4, 0xc9, 0xa4, 0x50, 0xc3]),
    (24026, [0xb5, 0x99, 0x1b, 0x0d, 0x3d, 0x04, 0x29, 0xc6, 0x6e, 0x48, 0x5e, 0x68, 0x50, 0x08, 0x1a, 0x1e]),
    (24027, [0xf0, 0x4f, 0x74, 0xe6, 0x97, 0xaa, 0x26, 0x70, 0x54, 0x9b, 0xb6, 0x36, 0x40, 0x0a, 0x38, 0x3b]),
    (24028, [0xfb, 0xbf, 0xab, 0xd9, 0x62, 0x84, 0x8f, 0xc3, 0x55, 0xc8, 0xcd, 0x49, 0xac, 0xf2, 0x08, 0x08]),
    (24029, [0xd3, 0xb6, 0xef, 0x31, 0xc3, 0x28, 0x7d, 0x86, 0x62, 0xb2, 0x2d, 0xa5, 0x63, 0x74, 0x3f, 0xe9]),
    (24030, [0x35, 0xf2, 0xe1, 0x33, 0x98, 0x36, 0x5b, 0xcb, 0x56, 0xb9, 0x17, 0x2e, 0x9a, 0x5c, 0x25, 0xa3]),
    (24031, [0xca, 0x08, 0x7a, 0xee, 0xc4, 0x2a, 0x68, 0x28, 0xd1, 0xab, 0x7d, 0x20, 0xb9, 0xb9, 0xfe, 0x25]),
    (24032, [0xcd, 0x1d, 0x8b, 0x22, 0xee, 0xe3, 0x25, 0x65, 0xbd, 0xe5, 0xf9, 0x6e, 0x78, 0x84, 0x5d, 0xf3]),
    (24033, [0xd0, 0x5b, 0x9c, 0xaf, 0x22, 0x44, 0xf2, 0x1c, 0x48, 0x91, 0xa6, 0x03, 0x2a, 0x86, 0x6a, 0xa8]),
    (24034, [0xd6, 0xe6, 0xb2, 0x57, 0x3e, 0xbd, 0x51, 0x60, 0x6f, 0xa0, 0x7c, 0x18, 0x75, 0xaf, 0x0a, 0x8f]),
    (24035, [0xe5, 0xf5, 0x7f, 0x9c, 0x3a, 0x7d, 0xe9, 0x32, 0x75, 0xd4, 0x5f, 0xd4, 0xe6, 0x59, 0x9c, 0x37]),
    (24036, [0xb3, 0x56, 0x54, 0x2d, 0xac, 0xb5, 0xfe, 0x6d, 0x4b, 0xb3, 0xf9, 0xcf, 0x74, 0x24, 0x85, 0x47]),
    (24037, [0xce, 0x86, 0x71, 0x4a, 0x1c, 0xe7, 0xa8, 0xb1, 0x06, 0xe5, 0xdb, 0x41, 0x6b, 0xf7, 0x35, 0xf8]),
    (24038, [0x74, 0x37, 0xfc, 0x2c, 0xdc, 0x6c, 0xb1, 0x72, 0xbd, 0xb5, 0x41, 0x43, 0x30, 0x60, 0xad, 0xdc]),
    (24039, [0x87, 0x80, 0xe0, 0xde, 0xab, 0xeb, 0xe6, 0x1b, 0x9d, 0x6f, 0xe1, 0x22, 0x01, 0xe0, 0x36, 0x9b]),
    (24040, [0x4d, 0xba, 0x42, 0xbc, 0x91, 0xc3, 0xda, 0x1f, 0xae, 0x9c, 0x46, 0xf8, 0x82, 0x49, 0xa6, 0xb4]),
    (24041, [0xe9, 0xbe, 0xe2, 0x8c, 0x5b, 0x9f, 0x36, 0xd9, 0x72, 0xc7, 0x98, 0xc2, 0x40, 0xa8, 0xec, 0xe7]),
    (24042, [0x36, 0x1c, 0x2d, 0xf6, 0xf4, 0x11, 0x19, 0xcc, 0xfd, 0x81, 0x4a, 0x83, 0x96, 0xed, 0x4e, 0x0d]),
    (24043, [0x18, 0x82, 0x62, 0xd5, 0xae, 0x85, 0x67, 0xdb, 0x8d, 0x27, 0xe8, 0x32, 0x66, 0xcf, 0x26, 0xa5]),
    (24044, [0x79, 0x97, 0x61, 0xb5, 0xe5, 0xc5, 0xcc, 0xa1, 0xde, 0x04, 0x74, 0xb5, 0xbf, 0xab, 0x5c, 0x51]),
    (24045, [0xcf, 0x74, 0xe4, 0xeb, 0x2c, 0x2e, 0x6a, 0xc6, 0x24, 0x29, 0x9b, 0x2b, 0xe6, 0xf0, 0x46, 0x50]),
    (24046, [0xf7, 0x01, 0x50, 0xf4, 0x23, 0xf3, 0xac, 0xac, 0xd8, 0x57, 0x24, 0x4a, 0xaa, 0xc5, 0x69, 0xd6]),
    (24047, [0x6c, 0xfc, 0x68, 0xfc, 0x3b, 0xa1, 0x42, 0x59, 0x88, 0x6d, 0x72, 0xe3, 0x03, 0x9b, 0x32, 0x90]),
    (24048, [0xfc, 0x7c, 0xf4, 0xff, 0xfc, 0x7c, 0x47, 0x17, 0x70, 0xee, 0x2a, 0x42, 0x3b, 0x58, 0x71, 0xa7]),
    (24049, [0xb6, 0x0b, 0x13, 0x13, 0xb1, 0x4b, 0x53, 0xc2, 0xf3, 0x05, 0x0f, 0x82, 0x2d, 0xdc, 0xb9, 0x09]),
    (24050, [0xdb, 0xce, 0xbb, 0x8c, 0x79, 0xba, 0x32, 0xeb, 0xc9, 0x81, 0x4a, 0xbf, 0x7d, 0x61, 0x12, 0xc2]),
    (24051, [0x7c, 0x80, 0x53, 0xc3, 0x89, 0x60, 0x12, 0x5b, 0x5a, 0xae, 0xca, 0xae, 0x0e, 0xd4, 0xac, 0x35]),
    (24052, [0xec, 0xd2, 0xf5, 0xfe, 0x9e, 0xc6, 0x65, 0xb8, 0x50, 0x91, 0xb6, 0xdb, 0x79, 0x31, 0x7f, 0x71]),
    (24053, [0x97, 0x9d, 0x32, 0x36, 0x6f, 0x6e, 0xb9, 0x34, 0x46, 0x6f, 0xe5, 0xc2, 0xbb, 0x22, 0xe3, 0x24]),
    (24054, [0xb9, 0x7d, 0x9b, 0x71, 0xd8, 0x8d, 0x19, 0x91, 0x35, 0x94, 0xb5, 0xb3, 0x92, 0x37, 0x7f, 0x86]),
    (24055, [0x4e, 0x8c, 0xe7, 0x68, 0x2c, 0x0d, 0x69, 0xda, 0xfb, 0xd1, 0xed, 0xbe, 0x32, 0x90, 0x7b, 0x14]),
    (24056, [0xf1, 0xec, 0xc5, 0xd5, 0x75, 0xf1, 0x43, 0xc4, 0x42, 0xbc, 0x80, 0xa0, 0xa3, 0x70, 0x0a, 0x08]),
    (24057, [0x14, 0xec, 0xbb, 0x30, 0x85, 0x5b, 0x69, 0xe8, 0xa3, 0xdb, 0x4b, 0x2d, 0xdf, 0x24, 0xcc, 0x78]),
    (24058, [0x5e, 0x9c, 0x00, 0xa4, 0x1e, 0x33, 0x84, 0x69, 0xef, 0xd4, 0xa4, 0x33, 0x37, 0x17, 0xb4, 0x7d]),
    (24059, [0x63, 0xbe, 0x61, 0x3c, 0x15, 0x7c, 0x95, 0x19, 0x4e, 0x8a, 0xd8, 0xd2, 0x6f, 0x02, 0x26, 0x94]),
    (24060, [0xad, 0x16, 0xd1, 0x90, 0x8f, 0xab, 0x7a, 0xf1, 0x94, 0xad, 0x9a, 0x80, 0x11, 0xae, 0x8b, 0x3b]),
    (24061, [0xdc, 0x2c, 0x4a, 0xd5, 0x5b, 0xc3, 0x24, 0xe7, 0xc4, 0x78, 0x3a, 0xec, 0x1e, 0x4d, 0xe9, 0xdd]),
    (24062, [0x5f, 0xa9, 0xa3, 0x91, 0xc4, 0x82, 0xc2, 0xa8, 0x7f, 0x57, 0xed, 0x63, 0x6a, 0xbb, 0xad, 0x3f]),
    (24063, [0x10, 0xf1, 0x11, 0x41, 0x18, 0x8a, 0x73, 0xbc, 0xc6, 0x2b, 0xc5, 0x19, 0x88, 0xef, 0xb3, 0x46]),
    (24064, [0x4b, 0x3a, 0x94, 0xc5, 0x45, 0xd2, 0x1f, 0x1d, 0x54, 0x51, 0xfe, 0x70, 0xcc, 0x4f, 0x9d, 0x39]),
    (24065, [0x8f, 0x98, 0x47, 0x54, 0x8e, 0x6b, 0x40, 0x3f, 0x0f, 0x89, 0x3e, 0x72, 0xc9, 0xf8, 0x05, 0x48]),
    (24066, [0xfa, 0xa4, 0x08, 0x83, 0x93, 0xc9, 0x67, 0x99, 0xf2, 0x92, 0x7d, 0xeb, 0x65, 0xee, 0xbc, 0x55]),
    (24067, [0x6f, 0x92, 0xef, 0x70, 0x48, 0x7c, 0xcf, 0x4b, 0x59, 0x03, 0xd8, 0x53, 0xba, 0xb7, 0xa5, 0xd1]),
    (24068, [0x36, 0x63, 0xf5, 0xd6, 0x93, 0x2e, 0x9b, 0xb1, 0x9e, 0x2a, 0x41, 0x24, 0x73, 0x16, 0xb5, 0xe3]),
    (24069, [0x91, 0x11, 0x0d, 0x6f, 0xf2, 0xc3, 0x01, 0xc4, 0xbf, 0x6e, 0xfa, 0x13, 0x3b, 0xc4, 0xeb, 0x5c]),
    (24070, [0x19, 0xcd, 0x80, 0xd4, 0x2b, 0x42, 0x95, 0x19, 0x05, 0x89, 0x8d, 0x45, 0xaa, 0xeb, 0x4a, 0xcf]),
    (24071, [0x30, 0xd2, 0x7e, 0x5e, 0xdd, 0xcb, 0x96, 0x10, 0xde, 0x86, 0x26, 0x54, 0x85, 0x1c, 0x51, 0xa9]),
    (24072, [0x84, 0xbc, 0x38, 0x2f, 0xbe, 0xb2, 0x0f, 0xb6, 0xeb, 0x24, 0x6c, 0x29, 0x34, 0x2d, 0xb4, 0xc7]),
    (24073, [0x62, 0x80, 0x96, 0xff, 0xe6, 0xd7, 0x86, 0x3d, 0x2d, 0x66, 0x27, 0x33, 0xd4, 0x19, 0x9e, 0x00]),
    (24074, [0x7e, 0x81, 0xa0, 0xcb, 0xe4, 0xdd, 0x2e, 0xd9, 0x14, 0xca, 0xfb, 0xf2, 0xbc, 0x1c, 0xd6, 0x81]),
    (24075, [0x69, 0x19, 0xb0, 0x5e, 0x22, 0xd7, 0xd4, 0xc9, 0x3e, 0x45, 0x81, 0x84, 0xcf, 0x5d, 0x54, 0xeb]),
    (24076, [0x35, 0xd7, 0x63, 0xd6, 0x6e, 0x58, 0x0a, 0x95, 0xd8, 0x8c, 0x52, 0x52, 0x0e, 0x05, 0x12, 0x28]),
    (24077, [0x7c, 0xb7, 0xa7, 0xe3, 0xfa, 0xb4, 0x17, 0xf4, 0xf0, 0x52, 0x26, 0x82, 0x1c, 0x25, 0x6a, 0x2b]),
    (24078, [0xd3, 0xe1, 0xd2, 0x67, 0x9e, 0xa5, 0xe1, 0x35, 0xba, 0x24, 0xc7, 0x58, 0xf2, 0x1f, 0xb0, 0xf3]),
    (24079, [0xcd, 0xaf, 0x55, 0x58, 0xd2, 0x7b, 0x36, 0x3a, 0x71, 0x0d, 0xc4, 0xaf, 0xaf, 0x63, 0xee, 0x03]),
    (24080, [0xd9, 0xa8, 0x79, 0x65, 0x78, 0xb7, 0x15, 0xef, 0xfa, 0x2b, 0x92, 0xb1, 0x81, 0x41, 0xca, 0x0b]),
    (24081, [0xdb, 0x18, 0x3f, 0x64, 0xc9, 0x6c, 0xe0, 0xf2, 0xb3, 0x2b, 0x42, 0x97, 0xfe, 0x0d, 0xd7, 0x67]),
    (24082, [0x70, 0xf8, 0x0d, 0x1d, 0xa8, 0xaf, 0xee, 0x0c, 0x73, 0xd9, 0x38, 0x4d, 0x05, 0x92, 0xd1, 0x53]),
    (24083, [0x20, 0x7a, 0x4b, 0xef, 0x75, 0x75, 0x92, 0x4b, 0x63, 0x0a, 0x72, 0x98, 0x5d, 0xf3, 0x64, 0xcc]),
    (24084, [0x5f, 0xe4, 0x6d, 0xe0, 0xde, 0x01, 0x4c, 0xcc, 0xff, 0xe6, 0xcb, 0x99, 0x74, 0x91, 0xb4, 0x6e]),
    (24085, [0x09, 0x1b, 0x27, 0x7a, 0xb6, 0x34, 0xd1, 0x08, 0x02, 0xd9, 0xc8, 0x54, 0x1d, 0x8b, 0xa0, 0x4b]),
    (24086, [0xb4, 0xf4, 0xa9, 0x17, 0x50, 0x2c, 0xd3, 0xe4, 0xdd, 0x59, 0xc2, 0xc2, 0xa0, 0xea, 0x26, 0xc6]),
    (24087, [0x21, 0x62, 0x34, 0x93, 0xb3, 0x49, 0x95, 0xd3, 0x7b, 0xd5, 0xd1, 0x54, 0x5c, 0x67, 0x89, 0x11]),
    (24088, [0xe8, 0x8d, 0x83, 0xb4, 0x6d, 0x9d, 0xbf, 0x97, 0x7c, 0x76, 0x5d, 0xfb, 0xfa, 0xb9, 0xf1, 0xd9]),
    (24089, [0xa4, 0xf9, 0xda, 0xe9, 0x44, 0x79, 0x6a, 0x29, 0x8f, 0x06, 0x8e, 0xa4, 0xeb, 0x4d, 0xd4, 0x25]),
    (24090, [0xba, 0x70, 0x09, 0xd1, 0x05, 0x12, 0x9b, 0x30, 0x91, 0x1d, 0x70, 0xb2, 0xe4, 0x17, 0x5a, 0x3c]),
    (24091, [0xdb, 0x71, 0xd5, 0x13, 0x37, 0xa4, 0x92, 0x44, 0xbf, 0x90, 0x9d, 0x32, 0x34, 0x8a, 0x98, 0xa3]),
    (24092, [0x2e, 0xc6, 0x0a, 0x37, 0x74, 0xbf, 0xd0, 0x34, 0x23, 0xf6, 0xa3, 0xe3, 0xd2, 0x6f, 0x12, 0x22]),
    (24093, [0xbd, 0x9c, 0x24, 0x13, 0x51, 0x18, 0x48, 0x9f, 0x9a, 0x10, 0xbf, 0x47, 0xae, 0x52, 0x13, 0xa5]),
    (24094, [0xc1, 0xda, 0x7f, 0x8b, 0xb4, 0x9b, 0xb1, 0x0d, 0xc8, 0x62, 0x8f, 0x55, 0xab, 0x4a, 0xde, 0xf7]),
    (24095, [0x3c, 0xce, 0x18, 0x72, 0x1c, 0xb2, 0x61, 0xc8, 0xd4, 0x9b, 0x48, 0x25, 0x9a, 0x5c, 0x46, 0x2c]),
    (24096, [0xed, 0x1f, 0xb1, 0x9e, 0x47, 0xbf, 0x93, 0x42, 0x7a, 0xe7, 0x1c, 0x1d, 0xb4, 0xd5, 0x7c, 0xba]),
    (24097, [0x5d, 0x2b, 0x73, 0x8d, 0x10, 0x77, 0x11, 0x1c, 0x38, 0xfc, 0xb1, 0xd0, 0xe5, 0x9f, 0x36, 0xb3]),
    (24098, [0x88, 0x4c, 0xec, 0x58, 0x4f, 0x71, 0xb7, 0xd1, 0xbf, 0x5c, 0xcf, 0xab, 0x00, 0xc6, 0x07, 0xe3]),
    (24099, [0xd0, 0xce, 0x3b, 0x13, 0x60, 0xea, 0xc0, 0x70, 0x36, 0x23, 0x59, 0x47, 0x7e, 0x8e, 0xe5, 0x9e]),
    (24135, [0x11, 0xed, 0x69, 0xed, 0x74, 0x38, 0xa6, 0x8d, 0xb4, 0xed, 0x75, 0x97, 0x6d, 0xa9, 0xf3, 0x0e]),
    (24171, [0xde, 0x81, 0x08, 0xdb, 0xe9, 0x66, 0xd4, 0x97, 0xd2, 0x88, 0xfc, 0xc8, 0x1d, 0x9d, 0xba, 0x84]),
    (24201, [0xbd, 0xd9, 0x6d, 0x49, 0x3f, 0x23, 0x8b, 0xeb, 0xa3, 0x0a, 0x89, 0xbf, 0xea, 0xcd, 0xaa, 0x88]),
    (24202, [0x17, 0x0a, 0x2f, 0xb3, 0xf1, 0xfe, 0x83, 0x75, 0xaf, 0xef, 0xc9, 0x23, 0x83, 0xbe, 0x22, 0xc3]),
    (24203, [0x80, 0xd7, 0x2a, 0xce, 0xa7, 0x42, 0xc5, 0x13, 0x4e, 0x05, 0xc5, 0xd0, 0x3a, 0xa1, 0xea, 0xa8]),
    (24204, [0x5d, 0x70, 0xec, 0x5e, 0x71, 0xcf, 0xa7, 0x93, 0xc1, 0x9c, 0xb3, 0x06, 0x95, 0xd8, 0x2a, 0x82]),
    (24205, [0x34, 0x85, 0x7b, 0x84, 0x54, 0x70, 0x51, 0x4e, 0x0f, 0xd8, 0x10, 0x65, 0xa7, 0xaa, 0x14, 0x86]),
    (24241, [0x01, 0x03, 0xd5, 0x34, 0x74, 0xfb, 0xba, 0x88, 0x5e, 0x4d, 0x40, 0x59, 0x94, 0x91, 0x68, 0x0f]),
    (24242, [0x4e, 0x10, 0x8a, 0xdd, 0x25, 0x39, 0x2c, 0x41, 0x6e, 0x85, 0xb8, 0x0d, 0xa1, 0x54, 0x28, 0x8d]),
    (24243, [0xa4, 0xcd, 0xaa, 0x44, 0xf3, 0x8c, 0x0b, 0x2b, 0x03, 0x68, 0x24, 0x61, 0x02, 0x19, 0xae, 0x88]),
    (24244, [0x58, 0xb6, 0x35, 0x3f, 0xf8, 0xd3, 0xd3, 0x72, 0x1c, 0xc3, 0x8f, 0xa1, 0x01, 0x83, 0xae, 0xfc]),
    (24245, [0xae, 0x31, 0xc0, 0xb3, 0x51, 0xc7, 0xa8, 0x0c, 0x34, 0x1d, 0x2a, 0xd0, 0xab, 0x1d, 0x75, 0xaf]),
    (24246, [0xa9, 0x39, 0x34, 0xaf, 0x03, 0xcc, 0xd7, 0x76, 0x6d, 0x47, 0xbb, 0xcc, 0x8a, 0x59, 0xf5, 0xc8]),
    (24401, [0x38, 0x8d, 0x02, 0xca, 0xac, 0x0d, 0x4b, 0x6b, 0x42, 0xfb, 0xbd, 0x86, 0x42, 0x8f, 0xe3, 0x85]),
    (24402, [0xd3, 0x9f, 0x98, 0x2d, 0x7d, 0x93, 0xc6, 0x70, 0xdb, 0x5e, 0x9f, 0x44, 0xdb, 0xde, 0x83, 0xaf]),
    (24403, [0x5b, 0x48, 0x29, 0x6a, 0xc4, 0xa2, 0xab, 0x13, 0x21, 0x46, 0x61, 0x80, 0xc6, 0xa5, 0xcc, 0xa2]),
    (24404, [0xe2, 0xe8, 0x3f, 0x7f, 0x6d, 0x95, 0x9a, 0x25, 0xa2, 0xab, 0xe3, 0x55, 0x23, 0xb6, 0xe9, 0x2e]),
    (24405, [0x77, 0x42, 0x69, 0x6a, 0xc1, 0x8b, 0xd0, 0xfa, 0xf3, 0x9b, 0x15, 0x2a, 0x91, 0x11, 0x4a, 0x8f]),
    (24406, [0xf8, 0xe6, 0x07, 0x4d, 0x2f, 0x69, 0xe9, 0xd9, 0x5d, 0xa3, 0x2a, 0x2c, 0x54, 0xec, 0x64, 0xe0]),
    (24407, [0x66, 0x28, 0x50, 0x28, 0x20, 0xd8, 0x4a, 0xe7, 0x3e, 0x3f, 0xec, 0x6c, 0xb7, 0xd2, 0x3e, 0x78]),
    (24408, [0x4d, 0xd4, 0xf4, 0x00, 0xc8, 0x6c, 0x1f, 0xe7, 0x3e, 0x46, 0xfa, 0xbd, 0xa4, 0x5f, 0x10, 0x56]),
    (24447, [0x4b, 0x40, 0x19, 0x8e, 0xd6, 0x06, 0x36, 0x0e, 0xa3, 0xa2, 0xc1, 0xb6, 0x16, 0xb7, 0xa2, 0x41]),
    (24448, [0x19, 0xcf, 0x49, 0xfb, 0xb4, 0x03, 0x9c, 0x77, 0x5a, 0x1b, 0x6d, 0xb4, 0xd6, 0x7d, 0xab, 0x5f]),
    (24450, [0x5a, 0x9b, 0xe4, 0x71, 0x42, 0x88, 0x90, 0x2d, 0xb5, 0x58, 0xd3, 0x7a, 0xd6, 0x0a, 0xf9, 0xf9]),
    (24451, [0x7f, 0xc3, 0xd1, 0x57, 0xcc, 0x58, 0x6f, 0x20, 0xe1, 0x64, 0xce, 0x3f, 0x2b, 0x22, 0x86, 0x58]),
    (24461, [0xd9, 0x3e, 0x1d, 0x5f, 0x12, 0xe9, 0xe2, 0xbc, 0xbf, 0x98, 0xad, 0x27, 0xca, 0x8a, 0xef, 0x99]),
    (24462, [0x9b, 0x22, 0x74, 0x53, 0xe8, 0x05, 0xaa, 0xb5, 0x6e, 0xb0, 0x11, 0xca, 0x72, 0x52, 0x59, 0x0f]),
    (24471, [0xe6, 0x01, 0xe4, 0x54, 0xbc, 0x47, 0x88, 0x3b, 0x61, 0xff, 0xd5, 0x3b, 0x09, 0x85, 0xa1, 0xe0]),
    (24472, [0xb2, 0x18, 0x97, 0x6e, 0x27, 0xcc, 0x63, 0x07, 0x78, 0x13, 0x82, 0x65, 0x78, 0x7e, 0xa0, 0x9c]),
    (24473, [0x32, 0x1b, 0x99, 0xe7, 0x96, 0x8f, 0xbb, 0xb8, 0xb8, 0xf5, 0xee, 0x57, 0x3b, 0xa1, 0xd1, 0x51]),
    (24474, [0x3a, 0xab, 0xa0, 0x23, 0xea, 0x4a, 0x13, 0x9a, 0xf8, 0x5d, 0x85, 0x89, 0x4a, 0x06, 0x5a, 0x64]),
    (24481, [0x13, 0xbd, 0xf6, 0xc2, 0x28, 0x60, 0x0e, 0xaa, 0x45, 0x0b, 0x16, 0x38, 0x80, 0x86, 0x73, 0x0a]),
    (24482, [0xde, 0xf7, 0xe1, 0xe3, 0x30, 0x39, 0xc3, 0xdf, 0xfd, 0xd0, 0xcb, 0x96, 0x7e, 0x8a, 0xdb, 0xed]),
    (24483, [0xdb, 0x0d, 0x26, 0xd9, 0xf8, 0x10, 0xe6, 0x52, 0x93, 0x7b, 0x90, 0xdb, 0x40, 0xf4, 0x06, 0xdb]),
    (24484, [0x95, 0x0f, 0x96, 0xc1, 0x20, 0xba, 0xe3, 0xdd, 0x20, 0x06, 0x18, 0x89, 0x47, 0x21, 0x54, 0xf3]),
    (24485, [0x04, 0x44, 0x46, 0x9c, 0x50, 0x66, 0x42, 0x70, 0x7f, 0x9d, 0xe8, 0x61, 0xf2, 0xd5, 0xdf, 0xdf]),
    (24486, [0xee, 0x85, 0xf2, 0x84, 0xcc, 0x1b, 0xe4, 0x33, 0xfb, 0xa9, 0x7e, 0xc1, 0x61, 0xeb, 0x78, 0x92]),
    (24487, [0x72, 0xbb, 0x98, 0xff, 0xd0, 0xa1, 0xe2, 0xa2, 0x63, 0xd6, 0x3a, 0x39, 0x97, 0x4b, 0xdf, 0x9f]),
    (24488, [0x2e, 0x02, 0x23, 0x90, 0x0b, 0xf0, 0xc5, 0xf5, 0xd3, 0xa6, 0xbb, 0x18, 0x51, 0x09, 0xea, 0x62]),
    (24489, [0x4b, 0x1a, 0x00, 0x3e, 0xd8, 0xe6, 0xfd, 0xf8, 0x57, 0xdb, 0x54, 0x8b, 0xf4, 0xd2, 0xea, 0x92])]"

lemma TABLE_00_span: "span 0 TABLE_00 509"
  unfolding TABLE_00_def by (simp only: span_eval) simp

lemma TABLE_01_span: "span 515 TABLE_01 3704"
  unfolding TABLE_01_def by (simp only: span_eval) simp

lemma TABLE_02_span: "span 3705 TABLE_02 7675"
  unfolding TABLE_02_def by (simp only: span_eval) simp

lemma TABLE_03_span: "span 7676 TABLE_03 9482"
  unfolding TABLE_03_def by (simp only: span_eval) simp

lemma TABLE_04_span: "span 9483 TABLE_04 15663"
  unfolding TABLE_04_def by (simp only: span_eval) simp

lemma TABLE_05_span: "span 15664 TABLE_05 20825"
  unfolding TABLE_05_def by (simp only: span_eval) simp

lemma TABLE_06_span: "span 20826 TABLE_06 22601"
  unfolding TABLE_06_def by (simp only: span_eval) simp

lemma TABLE_07_span: "span 22608 TABLE_07 24489"
  unfolding TABLE_07_def by (simp only: span_eval) simp

end
