(* ===== verification/Key_Table_2.thy ===== *)
theory Key_Table_2
  imports Key_Order
begin

text \<open>
  Rows 1201 to 2400 of the built-in key table of \<open>src/keys/table.rs\<close>, in runs of at most 150 rows, and
  that each run is strictly ascending in the depot.
\<close>

definition TABLE_08 :: "key_entry list" where
  "TABLE_08 = [
    (24490, [0x02, 0x78, 0x0c, 0xad, 0xa3, 0xa0, 0xe8, 0xd6, 0xaa, 0x67, 0xd4, 0x9c, 0x8d, 0x54, 0x7a, 0x25]),
    (24491, [0x40, 0x7d, 0xce, 0x8a, 0x7f, 0x8f, 0xf9, 0xaa, 0x03, 0x1c, 0xad, 0x89, 0x20, 0x72, 0xf7, 0x67]),
    (24492, [0x1f, 0x58, 0xf8, 0x07, 0xd5, 0x21, 0x1c, 0xbe, 0xd8, 0x0a, 0xa0, 0xad, 0xb4, 0xed, 0x32, 0x98]),
    (24493, [0xfd, 0xa1, 0x27, 0x32, 0xd6, 0xe6, 0x8d, 0xd2, 0x66, 0x03, 0xac, 0xf1, 0xa6, 0xd6, 0x09, 0xba]),
    (24494, [0x05, 0x90, 0xe1, 0x6a, 0xf6, 0xe6, 0x3e, 0x17, 0x7c, 0x92, 0x88, 0x0f, 0xd1, 0xd8, 0xac, 0xe6]),
    (24495, [0x98, 0x04, 0x4e, 0x62, 0xcf, 0xc3, 0x9d, 0x2f, 0x03, 0xaf, 0x9b, 0x6b, 0xb0, 0x48, 0x81, 0x98]),
    (24496, [0xae, 0xf7, 0x29, 0xe2, 0x45, 0xff, 0xfe, 0x6c, 0xff, 0xe4, 0x4c, 0xa2, 0x47, 0xcb, 0xab, 0x7f]),
    (24498, [0xc4, 0x61, 0x97, 0x59, 0x2e, 0x4e, 0xaf, 0x17, 0xfd, 0xfc, 0x6d, 0x22, 0x32, 0x89, 0xf6, 0x64]),
    (24499, [0xfc, 0xdd, 0x35, 0x87, 0xdd, 0x09, 0x1a, 0x0d, 0xbe, 0x59, 0xa8, 0xd8, 0x3e, 0x46, 0xde, 0xf5]),
    (24932, [0x63, 0x42, 0xea, 0x95, 0x5f, 0x64, 0xa0, 0x86, 0x83, 0x57, 0xc5, 0x95, 0xf0, 0x61, 0xd1, 0xaf]),
    (24934, [0x11, 0xed, 0x69, 0xed, 0x74, 0x38, 0xa6, 0x8d, 0xb4, 0xed, 0x75, 0x97, 0x6d, 0xa9, 0xf3, 0x0e]),
    (24935, [0x11, 0xed, 0x69, 0xed, 0x74, 0x38, 0xa6, 0x8d, 0xb4, 0xed, 0x75, 0x97, 0x6d, 0xa9, 0xf3, 0x0e]),
    (24936, [0x16, 0xd5, 0x60, 0x07, 0x7a, 0x15, 0x00, 0x88, 0xa7, 0x41, 0x7a, 0xd6, 0x14, 0x25, 0xb9, 0x30]),
    (24937, [0x63, 0x42, 0xea, 0x95, 0x5f, 0x64, 0xa0, 0x86, 0x83, 0x57, 0xc5, 0x95, 0xf0, 0x61, 0xd1, 0xaf]),
    (24938, [0x58, 0x66, 0x88, 0xdf, 0xeb, 0xb2, 0xf0, 0x07, 0xee, 0x6c, 0x55, 0x3d, 0xe4, 0xd5, 0xc9, 0xa8]),
    (24939, [0x99, 0xde, 0x83, 0xd1, 0x03, 0xe8, 0xd6, 0x55, 0x4b, 0x5d, 0xaf, 0x47, 0x77, 0x73, 0x57, 0xcf]),
    (24961, [0xe9, 0xa1, 0x24, 0xb9, 0x5b, 0x88, 0x94, 0x66, 0xe5, 0xa6, 0xea, 0x03, 0x14, 0xad, 0x7c, 0xec]),
    (24962, [0x63, 0x42, 0xea, 0x95, 0x5f, 0x64, 0xa0, 0x86, 0x83, 0x57, 0xc5, 0x95, 0xf0, 0x61, 0xd1, 0xaf]),
    (24963, [0x63, 0x42, 0xea, 0x95, 0x5f, 0x64, 0xa0, 0x86, 0x83, 0x57, 0xc5, 0x95, 0xf0, 0x61, 0xd1, 0xaf]),
    (24981, [0xcc, 0xf3, 0xd5, 0x96, 0xe7, 0xc7, 0x57, 0x84, 0xf8, 0x21, 0x34, 0x43, 0x36, 0x5f, 0x7a, 0x49]),
    (24982, [0xad, 0x48, 0x7d, 0xab, 0x5a, 0xa4, 0x8c, 0xfe, 0xa4, 0x32, 0xa9, 0xba, 0x01, 0x9b, 0x85, 0x18]),
    (24983, [0xea, 0x5c, 0x1e, 0x7d, 0xbb, 0xa3, 0x55, 0xcb, 0x26, 0xf5, 0x4a, 0x8f, 0xa8, 0xeb, 0x9f, 0xec]),
    (24984, [0x7d, 0x2c, 0x36, 0x27, 0xd3, 0xba, 0x7c, 0x52, 0x41, 0x8e, 0x49, 0xd8, 0x6c, 0x1d, 0x6f, 0x66]),
    (24985, [0xdb, 0xed, 0x93, 0x79, 0xcd, 0x5c, 0xf0, 0x54, 0xc8, 0xda, 0xe2, 0x20, 0xed, 0xab, 0xde, 0x80]),
    (24986, [0x4e, 0x42, 0x37, 0x1b, 0x6a, 0xa8, 0x0f, 0x05, 0x9f, 0x64, 0xb8, 0x6b, 0x1b, 0xd5, 0xd1, 0xde]),
    (24987, [0x92, 0x65, 0xae, 0xa8, 0x3a, 0x04, 0xd5, 0xd1, 0x9b, 0x32, 0xe7, 0xbd, 0x51, 0xd6, 0x39, 0x88]),
    (24988, [0xfc, 0xe6, 0x6f, 0x2e, 0x83, 0xde, 0x4b, 0x28, 0xcf, 0x47, 0x76, 0xb8, 0x8d, 0xa9, 0xcd, 0x1e]),
    (24989, [0xdf, 0x9d, 0x36, 0x60, 0x87, 0xe8, 0x70, 0x91, 0xa1, 0x0e, 0x08, 0xb4, 0xea, 0x1a, 0xa6, 0x98]),
    (24990, [0xb5, 0x0f, 0x97, 0x3f, 0xbe, 0x7a, 0xeb, 0x45, 0xb6, 0x6c, 0xaa, 0x1d, 0x7f, 0xc3, 0x35, 0xdd]),
    (24991, [0x1b, 0x6d, 0x87, 0x5d, 0xed, 0xf8, 0x29, 0x46, 0x2c, 0xd3, 0x64, 0xe9, 0x92, 0x11, 0x62, 0x71]),
    (24992, [0x63, 0x42, 0xea, 0x95, 0x5f, 0x64, 0xa0, 0x86, 0x83, 0x57, 0xc5, 0x95, 0xf0, 0x61, 0xd1, 0xaf]),
    (24993, [0x63, 0x42, 0xea, 0x95, 0x5f, 0x64, 0xa0, 0x86, 0x83, 0x57, 0xc5, 0x95, 0xf0, 0x61, 0xd1, 0xaf]),
    (24994, [0x63, 0x42, 0xea, 0x95, 0x5f, 0x64, 0xa0, 0x86, 0x83, 0x57, 0xc5, 0x95, 0xf0, 0x61, 0xd1, 0xaf]),
    (24995, [0x63, 0x42, 0xea, 0x95, 0x5f, 0x64, 0xa0, 0x86, 0x83, 0x57, 0xc5, 0x95, 0xf0, 0x61, 0xd1, 0xaf]),
    (24996, [0x63, 0x42, 0xea, 0x95, 0x5f, 0x64, 0xa0, 0x86, 0x83, 0x57, 0xc5, 0x95, 0xf0, 0x61, 0xd1, 0xaf]),
    (24997, [0x63, 0x42, 0xea, 0x95, 0x5f, 0x64, 0xa0, 0x86, 0x83, 0x57, 0xc5, 0x95, 0xf0, 0x61, 0xd1, 0xaf]),
    (24998, [0x63, 0x42, 0xea, 0x95, 0x5f, 0x64, 0xa0, 0x86, 0x83, 0x57, 0xc5, 0x95, 0xf0, 0x61, 0xd1, 0xaf]),
    (25001, [0x8f, 0x4a, 0x4a, 0xe3, 0x3f, 0xa2, 0xdf, 0x7e, 0x6b, 0x87, 0x17, 0xc0, 0x3a, 0x7f, 0x25, 0x4a]),
    (25002, [0x93, 0x1d, 0x68, 0xa4, 0xc1, 0xd2, 0x99, 0xec, 0xed, 0x27, 0xf7, 0xcc, 0xf4, 0x7f, 0xf8, 0xd1]),
    (25003, [0x30, 0x8b, 0xa5, 0x36, 0x50, 0x07, 0x05, 0xe5, 0x3d, 0x32, 0x2f, 0x5b, 0xd2, 0xe0, 0x84, 0xd9]),
    (25501, [0x5e, 0x48, 0x99, 0xc7, 0xa1, 0x23, 0xe5, 0xc4, 0xfe, 0xbd, 0x28, 0x7f, 0x9f, 0x7e, 0x5f, 0x9d]),
    (25701, [0x81, 0xe3, 0xba, 0x29, 0x33, 0x53, 0x74, 0xe9, 0x17, 0xa1, 0x91, 0x98, 0xf1, 0xdf, 0xaf, 0xee]),
    (25702, [0x15, 0x29, 0x25, 0x2b, 0xab, 0xdd, 0xd1, 0x52, 0xaa, 0x71, 0xdc, 0x9a, 0x3b, 0x5b, 0xe2, 0xfa]),
    (25703, [0x1e, 0x13, 0x0c, 0xe4, 0x89, 0x95, 0xab, 0x13, 0x25, 0x50, 0x27, 0xaa, 0x68, 0x17, 0xa5, 0x60]),
    (25721, [0x63, 0x89, 0xac, 0x6b, 0x87, 0x97, 0x64, 0x35, 0xc4, 0xe0, 0xbe, 0xec, 0xfe, 0xc4, 0xde, 0xe5]),
    (25903, [0xfe, 0x62, 0x9e, 0xe0, 0x77, 0xcf, 0x78, 0x9a, 0xc9, 0x42, 0x9b, 0x68, 0x6f, 0x96, 0x14, 0x8c]),
    (26721, [0x3d, 0xc2, 0x96, 0xf6, 0x75, 0x6d, 0xc8, 0x86, 0x5e, 0x8e, 0xe6, 0x6f, 0x94, 0xb2, 0xa3, 0x0e]),
    (26801, [0x12, 0x2a, 0x99, 0xbb, 0x57, 0xfa, 0x16, 0x39, 0x8d, 0x3b, 0x3c, 0xf3, 0x5f, 0xed, 0xc9, 0x81]),
    (26803, [0x4e, 0x32, 0x48, 0x07, 0x77, 0x7d, 0x07, 0xd4, 0xe0, 0xf9, 0x43, 0x98, 0x16, 0x5c, 0x71, 0x01]),
    (26901, [0x19, 0x36, 0xf5, 0x65, 0x08, 0xb3, 0x5c, 0x8e, 0xd0, 0xdb, 0x01, 0x8e, 0xc7, 0xd8, 0x34, 0xe7]),
    (27001, [0x3d, 0x7d, 0x21, 0x52, 0x34, 0x9d, 0x1f, 0xaa, 0x11, 0xe8, 0x28, 0x1f, 0x6f, 0xac, 0xc0, 0x05]),
    (27002, [0xa4, 0x97, 0x26, 0x7e, 0x5a, 0x7f, 0x50, 0x20, 0x1f, 0x63, 0xce, 0xe9, 0x9d, 0x4d, 0x21, 0x12]),
    (27004, [0xab, 0x45, 0xf4, 0x4b, 0xc5, 0x02, 0x95, 0x3f, 0xa8, 0x20, 0xc6, 0xa7, 0x26, 0x8a, 0xef, 0x6c]),
    (27005, [0x35, 0xdf, 0xc7, 0x44, 0xae, 0xca, 0x95, 0x8d, 0x7e, 0x70, 0xde, 0xdf, 0x43, 0xba, 0xbe, 0x1f]),
    (27006, [0xb6, 0x3e, 0x43, 0xe6, 0xb7, 0x65, 0x49, 0x5f, 0x83, 0xec, 0x35, 0xcb, 0xc5, 0x65, 0x38, 0x8b]),
    (27007, [0x41, 0x30, 0xb9, 0x3d, 0xc8, 0x7e, 0x56, 0xe0, 0x18, 0x77, 0x50, 0x1b, 0xe0, 0x39, 0x2e, 0x24]),
    (27008, [0xed, 0x84, 0x7a, 0x82, 0x35, 0x8c, 0xa2, 0xed, 0x79, 0x79, 0xa0, 0x92, 0x0a, 0x7c, 0x3f, 0x1d]),
    (27009, [0x8f, 0x45, 0x87, 0x16, 0x66, 0xe5, 0xc8, 0x9d, 0x01, 0x4e, 0xb0, 0x95, 0x33, 0x09, 0x70, 0x2e]),
    (27010, [0x1f, 0x7e, 0x4f, 0xaf, 0x49, 0x67, 0x5b, 0xba, 0x74, 0xd2, 0xe1, 0x2e, 0xc8, 0x8a, 0xaf, 0x34]),
    (27013, [0x25, 0x85, 0xb1, 0x98, 0x94, 0x16, 0x69, 0x31, 0xa7, 0x60, 0xdf, 0xcc, 0x00, 0x1e, 0xdc, 0x32]),
    (27014, [0x4e, 0xfe, 0x8e, 0x69, 0xad, 0x4c, 0x2e, 0xa5, 0xb4, 0xac, 0x65, 0x32, 0xb4, 0x2a, 0x82, 0x74]),
    (27015, [0xe8, 0x3f, 0xa1, 0x2a, 0x31, 0x7e, 0x3f, 0x52, 0x98, 0x24, 0x93, 0x6b, 0xe0, 0x8c, 0x2a, 0x07]),
    (27401, [0xd3, 0x2d, 0x28, 0x27, 0xa9, 0x74, 0xc4, 0xf7, 0x83, 0xa6, 0x72, 0x52, 0x23, 0xf3, 0xa8, 0xa3]),
    (27402, [0x64, 0x6f, 0x4d, 0x54, 0xad, 0xb2, 0xa7, 0x12, 0xc4, 0x12, 0xae, 0xc0, 0xb5, 0x50, 0x66, 0x6e]),
    (27901, [0x16, 0x63, 0x9b, 0x4e, 0xe9, 0x8f, 0x41, 0x93, 0x7a, 0x06, 0xf5, 0xee, 0x6e, 0xc1, 0x54, 0x41]),
    (27921, [0xb7, 0x79, 0xb6, 0xc2, 0xc9, 0xc3, 0xa8, 0xf2, 0xf6, 0x79, 0xff, 0x97, 0x57, 0x80, 0x46, 0x4b]),
    (27931, [0x17, 0x8d, 0x2a, 0x02, 0x09, 0x7d, 0xcf, 0x1d, 0xcd, 0x37, 0xb1, 0xc1, 0x97, 0xe9, 0x4f, 0x90]),
    (27941, [0x1d, 0x9a, 0x69, 0x54, 0x17, 0xb7, 0x67, 0x12, 0x22, 0x80, 0xd7, 0xb9, 0x57, 0x0d, 0x63, 0xd6]),
    (28001, [0x87, 0x4d, 0x5b, 0xab, 0x01, 0xa3, 0x13, 0xb7, 0x64, 0x4f, 0x49, 0xe1, 0xac, 0x19, 0x69, 0x1f]),
    (28002, [0x36, 0xd4, 0xe4, 0xb5, 0xd5, 0xf7, 0xb8, 0x5b, 0x30, 0x30, 0xe0, 0xbf, 0x5a, 0x5f, 0x22, 0x8c]),
    (28003, [0xa3, 0x8e, 0x91, 0xcd, 0xbb, 0x18, 0x33, 0x0e, 0xa9, 0xa2, 0xe0, 0x2f, 0xbf, 0xdf, 0xf5, 0x08]),
    (28004, [0x24, 0xe5, 0xbe, 0x36, 0x98, 0xb3, 0x27, 0x90, 0xfe, 0xce, 0x61, 0x96, 0xb8, 0xda, 0xf2, 0x08]),
    (28005, [0x88, 0x35, 0x71, 0xc6, 0xc1, 0xc9, 0x48, 0x92, 0x69, 0x01, 0x96, 0x02, 0x2c, 0x56, 0xdf, 0xc3]),
    (28006, [0x76, 0x6a, 0x5f, 0x4f, 0x6a, 0xdc, 0x58, 0x6e, 0x73, 0xf7, 0x09, 0x62, 0xf6, 0xe9, 0xde, 0xf6]),
    (28007, [0xcf, 0x7e, 0x97, 0x61, 0xc1, 0xf5, 0x95, 0x68, 0x95, 0x3b, 0x9a, 0x4b, 0xfc, 0x5f, 0x2e, 0x3b]),
    (28008, [0x05, 0xa1, 0xe6, 0x2e, 0x51, 0xd9, 0x6b, 0x2c, 0xfd, 0x45, 0x71, 0x8a, 0x08, 0xbc, 0xd2, 0x9b]),
    (28009, [0x30, 0xf8, 0xff, 0xd9, 0xf5, 0x0f, 0x49, 0x44, 0x9e, 0x98, 0xff, 0xcb, 0x17, 0xdb, 0xe4, 0xf3]),
    (28010, [0xea, 0x0d, 0xe6, 0x14, 0x6e, 0x9f, 0x7b, 0x48, 0x07, 0xfc, 0x96, 0x8e, 0xa6, 0x5d, 0xb5, 0x58]),
    (28011, [0xbd, 0xb1, 0xa7, 0x8b, 0x9c, 0x0e, 0xc6, 0x7f, 0x20, 0x4b, 0x8e, 0x15, 0x05, 0xa1, 0xe5, 0x56]),
    (28012, [0xca, 0x7a, 0x2d, 0x9a, 0x30, 0x84, 0x65, 0x8a, 0x25, 0xf2, 0x01, 0xf9, 0x87, 0x1e, 0x3d, 0x68]),
    (28013, [0x9b, 0x5b, 0x87, 0x61, 0xb6, 0x07, 0xec, 0xca, 0x2a, 0x16, 0xc9, 0x3b, 0xbb, 0x71, 0x7c, 0xa5]),
    (28014, [0xca, 0xe6, 0x2d, 0xf8, 0x9f, 0x8c, 0xa9, 0xeb, 0xb0, 0xb1, 0xc2, 0x21, 0xfd, 0x4a, 0x8f, 0x50]),
    (28015, [0xd6, 0xca, 0x4e, 0x71, 0x4f, 0x16, 0xf1, 0xda, 0x8e, 0x97, 0x31, 0xad, 0x70, 0xdc, 0x10, 0xc4]),
    (28016, [0xac, 0x5c, 0xb1, 0xf5, 0xae, 0xd5, 0x16, 0x7c, 0x4a, 0x4b, 0xe2, 0xd5, 0x0b, 0x80, 0x69, 0x1e]),
    (28021, [0xa9, 0xec, 0x31, 0x10, 0x81, 0x07, 0x5b, 0x6e, 0x2f, 0x3e, 0x3e, 0x19, 0x51, 0x0c, 0x67, 0x2c]),
    (28023, [0xd6, 0x53, 0x83, 0xba, 0xd6, 0x7f, 0x93, 0x5a, 0x55, 0x58, 0x86, 0x0f, 0x0b, 0x89, 0xaa, 0x5f]),
    (28025, [0x7f, 0x40, 0x77, 0xbf, 0x1d, 0xde, 0xf6, 0xf9, 0x6b, 0xb2, 0x57, 0xbf, 0x65, 0x84, 0x19, 0x46]),
    (28026, [0x23, 0x52, 0xa2, 0xa0, 0x8f, 0x69, 0x41, 0xd2, 0x1b, 0xd3, 0x75, 0xcd, 0x5a, 0x10, 0x5e, 0x58]),
    (28027, [0xa9, 0xc2, 0x09, 0x32, 0x45, 0x37, 0x0b, 0x62, 0x51, 0x20, 0xb4, 0xe5, 0xcd, 0x6e, 0x0e, 0x4b]),
    (28028, [0x3c, 0x7b, 0xb2, 0x8a, 0xd2, 0x87, 0x4e, 0xda, 0xea, 0x9b, 0xfa, 0x5c, 0x81, 0xcc, 0xa8, 0x3a]),
    (28031, [0xa4, 0xf1, 0xbd, 0xcb, 0xde, 0xbe, 0x46, 0x9e, 0x50, 0xe4, 0x80, 0x74, 0xa5, 0x8d, 0x5b, 0xc5]),
    (28032, [0xff, 0x7b, 0x70, 0xd2, 0x69, 0x64, 0x84, 0xc2, 0xb7, 0xe7, 0x37, 0x0d, 0x26, 0xe3, 0x4b, 0x2e]),
    (28033, [0x3f, 0x52, 0x5a, 0xb7, 0xf4, 0x49, 0x81, 0x36, 0x30, 0x87, 0xbb, 0xe2, 0xd4, 0x09, 0xf2, 0x5b]),
    (28034, [0x46, 0x4a, 0x9f, 0x1c, 0xda, 0x8c, 0x40, 0x47, 0x47, 0xb5, 0x48, 0xa8, 0xd7, 0x91, 0x00, 0x6c]),
    (28035, [0xef, 0x2c, 0x3b, 0x63, 0xd4, 0xcb, 0xfb, 0x9f, 0x3f, 0xd5, 0x96, 0x67, 0x3a, 0xc4, 0xf5, 0x32]),
    (28036, [0x07, 0x3c, 0x66, 0x8e, 0x89, 0x55, 0xac, 0x70, 0xb5, 0xc8, 0x04, 0x2d, 0x9c, 0xe8, 0x3e, 0xf1]),
    (28037, [0x08, 0xd7, 0x3c, 0x5e, 0xd2, 0xaf, 0xd7, 0xf1, 0x1e, 0xea, 0x35, 0xeb, 0xde, 0x3e, 0x7c, 0x64]),
    (28038, [0x9b, 0xfe, 0x4a, 0x67, 0x45, 0x87, 0xf6, 0xd7, 0x16, 0x84, 0x2e, 0x6d, 0x82, 0xf2, 0x44, 0x2b]),
    (28041, [0x5e, 0x62, 0x86, 0x17, 0xdb, 0x9c, 0x84, 0xa7, 0x21, 0xd8, 0xaf, 0x89, 0x16, 0xbc, 0x6b, 0xf2]),
    (28042, [0x55, 0xed, 0x7c, 0x0f, 0xcf, 0xc5, 0xe4, 0x36, 0xe2, 0xa6, 0xb7, 0x37, 0xd9, 0x81, 0xb6, 0x07]),
    (28043, [0xb7, 0x58, 0x25, 0x5c, 0x01, 0x1d, 0x1d, 0xda, 0xfc, 0x6c, 0xad, 0x0b, 0x8b, 0xd6, 0xe8, 0x62]),
    (28044, [0x9e, 0xdb, 0x87, 0xaa, 0x50, 0x2a, 0xc6, 0xd5, 0x86, 0x20, 0x66, 0xec, 0xbb, 0x45, 0x99, 0x53]),
    (28045, [0x17, 0x8b, 0x6d, 0x99, 0xbd, 0x53, 0x11, 0x9e, 0xf7, 0xb3, 0x54, 0xc9, 0x09, 0xb0, 0xd0, 0xc2]),
    (28046, [0x0c, 0x58, 0x4b, 0xec, 0x2e, 0xd8, 0x54, 0xe3, 0x67, 0xdd, 0x9e, 0x61, 0x7a, 0x6a, 0x23, 0x8e]),
    (28047, [0x27, 0x00, 0x67, 0x3c, 0x63, 0x0a, 0x84, 0xb9, 0x70, 0x85, 0xac, 0xa4, 0xd7, 0x12, 0xab, 0xf0]),
    (28048, [0x63, 0xc0, 0x95, 0x54, 0x13, 0x94, 0x7f, 0x06, 0xe5, 0x6c, 0x75, 0xec, 0x0c, 0xb3, 0x86, 0xca]),
    (28051, [0x08, 0xad, 0x1f, 0x53, 0x95, 0xe6, 0xa3, 0x96, 0x98, 0x35, 0x21, 0x05, 0xe3, 0xd4, 0x64, 0x3c]),
    (28052, [0x5d, 0x69, 0x72, 0xc9, 0x01, 0xe5, 0x5b, 0x2b, 0xcf, 0x7e, 0xf9, 0x57, 0x58, 0xea, 0xaf, 0x58]),
    (28053, [0xd0, 0xf1, 0xe8, 0x3c, 0x82, 0x3c, 0xb6, 0xc2, 0x1e, 0x8f, 0x99, 0x6e, 0x84, 0xec, 0x7c, 0xe1]),
    (28054, [0x4e, 0x7f, 0x26, 0xed, 0x15, 0x21, 0x87, 0x06, 0x9e, 0xa5, 0xb0, 0xa9, 0x33, 0xde, 0xc8, 0x0e]),
    (28055, [0x8c, 0x79, 0xd3, 0x0f, 0x75, 0x6d, 0x3e, 0xf8, 0xac, 0x90, 0xea, 0x8a, 0xaa, 0x76, 0xe6, 0x40]),
    (28056, [0xab, 0xd7, 0xcc, 0x59, 0x26, 0x5b, 0x5b, 0x4d, 0x7e, 0x1d, 0x2e, 0xad, 0x49, 0xf7, 0x5d, 0x3b]),
    (28057, [0x87, 0xb0, 0x9a, 0x5c, 0xba, 0x97, 0x44, 0x40, 0x4a, 0xfe, 0xd2, 0xb5, 0x42, 0x90, 0x01, 0x15]),
    (28058, [0x12, 0xa8, 0x21, 0xa5, 0x77, 0xdf, 0x57, 0x3f, 0x51, 0x72, 0x44, 0xb2, 0x8c, 0xb3, 0xcf, 0x6f]),
    (28059, [0x06, 0xd2, 0x5b, 0x33, 0xca, 0xef, 0x60, 0x00, 0x68, 0xe8, 0x79, 0xde, 0xa1, 0x5f, 0xdd, 0xd6]),
    (28060, [0x35, 0x74, 0x2f, 0x1b, 0x1b, 0xb9, 0xc5, 0xe1, 0x7d, 0x00, 0xb6, 0xcb, 0x83, 0xf0, 0x86, 0xfb]),
    (28061, [0x62, 0x0d, 0xde, 0x79, 0xff, 0xb5, 0x5c, 0xc7, 0x61, 0x58, 0xab, 0x43, 0x3f, 0x03, 0x52, 0x9b]),
    (28071, [0xee, 0xac, 0xe1, 0xae, 0xd9, 0x4f, 0x00, 0xc1, 0xab, 0xae, 0x85, 0xd1, 0x81, 0x2b, 0x32, 0x40]),
    (28072, [0x0a, 0xc6, 0xf1, 0xa4, 0xe7, 0xfc, 0xef, 0x1f, 0x6e, 0xca, 0xde, 0x2b, 0x44, 0x28, 0xb4, 0x2c]),
    (28073, [0x91, 0x5b, 0xd6, 0xf2, 0x9d, 0x82, 0x8d, 0x10, 0x4d, 0x99, 0xbb, 0x27, 0xbc, 0x30, 0xa6, 0x4e]),
    (28074, [0x2b, 0x27, 0xef, 0xf5, 0xe0, 0x8f, 0xc3, 0xb1, 0xfb, 0x2a, 0xe7, 0x9f, 0x3b, 0x03, 0xbb, 0xb2]),
    (28075, [0xab, 0xea, 0xbb, 0x44, 0xee, 0x2a, 0xb0, 0xa9, 0x96, 0x3e, 0x36, 0x42, 0xa7, 0xbb, 0xbf, 0xfd]),
    (28076, [0x21, 0x2f, 0x15, 0x66, 0x78, 0xfb, 0xf5, 0x2d, 0x93, 0x4e, 0x96, 0x20, 0xc9, 0x1b, 0x15, 0x00]),
    (28077, [0x5d, 0xaf, 0xca, 0x10, 0x64, 0x75, 0x1d, 0x88, 0x7f, 0xd6, 0x22, 0xd7, 0x1f, 0x36, 0xbf, 0xb5]),
    (28078, [0xc6, 0x6c, 0x1e, 0x10, 0xcc, 0x37, 0x2f, 0x73, 0xe7, 0x28, 0x97, 0xbe, 0x35, 0x2c, 0x08, 0x3b]),
    (28081, [0xf8, 0x34, 0x38, 0x67, 0x98, 0xa5, 0xb5, 0xa3, 0xdc, 0x7e, 0xba, 0xef, 0xb0, 0xc4, 0xef, 0x21]),
    (28082, [0x6e, 0xde, 0x4a, 0x31, 0x78, 0x31, 0xcb, 0xfe, 0xb4, 0xeb, 0xff, 0x86, 0xd6, 0x1d, 0x9b, 0xc8]),
    (28083, [0x74, 0x55, 0xb2, 0x4c, 0x05, 0x4e, 0x71, 0x43, 0xd9, 0x36, 0x53, 0xbf, 0xd2, 0x6f, 0xb3, 0xa0]),
    (28084, [0xb8, 0xe0, 0xb6, 0x35, 0xd8, 0x99, 0x54, 0xb4, 0xdb, 0xa0, 0xdd, 0xfd, 0xfa, 0xb4, 0x7b, 0x60]),
    (28085, [0x0f, 0x6b, 0xd9, 0x52, 0xfe, 0xc3, 0x7b, 0xfb, 0x9a, 0xf1, 0x95, 0xb9, 0x36, 0x35, 0x35, 0x20]),
    (28086, [0xea, 0xdf, 0xe3, 0x8f, 0x68, 0x77, 0x85, 0x80, 0xa9, 0xf5, 0x43, 0x34, 0x9a, 0x56, 0x57, 0xc8]),
    (28087, [0x2a, 0x4d, 0x08, 0xee, 0xfd, 0xb1, 0xff, 0x7a, 0x1e, 0x6b, 0x81, 0x40, 0xdc, 0xac, 0x87, 0x67]),
    (28088, [0x8c, 0xad, 0x8a, 0xb3, 0x2f, 0xf3, 0xa6, 0x31, 0xe1, 0x20, 0xab, 0x4a, 0x96, 0x58, 0x10, 0x1d]),
    (28089, [0x2e, 0x23, 0xba, 0x78, 0x77, 0xed, 0xe4, 0x31, 0x44, 0xbe, 0x24, 0xbb, 0x62, 0x40, 0xd2, 0xbb]),
    (28101, [0x43, 0x24, 0x65, 0xfe, 0xe2, 0xb6, 0xa2, 0x79, 0xe3, 0x6a, 0x74, 0x76, 0xcf, 0x1d, 0x63, 0xe5]),
    (28102, [0xf8, 0xf9, 0x0a, 0xf7, 0x53, 0x48, 0x3e, 0xbf, 0xc4, 0x9d, 0xb4, 0x5d, 0xe7, 0xe2, 0x95, 0x1c]),
    (28103, [0x12, 0xc8, 0xf2, 0x72, 0x5d, 0xb5, 0x84, 0xd7, 0x2b, 0xab, 0x3a, 0x1c, 0x88, 0x8f, 0x76, 0xe9]),
    (28104, [0xd6, 0xa5, 0xa2, 0x19, 0x2d, 0x38, 0x72, 0xf6, 0xe8, 0x94, 0x8a, 0x6f, 0x21, 0x3e, 0x8f, 0xa9]),
    (28105, [0x6c, 0x06, 0x8f, 0xb6, 0x30, 0x6b, 0x4c, 0xc6, 0x44, 0xeb, 0x26, 0x3c, 0xdd, 0x49, 0xd5, 0x01]),
    (28106, [0xbf, 0x8f, 0xa8, 0xb3, 0xbf, 0x03, 0x53, 0x62, 0x05, 0xc7, 0xc9, 0x39, 0x19, 0xc6, 0x06, 0xf8]),
    (28107, [0xea, 0xa3, 0xfc, 0x42, 0x7a, 0x66, 0xd9, 0x4d, 0x32, 0xb5, 0x29, 0x71, 0x37, 0xc2, 0x9e, 0x56]),
    (28108, [0x4b, 0xd0, 0x15, 0xf4, 0x2c, 0xe5, 0x6f, 0x95, 0xf6, 0xe0, 0x8e, 0x36, 0xf7, 0xac, 0x8b, 0xf6]),
    (28109, [0xe1, 0x9c, 0xba, 0x3a, 0x73, 0xbe, 0xa3, 0xfb, 0xdb, 0x4f, 0xae, 0xb3, 0xfe, 0xb7, 0xa0, 0xfe]),
    (28111, [0x33, 0x94, 0x68, 0x05, 0xff, 0xed, 0x61, 0x73, 0x0d, 0x19, 0x6c, 0xb2, 0x38, 0xa4, 0x0e, 0x1c]),
    (28112, [0x80, 0xe4, 0x82, 0x99, 0x50, 0xc6, 0x21, 0x21, 0x72, 0xd6, 0x64, 0xd7, 0xeb, 0xc2, 0x1c, 0x36]),
    (28113, [0xe4, 0x70, 0x66, 0x55, 0x2d, 0x6e, 0xc7, 0x72, 0x01, 0x05, 0xd3, 0xe7, 0x3c, 0x63, 0xc6, 0x22]),
    (28114, [0xd6, 0x04, 0xc1, 0xaa, 0xf6, 0xd2, 0x8c, 0x4e, 0x97, 0x91, 0x6b, 0x5b, 0xaf, 0x02, 0x65, 0xd9]),
    (28115, [0x88, 0x5e, 0x9b, 0xe0, 0x6b, 0x71, 0x0f, 0x26, 0x07, 0x1f, 0xef, 0x90, 0x84, 0x89, 0x0c, 0x0a]),
    (28116, [0xc2, 0x25, 0xc0, 0xc7, 0x0e, 0xe8, 0xa5, 0xd8, 0x95, 0x71, 0xcd, 0x11, 0x74, 0x22, 0x4b, 0xdc]),
    (28117, [0xb0, 0x18, 0x86, 0x7f, 0x54, 0x51, 0x33, 0xaa, 0x39, 0x4d, 0xcf, 0x91, 0x43, 0x71, 0xdc, 0x8b])]"

definition TABLE_09 :: "key_entry list" where
  "TABLE_09 = [
    (29181, [0xd9, 0x0d, 0x98, 0xfd, 0x16, 0xf1, 0xd8, 0xbc, 0x36, 0x06, 0xef, 0x6f, 0xb5, 0xac, 0x50, 0x04]),
    (29684, [0x84, 0xf7, 0x83, 0xfd, 0x4b, 0x53, 0xf0, 0xe2, 0x80, 0x99, 0xce, 0x34, 0x67, 0x61, 0x2b, 0xb1]),
    (29731, [0xad, 0x41, 0xf7, 0xd4, 0x05, 0x26, 0x2a, 0x7f, 0x86, 0x86, 0x13, 0x33, 0x2d, 0x33, 0xf0, 0x8f]),
    (29732, [0xdd, 0xea, 0x53, 0x3d, 0x3d, 0x82, 0xbb, 0x57, 0xa2, 0x52, 0xee, 0x8b, 0x24, 0x2c, 0xb0, 0x1b]),
    (29733, [0xdf, 0x59, 0xd2, 0x93, 0xe4, 0x0d, 0x01, 0x9c, 0x22, 0xbf, 0xbe, 0x24, 0x96, 0x18, 0x84, 0xdd]),
    (30001, [0x2a, 0xdc, 0xb0, 0xa2, 0xed, 0x2a, 0xb1, 0xaf, 0xae, 0xb1, 0x47, 0xe8, 0x5f, 0x15, 0xe8, 0x07]),
    (31281, [0x7e, 0x8e, 0x49, 0x5b, 0xe2, 0x19, 0x70, 0xb4, 0xda, 0x8f, 0x65, 0x73, 0xdd, 0x1b, 0x38, 0x2a]),
    (31282, [0x91, 0xed, 0xbf, 0xab, 0x81, 0x06, 0x4f, 0xf2, 0x6c, 0x49, 0x73, 0x41, 0x21, 0xf3, 0x2d, 0x7c]),
    (31301, [0xe7, 0x62, 0xdc, 0xf9, 0x06, 0xd1, 0x3e, 0x11, 0xf0, 0x45, 0xb6, 0xc4, 0x29, 0x52, 0x17, 0x78]),
    (31411, [0x5c, 0x57, 0xd6, 0xf2, 0xdf, 0x33, 0x0c, 0xf8, 0x68, 0x42, 0xcc, 0x4b, 0x9d, 0x2c, 0x81, 0x5b]),
    (31420, [0x18, 0xab, 0x0b, 0x8d, 0x13, 0xd5, 0x3f, 0x5e, 0x99, 0xb8, 0x11, 0xa8, 0xab, 0x8c, 0xb1, 0x5e]),
    (31741, [0x96, 0x6a, 0xa4, 0x2f, 0xc8, 0x32, 0xb8, 0x11, 0x0b, 0x03, 0x14, 0xb7, 0x7b, 0x9b, 0x89, 0x7c]),
    (31742, [0x7f, 0x74, 0xf3, 0x5a, 0xae, 0xad, 0xf8, 0x1f, 0x72, 0x3e, 0x31, 0xc1, 0xa8, 0x3d, 0xa1, 0xb3]),
    (32151, [0x32, 0x3d, 0xe7, 0x16, 0x1a, 0x13, 0xbd, 0xea, 0x45, 0x1f, 0x65, 0xcf, 0x18, 0x55, 0x51, 0x9d]),
    (32376, [0xb0, 0xfc, 0x6a, 0xe1, 0x21, 0xe3, 0x0b, 0xd5, 0x41, 0x82, 0x85, 0xbd, 0x1b, 0x79, 0x69, 0x29]),
    (32377, [0x1b, 0x28, 0xd1, 0xb2, 0xc3, 0x0d, 0xb4, 0xe4, 0xc3, 0x2c, 0x3a, 0x5c, 0x75, 0xa6, 0x17, 0x39]),
    (32433, [0x94, 0xb4, 0x3a, 0xd6, 0x71, 0x5f, 0x94, 0xfc, 0x2a, 0x32, 0xc6, 0x00, 0x24, 0xc8, 0x8b, 0x3a]),
    (32434, [0x9e, 0xb1, 0xc3, 0x50, 0x37, 0xfa, 0x10, 0x2f, 0xa4, 0xca, 0xbb, 0x32, 0xc0, 0xd1, 0xd2, 0x5c]),
    (32461, [0x5b, 0x33, 0x9c, 0xbf, 0x43, 0xe7, 0xc4, 0x85, 0x59, 0xa5, 0x88, 0x72, 0x60, 0xc3, 0x98, 0x68]),
    (32501, [0x3e, 0x7e, 0x74, 0xb4, 0x1a, 0xb4, 0x45, 0x56, 0x43, 0xb9, 0x6b, 0x6a, 0xc2, 0xfd, 0xa0, 0x04]),
    (32502, [0x36, 0xa5, 0x51, 0x16, 0x7d, 0x14, 0xfc, 0xce, 0x38, 0xb9, 0xf9, 0x9d, 0xd0, 0xb5, 0x39, 0xe6]),
    (32503, [0xdc, 0x00, 0x4a, 0x2f, 0x74, 0x10, 0xed, 0x1b, 0xb0, 0x51, 0x9b, 0x26, 0xd6, 0x60, 0x5c, 0xbd]),
    (32511, [0xc1, 0x29, 0x9d, 0x70, 0x88, 0xba, 0x95, 0xe3, 0x94, 0xd1, 0x00, 0xd1, 0x9a, 0x02, 0x2f, 0xc3]),
    (32802, [0x80, 0x67, 0xf6, 0xfc, 0xd6, 0xf4, 0x97, 0xf4, 0xe1, 0x0f, 0x21, 0x04, 0x4a, 0xb6, 0xde, 0xad]),
    (32803, [0xf3, 0x70, 0x30, 0x3c, 0xa7, 0x2a, 0x8f, 0xbc, 0x27, 0xdf, 0xe9, 0x62, 0x09, 0xf1, 0x7c, 0xc3]),
    (32804, [0x95, 0xe1, 0xbc, 0xae, 0x5e, 0x90, 0x8d, 0xae, 0x2c, 0x44, 0x74, 0x26, 0x71, 0x8f, 0x1c, 0x6e]),
    (32805, [0x0e, 0x1d, 0x46, 0x93, 0xeb, 0x4a, 0x60, 0xb0, 0xca, 0x0d, 0xa3, 0xf8, 0x5d, 0x81, 0xa4, 0x85]),
    (32806, [0x4c, 0xde, 0x32, 0x3b, 0xeb, 0x96, 0xa4, 0xce, 0xe7, 0x02, 0x11, 0xde, 0x40, 0x68, 0xd8, 0xfe]),
    (32807, [0x28, 0x4b, 0x6e, 0xea, 0xff, 0x9a, 0xa4, 0xac, 0xe8, 0xdd, 0x6a, 0x7e, 0xc2, 0x18, 0x42, 0x5e]),
    (32808, [0x58, 0x17, 0x22, 0xd9, 0x20, 0x35, 0x32, 0x2b, 0xfa, 0x17, 0x4a, 0xba, 0xae, 0x2d, 0x88, 0x34]),
    (32809, [0xa5, 0x23, 0x04, 0x19, 0x9e, 0xc1, 0x49, 0x33, 0x1c, 0x52, 0x6e, 0xf2, 0xa2, 0x05, 0x7b, 0x88]),
    (32810, [0xa9, 0x9f, 0x21, 0x2d, 0xba, 0xb2, 0xb7, 0x7f, 0x00, 0x93, 0xa0, 0xb2, 0x29, 0x84, 0x61, 0x32]),
    (32811, [0x10, 0xd6, 0x33, 0x99, 0xee, 0x70, 0x1e, 0x28, 0x30, 0x8f, 0xa6, 0x15, 0x81, 0x84, 0xdf, 0x28]),
    (32812, [0xb6, 0xe5, 0x72, 0x9e, 0x67, 0x5a, 0x8f, 0x54, 0xd1, 0x98, 0xef, 0x60, 0xd0, 0x09, 0x33, 0x95]),
    (32813, [0x44, 0x35, 0x16, 0x3a, 0x8a, 0x2a, 0xd7, 0x81, 0x70, 0xe1, 0x38, 0xc4, 0x74, 0xcd, 0xef, 0x95]),
    (32814, [0xb3, 0xaf, 0x02, 0x93, 0x9b, 0x0d, 0xd7, 0xdb, 0xa2, 0x70, 0x7c, 0x18, 0x08, 0x3a, 0x5d, 0xcc]),
    (32815, [0x75, 0x0e, 0xee, 0xe6, 0x58, 0xa8, 0x91, 0xf0, 0x7d, 0x8d, 0xfa, 0x1c, 0x08, 0x61, 0xe0, 0x99]),
    (33101, [0xf1, 0x98, 0x5b, 0xaf, 0x41, 0x4b, 0xab, 0x43, 0xf5, 0x92, 0xda, 0xba, 0xbd, 0x76, 0xab, 0xa9]),
    (33102, [0x3e, 0xf0, 0x2d, 0x8c, 0xb0, 0x61, 0x7a, 0xfe, 0xd4, 0x1e, 0xfd, 0x65, 0xb8, 0x0b, 0x67, 0x19]),
    (33111, [0xfe, 0x3a, 0x44, 0x31, 0xdc, 0x73, 0x37, 0x84, 0xd5, 0x9a, 0x50, 0x1f, 0xd2, 0xf1, 0xb0, 0xc0]),
    (33112, [0xfe, 0xb9, 0xd2, 0x18, 0xc1, 0x87, 0x7d, 0x38, 0x81, 0xba, 0xe4, 0x08, 0x0b, 0x39, 0xce, 0xdc]),
    (33121, [0x91, 0xf3, 0x03, 0x3c, 0x69, 0x3f, 0x7e, 0xa9, 0x7d, 0x04, 0x4f, 0x2e, 0x54, 0x78, 0x08, 0x6d]),
    (33122, [0xfd, 0x6b, 0x1e, 0xf0, 0x85, 0x3e, 0xf5, 0x07, 0x59, 0x6a, 0x7a, 0x92, 0xeb, 0x5a, 0x5e, 0xea]),
    (33131, [0x83, 0xf8, 0xaf, 0xb3, 0x4e, 0xd4, 0xef, 0xd3, 0x6c, 0xe4, 0xa5, 0xb2, 0x80, 0xf2, 0x6e, 0x14]),
    (33132, [0xa9, 0x9a, 0x6d, 0xa1, 0x5d, 0xb1, 0xdb, 0x20, 0x87, 0xda, 0xf0, 0x1f, 0xa6, 0xca, 0x18, 0x89]),
    (33221, [0x11, 0x3b, 0x0e, 0xc4, 0x3b, 0x1c, 0xb6, 0x34, 0xb8, 0x6d, 0x46, 0x52, 0xd1, 0x5c, 0x73, 0xe4]),
    (33222, [0x2c, 0x71, 0x42, 0xcb, 0xe4, 0x86, 0x7a, 0xe9, 0xb0, 0xba, 0xc4, 0xd0, 0x24, 0x47, 0x44, 0x13]),
    (33223, [0xb8, 0x21, 0x86, 0xd5, 0x80, 0xa6, 0x06, 0xa4, 0x5e, 0xba, 0x1a, 0xbe, 0x84, 0xe9, 0x1f, 0xf8]),
    (33224, [0x6a, 0x6a, 0x38, 0xcf, 0x01, 0x0b, 0x7a, 0x30, 0xbd, 0xda, 0x17, 0x14, 0x50, 0x2c, 0x94, 0x9f]),
    (33225, [0xa5, 0x97, 0xb3, 0x70, 0x17, 0x11, 0xc5, 0xc5, 0x4f, 0x6c, 0x27, 0x25, 0x76, 0xb3, 0x17, 0x17]),
    (33226, [0x04, 0x57, 0xc7, 0xa0, 0x3a, 0xde, 0x75, 0x7a, 0x83, 0x40, 0xa6, 0x0f, 0x0d, 0x9d, 0x29, 0xb5]),
    (33227, [0x25, 0x94, 0x68, 0x07, 0xa4, 0x93, 0xa1, 0xe6, 0x9d, 0x6f, 0x9b, 0xdb, 0xff, 0x04, 0x3d, 0x1f]),
    (33228, [0x12, 0x2c, 0x4c, 0xda, 0x96, 0xc3, 0x69, 0x91, 0xb7, 0x6a, 0x40, 0xd2, 0x42, 0x61, 0xa3, 0x71]),
    (33229, [0x24, 0xd5, 0xc3, 0xfe, 0x1c, 0x93, 0x22, 0xf8, 0x85, 0x62, 0xb6, 0x00, 0x37, 0x92, 0x60, 0xc4]),
    (33231, [0x1e, 0xdc, 0xcd, 0xcc, 0x27, 0xfa, 0x5d, 0x69, 0xb3, 0xf2, 0xb3, 0x10, 0x24, 0xa8, 0x07, 0xc0]),
    (33232, [0xb3, 0x6b, 0xbf, 0xce, 0x40, 0x6b, 0x89, 0x9e, 0x18, 0xec, 0xb0, 0x03, 0x9f, 0x19, 0xd0, 0x77]),
    (33233, [0x28, 0x5e, 0x01, 0xfb, 0x53, 0xd5, 0x7c, 0xe5, 0xf5, 0xd6, 0x3e, 0x79, 0xe1, 0xa9, 0x61, 0x3f]),
    (33234, [0x73, 0xdc, 0x04, 0xd7, 0x33, 0x11, 0x2d, 0x55, 0x19, 0x78, 0xd3, 0xb3, 0xba, 0x33, 0xbb, 0xb3]),
    (33235, [0xc8, 0x4a, 0x31, 0x6c, 0x13, 0x14, 0xb0, 0x27, 0x5f, 0x68, 0x24, 0xa6, 0x3f, 0x15, 0x2e, 0xea]),
    (33236, [0x2e, 0x01, 0x42, 0x5f, 0x9a, 0x05, 0xb9, 0x0c, 0x89, 0x01, 0x08, 0x7a, 0xb5, 0x76, 0xc7, 0x7d]),
    (33237, [0x18, 0xfe, 0x4b, 0x57, 0x9a, 0xd2, 0x3c, 0xcc, 0xea, 0xbb, 0x66, 0xa7, 0xc7, 0x46, 0xd4, 0xd1]),
    (33238, [0x4c, 0xb2, 0x11, 0xf5, 0x09, 0xf3, 0x19, 0xe1, 0x75, 0x2f, 0x6f, 0x65, 0x89, 0xca, 0xab, 0x93]),
    (33239, [0x35, 0x78, 0x25, 0x1a, 0xec, 0x45, 0xfe, 0x03, 0x59, 0x03, 0x33, 0xc9, 0xbd, 0x09, 0xab, 0x4c]),
    (33241, [0xc8, 0x68, 0x9c, 0x55, 0xd0, 0x6e, 0x4b, 0x4e, 0xa6, 0xa3, 0x8a, 0x90, 0xe1, 0xcd, 0x0f, 0x73]),
    (33242, [0x4e, 0x34, 0xed, 0x14, 0x38, 0xa2, 0x6b, 0x08, 0xe3, 0xac, 0x87, 0xf9, 0xf5, 0x46, 0xf1, 0x50]),
    (33245, [0x58, 0x66, 0x88, 0xdf, 0xeb, 0xb2, 0xf0, 0x07, 0xee, 0x6c, 0x55, 0x3d, 0xe4, 0xd5, 0xc9, 0xa8]),
    (33246, [0x58, 0x66, 0x88, 0xdf, 0xeb, 0xb2, 0xf0, 0x07, 0xee, 0x6c, 0x55, 0x3d, 0xe4, 0xd5, 0xc9, 0xa8]),
    (33287, [0x11, 0xed, 0x69, 0xed, 0x74, 0x38, 0xa6, 0x8d, 0xb4, 0xed, 0x75, 0x97, 0x6d, 0xa9, 0xf3, 0x0e]),
    (33288, [0x11, 0xed, 0x69, 0xed, 0x74, 0x38, 0xa6, 0x8d, 0xb4, 0xed, 0x75, 0x97, 0x6d, 0xa9, 0xf3, 0x0e]),
    (33311, [0xd6, 0x90, 0xb8, 0xfe, 0xd4, 0xba, 0xe0, 0x47, 0x87, 0x09, 0x3c, 0x48, 0x5b, 0x14, 0x42, 0x98]),
    (33312, [0xbe, 0x7a, 0xfa, 0x68, 0x33, 0x49, 0xa2, 0xf1, 0xe3, 0x55, 0x46, 0x0c, 0xbe, 0x26, 0x71, 0xff]),
    (33313, [0xb2, 0x68, 0x7f, 0x72, 0x46, 0x70, 0x62, 0x2b, 0xae, 0x75, 0xa9, 0x29, 0x09, 0xd2, 0xfc, 0x4e]),
    (33314, [0xf9, 0x1b, 0x77, 0x20, 0x87, 0xa8, 0x4d, 0xa5, 0xc8, 0xb0, 0x82, 0x3b, 0x5e, 0x58, 0x36, 0x29]),
    (33315, [0xa9, 0x37, 0xa5, 0x46, 0x44, 0x3d, 0x19, 0xbe, 0x01, 0x34, 0x3a, 0x2d, 0x0b, 0x03, 0xfd, 0xb5]),
    (33316, [0x7d, 0x5c, 0x01, 0x7d, 0xdc, 0xe3, 0x51, 0x96, 0x11, 0xce, 0xed, 0x8b, 0x0a, 0x36, 0xbf, 0x72]),
    (33317, [0xf2, 0x10, 0xbd, 0x32, 0xd8, 0xf5, 0xab, 0xd1, 0x3f, 0xbb, 0x7e, 0x0d, 0xb5, 0xc1, 0xb8, 0xb2]),
    (33318, [0x79, 0x7c, 0xd1, 0x5b, 0xcc, 0x0a, 0x15, 0x3b, 0xba, 0x75, 0xeb, 0xfc, 0xee, 0xbd, 0xb1, 0x9d]),
    (33319, [0xcd, 0x0d, 0x62, 0xe9, 0xae, 0xa6, 0x11, 0xe7, 0x89, 0x58, 0xa1, 0xd6, 0x7d, 0x74, 0x42, 0xdb]),
    (33321, [0x8b, 0xcf, 0xcc, 0xb3, 0xb3, 0x57, 0xcb, 0xf9, 0x3d, 0xff, 0x9a, 0xec, 0x92, 0x04, 0xab, 0x64]),
    (33325, [0x58, 0x66, 0x88, 0xdf, 0xeb, 0xb2, 0xf0, 0x07, 0xee, 0x6c, 0x55, 0x3d, 0xe4, 0xd5, 0xc9, 0xa8]),
    (33326, [0x58, 0x66, 0x88, 0xdf, 0xeb, 0xb2, 0xf0, 0x07, 0xee, 0x6c, 0x55, 0x3d, 0xe4, 0xd5, 0xc9, 0xa8]),
    (33360, [0x11, 0xed, 0x69, 0xed, 0x74, 0x38, 0xa6, 0x8d, 0xb4, 0xed, 0x75, 0x97, 0x6d, 0xa9, 0xf3, 0x0e]),
    (33361, [0x11, 0xed, 0x69, 0xed, 0x74, 0x38, 0xa6, 0x8d, 0xb4, 0xed, 0x75, 0x97, 0x6d, 0xa9, 0xf3, 0x0e]),
    (33370, [0x58, 0x66, 0x88, 0xdf, 0xeb, 0xb2, 0xf0, 0x07, 0xee, 0x6c, 0x55, 0x3d, 0xe4, 0xd5, 0xc9, 0xa8]),
    (33371, [0x58, 0x66, 0x88, 0xdf, 0xeb, 0xb2, 0xf0, 0x07, 0xee, 0x6c, 0x55, 0x3d, 0xe4, 0xd5, 0xc9, 0xa8]),
    (33391, [0x4e, 0x25, 0x80, 0xe1, 0x61, 0x81, 0x12, 0xfb, 0xa9, 0x49, 0xdb, 0x05, 0xa2, 0x30, 0x25, 0xae]),
    (33401, [0x4e, 0x25, 0x80, 0xe1, 0x61, 0x81, 0x12, 0xfb, 0xa9, 0x49, 0xdb, 0x05, 0xa2, 0x30, 0x25, 0xae]),
    (33411, [0x2f, 0x12, 0x37, 0xd1, 0xc6, 0xa6, 0xae, 0xec, 0x0d, 0xd7, 0x6f, 0x55, 0xfe, 0xcb, 0x51, 0x59]),
    (33421, [0x16, 0x8b, 0xfb, 0xd3, 0x64, 0x91, 0x9d, 0xef, 0xaf, 0x5b, 0xd9, 0x22, 0x21, 0x05, 0x70, 0x8c]),
    (33441, [0xe1, 0x8a, 0x93, 0x6a, 0x29, 0xea, 0x1e, 0x1e, 0xd0, 0xb5, 0xdc, 0xdb, 0xa6, 0x56, 0x62, 0xef]),
    (33442, [0x4a, 0x3b, 0x94, 0x25, 0xa6, 0x66, 0x31, 0x40, 0xf3, 0x8e, 0xb9, 0xf3, 0x23, 0x63, 0xa6, 0xa3]),
    (33446, [0x63, 0x42, 0xea, 0x95, 0x5f, 0x64, 0xa0, 0x86, 0x83, 0x57, 0xc5, 0x95, 0xf0, 0x61, 0xd1, 0xaf]),
    (33447, [0x63, 0x42, 0xea, 0x95, 0x5f, 0x64, 0xa0, 0x86, 0x83, 0x57, 0xc5, 0x95, 0xf0, 0x61, 0xd1, 0xaf]),
    (33448, [0x63, 0x42, 0xea, 0x95, 0x5f, 0x64, 0xa0, 0x86, 0x83, 0x57, 0xc5, 0x95, 0xf0, 0x61, 0xd1, 0xaf]),
    (33456, [0x63, 0x42, 0xea, 0x95, 0x5f, 0x64, 0xa0, 0x86, 0x83, 0x57, 0xc5, 0x95, 0xf0, 0x61, 0xd1, 0xaf]),
    (33457, [0x63, 0x42, 0xea, 0x95, 0x5f, 0x64, 0xa0, 0x86, 0x83, 0x57, 0xc5, 0x95, 0xf0, 0x61, 0xd1, 0xaf]),
    (33461, [0x92, 0xee, 0x6b, 0x3a, 0xac, 0x00, 0x59, 0x11, 0xc3, 0x38, 0xfc, 0xb1, 0x85, 0x6c, 0x08, 0x55]),
    (33601, [0x51, 0xe5, 0x6b, 0xc4, 0xbe, 0x0f, 0xd2, 0x4c, 0x3b, 0x19, 0x26, 0x18, 0x9e, 0x69, 0x80, 0x25]),
    (33602, [0x93, 0x7a, 0xaf, 0xf3, 0xf0, 0xc5, 0x55, 0xb5, 0xd6, 0x7c, 0x0a, 0x0e, 0xbd, 0xef, 0x06, 0x3f]),
    (33791, [0xae, 0xc1, 0xb1, 0x3e, 0x38, 0x35, 0x36, 0x37, 0x30, 0x73, 0xe6, 0x89, 0xae, 0xa2, 0xca, 0x53]),
    (33792, [0x21, 0x4f, 0xc2, 0x0d, 0xf5, 0x13, 0xda, 0xf6, 0xd8, 0x18, 0x47, 0x7f, 0xfc, 0xbb, 0x0f, 0xca]),
    (33901, [0x9d, 0x43, 0xcf, 0x0d, 0xb6, 0xf3, 0xa2, 0x5e, 0x2a, 0x89, 0x60, 0x8c, 0x4f, 0xe1, 0xbc, 0x55]),
    (33902, [0xa4, 0xf8, 0xfc, 0xd3, 0xb3, 0x08, 0x65, 0x6f, 0x0d, 0x03, 0xbf, 0xee, 0x44, 0x73, 0x41, 0xb6]),
    (33903, [0x5a, 0x02, 0xd2, 0x24, 0x2c, 0xfe, 0xb7, 0xf0, 0xe5, 0x5b, 0x26, 0x10, 0xd2, 0xd8, 0xd7, 0x1f]),
    (33911, [0x55, 0xb1, 0x5d, 0xd3, 0xe9, 0x58, 0x0d, 0x4b, 0x2f, 0x25, 0x7d, 0x9f, 0x98, 0x79, 0x49, 0x74]),
    (33931, [0x10, 0xda, 0xcd, 0x66, 0xe8, 0x23, 0xb6, 0x9a, 0x51, 0xf9, 0x37, 0xec, 0xc0, 0x01, 0xa0, 0xc9]),
    (33932, [0x6c, 0x95, 0xb7, 0x40, 0xc5, 0x2e, 0x73, 0x1a, 0x01, 0xea, 0x16, 0x19, 0x66, 0x56, 0xc8, 0xe8]),
    (33934, [0xe2, 0xb8, 0x37, 0xf9, 0x6d, 0xb6, 0xce, 0x18, 0x5e, 0xbd, 0x6a, 0xf7, 0x9e, 0x13, 0x29, 0x4a]),
    (34001, [0xb0, 0x00, 0x1c, 0x8b, 0x26, 0xec, 0xe9, 0xb4, 0x36, 0xe9, 0xd8, 0x2b, 0x0e, 0xa3, 0x5f, 0xa1]),
    (34002, [0x4e, 0x61, 0x4f, 0xd2, 0x04, 0xbe, 0xf8, 0xd1, 0xa7, 0x3e, 0xd1, 0xb9, 0x91, 0x5c, 0x87, 0xf4]),
    (34003, [0x93, 0x54, 0x7a, 0x50, 0x3a, 0x4d, 0xd3, 0x0d, 0x57, 0x9f, 0x21, 0xb3, 0xf1, 0x8b, 0x4b, 0x41]),
    (34011, [0x72, 0xab, 0x09, 0x7e, 0x0f, 0x92, 0xe8, 0x2f, 0x93, 0x44, 0x1f, 0x74, 0xd9, 0xdb, 0x84, 0x6e]),
    (34012, [0x5b, 0x5b, 0x95, 0xd9, 0x11, 0x7a, 0x8a, 0xcc, 0x12, 0x4d, 0x89, 0xe9, 0x55, 0xbd, 0xb1, 0x3e]),
    (34013, [0xa7, 0x25, 0x34, 0x4b, 0x9d, 0xba, 0x04, 0x0b, 0xea, 0x19, 0x67, 0x32, 0xd7, 0x90, 0x60, 0x98]),
    (34014, [0x53, 0x53, 0xd9, 0xf5, 0x50, 0x1e, 0xb2, 0x9b, 0x5c, 0xd4, 0x1e, 0xec, 0xe9, 0x5e, 0x23, 0x5a]),
    (34015, [0x0e, 0x38, 0xc7, 0x13, 0x19, 0xf1, 0x92, 0x4d, 0x99, 0x3f, 0x1d, 0x10, 0xb6, 0xd5, 0xaa, 0x90]),
    (34016, [0x37, 0xa5, 0xe2, 0x3a, 0x26, 0xab, 0xd4, 0x77, 0x7a, 0x1d, 0xcb, 0x2f, 0xb6, 0x10, 0x3f, 0xdd]),
    (34017, [0xb1, 0x10, 0xa6, 0x24, 0xdd, 0xbc, 0x2f, 0x40, 0x56, 0x54, 0xb3, 0x7f, 0xfb, 0x79, 0x93, 0x67]),
    (34018, [0xde, 0x45, 0x5e, 0xd2, 0x1c, 0xba, 0xa0, 0x75, 0xb3, 0x33, 0x7f, 0x88, 0x6b, 0x45, 0x83, 0xeb]),
    (34021, [0x1c, 0x13, 0xc0, 0xc4, 0x7d, 0xdc, 0x61, 0x85, 0x0a, 0x4d, 0x58, 0x82, 0x6d, 0xaa, 0x8c, 0x05]),
    (34031, [0xce, 0xd0, 0x92, 0xfb, 0xf7, 0xae, 0x7c, 0x51, 0xa5, 0xe5, 0x6a, 0xe4, 0x12, 0xf0, 0x80, 0x96]),
    (34032, [0x76, 0xbf, 0xf9, 0xb9, 0x65, 0x34, 0x36, 0x31, 0xbe, 0x64, 0xb5, 0xe4, 0xba, 0x6c, 0xfc, 0xc3]),
    (34033, [0xbb, 0x48, 0x9e, 0x9d, 0xee, 0x26, 0xf1, 0x5d, 0x22, 0x91, 0xef, 0x86, 0x00, 0xcc, 0xd9, 0x32]),
    (34035, [0x0c, 0xa8, 0xdd, 0x81, 0xc6, 0x4d, 0x07, 0xe4, 0x77, 0x99, 0xca, 0x34, 0xc6, 0xbd, 0x3a, 0xe8]),
    (34036, [0x37, 0x2e, 0x0f, 0x8a, 0x2b, 0xe4, 0xe3, 0xbe, 0x43, 0xb3, 0xb0, 0x4f, 0x8c, 0x30, 0x5d, 0xbf]),
    (34037, [0xbf, 0xda, 0xfd, 0x83, 0xa1, 0x3d, 0x28, 0x5e, 0xc7, 0xe5, 0xba, 0x28, 0x98, 0xa3, 0x59, 0x60]),
    (34038, [0x5c, 0xef, 0x17, 0xbb, 0x35, 0x3c, 0x7b, 0xd7, 0x04, 0xd6, 0x69, 0x88, 0x4d, 0x54, 0xbe, 0x00]),
    (34039, [0x17, 0x00, 0xd2, 0x70, 0x02, 0xa9, 0xb2, 0x14, 0x1f, 0x95, 0xd3, 0xa7, 0x11, 0x98, 0xee, 0x60]),
    (34040, [0xde, 0xd2, 0x9e, 0xb4, 0x21, 0x1d, 0xef, 0x41, 0x14, 0x6b, 0x51, 0x59, 0x15, 0xe7, 0xb8, 0x08]),
    (34041, [0xfc, 0x29, 0xf4, 0x2b, 0xb8, 0xf3, 0x1e, 0xe9, 0xf5, 0x37, 0xe7, 0xfc, 0x9d, 0x96, 0x37, 0x2b]),
    (34042, [0xaa, 0x53, 0x55, 0x7e, 0x21, 0xc0, 0x6d, 0xba, 0x46, 0xd7, 0x19, 0xcc, 0xb1, 0x55, 0x19, 0x5a]),
    (34043, [0x56, 0x48, 0x65, 0xe2, 0x29, 0x25, 0x26, 0xa0, 0x22, 0xf1, 0x42, 0x3c, 0xb7, 0xe6, 0x61, 0xc8]),
    (34051, [0x49, 0xce, 0x6e, 0xf3, 0x74, 0x7b, 0x28, 0x24, 0x01, 0xce, 0xca, 0xe6, 0x44, 0x55, 0xbe, 0xfb]),
    (34052, [0xc5, 0x21, 0xe2, 0x96, 0x23, 0x9d, 0x21, 0xbe, 0x48, 0x98, 0xfe, 0xa4, 0xcf, 0x50, 0x0c, 0xd0]),
    (34053, [0x87, 0xe6, 0x2d, 0x76, 0x59, 0x34, 0x3e, 0x2b, 0x17, 0xa3, 0x99, 0xf9, 0x39, 0x02, 0xe2, 0x57]),
    (34071, [0x99, 0x40, 0x41, 0x49, 0x59, 0x61, 0x6d, 0x1e, 0x00, 0xd8, 0xdd, 0xab, 0x85, 0x3b, 0x7f, 0x1e]),
    (34072, [0x80, 0x98, 0x1e, 0x28, 0x50, 0x01, 0x08, 0xbc, 0x00, 0x58, 0xaf, 0xfa, 0x44, 0x21, 0x51, 0x79]),
    (34073, [0x9f, 0xc8, 0x49, 0x2d, 0x7c, 0x3e, 0x17, 0xd1, 0x88, 0x6c, 0xc0, 0x32, 0x83, 0x82, 0xc6, 0xca]),
    (34075, [0x31, 0x10, 0x90, 0xd4, 0x56, 0xa5, 0xc8, 0x33, 0xa5, 0x8f, 0x65, 0xfe, 0x2e, 0x26, 0x50, 0x01]),
    (34076, [0x5f, 0xb5, 0x1d, 0x0c, 0xa2, 0xa0, 0x68, 0x0d, 0x77, 0xb9, 0xf9, 0x04, 0xd3, 0x6b, 0xbf, 0xe3]),
    (34077, [0xe8, 0x79, 0x86, 0x8e, 0x90, 0xd4, 0x4d, 0x99, 0x2f, 0x25, 0x20, 0xca, 0xf3, 0x88, 0xbc, 0xc7]),
    (34078, [0x0e, 0x68, 0x53, 0xab, 0xd6, 0x33, 0x6c, 0xbe, 0x09, 0xb6, 0xd8, 0x7e, 0xee, 0xd1, 0xeb, 0xdf]),
    (34079, [0xd0, 0x9f, 0x07, 0x12, 0xf4, 0xde, 0x28, 0xa2, 0x5f, 0x04, 0xc9, 0xa4, 0xa2, 0x8e, 0xa6, 0x2e]),
    (34080, [0x5e, 0xb4, 0x2d, 0xa3, 0x8a, 0xb2, 0x85, 0x4e, 0xc7, 0xf8, 0xff, 0xe7, 0xea, 0xd9, 0x65, 0x9e]),
    (34081, [0xb3, 0x77, 0xbd, 0x89, 0x76, 0x7b, 0x5c, 0x92, 0x92, 0x78, 0xc7, 0x0a, 0x60, 0x4c, 0x8d, 0xd5]),
    (34082, [0x64, 0xfb, 0x2f, 0xae, 0xfd, 0x7c, 0x90, 0xbf, 0x6c, 0xab, 0x01, 0x81, 0x58, 0x9f, 0x12, 0x59]),
    (34091, [0xc7, 0x43, 0xb1, 0x37, 0x32, 0x8f, 0x64, 0xf1, 0x78, 0x29, 0x5e, 0xbe, 0x9f, 0xea, 0x4f, 0x21]),
    (34092, [0x63, 0x93, 0xcc, 0xb1, 0xa6, 0x73, 0xc0, 0xb3, 0x4e, 0xa3, 0x2a, 0x9b, 0x22, 0x88, 0x9f, 0xa7]),
    (34093, [0xd2, 0x43, 0x70, 0x1d, 0xb2, 0x3d, 0x7a, 0xbe, 0x2c, 0xa4, 0xdf, 0x02, 0xe3, 0x14, 0x86, 0xb8]),
    (34094, [0x55, 0x21, 0xf6, 0x95, 0x6f, 0xd3, 0xdd, 0xb7, 0x93, 0xfc, 0x7f, 0x1f, 0x07, 0xf3, 0x71, 0x80])]"

definition TABLE_10 :: "key_entry list" where
  "TABLE_10 = [
    (34095, [0x6b, 0xe4, 0x6c, 0x28, 0x2c, 0xa8, 0x10, 0x06, 0x7b, 0x15, 0xe5, 0x8c, 0x0e, 0x6f, 0xb7, 0x2b]),
    (34096, [0x14, 0xad, 0xd5, 0x72, 0x74, 0x40, 0xfe, 0xf9, 0x29, 0x32, 0x3d, 0x4a, 0x81, 0x80, 0xfd, 0x9e]),
    (34097, [0xd1, 0x7a, 0x41, 0x97, 0xcf, 0xf3, 0xb6, 0x1f, 0x6a, 0x71, 0x75, 0x6d, 0x7b, 0x65, 0x31, 0x73]),
    (34098, [0x04, 0x10, 0x53, 0x87, 0xfb, 0x3d, 0x85, 0xeb, 0x1a, 0xde, 0xc2, 0x74, 0x03, 0x7c, 0xa1, 0xf9]),
    (34099, [0xb0, 0x40, 0x5d, 0xf5, 0x13, 0xe0, 0x57, 0xd0, 0xe0, 0xe3, 0x4d, 0x51, 0xfd, 0x05, 0x1a, 0x7f]),
    (34121, [0x2a, 0x3b, 0x4f, 0x56, 0x82, 0xe4, 0x4b, 0x2b, 0x6f, 0xd3, 0x41, 0x49, 0x55, 0x4d, 0x2b, 0x85]),
    (34131, [0x0c, 0x0c, 0xbc, 0x13, 0x59, 0xec, 0xce, 0x6a, 0xcc, 0x60, 0xad, 0x24, 0x47, 0xf8, 0xf5, 0xe2]),
    (34132, [0x29, 0xdc, 0x46, 0xd7, 0x3c, 0xf1, 0x72, 0x50, 0x41, 0x21, 0x7c, 0xdb, 0x59, 0x81, 0x81, 0xa4]),
    (34133, [0xd7, 0x01, 0x1f, 0x62, 0x9c, 0xb8, 0xa0, 0x6c, 0x9d, 0xea, 0x2b, 0x61, 0x4f, 0x3f, 0x4a, 0x9a]),
    (34134, [0xd2, 0x9c, 0x8e, 0x06, 0x88, 0xbf, 0xb6, 0x5b, 0x93, 0x77, 0x4a, 0x1d, 0x0e, 0xec, 0xbf, 0x42]),
    (34135, [0x15, 0xda, 0x5f, 0x06, 0x13, 0x3d, 0xa7, 0xaf, 0x12, 0x3d, 0x1d, 0x00, 0xd7, 0x43, 0x4d, 0x77]),
    (34136, [0x8f, 0x2f, 0x44, 0xb1, 0x77, 0xf5, 0xf2, 0x85, 0xe6, 0x92, 0x66, 0x3c, 0x4c, 0x19, 0xe1, 0x12]),
    (34201, [0xa4, 0x52, 0x94, 0x5d, 0xa1, 0xea, 0x2c, 0x34, 0x1e, 0x4b, 0x59, 0xad, 0xee, 0x5a, 0xa7, 0x79]),
    (34202, [0xb6, 0x2d, 0x70, 0x32, 0x8e, 0x38, 0x5a, 0xdb, 0xfd, 0xb6, 0x60, 0x55, 0xb7, 0xe0, 0xc1, 0x3c]),
    (34203, [0x7c, 0xc0, 0x08, 0xf1, 0x28, 0xa5, 0x42, 0xb5, 0x45, 0x04, 0x4a, 0xe5, 0xbe, 0x8f, 0x44, 0xf3]),
    (34204, [0x65, 0xe0, 0x65, 0x5c, 0xad, 0x6e, 0x35, 0x91, 0xc8, 0xf2, 0x34, 0x71, 0x77, 0x4c, 0xd4, 0xf9]),
    (34205, [0x2f, 0x1b, 0x13, 0x99, 0x50, 0xfc, 0x89, 0xf3, 0x19, 0xdf, 0x56, 0x36, 0x27, 0x56, 0x0e, 0x83]),
    (34206, [0xf7, 0x68, 0x26, 0x30, 0x03, 0xd4, 0xb2, 0x49, 0xd4, 0xe4, 0x5c, 0x56, 0x1b, 0xcb, 0xe1, 0x6f]),
    (34207, [0x91, 0x3a, 0xdf, 0xc6, 0x0f, 0xb1, 0xad, 0x05, 0x53, 0x7a, 0xf2, 0x21, 0xc6, 0xff, 0xa7, 0xd2]),
    (34208, [0x81, 0x13, 0xe3, 0x87, 0x12, 0x9c, 0x49, 0x4a, 0x44, 0xc1, 0xc9, 0xeb, 0xe2, 0x57, 0xd2, 0xfc]),
    (34209, [0xc0, 0xff, 0x30, 0x0b, 0xd8, 0x7f, 0xbf, 0x6d, 0x33, 0x2f, 0x52, 0xfd, 0x9d, 0xa9, 0xe1, 0x35]),
    (34211, [0xd8, 0x80, 0xcb, 0x73, 0xaf, 0xbd, 0x28, 0x5c, 0x6b, 0x4c, 0x4d, 0xe6, 0x5e, 0x64, 0x93, 0x64]),
    (34212, [0xf1, 0x70, 0x7a, 0x7a, 0x88, 0xa9, 0x1e, 0xe2, 0xdd, 0x1c, 0xd6, 0xe7, 0x87, 0xb1, 0x08, 0xff]),
    (34213, [0xc3, 0x9a, 0x40, 0x74, 0xd3, 0xec, 0x2d, 0x30, 0xa9, 0x17, 0x1d, 0xb8, 0x31, 0x4a, 0x21, 0x37]),
    (34214, [0xf8, 0x75, 0x93, 0x85, 0x9c, 0x0b, 0xb1, 0xcf, 0xe5, 0x7a, 0xa9, 0x15, 0xa2, 0x91, 0xb1, 0xa6]),
    (34215, [0x19, 0xb1, 0xe4, 0x36, 0xbf, 0x80, 0x4c, 0xea, 0xdb, 0x06, 0x75, 0xb1, 0x5a, 0xc4, 0x9c, 0x81]),
    (34216, [0xdb, 0x05, 0x19, 0x31, 0x37, 0x77, 0x1e, 0x33, 0x60, 0x25, 0x91, 0xb4, 0x71, 0x49, 0x3f, 0x18]),
    (34217, [0x67, 0x6d, 0xaf, 0xfd, 0xc1, 0xd9, 0xde, 0x39, 0xac, 0x3e, 0x95, 0xa7, 0x57, 0x13, 0x45, 0xce]),
    (34218, [0xd9, 0x84, 0xd6, 0x0e, 0x60, 0xf3, 0xa9, 0xcd, 0x8d, 0xbb, 0x08, 0x62, 0xbc, 0x5e, 0x72, 0xbe]),
    (34219, [0x77, 0xd9, 0xd9, 0x09, 0xee, 0x7d, 0x7f, 0x08, 0xd9, 0x6b, 0xbe, 0xf6, 0x59, 0xc6, 0xbc, 0xc2]),
    (34221, [0x67, 0x54, 0xd1, 0x9c, 0x58, 0x8d, 0x5c, 0x8d, 0x4e, 0x81, 0x56, 0x49, 0x05, 0xeb, 0xf5, 0xf5]),
    (34222, [0x74, 0xe5, 0x25, 0x24, 0x1d, 0x2e, 0x56, 0xab, 0x8c, 0x87, 0xf4, 0x87, 0xba, 0x0b, 0x80, 0xe0]),
    (34223, [0x0d, 0xd8, 0xb5, 0xbd, 0x1c, 0xcd, 0x12, 0xc0, 0xe7, 0x52, 0x7a, 0x28, 0x39, 0x55, 0x43, 0xb0]),
    (34224, [0xe3, 0x19, 0xb4, 0x35, 0xdb, 0x18, 0x00, 0x00, 0xba, 0xbc, 0x29, 0x21, 0xd5, 0x3a, 0x8b, 0x42]),
    (34231, [0xc5, 0x11, 0xcb, 0x5c, 0x73, 0xe5, 0x19, 0x03, 0xcd, 0x0e, 0x49, 0x5f, 0x3e, 0xca, 0x57, 0x56]),
    (34232, [0x24, 0xf8, 0x25, 0x99, 0x18, 0xa5, 0x8d, 0x68, 0x7f, 0xde, 0x05, 0xcb, 0x4e, 0x84, 0xf8, 0xf4]),
    (34241, [0x98, 0xb8, 0xe3, 0x63, 0x4f, 0xed, 0xe6, 0xa8, 0xd8, 0x11, 0x26, 0x74, 0xb1, 0xbe, 0xf9, 0x7c]),
    (34251, [0x02, 0xff, 0x4b, 0x35, 0xef, 0x82, 0x09, 0x2c, 0x4d, 0xf8, 0xa1, 0x78, 0x36, 0x3d, 0xf4, 0x7b]),
    (34252, [0xa6, 0x65, 0xb6, 0x21, 0x3b, 0x52, 0x91, 0xa0, 0xd9, 0x4e, 0xc1, 0xb8, 0xc5, 0xcb, 0x4c, 0x12]),
    (34253, [0x0e, 0x85, 0x64, 0x66, 0x18, 0xad, 0xf6, 0xb8, 0x5f, 0x6d, 0xa6, 0xdc, 0x92, 0xc1, 0x93, 0xf5]),
    (34254, [0x04, 0x65, 0x26, 0xc0, 0x61, 0x87, 0x1c, 0x66, 0x80, 0xee, 0xdc, 0xf4, 0x6b, 0x40, 0x55, 0xe9]),
    (34255, [0xb4, 0x09, 0x5a, 0xff, 0x9b, 0xe1, 0x5c, 0x59, 0xf9, 0x9a, 0x9f, 0x48, 0xa7, 0x61, 0xb5, 0x99]),
    (34256, [0xc6, 0xf3, 0x34, 0xb8, 0xa2, 0x0b, 0xde, 0x96, 0xb6, 0x96, 0x83, 0x26, 0xad, 0xee, 0x67, 0x32]),
    (34257, [0xc2, 0x8e, 0xc3, 0xd7, 0x6f, 0xfa, 0x1b, 0x69, 0x5c, 0x16, 0x32, 0xeb, 0x2b, 0x66, 0x80, 0x3e]),
    (34258, [0x01, 0x8a, 0x50, 0xc5, 0x30, 0xa7, 0xc0, 0xec, 0x31, 0x34, 0xe8, 0xa9, 0xfa, 0x71, 0xcb, 0x3c]),
    (34259, [0xba, 0xf8, 0xfa, 0xe3, 0xe5, 0xcb, 0x98, 0x7d, 0x16, 0x12, 0x7a, 0x7e, 0x50, 0xfb, 0x6a, 0xa5]),
    (34260, [0xbe, 0x44, 0x9a, 0xfa, 0x00, 0xf8, 0x94, 0x8e, 0x52, 0x06, 0x1b, 0xbc, 0x8d, 0xca, 0xd2, 0x59]),
    (34261, [0x8e, 0x6f, 0x2a, 0x2f, 0x9b, 0x89, 0x6a, 0x92, 0xd8, 0xe9, 0x29, 0xee, 0x68, 0x93, 0x5b, 0x6e]),
    (34321, [0xc6, 0xcd, 0xb4, 0x5a, 0x68, 0x07, 0x4b, 0x53, 0xad, 0xc4, 0x7c, 0x8a, 0xb5, 0x12, 0xc0, 0x6d]),
    (34331, [0xff, 0x8c, 0x21, 0x95, 0xd7, 0x86, 0xe3, 0x17, 0x9a, 0x42, 0xce, 0x2b, 0xe4, 0x81, 0x00, 0x73]),
    (34332, [0xd9, 0xb7, 0x84, 0xee, 0x1d, 0x10, 0x22, 0xa3, 0x7e, 0xca, 0x90, 0xbc, 0x2c, 0xc6, 0xe1, 0x2b]),
    (34333, [0x97, 0xda, 0xc4, 0x2c, 0xbb, 0xf4, 0xa1, 0xb1, 0x7b, 0x6a, 0x22, 0xc3, 0x63, 0x1f, 0x5c, 0xc4]),
    (34334, [0x4c, 0x15, 0x32, 0x7b, 0xb8, 0x37, 0xc0, 0x19, 0x4a, 0x1e, 0xdc, 0xcf, 0x40, 0x83, 0x46, 0xa6]),
    (34335, [0x7c, 0x9b, 0x40, 0x7b, 0x9a, 0xdb, 0x72, 0x13, 0xcf, 0x76, 0x5a, 0x6c, 0x2c, 0x6d, 0x1b, 0x94]),
    (34336, [0x9c, 0xbd, 0xf0, 0xc4, 0x5e, 0xe6, 0x08, 0xd0, 0xd9, 0x15, 0x56, 0x20, 0x72, 0x5d, 0x8d, 0x6e]),
    (34337, [0xb3, 0x25, 0x11, 0xa8, 0x03, 0xd8, 0x8b, 0x50, 0x3e, 0x8d, 0x4b, 0x5d, 0x10, 0x58, 0xaa, 0xbb]),
    (34338, [0x60, 0x4e, 0x22, 0x7b, 0x2d, 0x03, 0xd4, 0x54, 0x77, 0x56, 0xfd, 0xfe, 0x62, 0xfc, 0x2e, 0x55]),
    (34339, [0x19, 0xeb, 0xd2, 0xc0, 0xd1, 0xc3, 0x02, 0xed, 0x0b, 0xef, 0x48, 0x55, 0xdd, 0x32, 0x43, 0x97]),
    (34340, [0x59, 0x4b, 0x0f, 0x1a, 0xf3, 0xb5, 0xf2, 0x78, 0x2e, 0x0b, 0x97, 0x92, 0x25, 0xbf, 0x9a, 0xbd]),
    (34341, [0xd6, 0x6f, 0xf7, 0xc7, 0x22, 0x7f, 0x02, 0x69, 0x2e, 0x7e, 0x50, 0xde, 0xf4, 0x86, 0xbc, 0xb8]),
    (34351, [0x41, 0xce, 0x1a, 0xe1, 0x97, 0xdf, 0x09, 0x10, 0x2e, 0xb5, 0x9f, 0x7d, 0x90, 0xee, 0x7d, 0x51]),
    (34352, [0x8d, 0x3a, 0xf7, 0xc1, 0x2e, 0x86, 0xff, 0xb0, 0xf0, 0x0e, 0x60, 0x54, 0xdd, 0x19, 0x10, 0x49]),
    (34353, [0x33, 0xd2, 0x5f, 0xe3, 0x59, 0x93, 0x6e, 0x8e, 0xd8, 0xdc, 0x36, 0x74, 0x3f, 0x14, 0x69, 0x0b]),
    (34354, [0xe8, 0x0a, 0x77, 0x44, 0xe4, 0x28, 0xeb, 0xb6, 0xb1, 0x89, 0xea, 0x14, 0x93, 0x57, 0x70, 0x6a]),
    (34355, [0xa9, 0x91, 0x05, 0x0b, 0x17, 0xe4, 0x1a, 0x16, 0xf9, 0xe4, 0x51, 0x85, 0x9c, 0xb6, 0x56, 0x7c]),
    (34356, [0x8e, 0x6e, 0x76, 0x1a, 0x79, 0x3a, 0xee, 0xfa, 0x03, 0x2c, 0x73, 0xc6, 0x30, 0xb8, 0xa7, 0xf1]),
    (34357, [0x2e, 0x65, 0x17, 0x8e, 0xbc, 0x1d, 0xf5, 0x78, 0xbd, 0xad, 0x40, 0xcf, 0xd8, 0x79, 0xd4, 0x8b]),
    (34358, [0xc1, 0xf6, 0x86, 0x98, 0x95, 0x9e, 0x2f, 0x10, 0x53, 0x3f, 0x43, 0x49, 0x5a, 0xc3, 0xe1, 0x2a]),
    (34359, [0x7b, 0x77, 0x2d, 0x8d, 0xaf, 0xc9, 0x5b, 0xc6, 0x9e, 0xec, 0x0c, 0xbd, 0x77, 0x60, 0xfb, 0x43]),
    (34360, [0xeb, 0x45, 0x88, 0x92, 0xb7, 0x52, 0xcb, 0xa0, 0x33, 0x2f, 0x75, 0x9e, 0x63, 0x38, 0xfd, 0xe0]),
    (34361, [0x8d, 0xbc, 0xd3, 0x92, 0xf0, 0x9a, 0xe4, 0x2d, 0xa2, 0x70, 0x11, 0xb0, 0x1a, 0xa6, 0xf4, 0xa7]),
    (34362, [0xc8, 0x75, 0xf5, 0x7c, 0x2a, 0x7f, 0x32, 0x4e, 0x8a, 0xea, 0x0c, 0xec, 0x78, 0xd4, 0x55, 0xeb]),
    (34371, [0x93, 0x00, 0xe1, 0xc9, 0xec, 0x90, 0x91, 0x8a, 0x41, 0xd3, 0x34, 0xa1, 0xd2, 0x21, 0x12, 0x03]),
    (34372, [0x4d, 0x75, 0xf1, 0x78, 0x16, 0x9e, 0x0f, 0x8c, 0xc7, 0xc8, 0x85, 0xd5, 0x27, 0x33, 0x0d, 0x94]),
    (34373, [0xc4, 0x7f, 0xa7, 0xc7, 0x82, 0x56, 0x29, 0xd6, 0x6e, 0x6c, 0x7e, 0xc5, 0xf3, 0x9a, 0x2d, 0x70]),
    (34374, [0xe9, 0x8e, 0xd3, 0xfe, 0x19, 0x51, 0xf5, 0x8d, 0x70, 0xbe, 0x92, 0xc2, 0x63, 0x7d, 0x36, 0xda]),
    (34391, [0xe2, 0x03, 0x8b, 0xe5, 0xce, 0x78, 0x53, 0xa4, 0xfc, 0x6d, 0x67, 0xd6, 0xaa, 0x74, 0x43, 0xe2]),
    (34481, [0xfc, 0x9b, 0xd8, 0x3a, 0xc4, 0x3e, 0xa4, 0x42, 0xb9, 0x58, 0xf4, 0x45, 0x05, 0xd6, 0xa6, 0x2a]),
    (34482, [0xbf, 0xed, 0x22, 0xd5, 0x60, 0x14, 0x59, 0xa0, 0x65, 0x7d, 0x7d, 0x9c, 0x92, 0x8a, 0x3c, 0xdd]),
    (34483, [0xce, 0xd3, 0x97, 0x78, 0x95, 0xb6, 0xe4, 0xee, 0x80, 0xd5, 0x58, 0x43, 0x4e, 0x52, 0x88, 0xc8]),
    (34484, [0xca, 0x1c, 0xff, 0x12, 0xd5, 0xad, 0xea, 0x52, 0xe8, 0x70, 0x70, 0xdb, 0x00, 0x79, 0x60, 0xaa]),
    (34485, [0x58, 0x8c, 0x1c, 0xd1, 0x98, 0xde, 0xa4, 0xd6, 0xcf, 0x73, 0x89, 0xea, 0x7b, 0xa8, 0xe8, 0x0c]),
    (34486, [0x49, 0xa1, 0x8f, 0xc9, 0xba, 0xde, 0xe9, 0x0a, 0x54, 0x0b, 0x1d, 0x4f, 0xfc, 0xed, 0x4d, 0x0d]),
    (34487, [0xbe, 0x29, 0x1b, 0x47, 0xb6, 0xa0, 0x0a, 0x8c, 0x6b, 0x86, 0x78, 0xe1, 0x2d, 0xa1, 0x7e, 0xd1]),
    (34490, [0x3e, 0xac, 0xcd, 0x99, 0x91, 0x4f, 0x06, 0x90, 0x9c, 0xae, 0xb9, 0x63, 0x3e, 0xb2, 0x65, 0x8a]),
    (34491, [0xf4, 0x14, 0xae, 0x5d, 0x6c, 0x36, 0x4a, 0xeb, 0xd5, 0xfe, 0x3c, 0x8d, 0x9a, 0xf7, 0x52, 0x46]),
    (34492, [0x20, 0xf1, 0xcf, 0x55, 0xf7, 0x45, 0x10, 0x55, 0x47, 0x70, 0x17, 0x43, 0xd0, 0x02, 0xe3, 0x63]),
    (34493, [0xd8, 0x09, 0xa6, 0x4a, 0x2e, 0xa1, 0xac, 0x3c, 0x2a, 0xb1, 0xb1, 0x46, 0x26, 0xfa, 0xa7, 0x3e]),
    (34494, [0x5f, 0x72, 0xe0, 0x57, 0x6e, 0x49, 0x26, 0xde, 0xac, 0x74, 0x42, 0x82, 0x3a, 0xa3, 0x11, 0x47]),
    (34495, [0x96, 0x4b, 0xcc, 0x02, 0x5a, 0x74, 0x7c, 0x80, 0x77, 0x95, 0x5c, 0xa3, 0xf8, 0xd9, 0xa9, 0x55]),
    (34496, [0x00, 0x77, 0xd1, 0x9e, 0x19, 0x42, 0x93, 0x27, 0x81, 0xfe, 0x55, 0xc8, 0x37, 0x3a, 0x17, 0x24]),
    (34497, [0xe9, 0xe4, 0xcc, 0xf9, 0x88, 0x7c, 0x3b, 0x24, 0x07, 0x39, 0x6f, 0x29, 0xd8, 0x79, 0x17, 0x62]),
    (34498, [0x8e, 0x3d, 0x48, 0xb8, 0xe4, 0x6f, 0x3d, 0xb3, 0x77, 0x29, 0x3d, 0x34, 0xd3, 0x1f, 0xb8, 0xbb]),
    (34601, [0x1e, 0xfe, 0xa0, 0x37, 0xd8, 0x5d, 0xf9, 0x68, 0x80, 0x0c, 0xcd, 0xc5, 0xb5, 0xd0, 0xc9, 0x4c]),
    (34602, [0x6c, 0x70, 0xd2, 0x46, 0xf7, 0xb1, 0x21, 0x55, 0xaa, 0xfc, 0x3d, 0x56, 0xd5, 0xd2, 0xbb, 0x08]),
    (34603, [0x25, 0xe6, 0x72, 0xed, 0xfb, 0x9e, 0x7f, 0xf7, 0xbf, 0xbb, 0x1d, 0xb7, 0x42, 0x93, 0x86, 0x5b]),
    (34604, [0x7a, 0x27, 0xc6, 0x97, 0xa8, 0xb1, 0x6e, 0x04, 0x89, 0x91, 0xce, 0x95, 0x6b, 0x2a, 0x32, 0x3b]),
    (34605, [0xd3, 0xd6, 0x90, 0x13, 0x20, 0x47, 0xe1, 0x45, 0x85, 0x9a, 0x81, 0xca, 0x62, 0xd6, 0x88, 0xfd]),
    (34606, [0x8e, 0x00, 0x86, 0x5b, 0xa8, 0x93, 0xc3, 0xb5, 0x63, 0x5e, 0x3c, 0x9d, 0x01, 0xa8, 0x0f, 0x1c]),
    (34607, [0xdc, 0x49, 0xd1, 0x95, 0x43, 0xb2, 0xfb, 0x2e, 0x11, 0x37, 0x67, 0x96, 0xed, 0x46, 0x44, 0x91]),
    (34608, [0x56, 0xb2, 0x4c, 0x10, 0xbc, 0x41, 0x6b, 0xa6, 0x3a, 0xf2, 0xfc, 0x59, 0xc5, 0x85, 0xe1, 0x9e]),
    (34671, [0x0f, 0x30, 0x62, 0xda, 0x9b, 0xcb, 0x1f, 0x94, 0xd5, 0x21, 0xac, 0x5e, 0x3f, 0x74, 0x7d, 0x39]),
    (34672, [0x5e, 0x49, 0x03, 0x2c, 0x43, 0x30, 0x07, 0xc5, 0xd4, 0x5e, 0x65, 0x4b, 0x29, 0x1b, 0xd7, 0x96]),
    (34673, [0x96, 0xa2, 0x69, 0x7b, 0xbf, 0xb7, 0xb5, 0xb2, 0x51, 0xf5, 0xcd, 0x91, 0xd1, 0x57, 0x3c, 0xbe]),
    (34674, [0x46, 0x1f, 0x22, 0x7a, 0x57, 0xb9, 0x00, 0x69, 0x49, 0xeb, 0x7b, 0xe6, 0x27, 0x89, 0xe2, 0xf9]),
    (34675, [0x53, 0x2e, 0x4d, 0xd4, 0xf5, 0xb4, 0xe2, 0xac, 0xba, 0x76, 0x8f, 0xf3, 0x83, 0x6d, 0xf1, 0x80]),
    (34676, [0xcd, 0x24, 0x5e, 0xbb, 0x4c, 0x7d, 0x2e, 0x09, 0x19, 0xa6, 0x22, 0x0d, 0x75, 0x7d, 0x07, 0x42]),
    (34677, [0x7e, 0x02, 0x71, 0x50, 0xc6, 0xa6, 0x9c, 0xbf, 0x09, 0x64, 0x4e, 0xeb, 0x23, 0xe3, 0xf4, 0xff]),
    (34678, [0x02, 0x2e, 0xb6, 0x2d, 0x6c, 0x39, 0x32, 0x27, 0xe5, 0xf2, 0xab, 0xe2, 0x6e, 0x0f, 0x6d, 0x90]),
    (34681, [0x26, 0x39, 0xad, 0x5e, 0x36, 0xb5, 0xcd, 0x10, 0xdb, 0xce, 0x19, 0xe0, 0x66, 0xa8, 0xd6, 0x00]),
    (34682, [0xd6, 0x8d, 0x63, 0x3c, 0xcb, 0x9a, 0x60, 0x7e, 0x87, 0xe1, 0xaf, 0x08, 0x41, 0x70, 0xa7, 0xa9]),
    (34683, [0xec, 0x8a, 0x33, 0x77, 0xbd, 0x61, 0xe1, 0x18, 0xc0, 0x84, 0x91, 0xa0, 0xec, 0xdb, 0x1d, 0x84]),
    (34684, [0xb2, 0x1e, 0x6e, 0x8c, 0xef, 0x1d, 0x9c, 0x43, 0x46, 0x34, 0xcf, 0xb6, 0xcb, 0x49, 0x71, 0xc5]),
    (34685, [0x3c, 0xd8, 0x5b, 0x03, 0x38, 0xa7, 0x9d, 0xcf, 0x57, 0xf0, 0x63, 0x88, 0xb1, 0x37, 0xa5, 0xbd]),
    (34686, [0x8e, 0x34, 0xb5, 0xb1, 0xa2, 0x64, 0x7b, 0xe5, 0xbb, 0x15, 0x62, 0x32, 0x69, 0x4e, 0x44, 0x1c]),
    (34687, [0x9f, 0x5c, 0xd6, 0xb5, 0x1f, 0x9f, 0x03, 0xfa, 0xe4, 0xd7, 0xd2, 0x5c, 0xf5, 0x6d, 0xb1, 0x85]),
    (34688, [0x54, 0x9c, 0x32, 0xb1, 0xdf, 0xf7, 0x08, 0xe1, 0xae, 0x61, 0x7e, 0x73, 0x1e, 0x9e, 0xf8, 0x4a]),
    (34831, [0xe9, 0x1f, 0x6b, 0x06, 0x91, 0x3b, 0x42, 0xcf, 0xb2, 0x8e, 0xd5, 0xd8, 0x6b, 0x6e, 0xe3, 0x15]),
    (34832, [0xae, 0xaa, 0xdf, 0x39, 0x68, 0x96, 0x47, 0xf0, 0x54, 0xb6, 0x9a, 0x8c, 0x8c, 0xb3, 0x12, 0x94]),
    (34833, [0x19, 0xfc, 0x2d, 0xcb, 0xeb, 0x83, 0x39, 0xc1, 0xc8, 0x41, 0xaf, 0x79, 0x7e, 0x38, 0x87, 0x99]),
    (34834, [0x11, 0xc3, 0x8b, 0xd4, 0x39, 0xb3, 0x81, 0x2f, 0x29, 0x4f, 0x74, 0x28, 0xb8, 0x94, 0xe7, 0xc6]),
    (34835, [0xc9, 0x01, 0x2c, 0x52, 0x5c, 0xbe, 0xf1, 0x7f, 0xad, 0x81, 0xf7, 0xd6, 0x7c, 0xdc, 0x01, 0xb0]),
    (34836, [0x4d, 0xd9, 0x72, 0x4a, 0x3c, 0x70, 0xae, 0x9e, 0xf4, 0x63, 0x85, 0xbb, 0x67, 0x0a, 0x2e, 0xb7]),
    (34837, [0x2a, 0xaa, 0xbb, 0xe2, 0xaa, 0x18, 0x20, 0x45, 0x6a, 0x9a, 0xff, 0x0f, 0x3e, 0x60, 0x35, 0x7f]),
    (34838, [0x65, 0x33, 0x4b, 0xfd, 0x31, 0x6c, 0xdc, 0xb6, 0x35, 0x64, 0x39, 0x24, 0xc5, 0xd5, 0x87, 0xb3]),
    (34839, [0x28, 0x1c, 0x0e, 0xa4, 0xbb, 0xd0, 0xc3, 0x65, 0x4a, 0x41, 0xc1, 0xc7, 0x12, 0xc2, 0xca, 0x75]),
    (34840, [0xa4, 0xde, 0x1b, 0xca, 0xd6, 0xa9, 0x75, 0xe6, 0x9a, 0x8a, 0x28, 0x6e, 0x1c, 0x34, 0x7c, 0xaa]),
    (34841, [0x02, 0x6b, 0x24, 0x34, 0x4b, 0x57, 0x67, 0xa5, 0x90, 0xc5, 0x60, 0xfa, 0xb9, 0xff, 0x21, 0x91]),
    (34842, [0xee, 0x2c, 0xf9, 0xe0, 0xd7, 0x1a, 0x14, 0xd8, 0xb0, 0x47, 0x8e, 0x29, 0x8f, 0x4d, 0x46, 0x14]),
    (34843, [0x96, 0x16, 0x87, 0x8d, 0xef, 0xc0, 0x79, 0x91, 0x09, 0x8b, 0x17, 0xda, 0xbf, 0x82, 0xaf, 0xd3]),
    (34851, [0x95, 0x24, 0x98, 0x4f, 0x0f, 0xe8, 0x39, 0x4e, 0xd4, 0xa2, 0x5c, 0x33, 0x34, 0xc1, 0x2e, 0xd4]),
    (35001, [0x4a, 0x4a, 0xf1, 0x86, 0x26, 0x26, 0x91, 0x5c, 0xfa, 0xa7, 0x7b, 0x3e, 0x66, 0xd8, 0x9d, 0x75]),
    (35071, [0xee, 0xa4, 0x48, 0xd6, 0xe8, 0x36, 0x85, 0x87, 0x49, 0xe5, 0x9e, 0x73, 0x09, 0x93, 0x10, 0x5d]),
    (35080, [0xc9, 0xc4, 0x16, 0x89, 0x7a, 0x48, 0x06, 0xd6, 0xe5, 0x06, 0x74, 0x4b, 0x46, 0x32, 0x44, 0xb1]),
    (35081, [0x6e, 0x18, 0x3e, 0xb8, 0x3d, 0xa7, 0xdb, 0xfa, 0x24, 0xe2, 0x54, 0x8a, 0x83, 0x3c, 0xf6, 0xe9]),
    (35082, [0xed, 0xa1, 0x85, 0x0a, 0x61, 0x7f, 0x1f, 0xb6, 0x8d, 0x14, 0xc2, 0xd2, 0xdc, 0xc1, 0x14, 0x0a]),
    (35083, [0x97, 0xc2, 0x07, 0xaf, 0x23, 0xa6, 0x21, 0x6d, 0x2c, 0xa9, 0xb3, 0xfe, 0xbb, 0x4c, 0xaf, 0x2e]),
    (35084, [0xdb, 0xbb, 0x00, 0xbd, 0xf1, 0x52, 0xc9, 0xfa, 0x0d, 0xab, 0x60, 0xa1, 0x91, 0x0d, 0xef, 0x95]),
    (35085, [0x2c, 0xdc, 0xc6, 0xb5, 0x6c, 0x01, 0x67, 0x19, 0xa9, 0x78, 0xb5, 0x4b, 0x55, 0xb3, 0x14, 0xba]),
    (35086, [0x89, 0xb2, 0xbf, 0x2f, 0x24, 0x35, 0xd2, 0x87, 0x73, 0xc7, 0xc6, 0x4f, 0xf4, 0x42, 0x13, 0x67]),
    (35087, [0x10, 0x8d, 0x5f, 0xaa, 0xdf, 0xae, 0x78, 0x8d, 0x5a, 0x08, 0xa4, 0xc7, 0xc8, 0xfc, 0xa4, 0xea]),
    (35088, [0x15, 0xcc, 0xc8, 0x03, 0x8b, 0x44, 0x36, 0x1a, 0x5c, 0xe0, 0xcc, 0xa9, 0x31, 0x7c, 0x50, 0x04]),
    (35089, [0x83, 0x66, 0x61, 0x92, 0xca, 0x08, 0xda, 0x0f, 0xde, 0xe4, 0x09, 0x2e, 0x31, 0x46, 0xc1, 0xb9]),
    (35090, [0xd1, 0x3b, 0xc3, 0x59, 0xcb, 0x3f, 0x97, 0x2c, 0x4a, 0xe0, 0x7b, 0x8e, 0x98, 0x8d, 0x19, 0x22]),
    (35091, [0x95, 0xb1, 0x4e, 0x8b, 0xb3, 0xdd, 0xf4, 0x1f, 0x41, 0x53, 0x22, 0xcd, 0x56, 0xb3, 0x2d, 0xb2]),
    (35092, [0xd5, 0x42, 0x23, 0xb5, 0x6e, 0xd4, 0x0a, 0xc7, 0x73, 0x62, 0xa6, 0xd4, 0xe7, 0x9e, 0xbc, 0x05]),
    (35093, [0x8e, 0x1b, 0x4d, 0xac, 0x88, 0x41, 0x72, 0x0b, 0x2e, 0x4f, 0x09, 0x38, 0x66, 0x76, 0x0c, 0xf1]),
    (35094, [0xdf, 0xf7, 0xa5, 0x7d, 0x24, 0x6a, 0x32, 0x55, 0xc9, 0x7a, 0xea, 0x15, 0x0a, 0x17, 0xa5, 0xdc]),
    (35095, [0x26, 0x65, 0x40, 0x51, 0x16, 0xd4, 0xa9, 0xb6, 0x2c, 0x00, 0xce, 0x32, 0x07, 0xaf, 0xf3, 0x7e]),
    (35096, [0xfa, 0xfd, 0x0d, 0xdd, 0x15, 0x35, 0xd9, 0x6c, 0x3e, 0xdf, 0x44, 0x70, 0x2a, 0x17, 0x0f, 0x0b])]"

definition TABLE_11 :: "key_entry list" where
  "TABLE_11 = [
    (35097, [0x3a, 0xed, 0xd9, 0x5b, 0x55, 0x48, 0x76, 0x0e, 0x15, 0x2b, 0x7e, 0xd6, 0x8f, 0x0a, 0x7e, 0xba]),
    (35098, [0x42, 0xab, 0x1b, 0xf7, 0x98, 0x09, 0x48, 0x2e, 0xd1, 0xea, 0x0f, 0x18, 0x7c, 0xc3, 0xfa, 0x0f]),
    (35099, [0x7b, 0x83, 0xc5, 0x95, 0x9b, 0x63, 0x4b, 0xfa, 0x17, 0xb8, 0x14, 0xbd, 0xd7, 0x0c, 0xbb, 0x20]),
    (35100, [0x5a, 0xe7, 0x6a, 0x51, 0xe3, 0x30, 0x1e, 0x27, 0xa4, 0x68, 0x55, 0x7f, 0x98, 0x10, 0xaa, 0xe6]),
    (35101, [0x08, 0x0d, 0x45, 0xd0, 0x38, 0x42, 0x46, 0xd2, 0xf1, 0x1a, 0xde, 0x1d, 0xe4, 0x46, 0x5e, 0x4a]),
    (35102, [0x53, 0xb4, 0xa7, 0xb0, 0x63, 0x13, 0xbe, 0xf2, 0x5e, 0x68, 0xfe, 0x9e, 0xab, 0xbd, 0x82, 0x6c]),
    (35103, [0x6e, 0x1a, 0x20, 0x0a, 0xb5, 0x8c, 0xe4, 0x78, 0xe0, 0x53, 0x7c, 0xc3, 0xa8, 0xf2, 0x2f, 0xa3]),
    (35111, [0x7e, 0x90, 0xec, 0xb6, 0x4d, 0xbe, 0x6f, 0x68, 0x88, 0x46, 0x6f, 0x13, 0xe8, 0xa9, 0x7c, 0x4a]),
    (35121, [0x71, 0xf4, 0x92, 0x85, 0xd0, 0x32, 0x12, 0xd6, 0xe7, 0xb4, 0xcf, 0x28, 0xd8, 0x39, 0xce, 0xdd]),
    (35131, [0xf1, 0x77, 0x22, 0x22, 0x57, 0x94, 0x33, 0x22, 0xf0, 0xa3, 0x25, 0x75, 0x06, 0x09, 0x4d, 0x68]),
    (35132, [0x90, 0x4f, 0xb9, 0x26, 0x0c, 0x29, 0xbd, 0x58, 0xbd, 0x6f, 0xd9, 0x16, 0x7c, 0x25, 0xa3, 0xcb]),
    (35133, [0x54, 0xaf, 0x46, 0x36, 0x25, 0x81, 0x44, 0x7b, 0x70, 0x9c, 0xbb, 0xde, 0x3b, 0xf7, 0x01, 0x59]),
    (35134, [0xad, 0xd4, 0x08, 0x23, 0x70, 0x63, 0x36, 0x3f, 0x8a, 0x82, 0xd2, 0xa3, 0xc6, 0xd8, 0xd8, 0x73]),
    (35135, [0x94, 0x17, 0x88, 0x91, 0xea, 0xe1, 0xd5, 0xdf, 0xc8, 0xde, 0xc3, 0x3f, 0x7a, 0xed, 0xe9, 0xe8]),
    (35136, [0x63, 0x41, 0x0f, 0x60, 0xfe, 0x1b, 0x2b, 0x03, 0x87, 0xb0, 0xd2, 0xde, 0x2b, 0xb7, 0x56, 0xe6]),
    (35137, [0x73, 0xcb, 0x08, 0x29, 0xdf, 0x7e, 0x4d, 0x03, 0x5a, 0x96, 0x68, 0x36, 0x4f, 0x95, 0xb9, 0x78]),
    (35138, [0x2c, 0xb9, 0x60, 0x74, 0x16, 0x1e, 0x07, 0x57, 0x62, 0xc2, 0x8b, 0xd0, 0x22, 0x15, 0x28, 0x64]),
    (35321, [0x45, 0x07, 0xf2, 0x35, 0x35, 0x29, 0xaf, 0x05, 0xde, 0x81, 0xc9, 0x9a, 0xc3, 0x04, 0xca, 0xa5]),
    (35411, [0x84, 0x24, 0x4c, 0xca, 0xb6, 0xe0, 0x40, 0xca, 0xc4, 0x10, 0xc9, 0xaf, 0xa4, 0x71, 0x58, 0x46]),
    (35412, [0x03, 0x65, 0x20, 0xed, 0xe4, 0xf5, 0x70, 0xb8, 0x58, 0x1e, 0xe5, 0xe4, 0x46, 0x7e, 0x2f, 0xf9]),
    (35413, [0x19, 0x18, 0x02, 0x1a, 0xd9, 0x44, 0x37, 0x37, 0x15, 0x18, 0xd8, 0xfd, 0x3f, 0x7b, 0xdc, 0x32]),
    (35414, [0xb9, 0x90, 0x4d, 0x50, 0xd9, 0x82, 0xee, 0x61, 0x49, 0x42, 0x7e, 0xb3, 0x5c, 0xc2, 0x40, 0x55]),
    (35415, [0xe7, 0x92, 0xc0, 0xb0, 0xd3, 0x35, 0x5c, 0x3d, 0x0c, 0x23, 0x39, 0xb9, 0xba, 0x36, 0x25, 0xff]),
    (35416, [0xd7, 0x9d, 0x8e, 0xee, 0xc3, 0x01, 0xf3, 0xc9, 0x50, 0x54, 0x62, 0x62, 0x46, 0xe0, 0x30, 0x0a]),
    (35421, [0x3e, 0xcd, 0x3b, 0xe3, 0x58, 0x75, 0xe1, 0x03, 0x4d, 0x13, 0x4d, 0x5a, 0x28, 0x91, 0xf0, 0x05]),
    (35422, [0x5b, 0x23, 0x93, 0xac, 0x6a, 0xb8, 0x5d, 0x21, 0x19, 0xee, 0xcb, 0x5b, 0x33, 0xc3, 0xf6, 0x05]),
    (35428, [0xc5, 0x27, 0x4b, 0xcd, 0x86, 0xde, 0x9f, 0xe1, 0xc8, 0x8b, 0x70, 0x18, 0x95, 0x63, 0xc2, 0xb6]),
    (35451, [0x04, 0xd9, 0x3a, 0x56, 0xfd, 0x65, 0x64, 0x1f, 0x7d, 0xa1, 0x2b, 0xe8, 0xdb, 0x86, 0xd3, 0x37]),
    (35453, [0x7d, 0x1d, 0x5a, 0x2b, 0x8a, 0xb9, 0x92, 0x3b, 0x4e, 0x2d, 0xa2, 0x05, 0x6b, 0x2f, 0x32, 0x0c]),
    (35455, [0x60, 0x98, 0x8c, 0xaf, 0x75, 0x5f, 0xf3, 0xe3, 0x37, 0x6b, 0xda, 0x60, 0xe1, 0x0b, 0x0c, 0xb5]),
    (35456, [0xb5, 0xa3, 0xb4, 0x59, 0x6e, 0xac, 0x38, 0x0a, 0x6d, 0xba, 0x0b, 0x57, 0xd7, 0x90, 0x9d, 0xe6]),
    (35457, [0x34, 0xd5, 0x77, 0x13, 0x03, 0x5d, 0x4b, 0x8e, 0x38, 0x39, 0x08, 0xc9, 0x84, 0x4e, 0x4f, 0xe2]),
    (35458, [0xea, 0xb0, 0x17, 0x1a, 0x38, 0x61, 0xa3, 0xb2, 0x6c, 0xaf, 0xe4, 0xd7, 0xf1, 0x59, 0x74, 0xce]),
    (35459, [0x5e, 0x3b, 0xd8, 0x12, 0xcc, 0x24, 0x42, 0xeb, 0x88, 0xc0, 0x2a, 0x0b, 0x28, 0x92, 0xd4, 0x48]),
    (35461, [0x29, 0x1c, 0x62, 0x4f, 0x72, 0x18, 0xa7, 0x79, 0xc3, 0xb3, 0xdb, 0x01, 0x7f, 0x1b, 0x3d, 0xac]),
    (35462, [0x7b, 0x97, 0xeb, 0x00, 0xf2, 0x1d, 0x84, 0xf0, 0xb3, 0x94, 0x9f, 0xd4, 0xbf, 0x05, 0x69, 0x57]),
    (35463, [0xaa, 0xfb, 0x2c, 0x6b, 0xa8, 0x36, 0x6e, 0x02, 0xfa, 0x0b, 0xc5, 0x16, 0xdb, 0x1d, 0xc4, 0xf4]),
    (35464, [0x00, 0x13, 0xfb, 0x01, 0x09, 0x3d, 0x58, 0x06, 0xd7, 0xed, 0xc5, 0x54, 0x48, 0x22, 0x2c, 0x9d]),
    (35465, [0xa5, 0x33, 0xc9, 0x4e, 0x45, 0x86, 0xbd, 0x1a, 0x88, 0x4f, 0x1f, 0xd2, 0x57, 0xd2, 0xf8, 0xba]),
    (35466, [0x34, 0x8f, 0x70, 0x0e, 0xf7, 0x34, 0xdf, 0xa3, 0xfa, 0x6a, 0x9a, 0x61, 0x18, 0x99, 0x10, 0x22]),
    (35467, [0x8a, 0xa2, 0x5e, 0x18, 0x60, 0x5d, 0x0d, 0x8a, 0xbd, 0xdc, 0xbd, 0x7a, 0x72, 0xcf, 0xd7, 0xad]),
    (35468, [0xdd, 0xb7, 0x93, 0xed, 0xf8, 0x59, 0x54, 0x9b, 0xf0, 0x95, 0x54, 0x60, 0x8f, 0x11, 0x3c, 0x4b]),
    (35469, [0xdc, 0xd0, 0xa3, 0x10, 0x42, 0x2a, 0xa1, 0xc1, 0x08, 0x5a, 0xe2, 0x26, 0x62, 0x4b, 0xf0, 0xa8]),
    (35501, [0xc6, 0x36, 0x04, 0x8f, 0x45, 0x18, 0x9a, 0xd1, 0x48, 0x67, 0x63, 0x0c, 0xb4, 0x26, 0xb6, 0xe5]),
    (35502, [0x0c, 0x22, 0xec, 0xbf, 0xb4, 0x0e, 0x49, 0xb0, 0xa2, 0xcc, 0x3f, 0x51, 0x77, 0xda, 0xdf, 0xc3]),
    (35503, [0xd4, 0x5b, 0x3b, 0xe3, 0xe8, 0xcf, 0xb6, 0x27, 0x48, 0x95, 0x3b, 0x22, 0xd5, 0x1b, 0xff, 0xe5]),
    (35701, [0x71, 0xb7, 0xf0, 0x04, 0xc7, 0xb7, 0x20, 0xf3, 0xd0, 0x56, 0x40, 0x02, 0xe2, 0xc5, 0xf8, 0x99]),
    (35702, [0x59, 0x7e, 0x97, 0x94, 0xc7, 0xa4, 0x6e, 0xa7, 0xeb, 0xb0, 0x5e, 0x85, 0xaa, 0x19, 0x67, 0xd9]),
    (35721, [0xf2, 0xa8, 0x14, 0xc2, 0x47, 0x45, 0x97, 0x38, 0x2c, 0x92, 0xc5, 0x70, 0x16, 0x32, 0xec, 0xef]),
    (35722, [0xe5, 0x7d, 0x30, 0x5d, 0x4f, 0x5e, 0xe5, 0xc7, 0x69, 0xe0, 0xbe, 0xc8, 0x06, 0x0f, 0xaf, 0x40]),
    (35723, [0x67, 0x67, 0xe6, 0x72, 0x1c, 0xad, 0x99, 0x3e, 0x29, 0xbe, 0x58, 0xb6, 0x2b, 0xca, 0xd2, 0x4e]),
    (35724, [0x21, 0xe2, 0x8f, 0x7a, 0x48, 0xb2, 0xde, 0xe9, 0xf7, 0xfd, 0x4a, 0x8c, 0x09, 0xe4, 0x5e, 0x5f]),
    (36001, [0xb0, 0xe7, 0x48, 0xbf, 0x33, 0x6e, 0x63, 0x23, 0xee, 0xc4, 0xb7, 0x0c, 0xae, 0x36, 0xa3, 0x76]),
    (36002, [0x89, 0xc9, 0x91, 0x42, 0xda, 0x81, 0x71, 0x07, 0xc7, 0x0d, 0x6c, 0x7c, 0x3e, 0x6f, 0x25, 0x5c]),
    (36621, [0xff, 0x92, 0x0f, 0xe3, 0x6a, 0x24, 0x18, 0x24, 0x89, 0x66, 0xc2, 0xf4, 0x6d, 0x3f, 0x56, 0xeb]),
    (36622, [0x68, 0x0e, 0x09, 0x65, 0xd2, 0x70, 0xf7, 0x87, 0x01, 0x40, 0x9a, 0x0f, 0xab, 0x97, 0xd7, 0x22]),
    (36623, [0xd7, 0xf1, 0x2c, 0xed, 0xcf, 0xc2, 0xdc, 0x73, 0x40, 0x48, 0x6f, 0x17, 0xb0, 0x1a, 0x4f, 0xe6]),
    (36624, [0x38, 0xf3, 0xe4, 0x4e, 0x3d, 0xd0, 0x02, 0x1c, 0xd4, 0xb2, 0xea, 0xf8, 0xad, 0xc9, 0x4c, 0xf3]),
    (36631, [0xd5, 0xfa, 0x91, 0x18, 0x84, 0xa5, 0x19, 0xa5, 0xfb, 0xe6, 0x5c, 0x7e, 0x0a, 0x83, 0x83, 0x5d]),
    (36701, [0x9a, 0x26, 0x50, 0xeb, 0x8a, 0x95, 0x13, 0x40, 0xf7, 0xb2, 0xc2, 0xd0, 0xcf, 0xc0, 0x53, 0x31]),
    (36702, [0x2d, 0x18, 0x0a, 0x7c, 0x50, 0x93, 0x70, 0xb7, 0x66, 0xf7, 0x38, 0x53, 0x9d, 0x73, 0xd9, 0x64]),
    (36703, [0xcf, 0xff, 0x38, 0x3a, 0xc0, 0xd0, 0x25, 0xf9, 0x7b, 0xbc, 0xf3, 0xe7, 0x62, 0xcc, 0x16, 0xb8]),
    (36704, [0x9e, 0xa5, 0x84, 0xc9, 0x83, 0x3f, 0x74, 0x1b, 0x63, 0xc3, 0x1a, 0xda, 0xfc, 0x73, 0xe3, 0xc2]),
    (36705, [0x63, 0x33, 0xc5, 0xbe, 0x97, 0xb0, 0xba, 0x01, 0xa8, 0x31, 0xdd, 0x1a, 0x75, 0x27, 0x06, 0x34]),
    (36706, [0x94, 0x49, 0x32, 0xd2, 0x0a, 0x02, 0x51, 0x34, 0x3c, 0x8f, 0xf6, 0xf2, 0xc4, 0x46, 0xf6, 0x40]),
    (36707, [0xb9, 0x40, 0x8d, 0x66, 0x4d, 0x46, 0x1c, 0xc1, 0xde, 0xbc, 0xa4, 0xcd, 0x2a, 0x22, 0x9c, 0x94]),
    (36711, [0xba, 0x78, 0xea, 0x3e, 0x28, 0x07, 0xfe, 0xaf, 0x46, 0xc1, 0xd3, 0x4b, 0x11, 0xf9, 0xba, 0x69]),
    (36712, [0x13, 0x59, 0xb0, 0x03, 0x8b, 0x39, 0xd4, 0x6b, 0xd4, 0x75, 0x1e, 0x5c, 0xa9, 0xe2, 0x6e, 0xb2]),
    (36713, [0xb1, 0xc5, 0xdc, 0x00, 0xa2, 0x68, 0xf5, 0x03, 0xdf, 0x3d, 0x52, 0xc1, 0xe9, 0x3e, 0x60, 0xf4]),
    (36714, [0xf7, 0x38, 0xd6, 0xe4, 0xb4, 0x36, 0x2b, 0xbf, 0xa4, 0x09, 0xa6, 0xef, 0xbd, 0x30, 0x90, 0xb4]),
    (36715, [0xbb, 0xfa, 0xa0, 0xab, 0xc5, 0x48, 0x0f, 0x46, 0xdd, 0xc7, 0x76, 0x44, 0x5c, 0x1c, 0x26, 0xa9]),
    (36716, [0x81, 0xd3, 0x68, 0xd2, 0x50, 0xb2, 0xbf, 0xf9, 0x36, 0x9c, 0x7f, 0x8b, 0xbb, 0xa9, 0x9c, 0x08]),
    (36721, [0x83, 0x89, 0xbf, 0xf2, 0xb9, 0x71, 0x65, 0xcf, 0x92, 0x5c, 0x00, 0xd9, 0x1b, 0x58, 0x48, 0x24]),
    (36722, [0xc3, 0x1d, 0x5a, 0x5b, 0x3b, 0x4c, 0x0f, 0xca, 0xac, 0xc2, 0xff, 0xc9, 0x6c, 0x61, 0x22, 0xf8]),
    (36723, [0x10, 0xcd, 0x54, 0x17, 0x90, 0xd6, 0x76, 0xe8, 0xb5, 0x5a, 0xe8, 0x00, 0x8e, 0x58, 0x5c, 0xe3]),
    (36724, [0xc1, 0x10, 0xc2, 0x0d, 0xe7, 0xce, 0x67, 0xd5, 0x67, 0x15, 0x6f, 0xfb, 0x15, 0xf5, 0x9e, 0xf6]),
    (36725, [0xa4, 0xc1, 0x50, 0xbe, 0x8c, 0x40, 0x78, 0x6d, 0x05, 0xb2, 0xcf, 0xa2, 0xb4, 0xa4, 0xda, 0x03]),
    (36726, [0x83, 0x89, 0xbf, 0xf2, 0xb9, 0x71, 0x65, 0xcf, 0x92, 0x5c, 0x00, 0xd9, 0x1b, 0x58, 0x48, 0x24]),
    (36727, [0xd1, 0xdb, 0x0c, 0x73, 0xc9, 0x7c, 0xc2, 0x7c, 0x77, 0x87, 0xf0, 0x02, 0xb9, 0xe1, 0x13, 0x25]),
    (36728, [0xda, 0xaf, 0x73, 0xcf, 0x9b, 0x54, 0xc0, 0x6f, 0x6d, 0xdf, 0xe2, 0xfc, 0x41, 0x75, 0xf4, 0x51]),
    (36729, [0xdd, 0x07, 0xb9, 0x31, 0xdc, 0x1e, 0x7b, 0xfb, 0xd3, 0xe6, 0xd8, 0xff, 0x81, 0x03, 0xd3, 0xd2]),
    (36901, [0x9d, 0xbe, 0x7e, 0xd8, 0xf6, 0xbf, 0x38, 0xe5, 0x14, 0xf3, 0x4b, 0xfe, 0x02, 0x27, 0x72, 0xf7]),
    (36902, [0x11, 0x0a, 0xd2, 0x73, 0x1c, 0xd1, 0xf0, 0x3d, 0x1c, 0x5d, 0x01, 0x9e, 0x62, 0x95, 0xd2, 0xb6]),
    (36911, [0x98, 0xdc, 0x0b, 0x75, 0xa7, 0x35, 0xa0, 0x8b, 0x2a, 0xe2, 0x80, 0x0e, 0x8e, 0x64, 0x9c, 0x21]),
    (36921, [0x30, 0x8a, 0xe0, 0x13, 0x19, 0x1b, 0xc8, 0xff, 0x22, 0x9f, 0x01, 0x17, 0xd4, 0x0e, 0x8a, 0xe5]),
    (36932, [0x62, 0x34, 0xa2, 0x08, 0xb8, 0xc7, 0x3e, 0xd4, 0x24, 0x1d, 0x1e, 0xa8, 0xfd, 0x4b, 0xc3, 0x3e]),
    (37101, [0xd4, 0x10, 0x16, 0xe8, 0x4d, 0x98, 0xc2, 0x46, 0x32, 0x59, 0x8c, 0xc9, 0x42, 0xb5, 0x1c, 0x36]),
    (37111, [0x90, 0xc0, 0xec, 0x90, 0x28, 0x41, 0x30, 0x6a, 0xf1, 0x0f, 0x9d, 0x10, 0xc9, 0xda, 0xf7, 0xe0]),
    (37601, [0x66, 0xe1, 0xfd, 0xa8, 0xc1, 0xfc, 0x2e, 0x13, 0xa4, 0x02, 0xfa, 0x57, 0xf7, 0xdd, 0x2c, 0xaa]),
    (37602, [0xae, 0xbc, 0x37, 0x9c, 0xf1, 0xc3, 0x43, 0x32, 0x36, 0x33, 0x68, 0x11, 0x67, 0x6f, 0x31, 0xd2]),
    (37701, [0x5c, 0x69, 0xd1, 0x82, 0x11, 0xad, 0x92, 0x47, 0x8d, 0xa1, 0x67, 0xfd, 0xba, 0xfc, 0x5f, 0xf1]),
    (37711, [0x0e, 0x83, 0x63, 0x09, 0x90, 0x83, 0xab, 0x5f, 0x5e, 0xe5, 0xc9, 0x68, 0xe5, 0x37, 0x82, 0xcc]),
    (38721, [0x47, 0x12, 0x91, 0x6f, 0x69, 0x1f, 0xb0, 0xa9, 0xc0, 0xa5, 0xfa, 0xeb, 0xb7, 0xef, 0x49, 0x7d]),
    (38722, [0xf6, 0x87, 0x48, 0x25, 0x7e, 0x42, 0xb8, 0x3a, 0xc5, 0x01, 0x8b, 0x11, 0x98, 0x56, 0x8d, 0x60]),
    (38732, [0xd7, 0xde, 0x89, 0x05, 0x8b, 0x7a, 0x97, 0x98, 0xe3, 0x7a, 0x12, 0x7b, 0x95, 0x9c, 0x74, 0x11]),
    (38741, [0x34, 0x66, 0xf3, 0xa7, 0x16, 0xb6, 0x20, 0x7e, 0xd3, 0xf3, 0x69, 0xc8, 0x36, 0xdc, 0x08, 0x3f]),
    (38742, [0xf0, 0xfc, 0x1e, 0xa8, 0x7f, 0x34, 0x0f, 0xb0, 0x37, 0x57, 0x98, 0x15, 0x0c, 0xbd, 0x21, 0x15]),
    (38743, [0xcd, 0x94, 0x07, 0xb5, 0xe6, 0x0c, 0x94, 0xba, 0x43, 0xb7, 0x07, 0x9a, 0xe9, 0x12, 0xa2, 0x86]),
    (38751, [0x5c, 0xbc, 0x95, 0x5e, 0x1d, 0xe7, 0xaa, 0xd1, 0xec, 0x5a, 0xcd, 0x45, 0xfd, 0x81, 0x01, 0x3f]),
    (38752, [0x6f, 0xd0, 0xa0, 0xa4, 0xcc, 0x6f, 0x0c, 0x08, 0xf2, 0x73, 0x60, 0xd9, 0xe9, 0x0d, 0xa5, 0x18]),
    (38801, [0x1f, 0x1a, 0x54, 0xd3, 0x1b, 0xb0, 0x84, 0x7c, 0x27, 0x4d, 0x0f, 0x6a, 0xf7, 0x64, 0xe0, 0x65]),
    (39122, [0x11, 0xed, 0x69, 0xed, 0x74, 0x38, 0xa6, 0x8d, 0xb4, 0xed, 0x75, 0x97, 0x6d, 0xa9, 0xf3, 0x0e]),
    (39123, [0x11, 0xed, 0x69, 0xed, 0x74, 0x38, 0xa6, 0x8d, 0xb4, 0xed, 0x75, 0x97, 0x6d, 0xa9, 0xf3, 0x0e]),
    (39124, [0x11, 0xed, 0x69, 0xed, 0x74, 0x38, 0xa6, 0x8d, 0xb4, 0xed, 0x75, 0x97, 0x6d, 0xa9, 0xf3, 0x0e]),
    (39125, [0x11, 0xed, 0x69, 0xed, 0x74, 0x38, 0xa6, 0x8d, 0xb4, 0xed, 0x75, 0x97, 0x6d, 0xa9, 0xf3, 0x0e]),
    (39126, [0x11, 0xed, 0x69, 0xed, 0x74, 0x38, 0xa6, 0x8d, 0xb4, 0xed, 0x75, 0x97, 0x6d, 0xa9, 0xf3, 0x0e]),
    (39127, [0x11, 0xed, 0x69, 0xed, 0x74, 0x38, 0xa6, 0x8d, 0xb4, 0xed, 0x75, 0x97, 0x6d, 0xa9, 0xf3, 0x0e]),
    (39128, [0x11, 0xed, 0x69, 0xed, 0x74, 0x38, 0xa6, 0x8d, 0xb4, 0xed, 0x75, 0x97, 0x6d, 0xa9, 0xf3, 0x0e]),
    (39129, [0x11, 0xed, 0x69, 0xed, 0x74, 0x38, 0xa6, 0x8d, 0xb4, 0xed, 0x75, 0x97, 0x6d, 0xa9, 0xf3, 0x0e]),
    (39161, [0x83, 0xde, 0x23, 0x23, 0xa5, 0x3c, 0x95, 0xb5, 0xeb, 0x1a, 0x25, 0xc8, 0xce, 0xe9, 0xd7, 0xed]),
    (39162, [0x2f, 0x16, 0x02, 0x87, 0xf7, 0xf9, 0xc0, 0x7f, 0xb8, 0xfb, 0x18, 0x17, 0xe7, 0xd6, 0x9c, 0x25]),
    (39163, [0x19, 0x5e, 0x29, 0x51, 0x0b, 0x14, 0x20, 0x4f, 0x55, 0x7d, 0xfc, 0x61, 0x59, 0xef, 0x54, 0xee]),
    (39164, [0xd6, 0x12, 0x21, 0xcb, 0x62, 0xd2, 0x3a, 0x16, 0x02, 0x25, 0x62, 0x6d, 0x61, 0x92, 0x2e, 0xc9]),
    (39165, [0xf2, 0x5f, 0xa1, 0x8b, 0x6b, 0x9b, 0x99, 0xd8, 0x00, 0xe1, 0x63, 0xb0, 0x1b, 0x8b, 0xf4, 0xb3]),
    (39166, [0x23, 0xb2, 0x62, 0x14, 0xe4, 0x05, 0xbd, 0x0e, 0xb4, 0x84, 0xb5, 0x89, 0x93, 0xfd, 0x79, 0x25]),
    (39167, [0x94, 0x2c, 0xb8, 0x54, 0x91, 0xdc, 0x9d, 0xba, 0x13, 0x82, 0x27, 0x86, 0x83, 0xd6, 0x27, 0x9e]),
    (39168, [0x04, 0xd5, 0x8d, 0xae, 0xcc, 0x31, 0x46, 0xe9, 0x37, 0x81, 0xa2, 0x76, 0x89, 0xbc, 0x3f, 0xf0]),
    (39169, [0x97, 0x09, 0x39, 0x57, 0x30, 0xc2, 0x87, 0x28, 0x41, 0xa9, 0x5d, 0x36, 0xd1, 0xb6, 0x52, 0x95]),
    (39180, [0xb9, 0x9f, 0x32, 0x9c, 0x7d, 0x05, 0x2c, 0xd0, 0x30, 0x18, 0x5b, 0x65, 0x0e, 0xf3, 0xd0, 0x34]),
    (39181, [0x4d, 0xba, 0xf3, 0xe2, 0x24, 0xa3, 0x17, 0x30, 0x93, 0xff, 0x69, 0x05, 0xa6, 0xaa, 0x28, 0x1d]),
    (39182, [0x7a, 0x7d, 0x3b, 0x1c, 0x1a, 0xf1, 0x61, 0xa7, 0x35, 0x01, 0x98, 0xce, 0x0f, 0x3c, 0xaa, 0xb0]),
    (39183, [0xf2, 0xda, 0x52, 0xff, 0xb7, 0x8e, 0xe8, 0xac, 0xab, 0xe0, 0x03, 0xf3, 0x70, 0x15, 0x27, 0xae]),
    (39184, [0xd8, 0x27, 0x82, 0x02, 0x5e, 0x72, 0xb2, 0xb9, 0x8d, 0x33, 0x35, 0x9a, 0xc3, 0xc9, 0x38, 0x7d]),
    (39185, [0x33, 0x4d, 0x6f, 0x54, 0xb4, 0xc2, 0x59, 0x24, 0x3c, 0xed, 0x11, 0x8b, 0x13, 0x89, 0xc6, 0xbb]),
    (39231, [0xd9, 0xaf, 0x09, 0x7a, 0xb3, 0xad, 0x91, 0x34, 0xdc, 0xaf, 0x94, 0x18, 0xd4, 0x50, 0x92, 0xca]),
    (39232, [0x0a, 0x5e, 0x89, 0x4d, 0xef, 0xf5, 0xe4, 0x50, 0x0f, 0x54, 0x53, 0x22, 0x74, 0x92, 0xb1, 0xaf]),
    (39233, [0x48, 0xdd, 0x7d, 0x80, 0x1b, 0x64, 0x94, 0x7c, 0x49, 0x46, 0x00, 0x65, 0xfe, 0x8f, 0x5f, 0xb4]),
    (39234, [0x35, 0xcb, 0x18, 0xf5, 0x72, 0x03, 0x1a, 0x5e, 0xc7, 0xe6, 0x92, 0xc4, 0xb8, 0x03, 0xbf, 0xfb]),
    (39235, [0x7f, 0x0e, 0x34, 0x3e, 0xe0, 0xee, 0x73, 0xdf, 0x2a, 0xf1, 0x19, 0x41, 0xbf, 0xac, 0x63, 0x5c]),
    (39236, [0x6f, 0x2d, 0x4d, 0x24, 0x0d, 0xc7, 0x70, 0xb0, 0x0d, 0x0c, 0xf5, 0xef, 0xf1, 0xfd, 0x62, 0xa5]),
    (39237, [0x17, 0x58, 0xad, 0x64, 0xa9, 0x7f, 0x32, 0x4a, 0x52, 0x1f, 0xb9, 0xc0, 0xbf, 0x08, 0x4b, 0x9c]),
    (39238, [0xf5, 0xd3, 0x0e, 0xf2, 0x1a, 0xab, 0x28, 0x17, 0xfe, 0x16, 0x01, 0x30, 0xa5, 0xb1, 0xb8, 0x80]),
    (39239, [0x3b, 0x61, 0x73, 0x53, 0xe5, 0xc9, 0xd1, 0xc7, 0x40, 0xc8, 0xe3, 0xaf, 0xff, 0xac, 0xc7, 0x3b]),
    (39251, [0x11, 0xed, 0x69, 0xed, 0x74, 0x38, 0xa6, 0x8d, 0xb4, 0xed, 0x75, 0x97, 0x6d, 0xa9, 0xf3, 0x0e]),
    (39261, [0x11, 0xed, 0x69, 0xed, 0x74, 0x38, 0xa6, 0x8d, 0xb4, 0xed, 0x75, 0x97, 0x6d, 0xa9, 0xf3, 0x0e]),
    (39270, [0xd8, 0x49, 0x8b, 0xb1, 0xde, 0x81, 0xd1, 0xe4, 0x0b, 0x4d, 0xde, 0xb2, 0x65, 0x16, 0x48, 0x13]),
    (39271, [0x87, 0x52, 0x9e, 0xc4, 0x1a, 0x00, 0xb6, 0x53, 0xbd, 0x8b, 0x18, 0xe0, 0x56, 0xd3, 0x56, 0x76]),
    (39272, [0xae, 0x06, 0x45, 0x03, 0x7d, 0xc7, 0x4d, 0x26, 0x4d, 0x3b, 0x84, 0x55, 0xad, 0xc7, 0xcb, 0x42]),
    (39273, [0xdd, 0x1c, 0x89, 0x79, 0x83, 0xe0, 0x3c, 0x82, 0x05, 0x41, 0xff, 0x6e, 0x8a, 0x03, 0xe0, 0x76]),
    (39274, [0x7d, 0x95, 0xa1, 0xac, 0xa3, 0x37, 0xc1, 0x96, 0xf5, 0xd8, 0xaf, 0xe2, 0xe5, 0xf3, 0xc7, 0x05]),
    (39275, [0x95, 0x6e, 0xf8, 0x0a, 0x7d, 0x25, 0x5c, 0x15, 0xb5, 0x4d, 0x1d, 0x3e, 0x86, 0x72, 0x43, 0xa6]),
    (39276, [0x8a, 0x37, 0xfe, 0x19, 0x3b, 0xd7, 0x40, 0x0a, 0x6f, 0x5a, 0x0a, 0x51, 0x01, 0xbc, 0xe6, 0xf0]),
    (39277, [0x8a, 0xcc, 0x4f, 0x4f, 0x80, 0xf3, 0x89, 0x0d, 0x39, 0xed, 0x9c, 0x9a, 0x0d, 0x01, 0x8e, 0x84]),
    (39278, [0xb7, 0x7d, 0x72, 0x72, 0x92, 0x2a, 0x87, 0x34, 0xa5, 0xb3, 0x40, 0xa3, 0xd2, 0x35, 0x42, 0xb8]),
    (39691, [0xab, 0x54, 0x12, 0xf8, 0x62, 0x5e, 0xc5, 0x9a, 0x89, 0x58, 0x85, 0x71, 0x6a, 0x65, 0x2c, 0x4a]),
    (39692, [0x24, 0x42, 0xb6, 0x92, 0x18, 0x06, 0x14, 0x35, 0x2e, 0xc8, 0x3c, 0x44, 0x80, 0x3e, 0xeb, 0xbf]),
    (39693, [0x44, 0x3e, 0xc5, 0xe9, 0x8d, 0x5f, 0x1d, 0xac, 0x0f, 0x0c, 0x3e, 0xcc, 0x23, 0x55, 0xc8, 0x26]),
    (39694, [0xba, 0x40, 0xaa, 0x5e, 0x2a, 0xa4, 0x95, 0xb5, 0xe7, 0x37, 0x5a, 0x9a, 0x54, 0xdb, 0xc5, 0xc5]),
    (39695, [0xd9, 0xa1, 0x7f, 0x2f, 0x13, 0xdb, 0xe7, 0xff, 0xc0, 0x30, 0x2a, 0x10, 0xf4, 0x21, 0x3c, 0x55]),
    (39801, [0x44, 0x6c, 0x5b, 0xae, 0xd3, 0x83, 0x62, 0xa7, 0x56, 0x27, 0x97, 0x79, 0xb8, 0x9c, 0xf2, 0x59])]"

definition TABLE_12 :: "key_entry list" where
  "TABLE_12 = [
    (39802, [0x5b, 0x4e, 0x1b, 0xfb, 0x57, 0x70, 0xc5, 0x46, 0xbb, 0x7d, 0xfa, 0xed, 0xb3, 0xa1, 0x34, 0xfb]),
    (39803, [0xb9, 0x17, 0x2a, 0xd5, 0xb1, 0xa8, 0xa8, 0xc9, 0x05, 0x64, 0xf1, 0xf5, 0x0a, 0x1d, 0x7b, 0x62]),
    (39804, [0x8b, 0x92, 0xf4, 0x8d, 0xcf, 0x8a, 0xf4, 0x53, 0x6e, 0x5d, 0x09, 0xac, 0xed, 0x7d, 0xd9, 0x0a]),
    (39805, [0xb1, 0x05, 0xaf, 0x06, 0xf8, 0xaa, 0xb8, 0x92, 0x86, 0x75, 0x30, 0xf4, 0xdb, 0x7f, 0xa3, 0x76]),
    (39806, [0x49, 0x93, 0xf1, 0x1c, 0x05, 0xb8, 0x29, 0x0c, 0xb2, 0xf3, 0x18, 0x9a, 0x4e, 0xf3, 0x0c, 0x77]),
    (40102, [0x83, 0x9a, 0x0e, 0x9d, 0xfc, 0x54, 0x90, 0x63, 0x5b, 0x47, 0x6d, 0x53, 0xca, 0x57, 0x8d, 0xc7]),
    (40103, [0x40, 0xea, 0xe1, 0x2a, 0x04, 0x42, 0xe4, 0x4e, 0x98, 0x8c, 0x66, 0xe7, 0x2c, 0x73, 0x98, 0x57]),
    (40104, [0x44, 0x1d, 0x5c, 0x79, 0x3f, 0x61, 0x49, 0x2d, 0x78, 0x3b, 0x3e, 0xbb, 0xb5, 0x81, 0x32, 0xc1]),
    (40105, [0xe8, 0x8f, 0xe4, 0x58, 0x3e, 0xe9, 0xac, 0xda, 0x8f, 0x13, 0x91, 0xdd, 0xb2, 0x57, 0xeb, 0x3e]),
    (40106, [0x0d, 0x3f, 0xb6, 0xd0, 0xd4, 0x0e, 0xd4, 0x0e, 0x2d, 0xf7, 0xb1, 0xb6, 0xe5, 0x63, 0x71, 0x58]),
    (40107, [0x85, 0x1f, 0x47, 0x4f, 0x74, 0x33, 0x9d, 0x5d, 0x12, 0xa4, 0x75, 0x1d, 0xb6, 0xe0, 0x41, 0x40]),
    (40108, [0xd2, 0x8d, 0x5e, 0x4b, 0x36, 0x4d, 0x72, 0xcc, 0x6a, 0xb7, 0x53, 0xd8, 0x84, 0x37, 0x21, 0x43]),
    (40109, [0x71, 0xde, 0x4e, 0xe2, 0x4b, 0x52, 0xfb, 0xb2, 0xa6, 0x22, 0x16, 0x30, 0x63, 0xea, 0x33, 0x15]),
    (40110, [0xcf, 0xdd, 0xa4, 0xec, 0xcd, 0xe3, 0xa9, 0xd0, 0xd4, 0xe6, 0x3c, 0x7e, 0x1e, 0x2f, 0x4e, 0x80]),
    (40111, [0xbd, 0xbe, 0xa4, 0x1e, 0x3e, 0x4d, 0xf7, 0x02, 0x64, 0xf2, 0x0e, 0xed, 0x3a, 0xe5, 0x5b, 0x11]),
    (40118, [0xff, 0x6b, 0xa9, 0x07, 0xe2, 0x0c, 0xf4, 0xb0, 0xb6, 0xa8, 0x86, 0x98, 0x0f, 0xd5, 0x8b, 0x91]),
    (40119, [0xac, 0xfd, 0xcb, 0xb3, 0x77, 0x5e, 0x19, 0x24, 0x86, 0xed, 0x23, 0x6a, 0xec, 0x07, 0xfb, 0x6c]),
    (40125, [0xaf, 0x4e, 0x01, 0x4b, 0xaa, 0x2a, 0x63, 0xa9, 0x83, 0x25, 0xcf, 0xe3, 0x8e, 0x19, 0x72, 0x37]),
    (40141, [0x69, 0xa7, 0xa5, 0x7f, 0x08, 0xb2, 0xfb, 0x2f, 0x53, 0xaa, 0xa0, 0x3b, 0xa9, 0x5b, 0xe1, 0x22]),
    (40223, [0x08, 0x43, 0x9e, 0x47, 0xc4, 0x12, 0xc2, 0xf4, 0xc5, 0x7c, 0x8c, 0xd7, 0x62, 0x7e, 0xd2, 0x5a]),
    (40224, [0x56, 0x80, 0x5d, 0xea, 0xb0, 0xf5, 0x67, 0x79, 0x01, 0xc2, 0xc3, 0xfc, 0xb2, 0x20, 0x72, 0xfe]),
    (40225, [0x5d, 0xb9, 0x14, 0x75, 0xd0, 0xc3, 0x27, 0x0b, 0xf4, 0x61, 0x42, 0x56, 0xe3, 0xb8, 0xf1, 0xbd]),
    (40226, [0x7e, 0xb1, 0x18, 0xd2, 0x91, 0x47, 0x8c, 0xa1, 0x6a, 0xaa, 0xda, 0x5a, 0x68, 0x55, 0xdb, 0xe7]),
    (40227, [0x03, 0xfe, 0xa3, 0x35, 0xf6, 0x9b, 0xec, 0x09, 0xab, 0xc2, 0x2c, 0xce, 0x68, 0xb8, 0x9b, 0x60]),
    (40228, [0x99, 0xf0, 0x4f, 0xf0, 0xbd, 0x2b, 0x70, 0xfd, 0x8f, 0xc9, 0x85, 0x2e, 0x24, 0x54, 0x1a, 0x0c]),
    (40229, [0xe4, 0xf0, 0x36, 0xab, 0xb0, 0x1e, 0xab, 0xc7, 0x17, 0xe0, 0xa4, 0x0d, 0x5b, 0xd2, 0x8b, 0xae]),
    (40381, [0xbc, 0xbd, 0xf2, 0x43, 0x49, 0x20, 0x6a, 0xd3, 0x64, 0xd1, 0x58, 0x3d, 0xb1, 0x29, 0x66, 0x70]),
    (40382, [0xd8, 0xfd, 0xba, 0xe8, 0x96, 0xcc, 0x64, 0x6a, 0x40, 0xe7, 0x31, 0x88, 0x8c, 0x7c, 0x45, 0xc4]),
    (40383, [0xcd, 0x9f, 0xe4, 0x4c, 0xd0, 0x16, 0xf7, 0x75, 0x08, 0xac, 0xb6, 0x5d, 0x50, 0x94, 0xaf, 0x21]),
    (40384, [0x70, 0x04, 0x16, 0x12, 0xfe, 0x4c, 0xf8, 0x6a, 0x25, 0x88, 0x19, 0xe0, 0x10, 0xcf, 0xaa, 0xff]),
    (40385, [0x98, 0x35, 0xdf, 0x47, 0x9c, 0x3a, 0x66, 0xa9, 0xa7, 0x80, 0x43, 0xef, 0xba, 0x18, 0x31, 0x54]),
    (40391, [0xb4, 0xaf, 0x95, 0xa2, 0xaa, 0x67, 0xc6, 0x78, 0xe5, 0x59, 0x69, 0x8a, 0x8d, 0xd7, 0x95, 0x5a]),
    (40392, [0x0f, 0x72, 0xbb, 0x6e, 0x4c, 0x8d, 0xca, 0x07, 0x67, 0xad, 0x4a, 0xb8, 0x52, 0x89, 0xca, 0xdb]),
    (40393, [0x87, 0xd6, 0x00, 0xa4, 0x0e, 0xa2, 0x93, 0x33, 0x87, 0x36, 0x74, 0x56, 0x2c, 0x3b, 0x5d, 0xde]),
    (40394, [0xcf, 0x3a, 0xd0, 0xbd, 0xbe, 0x2e, 0xb6, 0x54, 0xa7, 0xde, 0x22, 0x1e, 0x79, 0x1d, 0x11, 0xf9]),
    (40395, [0x46, 0x55, 0xc3, 0x92, 0x62, 0x2b, 0x9d, 0x66, 0x4d, 0xd8, 0x22, 0x25, 0x12, 0xcd, 0x51, 0x81]),
    (40396, [0x4e, 0x22, 0x70, 0xcb, 0xe3, 0x11, 0x4d, 0x77, 0x72, 0xc7, 0x70, 0xda, 0x74, 0x24, 0x56, 0x5e]),
    (40397, [0xd7, 0xa2, 0xc7, 0xc1, 0x48, 0x3d, 0x41, 0x5a, 0x16, 0xd6, 0x0a, 0x69, 0x15, 0x45, 0x94, 0x8e]),
    (40398, [0xa7, 0xbe, 0xbe, 0x26, 0x16, 0xf4, 0xe6, 0xe8, 0x87, 0x5c, 0x30, 0x0d, 0x38, 0x34, 0x27, 0xa9]),
    (40399, [0xa9, 0x88, 0x1e, 0xbd, 0x56, 0xf8, 0x4b, 0x3b, 0x3a, 0x19, 0x56, 0x60, 0x75, 0x36, 0xeb, 0x7f]),
    (40701, [0x7e, 0x07, 0xf4, 0x4b, 0x14, 0x64, 0x8c, 0x38, 0x22, 0x42, 0x7f, 0x71, 0x86, 0xb6, 0x58, 0x2f]),
    (40702, [0x97, 0xff, 0x66, 0xf2, 0xe0, 0xbc, 0x2c, 0x71, 0x71, 0xdf, 0xc3, 0xb2, 0x45, 0x68, 0x8f, 0xc9]),
    (40703, [0xcb, 0x33, 0xea, 0xcd, 0x33, 0xcf, 0x17, 0x48, 0x0c, 0x26, 0xfe, 0x3b, 0x06, 0x72, 0xf4, 0x43]),
    (40711, [0xaf, 0x78, 0x07, 0xe8, 0x3e, 0x2f, 0xb3, 0xa7, 0x68, 0x56, 0xb6, 0xec, 0xcd, 0x3e, 0xdd, 0x24]),
    (40811, [0x23, 0x7c, 0x5a, 0x33, 0x7b, 0xe4, 0x6c, 0xa8, 0x63, 0x18, 0xaa, 0xd3, 0x9b, 0x2a, 0x54, 0xe0]),
    (40941, [0x78, 0xb4, 0x92, 0x02, 0x8d, 0x1e, 0x56, 0xb8, 0x38, 0xa9, 0x4c, 0x68, 0x45, 0x51, 0xe0, 0x13]),
    (40942, [0x17, 0x0e, 0x0b, 0xe4, 0xa1, 0x73, 0x81, 0x03, 0xec, 0x3a, 0x50, 0x21, 0x17, 0x71, 0x38, 0x21]),
    (40951, [0x73, 0x4e, 0xf6, 0xa6, 0x05, 0xc0, 0xd5, 0xbd, 0x97, 0x20, 0x7e, 0x6f, 0x24, 0xe5, 0x37, 0x56]),
    (40952, [0x2a, 0xf4, 0x93, 0xfc, 0x17, 0x0d, 0xd4, 0xee, 0x47, 0xe9, 0x0c, 0x99, 0x30, 0xc3, 0x44, 0xc9]),
    (40953, [0xab, 0xa0, 0xa0, 0x98, 0x20, 0x7b, 0xfc, 0xbd, 0x80, 0x5e, 0x21, 0x42, 0x07, 0x55, 0xce, 0xd9]),
    (40954, [0x3a, 0x04, 0xd2, 0x31, 0x92, 0x97, 0x1e, 0x9a, 0x09, 0x83, 0x6a, 0xd9, 0x0e, 0xbc, 0x28, 0x9d]),
    (40955, [0xff, 0xe0, 0xaf, 0x43, 0xde, 0xc5, 0x5f, 0x0c, 0xf4, 0x30, 0xb1, 0x4b, 0x20, 0xd5, 0x93, 0xad]),
    (41001, [0xce, 0xf7, 0xd1, 0xec, 0xd4, 0xfb, 0x29, 0x02, 0x5c, 0xfe, 0xfe, 0x79, 0x73, 0x81, 0xd1, 0x91]),
    (41002, [0x8c, 0xdd, 0x5f, 0xba, 0xa6, 0xa6, 0xac, 0x85, 0xfd, 0xd5, 0xdb, 0xb3, 0x79, 0x00, 0x96, 0x61]),
    (41003, [0xad, 0xb6, 0x20, 0x0c, 0x71, 0x95, 0xa6, 0xf4, 0x28, 0x2b, 0x53, 0x7a, 0x17, 0xf1, 0xf9, 0xe2]),
    (41004, [0xbc, 0xd8, 0xca, 0x2e, 0x4b, 0x7c, 0x59, 0x48, 0xa4, 0x0e, 0xf7, 0x50, 0xc1, 0x5f, 0x70, 0xfc]),
    (41005, [0x98, 0x22, 0x01, 0xc4, 0x24, 0xf5, 0x27, 0xe9, 0x8e, 0x44, 0x8e, 0x12, 0x25, 0x4b, 0x67, 0xad]),
    (41011, [0x0e, 0x6d, 0x8f, 0xc4, 0x57, 0x6a, 0x42, 0x9f, 0x02, 0x32, 0xd3, 0xae, 0x61, 0xc7, 0xfa, 0x26]),
    (41012, [0xd0, 0xf6, 0xbb, 0x56, 0x06, 0x22, 0xda, 0x99, 0xd1, 0x23, 0x28, 0x24, 0x3c, 0x07, 0xc3, 0xa5]),
    (41013, [0xa1, 0xd6, 0xd1, 0xdc, 0xf9, 0x07, 0x2c, 0xeb, 0x8c, 0xa1, 0x37, 0x8d, 0xe0, 0xd7, 0xb0, 0x9f]),
    (41016, [0xfd, 0x5d, 0xe0, 0x4b, 0xf4, 0xd7, 0x59, 0x99, 0x63, 0xff, 0xf0, 0xeb, 0x6b, 0x4a, 0x6f, 0x6e]),
    (41017, [0xb7, 0x9f, 0x28, 0x37, 0x88, 0x5a, 0x90, 0x21, 0xed, 0xde, 0x21, 0x08, 0x7e, 0xd0, 0xa1, 0xc2]),
    (41018, [0x0a, 0x0f, 0xff, 0xdb, 0x40, 0x4b, 0xba, 0x6c, 0xe9, 0x34, 0x1d, 0x7e, 0xea, 0x4b, 0xf6, 0x28]),
    (41019, [0x61, 0x4a, 0x84, 0x4b, 0x84, 0xea, 0x9b, 0x59, 0xae, 0x2b, 0xfd, 0x4e, 0xea, 0x21, 0xb0, 0x01]),
    (41031, [0x6d, 0x86, 0x17, 0x14, 0x2c, 0x2b, 0x67, 0xc4, 0x8d, 0xa8, 0xf1, 0x10, 0x48, 0x2a, 0x69, 0xed]),
    (41041, [0x79, 0xb6, 0xf2, 0x61, 0x91, 0x0e, 0x68, 0x82, 0xa8, 0x01, 0x12, 0x37, 0xa2, 0x40, 0xe7, 0x0d]),
    (41045, [0x4a, 0x9a, 0x14, 0x53, 0x7c, 0x2c, 0xe6, 0x8f, 0x00, 0x31, 0xad, 0x2e, 0x96, 0xf7, 0x02, 0x01]),
    (41046, [0x82, 0x7a, 0x51, 0xed, 0x00, 0x93, 0x3d, 0xc4, 0x7e, 0x7c, 0x3c, 0x65, 0xbd, 0x63, 0x9b, 0xbb]),
    (41071, [0x0c, 0x69, 0xae, 0xd3, 0xc3, 0x06, 0xb4, 0xf7, 0x36, 0x83, 0x57, 0xce, 0x4e, 0x29, 0x64, 0x6b]),
    (41072, [0xec, 0x8c, 0x84, 0xb6, 0xed, 0x37, 0xe0, 0x4e, 0x71, 0xdd, 0x0d, 0x0c, 0x94, 0x0e, 0x5a, 0xfb]),
    (41073, [0x91, 0x64, 0xb5, 0xee, 0x48, 0xdc, 0x99, 0x93, 0x6d, 0x56, 0x96, 0x50, 0x47, 0x4c, 0xf2, 0xe8]),
    (41074, [0x03, 0x1f, 0xb1, 0xb1, 0x58, 0x46, 0x0c, 0xee, 0x43, 0x08, 0x9a, 0x16, 0x7f, 0x8a, 0x94, 0x0c]),
    (41075, [0x33, 0x6c, 0xa7, 0x8f, 0xba, 0xd1, 0x7b, 0x80, 0xb7, 0xcf, 0x1c, 0x1e, 0x5b, 0x45, 0x35, 0x22]),
    (41076, [0x74, 0x70, 0x04, 0x74, 0x5e, 0x3d, 0x29, 0xf3, 0x2a, 0x7e, 0xfd, 0x70, 0x28, 0xa1, 0xc2, 0x80]),
    (41077, [0x81, 0x69, 0xa9, 0x26, 0xe3, 0xbc, 0x85, 0x02, 0xb1, 0x89, 0x27, 0xcf, 0x95, 0xf1, 0x73, 0x65]),
    (41078, [0xed, 0x76, 0x07, 0x1f, 0x49, 0xf7, 0x01, 0xf8, 0xd1, 0x27, 0x00, 0x01, 0x2c, 0x33, 0xa2, 0x65]),
    (41079, [0xf6, 0xed, 0xf7, 0x3f, 0xd7, 0x8a, 0x05, 0x68, 0xc6, 0xb4, 0x5f, 0x1f, 0xec, 0x3f, 0x36, 0xc0]),
    (41081, [0x13, 0x84, 0x12, 0xf3, 0x98, 0xa7, 0xf2, 0x1d, 0xed, 0xbd, 0x28, 0x7e, 0xff, 0xb4, 0x14, 0xe1]),
    (41082, [0x7c, 0xef, 0x17, 0xae, 0xb7, 0x1f, 0xdb, 0x9d, 0xb6, 0x36, 0xab, 0xfa, 0x14, 0xd5, 0x74, 0x61]),
    (41083, [0xe4, 0x2f, 0xe5, 0x5a, 0x5f, 0x40, 0xf9, 0x7e, 0xe4, 0x12, 0x0a, 0x0a, 0x4e, 0x38, 0xc4, 0xa4]),
    (41091, [0xac, 0x7a, 0x83, 0x98, 0x12, 0x39, 0x48, 0x59, 0x1f, 0xc1, 0x9a, 0xf2, 0xb9, 0x09, 0xd8, 0xb4]),
    (41092, [0xbc, 0x14, 0x4e, 0x62, 0x71, 0xc2, 0x61, 0xbe, 0x93, 0xce, 0x5b, 0x54, 0xbd, 0x55, 0xb7, 0xfa]),
    (41302, [0xd8, 0x8d, 0x6c, 0x31, 0x99, 0x86, 0xaf, 0xf5, 0x10, 0x12, 0xec, 0x61, 0x0a, 0xaf, 0xad, 0xe2]),
    (41303, [0x6f, 0xbe, 0x6e, 0x91, 0xa3, 0x6a, 0x0e, 0x49, 0x24, 0x34, 0x92, 0x5d, 0x38, 0x7d, 0xd3, 0x7c]),
    (41304, [0xcf, 0xde, 0x3f, 0x98, 0x07, 0x77, 0x6d, 0x2c, 0xf6, 0xdb, 0x4b, 0x54, 0xd2, 0x96, 0xd5, 0x17]),
    (41741, [0x55, 0x1e, 0xc5, 0xd3, 0x21, 0x2b, 0x20, 0x61, 0x5b, 0xc3, 0xde, 0xde, 0x83, 0x4a, 0x9c, 0x01]),
    (41742, [0x73, 0x0a, 0x9a, 0xc8, 0xa7, 0xf8, 0x65, 0xbc, 0x34, 0xda, 0x4a, 0x67, 0x91, 0x28, 0xdc, 0x35]),
    (41743, [0xbb, 0x9f, 0x32, 0x95, 0x42, 0x7b, 0xa2, 0xce, 0xcd, 0x3e, 0x58, 0x2a, 0x00, 0xfd, 0x7d, 0x22]),
    (41744, [0xfa, 0xf5, 0x48, 0x36, 0x38, 0xf4, 0x86, 0x1e, 0x37, 0xe1, 0x2c, 0xa5, 0x71, 0x60, 0x5d, 0x6e]),
    (41745, [0x7f, 0x36, 0x9f, 0x05, 0x0f, 0x98, 0xa3, 0x8a, 0xfd, 0x49, 0x23, 0xa5, 0x98, 0xf7, 0x86, 0x32]),
    (41746, [0x3c, 0x8a, 0xb2, 0x37, 0xbe, 0xfc, 0x96, 0x86, 0x54, 0xfc, 0xad, 0x7f, 0xa7, 0x8e, 0x60, 0xdf]),
    (41747, [0x0e, 0xab, 0x92, 0x6a, 0xed, 0x5e, 0xc8, 0xb7, 0xe8, 0x9c, 0xab, 0x85, 0xf6, 0xd4, 0x6e, 0x72]),
    (41751, [0xac, 0xb8, 0x99, 0x82, 0x88, 0x4a, 0x56, 0x23, 0xc0, 0xb0, 0x96, 0xa4, 0x03, 0xfe, 0x27, 0xf8]),
    (41752, [0xf6, 0xd0, 0x7b, 0xe1, 0x4c, 0x61, 0x7f, 0xd1, 0x47, 0xe3, 0x61, 0xf3, 0xbe, 0xf3, 0xa6, 0xed]),
    (41753, [0xf5, 0xb0, 0x37, 0x11, 0x88, 0xe5, 0xa5, 0xaf, 0xd9, 0x3b, 0xb5, 0xb0, 0x96, 0xa3, 0x15, 0x42]),
    (41801, [0x4f, 0xad, 0x3a, 0x6d, 0xcc, 0xc0, 0x11, 0x99, 0x7e, 0x22, 0xe2, 0xa6, 0x71, 0xf3, 0x1e, 0x80]),
    (41802, [0xd9, 0x20, 0x4a, 0x04, 0x6c, 0x06, 0xb5, 0x90, 0xec, 0x81, 0x9e, 0x86, 0x12, 0x8e, 0x64, 0x4a]),
    (41803, [0xe9, 0x7d, 0x8d, 0x52, 0x0d, 0xe2, 0x9c, 0xec, 0xf2, 0x46, 0xeb, 0xbf, 0x9f, 0xac, 0xf1, 0x9b]),
    (41804, [0xba, 0x3b, 0xd7, 0xab, 0x3f, 0xd6, 0xeb, 0xce, 0x5f, 0x36, 0xdb, 0x5e, 0xf4, 0x3b, 0xa3, 0x12]),
    (41805, [0xf7, 0x5a, 0x99, 0xab, 0x04, 0x96, 0x13, 0x54, 0x8f, 0x1f, 0x1a, 0xae, 0xb0, 0x80, 0x2d, 0x29]),
    (41806, [0x9d, 0x16, 0x55, 0xe1, 0x84, 0x4d, 0x96, 0x92, 0xfb, 0xd3, 0x2c, 0xbe, 0x7a, 0xd4, 0x86, 0xe4]),
    (41807, [0x36, 0x16, 0x93, 0x3d, 0x7e, 0x6a, 0x0e, 0x48, 0xf1, 0xbc, 0xf7, 0x64, 0xa0, 0x49, 0x6f, 0xc9]),
    (41808, [0xc7, 0x0c, 0xe4, 0xd9, 0xa9, 0x3b, 0x3c, 0xfe, 0xa8, 0x90, 0xe0, 0x21, 0xa8, 0x26, 0xc5, 0xd2]),
    (41809, [0x20, 0x72, 0x19, 0x8e, 0x38, 0x66, 0xf0, 0x83, 0x9d, 0x0e, 0xf4, 0xff, 0x69, 0x07, 0xa2, 0xd6]),
    (41813, [0x5f, 0x8f, 0xc1, 0xf3, 0xbd, 0x9b, 0x98, 0x5f, 0xec, 0xa3, 0x50, 0x5e, 0x19, 0x8c, 0x97, 0x6d]),
    (41814, [0x43, 0x4a, 0x29, 0xdd, 0x3d, 0x0b, 0x85, 0xfc, 0x5c, 0x01, 0x3d, 0xf4, 0x5c, 0xfd, 0xb5, 0x7a]),
    (41815, [0xff, 0x38, 0x34, 0xe4, 0xca, 0xca, 0x24, 0xce, 0x1a, 0xd1, 0xa3, 0x32, 0xae, 0x94, 0xe3, 0xee]),
    (41816, [0xdf, 0x23, 0x2c, 0xcf, 0x9f, 0xf1, 0x40, 0x05, 0xc6, 0x94, 0x74, 0xe9, 0xcb, 0xe0, 0xbc, 0x62]),
    (42121, [0x40, 0x14, 0x72, 0x4c, 0x16, 0xd1, 0xa8, 0x80, 0x5c, 0xc8, 0x33, 0xe3, 0x96, 0x10, 0xc9, 0x08]),
    (42122, [0x39, 0x6d, 0xab, 0x45, 0xa6, 0x13, 0x5b, 0x51, 0xa6, 0x0b, 0x56, 0x0e, 0x33, 0xe7, 0x01, 0x92]),
    (42123, [0x2e, 0x69, 0x12, 0xaf, 0x97, 0x7d, 0x5f, 0xaa, 0x23, 0xfe, 0x94, 0x29, 0xeb, 0xa3, 0xd3, 0xc7]),
    (42124, [0x1c, 0x19, 0x22, 0xed, 0x21, 0x85, 0xcc, 0xe0, 0x71, 0x0d, 0x11, 0xef, 0x4a, 0xdf, 0xa0, 0xf3]),
    (42125, [0x21, 0x96, 0x7b, 0xa4, 0xcb, 0xf6, 0x62, 0x37, 0x50, 0x01, 0x63, 0x01, 0x3d, 0x66, 0xdd, 0xd1]),
    (42126, [0x77, 0x00, 0xce, 0x42, 0xff, 0xa1, 0x98, 0xc3, 0xd2, 0xb6, 0x8a, 0x58, 0xba, 0xcd, 0x69, 0xbf]),
    (42127, [0xd4, 0xe8, 0xce, 0x82, 0xce, 0x4d, 0x14, 0x17, 0x2e, 0xcf, 0x48, 0xf2, 0x35, 0x31, 0x0b, 0x7c]),
    (42129, [0x11, 0xed, 0x69, 0xed, 0x74, 0x38, 0xa6, 0x8d, 0xb4, 0xed, 0x75, 0x97, 0x6d, 0xa9, 0xf3, 0x0e]),
    (42141, [0xdd, 0x94, 0x21, 0x56, 0xa2, 0x65, 0xcf, 0x46, 0x2f, 0xd6, 0xee, 0xca, 0xa1, 0xce, 0xd1, 0x4a]),
    (42142, [0x79, 0xee, 0xde, 0xa7, 0xf2, 0xfc, 0x5b, 0xb2, 0x5a, 0x00, 0xb5, 0xbe, 0x6d, 0x05, 0x45, 0xda]),
    (42143, [0x3b, 0x46, 0x5a, 0x7e, 0xb5, 0xe9, 0x09, 0xf6, 0xeb, 0xc8, 0xb8, 0xb7, 0xe1, 0x8d, 0x79, 0xf5]),
    (42144, [0x62, 0x7a, 0x9d, 0x4c, 0xfd, 0xc2, 0x49, 0xfb, 0x84, 0x46, 0xfe, 0x5d, 0xfd, 0x77, 0x8f, 0x3e]),
    (42145, [0xd6, 0xfa, 0xb4, 0x73, 0xc1, 0xc2, 0x3f, 0x21, 0x33, 0x47, 0x6b, 0x39, 0x76, 0x06, 0x39, 0x57]),
    (42146, [0x81, 0x31, 0xe8, 0x4a, 0x21, 0x31, 0x70, 0x6f, 0x91, 0x06, 0x19, 0x5a, 0xd9, 0xec, 0xea, 0x84]),
    (42148, [0x86, 0x74, 0x80, 0x0a, 0x01, 0x8e, 0x98, 0x92, 0xed, 0x9f, 0x97, 0xcd, 0x04, 0x3b, 0xcc, 0x86]),
    (42161, [0x58, 0x61, 0xa0, 0x24, 0xef, 0xd5, 0x94, 0xf2, 0x37, 0x00, 0x97, 0x5c, 0x8d, 0xd8, 0x24, 0x24]),
    (42171, [0x56, 0xe3, 0x7d, 0x11, 0x4b, 0x59, 0xef, 0xa1, 0xad, 0x46, 0xbb, 0xa0, 0xe5, 0x0e, 0xce, 0x95]),
    (42232, [0x96, 0xed, 0xc9, 0xdf, 0x64, 0x0f, 0x2f, 0x40, 0x6a, 0xfa, 0x09, 0x0a, 0xfd, 0x05, 0xcd, 0xbb]),
    (42301, [0xcf, 0x11, 0x52, 0x67, 0x6b, 0x3d, 0xe7, 0x91, 0xe4, 0x59, 0xe5, 0x6f, 0x63, 0xfe, 0x50, 0x92]),
    (42302, [0xae, 0x33, 0x11, 0xc3, 0x9a, 0xcf, 0xfb, 0xf6, 0xf8, 0xc4, 0xb5, 0xc4, 0xd2, 0x49, 0xae, 0xb7]),
    (42321, [0x21, 0xcc, 0xf0, 0x54, 0x0b, 0x78, 0xa8, 0x4a, 0x77, 0xe9, 0x85, 0xd5, 0xec, 0x26, 0x36, 0x40]),
    (42501, [0x06, 0xf7, 0x8e, 0xcb, 0xac, 0x49, 0xa5, 0x22, 0x4d, 0x25, 0xf3, 0xd3, 0x80, 0xad, 0x8c, 0xda]),
    (42641, [0x7e, 0xdd, 0x6a, 0x0c, 0x50, 0x6a, 0x12, 0x9d, 0x92, 0x8f, 0xb2, 0x6f, 0x39, 0x1f, 0x79, 0xfc]),
    (42642, [0xd2, 0x39, 0xca, 0x79, 0x62, 0xb3, 0x5c, 0xab, 0xd6, 0xad, 0xc3, 0x0a, 0xec, 0x20, 0x50, 0xa9]),
    (42643, [0x6b, 0x08, 0xbb, 0x54, 0xd8, 0x99, 0xfd, 0xe9, 0xdb, 0x1c, 0x19, 0x2d, 0xf4, 0x0a, 0xe6, 0x76]),
    (42644, [0xe2, 0xae, 0xec, 0xef, 0x2a, 0xe2, 0xf7, 0x3e, 0xf6, 0x85, 0xcd, 0xcc, 0x57, 0x73, 0xb6, 0xf5]),
    (42645, [0x4c, 0xa6, 0x48, 0x0f, 0x6a, 0x96, 0xb4, 0xc3, 0xad, 0x80, 0x68, 0x5c, 0x46, 0x97, 0x1e, 0xe1]),
    (42646, [0x75, 0x77, 0x3c, 0xd1, 0x32, 0x6d, 0xa3, 0x83, 0xcd, 0x16, 0x20, 0x65, 0x55, 0x68, 0xd4, 0x38]),
    (42651, [0x8d, 0xb2, 0x57, 0x8a, 0xc4, 0xaf, 0x61, 0x22, 0x7a, 0x0f, 0x94, 0xdb, 0x90, 0x61, 0x5c, 0xe7]),
    (42652, [0xf2, 0x5b, 0x88, 0x1c, 0xb5, 0xcf, 0x79, 0x65, 0xaf, 0x0c, 0x09, 0x16, 0xac, 0xde, 0x30, 0x79]),
    (42653, [0x83, 0xca, 0x00, 0x0b, 0x28, 0x80, 0x1d, 0x65, 0xa4, 0xab, 0x7a, 0x36, 0x0a, 0x23, 0xfd, 0x62]),
    (42654, [0x1a, 0x9f, 0x0f, 0x13, 0x80, 0x3e, 0xf4, 0xb7, 0xc6, 0x3c, 0x47, 0xfb, 0xcd, 0x00, 0xae, 0x16]),
    (42655, [0xa4, 0x58, 0x6c, 0x13, 0x37, 0x60, 0xd0, 0x64, 0x31, 0x43, 0x22, 0x09, 0xc9, 0x00, 0xbe, 0x24]),
    (42681, [0xc9, 0x3f, 0x3f, 0x79, 0x4c, 0xd9, 0x64, 0x5f, 0xdd, 0xa9, 0x52, 0x12, 0xab, 0x5a, 0x24, 0x92]),
    (42682, [0x1e, 0x10, 0xb3, 0x8b, 0xda, 0x9a, 0x64, 0x7f, 0xf2, 0x6d, 0x02, 0x8f, 0x37, 0xab, 0x53, 0x3b]),
    (42683, [0xa6, 0xf2, 0x48, 0x47, 0xb2, 0x13, 0xb5, 0xb3, 0x3c, 0xbe, 0xee, 0x6f, 0x9b, 0x2f, 0xae, 0x0c]),
    (42684, [0x95, 0x13, 0xe1, 0x5a, 0xde, 0xcb, 0x53, 0x50, 0xcb, 0xa6, 0xa8, 0x2f, 0x5d, 0x86, 0xd3, 0x1d]),
    (42685, [0x89, 0x08, 0x1a, 0x5b, 0x8b, 0x7a, 0xc8, 0x0f, 0x62, 0x81, 0xce, 0x55, 0xe5, 0x4b, 0xc3, 0xaa]),
    (42686, [0xe8, 0x2d, 0x9a, 0x2e, 0xe0, 0x4f, 0xe9, 0x21, 0x63, 0x68, 0x7e, 0x0e, 0x73, 0x47, 0xf1, 0xa1]),
    (42687, [0xbd, 0x47, 0x5f, 0x25, 0xca, 0xfd, 0x35, 0xca, 0x85, 0xe5, 0xdc, 0x76, 0xee, 0x0e, 0xb1, 0x82]),
    (42688, [0xec, 0x37, 0x57, 0xc3, 0x1c, 0x33, 0xfa, 0x9d, 0xfa, 0x92, 0xbd, 0xf2, 0x20, 0x26, 0x8e, 0xc7]),
    (42689, [0x0a, 0xce, 0x3e, 0xc2, 0xc0, 0xed, 0xe8, 0xde, 0x9c, 0x5a, 0x2b, 0x5a, 0x41, 0xa2, 0xc1, 0x64])]"

definition TABLE_13 :: "key_entry list" where
  "TABLE_13 = [
    (42691, [0x9a, 0xcd, 0x64, 0xf1, 0xe3, 0xb5, 0x2f, 0x8a, 0xcb, 0xe2, 0x0a, 0x1a, 0xf7, 0xd2, 0x1b, 0xc5]),
    (42692, [0x0d, 0xfc, 0xf1, 0x75, 0xee, 0x6f, 0x45, 0x42, 0x4c, 0xe0, 0x9e, 0x17, 0x4c, 0xb4, 0xe3, 0x76]),
    (42695, [0x0b, 0x62, 0xf3, 0x1b, 0x1b, 0x44, 0xb5, 0x05, 0xf1, 0x07, 0xd4, 0x18, 0x5f, 0x6d, 0x3b, 0xa1]),
    (42696, [0x71, 0x2f, 0xcd, 0x58, 0xb4, 0x60, 0x1b, 0x09, 0xb7, 0x08, 0xbd, 0x3c, 0xb5, 0xc6, 0x25, 0xa4]),
    (42697, [0x94, 0x69, 0x38, 0x47, 0xa1, 0x4f, 0x22, 0x61, 0xf6, 0xbc, 0x55, 0x8c, 0xac, 0x2c, 0xa0, 0xc4]),
    (42698, [0x67, 0x9b, 0x20, 0x2a, 0x09, 0x47, 0x71, 0xb0, 0x92, 0x5a, 0x9c, 0xcb, 0xb1, 0xf4, 0x99, 0x52]),
    (42701, [0xba, 0xd1, 0xec, 0x97, 0xbb, 0x5f, 0xb3, 0x9a, 0x08, 0xd7, 0x0a, 0xed, 0xab, 0x23, 0x9d, 0xdc]),
    (42702, [0xac, 0x17, 0xfb, 0xae, 0x01, 0x3e, 0xb5, 0xd5, 0xa5, 0x49, 0xeb, 0xf9, 0x90, 0x7c, 0x78, 0xa5]),
    (42703, [0xc0, 0xba, 0x2d, 0x52, 0xfe, 0xd2, 0x9e, 0x66, 0x79, 0x54, 0x51, 0xa5, 0xc3, 0x7d, 0xf2, 0x2d]),
    (42704, [0xe8, 0x83, 0xc4, 0x4f, 0x72, 0xb3, 0xab, 0x46, 0xaa, 0x9c, 0x42, 0xa1, 0x5b, 0x62, 0x8f, 0xfa]),
    (42705, [0xf4, 0xeb, 0x05, 0xb5, 0x2c, 0x2a, 0x24, 0x91, 0xd8, 0x34, 0xda, 0x6b, 0xd2, 0xd2, 0x9d, 0x7f]),
    (42706, [0x89, 0x35, 0xaa, 0xb5, 0x4a, 0x98, 0xa0, 0x29, 0xde, 0x04, 0x14, 0x73, 0x44, 0xc4, 0x55, 0x10]),
    (42707, [0xf3, 0x16, 0x8f, 0xcf, 0x47, 0xce, 0xfb, 0xab, 0xf7, 0xec, 0x80, 0xa1, 0x74, 0xc8, 0xac, 0xd6]),
    (42708, [0xc0, 0x99, 0x4b, 0xbb, 0x33, 0xe5, 0x9c, 0x89, 0xae, 0xec, 0x16, 0x3b, 0x67, 0xea, 0xb2, 0xdb]),
    (42709, [0xd9, 0xad, 0x91, 0xa8, 0xdb, 0x32, 0x58, 0xc4, 0xc8, 0x21, 0x0d, 0x50, 0x5d, 0xcb, 0x0f, 0x70]),
    (42711, [0x36, 0x37, 0x2e, 0xe1, 0x50, 0x9a, 0x01, 0xbd, 0xbc, 0xc6, 0x4d, 0x9a, 0x2a, 0x7d, 0xa6, 0x66]),
    (42712, [0xe3, 0xef, 0xf7, 0x05, 0x4b, 0x11, 0xa0, 0x45, 0x06, 0x36, 0x29, 0x8e, 0xe3, 0xb2, 0x33, 0xea]),
    (42713, [0x29, 0x7b, 0xb4, 0x2a, 0x5f, 0x65, 0x89, 0x57, 0xcd, 0x10, 0xbe, 0x98, 0x7e, 0x88, 0x18, 0xc6]),
    (42714, [0xf5, 0xc1, 0x49, 0x03, 0xc2, 0xb9, 0x7f, 0xb3, 0xc3, 0x74, 0x36, 0x27, 0x3b, 0xd8, 0x15, 0xa4]),
    (42715, [0x0d, 0xc7, 0x1c, 0x47, 0x7d, 0xd0, 0xe7, 0x3d, 0x79, 0x94, 0x73, 0x90, 0x02, 0x51, 0xd5, 0xba]),
    (42716, [0x5d, 0x49, 0x01, 0xf8, 0x3c, 0x49, 0x66, 0x23, 0x02, 0x3d, 0x76, 0x1d, 0x34, 0x9e, 0x23, 0xf4]),
    (42717, [0x85, 0x33, 0x6e, 0x08, 0x7a, 0x1a, 0x72, 0xee, 0xf5, 0xeb, 0x22, 0xe5, 0x29, 0x7c, 0xec, 0x31]),
    (42718, [0x9e, 0xd5, 0xd3, 0xcb, 0x0d, 0xa3, 0x35, 0x5f, 0x0f, 0xdc, 0xae, 0x1f, 0x56, 0x32, 0x82, 0x32]),
    (42719, [0xbb, 0x63, 0xac, 0x57, 0xea, 0xe2, 0xe3, 0xbb, 0xff, 0x81, 0xff, 0xd1, 0x6e, 0xd1, 0x30, 0xc3]),
    (42722, [0xe8, 0x8e, 0xce, 0x6d, 0xd1, 0xb7, 0x3d, 0x00, 0xb3, 0xe8, 0x26, 0x61, 0xa1, 0xe2, 0x79, 0xc7]),
    (42723, [0x16, 0x4c, 0x3a, 0x3e, 0x3d, 0x9f, 0x35, 0x92, 0x24, 0xe7, 0xf6, 0x24, 0xbd, 0x72, 0xe8, 0x25]),
    (42731, [0xfb, 0x24, 0x93, 0xc8, 0x45, 0xb7, 0xca, 0xd6, 0x1c, 0xc7, 0x28, 0xb6, 0x9f, 0x87, 0x11, 0xb6]),
    (42732, [0x98, 0x0b, 0x37, 0xd1, 0xc3, 0x67, 0x2a, 0xe7, 0xe6, 0x3e, 0x57, 0x79, 0x35, 0xca, 0xe3, 0xb1]),
    (42733, [0xa0, 0x6d, 0xf7, 0x2b, 0xa5, 0xe9, 0xc0, 0xb2, 0x9d, 0x2b, 0xb3, 0xe4, 0xee, 0xff, 0x86, 0x4f]),
    (42741, [0x71, 0x7c, 0xd0, 0x7e, 0x09, 0xb2, 0x61, 0x18, 0x14, 0x4c, 0xac, 0x57, 0x8e, 0xf0, 0x4f, 0xfe]),
    (42751, [0x0a, 0x6c, 0x90, 0x01, 0x9e, 0xd1, 0x34, 0x4b, 0xdf, 0xe1, 0x0d, 0xc7, 0x2b, 0x21, 0xe0, 0xbd]),
    (42905, [0x69, 0x22, 0x27, 0x05, 0xcd, 0x1d, 0x10, 0x0e, 0xdc, 0x9d, 0x07, 0x8d, 0x7d, 0xae, 0x45, 0xfe]),
    (42911, [0xd1, 0xd7, 0x89, 0xed, 0x0c, 0xcb, 0x86, 0x87, 0xfa, 0x99, 0xda, 0x64, 0x00, 0x35, 0x3a, 0x3d]),
    (42912, [0x7b, 0x74, 0x04, 0x7d, 0x90, 0xb0, 0x2b, 0x33, 0xff, 0x11, 0xc5, 0x32, 0x0d, 0xf1, 0x2e, 0x27]),
    (42913, [0x7e, 0xa4, 0xbf, 0x3d, 0xc8, 0xb9, 0xa4, 0x5e, 0xb9, 0xb5, 0xa5, 0x7b, 0x6e, 0x8f, 0xd6, 0xdd]),
    (42915, [0xe4, 0x6a, 0xcf, 0xef, 0x99, 0x15, 0xe4, 0x52, 0x36, 0x9d, 0xf3, 0xbf, 0x8a, 0xc1, 0x0a, 0x5f]),
    (42916, [0x11, 0xed, 0x69, 0xed, 0x74, 0x38, 0xa6, 0x8d, 0xb4, 0xed, 0x75, 0x97, 0x6d, 0xa9, 0xf3, 0x0e]),
    (42919, [0x11, 0xed, 0x69, 0xed, 0x74, 0x38, 0xa6, 0x8d, 0xb4, 0xed, 0x75, 0x97, 0x6d, 0xa9, 0xf3, 0x0e]),
    (42921, [0x3a, 0x91, 0x68, 0xc4, 0x72, 0xb3, 0x04, 0xf2, 0x89, 0x11, 0xb2, 0xa8, 0x67, 0x09, 0x55, 0x21]),
    (42922, [0x36, 0x2b, 0xc4, 0x2c, 0x8c, 0xc1, 0x6c, 0xaf, 0x39, 0x71, 0x40, 0xbc, 0x9f, 0x78, 0xee, 0x03]),
    (42923, [0xaa, 0xef, 0x14, 0x79, 0xa0, 0x26, 0x7d, 0xba, 0x48, 0x69, 0xf8, 0xe4, 0x7a, 0x79, 0xff, 0x4f]),
    (42924, [0x05, 0x7f, 0x9e, 0xc9, 0xd2, 0xff, 0x74, 0xd8, 0xc1, 0xb4, 0x46, 0x1d, 0xb2, 0x58, 0x95, 0x1d]),
    (42925, [0xc8, 0xfc, 0x17, 0x5f, 0x01, 0xf8, 0xcd, 0x0c, 0x7a, 0xa1, 0x46, 0x36, 0xa5, 0x99, 0xc5, 0x1d]),
    (42927, [0xba, 0xc7, 0x62, 0x9a, 0xab, 0x51, 0x9d, 0x9c, 0xb8, 0x84, 0xf9, 0xf9, 0x9f, 0x09, 0xf0, 0xbf]),
    (42928, [0x0b, 0xf3, 0xf8, 0x16, 0xc5, 0x2e, 0x46, 0x2f, 0xaa, 0x1e, 0x29, 0x2f, 0x9a, 0x1c, 0x48, 0xc2]),
    (42929, [0x13, 0x07, 0x91, 0xc3, 0xe8, 0x68, 0xaa, 0xee, 0xf3, 0xdb, 0x56, 0xf7, 0xee, 0xb4, 0xa0, 0xf9]),
    (42965, [0xc0, 0x6b, 0x79, 0xaa, 0xf6, 0x91, 0xb9, 0x21, 0x85, 0x63, 0x05, 0x85, 0xb4, 0x06, 0xa1, 0xfe]),
    (42966, [0xa0, 0xe4, 0x6e, 0xef, 0xd1, 0x1b, 0x8e, 0x5c, 0xa0, 0x86, 0x0f, 0x3c, 0xd9, 0xc6, 0xa0, 0x89]),
    (42967, [0x6d, 0x81, 0x05, 0xce, 0xcf, 0xb5, 0xa8, 0xdb, 0x85, 0x63, 0x9c, 0xe4, 0x79, 0xc6, 0xe6, 0x72]),
    (42968, [0x76, 0x69, 0x3b, 0x21, 0xa5, 0xdd, 0xfa, 0xe7, 0xd2, 0xef, 0x8f, 0xe3, 0xe4, 0xda, 0x3e, 0x93]),
    (42992, [0x75, 0x2d, 0xf2, 0x17, 0x06, 0x46, 0xec, 0xa6, 0x62, 0xc8, 0x6a, 0x8f, 0x9e, 0x93, 0xf3, 0x25]),
    (43001, [0xa7, 0x3d, 0x80, 0xf5, 0x62, 0xfc, 0xca, 0x69, 0x11, 0xb9, 0xe5, 0x10, 0x95, 0xb1, 0xbb, 0x8e]),
    (43002, [0xd4, 0x15, 0x19, 0x09, 0xf5, 0x4c, 0x61, 0x89, 0x56, 0xd1, 0xb2, 0x1f, 0xdc, 0x1a, 0x25, 0xfe]),
    (43003, [0x43, 0xab, 0x75, 0x1f, 0xd3, 0x9a, 0xc5, 0xe8, 0x80, 0xeb, 0x83, 0x9f, 0x4d, 0x7c, 0xcc, 0x53]),
    (43004, [0x8c, 0xb0, 0x3c, 0xac, 0x12, 0xf6, 0x4a, 0xdf, 0x39, 0xd1, 0xec, 0x57, 0xe3, 0x21, 0x23, 0x35]),
    (43005, [0xb9, 0x33, 0xac, 0x4b, 0x6e, 0x86, 0xc7, 0x63, 0x4b, 0x48, 0x45, 0xe3, 0x16, 0x01, 0x4b, 0x23]),
    (43006, [0x3c, 0xe7, 0x77, 0xba, 0xd4, 0x0a, 0x52, 0x72, 0x73, 0x34, 0x68, 0xf4, 0x27, 0x94, 0xc7, 0xda]),
    (43007, [0x29, 0xe2, 0x59, 0xbf, 0xac, 0x4d, 0x52, 0x16, 0x4b, 0x98, 0x84, 0x94, 0x8c, 0x2c, 0x49, 0x3a]),
    (43008, [0x98, 0x49, 0x61, 0x4d, 0x2a, 0x6e, 0x22, 0x19, 0x72, 0xc8, 0x1d, 0xdf, 0x5c, 0x3b, 0x22, 0xec]),
    (43009, [0x9f, 0xa7, 0x82, 0x70, 0xae, 0x00, 0x36, 0x13, 0x76, 0xcb, 0xe2, 0x33, 0xd0, 0x7e, 0x68, 0x8d]),
    (43010, [0x0e, 0x17, 0xb0, 0xdb, 0x66, 0xe9, 0x84, 0x53, 0x0c, 0xe2, 0xcb, 0xcc, 0x94, 0x2e, 0x49, 0xaf]),
    (43111, [0xda, 0x42, 0xe7, 0xc2, 0xd3, 0x1f, 0x1e, 0x9f, 0x7d, 0xf0, 0xae, 0xe5, 0x03, 0xdc, 0x65, 0x10]),
    (43112, [0x7b, 0xed, 0x6e, 0x61, 0xfe, 0x06, 0x0a, 0x64, 0xba, 0xe0, 0xff, 0xd9, 0x0e, 0xdd, 0x35, 0xe8]),
    (43113, [0x0e, 0xc3, 0xf2, 0xda, 0x5a, 0xbb, 0xc5, 0x24, 0xa1, 0xf9, 0xea, 0xcb, 0x90, 0xa3, 0xaf, 0x99]),
    (43114, [0xab, 0xbf, 0x87, 0x39, 0x25, 0xfc, 0x10, 0x0d, 0xfe, 0x01, 0xea, 0x83, 0x38, 0xf4, 0xd0, 0x9e]),
    (43115, [0xd5, 0x2d, 0x6f, 0xb9, 0xc5, 0x11, 0xf6, 0xf7, 0x77, 0xdc, 0x0b, 0x11, 0xa8, 0x27, 0xb9, 0x1f]),
    (43116, [0x71, 0x98, 0x6c, 0x1f, 0x39, 0x6f, 0xf3, 0x87, 0xb3, 0x93, 0x5f, 0x59, 0x52, 0x72, 0xc1, 0xbc]),
    (43191, [0x49, 0xa7, 0x0f, 0xb5, 0x8a, 0x68, 0xd7, 0x47, 0x37, 0x47, 0x99, 0xb4, 0xe0, 0x47, 0x91, 0xef]),
    (43192, [0x8d, 0x31, 0x6c, 0x8a, 0x37, 0x2a, 0xd3, 0xdf, 0x51, 0x66, 0xe9, 0xa5, 0x59, 0x8f, 0xba, 0x4e]),
    (43193, [0x8d, 0xd7, 0x15, 0x1d, 0x5b, 0x88, 0x69, 0xc3, 0x23, 0xc6, 0x2d, 0x2a, 0xd1, 0xcc, 0xbc, 0x36]),
    (43194, [0xa4, 0x7d, 0xe5, 0xd8, 0xba, 0xbb, 0xda, 0x14, 0x9f, 0xc4, 0x9f, 0x0b, 0xec, 0xff, 0x71, 0xb6]),
    (43195, [0xce, 0x30, 0x4c, 0x7f, 0xd7, 0xda, 0xbc, 0x6a, 0x02, 0x46, 0x92, 0xd9, 0x6a, 0x72, 0x2a, 0x99]),
    (43196, [0xba, 0x04, 0xd0, 0xdd, 0x05, 0x2b, 0x90, 0xf0, 0x0c, 0x47, 0x9a, 0x0e, 0x34, 0x62, 0xef, 0x85]),
    (43211, [0x5d, 0x00, 0x80, 0xd5, 0x5b, 0xd4, 0x2f, 0x8b, 0x80, 0x98, 0x9f, 0xcf, 0xdc, 0x39, 0xdc, 0x98]),
    (43502, [0x5a, 0x6c, 0xfa, 0x72, 0xaf, 0x75, 0xc4, 0x50, 0xa5, 0xe0, 0xa2, 0x31, 0xb1, 0x39, 0xba, 0x21]),
    (44001, [0xed, 0xd2, 0x6b, 0xfd, 0x18, 0xb7, 0xc5, 0x28, 0x13, 0x69, 0xbe, 0x99, 0x87, 0xb0, 0xca, 0x81]),
    (44111, [0xc0, 0xd7, 0x77, 0x16, 0xb7, 0xec, 0x77, 0x23, 0x06, 0x64, 0x06, 0x40, 0xba, 0x7b, 0x95, 0xaf]),
    (44311, [0xd1, 0xdf, 0x5b, 0x47, 0x60, 0x20, 0xb7, 0x4d, 0xd3, 0x15, 0x1b, 0x1d, 0x3b, 0x7e, 0x1c, 0x0a]),
    (44321, [0xa7, 0x7b, 0xb9, 0xd4, 0xa6, 0x39, 0x34, 0xbe, 0xee, 0x2b, 0x64, 0x83, 0xf5, 0x9d, 0xd7, 0x08]),
    (44361, [0xc6, 0xaf, 0x15, 0x79, 0xfc, 0xe3, 0x35, 0x29, 0x61, 0x31, 0x5b, 0x2f, 0x35, 0xac, 0x8f, 0x05]),
    (44362, [0x19, 0x34, 0xf1, 0x95, 0x47, 0xd1, 0x74, 0x0f, 0x38, 0x3e, 0x77, 0x41, 0x12, 0x89, 0x44, 0x19]),
    (44601, [0x91, 0x32, 0x39, 0xbb, 0xee, 0x75, 0xf3, 0x95, 0x71, 0x2c, 0x4c, 0x76, 0xeb, 0x31, 0x9f, 0xcb]),
    (44621, [0x72, 0x8e, 0x1f, 0xe1, 0x6e, 0xeb, 0xd2, 0x41, 0xd4, 0x53, 0xd9, 0x5b, 0x4a, 0x73, 0xbb, 0x83]),
    (44631, [0x7a, 0x7d, 0xe2, 0xc4, 0x84, 0x62, 0xe1, 0x93, 0x5e, 0x6c, 0x61, 0x6e, 0x67, 0xef, 0x9f, 0xc8]),
    (44651, [0xa8, 0xe0, 0x8b, 0xdb, 0xb9, 0x66, 0x81, 0xf7, 0x07, 0x95, 0x1b, 0xa1, 0x03, 0x00, 0xf8, 0x9d]),
    (44661, [0x18, 0x56, 0x0a, 0x78, 0xb6, 0x45, 0x2c, 0x79, 0xed, 0xf3, 0x0e, 0xe1, 0x23, 0x57, 0x96, 0x99]),
    (44671, [0xdc, 0x62, 0x27, 0x6c, 0xab, 0x66, 0x98, 0xdf, 0xdc, 0x2d, 0x37, 0xe5, 0xb7, 0x84, 0x9c, 0x0f]),
    (44681, [0x01, 0x96, 0x63, 0x5e, 0x5f, 0x58, 0x34, 0xcc, 0x6d, 0x29, 0xa3, 0x28, 0x40, 0x09, 0xbb, 0x73]),
    (44682, [0x57, 0x46, 0x0a, 0xc4, 0x40, 0x9c, 0xce, 0xb0, 0x85, 0xfc, 0x03, 0x96, 0x4c, 0x5c, 0xdd, 0x58]),
    (44683, [0xa6, 0x47, 0x92, 0x12, 0xad, 0x6b, 0x58, 0x22, 0x77, 0xa7, 0xee, 0xb6, 0x7e, 0xa3, 0x00, 0x4e]),
    (44684, [0x43, 0x7d, 0xb7, 0x19, 0x71, 0xb0, 0x05, 0xb4, 0x55, 0x69, 0x15, 0x33, 0x23, 0x4d, 0x40, 0x94]),
    (44701, [0xb6, 0xc3, 0x75, 0x3b, 0xee, 0xbe, 0xae, 0x91, 0x3a, 0x9a, 0x2b, 0xd4, 0xe7, 0x36, 0x21, 0x3f]),
    (44702, [0x4a, 0xf5, 0x5b, 0x10, 0x33, 0x5c, 0x56, 0x6e, 0x5e, 0xd9, 0x8c, 0xa5, 0x9d, 0xb6, 0x61, 0x6c]),
    (44711, [0xa3, 0x82, 0xec, 0xa5, 0xca, 0xee, 0x99, 0xd6, 0x01, 0x3a, 0xc0, 0xb9, 0x2a, 0x04, 0xea, 0x45]),
    (45001, [0x3f, 0xe8, 0xf9, 0x2e, 0x97, 0x80, 0x54, 0xf3, 0x7c, 0xd3, 0x2e, 0x68, 0x3e, 0xf7, 0xc4, 0xd4]),
    (45011, [0xe0, 0x0f, 0x96, 0xef, 0x54, 0x47, 0x74, 0x61, 0xe7, 0xd6, 0x99, 0x07, 0xc9, 0x6c, 0xee, 0xce]),
    (45407, [0x6b, 0xc3, 0x92, 0x80, 0x7b, 0xfe, 0x02, 0xd2, 0xe3, 0xbd, 0x8c, 0x4d, 0xee, 0xcc, 0x07, 0xf0]),
    (45408, [0x8b, 0x40, 0x92, 0x2d, 0xc0, 0x82, 0x1c, 0x9d, 0xe1, 0x2f, 0xc2, 0x00, 0xe2, 0xe5, 0xb1, 0xe3]),
    (45411, [0x52, 0xc6, 0x01, 0x87, 0x78, 0xdf, 0xd8, 0xe4, 0xf1, 0x8e, 0x32, 0x4d, 0x92, 0x1f, 0xe0, 0xdc]),
    (45412, [0x46, 0x50, 0xc3, 0x4c, 0x15, 0xfd, 0x5d, 0x77, 0x88, 0xab, 0x0e, 0x5d, 0x6c, 0xca, 0xe4, 0x6b]),
    (45413, [0xca, 0xce, 0xe5, 0x16, 0xc1, 0x11, 0xfc, 0x16, 0x98, 0x3f, 0x7e, 0x48, 0xde, 0xcd, 0xe8, 0x86]),
    (45414, [0xc2, 0xb3, 0xd2, 0x45, 0xe1, 0xb1, 0xff, 0x38, 0xd2, 0x45, 0x43, 0xff, 0xaa, 0x26, 0x9c, 0x3c]),
    (45415, [0xbf, 0x2e, 0xd5, 0xc1, 0x71, 0xd5, 0x49, 0x3b, 0xb3, 0x90, 0xe5, 0xd9, 0xee, 0x45, 0x93, 0x6b]),
    (45416, [0x50, 0xe5, 0x95, 0xae, 0x1c, 0x1c, 0x35, 0x8a, 0x27, 0x69, 0xee, 0x07, 0xc3, 0xc1, 0xc2, 0x20]),
    (45417, [0x98, 0xc0, 0x96, 0x60, 0xf2, 0x16, 0xbf, 0x67, 0x4a, 0x63, 0xfd, 0xe0, 0xa8, 0xea, 0x72, 0x7f]),
    (45418, [0x05, 0x1e, 0x86, 0x49, 0xe7, 0x58, 0x1e, 0x9d, 0xbe, 0xa5, 0xfb, 0xac, 0xd3, 0xcf, 0x75, 0x21]),
    (45419, [0xd9, 0x27, 0x81, 0xbe, 0x14, 0x95, 0x51, 0xf8, 0x88, 0x72, 0x3b, 0xfd, 0xf8, 0xdc, 0xfd, 0xd7]),
    (45431, [0x60, 0xb4, 0x71, 0x7a, 0x48, 0x20, 0xa9, 0xd6, 0x19, 0x82, 0x9a, 0x3e, 0x0f, 0xec, 0xd5, 0xfc]),
    (45432, [0x5e, 0x3f, 0xaa, 0xf6, 0x8d, 0x15, 0xc2, 0xd1, 0x18, 0x4c, 0x60, 0xb5, 0x68, 0xe4, 0x3d, 0xa4]),
    (45433, [0x22, 0xdc, 0x75, 0x94, 0xfd, 0x2e, 0x7c, 0xeb, 0x63, 0x2c, 0x6c, 0x17, 0x94, 0xed, 0xbb, 0xcd]),
    (45434, [0xa5, 0xf6, 0x24, 0xae, 0x8e, 0xbc, 0x23, 0x16, 0xde, 0x6b, 0xcb, 0xba, 0x3f, 0x76, 0xe0, 0xaa]),
    (45435, [0xf5, 0x69, 0x4f, 0xbb, 0x39, 0x17, 0xf0, 0xf0, 0x43, 0xd4, 0xf4, 0xd2, 0xeb, 0xfd, 0x78, 0x01]),
    (45436, [0x62, 0x16, 0xb6, 0xde, 0xaf, 0xcf, 0xa8, 0xae, 0xb7, 0x9a, 0x81, 0xc8, 0x75, 0x0a, 0x71, 0x4a]),
    (45437, [0x95, 0xce, 0x32, 0xc8, 0x26, 0x98, 0x58, 0xad, 0xae, 0xdd, 0xfd, 0x62, 0x00, 0x66, 0x71, 0x4d]),
    (45438, [0x81, 0xc2, 0xf8, 0x7a, 0xf2, 0x07, 0xe4, 0xb3, 0x31, 0xc3, 0x83, 0x45, 0xf7, 0x1c, 0x83, 0xb7]),
    (45439, [0x2a, 0x69, 0x8d, 0x2e, 0x06, 0x9b, 0x1c, 0x4c, 0x2e, 0xf4, 0x55, 0xef, 0x37, 0xb1, 0x3c, 0x43]),
    (45440, [0x95, 0xe1, 0x38, 0x8c, 0x5f, 0xa3, 0x80, 0xe0, 0x50, 0xe2, 0x28, 0x4c, 0x47, 0x04, 0x06, 0xb5]),
    (45441, [0xe4, 0xe2, 0x6d, 0x40, 0xff, 0x1e, 0x8d, 0x30, 0x55, 0x4a, 0x6d, 0xcd, 0x1a, 0xa5, 0x65, 0x36]),
    (45442, [0x7b, 0xf5, 0x6b, 0xd6, 0x0f, 0x5f, 0xd6, 0x90, 0x18, 0xcb, 0x2c, 0xa6, 0x2f, 0xb1, 0xbf, 0x0a]),
    (45451, [0xb3, 0xa3, 0x40, 0xad, 0x5e, 0x68, 0x71, 0xac, 0xa6, 0x64, 0x5a, 0xad, 0xc5, 0x57, 0x42, 0xec]),
    (45452, [0xb3, 0xa7, 0xfa, 0x12, 0xa9, 0xf0, 0x46, 0x46, 0x15, 0xf6, 0x1c, 0xc8, 0x1a, 0x92, 0x44, 0xdc]),
    (45453, [0x11, 0x30, 0xe5, 0x80, 0xf6, 0x5e, 0xed, 0x39, 0xe3, 0x26, 0x41, 0x0a, 0xa9, 0x8f, 0xdc, 0xb3]),
    (45454, [0xd2, 0x78, 0x2d, 0x61, 0xb2, 0x0d, 0x9a, 0xfa, 0x94, 0xc4, 0x48, 0x55, 0xf6, 0x8a, 0x43, 0x92]),
    (45455, [0x2e, 0x65, 0xa2, 0x4e, 0x2b, 0x91, 0x5f, 0x0d, 0x48, 0xc9, 0xdb, 0x47, 0x01, 0xf6, 0xce, 0xfd]),
    (45456, [0x34, 0x18, 0x6b, 0x45, 0x19, 0xed, 0xcc, 0x23, 0x22, 0x8c, 0x56, 0xb1, 0x24, 0x40, 0x9b, 0xc4]),
    (45457, [0x94, 0x02, 0x3a, 0x2e, 0xce, 0xad, 0x03, 0x6a, 0x80, 0x89, 0x50, 0x17, 0x86, 0x11, 0x2f, 0x0a]),
    (45459, [0xae, 0xc8, 0x08, 0x28, 0x1f, 0x2b, 0x5d, 0xd2, 0x5c, 0x43, 0xc7, 0xb2, 0x42, 0x2c, 0x15, 0x2d]),
    (45461, [0x9b, 0x66, 0x5c, 0x7a, 0x1f, 0x31, 0x92, 0x99, 0xc5, 0xdc, 0x2b, 0x1f, 0xbb, 0x96, 0xeb, 0x50]),
    (45462, [0x12, 0xc5, 0xdf, 0x4c, 0x82, 0x6b, 0x9f, 0xba, 0x03, 0xcb, 0x0f, 0x10, 0x0d, 0xb4, 0x97, 0xc5]),
    (45463, [0x40, 0x7a, 0x83, 0x78, 0x32, 0xea, 0xd1, 0x0a, 0xa2, 0x0a, 0x46, 0x0b, 0xb5, 0x4c, 0xb5, 0xf0]),
    (45464, [0x77, 0x37, 0x12, 0x4b, 0xa5, 0xfe, 0x8b, 0x91, 0x4c, 0x6f, 0x0f, 0xa8, 0x66, 0x24, 0xde, 0xf7]),
    (45465, [0xa7, 0x1d, 0x30, 0x49, 0x74, 0x6f, 0x80, 0xba, 0xc7, 0x62, 0xd3, 0x40, 0xf8, 0xca, 0xbc, 0x6a]),
    (45466, [0x32, 0x68, 0xd1, 0x2a, 0xfd, 0xb5, 0xba, 0x6c, 0x72, 0x26, 0x39, 0xd4, 0xc8, 0xc2, 0xc7, 0xc1]),
    (45467, [0x7e, 0x81, 0x62, 0xb0, 0x25, 0xa1, 0xc3, 0xaa, 0xff, 0xae, 0xf1, 0x1e, 0x29, 0xbf, 0xd6, 0x3a]),
    (45468, [0x0a, 0x0e, 0x78, 0x6b, 0x1c, 0x61, 0xe3, 0x49, 0x86, 0xa3, 0x18, 0x27, 0x9e, 0xdc, 0x58, 0x41]),
    (45741, [0x7e, 0x3d, 0x5b, 0x0f, 0xdf, 0x17, 0x53, 0x55, 0x07, 0xbc, 0x01, 0xde, 0x1d, 0x4d, 0x0c, 0xd5]),
    (45751, [0x8f, 0x5e, 0xc6, 0xac, 0xbc, 0xf2, 0x1a, 0xc4, 0xa7, 0xfd, 0xcb, 0xd8, 0xca, 0x71, 0xd2, 0x44]),
    (45761, [0xec, 0x65, 0x3d, 0x25, 0x60, 0x7a, 0x28, 0xdb, 0x2f, 0x4e, 0x5a, 0xe6, 0x5b, 0xdb, 0x73, 0xa4]),
    (45771, [0xfa, 0xf1, 0xdf, 0xba, 0x87, 0x31, 0x81, 0x6f, 0x8e, 0xa3, 0x72, 0xc4, 0x52, 0x63, 0xac, 0xf8]),
    (46261, [0x33, 0x27, 0xae, 0xb6, 0xc6, 0xf5, 0xfd, 0x94, 0x2c, 0xcc, 0x53, 0x76, 0xd6, 0x47, 0x27, 0xac]),
    (46262, [0x6c, 0x64, 0xb6, 0x83, 0x31, 0x65, 0xbf, 0x9c, 0x9c, 0x0a, 0x8d, 0xc0, 0x7f, 0xd1, 0xde, 0x7c]),
    (46351, [0x2b, 0x61, 0xc8, 0x72, 0xea, 0x4b, 0xa0, 0x4c, 0x86, 0xa3, 0xa9, 0x9c, 0xf1, 0x14, 0x2a, 0x62]),
    (46352, [0x87, 0x97, 0xef, 0xbd, 0x15, 0xe2, 0xf1, 0x0a, 0xee, 0x1a, 0xa8, 0x91, 0xdc, 0xe3, 0xdc, 0x1d]),
    (46471, [0xc4, 0x88, 0xbd, 0xe4, 0xe9, 0x2b, 0xf1, 0xb3, 0x42, 0x68, 0x8f, 0x36, 0x61, 0xd8, 0x05, 0x8e]),
    (46521, [0x3f, 0x04, 0x75, 0x06, 0x63, 0x59, 0x3c, 0xdb, 0x48, 0xca, 0xd4, 0x07, 0x9b, 0x7d, 0xfc, 0x3a]),
    (46522, [0x45, 0xd3, 0x1d, 0x06, 0xe8, 0x29, 0xc4, 0x90, 0x92, 0x8b, 0xcc, 0x15, 0xab, 0x90, 0xd7, 0x55]),
    (46523, [0x8b, 0x31, 0x3e, 0x54, 0x7a, 0x75, 0xad, 0x5d, 0x16, 0x9e, 0x35, 0xeb, 0x34, 0x99, 0x3f, 0x1f]),
    (46524, [0x4a, 0x1e, 0xe0, 0x0b, 0xda, 0x8a, 0x49, 0x0f, 0x33, 0x61, 0xae, 0x94, 0xf9, 0xfc, 0x57, 0xcd]),
    (46525, [0x85, 0x69, 0x60, 0x72, 0xf6, 0xb3, 0x75, 0x6d, 0x72, 0xe2, 0x77, 0x72, 0x78, 0x79, 0x7e, 0x4f]),
    (46526, [0xfa, 0xb5, 0xdb, 0x93, 0xb5, 0x2d, 0xde, 0x02, 0x71, 0x13, 0x25, 0xe6, 0xef, 0x01, 0xd1, 0xbf])]"

definition TABLE_14 :: "key_entry list" where
  "TABLE_14 = [
    (46527, [0x44, 0x19, 0x91, 0xc0, 0x59, 0x0e, 0x83, 0x8f, 0xe4, 0x52, 0x9c, 0xa2, 0xcd, 0xb9, 0xec, 0x2a]),
    (46531, [0xac, 0x25, 0xe8, 0x43, 0x9b, 0x7f, 0x2c, 0x98, 0x3f, 0xc4, 0x37, 0xd5, 0xfe, 0xc1, 0x8a, 0x19]),
    (46532, [0x89, 0xed, 0xc3, 0xbe, 0x62, 0x73, 0x7c, 0xdb, 0x6c, 0xe1, 0x9a, 0x9d, 0x7c, 0x62, 0x51, 0xae]),
    (46541, [0x57, 0xe2, 0x6b, 0xfb, 0x83, 0xd3, 0x70, 0x32, 0x6d, 0x79, 0x9c, 0x5a, 0xed, 0x7c, 0x7f, 0x15]),
    (46542, [0x96, 0x19, 0x74, 0x20, 0x75, 0x8d, 0x95, 0x61, 0xed, 0x38, 0xcf, 0x62, 0x90, 0xde, 0xf3, 0xba]),
    (46771, [0x41, 0x79, 0x13, 0x17, 0xc3, 0xdf, 0xb4, 0xaf, 0x95, 0x36, 0xd2, 0xe6, 0x63, 0xf2, 0x12, 0xf8]),
    (46772, [0x02, 0x7c, 0x7f, 0x65, 0x0c, 0xf7, 0x22, 0xf9, 0xcc, 0xbc, 0xf1, 0x78, 0xf2, 0xa2, 0xc3, 0x29]),
    (46773, [0x99, 0xda, 0x7a, 0x39, 0x0c, 0x93, 0x51, 0xf7, 0x39, 0x05, 0xfd, 0x84, 0xf6, 0x64, 0x66, 0x2a]),
    (46774, [0x55, 0x11, 0xc6, 0x33, 0xce, 0x16, 0x86, 0x5a, 0xcc, 0xb5, 0xd3, 0x78, 0x74, 0x9f, 0x51, 0xaf]),
    (46791, [0xc3, 0xf6, 0x43, 0x22, 0x07, 0x50, 0x80, 0x95, 0x2b, 0xd4, 0x16, 0x1b, 0xe5, 0xca, 0xbe, 0xd8]),
    (47401, [0xd5, 0x25, 0x58, 0x40, 0xc4, 0x06, 0x00, 0xed, 0x9d, 0x45, 0x8d, 0x17, 0xba, 0xa9, 0x71, 0xde]),
    (47402, [0x99, 0xf6, 0x80, 0x42, 0x7c, 0x4e, 0x55, 0x0a, 0x7c, 0xeb, 0x48, 0xaf, 0xbe, 0xc4, 0x10, 0x35]),
    (47403, [0xa1, 0xdb, 0xa2, 0xb9, 0x3d, 0x97, 0xe3, 0x9a, 0x0e, 0xe9, 0x1c, 0xc2, 0xc8, 0x5a, 0xe5, 0x2e]),
    (47404, [0xb3, 0x79, 0xdc, 0x5f, 0x72, 0xcc, 0x55, 0x22, 0x3f, 0x7e, 0x07, 0x0e, 0x2d, 0x37, 0x3d, 0xc6]),
    (47405, [0x7b, 0x41, 0xba, 0xd6, 0x25, 0x9a, 0x0b, 0x6e, 0x23, 0x4f, 0x25, 0xd0, 0x08, 0xba, 0xcc, 0x33]),
    (47406, [0x8b, 0xbf, 0x7c, 0x2a, 0x52, 0x2d, 0xc0, 0xee, 0xed, 0x61, 0x3b, 0x15, 0x54, 0x4f, 0x08, 0x74]),
    (47407, [0x1a, 0x9b, 0x91, 0x11, 0xf3, 0x09, 0xdc, 0x77, 0x59, 0xd5, 0x57, 0xf4, 0x12, 0xb1, 0x3e, 0x10]),
    (47408, [0x52, 0x15, 0xf4, 0xc7, 0x1b, 0x06, 0xd4, 0xbb, 0x9e, 0x57, 0x00, 0x3b, 0xf0, 0x26, 0x1d, 0xfd]),
    (47409, [0x49, 0x7e, 0x5f, 0xce, 0xa5, 0xd9, 0xa3, 0x25, 0x8f, 0x90, 0x23, 0x4a, 0x79, 0x94, 0xb7, 0xab]),
    (47411, [0x5b, 0xdb, 0x6c, 0xcf, 0x67, 0x1c, 0x03, 0xa0, 0x03, 0x51, 0xa9, 0x5d, 0xd1, 0x9a, 0x9f, 0x5d]),
    (47412, [0x5a, 0x4c, 0x34, 0x12, 0xec, 0xb8, 0xd7, 0x7b, 0x9e, 0xeb, 0x9c, 0xd3, 0xa4, 0x31, 0xd9, 0x50]),
    (47413, [0x1a, 0x96, 0x6b, 0x8a, 0x67, 0xab, 0x5d, 0xaa, 0x65, 0xea, 0xe5, 0x1d, 0x86, 0xcf, 0x0b, 0x94]),
    (47414, [0x48, 0x40, 0x02, 0x40, 0x38, 0x99, 0x7b, 0x15, 0x64, 0x01, 0x85, 0x0f, 0x14, 0xeb, 0xa7, 0x51]),
    (47420, [0x96, 0xed, 0xa5, 0x4f, 0xa7, 0x53, 0xf9, 0xcb, 0xd6, 0x3c, 0x2a, 0x00, 0xdb, 0x2e, 0x40, 0x6b]),
    (47421, [0xd0, 0xf6, 0x5e, 0x92, 0xb7, 0xda, 0xfb, 0x88, 0x78, 0x63, 0x34, 0xf8, 0x5f, 0xc3, 0x17, 0x38]),
    (47422, [0x34, 0x93, 0xf9, 0xc8, 0x4c, 0x28, 0x01, 0xc4, 0x91, 0x46, 0xb1, 0xb0, 0x9f, 0x9e, 0x5e, 0x75]),
    (47423, [0x10, 0x69, 0x43, 0xfa, 0xdb, 0x93, 0x89, 0x6d, 0x70, 0xad, 0xe7, 0xa6, 0xd2, 0x3f, 0x3a, 0xc8]),
    (47424, [0x7b, 0xc2, 0x18, 0x1d, 0x5c, 0xd4, 0x8d, 0xcc, 0xe5, 0x61, 0x6d, 0x41, 0x0d, 0xef, 0x1c, 0x87]),
    (47425, [0x5a, 0xf9, 0xee, 0x52, 0x41, 0x21, 0x51, 0xd5, 0x44, 0x5c, 0x43, 0x2e, 0x95, 0xe8, 0xf5, 0x35]),
    (47426, [0xa4, 0x5c, 0x70, 0x22, 0x6f, 0x77, 0x65, 0x5b, 0x88, 0x55, 0x5c, 0x8b, 0x83, 0x8f, 0xbe, 0x48]),
    (47428, [0x41, 0x32, 0xc2, 0x65, 0x64, 0x99, 0x77, 0xc4, 0x2a, 0x5b, 0x70, 0x1e, 0x65, 0xc5, 0xfe, 0x87]),
    (47720, [0x63, 0x42, 0xea, 0x95, 0x5f, 0x64, 0xa0, 0x86, 0x83, 0x57, 0xc5, 0x95, 0xf0, 0x61, 0xd1, 0xaf]),
    (47721, [0x63, 0x42, 0xea, 0x95, 0x5f, 0x64, 0xa0, 0x86, 0x83, 0x57, 0xc5, 0x95, 0xf0, 0x61, 0xd1, 0xaf]),
    (47722, [0x63, 0x42, 0xea, 0x95, 0x5f, 0x64, 0xa0, 0x86, 0x83, 0x57, 0xc5, 0x95, 0xf0, 0x61, 0xd1, 0xaf]),
    (47723, [0x63, 0x42, 0xea, 0x95, 0x5f, 0x64, 0xa0, 0x86, 0x83, 0x57, 0xc5, 0x95, 0xf0, 0x61, 0xd1, 0xaf]),
    (47731, [0x76, 0xad, 0xc4, 0xa3, 0x62, 0x14, 0xd7, 0xbb, 0xa6, 0x98, 0x69, 0x96, 0x1c, 0x41, 0xd2, 0x95]),
    (47732, [0x11, 0xca, 0xc5, 0x69, 0x7f, 0x56, 0x19, 0x85, 0x2d, 0x57, 0x5a, 0x16, 0x52, 0x39, 0x0d, 0x50]),
    (47733, [0x1a, 0x7c, 0x82, 0x81, 0x27, 0xb6, 0x3e, 0x7e, 0xb5, 0x4b, 0x14, 0x89, 0x12, 0x00, 0x0b, 0x47]),
    (47734, [0x7d, 0x69, 0x50, 0x79, 0xd4, 0xdf, 0x99, 0x9b, 0xa1, 0x4f, 0xcd, 0x83, 0x4f, 0x52, 0xb3, 0x1a]),
    (47735, [0x3f, 0xc4, 0xc4, 0x3c, 0x05, 0x4f, 0xca, 0x66, 0xa0, 0xc7, 0x68, 0xa6, 0xdd, 0x65, 0x04, 0x5c]),
    (47736, [0xa2, 0x7b, 0x74, 0xc4, 0x29, 0x38, 0x09, 0x08, 0x84, 0x39, 0xfa, 0x97, 0x5a, 0x78, 0x46, 0x3f]),
    (47737, [0x4f, 0xb5, 0x98, 0xbb, 0xc6, 0xae, 0xba, 0x84, 0x9f, 0x95, 0x6d, 0x18, 0x79, 0x06, 0x14, 0x74]),
    (47738, [0xcb, 0x8d, 0xd2, 0xcd, 0x9c, 0x99, 0xa7, 0xab, 0x01, 0x5d, 0x9a, 0x4b, 0xd5, 0x96, 0x23, 0x55]),
    (47739, [0x17, 0x81, 0xac, 0x9e, 0x5a, 0xf5, 0x3e, 0x8b, 0x87, 0xdb, 0x22, 0x6a, 0x82, 0x81, 0xc9, 0x89]),
    (47740, [0xec, 0x3f, 0x0e, 0x94, 0x31, 0x8e, 0xf1, 0x0f, 0x95, 0x95, 0x7f, 0x0e, 0x52, 0x1c, 0x15, 0x3f]),
    (47749, [0x63, 0x42, 0xea, 0x95, 0x5f, 0x64, 0xa0, 0x86, 0x83, 0x57, 0xc5, 0x95, 0xf0, 0x61, 0xd1, 0xaf]),
    (47772, [0x76, 0x69, 0x40, 0xaa, 0xed, 0x9b, 0xb1, 0xff, 0x7b, 0xae, 0x4e, 0x16, 0xea, 0x93, 0xb0, 0x95]),
    (47773, [0xb1, 0xf7, 0x4e, 0xe8, 0x2a, 0x7e, 0x59, 0x0b, 0x6e, 0x29, 0xa4, 0xe0, 0xbd, 0x68, 0xd7, 0xd0]),
    (47774, [0xe4, 0xd3, 0x15, 0xc9, 0x0f, 0x71, 0x81, 0xdf, 0xc3, 0x7e, 0x2e, 0x30, 0xab, 0x79, 0x1e, 0x9c]),
    (47775, [0x36, 0x54, 0xd5, 0xf3, 0x2e, 0xf1, 0x2c, 0xae, 0x2d, 0x85, 0x49, 0x9d, 0x9e, 0x6c, 0x1f, 0x3a]),
    (47776, [0x3a, 0xf3, 0x62, 0x06, 0xf2, 0x05, 0xff, 0x59, 0xcf, 0x12, 0x68, 0x1b, 0x7e, 0x9f, 0x1a, 0x3f]),
    (47777, [0x4b, 0x42, 0x65, 0xbf, 0x4d, 0x8b, 0x87, 0x39, 0x4a, 0x31, 0x35, 0xfa, 0x8c, 0x41, 0xbc, 0x90]),
    (47778, [0x02, 0x93, 0x07, 0x8b, 0x9a, 0x25, 0x49, 0x4e, 0x29, 0x14, 0x29, 0x38, 0x77, 0xc0, 0x0d, 0x52]),
    (47779, [0xc6, 0x28, 0xb4, 0x08, 0xe9, 0x87, 0xfb, 0xe7, 0xca, 0xaa, 0xe2, 0x01, 0xe7, 0x7f, 0xb2, 0xbd]),
    (47781, [0x98, 0xe7, 0xe7, 0x06, 0x6a, 0x0e, 0x4e, 0x50, 0x1c, 0xb1, 0xb0, 0x3c, 0x7c, 0xd6, 0xb9, 0x5f]),
    (47782, [0x2b, 0x02, 0xbb, 0x41, 0xbc, 0x92, 0xf6, 0x9c, 0x97, 0x33, 0x61, 0x1c, 0xc3, 0x3b, 0x19, 0xca]),
    (47783, [0x47, 0xaa, 0x7e, 0x1f, 0x46, 0x72, 0x74, 0x35, 0x02, 0xe3, 0x39, 0xda, 0xfb, 0x32, 0xa5, 0xa4]),
    (47784, [0x24, 0xf4, 0xdc, 0x5d, 0x27, 0x78, 0x38, 0x81, 0x18, 0x6d, 0xa3, 0x38, 0xd2, 0xe8, 0xc0, 0x33]),
    (47785, [0x52, 0x3b, 0x40, 0xab, 0x14, 0xe2, 0x4d, 0x8d, 0x4b, 0x55, 0x74, 0x5f, 0x67, 0x18, 0xab, 0x10]),
    (47786, [0x93, 0x4a, 0xe7, 0x56, 0x36, 0x20, 0xf8, 0xa1, 0xaf, 0x66, 0x70, 0xfa, 0xb5, 0xcd, 0x62, 0xce]),
    (47787, [0x8b, 0x00, 0xda, 0x77, 0x0c, 0x70, 0xf9, 0xd9, 0x66, 0x6f, 0xd0, 0x77, 0x5f, 0x6e, 0xd8, 0xa5]),
    (47791, [0x31, 0x5a, 0xee, 0xac, 0x6c, 0x1f, 0x3e, 0x65, 0x3a, 0x32, 0xaf, 0x40, 0x2c, 0x1e, 0x8a, 0x30]),
    (47792, [0x3c, 0x7d, 0x62, 0xe3, 0x12, 0x23, 0x6c, 0x75, 0x96, 0x5a, 0xc5, 0x3d, 0x05, 0x1f, 0x18, 0x7c]),
    (47793, [0x16, 0xe9, 0xd6, 0x03, 0xa7, 0x7f, 0x36, 0xe3, 0x3b, 0x85, 0x8a, 0x13, 0xfc, 0xc0, 0x0f, 0xde]),
    (47794, [0x2c, 0x36, 0x6d, 0x4e, 0x29, 0x31, 0xc5, 0xa2, 0x1d, 0xef, 0xa9, 0x37, 0xde, 0x91, 0xe0, 0xa9]),
    (47795, [0x67, 0x15, 0x7f, 0x52, 0xfc, 0x9a, 0xd7, 0x9e, 0xfd, 0x56, 0xc8, 0xb0, 0x54, 0x29, 0x1a, 0x61]),
    (47796, [0xb3, 0xa8, 0x8d, 0x7e, 0xac, 0x52, 0xd1, 0x8f, 0x46, 0x37, 0xc0, 0x19, 0x47, 0x62, 0xe1, 0x4b]),
    (47797, [0x2f, 0xc2, 0x22, 0x42, 0xee, 0x6e, 0xb5, 0x4a, 0x11, 0x79, 0x22, 0x86, 0xc4, 0xc4, 0x42, 0xfe]),
    (47798, [0xf9, 0x5f, 0xdf, 0x40, 0x98, 0xbe, 0x5f, 0x31, 0xf3, 0xbe, 0xcc, 0x07, 0xfa, 0xcf, 0xb6, 0xff]),
    (47799, [0x84, 0xb5, 0xf7, 0x7c, 0xf4, 0xd0, 0xe1, 0x53, 0xd6, 0x94, 0xca, 0x67, 0x99, 0x37, 0x26, 0xa7]),
    (47811, [0xa2, 0x01, 0x05, 0x45, 0x1c, 0x01, 0x3b, 0xe3, 0x4c, 0x2a, 0xa7, 0xfc, 0x11, 0x0e, 0xd7, 0xe8]),
    (47815, [0x11, 0xed, 0x69, 0xed, 0x74, 0x38, 0xa6, 0x8d, 0xb4, 0xed, 0x75, 0x97, 0x6d, 0xa9, 0xf3, 0x0e]),
    (47820, [0x1b, 0x22, 0x9d, 0xac, 0x4a, 0x8f, 0x19, 0x75, 0xe7, 0x4c, 0x45, 0xd9, 0x55, 0xea, 0xdc, 0x3d]),
    (47821, [0xa8, 0xff, 0x69, 0xb0, 0xff, 0x38, 0x0e, 0xbe, 0xbf, 0x28, 0x92, 0xe4, 0x94, 0x10, 0xc2, 0xca]),
    (47822, [0x77, 0x75, 0xbe, 0x20, 0x48, 0xf9, 0x7b, 0x70, 0x51, 0x79, 0x4f, 0x3a, 0x05, 0xd4, 0x0d, 0xb4]),
    (47831, [0x33, 0x93, 0x17, 0x12, 0x7c, 0x56, 0x97, 0x0b, 0xf7, 0x08, 0x47, 0x11, 0xdd, 0x4d, 0xe3, 0x4c]),
    (47832, [0x54, 0x57, 0x7d, 0xe7, 0x9a, 0xdf, 0xa1, 0x75, 0x7a, 0xe5, 0x5b, 0x65, 0x29, 0x59, 0xa0, 0x72]),
    (47833, [0x97, 0x4c, 0x7e, 0x61, 0xb3, 0xc3, 0x27, 0x87, 0xeb, 0xd2, 0xd9, 0x15, 0xb1, 0x96, 0xc1, 0xf9]),
    (47834, [0xa6, 0xcc, 0x75, 0xc4, 0x0a, 0xee, 0xe5, 0xa6, 0xd8, 0x6f, 0x65, 0x4b, 0x74, 0xe1, 0x48, 0x71]),
    (47835, [0x63, 0x57, 0xb0, 0xff, 0x1f, 0x54, 0x7b, 0xff, 0x27, 0x33, 0x0f, 0x5c, 0x05, 0xa7, 0xa5, 0x80]),
    (47836, [0x56, 0x8f, 0xcd, 0xac, 0x42, 0xac, 0xca, 0xdf, 0x19, 0x1a, 0x4a, 0x2f, 0xd8, 0xac, 0x3e, 0xbd]),
    (47837, [0xf3, 0x30, 0x7d, 0xea, 0xca, 0x22, 0x04, 0x47, 0xee, 0xf6, 0x34, 0x82, 0xb8, 0x5f, 0x52, 0x05]),
    (47838, [0xab, 0x82, 0x48, 0x82, 0x4f, 0xf2, 0x38, 0xf3, 0x5f, 0x5a, 0xe7, 0x17, 0x58, 0x45, 0xc5, 0xa8]),
    (47839, [0x51, 0x6f, 0x5e, 0x5b, 0xd3, 0x64, 0x61, 0x6f, 0xc0, 0x63, 0x6f, 0x80, 0x23, 0x94, 0xa2, 0x26]),
    (47840, [0x98, 0x1d, 0x69, 0x39, 0xd8, 0xc2, 0xd9, 0xcd, 0x5b, 0xde, 0xec, 0xdc, 0x1a, 0x52, 0x02, 0x4a]),
    (47841, [0x7a, 0xa6, 0x9e, 0xfb, 0xfd, 0x60, 0x3b, 0x61, 0xed, 0x9e, 0x64, 0x64, 0x95, 0x29, 0x4d, 0x9c]),
    (47842, [0xf5, 0xb5, 0x0f, 0x77, 0x51, 0xca, 0xb4, 0x0f, 0x61, 0xd7, 0x81, 0xcb, 0xe1, 0xb5, 0xc7, 0x69]),
    (47843, [0x3b, 0x7b, 0x7a, 0xdd, 0x2a, 0x30, 0x66, 0xc0, 0x7c, 0xf5, 0xbf, 0xc4, 0x0e, 0x61, 0xbf, 0xc4]),
    (47880, [0x63, 0x42, 0xea, 0x95, 0x5f, 0x64, 0xa0, 0x86, 0x83, 0x57, 0xc5, 0x95, 0xf0, 0x61, 0xd1, 0xaf]),
    (47891, [0xc8, 0x82, 0x46, 0x18, 0xf0, 0x10, 0x01, 0xea, 0xc7, 0x04, 0x1b, 0x28, 0x2a, 0x17, 0x3f, 0xeb]),
    (47898, [0x93, 0xbe, 0xf9, 0x86, 0x6f, 0x48, 0x3c, 0x58, 0xf6, 0x86, 0x0a, 0x22, 0x6e, 0xa5, 0xff, 0xf3]),
    (47899, [0x9e, 0x5b, 0xbf, 0x08, 0x9a, 0xbd, 0x63, 0xa8, 0xe3, 0xc5, 0xc7, 0xab, 0xff, 0xc7, 0x66, 0xe0]),
    (47901, [0xa0, 0x0d, 0x1e, 0xbe, 0xc0, 0xb5, 0xa0, 0xec, 0xd9, 0x62, 0x59, 0xa0, 0x5e, 0x37, 0x3a, 0x82]),
    (47902, [0x98, 0x31, 0xb8, 0x73, 0xdb, 0xdf, 0x54, 0xe2, 0x84, 0xeb, 0x45, 0x45, 0x78, 0x72, 0x7a, 0xea]),
    (47903, [0x02, 0x6a, 0xc7, 0xbb, 0xac, 0x45, 0x8f, 0xf1, 0x08, 0x8a, 0x4d, 0xac, 0x2b, 0xa8, 0xa2, 0xce]),
    (47904, [0x46, 0x24, 0xdb, 0x6f, 0x1e, 0x6f, 0xcb, 0x3b, 0x60, 0x0b, 0x17, 0xda, 0xd8, 0x2c, 0x74, 0x03]),
    (47905, [0x33, 0x6f, 0x74, 0x6b, 0xd1, 0x63, 0xd4, 0x34, 0x82, 0xaf, 0xd3, 0xac, 0xa0, 0xdb, 0xaf, 0xab]),
    (47906, [0xb9, 0xcb, 0x84, 0xa8, 0xe1, 0x46, 0x56, 0xb5, 0x2d, 0xca, 0xe9, 0xa7, 0xe5, 0x7c, 0x1f, 0x97]),
    (47907, [0xaa, 0x6e, 0xcd, 0x91, 0xc8, 0x80, 0xab, 0x84, 0x4c, 0x03, 0x27, 0x45, 0x85, 0x0e, 0x3f, 0xc4]),
    (47908, [0x8a, 0x1d, 0xaf, 0x41, 0x37, 0xe0, 0xa6, 0x35, 0x43, 0x02, 0x3a, 0x2d, 0x6e, 0x0d, 0xb7, 0xe2]),
    (47911, [0x63, 0x42, 0xea, 0x95, 0x5f, 0x64, 0xa0, 0x86, 0x83, 0x57, 0xc5, 0x95, 0xf0, 0x61, 0xd1, 0xaf]),
    (47912, [0x63, 0x42, 0xea, 0x95, 0x5f, 0x64, 0xa0, 0x86, 0x83, 0x57, 0xc5, 0x95, 0xf0, 0x61, 0xd1, 0xaf]),
    (47921, [0xdb, 0x7e, 0xa0, 0xc7, 0xad, 0x95, 0xf5, 0x25, 0xdb, 0x27, 0x26, 0x0c, 0x73, 0x8f, 0x2d, 0x86]),
    (47931, [0xe1, 0x56, 0x89, 0x3d, 0xef, 0x92, 0xcc, 0x1b, 0xb4, 0x11, 0x2c, 0x61, 0xe0, 0xf5, 0x8c, 0xe4]),
    (47932, [0xf6, 0x16, 0xd5, 0x59, 0x69, 0x18, 0xe9, 0x13, 0x9e, 0xce, 0xf6, 0xbd, 0x89, 0x77, 0x36, 0x88]),
    (47937, [0x4e, 0x2c, 0x07, 0x30, 0xda, 0x64, 0x67, 0x72, 0x34, 0x9b, 0x92, 0x0b, 0x4e, 0x2c, 0x57, 0xa7]),
    (48003, [0xf3, 0xe9, 0x2d, 0xc8, 0x92, 0x03, 0xce, 0xa1, 0xd9, 0x61, 0x74, 0x85, 0x07, 0xdd, 0xd2, 0xac]),
    (48004, [0x8a, 0x72, 0x81, 0x9d, 0xf9, 0x9a, 0xee, 0x15, 0xc1, 0x13, 0x4d, 0x6b, 0x55, 0x3b, 0x94, 0xa1]),
    (48013, [0x3b, 0x28, 0x98, 0xb4, 0x60, 0x0b, 0x02, 0x0b, 0xe6, 0xd5, 0x57, 0x38, 0x99, 0x22, 0xa4, 0xef]),
    (48127, [0x99, 0xde, 0x83, 0xd1, 0x03, 0xe8, 0xd6, 0x55, 0x4b, 0x5d, 0xaf, 0x47, 0x77, 0x73, 0x57, 0xcf]),
    (48128, [0x99, 0xde, 0x83, 0xd1, 0x03, 0xe8, 0xd6, 0x55, 0x4b, 0x5d, 0xaf, 0x47, 0x77, 0x73, 0x57, 0xcf]),
    (48131, [0x99, 0xde, 0x83, 0xd1, 0x03, 0xe8, 0xd6, 0x55, 0x4b, 0x5d, 0xaf, 0x47, 0x77, 0x73, 0x57, 0xcf]),
    (48132, [0x99, 0xde, 0x83, 0xd1, 0x03, 0xe8, 0xd6, 0x55, 0x4b, 0x5d, 0xaf, 0x47, 0x77, 0x73, 0x57, 0xcf]),
    (48165, [0x58, 0x66, 0x88, 0xdf, 0xeb, 0xb2, 0xf0, 0x07, 0xee, 0x6c, 0x55, 0x3d, 0xe4, 0xd5, 0xc9, 0xa8]),
    (48166, [0x58, 0x66, 0x88, 0xdf, 0xeb, 0xb2, 0xf0, 0x07, 0xee, 0x6c, 0x55, 0x3d, 0xe4, 0xd5, 0xc9, 0xa8]),
    (48173, [0x11, 0xed, 0x69, 0xed, 0x74, 0x38, 0xa6, 0x8d, 0xb4, 0xed, 0x75, 0x97, 0x6d, 0xa9, 0xf3, 0x0e]),
    (48185, [0x58, 0x66, 0x88, 0xdf, 0xeb, 0xb2, 0xf0, 0x07, 0xee, 0x6c, 0x55, 0x3d, 0xe4, 0xd5, 0xc9, 0xa8]),
    (48186, [0x58, 0x66, 0x88, 0xdf, 0xeb, 0xb2, 0xf0, 0x07, 0xee, 0x6c, 0x55, 0x3d, 0xe4, 0xd5, 0xc9, 0xa8]),
    (48191, [0xa6, 0xa8, 0x2e, 0x70, 0x92, 0x6b, 0x0d, 0x0d, 0xf4, 0xda, 0xac, 0x2a, 0x40, 0x8e, 0x83, 0x8e]),
    (48192, [0x42, 0xec, 0xa8, 0xb5, 0x06, 0x02, 0x6b, 0xa3, 0x32, 0xd1, 0xec, 0x52, 0x0c, 0x77, 0x1a, 0x01]),
    (48193, [0xfc, 0x05, 0x2e, 0x1e, 0x15, 0x46, 0xc0, 0x24, 0x9e, 0xd9, 0x20, 0x93, 0x7b, 0x14, 0xb5, 0x5e]),
    (48195, [0x58, 0x66, 0x88, 0xdf, 0xeb, 0xb2, 0xf0, 0x07, 0xee, 0x6c, 0x55, 0x3d, 0xe4, 0xd5, 0xc9, 0xa8]),
    (48196, [0x58, 0x66, 0x88, 0xdf, 0xeb, 0xb2, 0xf0, 0x07, 0xee, 0x6c, 0x55, 0x3d, 0xe4, 0xd5, 0xc9, 0xa8]),
    (48197, [0x58, 0x66, 0x88, 0xdf, 0xeb, 0xb2, 0xf0, 0x07, 0xee, 0x6c, 0x55, 0x3d, 0xe4, 0xd5, 0xc9, 0xa8]),
    (48198, [0x58, 0x66, 0x88, 0xdf, 0xeb, 0xb2, 0xf0, 0x07, 0xee, 0x6c, 0x55, 0x3d, 0xe4, 0xd5, 0xc9, 0xa8]),
    (48211, [0x84, 0xea, 0x13, 0x98, 0xa7, 0xa0, 0xa0, 0x5b, 0x92, 0x54, 0xb7, 0x0e, 0xa9, 0x99, 0xa6, 0x3c]),
    (48212, [0x64, 0x51, 0xbc, 0x2b, 0xe3, 0xb0, 0xb4, 0x5f, 0xef, 0xc6, 0x35, 0xa5, 0xd1, 0x7f, 0x70, 0xc5]),
    (48213, [0xc0, 0xcb, 0x2d, 0xe3, 0x33, 0x33, 0x71, 0xec, 0xa6, 0x51, 0xf3, 0xf1, 0x55, 0xb0, 0x2d, 0x16]),
    (48214, [0xd5, 0x3c, 0xd8, 0x79, 0xb5, 0x52, 0x49, 0x49, 0x38, 0xc1, 0x4c, 0x30, 0x50, 0xb3, 0x44, 0x2f]),
    (48215, [0xf2, 0x0a, 0x48, 0xe1, 0x8b, 0x76, 0x97, 0x8c, 0x22, 0xcc, 0x11, 0x6f, 0xde, 0x7d, 0x19, 0xfe]),
    (48216, [0xd1, 0x90, 0x51, 0x02, 0x89, 0x50, 0x3e, 0x19, 0x6a, 0xd9, 0x16, 0x2d, 0x36, 0x53, 0xb3, 0x5f]),
    (48217, [0x3d, 0x4b, 0xab, 0xb3, 0x37, 0x9a, 0xcb, 0x6f, 0x03, 0xc9, 0x6d, 0x1f, 0x2d, 0xa8, 0x74, 0x05]),
    (48218, [0x99, 0xde, 0x83, 0xd1, 0x03, 0xe8, 0xd6, 0x55, 0x4b, 0x5d, 0xaf, 0x47, 0x77, 0x73, 0x57, 0xcf]),
    (48219, [0x99, 0xde, 0x83, 0xd1, 0x03, 0xe8, 0xd6, 0x55, 0x4b, 0x5d, 0xaf, 0x47, 0x77, 0x73, 0x57, 0xcf]),
    (48221, [0x78, 0x31, 0x29, 0x45, 0xb1, 0x1a, 0xb8, 0x7e, 0x6e, 0xd9, 0x52, 0xea, 0x52, 0x62, 0x93, 0x6d]),
    (48222, [0x21, 0x85, 0x67, 0x67, 0xd5, 0x7a, 0x89, 0xe6, 0xa8, 0xf8, 0xbc, 0xcf, 0xbf, 0x79, 0x69, 0x78]),
    (48224, [0x63, 0x42, 0xea, 0x95, 0x5f, 0x64, 0xa0, 0x86, 0x83, 0x57, 0xc5, 0x95, 0xf0, 0x61, 0xd1, 0xaf]),
    (48225, [0x63, 0x42, 0xea, 0x95, 0x5f, 0x64, 0xa0, 0x86, 0x83, 0x57, 0xc5, 0x95, 0xf0, 0x61, 0xd1, 0xaf]),
    (48226, [0x63, 0x42, 0xea, 0x95, 0x5f, 0x64, 0xa0, 0x86, 0x83, 0x57, 0xc5, 0x95, 0xf0, 0x61, 0xd1, 0xaf]),
    (48227, [0x63, 0x42, 0xea, 0x95, 0x5f, 0x64, 0xa0, 0x86, 0x83, 0x57, 0xc5, 0x95, 0xf0, 0x61, 0xd1, 0xaf]),
    (48228, [0x63, 0x42, 0xea, 0x95, 0x5f, 0x64, 0xa0, 0x86, 0x83, 0x57, 0xc5, 0x95, 0xf0, 0x61, 0xd1, 0xaf]),
    (48229, [0x63, 0x42, 0xea, 0x95, 0x5f, 0x64, 0xa0, 0x86, 0x83, 0x57, 0xc5, 0x95, 0xf0, 0x61, 0xd1, 0xaf]),
    (48241, [0x7f, 0x1d, 0xa9, 0x24, 0x8d, 0xff, 0x02, 0x9b, 0x7c, 0x04, 0x42, 0x02, 0xd1, 0x0f, 0x7f, 0x81]),
    (48242, [0xa6, 0x3e, 0x15, 0x52, 0x4a, 0x62, 0x0f, 0xbf, 0x70, 0x01, 0x16, 0x8f, 0x35, 0x55, 0xbb, 0x7e]),
    (48243, [0xfa, 0x2b, 0xe8, 0x1a, 0x0f, 0x2f, 0xc9, 0x57, 0xbc, 0x3f, 0xe0, 0xd6, 0x24, 0x45, 0xc4, 0x0b]),
    (48244, [0xe3, 0xf7, 0x14, 0xbe, 0x68, 0xf3, 0xd2, 0xc4, 0xbc, 0x9d, 0x1f, 0x7b, 0x3b, 0x9c, 0x4d, 0x6f]),
    (48245, [0x5c, 0xd2, 0xa7, 0xe2, 0xb9, 0x6e, 0xed, 0xef, 0xef, 0x4e, 0xf0, 0xc4, 0x4c, 0x5c, 0x81, 0xad]),
    (48246, [0xd6, 0xae, 0x20, 0x47, 0x2f, 0x38, 0xde, 0xec, 0xcd, 0xf7, 0xb7, 0x35, 0x6b, 0x88, 0x21, 0x75]),
    (48247, [0x0b, 0xe6, 0x62, 0xee, 0x4d, 0xb2, 0x7f, 0xf0, 0xe5, 0x6f, 0x14, 0x10, 0x4c, 0x9e, 0xc6, 0xb4]),
    (48248, [0x16, 0xd7, 0x1c, 0xcd, 0x42, 0xbf, 0x71, 0x8d, 0xf9, 0x22, 0x5b, 0x7a, 0x70, 0x22, 0xeb, 0x83])]"

definition TABLE_15 :: "key_entry list" where
  "TABLE_15 = [
    (48249, [0xff, 0x4f, 0xfa, 0x6b, 0xc2, 0x35, 0x1b, 0xbb, 0x4b, 0x05, 0x12, 0x91, 0x96, 0x94, 0xd3, 0x62]),
    (48255, [0xfe, 0x08, 0x3e, 0x85, 0xf0, 0xb3, 0x4f, 0x62, 0x1f, 0xd3, 0x57, 0x94, 0x27, 0x25, 0x0e, 0x29]),
    (48258, [0x63, 0x42, 0xea, 0x95, 0x5f, 0x64, 0xa0, 0x86, 0x83, 0x57, 0xc5, 0x95, 0xf0, 0x61, 0xd1, 0xaf]),
    (48259, [0x63, 0x42, 0xea, 0x95, 0x5f, 0x64, 0xa0, 0x86, 0x83, 0x57, 0xc5, 0x95, 0xf0, 0x61, 0xd1, 0xaf]),
    (48261, [0x02, 0x78, 0x7f, 0x7b, 0x3e, 0xa2, 0x7f, 0x0c, 0x56, 0x0c, 0x32, 0xe8, 0x3c, 0x38, 0x8c, 0x60]),
    (48281, [0x27, 0x08, 0x56, 0xf4, 0xfb, 0x47, 0x63, 0x6f, 0xd8, 0x2c, 0x0d, 0x52, 0x0d, 0x93, 0xfe, 0x98]),
    (48701, [0xe2, 0x9f, 0xa5, 0x52, 0xb8, 0xb8, 0xa1, 0x35, 0x7b, 0xfc, 0x35, 0x79, 0x19, 0x7f, 0x18, 0x05]),
    (48705, [0xed, 0xf6, 0x43, 0x4c, 0x73, 0xa0, 0x15, 0x46, 0x98, 0x2c, 0xcc, 0xf2, 0xe2, 0x2b, 0x8d, 0xdc]),
    (48721, [0xb4, 0xfc, 0x3e, 0x0b, 0x69, 0xb0, 0x81, 0xa4, 0xc1, 0x41, 0x4f, 0xb1, 0xff, 0x1a, 0x91, 0x48]),
    (48801, [0xce, 0x4c, 0x0a, 0xde, 0x22, 0x2c, 0x32, 0x00, 0xad, 0x9d, 0xb2, 0x2d, 0x40, 0xd6, 0x51, 0xdd]),
    (48802, [0x5e, 0xed, 0xdc, 0x0c, 0x8a, 0xc9, 0x72, 0xe1, 0xf1, 0x49, 0xe8, 0xae, 0xd7, 0x3f, 0xeb, 0x0f]),
    (48803, [0x23, 0x87, 0xe3, 0xc3, 0x74, 0xe7, 0xaf, 0x11, 0xb2, 0x05, 0x72, 0xfe, 0xec, 0xdf, 0x20, 0x69]),
    (48804, [0x07, 0x8e, 0xde, 0x66, 0xd9, 0x9b, 0x08, 0xe9, 0x83, 0xc1, 0x7c, 0x20, 0x93, 0xaa, 0xfd, 0x41]),
    (48805, [0x5d, 0x5d, 0x79, 0xbc, 0x35, 0x36, 0x91, 0x72, 0x73, 0x09, 0xad, 0xcf, 0x91, 0x7a, 0xd4, 0x66]),
    (48806, [0x20, 0xa5, 0xda, 0xbf, 0xe0, 0xf9, 0xcf, 0xfe, 0x0f, 0x82, 0x1c, 0x2d, 0xf6, 0xfd, 0x08, 0xe8]),
    (48811, [0x71, 0x13, 0xba, 0x30, 0xe9, 0xa3, 0xec, 0x30, 0x76, 0x03, 0xeb, 0x54, 0x60, 0x0c, 0xc4, 0x57]),
    (48830, [0x7f, 0x37, 0x8f, 0x6f, 0x22, 0x80, 0x96, 0xa3, 0x6e, 0x2d, 0x04, 0x50, 0x6c, 0x94, 0xfc, 0x44]),
    (48952, [0x6c, 0x63, 0x28, 0x83, 0x8b, 0x9b, 0xd6, 0xc5, 0x7e, 0x6c, 0x08, 0x04, 0x91, 0xbc, 0x4a, 0xa3]),
    (49301, [0x8b, 0xf3, 0x68, 0x15, 0x00, 0x47, 0x28, 0x9c, 0x47, 0xa3, 0xbb, 0x95, 0xf1, 0xdb, 0x86, 0xb5]),
    (49302, [0xf5, 0xfd, 0x64, 0xfd, 0x59, 0xc6, 0x4b, 0x77, 0xef, 0x50, 0x7e, 0xfd, 0xae, 0xf6, 0x1e, 0xfb]),
    (49303, [0xdf, 0x8d, 0x48, 0x44, 0x6c, 0xa7, 0x95, 0x45, 0xeb, 0x8a, 0x3f, 0x3e, 0xd6, 0x01, 0x86, 0x01]),
    (49304, [0x48, 0x25, 0xc1, 0xb7, 0xc4, 0xa0, 0xaa, 0xb6, 0x2c, 0xb0, 0x76, 0x00, 0xeb, 0x67, 0x33, 0xa0]),
    (49305, [0x84, 0xa8, 0x1b, 0xf6, 0xfa, 0x33, 0xcc, 0x6f, 0x4d, 0x50, 0x5b, 0x5f, 0xbd, 0xf9, 0xd7, 0x95]),
    (49306, [0x6e, 0x65, 0x35, 0x5f, 0xa8, 0x19, 0xe4, 0x0e, 0x1e, 0x05, 0x54, 0x58, 0x8f, 0x74, 0x85, 0xf2]),
    (49310, [0x97, 0x8e, 0x5e, 0x68, 0x24, 0x71, 0x80, 0xa0, 0x4a, 0x2b, 0x8f, 0xfc, 0x50, 0xd4, 0xc6, 0x92]),
    (49311, [0xe6, 0x25, 0xf9, 0xa5, 0xe0, 0x74, 0xe1, 0x63, 0xf4, 0xb8, 0x54, 0x7d, 0x37, 0x79, 0xf1, 0xd0]),
    (49321, [0xd9, 0x5a, 0x8d, 0x83, 0xab, 0x6c, 0xc2, 0x03, 0xf6, 0x47, 0x71, 0x6e, 0x63, 0xf4, 0xb9, 0xb1]),
    (49322, [0x57, 0xa5, 0xf6, 0x37, 0xaf, 0x64, 0x85, 0xe6, 0xa2, 0xca, 0xa8, 0x28, 0x72, 0xd1, 0xf4, 0xd8]),
    (49323, [0x29, 0xb2, 0xaf, 0xca, 0xe9, 0x4f, 0xc6, 0x00, 0x96, 0x28, 0xb2, 0x75, 0x65, 0x3a, 0x34, 0xdc]),
    (49324, [0x37, 0xa2, 0x9f, 0x8f, 0x37, 0xf9, 0x76, 0xfa, 0xf8, 0x2d, 0x0b, 0x45, 0xdf, 0x75, 0x61, 0x36]),
    (49325, [0x84, 0x83, 0xc5, 0xce, 0xff, 0x78, 0xb3, 0xe3, 0x2d, 0x42, 0xee, 0x75, 0xee, 0x20, 0x2b, 0xe8]),
    (49331, [0x07, 0x6f, 0x61, 0x10, 0x9b, 0x2d, 0xb4, 0xf1, 0x49, 0xf8, 0xd5, 0x2e, 0xcb, 0xb8, 0x5b, 0x37]),
    (49332, [0x4d, 0x8d, 0x00, 0xed, 0xd6, 0x0b, 0x98, 0x70, 0xc5, 0x4d, 0xb9, 0xff, 0xc7, 0x5a, 0x8f, 0xd4]),
    (49333, [0xab, 0x5a, 0x8e, 0x80, 0x34, 0xe6, 0x5a, 0x0c, 0x3e, 0x69, 0x49, 0x39, 0x12, 0x32, 0x4d, 0x98]),
    (49334, [0x3e, 0xe2, 0xa0, 0x24, 0x52, 0xa9, 0xb2, 0x89, 0xba, 0x9b, 0xf4, 0x90, 0x57, 0xb3, 0xdc, 0xd4]),
    (49335, [0x53, 0xfc, 0x52, 0x56, 0x05, 0x2c, 0x5c, 0x5e, 0x6f, 0x47, 0xa9, 0xd5, 0x1a, 0x1f, 0x88, 0xa1]),
    (49336, [0xc8, 0x99, 0x8a, 0xae, 0x38, 0xc3, 0x25, 0x8b, 0x3f, 0x5f, 0xea, 0xfc, 0xb7, 0x6b, 0xd5, 0xf2]),
    (49337, [0xad, 0x00, 0xae, 0x23, 0x8f, 0x45, 0x66, 0xc8, 0xac, 0x95, 0xc0, 0xeb, 0x18, 0x07, 0xcf, 0x9b]),
    (49341, [0x92, 0xb1, 0xe9, 0xd4, 0x31, 0xf7, 0x5e, 0x29, 0x72, 0x04, 0x27, 0xa6, 0x37, 0xdd, 0x4f, 0x87]),
    (49342, [0x11, 0x1e, 0x23, 0xa8, 0x20, 0x2a, 0xe4, 0xf3, 0x66, 0x86, 0x6c, 0xe1, 0xa8, 0xb2, 0x1f, 0xfc]),
    (49401, [0x17, 0xa7, 0x98, 0xd5, 0x08, 0x80, 0x0f, 0xd2, 0x90, 0x8a, 0x1e, 0x39, 0x01, 0xe4, 0xc3, 0x94]),
    (49405, [0x5a, 0x15, 0xd9, 0xd7, 0x28, 0x63, 0x0d, 0x71, 0xf6, 0x89, 0xbf, 0x65, 0x57, 0x6d, 0x1c, 0xba]),
    (49471, [0xdc, 0x4b, 0xed, 0x15, 0x75, 0x57, 0x90, 0xa6, 0x8c, 0xcb, 0x8e, 0xcc, 0x81, 0x9e, 0xf0, 0xe7]),
    (49481, [0xd4, 0x9a, 0x70, 0x6d, 0x32, 0xb2, 0x01, 0x37, 0xed, 0x83, 0x2b, 0x80, 0xc7, 0x24, 0x93, 0x19]),
    (49602, [0x76, 0x74, 0xad, 0x7e, 0x30, 0x65, 0x73, 0xbe, 0x29, 0x78, 0x35, 0x1e, 0xbb, 0x65, 0xc7, 0x05]),
    (49607, [0xdc, 0x65, 0x55, 0xd3, 0x2b, 0xa4, 0x18, 0x0b, 0x43, 0xcc, 0xd2, 0x4d, 0xbf, 0x42, 0x43, 0x3c]),
    (50001, [0x55, 0x51, 0x01, 0x52, 0x3f, 0xf9, 0x27, 0xc3, 0x4e, 0x67, 0x75, 0x76, 0xfe, 0xf1, 0x0b, 0x08]),
    (50111, [0x50, 0x1c, 0xe3, 0xa1, 0x20, 0xe9, 0x80, 0xd9, 0x3f, 0x59, 0x3d, 0xe9, 0x48, 0xe6, 0xb9, 0x1d]),
    (50112, [0x17, 0x0c, 0x1d, 0x45, 0xb7, 0xab, 0x24, 0x23, 0x17, 0x83, 0xe2, 0x21, 0x6f, 0x23, 0x8b, 0xbe]),
    (50131, [0xbb, 0x45, 0xd4, 0x7b, 0x5a, 0xeb, 0xc4, 0xef, 0xf1, 0x02, 0x3e, 0xc9, 0xa2, 0xa5, 0xac, 0xcd]),
    (50132, [0x96, 0xcd, 0x9a, 0x17, 0x56, 0x41, 0x11, 0xbe, 0x25, 0xba, 0x14, 0x72, 0x41, 0x5d, 0x0f, 0x5a]),
    (50133, [0x54, 0xe3, 0xbb, 0xa9, 0xe5, 0x62, 0x39, 0xfe, 0xdb, 0x5d, 0x5d, 0x2f, 0x1a, 0xc4, 0x65, 0xf2]),
    (50134, [0xa4, 0xe3, 0x06, 0xe6, 0x97, 0x4c, 0x6c, 0xde, 0x58, 0x1a, 0xbd, 0x57, 0xe3, 0x4f, 0xa7, 0xc5]),
    (50140, [0x6d, 0xbe, 0x59, 0x05, 0xef, 0x8d, 0xe1, 0xaa, 0x9e, 0x7c, 0xb7, 0xc8, 0x7c, 0x64, 0x9a, 0x83]),
    (50141, [0x17, 0xae, 0xeb, 0x98, 0xfa, 0x68, 0xc3, 0x76, 0x6e, 0x31, 0x99, 0x49, 0x51, 0xc4, 0xf8, 0x0e]),
    (50142, [0x92, 0x1a, 0x6d, 0xfa, 0xc2, 0x52, 0x98, 0x27, 0xb7, 0x13, 0x27, 0xe7, 0x75, 0xdb, 0xdb, 0x0e]),
    (50143, [0x85, 0x3b, 0x77, 0x31, 0x8e, 0x3b, 0x49, 0x52, 0xc6, 0x59, 0x67, 0x92, 0xa1, 0xb3, 0xb2, 0xb7]),
    (50144, [0x66, 0x1c, 0x55, 0x40, 0x6f, 0x33, 0x97, 0x4b, 0x88, 0x4b, 0xa4, 0xb0, 0x9a, 0x41, 0xff, 0x4d]),
    (50145, [0xbc, 0xec, 0x8a, 0x65, 0xad, 0x69, 0xe4, 0x49, 0xb1, 0x73, 0x39, 0xc2, 0xde, 0x1a, 0x19, 0x88]),
    (50146, [0x45, 0xb2, 0x2f, 0x1b, 0x3b, 0x0c, 0xad, 0x1c, 0x20, 0x9d, 0x37, 0xa0, 0xda, 0x47, 0xe0, 0x51]),
    (50147, [0x6b, 0x7e, 0x94, 0x62, 0x6f, 0x8d, 0x5f, 0xd5, 0x56, 0x9c, 0x2e, 0xcd, 0xcb, 0x90, 0x98, 0x41]),
    (50150, [0xaa, 0x4a, 0x25, 0x9c, 0x9d, 0x78, 0x11, 0x33, 0x2b, 0xa0, 0xba, 0xb2, 0x3c, 0xd5, 0xca, 0x14]),
    (50151, [0xb7, 0xf4, 0xae, 0xa7, 0x62, 0x5d, 0x79, 0x68, 0xdd, 0xec, 0xf0, 0x01, 0xf9, 0x0f, 0xe7, 0xf1]),
    (50152, [0x47, 0x5d, 0xd1, 0x67, 0xe8, 0x68, 0xb9, 0x5b, 0xb2, 0x4f, 0x10, 0x3c, 0xf2, 0xa2, 0xe8, 0x0b]),
    (50153, [0x2f, 0x5a, 0x05, 0x4e, 0x42, 0x52, 0xba, 0xbd, 0x4b, 0x73, 0x03, 0x9f, 0xc5, 0x59, 0x58, 0xce]),
    (50154, [0x97, 0xac, 0x6d, 0xe5, 0x8e, 0x29, 0x98, 0x2e, 0x44, 0xfe, 0x37, 0x3b, 0x41, 0x3a, 0x39, 0x47]),
    (50155, [0xe0, 0xec, 0x55, 0xff, 0xfa, 0x72, 0x49, 0xc3, 0xd4, 0x78, 0xae, 0xa2, 0xa7, 0x8b, 0x61, 0x99]),
    (50156, [0x2f, 0xfc, 0x9f, 0xa4, 0xf6, 0x0c, 0x0e, 0x7d, 0x48, 0xee, 0x85, 0x05, 0x4b, 0xc3, 0x1b, 0x8e]),
    (50157, [0x79, 0x87, 0x52, 0x19, 0x75, 0x51, 0x93, 0xc9, 0x1e, 0x16, 0xbb, 0x0a, 0xc1, 0x9b, 0x7f, 0x6c]),
    (50161, [0x16, 0xc0, 0x1b, 0xd4, 0x25, 0x81, 0x78, 0x61, 0x26, 0x42, 0xc1, 0x5a, 0x78, 0x45, 0x5e, 0xdf]),
    (50162, [0x50, 0x72, 0x0f, 0x3d, 0xb1, 0x65, 0x45, 0x66, 0x3c, 0xef, 0x4e, 0x37, 0xb4, 0x0e, 0x39, 0x2d]),
    (50163, [0x9e, 0x03, 0xb7, 0x06, 0x25, 0x84, 0x5d, 0xa9, 0xc9, 0xdc, 0x44, 0x05, 0xca, 0x4e, 0x1e, 0x4e]),
    (50164, [0x4d, 0x8d, 0xc6, 0x1a, 0x8a, 0x38, 0x97, 0x07, 0xf3, 0x01, 0xbb, 0x43, 0xb2, 0x14, 0x5e, 0xd4]),
    (50165, [0xad, 0x35, 0x54, 0x51, 0x0b, 0x9d, 0x8c, 0x8c, 0x21, 0xfc, 0x1c, 0xeb, 0xdd, 0xea, 0x51, 0xf7]),
    (50166, [0xd6, 0xcc, 0xd5, 0xdb, 0x93, 0x48, 0x90, 0x94, 0xed, 0x13, 0x80, 0x47, 0x64, 0x28, 0x48, 0x5d]),
    (50167, [0x36, 0x2e, 0xb1, 0x4f, 0x56, 0xad, 0xaa, 0xf6, 0xd9, 0xa0, 0x90, 0x95, 0xb5, 0xdc, 0x4e, 0x97]),
    (50168, [0x1a, 0xb0, 0x43, 0xd7, 0x0d, 0xb8, 0xc8, 0x54, 0xeb, 0x77, 0xec, 0x5b, 0x45, 0x76, 0x5c, 0x0a]),
    (50169, [0xed, 0x96, 0xc7, 0x1d, 0x53, 0x9b, 0x59, 0x7c, 0x64, 0x29, 0xab, 0xb9, 0xec, 0xb8, 0x42, 0x41]),
    (50171, [0x77, 0xd3, 0x26, 0xf9, 0x68, 0x85, 0x84, 0x76, 0xfe, 0xa0, 0xba, 0x65, 0x4d, 0x6b, 0x11, 0x30]),
    (50172, [0xea, 0x4f, 0x40, 0x5c, 0x87, 0x52, 0x30, 0x1d, 0xc8, 0x89, 0x14, 0x62, 0x0f, 0x80, 0x0e, 0x8b]),
    (50173, [0x01, 0xd0, 0xb9, 0xdc, 0x70, 0x82, 0x58, 0xbd, 0x03, 0xce, 0x4c, 0x7d, 0xea, 0x71, 0x1e, 0x30]),
    (50174, [0x9a, 0x91, 0x71, 0x87, 0x82, 0xbe, 0x36, 0x8a, 0x40, 0xcd, 0xcc, 0xa4, 0xb9, 0x21, 0xff, 0xfc]),
    (50175, [0x00, 0xea, 0xc7, 0x88, 0x71, 0xf7, 0xd3, 0xd6, 0x05, 0x4e, 0xf2, 0xaa, 0xa1, 0x0c, 0xb1, 0x22]),
    (50176, [0xfb, 0xe1, 0x2c, 0x26, 0x3b, 0x8c, 0x97, 0x59, 0x01, 0xd5, 0xd4, 0x82, 0x1b, 0x6d, 0x5c, 0xe0]),
    (50177, [0x9f, 0xcd, 0x53, 0x76, 0x91, 0x28, 0x61, 0x16, 0x92, 0xbd, 0xa5, 0x4b, 0x86, 0x6b, 0x09, 0x23]),
    (50178, [0x5d, 0xf6, 0x86, 0xd6, 0x4d, 0x31, 0x86, 0xb8, 0x27, 0x65, 0x2d, 0xb4, 0xe9, 0x01, 0xf6, 0x9c]),
    (50179, [0x5b, 0x1e, 0xe0, 0xb8, 0x22, 0x85, 0x6d, 0xa2, 0x42, 0xf3, 0x74, 0x61, 0xf1, 0x15, 0xff, 0xbc]),
    (50181, [0x94, 0xf8, 0x3a, 0xb1, 0x77, 0xac, 0xd2, 0x7c, 0x25, 0x8c, 0x38, 0xe1, 0xbe, 0xc7, 0xd7, 0xdf]),
    (50182, [0x23, 0x11, 0xd5, 0x41, 0x83, 0x76, 0xb3, 0xb4, 0x77, 0x90, 0x51, 0x0f, 0x13, 0xe2, 0x63, 0x7d]),
    (50183, [0xcb, 0x38, 0xdd, 0x6a, 0x22, 0xcc, 0x83, 0x1e, 0x46, 0x4d, 0x54, 0x31, 0xe7, 0xd4, 0xf5, 0x9f]),
    (50184, [0xf4, 0xb6, 0x8a, 0x1e, 0x2a, 0x27, 0x79, 0xa0, 0x4e, 0x27, 0x8e, 0xa7, 0x42, 0x80, 0x9e, 0x3e]),
    (50185, [0x42, 0x5e, 0xd8, 0x15, 0xe4, 0x15, 0x82, 0xf2, 0xc9, 0x5c, 0xfd, 0x4f, 0xd9, 0xd1, 0xa8, 0x41]),
    (50186, [0x26, 0xd9, 0xbe, 0xbf, 0xe9, 0xaa, 0x1b, 0xfc, 0x76, 0x12, 0xc6, 0xc3, 0x78, 0xd5, 0x81, 0x32]),
    (50187, [0x34, 0x4d, 0x21, 0x93, 0x0c, 0xc4, 0x40, 0xe3, 0x5e, 0xd7, 0x3d, 0xba, 0xb9, 0xdb, 0xfa, 0x9d]),
    (50188, [0xda, 0xbd, 0xca, 0xf2, 0xc4, 0x8a, 0xe2, 0xbb, 0xe5, 0xa9, 0xa9, 0xbb, 0x59, 0xd4, 0x7c, 0x64]),
    (50189, [0xd9, 0xc0, 0x41, 0x06, 0xbb, 0xe0, 0x2d, 0x22, 0xa9, 0x28, 0xbd, 0x37, 0x92, 0xa0, 0xe1, 0x8c]),
    (50191, [0x10, 0xe3, 0x11, 0xff, 0x85, 0xbb, 0x3e, 0x75, 0xca, 0x05, 0x59, 0x75, 0xa9, 0x8e, 0x91, 0x9d]),
    (50192, [0x83, 0x8c, 0x1c, 0x52, 0xb0, 0xbc, 0x2c, 0xcc, 0x4e, 0xd0, 0x29, 0x2b, 0x2e, 0xf0, 0x05, 0x91]),
    (50193, [0x6e, 0x76, 0x6f, 0x93, 0xad, 0x9f, 0xd1, 0x4c, 0xdc, 0x0c, 0x49, 0x2c, 0xbd, 0xaa, 0xa4, 0x58]),
    (50194, [0xb6, 0xdd, 0x81, 0x20, 0x1f, 0x3f, 0xdd, 0x47, 0x63, 0x77, 0x84, 0x56, 0xcf, 0x2c, 0xe1, 0xba]),
    (50195, [0xf7, 0x85, 0xea, 0x69, 0x3a, 0xc4, 0x5e, 0x98, 0xe1, 0x9f, 0x06, 0x42, 0x5e, 0xd6, 0x43, 0x8e]),
    (50196, [0x40, 0x4d, 0x70, 0x95, 0x87, 0xd3, 0xec, 0x2a, 0xd5, 0x76, 0x36, 0x4a, 0xff, 0x83, 0x38, 0x15]),
    (50197, [0xeb, 0x24, 0x9c, 0xa7, 0xb1, 0x3b, 0xb3, 0x14, 0xea, 0xbf, 0x7d, 0xd9, 0x92, 0x32, 0x0c, 0xa2]),
    (50198, [0x15, 0x56, 0x41, 0xac, 0xaf, 0x5f, 0x92, 0x94, 0xde, 0xd1, 0xf3, 0x2f, 0xf8, 0x97, 0x40, 0x96]),
    (50199, [0xb8, 0x88, 0x22, 0xfa, 0xf3, 0xb4, 0x4e, 0x7a, 0x9e, 0x05, 0xc5, 0x45, 0xa5, 0x53, 0xb1, 0x3a]),
    (50200, [0x51, 0xd6, 0x47, 0xbb, 0x08, 0xd3, 0x2b, 0xd2, 0x5d, 0x7f, 0x0c, 0x2b, 0x0a, 0xc1, 0x87, 0xe5]),
    (50201, [0xe1, 0xc8, 0xc7, 0x92, 0x77, 0xad, 0xa6, 0x9e, 0x5f, 0x09, 0x9f, 0x3e, 0x73, 0x85, 0xeb, 0xa7]),
    (50202, [0x24, 0x08, 0xaa, 0xbf, 0x1e, 0xda, 0x97, 0xdf, 0x39, 0x94, 0x92, 0x87, 0x78, 0x54, 0xb7, 0xfd]),
    (50203, [0xed, 0x3e, 0x98, 0x34, 0xf9, 0x6f, 0x93, 0xb1, 0x10, 0xe2, 0x2c, 0xd2, 0xbf, 0xb0, 0xcf, 0x33]),
    (50204, [0xcd, 0xc5, 0x2a, 0xbb, 0x1e, 0x6d, 0x68, 0xd1, 0x15, 0xc2, 0x93, 0x15, 0xd3, 0x42, 0x1a, 0xf3]),
    (50205, [0x7a, 0x27, 0x5b, 0x4e, 0x9d, 0xae, 0x20, 0xdc, 0x0a, 0x29, 0xff, 0x04, 0xf3, 0x65, 0xe9, 0xfc]),
    (50206, [0xc1, 0x20, 0xef, 0x6b, 0x27, 0x04, 0x5f, 0x94, 0x8f, 0xe3, 0x0c, 0x38, 0x43, 0x6d, 0x55, 0x87]),
    (50207, [0xf3, 0xc4, 0x4e, 0x9e, 0x8c, 0xb1, 0x4e, 0x11, 0xce, 0x04, 0x19, 0xb3, 0x62, 0x9b, 0xba, 0x4d]),
    (50208, [0xb2, 0x5a, 0x05, 0xdb, 0xbe, 0x6b, 0x9f, 0x27, 0x45, 0x6f, 0x2d, 0x0c, 0x6d, 0x85, 0xb5, 0x52]),
    (50209, [0x59, 0x01, 0xbc, 0x7b, 0x26, 0x47, 0x28, 0x74, 0x68, 0x19, 0xe1, 0xe1, 0x8a, 0x15, 0x03, 0x81]),
    (50210, [0x7a, 0x58, 0x91, 0xda, 0x63, 0x41, 0x68, 0xaf, 0xf8, 0x4b, 0xe7, 0xcb, 0x18, 0xdc, 0xb0, 0x5d]),
    (50213, [0x6f, 0x6d, 0x6c, 0xf8, 0x48, 0xca, 0x9a, 0x68, 0xce, 0x83, 0xf7, 0x20, 0x4c, 0x9f, 0xc7, 0xc3]),
    (50221, [0xea, 0x47, 0x91, 0xd6, 0x4d, 0x31, 0x1a, 0x2a, 0x06, 0xe8, 0x1f, 0x09, 0xcd, 0xf0, 0x2a, 0xe1]),
    (50222, [0x5d, 0x9f, 0x54, 0x8e, 0x96, 0x85, 0xd9, 0x44, 0xe6, 0xb6, 0x2f, 0x3f, 0xdd, 0x3c, 0x81, 0x81]),
    (50223, [0x4b, 0x61, 0x74, 0xf7, 0x3d, 0x62, 0xb9, 0xc0, 0x3b, 0x2b, 0x70, 0x9e, 0x59, 0x8c, 0xfa, 0xc4]),
    (50224, [0x72, 0x92, 0xed, 0x00, 0x4c, 0xea, 0x2e, 0x38, 0x13, 0xed, 0xb8, 0xde, 0x59, 0xf6, 0xbf, 0xb7]),
    (50225, [0xf2, 0x1c, 0xde, 0x3f, 0x3b, 0x77, 0x9a, 0x26, 0x56, 0xb9, 0x41, 0x5e, 0x49, 0x79, 0x93, 0xf2]),
    (50226, [0xb4, 0x16, 0x49, 0xfa, 0x1d, 0x70, 0x93, 0xdf, 0x93, 0x0a, 0x1e, 0x55, 0x0f, 0x7a, 0xdc, 0xf5]),
    (50227, [0x61, 0x91, 0x85, 0x74, 0x45, 0x83, 0x5c, 0xc1, 0x64, 0x07, 0xbc, 0x05, 0xa2, 0xb0, 0x2c, 0x06]),
    (50228, [0x60, 0x78, 0xf1, 0xee, 0x77, 0x4c, 0x44, 0x11, 0x03, 0xd7, 0xbf, 0x68, 0x0b, 0x50, 0xc7, 0x5f]),
    (50229, [0x4d, 0x4d, 0x6d, 0xca, 0x9d, 0x55, 0x3d, 0xba, 0x18, 0xe6, 0x39, 0x76, 0x0d, 0xb6, 0xbd, 0xe4]),
    (50230, [0xfe, 0x4f, 0x8a, 0x06, 0x4e, 0xbd, 0x49, 0x46, 0x6f, 0x6a, 0x3a, 0x65, 0xb7, 0x9b, 0x7e, 0xc7]),
    (50231, [0xe2, 0x94, 0x87, 0x7a, 0xe5, 0x0e, 0xa0, 0x95, 0xeb, 0x51, 0xaf, 0x25, 0xe6, 0x09, 0xff, 0x1f]),
    (50232, [0xd9, 0xea, 0xc7, 0x2e, 0xe3, 0xec, 0xa0, 0x2e, 0x7c, 0xb4, 0x79, 0xd7, 0x80, 0x64, 0xc3, 0x62]),
    (50233, [0xed, 0x3e, 0x98, 0x34, 0xf9, 0x6f, 0x93, 0xb1, 0x10, 0xe2, 0x2c, 0xd2, 0xbf, 0xb0, 0xcf, 0x33]),
    (50234, [0xcd, 0xc5, 0x2a, 0xbb, 0x1e, 0x6d, 0x68, 0xd1, 0x15, 0xc2, 0x93, 0x15, 0xd3, 0x42, 0x1a, 0xf3]),
    (50235, [0x7a, 0x27, 0x5b, 0x4e, 0x9d, 0xae, 0x20, 0xdc, 0x0a, 0x29, 0xff, 0x04, 0xf3, 0x65, 0xe9, 0xfc]),
    (50236, [0xc1, 0x20, 0xef, 0x6b, 0x27, 0x04, 0x5f, 0x94, 0x8f, 0xe3, 0x0c, 0x38, 0x43, 0x6d, 0x55, 0x87]),
    (50237, [0xf3, 0xc4, 0x4e, 0x9e, 0x8c, 0xb1, 0x4e, 0x11, 0xce, 0x04, 0x19, 0xb3, 0x62, 0x9b, 0xba, 0x4d]),
    (50238, [0xb2, 0x5a, 0x05, 0xdb, 0xbe, 0x6b, 0x9f, 0x27, 0x45, 0x6f, 0x2d, 0x0c, 0x6d, 0x85, 0xb5, 0x52]),
    (50239, [0x59, 0x01, 0xbc, 0x7b, 0x26, 0x47, 0x28, 0x74, 0x68, 0x19, 0xe1, 0xe1, 0x8a, 0x15, 0x03, 0x81]),
    (50241, [0x3c, 0x53, 0x7e, 0xe1, 0xc1, 0xd4, 0x00, 0xf1, 0x24, 0x65, 0x44, 0x9e, 0xcc, 0x76, 0xe2, 0x1a]),
    (50242, [0x08, 0x10, 0x74, 0xaa, 0xf0, 0xbf, 0xf3, 0x38, 0xd2, 0x17, 0x1b, 0xf2, 0x09, 0x2c, 0x23, 0xef]),
    (50243, [0x52, 0xfb, 0xf8, 0xa6, 0x5a, 0x3e, 0x7f, 0xd7, 0x83, 0xf0, 0x57, 0x57, 0x19, 0xe5, 0x2b, 0xe7]),
    (50244, [0x9a, 0xaf, 0x3c, 0xb7, 0x13, 0x88, 0x84, 0x7c, 0x81, 0xe2, 0x0f, 0x37, 0x97, 0x0d, 0xd0, 0xec]),
    (50245, [0x53, 0x62, 0x06, 0x02, 0x1e, 0x5f, 0x44, 0x1d, 0xde, 0x90, 0xca, 0x41, 0x56, 0xae, 0x2b, 0x39]),
    (50246, [0xdd, 0xde, 0x48, 0x95, 0x5a, 0x20, 0x6a, 0x82, 0x10, 0x6a, 0xa8, 0x56, 0xd4, 0xc0, 0x42, 0x98]),
    (50247, [0x06, 0xdc, 0xab, 0x7f, 0x62, 0x8c, 0x3d, 0x8e, 0x27, 0x94, 0xb8, 0x16, 0x39, 0x33, 0x04, 0xa6]),
    (50248, [0x5d, 0x08, 0xe8, 0xb9, 0xb5, 0x21, 0x10, 0x68, 0x42, 0x82, 0xeb, 0x30, 0x2c, 0xf9, 0xf8, 0x09]),
    (50249, [0x34, 0x95, 0xd3, 0x02, 0x32, 0xad, 0x0e, 0x6b, 0x64, 0x87, 0x46, 0x21, 0x6b, 0x43, 0x6e, 0xca]),
    (50261, [0x79, 0x1d, 0xcf, 0x53, 0x06, 0x76, 0x79, 0xed, 0x42, 0xd5, 0x7c, 0x9b, 0xc8, 0x12, 0xf5, 0xcd]),
    (50262, [0x0d, 0xa7, 0x3c, 0x27, 0xcf, 0xe6, 0x99, 0xa5, 0x56, 0x76, 0x2a, 0x8d, 0x91, 0x2f, 0xa1, 0x21]),
    (50263, [0xae, 0x2b, 0x9a, 0x7f, 0x47, 0x0a, 0x36, 0x7f, 0x13, 0x24, 0xd4, 0x32, 0x03, 0x77, 0x6a, 0x02]),
    (50264, [0xe0, 0x6d, 0x91, 0x33, 0xb1, 0x97, 0xce, 0x25, 0x7a, 0x31, 0x42, 0xa1, 0x39, 0x9f, 0x09, 0x98]),
    (50265, [0x80, 0xd6, 0xfa, 0xee, 0x76, 0xf9, 0x33, 0xe3, 0x32, 0x53, 0xd7, 0x52, 0x9c, 0xd7, 0xe0, 0xee])]"

lemma TABLE_08_span: "span 24490 TABLE_08 28117"
  unfolding TABLE_08_def by (simp only: span_eval) simp

lemma TABLE_09_span: "span 29181 TABLE_09 34094"
  unfolding TABLE_09_def by (simp only: span_eval) simp

lemma TABLE_10_span: "span 34095 TABLE_10 35096"
  unfolding TABLE_10_def by (simp only: span_eval) simp

lemma TABLE_11_span: "span 35097 TABLE_11 39801"
  unfolding TABLE_11_def by (simp only: span_eval) simp

lemma TABLE_12_span: "span 39802 TABLE_12 42689"
  unfolding TABLE_12_def by (simp only: span_eval) simp

lemma TABLE_13_span: "span 42691 TABLE_13 46526"
  unfolding TABLE_13_def by (simp only: span_eval) simp

lemma TABLE_14_span: "span 46527 TABLE_14 48248"
  unfolding TABLE_14_def by (simp only: span_eval) simp

lemma TABLE_15_span: "span 48249 TABLE_15 50265"
  unfolding TABLE_15_def by (simp only: span_eval) simp

end
