(* ===== verification/Key_Table_3.thy ===== *)
theory Key_Table_3
  imports Key_Order
begin

text \<open>
  Rows 2401 to 3600 of the built-in key table of \<open>src/keys/table.rs\<close>, in runs of at most 150 rows, and
  that each run is strictly ascending in the depot.
\<close>

definition TABLE_16 :: "key_entry list" where
  "TABLE_16 = [
    (50266, [0x05, 0xef, 0xb3, 0x36, 0x2b, 0x5b, 0x9f, 0x9d, 0x28, 0x2e, 0x9b, 0x1d, 0xe9, 0xb1, 0x3e, 0xda]),
    (50267, [0x47, 0x4f, 0xf9, 0x7c, 0x69, 0x19, 0x2a, 0xcb, 0x70, 0xa1, 0x5a, 0xd2, 0x76, 0xd6, 0xcd, 0xfe]),
    (50268, [0x1d, 0x1c, 0x0e, 0x02, 0x1d, 0x5d, 0xfb, 0xaf, 0x2a, 0xf1, 0x5c, 0x79, 0x52, 0x1a, 0x92, 0x78]),
    (50269, [0xaf, 0x6c, 0x07, 0x36, 0xfe, 0x18, 0x97, 0x29, 0x92, 0xb4, 0xdd, 0x55, 0x01, 0x7e, 0xc8, 0x19]),
    (50270, [0x9a, 0xf2, 0xb8, 0x17, 0xcb, 0xe1, 0x2f, 0x95, 0x9e, 0xfe, 0x71, 0x7c, 0xa9, 0xda, 0x6e, 0x4f]),
    (50271, [0x8b, 0xea, 0x14, 0x0f, 0x4a, 0x3c, 0xd6, 0xc1, 0xbf, 0x44, 0x3e, 0xd3, 0x27, 0x37, 0x82, 0xb3]),
    (50272, [0x32, 0xef, 0x90, 0xfd, 0xe6, 0x1d, 0xb8, 0x19, 0x55, 0x1f, 0x12, 0x14, 0x05, 0x3f, 0x75, 0xa0]),
    (50281, [0x5d, 0x74, 0xdf, 0x8f, 0x71, 0x30, 0xc3, 0x39, 0x2f, 0x91, 0x56, 0xb2, 0xa6, 0x38, 0x10, 0x67]),
    (50282, [0x65, 0x08, 0xbe, 0x7b, 0x6e, 0x6f, 0xc3, 0xd7, 0xb3, 0x92, 0xe4, 0x0c, 0x21, 0x77, 0xfb, 0xbf]),
    (50283, [0xb4, 0x38, 0xc0, 0xa2, 0x73, 0xd3, 0xbc, 0xd2, 0xc7, 0x35, 0x51, 0x6f, 0x08, 0x91, 0x09, 0x69]),
    (50284, [0x96, 0xb8, 0xd0, 0xb2, 0x91, 0xbe, 0x3d, 0xb6, 0xea, 0x16, 0xe2, 0xc5, 0x28, 0x51, 0x62, 0x0f]),
    (50285, [0x95, 0x8e, 0xa6, 0x0c, 0x0e, 0x2d, 0x19, 0x60, 0xc4, 0xca, 0x94, 0xc7, 0x5f, 0x80, 0xeb, 0x7e]),
    (50286, [0x74, 0x5b, 0xbc, 0xf1, 0x7b, 0xc9, 0x83, 0xbb, 0x57, 0x87, 0x04, 0x54, 0x58, 0x42, 0xcb, 0xeb]),
    (50287, [0x07, 0x6e, 0x82, 0xe1, 0xd4, 0x6f, 0x2c, 0xec, 0x01, 0x74, 0x62, 0x46, 0x07, 0x42, 0x32, 0xa0]),
    (50288, [0xc1, 0x7a, 0x1c, 0x50, 0xe3, 0x38, 0xa6, 0xf1, 0x58, 0xf8, 0xda, 0x6b, 0xc9, 0x09, 0x34, 0x2f]),
    (50289, [0xac, 0xd6, 0xef, 0x29, 0x8e, 0x67, 0x75, 0x02, 0x46, 0xf5, 0x1f, 0x25, 0x65, 0x67, 0x50, 0xc3]),
    (50290, [0x14, 0x7a, 0x24, 0x22, 0x01, 0x06, 0xe0, 0x44, 0x12, 0xa4, 0xd5, 0x60, 0x2e, 0x06, 0xf1, 0x6b]),
    (50301, [0x4b, 0xd1, 0x1d, 0x79, 0x10, 0x05, 0xd1, 0x3c, 0xff, 0x78, 0x85, 0x7a, 0x65, 0x29, 0x01, 0x55]),
    (50302, [0x35, 0x62, 0x0a, 0x2c, 0x77, 0x48, 0xdd, 0x57, 0xc4, 0x57, 0x41, 0x08, 0x08, 0x0c, 0x23, 0xda]),
    (50303, [0x59, 0x0f, 0x0f, 0x7a, 0xef, 0x1f, 0x4f, 0xf5, 0x61, 0xe1, 0x64, 0x29, 0x0f, 0x9c, 0xbb, 0x58]),
    (50304, [0x02, 0xa4, 0xf2, 0xe8, 0xd5, 0x91, 0x62, 0x39, 0xdf, 0x16, 0xb8, 0x7d, 0x24, 0x2e, 0xce, 0x83]),
    (50305, [0xb6, 0x6a, 0xb7, 0xa9, 0x1c, 0x6d, 0x78, 0x77, 0x09, 0xaf, 0x26, 0x19, 0x1b, 0x2b, 0x0a, 0xf8]),
    (50306, [0x77, 0xf2, 0x8b, 0x50, 0x2d, 0x98, 0x89, 0xfb, 0xea, 0xe1, 0x2b, 0x31, 0x42, 0xf9, 0xc9, 0x79]),
    (50307, [0xa2, 0x85, 0xfd, 0xbb, 0xcd, 0x3a, 0x19, 0x8f, 0x58, 0x06, 0x41, 0x77, 0x62, 0x5d, 0xc8, 0x46]),
    (50308, [0x56, 0xe8, 0x74, 0xa6, 0xb5, 0x68, 0x70, 0xf4, 0xfe, 0x44, 0x40, 0xf5, 0xfc, 0x69, 0xeb, 0x44]),
    (50309, [0xe7, 0xa0, 0x56, 0x28, 0xdd, 0x4b, 0x27, 0x2b, 0xa1, 0xfd, 0x5a, 0xc7, 0x16, 0x67, 0x8a, 0x67]),
    (50401, [0x65, 0x00, 0xa7, 0xa4, 0xca, 0xef, 0x51, 0x6a, 0x44, 0x15, 0x0a, 0xab, 0x8f, 0x90, 0xbc, 0xd7]),
    (50402, [0x98, 0xe5, 0x40, 0x2f, 0xce, 0x98, 0xe1, 0x17, 0xc4, 0xd6, 0x7f, 0x49, 0x54, 0xfc, 0x5b, 0x05]),
    (50403, [0x1d, 0x01, 0xdd, 0xcd, 0xfc, 0x5c, 0xda, 0x9c, 0x82, 0x04, 0x6b, 0xe8, 0x0c, 0xf7, 0x0e, 0x2d]),
    (50404, [0xd8, 0x3c, 0xaa, 0x49, 0x7c, 0xec, 0x21, 0x8a, 0xf3, 0x07, 0xfe, 0x4f, 0x63, 0x3a, 0x54, 0xf6]),
    (50410, [0x61, 0x91, 0x31, 0xc6, 0x8f, 0xf9, 0x34, 0xf1, 0x91, 0xbf, 0x5a, 0xbf, 0xa9, 0x58, 0xc4, 0x26]),
    (50411, [0xc3, 0xd9, 0x00, 0x04, 0xa9, 0x7a, 0x16, 0x73, 0xc3, 0xd0, 0x3f, 0x7b, 0x0d, 0x57, 0xd0, 0x6b]),
    (50412, [0x66, 0xe7, 0x40, 0x61, 0x5b, 0x51, 0x10, 0x2d, 0x75, 0xba, 0x86, 0x18, 0x03, 0xb5, 0x1b, 0xcf]),
    (50413, [0x61, 0x8f, 0xe9, 0xd2, 0xf7, 0xd4, 0x20, 0x40, 0x2d, 0x38, 0x1c, 0x14, 0x68, 0xe6, 0x74, 0x74]),
    (50414, [0xa3, 0x3c, 0xb7, 0x2e, 0xac, 0xb9, 0x7b, 0xd4, 0xa4, 0xa2, 0xfb, 0xab, 0x9b, 0x84, 0xe8, 0xe3]),
    (50415, [0x97, 0x79, 0xd3, 0x41, 0xe4, 0x35, 0x5e, 0xac, 0xa4, 0x20, 0x74, 0x3c, 0xd6, 0xa3, 0x3f, 0x41]),
    (50416, [0x69, 0x04, 0xd9, 0x16, 0x15, 0x17, 0xdb, 0x4e, 0xae, 0xa8, 0x7c, 0xac, 0x10, 0xee, 0x3b, 0x32]),
    (50417, [0x33, 0xb8, 0xc3, 0x11, 0x50, 0xc9, 0xd9, 0xcd, 0xf1, 0x06, 0xc2, 0x9d, 0x1f, 0x58, 0x5d, 0x0b]),
    (50418, [0x87, 0xba, 0xe0, 0x3d, 0xcb, 0x15, 0xa1, 0x0d, 0x8e, 0x50, 0x1e, 0x0c, 0x31, 0x01, 0xc4, 0x1a]),
    (50421, [0x9c, 0x85, 0x1a, 0xed, 0x53, 0x0c, 0x95, 0x02, 0x88, 0x8c, 0x7a, 0xcd, 0x74, 0x47, 0x15, 0xae]),
    (50422, [0xe3, 0x8e, 0x2d, 0x4b, 0x4f, 0x3d, 0x71, 0xb4, 0x90, 0xde, 0x5c, 0xbc, 0xe4, 0x46, 0x0b, 0x71]),
    (50423, [0xd2, 0xb6, 0xa3, 0xf2, 0xec, 0x69, 0x71, 0xcd, 0x3c, 0x20, 0x84, 0x84, 0xce, 0x03, 0xcd, 0xf0]),
    (50424, [0x13, 0x57, 0x2b, 0xc7, 0x3c, 0xf8, 0x2f, 0x93, 0xdb, 0x22, 0x8f, 0xa1, 0x0d, 0xac, 0x5d, 0x94]),
    (50425, [0x79, 0x99, 0x01, 0x8d, 0x6c, 0xc2, 0xda, 0xd5, 0xe8, 0x01, 0xdd, 0x08, 0x84, 0x20, 0x8a, 0x95]),
    (50426, [0xdf, 0x81, 0x0a, 0x4f, 0xae, 0x95, 0x4e, 0x5b, 0xb8, 0xff, 0xb8, 0x98, 0x3e, 0x23, 0xa3, 0xce]),
    (50427, [0xaf, 0xa6, 0x59, 0x23, 0xbf, 0xb1, 0xa5, 0xec, 0x12, 0x6f, 0x81, 0x16, 0x67, 0x96, 0x21, 0x70]),
    (50428, [0x52, 0x4a, 0xdc, 0xb4, 0xb7, 0xcb, 0x38, 0xec, 0x93, 0x75, 0x45, 0x46, 0xca, 0x12, 0x93, 0x43]),
    (50429, [0x51, 0xe3, 0x9b, 0x1e, 0xb4, 0x21, 0xb8, 0xb3, 0xb8, 0x7c, 0x31, 0x1a, 0x20, 0x77, 0x9f, 0x86]),
    (50430, [0x77, 0x2b, 0xa2, 0x52, 0xa2, 0x7a, 0x97, 0x89, 0x39, 0x22, 0x19, 0x33, 0x80, 0x4e, 0x54, 0x8b]),
    (50431, [0x53, 0x16, 0xc0, 0xbd, 0x39, 0x0c, 0xeb, 0x9f, 0x22, 0x0a, 0x93, 0x9d, 0x9b, 0xff, 0x3d, 0x82]),
    (50432, [0x66, 0xc3, 0x35, 0x60, 0x76, 0xf8, 0x8f, 0x04, 0x26, 0xb6, 0x5d, 0x90, 0x47, 0xd3, 0x11, 0x1e]),
    (50433, [0x02, 0x40, 0xfd, 0x85, 0x35, 0x59, 0xb1, 0x32, 0x58, 0x93, 0xfb, 0x35, 0x76, 0xa2, 0xe5, 0xb6]),
    (50434, [0x62, 0xf2, 0x17, 0x86, 0x6c, 0x4f, 0x0b, 0xb5, 0x0e, 0x0e, 0x01, 0x04, 0xfd, 0x59, 0xd5, 0x6d]),
    (50435, [0x81, 0x24, 0x63, 0x07, 0x6b, 0xf7, 0xf5, 0xef, 0xc4, 0x51, 0xf7, 0x37, 0xa9, 0x52, 0xd2, 0xb8]),
    (50436, [0xb5, 0xec, 0x60, 0x33, 0xc4, 0x9b, 0xd6, 0x0e, 0xad, 0x39, 0xb9, 0x03, 0x27, 0xbe, 0xd6, 0xa5]),
    (50437, [0x78, 0x20, 0x2b, 0xf0, 0x0d, 0xc9, 0x6c, 0xe4, 0xa6, 0x5d, 0x24, 0xb8, 0x27, 0x3b, 0x35, 0x4e]),
    (50481, [0x6b, 0xe8, 0x70, 0x57, 0xca, 0x35, 0x91, 0x45, 0xee, 0x05, 0xe0, 0x25, 0x19, 0x9d, 0xf6, 0x4f]),
    (50482, [0x13, 0xb6, 0xa5, 0xfe, 0xc5, 0xab, 0x4a, 0x9a, 0x14, 0x3b, 0x96, 0x21, 0x1f, 0x66, 0x03, 0x8c]),
    (50483, [0x09, 0xed, 0xf5, 0x3e, 0xda, 0xf0, 0x67, 0x9c, 0x20, 0x1d, 0x95, 0x8a, 0xf7, 0x9a, 0x93, 0xb1]),
    (50484, [0x84, 0x20, 0x72, 0xc3, 0xdb, 0x9c, 0x62, 0x1d, 0xa5, 0x03, 0x0c, 0x4e, 0xbd, 0xa5, 0x90, 0x96]),
    (50485, [0x29, 0xd4, 0x2d, 0x36, 0xec, 0xae, 0x2e, 0x61, 0x26, 0xa2, 0xac, 0x3c, 0x7e, 0x14, 0x02, 0x5f]),
    (50486, [0x97, 0x17, 0xd6, 0x30, 0x71, 0x90, 0x28, 0x1a, 0x6d, 0x9e, 0x9c, 0xa9, 0x78, 0xd0, 0xdf, 0x9a]),
    (50487, [0x06, 0xe6, 0x03, 0xb4, 0x02, 0x51, 0x64, 0x51, 0x72, 0x54, 0x5a, 0x4e, 0x8c, 0x4b, 0x68, 0xc1]),
    (50488, [0xa6, 0x18, 0x1e, 0x66, 0x0b, 0x1e, 0x6b, 0x32, 0xad, 0xcb, 0x77, 0xb3, 0xd2, 0xe6, 0x1c, 0x16]),
    (50489, [0x1d, 0xd7, 0xbe, 0xde, 0x27, 0x6e, 0xa2, 0xf8, 0x1b, 0xc9, 0x0a, 0x11, 0x2b, 0xf4, 0x6a, 0x06]),
    (50621, [0x5d, 0xf2, 0xba, 0x7a, 0xa6, 0xc7, 0x40, 0x07, 0xee, 0xa5, 0xad, 0xed, 0xad, 0xd4, 0xcc, 0xb3]),
    (50622, [0xf3, 0x57, 0x53, 0x12, 0xb5, 0x4d, 0x56, 0x70, 0x41, 0xcd, 0xd1, 0xdf, 0x5e, 0x9f, 0x83, 0xe0]),
    (50623, [0x94, 0x3d, 0xa4, 0x20, 0x5f, 0x4f, 0x8f, 0x13, 0x75, 0x5f, 0x71, 0x84, 0x89, 0xe3, 0x59, 0x14]),
    (50624, [0x92, 0x05, 0x02, 0xec, 0x2d, 0xb9, 0x5f, 0x5c, 0xf4, 0x03, 0xd0, 0x8b, 0xa6, 0xab, 0x78, 0xe4]),
    (50625, [0x96, 0x4b, 0x82, 0x16, 0x71, 0xb4, 0x21, 0xe8, 0x59, 0x8f, 0xcf, 0xdd, 0x08, 0xe1, 0xb3, 0x9a]),
    (50626, [0xf3, 0xa9, 0x63, 0x5e, 0x0b, 0xc7, 0x8f, 0x10, 0xd4, 0xe0, 0x6c, 0x0a, 0xa7, 0xe8, 0x5b, 0x8a]),
    (50641, [0x73, 0x11, 0xab, 0x59, 0xb3, 0x0f, 0x9e, 0x41, 0x57, 0x96, 0x69, 0xcc, 0xcc, 0x54, 0x4d, 0x45]),
    (50642, [0xfd, 0x7d, 0x85, 0xa7, 0xcb, 0x16, 0xc1, 0x87, 0x4f, 0xd0, 0xee, 0xae, 0x4b, 0x28, 0xd7, 0x14]),
    (50643, [0x14, 0x51, 0xb8, 0x9f, 0x29, 0xfe, 0xac, 0xfb, 0xe6, 0x3b, 0xb4, 0x49, 0xb6, 0xc5, 0x7f, 0x11]),
    (50644, [0x3c, 0xf8, 0x61, 0x77, 0x89, 0x95, 0xb8, 0xcc, 0x71, 0x91, 0xb0, 0xc0, 0xe2, 0xaf, 0x07, 0xf4]),
    (50645, [0x6e, 0x37, 0x58, 0x24, 0x69, 0x62, 0x96, 0xc6, 0xb6, 0x32, 0x9c, 0xff, 0x72, 0xc7, 0x78, 0x3f]),
    (50646, [0xde, 0x51, 0xc4, 0xf6, 0x95, 0x48, 0xa3, 0x24, 0x90, 0x57, 0xaa, 0x11, 0x43, 0x6a, 0xdc, 0xb7]),
    (50671, [0x59, 0x11, 0xd0, 0x91, 0xb0, 0x05, 0x1c, 0x00, 0xbd, 0xc1, 0x97, 0xe0, 0x1e, 0xb0, 0x2f, 0x31]),
    (50672, [0x6a, 0x7d, 0x96, 0xe2, 0xff, 0x1c, 0x6b, 0x34, 0x60, 0xa2, 0x8f, 0xb3, 0x18, 0x85, 0xe6, 0xa0]),
    (50673, [0xac, 0x64, 0x51, 0xdd, 0xeb, 0x95, 0x42, 0x44, 0xf2, 0x8e, 0xc2, 0xc7, 0x4e, 0xa0, 0x3a, 0x6d]),
    (50674, [0x6e, 0x3e, 0x1e, 0x15, 0x82, 0xd9, 0xbd, 0x7f, 0xc0, 0xa7, 0xf9, 0xf9, 0xa1, 0x48, 0xda, 0xc9]),
    (50675, [0x8e, 0x1c, 0x5f, 0x0d, 0x98, 0xc8, 0xd2, 0xfa, 0x45, 0xfe, 0x55, 0x57, 0x26, 0x4c, 0x9c, 0x3f]),
    (50676, [0x46, 0x23, 0x54, 0x14, 0x35, 0xcd, 0x73, 0x1e, 0x89, 0xd8, 0xe8, 0xf7, 0x70, 0x7f, 0xb5, 0xf7]),
    (50677, [0xf0, 0x24, 0xdd, 0xfc, 0x0a, 0x80, 0x73, 0x3d, 0x43, 0xa5, 0x46, 0xca, 0xf5, 0x97, 0xee, 0xd8]),
    (50678, [0xc7, 0x74, 0x8b, 0x07, 0x98, 0x74, 0x13, 0xcd, 0x09, 0x11, 0x8b, 0xfb, 0xa5, 0xd2, 0x41, 0x53]),
    (50679, [0x7e, 0x8a, 0xaf, 0x7f, 0x8b, 0x71, 0x15, 0x48, 0xc4, 0xbd, 0xc2, 0x1c, 0xfb, 0x84, 0xe8, 0x08]),
    (55101, [0x16, 0x2c, 0xe0, 0xbb, 0x61, 0x67, 0x53, 0xf2, 0x1c, 0xb8, 0x56, 0x39, 0x94, 0x6b, 0x21, 0x14]),
    (55102, [0xd3, 0x45, 0xcd, 0xb3, 0x1c, 0xe2, 0x00, 0x39, 0x4e, 0xd5, 0xb8, 0xba, 0x37, 0xca, 0xe0, 0x68]),
    (55103, [0x20, 0x98, 0xad, 0x29, 0x80, 0x3f, 0x01, 0x05, 0xe3, 0x14, 0x8e, 0x0a, 0xc5, 0x88, 0xfd, 0x94]),
    (55104, [0x16, 0x6b, 0x24, 0xce, 0x9d, 0x29, 0xd6, 0x55, 0x4a, 0x1e, 0x07, 0x67, 0x06, 0xd1, 0xfe, 0x67]),
    (55105, [0x27, 0x49, 0x14, 0x73, 0xcc, 0x18, 0xd1, 0x86, 0x42, 0xd4, 0x20, 0x4a, 0xa3, 0x69, 0x7d, 0xd1]),
    (55106, [0x60, 0x7c, 0x1f, 0x63, 0xb7, 0x3c, 0x75, 0x88, 0x34, 0xd4, 0xa9, 0xf8, 0x43, 0x02, 0xfc, 0x2e]),
    (55107, [0x0f, 0xda, 0x64, 0x08, 0x0d, 0xdb, 0xc0, 0x01, 0xfe, 0x91, 0xbc, 0x3b, 0x05, 0x98, 0x7a, 0x8c]),
    (55108, [0xe8, 0x79, 0xea, 0xdd, 0xb7, 0x34, 0xbb, 0x6b, 0x4e, 0xbd, 0x22, 0x75, 0xf2, 0x3f, 0x9d, 0xb7]),
    (55109, [0xe7, 0xa5, 0xc5, 0x48, 0xbe, 0xb2, 0xae, 0xba, 0x6e, 0xd5, 0x5f, 0x65, 0x8d, 0xed, 0x06, 0xfe]),
    (55111, [0xf0, 0x53, 0x53, 0xf0, 0xd8, 0x51, 0xd2, 0xe8, 0xce, 0x9c, 0x9c, 0xf5, 0xcf, 0x19, 0x95, 0x58]),
    (55112, [0x6c, 0x3d, 0xba, 0x7c, 0xca, 0xbe, 0xa8, 0x4c, 0xb7, 0x0c, 0xd7, 0x26, 0x23, 0x63, 0x30, 0xea]),
    (55113, [0x4f, 0xc7, 0x6b, 0x5d, 0x73, 0xdf, 0x8a, 0xd1, 0x18, 0xaa, 0x13, 0x36, 0x61, 0x36, 0x98, 0xdc]),
    (55114, [0xec, 0x39, 0x44, 0x63, 0xa8, 0x67, 0x92, 0x4d, 0xe8, 0xa8, 0x86, 0xfb, 0xfc, 0xb2, 0x58, 0x4e]),
    (55116, [0x66, 0x15, 0xf8, 0xfc, 0x40, 0xe6, 0x0b, 0x59, 0xfb, 0x26, 0xe5, 0x14, 0x53, 0xdb, 0x18, 0xcf]),
    (55131, [0x80, 0x72, 0x34, 0x04, 0x47, 0x6f, 0x3a, 0xec, 0xc0, 0x28, 0xbf, 0x88, 0x4a, 0x36, 0x6c, 0xf0]),
    (55141, [0x65, 0xc8, 0x04, 0xb5, 0x93, 0x84, 0x60, 0x2f, 0x6d, 0x9a, 0x51, 0x94, 0xcc, 0x44, 0x36, 0x32]),
    (55142, [0xdc, 0xf9, 0x11, 0xa4, 0x52, 0xae, 0x58, 0x99, 0x9e, 0xcc, 0x58, 0xf1, 0x6b, 0x80, 0xa2, 0x2a]),
    (55143, [0xce, 0xa8, 0xbf, 0xf9, 0xba, 0x0f, 0x3d, 0x1d, 0x6f, 0xec, 0xff, 0x93, 0xef, 0x22, 0x9b, 0x4c]),
    (55144, [0x24, 0xc9, 0x24, 0x9a, 0xe6, 0x1a, 0x9c, 0x8e, 0xed, 0x72, 0x61, 0xa6, 0xdc, 0xb6, 0x64, 0x22]),
    (55145, [0x7f, 0xad, 0x20, 0xa2, 0x62, 0xd9, 0xe4, 0x20, 0x98, 0x72, 0x46, 0x55, 0xfc, 0x37, 0x8f, 0xfa]),
    (55146, [0xc2, 0xcd, 0xe8, 0xd6, 0x15, 0xb8, 0x8e, 0x52, 0x8a, 0xbf, 0xc2, 0x43, 0xf2, 0x16, 0x40, 0xe1]),
    (55152, [0x16, 0xa0, 0x40, 0xb8, 0x18, 0x88, 0xf6, 0x6c, 0x4a, 0x86, 0xfd, 0xeb, 0x4a, 0xd7, 0x26, 0xb0]),
    (55153, [0x00, 0x52, 0xc4, 0xc0, 0xee, 0x0d, 0xd5, 0x71, 0xaf, 0x75, 0x28, 0xba, 0x5b, 0xd6, 0x6f, 0x16]),
    (55154, [0x8f, 0x5b, 0xad, 0x0c, 0x7f, 0x4e, 0x9a, 0xb2, 0xae, 0x48, 0x79, 0xfd, 0x99, 0x69, 0xff, 0xd6]),
    (55155, [0xb1, 0x99, 0xb7, 0x1e, 0xb5, 0xc4, 0xd1, 0xa6, 0x4d, 0xeb, 0xe7, 0x67, 0x5b, 0x6c, 0x97, 0xe0]),
    (55156, [0xd3, 0xbd, 0xe9, 0xd3, 0x48, 0xaf, 0xcd, 0x3c, 0xcb, 0xb1, 0x67, 0x76, 0x7f, 0xd7, 0xdb, 0xe3]),
    (55157, [0xeb, 0x3a, 0xfe, 0xa8, 0xb8, 0x99, 0x5d, 0xbd, 0xad, 0xf6, 0x3b, 0x7a, 0x18, 0xff, 0xef, 0x68]),
    (55158, [0xbd, 0xba, 0x79, 0x4e, 0xed, 0xb6, 0xf9, 0xab, 0x07, 0x80, 0x71, 0x48, 0xdc, 0xb1, 0x98, 0xe5]),
    (55159, [0xb0, 0x8d, 0xb1, 0xcf, 0x3a, 0xbd, 0x46, 0xb4, 0x29, 0x72, 0xac, 0x9e, 0x78, 0xec, 0x42, 0xcd]),
    (55161, [0x91, 0x2b, 0x11, 0xc0, 0xe2, 0xf8, 0xe9, 0xbb, 0xce, 0x0e, 0xe1, 0x77, 0x60, 0x22, 0xd8, 0x81]),
    (55162, [0xe5, 0x9c, 0xb8, 0x45, 0x60, 0x34, 0x2f, 0x8a, 0x45, 0x9f, 0xfa, 0x33, 0x96, 0x12, 0xcc, 0x35]),
    (55163, [0x58, 0xc9, 0x5d, 0xee, 0xfe, 0x76, 0xb9, 0x0f, 0xf0, 0x3a, 0x31, 0xf9, 0x3e, 0x56, 0x2c, 0xba]),
    (55164, [0x9e, 0x20, 0xd7, 0x2c, 0x83, 0x6a, 0x85, 0x29, 0x24, 0xba, 0x6b, 0xca, 0xb6, 0xd9, 0x1e, 0xc3]),
    (55166, [0x53, 0x46, 0x3b, 0x37, 0xd9, 0x5b, 0x0e, 0xbb, 0x91, 0x1d, 0xd1, 0xce, 0xdc, 0x16, 0xfe, 0xd1]),
    (55201, [0xa7, 0xde, 0x1f, 0x72, 0x3b, 0xf2, 0xe6, 0x36, 0x6b, 0xc6, 0x7c, 0x42, 0xc1, 0x15, 0x77, 0x66]),
    (55202, [0xab, 0x1e, 0x03, 0x2a, 0x0a, 0x79, 0xbb, 0xf7, 0x9f, 0xf4, 0xd2, 0x64, 0x97, 0xbc, 0x2e, 0x1e]),
    (55211, [0x2b, 0xa6, 0x96, 0xdd, 0xa4, 0x58, 0x9a, 0x68, 0xd0, 0x4c, 0x63, 0xe5, 0x2a, 0xee, 0x1b, 0x3b]),
    (55212, [0x77, 0x84, 0x1f, 0x6e, 0xa8, 0x24, 0xe5, 0x8a, 0x23, 0xbf, 0xa4, 0xd9, 0x90, 0x81, 0xbc, 0x9e]),
    (55213, [0xf2, 0x9c, 0xe6, 0x1c, 0x55, 0x11, 0x57, 0xb7, 0xe6, 0xaf, 0xe5, 0x0a, 0xd0, 0x18, 0x86, 0x13]),
    (55231, [0xa0, 0x94, 0xe3, 0xb5, 0x73, 0xdf, 0xec, 0x34, 0xa6, 0xad, 0x6f, 0xda, 0x57, 0x4a, 0xeb, 0xd0]),
    (55232, [0xd3, 0xdf, 0xfd, 0x47, 0x14, 0xbf, 0x7e, 0x74, 0x4e, 0xa8, 0x3c, 0x05, 0x92, 0x6a, 0x12, 0xb6]),
    (55234, [0x03, 0xb7, 0x3e, 0x34, 0xef, 0xd4, 0x58, 0x43, 0x42, 0x2d, 0x66, 0x77, 0x8b, 0xab, 0xb7, 0xb5]),
    (55235, [0x66, 0x75, 0x2c, 0x58, 0xbc, 0x65, 0x12, 0xe9, 0x54, 0x2b, 0x22, 0x32, 0x36, 0x02, 0xc6, 0x4f]),
    (55236, [0x77, 0x92, 0x45, 0x45, 0xde, 0xa7, 0x85, 0xb7, 0x14, 0xde, 0x3e, 0x6f, 0x45, 0xfe, 0xe1, 0x83]),
    (55237, [0xae, 0x4b, 0x1f, 0x88, 0x76, 0x44, 0x39, 0xd4, 0x7d, 0xf3, 0x66, 0x50, 0x78, 0x64, 0xd8, 0x3d]),
    (55238, [0xbd, 0x33, 0xf3, 0x16, 0xc5, 0xc9, 0xcc, 0x3e, 0xf3, 0x90, 0xe5, 0x50, 0x87, 0xe5, 0x2b, 0xb8]),
    (55281, [0x20, 0x1b, 0x10, 0x2d, 0x9a, 0xb5, 0xd4, 0xe4, 0x36, 0xc7, 0x79, 0x1f, 0xcd, 0x21, 0xdb, 0x51]),
    (55291, [0xb5, 0x4f, 0xf3, 0x91, 0x71, 0x86, 0xbc, 0x64, 0x2b, 0xe3, 0xff, 0xd7, 0x9c, 0x89, 0xb0, 0x11]),
    (55350, [0xa6, 0x2e, 0xa6, 0xa7, 0x98, 0x8e, 0xc7, 0xbe, 0xd9, 0x88, 0x20, 0x4b, 0xe9, 0x3b, 0x84, 0x25]),
    (55351, [0x47, 0x3c, 0xd1, 0xb4, 0x99, 0xe9, 0x41, 0x1b, 0x43, 0xe5, 0x9c, 0xfb, 0x5e, 0xc0, 0x5f, 0x46]),
    (55352, [0xe1, 0x55, 0x3b, 0x87, 0xe7, 0xea, 0xef, 0xea, 0xf9, 0x36, 0xc2, 0x84, 0x55, 0xff, 0x2b, 0xd8]),
    (55353, [0xa2, 0x04, 0x70, 0x9f, 0xc2, 0xc7, 0x0a, 0xc2, 0x10, 0xb2, 0x32, 0x0b, 0x2c, 0xb4, 0xda, 0xad]),
    (55354, [0xfd, 0x21, 0xff, 0x8f, 0x7b, 0x50, 0x8f, 0xac, 0x4f, 0x24, 0x2a, 0x61, 0x4a, 0xe4, 0x18, 0xfa]),
    (55355, [0xba, 0xb8, 0x05, 0xbc, 0xeb, 0x92, 0xdb, 0x66, 0x06, 0x39, 0x1b, 0xf5, 0xa7, 0x6d, 0x17, 0xb8]),
    (55356, [0x38, 0x82, 0x32, 0x87, 0x26, 0xfd, 0xa6, 0xae, 0xae, 0xb2, 0x63, 0x19, 0x0a, 0xa1, 0xdb, 0x60]),
    (55357, [0xd9, 0xc8, 0x75, 0x8f, 0x96, 0xf4, 0x23, 0x15, 0xf7, 0xa6, 0xd5, 0xe3, 0x26, 0x04, 0xad, 0x83]),
    (55358, [0x0d, 0x8f, 0x27, 0x96, 0x85, 0xe9, 0x10, 0x29, 0x50, 0x8b, 0x16, 0x56, 0xeb, 0x4b, 0x91, 0xc5]),
    (55359, [0x60, 0x78, 0x86, 0xcb, 0x84, 0x2e, 0xc9, 0x2c, 0x58, 0x79, 0x18, 0xd6, 0xaa, 0x76, 0xc1, 0x5a]),
    (55371, [0xec, 0xa8, 0x7b, 0xd1, 0x41, 0x6a, 0x83, 0xcc, 0x0f, 0xd7, 0x28, 0x49, 0x31, 0x39, 0x54, 0xc4]),
    (55372, [0x56, 0x08, 0x2c, 0xe7, 0xe8, 0x2e, 0x2b, 0x2d, 0xe3, 0xf6, 0x88, 0x73, 0x93, 0xf8, 0x05, 0xcd]),
    (55411, [0x0c, 0x48, 0x71, 0x6e, 0x76, 0x23, 0xbf, 0xa4, 0xbc, 0x9b, 0x29, 0xc6, 0x1d, 0x66, 0xa7, 0x19]),
    (55412, [0x80, 0x42, 0xb7, 0x27, 0x71, 0x44, 0x67, 0x25, 0xf7, 0x9d, 0x07, 0x9b, 0xe9, 0x87, 0x81, 0x40]),
    (55413, [0x48, 0xaf, 0x3f, 0x0d, 0x2a, 0xb7, 0x89, 0x9f, 0xb6, 0xa3, 0x75, 0x8d, 0xce, 0x1d, 0x3a, 0x8f]),
    (55414, [0x64, 0x33, 0x1d, 0x2c, 0x5c, 0x43, 0xe3, 0x15, 0x0b, 0x1c, 0xaa, 0xe8, 0xbd, 0x42, 0x54, 0x27])]"

definition TABLE_17 :: "key_entry list" where
  "TABLE_17 = [
    (55415, [0x18, 0xdf, 0x40, 0x1c, 0xd1, 0x91, 0xc7, 0xcf, 0x6d, 0x3e, 0xe5, 0x4c, 0x71, 0x67, 0xd6, 0xe8]),
    (55416, [0x02, 0x2c, 0xa6, 0x78, 0xaa, 0xc9, 0xb7, 0x5c, 0xf6, 0xf4, 0xc7, 0xbe, 0x4e, 0x56, 0x30, 0xf4]),
    (55417, [0xef, 0x44, 0xfb, 0x8f, 0x4e, 0x61, 0xd8, 0xe7, 0xb5, 0xa6, 0x1b, 0x04, 0x1b, 0x58, 0xec, 0xe7]),
    (55418, [0x25, 0xb8, 0x12, 0x7b, 0x93, 0x83, 0x3c, 0xb7, 0xc5, 0x9f, 0x5d, 0xc2, 0x8a, 0x60, 0xef, 0xaa]),
    (55419, [0x82, 0xa5, 0xb3, 0x20, 0x41, 0xfb, 0x30, 0x0a, 0x22, 0xe0, 0x42, 0x55, 0xc9, 0x26, 0x6d, 0x33]),
    (55420, [0x12, 0xd2, 0x25, 0xf0, 0xa6, 0x09, 0x43, 0xf2, 0xe9, 0x8e, 0x44, 0x73, 0x55, 0xab, 0x84, 0xc5]),
    (55431, [0x51, 0x8d, 0x69, 0x18, 0x78, 0x62, 0xa7, 0x04, 0x25, 0x48, 0xab, 0xd8, 0x2f, 0x0c, 0x7b, 0xb6]),
    (55432, [0x51, 0x41, 0x5c, 0x27, 0x2f, 0xc6, 0x82, 0x74, 0xe8, 0x33, 0x29, 0xc2, 0x1f, 0x04, 0x53, 0x80]),
    (55433, [0x90, 0x1c, 0xf1, 0x1f, 0x39, 0xc4, 0xca, 0x6d, 0x0b, 0x37, 0xa2, 0x34, 0xa3, 0x6f, 0xed, 0x8c]),
    (55434, [0xdd, 0x5d, 0x88, 0x46, 0xac, 0x1d, 0x0c, 0x6b, 0xd9, 0xaa, 0xc5, 0x04, 0xcb, 0x88, 0x57, 0xda]),
    (55435, [0x60, 0x93, 0x8d, 0xc5, 0x17, 0xac, 0x2a, 0x98, 0xe8, 0x8a, 0xdc, 0x61, 0x52, 0x5a, 0xa7, 0x0f]),
    (55436, [0x8f, 0x89, 0x67, 0x63, 0xbd, 0xf9, 0xd9, 0x58, 0x4e, 0x48, 0x37, 0xc4, 0x75, 0xf1, 0x6a, 0x74]),
    (55437, [0x93, 0xdc, 0xb6, 0xd3, 0x2f, 0xe9, 0xac, 0x01, 0x8c, 0x3a, 0x7c, 0x83, 0x12, 0x27, 0x83, 0xb2]),
    (55438, [0x5f, 0x8e, 0x66, 0x72, 0x5f, 0xd3, 0xed, 0x91, 0xe3, 0x28, 0x28, 0x76, 0xd4, 0x06, 0x86, 0x82]),
    (55439, [0x14, 0xea, 0x8c, 0x6b, 0x66, 0xfa, 0x6b, 0x47, 0x2e, 0x65, 0x90, 0x93, 0xdd, 0x76, 0x27, 0xfc]),
    (55451, [0xc8, 0x26, 0x1d, 0xba, 0x63, 0x65, 0x1d, 0x37, 0x04, 0x03, 0x87, 0x4e, 0xa1, 0x07, 0x48, 0x3f]),
    (55452, [0xee, 0x63, 0xac, 0x36, 0xe7, 0x6d, 0x3c, 0x23, 0xd6, 0x24, 0x0e, 0x98, 0x4f, 0x48, 0x2e, 0x72]),
    (55453, [0xc8, 0xb4, 0xfe, 0x5a, 0x57, 0xa6, 0x7a, 0x64, 0x6f, 0x4b, 0xf1, 0x8f, 0x70, 0xe2, 0x57, 0xbd]),
    (55454, [0x38, 0x35, 0x8a, 0x32, 0x0b, 0x77, 0x81, 0x05, 0xc8, 0x0d, 0xcd, 0xf5, 0x0c, 0xc4, 0x1b, 0x5c]),
    (55455, [0x60, 0xd9, 0x3f, 0x70, 0xab, 0x2c, 0x9a, 0xc4, 0x2d, 0x68, 0x21, 0xe5, 0xec, 0xa8, 0x30, 0x09]),
    (55456, [0xf3, 0xf0, 0xcd, 0xb0, 0xa3, 0x75, 0x47, 0x8c, 0x6b, 0x61, 0xc3, 0x42, 0xb9, 0x0a, 0xa0, 0x14]),
    (55457, [0x6c, 0x6f, 0x59, 0xa1, 0xa7, 0x6a, 0x4b, 0x8e, 0x95, 0x1d, 0x96, 0xa2, 0xfe, 0x01, 0xf0, 0x15]),
    (55458, [0xc6, 0x05, 0xa6, 0x20, 0x34, 0x4b, 0x26, 0x06, 0x57, 0x57, 0x80, 0x08, 0x34, 0x51, 0xf2, 0xa9]),
    (55459, [0x91, 0x36, 0x31, 0x40, 0x49, 0x82, 0xf5, 0xff, 0x22, 0xc8, 0x88, 0x4f, 0xfa, 0xd0, 0x83, 0x31]),
    (56401, [0x26, 0x7a, 0x92, 0xef, 0x2b, 0x06, 0x2a, 0x58, 0xd3, 0x89, 0xa3, 0x77, 0x8d, 0x9c, 0x37, 0xee]),
    (56402, [0x77, 0xaa, 0xeb, 0x45, 0x40, 0x4e, 0xc5, 0x08, 0xfc, 0xcc, 0x83, 0x66, 0x8a, 0x36, 0xaa, 0xd9]),
    (56403, [0x55, 0x73, 0x1f, 0x7e, 0x03, 0xd4, 0xa0, 0x26, 0x40, 0xd6, 0xad, 0x0a, 0x78, 0xa4, 0xde, 0x7c]),
    (56404, [0x23, 0x06, 0xad, 0x9d, 0xdc, 0x8c, 0x3f, 0xe1, 0x28, 0x45, 0x79, 0x41, 0x3d, 0x3a, 0xf4, 0xc9]),
    (56405, [0x40, 0xa8, 0x7d, 0xbb, 0x6b, 0x31, 0x56, 0xac, 0x26, 0xa1, 0xd0, 0x79, 0x79, 0x41, 0x22, 0xc7]),
    (56406, [0x7d, 0x78, 0x11, 0x97, 0x5c, 0x16, 0xdf, 0x3a, 0x0c, 0x00, 0x75, 0xfb, 0xda, 0xa3, 0x92, 0xf4]),
    (56407, [0x53, 0xee, 0xb4, 0xcc, 0x9b, 0x8d, 0x3c, 0x22, 0xf0, 0x67, 0x7c, 0xfd, 0x9b, 0xc0, 0xdb, 0xd2]),
    (56408, [0x4d, 0xd6, 0x82, 0xd8, 0x71, 0xf6, 0xcb, 0xa2, 0xbe, 0x2e, 0xc5, 0xca, 0x12, 0xe6, 0x18, 0x7a]),
    (56409, [0x47, 0x3f, 0x7f, 0xff, 0xaf, 0x6d, 0x2a, 0x10, 0x28, 0x92, 0x40, 0x1a, 0x0f, 0xd0, 0x8f, 0x4f]),
    (56410, [0x34, 0x25, 0x90, 0x1e, 0xe0, 0x1d, 0xe4, 0x58, 0x03, 0x08, 0xc7, 0x43, 0xdb, 0x78, 0x1c, 0xad]),
    (56412, [0x64, 0xde, 0xb8, 0xed, 0xb0, 0x22, 0xde, 0xd0, 0x61, 0x99, 0x7d, 0xbf, 0x09, 0x0d, 0xeb, 0x77]),
    (56413, [0xbf, 0x1e, 0x7d, 0xe3, 0x67, 0xc4, 0x2f, 0x39, 0x26, 0x40, 0x82, 0x18, 0xfe, 0x5a, 0xa2, 0x78]),
    (56414, [0xd8, 0xf6, 0xea, 0x54, 0xbf, 0x9b, 0x66, 0x5c, 0x66, 0x53, 0xbb, 0x02, 0x53, 0x21, 0x3e, 0x14]),
    (56415, [0xf8, 0x8b, 0x65, 0x20, 0x7a, 0xd9, 0xaa, 0x8d, 0x0d, 0x62, 0x81, 0xc9, 0xf1, 0xe1, 0x18, 0x92]),
    (56416, [0x53, 0x42, 0x4f, 0x71, 0x50, 0xd5, 0x4e, 0xe9, 0x69, 0x3a, 0x02, 0x86, 0x32, 0xd5, 0x91, 0xdb]),
    (56417, [0x75, 0xeb, 0x3c, 0x6d, 0x99, 0xe7, 0x79, 0x20, 0x9a, 0x24, 0x10, 0xac, 0x49, 0x8e, 0xd9, 0x1a]),
    (56418, [0x2a, 0x6c, 0xce, 0x30, 0x76, 0x09, 0xce, 0x70, 0x5b, 0x14, 0x8c, 0x27, 0x2c, 0x67, 0xa5, 0x95]),
    (56419, [0xc3, 0x4a, 0x9a, 0x52, 0x90, 0x5e, 0x4f, 0xcb, 0x95, 0xcf, 0x7f, 0xf0, 0x0b, 0x92, 0xe2, 0xec]),
    (56420, [0x96, 0xa4, 0xfc, 0x9d, 0xf4, 0xc1, 0xd6, 0x34, 0x23, 0x04, 0x47, 0x8e, 0xd8, 0xde, 0x77, 0xa1]),
    (56426, [0x6c, 0x4b, 0x40, 0x03, 0xb8, 0xad, 0x87, 0x35, 0x7f, 0xb6, 0x7b, 0x2a, 0x87, 0xce, 0x44, 0x4d]),
    (56427, [0xe6, 0x8d, 0x1d, 0x3e, 0xa4, 0x93, 0x53, 0x02, 0x47, 0x69, 0x0b, 0xb0, 0x14, 0xda, 0x58, 0x07]),
    (56428, [0xb2, 0x11, 0x43, 0x93, 0xcf, 0x4a, 0x5b, 0x2e, 0x88, 0x8c, 0x13, 0xb0, 0x7a, 0xc4, 0x51, 0x1b]),
    (56429, [0x97, 0x2f, 0x23, 0x40, 0x2f, 0x00, 0xfe, 0x6f, 0x81, 0xcc, 0x95, 0xe3, 0x9e, 0xf1, 0xc2, 0x27]),
    (56441, [0xf2, 0x49, 0x9a, 0x39, 0xe5, 0x8d, 0xf3, 0xf8, 0x4b, 0x27, 0x75, 0xf6, 0x2f, 0xbc, 0xa8, 0xe9]),
    (56461, [0x55, 0x51, 0x4b, 0xcb, 0x0e, 0x6e, 0x60, 0x78, 0x94, 0x8f, 0xb3, 0x20, 0xda, 0x38, 0xd2, 0xc2]),
    (56462, [0x84, 0x03, 0xec, 0xee, 0x6c, 0x46, 0x49, 0x5d, 0x65, 0x69, 0xe9, 0xad, 0x98, 0x7c, 0xdb, 0xd9]),
    (56463, [0x63, 0x8a, 0x5b, 0x5a, 0x96, 0xa0, 0xe0, 0x72, 0xcd, 0xda, 0xf3, 0x0d, 0x15, 0x3d, 0xc2, 0x60]),
    (56464, [0x4e, 0x1c, 0x64, 0x37, 0x33, 0x8f, 0x42, 0xda, 0x65, 0x7a, 0x43, 0xdc, 0x22, 0x7b, 0x19, 0x2f]),
    (56465, [0x19, 0x68, 0x70, 0x49, 0x59, 0x34, 0x57, 0xe2, 0x77, 0x30, 0x21, 0xc8, 0x94, 0x0b, 0x76, 0x22]),
    (56466, [0x5a, 0x02, 0xec, 0xf7, 0xdc, 0x0e, 0x8c, 0xb3, 0x9e, 0x0d, 0xb3, 0x15, 0xe2, 0x23, 0xd4, 0x69]),
    (56467, [0x9b, 0x0f, 0x11, 0x03, 0xfe, 0x4f, 0x8b, 0x2f, 0x38, 0x23, 0xbf, 0x00, 0xca, 0xad, 0x62, 0xcb]),
    (56468, [0xb6, 0x9f, 0x62, 0xb0, 0xeb, 0x6f, 0x86, 0xd4, 0x20, 0xa4, 0x5b, 0xac, 0xf9, 0x19, 0xcd, 0x5f]),
    (56469, [0xdc, 0xc2, 0x8c, 0x88, 0x91, 0x15, 0xb6, 0x62, 0xb2, 0xbb, 0x82, 0xac, 0x13, 0x3f, 0x1c, 0x54]),
    (56470, [0xc0, 0xb8, 0xc0, 0x10, 0x78, 0xd1, 0xad, 0xdf, 0xcc, 0xe8, 0xcf, 0x39, 0x5e, 0x92, 0xee, 0x67]),
    (56476, [0xad, 0x7f, 0x39, 0x18, 0xe4, 0x8a, 0xbe, 0xb2, 0xdf, 0x66, 0x85, 0xff, 0xab, 0x94, 0xc0, 0x1e]),
    (56479, [0x62, 0x90, 0x7b, 0xaa, 0x17, 0xd2, 0xe9, 0x69, 0x3c, 0x28, 0x2d, 0x8a, 0xda, 0x1b, 0xc1, 0x39]),
    (57011, [0xe0, 0xe3, 0xf5, 0xda, 0x5c, 0x0f, 0x8c, 0xcf, 0x85, 0x7b, 0x1d, 0x8f, 0x97, 0x09, 0x81, 0x54]),
    (57012, [0xf8, 0x1e, 0xe2, 0xfd, 0xd9, 0x78, 0x85, 0xeb, 0xc6, 0xc6, 0x0e, 0x56, 0xaf, 0x83, 0xf5, 0xb9]),
    (57202, [0x77, 0x90, 0x02, 0x47, 0xf7, 0x25, 0x82, 0x03, 0xdd, 0xe4, 0x25, 0xfc, 0xf9, 0x4d, 0x28, 0xd7]),
    (57211, [0xf7, 0x7f, 0x53, 0xfd, 0x8b, 0xb8, 0x9e, 0x61, 0x2a, 0xa0, 0x41, 0x6b, 0xf0, 0x0b, 0x23, 0xa1]),
    (57212, [0xb3, 0x14, 0xea, 0x17, 0x65, 0x7f, 0x7b, 0x82, 0xeb, 0x6b, 0xa3, 0xff, 0x1b, 0xe3, 0x3d, 0x0b]),
    (57301, [0x67, 0x4c, 0x37, 0x85, 0x97, 0xe5, 0x90, 0xa3, 0x27, 0xbb, 0x41, 0xc3, 0x84, 0xe7, 0xdb, 0xbc]),
    (57302, [0xa7, 0x64, 0x22, 0xbd, 0x28, 0xb9, 0x63, 0x9b, 0x82, 0x01, 0xbe, 0xac, 0xab, 0x2f, 0xce, 0x52]),
    (57303, [0x45, 0x04, 0x98, 0xc7, 0x42, 0x45, 0x94, 0x21, 0x72, 0xd3, 0xfd, 0x95, 0xd3, 0xf3, 0x02, 0x78]),
    (57311, [0x26, 0x61, 0x77, 0x10, 0x09, 0x65, 0x9e, 0xb2, 0x7e, 0xc5, 0xd2, 0xb1, 0x8f, 0x9b, 0x2b, 0x66]),
    (57312, [0xe2, 0xc2, 0x32, 0x14, 0x8f, 0xc1, 0x4a, 0xf5, 0x9a, 0x90, 0x2f, 0xad, 0x75, 0x4e, 0x3c, 0x5f]),
    (57313, [0xc4, 0x1a, 0x9f, 0x40, 0x95, 0x17, 0xdc, 0x8b, 0xa0, 0x57, 0x50, 0x03, 0xd5, 0x08, 0x18, 0xaf]),
    (57401, [0xc9, 0x37, 0x3e, 0x6f, 0x64, 0x51, 0x6f, 0x92, 0x4c, 0xd7, 0xf1, 0xb9, 0xce, 0xbb, 0x8b, 0x5f]),
    (57505, [0x58, 0x66, 0x88, 0xdf, 0xeb, 0xb2, 0xf0, 0x07, 0xee, 0x6c, 0x55, 0x3d, 0xe4, 0xd5, 0xc9, 0xa8]),
    (57506, [0x58, 0x66, 0x88, 0xdf, 0xeb, 0xb2, 0xf0, 0x07, 0xee, 0x6c, 0x55, 0x3d, 0xe4, 0xd5, 0xc9, 0xa8]),
    (57515, [0x99, 0xde, 0x83, 0xd1, 0x03, 0xe8, 0xd6, 0x55, 0x4b, 0x5d, 0xaf, 0x47, 0x77, 0x73, 0x57, 0xcf]),
    (57516, [0x99, 0xde, 0x83, 0xd1, 0x03, 0xe8, 0xd6, 0x55, 0x4b, 0x5d, 0xaf, 0x47, 0x77, 0x73, 0x57, 0xcf]),
    (57517, [0x99, 0xde, 0x83, 0xd1, 0x03, 0xe8, 0xd6, 0x55, 0x4b, 0x5d, 0xaf, 0x47, 0x77, 0x73, 0x57, 0xcf]),
    (57518, [0x99, 0xde, 0x83, 0xd1, 0x03, 0xe8, 0xd6, 0x55, 0x4b, 0x5d, 0xaf, 0x47, 0x77, 0x73, 0x57, 0xcf]),
    (57651, [0x98, 0xbe, 0x38, 0x9f, 0x49, 0xc6, 0x2a, 0x3c, 0x86, 0x21, 0x98, 0xdb, 0x52, 0xf7, 0x9a, 0x60]),
    (57652, [0x59, 0x3c, 0x79, 0x4c, 0x9d, 0x32, 0x99, 0xa8, 0xfa, 0x13, 0x58, 0x43, 0x8a, 0x17, 0x29, 0x49]),
    (57653, [0xd8, 0x14, 0xc2, 0x10, 0xc1, 0xa7, 0xd9, 0x1f, 0xc8, 0xcd, 0x61, 0x3f, 0x55, 0xe3, 0xf7, 0x74]),
    (57654, [0x78, 0x52, 0xa2, 0x0b, 0xea, 0x7b, 0x3a, 0xf4, 0x3c, 0x8e, 0x78, 0xf2, 0x2c, 0x90, 0x12, 0xa3]),
    (57655, [0x6f, 0x4a, 0x42, 0xe5, 0x76, 0xe6, 0x2b, 0x72, 0xa0, 0x82, 0xe6, 0x88, 0x98, 0x7b, 0xfd, 0x88]),
    (57656, [0xc6, 0x29, 0x24, 0x5c, 0xac, 0x7f, 0x0c, 0x89, 0x27, 0x3f, 0x59, 0xb8, 0x9c, 0x24, 0x29, 0xdf]),
    (57691, [0x97, 0x33, 0x14, 0x44, 0xae, 0x95, 0x10, 0xdb, 0xdc, 0x4b, 0xaf, 0xf4, 0x2b, 0x04, 0x05, 0x35]),
    (57692, [0x82, 0xfd, 0x35, 0xe0, 0x52, 0x06, 0x67, 0x57, 0xdb, 0xfb, 0x00, 0xba, 0x38, 0xc8, 0xa6, 0x3e]),
    (57693, [0x83, 0x80, 0xf6, 0x04, 0x6e, 0x77, 0xa8, 0x7c, 0x9f, 0xf1, 0x28, 0x14, 0x44, 0x56, 0x4a, 0x5a]),
    (57694, [0x8b, 0xad, 0x28, 0xee, 0x82, 0x0c, 0xeb, 0x98, 0xb3, 0x95, 0xb0, 0x94, 0xb1, 0x29, 0xcb, 0x8a]),
    (57695, [0x6c, 0x8e, 0xb6, 0x59, 0x8b, 0x41, 0x6d, 0xb7, 0x51, 0xd7, 0x4d, 0x04, 0x5c, 0x95, 0x8c, 0x47]),
    (57696, [0xb6, 0x47, 0x66, 0xc0, 0xda, 0xdc, 0x09, 0x08, 0xa1, 0x05, 0x8b, 0xaa, 0x45, 0xcd, 0x26, 0x9f]),
    (57697, [0xb9, 0x29, 0x96, 0x93, 0xb3, 0xd0, 0x79, 0x19, 0x9d, 0x53, 0xbb, 0x35, 0x9c, 0x6f, 0xdc, 0x99]),
    (57698, [0xa7, 0x3a, 0xcd, 0xfe, 0x37, 0xa2, 0x22, 0x4f, 0xb3, 0x5b, 0x7b, 0x45, 0x32, 0x76, 0x97, 0x78]),
    (57699, [0x06, 0x28, 0x28, 0xbe, 0x96, 0x31, 0x10, 0x6d, 0x8e, 0xcb, 0x54, 0xde, 0x94, 0xac, 0xac, 0x5c]),
    (57701, [0x90, 0x45, 0x6c, 0xb2, 0x22, 0x99, 0x5a, 0x05, 0xa5, 0x09, 0xc5, 0xa2, 0xf2, 0x5e, 0x02, 0x0a]),
    (57741, [0xbb, 0xee, 0x07, 0x55, 0x55, 0xbd, 0xb1, 0xc1, 0x63, 0x43, 0x94, 0xbb, 0x52, 0xe4, 0x20, 0x9e]),
    (57742, [0x0c, 0xd9, 0xc2, 0xe3, 0x5c, 0x44, 0x45, 0x78, 0x36, 0x19, 0x40, 0x90, 0x14, 0x11, 0xa9, 0xdd]),
    (57743, [0x24, 0xa2, 0xe9, 0x5f, 0x31, 0xe1, 0x8f, 0x3f, 0x8c, 0xaf, 0x29, 0xea, 0xd4, 0x00, 0xba, 0xe9]),
    (57744, [0xc0, 0x13, 0xaf, 0x03, 0xa9, 0xf8, 0xd4, 0xd0, 0xe5, 0xbb, 0xea, 0x38, 0x81, 0x3d, 0x35, 0xd8]),
    (57745, [0xa8, 0x3a, 0xce, 0xad, 0x01, 0x40, 0x28, 0xac, 0xd5, 0x49, 0x50, 0x15, 0x2d, 0x8b, 0x45, 0x7d]),
    (57746, [0x93, 0xbb, 0x11, 0x18, 0x0d, 0x5b, 0xaf, 0x76, 0xfc, 0x87, 0x38, 0xd4, 0x11, 0xd5, 0x6d, 0x92]),
    (57747, [0x0b, 0x48, 0x86, 0xd5, 0x62, 0x04, 0x2b, 0x31, 0x91, 0xc7, 0x15, 0x4f, 0x59, 0x67, 0x8c, 0xb5]),
    (57748, [0xc5, 0x02, 0x55, 0xc1, 0x2a, 0xad, 0x5c, 0xd2, 0x67, 0x3a, 0x6b, 0x52, 0x75, 0xe5, 0x93, 0x30]),
    (57749, [0x70, 0x7b, 0x74, 0x50, 0xd7, 0x3a, 0xb3, 0xaa, 0xd3, 0x6d, 0x26, 0xb3, 0x49, 0x72, 0x81, 0xab]),
    (57801, [0x4e, 0x02, 0x77, 0x40, 0x3f, 0x7f, 0x05, 0xfc, 0x82, 0x0b, 0x2b, 0xfc, 0x85, 0xa4, 0xea, 0x35]),
    (57802, [0x71, 0x37, 0x20, 0xe6, 0xbc, 0x56, 0x55, 0x93, 0xfd, 0x07, 0xce, 0x37, 0x5b, 0xfe, 0x5c, 0x49]),
    (57803, [0x61, 0x64, 0x0f, 0xd9, 0xf8, 0x7d, 0x78, 0x16, 0x2a, 0x6c, 0x08, 0xdf, 0xf2, 0x3e, 0x66, 0xbf]),
    (57804, [0xdc, 0x61, 0x5c, 0xf3, 0x77, 0x6b, 0xbf, 0x20, 0x81, 0x94, 0xa7, 0x66, 0xf5, 0x35, 0xa1, 0xb6]),
    (57805, [0xce, 0xed, 0x52, 0xb1, 0x89, 0xcd, 0xa1, 0x9c, 0x87, 0x2c, 0xba, 0x3a, 0x61, 0x7c, 0x66, 0x6d]),
    (57806, [0x98, 0x2c, 0xee, 0xd2, 0xd6, 0xb8, 0xfa, 0x71, 0x09, 0x1c, 0xf1, 0xf7, 0xfa, 0x45, 0x83, 0x21]),
    (57807, [0xe4, 0xe6, 0x07, 0x97, 0xac, 0x70, 0x25, 0x5e, 0xcb, 0xb7, 0xa8, 0x5a, 0x43, 0x4d, 0x7a, 0x5e]),
    (57808, [0x4a, 0xe3, 0xcf, 0x79, 0xb5, 0xa4, 0x79, 0xd7, 0x3a, 0xe4, 0x9c, 0x40, 0x36, 0xed, 0x92, 0x8b]),
    (57809, [0x98, 0x2c, 0x66, 0xb4, 0x37, 0x86, 0x42, 0x9e, 0x59, 0xe9, 0x20, 0xe7, 0xfa, 0xe0, 0xe2, 0x45]),
    (57820, [0x23, 0xa8, 0x20, 0x16, 0xd0, 0x19, 0xf8, 0xff, 0x0d, 0x08, 0x67, 0x54, 0xe1, 0x76, 0xa0, 0x8b]),
    (57821, [0xd0, 0x41, 0x10, 0x6a, 0x87, 0x59, 0xcb, 0x66, 0x9d, 0xf5, 0xab, 0xa7, 0x13, 0xb3, 0xb4, 0x74]),
    (57822, [0x19, 0xc8, 0xac, 0xfa, 0xdf, 0xa5, 0xae, 0x13, 0xe0, 0xd5, 0xab, 0x65, 0xaa, 0xb5, 0xb3, 0x6b]),
    (57823, [0x77, 0x6a, 0x67, 0x12, 0x62, 0xce, 0xf0, 0xd5, 0xa3, 0x97, 0x7d, 0x8a, 0x5f, 0xf5, 0x82, 0xb2]),
    (57824, [0x48, 0x0a, 0x9d, 0x71, 0x77, 0x2c, 0x48, 0xcc, 0x11, 0x47, 0x40, 0x08, 0x3f, 0x15, 0x31, 0x3e]),
    (57901, [0x5d, 0xa2, 0x61, 0x20, 0x18, 0x59, 0x15, 0x91, 0xd1, 0xa1, 0x0f, 0x54, 0xda, 0x73, 0x76, 0x16]),
    (57902, [0x5b, 0x23, 0xa6, 0x07, 0x3f, 0x5b, 0x53, 0x7f, 0x6b, 0x78, 0x5a, 0x3d, 0x79, 0xea, 0xcc, 0xad]),
    (57903, [0xf3, 0xc0, 0x25, 0x5e, 0x68, 0xc5, 0x2d, 0x06, 0xae, 0xbe, 0x95, 0x2a, 0xf6, 0x0b, 0x0e, 0xe4]),
    (57904, [0x01, 0xfe, 0xcc, 0xba, 0xf8, 0x23, 0xe1, 0xbe, 0xac, 0x82, 0x08, 0x12, 0x84, 0x86, 0x9f, 0x25]),
    (57905, [0xa0, 0xf1, 0x2c, 0xea, 0x52, 0xdd, 0xc6, 0xc7, 0xe3, 0xf0, 0x4e, 0x35, 0x58, 0xfa, 0x07, 0x3b]),
    (57906, [0xd0, 0x8b, 0xd8, 0xc2, 0x15, 0x22, 0x7e, 0x67, 0x88, 0xa0, 0xb1, 0x00, 0x1a, 0xa7, 0x3a, 0x32]),
    (57907, [0x1d, 0x32, 0x7e, 0x6b, 0xe0, 0x48, 0xf6, 0x15, 0x08, 0x71, 0x0a, 0x69, 0xd6, 0xe2, 0x7a, 0x3e]),
    (57911, [0x0c, 0xb7, 0xcc, 0x65, 0xea, 0x6a, 0x08, 0x77, 0xef, 0x55, 0x19, 0x97, 0xc9, 0xdc, 0x62, 0x2c]),
    (57921, [0x4d, 0xd6, 0x9b, 0xfd, 0x10, 0xf1, 0xc9, 0x6c, 0x34, 0x18, 0x37, 0x7c, 0xde, 0x55, 0xa9, 0xe5]),
    (57922, [0x97, 0x17, 0x58, 0xa1, 0x9e, 0xb1, 0xc4, 0xee, 0x18, 0xe4, 0x7c, 0x7c, 0x45, 0x64, 0x18, 0xa2]),
    (57923, [0xa8, 0x7f, 0xf5, 0x7a, 0xe0, 0x8c, 0xe5, 0x68, 0xed, 0xcf, 0xc7, 0x06, 0x2c, 0x15, 0x95, 0x25]),
    (57924, [0x7e, 0xff, 0x9a, 0x2a, 0x41, 0xbe, 0x51, 0x91, 0xa0, 0x80, 0xc6, 0x6b, 0x0f, 0x73, 0xc5, 0x4a]),
    (57925, [0x6d, 0x13, 0x7e, 0xea, 0x64, 0x95, 0xbb, 0x7d, 0xeb, 0x36, 0xd6, 0x8f, 0xc4, 0xbe, 0xe6, 0x26]),
    (57941, [0xdb, 0x90, 0x12, 0x70, 0x39, 0xb4, 0x2a, 0x78, 0x91, 0x70, 0xeb, 0xff, 0xb7, 0xf1, 0xc3, 0xfc]),
    (57942, [0x46, 0xe4, 0xc9, 0x43, 0x04, 0xad, 0x10, 0x67, 0xdf, 0x11, 0xa9, 0xab, 0x82, 0x9d, 0xc2, 0xeb]),
    (57943, [0x54, 0xcf, 0x7c, 0xac, 0xe1, 0xb7, 0x17, 0x5c, 0xbc, 0xa8, 0x4a, 0x56, 0x7a, 0x8c, 0x6f, 0xb0]),
    (57944, [0x43, 0x1e, 0x37, 0x61, 0xee, 0xfe, 0x3e, 0x52, 0xd8, 0x5c, 0x40, 0xae, 0xf0, 0x15, 0x4e, 0xe0]),
    (57945, [0xb2, 0xcc, 0x5f, 0x78, 0x65, 0x70, 0xc0, 0xf9, 0x80, 0x2d, 0x97, 0xfe, 0x69, 0xb8, 0x3b, 0x2b]),
    (57946, [0xa6, 0x51, 0xc7, 0xc7, 0x12, 0x62, 0xa1, 0x5c, 0xee, 0xe0, 0x19, 0x92, 0x52, 0x05, 0xa8, 0x68]),
    (57947, [0x56, 0xea, 0xda, 0x40, 0x91, 0x79, 0x6b, 0x2f, 0xa0, 0xa3, 0xd2, 0x26, 0xe3, 0x68, 0xb5, 0x15]),
    (57949, [0xa4, 0x3a, 0xf1, 0x2b, 0x72, 0x9e, 0x47, 0x50, 0x29, 0x01, 0xaa, 0xdc, 0xe7, 0x68, 0x29, 0x0a]),
    (57971, [0x14, 0x56, 0xeb, 0xe8, 0x71, 0xf9, 0x31, 0x1b, 0x44, 0x65, 0x4e, 0x27, 0xf9, 0x86, 0x22, 0xcd]),
    (57980, [0x6e, 0xcc, 0xdc, 0xfa, 0xf6, 0xa4, 0xc8, 0x6c, 0x56, 0x20, 0x99, 0x17, 0xc8, 0x7b, 0x52, 0x12]),
    (58202, [0x87, 0x1d, 0xd8, 0x9e, 0xcf, 0xc7, 0xca, 0xa5, 0x37, 0x13, 0x84, 0x81, 0x27, 0x41, 0x71, 0xd8]),
    (58222, [0xb8, 0x9c, 0x83, 0x69, 0xa0, 0xd2, 0xd4, 0x30, 0x69, 0xaf, 0xdd, 0x15, 0x54, 0x5d, 0x55, 0x7d]),
    (58231, [0x81, 0x72, 0x9c, 0xbd, 0x36, 0x69, 0x98, 0xe5, 0x22, 0x34, 0x9c, 0x81, 0x8d, 0xc0, 0x7c, 0x02]),
    (58232, [0xd7, 0x02, 0x67, 0x2e, 0x3b, 0xe2, 0xd2, 0x54, 0x97, 0x17, 0xde, 0x2e, 0x46, 0xae, 0x29, 0xe0]),
    (58241, [0x98, 0x01, 0xad, 0x9f, 0xc0, 0xd1, 0xea, 0x93, 0x1f, 0x7b, 0xb3, 0xc4, 0xfb, 0x01, 0xa4, 0xc7]),
    (58242, [0xef, 0x90, 0x49, 0x16, 0xf2, 0x3e, 0xee, 0x5f, 0x50, 0x04, 0x7f, 0x03, 0xc9, 0xce, 0xb2, 0xfa]),
    (58401, [0xa1, 0x30, 0xdc, 0xc0, 0xed, 0x34, 0xa3, 0xf4, 0x94, 0x89, 0xed, 0x2d, 0x6c, 0x15, 0x09, 0xa9]),
    (58411, [0x85, 0x21, 0xce, 0xd4, 0x5f, 0x86, 0x7c, 0x77, 0x05, 0xf6, 0xfc, 0xcc, 0xa9, 0x15, 0x35, 0xa6]),
    (58511, [0x67, 0xac, 0x24, 0xc1, 0x68, 0x44, 0xce, 0x82, 0x30, 0xa8, 0x01, 0xde, 0x98, 0x12, 0x28, 0xd0]),
    (58512, [0xe7, 0x1b, 0x5b, 0xce, 0xdf, 0x40, 0x2d, 0xb4, 0x30, 0xb3, 0x18, 0x24, 0x21, 0x7e, 0xb6, 0xab])]"

definition TABLE_18 :: "key_entry list" where
  "TABLE_18 = [
    (58513, [0x96, 0xb1, 0x53, 0x9f, 0x00, 0xe0, 0x17, 0xf4, 0x54, 0x23, 0xe1, 0x5d, 0x4d, 0xea, 0x57, 0xf4]),
    (58514, [0xd7, 0xd9, 0xf3, 0x4e, 0xbf, 0xff, 0xf5, 0x47, 0x5d, 0xb1, 0xa7, 0x0a, 0x5e, 0xe4, 0xdc, 0x91]),
    (58515, [0xaa, 0x4d, 0x27, 0x92, 0xd5, 0x36, 0xfc, 0x1d, 0x8d, 0x3b, 0x1b, 0x65, 0xcc, 0x2a, 0x09, 0x80]),
    (58541, [0x09, 0x9d, 0xe4, 0x38, 0xdd, 0x2d, 0x16, 0xf3, 0x57, 0xae, 0xc3, 0xf3, 0x10, 0xb1, 0xd1, 0xd1]),
    (58542, [0xfd, 0x6b, 0x61, 0x63, 0x88, 0xd1, 0x2d, 0x9c, 0x7a, 0x35, 0x4e, 0xa4, 0x1a, 0xc5, 0x1e, 0x3f]),
    (58543, [0xd1, 0xb9, 0xac, 0x49, 0xf0, 0x5c, 0xa0, 0x64, 0x86, 0x59, 0x72, 0xe7, 0x49, 0x07, 0x48, 0x59]),
    (58544, [0xbc, 0xf2, 0xb2, 0x54, 0xe7, 0x49, 0x1a, 0x93, 0x72, 0xbb, 0x81, 0xd8, 0x17, 0xd3, 0xa7, 0xf9]),
    (58545, [0xbd, 0x97, 0x49, 0x4e, 0x7a, 0x09, 0xec, 0xf4, 0x1b, 0x67, 0xb0, 0x71, 0x2a, 0x36, 0x2a, 0xf8]),
    (58546, [0xf2, 0xa5, 0xc7, 0x64, 0x8f, 0xe8, 0x96, 0x70, 0xd7, 0xd8, 0xfc, 0xa5, 0x92, 0x61, 0x1b, 0xc1]),
    (58551, [0x1a, 0x59, 0x6b, 0xd6, 0xc2, 0xd6, 0x09, 0x8f, 0xe8, 0x93, 0xba, 0x4f, 0x64, 0x31, 0x68, 0x12]),
    (58552, [0x17, 0xfe, 0x52, 0x7e, 0xe9, 0xdc, 0xf1, 0x30, 0x2e, 0xfd, 0xa2, 0x5a, 0x06, 0x6c, 0x7d, 0x1b]),
    (58553, [0x8d, 0x80, 0xac, 0x24, 0x43, 0xe3, 0xd6, 0x6f, 0xb3, 0xa3, 0xa4, 0x91, 0x57, 0xdb, 0x19, 0x06]),
    (58554, [0x3a, 0x6d, 0x33, 0x2d, 0xe9, 0x29, 0x38, 0x40, 0x18, 0xe9, 0x38, 0x3a, 0xfd, 0x26, 0x34, 0xab]),
    (58555, [0x4d, 0xac, 0x89, 0x38, 0xea, 0x20, 0x41, 0x49, 0xa6, 0xbc, 0x8b, 0x5f, 0xb0, 0x95, 0x2f, 0xbe]),
    (58556, [0x59, 0xe4, 0xc5, 0x2c, 0xe7, 0xa2, 0xad, 0x86, 0x4f, 0x0a, 0x08, 0x76, 0xbd, 0xa5, 0x49, 0x35]),
    (58557, [0x9c, 0xb3, 0xa4, 0x53, 0x2a, 0xc8, 0xc5, 0x43, 0xa4, 0xc2, 0xfd, 0x29, 0xa3, 0x9a, 0xc0, 0xb5]),
    (58558, [0xfb, 0x6f, 0xcc, 0x5f, 0xac, 0x17, 0xc8, 0x25, 0x1f, 0x52, 0x2f, 0xfb, 0x6d, 0x1b, 0x44, 0x97]),
    (58579, [0xef, 0xd2, 0xb9, 0xc0, 0x82, 0xba, 0x56, 0x9f, 0x45, 0x44, 0xec, 0xd6, 0x90, 0x71, 0xb0, 0xaf]),
    (58611, [0x42, 0x4a, 0xdc, 0x13, 0xbb, 0x51, 0x76, 0x48, 0xe1, 0xec, 0xed, 0xad, 0x05, 0x71, 0x01, 0x27]),
    (58612, [0x1f, 0xe4, 0xc2, 0x2a, 0x6d, 0xe1, 0x5f, 0x55, 0x60, 0x89, 0xca, 0x1d, 0x66, 0x99, 0x38, 0x77]),
    (58613, [0xe3, 0xe0, 0xa9, 0x58, 0x80, 0xc4, 0x2b, 0x53, 0x06, 0xfc, 0xfc, 0xb3, 0xf9, 0x2b, 0x1e, 0x88]),
    (58614, [0x7e, 0x40, 0xe5, 0xa6, 0xdf, 0x5f, 0x64, 0x66, 0x10, 0xbc, 0x6a, 0x99, 0x4a, 0x21, 0xa3, 0x4c]),
    (58615, [0x60, 0x8f, 0xc9, 0xc8, 0xe7, 0x05, 0xa9, 0x56, 0x63, 0x22, 0x4d, 0x16, 0x89, 0x03, 0x03, 0xfe]),
    (58616, [0xca, 0x81, 0x6c, 0x8e, 0xa2, 0xca, 0x45, 0x1c, 0x7c, 0x9e, 0xdc, 0x45, 0x5d, 0xbe, 0xc0, 0x18]),
    (58617, [0x34, 0x05, 0xb2, 0xfc, 0x6f, 0xbf, 0xfc, 0x81, 0x02, 0x6f, 0xfa, 0x13, 0x31, 0x04, 0x07, 0x34]),
    (58618, [0xca, 0x35, 0x9c, 0x77, 0xbf, 0x20, 0x1c, 0x8b, 0x7c, 0xfe, 0x21, 0x8e, 0xe2, 0x90, 0x0a, 0x13]),
    (58619, [0xb9, 0xf1, 0xff, 0xd8, 0x3a, 0xbc, 0x4f, 0x82, 0x7d, 0xf4, 0x9f, 0x39, 0xb2, 0x49, 0xe8, 0xdc]),
    (58621, [0x31, 0x87, 0x4a, 0x2c, 0x87, 0x3b, 0x8d, 0xb5, 0x74, 0xe0, 0x78, 0x43, 0xec, 0xd8, 0xe7, 0xc8]),
    (58622, [0xc4, 0x59, 0xb9, 0x59, 0x63, 0x8c, 0xc9, 0x10, 0x0c, 0xf2, 0xbe, 0x47, 0x1e, 0x71, 0x19, 0x14]),
    (58640, [0x63, 0xe3, 0x8d, 0x16, 0x68, 0xf3, 0xba, 0x91, 0xb6, 0x60, 0x88, 0x94, 0x17, 0x97, 0x66, 0xb6]),
    (58641, [0xe7, 0x44, 0xd5, 0x48, 0x0d, 0x1f, 0xcd, 0x5d, 0xcc, 0x23, 0x5c, 0x35, 0xc7, 0x6b, 0x6f, 0x9f]),
    (58642, [0x8f, 0x47, 0x82, 0xa0, 0x39, 0xa3, 0x49, 0x71, 0xf6, 0x8d, 0x08, 0xe0, 0xee, 0x15, 0x65, 0x89]),
    (58645, [0xc8, 0x53, 0x2a, 0x8f, 0xdc, 0x56, 0xe8, 0xc3, 0x3a, 0x21, 0x84, 0xef, 0xc0, 0x90, 0x94, 0xc9]),
    (58646, [0xbe, 0xde, 0x53, 0x21, 0x7c, 0xa1, 0x6d, 0x6b, 0x80, 0xbc, 0x77, 0xa8, 0x9c, 0x2f, 0x94, 0x56]),
    (60351, [0xe5, 0x6f, 0x21, 0xbf, 0xeb, 0x3a, 0xa2, 0x5c, 0x45, 0x47, 0x57, 0xaa, 0x43, 0x1a, 0x3e, 0xef]),
    (60352, [0x01, 0x53, 0xa2, 0xad, 0xe6, 0x7b, 0x0e, 0x3a, 0xbc, 0xce, 0x4f, 0x77, 0xb1, 0xa0, 0x3a, 0xea]),
    (60901, [0x29, 0xef, 0x88, 0x19, 0x54, 0x58, 0x00, 0x01, 0x94, 0xc2, 0xc3, 0xa1, 0x1e, 0xcf, 0x92, 0x96]),
    (61011, [0xc9, 0x3f, 0x4b, 0xcf, 0xd7, 0x3e, 0x93, 0xcd, 0xc7, 0xc2, 0xad, 0xac, 0x9a, 0x6e, 0x29, 0xd8]),
    (61012, [0x61, 0x43, 0xd7, 0x0c, 0xf9, 0x85, 0x1f, 0x5d, 0x9b, 0x30, 0x38, 0xe6, 0x5d, 0x29, 0x9d, 0xcc]),
    (61013, [0x27, 0x05, 0x2b, 0x3b, 0xf3, 0xdc, 0xf7, 0x54, 0x36, 0x3a, 0x78, 0x6c, 0x0c, 0x35, 0x78, 0x0b]),
    (61101, [0x79, 0x3c, 0xe2, 0xe6, 0xf4, 0x47, 0xdd, 0xba, 0x09, 0xa7, 0xfb, 0xdd, 0xe1, 0x1f, 0x45, 0x62]),
    (61221, [0x0c, 0xe0, 0x4e, 0xb6, 0x60, 0x82, 0xe4, 0x94, 0xa5, 0xa5, 0xc8, 0x92, 0x97, 0x66, 0x6d, 0xe9]),
    (61222, [0x07, 0x21, 0xaa, 0x0c, 0x36, 0x3e, 0x4d, 0xb1, 0x5a, 0xa6, 0x0b, 0x0b, 0xc7, 0xf8, 0x0f, 0x14]),
    (61301, [0x44, 0x87, 0x99, 0x25, 0x9f, 0xf5, 0xe8, 0x94, 0xa6, 0x4c, 0xe2, 0xf0, 0xe4, 0x15, 0x20, 0x37]),
    (61302, [0xab, 0x7c, 0xc6, 0x23, 0xe7, 0x2a, 0x32, 0xad, 0x4c, 0xec, 0x66, 0x1f, 0xe8, 0xb3, 0x94, 0x14]),
    (61311, [0x6d, 0xef, 0x9d, 0x77, 0x22, 0x33, 0x3d, 0xe4, 0x50, 0x2d, 0xd9, 0x8a, 0x7e, 0x58, 0x27, 0x2c]),
    (61312, [0xab, 0xbd, 0x11, 0x4b, 0xce, 0xd0, 0x08, 0x48, 0x8a, 0xe4, 0x66, 0xf3, 0x68, 0xa4, 0x56, 0x1c]),
    (61501, [0x34, 0x79, 0x27, 0xcf, 0xb1, 0x06, 0x5c, 0x0e, 0x10, 0xa9, 0xf9, 0xd6, 0xa7, 0x4f, 0x19, 0x43]),
    (61511, [0xb5, 0xa6, 0xe0, 0xb1, 0xe3, 0x59, 0xd1, 0x01, 0xbb, 0x1a, 0xce, 0x12, 0x0f, 0xfe, 0x48, 0xdf]),
    (61521, [0x83, 0x59, 0xad, 0x56, 0x03, 0x2b, 0x62, 0xee, 0x7f, 0x6b, 0x5a, 0x09, 0xf5, 0x89, 0xdf, 0x84]),
    (61531, [0x42, 0x92, 0x81, 0x7e, 0x1e, 0x6b, 0xe0, 0xc1, 0xfe, 0x30, 0xbe, 0x55, 0x55, 0xf7, 0x76, 0x9d]),
    (61701, [0x41, 0x2e, 0xbe, 0x7a, 0xb7, 0x91, 0x83, 0x47, 0xde, 0x2a, 0xfb, 0x72, 0x21, 0x4a, 0xdb, 0xfe]),
    (61702, [0x64, 0x46, 0xd5, 0xcb, 0xcc, 0xd9, 0x1d, 0xf5, 0xf4, 0x7a, 0xcf, 0xa9, 0x25, 0x8a, 0x14, 0x73]),
    (61703, [0x5d, 0x23, 0xfe, 0xa9, 0x35, 0x79, 0x68, 0x32, 0xd9, 0x31, 0xce, 0xbc, 0xdd, 0xf3, 0x9e, 0xcb]),
    (61704, [0x65, 0x8f, 0x91, 0x74, 0xb5, 0x77, 0x22, 0x33, 0x2d, 0x9d, 0x73, 0x3e, 0x26, 0xa8, 0x81, 0x21]),
    (61705, [0x12, 0xd0, 0x7c, 0xf4, 0x65, 0x14, 0x2f, 0x16, 0x0a, 0x42, 0x0b, 0x80, 0x2c, 0xd8, 0x4b, 0x4f]),
    (61706, [0x10, 0xf3, 0xdb, 0x83, 0x30, 0xd9, 0x37, 0xf3, 0x45, 0x8a, 0x7a, 0xf3, 0xda, 0xbc, 0xdf, 0x3a]),
    (61707, [0x40, 0x20, 0x5f, 0xba, 0x9f, 0x0b, 0x3a, 0xfb, 0xa1, 0xf7, 0xa9, 0x91, 0x04, 0x31, 0x7d, 0x36]),
    (61708, [0xfb, 0x32, 0xb3, 0x8a, 0xf9, 0x8e, 0x4a, 0x64, 0x4e, 0x17, 0x8e, 0xe5, 0xf8, 0xa6, 0x85, 0x90]),
    (61709, [0xbd, 0x41, 0x7c, 0x6b, 0x18, 0x6f, 0x1c, 0xd1, 0x62, 0x8b, 0xa7, 0x7f, 0x3f, 0xd4, 0xfb, 0x39]),
    (61721, [0x4e, 0xba, 0xc1, 0xb7, 0xe5, 0x3a, 0xd8, 0x0f, 0x16, 0x5e, 0x23, 0x54, 0x1e, 0xd7, 0x99, 0x3e]),
    (61731, [0x98, 0x62, 0x01, 0xc9, 0x68, 0xb4, 0x8c, 0xb7, 0x97, 0x6e, 0x62, 0x3e, 0xcb, 0xbd, 0x13, 0xa1]),
    (61732, [0xb9, 0xe6, 0x8a, 0x84, 0xfa, 0xef, 0x6a, 0xda, 0x74, 0x39, 0x66, 0x11, 0x54, 0x55, 0x38, 0xf0]),
    (62001, [0x71, 0xd3, 0xf8, 0x05, 0x02, 0xf4, 0x14, 0x8b, 0x12, 0x03, 0xdc, 0xa7, 0x07, 0x7c, 0xb4, 0x64]),
    (62002, [0x30, 0xc6, 0x4f, 0x9f, 0xdc, 0x01, 0x8c, 0x4a, 0x5f, 0x05, 0x02, 0xab, 0xba, 0x0a, 0x43, 0xd3]),
    (63001, [0x92, 0xee, 0x9e, 0x6a, 0x01, 0x8d, 0xbb, 0x27, 0x1a, 0x92, 0xcf, 0xac, 0x0d, 0x20, 0xab, 0x1c]),
    (63002, [0x25, 0x73, 0xe6, 0x6d, 0x8d, 0x77, 0x1a, 0xcb, 0xf1, 0x56, 0x7d, 0x1d, 0x71, 0x24, 0xcd, 0x5f]),
    (63111, [0xc0, 0x10, 0x3a, 0x1c, 0x12, 0xc6, 0xc6, 0xef, 0x10, 0x20, 0xef, 0x7a, 0x11, 0x99, 0xb0, 0x58]),
    (63221, [0x71, 0xcb, 0xe3, 0x95, 0x4e, 0x45, 0x27, 0x48, 0x82, 0xd5, 0x6f, 0xed, 0xca, 0x3c, 0x67, 0x9b]),
    (63381, [0xcc, 0xed, 0x12, 0x29, 0x9b, 0x76, 0x12, 0x12, 0x8f, 0x22, 0xab, 0xc4, 0x14, 0x8e, 0x70, 0x00]),
    (63382, [0x44, 0x87, 0x05, 0xcd, 0x7d, 0xb9, 0x55, 0xbd, 0x4e, 0x55, 0x92, 0x42, 0x13, 0xb4, 0x78, 0xc1]),
    (63383, [0xfc, 0xa4, 0x1b, 0xf6, 0xf8, 0xae, 0xf0, 0x7d, 0xf3, 0x19, 0xfa, 0x89, 0x22, 0x94, 0x3e, 0x1c]),
    (63384, [0xe7, 0x1d, 0xd3, 0x52, 0xc7, 0x11, 0x8c, 0x2d, 0x35, 0xce, 0xc2, 0xf2, 0x20, 0x17, 0x49, 0x77]),
    (63385, [0x67, 0xe4, 0xae, 0x3a, 0x2b, 0xb9, 0xbd, 0x60, 0x6a, 0x27, 0x64, 0xb3, 0x7c, 0xd7, 0xab, 0x1e]),
    (63386, [0x2f, 0xb8, 0x8b, 0x13, 0x3f, 0x72, 0x76, 0xed, 0xce, 0xed, 0x7f, 0x94, 0x9e, 0xb8, 0xee, 0xb1]),
    (63387, [0xda, 0x66, 0xce, 0xe3, 0xe8, 0xdb, 0x0a, 0xcd, 0x9f, 0x28, 0xca, 0x19, 0x8f, 0xfa, 0xfb, 0xad]),
    (63388, [0xc4, 0x3e, 0x9d, 0xae, 0x93, 0xdf, 0x16, 0x1b, 0x2e, 0xf6, 0xd0, 0x5d, 0xc7, 0x67, 0xf3, 0xde]),
    (63389, [0xa3, 0x91, 0x34, 0x7f, 0x26, 0xeb, 0xe7, 0xeb, 0xcb, 0xb6, 0x3e, 0xba, 0xb5, 0xda, 0x26, 0x8c]),
    (63390, [0x8d, 0xa4, 0x22, 0x86, 0x2d, 0x71, 0x79, 0xad, 0x34, 0xaf, 0x7f, 0x8e, 0x2f, 0xbb, 0x18, 0x47]),
    (63391, [0x69, 0xe4, 0x4e, 0x5d, 0xfd, 0x3a, 0x06, 0x40, 0x84, 0xd1, 0x83, 0x9a, 0x89, 0xcf, 0x88, 0x3b]),
    (63392, [0x97, 0x27, 0xae, 0xb5, 0xec, 0x87, 0xed, 0x6c, 0xe9, 0x32, 0x4a, 0xa6, 0x8f, 0x8c, 0xfb, 0x79]),
    (63393, [0x40, 0x0c, 0x9e, 0xfe, 0x3c, 0x6c, 0x2d, 0x47, 0x04, 0xc7, 0xc6, 0x7c, 0xfc, 0x11, 0x45, 0xaa]),
    (63394, [0xee, 0xbe, 0x0b, 0xbb, 0x7a, 0x29, 0x41, 0x38, 0xb2, 0x1b, 0x69, 0x90, 0x0e, 0x05, 0xd3, 0xe8]),
    (63395, [0xa5, 0x7c, 0x64, 0x38, 0x37, 0x06, 0xa0, 0x69, 0x87, 0x73, 0xd1, 0xc1, 0x9d, 0x9c, 0x52, 0x42]),
    (63396, [0x5b, 0x45, 0xe3, 0x1c, 0x66, 0x80, 0x2c, 0xfa, 0xfa, 0x2d, 0x8d, 0x32, 0x1c, 0x10, 0xeb, 0x3b]),
    (63397, [0x72, 0x4b, 0xb4, 0x5e, 0x60, 0x4d, 0xff, 0x75, 0xc0, 0x1d, 0xa6, 0xf7, 0x4e, 0x02, 0x1b, 0xee]),
    (63501, [0x25, 0x2e, 0xb1, 0xfa, 0x39, 0x7a, 0x4a, 0xd4, 0xc6, 0xe0, 0xa8, 0x46, 0x73, 0xb0, 0xa6, 0x09]),
    (63502, [0x03, 0x59, 0x0b, 0x5b, 0x06, 0x10, 0x61, 0x29, 0x14, 0x3c, 0x86, 0xfe, 0xfe, 0xae, 0x0a, 0x4d]),
    (63504, [0x65, 0x3e, 0x1f, 0x23, 0x14, 0x08, 0x99, 0x19, 0xf1, 0x15, 0x58, 0xf7, 0x9e, 0x46, 0x55, 0xf3]),
    (63505, [0x77, 0xdd, 0x41, 0x58, 0x26, 0x4e, 0x8c, 0xec, 0x44, 0x16, 0x3f, 0x87, 0x64, 0x26, 0x2c, 0xd1]),
    (63701, [0x2c, 0xf7, 0xed, 0x85, 0x7d, 0x1e, 0xa8, 0xa2, 0xf6, 0x6d, 0x67, 0xc4, 0xe7, 0x5e, 0x37, 0xca]),
    (63702, [0x7e, 0x23, 0xed, 0xe3, 0xab, 0x28, 0x8e, 0x01, 0x3a, 0xc6, 0x8c, 0x0f, 0x50, 0x51, 0x01, 0x2f]),
    (63703, [0xba, 0xec, 0xdb, 0x4f, 0x6e, 0x85, 0x28, 0xfd, 0xf4, 0x50, 0x12, 0x52, 0x41, 0x6c, 0x2a, 0xa4]),
    (63704, [0x0b, 0xa0, 0x20, 0x25, 0xb4, 0x14, 0x92, 0xec, 0xb2, 0x67, 0x30, 0x46, 0xf0, 0xf5, 0x7c, 0x21]),
    (63711, [0xb1, 0xd1, 0x7f, 0x5d, 0x2b, 0x30, 0x8a, 0x08, 0xa7, 0x31, 0xc7, 0x2f, 0xe6, 0x83, 0x3f, 0x12]),
    (63712, [0x85, 0x9e, 0x6a, 0x16, 0x50, 0x81, 0x1d, 0x13, 0x95, 0x2a, 0xb2, 0x45, 0xd8, 0xed, 0xbb, 0x56]),
    (63713, [0x74, 0x45, 0x94, 0x75, 0x32, 0xe2, 0x85, 0xdf, 0xc5, 0xe4, 0x5e, 0xfa, 0xee, 0x6c, 0x82, 0x32]),
    (63714, [0x98, 0xd2, 0xf0, 0x39, 0x43, 0x74, 0xe8, 0x69, 0xc4, 0x9e, 0x1b, 0xc0, 0x40, 0x3b, 0x1f, 0x50]),
    (63801, [0x54, 0xd5, 0xde, 0xf0, 0x9c, 0x23, 0x19, 0xd7, 0x3b, 0xb8, 0x8f, 0xe3, 0xe5, 0x31, 0xbb, 0x2a]),
    (63802, [0xfc, 0x17, 0x7a, 0x82, 0xd3, 0xcd, 0x21, 0x2f, 0xed, 0xec, 0xc1, 0xe8, 0x9a, 0x14, 0x56, 0x86]),
    (63803, [0x6f, 0xdb, 0x2b, 0xa7, 0xec, 0x17, 0x3a, 0x77, 0x1d, 0xfe, 0xf4, 0x54, 0x2b, 0x90, 0x10, 0x8a]),
    (63911, [0xca, 0x33, 0x8c, 0x31, 0x31, 0xc0, 0x56, 0xf8, 0x74, 0x8e, 0x47, 0x42, 0xd5, 0xdc, 0x91, 0x64]),
    (63912, [0x72, 0x90, 0xd5, 0x70, 0xc5, 0xa4, 0xad, 0x75, 0x2e, 0xee, 0x21, 0x1c, 0x53, 0x2c, 0xe7, 0xa2]),
    (63913, [0x7a, 0x07, 0x8f, 0x4b, 0x56, 0x10, 0x5f, 0x88, 0xd8, 0xb7, 0x7b, 0x7a, 0x0a, 0x0f, 0xfa, 0xac]),
    (63914, [0x98, 0x1b, 0x6b, 0xa0, 0x0b, 0x41, 0x46, 0xac, 0x2c, 0x1f, 0xf9, 0x0b, 0xbd, 0x9d, 0xa5, 0xba]),
    (63915, [0x92, 0xf7, 0xdc, 0xa3, 0x25, 0x09, 0x8f, 0x5a, 0x47, 0xb5, 0x17, 0x3f, 0x09, 0x9a, 0x3a, 0xdf]),
    (63941, [0x90, 0xcd, 0x76, 0xcd, 0xbe, 0xe3, 0x3c, 0xf4, 0x87, 0xc4, 0x55, 0x6b, 0x31, 0x03, 0x53, 0x4a]),
    (63942, [0x9a, 0x1e, 0xad, 0x51, 0x7f, 0xdc, 0xf6, 0x68, 0xf0, 0x85, 0xf5, 0xd6, 0x5e, 0xfa, 0xfc, 0xee]),
    (63951, [0xed, 0x82, 0x5f, 0x93, 0x87, 0x75, 0x25, 0xa0, 0xd3, 0x8d, 0xfe, 0x28, 0xcf, 0x5b, 0x0c, 0xcf]),
    (63952, [0x3a, 0x5b, 0x9c, 0x4b, 0x58, 0x95, 0x39, 0x2e, 0x3d, 0xc5, 0x0a, 0x84, 0x47, 0x0f, 0x8b, 0x3f]),
    (63954, [0x22, 0x1d, 0x2a, 0x50, 0xf0, 0x51, 0x44, 0x6c, 0xbb, 0x61, 0xd3, 0x7d, 0x0e, 0x13, 0xdc, 0x0a]),
    (63958, [0xef, 0xca, 0x39, 0x42, 0x03, 0x8b, 0xae, 0x23, 0x11, 0x38, 0x44, 0x3b, 0x2f, 0x10, 0x2a, 0x33]),
    (63959, [0x42, 0xef, 0x9b, 0xbe, 0x83, 0x6b, 0xcd, 0xb3, 0xc2, 0x6f, 0x6c, 0x19, 0xbf, 0xfa, 0x04, 0xb8]),
    (64001, [0x42, 0x88, 0xb3, 0xbe, 0x45, 0x12, 0xf5, 0xf4, 0x13, 0xa4, 0x8f, 0x69, 0xde, 0xdf, 0xee, 0xeb]),
    (64003, [0x9f, 0xb7, 0xde, 0x60, 0x2e, 0x5d, 0x81, 0x47, 0xf0, 0x93, 0x9d, 0x0f, 0x6a, 0xec, 0x5b, 0x96]),
    (64004, [0x6b, 0xa1, 0x2f, 0xc0, 0xb8, 0xb1, 0x3d, 0x1c, 0x29, 0x02, 0x4d, 0xc3, 0x57, 0x14, 0x34, 0x9b]),
    (64014, [0xcc, 0x09, 0xc9, 0x52, 0x51, 0x71, 0x43, 0x2b, 0xd4, 0x9c, 0x64, 0x8b, 0xcd, 0xd4, 0x4b, 0x7f]),
    (64015, [0xe3, 0xca, 0x78, 0xfd, 0x90, 0x62, 0xd2, 0x8c, 0x31, 0xa2, 0xf8, 0x02, 0x80, 0x08, 0x37, 0xce]),
    (64016, [0x94, 0xb0, 0x48, 0x63, 0x37, 0xda, 0x6f, 0x8e, 0xda, 0x4a, 0xb1, 0x37, 0xbe, 0xe2, 0x50, 0x8d]),
    (64017, [0x5a, 0xb8, 0x01, 0x25, 0xbe, 0x65, 0xeb, 0x43, 0x95, 0xcd, 0x69, 0x98, 0xa8, 0x9e, 0xa3, 0xa9]),
    (65081, [0xef, 0xd2, 0x56, 0x58, 0xd4, 0xa7, 0x65, 0x10, 0xab, 0x99, 0xfc, 0xca, 0xfd, 0xe6, 0xa5, 0x58]),
    (65082, [0x05, 0x02, 0x02, 0xa6, 0xf9, 0x65, 0x10, 0xcd, 0x12, 0x92, 0xe8, 0x25, 0xd7, 0xbb, 0xc9, 0x1f]),
    (65091, [0x7e, 0xcb, 0x5e, 0x2b, 0xd4, 0xb1, 0x67, 0xd6, 0x53, 0x49, 0xfd, 0xc2, 0xa1, 0x94, 0x86, 0xa0]),
    (65092, [0x9f, 0xc5, 0x93, 0x4e, 0x35, 0xe3, 0x78, 0x0a, 0x4d, 0xdc, 0x45, 0x49, 0xac, 0x43, 0x57, 0x81]),
    (65131, [0xfc, 0xce, 0xa8, 0xd6, 0x43, 0x92, 0x85, 0x04, 0xf0, 0x12, 0x96, 0x6b, 0x55, 0x50, 0xde, 0xb1]),
    (65141, [0xca, 0xff, 0x36, 0x68, 0x5b, 0xa5, 0xfe, 0x3e, 0xbd, 0x87, 0xf0, 0x74, 0xf8, 0x2d, 0xc9, 0x77]),
    (65201, [0x34, 0x83, 0x16, 0x94, 0x04, 0xa3, 0xc8, 0xe3, 0xeb, 0x8d, 0x04, 0x46, 0x3e, 0xbb, 0x05, 0x09]),
    (65202, [0x97, 0xf1, 0x28, 0x69, 0xba, 0x38, 0xf1, 0x82, 0x4a, 0x85, 0x53, 0x43, 0x06, 0x07, 0x24, 0xb8]),
    (65203, [0x71, 0x56, 0x5f, 0x26, 0x3a, 0x27, 0x6f, 0x53, 0x01, 0xeb, 0xbf, 0x85, 0x3a, 0x57, 0x22, 0xb1]),
    (65210, [0x5b, 0x26, 0xa5, 0xc5, 0x62, 0xab, 0x42, 0x72, 0xa4, 0x2b, 0xc9, 0x71, 0xcd, 0x71, 0x2a, 0xb2]),
    (65211, [0x92, 0x56, 0x5a, 0x54, 0xfe, 0x16, 0x28, 0x4b, 0xab, 0x74, 0x48, 0xe8, 0x02, 0x2d, 0x7e, 0x06]),
    (65212, [0x7b, 0x72, 0x08, 0x75, 0x09, 0x02, 0x01, 0x10, 0x12, 0x51, 0x8f, 0xbd, 0xf7, 0xf9, 0xe3, 0xf1]),
    (65213, [0x06, 0xb9, 0x4b, 0xd7, 0x29, 0xbd, 0x84, 0xc8, 0xa4, 0xba, 0x8a, 0x10, 0x6d, 0x17, 0x9a, 0x6a]),
    (65214, [0x68, 0x36, 0xef, 0xa3, 0x20, 0x82, 0x12, 0xa5, 0x54, 0x6d, 0x0c, 0x53, 0xff, 0x4d, 0x0a, 0xc8]),
    (65215, [0x5b, 0x05, 0xb5, 0x23, 0x16, 0xf7, 0x33, 0x43, 0x25, 0xf5, 0x83, 0xdf, 0xcb, 0xed, 0xf4, 0xc0]),
    (65216, [0x29, 0x9a, 0xc3, 0x6a, 0xba, 0x8b, 0x1d, 0xca, 0x0f, 0x50, 0xca, 0x6f, 0x9b, 0x1a, 0x15, 0x3e]),
    (65217, [0x03, 0x52, 0x51, 0xb6, 0xbd, 0x49, 0x31, 0xce, 0xf2, 0x21, 0xa4, 0x8e, 0xb7, 0x79, 0x23, 0xfc]),
    (65218, [0x2b, 0x18, 0x00, 0xea, 0xca, 0xbb, 0xc7, 0xa5, 0xf3, 0xd8, 0xd5, 0xb9, 0xb2, 0xb8, 0x9c, 0x73]),
    (65219, [0xa7, 0x58, 0x27, 0xf3, 0xae, 0x85, 0x78, 0xd0, 0x1a, 0x31, 0x7b, 0x0e, 0xb4, 0x80, 0x47, 0xd9]),
    (65220, [0x31, 0x68, 0x75, 0xc9, 0xd2, 0xa3, 0x3a, 0xf7, 0xb0, 0x3d, 0xd7, 0x12, 0xa2, 0xcb, 0x6e, 0x3c]),
    (65221, [0xe6, 0x13, 0xac, 0x4a, 0xdf, 0x4a, 0xb4, 0xfa, 0x31, 0x90, 0x63, 0x9f, 0x80, 0x3a, 0x31, 0xaf]),
    (65222, [0x55, 0xb1, 0x0a, 0x99, 0x4f, 0xaf, 0xdf, 0x5b, 0x7c, 0xe9, 0xb6, 0x79, 0x39, 0xa9, 0xf4, 0x83]),
    (65223, [0x08, 0xd6, 0x9d, 0xd8, 0xf1, 0xf9, 0xb2, 0xd2, 0x43, 0xed, 0x7f, 0x6c, 0xb8, 0xb8, 0x66, 0x6f]),
    (65224, [0x98, 0x03, 0x9f, 0x05, 0x8f, 0xf2, 0xf1, 0xc6, 0x24, 0x7d, 0x4c, 0x01, 0x94, 0xc4, 0x36, 0x20]),
    (65225, [0xb8, 0x62, 0xfb, 0x3f, 0x7b, 0xdd, 0x94, 0xac, 0x3a, 0x1f, 0x76, 0x51, 0x0a, 0x5a, 0xa1, 0xe8]),
    (65226, [0x81, 0x2d, 0xd7, 0x0e, 0x46, 0x64, 0x40, 0xb1, 0xbb, 0x40, 0x80, 0x28, 0xe0, 0xe3, 0xfd, 0x9f]),
    (65227, [0x5e, 0x9c, 0xcf, 0x90, 0x35, 0x98, 0xbf, 0x06, 0x5a, 0x70, 0xee, 0x8f, 0x71, 0xb9, 0xcb, 0x1d]),
    (65228, [0xfd, 0xa4, 0x6f, 0xc2, 0x02, 0x10, 0x39, 0xb6, 0xfd, 0x81, 0xb7, 0xb0, 0xef, 0x60, 0x5d, 0x6a]),
    (65229, [0xd4, 0x3d, 0xf4, 0xc6, 0x03, 0x3d, 0x08, 0x2b, 0xd3, 0xa9, 0x34, 0x94, 0x7c, 0x00, 0x12, 0x9f]),
    (65230, [0xf4, 0xe5, 0x61, 0xc3, 0x35, 0xd1, 0x9b, 0xad, 0x60, 0xdb, 0x72, 0x73, 0xe6, 0xc4, 0x6f, 0x4d])]"

definition TABLE_19 :: "key_entry list" where
  "TABLE_19 = [
    (65231, [0x6e, 0x0d, 0xf5, 0xe1, 0xe8, 0xda, 0x90, 0x77, 0x67, 0x6d, 0xa1, 0x12, 0x60, 0x76, 0x34, 0x25]),
    (65232, [0xb0, 0x2d, 0x78, 0x57, 0xcb, 0xcc, 0x99, 0xa3, 0x03, 0x28, 0x0c, 0x84, 0xfc, 0x9b, 0x44, 0xad]),
    (65233, [0x9c, 0xa4, 0xab, 0x69, 0xaf, 0x9c, 0x24, 0xa9, 0x92, 0x60, 0x8a, 0x69, 0x21, 0xf1, 0xed, 0x05]),
    (65234, [0xf1, 0xab, 0x31, 0x4c, 0xd3, 0xc1, 0xe0, 0x39, 0x7a, 0xab, 0x2d, 0x5c, 0x9d, 0x7c, 0x85, 0x5c]),
    (65235, [0xd7, 0x34, 0xf1, 0x7c, 0x96, 0x03, 0xea, 0x79, 0xf9, 0x8a, 0xc4, 0xd6, 0xb3, 0x68, 0xb1, 0xfb]),
    (65236, [0x03, 0x54, 0x04, 0x21, 0xba, 0x99, 0x30, 0x18, 0xa7, 0x75, 0x67, 0xb8, 0x46, 0x83, 0x0f, 0x0d]),
    (65237, [0x94, 0xe2, 0xfb, 0xfa, 0x63, 0x0f, 0x16, 0xa3, 0x64, 0x8f, 0x46, 0xef, 0xe1, 0x14, 0xeb, 0x66]),
    (65238, [0x74, 0x9c, 0x0c, 0x8f, 0x2f, 0xd0, 0xca, 0xa8, 0xe8, 0x66, 0x2e, 0x36, 0xb1, 0xf8, 0x94, 0x3d]),
    (65240, [0x10, 0xa1, 0x80, 0x9f, 0x9b, 0x0f, 0xec, 0x89, 0xfb, 0x27, 0x0c, 0xea, 0xcf, 0xdb, 0x22, 0x30]),
    (65241, [0x6b, 0xa3, 0x2b, 0x80, 0x47, 0x17, 0x66, 0x93, 0x4b, 0xa9, 0x8f, 0xa3, 0xc6, 0x29, 0x31, 0xe6]),
    (65242, [0x96, 0xe2, 0x01, 0xc9, 0x04, 0xce, 0xb4, 0x6c, 0x66, 0x05, 0x84, 0x19, 0x6e, 0x73, 0xd1, 0x95]),
    (65243, [0xfb, 0x71, 0x96, 0xa8, 0xb0, 0x56, 0xac, 0x39, 0xfe, 0x96, 0x62, 0xeb, 0x84, 0x66, 0x23, 0x8d]),
    (65244, [0x4d, 0xe4, 0x1f, 0x53, 0x44, 0x99, 0xab, 0x7a, 0x61, 0x24, 0x9c, 0xab, 0x6d, 0x05, 0xa6, 0xa8]),
    (65245, [0x7f, 0x72, 0xac, 0xda, 0xef, 0x6e, 0xb1, 0x8c, 0x22, 0xd8, 0xb8, 0x14, 0x92, 0x95, 0x8a, 0x71]),
    (65246, [0x32, 0x25, 0xda, 0xcd, 0xa1, 0xf2, 0xee, 0xca, 0x8a, 0x80, 0x2b, 0x0a, 0x7a, 0x07, 0x15, 0xd6]),
    (65247, [0xbe, 0x75, 0x03, 0xed, 0x3b, 0xa6, 0x76, 0x7d, 0xe1, 0xf4, 0x4d, 0x52, 0xfc, 0x1d, 0x0d, 0xf3]),
    (65248, [0xa7, 0xcb, 0xa8, 0x08, 0xa0, 0xf9, 0x4d, 0x42, 0xd2, 0x3e, 0x6d, 0x8a, 0x30, 0x73, 0xae, 0x9a]),
    (65249, [0xca, 0xaa, 0x41, 0xa3, 0xa8, 0x16, 0x53, 0xa2, 0x78, 0xde, 0x2e, 0x90, 0x84, 0x6a, 0xfc, 0x3e]),
    (65250, [0x03, 0x29, 0xe7, 0x0f, 0x62, 0x55, 0x8f, 0xad, 0xf9, 0x50, 0xdb, 0xbf, 0x88, 0x6c, 0x23, 0xef]),
    (65251, [0x78, 0x4b, 0x42, 0x76, 0x76, 0x1c, 0x3a, 0xa6, 0x9c, 0xe1, 0xd9, 0xcb, 0x1b, 0x81, 0x89, 0xac]),
    (65252, [0x26, 0x54, 0xa5, 0x4b, 0x35, 0x33, 0xe8, 0xd2, 0x89, 0x36, 0xe9, 0x6f, 0xa0, 0x65, 0x08, 0xfe]),
    (65253, [0x80, 0x98, 0x64, 0x86, 0xc9, 0x6d, 0x1b, 0xbe, 0xd9, 0x2a, 0x98, 0xcb, 0xb7, 0xa3, 0x9d, 0x3a]),
    (65254, [0x33, 0xa5, 0x17, 0x7d, 0xfd, 0x1a, 0xa5, 0x2b, 0xa1, 0x54, 0x71, 0x5f, 0xc1, 0x51, 0x52, 0x70]),
    (65255, [0x47, 0xf0, 0x89, 0x34, 0x56, 0xe4, 0x4f, 0xe8, 0xb9, 0xea, 0xde, 0xdf, 0x0c, 0xa3, 0x5c, 0xd1]),
    (65256, [0x4c, 0x42, 0x01, 0xb4, 0x59, 0xf8, 0x0d, 0x59, 0x37, 0x36, 0x9c, 0xc6, 0x56, 0x19, 0xf8, 0x9f]),
    (65257, [0x88, 0x1b, 0xbf, 0xa3, 0x9a, 0x82, 0xb7, 0x41, 0xc5, 0xd1, 0xc6, 0x38, 0xf7, 0x67, 0xe1, 0x3b]),
    (65258, [0x42, 0x5b, 0x7b, 0x10, 0x72, 0x09, 0x59, 0x4b, 0x22, 0x87, 0x9f, 0x03, 0xb7, 0xa9, 0xfb, 0x62]),
    (65259, [0x7a, 0xe5, 0x84, 0x20, 0x68, 0xbe, 0x33, 0xc3, 0x03, 0x02, 0xcd, 0xb8, 0x55, 0x93, 0xc9, 0x2e]),
    (65261, [0x85, 0x21, 0x23, 0x75, 0x05, 0x0a, 0x4d, 0x79, 0x1b, 0x61, 0xbe, 0x48, 0x50, 0x93, 0xca, 0x64]),
    (65301, [0xa3, 0x88, 0x28, 0xcd, 0xed, 0xd0, 0x11, 0xa5, 0xa2, 0xb4, 0xaa, 0x89, 0x9c, 0x3a, 0x6d, 0x9a]),
    (65302, [0x0c, 0x97, 0x9c, 0x54, 0x41, 0x24, 0x58, 0x7a, 0xe4, 0xf2, 0x2c, 0x91, 0x90, 0x64, 0xbc, 0xa9]),
    (65303, [0xc8, 0xb0, 0x9c, 0xfe, 0x58, 0xe2, 0x1a, 0x76, 0x4d, 0xdb, 0x58, 0x27, 0x38, 0x91, 0x6a, 0xf2]),
    (65531, [0x4a, 0xd8, 0xe8, 0x06, 0x79, 0xee, 0x83, 0x0e, 0xab, 0x8a, 0x96, 0x97, 0x7c, 0x76, 0xf0, 0xa0]),
    (65532, [0xca, 0x3e, 0xac, 0x00, 0x37, 0x97, 0x25, 0xda, 0x7d, 0x8d, 0xfd, 0x97, 0x2e, 0xa3, 0x77, 0xa4]),
    (65533, [0x4a, 0x37, 0xcf, 0xa7, 0x40, 0xd2, 0x71, 0xca, 0x60, 0x11, 0x85, 0x68, 0xf6, 0xa5, 0x6b, 0x36]),
    (65534, [0x04, 0x36, 0x62, 0x8c, 0xa7, 0xc1, 0x27, 0x1b, 0x4b, 0x09, 0x30, 0x4b, 0x54, 0x3a, 0x5a, 0x03]),
    (65561, [0x2b, 0xe1, 0xf0, 0xfc, 0x8f, 0x26, 0xa9, 0x08, 0xf7, 0xc8, 0xe1, 0x1e, 0x1b, 0x0a, 0x32, 0x1d]),
    (65562, [0x59, 0xc8, 0x07, 0x68, 0xb3, 0x8e, 0x19, 0x19, 0x10, 0x25, 0x56, 0xf7, 0xf0, 0x1c, 0xdf, 0x72]),
    (65601, [0xf5, 0x77, 0xe1, 0x2c, 0xef, 0x87, 0xd0, 0xda, 0xe1, 0xed, 0x10, 0x3f, 0xdf, 0x03, 0x45, 0x6f]),
    (65602, [0x16, 0xcb, 0x62, 0x59, 0x43, 0x82, 0xa3, 0xa4, 0xd4, 0x10, 0xc6, 0x91, 0x21, 0xd4, 0x78, 0xda]),
    (65603, [0xb4, 0xea, 0xe6, 0xe5, 0xe9, 0x85, 0x58, 0xde, 0x9a, 0x6a, 0x89, 0x55, 0x8f, 0x1d, 0x7d, 0xb3]),
    (65604, [0x3c, 0x45, 0x55, 0x80, 0x58, 0x32, 0xc3, 0x5d, 0xd8, 0x09, 0x40, 0x66, 0xbb, 0x66, 0x0a, 0xff]),
    (65605, [0x7c, 0x6a, 0x2b, 0x9f, 0xc5, 0x33, 0x9d, 0x3e, 0xdb, 0x82, 0xdf, 0xde, 0x5a, 0x61, 0x4f, 0xe3]),
    (65606, [0x79, 0x58, 0x8a, 0x09, 0x69, 0x7a, 0xf3, 0x55, 0x19, 0xef, 0x99, 0x74, 0x28, 0xd2, 0x5b, 0x29]),
    (65611, [0x1c, 0x4e, 0x6c, 0x83, 0xe1, 0xe9, 0xb0, 0xd7, 0xd7, 0xee, 0x6e, 0xb1, 0x88, 0x5e, 0x26, 0xa3]),
    (65612, [0x2b, 0x84, 0x14, 0x22, 0x3c, 0x71, 0xba, 0x02, 0x55, 0xa5, 0x78, 0xb8, 0x0b, 0x0a, 0x03, 0xf6]),
    (65613, [0xd4, 0x5f, 0xa8, 0x51, 0xcb, 0x7d, 0x1f, 0x7e, 0x28, 0x24, 0x93, 0x7a, 0xe2, 0xde, 0xfd, 0x78]),
    (65614, [0xe0, 0x5c, 0x19, 0x88, 0x97, 0x8b, 0x89, 0xa6, 0xf4, 0xcd, 0x3c, 0x5f, 0xb4, 0xfa, 0x03, 0x39]),
    (65615, [0x77, 0x72, 0x9f, 0xf1, 0x6c, 0x61, 0xe6, 0x95, 0x12, 0x92, 0x6d, 0x3a, 0x80, 0x92, 0x89, 0xc5]),
    (65616, [0x53, 0x0a, 0x84, 0x72, 0xc6, 0xf8, 0xae, 0xff, 0x2c, 0xeb, 0x89, 0xf4, 0xd8, 0xb7, 0x49, 0xd0]),
    (65701, [0x29, 0x76, 0xe4, 0xf1, 0x97, 0x90, 0xa5, 0x30, 0x76, 0xa1, 0xba, 0xed, 0x5d, 0x03, 0xcf, 0xa1]),
    (65731, [0xad, 0x1b, 0xf5, 0x58, 0x5a, 0xad, 0xe3, 0x8c, 0x26, 0x4c, 0xf6, 0xa5, 0x7c, 0x66, 0x37, 0x38]),
    (65733, [0x73, 0x07, 0x1d, 0xe3, 0xa7, 0x08, 0xba, 0xeb, 0x73, 0xd1, 0xc9, 0xb3, 0x18, 0x3d, 0xec, 0x3a]),
    (65734, [0x9f, 0xbc, 0x81, 0x6f, 0x2f, 0x7f, 0x7a, 0xca, 0x64, 0x77, 0xc2, 0x93, 0x9e, 0x5c, 0x6d, 0xa7]),
    (65735, [0x55, 0x10, 0x8f, 0xf0, 0x39, 0xe9, 0x71, 0x68, 0xb0, 0x40, 0xa0, 0x6c, 0xb9, 0xf1, 0xbb, 0x97]),
    (65741, [0xcb, 0x51, 0x82, 0x58, 0xc1, 0x2b, 0x4e, 0x40, 0x4a, 0xcd, 0x7d, 0x3e, 0xa2, 0xbc, 0xdf, 0x8a]),
    (65781, [0xa1, 0x03, 0x98, 0xca, 0xf4, 0xf5, 0xe1, 0xc6, 0xd9, 0x2b, 0x31, 0x7f, 0x9b, 0xbe, 0xcc, 0x86]),
    (65791, [0x7e, 0x48, 0x8d, 0x03, 0x94, 0x87, 0xe4, 0x1d, 0xb3, 0x82, 0xb1, 0x34, 0x35, 0x41, 0x78, 0xbe]),
    (65801, [0x8d, 0xae, 0xe5, 0x18, 0xed, 0x18, 0x8c, 0xe7, 0xde, 0xdb, 0x3a, 0x73, 0xa9, 0xbc, 0xb6, 0xb1]),
    (65802, [0xcd, 0x26, 0x10, 0xb2, 0x28, 0xcc, 0x54, 0x17, 0x86, 0x43, 0xa8, 0xa1, 0xe3, 0xa1, 0xcf, 0x14]),
    (65810, [0xda, 0xa7, 0x4d, 0x2f, 0x4c, 0x45, 0x93, 0x76, 0xbe, 0x6b, 0x2a, 0xcf, 0xff, 0x6f, 0x6e, 0xd8]),
    (65811, [0x95, 0x9a, 0xe3, 0x06, 0x4c, 0x6a, 0x31, 0xeb, 0xf4, 0x59, 0xa0, 0xf6, 0x85, 0x33, 0x2c, 0x4f]),
    (65901, [0x01, 0xe0, 0x27, 0xee, 0x6d, 0x9e, 0xcf, 0xcf, 0xae, 0xd0, 0xe3, 0x7a, 0x18, 0x03, 0x73, 0x10]),
    (65902, [0x70, 0x73, 0x15, 0xaa, 0x7e, 0xaf, 0x27, 0x4c, 0x6b, 0xd6, 0xad, 0x7d, 0xa4, 0x78, 0xe5, 0x62]),
    (65903, [0x19, 0x36, 0xf3, 0x0e, 0x69, 0x92, 0xe1, 0x45, 0x43, 0xf4, 0x8c, 0x8f, 0xb9, 0x1d, 0xeb, 0x8a]),
    (65904, [0xf7, 0xb4, 0x35, 0xe9, 0xfd, 0x74, 0x19, 0x70, 0x07, 0x0d, 0xa1, 0x3e, 0x1b, 0x92, 0x83, 0xbc]),
    (65905, [0x17, 0x45, 0x84, 0x6b, 0x6b, 0x59, 0xd6, 0xa5, 0xd7, 0xd7, 0xdb, 0x8e, 0x50, 0x5b, 0x1f, 0xeb]),
    (65906, [0xd5, 0x35, 0x9f, 0x39, 0xe3, 0x06, 0xc1, 0x09, 0xfc, 0x06, 0x97, 0x30, 0x47, 0xb6, 0x53, 0x70]),
    (65907, [0xc8, 0x00, 0x21, 0x20, 0x78, 0x3d, 0x6c, 0x0f, 0x19, 0xbc, 0xda, 0xc7, 0x51, 0x7c, 0x6d, 0x11]),
    (65921, [0xab, 0x03, 0x3a, 0xc2, 0x83, 0xac, 0xf8, 0xe8, 0x4f, 0x40, 0x78, 0x20, 0xf7, 0x28, 0x12, 0x1b]),
    (65922, [0xad, 0xf1, 0xfe, 0x93, 0xae, 0x3c, 0xfe, 0xd5, 0x0a, 0x0f, 0x74, 0xbb, 0xe6, 0xa5, 0x4e, 0x3e]),
    (65959, [0xb3, 0x87, 0x43, 0xcd, 0x55, 0x4b, 0xef, 0xa2, 0x94, 0x7f, 0x67, 0xa8, 0xff, 0xe0, 0x18, 0xce]),
    (67001, [0xf3, 0x1c, 0xac, 0xa3, 0x70, 0x9d, 0xc5, 0x3e, 0x33, 0x31, 0x70, 0xc5, 0xd1, 0xf0, 0x54, 0x3a]),
    (67002, [0x33, 0x0e, 0xe6, 0xc1, 0xdd, 0x04, 0x0a, 0x72, 0x93, 0x26, 0x67, 0xc4, 0xb5, 0x78, 0xbe, 0x3f]),
    (67011, [0x9e, 0x2d, 0x4c, 0x7c, 0x0f, 0xb1, 0xa6, 0x02, 0xa1, 0x3f, 0xbf, 0xcc, 0xe4, 0xb8, 0xc9, 0x8e]),
    (67201, [0x41, 0x99, 0x06, 0x2d, 0xd7, 0x85, 0xc8, 0xab, 0x8e, 0xbe, 0x62, 0x43, 0x8c, 0x5f, 0xce, 0xfb]),
    (67202, [0xbb, 0x68, 0x93, 0x99, 0x8c, 0xb8, 0x9a, 0xce, 0x6b, 0x9a, 0x29, 0xa6, 0x80, 0xfe, 0xb6, 0x41]),
    (67203, [0x73, 0x56, 0x93, 0xc5, 0x92, 0x38, 0x69, 0x49, 0x27, 0x61, 0xe5, 0x13, 0xeb, 0x35, 0x08, 0xb5]),
    (67204, [0x7e, 0x20, 0xa1, 0xf5, 0x45, 0x25, 0x23, 0xc3, 0x1b, 0x7f, 0x8e, 0x22, 0x12, 0xe5, 0x75, 0x93]),
    (67205, [0x4f, 0x85, 0x4d, 0x90, 0x5f, 0x38, 0x37, 0xff, 0xcd, 0x8f, 0x91, 0xea, 0xca, 0x1d, 0x8e, 0x5e]),
    (67206, [0x3e, 0x71, 0x83, 0x85, 0xb8, 0x93, 0xc3, 0x9a, 0x71, 0x55, 0xa0, 0x77, 0x7f, 0x8c, 0x42, 0x61]),
    (67207, [0xff, 0xe8, 0x2a, 0xdb, 0x74, 0x33, 0x22, 0xa7, 0x7f, 0xcb, 0x2c, 0xd6, 0x60, 0x00, 0x04, 0x6e]),
    (67208, [0xbd, 0xac, 0xb7, 0x5f, 0xfc, 0x40, 0x48, 0x3f, 0x07, 0xe9, 0x67, 0xea, 0x8d, 0x34, 0x3c, 0xa2]),
    (67209, [0x18, 0xd5, 0x13, 0x75, 0xb0, 0x59, 0x5d, 0x5a, 0x5b, 0xab, 0xb5, 0x54, 0x37, 0x6b, 0x40, 0x5e]),
    (67210, [0x9b, 0x5a, 0x1d, 0xaa, 0xc6, 0x9c, 0xde, 0x50, 0x5b, 0x32, 0xf8, 0xba, 0xaa, 0x2e, 0x2b, 0x7e]),
    (67231, [0xd1, 0x7c, 0x1e, 0x4c, 0xfd, 0xc5, 0xc2, 0x42, 0xa6, 0x45, 0x18, 0x9c, 0x43, 0xa6, 0x83, 0xab]),
    (67241, [0xcf, 0xc2, 0xff, 0xe5, 0x7a, 0xbc, 0x2b, 0x54, 0xd8, 0x57, 0x3a, 0x57, 0xd1, 0x7b, 0xce, 0x26]),
    (67242, [0xc5, 0x14, 0x1c, 0xac, 0xe9, 0x77, 0x43, 0x22, 0x6e, 0xe7, 0xda, 0xd5, 0x14, 0x68, 0xb0, 0x22]),
    (67243, [0xf7, 0xdd, 0xc0, 0xc9, 0xb5, 0x1f, 0x5d, 0x02, 0xf5, 0x00, 0x3f, 0xc1, 0xd9, 0x8b, 0x45, 0x19]),
    (67244, [0xc6, 0x67, 0x9a, 0x77, 0x4e, 0xfd, 0x2b, 0x21, 0x23, 0xb3, 0x24, 0x2b, 0xdb, 0x0a, 0x4f, 0x44]),
    (67245, [0x24, 0x9e, 0x17, 0xaf, 0x77, 0x4f, 0xca, 0x97, 0x07, 0x29, 0xcd, 0xb2, 0x46, 0x98, 0xe0, 0x3c]),
    (67246, [0xf9, 0x27, 0x6e, 0x19, 0x2b, 0xe5, 0x31, 0xf6, 0xd5, 0x3b, 0x30, 0x3c, 0x1e, 0x87, 0xd5, 0xaf]),
    (67247, [0xf9, 0x10, 0xcb, 0x26, 0x46, 0x09, 0x42, 0xcb, 0x3d, 0x56, 0x06, 0xb1, 0xbc, 0x77, 0x25, 0xcc]),
    (67248, [0x4e, 0xa2, 0xa5, 0x01, 0x1b, 0x5d, 0xae, 0x29, 0x5b, 0xeb, 0x9f, 0x26, 0x78, 0x5b, 0x00, 0x2b]),
    (67249, [0x48, 0x81, 0x94, 0xcc, 0x45, 0xcd, 0x9f, 0xe7, 0x40, 0x3d, 0xdb, 0x4b, 0x56, 0xcc, 0x8a, 0x83]),
    (67301, [0xb8, 0xcb, 0x0f, 0x33, 0xcf, 0x4d, 0x5f, 0x41, 0xa9, 0x71, 0x51, 0xed, 0x8b, 0x20, 0xab, 0x91]),
    (67302, [0x41, 0x16, 0x63, 0x57, 0x39, 0x01, 0x5c, 0x3f, 0x0a, 0x51, 0x9c, 0xaa, 0x09, 0x53, 0xa2, 0x61]),
    (67303, [0x1b, 0x48, 0xb3, 0x18, 0x02, 0x89, 0x5a, 0xbc, 0xf0, 0xb9, 0x28, 0xd5, 0xe4, 0x68, 0x36, 0xa9]),
    (67304, [0x74, 0xc6, 0xd9, 0x1f, 0x15, 0x25, 0xef, 0x0a, 0x57, 0x09, 0xff, 0xe6, 0x85, 0x47, 0x0c, 0x9f]),
    (67305, [0x87, 0x21, 0x5b, 0x4c, 0xe5, 0x31, 0xc8, 0x27, 0x06, 0xaf, 0x7c, 0x43, 0x39, 0xda, 0x14, 0xd7]),
    (67306, [0xdc, 0x2f, 0x6e, 0xb6, 0x8c, 0x96, 0xf4, 0x8a, 0xf2, 0x44, 0x97, 0x62, 0xec, 0xbc, 0x9a, 0x32]),
    (67307, [0x3c, 0x29, 0x52, 0xf9, 0x3f, 0x09, 0xe6, 0xd1, 0xff, 0x41, 0xab, 0x6a, 0xaf, 0x4a, 0x9c, 0x0c]),
    (67308, [0x32, 0x19, 0x3b, 0xdf, 0x13, 0x25, 0x83, 0xf5, 0x30, 0xec, 0xad, 0xac, 0x57, 0x88, 0x36, 0x8a]),
    (67309, [0xbc, 0xa6, 0xff, 0x8f, 0x78, 0xcd, 0xaf, 0x48, 0xfb, 0x51, 0x93, 0x03, 0x3b, 0x83, 0x91, 0x20]),
    (67310, [0xef, 0x17, 0xc0, 0x7e, 0xea, 0x39, 0xc2, 0xa6, 0x98, 0x8b, 0x7a, 0x9c, 0x74, 0x8d, 0x4f, 0xdc]),
    (67311, [0x97, 0x84, 0xa2, 0x76, 0xc2, 0x3c, 0x43, 0xee, 0xf0, 0xeb, 0x4f, 0x57, 0xf4, 0xb7, 0xd9, 0xc8]),
    (67312, [0xf2, 0x9a, 0x2b, 0x56, 0x83, 0x24, 0x68, 0xe3, 0xed, 0x33, 0x18, 0x69, 0x10, 0xc2, 0x81, 0x24]),
    (67313, [0xf0, 0x34, 0x73, 0x7e, 0xb2, 0x27, 0x5a, 0x08, 0x48, 0xf9, 0xd2, 0x09, 0x75, 0x3c, 0x35, 0x18]),
    (67371, [0x25, 0x03, 0x39, 0xd1, 0x29, 0x08, 0x69, 0x48, 0xe3, 0x96, 0x7a, 0xd0, 0x43, 0xf7, 0xec, 0xb3]),
    (67372, [0x13, 0xfe, 0x9a, 0x9f, 0x05, 0x61, 0x46, 0x9c, 0x04, 0x4e, 0xef, 0x27, 0xd0, 0x12, 0x1f, 0x16]),
    (67373, [0x44, 0x5d, 0x5c, 0x69, 0x52, 0x50, 0x16, 0xf4, 0x33, 0x5d, 0x9a, 0xb3, 0xaa, 0x2c, 0xbc, 0x18]),
    (67374, [0xf0, 0x3e, 0xf7, 0xe9, 0x64, 0xb0, 0xaf, 0xcd, 0xbf, 0x2b, 0x38, 0xaf, 0x3d, 0x7b, 0x60, 0x84]),
    (67375, [0x23, 0x68, 0x79, 0x34, 0x3b, 0x40, 0x27, 0x72, 0x7a, 0x5f, 0x82, 0xeb, 0x1b, 0x0f, 0xa1, 0x9e]),
    (67376, [0xcd, 0x9e, 0x74, 0xec, 0x51, 0xe3, 0x36, 0x0c, 0x1f, 0x41, 0xcc, 0x2b, 0xc9, 0x16, 0xe4, 0x22]),
    (67377, [0x93, 0xce, 0x93, 0x28, 0xa7, 0xa0, 0x72, 0xe8, 0x71, 0x60, 0xf6, 0xe5, 0xbc, 0x0f, 0xaa, 0xf8]),
    (67378, [0xb7, 0x8b, 0x25, 0xd2, 0x67, 0x91, 0xe7, 0x72, 0x22, 0x79, 0x15, 0x85, 0x18, 0xbd, 0xa5, 0xea]),
    (67380, [0x70, 0xaf, 0x74, 0xb3, 0x19, 0x94, 0x9e, 0xe9, 0x36, 0xed, 0xfe, 0x69, 0xbd, 0x33, 0xab, 0x9f]),
    (67381, [0x9e, 0xd2, 0xd4, 0x6d, 0xe1, 0xf8, 0x66, 0x39, 0x77, 0x63, 0xf1, 0xbf, 0xed, 0x09, 0x88, 0x1b]),
    (67382, [0x45, 0xcb, 0x7e, 0x20, 0xe1, 0xde, 0x34, 0x05, 0x5d, 0xe6, 0xf4, 0xe3, 0x59, 0x57, 0xaf, 0x8f]),
    (67383, [0xb4, 0x86, 0x5a, 0x4f, 0xfd, 0x9d, 0x2c, 0x61, 0x58, 0xc7, 0x90, 0x28, 0xe0, 0xb9, 0x92, 0x86]),
    (67384, [0x73, 0xec, 0x93, 0xc6, 0x14, 0xf8, 0xc8, 0xe3, 0xe4, 0x20, 0xd3, 0x75, 0x67, 0xd6, 0xb2, 0x1c]),
    (67385, [0x61, 0x04, 0x49, 0x97, 0x97, 0x2f, 0x79, 0x0a, 0xeb, 0xe2, 0x16, 0x04, 0x08, 0x81, 0xea, 0xda]),
    (67391, [0xae, 0x06, 0xc0, 0x77, 0x97, 0xe3, 0x5b, 0xc5, 0x16, 0xdb, 0x8d, 0x95, 0xf1, 0x07, 0xd9, 0xb3]),
    (67681, [0x77, 0xf2, 0x8b, 0x50, 0x2d, 0x98, 0x89, 0xfb, 0xea, 0xe1, 0x2b, 0x31, 0x42, 0xf9, 0xc9, 0x79]),
    (70121, [0x53, 0xc6, 0x1e, 0x5b, 0x5f, 0xdb, 0xdf, 0x6f, 0x01, 0x26, 0xa1, 0xcf, 0xe5, 0x61, 0x8d, 0x43]),
    (70122, [0xa4, 0x34, 0x30, 0x35, 0x05, 0x12, 0xc2, 0x65, 0xa8, 0x8c, 0xf6, 0x42, 0x66, 0xfc, 0x09, 0x5a]),
    (70401, [0x10, 0xcb, 0xd3, 0xad, 0x67, 0x33, 0x1d, 0xfc, 0x23, 0x6e, 0x8c, 0x49, 0x8e, 0x7c, 0x50, 0x29]),
    (70411, [0xbf, 0x2d, 0xf0, 0x9a, 0xa9, 0xf1, 0xad, 0x6d, 0xb1, 0x66, 0xef, 0xf7, 0x27, 0x6f, 0xdc, 0xb0]),
    (70501, [0xd3, 0xcd, 0x34, 0x7d, 0xc7, 0xdc, 0x46, 0xf7, 0xc2, 0x99, 0x6e, 0x5d, 0x8d, 0xa1, 0x1b, 0x1c]),
    (70502, [0x6d, 0xc9, 0x06, 0xd6, 0xfc, 0x62, 0xa5, 0x10, 0xaa, 0x20, 0xca, 0x6d, 0xd0, 0xac, 0x75, 0x6b]),
    (70511, [0x4f, 0x4d, 0xa7, 0xe8, 0xc0, 0x1b, 0xae, 0x47, 0xf1, 0xc0, 0x05, 0x0c, 0xc3, 0xcc, 0xf6, 0xc5]),
    (70512, [0x28, 0xaa, 0x29, 0x2e, 0xd8, 0x56, 0xd0, 0x7e, 0x51, 0x40, 0xc2, 0xa4, 0x78, 0x13, 0x1e, 0x36]),
    (70601, [0xf0, 0x8d, 0x1d, 0x19, 0xf9, 0x73, 0xac, 0x9a, 0x90, 0x1e, 0x33, 0x0e, 0xb9, 0x49, 0x88, 0xe0]),
    (70603, [0x88, 0x64, 0x81, 0x3b, 0x2b, 0xbd, 0xe8, 0xdb, 0xc5, 0xde, 0xc1, 0x3d, 0x6d, 0x76, 0x80, 0x55]),
    (70604, [0xd5, 0x9e, 0x29, 0x04, 0x2d, 0x73, 0xcc, 0xa6, 0x2d, 0x28, 0xbc, 0xf7, 0x5f, 0x8e, 0x32, 0xf7]),
    (70605, [0xfc, 0xf8, 0xe1, 0x81, 0xa9, 0x84, 0x6d, 0xc9, 0x5b, 0x91, 0x87, 0x96, 0xac, 0xb6, 0xad, 0x67]),
    (70606, [0x27, 0x10, 0xa2, 0xc9, 0xa0, 0xa4, 0x75, 0xb8, 0x95, 0x3c, 0x7a, 0x95, 0xb1, 0x1a, 0x70, 0x96]),
    (70607, [0xcb, 0x83, 0x44, 0x59, 0x7a, 0x62, 0x3d, 0x75, 0x4e, 0x1b, 0xf4, 0xe0, 0xeb, 0x3f, 0x12, 0x36]),
    (70608, [0x73, 0x9a, 0xb9, 0x55, 0xe9, 0x8e, 0x09, 0xae, 0x45, 0x35, 0x91, 0xc0, 0xfa, 0x7d, 0x0f, 0x3c]),
    (70609, [0x2f, 0xc4, 0xba, 0xaa, 0x3c, 0x87, 0xd6, 0x89, 0x89, 0xd3, 0xe7, 0x71, 0x18, 0x61, 0x76, 0x6c]),
    (70610, [0xfc, 0x81, 0xd4, 0x6c, 0x3c, 0xf0, 0x0a, 0x8c, 0xd1, 0xca, 0x7c, 0xd1, 0x83, 0x42, 0x93, 0x40]),
    (70611, [0x56, 0x35, 0x63, 0xad, 0x01, 0x1e, 0x7e, 0x7b, 0xc1, 0xf7, 0x6e, 0x44, 0x4f, 0xae, 0x57, 0xf4]),
    (70621, [0x00, 0xd8, 0xdd, 0xdf, 0x2b, 0x19, 0xcf, 0xc9, 0xd9, 0xfa, 0x0e, 0x50, 0x34, 0xc6, 0x6f, 0xc0]),
    (70622, [0xbc, 0x02, 0xaa, 0xe4, 0xb8, 0x1d, 0x9a, 0x97, 0x8d, 0x39, 0x68, 0xa5, 0x90, 0xe3, 0x75, 0xea]),
    (70641, [0x46, 0xd4, 0x71, 0xb8, 0x29, 0x09, 0x74, 0xc3, 0x29, 0x51, 0xf9, 0xc5, 0x04, 0x26, 0x92, 0xa0]),
    (70651, [0xbf, 0x48, 0x80, 0xc7, 0x5a, 0xc1, 0x84, 0x14, 0x02, 0xc6, 0x62, 0xe3, 0xf0, 0x19, 0x11, 0xed]),
    (70661, [0x78, 0x5e, 0x41, 0x1a, 0x16, 0xb9, 0xa0, 0x88, 0xc6, 0xe9, 0x03, 0xd2, 0xcd, 0x8e, 0x5d, 0x06]),
    (71001, [0x5c, 0x89, 0x00, 0x1c, 0x62, 0x62, 0xd6, 0x81, 0x9c, 0xe0, 0x66, 0x8a, 0x60, 0xc7, 0xf2, 0xaa]),
    (71101, [0x3e, 0x17, 0x3a, 0x1d, 0xde, 0xbc, 0xd7, 0xfc, 0x22, 0xec, 0xf4, 0xd4, 0x5f, 0x4d, 0x0c, 0xda]),
    (71102, [0x29, 0x8c, 0x6b, 0x8c, 0x9a, 0xf5, 0x96, 0x65, 0x0c, 0x9d, 0x13, 0x4d, 0xcc, 0x66, 0x83, 0xef])]"

definition TABLE_20 :: "key_entry list" where
  "TABLE_20 = [
    (71131, [0x45, 0xfa, 0xbc, 0x9d, 0xde, 0x35, 0x57, 0x67, 0xc9, 0x4e, 0x60, 0xc6, 0xee, 0x3b, 0x61, 0x8e]),
    (71141, [0xcd, 0x0b, 0x37, 0xeb, 0xe0, 0xe7, 0xab, 0x72, 0x6c, 0xdc, 0xee, 0x39, 0x92, 0x1e, 0x9c, 0x60]),
    (71142, [0x12, 0x37, 0x59, 0x8d, 0xca, 0xdf, 0x86, 0x76, 0x2b, 0xa3, 0x9b, 0x74, 0xd3, 0x09, 0x88, 0xfd]),
    (71143, [0xa3, 0x84, 0x59, 0xec, 0x80, 0xd8, 0x0d, 0x6e, 0x48, 0x56, 0x49, 0xbc, 0x3f, 0x89, 0x81, 0xfa]),
    (71144, [0x88, 0x22, 0x95, 0x0a, 0xaf, 0x52, 0xd2, 0x5f, 0x4e, 0x24, 0xc4, 0xf6, 0x7a, 0x22, 0x07, 0x01]),
    (71181, [0x0d, 0x04, 0xae, 0x6e, 0xfc, 0x01, 0x8c, 0xe7, 0x4d, 0xea, 0x4e, 0x31, 0xb0, 0x7f, 0xe8, 0xe0]),
    (71182, [0x4b, 0xb2, 0x3a, 0x09, 0x8e, 0xfa, 0x3c, 0x25, 0x6a, 0x5b, 0x0f, 0x64, 0xcd, 0xb8, 0x8c, 0x4a]),
    (71183, [0xf6, 0x64, 0x80, 0x19, 0xce, 0x58, 0x36, 0x38, 0x2e, 0x42, 0x9a, 0xd4, 0x13, 0xe0, 0xe4, 0xef]),
    (71184, [0x53, 0x29, 0x2b, 0xdf, 0x27, 0xbd, 0x08, 0xcc, 0x9f, 0x08, 0x8e, 0xe2, 0x42, 0x61, 0x75, 0x59]),
    (71185, [0x14, 0x9a, 0x9a, 0x0a, 0xcf, 0x4b, 0xe4, 0xc9, 0xba, 0xaa, 0x80, 0x24, 0xde, 0x90, 0x1e, 0xb8]),
    (71186, [0x47, 0x8f, 0x50, 0xd6, 0x15, 0x0d, 0x3a, 0xe4, 0x61, 0x1f, 0xc1, 0x0e, 0x37, 0x49, 0xe1, 0x2e]),
    (71187, [0x5f, 0x24, 0xf3, 0xa6, 0x8a, 0x0e, 0x10, 0x38, 0xba, 0x03, 0x29, 0xb6, 0x2e, 0x6d, 0xc5, 0x99]),
    (71188, [0x2e, 0xf4, 0x0f, 0xeb, 0x79, 0x15, 0x30, 0xa5, 0xd6, 0xf5, 0xae, 0x3d, 0x65, 0xdb, 0x72, 0x57]),
    (71189, [0x1e, 0xc2, 0x67, 0xc8, 0xa3, 0x35, 0xe4, 0x91, 0x99, 0xd6, 0xc1, 0x48, 0xdc, 0x8a, 0x0e, 0x75]),
    (71190, [0x89, 0xe4, 0x9b, 0x4c, 0x55, 0x5c, 0x63, 0x8c, 0x93, 0xc7, 0x5e, 0x92, 0xa6, 0xf7, 0xa1, 0xe6]),
    (71191, [0xe3, 0x2b, 0x50, 0x8a, 0xba, 0xb5, 0xc9, 0xe9, 0x67, 0x65, 0x7d, 0x40, 0xaa, 0x7f, 0xe2, 0x49]),
    (71192, [0x7a, 0xd5, 0x77, 0xa3, 0xb6, 0x4b, 0x4b, 0x6a, 0xf3, 0x17, 0x7a, 0x67, 0x8f, 0x59, 0x80, 0x09]),
    (71201, [0xf1, 0x88, 0x57, 0x73, 0x6b, 0x2e, 0x10, 0x6f, 0xcf, 0x66, 0x1b, 0x9a, 0x24, 0x8e, 0x26, 0xc8]),
    (71211, [0xf4, 0x35, 0xac, 0x70, 0x83, 0xc2, 0x82, 0x22, 0x1c, 0xfb, 0x4c, 0xf3, 0xdc, 0xa5, 0x69, 0xdc]),
    (71212, [0x86, 0x63, 0x97, 0xaa, 0x90, 0x70, 0x48, 0xd4, 0x08, 0x4e, 0x00, 0x87, 0xb1, 0xfd, 0x50, 0x9a]),
    (71213, [0xac, 0xe3, 0x87, 0x78, 0xe9, 0x26, 0x6b, 0x55, 0xec, 0xc0, 0xac, 0x50, 0x69, 0x5e, 0x8e, 0xeb]),
    (71214, [0x0d, 0x61, 0x30, 0xb9, 0x63, 0xaa, 0x8e, 0x0c, 0x8f, 0x9c, 0xdf, 0x68, 0x57, 0x12, 0x30, 0x6e]),
    (71271, [0x50, 0xd6, 0x14, 0x53, 0xda, 0x98, 0xac, 0xe7, 0x08, 0x61, 0x39, 0xff, 0xb0, 0x05, 0xe4, 0x5c]),
    (71272, [0xd2, 0xab, 0x69, 0xce, 0x05, 0xa8, 0xe9, 0x42, 0x8f, 0x2b, 0xcb, 0x6a, 0x2f, 0xf2, 0x8b, 0x3d]),
    (71273, [0x20, 0x21, 0xe5, 0xaa, 0x8c, 0x22, 0x2a, 0x06, 0x83, 0x1c, 0xf9, 0x18, 0x7e, 0x03, 0xf0, 0x6f]),
    (71281, [0xe7, 0xe8, 0xf8, 0xf3, 0xd2, 0x49, 0xb8, 0xd1, 0x91, 0xec, 0x60, 0x7a, 0x94, 0x8b, 0x2f, 0x21]),
    (71282, [0x49, 0xfe, 0x4a, 0xca, 0xaf, 0x90, 0x8f, 0x02, 0x3b, 0x1b, 0x98, 0x09, 0xdf, 0x67, 0x4d, 0x89]),
    (71291, [0x3d, 0x3c, 0xfd, 0x6a, 0xcd, 0x56, 0xf7, 0xa6, 0x9b, 0x3a, 0xd8, 0x33, 0xfa, 0xbf, 0x2c, 0x24]),
    (71301, [0x74, 0x21, 0x86, 0x6a, 0x5e, 0x7b, 0x1b, 0x23, 0x24, 0x6b, 0xd3, 0xef, 0x34, 0xbe, 0xef, 0xee]),
    (71302, [0x21, 0xdf, 0x61, 0x67, 0xc0, 0x8c, 0x76, 0x97, 0x7b, 0x8a, 0x8a, 0xf7, 0xc4, 0x61, 0x97, 0x7d]),
    (71311, [0xce, 0x11, 0x13, 0xc6, 0xb7, 0xc7, 0xf7, 0xcd, 0x55, 0x15, 0x5c, 0xa5, 0x64, 0x12, 0x61, 0x6b]),
    (71312, [0xc0, 0x32, 0x2a, 0x83, 0x2b, 0xee, 0x24, 0x2a, 0xcc, 0x1c, 0xa1, 0xf3, 0xc0, 0x6c, 0xbc, 0xc7]),
    (71321, [0xe9, 0x67, 0xbc, 0xf7, 0xed, 0xf5, 0x2e, 0xed, 0x94, 0x4d, 0xe4, 0x0a, 0xb3, 0x3d, 0xf4, 0x62]),
    (71322, [0x1b, 0xd8, 0x75, 0x68, 0x82, 0xbe, 0xfe, 0xce, 0xc6, 0xe7, 0x95, 0xa0, 0x19, 0x84, 0xc8, 0x5b]),
    (71341, [0xf5, 0x62, 0x81, 0xce, 0x6c, 0x84, 0x74, 0x0e, 0xd7, 0x20, 0xcc, 0xb1, 0x50, 0xa0, 0x32, 0xaa]),
    (71391, [0x01, 0xd6, 0x0a, 0x3d, 0x38, 0xfa, 0xdd, 0x89, 0x7a, 0x6b, 0x3b, 0x42, 0x83, 0x26, 0xed, 0xf9]),
    (71401, [0x2d, 0xd4, 0x39, 0xf5, 0x37, 0x4e, 0x40, 0xaa, 0x23, 0x05, 0xbf, 0x84, 0x8e, 0x9c, 0x14, 0xce]),
    (71411, [0x5e, 0x22, 0x6f, 0x5d, 0x16, 0xcd, 0xaf, 0xf1, 0x04, 0xbd, 0x40, 0x1d, 0x90, 0xa9, 0x35, 0x69]),
    (71421, [0x6e, 0xc1, 0x9b, 0x08, 0x39, 0x49, 0xb9, 0xef, 0x41, 0xa8, 0x23, 0x97, 0x39, 0x44, 0x97, 0x68]),
    (72301, [0x3a, 0x3c, 0x89, 0xf2, 0xb8, 0x8a, 0x36, 0x69, 0x5b, 0x64, 0x03, 0xbe, 0x57, 0x07, 0xe2, 0xa3]),
    (72311, [0x3f, 0xdb, 0x61, 0x52, 0xb2, 0xee, 0x4a, 0xa6, 0x0e, 0xda, 0x60, 0x82, 0xa0, 0x3f, 0xa9, 0x20]),
    (72501, [0x98, 0x6e, 0x27, 0xa9, 0x1e, 0xa4, 0x65, 0x33, 0xc5, 0xc8, 0xfb, 0x5b, 0x37, 0x99, 0x33, 0xa1]),
    (72502, [0x9e, 0x3c, 0x90, 0x8d, 0x0e, 0x43, 0xf0, 0x93, 0x42, 0x3c, 0xb1, 0x01, 0x34, 0xef, 0x5b, 0xf5]),
    (72511, [0xf2, 0x03, 0x48, 0x4e, 0x35, 0x0c, 0x3e, 0x60, 0xdc, 0x32, 0x97, 0xf4, 0x7f, 0xd9, 0x4b, 0xbb]),
    (72521, [0xff, 0x45, 0x27, 0xcd, 0x8e, 0x43, 0xa1, 0x83, 0x39, 0x69, 0x5d, 0x5e, 0xc2, 0x2f, 0x5b, 0x10]),
    (72531, [0x91, 0x15, 0x23, 0x49, 0x8d, 0x46, 0x69, 0xad, 0x65, 0x74, 0x7c, 0x82, 0x09, 0x47, 0xb0, 0xe8]),
    (72532, [0x05, 0x50, 0x6b, 0xca, 0xe4, 0x92, 0xc1, 0xcb, 0xaa, 0x2b, 0x71, 0x3c, 0xcc, 0x48, 0x82, 0x7b]),
    (72533, [0x4e, 0x34, 0xc5, 0x40, 0xa5, 0x71, 0xbe, 0xab, 0x36, 0x4c, 0x1d, 0xf9, 0xf4, 0x52, 0x01, 0x7f]),
    (72701, [0x6c, 0x7a, 0xd6, 0xa9, 0x16, 0x16, 0xb3, 0x4c, 0x61, 0xa5, 0x8a, 0xdb, 0x65, 0x00, 0x3b, 0xc1]),
    (72702, [0x33, 0x53, 0x96, 0x10, 0xbd, 0x3f, 0xe2, 0xd4, 0xd9, 0x68, 0xa2, 0x4f, 0xc3, 0xc5, 0x6a, 0xae]),
    (72703, [0x77, 0xae, 0xc0, 0x0b, 0xee, 0x3a, 0xc4, 0x5a, 0x78, 0xed, 0x90, 0x80, 0xeb, 0xd1, 0x46, 0x8f]),
    (72704, [0x58, 0x72, 0x56, 0xe8, 0x2d, 0xf9, 0x93, 0x78, 0x61, 0xee, 0xf2, 0xca, 0x7d, 0x0f, 0xda, 0x28]),
    (72705, [0xc4, 0x89, 0x45, 0xcb, 0x71, 0x44, 0xad, 0xa9, 0x27, 0x7c, 0x8e, 0x88, 0x14, 0x37, 0xe5, 0xd5]),
    (72706, [0xf0, 0x57, 0x5c, 0x74, 0x96, 0x1d, 0xca, 0xc1, 0xe6, 0xb4, 0x67, 0x86, 0x89, 0xa0, 0xc7, 0xb0]),
    (72707, [0xd4, 0xca, 0x74, 0x7d, 0x20, 0x24, 0x7f, 0x47, 0xea, 0x59, 0x4d, 0x1e, 0xed, 0xc1, 0xa4, 0xd4]),
    (72708, [0x59, 0xf0, 0x5b, 0x08, 0x7a, 0x77, 0xb5, 0x76, 0x65, 0xa5, 0xd9, 0x6c, 0x1c, 0x8b, 0x69, 0xd7]),
    (72709, [0x4b, 0x5c, 0x4f, 0x33, 0x5b, 0xac, 0xda, 0x00, 0x17, 0x2d, 0x98, 0xae, 0xe2, 0x9d, 0x9a, 0xdd]),
    (72710, [0x6b, 0xa2, 0x5a, 0x52, 0xe3, 0x33, 0x25, 0xeb, 0xdb, 0x95, 0xa9, 0x05, 0x5c, 0xe8, 0xc6, 0xed]),
    (72711, [0xd2, 0x0b, 0x91, 0xef, 0x5f, 0xcb, 0xa7, 0xac, 0x93, 0x04, 0xb2, 0xcb, 0x14, 0xca, 0xde, 0x9e]),
    (72712, [0xd7, 0x5f, 0x64, 0x19, 0xeb, 0xc0, 0x7d, 0xe7, 0x85, 0x38, 0x99, 0x65, 0xf7, 0x7a, 0xcf, 0xde]),
    (72713, [0x1c, 0x09, 0x67, 0x2c, 0x1f, 0x4f, 0x41, 0x8e, 0x1b, 0x67, 0xac, 0x73, 0xe0, 0xe6, 0xc9, 0x6d]),
    (72714, [0x70, 0x0e, 0xb0, 0x5e, 0x89, 0x2e, 0xde, 0xb8, 0x95, 0x90, 0x3e, 0x39, 0xdc, 0xf9, 0xa9, 0x76]),
    (72715, [0x37, 0x75, 0x92, 0x15, 0x56, 0xdc, 0xbb, 0xc8, 0x8e, 0x85, 0xe6, 0x0d, 0x46, 0x6c, 0x59, 0xbd]),
    (72716, [0x60, 0x17, 0xc4, 0xd8, 0x94, 0x42, 0xf2, 0x5f, 0x0e, 0x1f, 0x18, 0x73, 0x5e, 0x5c, 0xb9, 0xba]),
    (72721, [0xff, 0xd7, 0xe7, 0x18, 0xb2, 0x4d, 0xed, 0x9c, 0x91, 0xa7, 0x16, 0x1e, 0xf7, 0x6e, 0x2a, 0xeb]),
    (72722, [0x94, 0xae, 0x0b, 0xa7, 0x22, 0x1e, 0xb1, 0xfb, 0xe5, 0x35, 0x26, 0xf7, 0x3b, 0x9a, 0xcc, 0xe2]),
    (72723, [0xcb, 0xeb, 0xf4, 0x7e, 0x25, 0x0b, 0x3a, 0xb2, 0x05, 0x14, 0xff, 0x71, 0x89, 0x5a, 0xb2, 0x4e]),
    (72724, [0x22, 0x15, 0xc7, 0xc3, 0x2d, 0xde, 0x46, 0xea, 0x09, 0xda, 0xe3, 0xbc, 0xa4, 0xaf, 0xdb, 0xf4]),
    (72731, [0x01, 0x0d, 0xc8, 0x68, 0x1c, 0x0c, 0x2a, 0x51, 0xfc, 0xd7, 0x98, 0xb7, 0xc1, 0xbb, 0x4f, 0x69]),
    (72732, [0x24, 0x79, 0xc0, 0x46, 0x57, 0x86, 0x41, 0x26, 0xfb, 0xec, 0xb9, 0x0b, 0xb3, 0x04, 0x24, 0xa6]),
    (72733, [0xec, 0xb5, 0xd8, 0x9e, 0xfb, 0x78, 0xfc, 0x29, 0x71, 0x9b, 0x74, 0xfe, 0x60, 0xfc, 0x08, 0x85]),
    (72734, [0xf0, 0xb8, 0x08, 0x92, 0x82, 0x4a, 0xd9, 0x7b, 0x46, 0x8f, 0x22, 0xb8, 0xce, 0xa0, 0x04, 0x2f]),
    (72735, [0x9b, 0xe5, 0x12, 0x9e, 0x78, 0x97, 0x9d, 0x27, 0xe3, 0xce, 0xc8, 0x09, 0xa3, 0x87, 0x14, 0x95]),
    (72736, [0x39, 0xea, 0xd7, 0xe7, 0x66, 0xfc, 0x9a, 0x2a, 0x07, 0xf3, 0x86, 0x1e, 0x46, 0xc5, 0x85, 0x06]),
    (72740, [0x4d, 0x87, 0x3d, 0xfa, 0x20, 0xf6, 0x4f, 0xef, 0xba, 0x29, 0x4e, 0x00, 0xd3, 0x84, 0x84, 0xcd]),
    (72742, [0xfd, 0xed, 0x04, 0x4b, 0xfc, 0xd3, 0xbe, 0xa4, 0x93, 0xd0, 0x1c, 0x87, 0x4c, 0x6c, 0xa0, 0x26]),
    (72743, [0x8a, 0x51, 0x3b, 0x72, 0x15, 0xa7, 0x98, 0xb4, 0x19, 0x32, 0x30, 0x57, 0xfd, 0xe6, 0xd8, 0x0b]),
    (72744, [0x59, 0xf4, 0x02, 0xe7, 0xbe, 0x51, 0x93, 0xbe, 0xf4, 0x2f, 0x5a, 0x74, 0x70, 0x9e, 0x2c, 0xe2]),
    (72745, [0x1f, 0x0f, 0x23, 0x0d, 0x68, 0x15, 0x3c, 0x77, 0x59, 0x5a, 0x98, 0xc6, 0x52, 0xc0, 0x95, 0x68]),
    (72746, [0x72, 0xa9, 0xe0, 0xe9, 0xeb, 0x6b, 0xa3, 0xa7, 0x45, 0x4a, 0x2c, 0xd3, 0xd3, 0x15, 0x57, 0x23]),
    (72750, [0x9f, 0x13, 0xb8, 0x26, 0xac, 0xb2, 0xcc, 0x91, 0xd5, 0xa9, 0x5b, 0x69, 0x18, 0x30, 0xbf, 0x8b]),
    (72751, [0x05, 0xb9, 0xf9, 0x13, 0x5b, 0xda, 0xa3, 0x56, 0xbb, 0x4b, 0x29, 0x02, 0xb5, 0xd4, 0x04, 0x6d]),
    (72752, [0x77, 0x02, 0xc7, 0x1c, 0xbe, 0x92, 0xde, 0x3c, 0xd1, 0x8e, 0xef, 0x02, 0x74, 0x38, 0x7e, 0x37]),
    (72753, [0xc4, 0x84, 0xef, 0x8e, 0x5e, 0x63, 0x5c, 0x24, 0x50, 0xa3, 0x63, 0x52, 0x34, 0xe5, 0xd9, 0x7e]),
    (72754, [0xce, 0xed, 0x7a, 0x99, 0x3e, 0x71, 0x43, 0xb3, 0xc5, 0x5c, 0x18, 0x3c, 0xc3, 0xc4, 0xb1, 0xdc]),
    (72755, [0x76, 0x6f, 0xf1, 0x9b, 0x12, 0xcf, 0xb6, 0x11, 0x9c, 0xc8, 0x75, 0x8f, 0x2f, 0x72, 0x53, 0xb1]),
    (72760, [0x6d, 0x3c, 0x94, 0x8a, 0x55, 0x4c, 0x59, 0x49, 0x34, 0x27, 0x0b, 0x8e, 0xae, 0x37, 0xca, 0x77]),
    (72761, [0x55, 0x32, 0xc1, 0xe1, 0x19, 0xb9, 0xf5, 0x1d, 0x09, 0x66, 0x7b, 0xbf, 0x61, 0x58, 0xbe, 0x6a]),
    (72762, [0xdd, 0x2e, 0x0e, 0x12, 0x48, 0x34, 0x6c, 0x29, 0xd4, 0x5b, 0x77, 0x6a, 0x4d, 0x65, 0x85, 0x5f]),
    (72763, [0xdb, 0xd0, 0x1d, 0x9e, 0x7e, 0x1f, 0xbb, 0xaf, 0x2d, 0xe8, 0x72, 0xeb, 0xbf, 0x84, 0x21, 0xc2]),
    (72764, [0x9c, 0x64, 0x19, 0x35, 0x4b, 0x51, 0xf8, 0x74, 0x5e, 0x10, 0x99, 0xb5, 0x29, 0x14, 0x51, 0x70]),
    (72765, [0x1d, 0x4c, 0x73, 0x64, 0x81, 0x38, 0xa4, 0xc6, 0x92, 0x65, 0x25, 0x0d, 0xa3, 0xb9, 0xce, 0x6b]),
    (72770, [0xd4, 0x53, 0x4f, 0x55, 0x6b, 0xc6, 0xa2, 0x21, 0x9a, 0xf1, 0x6e, 0xe0, 0xb6, 0x6f, 0x35, 0x1c]),
    (72771, [0x08, 0xa9, 0xd9, 0x86, 0x9b, 0x4a, 0x43, 0x5f, 0x82, 0x2e, 0x0d, 0xed, 0x5b, 0xcb, 0xf2, 0xaa]),
    (72772, [0xa7, 0xca, 0x6e, 0xc5, 0x4e, 0x56, 0x8c, 0x9e, 0x84, 0x0e, 0xb0, 0x21, 0x95, 0xfa, 0xea, 0x47]),
    (72773, [0x9b, 0x21, 0x6e, 0xca, 0xd6, 0xc5, 0xcc, 0x5e, 0x10, 0x4c, 0x9e, 0x95, 0x03, 0xc4, 0x61, 0x5d]),
    (72774, [0xab, 0xef, 0xb7, 0x6b, 0x71, 0x9a, 0xc7, 0xe0, 0x68, 0x24, 0xd3, 0x11, 0xb9, 0x7c, 0xcb, 0x53]),
    (72781, [0xa7, 0x8e, 0x8a, 0xab, 0xe8, 0x97, 0x29, 0x7a, 0x54, 0x14, 0x3e, 0x40, 0x4e, 0xf4, 0x71, 0xae]),
    (72782, [0x0c, 0xdf, 0xa2, 0x20, 0xab, 0x07, 0x82, 0x24, 0x12, 0x71, 0x0e, 0x28, 0x65, 0x1d, 0xa3, 0x39]),
    (72840, [0x43, 0xb4, 0x24, 0xb6, 0x16, 0x95, 0x45, 0xe3, 0x62, 0xe8, 0x94, 0x99, 0xe9, 0x51, 0xe1, 0x72]),
    (72841, [0x27, 0x46, 0x36, 0xe9, 0x65, 0x9c, 0x17, 0xac, 0x46, 0x64, 0x56, 0x7a, 0x13, 0xcc, 0x03, 0x21]),
    (72842, [0xd8, 0xa4, 0x7d, 0x16, 0xac, 0x0d, 0x5c, 0xf7, 0x80, 0xd8, 0x7c, 0xcb, 0x8f, 0x36, 0xfe, 0x69]),
    (72843, [0xa8, 0x85, 0xe8, 0x2c, 0x30, 0xe2, 0xf3, 0xed, 0x77, 0xda, 0x2a, 0x20, 0x82, 0x48, 0xb3, 0x1f]),
    (72844, [0xee, 0xdf, 0x19, 0x98, 0xf2, 0x37, 0x68, 0xf1, 0xdf, 0x91, 0xd0, 0x34, 0x70, 0x95, 0xc4, 0x3f]),
    (72845, [0xdc, 0xe0, 0x60, 0xf0, 0x5d, 0xdc, 0xa0, 0x70, 0xe8, 0xd9, 0xad, 0x4b, 0xf4, 0xf7, 0xf2, 0x48]),
    (72851, [0xa5, 0x3d, 0x04, 0x9a, 0xee, 0x7f, 0x11, 0xce, 0x98, 0x59, 0xdd, 0x40, 0x14, 0x57, 0x3b, 0x7b]),
    (72852, [0x72, 0xb2, 0x95, 0xcc, 0x4e, 0x84, 0x96, 0x13, 0x92, 0xf9, 0xba, 0x27, 0x33, 0x0e, 0xfc, 0x2c]),
    (72853, [0x24, 0x4e, 0xb3, 0x6b, 0x02, 0x17, 0x5e, 0xec, 0xc4, 0xaa, 0xee, 0x9e, 0x97, 0xed, 0xa9, 0x12]),
    (72854, [0xe3, 0x7a, 0xd7, 0x4c, 0x51, 0x02, 0x81, 0x18, 0x44, 0x14, 0x76, 0x45, 0xbc, 0xc1, 0x39, 0x06]),
    (72855, [0x8e, 0x90, 0xf4, 0x76, 0x71, 0xe6, 0x3f, 0x30, 0x2d, 0xe9, 0x17, 0x65, 0xe0, 0x3f, 0x59, 0x17]),
    (72856, [0xd8, 0xd0, 0xaa, 0x9d, 0x3c, 0x99, 0x34, 0x72, 0x8e, 0xe7, 0x74, 0xd1, 0xc0, 0x5c, 0x62, 0x6a]),
    (72857, [0x6e, 0x21, 0xde, 0x5b, 0x32, 0xf9, 0x66, 0x23, 0x44, 0xa1, 0xa0, 0xe0, 0x33, 0xaa, 0xcd, 0x36]),
    (72858, [0xab, 0x7b, 0xa9, 0x09, 0x89, 0x76, 0xf2, 0x77, 0x9e, 0x51, 0x49, 0x98, 0xd9, 0x84, 0x55, 0xd0]),
    (72859, [0x40, 0x75, 0x70, 0xb9, 0xfb, 0x0a, 0xb3, 0xfe, 0x05, 0x5c, 0x1c, 0xfb, 0x1d, 0x3b, 0xd1, 0x8c]),
    (72860, [0x0c, 0x79, 0x9a, 0x73, 0xad, 0xbc, 0xa4, 0x7a, 0x91, 0x69, 0xeb, 0xac, 0x35, 0x06, 0x6d, 0x8e]),
    (72861, [0x80, 0xec, 0x3f, 0x35, 0x74, 0x4d, 0x85, 0x9b, 0xb7, 0xc1, 0x32, 0x12, 0xc5, 0xc1, 0xab, 0x36]),
    (72901, [0xb6, 0x9e, 0xa8, 0x01, 0x57, 0x4a, 0xcf, 0x3c, 0xdb, 0x32, 0x22, 0x44, 0xb6, 0x65, 0x0b, 0x77]),
    (72902, [0x16, 0xf0, 0xc2, 0xb3, 0x3b, 0x38, 0x18, 0x9d, 0x58, 0xa6, 0x2a, 0x0a, 0x27, 0x0d, 0x1f, 0xbf]),
    (72903, [0xe7, 0x94, 0x70, 0x24, 0xe7, 0x0a, 0x0e, 0xdb, 0x61, 0xeb, 0xd0, 0xa0, 0x9f, 0x64, 0x2f, 0x7e]),
    (72904, [0xc3, 0x50, 0xf8, 0xa9, 0x10, 0x37, 0x82, 0x97, 0x13, 0xa5, 0x03, 0xfd, 0xcd, 0xf4, 0xe1, 0x70]),
    (73018, [0x11, 0xed, 0x69, 0xed, 0x74, 0x38, 0xa6, 0x8d, 0xb4, 0xed, 0x75, 0x97, 0x6d, 0xa9, 0xf3, 0x0e]),
    (73021, [0xc0, 0x65, 0x92, 0x02, 0xed, 0xa4, 0x58, 0xdd, 0x2a, 0xc7, 0xc6, 0x5d, 0x15, 0x4e, 0x4f, 0xbe]),
    (73022, [0x89, 0xeb, 0x25, 0x73, 0x0a, 0xe9, 0x06, 0xf1, 0x59, 0x83, 0x06, 0xed, 0xf1, 0x6f, 0xcf, 0xee]),
    (73023, [0xab, 0x85, 0x6d, 0x57, 0x56, 0x2d, 0x0f, 0xb5, 0x1b, 0xcf, 0x07, 0xa4, 0xd4, 0xce, 0x35, 0x7c]),
    (73024, [0xd6, 0x2f, 0x8e, 0xf9, 0x8d, 0x97, 0x0b, 0x37, 0x65, 0xc1, 0x96, 0x9a, 0x18, 0x32, 0x2c, 0x8c]),
    (73030, [0x1d, 0x3c, 0x16, 0x4f, 0x80, 0x71, 0x24, 0x6e, 0xce, 0xeb, 0x78, 0xc2, 0x47, 0xbb, 0x62, 0x9f]),
    (73061, [0x7e, 0x41, 0x59, 0xb5, 0xeb, 0x88, 0xb6, 0x74, 0x87, 0x98, 0x10, 0x37, 0x31, 0x71, 0x6d, 0x7c]),
    (73081, [0x11, 0xa1, 0xc0, 0xe7, 0x45, 0xf4, 0xf9, 0x08, 0xf7, 0x81, 0x3a, 0xb9, 0xdf, 0x59, 0x14, 0x38]),
    (73085, [0x56, 0x5b, 0x03, 0xad, 0x4c, 0x1d, 0x08, 0x5d, 0xd9, 0x45, 0x9c, 0x86, 0x3e, 0x04, 0x2b, 0x34]),
    (73086, [0xca, 0xab, 0x53, 0x69, 0xaa, 0x4b, 0x5d, 0xd4, 0xe4, 0xe9, 0x53, 0xef, 0xf6, 0x36, 0x4c, 0xb1]),
    (73088, [0x32, 0x69, 0xbc, 0x99, 0x0f, 0xcc, 0x69, 0xc5, 0x4a, 0xd4, 0x34, 0xd8, 0xf3, 0xef, 0x30, 0x2d]),
    (73089, [0x10, 0xda, 0x35, 0x85, 0x35, 0xbf, 0x14, 0x29, 0xff, 0x63, 0x04, 0xba, 0xe9, 0xc9, 0x3f, 0x71]),
    (73151, [0x3f, 0x64, 0x72, 0xab, 0x97, 0x9d, 0x80, 0x4b, 0xd4, 0x82, 0x66, 0xa4, 0x4f, 0x61, 0xb8, 0x28]),
    (73152, [0x46, 0x56, 0xeb, 0x15, 0xdd, 0xca, 0x0d, 0x6c, 0x9b, 0x2b, 0xb8, 0x5a, 0xe8, 0xdb, 0x35, 0x28]),
    (73179, [0x11, 0xed, 0x69, 0xed, 0x74, 0x38, 0xa6, 0x8d, 0xb4, 0xed, 0x75, 0x97, 0x6d, 0xa9, 0xf3, 0x0e]),
    (73201, [0x72, 0xa6, 0xf0, 0x33, 0xbe, 0xd6, 0x62, 0x2e, 0x38, 0xd0, 0x6b, 0xec, 0x23, 0xe2, 0x9d, 0x9c]),
    (73231, [0x90, 0x6e, 0x77, 0x8c, 0x2d, 0x82, 0xec, 0xd9, 0xa8, 0x36, 0x1b, 0xa8, 0x5d, 0xb9, 0xd0, 0xb0]),
    (80001, [0x16, 0xb2, 0xf0, 0xf5, 0x4f, 0xdd, 0x4f, 0x9b, 0x16, 0x70, 0xf8, 0xf4, 0xb3, 0x87, 0x7d, 0x85]),
    (80002, [0x33, 0xc9, 0x36, 0x3d, 0xdf, 0xe2, 0xd8, 0xbb, 0x42, 0x8c, 0x3e, 0xf4, 0xc5, 0xeb, 0x7e, 0x09]),
    (80003, [0x0c, 0xf6, 0x37, 0x3b, 0x09, 0x36, 0xdb, 0xde, 0xf8, 0x46, 0x9f, 0x3c, 0x98, 0x59, 0x22, 0x80]),
    (80004, [0x91, 0xfa, 0x89, 0x90, 0xdb, 0x1a, 0x3a, 0x62, 0x6e, 0x30, 0xad, 0xd5, 0x61, 0x77, 0xa2, 0xb8]),
    (80005, [0xf6, 0x9a, 0xef, 0x60, 0xc3, 0x25, 0x29, 0xdf, 0x37, 0x1b, 0x0e, 0xd8, 0x96, 0x61, 0x5d, 0x28]),
    (80006, [0xb3, 0xdf, 0x44, 0x77, 0x8d, 0xb7, 0x44, 0x75, 0x35, 0xc1, 0x9f, 0x76, 0x2c, 0xaf, 0x2a, 0xa7]),
    (80007, [0x81, 0x68, 0x1d, 0xa3, 0x99, 0x09, 0x71, 0x77, 0xd1, 0x12, 0xdc, 0xf0, 0x7b, 0xd2, 0x9a, 0xf5]),
    (80008, [0x33, 0x3e, 0xe0, 0x47, 0x41, 0xad, 0x58, 0x7d, 0xb2, 0xba, 0xbe, 0x95, 0x52, 0x27, 0x77, 0x94]),
    (80221, [0x50, 0x5b, 0xe4, 0x62, 0x41, 0x4c, 0xe2, 0x58, 0x95, 0xc4, 0xfc, 0x8e, 0xc8, 0x92, 0x08, 0xc1]),
    (80222, [0xb6, 0x4e, 0xc2, 0xa7, 0x1e, 0x60, 0xbc, 0xbe, 0xd1, 0xc9, 0xe0, 0xfa, 0x57, 0x67, 0xdd, 0x2f]),
    (80311, [0xf3, 0xa7, 0xfd, 0x13, 0x3f, 0x51, 0x31, 0x21, 0xc0, 0xb4, 0x7a, 0xb7, 0x5a, 0x92, 0x83, 0x98]),
    (80331, [0x21, 0x2a, 0x39, 0xee, 0x08, 0x2f, 0xfc, 0x27, 0xa9, 0x71, 0x1c, 0x6f, 0x54, 0xf4, 0xdd, 0x87]),
    (80341, [0xc3, 0xdf, 0x27, 0x6e, 0xfc, 0x1a, 0x7b, 0xf8, 0x53, 0x97, 0x6a, 0x56, 0x53, 0xa6, 0xcb, 0x88])]"

definition TABLE_21 :: "key_entry list" where
  "TABLE_21 = [
    (80351, [0x2d, 0x7b, 0xe3, 0xa0, 0x75, 0xd4, 0x08, 0xf4, 0xab, 0xb5, 0x4e, 0x6f, 0x31, 0x68, 0x56, 0xf9]),
    (80361, [0x88, 0xf8, 0x29, 0xc6, 0x63, 0x5d, 0xe5, 0xd3, 0xa6, 0xd1, 0xfc, 0x42, 0x78, 0x68, 0x7a, 0x11]),
    (80687, [0xb8, 0x11, 0xef, 0x50, 0x09, 0xb5, 0xa5, 0xec, 0xba, 0x16, 0x90, 0xdf, 0x1b, 0xc3, 0x54, 0xa4]),
    (80688, [0xce, 0xeb, 0x97, 0x58, 0xe8, 0x41, 0x85, 0x52, 0x20, 0xc4, 0x5b, 0x28, 0x33, 0x3f, 0xe0, 0x3b]),
    (80689, [0x4c, 0xd2, 0x7d, 0x5e, 0x39, 0xe8, 0xf1, 0xd3, 0xc4, 0x9c, 0xff, 0xf9, 0x82, 0x86, 0xbe, 0xd0]),
    (80690, [0xd0, 0x8b, 0xa8, 0x04, 0xf8, 0x69, 0xe0, 0xd0, 0x92, 0x2b, 0x78, 0xd2, 0xdd, 0xc8, 0xdd, 0x10]),
    (80691, [0xda, 0x54, 0x9e, 0x4b, 0x74, 0x15, 0x85, 0xf1, 0x25, 0x87, 0xcd, 0x69, 0x70, 0xd0, 0x9c, 0xe0]),
    (80692, [0xe7, 0xb7, 0xc1, 0x99, 0x92, 0xb8, 0x1a, 0xf8, 0xb5, 0x26, 0xe7, 0xfe, 0x36, 0x97, 0xda, 0xd6]),
    (80694, [0x15, 0x84, 0x87, 0x70, 0x1d, 0x5e, 0xf1, 0xcf, 0x0e, 0x1d, 0xdb, 0x50, 0xce, 0x1c, 0x1d, 0xdd]),
    (80696, [0xfc, 0xb3, 0x8f, 0x79, 0xf0, 0x07, 0xf9, 0xd8, 0x27, 0xdf, 0xdb, 0x07, 0x78, 0x89, 0xbc, 0x7c]),
    (80697, [0xc2, 0x71, 0x79, 0x7a, 0x1a, 0xed, 0x3f, 0x02, 0x3f, 0x96, 0x24, 0x82, 0x42, 0xcb, 0x40, 0x56]),
    (80698, [0x26, 0x8c, 0x07, 0x98, 0x9d, 0x28, 0x56, 0x6f, 0x50, 0xbc, 0x0f, 0xac, 0xb8, 0x9c, 0xc8, 0xf7]),
    (80699, [0xde, 0x80, 0xe2, 0xf2, 0x03, 0xcd, 0x3d, 0x2b, 0x4a, 0x58, 0xe7, 0x91, 0x21, 0x04, 0xcb, 0xf9]),
    (80700, [0x6a, 0x96, 0xa6, 0xec, 0x81, 0x46, 0xfc, 0xf5, 0x9e, 0xb7, 0xa7, 0xb0, 0x9c, 0x26, 0xe7, 0x33]),
    (80702, [0x59, 0xa9, 0x2d, 0xae, 0xfa, 0xf2, 0x3c, 0xa4, 0x83, 0x92, 0x70, 0x59, 0xf8, 0xcc, 0xfe, 0x02]),
    (80703, [0x19, 0x41, 0xd9, 0xdf, 0x2f, 0x94, 0xaa, 0xa7, 0xc3, 0x07, 0xd1, 0x52, 0xb0, 0xdc, 0xe6, 0x1b]),
    (80704, [0xd7, 0xaf, 0x51, 0xd3, 0xe6, 0x39, 0xb9, 0xf6, 0xbd, 0xfd, 0xc7, 0x4c, 0x4c, 0xc8, 0x80, 0x4d]),
    (80705, [0x84, 0xd0, 0x55, 0x52, 0x8a, 0x63, 0xee, 0x60, 0x40, 0xfd, 0x69, 0x0c, 0x06, 0xcb, 0x27, 0xa8]),
    (80706, [0xff, 0x49, 0xf0, 0xf9, 0x6d, 0xef, 0xe1, 0xa2, 0x94, 0x07, 0x2b, 0x7f, 0x48, 0xdd, 0x33, 0x55]),
    (80707, [0x1c, 0xd4, 0x1e, 0xff, 0x83, 0x29, 0xb5, 0xe7, 0x36, 0xee, 0x84, 0xbf, 0xec, 0x2b, 0x2d, 0xf4]),
    (80708, [0xda, 0x12, 0x4c, 0xe9, 0xe2, 0x17, 0x20, 0x76, 0xe4, 0x6d, 0xa2, 0x03, 0x8d, 0x6e, 0xee, 0x15]),
    (80709, [0x47, 0x2f, 0x68, 0x1f, 0xe4, 0x9c, 0x3f, 0xbb, 0x6e, 0x34, 0xc0, 0x7e, 0x0b, 0xfe, 0xc1, 0x41]),
    (80710, [0x1c, 0xda, 0xe6, 0xf5, 0x7d, 0xb7, 0xda, 0x4c, 0x7c, 0x9f, 0xa4, 0x9c, 0x63, 0x79, 0xae, 0x58]),
    (80720, [0x4a, 0x26, 0xce, 0x74, 0xb6, 0xd1, 0x21, 0xe7, 0x38, 0x65, 0x8b, 0xe7, 0xc4, 0xea, 0xda, 0xa6]),
    (80721, [0xef, 0xb8, 0x36, 0x18, 0xaa, 0x01, 0x37, 0x78, 0x09, 0xf8, 0xfb, 0x95, 0xf9, 0xa7, 0xd2, 0x45]),
    (80722, [0x04, 0xb9, 0xd0, 0x1a, 0xa9, 0xd9, 0xfd, 0x16, 0x99, 0xeb, 0x77, 0x9b, 0xed, 0xc2, 0x20, 0xf2]),
    (80723, [0x48, 0xbb, 0x07, 0xc3, 0xad, 0x61, 0x03, 0x7a, 0xcb, 0x72, 0x4d, 0x18, 0x3d, 0xe7, 0x1f, 0xb1]),
    (80724, [0x63, 0x5f, 0x83, 0x80, 0x7c, 0x47, 0x70, 0x03, 0xcf, 0xd7, 0x70, 0x03, 0x4b, 0xc4, 0x37, 0x2b]),
    (80725, [0x6e, 0x06, 0x56, 0x36, 0xa0, 0x1a, 0x71, 0x73, 0x69, 0xfd, 0x8f, 0x67, 0x6c, 0xf0, 0xb9, 0x33]),
    (80726, [0xe8, 0x6d, 0x05, 0x88, 0xbf, 0x7c, 0xd8, 0x32, 0xca, 0x05, 0x76, 0xce, 0x34, 0x55, 0x04, 0x17]),
    (80727, [0x4c, 0xef, 0x0b, 0xdb, 0x02, 0x52, 0xf8, 0x0d, 0x9d, 0x2e, 0xfd, 0xc1, 0xd8, 0xa3, 0x9b, 0xea]),
    (80728, [0x89, 0xe0, 0xe3, 0x83, 0xbf, 0xd5, 0xc3, 0x15, 0xd2, 0x79, 0x3d, 0x17, 0x9a, 0x53, 0x3c, 0xd4]),
    (80729, [0x5d, 0xf8, 0xd2, 0xe5, 0x63, 0x43, 0x53, 0xd5, 0x96, 0x28, 0x3c, 0x13, 0xf1, 0x0c, 0x52, 0x72]),
    (80730, [0xb5, 0xa1, 0xdf, 0x02, 0x33, 0x1e, 0xe8, 0xfa, 0x88, 0x98, 0xf9, 0x45, 0x08, 0x3f, 0xd8, 0xb8]),
    (80731, [0xd1, 0x60, 0x6e, 0xdf, 0xb6, 0x11, 0xc9, 0x49, 0xf1, 0x0c, 0x83, 0xaa, 0x6e, 0x5d, 0xd3, 0xdd]),
    (80732, [0x23, 0xfd, 0x16, 0xc8, 0x70, 0xa0, 0x94, 0x49, 0x62, 0x9f, 0x08, 0x6c, 0x5c, 0xed, 0x00, 0x87]),
    (80733, [0xa7, 0xbd, 0x69, 0x07, 0x29, 0x79, 0xa9, 0xc9, 0x9f, 0x64, 0x2c, 0x70, 0x33, 0x16, 0xd0, 0x59]),
    (80734, [0x26, 0x47, 0xe3, 0xa0, 0x18, 0xca, 0x4d, 0x4f, 0x43, 0xc0, 0x12, 0x9b, 0x25, 0x8f, 0xf6, 0x7c]),
    (80735, [0x0c, 0x0e, 0x40, 0x95, 0x2c, 0xac, 0x70, 0x11, 0x2f, 0x90, 0x8a, 0xc5, 0x05, 0x56, 0x58, 0xcb]),
    (80736, [0xbc, 0x03, 0x16, 0x93, 0xf2, 0x5c, 0xad, 0xe2, 0xf3, 0xf4, 0x87, 0x93, 0x6e, 0x32, 0x17, 0x62]),
    (80737, [0x4d, 0xcd, 0xcb, 0x67, 0x56, 0x02, 0x3b, 0x16, 0x05, 0x65, 0x6f, 0xc7, 0x5e, 0xd9, 0x54, 0x85]),
    (80738, [0x3b, 0xa1, 0x02, 0x91, 0x87, 0x5a, 0xae, 0xb1, 0xa7, 0xa8, 0x80, 0xa8, 0xa5, 0xf1, 0x1f, 0x30]),
    (80739, [0x4c, 0xd7, 0xb2, 0xee, 0xcc, 0x39, 0x1d, 0x2f, 0xb7, 0x20, 0x81, 0x99, 0xa2, 0x3e, 0xc1, 0x74]),
    (80740, [0xa8, 0xb0, 0xc0, 0xac, 0xad, 0xb2, 0xb6, 0xdc, 0x3b, 0x1f, 0xc6, 0x87, 0x5e, 0x8f, 0x1b, 0x56]),
    (80741, [0xfd, 0x31, 0xf5, 0xd5, 0x76, 0x9c, 0xfb, 0x9a, 0x79, 0x17, 0x30, 0xc1, 0xc8, 0x82, 0x68, 0xef]),
    (80742, [0xbb, 0xd8, 0xa4, 0x4d, 0x9d, 0xfb, 0x65, 0x57, 0xf3, 0xcb, 0x04, 0x44, 0x12, 0x12, 0xc2, 0xd8]),
    (90201, [0x17, 0x7b, 0xbd, 0x7d, 0x8f, 0xed, 0x34, 0xb3, 0x2a, 0x5c, 0xd5, 0x1d, 0x3b, 0xaf, 0x3d, 0x78]),
    (90202, [0xea, 0xa0, 0x68, 0x96, 0x65, 0xa8, 0x1a, 0xec, 0x5b, 0x2d, 0x7b, 0x56, 0x01, 0x89, 0xe5, 0x83]),
    (90203, [0xf8, 0xec, 0xff, 0xc6, 0xc7, 0x15, 0x86, 0x94, 0x53, 0xf2, 0x3d, 0x08, 0x47, 0xec, 0xe8, 0x23]),
    (90207, [0x8c, 0x66, 0x6f, 0xfc, 0x84, 0x2c, 0x2f, 0xa9, 0x1b, 0xcd, 0x9a, 0xb9, 0x9d, 0x08, 0x06, 0x66]),
    (90208, [0x57, 0xa9, 0xf7, 0xb8, 0x40, 0xad, 0xc2, 0xd7, 0x4e, 0x4e, 0x8c, 0xc9, 0x88, 0xe7, 0x29, 0x17]),
    (90209, [0x75, 0x90, 0x20, 0x62, 0xba, 0x08, 0x41, 0x9d, 0x98, 0x94, 0xd1, 0xb2, 0x83, 0xd1, 0x24, 0x53]),
    (90401, [0xad, 0xd2, 0xc4, 0x9f, 0xee, 0x26, 0xe8, 0x55, 0x8b, 0x3c, 0x7a, 0x52, 0x67, 0xc5, 0x0f, 0x86]),
    (90521, [0x3b, 0xd3, 0x04, 0x48, 0x39, 0x50, 0x71, 0x52, 0x11, 0x21, 0x32, 0x8a, 0xd3, 0x4e, 0x93, 0x65]),
    (90531, [0x4a, 0x3d, 0x59, 0x4b, 0xad, 0xd1, 0x5f, 0x32, 0xc9, 0x24, 0xe5, 0x1d, 0x13, 0x0b, 0x35, 0x5f]),
    (91101, [0x8b, 0xe4, 0x93, 0x25, 0x5a, 0xa8, 0x7c, 0xa4, 0x1f, 0xf6, 0xf9, 0x55, 0x71, 0xa5, 0xdf, 0x01]),
    (91104, [0x53, 0x7f, 0x68, 0xc7, 0xa1, 0xb6, 0x82, 0xe9, 0xea, 0xc5, 0x3a, 0xd1, 0x9f, 0x69, 0x62, 0x41]),
    (91106, [0x29, 0xf3, 0x6c, 0x96, 0xa3, 0xb9, 0xd5, 0xec, 0xda, 0x6f, 0xa4, 0x8b, 0x38, 0xd5, 0x9b, 0x7b]),
    (91111, [0xd3, 0x48, 0x93, 0x8e, 0xbb, 0x6b, 0x85, 0xb7, 0xd6, 0x1c, 0x18, 0xb1, 0x60, 0x86, 0x3f, 0x50]),
    (91201, [0x05, 0x95, 0x59, 0xa4, 0x72, 0xcf, 0xec, 0x01, 0x96, 0x40, 0x1c, 0x0e, 0x8c, 0x6f, 0x63, 0xb0]),
    (91202, [0x53, 0x1f, 0x1f, 0xab, 0x90, 0xc9, 0x9d, 0x93, 0x00, 0x2b, 0x22, 0x2c, 0x14, 0x51, 0x35, 0x03]),
    (91211, [0x50, 0x09, 0x1b, 0x9c, 0xdc, 0xbc, 0xf8, 0x36, 0x4f, 0x35, 0x84, 0xe9, 0x4d, 0x45, 0x43, 0x63]),
    (91212, [0x1f, 0x18, 0x7f, 0x8e, 0x60, 0x9c, 0xfd, 0x77, 0x64, 0x03, 0x95, 0x70, 0xe2, 0x2d, 0x71, 0xbb]),
    (91311, [0xd3, 0xb4, 0x6a, 0xca, 0xe1, 0xba, 0x1f, 0xe8, 0x64, 0x68, 0x06, 0x82, 0x83, 0x4f, 0x98, 0xa1]),
    (91312, [0x17, 0x4d, 0x3b, 0x8c, 0xe4, 0xa1, 0x7d, 0xdd, 0xaa, 0xb6, 0xf2, 0x19, 0xed, 0x2f, 0xc1, 0x03]),
    (91313, [0xf2, 0x32, 0xb2, 0x8a, 0x70, 0x1c, 0xbb, 0x1a, 0xfb, 0x18, 0xfb, 0x43, 0xf8, 0x9d, 0x8b, 0xe8]),
    (91314, [0xf1, 0x06, 0x76, 0x72, 0xcf, 0x9d, 0x25, 0x89, 0x82, 0xd9, 0x82, 0x26, 0xe6, 0x0c, 0xe9, 0x1f]),
    (91315, [0x8e, 0xf5, 0x77, 0x83, 0x8b, 0x04, 0x8d, 0x96, 0xb3, 0xbe, 0x1d, 0x64, 0x47, 0xbc, 0x10, 0x43]),
    (91316, [0x59, 0xb9, 0x4a, 0x75, 0x3d, 0x1b, 0x67, 0x8b, 0x62, 0x55, 0x21, 0x13, 0x01, 0xc6, 0xd5, 0x42]),
    (91317, [0x74, 0xb8, 0xa8, 0x9a, 0xe1, 0xeb, 0x7c, 0x9d, 0x46, 0xd5, 0x72, 0x30, 0xf7, 0xaf, 0x02, 0xde]),
    (91318, [0xe5, 0xd7, 0xa1, 0x8d, 0x7d, 0x6d, 0x79, 0xcd, 0x41, 0xcc, 0x4c, 0xd2, 0xe4, 0x07, 0x40, 0x56]),
    (91331, [0x11, 0x37, 0xa1, 0xa2, 0x32, 0xb1, 0x7a, 0xeb, 0x26, 0x32, 0x6e, 0xe7, 0xdb, 0x3c, 0x0b, 0x91]),
    (91332, [0xa4, 0x98, 0x96, 0xd5, 0xd8, 0xcc, 0x90, 0x6b, 0xcc, 0xbc, 0x7e, 0x26, 0xcd, 0xea, 0x4b, 0xb1]),
    (91341, [0x55, 0x02, 0x80, 0xdb, 0x21, 0xfa, 0x93, 0x1b, 0x16, 0xe4, 0x40, 0x40, 0x67, 0xef, 0x10, 0xd6]),
    (91342, [0x80, 0x17, 0x43, 0x76, 0x54, 0x53, 0x28, 0x3b, 0xda, 0xd6, 0x76, 0x00, 0xd8, 0x1a, 0xb6, 0xa6]),
    (91343, [0x53, 0x23, 0xb3, 0x47, 0x9d, 0xed, 0x82, 0xb1, 0x65, 0xe1, 0x04, 0xe3, 0x65, 0x72, 0x96, 0x04]),
    (91345, [0x94, 0x25, 0x83, 0xf1, 0xf0, 0xa4, 0x31, 0xcd, 0xbe, 0xee, 0xbf, 0x1a, 0x30, 0x38, 0x0f, 0x6e]),
    (91346, [0x32, 0x6e, 0x4f, 0xba, 0x09, 0x6c, 0xe2, 0x69, 0x8f, 0x10, 0x89, 0xdc, 0xdb, 0x5b, 0x5d, 0xe9]),
    (91347, [0xc6, 0xe0, 0x69, 0x4d, 0x30, 0x97, 0x3c, 0x38, 0xf2, 0xa4, 0x47, 0x5f, 0x10, 0xb2, 0xe8, 0x7b]),
    (91348, [0x9a, 0x8f, 0x6a, 0xc1, 0x85, 0x96, 0x8f, 0xf7, 0xbd, 0x34, 0x16, 0xa0, 0x9f, 0xf7, 0x83, 0x79]),
    (91601, [0x4a, 0x0d, 0x80, 0x83, 0x6f, 0xd7, 0x49, 0xe9, 0x0e, 0x96, 0xde, 0x5a, 0x58, 0x0d, 0x48, 0x5d]),
    (91630, [0xf4, 0x0c, 0xf8, 0x6c, 0x57, 0x32, 0x70, 0xb9, 0xc3, 0x6e, 0xb2, 0xff, 0xb0, 0xe9, 0xab, 0x16]),
    (91631, [0x1f, 0x97, 0x6e, 0x19, 0x60, 0x66, 0xb6, 0xf0, 0xab, 0x2b, 0xae, 0x92, 0x40, 0xbd, 0xf2, 0x76]),
    (91632, [0x67, 0xd0, 0xf9, 0x1d, 0xbd, 0xcd, 0xb6, 0x04, 0xce, 0x04, 0xec, 0xc2, 0xde, 0xf1, 0x57, 0x6d]),
    (91633, [0x38, 0x22, 0x77, 0xce, 0xe3, 0x33, 0x95, 0x6d, 0x7d, 0x65, 0xcb, 0x8c, 0x6a, 0x8d, 0x56, 0xea]),
    (91634, [0x38, 0x8e, 0x10, 0xe2, 0x02, 0x30, 0x9c, 0xe4, 0xd6, 0xda, 0x21, 0x43, 0x87, 0x8c, 0xdf, 0x63]),
    (91635, [0xb4, 0x6a, 0xda, 0xe6, 0x45, 0xcd, 0x0c, 0x4b, 0xa1, 0x31, 0x21, 0xc7, 0xcf, 0xb9, 0x9f, 0xaa]),
    (91636, [0x01, 0x1c, 0x2c, 0x60, 0x13, 0x53, 0xb5, 0x4e, 0x4e, 0x5b, 0xe9, 0x61, 0x8e, 0x31, 0x95, 0xb7]),
    (91637, [0xb7, 0x38, 0xac, 0x97, 0x42, 0x72, 0x83, 0xbe, 0x72, 0x08, 0xe6, 0x95, 0x2a, 0x71, 0x93, 0xb2]),
    (91638, [0x71, 0x92, 0x88, 0x0f, 0x25, 0xd9, 0xce, 0x89, 0xd5, 0x4e, 0x4d, 0xbc, 0xa0, 0x5f, 0xac, 0xfb]),
    (91639, [0xfb, 0xfa, 0xea, 0x4a, 0xdc, 0xcb, 0x05, 0xec, 0x05, 0x4c, 0xc8, 0x22, 0x67, 0xdb, 0x91, 0xb5]),
    (91640, [0x0b, 0x84, 0x1e, 0x05, 0xfe, 0xe8, 0xcc, 0xf4, 0x37, 0x02, 0x80, 0x90, 0x93, 0xf9, 0x4a, 0x75]),
    (91701, [0xb3, 0x10, 0xcb, 0xb2, 0x62, 0x24, 0xce, 0xd4, 0x26, 0xb7, 0xac, 0x4b, 0xa2, 0x6b, 0x01, 0xc1]),
    (91702, [0xac, 0x6a, 0x6b, 0x34, 0x8c, 0x6a, 0x4e, 0x3a, 0x7f, 0x60, 0xc4, 0x40, 0x59, 0xbd, 0x7e, 0x06]),
    (91801, [0x10, 0x0d, 0xac, 0xb4, 0xf2, 0x19, 0x0f, 0x59, 0x8f, 0x10, 0x75, 0xea, 0x38, 0xa3, 0x85, 0xa2]),
    (91811, [0xef, 0x18, 0xf6, 0x1f, 0x2e, 0x81, 0x78, 0xd8, 0x0a, 0x0c, 0xe9, 0xf0, 0x30, 0x89, 0x34, 0x69]),
    (91812, [0x5c, 0x36, 0x41, 0x77, 0x43, 0x7b, 0x9f, 0xf3, 0x7a, 0xbd, 0xfd, 0xa5, 0x19, 0xc1, 0xee, 0x3a]),
    (91821, [0x15, 0xe5, 0x60, 0xfc, 0xa9, 0xd4, 0x1a, 0x74, 0xc8, 0xdd, 0x81, 0x85, 0xce, 0x73, 0x08, 0x1a]),
    (91831, [0x79, 0x50, 0x82, 0x4c, 0xee, 0x90, 0x6e, 0xdb, 0x74, 0x00, 0x45, 0x89, 0x06, 0x23, 0x66, 0x56]),
    (91832, [0x08, 0x30, 0xca, 0xdd, 0xb4, 0x84, 0xf9, 0x65, 0x18, 0xf8, 0x46, 0x2f, 0x85, 0xf5, 0xa4, 0xf6]),
    (92201, [0xab, 0xa7, 0x9c, 0xa5, 0x84, 0xd1, 0x86, 0x41, 0x2b, 0xb3, 0xb0, 0x89, 0x7e, 0xbf, 0x85, 0xac]),
    (92202, [0x4d, 0x77, 0x90, 0xbc, 0x8f, 0xb5, 0x04, 0x3c, 0xd8, 0xf7, 0x84, 0x66, 0xf4, 0x9b, 0xc5, 0x19]),
    (92203, [0xc7, 0x9b, 0xbf, 0x27, 0xc6, 0x0c, 0x86, 0x44, 0x7f, 0x8d, 0x94, 0x7e, 0x45, 0x32, 0x27, 0x67]),
    (92204, [0x21, 0x00, 0xf3, 0x53, 0xea, 0x04, 0xc8, 0x71, 0x33, 0x19, 0x12, 0x79, 0x9d, 0xd2, 0x5d, 0x90]),
    (92205, [0x92, 0x0a, 0xb7, 0xab, 0xb9, 0x5b, 0xa8, 0x04, 0x08, 0xf3, 0xf9, 0x7d, 0xef, 0x0c, 0x80, 0x7d]),
    (92211, [0x0f, 0xac, 0x38, 0xdd, 0x47, 0x27, 0x89, 0x16, 0x20, 0xec, 0x9d, 0xf7, 0x42, 0x4b, 0xd7, 0x6a]),
    (92212, [0x6c, 0xa3, 0x49, 0x57, 0xa7, 0x70, 0x53, 0x24, 0x0b, 0x7f, 0x0c, 0x25, 0x3a, 0xd9, 0x11, 0x24]),
    (92213, [0xf5, 0x38, 0x8f, 0xd1, 0xed, 0x7a, 0xa7, 0x39, 0xc1, 0x5c, 0xec, 0xe0, 0x2a, 0x84, 0x1c, 0xc6]),
    (92214, [0x2f, 0x5f, 0xca, 0xe7, 0xe9, 0xc1, 0x9f, 0xef, 0x5b, 0xfe, 0x83, 0x63, 0x98, 0xb8, 0xc8, 0x53]),
    (92215, [0x7d, 0xa8, 0xe3, 0x1e, 0x25, 0xb8, 0x05, 0xea, 0x50, 0x94, 0x5b, 0x56, 0x92, 0x27, 0xb6, 0x27]),
    (92221, [0x44, 0x1b, 0x9f, 0xf5, 0x81, 0x1b, 0xaf, 0xba, 0x9f, 0x10, 0x4b, 0x53, 0xc0, 0x0c, 0x21, 0x1e]),
    (92222, [0x47, 0xc9, 0xf4, 0x11, 0xdd, 0x81, 0x6a, 0x61, 0x27, 0xc8, 0x89, 0xdf, 0xba, 0x2e, 0xe5, 0xa6]),
    (92223, [0x88, 0xcf, 0xad, 0x5a, 0xfb, 0x44, 0x03, 0x46, 0xaa, 0x77, 0xf0, 0xa8, 0x24, 0x89, 0x11, 0xda]),
    (92224, [0x6f, 0x2a, 0xb6, 0xb9, 0xc9, 0x0a, 0x6d, 0x2e, 0xc6, 0x34, 0xa0, 0xa9, 0x5b, 0x3f, 0xac, 0x33]),
    (92225, [0xa3, 0xe2, 0x7c, 0xba, 0x88, 0x3e, 0xac, 0xf8, 0xc6, 0xdd, 0xd6, 0x5a, 0x4d, 0x0c, 0x09, 0xa7]),
    (92231, [0xfe, 0xfa, 0xdc, 0x90, 0xfe, 0x42, 0x78, 0x25, 0x7b, 0xf3, 0xc9, 0x0a, 0xe5, 0x0b, 0xaa, 0x4b]),
    (92232, [0x8d, 0x7c, 0x6a, 0x00, 0x91, 0x6d, 0xf5, 0x10, 0xff, 0x52, 0xc9, 0x25, 0x02, 0x93, 0x25, 0x81]),
    (92233, [0xe2, 0xf2, 0xd5, 0x36, 0x5b, 0x3c, 0x65, 0x13, 0x72, 0xd6, 0xf1, 0xb3, 0xdc, 0xdf, 0xf0, 0x02]),
    (92234, [0xb0, 0x05, 0x2e, 0x01, 0x0b, 0x49, 0xe9, 0x24, 0x49, 0xb4, 0x44, 0xf1, 0xed, 0x87, 0x0a, 0x62]),
    (92235, [0x73, 0x75, 0xee, 0x63, 0x47, 0x59, 0xe2, 0xa2, 0x74, 0x52, 0x0c, 0xb9, 0xb8, 0xd7, 0x73, 0xfb]),
    (92241, [0x4b, 0x8a, 0xb6, 0xc7, 0xc7, 0x2e, 0xa8, 0x34, 0x21, 0x13, 0x73, 0x92, 0x4d, 0x5a, 0xea, 0xcf]),
    (92242, [0x5f, 0x67, 0x55, 0xee, 0xef, 0xf0, 0x56, 0xf8, 0x21, 0x8d, 0x48, 0xb0, 0x8f, 0x62, 0x3d, 0x58]),
    (92243, [0x7f, 0x21, 0xea, 0xad, 0x77, 0x0b, 0x83, 0x52, 0x18, 0xe8, 0x80, 0x66, 0x06, 0x61, 0x97, 0x87]),
    (92244, [0x2b, 0x6e, 0xd9, 0x9f, 0xe4, 0xce, 0x89, 0x00, 0xcb, 0x0e, 0x9e, 0x59, 0xab, 0x75, 0xf6, 0xd9]),
    (92245, [0x20, 0x78, 0xfd, 0x59, 0x1c, 0x1f, 0xfc, 0x00, 0xa1, 0x4c, 0x19, 0x53, 0xb8, 0xa1, 0xb9, 0xb9]),
    (92251, [0x3f, 0x2d, 0x3f, 0xc6, 0xdd, 0x8b, 0xb0, 0x9f, 0x6c, 0x83, 0x3b, 0x64, 0xb1, 0xef, 0xf6, 0xa4]),
    (92252, [0x80, 0x6a, 0xd2, 0x50, 0x25, 0x9d, 0xd8, 0xda, 0x7f, 0xc7, 0x2e, 0xf3, 0x57, 0xa2, 0xc0, 0x47]),
    (92253, [0x7f, 0x71, 0xae, 0xa0, 0x19, 0xf8, 0x5b, 0x8a, 0x58, 0x12, 0xcd, 0xe8, 0x7b, 0x59, 0x13, 0x03]),
    (92254, [0x2d, 0xf9, 0x37, 0x89, 0x34, 0xc7, 0x9a, 0x72, 0x57, 0xd0, 0xfc, 0x73, 0x25, 0xc9, 0x96, 0x9a]),
    (92255, [0x1b, 0xe1, 0x55, 0x06, 0xff, 0x3c, 0x77, 0x29, 0x38, 0x0e, 0xc2, 0x00, 0x05, 0xaf, 0xf7, 0x88]),
    (92301, [0xd9, 0x46, 0x46, 0xc1, 0x63, 0x4b, 0xef, 0xb1, 0x87, 0xe5, 0xa7, 0x43, 0xc5, 0x55, 0x4a, 0x72]),
    (92302, [0x6c, 0x7e, 0x3e, 0x82, 0x0f, 0x44, 0x50, 0xa3, 0x65, 0xdc, 0xe9, 0x62, 0x19, 0x9d, 0xbb, 0xc5]),
    (92303, [0x07, 0x9e, 0x97, 0xfc, 0x0b, 0x2a, 0xfb, 0x6a, 0x13, 0x4b, 0x4e, 0xef, 0x89, 0xc6, 0x01, 0x6e]),
    (92311, [0xe4, 0x8f, 0x7f, 0xe2, 0x4f, 0xcf, 0x1b, 0xbf, 0x1a, 0xde, 0x4d, 0x5a, 0xc6, 0x61, 0x79, 0x95]),
    (92501, [0xe0, 0x8a, 0x6c, 0xf0, 0x19, 0x0b, 0x99, 0xcc, 0xda, 0x23, 0x91, 0xc8, 0x55, 0x10, 0xbf, 0x66]),
    (92502, [0x0a, 0xff, 0x63, 0x8c, 0x47, 0xc9, 0xcd, 0xbe, 0x69, 0x3c, 0x30, 0x49, 0xfb, 0x18, 0xb4, 0x34]),
    (92503, [0x87, 0xdd, 0xa5, 0x0f, 0xa8, 0x7a, 0xed, 0xd1, 0x5a, 0x36, 0x87, 0xf1, 0x94, 0x2a, 0xcb, 0xc9]),
    (92504, [0x81, 0x08, 0x25, 0x03, 0x2c, 0x88, 0xdb, 0xf4, 0xcb, 0xb5, 0x64, 0x88, 0xfe, 0x5b, 0x6f, 0x8e]),
    (92505, [0x2c, 0x33, 0x34, 0xc6, 0x85, 0x9c, 0x78, 0xc2, 0xf4, 0x71, 0x0c, 0xcd, 0x25, 0x75, 0x5b, 0x6c]),
    (92506, [0xd6, 0x2d, 0xe1, 0xaa, 0x6e, 0xae, 0xc5, 0x34, 0x72, 0x91, 0x81, 0x52, 0xdc, 0x69, 0x65, 0xe2]),
    (92507, [0x25, 0x50, 0xf7, 0x63, 0x0d, 0x49, 0xcc, 0x18, 0x2e, 0xf2, 0xec, 0x40, 0x21, 0xf4, 0xfa, 0x0c]),
    (92508, [0x5f, 0x9d, 0x84, 0xe9, 0x2d, 0x99, 0xcd, 0xd7, 0x22, 0xcf, 0xb0, 0x4c, 0x35, 0x88, 0x9f, 0xbd]),
    (92601, [0xab, 0xf4, 0x8d, 0x4b, 0x98, 0x9b, 0x5e, 0xa8, 0xb5, 0x31, 0xcd, 0xf6, 0x58, 0x7d, 0xcb, 0x29]),
    (92620, [0xcc, 0xb3, 0x1b, 0x58, 0x5d, 0x63, 0xfd, 0xce, 0x41, 0x7a, 0x78, 0x69, 0xec, 0xef, 0xb3, 0x31]),
    (92621, [0x76, 0xde, 0x59, 0x4f, 0x55, 0x3c, 0x87, 0x65, 0xa0, 0x48, 0xc5, 0xda, 0x48, 0x82, 0xee, 0x53]),
    (92622, [0x91, 0xb7, 0x31, 0xeb, 0x49, 0x0d, 0x71, 0x1f, 0x56, 0x26, 0x75, 0x82, 0x30, 0x1e, 0xb1, 0x58]),
    (92701, [0x56, 0x5f, 0x1a, 0x08, 0x7c, 0x34, 0xdf, 0x98, 0xf4, 0x33, 0xd2, 0x3b, 0xbc, 0x49, 0x92, 0x04]),
    (92702, [0x42, 0x07, 0x96, 0x4b, 0x4b, 0xdb, 0x48, 0x20, 0xf3, 0xdd, 0x78, 0x39, 0x79, 0x2d, 0x7d, 0x02]),
    (92703, [0x91, 0xb8, 0x5f, 0x8f, 0x3e, 0xbb, 0xa6, 0x16, 0xb2, 0x3f, 0x33, 0xb9, 0xba, 0xcb, 0xaa, 0xe1]),
    (92704, [0x9d, 0xdd, 0xeb, 0x29, 0x4c, 0x34, 0x3e, 0xa4, 0x22, 0x8f, 0x34, 0xa7, 0xf1, 0x3c, 0x3d, 0xc8])]"

definition TABLE_22 :: "key_entry list" where
  "TABLE_22 = [
    (92705, [0x1e, 0xbe, 0xa8, 0x21, 0x5e, 0x6c, 0x35, 0x16, 0x3b, 0xe9, 0xa0, 0x47, 0xa6, 0xe0, 0x9e, 0xff]),
    (92706, [0xc9, 0x91, 0x0e, 0x60, 0x0d, 0x07, 0xd1, 0x60, 0xa9, 0x48, 0x31, 0xdf, 0xfe, 0xc7, 0xcb, 0xca]),
    (92707, [0xb3, 0xdc, 0x4d, 0x99, 0x9a, 0x57, 0x38, 0x69, 0xc5, 0x82, 0xdb, 0xda, 0x1c, 0x52, 0x06, 0x9c]),
    (92708, [0x47, 0x73, 0x22, 0x31, 0xf3, 0xab, 0xe4, 0xa9, 0x56, 0x8b, 0x5a, 0x33, 0x02, 0x9f, 0xbe, 0x80]),
    (92709, [0x3f, 0xe6, 0xfc, 0x76, 0x22, 0x77, 0xe1, 0xde, 0x68, 0x25, 0x4b, 0xef, 0x52, 0x4e, 0x42, 0x8a]),
    (92801, [0xe3, 0x0a, 0x14, 0x98, 0x86, 0x78, 0x9a, 0x2b, 0x7d, 0xc3, 0x28, 0xc8, 0x17, 0xd4, 0xa8, 0xcb]),
    (92802, [0xb2, 0x8c, 0xad, 0x78, 0x44, 0x6b, 0x49, 0x56, 0xe8, 0x45, 0x46, 0x91, 0xbf, 0xd9, 0xa5, 0x68]),
    (93201, [0x26, 0xc6, 0xa2, 0x36, 0xbc, 0x16, 0x6e, 0xd2, 0x4a, 0x98, 0x02, 0xf5, 0x79, 0xc1, 0x16, 0xfa]),
    (93203, [0x76, 0x83, 0x20, 0x33, 0x08, 0xdb, 0xd4, 0x3c, 0x32, 0xee, 0xef, 0x5d, 0x36, 0xab, 0x1b, 0xf3]),
    (93204, [0x57, 0xbe, 0x30, 0x23, 0x31, 0x0a, 0x3c, 0x43, 0x7b, 0xc8, 0xc7, 0x0c, 0xda, 0x09, 0x0e, 0x9a]),
    (93205, [0x4c, 0xca, 0xfe, 0xbe, 0x56, 0xdd, 0x5a, 0x82, 0xfe, 0x27, 0x03, 0xb7, 0xbc, 0x2c, 0x39, 0x6e]),
    (94201, [0x7c, 0xfc, 0x7d, 0x82, 0x43, 0xfc, 0xa7, 0x8b, 0xb5, 0x6d, 0x89, 0xd7, 0xca, 0xcd, 0x6e, 0x37]),
    (94202, [0xc5, 0x71, 0x2c, 0xf6, 0x6c, 0x55, 0xb3, 0x2b, 0x9f, 0xf6, 0xa2, 0x88, 0x71, 0x08, 0xbe, 0xdb]),
    (94203, [0x7a, 0xf8, 0xd9, 0x1f, 0xa6, 0x2a, 0x7e, 0xda, 0x94, 0xab, 0xac, 0x01, 0x69, 0x9e, 0x3b, 0x5e]),
    (94204, [0xf8, 0x09, 0xdb, 0x2a, 0x05, 0x5c, 0x7e, 0x2d, 0x80, 0x07, 0x88, 0x67, 0x64, 0xe0, 0x67, 0xdd]),
    (94301, [0x8f, 0xf6, 0xea, 0x61, 0x9a, 0x18, 0x0b, 0x2d, 0x01, 0x92, 0xca, 0xad, 0x3b, 0xc2, 0xd6, 0xfe]),
    (94302, [0x3a, 0xb4, 0xc4, 0x06, 0x93, 0xc4, 0xfd, 0x07, 0x54, 0x5b, 0xbf, 0x59, 0x91, 0x44, 0x11, 0x7c]),
    (94303, [0x66, 0x2b, 0x7b, 0xe8, 0x31, 0x73, 0x92, 0x28, 0xb6, 0xcc, 0x3d, 0x3e, 0x57, 0x1a, 0x34, 0xdd]),
    (94531, [0x94, 0xec, 0x5d, 0x08, 0x2b, 0xe5, 0xaa, 0x20, 0x29, 0x5e, 0x29, 0x22, 0x54, 0x53, 0x1d, 0x37]),
    (94532, [0x59, 0x1b, 0xe7, 0x18, 0xe8, 0x3e, 0xa4, 0x87, 0x11, 0xd1, 0xf2, 0x92, 0x25, 0xe9, 0xe7, 0x1c]),
    (94591, [0x08, 0x5b, 0x07, 0x95, 0x5b, 0x6a, 0x06, 0x0f, 0x1b, 0x7b, 0xae, 0x10, 0x4d, 0xde, 0xe8, 0x00]),
    (94592, [0x57, 0x5b, 0x78, 0x52, 0x13, 0xcc, 0xc0, 0xf1, 0x26, 0x38, 0xf6, 0xe8, 0xc2, 0x6b, 0x11, 0x2a]),
    (94602, [0x98, 0x89, 0x63, 0xd2, 0xd1, 0x71, 0x3f, 0x7f, 0x33, 0x34, 0x8b, 0x72, 0xcf, 0x16, 0xe5, 0xef]),
    (94611, [0x9e, 0xeb, 0x43, 0x1d, 0xed, 0xf4, 0x6c, 0x45, 0x3c, 0xb5, 0x78, 0xf8, 0x1a, 0x5d, 0x7c, 0x6a]),
    (94612, [0xd9, 0xd3, 0x7a, 0xac, 0x53, 0xd1, 0x6c, 0xec, 0xdb, 0x2e, 0xee, 0xd9, 0xb5, 0xaf, 0xbe, 0x13]),
    (94621, [0x2d, 0x47, 0x81, 0x8c, 0xc9, 0xa9, 0x58, 0x32, 0x07, 0x3b, 0x60, 0x34, 0x67, 0x9a, 0x33, 0x49]),
    (94622, [0x3e, 0x15, 0x3b, 0xe3, 0x76, 0xee, 0x8b, 0x63, 0x02, 0x20, 0xaa, 0x1e, 0xce, 0xa6, 0xee, 0xf5]),
    (95302, [0x89, 0xde, 0xfc, 0xe8, 0x9a, 0xb2, 0xef, 0x88, 0xb1, 0x51, 0xee, 0x76, 0xc9, 0x72, 0x12, 0xf3]),
    (95311, [0xd2, 0xa2, 0x92, 0xc9, 0x8c, 0x71, 0x39, 0x2b, 0x3f, 0xe0, 0x2d, 0xfd, 0xf1, 0xed, 0xf2, 0x50]),
    (95701, [0x18, 0x17, 0x1b, 0xc0, 0xd1, 0x17, 0x5b, 0x13, 0xfd, 0xed, 0x42, 0x95, 0xf6, 0xe5, 0xe4, 0x64]),
    (96105, [0xde, 0x49, 0x03, 0xd5, 0xa6, 0x21, 0x8c, 0x0a, 0xe3, 0xb1, 0xf9, 0xd7, 0x41, 0x02, 0xd6, 0xcf]),
    (96201, [0x59, 0xe5, 0x6f, 0x5c, 0xe0, 0xf7, 0xdf, 0x61, 0xd7, 0x73, 0x60, 0x60, 0xaf, 0xde, 0xe2, 0x9d]),
    (96202, [0x9f, 0x60, 0xe7, 0x56, 0xe6, 0x4a, 0xda, 0xd6, 0x13, 0x9d, 0xcd, 0x29, 0x87, 0x27, 0xbe, 0x5d]),
    (96401, [0x1d, 0x7a, 0xe5, 0x42, 0x78, 0x37, 0xfd, 0xf4, 0x9a, 0xb7, 0xdb, 0x49, 0x64, 0x90, 0x78, 0xfe]),
    (96402, [0xc2, 0xb4, 0x11, 0x6a, 0x47, 0x76, 0xf4, 0x13, 0xd4, 0xcb, 0xc6, 0x02, 0xa2, 0xa4, 0xf0, 0xeb]),
    (96801, [0x09, 0x7b, 0x4a, 0xbb, 0x5f, 0xdb, 0xd2, 0x78, 0x0e, 0xaa, 0xdb, 0xaa, 0x44, 0x43, 0x63, 0xdd]),
    (96802, [0x09, 0x7b, 0x4a, 0xbb, 0x5f, 0xdb, 0xd2, 0x78, 0x0e, 0xaa, 0xdb, 0xaa, 0x44, 0x43, 0x63, 0xdd]),
    (96803, [0x23, 0x42, 0x1b, 0x62, 0xa7, 0xeb, 0x18, 0x11, 0xbf, 0x97, 0xc4, 0x14, 0x20, 0x79, 0x07, 0xd0]),
    (97101, [0xe7, 0xc6, 0x5a, 0x32, 0x61, 0x27, 0x07, 0x33, 0x74, 0x1f, 0xc6, 0x3c, 0x12, 0xa2, 0x64, 0x14]),
    (97102, [0x49, 0x15, 0xa7, 0x93, 0xee, 0xd6, 0x68, 0x1e, 0x6e, 0x5a, 0x19, 0xc2, 0x74, 0x3a, 0x4f, 0x84]),
    (97103, [0xde, 0x21, 0x76, 0xc7, 0xd2, 0x78, 0xdb, 0xe0, 0xa0, 0x22, 0xb5, 0xfc, 0xa8, 0x19, 0x56, 0xe4]),
    (97104, [0x10, 0xb4, 0xf2, 0x14, 0x7e, 0x20, 0xf2, 0xf1, 0x5c, 0x7d, 0xd5, 0xf2, 0x95, 0x8a, 0x0b, 0xec]),
    (97105, [0xfa, 0xdb, 0xa2, 0x3b, 0x3c, 0xd2, 0xec, 0xf5, 0xcf, 0x18, 0x02, 0x57, 0xa0, 0x2d, 0xf7, 0xb7]),
    (97106, [0x39, 0x9e, 0x00, 0x6f, 0x07, 0xfb, 0x9f, 0x41, 0xe2, 0x55, 0x76, 0x27, 0xb3, 0x22, 0x70, 0xfa]),
    (97107, [0x0c, 0xac, 0xdc, 0x44, 0x9c, 0xfb, 0x5f, 0xea, 0x2a, 0xb7, 0xeb, 0x88, 0x27, 0xfd, 0xe9, 0x48]),
    (97108, [0x2a, 0x3c, 0xfd, 0xfe, 0x40, 0x26, 0x21, 0x68, 0xee, 0x7e, 0x8c, 0xe0, 0xa5, 0x56, 0x88, 0xfc]),
    (97331, [0xf3, 0xf5, 0xa9, 0xa4, 0xc0, 0x34, 0x49, 0xd9, 0xb6, 0x8e, 0xb5, 0x38, 0x83, 0xeb, 0x4c, 0x07]),
    (97341, [0x1b, 0xe4, 0x14, 0xb1, 0xd1, 0x01, 0x8f, 0x9d, 0xf0, 0xe6, 0xe1, 0x3b, 0x41, 0xb2, 0xa7, 0x8c]),
    (98001, [0x43, 0x35, 0x89, 0x21, 0x3c, 0xa4, 0xc7, 0x5d, 0x55, 0x17, 0x74, 0x98, 0x26, 0x1b, 0x6f, 0x01]),
    (98002, [0xba, 0x2a, 0x82, 0x77, 0x38, 0x94, 0xa9, 0x9e, 0x34, 0x56, 0x61, 0xcd, 0xaf, 0x06, 0x2b, 0x8b]),
    (98003, [0xad, 0xc0, 0x95, 0xd2, 0x49, 0xf2, 0x97, 0x39, 0x96, 0xf7, 0x0c, 0xc3, 0x2d, 0xc8, 0x56, 0xbb]),
    (98004, [0x3f, 0x78, 0x4a, 0xe0, 0x32, 0xc9, 0x73, 0x23, 0x58, 0x11, 0xe1, 0xfe, 0x24, 0x25, 0xbe, 0x2c]),
    (98005, [0x8f, 0xd5, 0xb5, 0x89, 0x35, 0x34, 0xa5, 0xed, 0x78, 0x80, 0x7b, 0xc1, 0x57, 0xf4, 0xaf, 0x6c]),
    (98006, [0x7a, 0x85, 0x37, 0x59, 0x8c, 0x40, 0x6a, 0xa4, 0xb0, 0x2e, 0x1b, 0x6a, 0x94, 0x87, 0x3d, 0xeb]),
    (98007, [0x3b, 0xf8, 0xc2, 0x9c, 0xd5, 0xd9, 0xff, 0x4f, 0x95, 0xb5, 0x31, 0x43, 0xe2, 0xe4, 0xaa, 0xb3]),
    (98008, [0x5d, 0xf5, 0x44, 0x1d, 0x50, 0x0e, 0xf0, 0x73, 0x71, 0x45, 0x1e, 0x7e, 0x5b, 0xb7, 0xb5, 0x74]),
    (98009, [0xa4, 0x95, 0x78, 0x29, 0x32, 0xb0, 0x6e, 0x8e, 0xc0, 0xf3, 0xf6, 0x72, 0xb5, 0x2f, 0xb3, 0x53]),
    (98011, [0x9b, 0x62, 0xbf, 0x15, 0x86, 0xea, 0xfd, 0x95, 0x2c, 0x1c, 0x71, 0x15, 0xae, 0x70, 0x12, 0x2e]),
    (98012, [0x10, 0x28, 0x39, 0x4a, 0xcc, 0xe1, 0x10, 0x5e, 0xd3, 0x21, 0x92, 0xfb, 0x44, 0x42, 0xfe, 0x9c]),
    (98014, [0x0a, 0x9e, 0x76, 0x79, 0x98, 0xfc, 0x46, 0x5b, 0x32, 0x74, 0x5c, 0x92, 0xbc, 0x05, 0xff, 0x3b]),
    (98015, [0x9f, 0xa5, 0x84, 0xba, 0x95, 0x7c, 0x35, 0x25, 0x36, 0x79, 0x39, 0x7b, 0xf9, 0x7d, 0x4e, 0xd7]),
    (98101, [0xf8, 0x4d, 0x23, 0x72, 0xd5, 0x64, 0xe6, 0x0a, 0xea, 0xc7, 0x51, 0x45, 0x72, 0xe1, 0x15, 0x52]),
    (98102, [0x93, 0xb9, 0xd7, 0x74, 0x2d, 0xe1, 0x4f, 0xf1, 0x5b, 0x08, 0xcd, 0x21, 0xbc, 0x61, 0x6f, 0x04]),
    (98201, [0x86, 0x92, 0xa0, 0x9b, 0xd2, 0x5f, 0x4c, 0x8b, 0x9e, 0x98, 0x2d, 0x6b, 0x7b, 0x32, 0xe7, 0x87]),
    (98202, [0xb6, 0xbc, 0x42, 0x1b, 0xda, 0xea, 0xef, 0x53, 0xda, 0x28, 0xe0, 0x2d, 0xe8, 0xda, 0xdb, 0x9c]),
    (98203, [0x5e, 0x21, 0xab, 0x72, 0xde, 0xd1, 0xec, 0x6b, 0x04, 0x04, 0x4b, 0x71, 0x8f, 0xfb, 0x3d, 0x3b]),
    (98204, [0x73, 0xf4, 0xe6, 0xc6, 0x25, 0x95, 0xbb, 0x99, 0x6e, 0xbc, 0x74, 0xb8, 0xaa, 0x75, 0xc1, 0x9c]),
    (98205, [0x1a, 0x68, 0x67, 0x4c, 0x55, 0x5d, 0x10, 0x66, 0x6d, 0x2d, 0x1a, 0xbc, 0x78, 0x71, 0x07, 0x0b]),
    (98211, [0x65, 0xbb, 0xc1, 0x3e, 0x29, 0x85, 0xee, 0x1b, 0x0c, 0xae, 0xbe, 0x23, 0x07, 0x69, 0x0a, 0x5b]),
    (98212, [0x4e, 0x6c, 0x6f, 0x73, 0x78, 0xa1, 0xeb, 0x33, 0xf6, 0x32, 0x58, 0xf6, 0x23, 0xd5, 0xbb, 0xf5]),
    (98213, [0x2b, 0x1e, 0xe4, 0x48, 0x70, 0x38, 0x34, 0x55, 0xa6, 0xfe, 0xa5, 0x45, 0xaa, 0x32, 0xd6, 0x0b]),
    (98214, [0xc5, 0xd7, 0x75, 0x52, 0x7c, 0xda, 0x68, 0xee, 0x3c, 0xe0, 0x7a, 0xed, 0x1a, 0xb1, 0x88, 0xdf]),
    (98221, [0xf0, 0xb5, 0x22, 0x14, 0x85, 0x4c, 0x6b, 0x93, 0xf6, 0x1b, 0x63, 0x94, 0xb7, 0xa5, 0x8d, 0xec]),
    (98222, [0xd7, 0x82, 0xa3, 0xab, 0x20, 0x3d, 0xa3, 0x20, 0x8b, 0x33, 0x5b, 0x9e, 0x42, 0x65, 0xe5, 0x75]),
    (98301, [0xab, 0x5d, 0x17, 0x3e, 0x4e, 0x75, 0x39, 0xa1, 0x51, 0x14, 0x51, 0x3c, 0xc0, 0x17, 0x45, 0x41]),
    (98302, [0x65, 0xbc, 0xb1, 0xe3, 0x3c, 0xe3, 0xc0, 0xd1, 0xcb, 0x06, 0x56, 0x88, 0x0c, 0xd2, 0x18, 0xa8]),
    (98401, [0x4e, 0x81, 0x31, 0xfd, 0x51, 0x69, 0x52, 0x41, 0xbd, 0x4a, 0x5b, 0x68, 0x6d, 0x34, 0x63, 0xd6]),
    (98402, [0xbf, 0x70, 0xad, 0x46, 0x44, 0xf1, 0x30, 0x49, 0x44, 0x11, 0xc7, 0x19, 0x14, 0xbf, 0x9d, 0xa7]),
    (98403, [0x52, 0x0d, 0x0f, 0x6f, 0x72, 0xa5, 0x4c, 0xfd, 0x3e, 0xbd, 0xe9, 0x8f, 0x49, 0x37, 0x95, 0x31]),
    (98404, [0x5c, 0x7e, 0x66, 0x86, 0xc2, 0xd2, 0x1d, 0xf4, 0xb8, 0x90, 0xec, 0x7e, 0x63, 0xc8, 0x00, 0xce]),
    (98405, [0xc1, 0x3f, 0x4e, 0xae, 0xbe, 0x50, 0xa0, 0x63, 0x87, 0x22, 0xb2, 0x1b, 0x17, 0x90, 0xe0, 0x00]),
    (98406, [0x63, 0x4e, 0xef, 0x76, 0x66, 0x73, 0xf5, 0xd5, 0x50, 0x5a, 0x42, 0x70, 0x2b, 0x23, 0xd3, 0x57]),
    (98407, [0x5a, 0x46, 0x4e, 0xf7, 0x5e, 0x5d, 0x38, 0x5c, 0x3b, 0xb1, 0x45, 0x28, 0xff, 0xca, 0xe4, 0x60]),
    (98421, [0x29, 0x35, 0x08, 0x03, 0x29, 0xe0, 0x9e, 0x4f, 0xf7, 0xca, 0x5b, 0x32, 0xcf, 0xd1, 0x64, 0x2a]),
    (98422, [0xda, 0xac, 0x93, 0x6e, 0x93, 0xae, 0xec, 0xed, 0xa3, 0xcb, 0x53, 0x40, 0x37, 0xc8, 0x48, 0xa8]),
    (98423, [0x8e, 0xde, 0x58, 0xee, 0x71, 0xee, 0x50, 0xa9, 0x7b, 0xcd, 0x77, 0x86, 0xe6, 0x0b, 0xe6, 0xcd]),
    (98424, [0x82, 0x0f, 0x55, 0xd5, 0x83, 0x8b, 0x5d, 0xd8, 0xc4, 0xa7, 0x02, 0x2f, 0x54, 0x68, 0xf3, 0x06]),
    (98425, [0xaa, 0xb7, 0x07, 0xe9, 0x9c, 0x20, 0xc3, 0xfc, 0xf7, 0x3a, 0x5c, 0x49, 0x16, 0x15, 0x93, 0xb1]),
    (98426, [0xaf, 0xb0, 0x04, 0x30, 0x1a, 0x50, 0x63, 0xb6, 0xb4, 0x19, 0x31, 0x42, 0xab, 0xf5, 0xe4, 0xe0]),
    (98427, [0x88, 0x45, 0xff, 0xb9, 0x1e, 0x0a, 0x5b, 0xe1, 0x39, 0x38, 0x82, 0x05, 0xa8, 0x50, 0x26, 0x0a]),
    (98511, [0xf5, 0x74, 0x9d, 0x12, 0x53, 0x35, 0x7a, 0x8d, 0x7c, 0xed, 0xff, 0x8b, 0x87, 0xcb, 0xe4, 0x64]),
    (98512, [0xc0, 0xd7, 0x23, 0x14, 0x17, 0xbd, 0x3f, 0xa0, 0x2a, 0xc0, 0xe3, 0x27, 0x28, 0xcf, 0xcb, 0xe0]),
    (98601, [0xcd, 0xac, 0xa7, 0x12, 0x7a, 0x51, 0x5a, 0x67, 0x46, 0x6c, 0xcf, 0x8a, 0x88, 0xa8, 0x6d, 0x47]),
    (98801, [0x40, 0x14, 0x12, 0xfb, 0x04, 0xd2, 0x47, 0x3a, 0xaa, 0x6a, 0x98, 0xf9, 0xf0, 0x5c, 0x56, 0x4b]),
    (98802, [0xf7, 0x7b, 0x93, 0x77, 0x44, 0x32, 0x12, 0x6f, 0x1c, 0x6d, 0x98, 0x7c, 0xe7, 0xce, 0x8b, 0xbb]),
    (98811, [0x93, 0x4c, 0x34, 0x2e, 0xc8, 0x30, 0xd9, 0x04, 0x4e, 0x3b, 0x29, 0xd0, 0x6d, 0x27, 0x36, 0x9d]),
    (98820, [0x0d, 0x42, 0x37, 0xce, 0x91, 0x68, 0x2e, 0xb3, 0xfc, 0x39, 0x83, 0x05, 0x1b, 0x9d, 0xff, 0x32]),
    (98821, [0x24, 0xe8, 0x81, 0x8a, 0x40, 0xda, 0xb4, 0xb4, 0x16, 0xb1, 0x89, 0x33, 0x65, 0x37, 0x5a, 0xee]),
    (98822, [0xeb, 0x09, 0xa9, 0x06, 0x4b, 0x0d, 0x89, 0x2d, 0x6f, 0x3e, 0x1b, 0x23, 0xff, 0x4f, 0x38, 0xf0]),
    (98902, [0x9d, 0xd7, 0xd5, 0xb1, 0xb1, 0x77, 0x2c, 0xa3, 0x64, 0x49, 0xc9, 0x18, 0xdb, 0x09, 0x32, 0x2c]),
    (99102, [0x22, 0x06, 0x87, 0x1b, 0x6e, 0x92, 0x29, 0x3f, 0xc3, 0x8f, 0x70, 0xfd, 0x09, 0xe5, 0xde, 0x50]),
    (99103, [0x5c, 0x13, 0x4d, 0xd8, 0x4e, 0x30, 0x37, 0x62, 0x3e, 0x02, 0x1d, 0xd8, 0xca, 0xed, 0xf9, 0xf4]),
    (99121, [0x65, 0x9d, 0xeb, 0x02, 0x8e, 0xda, 0x0c, 0x12, 0xe9, 0xbe, 0xf0, 0x18, 0xd4, 0x8d, 0xe3, 0xa8]),
    (99201, [0x46, 0x3e, 0x8d, 0x88, 0x72, 0xbb, 0xb9, 0x41, 0x11, 0x59, 0xee, 0x81, 0x70, 0xf7, 0xc2, 0xbb]),
    (99301, [0x18, 0xef, 0x76, 0xb3, 0x87, 0x46, 0x2c, 0x27, 0xa1, 0xbe, 0xcd, 0x2c, 0xaf, 0x98, 0xe1, 0x2a]),
    (99311, [0x93, 0x96, 0x2b, 0x2d, 0xa7, 0xac, 0xa6, 0x87, 0x0e, 0xfb, 0x34, 0x96, 0xb5, 0xfe, 0x6c, 0x0d]),
    (99401, [0xd6, 0xef, 0x24, 0x0e, 0x71, 0x35, 0x57, 0xc5, 0x5f, 0x46, 0x1f, 0x69, 0x0b, 0x08, 0xd5, 0x54]),
    (99501, [0x4b, 0xb2, 0xa3, 0x59, 0x78, 0x76, 0xc3, 0xe0, 0x8e, 0x10, 0x87, 0x9f, 0x4d, 0x3d, 0x13, 0xb1]),
    (99511, [0xe5, 0x52, 0x19, 0xc0, 0x0c, 0x90, 0x01, 0xef, 0x95, 0x6b, 0xb8, 0x56, 0x54, 0xdc, 0xed, 0x1a]),
    (99581, [0x27, 0xeb, 0x6b, 0x2d, 0x7d, 0xa6, 0xb3, 0xde, 0x77, 0x24, 0x94, 0x8c, 0x94, 0x5c, 0x25, 0xe3]),
    (99610, [0xc2, 0xf5, 0x4d, 0xe4, 0xc2, 0x77, 0x42, 0xc3, 0xb0, 0x1b, 0xbf, 0xbc, 0xc0, 0x2d, 0x03, 0x72]),
    (99611, [0x2d, 0xbd, 0xd5, 0xfb, 0xf2, 0x2b, 0x09, 0x98, 0xd7, 0x8b, 0xf5, 0x93, 0xb7, 0xf1, 0x42, 0x2d]),
    (99612, [0xeb, 0x4b, 0xc9, 0x0e, 0x93, 0xa7, 0xf9, 0x7c, 0xac, 0x31, 0x2f, 0x2e, 0xad, 0x7c, 0x3a, 0x5d]),
    (99613, [0x2a, 0x63, 0x7a, 0x82, 0x40, 0x6c, 0x35, 0x3c, 0x0d, 0xdc, 0x52, 0xf4, 0x23, 0xa5, 0xeb, 0x00]),
    (99614, [0xbc, 0xe6, 0xe6, 0xc4, 0x49, 0xcb, 0xb4, 0x68, 0xf7, 0x51, 0x2d, 0x6b, 0xc2, 0x3a, 0xce, 0xcc]),
    (99615, [0xe6, 0x71, 0x1b, 0xe4, 0xd4, 0xde, 0x68, 0x85, 0x1a, 0xd5, 0xb9, 0xdc, 0xa1, 0x22, 0x5d, 0x72]),
    (99811, [0x7c, 0xd5, 0x5c, 0x7a, 0x2c, 0x94, 0x0a, 0xad, 0x2f, 0xc1, 0x0a, 0xa9, 0xec, 0x29, 0x66, 0x3a]),
    (99812, [0xc0, 0x96, 0x0c, 0xf5, 0xb5, 0xb6, 0x6e, 0xcc, 0x19, 0x7f, 0xf6, 0x0c, 0xaf, 0x02, 0x3c, 0x58]),
    (99813, [0x57, 0x67, 0xfb, 0x74, 0xc2, 0xb3, 0xde, 0xe1, 0xf1, 0x42, 0x99, 0xac, 0xf5, 0x81, 0x57, 0x25]),
    (99814, [0xd8, 0xd8, 0x60, 0x85, 0xc4, 0x65, 0x9b, 0x8d, 0x04, 0x39, 0x25, 0xde, 0x97, 0x0c, 0x0d, 0x65]),
    (99815, [0x6c, 0x11, 0xa0, 0xb2, 0x9f, 0xf8, 0x60, 0xbd, 0xe0, 0x02, 0x63, 0x17, 0x75, 0xff, 0x82, 0xbd]),
    (99816, [0x3f, 0x48, 0x8f, 0x56, 0xd1, 0xe7, 0x12, 0xa3, 0xaa, 0x1f, 0x2b, 0xda, 0x6a, 0x2c, 0xe3, 0x90]),
    (99817, [0x46, 0x78, 0x11, 0x92, 0xb2, 0xa8, 0x11, 0x50, 0x8c, 0xb3, 0x1c, 0x1f, 0x16, 0x9f, 0x89, 0x13]),
    (99818, [0x69, 0xed, 0x3e, 0x70, 0xc9, 0xe3, 0xfd, 0xa2, 0x39, 0x07, 0x76, 0xeb, 0xb2, 0x6c, 0xe9, 0x6e]),
    (99819, [0xd9, 0x68, 0x0c, 0x3c, 0xe8, 0x98, 0x21, 0xcf, 0xd1, 0x9d, 0xce, 0x26, 0x7d, 0xc3, 0xf5, 0xf9]),
    (99820, [0x1a, 0x93, 0x60, 0x9e, 0x37, 0xde, 0x1d, 0x56, 0x0e, 0x88, 0xa9, 0xf8, 0x9e, 0x26, 0x1f, 0xb7]),
    (99821, [0xa5, 0x96, 0x91, 0xce, 0x4d, 0x34, 0x34, 0xfc, 0x04, 0x4a, 0xef, 0x4c, 0xd9, 0x7c, 0xe9, 0x5d]),
    (99831, [0xf6, 0x61, 0x1d, 0x64, 0x6a, 0x3e, 0x1a, 0xd6, 0xc2, 0x63, 0xa1, 0x97, 0x4b, 0x96, 0x58, 0x05]),
    (99832, [0x72, 0x14, 0x4a, 0x6d, 0x43, 0x6b, 0x5f, 0x3d, 0x94, 0xfd, 0x50, 0x75, 0x94, 0xf5, 0x6f, 0xd8]),
    (99833, [0xcd, 0xa1, 0x37, 0x10, 0xc9, 0x29, 0x61, 0xc7, 0xb2, 0x47, 0x09, 0x69, 0x39, 0x2d, 0xa6, 0xb5]),
    (99834, [0xe3, 0x6c, 0xce, 0x92, 0x3a, 0xeb, 0xeb, 0x4f, 0x49, 0xe6, 0xc8, 0x88, 0x7d, 0x94, 0xf8, 0xdd]),
    (99835, [0x31, 0x63, 0x9b, 0x90, 0x16, 0x35, 0xed, 0x3c, 0x5a, 0xf9, 0x5e, 0x27, 0x46, 0x1a, 0x6d, 0xae]),
    (99836, [0x38, 0x5b, 0xad, 0x07, 0xf1, 0x06, 0x68, 0xe7, 0x04, 0x34, 0xb6, 0x2d, 0x28, 0x12, 0x92, 0x6a]),
    (99837, [0xf2, 0x04, 0x59, 0x2e, 0x44, 0x0d, 0xe7, 0xa6, 0x2a, 0x7c, 0x2e, 0xa7, 0xef, 0x21, 0xd4, 0x63]),
    (99838, [0x48, 0xf0, 0x8a, 0xa6, 0xdc, 0x0f, 0x72, 0x94, 0x5e, 0x57, 0xb7, 0x5a, 0xa6, 0x10, 0x20, 0x2a]),
    (99839, [0x53, 0x24, 0xaa, 0xcd, 0xcc, 0x1a, 0x2c, 0xcb, 0xca, 0x60, 0xc2, 0xb2, 0x4c, 0x08, 0xd0, 0x9e]),
    (99841, [0x6c, 0x29, 0xf6, 0xe3, 0xc4, 0x45, 0xd2, 0x8e, 0x69, 0x1e, 0x0b, 0x69, 0x2f, 0xc5, 0x5d, 0x2a]),
    (99843, [0x34, 0xd7, 0xd7, 0x58, 0x05, 0xf2, 0x64, 0x52, 0x1d, 0x6e, 0xff, 0x7b, 0x38, 0x99, 0xcb, 0x3e]),
    (99844, [0x60, 0xee, 0x20, 0x81, 0x0c, 0x1d, 0xec, 0xdc, 0x7e, 0x5d, 0xeb, 0x41, 0xc1, 0x67, 0xf7, 0xe1]),
    (99891, [0xb6, 0x52, 0xe9, 0x95, 0x14, 0x3c, 0x0b, 0xea, 0xb0, 0x60, 0xd0, 0x7d, 0x3b, 0x18, 0xd9, 0xc1]),
    (99895, [0x63, 0x42, 0xea, 0x95, 0x5f, 0x64, 0xa0, 0x86, 0x83, 0x57, 0xc5, 0x95, 0xf0, 0x61, 0xd1, 0xaf]),
    (99896, [0x63, 0x42, 0xea, 0x95, 0x5f, 0x64, 0xa0, 0x86, 0x83, 0x57, 0xc5, 0x95, 0xf0, 0x61, 0xd1, 0xaf]),
    (99901, [0x19, 0x45, 0xca, 0x30, 0xdb, 0x11, 0xdf, 0x42, 0xa3, 0x3f, 0x4b, 0xea, 0x62, 0xeb, 0x89, 0xd5]),
    (99902, [0x97, 0x46, 0xc8, 0x1a, 0x83, 0x58, 0x28, 0x56, 0xad, 0xfd, 0x4e, 0x9c, 0xb8, 0xb1, 0xdc, 0xa2]),
    (99911, [0x79, 0xaa, 0xd0, 0xb2, 0xaf, 0xb4, 0x42, 0x57, 0x8a, 0xcd, 0xc0, 0xd0, 0x3c, 0x09, 0xba, 0x0f]),
    (99912, [0xc7, 0xe3, 0x9d, 0x2d, 0x9f, 0x9b, 0xef, 0x7c, 0x1f, 0x7d, 0x6d, 0xfc, 0x21, 0xb0, 0x88, 0xc7]),
    (99921, [0xf9, 0x25, 0x44, 0x1d, 0xb2, 0xfb, 0xcb, 0xad, 0x23, 0xd8, 0x85, 0x3d, 0xa3, 0xa2, 0xef, 0xaf]),
    (99922, [0x1b, 0x89, 0x20, 0xe4, 0x27, 0x11, 0x02, 0xad, 0xa2, 0x3d, 0xd6, 0x9e, 0xe2, 0xb7, 0x95, 0x76]),
    (99931, [0xc9, 0xb6, 0xfa, 0x26, 0xf3, 0xcb, 0x6f, 0xf1, 0xba, 0x9d, 0xaf, 0x1f, 0x2a, 0xc7, 0x65, 0xe5]),
    (99932, [0x5a, 0xef, 0x18, 0xbf, 0xa6, 0xa1, 0x4e, 0x88, 0x67, 0x91, 0x65, 0x9b, 0x9a, 0x27, 0x3b, 0x25])]"

definition TABLE_23 :: "key_entry list" where
  "TABLE_23 = [
    (100411, [0x8c, 0x95, 0xc8, 0x6f, 0x3d, 0x3c, 0xa1, 0xc2, 0x5f, 0xfb, 0x00, 0xf7, 0x6a, 0x35, 0x15, 0xd9]),
    (100412, [0x8e, 0x39, 0x53, 0x0a, 0x5f, 0x78, 0x29, 0xad, 0xec, 0x8d, 0x42, 0x59, 0x75, 0x0d, 0x4b, 0x28]),
    (100941, [0x5c, 0xbd, 0xec, 0x0f, 0xc7, 0xeb, 0x42, 0xf2, 0xac, 0xb0, 0x1e, 0xc0, 0x00, 0x54, 0xb4, 0xed]),
    (100971, [0x49, 0xa2, 0x40, 0x04, 0x17, 0x8a, 0x3d, 0x81, 0x76, 0x62, 0xba, 0xc0, 0xca, 0x41, 0x24, 0xcd]),
    (100972, [0x60, 0xf5, 0x32, 0x59, 0x06, 0x22, 0xb9, 0xd3, 0x9b, 0x3c, 0x8d, 0x81, 0x50, 0x01, 0x1f, 0x9f]),
    (100981, [0xb9, 0x37, 0xaa, 0x0d, 0x39, 0xbd, 0x64, 0x2f, 0x78, 0xb7, 0xc2, 0x4f, 0xdc, 0xd8, 0x31, 0x77]),
    (102000, [0x83, 0xc7, 0xb0, 0xbe, 0xea, 0x5d, 0x3c, 0x16, 0x89, 0xfa, 0x85, 0xcd, 0x86, 0x42, 0xa6, 0x58]),
    (102001, [0x83, 0xc7, 0xb0, 0xbe, 0xea, 0x5d, 0x3c, 0x16, 0x89, 0xfa, 0x85, 0xcd, 0x86, 0x42, 0xa6, 0x58]),
    (102002, [0x02, 0x6f, 0xa0, 0xd8, 0x1c, 0x2f, 0x99, 0x27, 0x2d, 0x23, 0x9c, 0x92, 0xe8, 0x23, 0xe1, 0xfb]),
    (102003, [0x11, 0x0a, 0xd8, 0xdd, 0xda, 0x1b, 0x99, 0x1b, 0x4b, 0x5b, 0xff, 0xdf, 0xcf, 0x19, 0xbf, 0xff]),
    (102021, [0xf3, 0x06, 0xad, 0x63, 0x4b, 0xb0, 0x3b, 0x88, 0xff, 0x5d, 0x8e, 0x65, 0xc7, 0x02, 0x68, 0x5e]),
    (102022, [0xdb, 0x54, 0xf7, 0x68, 0x53, 0x62, 0x48, 0x2c, 0x11, 0x8d, 0xae, 0x96, 0x76, 0xbd, 0xa9, 0x57]),
    (102023, [0x91, 0xa2, 0x2b, 0x72, 0xab, 0xfe, 0x82, 0x77, 0xd4, 0x81, 0xb1, 0x2d, 0xe7, 0x68, 0x2a, 0x06]),
    (102024, [0xf7, 0xec, 0x4c, 0xae, 0x8b, 0xe6, 0x3d, 0xf4, 0x4c, 0x6a, 0x94, 0xe1, 0x53, 0x84, 0x49, 0x2c]),
    (102025, [0xf1, 0x2b, 0x58, 0x46, 0x06, 0x46, 0xe5, 0x38, 0x24, 0xdb, 0x2d, 0x20, 0xd4, 0x35, 0x57, 0x51]),
    (102026, [0xab, 0x44, 0xa8, 0x70, 0xfb, 0x5e, 0x0b, 0x46, 0x6e, 0xc0, 0x9d, 0x58, 0x9c, 0x92, 0x4c, 0xd7]),
    (102027, [0x39, 0x97, 0x53, 0x42, 0x1d, 0x11, 0x8f, 0xf9, 0x24, 0x85, 0x41, 0x53, 0xfe, 0x0a, 0x34, 0x66]),
    (102028, [0xd2, 0x58, 0xb8, 0x20, 0xb4, 0xfb, 0x88, 0xd0, 0x6d, 0xe6, 0x33, 0xc9, 0x79, 0x36, 0x39, 0xfe]),
    (102029, [0x71, 0x92, 0x1d, 0x2d, 0xa7, 0x94, 0x30, 0x2d, 0x5a, 0xb2, 0xdd, 0x17, 0x11, 0xa4, 0x63, 0x22]),
    (102402, [0x69, 0x7a, 0x48, 0xc7, 0x22, 0xb4, 0x43, 0x45, 0x1b, 0x69, 0x3c, 0xa7, 0x61, 0x8a, 0xf4, 0xe8]),
    (102412, [0xcd, 0x7c, 0xba, 0xea, 0xcf, 0xbc, 0x44, 0x50, 0x8e, 0xfe, 0x68, 0xb3, 0xe6, 0x8f, 0x4e, 0xc0]),
    (102501, [0xc5, 0x33, 0x21, 0x64, 0xe0, 0x1e, 0x7c, 0x77, 0xd1, 0x76, 0xbf, 0x84, 0x5a, 0x31, 0x55, 0x0a]),
    (102502, [0x6d, 0x0b, 0x27, 0xa9, 0x46, 0xe9, 0xa6, 0xb1, 0xa1, 0x1e, 0x63, 0xf8, 0x2b, 0xfe, 0x39, 0x2d]),
    (102503, [0x1d, 0x1c, 0x7b, 0xe5, 0x2f, 0x19, 0xc1, 0x1e, 0x24, 0x8b, 0xba, 0x1c, 0xd4, 0x71, 0xb9, 0x9e]),
    (102504, [0xb9, 0x33, 0x97, 0x38, 0xcd, 0xf0, 0xc2, 0x1d, 0x5d, 0x5f, 0xd6, 0xd1, 0xee, 0xd0, 0xf8, 0xb1]),
    (102510, [0x9c, 0x2f, 0x64, 0xdd, 0x60, 0x9e, 0x2e, 0xaf, 0x50, 0x15, 0x82, 0xe1, 0xe7, 0x1d, 0x1d, 0x2f]),
    (102511, [0xb0, 0xdb, 0xa6, 0x5f, 0x0c, 0x25, 0x44, 0xe1, 0xa6, 0xef, 0x81, 0x1d, 0x40, 0x17, 0xc4, 0xae]),
    (102512, [0x1d, 0x36, 0x59, 0xd8, 0x3f, 0x98, 0xb4, 0x6b, 0x4b, 0x39, 0x53, 0x0a, 0xf8, 0x2d, 0xf7, 0x3f]),
    (102513, [0x15, 0x16, 0x65, 0x67, 0x71, 0xa8, 0x63, 0x6b, 0x2e, 0xcc, 0x88, 0x44, 0x90, 0xc8, 0x0c, 0xd8]),
    (102514, [0x4e, 0xdd, 0x46, 0x99, 0x6d, 0x42, 0xbe, 0x2d, 0x62, 0x56, 0xbd, 0x78, 0x01, 0x7f, 0x20, 0x90]),
    (102515, [0x19, 0xeb, 0xf8, 0x92, 0x05, 0x71, 0xd6, 0x4a, 0xc8, 0xc1, 0x99, 0xe9, 0x34, 0x3f, 0x32, 0x53]),
    (102516, [0xc9, 0x75, 0x41, 0x85, 0xa8, 0x5f, 0x73, 0xbc, 0xfd, 0x56, 0x0b, 0x9f, 0x17, 0xd0, 0x81, 0xaf]),
    (102517, [0xe0, 0x9b, 0x5d, 0x32, 0xd2, 0x9f, 0xe5, 0xef, 0xaa, 0xc1, 0x4b, 0xd2, 0xaa, 0xe6, 0x40, 0xa8]),
    (102601, [0x5d, 0x5c, 0x03, 0x9c, 0x68, 0xe0, 0xa0, 0x3b, 0x38, 0x9f, 0xc7, 0x2a, 0xdd, 0x72, 0x61, 0x2b]),
    (102602, [0xb7, 0x16, 0x8d, 0x1f, 0x17, 0x00, 0x9f, 0x32, 0x18, 0x60, 0xfe, 0x72, 0x4a, 0x06, 0x6c, 0x80]),
    (102603, [0x92, 0x68, 0x63, 0x75, 0x05, 0x00, 0x1b, 0xc2, 0xb2, 0x01, 0xa2, 0xea, 0x1a, 0x8e, 0xce, 0x35]),
    (102611, [0xa8, 0x3b, 0x05, 0x82, 0x6b, 0x67, 0x91, 0x2f, 0x5d, 0xbb, 0x02, 0x36, 0x0c, 0x98, 0x05, 0x9c]),
    (102620, [0x42, 0xb4, 0xfd, 0x05, 0x9a, 0xfd, 0xcd, 0xce, 0xd2, 0xb6, 0x37, 0x32, 0x9b, 0xa7, 0xe8, 0x5f]),
    (102621, [0x2a, 0x66, 0x30, 0xb8, 0xc6, 0x2d, 0x80, 0x69, 0x26, 0xa4, 0xd5, 0x67, 0x3b, 0x66, 0xae, 0x7a]),
    (102622, [0x52, 0xbe, 0xba, 0xc9, 0x2e, 0x35, 0xe8, 0xfb, 0xc9, 0xb4, 0x00, 0x45, 0x0d, 0x0a, 0x44, 0x87]),
    (102623, [0xb3, 0x7d, 0xe2, 0xbd, 0x86, 0xf9, 0x62, 0x12, 0xbf, 0xbf, 0x8e, 0xc8, 0x44, 0xad, 0x4b, 0xfc]),
    (102624, [0x99, 0x74, 0xa1, 0xde, 0xcf, 0xd8, 0x6a, 0x5c, 0xea, 0x03, 0x16, 0xbe, 0x86, 0x69, 0x6a, 0xed]),
    (102630, [0x97, 0xd0, 0x18, 0x94, 0xe7, 0x16, 0xc5, 0xa5, 0xbd, 0xad, 0x23, 0x9b, 0x60, 0x0f, 0x45, 0x36]),
    (102631, [0x26, 0xe3, 0x75, 0x70, 0x7a, 0x34, 0x29, 0x68, 0x62, 0x05, 0x79, 0xe4, 0x0a, 0xa5, 0xa0, 0xfc]),
    (102632, [0x8e, 0x99, 0x1c, 0x25, 0xdc, 0xc8, 0x88, 0xec, 0xa5, 0x08, 0x4c, 0x14, 0x4a, 0xbb, 0xd8, 0x35]),
    (102633, [0x9b, 0x64, 0x78, 0x83, 0x6b, 0x53, 0x01, 0xc0, 0xb6, 0xee, 0x8b, 0xf7, 0xef, 0x67, 0x63, 0xf9]),
    (102634, [0xb8, 0x0b, 0x88, 0xda, 0x13, 0x0a, 0x4f, 0x44, 0x65, 0x0a, 0x65, 0x86, 0x74, 0xd3, 0xb7, 0x7c]),
    (102635, [0xdf, 0x69, 0x3a, 0x9f, 0xaa, 0x30, 0x33, 0xa3, 0x4b, 0xde, 0xef, 0xa5, 0xb4, 0xf4, 0x80, 0x57]),
    (102636, [0x97, 0x31, 0xd7, 0x0b, 0x65, 0x4c, 0xfe, 0x5c, 0xbf, 0x2a, 0x0f, 0xaa, 0xa5, 0x9e, 0x83, 0xdb]),
    (102637, [0x95, 0x27, 0x8f, 0xe2, 0xa1, 0xde, 0x69, 0xc3, 0xe0, 0x04, 0xc5, 0x82, 0x76, 0xde, 0x65, 0xe3]),
    (102638, [0x14, 0x56, 0x25, 0x20, 0x53, 0xae, 0x79, 0x44, 0x13, 0xbb, 0x79, 0xed, 0x5d, 0x6d, 0x33, 0xb2]),
    (102639, [0x1f, 0x60, 0xf0, 0x0a, 0xc1, 0xd3, 0x0b, 0x7e, 0x24, 0x96, 0x62, 0xf8, 0x83, 0x8f, 0xc2, 0xea]),
    (102841, [0xf4, 0x9d, 0x1e, 0xf3, 0xd6, 0x6a, 0xcd, 0x53, 0xe2, 0x84, 0xfc, 0xf5, 0x3f, 0xec, 0xc3, 0xfb]),
    (102851, [0x92, 0xa3, 0xb8, 0xc8, 0x9e, 0xfd, 0x8b, 0x20, 0x4c, 0xbb, 0xab, 0x8f, 0xe3, 0x92, 0x70, 0x29]),
    (104021, [0xc1, 0x03, 0x81, 0x58, 0x72, 0x7a, 0x67, 0x1a, 0x7a, 0x78, 0xf9, 0x2d, 0x52, 0xd0, 0xaf, 0x01]),
    (104022, [0x9c, 0x79, 0xa1, 0x95, 0xbf, 0x57, 0x72, 0x75, 0x0f, 0x01, 0xa4, 0xbc, 0x04, 0x3c, 0x45, 0x5f]),
    (104102, [0x56, 0x68, 0xd0, 0xe4, 0x6c, 0xcd, 0xfd, 0x45, 0xdd, 0x0b, 0xd9, 0x16, 0x9b, 0x9f, 0x2c, 0x0a]),
    (104311, [0xfe, 0x31, 0x5f, 0x98, 0x93, 0x76, 0x35, 0x82, 0x47, 0x4b, 0x3d, 0xa5, 0x23, 0xcc, 0xe4, 0x1f]),
    (104321, [0xc7, 0x1d, 0xa0, 0xf3, 0x01, 0xe4, 0x4a, 0x71, 0x65, 0x97, 0x9d, 0xaa, 0x42, 0x5f, 0xe2, 0xed]),
    (104322, [0xb7, 0x27, 0x18, 0xb4, 0x46, 0x7e, 0x7c, 0xff, 0x76, 0xa2, 0xb5, 0x2d, 0xbb, 0x12, 0x4c, 0xee]),
    (104341, [0xa7, 0x1b, 0x5d, 0xf3, 0xab, 0xd4, 0x94, 0xa0, 0xbe, 0xbc, 0xd3, 0x24, 0x8b, 0x79, 0x8d, 0xe1]),
    (104601, [0xf2, 0x59, 0xfc, 0x31, 0xae, 0x05, 0x99, 0x63, 0xc0, 0xac, 0x60, 0x1c, 0x4d, 0x64, 0xf1, 0x1b]),
    (104602, [0x21, 0xbc, 0x29, 0x94, 0xcd, 0xb8, 0x7b, 0x1f, 0x55, 0x9f, 0x36, 0x60, 0xd0, 0x1b, 0x14, 0x86]),
    (104701, [0x11, 0xf4, 0x59, 0xf6, 0x65, 0x69, 0x12, 0x5d, 0x83, 0xcc, 0x5a, 0xd4, 0x78, 0xce, 0x16, 0xd2]),
    (104805, [0xa7, 0xb9, 0x00, 0x3d, 0x9a, 0xe5, 0x76, 0x49, 0x32, 0x20, 0xc5, 0x43, 0x9a, 0xbd, 0xd0, 0x2b]),
    (104806, [0x20, 0x5d, 0x03, 0x9b, 0x89, 0xba, 0x42, 0x95, 0x00, 0xa2, 0xb9, 0xbd, 0x22, 0x78, 0x1c, 0xdd]),
    (104807, [0xe5, 0x89, 0x2d, 0x1d, 0x49, 0x6b, 0xc8, 0x4f, 0x1f, 0x1c, 0xbc, 0x24, 0x9f, 0xbf, 0xb5, 0x1c]),
    (104808, [0x8d, 0xfe, 0x95, 0x2c, 0x85, 0x19, 0x29, 0x62, 0xde, 0x7b, 0x68, 0xe2, 0xc3, 0xff, 0x84, 0xcc]),
    (104809, [0xc0, 0x73, 0x3a, 0x9e, 0xb9, 0x50, 0xfb, 0xdd, 0x91, 0xf3, 0xab, 0xec, 0x7d, 0xf6, 0x21, 0x3b]),
    (104810, [0x59, 0xa6, 0xdc, 0x74, 0xd1, 0xf8, 0xa7, 0xf7, 0xf2, 0x78, 0xbd, 0x10, 0x33, 0xa2, 0x90, 0x75]),
    (104811, [0x92, 0xe3, 0x9f, 0x36, 0xd4, 0x73, 0xdd, 0x15, 0x84, 0xdf, 0xf6, 0x17, 0x7a, 0xf1, 0x76, 0xab]),
    (104812, [0xf3, 0x9d, 0x49, 0x86, 0x48, 0xc0, 0xd4, 0xdc, 0xee, 0xdc, 0x6b, 0x4d, 0x08, 0x06, 0xdc, 0x3c]),
    (104813, [0xb7, 0x4d, 0x3c, 0x2d, 0x74, 0x33, 0xf3, 0x0a, 0x4f, 0x40, 0xc4, 0x63, 0x18, 0xe8, 0x21, 0xaa]),
    (104814, [0x3a, 0xe3, 0x79, 0x34, 0xaf, 0x3c, 0xc4, 0x16, 0xbe, 0xa2, 0x82, 0xa3, 0x00, 0x13, 0xa3, 0x5f]),
    (104901, [0xd7, 0x03, 0xc1, 0xc1, 0x01, 0x75, 0x5b, 0xf2, 0x9a, 0xe9, 0xfd, 0xc6, 0xc9, 0x30, 0xf0, 0x93]),
    (105101, [0x6f, 0xd4, 0xa3, 0x84, 0x80, 0xf5, 0xf4, 0x31, 0x62, 0x73, 0x17, 0x65, 0x31, 0x8c, 0x82, 0x8c]),
    (105102, [0x4a, 0x2e, 0x4f, 0x2f, 0x37, 0x8b, 0xfd, 0x46, 0x68, 0x5b, 0x9b, 0x17, 0xd3, 0x03, 0x1d, 0xb7]),
    (105201, [0x1c, 0xb5, 0x33, 0x94, 0x9d, 0x17, 0x19, 0x7d, 0x47, 0x8b, 0x9f, 0xaa, 0xc6, 0x7a, 0x0e, 0x98]),
    (105202, [0xb9, 0xf4, 0x85, 0x70, 0x6e, 0x8e, 0xda, 0x09, 0xc1, 0x92, 0x83, 0xd5, 0x71, 0xc1, 0x22, 0x3b]),
    (105301, [0x95, 0x21, 0xe9, 0x96, 0xa7, 0x6b, 0xba, 0x79, 0x22, 0x15, 0x73, 0x01, 0x01, 0xde, 0x28, 0x51]),
    (105302, [0xa9, 0x10, 0x87, 0xff, 0x92, 0xb8, 0x0c, 0x92, 0x3d, 0x1c, 0xb0, 0x6a, 0x09, 0x60, 0x35, 0xa1]),
    (105311, [0x00, 0xbe, 0x19, 0xe0, 0xae, 0x3e, 0xef, 0xe5, 0x7b, 0x8e, 0x39, 0xad, 0x67, 0x07, 0x3c, 0xb4]),
    (105401, [0x75, 0xf4, 0x74, 0xa2, 0x6b, 0x32, 0x0b, 0xae, 0x63, 0x25, 0xaf, 0x53, 0x45, 0x24, 0x2d, 0xf3]),
    (105402, [0x8e, 0xed, 0x2f, 0x94, 0x66, 0xa9, 0xd1, 0x91, 0x2a, 0xbd, 0x86, 0xe3, 0x6b, 0x2b, 0xad, 0x6b]),
    (105403, [0xdd, 0x83, 0xfe, 0x99, 0x35, 0xb7, 0x16, 0xb7, 0x55, 0x2f, 0xff, 0x5c, 0x27, 0x73, 0x04, 0xb4]),
    (105404, [0x07, 0x44, 0x43, 0x5e, 0xe1, 0xa1, 0x40, 0x94, 0x0c, 0xbe, 0xe5, 0x57, 0x1d, 0x1f, 0x70, 0xbc]),
    (105405, [0x3f, 0xa7, 0x93, 0x3c, 0xca, 0xe2, 0x0e, 0x48, 0x66, 0x67, 0xa5, 0xe4, 0xef, 0x67, 0xd6, 0xb0]),
    (105421, [0x1a, 0xf0, 0xe8, 0x7c, 0x36, 0xf8, 0x33, 0x1f, 0x1a, 0xc9, 0x5e, 0xe7, 0xd1, 0x50, 0x7d, 0x0f]),
    (105431, [0xbd, 0x93, 0xcd, 0x9f, 0x74, 0xaf, 0x64, 0x76, 0x9f, 0x1f, 0x7d, 0x66, 0x4e, 0x65, 0x33, 0x47]),
    (105451, [0x32, 0x70, 0xc4, 0x4f, 0xdd, 0x5c, 0xf3, 0x50, 0x2f, 0x20, 0x44, 0x6b, 0xce, 0xda, 0x46, 0xe1]),
    (105601, [0x49, 0x30, 0x98, 0xec, 0x6f, 0x6a, 0xe0, 0x2d, 0x26, 0xb3, 0xbe, 0x75, 0x9e, 0x3f, 0x26, 0x8d]),
    (105611, [0xfe, 0x57, 0x75, 0x24, 0x45, 0xd4, 0x0c, 0xd4, 0xbd, 0x37, 0x62, 0x9c, 0xb6, 0xaa, 0x2c, 0xa5]),
    (105701, [0x2e, 0xf5, 0xd5, 0x05, 0xa1, 0xa3, 0x03, 0xc9, 0xe7, 0xe1, 0xa8, 0x15, 0x3e, 0xb6, 0x60, 0x00]),
    (105711, [0x27, 0x03, 0x23, 0xf6, 0x89, 0x1d, 0x86, 0x4a, 0x0f, 0x7d, 0x33, 0xb6, 0x45, 0xe2, 0x5f, 0xa3]),
    (105801, [0x8e, 0xc4, 0x79, 0x4c, 0x42, 0x5e, 0x6e, 0x7e, 0x1e, 0x9e, 0x58, 0x81, 0x87, 0x2a, 0xb4, 0x55]),
    (105802, [0xff, 0xd5, 0x82, 0x02, 0x51, 0x18, 0x08, 0x58, 0xe9, 0xc4, 0xda, 0x8f, 0x17, 0x48, 0x6d, 0xec]),
    (106001, [0x51, 0xf7, 0xe0, 0xd7, 0x4d, 0xd6, 0xfc, 0x84, 0x9f, 0xb0, 0x2a, 0x89, 0x43, 0x41, 0x7f, 0x1f]),
    (106002, [0xad, 0x8d, 0x0c, 0x20, 0x9f, 0x12, 0xdc, 0xdb, 0x0c, 0x6e, 0xe4, 0x2f, 0x37, 0xd1, 0x26, 0x3a]),
    (106003, [0xcf, 0xbd, 0xf4, 0x29, 0x4c, 0xf6, 0xc2, 0xa5, 0x55, 0xbc, 0x24, 0x5e, 0xf2, 0x33, 0x45, 0x45]),
    (106004, [0x1d, 0x83, 0xf3, 0x09, 0xb4, 0xa5, 0x08, 0x50, 0x4c, 0x54, 0xfb, 0xcc, 0x25, 0x46, 0x6c, 0xe6]),
    (106005, [0xfb, 0xbb, 0x03, 0x59, 0xd3, 0xbe, 0x87, 0x70, 0x3e, 0xff, 0xa8, 0xe9, 0xd7, 0xee, 0xd0, 0xca]),
    (106006, [0xdd, 0xb8, 0x53, 0x45, 0xd6, 0x16, 0x76, 0x09, 0x07, 0x9d, 0x72, 0x6e, 0xcc, 0xb1, 0x52, 0xce]),
    (106007, [0xc2, 0xa2, 0x92, 0xd3, 0xeb, 0xb2, 0x8e, 0xf1, 0x83, 0xb6, 0x08, 0xf2, 0xe3, 0x22, 0x67, 0x92]),
    (106008, [0x11, 0xad, 0x44, 0x9d, 0x6d, 0xb1, 0x13, 0x41, 0x54, 0x5b, 0x28, 0xf7, 0x9c, 0xdb, 0x4b, 0x87]),
    (106011, [0x17, 0x99, 0x2c, 0x41, 0x9f, 0x79, 0x08, 0xe8, 0x5a, 0xe0, 0xc6, 0xb7, 0x2b, 0x29, 0x06, 0x95]),
    (106012, [0x4e, 0x89, 0x0b, 0xfc, 0xdc, 0x21, 0xb0, 0x61, 0x60, 0xd9, 0x67, 0x38, 0x97, 0xc7, 0xeb, 0x2c]),
    (107001, [0x65, 0x55, 0x0b, 0x47, 0xe2, 0x63, 0xe6, 0x3c, 0xe2, 0xf0, 0x7c, 0xd1, 0x96, 0xca, 0x85, 0x2a]),
    (107010, [0x58, 0x66, 0x88, 0xdf, 0xeb, 0xb2, 0xf0, 0x07, 0xee, 0x6c, 0x55, 0x3d, 0xe4, 0xd5, 0xc9, 0xa8]),
    (107011, [0x58, 0x66, 0x88, 0xdf, 0xeb, 0xb2, 0xf0, 0x07, 0xee, 0x6c, 0x55, 0x3d, 0xe4, 0xd5, 0xc9, 0xa8]),
    (107101, [0xb3, 0xc0, 0xb5, 0xe5, 0xe7, 0xbc, 0xc9, 0x3f, 0xde, 0x3b, 0x04, 0xa4, 0xe7, 0x45, 0x2d, 0xc9]),
    (107103, [0x1e, 0xd1, 0x12, 0xd3, 0xe2, 0x9c, 0xf7, 0x1c, 0x97, 0x98, 0x93, 0x2e, 0xa8, 0xaf, 0x65, 0xfe]),
    (107104, [0xa9, 0xbc, 0x96, 0x70, 0xd3, 0x9c, 0x4b, 0x08, 0xa4, 0x3f, 0xf7, 0x40, 0x15, 0xae, 0xc9, 0xb7]),
    (107105, [0xb5, 0xcc, 0x81, 0xe4, 0xd0, 0x2c, 0xf1, 0x3c, 0xcd, 0xba, 0xc8, 0x43, 0xe4, 0xb6, 0x39, 0xd4]),
    (107111, [0x97, 0x0e, 0xbb, 0x63, 0xdd, 0xda, 0x2b, 0xa8, 0x16, 0x37, 0xb2, 0xb5, 0x2f, 0x41, 0xe2, 0x5a]),
    (107202, [0x6c, 0x9f, 0xb6, 0xb0, 0x2d, 0x8d, 0xc3, 0x62, 0x09, 0x3d, 0x1e, 0xfb, 0x95, 0xa3, 0x90, 0xda]),
    (107203, [0xcc, 0xe3, 0x2b, 0xb1, 0x07, 0x11, 0xb3, 0x26, 0x9e, 0x5f, 0x9c, 0xfd, 0x56, 0xa6, 0x90, 0x8e]),
    (107211, [0x46, 0x26, 0x00, 0x82, 0xbc, 0x03, 0x52, 0xd2, 0x93, 0xb6, 0xc1, 0x87, 0x6d, 0x43, 0xba, 0x5f]),
    (107401, [0xe1, 0x2f, 0x7d, 0x14, 0x92, 0xaa, 0xc7, 0x9c, 0xa2, 0xbf, 0x27, 0x59, 0x35, 0x2f, 0x7d, 0x36]),
    (107431, [0x8c, 0x11, 0x3d, 0xc9, 0x09, 0xcb, 0x8f, 0xb9, 0xa0, 0x3a, 0xc8, 0x0a, 0x69, 0x43, 0x36, 0x85]),
    (107601, [0xdc, 0x9a, 0x87, 0x63, 0x60, 0xc2, 0xd6, 0xc7, 0xb6, 0xfb, 0x53, 0x73, 0x68, 0xbe, 0xfd, 0x11]),
    (107611, [0x49, 0x29, 0x1d, 0x0e, 0xa9, 0x5c, 0x3d, 0xc5, 0x96, 0x98, 0x27, 0xc4, 0xc3, 0x09, 0xbb, 0x15]),
    (107801, [0xc6, 0x4b, 0x76, 0x15, 0xb7, 0x80, 0x9a, 0xe1, 0xc2, 0x5d, 0xa5, 0x23, 0x5a, 0xef, 0x53, 0xed]),
    (107808, [0xa6, 0xdd, 0x16, 0x48, 0xfc, 0x3a, 0xc9, 0x0d, 0x72, 0x2b, 0x8c, 0x8d, 0x4b, 0x49, 0x46, 0xcd]),
    (107820, [0x60, 0xdf, 0xba, 0x12, 0x76, 0x68, 0xc6, 0x50, 0xcf, 0xef, 0xfc, 0xa3, 0xee, 0x6a, 0x3f, 0x05]),
    (107831, [0x27, 0xe0, 0x85, 0xbb, 0xcf, 0x32, 0xe3, 0x1f, 0xc7, 0x30, 0xbb, 0x2b, 0x10, 0xdc, 0xb5, 0x0e]),
    (107901, [0xd2, 0x8f, 0x49, 0xab, 0x40, 0xc0, 0xc9, 0x6f, 0x79, 0x92, 0x1e, 0x42, 0xb5, 0x88, 0x5b, 0xef]),
    (108101, [0x35, 0x46, 0x99, 0x63, 0x7b, 0xd3, 0x84, 0x10, 0x5f, 0xaa, 0x3b, 0x26, 0xfb, 0xdb, 0xd4, 0x11]),
    (108111, [0xc1, 0xe3, 0xa8, 0xc8, 0x27, 0x64, 0x2e, 0x48, 0xa3, 0xfe, 0x7c, 0x58, 0xe3, 0x33, 0x8c, 0xb3]),
    (108112, [0xf2, 0x0f, 0x54, 0xbf, 0x48, 0xe8, 0x5b, 0xbe, 0x85, 0x5a, 0x01, 0x61, 0x8d, 0x56, 0x92, 0x60]),
    (108201, [0x15, 0x94, 0x25, 0x70, 0xdb, 0x68, 0xc5, 0xd0, 0x1d, 0xea, 0x48, 0x34, 0xd6, 0x56, 0x30, 0xba]),
    (108202, [0x91, 0x68, 0x85, 0x35, 0x5f, 0x71, 0xf3, 0x73, 0xfb, 0xd4, 0xcb, 0xd7, 0xe9, 0xfe, 0xc2, 0x55]),
    (108211, [0x67, 0x07, 0x88, 0x80, 0x38, 0x3c, 0x38, 0x65, 0x07, 0xe5, 0xf6, 0x36, 0x2e, 0xaa, 0x37, 0x04]),
    (108501, [0xd6, 0x3a, 0x60, 0xc1, 0xc2, 0x7d, 0x76, 0x72, 0x5b, 0xe8, 0x31, 0x03, 0x4d, 0xfa, 0xdf, 0x4a]),
    (108502, [0x90, 0x20, 0xba, 0xa3, 0x05, 0xb1, 0xd5, 0x3c, 0xc9, 0x6f, 0xb9, 0x7e, 0x07, 0xa1, 0x1c, 0x14]),
    (108503, [0x9d, 0xb5, 0x57, 0xcd, 0xf4, 0xdd, 0x24, 0x54, 0xc8, 0xdf, 0x0a, 0x8b, 0x2c, 0x52, 0xb9, 0x65]),
    (108504, [0xcd, 0x73, 0x75, 0xb6, 0x27, 0xe7, 0x22, 0x73, 0x0f, 0xdc, 0xf5, 0xdd, 0xed, 0xab, 0x05, 0xf0]),
    (108505, [0x2b, 0xc3, 0x97, 0x3b, 0xa0, 0xb0, 0xa4, 0xa2, 0xcd, 0x07, 0x4e, 0xc6, 0xf9, 0x63, 0x5a, 0x5d]),
    (108601, [0x82, 0x14, 0x94, 0x7e, 0x3f, 0x33, 0xb0, 0x64, 0xa4, 0xb9, 0xf7, 0xd4, 0x47, 0xc9, 0x3a, 0x90]),
    (108701, [0xa5, 0x40, 0x40, 0x97, 0x3e, 0xf4, 0x5d, 0x89, 0x37, 0xe8, 0x47, 0x63, 0x22, 0x62, 0x12, 0xdc]),
    (108711, [0x7f, 0x47, 0xeb, 0x89, 0x10, 0x34, 0xa9, 0x21, 0x21, 0x22, 0x0d, 0x4e, 0x7f, 0x3e, 0x4b, 0x7c]),
    (108712, [0xa5, 0x2a, 0x30, 0x53, 0x8d, 0x51, 0x59, 0x97, 0x76, 0xe2, 0xe8, 0x93, 0x44, 0x77, 0x26, 0x67]),
    (108713, [0xa5, 0xec, 0xa5, 0x4d, 0x4b, 0xb1, 0xe6, 0xed, 0x66, 0x02, 0xb0, 0x53, 0x03, 0x41, 0xac, 0xd9]),
    (108714, [0xd1, 0xb2, 0xaf, 0x69, 0xf0, 0x12, 0x98, 0x8d, 0x5f, 0x92, 0x64, 0x2f, 0xd4, 0xbf, 0x9a, 0x14]),
    (108715, [0xe0, 0x4c, 0xa5, 0x06, 0xc5, 0x21, 0x64, 0x7f, 0x95, 0xef, 0xfd, 0xc2, 0x16, 0xa3, 0x6f, 0x02]),
    (108716, [0x03, 0xa6, 0x20, 0xf6, 0xfe, 0xa5, 0xf5, 0x9c, 0x9c, 0x78, 0x06, 0xe0, 0x61, 0x8e, 0x59, 0x52]),
    (108717, [0x36, 0xfb, 0x79, 0xbf, 0x15, 0x77, 0xe9, 0x6d, 0xb4, 0xb6, 0x46, 0xd9, 0x78, 0xc3, 0x79, 0x5d]),
    (108718, [0x51, 0x80, 0x86, 0x9b, 0xc2, 0x54, 0xa9, 0x7b, 0xbb, 0x48, 0x78, 0xe9, 0x48, 0x3c, 0x9f, 0x24]),
    (108719, [0xc9, 0x63, 0xa4, 0x28, 0x6b, 0x86, 0xeb, 0xa2, 0x12, 0xe2, 0x99, 0x5b, 0x92, 0xd6, 0x21, 0x03]),
    (108720, [0x33, 0xc5, 0xd0, 0x14, 0x78, 0xd9, 0x29, 0x05, 0xb4, 0x88, 0x76, 0xba, 0x65, 0xb6, 0xe1, 0xad]),
    (108721, [0x41, 0x31, 0x30, 0x98, 0x9b, 0x8d, 0xa1, 0x45, 0x4d, 0xeb, 0x69, 0xbe, 0xcb, 0xe8, 0x06, 0x3a])]"

lemma TABLE_16_span: "span 50266 TABLE_16 55414"
  unfolding TABLE_16_def by (simp only: span_eval) simp

lemma TABLE_17_span: "span 55415 TABLE_17 58512"
  unfolding TABLE_17_def by (simp only: span_eval) simp

lemma TABLE_18_span: "span 58513 TABLE_18 65230"
  unfolding TABLE_18_def by (simp only: span_eval) simp

lemma TABLE_19_span: "span 65231 TABLE_19 71102"
  unfolding TABLE_19_def by (simp only: span_eval) simp

lemma TABLE_20_span: "span 71131 TABLE_20 80341"
  unfolding TABLE_20_def by (simp only: span_eval) simp

lemma TABLE_21_span: "span 80351 TABLE_21 92704"
  unfolding TABLE_21_def by (simp only: span_eval) simp

lemma TABLE_22_span: "span 92705 TABLE_22 99932"
  unfolding TABLE_22_def by (simp only: span_eval) simp

lemma TABLE_23_span: "span 100411 TABLE_23 108721"
  unfolding TABLE_23_def by (simp only: span_eval) simp

end
