(* ===== verification/Key_Table_4.thy ===== *)
theory Key_Table_4
  imports Key_Order
begin

text \<open>
  Rows 3601 to 4758 of the built-in key table of \<open>src/keys/table.rs\<close>, in runs of at most 150 rows, and
  that each run is strictly ascending in the depot.
\<close>

definition TABLE_24 :: "key_entry list" where
  "TABLE_24 = [
    (108722, [0x41, 0x4d, 0x47, 0xf3, 0xe3, 0x21, 0x14, 0x6b, 0xb2, 0x90, 0xc5, 0xf7, 0x4c, 0x31, 0x39, 0xa1]),
    (108723, [0x5e, 0x45, 0xf4, 0x3e, 0x37, 0xb8, 0xd9, 0xfb, 0xd1, 0xa2, 0x62, 0x23, 0xf4, 0x8f, 0x92, 0x02]),
    (108724, [0xd3, 0x9e, 0x1a, 0x39, 0x2e, 0xbe, 0x4c, 0xfa, 0xdf, 0xb8, 0xbe, 0x8a, 0x01, 0xcf, 0xc4, 0xa6]),
    (108725, [0x41, 0xa4, 0x2d, 0xce, 0xfb, 0xbd, 0xb7, 0x0a, 0x4e, 0xd2, 0xe5, 0x4c, 0x17, 0xc4, 0x24, 0x75]),
    (108726, [0xdc, 0x34, 0xbf, 0x70, 0x59, 0xa8, 0x81, 0x85, 0x00, 0x72, 0x5d, 0x7d, 0x58, 0x31, 0x2c, 0x15]),
    (108727, [0x0a, 0xd9, 0xf4, 0xd9, 0x3e, 0xca, 0x67, 0x91, 0xa7, 0xaa, 0x0c, 0xdd, 0x91, 0x12, 0xc8, 0xdd]),
    (108728, [0x2e, 0x22, 0xdd, 0x3f, 0x14, 0xda, 0xf8, 0x50, 0xa7, 0xeb, 0x1b, 0xeb, 0x52, 0x7e, 0xa5, 0x30]),
    (109201, [0x85, 0x20, 0xc5, 0x0e, 0xa5, 0x2e, 0x2e, 0xac, 0x7b, 0x23, 0x42, 0xab, 0xbf, 0x5f, 0xae, 0x87]),
    (109411, [0x32, 0xb1, 0x42, 0x1a, 0x81, 0xc4, 0xc3, 0xd0, 0x07, 0x3d, 0xe7, 0x75, 0xd9, 0x71, 0xf8, 0x00]),
    (109503, [0xf8, 0x21, 0x6e, 0x4e, 0xe9, 0x85, 0x7e, 0x26, 0xfe, 0x97, 0x6a, 0x2e, 0xac, 0xe0, 0xf2, 0x37]),
    (109701, [0xd7, 0xac, 0xb4, 0xfd, 0xce, 0xb1, 0xe5, 0xa7, 0x4a, 0x56, 0x71, 0xfe, 0x23, 0x5a, 0x6f, 0xf2]),
    (109702, [0x4e, 0x94, 0xed, 0xca, 0x22, 0xb8, 0x9f, 0x2c, 0x93, 0xf3, 0x15, 0xf7, 0x9a, 0xff, 0x10, 0x56]),
    (109721, [0x7b, 0x6b, 0x02, 0x37, 0x62, 0x88, 0x1d, 0xf7, 0x50, 0x5f, 0xbb, 0xdb, 0x29, 0x89, 0xc9, 0x56]),
    (110401, [0xdc, 0x6a, 0x2c, 0x2b, 0xed, 0x8d, 0xcd, 0x8f, 0x07, 0x0d, 0xf7, 0xc3, 0xa6, 0x74, 0x73, 0xaa]),
    (110501, [0x76, 0xb8, 0x71, 0x95, 0xaf, 0x78, 0x3b, 0x47, 0x6c, 0x68, 0x39, 0x76, 0x33, 0x34, 0xaf, 0x81]),
    (110521, [0x15, 0x1f, 0xe9, 0x9b, 0x20, 0x79, 0x16, 0x40, 0x7a, 0xc7, 0xc0, 0x5c, 0x64, 0x53, 0x10, 0xf6]),
    (110601, [0x4f, 0xcb, 0xdb, 0x8a, 0xe0, 0xff, 0xf3, 0xf0, 0xcd, 0x5c, 0x33, 0x93, 0xb1, 0x7d, 0xf2, 0xe4]),
    (110611, [0x4d, 0x27, 0xa4, 0xc5, 0x1b, 0x08, 0x99, 0xa8, 0xc2, 0x73, 0xc3, 0x33, 0x3a, 0xbd, 0xf2, 0xc2]),
    (110631, [0xec, 0xc5, 0x25, 0x51, 0xf3, 0xaf, 0x17, 0x8a, 0x63, 0x2f, 0x4c, 0x34, 0x7b, 0x51, 0x5f, 0x42]),
    (110801, [0x48, 0xdb, 0x1e, 0x2f, 0x42, 0x0c, 0x28, 0x23, 0xd2, 0xfb, 0xcd, 0x6c, 0xb5, 0x61, 0xc0, 0xcd]),
    (110802, [0x9a, 0xb7, 0xac, 0x4b, 0xab, 0xd4, 0xc3, 0x10, 0x07, 0x99, 0x15, 0x38, 0x0e, 0x90, 0xb9, 0x09]),
    (110810, [0x53, 0x3a, 0x6f, 0x50, 0x35, 0x05, 0x64, 0xab, 0x55, 0x89, 0x27, 0x90, 0x56, 0x2d, 0x91, 0x04]),
    (111001, [0x47, 0xb5, 0x4e, 0xbb, 0xb0, 0xbe, 0xed, 0xd3, 0x14, 0x90, 0x35, 0xb4, 0x85, 0x11, 0xeb, 0xdd]),
    (111002, [0x9f, 0x8b, 0x0e, 0xfe, 0xc0, 0xb5, 0x36, 0xba, 0x29, 0x18, 0xc3, 0x40, 0xc5, 0x97, 0x75, 0xcc]),
    (111011, [0x21, 0x1c, 0x52, 0x6e, 0xb9, 0x99, 0xda, 0xc0, 0x03, 0xb2, 0x3c, 0xdd, 0x2a, 0x1e, 0x04, 0x19]),
    (111012, [0x28, 0x9a, 0x38, 0x1e, 0x53, 0xe7, 0x3e, 0x50, 0x4c, 0xea, 0x15, 0xc9, 0xce, 0x38, 0x2d, 0x7e]),
    (111021, [0x9b, 0x9b, 0x6c, 0xc9, 0xd5, 0xe9, 0xcd, 0x53, 0x75, 0x83, 0xf2, 0x01, 0xc5, 0xdb, 0xbe, 0x4f]),
    (111022, [0x20, 0x41, 0x21, 0xbe, 0xbe, 0x8d, 0x17, 0x01, 0x5c, 0x37, 0xdb, 0xe2, 0x63, 0xae, 0x3d, 0xfd]),
    (111031, [0xd9, 0x99, 0xa5, 0x80, 0xf6, 0x0b, 0x6b, 0xf2, 0x7b, 0x5f, 0x9c, 0xa0, 0x87, 0x3c, 0x9c, 0x3d]),
    (111032, [0xc7, 0x7a, 0xd9, 0x01, 0xad, 0xdc, 0xd5, 0x44, 0x32, 0x76, 0x76, 0x83, 0x3c, 0x74, 0x03, 0xea]),
    (111101, [0x73, 0x41, 0xec, 0x8b, 0x68, 0x56, 0x92, 0xcd, 0xee, 0x9a, 0xd7, 0xca, 0xda, 0xf2, 0x29, 0xdb]),
    (111102, [0x27, 0x3c, 0x04, 0xc9, 0x00, 0xa5, 0xaf, 0x75, 0x72, 0x5f, 0xe8, 0xe3, 0x6f, 0xd7, 0x82, 0x3f]),
    (111301, [0x81, 0x26, 0xf4, 0xec, 0xd4, 0x2e, 0xd6, 0xd5, 0xa6, 0x87, 0x94, 0x4e, 0xaf, 0x38, 0x7c, 0x19]),
    (111302, [0xb9, 0x24, 0x24, 0xae, 0xbe, 0x9d, 0x3e, 0xcd, 0xc7, 0x97, 0x5a, 0x49, 0xd6, 0xc4, 0x38, 0xb6]),
    (111303, [0x56, 0x98, 0xba, 0xff, 0x36, 0x05, 0x01, 0x8a, 0x83, 0x60, 0x1b, 0x68, 0x4b, 0x70, 0x59, 0x1e]),
    (111401, [0x7d, 0xe5, 0xf1, 0xa5, 0x5f, 0xef, 0x82, 0x69, 0x13, 0x3a, 0x54, 0x9b, 0xfc, 0x25, 0xf4, 0x91]),
    (111601, [0x0a, 0x79, 0xe8, 0x46, 0xed, 0x6b, 0x9d, 0xcb, 0x5a, 0x06, 0xd3, 0x35, 0xcd, 0x60, 0xf2, 0xbf]),
    (111611, [0x66, 0x1e, 0xad, 0xa3, 0xbf, 0x42, 0x30, 0xbf, 0xd6, 0x62, 0xc6, 0xbe, 0x5c, 0xb5, 0x89, 0x13]),
    (111711, [0x9e, 0x0d, 0x87, 0xc2, 0xb3, 0x4d, 0x00, 0xdd, 0x19, 0x75, 0xcf, 0x2f, 0x15, 0x89, 0xf2, 0x0e]),
    (111801, [0x50, 0x42, 0xad, 0x87, 0xc1, 0x59, 0x8c, 0xaa, 0x0c, 0xbe, 0xd8, 0xf2, 0x22, 0x16, 0x26, 0x7f]),
    (111802, [0x2a, 0x64, 0xf2, 0x96, 0xb2, 0x2b, 0x7b, 0xc0, 0x5f, 0x8f, 0xde, 0x7a, 0x37, 0xa8, 0x73, 0x60]),
    (112101, [0x6c, 0xf0, 0x39, 0xa5, 0xe4, 0x54, 0x7d, 0xf6, 0x06, 0x28, 0xb7, 0x7a, 0x7e, 0xff, 0x7a, 0xbd]),
    (112102, [0x44, 0xb5, 0x53, 0xf7, 0x69, 0x36, 0x75, 0xeb, 0xe0, 0x66, 0xb5, 0xeb, 0x73, 0x33, 0x20, 0x3b]),
    (112111, [0x44, 0xbd, 0x22, 0xe3, 0x6c, 0x34, 0x03, 0x1f, 0xa0, 0x77, 0xb9, 0x57, 0x1a, 0x5a, 0x2b, 0x06]),
    (112112, [0x23, 0x03, 0x03, 0x9d, 0x9f, 0x64, 0x8c, 0xbb, 0x8f, 0x06, 0x5e, 0xd4, 0x6c, 0x46, 0x22, 0xeb]),
    (113401, [0x4e, 0x22, 0x9f, 0x88, 0x4f, 0x0e, 0x81, 0x54, 0xd6, 0xe5, 0xfb, 0x79, 0x13, 0x54, 0x39, 0xfa]),
    (113421, [0x00, 0xef, 0x00, 0x3b, 0x25, 0x2f, 0xb4, 0x81, 0xe3, 0x52, 0x20, 0xc7, 0x89, 0x74, 0x8d, 0x0a]),
    (113422, [0xbe, 0xeb, 0x3c, 0xd1, 0xcd, 0xda, 0x18, 0x6e, 0x6b, 0xa2, 0xb1, 0xc9, 0xd9, 0x30, 0xb3, 0xab]),
    (113901, [0xf6, 0xa4, 0x5e, 0xbc, 0x69, 0xaa, 0x01, 0xed, 0x8e, 0x3d, 0x4f, 0x2f, 0xa8, 0x79, 0x6a, 0x80]),
    (115101, [0x2f, 0xcd, 0xd8, 0x0b, 0x35, 0xde, 0x44, 0x4e, 0x09, 0xc7, 0xaa, 0xff, 0x01, 0x84, 0xd3, 0x17]),
    (115102, [0x7b, 0x5b, 0xa6, 0x17, 0x62, 0xde, 0x6e, 0x05, 0xf8, 0x50, 0x0f, 0x6d, 0x4c, 0x72, 0x90, 0xad]),
    (115103, [0x17, 0x95, 0x32, 0xea, 0x33, 0xad, 0xd0, 0x53, 0x9f, 0x1d, 0x9d, 0x92, 0x40, 0x79, 0x93, 0x72]),
    (115104, [0x26, 0x80, 0x81, 0xe8, 0x60, 0x50, 0x8f, 0xb8, 0x16, 0xe6, 0x49, 0xcc, 0x3e, 0x1a, 0x57, 0x89]),
    (115105, [0x2e, 0xff, 0xd8, 0x39, 0x99, 0xb6, 0x51, 0xc0, 0x48, 0xf4, 0xd5, 0xfe, 0x2f, 0xa1, 0xe8, 0xe7]),
    (115106, [0x82, 0xe7, 0xce, 0xa5, 0x85, 0x39, 0x9d, 0x4c, 0x8f, 0x8e, 0x13, 0x4b, 0x11, 0x3d, 0x61, 0xf6]),
    (115111, [0x88, 0x70, 0xe5, 0x09, 0x53, 0xfb, 0x50, 0xd6, 0xc9, 0x6d, 0x23, 0x2d, 0xf9, 0x8f, 0xbe, 0x65]),
    (115112, [0x48, 0x0b, 0x60, 0xe2, 0xf4, 0x55, 0x52, 0xc0, 0x54, 0x76, 0xd7, 0x24, 0x58, 0x74, 0xfc, 0x09]),
    (115113, [0x1c, 0x95, 0xde, 0x49, 0xa9, 0x6f, 0x02, 0x60, 0x97, 0xb9, 0x5f, 0x75, 0x08, 0xf4, 0xc3, 0xd6]),
    (115114, [0x95, 0xe5, 0x81, 0x75, 0x20, 0xc9, 0x5b, 0x04, 0x37, 0x8b, 0x4e, 0x3b, 0x1d, 0x8e, 0x53, 0x43]),
    (115115, [0x1a, 0x69, 0xf1, 0x8b, 0x74, 0x59, 0x46, 0x8a, 0xdc, 0x2c, 0x66, 0xac, 0xf4, 0x71, 0x82, 0xc0]),
    (115116, [0xf7, 0x2a, 0xd3, 0x5b, 0x1d, 0x46, 0x58, 0x90, 0x49, 0xa8, 0xe6, 0x48, 0xbf, 0x59, 0x05, 0x41]),
    (115121, [0x10, 0x39, 0x82, 0xac, 0xf3, 0x33, 0xff, 0x87, 0x82, 0xa1, 0xe7, 0xe1, 0x72, 0x16, 0xb5, 0xf4]),
    (115122, [0x26, 0x87, 0x27, 0xb0, 0x5e, 0x51, 0x0b, 0x23, 0xd0, 0x92, 0x7f, 0x6c, 0xc6, 0xdc, 0x74, 0xcf]),
    (115123, [0xf5, 0xd4, 0x67, 0x7a, 0xe5, 0x24, 0x28, 0x35, 0x84, 0x7c, 0x2d, 0x1e, 0x4a, 0x84, 0x39, 0xa0]),
    (115124, [0x82, 0xf2, 0xe4, 0x41, 0xcf, 0x7f, 0xfe, 0x95, 0x32, 0x8a, 0x25, 0x67, 0x4f, 0xcb, 0x17, 0x90]),
    (115125, [0x60, 0x8e, 0x44, 0xbf, 0xbf, 0xcf, 0x80, 0x19, 0x4d, 0xb6, 0x1e, 0xed, 0xff, 0x00, 0x35, 0xc6]),
    (115126, [0xa0, 0xc5, 0x8b, 0xcf, 0x1e, 0xc3, 0x1d, 0xb0, 0x4f, 0xe6, 0xc8, 0xcd, 0x62, 0xc3, 0xd0, 0x64]),
    (115127, [0xfd, 0x1d, 0xc0, 0x49, 0x02, 0x48, 0x46, 0x13, 0x68, 0xa7, 0xce, 0xcb, 0x86, 0x9e, 0x59, 0x13]),
    (115321, [0xcd, 0x4d, 0x25, 0xee, 0xee, 0xd2, 0x96, 0xfd, 0x25, 0xcc, 0x26, 0x5f, 0x31, 0x9a, 0xd1, 0x2b]),
    (115322, [0x0e, 0xfd, 0xf6, 0x4f, 0x46, 0x97, 0xdb, 0x95, 0x52, 0x1c, 0x1a, 0x69, 0x03, 0xe1, 0xf1, 0xfe]),
    (115323, [0xe4, 0x21, 0x8c, 0x43, 0x61, 0x65, 0xfc, 0xca, 0x60, 0xaf, 0x9f, 0x99, 0x5d, 0x60, 0x2b, 0x70]),
    (115324, [0x8e, 0x30, 0xf6, 0xeb, 0xa8, 0xc2, 0x51, 0xbe, 0x36, 0x58, 0xa4, 0xb5, 0x15, 0x3d, 0x4a, 0xf0]),
    (115325, [0x1b, 0x53, 0x83, 0x5e, 0x0e, 0x63, 0x5b, 0xef, 0x90, 0x3a, 0xd2, 0xa4, 0x5c, 0x2c, 0x6a, 0xd8]),
    (115326, [0x1e, 0xaf, 0xb1, 0x84, 0x75, 0x0b, 0xc4, 0x85, 0xdf, 0x60, 0x13, 0xb4, 0xb9, 0xe2, 0x52, 0x4a]),
    (115327, [0xe0, 0xd0, 0x98, 0x36, 0xc4, 0x39, 0x70, 0xc2, 0xd4, 0xf3, 0x88, 0x3f, 0x81, 0x5c, 0xa9, 0x8b]),
    (115328, [0x67, 0xae, 0x08, 0x1f, 0xe0, 0x26, 0x6c, 0x18, 0x4b, 0xa7, 0x4a, 0xea, 0xc5, 0xb4, 0x27, 0x6b]),
    (115329, [0x78, 0x26, 0xd9, 0xe1, 0x5b, 0xf4, 0x79, 0x86, 0x35, 0x0f, 0x91, 0x1b, 0xc2, 0xe1, 0xce, 0x9b]),
    (115330, [0xa9, 0x04, 0x7f, 0xf1, 0xf7, 0xb2, 0x02, 0x97, 0xf8, 0x26, 0xc9, 0x92, 0xde, 0xfa, 0x34, 0xe4]),
    (116121, [0xa3, 0xab, 0x8f, 0x88, 0xd6, 0x41, 0xb6, 0xd2, 0x52, 0xe0, 0x8e, 0xfc, 0x7d, 0x4c, 0x04, 0xba]),
    (116122, [0xe8, 0xc3, 0x5b, 0x4f, 0xee, 0x75, 0x30, 0x16, 0x3b, 0x18, 0xc7, 0x8b, 0xd1, 0x23, 0xf0, 0x01]),
    (116411, [0x59, 0x3d, 0x2a, 0xc8, 0x05, 0xe6, 0xf6, 0x71, 0x16, 0x47, 0xfc, 0xc2, 0x4c, 0x2c, 0x12, 0x6d]),
    (200021, [0xfa, 0x95, 0x5f, 0xbd, 0x46, 0xc4, 0x7c, 0x69, 0x7d, 0x02, 0xf1, 0x6b, 0x60, 0xc0, 0x09, 0x05]),
    (200022, [0xe1, 0x1e, 0x10, 0x07, 0x4e, 0x04, 0xd8, 0x69, 0xb4, 0xff, 0x79, 0xe6, 0x7f, 0x58, 0x63, 0xef]),
    (200023, [0xa2, 0x58, 0x62, 0x7f, 0xb6, 0xe2, 0xbc, 0x02, 0xb0, 0x4b, 0x61, 0xda, 0x12, 0xf7, 0xee, 0x08]),
    (200024, [0xca, 0xc6, 0xe0, 0x20, 0x2e, 0x67, 0xd1, 0x5e, 0x93, 0x16, 0x4f, 0x16, 0x33, 0xd0, 0xf0, 0x8c]),
    (200025, [0xa8, 0xcb, 0x96, 0xc8, 0x43, 0xd0, 0x76, 0x1f, 0x08, 0xb2, 0xef, 0x27, 0xe5, 0x86, 0xaa, 0x69]),
    (200026, [0x97, 0xd4, 0xb1, 0x0f, 0x92, 0x6b, 0xb4, 0xcb, 0x4b, 0x99, 0x16, 0x7b, 0xbf, 0xd6, 0xec, 0xe9]),
    (200027, [0x7e, 0x05, 0x56, 0x97, 0x00, 0x09, 0x3f, 0x07, 0x9d, 0xc0, 0xd2, 0x7a, 0x3a, 0x5d, 0x54, 0xa4]),
    (200031, [0xdb, 0xf7, 0x0d, 0x87, 0x56, 0x27, 0x8a, 0xeb, 0x42, 0xfa, 0x29, 0x51, 0x38, 0xaa, 0x99, 0xf7]),
    (200051, [0x43, 0x51, 0x63, 0xa6, 0xd9, 0xcf, 0x02, 0x0c, 0x56, 0xc1, 0xf8, 0x2a, 0xe2, 0xe4, 0xfc, 0x5b]),
    (200171, [0x80, 0x83, 0x5d, 0xa0, 0x21, 0xba, 0x3f, 0xe3, 0x21, 0x61, 0xf4, 0xa7, 0x8d, 0x2f, 0x8f, 0x5d]),
    (200172, [0x50, 0xf2, 0x3f, 0xa5, 0x91, 0x1d, 0x04, 0x75, 0x15, 0xf6, 0x88, 0x5f, 0x0b, 0x34, 0x28, 0xee]),
    (200173, [0x86, 0x57, 0xa9, 0x96, 0x0c, 0xbd, 0x9f, 0x9f, 0x95, 0x08, 0xea, 0x38, 0xd6, 0x81, 0x61, 0x91]),
    (200174, [0x7b, 0xda, 0x34, 0x24, 0x73, 0xfa, 0x7e, 0x17, 0x3a, 0x23, 0x47, 0x6a, 0x12, 0x05, 0x65, 0x3f]),
    (200175, [0xa7, 0x50, 0x0d, 0xf4, 0x81, 0x9a, 0x43, 0xbe, 0xc0, 0x2b, 0xfe, 0xe6, 0x2f, 0x93, 0xc3, 0x89]),
    (200176, [0x72, 0xe5, 0x4c, 0x8b, 0x95, 0xf2, 0xb2, 0xe9, 0x5a, 0xb3, 0x2c, 0x50, 0x84, 0x2e, 0x3a, 0x06]),
    (200177, [0x2a, 0xe2, 0x8a, 0xb6, 0x1b, 0x59, 0x77, 0x4a, 0xfd, 0x18, 0x4e, 0xea, 0x6e, 0x76, 0x0b, 0xda]),
    (200178, [0x71, 0xea, 0x90, 0x23, 0xca, 0x4d, 0x34, 0x89, 0x80, 0xfb, 0xf5, 0xc8, 0xc7, 0xb0, 0xe8, 0x56]),
    (200179, [0xbb, 0x16, 0x7e, 0x6d, 0xfb, 0xf5, 0x92, 0x63, 0xb6, 0x96, 0x30, 0xcb, 0x99, 0x24, 0xb3, 0xdb]),
    (200180, [0x6d, 0x97, 0x2a, 0x47, 0x48, 0xa5, 0xaa, 0x12, 0xc2, 0x21, 0x39, 0x92, 0xa8, 0x43, 0x04, 0xdb]),
    (200181, [0x37, 0x02, 0xd1, 0x13, 0x37, 0x64, 0x7e, 0x13, 0x34, 0x0f, 0x78, 0x69, 0x35, 0xfc, 0xa6, 0xf4]),
    (200182, [0x97, 0xf9, 0x5f, 0xb4, 0x81, 0xfe, 0x99, 0x05, 0x79, 0x7c, 0x94, 0xe7, 0x10, 0x71, 0x05, 0xc3]),
    (200183, [0x65, 0x8f, 0xfe, 0xd8, 0x8c, 0x89, 0xde, 0x49, 0x90, 0xf5, 0x67, 0x82, 0x7c, 0x32, 0x4a, 0x3c]),
    (200191, [0x27, 0x6a, 0xf7, 0x1a, 0x82, 0x79, 0xbd, 0xdc, 0xab, 0xf4, 0x91, 0xf2, 0x17, 0xf0, 0xb3, 0x69]),
    (200211, [0x58, 0xc7, 0xbf, 0xbb, 0xa9, 0xf4, 0x01, 0x8b, 0xab, 0xe0, 0x28, 0xf2, 0x0f, 0xca, 0x53, 0xab]),
    (200212, [0xbc, 0xe7, 0xd3, 0xc0, 0xdf, 0xb7, 0x6d, 0xb1, 0x61, 0xe6, 0x69, 0xea, 0x99, 0xc5, 0xa5, 0xbf]),
    (200231, [0x0d, 0x8a, 0x67, 0x1b, 0xc4, 0x7f, 0x84, 0xc3, 0x33, 0xab, 0x1c, 0xba, 0xa6, 0x5d, 0x88, 0x92]),
    (200241, [0x3b, 0xc0, 0x35, 0xc8, 0xbb, 0x7d, 0x62, 0x7d, 0xe5, 0x97, 0xbe, 0x5e, 0x2f, 0xeb, 0xc5, 0xa7]),
    (200261, [0xe9, 0x5a, 0xca, 0x24, 0xf6, 0x5e, 0x03, 0xf4, 0x08, 0xdf, 0xa0, 0x7c, 0xb7, 0x03, 0xdf, 0x1a]),
    (200281, [0x07, 0x81, 0xd4, 0xd3, 0xd5, 0xec, 0xf8, 0x4e, 0x24, 0x25, 0x51, 0xe7, 0xa9, 0x51, 0xfc, 0xda]),
    (200282, [0xc0, 0x4f, 0xb9, 0xa8, 0xd3, 0x11, 0x7a, 0xa0, 0x63, 0xa0, 0xf2, 0x17, 0x8d, 0x12, 0xe9, 0xd6]),
    (200283, [0xd5, 0x6a, 0x2f, 0x71, 0xa3, 0x07, 0x7d, 0xb7, 0xdf, 0xa3, 0x73, 0xd1, 0xe8, 0xb8, 0xf7, 0x2a]),
    (200284, [0x46, 0xc0, 0x0f, 0x36, 0x0b, 0x36, 0x0a, 0x52, 0x4c, 0x68, 0xd9, 0xde, 0x3c, 0xef, 0x1b, 0x22]),
    (200285, [0x2d, 0x74, 0x5e, 0x2f, 0xae, 0x2b, 0x90, 0x4a, 0x03, 0x58, 0x58, 0xa1, 0x0e, 0xdd, 0xcc, 0xc3]),
    (200320, [0xb1, 0xe0, 0xc6, 0xd4, 0xb4, 0xa5, 0x28, 0x3b, 0xa9, 0x24, 0xc6, 0x59, 0x7f, 0x3b, 0x9a, 0xbe]),
    (200321, [0x5f, 0x44, 0x50, 0x86, 0x3c, 0x01, 0xb1, 0x9a, 0xbe, 0x82, 0x32, 0x9d, 0x98, 0x87, 0xb5, 0x4b]),
    (200322, [0xee, 0x07, 0xf8, 0xf7, 0x7a, 0xf2, 0xc7, 0xdf, 0x7f, 0xcf, 0xaa, 0x53, 0x6f, 0x5c, 0xcf, 0x8c]),
    (200331, [0x60, 0xfb, 0xf1, 0x6c, 0x68, 0x93, 0x6c, 0x9f, 0x98, 0x3d, 0x7a, 0x70, 0x43, 0x6b, 0x9d, 0x4d]),
    (200351, [0x85, 0xbd, 0xf8, 0x0e, 0xa3, 0xb5, 0x1a, 0x95, 0x70, 0x57, 0x3d, 0xfb, 0xf9, 0xa1, 0xd4, 0x0e]),
    (200371, [0x08, 0x20, 0x76, 0x1a, 0x5c, 0x21, 0xdb, 0x0a, 0xa7, 0xa3, 0xd3, 0xe9, 0x18, 0x66, 0xa9, 0xf6]),
    (200392, [0x54, 0xb7, 0xc7, 0x1d, 0x55, 0xd9, 0x12, 0x35, 0x0c, 0x96, 0x5c, 0xfa, 0x64, 0x46, 0x57, 0xde]),
    (200393, [0x36, 0xbf, 0x85, 0x92, 0x78, 0x03, 0x93, 0xd9, 0x3f, 0x63, 0x95, 0x41, 0x4d, 0x6a, 0x61, 0x35]),
    (200394, [0x3e, 0xee, 0x1d, 0xf3, 0x39, 0x2d, 0x2e, 0x95, 0x92, 0xe9, 0x3e, 0xb6, 0x83, 0x75, 0xde, 0x88]),
    (200395, [0x5e, 0x2b, 0xd8, 0x47, 0x1b, 0xa6, 0xe1, 0x84, 0xd7, 0xbd, 0xee, 0xfe, 0xc3, 0x16, 0x05, 0xa1]),
    (200396, [0xac, 0xd3, 0x66, 0xcf, 0x6a, 0xef, 0x22, 0x4a, 0x00, 0xca, 0x96, 0x54, 0xe8, 0x83, 0x71, 0xdb]),
    (200397, [0xeb, 0xcf, 0x2d, 0x32, 0xc8, 0xce, 0x80, 0x16, 0xfb, 0xfb, 0x3e, 0x98, 0x6a, 0xb6, 0xc8, 0x7f]),
    (200401, [0xaf, 0xf9, 0x96, 0x72, 0xcd, 0x06, 0xf2, 0x14, 0x04, 0xec, 0xd1, 0xef, 0x42, 0xbd, 0xca, 0xce]),
    (200402, [0x7f, 0x63, 0x9c, 0x43, 0xf5, 0xa1, 0xa7, 0x35, 0x74, 0x48, 0x2d, 0xf7, 0x83, 0xdc, 0xfd, 0xb4]),
    (200411, [0xa7, 0x26, 0x6a, 0xe2, 0x6a, 0xd3, 0x17, 0x98, 0xfa, 0xdb, 0x89, 0x22, 0x45, 0xdd, 0x09, 0x09]),
    (200431, [0x97, 0x00, 0xa6, 0xf6, 0xca, 0xa2, 0x54, 0x1e, 0xed, 0xb9, 0x68, 0x66, 0x90, 0x16, 0x2e, 0x3e]),
    (200432, [0xf0, 0x33, 0x4a, 0xd6, 0xb4, 0x1e, 0x96, 0x2a, 0xd6, 0x20, 0x37, 0x7e, 0x17, 0xfb, 0x5b, 0x0a]),
    (200433, [0xb5, 0xe3, 0xe3, 0xfa, 0xe4, 0xb0, 0xea, 0x5f, 0x8f, 0xaa, 0xf4, 0x2b, 0x60, 0xf5, 0x54, 0x4e]),
    (200445, [0xaf, 0x46, 0x70, 0x8b, 0xa1, 0xb7, 0x38, 0x44, 0x24, 0x40, 0xd5, 0xe0, 0x2f, 0xa1, 0xe4, 0xd0]),
    (200446, [0x74, 0x4d, 0xe8, 0xc1, 0x68, 0x42, 0x54, 0xf8, 0xbc, 0x8a, 0x7d, 0x8b, 0x00, 0x1d, 0x28, 0xbc]),
    (200531, [0x3f, 0x18, 0xf8, 0x49, 0x1b, 0x36, 0x51, 0x33, 0x3a, 0xa3, 0x64, 0xe5, 0x8d, 0x12, 0x66, 0x4a]),
    (200551, [0x46, 0x32, 0x52, 0xdb, 0x38, 0x7e, 0xed, 0x05, 0x9f, 0x92, 0xd1, 0x63, 0xa2, 0x27, 0x2f, 0x43]),
    (200552, [0x28, 0xf4, 0x88, 0x38, 0x9e, 0x6f, 0x97, 0xf7, 0xef, 0xf2, 0x81, 0xfd, 0x53, 0x51, 0xf2, 0xf8]),
    (200553, [0xaf, 0x88, 0x82, 0x77, 0x2e, 0xf1, 0xe4, 0xc6, 0x77, 0xdf, 0x80, 0x12, 0xd6, 0x0e, 0x32, 0xe4]),
    (200554, [0xe4, 0xfd, 0xd5, 0xa7, 0xb6, 0xe4, 0x58, 0x0e, 0xfb, 0x7b, 0x6f, 0xd8, 0x41, 0x0c, 0x12, 0x3b]),
    (200560, [0xac, 0x18, 0x84, 0xa7, 0xaa, 0x30, 0xa0, 0x24, 0x60, 0x9f, 0x20, 0xdf, 0x85, 0x9c, 0x4f, 0xbf]),
    (200561, [0xb9, 0xcf, 0xcd, 0xb6, 0x75, 0xb7, 0xc1, 0xa8, 0xcc, 0xc3, 0xc1, 0x04, 0xaf, 0xda, 0x8c, 0x87]),
    (200562, [0xc1, 0x97, 0x13, 0xb7, 0x47, 0x05, 0x5f, 0x8b, 0x96, 0x57, 0xa5, 0x9e, 0xb1, 0xba, 0xf1, 0x52]),
    (200563, [0x2a, 0xfb, 0xce, 0xb2, 0x03, 0x21, 0xe3, 0xa2, 0x95, 0xc1, 0x4b, 0x47, 0x60, 0xca, 0xdb, 0x8d]),
    (200564, [0x05, 0x93, 0x9e, 0xd9, 0x26, 0x48, 0x53, 0x3b, 0x4d, 0x9c, 0xd1, 0x00, 0x39, 0x7d, 0xb8, 0x00]),
    (200571, [0x43, 0xfb, 0xa6, 0x87, 0x07, 0x6c, 0xc2, 0x12, 0x95, 0x61, 0x32, 0x7f, 0x72, 0xd6, 0x32, 0xdc]),
    (200572, [0x22, 0xc1, 0xd9, 0x78, 0x9e, 0x00, 0xf4, 0xa4, 0xef, 0x48, 0x11, 0x9e, 0x9e, 0x5a, 0x66, 0xfb]),
    (200610, [0xfc, 0xd8, 0x40, 0x37, 0x78, 0x4a, 0x9c, 0xd9, 0xc1, 0x6f, 0x49, 0x96, 0x33, 0x30, 0xfc, 0x65]),
    (200620, [0x81, 0x9b, 0x1e, 0x78, 0xc0, 0x20, 0xaf, 0x84, 0x36, 0x54, 0x02, 0xb0, 0x7b, 0xda, 0x3e, 0x19]),
    (200631, [0x24, 0x84, 0x59, 0x21, 0xc0, 0xa9, 0x4a, 0x58, 0x12, 0x1b, 0x15, 0x93, 0x3c, 0xcf, 0xdc, 0xd1]),
    (200651, [0xfc, 0x22, 0x0f, 0x38, 0x33, 0xa3, 0x43, 0x90, 0x9e, 0xf7, 0xa1, 0x04, 0xf8, 0x8e, 0x03, 0x9a])]"

definition TABLE_25 :: "key_entry list" where
  "TABLE_25 = [
    (200671, [0x64, 0xbb, 0x75, 0x50, 0x6c, 0xb4, 0xfc, 0x59, 0x7b, 0x5c, 0x76, 0x94, 0xeb, 0x22, 0x67, 0xea]),
    (200672, [0xd0, 0x2e, 0xdb, 0x0a, 0xf6, 0x09, 0x6b, 0x37, 0x82, 0x57, 0xc7, 0x0d, 0x42, 0x68, 0x29, 0x24]),
    (200673, [0x66, 0x60, 0xb1, 0x0c, 0x06, 0x5e, 0xf8, 0x74, 0xf9, 0x90, 0x7d, 0x84, 0x89, 0x80, 0x81, 0xa7]),
    (200770, [0xb1, 0x10, 0x66, 0x97, 0x30, 0x68, 0x18, 0x33, 0x29, 0x08, 0xeb, 0xaf, 0xad, 0x74, 0x88, 0x87]),
    (200780, [0xe7, 0x0a, 0x94, 0xb3, 0x6c, 0xed, 0x68, 0xbf, 0xa1, 0x57, 0xcf, 0xd7, 0x33, 0xe7, 0xbb, 0x8d]),
    (200790, [0xff, 0x65, 0xe8, 0xad, 0xcd, 0x73, 0xdb, 0xbe, 0x9f, 0xce, 0xad, 0x9e, 0x2d, 0x5a, 0xfe, 0x8a]),
    (200800, [0xf9, 0x82, 0x60, 0x93, 0x5b, 0x40, 0x48, 0x9f, 0x43, 0x88, 0xba, 0x24, 0xaf, 0xde, 0xe9, 0xe3]),
    (200810, [0x98, 0xda, 0x03, 0x78, 0x9e, 0x69, 0x81, 0xc4, 0x2d, 0x3d, 0x7d, 0x89, 0x42, 0xaa, 0xfa, 0x1b]),
    (200820, [0x92, 0x49, 0x73, 0x38, 0xa2, 0xd0, 0x99, 0x01, 0x76, 0xb1, 0x1b, 0x6c, 0x7f, 0xa7, 0x93, 0xfc]),
    (200830, [0xfd, 0x6e, 0xeb, 0xe8, 0xe2, 0x05, 0xea, 0x62, 0xb9, 0x4a, 0xc7, 0x94, 0x4b, 0xbc, 0x71, 0xdd]),
    (200840, [0xc3, 0xf2, 0xd1, 0x7a, 0x24, 0xfd, 0x04, 0xff, 0x4c, 0x6b, 0xb5, 0x6b, 0x1f, 0x29, 0x90, 0x65]),
    (200850, [0xe3, 0x72, 0x2d, 0x23, 0x48, 0x65, 0xdb, 0x42, 0x93, 0x88, 0xc0, 0xbe, 0x74, 0x95, 0x34, 0x34]),
    (200860, [0x94, 0x43, 0x4c, 0x58, 0xb6, 0x01, 0x16, 0x38, 0xe2, 0x68, 0x6f, 0x5e, 0x3e, 0x68, 0x16, 0x6d]),
    (200870, [0x90, 0xc8, 0xc1, 0x61, 0x58, 0x58, 0xc2, 0xd7, 0x71, 0x47, 0x2c, 0x1d, 0xeb, 0x07, 0x8c, 0x43]),
    (200880, [0x0b, 0x74, 0xa8, 0x37, 0xcd, 0xd8, 0x6e, 0x61, 0xdf, 0x7a, 0xc9, 0xaf, 0x81, 0x40, 0x00, 0x2f]),
    (200890, [0x64, 0x3a, 0xc4, 0x39, 0xf2, 0xdd, 0x22, 0x03, 0xc4, 0xbd, 0x52, 0xa1, 0x71, 0x9f, 0xeb, 0xac]),
    (200901, [0x10, 0xbe, 0x39, 0x39, 0xfb, 0xe8, 0xe0, 0x93, 0xbc, 0xce, 0x9c, 0x93, 0xbe, 0xbf, 0xf9, 0xc8]),
    (200902, [0x01, 0xd5, 0xfd, 0x08, 0xe8, 0x52, 0x69, 0x85, 0xcd, 0x76, 0x54, 0x0b, 0xa9, 0x6d, 0xae, 0x50]),
    (200903, [0x7f, 0x1d, 0x7d, 0xa0, 0x8d, 0x16, 0x85, 0x5d, 0x44, 0x2d, 0x69, 0x4d, 0x36, 0xe7, 0x1b, 0x6a]),
    (200904, [0xa0, 0xeb, 0x83, 0x33, 0xb1, 0x8e, 0x20, 0x06, 0x4a, 0xd7, 0x53, 0xdd, 0xb0, 0x19, 0xc0, 0xc7]),
    (200911, [0x9d, 0x6c, 0xec, 0xf4, 0xe0, 0x5d, 0xd9, 0x03, 0xde, 0x6a, 0xaf, 0x27, 0xce, 0xd1, 0xb5, 0x9b]),
    (200941, [0xfe, 0x63, 0x82, 0x1d, 0xc3, 0xf0, 0xc7, 0xd6, 0x00, 0x4a, 0xa6, 0x15, 0x03, 0x7d, 0x29, 0x27]),
    (200961, [0xea, 0x46, 0x11, 0x11, 0xe5, 0xaa, 0xeb, 0x5f, 0x8d, 0x39, 0xc5, 0x74, 0xbc, 0xbd, 0x96, 0xae]),
    (200981, [0xb2, 0xa6, 0x32, 0xca, 0xc3, 0x47, 0xce, 0x2c, 0x18, 0x0c, 0x75, 0xd3, 0xf3, 0x88, 0xbb, 0xc1]),
    (200991, [0x62, 0x69, 0x26, 0xcb, 0x41, 0x39, 0xd6, 0x3f, 0x08, 0x79, 0xbb, 0xb9, 0x40, 0xc5, 0x98, 0x45]),
    (201001, [0x77, 0xa1, 0xab, 0xc0, 0xce, 0xd5, 0x65, 0x5b, 0x19, 0xe7, 0x27, 0xf0, 0xdb, 0x86, 0xb8, 0xa5]),
    (201011, [0xf6, 0x0c, 0x5b, 0x6f, 0x97, 0x9f, 0x0b, 0x0f, 0x67, 0x87, 0x18, 0x86, 0xcf, 0x20, 0x50, 0x50]),
    (201061, [0xcd, 0xfd, 0x75, 0xe2, 0xcd, 0xfc, 0x84, 0xa2, 0xbc, 0x88, 0x0f, 0x7f, 0x29, 0x4f, 0xc5, 0x6a]),
    (201071, [0x5b, 0x0e, 0x0b, 0xff, 0xcd, 0x60, 0x45, 0xce, 0x1f, 0x38, 0xca, 0x65, 0x95, 0xb4, 0xae, 0x11]),
    (201091, [0xda, 0xe6, 0x36, 0xe2, 0x4b, 0x87, 0x52, 0x19, 0xf0, 0x0f, 0x4e, 0x5e, 0xbd, 0x68, 0x69, 0xa7]),
    (201092, [0xa4, 0x64, 0x5d, 0x10, 0x51, 0xc6, 0x6c, 0x4a, 0x7a, 0xf0, 0xe3, 0x2b, 0xa9, 0x59, 0xe9, 0xc4]),
    (201121, [0x05, 0x4a, 0x73, 0x1d, 0xac, 0x38, 0x7a, 0x18, 0xf1, 0xce, 0x8e, 0xfb, 0x62, 0x1a, 0xa1, 0xd0]),
    (201161, [0x02, 0x04, 0x62, 0x48, 0x64, 0x66, 0x10, 0x75, 0x1a, 0x3d, 0x2b, 0x85, 0x55, 0x29, 0x57, 0x62]),
    (201171, [0x5b, 0xd7, 0x65, 0x28, 0x7c, 0xaf, 0x1b, 0x3f, 0x92, 0xba, 0x60, 0xac, 0xea, 0x1d, 0xd3, 0x1e]),
    (201191, [0x49, 0x06, 0xea, 0xeb, 0xa3, 0x0d, 0x12, 0xbc, 0x62, 0xbb, 0xe8, 0x84, 0x3d, 0xc4, 0x4a, 0x94]),
    (201192, [0x76, 0xff, 0x4e, 0xce, 0x99, 0x09, 0xb8, 0x9f, 0xbb, 0x24, 0x4b, 0xb6, 0x85, 0x74, 0x28, 0x1e]),
    (201193, [0xd4, 0xd6, 0x86, 0x21, 0xc1, 0xde, 0x28, 0x3c, 0xd8, 0x68, 0x90, 0x20, 0x58, 0xfd, 0xa7, 0x1c]),
    (201194, [0x3c, 0x05, 0x65, 0xe4, 0xdc, 0x34, 0x65, 0xbf, 0xd1, 0xfc, 0x80, 0xa4, 0xed, 0x07, 0x9e, 0x56]),
    (201195, [0xb1, 0x62, 0x4d, 0x7f, 0x0b, 0x66, 0xf4, 0xb5, 0xcb, 0x1a, 0x1a, 0x80, 0x0d, 0x2c, 0x58, 0xb6]),
    (201196, [0x85, 0x6c, 0xd8, 0xe6, 0x72, 0x56, 0x77, 0x30, 0xb8, 0x1d, 0xa7, 0x57, 0x3d, 0x8f, 0xfb, 0x2a]),
    (201211, [0xec, 0x9a, 0x5d, 0xa9, 0x79, 0x46, 0x1b, 0xb7, 0x26, 0xa7, 0x1c, 0xe9, 0x63, 0x3a, 0x72, 0x39]),
    (201231, [0xf8, 0x84, 0x3a, 0xd8, 0x35, 0xc9, 0x73, 0x79, 0x73, 0xb8, 0x25, 0xce, 0xf6, 0x5e, 0x37, 0xff]),
    (201232, [0x47, 0xce, 0x0f, 0xd7, 0xbd, 0xca, 0xc3, 0xa2, 0xad, 0x14, 0x46, 0x16, 0xfe, 0x9c, 0xee, 0xd7]),
    (201233, [0x95, 0xa8, 0x26, 0xb2, 0x25, 0xa7, 0x28, 0xbf, 0x92, 0xba, 0x17, 0xfb, 0x98, 0x19, 0xc1, 0x2b]),
    (201234, [0x0a, 0x4b, 0x1a, 0x95, 0xff, 0xf1, 0xf2, 0xb8, 0x53, 0x77, 0x51, 0x6a, 0x65, 0xdd, 0xf0, 0x9e]),
    (201235, [0xf8, 0xc1, 0x6c, 0xcc, 0x8c, 0xfd, 0x52, 0x43, 0x28, 0xbb, 0x1b, 0x54, 0xb3, 0x77, 0x5b, 0x20]),
    (201271, [0xf3, 0xa2, 0x7e, 0x5c, 0x88, 0xce, 0x5d, 0xba, 0x6e, 0xd0, 0xe2, 0x43, 0x8d, 0x8e, 0x19, 0xc9]),
    (201278, [0x73, 0x7e, 0xf3, 0x6a, 0x28, 0x1a, 0x24, 0x29, 0xff, 0xbb, 0x66, 0xc9, 0x00, 0x61, 0xfa, 0x17]),
    (201281, [0xea, 0xcd, 0x02, 0x00, 0x84, 0xbf, 0x63, 0xd3, 0x01, 0x50, 0xc1, 0x4d, 0x25, 0xff, 0x2c, 0xd8]),
    (201282, [0x01, 0x54, 0xb9, 0x1a, 0x6f, 0xfb, 0x10, 0xee, 0x53, 0x82, 0xa7, 0x24, 0x3e, 0xa4, 0x43, 0xd5]),
    (201283, [0x32, 0x19, 0x1c, 0x40, 0x56, 0x68, 0xb1, 0x7d, 0x90, 0x86, 0x2e, 0xd5, 0xf7, 0x9b, 0x5d, 0x54]),
    (201284, [0xe5, 0xac, 0xb8, 0xbc, 0x0f, 0x02, 0xdb, 0xc3, 0xb7, 0x77, 0x2f, 0x12, 0xcf, 0x42, 0xdd, 0x68]),
    (201285, [0x69, 0x64, 0xd5, 0x92, 0x74, 0x42, 0xfa, 0xe4, 0x5a, 0x22, 0xd6, 0x84, 0xcd, 0x8e, 0x26, 0x7e]),
    (201286, [0xb7, 0x6a, 0x09, 0x10, 0xcc, 0xf3, 0xbc, 0xfe, 0x04, 0x4f, 0x73, 0x7d, 0x96, 0x93, 0xbe, 0xc0]),
    (201287, [0x90, 0x50, 0x6c, 0xab, 0x9d, 0xbe, 0x0c, 0x2d, 0x3d, 0x60, 0xc5, 0x41, 0xeb, 0xe3, 0x62, 0xc2]),
    (201288, [0xd7, 0x5c, 0xfc, 0x4e, 0x3c, 0xca, 0xc5, 0x72, 0xd8, 0xbe, 0xce, 0xed, 0x8f, 0x90, 0x47, 0x78]),
    (201289, [0x79, 0x1a, 0x84, 0xc5, 0xae, 0xde, 0xb9, 0x16, 0xda, 0xc0, 0xb2, 0xbb, 0x24, 0x69, 0x44, 0x78]),
    (201291, [0x23, 0x05, 0xa7, 0xaa, 0xd7, 0x89, 0x4a, 0xdc, 0x9b, 0xa8, 0xb1, 0xc2, 0xa9, 0xf1, 0xed, 0xaa]),
    (201311, [0x3c, 0xae, 0x91, 0x79, 0xdf, 0xde, 0x1d, 0x41, 0x4f, 0x7c, 0x08, 0x2c, 0x61, 0x97, 0x6e, 0xaf]),
    (201312, [0x6d, 0x31, 0x11, 0xc4, 0xbf, 0x41, 0x3c, 0x0b, 0x1c, 0x53, 0xbb, 0xff, 0xf9, 0x12, 0xa4, 0xa1]),
    (201313, [0x46, 0xe9, 0x11, 0x9e, 0xfc, 0xb4, 0xfe, 0xfb, 0x1c, 0xa4, 0x73, 0x6b, 0x56, 0x52, 0xb3, 0x6e]),
    (201314, [0x77, 0xa6, 0x75, 0x64, 0x3b, 0x62, 0x8e, 0xe0, 0xac, 0xff, 0x44, 0x93, 0x83, 0xec, 0x24, 0x37]),
    (201315, [0x9b, 0x75, 0x62, 0x52, 0x30, 0xc4, 0xcc, 0x70, 0x16, 0xa5, 0xed, 0xb4, 0x8c, 0x69, 0x90, 0x78]),
    (201316, [0xba, 0xb9, 0xe5, 0xc9, 0x63, 0xd4, 0x39, 0x4e, 0x24, 0x59, 0x44, 0x04, 0xdb, 0x2f, 0xd9, 0xe7]),
    (201317, [0xe3, 0xe3, 0x95, 0x08, 0xc6, 0x34, 0xba, 0xa8, 0x42, 0x8e, 0x4c, 0x05, 0x1b, 0x13, 0xaa, 0xf6]),
    (201318, [0x2e, 0xce, 0x39, 0x44, 0xf8, 0x51, 0x86, 0xdf, 0xaa, 0x10, 0xa6, 0xb8, 0x85, 0x6e, 0xc9, 0xd6]),
    (201319, [0x6b, 0x7a, 0x0c, 0x0a, 0xbc, 0x76, 0xef, 0xa8, 0xa0, 0xb8, 0xb1, 0x7b, 0x6d, 0x8d, 0x48, 0xd6]),
    (201341, [0xd8, 0xb6, 0xf9, 0x60, 0x1b, 0x35, 0xfb, 0xce, 0x2e, 0x6e, 0x1c, 0x7e, 0x1d, 0xdb, 0xae, 0xdd]),
    (201342, [0x8b, 0x1c, 0xf1, 0x6b, 0xcb, 0xaa, 0x51, 0x7a, 0x46, 0xe5, 0x89, 0xbe, 0x48, 0xf4, 0xc4, 0xc6]),
    (201343, [0xad, 0xae, 0xeb, 0x1e, 0xde, 0xa2, 0xbd, 0x7c, 0xb3, 0x97, 0xbc, 0xfe, 0x87, 0x51, 0x48, 0x53]),
    (201344, [0x0a, 0x88, 0x7a, 0x12, 0x20, 0xfa, 0xc8, 0x6b, 0x83, 0x1c, 0x5d, 0x0a, 0x2d, 0xb3, 0x18, 0x58]),
    (201345, [0x64, 0x54, 0x11, 0xaf, 0xd8, 0x34, 0x47, 0x25, 0x9e, 0x73, 0x1c, 0x6b, 0xee, 0x7f, 0xec, 0x2f]),
    (201421, [0x74, 0x0b, 0x7f, 0xbb, 0xe4, 0xd5, 0x72, 0x45, 0xef, 0xeb, 0x23, 0x74, 0xe7, 0xc6, 0xfe, 0x00]),
    (201422, [0x33, 0x26, 0xcc, 0x85, 0x05, 0xa5, 0x8a, 0xa0, 0xc0, 0x70, 0xd8, 0xd2, 0x25, 0x65, 0x5e, 0x10]),
    (201481, [0x20, 0x07, 0x3b, 0x55, 0xc9, 0x5c, 0xd5, 0x4e, 0x59, 0x46, 0xf4, 0x49, 0x0b, 0xe8, 0x9d, 0x3e]),
    (201491, [0x80, 0x50, 0x2a, 0xe4, 0x05, 0x73, 0x7b, 0xeb, 0x74, 0x44, 0xab, 0xd9, 0x40, 0x8a, 0x89, 0x7d]),
    (201492, [0xf2, 0x70, 0x4b, 0x97, 0x92, 0x5e, 0xa8, 0x47, 0x02, 0x54, 0xb4, 0xd6, 0xcc, 0xa4, 0xdc, 0x84]),
    (201493, [0x2d, 0x40, 0x81, 0xc4, 0x53, 0x5d, 0xb4, 0xe6, 0x5b, 0x0c, 0x0e, 0x3d, 0xad, 0xba, 0xab, 0xae]),
    (201494, [0x29, 0xcd, 0x9f, 0x80, 0x39, 0x26, 0xeb, 0x0b, 0xea, 0xe8, 0x4e, 0xbd, 0x45, 0x30, 0x29, 0x95]),
    (201495, [0x0a, 0x08, 0xa0, 0x87, 0xa4, 0x02, 0x4a, 0xcb, 0xce, 0x1e, 0xb6, 0xfc, 0x35, 0xa5, 0x77, 0xe7]),
    (201511, [0xad, 0xa4, 0x1c, 0x27, 0x6d, 0xc1, 0xc4, 0xb2, 0xdc, 0xf8, 0x4e, 0xac, 0x90, 0xd7, 0x4a, 0x35]),
    (201563, [0x92, 0x46, 0xab, 0xe9, 0x6c, 0x4b, 0x68, 0xe6, 0x8b, 0x86, 0xa7, 0x89, 0xa5, 0x48, 0x4b, 0x3f]),
    (201564, [0x37, 0x31, 0xd9, 0xff, 0xfa, 0xee, 0x7e, 0xc4, 0x12, 0x32, 0x51, 0x93, 0xd3, 0x20, 0xec, 0xa4]),
    (201565, [0x27, 0x0c, 0xe0, 0x9c, 0x5b, 0xa0, 0xa1, 0x26, 0x5e, 0x0d, 0x60, 0xf1, 0x4e, 0xdf, 0x38, 0x32]),
    (201566, [0x32, 0xe3, 0x68, 0xd3, 0xf4, 0x52, 0x5a, 0x76, 0x97, 0x15, 0x3e, 0x03, 0x05, 0x29, 0x33, 0x7d]),
    (201567, [0xe5, 0xfb, 0x73, 0x3e, 0xb9, 0x6f, 0x63, 0x2e, 0xde, 0xf9, 0x97, 0xb9, 0xa0, 0xc2, 0xb8, 0xb6]),
    (201568, [0xbc, 0xf7, 0xb2, 0x53, 0xb2, 0x55, 0xfd, 0xf1, 0x6a, 0x1e, 0xb3, 0x80, 0x00, 0xd7, 0x5d, 0xfb]),
    (201571, [0x72, 0xe4, 0x97, 0xc9, 0x2c, 0x8a, 0x4b, 0xb5, 0x80, 0x52, 0x2c, 0x11, 0xf5, 0x2c, 0x7e, 0xb6]),
    (201601, [0xc3, 0x47, 0xf2, 0x16, 0xb3, 0x45, 0x63, 0xa0, 0x0f, 0xe5, 0x4b, 0x44, 0xd4, 0x1f, 0xc9, 0x49]),
    (201602, [0xd0, 0x1b, 0x41, 0xed, 0x59, 0xe5, 0x51, 0x61, 0x61, 0x65, 0xb3, 0x7b, 0x71, 0xe1, 0x6b, 0xcd]),
    (201641, [0x58, 0x7d, 0x9e, 0x6c, 0xe8, 0x1d, 0x75, 0x98, 0x71, 0xa8, 0x7c, 0x33, 0x69, 0x2e, 0x26, 0xa7]),
    (201681, [0xea, 0x2c, 0x56, 0x7c, 0x82, 0x23, 0xec, 0x0f, 0x0d, 0xa2, 0xb7, 0x82, 0xb3, 0x14, 0x29, 0xb4]),
    (201701, [0xf0, 0xed, 0x49, 0xba, 0x49, 0x2f, 0xbb, 0x4d, 0x7b, 0xf2, 0x88, 0xf2, 0x41, 0x50, 0xfa, 0x2b]),
    (201702, [0x33, 0xde, 0xbe, 0x9f, 0xfa, 0x58, 0x97, 0x3a, 0xba, 0xc2, 0xbf, 0x93, 0x13, 0x09, 0x98, 0x11]),
    (201741, [0x64, 0x5b, 0x36, 0x63, 0xf5, 0x98, 0x0f, 0xcd, 0xb4, 0xa6, 0x70, 0xad, 0x1b, 0xef, 0xe7, 0x1a]),
    (201742, [0xb2, 0x65, 0x0f, 0x3f, 0xb0, 0xd9, 0xf8, 0x99, 0x8b, 0x25, 0xb4, 0xfb, 0x8a, 0x7d, 0x83, 0x87]),
    (201743, [0x0e, 0x62, 0x9e, 0x75, 0xeb, 0x12, 0x69, 0x33, 0x7d, 0x63, 0x3e, 0x6a, 0xdc, 0x41, 0x1c, 0xd4]),
    (201751, [0x88, 0x3f, 0xa4, 0x28, 0x1a, 0xbe, 0x8b, 0x8e, 0x2a, 0xfd, 0xb1, 0xd9, 0xa0, 0x9b, 0x58, 0x42]),
    (201752, [0xd3, 0x26, 0x35, 0xf7, 0x0b, 0x8a, 0xcb, 0x8e, 0xad, 0x18, 0x79, 0x45, 0x65, 0xfe, 0xb4, 0x7a]),
    (201753, [0x34, 0xda, 0x10, 0x51, 0x41, 0x76, 0x4b, 0x75, 0x38, 0x8f, 0x39, 0xbd, 0xe3, 0xef, 0xdb, 0x3e]),
    (201761, [0xa5, 0x37, 0xf2, 0x42, 0x42, 0xfd, 0xf0, 0x36, 0x2d, 0x33, 0x0b, 0xc7, 0xa8, 0x77, 0xff, 0xb5]),
    (201762, [0x97, 0x27, 0xd2, 0xb5, 0x47, 0xfc, 0x9f, 0x72, 0x5c, 0xff, 0x3e, 0xe9, 0xb3, 0xc1, 0xaa, 0x5b]),
    (201763, [0x17, 0x4e, 0x16, 0x37, 0x03, 0x75, 0x08, 0xb3, 0xe2, 0x3c, 0x91, 0xcc, 0x76, 0x52, 0xd9, 0xf2]),
    (201764, [0x7c, 0x14, 0x1a, 0x5c, 0x20, 0xee, 0x34, 0x20, 0x16, 0xd4, 0x7e, 0x05, 0xb5, 0x6b, 0xef, 0xfc]),
    (201765, [0x98, 0x38, 0x6e, 0x6f, 0x71, 0xa4, 0x19, 0xf8, 0xeb, 0xf8, 0x3e, 0x40, 0x2c, 0x53, 0x2b, 0x89]),
    (201766, [0x2f, 0x39, 0x79, 0xce, 0xb3, 0xc1, 0xa4, 0x0b, 0xc1, 0x95, 0x83, 0x1f, 0xc5, 0x38, 0xdc, 0xb9]),
    (201831, [0x92, 0x67, 0x85, 0xe2, 0xd7, 0xca, 0xe0, 0x4a, 0x20, 0xf5, 0x73, 0x8c, 0x9e, 0xc1, 0xbe, 0x60]),
    (201832, [0xbc, 0x22, 0xc5, 0x2c, 0xf7, 0x9a, 0xb9, 0xa1, 0xc2, 0x1e, 0x9d, 0x32, 0xdd, 0x96, 0x13, 0x7f]),
    (201871, [0x06, 0x2b, 0x45, 0x03, 0xa3, 0xb7, 0x9e, 0xaa, 0x70, 0xa2, 0x6d, 0x12, 0xb2, 0xb9, 0x06, 0x68]),
    (201872, [0x05, 0x5c, 0x7b, 0x29, 0xd8, 0x0a, 0x24, 0xc5, 0x82, 0xf7, 0x4b, 0xa8, 0x02, 0xd7, 0x30, 0x65]),
    (201873, [0xc2, 0x97, 0x7c, 0xad, 0x49, 0xe5, 0x41, 0xf1, 0x71, 0xff, 0x20, 0x51, 0x95, 0xa1, 0x87, 0xad]),
    (201878, [0x63, 0x42, 0xea, 0x95, 0x5f, 0x64, 0xa0, 0x86, 0x83, 0x57, 0xc5, 0x95, 0xf0, 0x61, 0xd1, 0xaf]),
    (201879, [0x63, 0x42, 0xea, 0x95, 0x5f, 0x64, 0xa0, 0x86, 0x83, 0x57, 0xc5, 0x95, 0xf0, 0x61, 0xd1, 0xaf]),
    (201880, [0x63, 0x42, 0xea, 0x95, 0x5f, 0x64, 0xa0, 0x86, 0x83, 0x57, 0xc5, 0x95, 0xf0, 0x61, 0xd1, 0xaf]),
    (201882, [0x38, 0xd3, 0xda, 0x0d, 0x65, 0xd5, 0xa5, 0x77, 0x4b, 0x40, 0xa5, 0xc8, 0x96, 0xfb, 0xaa, 0xc6]),
    (201891, [0xa3, 0x9f, 0x09, 0x5c, 0x48, 0x1c, 0x1f, 0x0a, 0x56, 0xdc, 0xc8, 0xba, 0x58, 0xff, 0x42, 0xd2]),
    (201931, [0xb8, 0xe4, 0xa8, 0x48, 0x83, 0xe3, 0xfa, 0x7e, 0xcb, 0xb9, 0x7c, 0xd5, 0x8a, 0xda, 0x59, 0x79]),
    (202001, [0x06, 0x0a, 0xc0, 0xc9, 0x15, 0x4b, 0x5a, 0x47, 0xc8, 0x7e, 0xa1, 0x4f, 0x85, 0x9f, 0xe9, 0x73]),
    (202002, [0x03, 0x5a, 0x08, 0x39, 0x93, 0xda, 0x0e, 0x40, 0x1c, 0x8e, 0xe0, 0xdb, 0x50, 0x77, 0x1a, 0x34]),
    (202010, [0xfd, 0xdd, 0x14, 0xb9, 0xae, 0x0a, 0x0f, 0xc4, 0x36, 0x7f, 0xe0, 0x2e, 0x1a, 0xa8, 0x0c, 0x5a]),
    (202020, [0xe7, 0x8e, 0x7f, 0xba, 0x0c, 0xa3, 0x90, 0xa3, 0x62, 0x16, 0xbb, 0xb8, 0x82, 0xcf, 0x98, 0xda]),
    (202030, [0x7d, 0x94, 0x79, 0xf0, 0x72, 0xb6, 0xa1, 0x8c, 0x1f, 0x9e, 0x73, 0x90, 0x70, 0x43, 0xe2, 0x75]),
    (202040, [0xdd, 0x08, 0xad, 0x8c, 0x31, 0xe9, 0x92, 0xea, 0x81, 0x06, 0x5a, 0x6a, 0xd3, 0x8d, 0x6e, 0xce]),
    (202071, [0x49, 0x77, 0x11, 0xc9, 0xaf, 0x89, 0x28, 0x22, 0xd0, 0x86, 0x54, 0x58, 0xae, 0x79, 0x24, 0x15]),
    (202092, [0xa7, 0x0e, 0x5f, 0x36, 0x59, 0x90, 0xd3, 0x2b, 0x83, 0x22, 0x93, 0x38, 0xea, 0x11, 0x3f, 0xc8]),
    (202111, [0x6a, 0x82, 0xe6, 0xba, 0x95, 0x01, 0x05, 0x15, 0xc2, 0xb4, 0x62, 0xc9, 0x44, 0x33, 0x5b, 0x49]),
    (202112, [0x94, 0x9a, 0x3e, 0xc4, 0x89, 0x38, 0x3f, 0xd7, 0x50, 0xa3, 0xf1, 0x9e, 0xc3, 0xc4, 0x14, 0x6a]),
    (202201, [0xb6, 0x11, 0xbe, 0x36, 0x95, 0xe1, 0xed, 0x46, 0x36, 0x77, 0xb6, 0xd8, 0x00, 0x05, 0x6a, 0xb2]),
    (202220, [0x52, 0xe5, 0xac, 0x81, 0x96, 0xb5, 0x9d, 0x01, 0x0e, 0x59, 0x21, 0xb7, 0xda, 0x6e, 0xfc, 0xae]),
    (202230, [0x7a, 0x89, 0x4d, 0xa7, 0xbe, 0x6a, 0x27, 0x8e, 0x82, 0xf7, 0xf5, 0x79, 0x85, 0x93, 0x1f, 0xc5]),
    (202240, [0x14, 0xc1, 0x25, 0x2e, 0x5a, 0x5f, 0xba, 0x5e, 0x81, 0x83, 0xaf, 0x72, 0xf6, 0x34, 0xc4, 0xe6]),
    (202291, [0x82, 0x39, 0x82, 0xdf, 0x59, 0x3d, 0x4e, 0x5d, 0xad, 0x29, 0x15, 0x46, 0x98, 0xfb, 0xe4, 0x4a]),
    (202311, [0xf4, 0xf6, 0x6f, 0x89, 0x62, 0x34, 0x25, 0xd0, 0xc7, 0x3e, 0xf4, 0xac, 0x57, 0x07, 0x31, 0xdd]),
    (202371, [0x17, 0x63, 0x3e, 0x2c, 0xe8, 0xa2, 0x58, 0x5a, 0xaf, 0xff, 0x9e, 0x49, 0xeb, 0xfd, 0x67, 0xeb]),
    (202391, [0x42, 0x4a, 0xb7, 0x9c, 0x21, 0x30, 0xf5, 0x62, 0x0e, 0xb9, 0xce, 0xd0, 0x0c, 0xdf, 0x50, 0x90]),
    (202392, [0x6a, 0x6a, 0x6b, 0x70, 0x14, 0x25, 0x62, 0xac, 0x05, 0xf0, 0xcb, 0x81, 0x8a, 0x14, 0xe9, 0xb5]),
    (202393, [0x17, 0xab, 0xee, 0x10, 0x1b, 0xb3, 0xb0, 0x70, 0x43, 0x95, 0x7e, 0xf1, 0xae, 0xee, 0x42, 0x36]),
    (202411, [0x6f, 0x83, 0x1c, 0xe8, 0xa5, 0x06, 0x22, 0x9d, 0xd1, 0xf5, 0x78, 0xb8, 0x03, 0xa5, 0xc8, 0xe5]),
    (202412, [0xd7, 0x4d, 0xeb, 0xdc, 0x52, 0x41, 0xd1, 0x1b, 0xd9, 0x87, 0x0a, 0xbe, 0x2b, 0x2f, 0x98, 0xea]),
    (202413, [0x2e, 0x87, 0x31, 0x07, 0x8f, 0xe7, 0x3a, 0xe9, 0x96, 0xe5, 0x68, 0x7e, 0xf6, 0x3f, 0xd9, 0x18]),
    (202431, [0x2c, 0x99, 0xf2, 0x04, 0x8b, 0xc5, 0xe8, 0x63, 0xc3, 0xfa, 0x10, 0x7e, 0xa0, 0x29, 0x6a, 0xdc]),
    (202461, [0x32, 0xf8, 0x65, 0xe9, 0x1c, 0x7c, 0xfe, 0xb4, 0x64, 0x3e, 0x0c, 0x22, 0x3b, 0xd5, 0x45, 0xa2]),
    (202462, [0xa1, 0x06, 0x82, 0xd7, 0xad, 0xc0, 0x70, 0x47, 0x4c, 0x2b, 0x9a, 0xdf, 0xab, 0x4e, 0x2b, 0x99]),
    (202463, [0x39, 0x61, 0xc4, 0xc5, 0xe5, 0x86, 0x0b, 0x23, 0x2b, 0x53, 0x7e, 0x77, 0xd0, 0x45, 0xfd, 0x45]),
    (202464, [0x28, 0xee, 0x72, 0xda, 0x9b, 0xa4, 0x3d, 0x8f, 0xf6, 0x7c, 0xff, 0xe6, 0xec, 0x49, 0x10, 0xe6]),
    (202465, [0xa0, 0xec, 0xf2, 0x23, 0xc9, 0x1b, 0x42, 0x5b, 0xa6, 0x6c, 0x34, 0xb2, 0x11, 0xd6, 0x61, 0xda]),
    (202466, [0xd7, 0x95, 0x4c, 0x99, 0x39, 0x15, 0xbf, 0xfa, 0xb9, 0xd0, 0x4b, 0xff, 0x16, 0x9d, 0x59, 0xdd]),
    (202467, [0xea, 0x69, 0x5f, 0xf4, 0x29, 0x91, 0xaa, 0xf7, 0x3b, 0x67, 0xa1, 0xc2, 0xa8, 0x52, 0x43, 0xb9]),
    (202481, [0xe9, 0x14, 0x22, 0x7d, 0xa7, 0x27, 0x24, 0xc0, 0xa1, 0x56, 0xfe, 0xda, 0x80, 0xf4, 0x7b, 0x3c]),
    (202485, [0x73, 0xf6, 0x28, 0x99, 0x9f, 0x64, 0xdb, 0x6d, 0x2f, 0xf0, 0xa4, 0xef, 0x9c, 0x57, 0x6d, 0xd1])]"

definition TABLE_26 :: "key_entry list" where
  "TABLE_26 = [
    (202522, [0x2e, 0x7b, 0x21, 0x17, 0x7b, 0x10, 0x13, 0xdb, 0x5b, 0x4d, 0xd6, 0x3c, 0x8c, 0x89, 0xa9, 0x40]),
    (202531, [0x38, 0xaf, 0xe6, 0xa8, 0xdc, 0xe1, 0x54, 0x99, 0x4a, 0x39, 0x55, 0x49, 0xab, 0x0d, 0xd9, 0x15]),
    (202591, [0xcb, 0x8f, 0x7c, 0x7c, 0x54, 0xdf, 0x80, 0x05, 0x7f, 0xce, 0x6c, 0x73, 0x6a, 0x05, 0x94, 0xb4]),
    (202611, [0xa3, 0xf4, 0x73, 0xaa, 0x20, 0x76, 0xfc, 0xf2, 0xfe, 0x1a, 0x60, 0x6f, 0xb0, 0xb3, 0x85, 0x74]),
    (202612, [0x5b, 0xd2, 0x41, 0x65, 0xb5, 0x4f, 0x8c, 0xf1, 0xd7, 0xee, 0x01, 0x4d, 0xfd, 0x82, 0x4f, 0xc5]),
    (202613, [0x0f, 0x11, 0x34, 0xa0, 0x5c, 0x0a, 0x6d, 0xdc, 0x0e, 0x83, 0xf5, 0xb2, 0xc5, 0x29, 0x8a, 0xf4]),
    (202631, [0x72, 0x05, 0x0b, 0xff, 0x08, 0x4e, 0x28, 0xf7, 0x51, 0x81, 0xb5, 0x68, 0x60, 0xcc, 0xaf, 0x8c]),
    (202632, [0xce, 0x6d, 0x8d, 0xff, 0x44, 0x7d, 0xf0, 0xb7, 0xdb, 0xef, 0x07, 0x3c, 0x92, 0x71, 0x95, 0x3d]),
    (202633, [0x36, 0x98, 0xa5, 0x6d, 0xde, 0x0a, 0xee, 0x51, 0xc4, 0x89, 0xc3, 0x21, 0x17, 0x56, 0x34, 0x2a]),
    (202651, [0x22, 0xa6, 0x0a, 0x16, 0x6f, 0x58, 0x7b, 0x6f, 0xb5, 0x96, 0x2d, 0xdc, 0x55, 0x4c, 0x33, 0xa6]),
    (202671, [0x3b, 0x50, 0xe3, 0x51, 0x1f, 0xdb, 0x0a, 0x07, 0x89, 0xdb, 0x05, 0xb5, 0x32, 0xcf, 0x75, 0x03]),
    (202672, [0x92, 0x27, 0xa1, 0xa9, 0x21, 0xa3, 0x36, 0xe2, 0x43, 0x46, 0xdb, 0x49, 0xbf, 0xd2, 0x46, 0x75]),
    (202691, [0xcd, 0xc1, 0xa2, 0x0d, 0x66, 0xd2, 0x77, 0xec, 0x37, 0x62, 0x8e, 0x3c, 0x76, 0x55, 0x24, 0x60]),
    (202711, [0x3c, 0x27, 0x9d, 0x0c, 0xa7, 0x69, 0x05, 0x4a, 0xe5, 0x5f, 0x90, 0xa4, 0x7d, 0x37, 0xa3, 0x71]),
    (202731, [0xc4, 0x7e, 0xca, 0x20, 0x2d, 0x61, 0x99, 0x4e, 0xbb, 0x29, 0xe2, 0x56, 0xc9, 0x4a, 0x98, 0x6d]),
    (202732, [0x1e, 0xe6, 0xe6, 0xfc, 0xc2, 0xeb, 0x83, 0x26, 0xb7, 0x31, 0xfe, 0x9e, 0x4e, 0xd1, 0x52, 0x6f]),
    (202751, [0x4b, 0x72, 0x91, 0xf8, 0xef, 0x26, 0xa8, 0xff, 0xea, 0x4a, 0x03, 0xb9, 0xf7, 0xfc, 0xa3, 0xd6]),
    (202752, [0x9b, 0xc2, 0x7e, 0xc3, 0x2c, 0x3d, 0x72, 0x2e, 0xa7, 0x60, 0x51, 0x8d, 0xbc, 0xbb, 0xe3, 0x0d]),
    (202753, [0x47, 0x6a, 0xb3, 0x83, 0x55, 0x79, 0xbd, 0xaf, 0x0a, 0x4c, 0x2a, 0x04, 0x35, 0x6a, 0x42, 0x0d]),
    (202754, [0xfa, 0x4a, 0x2d, 0xaa, 0xe8, 0xe0, 0xd8, 0x74, 0x91, 0x92, 0x41, 0x21, 0x82, 0x42, 0xc2, 0xb6]),
    (202861, [0x14, 0x52, 0x19, 0xb4, 0x47, 0x9a, 0xf0, 0xf2, 0x8d, 0x24, 0x67, 0xab, 0x33, 0x8d, 0x52, 0xee]),
    (202862, [0xac, 0x6f, 0x87, 0x62, 0x6d, 0x8c, 0x9a, 0x46, 0xc5, 0xb8, 0xf0, 0xb0, 0x0c, 0x9d, 0x52, 0x38]),
    (202881, [0x22, 0xfb, 0x6f, 0x33, 0x96, 0x00, 0x3d, 0x21, 0x33, 0xf3, 0x0c, 0xff, 0x18, 0xb2, 0x9f, 0x7d]),
    (202921, [0x0e, 0x74, 0x8d, 0x84, 0x72, 0x19, 0x38, 0x58, 0x26, 0x72, 0xae, 0x51, 0x0a, 0xbf, 0xf7, 0x39]),
    (202931, [0xcc, 0xfc, 0x2e, 0xe7, 0x38, 0xee, 0xba, 0x13, 0xbc, 0xac, 0x35, 0xde, 0x05, 0xf0, 0x0c, 0xdc]),
    (202951, [0x5f, 0xa8, 0x0c, 0xbd, 0xbe, 0x8e, 0xbd, 0xf4, 0xb9, 0x4e, 0xf3, 0x05, 0x64, 0xb9, 0x40, 0xf1]),
    (202961, [0x62, 0xc1, 0x6a, 0x25, 0xdf, 0x1a, 0xba, 0x65, 0xa0, 0x43, 0x50, 0x5d, 0xf7, 0xbd, 0x40, 0x67]),
    (203031, [0x62, 0xd4, 0x88, 0xa8, 0x9e, 0xee, 0xc5, 0xc6, 0x31, 0x59, 0x80, 0xd5, 0xcf, 0x55, 0x3e, 0xd2]),
    (203050, [0xac, 0x7f, 0x37, 0x71, 0x4c, 0x50, 0x55, 0xc0, 0x8b, 0x6f, 0x92, 0x99, 0x22, 0x00, 0x50, 0x24]),
    (203180, [0xeb, 0xd7, 0xa3, 0x6e, 0xac, 0x58, 0xf0, 0xc1, 0x6c, 0xb0, 0xc2, 0x94, 0x5b, 0xe6, 0xb0, 0xc6]),
    (203181, [0x21, 0xb1, 0x18, 0xe5, 0x96, 0x2b, 0x4b, 0x14, 0xfa, 0x59, 0xd1, 0x06, 0xa5, 0x49, 0xe7, 0x2f]),
    (203185, [0x5e, 0x20, 0xb0, 0x28, 0xa9, 0xac, 0x02, 0x5f, 0x00, 0x15, 0x5a, 0x57, 0x62, 0xd2, 0xc2, 0x0b]),
    (203186, [0x83, 0x02, 0x02, 0xea, 0xa4, 0x1e, 0xf1, 0xa9, 0x0c, 0x3d, 0xc9, 0xaf, 0xb9, 0x4a, 0x7f, 0x41]),
    (203187, [0x8f, 0x89, 0x78, 0x8f, 0xf8, 0x15, 0x7c, 0x81, 0x11, 0xd9, 0xad, 0x8b, 0x9b, 0x49, 0x58, 0x84]),
    (203188, [0xa6, 0xb9, 0x30, 0xbb, 0x24, 0x5e, 0xa0, 0x97, 0x62, 0x26, 0xfa, 0xf1, 0xf4, 0xf3, 0x03, 0x29]),
    (203211, [0xb6, 0x85, 0xca, 0xeb, 0xb5, 0x6e, 0xa9, 0x5e, 0xca, 0xa9, 0xca, 0x95, 0xac, 0x10, 0x16, 0xec]),
    (203212, [0x29, 0x75, 0x74, 0x72, 0x80, 0x26, 0x4d, 0x43, 0x6b, 0x9e, 0x5b, 0xfa, 0x18, 0xbe, 0x05, 0x88]),
    (203230, [0x11, 0xc9, 0xef, 0xbc, 0x53, 0x79, 0x76, 0xe6, 0xfd, 0xba, 0x91, 0xbf, 0x14, 0x4f, 0x62, 0xe6]),
    (203231, [0xa1, 0x74, 0x5e, 0x3c, 0x04, 0x65, 0x3c, 0x98, 0x61, 0xcc, 0x01, 0x20, 0xc4, 0xfc, 0x8b, 0xa5]),
    (203232, [0x23, 0x5a, 0x9e, 0xeb, 0xa5, 0x93, 0x9a, 0xaf, 0x87, 0xe5, 0x2a, 0xb5, 0xb0, 0xb6, 0x75, 0xf0]),
    (203233, [0x04, 0xcf, 0x59, 0xe9, 0x7c, 0x72, 0xb7, 0x4f, 0x5e, 0x63, 0x00, 0x76, 0x7c, 0xb8, 0xe6, 0x99]),
    (203251, [0x30, 0xbc, 0x4c, 0x0d, 0x4f, 0x9d, 0xf8, 0x4b, 0x35, 0xab, 0x68, 0xc3, 0x30, 0xe4, 0xed, 0x1d]),
    (203252, [0x10, 0x90, 0xf3, 0x42, 0x88, 0xbe, 0x61, 0xac, 0xa4, 0x57, 0x6e, 0x12, 0x35, 0xbb, 0xf4, 0xe8]),
    (203253, [0x14, 0x8c, 0x5c, 0x03, 0x1a, 0x53, 0xd0, 0xd5, 0x75, 0x6b, 0xdf, 0x0a, 0xb9, 0x5a, 0x87, 0xf7]),
    (203254, [0x4e, 0xa3, 0x61, 0xc5, 0x4c, 0x02, 0x72, 0x45, 0x4d, 0x8a, 0x74, 0x75, 0x5a, 0xe3, 0x1e, 0xa5]),
    (203255, [0x72, 0x48, 0x13, 0xab, 0x8c, 0xff, 0x7f, 0xde, 0xe5, 0xd2, 0xd8, 0x10, 0x29, 0x5f, 0x7a, 0xa6]),
    (203256, [0x82, 0x51, 0x81, 0xd8, 0x2b, 0x97, 0x34, 0x5d, 0x54, 0x57, 0xea, 0xf1, 0x29, 0xea, 0xae, 0xb9]),
    (203257, [0xe1, 0xea, 0x55, 0x4e, 0xde, 0xf2, 0x44, 0x9a, 0x7d, 0x06, 0x54, 0x91, 0xc3, 0x04, 0x3c, 0xa6]),
    (203321, [0xca, 0xe2, 0x25, 0x8c, 0x06, 0x2f, 0xf6, 0x78, 0x1a, 0x21, 0x0c, 0xc4, 0xf3, 0xdd, 0x12, 0xc1]),
    (203322, [0x4f, 0x74, 0x6b, 0x6a, 0x09, 0xb5, 0x14, 0x57, 0x22, 0x89, 0x61, 0xab, 0xa0, 0x61, 0x6a, 0xbd]),
    (203344, [0xf6, 0xed, 0x82, 0xeb, 0xe6, 0x40, 0xb9, 0x8f, 0x98, 0x83, 0xc9, 0x20, 0x9c, 0x74, 0x72, 0x40]),
    (203345, [0xbb, 0x73, 0xe6, 0x4b, 0x63, 0x6d, 0xca, 0x5a, 0x7e, 0x75, 0xe3, 0x28, 0x30, 0x19, 0x84, 0x9a]),
    (203371, [0x31, 0xca, 0x47, 0xba, 0x7c, 0xb7, 0x71, 0x40, 0x98, 0x1d, 0x7a, 0xf6, 0xdf, 0xe3, 0x06, 0x2e]),
    (203372, [0x70, 0x38, 0xbe, 0xaf, 0x1e, 0xd0, 0x7d, 0xc6, 0x92, 0x1e, 0x74, 0xef, 0x9a, 0x4f, 0x13, 0xef]),
    (203391, [0xbc, 0xa4, 0x36, 0x1e, 0x94, 0xfb, 0xeb, 0x39, 0x17, 0xa8, 0x0b, 0x2c, 0xb7, 0x39, 0x20, 0x66]),
    (203411, [0x3e, 0x5f, 0x6a, 0x92, 0x59, 0x87, 0x09, 0x66, 0xd5, 0x6f, 0xa6, 0x8d, 0x2a, 0x71, 0x15, 0x4e]),
    (203431, [0x3a, 0x9a, 0xfd, 0x2f, 0x19, 0x95, 0xfc, 0x1b, 0xdf, 0x7b, 0x24, 0xd0, 0xf9, 0x8c, 0xad, 0x76]),
    (203511, [0xf4, 0x4d, 0x0d, 0x29, 0x3e, 0xc0, 0xc7, 0x2f, 0x95, 0xdc, 0xf4, 0x08, 0xf9, 0x21, 0x44, 0x3d]),
    (203531, [0x09, 0xdb, 0x93, 0x54, 0x87, 0x23, 0x92, 0xb2, 0x84, 0x97, 0x29, 0xde, 0xbd, 0x93, 0xd1, 0x3b]),
    (203551, [0x30, 0xa7, 0x4a, 0x6a, 0x59, 0x60, 0x9b, 0xac, 0x14, 0xaf, 0xd5, 0x4f, 0x8a, 0x97, 0x79, 0xb3]),
    (203561, [0x17, 0x8b, 0x98, 0x0c, 0xb5, 0x2d, 0xac, 0xb8, 0xb1, 0x04, 0x90, 0xd7, 0xb9, 0xc9, 0xb4, 0x27]),
    (203563, [0xb5, 0xc3, 0x8c, 0x56, 0xb4, 0xe8, 0x81, 0xae, 0xe6, 0xd4, 0xe1, 0xcf, 0x61, 0xd1, 0xab, 0xc6]),
    (203631, [0x80, 0x93, 0x57, 0xda, 0x90, 0x30, 0x59, 0xc1, 0x9c, 0x05, 0x61, 0x4f, 0x06, 0xfe, 0x22, 0xba]),
    (203632, [0x6a, 0xe1, 0xa4, 0xed, 0x02, 0xa8, 0xf4, 0x9a, 0x54, 0x03, 0xc6, 0x51, 0xd7, 0xfb, 0x3b, 0x5e]),
    (203633, [0x97, 0x8b, 0xd9, 0x86, 0x59, 0xb5, 0xb6, 0xb4, 0xd7, 0xb0, 0x7d, 0x29, 0xe6, 0x02, 0x25, 0x1a]),
    (203634, [0x8b, 0x38, 0x21, 0x61, 0xab, 0x25, 0x80, 0xd6, 0xae, 0x87, 0x32, 0xe5, 0x1d, 0xa9, 0x74, 0x51]),
    (203635, [0x5e, 0x32, 0x24, 0xa1, 0x47, 0xf7, 0x22, 0xde, 0xa6, 0x49, 0x9d, 0xb9, 0x7f, 0x3e, 0x78, 0x1e]),
    (203636, [0xb8, 0xe8, 0x8b, 0x80, 0x96, 0x5a, 0x0f, 0x7e, 0x4b, 0xad, 0x0c, 0x74, 0x80, 0x06, 0x2a, 0xa1]),
    (203637, [0x76, 0x30, 0x05, 0x8a, 0xa1, 0x95, 0xa4, 0x44, 0xb3, 0x6b, 0x26, 0x7a, 0x97, 0x51, 0xdc, 0xd8]),
    (203638, [0x7b, 0x2b, 0x36, 0x00, 0x29, 0xb3, 0xc7, 0x86, 0xca, 0x11, 0x88, 0x6d, 0x60, 0x07, 0x91, 0x3e]),
    (203639, [0x83, 0x26, 0xc0, 0x57, 0x01, 0x4e, 0x41, 0x55, 0x59, 0x83, 0xf4, 0xec, 0x05, 0x06, 0x83, 0x4c]),
    (203651, [0x17, 0xbb, 0xe5, 0x77, 0x53, 0xc7, 0x77, 0xae, 0x82, 0x84, 0x42, 0x32, 0x2b, 0xb7, 0x9a, 0x93]),
    (203681, [0x4a, 0x58, 0xa7, 0xc3, 0x6e, 0xbb, 0x45, 0x27, 0x51, 0x82, 0x2f, 0xb5, 0x6c, 0xce, 0x36, 0x64]),
    (203682, [0x2f, 0x4f, 0xa9, 0x31, 0x9f, 0x17, 0xe1, 0xad, 0xd8, 0xc0, 0x02, 0x45, 0x92, 0xc2, 0x8b, 0x37]),
    (203683, [0x15, 0xdb, 0x1c, 0x31, 0x4a, 0x4a, 0xa2, 0xe1, 0xa2, 0xb3, 0x45, 0x7a, 0xbd, 0xc0, 0x10, 0x94]),
    (203684, [0xf4, 0x64, 0x87, 0xfd, 0x13, 0xd1, 0xaa, 0x7c, 0x04, 0x60, 0x7b, 0x34, 0x20, 0x3e, 0x0e, 0x69]),
    (203685, [0x1e, 0x08, 0x5d, 0xc8, 0xfa, 0x1c, 0xd3, 0x0f, 0x89, 0x1d, 0x0c, 0xd8, 0x5c, 0xe7, 0xf6, 0x0c]),
    (203686, [0x93, 0x09, 0x4b, 0x7d, 0x5d, 0x2d, 0xb9, 0x4b, 0xe4, 0x53, 0xe6, 0x13, 0xe0, 0x2d, 0xe1, 0x93]),
    (203687, [0xb5, 0x92, 0xef, 0xb1, 0xb6, 0xf1, 0x1d, 0x20, 0xb5, 0x9d, 0x29, 0xfa, 0xa6, 0x54, 0x9c, 0xb8]),
    (203688, [0x1c, 0x70, 0xff, 0xfa, 0xa7, 0x6b, 0x41, 0x85, 0xb8, 0xb5, 0x78, 0xfd, 0x77, 0x90, 0x64, 0x7a]),
    (203689, [0x6c, 0xda, 0xef, 0x0d, 0x6d, 0x7f, 0x3b, 0x27, 0x5b, 0xf8, 0x00, 0x2a, 0xed, 0x6f, 0x9a, 0x31]),
    (203690, [0x85, 0x92, 0x24, 0x13, 0x27, 0xba, 0xf3, 0x2d, 0xd1, 0x54, 0xe9, 0x05, 0x38, 0xb0, 0xec, 0xc4]),
    (203692, [0xf4, 0x6c, 0x52, 0x19, 0xab, 0x27, 0xcf, 0x2f, 0xb3, 0xfa, 0xae, 0x48, 0x9a, 0xf8, 0x9e, 0x43]),
    (203731, [0x2e, 0x25, 0x19, 0x02, 0x3a, 0x81, 0x82, 0x13, 0x03, 0xc5, 0x20, 0x9f, 0x0e, 0x6e, 0x44, 0x20]),
    (203732, [0x72, 0xab, 0x1d, 0xc9, 0xcb, 0x47, 0x56, 0x7f, 0x33, 0xc0, 0xdc, 0x6a, 0xe2, 0x6e, 0x17, 0xf0]),
    (203733, [0xb6, 0x61, 0xa9, 0x9d, 0xdd, 0x58, 0x90, 0x38, 0xeb, 0x80, 0x79, 0x28, 0x44, 0xd2, 0xf4, 0x4a]),
    (203751, [0xd9, 0xda, 0x00, 0xab, 0x35, 0xaa, 0xef, 0xaf, 0x70, 0x71, 0xd2, 0xfd, 0x99, 0xd0, 0x24, 0xc2]),
    (203752, [0x0b, 0xcd, 0xf1, 0xe0, 0x12, 0x51, 0x17, 0x16, 0x3c, 0x8d, 0xd5, 0x53, 0x6a, 0xd3, 0x9d, 0x0d]),
    (203753, [0xa2, 0x87, 0xb9, 0x78, 0x90, 0x0c, 0xf1, 0x5b, 0x2e, 0x85, 0x09, 0x62, 0x96, 0xe9, 0x6a, 0x4f]),
    (203754, [0x24, 0xde, 0xf5, 0x8f, 0x8e, 0x23, 0x33, 0x45, 0x82, 0x1f, 0x98, 0x34, 0x26, 0x8f, 0xb7, 0xbf]),
    (203755, [0x8a, 0x1c, 0x18, 0xc1, 0x3d, 0x97, 0xa1, 0x99, 0x2e, 0xe8, 0x48, 0xe4, 0xcb, 0x10, 0x0f, 0x50]),
    (203771, [0x54, 0xf6, 0x8b, 0x07, 0x75, 0xa2, 0xbc, 0xc3, 0xc5, 0x58, 0x82, 0x97, 0x02, 0x49, 0xe2, 0x3d]),
    (203772, [0x7f, 0xe0, 0xd5, 0x74, 0x35, 0x4f, 0xda, 0xf7, 0x5e, 0x3a, 0xbd, 0x8d, 0x8d, 0x13, 0x45, 0xfc]),
    (203773, [0xf8, 0xd9, 0x92, 0xc9, 0x61, 0x2c, 0x14, 0xb3, 0xa6, 0xf6, 0x4c, 0xd3, 0x33, 0xe4, 0x62, 0xa5]),
    (203774, [0xac, 0x8b, 0x2c, 0xde, 0x25, 0x77, 0x60, 0xda, 0x56, 0x28, 0x37, 0xcf, 0xac, 0xf4, 0xaa, 0x0f]),
    (203775, [0x9b, 0x87, 0x8e, 0xb5, 0xc6, 0x4b, 0x0e, 0xfc, 0x6a, 0x12, 0x85, 0xfd, 0xaa, 0x5b, 0x77, 0xdf]),
    (203776, [0xa3, 0xa5, 0xab, 0x7c, 0x8d, 0x4e, 0x66, 0x4c, 0x87, 0xcb, 0xc5, 0x10, 0x67, 0x24, 0x3e, 0x7f]),
    (203777, [0xbf, 0x14, 0x0a, 0x28, 0x59, 0x90, 0x0f, 0xf0, 0xf3, 0xeb, 0x27, 0x87, 0xa2, 0xd5, 0x16, 0x74]),
    (203778, [0xdb, 0x14, 0x5d, 0x2f, 0x3a, 0xd4, 0x89, 0x77, 0x4e, 0x9a, 0xb8, 0x08, 0x79, 0x50, 0xbd, 0xf6]),
    (203779, [0xd0, 0xde, 0x41, 0xaa, 0x63, 0xf4, 0xc8, 0x53, 0xe0, 0x98, 0x9c, 0x0f, 0x0c, 0x90, 0x68, 0xa9]),
    (203791, [0x81, 0xa3, 0xe0, 0x50, 0xf7, 0x97, 0x1f, 0xf0, 0x2e, 0x44, 0xea, 0xf2, 0x27, 0xc9, 0x39, 0x95]),
    (203811, [0x38, 0x65, 0x76, 0xb9, 0x5c, 0x15, 0xf5, 0x71, 0xe9, 0x0a, 0x41, 0x60, 0x07, 0xf4, 0xa2, 0xc8]),
    (203812, [0x05, 0x89, 0x3d, 0x27, 0x5b, 0x7e, 0x07, 0x54, 0xb5, 0xcb, 0xc6, 0xa2, 0xb1, 0x98, 0x5d, 0xcc]),
    (203813, [0x74, 0x2d, 0xfa, 0x55, 0x9b, 0x87, 0x73, 0xe5, 0x86, 0xa2, 0x6c, 0xe3, 0x26, 0x5a, 0xad, 0xae]),
    (203831, [0x44, 0x0d, 0xfb, 0xcf, 0x6a, 0x33, 0x8b, 0xd2, 0xaa, 0xc2, 0x42, 0x17, 0x48, 0x11, 0x03, 0x61]),
    (203832, [0x67, 0x50, 0x1e, 0x88, 0x0a, 0xd2, 0x9d, 0x0a, 0x4a, 0x06, 0xca, 0xb8, 0xe8, 0x57, 0x99, 0xbc]),
    (203833, [0x68, 0x15, 0xa7, 0x01, 0x89, 0x14, 0x3e, 0x16, 0xbe, 0x4d, 0xb9, 0x9d, 0x91, 0x71, 0x90, 0x69]),
    (203834, [0x74, 0x0f, 0x4f, 0xb3, 0x07, 0x86, 0x3a, 0xd2, 0xe2, 0x4d, 0x32, 0x65, 0x39, 0xd0, 0x1c, 0x96]),
    (203835, [0x3d, 0xdd, 0x0e, 0xda, 0x6a, 0xa6, 0x63, 0xb5, 0x5a, 0x2c, 0x4a, 0x31, 0x8b, 0xa3, 0x4d, 0x8b]),
    (203836, [0x2b, 0x47, 0x33, 0x41, 0x80, 0xd2, 0xfc, 0x22, 0x0f, 0xfe, 0x2a, 0x89, 0xb2, 0x22, 0xf1, 0x56]),
    (203837, [0x0c, 0xe3, 0x62, 0x9f, 0x6f, 0xe1, 0x10, 0x85, 0x7c, 0x77, 0xae, 0xc5, 0xde, 0xdf, 0xb4, 0xd4]),
    (203851, [0x38, 0x22, 0xfc, 0x57, 0xda, 0xdc, 0x13, 0x03, 0x7f, 0xc1, 0xd0, 0x47, 0x86, 0xdf, 0x73, 0x54]),
    (203971, [0xc9, 0x68, 0x58, 0xa0, 0xda, 0xa9, 0xc1, 0x29, 0xc1, 0x4c, 0x89, 0x7b, 0x46, 0xb0, 0x8d, 0x40]),
    (203991, [0x6c, 0x83, 0x45, 0xd7, 0xfb, 0xca, 0x31, 0xa8, 0x86, 0x70, 0x30, 0x7d, 0xef, 0x39, 0x06, 0x35]),
    (204011, [0xc7, 0x7a, 0x4f, 0xf6, 0xee, 0xa5, 0xa0, 0xa6, 0x33, 0x86, 0xf3, 0xaa, 0x48, 0xba, 0x8e, 0xc5]),
    (204031, [0x5e, 0xa4, 0x87, 0x35, 0x11, 0xa3, 0x92, 0x4e, 0xf4, 0x07, 0x56, 0x1b, 0xf4, 0x4f, 0xe3, 0x29]),
    (204032, [0x21, 0xe4, 0xe9, 0x4e, 0x46, 0x35, 0x81, 0xf0, 0x14, 0xa3, 0x4c, 0x9e, 0x0d, 0xe5, 0x21, 0x02]),
    (204033, [0xc2, 0x53, 0xd7, 0x7b, 0x2f, 0xcd, 0x96, 0x0f, 0x5d, 0x26, 0xee, 0x72, 0x01, 0x8b, 0xff, 0x37]),
    (204034, [0x6d, 0x3e, 0xf1, 0xe6, 0x7f, 0x0c, 0x43, 0x4b, 0x4b, 0xfe, 0xa8, 0x16, 0xd9, 0x7f, 0xc6, 0x29]),
    (204035, [0xa5, 0xda, 0xcd, 0xba, 0xab, 0xcc, 0x3c, 0xfd, 0x06, 0xe7, 0x66, 0x8a, 0x16, 0xae, 0x35, 0xbd]),
    (204036, [0x15, 0x65, 0xdc, 0xf2, 0x0c, 0x22, 0x20, 0x3e, 0xa7, 0x07, 0x5c, 0x96, 0x41, 0xee, 0xc2, 0xbb]),
    (204037, [0x05, 0x5a, 0xf1, 0xb2, 0x4e, 0xb1, 0xc8, 0x1a, 0xa6, 0x14, 0x60, 0xde, 0xf4, 0x8f, 0x8c, 0xfd]),
    (204038, [0xe4, 0x1b, 0x7c, 0xea, 0xb5, 0x84, 0x35, 0x9a, 0xce, 0xc5, 0x44, 0x3b, 0xb8, 0x43, 0xaf, 0xdd]),
    (204051, [0x61, 0xe3, 0x91, 0x79, 0x00, 0x07, 0x16, 0x17, 0x7c, 0x18, 0xd5, 0xa8, 0x4b, 0xe8, 0x25, 0x57]),
    (204061, [0xd2, 0x49, 0x0a, 0x2f, 0xfe, 0xe6, 0xc5, 0xb6, 0x72, 0xb0, 0x07, 0x99, 0x08, 0x16, 0x6c, 0x48]),
    (204062, [0x5b, 0xa3, 0x44, 0x42, 0xf1, 0x13, 0xa3, 0x7e, 0xc0, 0xce, 0xa1, 0xc5, 0xd9, 0x00, 0x39, 0x9a]),
    (204075, [0x0e, 0x9e, 0x0f, 0x2a, 0xd0, 0xa6, 0x96, 0xa9, 0x41, 0xeb, 0x87, 0xcd, 0xed, 0x8c, 0x5c, 0x01]),
    (204076, [0x94, 0x11, 0xea, 0xf9, 0x78, 0x55, 0x10, 0x44, 0x38, 0xf7, 0xa1, 0x2f, 0x65, 0x37, 0xee, 0x5c]),
    (204077, [0xeb, 0xdf, 0x78, 0x23, 0x7c, 0x33, 0xe3, 0x95, 0xc7, 0x8f, 0x7f, 0xcb, 0xae, 0x20, 0x7f, 0xc5]),
    (204081, [0xd2, 0x72, 0x75, 0x4a, 0x79, 0x6f, 0xf7, 0x2f, 0x55, 0x01, 0x35, 0xff, 0x1e, 0xc7, 0x61, 0x0f]),
    (204082, [0xb1, 0xc6, 0x55, 0x7e, 0x09, 0x36, 0x12, 0xbc, 0x3d, 0x2a, 0x4a, 0xa8, 0xea, 0xce, 0x83, 0x91]),
    (204083, [0x31, 0x97, 0x9f, 0xdb, 0xb6, 0x2c, 0xea, 0xf1, 0x88, 0xae, 0xd7, 0x6d, 0x7e, 0xd6, 0x75, 0xc6]),
    (204084, [0x31, 0xe4, 0x2b, 0x2d, 0x1c, 0x92, 0x20, 0x24, 0xa3, 0x09, 0x58, 0xe9, 0xc2, 0x4e, 0xe3, 0x3c]),
    (204101, [0xc9, 0x36, 0xf1, 0x18, 0x0e, 0x6e, 0x8d, 0x1a, 0x05, 0xa2, 0xf4, 0xb0, 0xb0, 0xd0, 0x64, 0x19]),
    (204102, [0xb7, 0x8c, 0xdc, 0xa2, 0x44, 0x60, 0xae, 0xc1, 0xc5, 0xeb, 0x62, 0xa7, 0x28, 0x2c, 0x6c, 0xf6]),
    (204103, [0xe6, 0x31, 0xf9, 0x49, 0xec, 0x48, 0x9a, 0xa1, 0x2a, 0x47, 0xc0, 0xfe, 0xa6, 0xcd, 0xf7, 0x7a]),
    (204104, [0xc8, 0xa8, 0xe1, 0x01, 0xfb, 0x69, 0x6a, 0xaa, 0xc1, 0x07, 0xd8, 0xb4, 0x55, 0x14, 0x62, 0xdf]),
    (204105, [0x61, 0x4f, 0x74, 0x93, 0xda, 0xe3, 0x67, 0x15, 0x44, 0x99, 0x7f, 0x49, 0x45, 0x58, 0x8c, 0xbd]),
    (204112, [0x69, 0xa5, 0x59, 0xde, 0xaf, 0x4b, 0x6f, 0x7a, 0xff, 0x92, 0xad, 0x42, 0xcf, 0xae, 0x70, 0x36]),
    (204121, [0x41, 0x70, 0x05, 0xc6, 0xc4, 0x1d, 0x15, 0xf4, 0x67, 0x53, 0x08, 0x31, 0xfe, 0x2e, 0x95, 0x28]),
    (204141, [0x3c, 0xce, 0x39, 0x43, 0x8b, 0xaa, 0x10, 0x69, 0x20, 0x74, 0xeb, 0x23, 0xf9, 0xee, 0x0e, 0x93]),
    (204181, [0xfc, 0x1b, 0x75, 0xd1, 0x1f, 0xb5, 0x25, 0xde, 0x90, 0xfc, 0xbf, 0xc5, 0x3f, 0xb1, 0xf8, 0xf7]),
    (204201, [0xfb, 0xf8, 0x1b, 0xa3, 0x22, 0xfe, 0xe3, 0xf7, 0xee, 0x37, 0x29, 0x78, 0x21, 0x30, 0x96, 0x9b]),
    (204261, [0xbf, 0x33, 0x3f, 0xa8, 0x15, 0x35, 0xa0, 0xaa, 0xc4, 0x18, 0x6b, 0x67, 0xd2, 0xe6, 0x3b, 0x5b]),
    (204262, [0xce, 0x39, 0xdc, 0xef, 0xf8, 0x53, 0xa7, 0x3e, 0xeb, 0xc8, 0xfa, 0x18, 0x62, 0x83, 0xcc, 0x43]),
    (204341, [0xa2, 0x19, 0xc3, 0x63, 0x8a, 0x9e, 0x62, 0x5a, 0x9f, 0x68, 0x40, 0x59, 0xfb, 0x42, 0xdd, 0x86]),
    (204381, [0xc2, 0x8d, 0x7a, 0x3a, 0xf4, 0x6d, 0xc7, 0xf5, 0xaf, 0x96, 0x33, 0x27, 0x96, 0x80, 0x4a, 0x2d]),
    (204382, [0xec, 0x63, 0xfd, 0xe8, 0xb5, 0xf3, 0xca, 0x7e, 0xc8, 0x08, 0x8e, 0x04, 0x8c, 0xe8, 0xb2, 0xf4]),
    (204383, [0x1b, 0x6e, 0xb5, 0xa1, 0x17, 0x83, 0x8e, 0xe2, 0xc5, 0x78, 0x1f, 0xa2, 0x0c, 0xc0, 0xc1, 0x1a]),
    (204391, [0xcc, 0x49, 0x69, 0xb8, 0x71, 0x3b, 0xec, 0xdc, 0x2c, 0x05, 0x41, 0xf9, 0x44, 0xf5, 0xd9, 0x76])]"

definition TABLE_27 :: "key_entry list" where
  "TABLE_27 = [
    (204411, [0xb1, 0x85, 0xf4, 0x18, 0x58, 0x7b, 0x34, 0x90, 0x0e, 0xf1, 0x07, 0xa9, 0x83, 0x66, 0xd6, 0xba]),
    (204412, [0xe7, 0x84, 0x5e, 0x6e, 0xbc, 0xe0, 0xc0, 0xcd, 0x9b, 0xbe, 0x0d, 0x55, 0x81, 0x65, 0xb3, 0x55]),
    (204413, [0x16, 0x89, 0x0b, 0x05, 0x31, 0xf9, 0xe8, 0x1e, 0xfb, 0x30, 0xca, 0x49, 0x0c, 0xab, 0xda, 0xc3]),
    (204414, [0xdc, 0x67, 0x89, 0xd7, 0xa4, 0x8e, 0x75, 0x33, 0xb5, 0xc8, 0xe7, 0x1c, 0xec, 0x6d, 0x9c, 0x7d]),
    (204415, [0x14, 0x87, 0xc7, 0x6c, 0x93, 0x08, 0x71, 0x74, 0x9d, 0x0e, 0x4e, 0xcf, 0x3c, 0xdf, 0x24, 0x3c]),
    (204416, [0x42, 0xb6, 0x23, 0x38, 0x66, 0x58, 0x3b, 0x8c, 0x70, 0x7e, 0xc2, 0x43, 0xc2, 0xcc, 0xbb, 0x07]),
    (204417, [0x02, 0x77, 0x10, 0xd7, 0x09, 0x70, 0x83, 0x17, 0x7c, 0x68, 0x29, 0xcf, 0x1b, 0xd6, 0x70, 0xe2]),
    (204418, [0x56, 0x2f, 0xfc, 0x0e, 0x42, 0xa2, 0x0e, 0x84, 0xec, 0x62, 0x28, 0x5a, 0x96, 0x9e, 0x3d, 0xa6]),
    (204441, [0x24, 0xeb, 0x95, 0x37, 0x33, 0xde, 0xd2, 0xf0, 0x11, 0xf0, 0x72, 0x18, 0x82, 0x30, 0x21, 0x8a]),
    (204442, [0x05, 0x2c, 0x09, 0xc0, 0x99, 0x15, 0x1d, 0xa7, 0x49, 0xc5, 0x6f, 0x43, 0xdb, 0x2e, 0x69, 0x44]),
    (204443, [0x88, 0xc8, 0xe7, 0xaa, 0x4a, 0x6a, 0x8c, 0x3f, 0xcf, 0xa4, 0x04, 0x5e, 0x28, 0xa3, 0x49, 0x1c]),
    (204470, [0x21, 0xdd, 0x6b, 0xdc, 0x36, 0x50, 0xe4, 0x7a, 0xbd, 0x00, 0x5a, 0xc2, 0x4d, 0x1d, 0xc5, 0xb1]),
    (204471, [0x74, 0x56, 0x38, 0x32, 0x11, 0xed, 0x4a, 0x0f, 0xfc, 0xeb, 0x58, 0x06, 0x6e, 0x9b, 0xc5, 0x4e]),
    (204472, [0xb7, 0x18, 0xdc, 0x98, 0x73, 0x11, 0x3b, 0x01, 0xdf, 0xd8, 0x2e, 0xfe, 0x9a, 0xc5, 0xe3, 0xe2]),
    (204473, [0x2b, 0x9a, 0x8b, 0xf0, 0xe0, 0x1a, 0xb1, 0xd5, 0xef, 0x47, 0xd2, 0x42, 0x00, 0x0d, 0x89, 0xb6]),
    (204474, [0xed, 0x4d, 0xe1, 0xf3, 0x5c, 0xc1, 0xe5, 0xae, 0x3e, 0x83, 0xf5, 0x25, 0x61, 0xf2, 0xd6, 0x06]),
    (204475, [0xad, 0x75, 0x45, 0xb6, 0x00, 0xea, 0x70, 0x2c, 0xbf, 0xbc, 0x86, 0xd7, 0x04, 0xc4, 0x95, 0x46]),
    (204476, [0xde, 0x1e, 0xd5, 0xf0, 0xc9, 0x61, 0xff, 0x4a, 0x91, 0x6c, 0x5f, 0xf8, 0x45, 0xd6, 0x30, 0xb9]),
    (204477, [0x8e, 0x38, 0x9e, 0xf3, 0xa8, 0x8e, 0x2e, 0xa9, 0xb9, 0xf2, 0x47, 0x52, 0xc4, 0x78, 0xc9, 0x04]),
    (204478, [0x0f, 0x04, 0x45, 0xe4, 0x08, 0xf8, 0xa7, 0x25, 0x27, 0xde, 0x17, 0x17, 0x31, 0x8a, 0xee, 0x9f]),
    (204479, [0xf1, 0x2c, 0x99, 0x4b, 0x12, 0xc6, 0x52, 0x46, 0x51, 0x2e, 0xb8, 0x19, 0xbb, 0x6b, 0xd0, 0x38]),
    (204480, [0x3e, 0xab, 0x60, 0x31, 0x87, 0x1d, 0xfe, 0x1a, 0x1c, 0xe5, 0x77, 0x61, 0xf2, 0x9a, 0xb6, 0xe6]),
    (204481, [0x32, 0xc9, 0xc0, 0x97, 0x1c, 0xb7, 0x5b, 0xd4, 0x6f, 0x81, 0x52, 0x34, 0x1c, 0xb6, 0x21, 0x5e]),
    (204482, [0x08, 0xf1, 0x2b, 0x20, 0x3f, 0x60, 0xd8, 0x59, 0x1a, 0x60, 0xaa, 0xc7, 0x19, 0x01, 0xd9, 0xf4]),
    (204483, [0x32, 0xfc, 0x08, 0x57, 0x22, 0x7e, 0x8a, 0x1c, 0x22, 0x50, 0x1f, 0xa7, 0x94, 0x23, 0x0b, 0xc3]),
    (204484, [0x5f, 0xdf, 0x8b, 0xe9, 0x23, 0x8d, 0x6f, 0x42, 0xfd, 0x86, 0x3e, 0xbc, 0x75, 0xcd, 0x2c, 0x06]),
    (204511, [0xfc, 0x6c, 0x43, 0xa6, 0x20, 0x7e, 0x68, 0xe5, 0xdc, 0xcf, 0xfd, 0x72, 0xad, 0xe4, 0x2e, 0xc0]),
    (204521, [0x1a, 0x02, 0x2d, 0xa8, 0xce, 0xf7, 0x38, 0x4c, 0x22, 0xba, 0x89, 0x30, 0x51, 0xb1, 0x34, 0x8f]),
    (204522, [0x30, 0x4d, 0x4e, 0x28, 0x66, 0x96, 0xb2, 0x6c, 0x8e, 0x95, 0x35, 0x28, 0x23, 0xd8, 0xae, 0x16]),
    (204523, [0xf6, 0xf9, 0x11, 0x7f, 0x62, 0xe5, 0x15, 0x4d, 0x0d, 0x11, 0x5f, 0x8c, 0xdc, 0xae, 0x22, 0x0f]),
    (204524, [0x46, 0x1d, 0x84, 0x71, 0x4e, 0xb6, 0x08, 0xc4, 0x88, 0x41, 0x00, 0x6a, 0x54, 0xcb, 0xb4, 0x08]),
    (204525, [0x6b, 0xa4, 0x65, 0xea, 0x26, 0x25, 0xb3, 0x01, 0x77, 0x0d, 0xc1, 0xed, 0x16, 0x3f, 0xd1, 0x65]),
    (204561, [0x62, 0xe1, 0xdf, 0xec, 0x05, 0xc1, 0xb9, 0x85, 0xc6, 0x72, 0x37, 0x46, 0x95, 0xd1, 0xa8, 0xf9]),
    (204562, [0x81, 0x3b, 0x91, 0x72, 0x5d, 0x52, 0x84, 0x6d, 0xf8, 0x00, 0x6f, 0x26, 0x6d, 0xc5, 0x8d, 0xa6]),
    (204563, [0x17, 0x82, 0x97, 0x12, 0x16, 0x75, 0x18, 0x02, 0xd8, 0xe4, 0xd9, 0x75, 0x98, 0x43, 0x4b, 0x4a]),
    (204564, [0x3b, 0xec, 0x7d, 0x70, 0xde, 0xcc, 0x95, 0x74, 0xdb, 0x58, 0x30, 0x95, 0x41, 0xd5, 0x3a, 0x7c]),
    (204565, [0x17, 0xdc, 0x8a, 0x9c, 0xab, 0x6d, 0x9a, 0x55, 0x01, 0xd9, 0xf8, 0x6c, 0x92, 0x63, 0xd7, 0x3c]),
    (204566, [0x35, 0xc9, 0x0e, 0x6d, 0x26, 0x80, 0x2b, 0x39, 0xb9, 0xe0, 0xdb, 0xce, 0xd3, 0xb4, 0xc1, 0x60]),
    (204567, [0x55, 0xde, 0x9d, 0xc2, 0xc8, 0x8f, 0xb2, 0x73, 0xec, 0xf5, 0x9c, 0xdd, 0x3a, 0xd6, 0x8f, 0x9c]),
    (204568, [0x16, 0x01, 0x95, 0x8b, 0x19, 0x6f, 0xd0, 0x28, 0xd7, 0x15, 0xcf, 0xa4, 0x98, 0x32, 0x9b, 0x14]),
    (204569, [0xb4, 0x9b, 0x38, 0xd0, 0xbc, 0x56, 0x87, 0xf6, 0x5e, 0xe4, 0x28, 0x50, 0x60, 0xf9, 0x11, 0xa4]),
    (204570, [0x78, 0xca, 0x5e, 0x5b, 0x2a, 0x6d, 0x8b, 0x79, 0xf1, 0x14, 0x52, 0xae, 0x33, 0x7d, 0xbb, 0x98]),
    (204600, [0xa4, 0x01, 0x66, 0x60, 0x3e, 0x4d, 0x83, 0x05, 0x02, 0x06, 0xc0, 0xd1, 0x65, 0x5c, 0x1a, 0xb2]),
    (204611, [0xcf, 0xb4, 0x96, 0x53, 0x08, 0x65, 0x97, 0x04, 0x96, 0x7c, 0xf3, 0xcc, 0x22, 0xf4, 0xe5, 0xbb]),
    (204631, [0x7f, 0x0c, 0xcb, 0x52, 0x93, 0x36, 0x4c, 0x21, 0xaf, 0x31, 0x3f, 0x4f, 0xec, 0xc4, 0xee, 0xd7]),
    (204681, [0x55, 0xba, 0xe1, 0x88, 0x18, 0xc4, 0x32, 0x49, 0x67, 0xe7, 0xcb, 0x04, 0x63, 0x1c, 0xf8, 0x92]),
    (204721, [0x70, 0xd1, 0x17, 0x24, 0xbc, 0x90, 0x11, 0x1f, 0xb0, 0xda, 0x6f, 0xdc, 0x2c, 0x9d, 0x15, 0x6c]),
    (204731, [0x3a, 0xa4, 0x36, 0xe0, 0x60, 0xcb, 0xeb, 0x05, 0xd6, 0x7f, 0xcd, 0x7a, 0x75, 0x34, 0xb1, 0x0c]),
    (204742, [0x88, 0xf0, 0x0c, 0x3c, 0x96, 0x74, 0xaa, 0x09, 0xb1, 0xff, 0x90, 0xb2, 0xfc, 0x8f, 0xca, 0xf4]),
    (204761, [0x33, 0xa2, 0x4f, 0xc4, 0x0f, 0xc4, 0x16, 0xc4, 0xbd, 0xe3, 0xdc, 0x63, 0x48, 0xa1, 0xaa, 0xc6]),
    (204803, [0x58, 0x8c, 0x34, 0x31, 0xfe, 0xa5, 0x70, 0xde, 0xc9, 0xe8, 0xa1, 0x3d, 0x61, 0xb9, 0x33, 0x78]),
    (204861, [0x53, 0xd1, 0x89, 0x6e, 0x8c, 0xc6, 0xc6, 0xb5, 0xb4, 0x23, 0x98, 0xb2, 0xc0, 0x5a, 0x95, 0xbf]),
    (204862, [0x28, 0x1b, 0x2b, 0x24, 0xfe, 0x2a, 0x6f, 0xba, 0xb5, 0x4c, 0x4f, 0x2e, 0xb6, 0xf8, 0x54, 0xeb]),
    (204881, [0xd0, 0x21, 0xf7, 0xcb, 0xad, 0xef, 0xc9, 0x0d, 0x10, 0x12, 0xfb, 0x68, 0x2f, 0x2e, 0x04, 0x67]),
    (204882, [0x1d, 0xe7, 0xe9, 0xb2, 0x1a, 0x4f, 0x1c, 0x9e, 0xe5, 0xf7, 0x26, 0x82, 0xd7, 0x99, 0x5d, 0x1a]),
    (204900, [0xb9, 0x42, 0xda, 0x0f, 0xe8, 0x1e, 0x5b, 0xc6, 0x72, 0xdd, 0x40, 0x73, 0x63, 0x8c, 0x9e, 0xc7]),
    (204901, [0xe1, 0xbe, 0xb7, 0xa6, 0x34, 0x3d, 0xb6, 0xd5, 0xda, 0x9d, 0xf6, 0x24, 0x02, 0x38, 0xd7, 0xcc]),
    (204921, [0x38, 0xca, 0xbe, 0x74, 0x53, 0x28, 0x84, 0x90, 0x31, 0x79, 0xe2, 0xfb, 0xe6, 0x3c, 0xb6, 0x0e]),
    (204922, [0x9d, 0xf3, 0x5c, 0x08, 0x18, 0xcc, 0xfd, 0x21, 0x84, 0x8a, 0x4a, 0x07, 0xe8, 0x30, 0xae, 0x14]),
    (204923, [0x49, 0x06, 0xa9, 0x11, 0xc7, 0x51, 0x08, 0x2b, 0x79, 0xd0, 0xd1, 0x49, 0x09, 0x86, 0x6d, 0x10]),
    (204924, [0xfa, 0x19, 0x64, 0xec, 0x9d, 0x03, 0xb4, 0xe5, 0x14, 0xf3, 0x00, 0x88, 0xc7, 0x33, 0x03, 0x9f]),
    (204925, [0x47, 0xfb, 0x03, 0x5c, 0x08, 0xf0, 0xee, 0x02, 0xb8, 0x26, 0x6f, 0xb2, 0x06, 0x49, 0x69, 0x75]),
    (204926, [0xd5, 0x57, 0x5e, 0x3b, 0x07, 0xc8, 0x84, 0xea, 0x17, 0x00, 0x81, 0x7c, 0x80, 0x5b, 0xdb, 0xa1]),
    (204927, [0x5a, 0x73, 0x6d, 0xad, 0xc4, 0xf7, 0xad, 0xe5, 0xd5, 0x42, 0x7c, 0x42, 0x2b, 0x48, 0x85, 0xe8]),
    (204928, [0xfd, 0x1b, 0x97, 0xac, 0x39, 0x3b, 0x70, 0xc8, 0xa9, 0xbe, 0xbc, 0x69, 0x0c, 0x10, 0x54, 0x2e]),
    (204929, [0x6c, 0x91, 0xa3, 0xf5, 0xbf, 0xac, 0xdb, 0xcd, 0xb7, 0x8f, 0xfa, 0xc1, 0x7a, 0x4a, 0x13, 0x95]),
    (204941, [0x0d, 0xd9, 0x00, 0xb7, 0xd0, 0xd1, 0x66, 0x19, 0x2a, 0x43, 0x36, 0x54, 0x6b, 0xf3, 0x5e, 0x90]),
    (204981, [0x4b, 0xd1, 0x1d, 0x79, 0x10, 0x05, 0xd1, 0x3c, 0xff, 0x78, 0x85, 0x7a, 0x65, 0x29, 0x01, 0x55]),
    (204982, [0x35, 0x62, 0x0a, 0x2c, 0x77, 0x48, 0xdd, 0x57, 0xc4, 0x57, 0x41, 0x08, 0x08, 0x0c, 0x23, 0xda]),
    (204983, [0x59, 0x0f, 0x0f, 0x7a, 0xef, 0x1f, 0x4f, 0xf5, 0x61, 0xe1, 0x64, 0x29, 0x0f, 0x9c, 0xbb, 0x58]),
    (204984, [0x02, 0xa4, 0xf2, 0xe8, 0xd5, 0x91, 0x62, 0x39, 0xdf, 0x16, 0xb8, 0x7d, 0x24, 0x2e, 0xce, 0x83]),
    (204985, [0x5e, 0x20, 0xb0, 0x28, 0xa9, 0xac, 0x02, 0x5f, 0x00, 0x15, 0x5a, 0x57, 0x62, 0xd2, 0xc2, 0x0b]),
    (204986, [0x77, 0xf2, 0x8b, 0x50, 0x2d, 0x98, 0x89, 0xfb, 0xea, 0xe1, 0x2b, 0x31, 0x42, 0xf9, 0xc9, 0x79]),
    (204987, [0xa2, 0x85, 0xfd, 0xbb, 0xcd, 0x3a, 0x19, 0x8f, 0x58, 0x06, 0x41, 0x77, 0x62, 0x5d, 0xc8, 0x46]),
    (204988, [0x56, 0xe8, 0x74, 0xa6, 0xb5, 0x68, 0x70, 0xf4, 0xfe, 0x44, 0x40, 0xf5, 0xfc, 0x69, 0xeb, 0x44]),
    (204989, [0xe7, 0xa0, 0x56, 0x28, 0xdd, 0x4b, 0x27, 0x2b, 0xa1, 0xfd, 0x5a, 0xc7, 0x16, 0x67, 0x8a, 0x67]),
    (205120, [0x65, 0x19, 0x59, 0x48, 0x2c, 0xe4, 0x49, 0xd5, 0xae, 0x9b, 0x2e, 0xed, 0x2e, 0xac, 0xce, 0xcb]),
    (205130, [0xbb, 0x0c, 0x25, 0x6a, 0xaf, 0x14, 0xdd, 0xf1, 0x9b, 0x4b, 0xe3, 0xee, 0x98, 0xcc, 0xa9, 0x90]),
    (205140, [0x3a, 0x09, 0xf9, 0xce, 0x17, 0x57, 0xe3, 0x1a, 0xb1, 0x27, 0xea, 0xc2, 0xf2, 0x4d, 0x06, 0x88]),
    (205150, [0x69, 0xed, 0x6c, 0x3e, 0x75, 0xd2, 0xbe, 0xaa, 0x31, 0xc0, 0x8f, 0xc7, 0xd8, 0xd0, 0xbc, 0x59]),
    (205160, [0x81, 0x81, 0xb1, 0x4a, 0x32, 0xc8, 0x95, 0x3d, 0x3d, 0x2a, 0x9e, 0xbe, 0x60, 0x44, 0xf8, 0xb2]),
    (205170, [0x42, 0xe4, 0x46, 0x27, 0x3b, 0x96, 0x81, 0xe3, 0x28, 0xff, 0xdc, 0xb0, 0x02, 0x2f, 0x68, 0x77]),
    (205181, [0x6e, 0x38, 0x75, 0x93, 0xf9, 0xf8, 0x6b, 0x54, 0x63, 0x0d, 0xab, 0x05, 0x73, 0x9b, 0x00, 0xd6]),
    (205211, [0xe9, 0x7e, 0x4a, 0x55, 0xbc, 0xc3, 0xef, 0x23, 0x3d, 0x8b, 0x3d, 0x28, 0xa0, 0xab, 0xab, 0x75]),
    (205212, [0xf4, 0xc4, 0x9f, 0xe7, 0xf4, 0xff, 0xff, 0x16, 0xf4, 0xe0, 0x4b, 0x78, 0xa0, 0x25, 0xb6, 0x36]),
    (205251, [0x21, 0x29, 0x99, 0x29, 0x43, 0xd1, 0x61, 0xb2, 0x1e, 0xeb, 0x73, 0x53, 0x58, 0xff, 0x5e, 0xc7]),
    (205271, [0xbc, 0x1c, 0xed, 0x91, 0x87, 0xd5, 0x19, 0xf4, 0x43, 0xf1, 0x34, 0x92, 0x47, 0xff, 0x05, 0xff]),
    (205331, [0xd3, 0xda, 0x9d, 0xbc, 0x85, 0x42, 0x92, 0xfb, 0x0c, 0xcd, 0xef, 0xf6, 0x00, 0xbd, 0x04, 0x35]),
    (205332, [0x1a, 0x53, 0xf2, 0x00, 0x69, 0xd0, 0xa4, 0x33, 0xff, 0xfb, 0xda, 0xd2, 0xbd, 0xab, 0xb3, 0x67]),
    (205351, [0x8e, 0xe7, 0x7b, 0xe0, 0x10, 0xfe, 0xa4, 0x97, 0x23, 0x39, 0x2e, 0x30, 0x70, 0x18, 0xd0, 0xab]),
    (205371, [0x50, 0xdf, 0xf4, 0xe5, 0xaf, 0x1d, 0xe9, 0x4c, 0x77, 0x31, 0xf6, 0x9c, 0x8c, 0x8c, 0xcf, 0xb1]),
    (205372, [0x0f, 0x1c, 0x73, 0x23, 0xb4, 0x83, 0x38, 0x17, 0x64, 0xbb, 0x51, 0xdb, 0xd1, 0x9a, 0xf5, 0x63]),
    (205373, [0x74, 0xa9, 0xf7, 0xa3, 0x6e, 0x01, 0xf9, 0x11, 0x3f, 0x60, 0x80, 0x89, 0x81, 0x10, 0xc7, 0xb4]),
    (205374, [0x0b, 0xaf, 0xa3, 0x1b, 0xc2, 0x30, 0xd9, 0x0f, 0xfd, 0xd2, 0xa2, 0x08, 0xe0, 0xe5, 0x6c, 0x6d]),
    (205551, [0x1d, 0x1d, 0xcc, 0xfa, 0xbb, 0x66, 0xb3, 0xd2, 0xc8, 0x35, 0xfe, 0x17, 0xdb, 0xf6, 0x8b, 0xbf]),
    (205552, [0x74, 0xef, 0x62, 0x93, 0x91, 0x1d, 0xfa, 0x1f, 0xba, 0xdb, 0x48, 0x2e, 0xeb, 0xcc, 0xe8, 0xbf]),
    (205571, [0x3b, 0x5e, 0x29, 0x33, 0xa5, 0x5c, 0x79, 0xc8, 0x02, 0x87, 0x79, 0x97, 0x09, 0xcd, 0xf6, 0xc5]),
    (205572, [0x32, 0x83, 0xa4, 0xce, 0xa4, 0x3f, 0x82, 0x14, 0xdf, 0xb9, 0x89, 0x75, 0x95, 0x6a, 0x94, 0xe7]),
    (205573, [0x31, 0xf8, 0x24, 0x26, 0xdc, 0x1c, 0xc6, 0x45, 0x39, 0xb4, 0x9d, 0x59, 0x35, 0xc2, 0x0c, 0x19]),
    (205574, [0x6a, 0x6b, 0x8e, 0x5e, 0x28, 0xc5, 0xda, 0x21, 0x44, 0x07, 0x21, 0x77, 0x43, 0x10, 0xf7, 0x41]),
    (205611, [0x96, 0xe4, 0x08, 0x8e, 0xf0, 0xf9, 0x5f, 0x75, 0x42, 0x0e, 0x98, 0x16, 0x3b, 0x8c, 0x86, 0x88]),
    (205612, [0xe3, 0x08, 0xef, 0x7a, 0x45, 0x01, 0xcf, 0xcc, 0xa8, 0x21, 0x6b, 0x94, 0xaf, 0x17, 0xbd, 0x2a]),
    (205613, [0x04, 0xb5, 0x09, 0x62, 0xda, 0x7d, 0x04, 0xb4, 0x3e, 0x51, 0x90, 0x5f, 0x34, 0x37, 0x46, 0x48]),
    (205614, [0x8c, 0xef, 0x55, 0xd1, 0xb9, 0xcb, 0x16, 0x84, 0x17, 0x22, 0x5d, 0x1b, 0xa4, 0xc3, 0xba, 0xb3]),
    (205630, [0xad, 0x98, 0x80, 0xca, 0x54, 0x8c, 0x05, 0xd3, 0x9b, 0x15, 0x32, 0x60, 0xa6, 0xd1, 0x6e, 0x22]),
    (205671, [0x1a, 0x0c, 0xad, 0x9a, 0x89, 0x50, 0xb7, 0xb6, 0xf8, 0xff, 0xf8, 0x05, 0x98, 0x13, 0x94, 0xdd]),
    (205672, [0xa8, 0x19, 0xc9, 0x6f, 0x14, 0x30, 0xf9, 0xae, 0x50, 0xdb, 0x24, 0x26, 0x84, 0x6d, 0x46, 0xfc]),
    (205673, [0x6b, 0x0a, 0xa2, 0x03, 0x06, 0x1e, 0xe4, 0x99, 0xe2, 0x98, 0x15, 0x5c, 0xc2, 0x91, 0x29, 0x0d]),
    (205691, [0x48, 0xc4, 0x24, 0x7c, 0x67, 0x82, 0xe2, 0x47, 0xba, 0xc5, 0x4c, 0x67, 0x86, 0x4f, 0x08, 0x44]),
    (205692, [0x6b, 0x09, 0xf4, 0x2f, 0x41, 0x2c, 0x5d, 0x47, 0xf3, 0x14, 0x20, 0x4e, 0xfe, 0x01, 0xa9, 0x26]),
    (205731, [0x68, 0x9b, 0x0b, 0x4e, 0xcb, 0xbf, 0x21, 0x7f, 0x7d, 0xb3, 0x65, 0xb2, 0x73, 0x32, 0xa7, 0x39]),
    (205771, [0x98, 0x4f, 0x98, 0xe2, 0x08, 0xe1, 0x73, 0xcd, 0x4a, 0xe1, 0xf6, 0x47, 0xd3, 0x24, 0xcb, 0xd2]),
    (205831, [0x9b, 0x57, 0x1a, 0x61, 0x87, 0x5c, 0xa4, 0xc4, 0x0c, 0x00, 0x23, 0x4d, 0xa5, 0x58, 0xa5, 0x2f]),
    (205841, [0x7f, 0x2a, 0xcc, 0x2c, 0x31, 0x1c, 0x75, 0xb8, 0xa1, 0x0a, 0xf9, 0xad, 0xc1, 0xcf, 0x0a, 0xcb]),
    (205842, [0x04, 0x67, 0x52, 0x14, 0x55, 0x39, 0xe5, 0xf5, 0x16, 0xf5, 0x76, 0x29, 0xc7, 0x9a, 0xcd, 0xab]),
    (205871, [0x13, 0xe1, 0xfd, 0xc0, 0x60, 0xbf, 0xd8, 0x64, 0x22, 0x17, 0xed, 0xa5, 0x6d, 0xae, 0xae, 0x64]),
    (205872, [0xd4, 0x9e, 0x91, 0xff, 0xfe, 0xa4, 0xe5, 0xc3, 0x73, 0x86, 0x70, 0x88, 0xc0, 0x2a, 0x20, 0xc3]),
    (205931, [0x94, 0xe5, 0x3b, 0x42, 0xbb, 0xc5, 0x8e, 0xa5, 0xcb, 0xf0, 0xa2, 0xad, 0x87, 0x67, 0x82, 0xd1]),
    (205932, [0x6c, 0x51, 0xfc, 0x95, 0x90, 0x46, 0xc2, 0x53, 0xa4, 0x9c, 0xbd, 0x01, 0x7c, 0x37, 0x4d, 0x4b]),
    (205933, [0x4a, 0xb3, 0x51, 0x4d, 0x33, 0xc0, 0x00, 0xea, 0xbc, 0x74, 0x66, 0xa6, 0x13, 0xa7, 0xb2, 0x26]),
    (205934, [0xd9, 0x27, 0x90, 0xe2, 0x51, 0x98, 0xc9, 0xc6, 0x6d, 0x73, 0x15, 0x6b, 0x34, 0xcc, 0xee, 0x5d]),
    (205935, [0x56, 0x25, 0x9d, 0x01, 0xfc, 0x1d, 0xc8, 0x2b, 0xb1, 0xcc, 0xa5, 0x88, 0x57, 0x8a, 0x3d, 0xce]),
    (205936, [0x7b, 0xf3, 0xc5, 0x3a, 0xe0, 0x54, 0xa3, 0xe0, 0x6c, 0x58, 0x4a, 0xa6, 0xaf, 0x1e, 0x46, 0x80]),
    (205937, [0x7c, 0x9e, 0xa4, 0x5b, 0x10, 0x75, 0x93, 0x4b, 0x6c, 0xb0, 0x9f, 0x01, 0x9a, 0xe1, 0x4d, 0x44]),
    (205938, [0x34, 0x5d, 0x24, 0xe8, 0x9f, 0xda, 0x04, 0x04, 0x80, 0xf2, 0x5e, 0xd0, 0x9c, 0x62, 0x96, 0xb2]),
    (205939, [0x36, 0xe4, 0x6d, 0x43, 0xe7, 0x41, 0x4e, 0x09, 0x86, 0xd2, 0xef, 0xa6, 0xa7, 0xca, 0xea, 0x76]),
    (205940, [0x08, 0xe0, 0xe8, 0x31, 0x91, 0x77, 0x69, 0x46, 0x40, 0xc2, 0x34, 0x70, 0xae, 0x30, 0x19, 0x24]),
    (205941, [0x2c, 0x17, 0x1e, 0xf4, 0xa6, 0x2e, 0xce, 0x4e, 0xa8, 0x1f, 0x87, 0xb4, 0x08, 0x53, 0xf4, 0x38]),
    (206011, [0x2b, 0xa1, 0x10, 0x4c, 0xe6, 0x0a, 0x3c, 0xcb, 0x63, 0x07, 0x2b, 0xfb, 0x76, 0x58, 0x15, 0xd5]),
    (206021, [0x89, 0x80, 0x99, 0x88, 0x5d, 0x5a, 0xe7, 0x9c, 0xc3, 0x4f, 0x5a, 0x7b, 0x27, 0xce, 0xa5, 0x7f]),
    (206041, [0xa0, 0xca, 0x5a, 0xdb, 0x2a, 0xc8, 0xae, 0x00, 0x63, 0x87, 0xa0, 0xad, 0x46, 0xfb, 0x31, 0x94]),
    (206061, [0x01, 0x07, 0x1a, 0x57, 0x33, 0x12, 0x5d, 0x54, 0x64, 0x8c, 0x2d, 0xfe, 0xe9, 0x75, 0x49, 0xf1]),
    (206081, [0xcb, 0xf6, 0xec, 0xaf, 0xdf, 0x34, 0xf1, 0x61, 0xd5, 0x72, 0x64, 0xe1, 0x32, 0x9b, 0xcc, 0xb4]),
    (206231, [0x48, 0x31, 0x51, 0x71, 0xca, 0xe3, 0x16, 0xf9, 0x95, 0xf4, 0x0b, 0x90, 0x74, 0x33, 0x13, 0x19]),
    (206251, [0xdb, 0xd8, 0xa4, 0x09, 0x33, 0xa1, 0x6b, 0xb7, 0x15, 0x5a, 0xfa, 0xef, 0x32, 0x3d, 0x1a, 0xfd]),
    (206291, [0x69, 0xfb, 0x68, 0x1a, 0x28, 0xc9, 0xe3, 0xd4, 0xd3, 0xd7, 0x1e, 0xb0, 0x9a, 0x3f, 0xa3, 0x3d]),
    (206292, [0x33, 0xfb, 0x6b, 0x40, 0x97, 0x8a, 0x58, 0xc5, 0xf1, 0x4d, 0x09, 0x93, 0x80, 0x5f, 0x6a, 0x3d]),
    (206311, [0xa2, 0x3f, 0x80, 0xd4, 0x84, 0x6f, 0x19, 0xa0, 0x32, 0x1e, 0x47, 0x41, 0x37, 0x36, 0x83, 0xb8]),
    (206331, [0x55, 0x7e, 0xbd, 0x6a, 0x6c, 0xb4, 0x83, 0x79, 0x3f, 0x77, 0xc6, 0xa7, 0xa8, 0xdd, 0x56, 0x25]),
    (206351, [0x1e, 0xcd, 0x71, 0xb4, 0xdd, 0xaa, 0x9a, 0x85, 0x08, 0xf0, 0x1c, 0xd5, 0x32, 0x4b, 0xbd, 0xf5]),
    (206352, [0x36, 0x72, 0x91, 0xd5, 0xa4, 0xcd, 0xcd, 0xf1, 0x43, 0x91, 0x96, 0x7d, 0xb2, 0xe3, 0x75, 0x5b]),
    (206353, [0x4c, 0x69, 0xc9, 0x1a, 0x9d, 0x30, 0xb8, 0x28, 0x80, 0x9c, 0x45, 0xe5, 0x7a, 0x9b, 0xb1, 0xc0]),
    (206354, [0x54, 0xb8, 0x4d, 0x36, 0x53, 0x0c, 0xe4, 0xef, 0x91, 0xfa, 0xf3, 0x49, 0xb3, 0xe5, 0x3e, 0x42]),
    (206371, [0x42, 0xea, 0x6c, 0x8c, 0x84, 0xa9, 0xcd, 0xc5, 0xe4, 0xf4, 0xaf, 0x8a, 0x66, 0x63, 0x30, 0x60]),
    (206391, [0x28, 0xb8, 0x4f, 0x88, 0x78, 0x57, 0xae, 0xbd, 0x9b, 0xf4, 0x7e, 0xcd, 0x07, 0x50, 0x17, 0x24]),
    (206411, [0x6b, 0x40, 0x15, 0x19, 0x47, 0x67, 0xdd, 0x22, 0x5e, 0xbc, 0x1e, 0x46, 0xc4, 0xe7, 0x3e, 0x91]),
    (206461, [0x2a, 0xa3, 0x72, 0xbc, 0x0d, 0xb7, 0xd7, 0x53, 0x59, 0xa8, 0xc7, 0x86, 0xe8, 0x2a, 0x1f, 0xc2]),
    (206462, [0x96, 0x2f, 0xf1, 0xe1, 0xf2, 0x36, 0x28, 0x86, 0x0e, 0x2a, 0x2a, 0x90, 0xa3, 0x47, 0xda, 0xf6]),
    (206463, [0x99, 0x3e, 0x50, 0xc0, 0xe6, 0xd2, 0x69, 0x5f, 0x3a, 0xfc, 0xe2, 0x94, 0xff, 0x8c, 0x2f, 0x10]),
    (206464, [0x75, 0xc9, 0xd0, 0x9e, 0x86, 0x33, 0xcc, 0xa8, 0x9c, 0x49, 0xe9, 0xbe, 0xeb, 0xd5, 0x61, 0xf9])]"

definition TABLE_28 :: "key_entry list" where
  "TABLE_28 = [
    (206481, [0x28, 0x1d, 0x26, 0x08, 0xa5, 0x5e, 0x08, 0x4d, 0xe3, 0x00, 0xf4, 0x2b, 0xa8, 0xdc, 0x0e, 0xa8]),
    (206550, [0x15, 0x5e, 0x81, 0x11, 0xe3, 0x6b, 0xda, 0x9d, 0xc6, 0xdc, 0xd4, 0x01, 0xf8, 0xb6, 0x2f, 0xfb]),
    (206560, [0xe7, 0x7c, 0x0b, 0x93, 0x32, 0x22, 0x3d, 0x24, 0xcd, 0xd4, 0x67, 0xf9, 0x8c, 0x50, 0x00, 0xe2]),
    (206570, [0x46, 0x85, 0x04, 0x36, 0x8b, 0x30, 0x4d, 0xff, 0x67, 0xbc, 0xdf, 0xa4, 0xbb, 0x61, 0xc5, 0x62]),
    (206580, [0x4b, 0xbc, 0x08, 0x90, 0x16, 0x0e, 0x34, 0x86, 0x93, 0x0b, 0x5c, 0x62, 0x23, 0xd7, 0xd6, 0x8b]),
    (206590, [0x31, 0x1e, 0xf4, 0x30, 0x5c, 0x84, 0xd7, 0x76, 0x91, 0xbe, 0xf6, 0x1a, 0x3c, 0xa7, 0xb9, 0xd6]),
    (206611, [0xa7, 0x98, 0x1f, 0x80, 0xa9, 0xb2, 0x79, 0x96, 0x01, 0x04, 0x00, 0x85, 0x3d, 0x56, 0x5e, 0xfd]),
    (206612, [0xd2, 0x37, 0x6b, 0x23, 0xaa, 0xed, 0x58, 0xe1, 0xb9, 0xa3, 0xe3, 0xc5, 0xe5, 0x9e, 0x57, 0x76]),
    (206651, [0x1f, 0xcc, 0x35, 0xf8, 0xd9, 0xaf, 0x40, 0x1d, 0x26, 0xa5, 0x1a, 0xbb, 0xd3, 0x85, 0xdb, 0x1f]),
    (206691, [0x4d, 0x04, 0x1b, 0xfd, 0x81, 0x3c, 0xf6, 0x32, 0x1a, 0x5f, 0x4e, 0xbf, 0x9e, 0x21, 0x02, 0xc4]),
    (206692, [0xe6, 0xf9, 0x2e, 0x40, 0x73, 0x7c, 0x2b, 0x61, 0xd3, 0x60, 0x65, 0x93, 0x3b, 0x69, 0x26, 0x1f]),
    (206741, [0xa7, 0xbc, 0x28, 0xe4, 0x1e, 0xac, 0xda, 0x0d, 0xaa, 0x88, 0x95, 0xfd, 0x0e, 0x18, 0x07, 0xe7]),
    (206742, [0x51, 0x1d, 0x37, 0xd8, 0x89, 0x9d, 0x22, 0x2f, 0x00, 0x1f, 0x07, 0x06, 0x4f, 0x05, 0x30, 0x9e]),
    (206743, [0xed, 0xcf, 0x0e, 0xf4, 0xc7, 0x0d, 0xa5, 0x8d, 0xb6, 0xb1, 0x68, 0x52, 0xd0, 0x58, 0x4c, 0x34]),
    (206744, [0x38, 0xa1, 0x71, 0xc1, 0x78, 0x29, 0xc6, 0x1d, 0x42, 0xf8, 0x2f, 0x8f, 0x67, 0xa7, 0x27, 0x09]),
    (206745, [0x6b, 0x06, 0x85, 0x7a, 0x31, 0x57, 0x5c, 0xf4, 0xe2, 0x47, 0x8c, 0x6d, 0x53, 0x30, 0xd6, 0x33]),
    (206746, [0xcd, 0x1c, 0x90, 0xf9, 0xa7, 0xf6, 0xdf, 0x42, 0xb5, 0xc0, 0x45, 0x73, 0x98, 0x8f, 0xc8, 0x4d]),
    (206747, [0xd0, 0x0f, 0x2d, 0x7a, 0x42, 0x13, 0x39, 0x51, 0x66, 0x28, 0xf5, 0x07, 0x5a, 0xe7, 0x37, 0x29]),
    (206748, [0x82, 0xac, 0x47, 0xc6, 0x16, 0x8a, 0x95, 0x60, 0x73, 0xd4, 0x44, 0x4d, 0xc7, 0xd2, 0xd2, 0x72]),
    (206749, [0x7f, 0x2d, 0xc5, 0x82, 0xbc, 0xa0, 0x5c, 0x83, 0xcb, 0x96, 0xc9, 0x4b, 0x8b, 0xaf, 0x9d, 0xb4]),
    (206750, [0xe7, 0xac, 0xdb, 0xa0, 0x5f, 0x8f, 0x11, 0x69, 0x7c, 0x4b, 0xb5, 0xbf, 0xdc, 0x93, 0x71, 0xef]),
    (206751, [0x81, 0xdd, 0x7b, 0xee, 0x2c, 0xba, 0x20, 0x23, 0x57, 0x6f, 0x80, 0x0d, 0x00, 0x3c, 0xd7, 0xc2]),
    (206761, [0xf0, 0xba, 0xdb, 0xc2, 0xa6, 0xb7, 0x00, 0xa6, 0xb1, 0x61, 0x30, 0x7f, 0xe4, 0xb4, 0x37, 0xa7]),
    (206762, [0xc5, 0x15, 0x7d, 0x19, 0xfe, 0x86, 0x00, 0xec, 0x13, 0xeb, 0x30, 0xc4, 0x99, 0xa0, 0x6c, 0x4b]),
    (206763, [0xec, 0x52, 0x14, 0x0c, 0x0a, 0xff, 0xe9, 0x8b, 0xc8, 0x5a, 0x86, 0x55, 0x91, 0x79, 0xb9, 0x71]),
    (206764, [0x71, 0xb6, 0xb3, 0xad, 0x90, 0x92, 0x3c, 0xf4, 0x3b, 0x66, 0x9d, 0xea, 0x2d, 0x3f, 0x9b, 0xbd]),
    (206765, [0x7e, 0xf4, 0x17, 0xbc, 0xd3, 0x4b, 0x38, 0xf3, 0x15, 0xab, 0x27, 0x17, 0x76, 0x48, 0x77, 0xf4]),
    (206881, [0x0b, 0xe0, 0x11, 0xbe, 0x6f, 0x9d, 0x94, 0xdb, 0x57, 0xfd, 0xea, 0xc2, 0xe1, 0xe6, 0x4d, 0x43]),
    (206882, [0x6a, 0x58, 0x0c, 0x10, 0x1a, 0x0b, 0xcd, 0x98, 0x87, 0x9d, 0xf3, 0xf3, 0x65, 0x24, 0xb0, 0x41]),
    (206921, [0x2a, 0x79, 0xae, 0x5d, 0x75, 0xee, 0x18, 0x1e, 0xaf, 0x70, 0x3d, 0x7b, 0xd1, 0xcb, 0x36, 0x66]),
    (206922, [0x00, 0x93, 0x7d, 0xb0, 0x4b, 0xc1, 0xc8, 0x3a, 0xa2, 0x53, 0x13, 0xeb, 0x09, 0x87, 0x72, 0xd6]),
    (206923, [0xfd, 0x7a, 0x7b, 0x25, 0x94, 0x59, 0x32, 0x6b, 0x4d, 0x2d, 0xfa, 0x42, 0xf0, 0x0b, 0x21, 0x27]),
    (206981, [0x68, 0x6e, 0x2c, 0x13, 0x11, 0x70, 0x37, 0xf7, 0x76, 0x00, 0x85, 0xbe, 0x60, 0xd9, 0xc6, 0xfc]),
    (207021, [0xb6, 0x51, 0x20, 0x09, 0xe6, 0xde, 0x01, 0xb5, 0xe1, 0x14, 0xf6, 0x8d, 0x3a, 0x72, 0x18, 0x82]),
    (207061, [0x25, 0xd3, 0x03, 0xdd, 0xed, 0x13, 0x01, 0x85, 0x96, 0x03, 0xbf, 0xd5, 0xf6, 0xc6, 0x5f, 0x2a]),
    (207131, [0x37, 0xae, 0x27, 0x69, 0x91, 0xa5, 0xd3, 0x01, 0x1f, 0x82, 0x64, 0x29, 0x1a, 0xd7, 0x85, 0x0c]),
    (207151, [0x05, 0xd3, 0x4d, 0xb1, 0x58, 0xf0, 0x4d, 0x11, 0xa0, 0x3d, 0xe8, 0xf0, 0x90, 0xb8, 0x95, 0x4c]),
    (207171, [0x80, 0xf2, 0x45, 0x37, 0x1f, 0xc7, 0xaa, 0xb0, 0x08, 0xd6, 0x4a, 0xc6, 0xa8, 0xb2, 0xba, 0x21]),
    (207192, [0x0e, 0x32, 0x93, 0xea, 0xb8, 0x86, 0xdd, 0xa0, 0xa2, 0x06, 0x78, 0xd8, 0x8b, 0x98, 0x2f, 0x8d]),
    (207231, [0x7d, 0x0b, 0x56, 0x30, 0x28, 0x5b, 0xe7, 0x3e, 0xd9, 0x07, 0xdd, 0x23, 0x46, 0xad, 0x06, 0xeb]),
    (207251, [0x30, 0x46, 0x2f, 0x0c, 0x0c, 0xc1, 0x83, 0x6b, 0x73, 0x97, 0xf8, 0xfc, 0x75, 0x33, 0x67, 0xa7]),
    (207252, [0xc4, 0x68, 0xd2, 0xf4, 0x7f, 0xb4, 0xf7, 0x52, 0x28, 0x70, 0xde, 0x91, 0xac, 0x84, 0x64, 0x39]),
    (207271, [0x1d, 0x27, 0x63, 0x48, 0x0e, 0xb4, 0x1b, 0x2e, 0x5d, 0x0a, 0xfa, 0x8c, 0x08, 0xb2, 0x44, 0xa9]),
    (207272, [0x7b, 0x1a, 0x58, 0xb8, 0x59, 0x9a, 0xdc, 0xeb, 0x06, 0xa3, 0xae, 0xa7, 0x7a, 0x02, 0xdf, 0xf1]),
    (207291, [0x2f, 0x22, 0xc2, 0x4c, 0x71, 0xaa, 0xf0, 0x4e, 0x6c, 0xf7, 0x5f, 0x50, 0xab, 0x50, 0x35, 0x11]),
    (207311, [0x65, 0xb9, 0x29, 0xb1, 0x8a, 0x30, 0x8d, 0x18, 0xe8, 0x2a, 0x06, 0x87, 0x97, 0x12, 0xb3, 0x90]),
    (207313, [0x18, 0xe3, 0x0c, 0xb8, 0xff, 0x78, 0x37, 0xdb, 0x06, 0x66, 0x55, 0x2b, 0x1a, 0xf1, 0x12, 0xe1]),
    (207314, [0xee, 0x55, 0x7f, 0xed, 0x66, 0x95, 0x9b, 0x50, 0x2f, 0x30, 0xda, 0xf2, 0x9a, 0xfc, 0xd9, 0x52]),
    (207321, [0x85, 0x0b, 0x47, 0x79, 0x1c, 0x84, 0x7e, 0x2e, 0x64, 0x44, 0xda, 0xdd, 0xa0, 0xf9, 0xf5, 0xed]),
    (207351, [0x75, 0x45, 0x9a, 0x81, 0x1b, 0x16, 0x1d, 0xd4, 0x33, 0xf1, 0x12, 0xae, 0xe7, 0x57, 0x35, 0xd8]),
    (207371, [0x11, 0xfb, 0xfe, 0x66, 0xa9, 0xaa, 0xad, 0x6e, 0x02, 0x04, 0x71, 0xd6, 0x8a, 0x37, 0x83, 0x46]),
    (207381, [0xe8, 0xb2, 0xa8, 0xcb, 0x67, 0xef, 0xb2, 0x8c, 0x5d, 0xb8, 0x2c, 0xff, 0x2d, 0x8d, 0x72, 0x0d]),
    (207401, [0x8b, 0xfc, 0xa6, 0xfe, 0xaa, 0xe3, 0x89, 0x43, 0xf7, 0x5f, 0xec, 0xd1, 0x27, 0x09, 0x9c, 0x0b]),
    (207421, [0x60, 0x83, 0x4e, 0xe3, 0x01, 0x22, 0x39, 0xd8, 0x24, 0x1d, 0x47, 0x65, 0xaa, 0x2c, 0x48, 0x00]),
    (207422, [0x11, 0x78, 0x4c, 0x92, 0xca, 0xc2, 0x1c, 0x0c, 0x8c, 0x1d, 0x47, 0x34, 0xad, 0x66, 0x3f, 0x24]),
    (207431, [0x09, 0x43, 0xb7, 0xf8, 0xeb, 0x50, 0x4c, 0x5b, 0xbf, 0x92, 0xf9, 0xdb, 0x6e, 0x1a, 0x3b, 0xc6]),
    (207432, [0x17, 0x85, 0x1f, 0x5b, 0x4b, 0xdb, 0x6e, 0x4b, 0xd0, 0xaf, 0x0d, 0x34, 0x4c, 0xd6, 0xbf, 0xd2]),
    (207531, [0x1d, 0xa9, 0xf0, 0x68, 0xaa, 0x37, 0xd4, 0x09, 0x77, 0x06, 0xe5, 0xde, 0x06, 0x9a, 0x83, 0x5d]),
    (207551, [0x4d, 0x8e, 0x10, 0x38, 0xc7, 0x66, 0x4f, 0xae, 0xfa, 0x16, 0xb8, 0x6b, 0x07, 0x73, 0x85, 0x04]),
    (207591, [0x45, 0x87, 0xc8, 0xdf, 0x58, 0xad, 0xf9, 0xb7, 0xf8, 0xe8, 0xc7, 0x41, 0xa0, 0x5f, 0xd7, 0x8b]),
    (207611, [0x88, 0x9d, 0xae, 0x10, 0x0c, 0x74, 0x0a, 0xc7, 0xd8, 0x89, 0x1a, 0x38, 0xb5, 0x9f, 0xb2, 0x2b]),
    (207612, [0x7f, 0x05, 0x56, 0x8c, 0xfc, 0xbb, 0x53, 0xc5, 0x76, 0xb5, 0xfb, 0x30, 0xe5, 0xa5, 0xcc, 0xd9]),
    (207631, [0x88, 0xcc, 0xc5, 0x3a, 0x41, 0x43, 0xe8, 0x89, 0xe3, 0xe1, 0xa4, 0x29, 0xe3, 0x38, 0x46, 0xbc]),
    (207632, [0xc4, 0x0f, 0x5a, 0x88, 0x34, 0x49, 0xdb, 0x77, 0x5b, 0xc0, 0xbe, 0x13, 0x87, 0xcb, 0x7e, 0x6c]),
    (207651, [0x72, 0x15, 0x79, 0x99, 0xf2, 0x2f, 0x6e, 0xea, 0xe4, 0x0b, 0xbb, 0x50, 0x66, 0xe1, 0x8b, 0xa4]),
    (207655, [0x43, 0xa3, 0xed, 0x4b, 0x17, 0xd7, 0xa9, 0x86, 0xe0, 0x9f, 0x7d, 0xc3, 0x61, 0xc0, 0x1c, 0x52]),
    (207691, [0x7e, 0x15, 0x2a, 0x80, 0x21, 0xd1, 0xda, 0x3e, 0x31, 0xcd, 0xe0, 0x47, 0x13, 0xc9, 0x75, 0x8b]),
    (207692, [0x5d, 0xac, 0x39, 0x76, 0x28, 0xb8, 0x27, 0xca, 0xb8, 0x4c, 0xea, 0xec, 0x0b, 0xe5, 0xd5, 0xe5]),
    (207711, [0x07, 0x6c, 0xcd, 0x38, 0x83, 0x0b, 0xc0, 0xe5, 0x04, 0xa3, 0xab, 0xba, 0xeb, 0x15, 0x5c, 0x0f]),
    (207712, [0x5e, 0x38, 0x6e, 0xd8, 0x8e, 0xb6, 0xc1, 0xf0, 0xb8, 0xc4, 0xba, 0x3b, 0x54, 0x54, 0x4b, 0x98]),
    (207713, [0x29, 0x11, 0x05, 0x62, 0x52, 0xdd, 0x77, 0xf4, 0x57, 0x11, 0x2b, 0x47, 0xb0, 0x95, 0xc9, 0xd6]),
    (207731, [0xb8, 0x83, 0x1c, 0xd2, 0x21, 0xc4, 0x2d, 0xdd, 0xf2, 0x3b, 0x7f, 0x34, 0xdb, 0x7c, 0x4b, 0xb4]),
    (207771, [0xde, 0x53, 0x1b, 0x33, 0xb5, 0xf9, 0x56, 0xc8, 0x09, 0x81, 0x0e, 0x4a, 0x3a, 0x7b, 0xd4, 0xde]),
    (207772, [0x05, 0x74, 0x98, 0xd1, 0x49, 0x01, 0xc0, 0xc9, 0xf0, 0x4f, 0xe1, 0xd8, 0x2e, 0x54, 0xdd, 0x72]),
    (207773, [0x40, 0xab, 0x5f, 0xfd, 0x40, 0xed, 0x20, 0x2d, 0x6a, 0xc8, 0x4c, 0x80, 0xff, 0x90, 0x6b, 0x4c]),
    (207774, [0x95, 0xaa, 0x7a, 0xf5, 0x31, 0xbf, 0x85, 0x09, 0xc8, 0xa8, 0xe7, 0xcf, 0xbf, 0x5c, 0xd1, 0xed]),
    (207775, [0x76, 0xf8, 0x5e, 0xfe, 0xc9, 0x53, 0xf5, 0x2c, 0x22, 0x75, 0xef, 0x17, 0x23, 0xec, 0x8a, 0x82]),
    (207776, [0xd8, 0xb6, 0x42, 0x30, 0x19, 0xb8, 0xd2, 0x18, 0x0d, 0x57, 0x6a, 0x77, 0x42, 0x6d, 0x56, 0xc1]),
    (207778, [0x38, 0x24, 0x70, 0xad, 0x17, 0x27, 0x3a, 0x83, 0x2e, 0x99, 0x04, 0x2e, 0x2f, 0x65, 0x76, 0x58]),
    (207791, [0x98, 0x67, 0x2a, 0xa9, 0x39, 0xa2, 0xb5, 0x6a, 0x91, 0x65, 0xbe, 0xea, 0xb3, 0xae, 0xd1, 0x03]),
    (207792, [0xc3, 0xd4, 0x22, 0x88, 0x2d, 0xb1, 0xf8, 0x19, 0xf8, 0x39, 0x25, 0x4e, 0x87, 0xb7, 0xab, 0x87]),
    (207911, [0x21, 0x98, 0x79, 0xea, 0x3f, 0xee, 0x8a, 0x4a, 0xd1, 0x0f, 0x07, 0xa8, 0xb2, 0x34, 0x59, 0x6b]),
    (207971, [0x29, 0x86, 0x26, 0xf0, 0xe0, 0xf2, 0xf5, 0x70, 0x54, 0xb2, 0x38, 0xec, 0xdf, 0xa0, 0x17, 0x54]),
    (208011, [0xab, 0x43, 0x26, 0x05, 0xca, 0x41, 0x93, 0x4e, 0x26, 0xf1, 0x27, 0x6e, 0xff, 0x3a, 0xbc, 0x21]),
    (208031, [0xaa, 0xdf, 0xf1, 0x57, 0xad, 0x21, 0x5d, 0xaf, 0xea, 0x53, 0x7e, 0x48, 0x8e, 0x61, 0x18, 0x4e]),
    (208051, [0x43, 0x27, 0x87, 0x61, 0x95, 0x04, 0xe3, 0xaa, 0xd2, 0x6c, 0xcf, 0x91, 0xc8, 0xac, 0x67, 0xad]),
    (208071, [0xd4, 0xa7, 0xe1, 0xea, 0xb7, 0xe1, 0x49, 0x08, 0xad, 0x97, 0xbd, 0xe0, 0x8e, 0xe6, 0xe0, 0xd1]),
    (208111, [0xb6, 0x2f, 0xd7, 0x50, 0x4a, 0x39, 0xbd, 0x82, 0x88, 0xa9, 0x91, 0x36, 0x3a, 0xaf, 0x07, 0xff]),
    (208141, [0x08, 0x3c, 0x7d, 0xee, 0x5e, 0xa7, 0x27, 0xac, 0x1a, 0xf3, 0x4a, 0x50, 0x89, 0x37, 0x1f, 0xa3]),
    (208271, [0x37, 0x0c, 0x67, 0x68, 0x6b, 0x6f, 0xbb, 0x58, 0xcc, 0x87, 0xef, 0x46, 0x21, 0x65, 0xb2, 0x64]),
    (208280, [0xdb, 0xe5, 0x5f, 0x43, 0xd5, 0x6c, 0xca, 0xd1, 0x84, 0xb7, 0x6b, 0x5f, 0x72, 0x2c, 0xf4, 0xf9]),
    (208281, [0x44, 0x5d, 0x99, 0xca, 0x45, 0x10, 0x8d, 0x80, 0x5a, 0xd9, 0xd1, 0xd5, 0xb6, 0x69, 0x45, 0x9d]),
    (208282, [0x93, 0x6b, 0xf2, 0x36, 0xa8, 0xb2, 0xb0, 0x97, 0xf9, 0xc9, 0xd0, 0x15, 0xbb, 0xf3, 0x0b, 0xe8]),
    (208283, [0xdd, 0x91, 0xdc, 0x8d, 0x43, 0x03, 0x7d, 0xa7, 0x0a, 0xea, 0xb3, 0x59, 0xbd, 0xd2, 0xbc, 0x21]),
    (208284, [0xe7, 0x0b, 0xdd, 0x80, 0xae, 0x67, 0x07, 0x70, 0xef, 0xc0, 0xae, 0xd5, 0xd5, 0x29, 0x4f, 0x71]),
    (208285, [0x5d, 0x17, 0xef, 0x0a, 0x27, 0xc6, 0x84, 0x20, 0x42, 0xbe, 0xb5, 0x29, 0xf0, 0x50, 0xa0, 0xbb]),
    (208286, [0x3a, 0xd0, 0x3b, 0xe6, 0x63, 0x2c, 0xd5, 0xf7, 0xdb, 0x2f, 0x59, 0x26, 0x57, 0xdc, 0x66, 0xa9]),
    (208287, [0xaa, 0xdf, 0xe9, 0x19, 0x60, 0x71, 0xbb, 0x23, 0x71, 0x68, 0x27, 0xd7, 0x5c, 0xd9, 0xd7, 0xbf]),
    (208288, [0x12, 0x99, 0x1d, 0x59, 0x9d, 0xe4, 0x3b, 0xd8, 0x0e, 0x89, 0x57, 0x08, 0xd3, 0x2c, 0x58, 0x1e]),
    (208289, [0x66, 0x40, 0x0b, 0xed, 0x6a, 0x29, 0x52, 0xec, 0x0d, 0xa9, 0xde, 0x48, 0x60, 0x86, 0xc6, 0x7c]),
    (208290, [0x56, 0x8d, 0x9e, 0xfc, 0xae, 0xe2, 0x37, 0x3f, 0x93, 0x6f, 0xb3, 0x49, 0x70, 0xaa, 0x8c, 0x41]),
    (208292, [0xa1, 0x70, 0xc0, 0x3a, 0x2a, 0xa1, 0xec, 0xa1, 0x75, 0xa6, 0x5a, 0xc7, 0xa7, 0x39, 0x85, 0x31]),
    (208293, [0xf8, 0xac, 0xd8, 0xb5, 0xc8, 0x58, 0x43, 0xd5, 0xe0, 0x32, 0x6e, 0x06, 0xde, 0xbe, 0x94, 0xa9]),
    (208294, [0x1f, 0xbb, 0x61, 0xd1, 0xfa, 0x48, 0x10, 0x2d, 0xb5, 0xad, 0x9b, 0x71, 0xd3, 0x43, 0x2c, 0x9f]),
    (208295, [0x5d, 0x6f, 0x25, 0x22, 0x30, 0x0f, 0xc8, 0x3b, 0xe8, 0x35, 0x5f, 0x4e, 0x4e, 0x36, 0x9c, 0x21]),
    (208296, [0xc8, 0x7a, 0x3d, 0xdd, 0x8b, 0x09, 0x3a, 0xee, 0x6a, 0x0f, 0xe7, 0xcd, 0xc0, 0xa6, 0x2c, 0xfa]),
    (208298, [0x16, 0xa6, 0x02, 0xac, 0xf1, 0x18, 0x20, 0x0c, 0x60, 0xf6, 0xa8, 0xbf, 0xa5, 0x2d, 0xd3, 0xaf]),
    (208299, [0xc5, 0x19, 0x0b, 0x91, 0xae, 0x71, 0xc6, 0x6b, 0xdb, 0x06, 0x67, 0xb1, 0xc4, 0xf6, 0xe1, 0x5b]),
    (208300, [0xa5, 0xf5, 0x17, 0xc1, 0x54, 0x4a, 0x75, 0x26, 0x51, 0x7b, 0x5a, 0xe9, 0x75, 0xed, 0x0f, 0x77]),
    (208301, [0xc3, 0x30, 0x49, 0x8e, 0xee, 0xa0, 0x1b, 0x0f, 0xcd, 0xb6, 0xdb, 0x74, 0x12, 0xad, 0x1f, 0xd8]),
    (208302, [0x64, 0x38, 0x1f, 0xfd, 0xec, 0xf8, 0x51, 0xa6, 0xcf, 0xfe, 0x1b, 0x0a, 0x9c, 0x36, 0xee, 0xd0]),
    (208303, [0x02, 0x05, 0xbe, 0x0c, 0x5a, 0x95, 0xda, 0xfe, 0x88, 0x7f, 0x07, 0xef, 0x5e, 0x26, 0x95, 0xab]),
    (208304, [0x74, 0x47, 0xdc, 0xec, 0xf6, 0x7d, 0x8e, 0xf5, 0xbb, 0xd8, 0xce, 0x6b, 0x70, 0xa3, 0x08, 0xad]),
    (208305, [0x74, 0x30, 0xc2, 0xed, 0x1a, 0x8e, 0xed, 0xaa, 0x94, 0x97, 0x20, 0xff, 0x44, 0xba, 0xef, 0xd6]),
    (208306, [0x51, 0x3e, 0x95, 0x62, 0xdd, 0xdb, 0xed, 0xc1, 0x22, 0xec, 0x14, 0x02, 0x05, 0x36, 0x05, 0x85]),
    (208307, [0x62, 0xbc, 0xa6, 0xe3, 0x3a, 0xef, 0xa9, 0x55, 0xb9, 0x26, 0x4f, 0x3d, 0x36, 0x17, 0xa1, 0xa7]),
    (208311, [0x60, 0x52, 0x08, 0xa5, 0x24, 0x17, 0x41, 0x32, 0x83, 0x12, 0x4a, 0x02, 0x9c, 0xad, 0xc0, 0xf9]),
    (208312, [0xef, 0xcf, 0x0c, 0x5e, 0x1e, 0xb8, 0xdd, 0xf2, 0x58, 0xbd, 0xcf, 0xfb, 0x64, 0x4f, 0x09, 0xb6]),
    (208313, [0xda, 0x88, 0x1b, 0x91, 0x5f, 0x2e, 0x45, 0xaa, 0x15, 0x4f, 0x06, 0xdb, 0x38, 0x46, 0x39, 0x92]),
    (208314, [0x8e, 0x95, 0x46, 0x29, 0x91, 0x98, 0xc5, 0xb3, 0x56, 0x71, 0x73, 0x7e, 0x93, 0xca, 0x22, 0x40]),
    (208315, [0x4d, 0x2a, 0xa6, 0xaf, 0x01, 0x5e, 0x89, 0x57, 0x9b, 0x91, 0xa1, 0x63, 0x5c, 0x94, 0xed, 0x90]),
    (208316, [0xc5, 0x5f, 0x1a, 0x12, 0xe0, 0x4b, 0x0c, 0x59, 0x93, 0xff, 0xd8, 0x3b, 0x8f, 0xcc, 0xe0, 0x39]),
    (208317, [0xd2, 0xb5, 0x31, 0xd8, 0xd2, 0x75, 0x65, 0x39, 0xc6, 0x3a, 0xc9, 0x3b, 0x3d, 0xec, 0xcc, 0x0d]),
    (208318, [0xb4, 0xd3, 0x21, 0x22, 0x23, 0x29, 0x68, 0xb0, 0xbf, 0xb6, 0xfb, 0x81, 0x5b, 0x31, 0x77, 0x99]),
    (208319, [0xed, 0x16, 0x94, 0xa5, 0xe0, 0x5f, 0x0d, 0x99, 0x7e, 0xbd, 0x38, 0x88, 0xff, 0x02, 0xa6, 0x6f]),
    (208320, [0xbe, 0xe2, 0x66, 0x78, 0x84, 0x84, 0x86, 0xab, 0x84, 0x3d, 0x15, 0x1b, 0xed, 0xf0, 0xde, 0x68]),
    (208321, [0xa2, 0x42, 0x0f, 0xcb, 0x47, 0x8f, 0x53, 0x10, 0xe8, 0x77, 0xd2, 0x08, 0x43, 0x9a, 0x2b, 0xf7]),
    (208323, [0x84, 0xb6, 0x43, 0x4a, 0xd9, 0x03, 0x06, 0xc0, 0x5f, 0x82, 0xa1, 0x0e, 0xd2, 0xff, 0xa2, 0x7c]),
    (208340, [0xf1, 0x79, 0xf6, 0xf5, 0xa6, 0xd8, 0x69, 0x3a, 0x27, 0x46, 0x4f, 0x20, 0xb3, 0x1f, 0x48, 0x4d]),
    (208341, [0x0d, 0x9c, 0xea, 0xc8, 0xc4, 0xd4, 0xce, 0x21, 0xff, 0xda, 0x3e, 0x17, 0x15, 0x1e, 0xfc, 0xf0]),
    (208342, [0x83, 0x30, 0x2e, 0x76, 0x3e, 0x7a, 0x54, 0xd9, 0xba, 0x83, 0x89, 0x70, 0xb9, 0x01, 0x07, 0x57]),
    (208343, [0x61, 0xc2, 0x94, 0x5a, 0xb1, 0x43, 0x49, 0x72, 0xc4, 0x43, 0x43, 0x8e, 0x47, 0xfa, 0xd2, 0xe4]),
    (208344, [0x12, 0x0c, 0xaf, 0xb3, 0x26, 0x78, 0x10, 0x4f, 0x54, 0x04, 0x84, 0x8b, 0xc6, 0x9d, 0x56, 0xb0]),
    (208345, [0x67, 0x05, 0xab, 0xbd, 0x6b, 0x9e, 0xcb, 0xf3, 0xd9, 0x25, 0x2f, 0x39, 0xa4, 0xad, 0x73, 0x76]),
    (208346, [0x5e, 0xb0, 0xca, 0x92, 0x51, 0x0d, 0xe6, 0xe8, 0x40, 0x35, 0xbf, 0xff, 0x11, 0x43, 0x02, 0x7b]),
    (208347, [0xb6, 0xb1, 0x2c, 0x49, 0x30, 0xc1, 0x40, 0x4f, 0xdb, 0x58, 0x47, 0xda, 0xb4, 0x2e, 0x96, 0xe9]),
    (208348, [0xb9, 0xfc, 0xd1, 0x90, 0x04, 0x26, 0xc3, 0x2e, 0x9e, 0xe1, 0x5b, 0x3f, 0x44, 0x7b, 0xde, 0x53]),
    (208349, [0xdf, 0xe6, 0xec, 0x8f, 0x30, 0xd4, 0x18, 0x68, 0x0e, 0x7a, 0x97, 0xa8, 0xf3, 0x37, 0x0c, 0xb1]),
    (208350, [0x16, 0x0c, 0x89, 0x60, 0x1d, 0x75, 0x8b, 0x36, 0xd1, 0x65, 0xb7, 0x57, 0x55, 0x2a, 0x85, 0x19]),
    (208351, [0xe4, 0x8f, 0xb4, 0x76, 0x39, 0x34, 0x9c, 0x97, 0x6e, 0xe1, 0x43, 0x84, 0x69, 0xdf, 0x19, 0x0a]),
    (208352, [0x86, 0xa5, 0x68, 0x18, 0x3f, 0xd3, 0x2a, 0xd4, 0xd6, 0x48, 0xba, 0xc2, 0x07, 0x57, 0x43, 0xbc]),
    (208353, [0xe3, 0x6e, 0xce, 0xd1, 0x71, 0x7f, 0x88, 0x66, 0x2c, 0x84, 0xb8, 0xba, 0xec, 0x92, 0x3a, 0x9d]),
    (208354, [0x0e, 0x2b, 0xe8, 0x36, 0x48, 0xe6, 0x0b, 0x53, 0x37, 0x00, 0x63, 0x06, 0x99, 0x39, 0x58, 0x1d]),
    (208355, [0xa9, 0x45, 0x21, 0x9f, 0xaf, 0x99, 0xcf, 0xf1, 0x1b, 0xba, 0x01, 0x5b, 0x05, 0x33, 0xa1, 0x40]),
    (208356, [0x01, 0xa3, 0x9f, 0x52, 0x04, 0x8f, 0x48, 0x9e, 0xff, 0x9a, 0xc3, 0x09, 0x09, 0xaa, 0x52, 0x77]),
    (208357, [0x12, 0x6c, 0xdb, 0x61, 0x53, 0xa3, 0x5b, 0xea, 0x10, 0x4d, 0x17, 0x20, 0x11, 0x54, 0x83, 0xd9]),
    (208361, [0x7f, 0x51, 0xc0, 0x73, 0xce, 0x96, 0xc9, 0x3d, 0x3c, 0x57, 0x73, 0x1b, 0x87, 0x14, 0x22, 0xfe]),
    (208362, [0xef, 0x7c, 0xf9, 0xac, 0x49, 0xdb, 0xc3, 0xe1, 0x5b, 0x4e, 0x33, 0xe6, 0x42, 0x26, 0x6f, 0x31]),
    (208363, [0x3d, 0x6c, 0x68, 0x1c, 0x14, 0x8f, 0x50, 0x88, 0x33, 0xc6, 0xb3, 0x8c, 0xd9, 0xce, 0xd6, 0xfa]),
    (208364, [0xbd, 0x34, 0x53, 0x86, 0x74, 0x70, 0xe3, 0x89, 0x21, 0xc3, 0x15, 0xdf, 0x74, 0x75, 0x4b, 0xa6])]"

definition TABLE_29 :: "key_entry list" where
  "TABLE_29 = [
    (208365, [0x4a, 0xdb, 0x01, 0x60, 0x2b, 0xac, 0x63, 0xe0, 0x36, 0x47, 0x8e, 0x04, 0xfc, 0xa1, 0x49, 0xa4]),
    (208366, [0x15, 0x39, 0x85, 0x3a, 0xf9, 0x10, 0x4a, 0xe3, 0x66, 0xcb, 0x6e, 0x15, 0xf4, 0x87, 0xc2, 0xb3]),
    (208367, [0x79, 0x10, 0xd0, 0x1e, 0x41, 0xa2, 0x4b, 0xc5, 0x20, 0xba, 0xc7, 0x47, 0x68, 0x34, 0xe2, 0xd8]),
    (208369, [0x1f, 0x75, 0x1b, 0x40, 0x81, 0xb3, 0xcb, 0x25, 0x9d, 0xdb, 0xb2, 0xf3, 0x08, 0x78, 0x2c, 0x00]),
    (208371, [0x95, 0x87, 0x13, 0xc3, 0x81, 0x01, 0x43, 0x07, 0x7d, 0xd9, 0x44, 0x48, 0x8d, 0x2c, 0x57, 0xc3]),
    (208374, [0x0d, 0x4b, 0xf1, 0xa3, 0xfd, 0x09, 0xa2, 0x15, 0xcf, 0xe2, 0x8f, 0xc6, 0x27, 0xb5, 0x2a, 0x0f]),
    (208376, [0x70, 0xc3, 0x83, 0xa7, 0x8b, 0x6e, 0x1b, 0xd2, 0x3e, 0xbd, 0x87, 0xd3, 0x59, 0xae, 0xb4, 0x94]),
    (208377, [0x05, 0x7f, 0x7c, 0x7a, 0xe2, 0xde, 0x95, 0x18, 0xc8, 0x0a, 0xad, 0xb3, 0x4d, 0xf5, 0x76, 0x46]),
    (208378, [0x7f, 0x4a, 0x59, 0x49, 0x4c, 0x92, 0x42, 0x3f, 0xbc, 0x27, 0xc8, 0x33, 0x84, 0x85, 0x29, 0xf8]),
    (208379, [0x06, 0x01, 0x45, 0x21, 0xb5, 0x6e, 0x11, 0x38, 0xc7, 0xf4, 0x8e, 0x1c, 0xf2, 0x38, 0x9b, 0xe4]),
    (208381, [0xf3, 0x13, 0x65, 0xd0, 0xa6, 0xd4, 0x0c, 0xe8, 0xc0, 0x56, 0xa1, 0xb4, 0xb2, 0xfb, 0x82, 0x58]),
    (208401, [0xba, 0x17, 0xf9, 0x26, 0xd6, 0xcd, 0x5c, 0xac, 0xa0, 0xda, 0xfe, 0xb9, 0x4c, 0x18, 0x59, 0xcc]),
    (208402, [0x1b, 0xdc, 0xc8, 0x74, 0xf3, 0x01, 0xec, 0xf7, 0x45, 0xf6, 0x16, 0xd1, 0xe7, 0x96, 0xc9, 0x67]),
    (208441, [0xb8, 0x96, 0x61, 0xba, 0x0c, 0x14, 0xf1, 0xff, 0x6d, 0xe9, 0x1f, 0x7e, 0x6a, 0x6a, 0x9b, 0xce]),
    (208461, [0x80, 0x84, 0xe2, 0xff, 0x91, 0xb0, 0xa0, 0x2d, 0x30, 0xba, 0xf0, 0x5e, 0xc5, 0xf4, 0x4a, 0x87]),
    (208501, [0x30, 0x8e, 0x77, 0xcb, 0xdb, 0xd6, 0xec, 0xd7, 0xae, 0x48, 0xca, 0x40, 0x0a, 0x7f, 0x42, 0x2f]),
    (208502, [0x73, 0x3b, 0xca, 0xa4, 0x73, 0xb8, 0x12, 0x98, 0xc6, 0xb9, 0x09, 0x94, 0x92, 0xf0, 0xaa, 0x25]),
    (208503, [0xbb, 0x74, 0x46, 0x12, 0x2c, 0xb5, 0x48, 0x99, 0x93, 0xfd, 0xaf, 0x10, 0x2a, 0x56, 0x95, 0x0e]),
    (208504, [0xbb, 0x31, 0x97, 0x70, 0x53, 0x1b, 0xad, 0xbc, 0xe1, 0x81, 0xbf, 0xd7, 0xc9, 0x96, 0x78, 0xec]),
    (208505, [0xe2, 0xdc, 0x17, 0x6f, 0xf3, 0x1a, 0x09, 0xbd, 0xb4, 0x65, 0x55, 0xbb, 0x5c, 0xd6, 0x86, 0x74]),
    (208506, [0x00, 0x25, 0x4e, 0x7a, 0xae, 0xf8, 0x21, 0xa9, 0xfc, 0x99, 0x91, 0xbf, 0x58, 0x66, 0x04, 0xee]),
    (208507, [0xbf, 0x6d, 0xf1, 0xd6, 0x42, 0xd8, 0x1d, 0x5b, 0xcf, 0xa8, 0x51, 0xc8, 0x19, 0xb1, 0xdd, 0x44]),
    (208508, [0x6e, 0xa9, 0xa5, 0x28, 0xff, 0xee, 0x35, 0x12, 0x7a, 0xa4, 0x2c, 0xf8, 0x6f, 0x57, 0xef, 0xfa]),
    (208509, [0xea, 0x2b, 0x35, 0x59, 0x24, 0x24, 0x3a, 0x13, 0x45, 0x76, 0xa2, 0x15, 0xa7, 0x28, 0xf5, 0x4b]),
    (208510, [0xf8, 0xf0, 0x4f, 0xab, 0x53, 0x5d, 0xf4, 0xf4, 0x31, 0xa4, 0x56, 0xf8, 0x5a, 0x45, 0x9b, 0x67]),
    (208511, [0xe6, 0xac, 0x3f, 0x2f, 0xc5, 0xfc, 0xe4, 0x69, 0x58, 0xcf, 0xdf, 0x44, 0x29, 0xce, 0x69, 0x9a]),
    (208512, [0x22, 0xeb, 0x90, 0x41, 0xad, 0x5b, 0x1e, 0xc1, 0xa0, 0x90, 0x5f, 0xd0, 0x60, 0xac, 0xe0, 0x37]),
    (208601, [0xd7, 0xd1, 0x89, 0xaf, 0x57, 0xa0, 0x2c, 0x06, 0x3c, 0x77, 0x11, 0x74, 0x08, 0x15, 0x35, 0xb4]),
    (208602, [0x3f, 0xe0, 0xcb, 0x46, 0x9d, 0x97, 0x9b, 0xe8, 0x3c, 0xd9, 0x96, 0xe4, 0x52, 0x03, 0xc5, 0x0b]),
    (208621, [0xe4, 0x25, 0x0a, 0xde, 0x9f, 0x25, 0x8f, 0x29, 0x1c, 0x6c, 0xbd, 0xa1, 0x31, 0xcb, 0x3c, 0x24]),
    (208622, [0xfe, 0x80, 0x70, 0x1e, 0x3d, 0x05, 0xce, 0xeb, 0x65, 0x83, 0x9c, 0xce, 0x77, 0xfc, 0x57, 0xfe]),
    (208631, [0x86, 0x35, 0xe1, 0x77, 0xa1, 0x21, 0x0f, 0x57, 0xba, 0x46, 0xae, 0xa1, 0x60, 0x42, 0xbf, 0x43]),
    (208632, [0x50, 0xb1, 0x22, 0xe2, 0x05, 0x78, 0xb1, 0xac, 0x69, 0x59, 0xf5, 0xb1, 0x4e, 0x0a, 0x97, 0xdd]),
    (208641, [0xff, 0x2d, 0x7c, 0x42, 0x11, 0x47, 0x83, 0x44, 0x38, 0xe7, 0x5f, 0x2d, 0x79, 0x2f, 0xe1, 0x85]),
    (208642, [0x65, 0x8a, 0x8e, 0x7a, 0x36, 0x54, 0xc2, 0xe8, 0xa2, 0x93, 0x32, 0xa3, 0x1b, 0xc5, 0xe1, 0x23]),
    (208671, [0x3a, 0xdd, 0x83, 0xe8, 0x80, 0x4a, 0xa1, 0xea, 0xc2, 0x8e, 0x21, 0xff, 0xa4, 0xba, 0x0c, 0x56]),
    (208672, [0xc1, 0x57, 0x5d, 0x80, 0x47, 0x5a, 0x52, 0xcd, 0xbf, 0xe3, 0xd7, 0x62, 0xff, 0x1f, 0x98, 0x39]),
    (208711, [0xee, 0x5d, 0xfd, 0xa9, 0x68, 0x39, 0x4f, 0x72, 0xea, 0x07, 0xd2, 0xa6, 0x95, 0x23, 0x7a, 0x17]),
    (208731, [0x89, 0x3f, 0xfa, 0x26, 0xce, 0x11, 0xf7, 0x20, 0xe2, 0xdf, 0xef, 0x15, 0x9d, 0x23, 0x8b, 0xe8]),
    (208732, [0x40, 0xa6, 0x29, 0xf5, 0x77, 0xa8, 0xd0, 0xd4, 0xb0, 0xe8, 0xec, 0xfb, 0x0f, 0x13, 0x2a, 0x60]),
    (208733, [0xa6, 0x24, 0x00, 0x6d, 0xfc, 0xa9, 0x22, 0xae, 0x13, 0xd1, 0xea, 0x14, 0xb5, 0xdf, 0xc0, 0xe2]),
    (208734, [0x49, 0xde, 0x6a, 0xc9, 0x77, 0x3f, 0xab, 0xa3, 0x1e, 0x04, 0xa1, 0x5a, 0xa2, 0x5d, 0x15, 0x1f]),
    (208735, [0x47, 0x31, 0x7d, 0x68, 0x4e, 0x78, 0x97, 0xf1, 0x77, 0xad, 0x7c, 0xd2, 0x8e, 0x04, 0x2b, 0xbc]),
    (208736, [0x8c, 0xaf, 0xc0, 0xfb, 0x62, 0x55, 0x7a, 0xd0, 0x33, 0xf7, 0x3b, 0xe1, 0x4e, 0x21, 0x30, 0x80]),
    (208737, [0x5d, 0x1c, 0x28, 0xb4, 0x3e, 0x20, 0xc8, 0xb4, 0x44, 0xf5, 0xb5, 0x1d, 0x35, 0xc2, 0xe3, 0x01]),
    (208738, [0x8f, 0x7e, 0x47, 0xcd, 0xef, 0xc0, 0xaa, 0xcc, 0x45, 0xb9, 0x41, 0x11, 0x3b, 0xbf, 0x31, 0x42]),
    (208741, [0x56, 0x31, 0xb5, 0x56, 0xed, 0xd7, 0xa8, 0x00, 0xc0, 0xe3, 0xc8, 0x7c, 0xd2, 0x22, 0x0a, 0x73]),
    (208742, [0xec, 0xa6, 0x68, 0x78, 0xe3, 0x94, 0xbe, 0x96, 0x3a, 0x4c, 0x60, 0x17, 0xad, 0x1f, 0x89, 0xd2]),
    (208861, [0x65, 0x23, 0xd7, 0x73, 0xbf, 0x44, 0x16, 0x9e, 0xa0, 0x75, 0x21, 0x6e, 0x7b, 0x5e, 0x97, 0x9e]),
    (208862, [0x0b, 0x00, 0x17, 0xd9, 0x17, 0x3c, 0x90, 0xc4, 0xbe, 0x08, 0xdd, 0x88, 0x68, 0xe9, 0xa9, 0xa6]),
    (208863, [0x3f, 0x94, 0x6e, 0x5f, 0x87, 0x78, 0xdf, 0x0f, 0xf3, 0x16, 0xdb, 0xd1, 0x38, 0xcc, 0x27, 0x3d]),
    (208864, [0xea, 0x84, 0xe3, 0xc0, 0x04, 0x82, 0x99, 0x77, 0x3d, 0xdf, 0xae, 0x4d, 0xd1, 0x3a, 0xf4, 0x03]),
    (208865, [0xa8, 0x28, 0x79, 0xb7, 0xb5, 0x58, 0x8c, 0x16, 0xf2, 0x38, 0xc0, 0xbf, 0xec, 0x7c, 0x06, 0xdf]),
    (208881, [0x55, 0x0c, 0xff, 0x05, 0xfd, 0xbe, 0xa5, 0xe6, 0x49, 0x42, 0x9b, 0xc7, 0x77, 0x4f, 0xdb, 0xdc]),
    (208981, [0x1d, 0x49, 0xe3, 0xf4, 0xee, 0xeb, 0xff, 0x49, 0xf3, 0x78, 0x0d, 0x8c, 0x5b, 0x95, 0xf3, 0x14]),
    (208982, [0xc4, 0x02, 0x9a, 0xb5, 0xd1, 0x19, 0xd9, 0xd5, 0xbb, 0x4c, 0x4e, 0xef, 0x32, 0x7b, 0xed, 0xf9]),
    (208983, [0x9e, 0x3f, 0x1c, 0x37, 0x75, 0xea, 0x1b, 0xf2, 0xe8, 0x5c, 0x9e, 0xcc, 0x99, 0x53, 0xa2, 0x82]),
    (208984, [0xd2, 0x6c, 0xd7, 0x55, 0x83, 0x2b, 0x5b, 0x27, 0x73, 0x6c, 0xaa, 0x05, 0x74, 0x16, 0xf4, 0x17]),
    (208985, [0x60, 0x6d, 0x49, 0xfb, 0x85, 0x27, 0x44, 0xa2, 0x51, 0x15, 0x5f, 0xd8, 0xf8, 0x21, 0x70, 0x1c]),
    (209021, [0x0d, 0x27, 0x0d, 0x82, 0x1b, 0x9e, 0xb4, 0x0d, 0xa7, 0x76, 0xba, 0x9b, 0xd5, 0x1d, 0xc4, 0xb5]),
    (209022, [0xc3, 0xc4, 0x3e, 0xa4, 0xda, 0x9b, 0x5b, 0x3b, 0xbd, 0x4b, 0x3e, 0xe7, 0x44, 0x49, 0xd3, 0xf0]),
    (209041, [0xbd, 0xa4, 0x83, 0x85, 0x99, 0x6f, 0x49, 0x55, 0x99, 0x4b, 0x94, 0x57, 0xb9, 0x6c, 0xe8, 0xc1]),
    (209081, [0x11, 0xb0, 0x47, 0x5d, 0xb3, 0xdf, 0xad, 0x3c, 0x89, 0xf1, 0xef, 0x83, 0x5d, 0xc5, 0xc0, 0x62]),
    (209082, [0x33, 0xde, 0x0e, 0x90, 0x3f, 0x26, 0x8a, 0x2c, 0xd2, 0xe3, 0xea, 0x35, 0x5a, 0xfc, 0x14, 0x26]),
    (209101, [0xe5, 0xcc, 0xee, 0xa6, 0x89, 0x48, 0x3b, 0xde, 0x6f, 0xe0, 0xc5, 0x58, 0x7c, 0x68, 0xbb, 0x9c]),
    (209102, [0x5e, 0x5b, 0x82, 0x68, 0xa5, 0x28, 0x6f, 0xde, 0xe4, 0x1e, 0xe3, 0xcf, 0xc1, 0x0c, 0xd4, 0xfd]),
    (209121, [0x5f, 0xa1, 0x02, 0xde, 0xb1, 0xe1, 0x54, 0xc2, 0x0d, 0x02, 0x3a, 0x1d, 0xc6, 0x11, 0xb1, 0x0c]),
    (209122, [0x78, 0xf9, 0xe7, 0x22, 0x25, 0xad, 0xdb, 0x92, 0xf9, 0x0c, 0xc8, 0xd8, 0x79, 0x17, 0xee, 0x41]),
    (209231, [0x15, 0xca, 0xdd, 0x4b, 0xce, 0xc1, 0xcf, 0x43, 0x2d, 0x2f, 0x8f, 0xf6, 0xff, 0x85, 0x84, 0x88]),
    (209232, [0x90, 0xde, 0x86, 0xdf, 0x10, 0x67, 0xa8, 0xab, 0xf2, 0x9a, 0xa6, 0xfb, 0x05, 0x0f, 0x33, 0xe5]),
    (209233, [0x49, 0xfe, 0x6a, 0x69, 0xdb, 0x90, 0xe2, 0x79, 0x69, 0xb5, 0xd9, 0x1d, 0xdd, 0xae, 0x6d, 0x37]),
    (209234, [0x71, 0xdc, 0x5b, 0xb6, 0xd5, 0x1f, 0x3c, 0x00, 0xc2, 0x00, 0x78, 0x7f, 0xe8, 0x9a, 0xb3, 0x32]),
    (209235, [0x47, 0x41, 0x56, 0xb1, 0xe0, 0xb2, 0x06, 0x70, 0x3e, 0x1a, 0x5f, 0x64, 0x77, 0x2b, 0x1e, 0xeb]),
    (209236, [0xa5, 0xdf, 0x6c, 0x22, 0x48, 0x85, 0xa5, 0xcb, 0xcc, 0x30, 0x94, 0x72, 0x30, 0xee, 0xb4, 0x59]),
    (209237, [0x0c, 0xbc, 0x42, 0x42, 0x35, 0x72, 0x24, 0x0e, 0x29, 0x3f, 0x60, 0xe4, 0x48, 0x12, 0xd5, 0xb6]),
    (209238, [0x8f, 0x3c, 0x6b, 0x9d, 0xea, 0xcb, 0xce, 0xd1, 0xab, 0xeb, 0xc1, 0xa7, 0xd9, 0xe3, 0x35, 0x47]),
    (209239, [0x53, 0x9a, 0xc0, 0xff, 0xb8, 0x6b, 0x87, 0xd2, 0x8a, 0x52, 0x34, 0xcf, 0x3a, 0xeb, 0x92, 0x0c]),
    (209240, [0x69, 0xde, 0xbb, 0x38, 0x72, 0xe9, 0xac, 0x43, 0xdd, 0xb7, 0x42, 0x24, 0x1b, 0xf8, 0x8e, 0x12]),
    (209241, [0x8d, 0xec, 0x11, 0x61, 0x30, 0xd8, 0xcf, 0x94, 0xe4, 0x25, 0x1a, 0xbb, 0xb7, 0x75, 0x4f, 0xa2]),
    (209242, [0x79, 0x5d, 0xff, 0x80, 0x7c, 0xdb, 0xef, 0x8d, 0xe3, 0x26, 0x61, 0x85, 0xc2, 0x1e, 0x7c, 0xba]),
    (209271, [0xe9, 0x12, 0x86, 0xd7, 0x0f, 0x0e, 0xd6, 0xa7, 0x04, 0x63, 0xed, 0xe5, 0x07, 0xe6, 0x9e, 0xdf]),
    (209331, [0x89, 0x7c, 0x96, 0xe4, 0xaa, 0x2f, 0x4b, 0x0e, 0x7c, 0x83, 0x85, 0xe8, 0x6b, 0x5e, 0x76, 0xa8]),
    (209332, [0x8a, 0xab, 0x5a, 0xd8, 0xb0, 0xdb, 0xb0, 0xfd, 0x27, 0xb6, 0xc2, 0xb7, 0xb8, 0xe5, 0x6f, 0xf0]),
    (209333, [0x08, 0x8b, 0x79, 0xca, 0xfc, 0xe8, 0x63, 0x8a, 0xbd, 0xa0, 0xa2, 0xb1, 0xcf, 0xa9, 0x1e, 0x06]),
    (209361, [0x21, 0x3a, 0x8f, 0x00, 0xe4, 0xac, 0x9b, 0x45, 0x29, 0x58, 0x65, 0x94, 0x37, 0xad, 0x91, 0x4a]),
    (209371, [0x93, 0x13, 0x1a, 0xeb, 0xee, 0xe1, 0x70, 0x02, 0x38, 0x6a, 0x81, 0xed, 0x6d, 0xdc, 0x5a, 0x74]),
    (209372, [0x98, 0xe1, 0x60, 0xe2, 0x63, 0x56, 0x15, 0x92, 0xe1, 0xeb, 0xeb, 0x28, 0x99, 0x7c, 0x77, 0xe5]),
    (209373, [0x91, 0x3b, 0x1e, 0xdc, 0x78, 0xa2, 0xd8, 0x9c, 0x91, 0x3d, 0x3e, 0xde, 0xfc, 0xb1, 0xf3, 0xfb]),
    (209374, [0x07, 0x0c, 0x4a, 0x06, 0xb5, 0x91, 0xe8, 0x3f, 0x4b, 0xe2, 0xf5, 0xf0, 0x9e, 0x51, 0x10, 0xd3]),
    (209481, [0x1b, 0x90, 0xbd, 0x21, 0x42, 0xbf, 0x23, 0xf1, 0x45, 0x67, 0xab, 0x80, 0x95, 0x8a, 0x21, 0x6c]),
    (209501, [0x58, 0xcb, 0x47, 0xc6, 0x8c, 0xf2, 0xe1, 0x96, 0x72, 0x01, 0x6a, 0x04, 0x0d, 0x40, 0x94, 0x98]),
    (209502, [0xaa, 0x1f, 0x7f, 0x59, 0x13, 0x66, 0x41, 0x1f, 0x2d, 0x0b, 0x7b, 0xd1, 0xbb, 0x2e, 0xbf, 0x3c]),
    (209503, [0xac, 0x13, 0xe4, 0x90, 0x78, 0x4c, 0x32, 0x08, 0xcd, 0xb5, 0x03, 0x0d, 0x80, 0x3f, 0xd2, 0x7f]),
    (209504, [0xcd, 0xd1, 0x10, 0xd6, 0xa2, 0xb2, 0x43, 0xac, 0x82, 0xc2, 0xe7, 0xa1, 0xec, 0x02, 0xcf, 0xf6]),
    (209505, [0x8e, 0xda, 0xcc, 0xe2, 0x06, 0x7e, 0x96, 0x24, 0xe3, 0x7d, 0xcf, 0xb5, 0x6d, 0xa3, 0x1d, 0x79]),
    (209506, [0x5c, 0xb4, 0xfc, 0xf9, 0x05, 0x1d, 0xa2, 0xdc, 0xd0, 0x6c, 0x52, 0xe3, 0xad, 0x37, 0x3e, 0x46]),
    (209507, [0xa2, 0xe9, 0x0f, 0x20, 0x03, 0x04, 0xa2, 0x88, 0x48, 0x56, 0xfc, 0xbe, 0x68, 0x4e, 0xdb, 0x55]),
    (209508, [0x78, 0x80, 0x01, 0xc5, 0x08, 0xf7, 0x6f, 0xd1, 0x59, 0xc8, 0x7a, 0xdb, 0xb1, 0x93, 0xed, 0x93]),
    (209691, [0xfb, 0x16, 0xe7, 0xee, 0x02, 0xec, 0x69, 0x35, 0x3f, 0x83, 0xc1, 0xe6, 0x73, 0xb0, 0x25, 0xfa]),
    (209692, [0xc2, 0x63, 0x27, 0xfd, 0x81, 0xca, 0x33, 0x29, 0xc6, 0xf8, 0x55, 0x80, 0x39, 0x45, 0x6b, 0x4d]),
    (209693, [0x8e, 0x6f, 0x29, 0x8c, 0x73, 0xdb, 0x6e, 0x62, 0x7d, 0xc9, 0xb2, 0x5f, 0x04, 0xde, 0xc0, 0x95]),
    (209751, [0x2e, 0x63, 0x2a, 0x59, 0xcc, 0x49, 0xe4, 0x18, 0x49, 0x40, 0x63, 0xe2, 0x22, 0xd3, 0x6c, 0x05]),
    (209771, [0xa9, 0xbb, 0x74, 0x09, 0x89, 0x37, 0x1f, 0xe3, 0xcd, 0x73, 0xa7, 0xf2, 0x26, 0xb4, 0x02, 0x3e]),
    (209772, [0xa1, 0xb2, 0xe4, 0x8f, 0xc1, 0x85, 0xe9, 0x09, 0xf5, 0x69, 0x06, 0x8f, 0xbd, 0xf3, 0xeb, 0x1b]),
    (209791, [0x4c, 0xa6, 0xfa, 0x81, 0x83, 0xb5, 0x46, 0x75, 0xe4, 0x1a, 0x98, 0x36, 0x2c, 0x45, 0x2f, 0x4b]),
    (209792, [0x7a, 0xb3, 0xb1, 0xd7, 0x16, 0x44, 0x42, 0x5c, 0x05, 0x97, 0xeb, 0x52, 0x3c, 0x63, 0x7e, 0xd7]),
    (209793, [0xf9, 0x37, 0xc5, 0x23, 0x40, 0xe1, 0x0d, 0xe3, 0x0e, 0x5b, 0x65, 0xff, 0x05, 0xe2, 0x40, 0x2c]),
    (209831, [0xd6, 0xb1, 0x8b, 0x71, 0xa3, 0x87, 0x0e, 0xa6, 0x25, 0xa6, 0xb4, 0x85, 0xe5, 0x0e, 0x8e, 0xe5]),
    (209832, [0xae, 0xbc, 0x90, 0xb2, 0xd4, 0xae, 0x16, 0x1c, 0x3b, 0x9b, 0x0a, 0x9c, 0x80, 0xba, 0x39, 0xb1]),
    (209990, [0xc2, 0xe3, 0xb8, 0xa1, 0x09, 0x5f, 0xf4, 0xed, 0x3c, 0x29, 0x3c, 0xa7, 0x65, 0x80, 0x57, 0xb3]),
    (210011, [0x36, 0x4e, 0x6e, 0x8f, 0xea, 0xc6, 0x07, 0x7e, 0xc8, 0x78, 0x23, 0xe6, 0x25, 0x01, 0x5c, 0x91]),
    (210012, [0x7b, 0xee, 0x68, 0x70, 0x24, 0x32, 0x5d, 0xb8, 0x17, 0x7c, 0x7c, 0xf8, 0xd6, 0x02, 0x94, 0x51]),
    (210013, [0x66, 0xc3, 0xf1, 0xcb, 0x28, 0xcc, 0x19, 0xab, 0x7e, 0x9a, 0x65, 0xf0, 0x1a, 0x29, 0x84, 0xc5]),
    (210014, [0x87, 0x92, 0x8c, 0xfc, 0xf8, 0xce, 0xd0, 0x27, 0x14, 0x94, 0xa3, 0x99, 0x4d, 0x37, 0x4f, 0x45]),
    (210015, [0x48, 0x0a, 0x70, 0xfd, 0x74, 0x29, 0xc8, 0xaa, 0xf4, 0x1a, 0x2f, 0x79, 0x0f, 0xe7, 0xe6, 0x2e]),
    (210016, [0xc6, 0x3e, 0x42, 0xf1, 0xdb, 0x8a, 0x86, 0xd1, 0x47, 0x44, 0x6f, 0x02, 0xec, 0xe2, 0xa1, 0x26]),
    (210017, [0xe7, 0xc1, 0x1b, 0xed, 0xcd, 0xdd, 0xc5, 0xba, 0x5f, 0x8a, 0xbf, 0x5f, 0x40, 0x6f, 0xda, 0x82]),
    (210018, [0x3d, 0x83, 0x7b, 0x8c, 0x13, 0x6a, 0xec, 0x6b, 0xa7, 0x81, 0x7d, 0xdf, 0x8f, 0x5d, 0x9e, 0x52]),
    (210019, [0x0e, 0x92, 0x1d, 0xad, 0x1d, 0x3b, 0x0b, 0x61, 0xe9, 0x33, 0x15, 0xfe, 0x79, 0x38, 0xde, 0x54]),
    (210151, [0x76, 0xf3, 0xb4, 0xe2, 0x8f, 0x92, 0x4e, 0x3c, 0x97, 0xf0, 0x90, 0xca, 0x44, 0x04, 0x3c, 0x3c]),
    (210152, [0x31, 0x58, 0xbe, 0xca, 0xfa, 0xef, 0x89, 0x5b, 0x34, 0x46, 0xf9, 0x0a, 0x5b, 0xa0, 0xae, 0xda]),
    (210231, [0x04, 0xba, 0x89, 0x0a, 0xf8, 0xaa, 0x9e, 0xaf, 0x05, 0x5d, 0x1a, 0x0e, 0x71, 0xf0, 0x51, 0xd9]),
    (210311, [0x81, 0x3c, 0x6e, 0x53, 0x45, 0x24, 0x88, 0x22, 0x00, 0x3b, 0x92, 0x8f, 0x48, 0xc6, 0x18, 0xf9]),
    (210312, [0x30, 0xb4, 0x6d, 0xd7, 0x95, 0x5a, 0x12, 0xee, 0xc9, 0x3a, 0x84, 0x68, 0xd9, 0x2d, 0x4b, 0xf7]),
    (210313, [0x45, 0x44, 0x0b, 0xad, 0x44, 0x87, 0x2d, 0x6f, 0xa3, 0x0a, 0xa8, 0x2e, 0x93, 0x66, 0x7b, 0xe5]),
    (210314, [0x6e, 0x30, 0x57, 0x65, 0x7c, 0x6e, 0xf7, 0xa4, 0xae, 0xde, 0x7d, 0x1e, 0x1e, 0xc4, 0xa7, 0xaa]),
    (210315, [0x43, 0x04, 0xcf, 0x88, 0xac, 0x45, 0xed, 0x07, 0x76, 0xd8, 0x87, 0xf3, 0x68, 0xe7, 0x13, 0x7b]),
    (210330, [0xc5, 0x97, 0x27, 0x70, 0x7b, 0x94, 0x2b, 0x5b, 0x39, 0x4d, 0xac, 0xc4, 0xa0, 0xa1, 0x4b, 0x07]),
    (210351, [0x95, 0xbb, 0x3c, 0x2e, 0x31, 0x14, 0xb7, 0x13, 0xff, 0x7b, 0xae, 0xc1, 0xd5, 0xcd, 0xdc, 0x73]),
    (210371, [0x95, 0x9e, 0x7d, 0x8e, 0xed, 0xbf, 0x30, 0x68, 0xee, 0xd8, 0xd9, 0xc7, 0x20, 0x9c, 0x03, 0x43]),
    (210391, [0x49, 0x00, 0x49, 0x2f, 0xac, 0x22, 0x4e, 0x99, 0xb9, 0x27, 0xc2, 0xeb, 0x4e, 0x61, 0x06, 0x1b]),
    (210450, [0x6e, 0xac, 0xcf, 0x96, 0x80, 0x4e, 0x07, 0xc9, 0x3f, 0x22, 0x7c, 0x15, 0xbe, 0x8c, 0x92, 0xfd]),
    (210451, [0x2e, 0x6a, 0xda, 0x13, 0x2a, 0x45, 0x94, 0x45, 0x16, 0x11, 0x81, 0x5c, 0x26, 0x2f, 0x4a, 0x46]),
    (210471, [0xb0, 0xd7, 0x30, 0x59, 0xc2, 0xbe, 0xe4, 0x79, 0x1d, 0xc0, 0x16, 0x28, 0x51, 0x59, 0x9d, 0x82]),
    (210472, [0x2d, 0x01, 0x50, 0xa8, 0x26, 0x97, 0x8a, 0xa6, 0x4a, 0x13, 0xb4, 0x47, 0x1d, 0x57, 0x77, 0x8d]),
    (210473, [0x12, 0x95, 0xd3, 0xf4, 0xe4, 0x9e, 0x79, 0x63, 0x50, 0x7b, 0xb4, 0x11, 0xcd, 0x6a, 0xb6, 0x09]),
    (210474, [0xa3, 0xa1, 0x5e, 0x21, 0xef, 0x48, 0x4d, 0x59, 0xe0, 0x94, 0xe8, 0xd0, 0x85, 0x53, 0x1a, 0x61]),
    (210475, [0xfa, 0xff, 0x3e, 0x54, 0x44, 0x4b, 0xb2, 0xd2, 0xfd, 0x5b, 0x48, 0x65, 0xe9, 0x05, 0x17, 0xa6]),
    (210476, [0xdb, 0x3a, 0xde, 0x53, 0xc3, 0xa8, 0x9c, 0x23, 0x9e, 0xfb, 0x74, 0xd3, 0xb9, 0x1f, 0x5a, 0x3a]),
    (210477, [0xb7, 0xbc, 0x7d, 0xcb, 0x4d, 0xf1, 0xba, 0x9f, 0xbb, 0x2a, 0xd9, 0x14, 0x66, 0xaa, 0x31, 0x22]),
    (210478, [0xe9, 0x7a, 0xf4, 0xb0, 0xfc, 0x46, 0x5f, 0x48, 0x0f, 0x57, 0x51, 0x3a, 0x9d, 0xcc, 0x65, 0x2b]),
    (210700, [0xa8, 0x44, 0xc6, 0x5b, 0x47, 0x45, 0xe5, 0x47, 0x02, 0xdb, 0x20, 0x29, 0x58, 0x02, 0x0d, 0x31]),
    (210701, [0x5c, 0xb7, 0xcb, 0x04, 0x46, 0x0a, 0xd5, 0x51, 0x6a, 0xd6, 0x80, 0x27, 0x64, 0xeb, 0x0b, 0x74]),
    (210702, [0x71, 0xeb, 0x8f, 0xea, 0xbd, 0x16, 0xcc, 0xbc, 0x60, 0x6e, 0xe3, 0xc4, 0xa2, 0x45, 0x29, 0x94]),
    (210703, [0x48, 0x5f, 0xd4, 0x68, 0x5c, 0xca, 0x5c, 0xd2, 0x45, 0x96, 0x19, 0xcf, 0x3a, 0x33, 0x98, 0x26]),
    (210704, [0xed, 0xee, 0x89, 0x67, 0x7a, 0x49, 0x98, 0x67, 0x88, 0x72, 0x06, 0x7d, 0x0a, 0x7f, 0x01, 0x4c]),
    (210705, [0x17, 0xd6, 0xc6, 0x71, 0xcb, 0x98, 0x67, 0x45, 0x54, 0x8f, 0x69, 0xd1, 0x93, 0xda, 0x3b, 0x8f]),
    (210706, [0x47, 0x42, 0xa5, 0xcd, 0x62, 0x42, 0x0c, 0x6c, 0x75, 0x9a, 0x22, 0x18, 0x60, 0x1c, 0xef, 0x57]),
    (210707, [0x1b, 0x3e, 0x89, 0x0d, 0x03, 0x7c, 0x31, 0xf5, 0x20, 0x9d, 0x86, 0x70, 0xea, 0x57, 0x73, 0xea]),
    (210708, [0xf5, 0x9b, 0x46, 0x7a, 0x67, 0x70, 0x2c, 0xac, 0x08, 0xe1, 0xfb, 0xd3, 0x26, 0x03, 0xa3, 0x78])]"

definition TABLE_30 :: "key_entry list" where
  "TABLE_30 = [
    (210721, [0xc1, 0x08, 0xbd, 0x28, 0x54, 0x6a, 0x11, 0x63, 0xaa, 0x9d, 0x87, 0xbc, 0x58, 0x92, 0xb3, 0xf1]),
    (210722, [0xbc, 0x7c, 0x55, 0x5a, 0x5c, 0xe2, 0x87, 0x09, 0xfa, 0x3f, 0x3d, 0xeb, 0x58, 0x35, 0x43, 0x71]),
    (210741, [0x23, 0xcc, 0x57, 0x32, 0x11, 0x6d, 0xa6, 0xeb, 0x19, 0x0b, 0xda, 0x0d, 0xb0, 0xa8, 0x18, 0xf9]),
    (210742, [0xde, 0x84, 0xdc, 0x75, 0xc4, 0x37, 0x99, 0x2d, 0x0d, 0x08, 0x31, 0x01, 0xa0, 0x1b, 0x36, 0x43]),
    (210801, [0x59, 0xa2, 0x0f, 0x22, 0xa2, 0x97, 0x0b, 0x3d, 0xed, 0x48, 0xd2, 0xe7, 0x18, 0x0a, 0x66, 0xe3]),
    (210821, [0x4d, 0x1e, 0x84, 0xdb, 0x26, 0xea, 0x59, 0x02, 0x5d, 0xcd, 0xc2, 0xf7, 0xdf, 0xfb, 0x1c, 0x8e]),
    (210822, [0xbf, 0x87, 0x1b, 0xd9, 0x41, 0xb3, 0xe6, 0x0b, 0x83, 0x9c, 0xad, 0xe0, 0x22, 0xc8, 0x2e, 0x20]),
    (210823, [0xd1, 0x14, 0x0a, 0x64, 0x1c, 0xd4, 0x94, 0x15, 0xdd, 0xfd, 0x9d, 0x02, 0x90, 0xd7, 0x77, 0x14]),
    (210824, [0x7e, 0x80, 0xa2, 0x09, 0xad, 0x6b, 0x45, 0x71, 0xda, 0x49, 0xa5, 0x51, 0x38, 0x40, 0xbc, 0x1a]),
    (210825, [0xa4, 0x8d, 0xd3, 0xa1, 0x1c, 0x50, 0xe4, 0x34, 0x3b, 0xee, 0x64, 0x84, 0x04, 0xe9, 0x12, 0x4a]),
    (210826, [0x17, 0x5c, 0xe1, 0xae, 0xf7, 0x25, 0x50, 0xf0, 0x09, 0xd0, 0xb3, 0x0d, 0xda, 0x0f, 0xf1, 0x1f]),
    (210827, [0x22, 0xcc, 0xd2, 0x30, 0x1f, 0x63, 0x45, 0x3a, 0x7f, 0x5f, 0xfe, 0xb0, 0xc8, 0x8e, 0x4a, 0xb9]),
    (210828, [0xd1, 0x88, 0x64, 0x2a, 0x6f, 0x49, 0xf6, 0x50, 0x3d, 0xb6, 0x96, 0x7b, 0xe9, 0x77, 0xb8, 0x16]),
    (210829, [0x22, 0xaf, 0xdc, 0xb1, 0xd0, 0x8b, 0x50, 0x52, 0x55, 0x6c, 0x79, 0x32, 0x7f, 0x1d, 0x46, 0x73]),
    (210830, [0x0e, 0x5c, 0xa2, 0x31, 0xc5, 0xfb, 0x81, 0x7e, 0x0a, 0xdc, 0x3d, 0xcc, 0x6d, 0xbb, 0x85, 0x7b]),
    (210841, [0x9b, 0x39, 0x2a, 0xd4, 0x0d, 0x50, 0x41, 0x25, 0xf0, 0x12, 0xb0, 0x4f, 0xb9, 0x26, 0x6b, 0xa5]),
    (210842, [0xa8, 0x5d, 0x59, 0x77, 0xd6, 0x55, 0xb5, 0xfa, 0x7c, 0x91, 0xd4, 0x8c, 0x03, 0x76, 0xcc, 0x90]),
    (210843, [0x5c, 0xf9, 0x5d, 0x57, 0x22, 0x18, 0x10, 0x40, 0xd0, 0xeb, 0x1d, 0xb3, 0xd3, 0x70, 0x97, 0x7a]),
    (210844, [0x4b, 0x00, 0xef, 0xf1, 0x5c, 0xe1, 0x4c, 0x41, 0x50, 0x51, 0x9c, 0x33, 0x49, 0xe8, 0xad, 0x51]),
    (210845, [0xec, 0x1b, 0x88, 0xb0, 0x55, 0x0f, 0xcd, 0x0d, 0xe0, 0x64, 0x50, 0x98, 0x5f, 0x47, 0xd4, 0x04]),
    (210846, [0x66, 0x61, 0x34, 0x1d, 0xa1, 0xfe, 0x75, 0x81, 0xa3, 0xcb, 0x24, 0xb6, 0xe1, 0x56, 0xbb, 0x0d]),
    (210872, [0x9d, 0xdc, 0x3a, 0x54, 0x8b, 0x48, 0xe3, 0x8c, 0x0d, 0x8a, 0x4c, 0x71, 0xd1, 0xe2, 0x6e, 0x17]),
    (210890, [0x8f, 0x1a, 0x5f, 0x97, 0x1b, 0x7c, 0xa6, 0x9b, 0xf7, 0xa7, 0x4d, 0x0a, 0xd5, 0x7f, 0x57, 0xf2]),
    (210891, [0xf6, 0xa4, 0x44, 0x03, 0x56, 0xce, 0x73, 0x2f, 0x8b, 0x5c, 0x8c, 0xb9, 0x70, 0x6e, 0x3d, 0xa8]),
    (210892, [0x0a, 0xe2, 0x44, 0xfb, 0x12, 0x16, 0x8f, 0x45, 0xa6, 0x8c, 0x16, 0x1f, 0x0f, 0xbb, 0xca, 0x6c]),
    (210893, [0x31, 0x73, 0x09, 0x4d, 0x4f, 0x9b, 0x26, 0x75, 0x60, 0x70, 0x89, 0xe1, 0x70, 0xf4, 0x01, 0x14]),
    (210991, [0x6d, 0xde, 0x5d, 0x1a, 0x7e, 0x8d, 0xbf, 0x0c, 0x84, 0x3d, 0x7e, 0xfd, 0x6b, 0x2e, 0xa3, 0x5d]),
    (210992, [0xa6, 0xe7, 0xfa, 0xbe, 0x9f, 0x16, 0x29, 0xff, 0x77, 0xc3, 0x34, 0xd6, 0xb8, 0x73, 0xd8, 0x68]),
    (210993, [0xc3, 0x1b, 0xf7, 0x4c, 0x32, 0x7a, 0xfc, 0x59, 0xe3, 0x64, 0x78, 0x46, 0x33, 0x66, 0xd1, 0xf8]),
    (210994, [0x40, 0x56, 0x36, 0x6b, 0xba, 0x06, 0x1e, 0xae, 0xc5, 0x06, 0xb2, 0x65, 0x72, 0x33, 0xe2, 0xf6]),
    (210995, [0x57, 0x2e, 0x3d, 0x3f, 0x1b, 0xf2, 0x00, 0x6b, 0x06, 0xb3, 0x40, 0x2f, 0x90, 0x7e, 0xe3, 0x6f]),
    (210996, [0x57, 0x17, 0x96, 0x6a, 0xfc, 0x50, 0x60, 0x34, 0xa1, 0x67, 0x25, 0x66, 0x9d, 0x86, 0xd6, 0x0b]),
    (210997, [0x4a, 0xdc, 0x59, 0xa9, 0x5b, 0x60, 0x07, 0x5e, 0x39, 0xc0, 0xb4, 0x25, 0x1c, 0x27, 0xb0, 0xbf]),
    (210998, [0x92, 0xc5, 0x7e, 0xf5, 0x97, 0x8e, 0x80, 0x32, 0x4e, 0x50, 0xd5, 0x65, 0x6f, 0xb7, 0x59, 0x50]),
    (211011, [0xd6, 0x61, 0x85, 0x02, 0x9d, 0xad, 0xa8, 0x59, 0xbb, 0x9a, 0x21, 0x35, 0x06, 0xe5, 0x94, 0xa2]),
    (211051, [0xa7, 0x98, 0x1f, 0x80, 0xa9, 0xb2, 0x79, 0x96, 0x01, 0x04, 0x00, 0x85, 0x3d, 0x56, 0x5e, 0xfd]),
    (211071, [0xe1, 0x74, 0x47, 0x78, 0xf9, 0xbe, 0xe5, 0x49, 0x81, 0x57, 0xd4, 0xff, 0x16, 0x33, 0xf8, 0xa4]),
    (211101, [0x7f, 0x83, 0x94, 0x39, 0x9a, 0x07, 0x3e, 0x9c, 0x4e, 0x74, 0xee, 0x7c, 0x86, 0x82, 0xc4, 0xe5]),
    (211161, [0xb9, 0xf9, 0x46, 0x16, 0x24, 0x77, 0x64, 0x5d, 0x0d, 0x4a, 0x2b, 0xda, 0xb0, 0x83, 0x0a, 0x67]),
    (211162, [0x99, 0xc5, 0x77, 0x98, 0x71, 0xf5, 0xb4, 0x31, 0x78, 0x92, 0x58, 0x16, 0xb2, 0x15, 0x0c, 0xde]),
    (211200, [0xe8, 0xdf, 0xd3, 0xd3, 0x09, 0xfb, 0x92, 0x5e, 0x6c, 0x41, 0xc6, 0x64, 0x7d, 0x4c, 0x25, 0x47]),
    (211201, [0xb4, 0xaf, 0xa4, 0x04, 0xdf, 0x0e, 0x6b, 0xdf, 0x10, 0xa4, 0x16, 0xe6, 0xc9, 0x8d, 0x7a, 0xc4]),
    (211202, [0x97, 0x53, 0xca, 0x0c, 0x25, 0xaf, 0xf2, 0x07, 0x6d, 0xc0, 0x85, 0x91, 0xd5, 0xd5, 0x87, 0xcf]),
    (211203, [0x00, 0xe4, 0xef, 0xbb, 0xba, 0xd3, 0xd0, 0xaa, 0xe1, 0xb8, 0x36, 0xee, 0x55, 0x16, 0x3a, 0x9a]),
    (211204, [0xd0, 0xb4, 0x2a, 0x21, 0xd3, 0x9a, 0x9b, 0xf7, 0xff, 0x85, 0x89, 0xc6, 0x92, 0x9f, 0x73, 0x8c]),
    (211205, [0xf3, 0x36, 0x42, 0x6c, 0x0f, 0x81, 0xf5, 0x91, 0x40, 0x28, 0x26, 0xd0, 0xdf, 0xa0, 0x8b, 0xe5]),
    (211206, [0xfa, 0x6b, 0x4c, 0x84, 0x46, 0x69, 0x16, 0x17, 0x1a, 0x27, 0xf1, 0x3f, 0x34, 0x52, 0x92, 0x80]),
    (211207, [0x22, 0x73, 0xe7, 0xe9, 0xed, 0xb7, 0xff, 0x6f, 0x56, 0x3f, 0xa6, 0xdc, 0xda, 0xfb, 0x70, 0xe8]),
    (211208, [0xfb, 0x96, 0x02, 0xb1, 0xed, 0xed, 0x39, 0x75, 0x53, 0x34, 0x10, 0x4b, 0x14, 0x7f, 0x29, 0xa4]),
    (211209, [0x93, 0x6d, 0x21, 0x16, 0xc0, 0x8e, 0xa5, 0x79, 0x65, 0x0d, 0x7c, 0x9c, 0x81, 0x5d, 0xb2, 0x13]),
    (211241, [0x84, 0xc5, 0x73, 0xf7, 0xbe, 0x76, 0xbd, 0x77, 0xb2, 0xd6, 0xfa, 0xfc, 0xee, 0x34, 0x96, 0x6b]),
    (211341, [0xcb, 0x15, 0x41, 0x7b, 0xc8, 0xb5, 0x49, 0xc8, 0x6d, 0x6f, 0x36, 0xc9, 0xd8, 0x9e, 0xb7, 0x2f]),
    (211343, [0x2a, 0xea, 0xa0, 0x27, 0xe7, 0x5b, 0xf2, 0x68, 0xd9, 0xd7, 0x1c, 0xff, 0xbf, 0x9d, 0x8f, 0x5f]),
    (211344, [0x66, 0x71, 0x6a, 0xa8, 0x02, 0xc1, 0x19, 0x42, 0x62, 0x07, 0x28, 0x21, 0x17, 0xa0, 0xb5, 0xc7]),
    (211345, [0x3e, 0xb6, 0xbf, 0xd7, 0x0b, 0x88, 0x74, 0x86, 0xdc, 0x88, 0x2a, 0xb3, 0xde, 0x27, 0xd1, 0xa4]),
    (211361, [0x39, 0x07, 0x95, 0xdb, 0x90, 0xb4, 0x40, 0x1e, 0x36, 0x56, 0xe7, 0xc7, 0xcd, 0xfa, 0xba, 0xe8]),
    (211364, [0x8d, 0x51, 0x6f, 0x6f, 0xc7, 0xe0, 0x53, 0xf1, 0x05, 0x3f, 0xb0, 0x99, 0xee, 0x01, 0x87, 0xf2]),
    (211382, [0xed, 0x6c, 0x6f, 0xbc, 0xdf, 0x57, 0x00, 0x46, 0x87, 0x0e, 0xd8, 0x42, 0x2e, 0x1d, 0x41, 0x76]),
    (211520, [0x2d, 0x78, 0xb9, 0x86, 0x8c, 0xb7, 0x45, 0x83, 0x58, 0x4b, 0x4e, 0x03, 0x7b, 0x14, 0x9e, 0xeb]),
    (211521, [0xf7, 0xc0, 0x3e, 0x9b, 0x3a, 0x93, 0x24, 0x7c, 0x7b, 0x42, 0x42, 0x1c, 0x8d, 0x6e, 0x25, 0xfd]),
    (211581, [0x88, 0x2e, 0x51, 0xec, 0x6a, 0x30, 0xe3, 0x3d, 0x63, 0xd3, 0x89, 0x06, 0xcf, 0x35, 0x07, 0x67]),
    (211621, [0x48, 0xb3, 0x78, 0xfb, 0x18, 0x5a, 0x72, 0xb8, 0xad, 0xa3, 0xd6, 0x06, 0x3a, 0x2e, 0xaf, 0xd2]),
    (211622, [0x3c, 0xb6, 0xdd, 0xae, 0x03, 0x05, 0xd1, 0xbf, 0xa6, 0x3b, 0xdf, 0xc2, 0xfc, 0xd5, 0x4c, 0xd4]),
    (211623, [0xfc, 0xe4, 0x42, 0x31, 0x0c, 0x7f, 0x66, 0xb4, 0x89, 0xa1, 0x24, 0xc0, 0x38, 0x6b, 0x6b, 0xea]),
    (211624, [0x7e, 0x9d, 0xbc, 0x02, 0x28, 0x48, 0x9c, 0x34, 0x83, 0x22, 0xec, 0x4e, 0x54, 0x00, 0x4a, 0x8f]),
    (211720, [0xa9, 0x04, 0x2b, 0xf0, 0xe5, 0xc0, 0x1e, 0x24, 0x5c, 0xe3, 0xc2, 0x8a, 0xe5, 0x59, 0x2e, 0x31]),
    (211721, [0xca, 0xff, 0x96, 0x55, 0x0e, 0x18, 0x65, 0x11, 0xb3, 0x95, 0xb7, 0x39, 0x18, 0xc9, 0x66, 0xd7]),
    (211722, [0x76, 0x1f, 0xb3, 0x18, 0x8e, 0x2f, 0xa0, 0x08, 0xde, 0xa9, 0x60, 0x0f, 0x65, 0xfb, 0xcd, 0x91]),
    (211723, [0x15, 0x39, 0x7c, 0x00, 0xc1, 0x1a, 0x50, 0xbb, 0x08, 0xa0, 0x12, 0xaf, 0xe3, 0x2a, 0x6d, 0xb6]),
    (211724, [0xe1, 0x4d, 0x5a, 0xe6, 0x3e, 0x66, 0x1c, 0x19, 0x0f, 0x55, 0x2f, 0x27, 0x35, 0x80, 0xe8, 0x59]),
    (211725, [0x15, 0x8e, 0xd6, 0x83, 0xab, 0x6f, 0x8c, 0x92, 0x89, 0x1d, 0xc9, 0xbb, 0x47, 0xe4, 0xb1, 0x6a]),
    (211726, [0x17, 0xed, 0x81, 0x9f, 0x6b, 0x6d, 0x67, 0x84, 0x19, 0x93, 0x15, 0x99, 0xc6, 0xfd, 0xad, 0x63]),
    (211727, [0xc1, 0x11, 0x13, 0x8f, 0x3d, 0x3a, 0xeb, 0x9a, 0x03, 0x10, 0x36, 0x0b, 0xf6, 0x8a, 0xc2, 0xef]),
    (211801, [0xc9, 0xc8, 0x71, 0x4a, 0x2f, 0x9f, 0x78, 0xe6, 0x15, 0x1d, 0x41, 0x0f, 0xf1, 0xc3, 0x87, 0x95]),
    (211802, [0x1b, 0xb1, 0x0f, 0xfc, 0xdd, 0x00, 0x49, 0x4b, 0x1d, 0x58, 0x62, 0x75, 0x72, 0xf0, 0xf8, 0x3c]),
    (211841, [0x16, 0xed, 0xeb, 0x9f, 0xfe, 0xbe, 0xa5, 0x5c, 0x11, 0x13, 0x7e, 0x00, 0x45, 0x2b, 0x51, 0x62]),
    (211842, [0x39, 0xc4, 0x45, 0xf7, 0xef, 0x3b, 0x45, 0x25, 0x87, 0xb0, 0xcf, 0x3a, 0xbc, 0x00, 0x83, 0x48]),
    (211941, [0xd5, 0x64, 0x31, 0xd9, 0x0c, 0xb5, 0x6d, 0x57, 0xc6, 0x4f, 0xb2, 0x8b, 0xe8, 0x4f, 0x9f, 0x99]),
    (211942, [0x6c, 0xf2, 0x0f, 0x6e, 0x77, 0x47, 0x9e, 0x54, 0x28, 0xab, 0x0b, 0xb6, 0xcf, 0xda, 0x16, 0xce]),
    (211944, [0x11, 0x44, 0xad, 0x90, 0x45, 0xe5, 0xc7, 0x16, 0x28, 0x13, 0x9a, 0x5e, 0xd1, 0x2d, 0x24, 0x0c]),
    (212011, [0xa3, 0xf0, 0x82, 0x3a, 0x56, 0x61, 0x05, 0x49, 0x20, 0x39, 0x36, 0x7d, 0x8d, 0x8b, 0xeb, 0x98]),
    (212031, [0x87, 0x8d, 0x3b, 0x26, 0xae, 0xd3, 0x4b, 0x51, 0xc8, 0x90, 0xa1, 0x52, 0x3a, 0xef, 0xb4, 0x6e]),
    (212041, [0x33, 0x3b, 0x36, 0xd5, 0xfc, 0x8c, 0xe0, 0x71, 0xc6, 0x05, 0x93, 0x66, 0xec, 0x02, 0xa2, 0xa0]),
    (212141, [0xcc, 0xd8, 0xe6, 0x9a, 0xd2, 0x22, 0xea, 0x1e, 0x80, 0x1f, 0x20, 0x7d, 0xfd, 0xe0, 0x2d, 0xe6]),
    (212142, [0xbe, 0x7f, 0xb7, 0x2e, 0x40, 0x02, 0x40, 0x26, 0xc9, 0x69, 0xd9, 0xcf, 0x2e, 0x15, 0x77, 0x5e]),
    (212143, [0x01, 0xbd, 0x9b, 0x9a, 0x40, 0xdc, 0xfe, 0x2c, 0xdc, 0xa0, 0xda, 0x0b, 0x8b, 0x1a, 0x08, 0x5f]),
    (212144, [0xf1, 0x2a, 0xf3, 0x52, 0x32, 0x2e, 0x08, 0xbd, 0xe0, 0x52, 0xc5, 0x78, 0x68, 0xfd, 0xc1, 0xcc]),
    (212351, [0x5f, 0x7b, 0x52, 0xc5, 0x2e, 0x21, 0x07, 0xd0, 0xb8, 0x3f, 0xfc, 0xe2, 0x93, 0xb4, 0x49, 0xa3]),
    (212431, [0x12, 0x1d, 0x14, 0x68, 0xd0, 0x2b, 0x98, 0x92, 0x19, 0xcf, 0x68, 0xdf, 0xa7, 0xa0, 0x9d, 0xbd]),
    (212432, [0x55, 0x96, 0x47, 0x6e, 0x47, 0x32, 0x28, 0xc0, 0xb0, 0x16, 0x08, 0x99, 0x8a, 0x42, 0x73, 0xfb]),
    (212433, [0x45, 0x77, 0x4e, 0xbc, 0x2b, 0x01, 0xa4, 0xa8, 0x21, 0x66, 0x4b, 0xc4, 0x7b, 0x84, 0x00, 0xf5]),
    (212434, [0xd3, 0x88, 0x0d, 0x69, 0x00, 0x9a, 0x2d, 0xf3, 0x97, 0x66, 0x42, 0xec, 0x49, 0xf7, 0x7e, 0x6f]),
    (212435, [0xf5, 0x1a, 0x29, 0xf6, 0x66, 0xaf, 0x02, 0xb9, 0xd5, 0x6d, 0xc2, 0xec, 0xb7, 0x3d, 0x5b, 0xc2]),
    (212436, [0xb9, 0x0d, 0x48, 0x1b, 0x5a, 0x24, 0xf3, 0x4c, 0x57, 0x3f, 0x01, 0x5e, 0x91, 0xa0, 0x32, 0xfb]),
    (212437, [0xc6, 0x6f, 0x93, 0xc2, 0xf1, 0xef, 0x8e, 0x32, 0x44, 0xa3, 0x44, 0xe7, 0x19, 0x03, 0x2f, 0x10]),
    (212438, [0x78, 0xea, 0x9d, 0x24, 0x61, 0x08, 0x7d, 0x96, 0xc8, 0x9b, 0x15, 0x94, 0x49, 0xee, 0x6a, 0x41]),
    (212439, [0xce, 0xe2, 0x76, 0x81, 0xaa, 0x75, 0x7e, 0x0d, 0x95, 0xe6, 0xd2, 0xba, 0x50, 0xf5, 0xcd, 0x5d]),
    (212440, [0x40, 0xcd, 0x60, 0x48, 0xa5, 0x67, 0x72, 0x43, 0x36, 0x80, 0x43, 0x97, 0x1d, 0xef, 0x96, 0x0d]),
    (212441, [0x8c, 0x2a, 0xcf, 0x39, 0x5c, 0x92, 0xb7, 0xbf, 0xd0, 0x40, 0x1f, 0xcf, 0x62, 0x23, 0x25, 0x9e]),
    (212442, [0xb7, 0xfd, 0x27, 0xeb, 0x59, 0x0f, 0xb3, 0x39, 0x42, 0x05, 0xfd, 0x9d, 0x09, 0x8e, 0x6a, 0x0f]),
    (212443, [0xe7, 0xe3, 0x09, 0x84, 0x03, 0x8d, 0x1e, 0x03, 0x19, 0x11, 0x22, 0x77, 0xbe, 0xbe, 0x0a, 0x23]),
    (212444, [0x58, 0x40, 0x17, 0x2f, 0xa5, 0x53, 0x49, 0xdf, 0xfc, 0x35, 0x1e, 0xa4, 0x86, 0xb0, 0x17, 0x84]),
    (212445, [0x86, 0xb7, 0x58, 0x41, 0x09, 0x74, 0x07, 0xa4, 0xb2, 0x14, 0x14, 0xe8, 0x5f, 0xe7, 0x99, 0xcc]),
    (212446, [0x67, 0x0e, 0x41, 0x2d, 0x3f, 0xed, 0x65, 0x46, 0xfe, 0xb1, 0x75, 0x5b, 0x85, 0xbe, 0xd4, 0x93]),
    (212447, [0xce, 0xa4, 0xe3, 0x94, 0xdc, 0x2f, 0x65, 0x97, 0x8e, 0xd7, 0x53, 0x24, 0xd2, 0x76, 0x0d, 0x23]),
    (212448, [0x9b, 0xff, 0xe6, 0xbf, 0xe1, 0x5d, 0x2d, 0xeb, 0x1d, 0x4d, 0xb2, 0x45, 0xac, 0xf9, 0xd5, 0x93]),
    (212449, [0xd0, 0x79, 0xa4, 0xb3, 0x4e, 0xa7, 0x86, 0xe5, 0x3b, 0x4a, 0xc7, 0x8c, 0x77, 0x15, 0xbc, 0x62]),
    (212450, [0x78, 0x79, 0x69, 0xa4, 0x41, 0x0e, 0x90, 0x69, 0x23, 0x0e, 0xa7, 0x80, 0x8e, 0x0f, 0xdc, 0xf3]),
    (212501, [0xa3, 0xb7, 0xe7, 0xb3, 0xd5, 0x6e, 0xc5, 0xf9, 0x24, 0x83, 0x0f, 0x9c, 0xb7, 0x85, 0x1c, 0x89]),
    (212502, [0x74, 0x13, 0x43, 0x28, 0x7c, 0x50, 0xa0, 0x61, 0x66, 0x97, 0x17, 0x50, 0x32, 0xb8, 0xbc, 0x44]),
    (212503, [0x3d, 0x11, 0x68, 0x9d, 0x62, 0x18, 0xe4, 0x6e, 0xb5, 0x28, 0x56, 0xed, 0x18, 0x24, 0xc5, 0x17]),
    (212504, [0x0b, 0x49, 0x8c, 0xd2, 0x5d, 0xe4, 0xfe, 0x26, 0x12, 0x7b, 0xfc, 0xe6, 0x58, 0x0b, 0x1f, 0xa2]),
    (212505, [0x36, 0xfc, 0x6a, 0xec, 0x9e, 0xef, 0xf7, 0x2a, 0x2d, 0xbe, 0x35, 0xc0, 0x63, 0xc7, 0x92, 0x85]),
    (212721, [0x39, 0x9f, 0xec, 0x9a, 0xe6, 0xa3, 0x9c, 0xf9, 0xa6, 0x9c, 0x83, 0x46, 0xe1, 0x6d, 0x00, 0x25]),
    (212841, [0x32, 0xa1, 0xab, 0x7b, 0x27, 0xdd, 0x43, 0x0c, 0x12, 0x32, 0x9e, 0x26, 0x2a, 0x9c, 0x45, 0xb4]),
    (212861, [0x69, 0x10, 0x4d, 0x54, 0xc8, 0xdc, 0x51, 0xa3, 0xf9, 0x95, 0xb8, 0x2d, 0x1d, 0xc3, 0xa0, 0xb7]),
    (212862, [0xf9, 0xb2, 0x60, 0xcb, 0x3b, 0x1b, 0x44, 0x91, 0xe7, 0xa7, 0x35, 0x68, 0x39, 0xf1, 0x1e, 0x07]),
    (213041, [0x08, 0x57, 0xc5, 0xa3, 0x3a, 0x1b, 0x44, 0xc1, 0x6a, 0x62, 0x85, 0x1a, 0x16, 0xc4, 0x25, 0xaf]),
    (213051, [0x34, 0x56, 0x4e, 0x85, 0xd6, 0xdd, 0xdc, 0x18, 0x90, 0x4a, 0xbc, 0x2e, 0xed, 0x57, 0xac, 0x2f]),
    (214531, [0xf9, 0xc3, 0x18, 0x06, 0xc4, 0x96, 0x5c, 0xc8, 0x4a, 0x03, 0x47, 0xee, 0x76, 0xbd, 0xe4, 0xca]),
    (214532, [0x57, 0xf9, 0xd9, 0x5e, 0xc2, 0x54, 0x3c, 0x1a, 0xd7, 0xd1, 0x2e, 0x6c, 0xd3, 0x48, 0x7d, 0x97]),
    (214631, [0x53, 0x43, 0x18, 0x21, 0x09, 0xdb, 0x63, 0xdc, 0x16, 0x92, 0xd6, 0x64, 0xab, 0x2f, 0xc3, 0xc0]),
    (214632, [0x4d, 0x24, 0xb4, 0x2b, 0xc4, 0x6d, 0x03, 0x15, 0xa3, 0x4e, 0x5e, 0x9c, 0x3d, 0xad, 0x25, 0x9c]),
    (214633, [0xa4, 0x66, 0xc5, 0x91, 0x92, 0xa3, 0xed, 0x03, 0x42, 0xe9, 0x48, 0x93, 0x5c, 0xa7, 0xc0, 0x53]),
    (214634, [0x9b, 0xcd, 0x73, 0x0f, 0x8c, 0x04, 0x2c, 0x94, 0x50, 0x02, 0x2e, 0x7d, 0x9d, 0x18, 0x82, 0x26]),
    (214635, [0xc0, 0x84, 0x0b, 0x2a, 0x97, 0xaf, 0x7c, 0xab, 0x13, 0x5c, 0x79, 0x37, 0xc5, 0x4b, 0x8d, 0x17]),
    (214636, [0x9a, 0x87, 0x13, 0xb2, 0xb6, 0xab, 0x71, 0xdd, 0x8a, 0xcb, 0xac, 0x16, 0x43, 0x73, 0xfa, 0x32]),
    (214637, [0x8b, 0xa1, 0x62, 0xce, 0x20, 0x51, 0xb6, 0x0c, 0x97, 0xb4, 0xa6, 0xe1, 0x1e, 0x79, 0x35, 0x7a]),
    (214638, [0x2d, 0xec, 0x2c, 0xad, 0xd1, 0x4f, 0x0b, 0x0d, 0x90, 0xc3, 0x25, 0x36, 0xcb, 0xe8, 0x45, 0xa8]),
    (214645, [0x7d, 0x6f, 0xc8, 0xc2, 0x9b, 0xb6, 0x7a, 0x45, 0xe2, 0xad, 0x5a, 0xc5, 0x06, 0x8e, 0x19, 0x76]),
    (214646, [0x99, 0x4d, 0xf1, 0x10, 0xf3, 0xb8, 0x4c, 0x23, 0xcd, 0xe4, 0x44, 0x42, 0x3a, 0x8d, 0xf1, 0xb2]),
    (214647, [0x7e, 0x78, 0xc7, 0x8b, 0xba, 0xa3, 0x4a, 0xf7, 0x03, 0x9e, 0xdc, 0x62, 0x59, 0x3c, 0xc3, 0x51]),
    (214648, [0x3e, 0x47, 0x65, 0xfd, 0x18, 0x8a, 0x2d, 0x5b, 0xba, 0x7f, 0x57, 0xd5, 0x1d, 0x23, 0x89, 0x17]),
    (214649, [0x26, 0x62, 0x5b, 0x44, 0xe0, 0x5e, 0x64, 0xcf, 0xb2, 0x58, 0x65, 0x3f, 0x8e, 0xde, 0x3f, 0x59]),
    (214652, [0x4b, 0x03, 0xcc, 0x7a, 0xe9, 0xdb, 0x60, 0x57, 0xd8, 0x5d, 0x72, 0x92, 0x9f, 0x5f, 0x14, 0xf1]),
    (214653, [0xf0, 0x55, 0x36, 0xff, 0x36, 0xff, 0x03, 0x5b, 0x52, 0x92, 0xe7, 0x18, 0x2f, 0x7f, 0xd8, 0xbd]),
    (214681, [0xc5, 0x97, 0xd3, 0xf5, 0x1c, 0xd9, 0x79, 0x0d, 0xf7, 0x1d, 0xdc, 0xc4, 0x23, 0xcf, 0xe5, 0x67]),
    (214711, [0xf8, 0xc2, 0x08, 0xc9, 0x10, 0x15, 0xa7, 0xfa, 0x84, 0x7e, 0x03, 0x50, 0x0e, 0xef, 0x0f, 0x8d]),
    (214712, [0x38, 0xe8, 0xf7, 0xe4, 0xf7, 0x0d, 0x87, 0xbb, 0x62, 0x26, 0x13, 0x20, 0xb4, 0x6a, 0xb5, 0xa9]),
    (214980, [0x4a, 0x58, 0xcb, 0xb6, 0x1c, 0x00, 0x66, 0x90, 0x4b, 0x42, 0x55, 0xb3, 0xd5, 0x8e, 0x98, 0xf9]),
    (214981, [0x64, 0xb0, 0x0e, 0xf2, 0x25, 0x9f, 0x9d, 0x49, 0xfc, 0x5d, 0xfe, 0xbd, 0xc5, 0x8e, 0x32, 0xbb]),
    (214982, [0xa7, 0x39, 0x28, 0x11, 0xb5, 0x23, 0x4a, 0x8c, 0x1e, 0xc7, 0x77, 0x7b, 0x03, 0x4d, 0x56, 0xef]),
    (214983, [0x98, 0x2c, 0x2e, 0x47, 0x6d, 0xa9, 0x71, 0xd9, 0x32, 0x55, 0x66, 0x1b, 0xd6, 0x64, 0x3d, 0x2a]),
    (214984, [0x3e, 0x66, 0x3b, 0xe9, 0x77, 0xd9, 0x9d, 0x75, 0x97, 0x47, 0x94, 0xb8, 0x97, 0x2a, 0x2d, 0x7e]),
    (214985, [0x57, 0x1e, 0x81, 0x83, 0xad, 0x7a, 0xac, 0x44, 0x71, 0x6e, 0xc3, 0x76, 0x3a, 0x2d, 0xd9, 0xee]),
    (215041, [0x90, 0xfd, 0x9f, 0x10, 0x95, 0x37, 0xaf, 0xed, 0x3f, 0xb9, 0xc5, 0xa8, 0xb4, 0xef, 0xda, 0xb5]),
    (215042, [0xb4, 0x7f, 0x5d, 0x54, 0x51, 0xb2, 0x4e, 0x63, 0x5e, 0x49, 0xc3, 0x38, 0xd5, 0x5b, 0xa3, 0x18]),
    (215043, [0x2c, 0x09, 0x08, 0x62, 0x2a, 0x0c, 0x32, 0xd3, 0xd5, 0x52, 0x33, 0x37, 0x5c, 0xc8, 0xcc, 0x92]),
    (215044, [0xfe, 0x5d, 0x18, 0x4c, 0x2d, 0x4a, 0x6e, 0xf4, 0x33, 0xd3, 0xdd, 0x61, 0x48, 0x11, 0x48, 0xbf]),
    (215045, [0x01, 0x1e, 0x02, 0xa4, 0x05, 0x47, 0xf6, 0x7b, 0xe4, 0x97, 0xc9, 0xcf, 0xdf, 0x1f, 0x46, 0x5a])]"

definition TABLE_31 :: "key_entry list" where
  "TABLE_31 = [
    (215046, [0x0f, 0x6a, 0x3d, 0xa6, 0xc9, 0xa2, 0xf7, 0xf1, 0x56, 0x20, 0xfb, 0x99, 0x8b, 0x48, 0x6e, 0xdd]),
    (215047, [0x40, 0x17, 0x1b, 0x96, 0x4a, 0xee, 0x94, 0x91, 0x5a, 0x50, 0xa9, 0x8c, 0x05, 0xca, 0xb3, 0xcf]),
    (215048, [0x3e, 0x2c, 0xb9, 0x40, 0x6c, 0x5c, 0xd8, 0x90, 0x79, 0x86, 0x6a, 0x52, 0x92, 0xfd, 0x4e, 0x5c]),
    (215049, [0x61, 0x80, 0x39, 0x28, 0x20, 0x32, 0x0e, 0x37, 0x4a, 0xce, 0xc6, 0xbc, 0x59, 0xf7, 0xcc, 0xe4]),
    (215050, [0x32, 0x87, 0x68, 0xd7, 0xcf, 0xdc, 0x07, 0x91, 0x96, 0xf1, 0xc4, 0x26, 0x30, 0x8e, 0x10, 0x1f]),
    (215051, [0x2f, 0x1b, 0x0f, 0x36, 0x78, 0x03, 0x66, 0x28, 0x42, 0x8f, 0xca, 0xda, 0x11, 0x07, 0x65, 0xd2]),
    (215052, [0xb7, 0xf2, 0x8a, 0x2b, 0x48, 0x20, 0x52, 0xcc, 0xb8, 0xef, 0xe2, 0x9d, 0x68, 0xcc, 0xe8, 0x33]),
    (215053, [0x33, 0xc4, 0x0e, 0xd6, 0x1b, 0x2e, 0x68, 0x2b, 0xc5, 0x37, 0x29, 0x77, 0x0e, 0xd4, 0x07, 0x78]),
    (215302, [0x03, 0xad, 0x84, 0x9d, 0x09, 0xfe, 0x16, 0xd3, 0xa5, 0x26, 0x7e, 0x62, 0x5b, 0x2a, 0x15, 0xa7]),
    (215304, [0x92, 0x2a, 0xb8, 0x83, 0x42, 0x7c, 0x75, 0x45, 0x60, 0x98, 0x48, 0xe3, 0xe4, 0x94, 0x3f, 0x6f]),
    (215305, [0xdb, 0x92, 0xcd, 0xb5, 0x62, 0xa4, 0x54, 0xf9, 0x35, 0x0a, 0xeb, 0x35, 0x52, 0x5f, 0x37, 0xc3]),
    (215306, [0x62, 0x90, 0x1a, 0xb7, 0x5b, 0x41, 0x31, 0x0c, 0x55, 0xf2, 0x39, 0x83, 0x6e, 0x29, 0x44, 0xeb]),
    (215307, [0xe5, 0x5f, 0x3c, 0xe3, 0x69, 0x55, 0xf4, 0x5b, 0x58, 0x0e, 0x3a, 0x6a, 0x09, 0xe9, 0x4e, 0xff]),
    (215308, [0xd4, 0x0f, 0x70, 0xc2, 0xa4, 0xe5, 0x2b, 0xe4, 0x1b, 0xaf, 0xba, 0x73, 0xb0, 0xb0, 0x32, 0xbc]),
    (215309, [0xfe, 0x95, 0x0f, 0x62, 0x79, 0xa0, 0x82, 0xd5, 0xa7, 0x7a, 0x39, 0x39, 0x31, 0x77, 0x92, 0xe6]),
    (215310, [0x53, 0xa0, 0x6a, 0x4b, 0x0e, 0x64, 0x26, 0x38, 0xc8, 0xc6, 0x22, 0xdc, 0x69, 0xb8, 0x1c, 0x55]),
    (215311, [0x19, 0x62, 0x67, 0x37, 0x0f, 0xe1, 0xe9, 0x10, 0x51, 0x85, 0x33, 0x31, 0xa1, 0xea, 0xaf, 0xab]),
    (215313, [0x14, 0x32, 0x0b, 0xdf, 0xd7, 0x5b, 0xd2, 0xa9, 0xca, 0x7a, 0x6a, 0x99, 0xbc, 0x6a, 0x2f, 0x66]),
    (215314, [0xfa, 0xef, 0x58, 0x44, 0x10, 0x7f, 0x24, 0x41, 0xc5, 0x94, 0x28, 0xf9, 0x26, 0x7a, 0x1c, 0xb7]),
    (215315, [0xaa, 0x89, 0xe5, 0x2e, 0xc1, 0xc3, 0x26, 0x64, 0xd7, 0x8a, 0xd4, 0x34, 0x60, 0x35, 0xf2, 0x8b]),
    (215316, [0xe3, 0x8d, 0x55, 0xc5, 0x85, 0x4e, 0x10, 0xf0, 0x3f, 0xae, 0xe5, 0xa2, 0x87, 0xdf, 0xb1, 0x4b]),
    (215320, [0x84, 0x85, 0xcc, 0xbe, 0x9c, 0x3b, 0x96, 0x7f, 0x5b, 0x11, 0x0b, 0x21, 0xa8, 0xca, 0x93, 0xa0]),
    (215321, [0x90, 0xe7, 0xa2, 0x95, 0xa7, 0xf2, 0x1d, 0x83, 0x9d, 0x25, 0x27, 0x1d, 0x10, 0x5c, 0xd8, 0x42]),
    (215611, [0x5b, 0xe9, 0x32, 0xc9, 0xe7, 0x5d, 0x53, 0xc2, 0xea, 0x07, 0xf6, 0x73, 0x14, 0x62, 0xcf, 0xad]),
    (215731, [0x6c, 0xbb, 0xf6, 0xf1, 0xaf, 0x48, 0x4d, 0x67, 0x7a, 0xdf, 0xe2, 0x58, 0x3e, 0x78, 0x62, 0xce]),
    (216671, [0x55, 0x31, 0x8f, 0xd4, 0xbc, 0x72, 0xae, 0x51, 0x4d, 0x92, 0xdb, 0xd9, 0x4c, 0x18, 0xfb, 0x59]),
    (218371, [0x02, 0x12, 0x0c, 0x79, 0xeb, 0x46, 0x70, 0x36, 0xb2, 0xf2, 0xf8, 0x5d, 0x94, 0xb1, 0xfb, 0xea]),
    (218372, [0x3a, 0x75, 0xe0, 0x7a, 0x1f, 0xea, 0xd7, 0xff, 0x27, 0x71, 0x60, 0xa3, 0xf3, 0xc0, 0x45, 0x8d]),
    (218373, [0x4c, 0xce, 0x8b, 0xa7, 0xde, 0xf6, 0x52, 0x7b, 0xca, 0x14, 0x67, 0x5d, 0x96, 0x83, 0x87, 0x4e]),
    (218374, [0x3a, 0x2b, 0x6a, 0x70, 0xbf, 0x05, 0xee, 0x80, 0x45, 0x46, 0xf7, 0x32, 0xf1, 0x07, 0xc9, 0xd0]),
    (218375, [0x49, 0x80, 0x78, 0x54, 0x67, 0x0e, 0xc9, 0x5b, 0xa1, 0x4c, 0x75, 0xd6, 0xb4, 0xe2, 0x5d, 0xf1]),
    (218376, [0x77, 0x49, 0xb7, 0x2a, 0x9f, 0xf5, 0xa9, 0x10, 0x37, 0x62, 0xd9, 0x1a, 0x89, 0x72, 0x16, 0x90]),
    (218377, [0xbb, 0x42, 0x92, 0x73, 0xe3, 0x1f, 0xbe, 0x98, 0x05, 0x07, 0xae, 0xa9, 0x60, 0x21, 0x9a, 0x24]),
    (218378, [0xee, 0xe8, 0x4b, 0x46, 0xf3, 0x1b, 0x18, 0x64, 0x64, 0xd6, 0x6a, 0xd1, 0xc0, 0x66, 0xc3, 0x90]),
    (218379, [0x43, 0xd6, 0x44, 0xe5, 0x9c, 0x4a, 0x99, 0xed, 0x83, 0x17, 0x77, 0x14, 0x7c, 0xda, 0x47, 0xb8]),
    (218380, [0x82, 0xa4, 0x48, 0x3e, 0x5e, 0x04, 0xbf, 0x65, 0x5b, 0xb3, 0x5c, 0x43, 0x7b, 0xef, 0x8b, 0x4a]),
    (218381, [0x0a, 0x63, 0x26, 0x16, 0xd8, 0x21, 0x51, 0xb8, 0x9e, 0x5f, 0x26, 0xe9, 0x02, 0x6a, 0xc8, 0xb5]),
    (218382, [0xc5, 0xc3, 0xa4, 0x45, 0xc8, 0xbd, 0x32, 0x5f, 0x95, 0x64, 0x36, 0xaa, 0x53, 0x8c, 0x3a, 0x7f]),
    (218391, [0xd6, 0xab, 0x03, 0x40, 0x8a, 0xd3, 0xb9, 0xa3, 0xea, 0xca, 0x00, 0x5f, 0x62, 0x14, 0x9f, 0x56]),
    (218392, [0x41, 0x24, 0xb0, 0xaa, 0x04, 0x67, 0xb2, 0xc8, 0xc9, 0xb1, 0x9b, 0x90, 0x52, 0x2e, 0xd8, 0xbc]),
    (218393, [0x11, 0xda, 0x72, 0xae, 0x2b, 0xcd, 0x8f, 0xf2, 0x98, 0x7b, 0x2a, 0x2e, 0x8b, 0xbf, 0xa0, 0x6b]),
    (218394, [0xd5, 0xd6, 0x5f, 0xfd, 0x4b, 0x5d, 0x1c, 0x81, 0xa0, 0x9e, 0x79, 0x10, 0x1b, 0xb5, 0x78, 0x83]),
    (218395, [0x33, 0x0c, 0xae, 0x59, 0x9b, 0x46, 0x2d, 0x31, 0xe9, 0xc9, 0x9d, 0x07, 0x45, 0xf0, 0xb0, 0x03]),
    (218396, [0x15, 0x6f, 0xaa, 0xf8, 0xd2, 0x45, 0x8e, 0x42, 0xcf, 0x3f, 0xa8, 0x5d, 0x3b, 0xbb, 0x61, 0x1d]),
    (218397, [0x8f, 0xaa, 0xd2, 0xe0, 0x3a, 0x3a, 0x19, 0x70, 0x8a, 0x2d, 0xb0, 0x3b, 0xcb, 0xdf, 0x21, 0x33]),
    (218398, [0xa9, 0x96, 0x8b, 0xed, 0x31, 0xf7, 0x28, 0xbd, 0x80, 0x18, 0x8f, 0x09, 0xbb, 0x1a, 0x2f, 0x63]),
    (218399, [0xb5, 0x60, 0x59, 0x71, 0x40, 0x83, 0x51, 0x08, 0x72, 0xd0, 0x69, 0x86, 0xb4, 0x9d, 0xb7, 0xf0]),
    (218400, [0x26, 0x64, 0x56, 0x4c, 0x73, 0x49, 0x40, 0xb2, 0x33, 0xfd, 0x2c, 0xa6, 0x4d, 0xe3, 0xfe, 0x63]),
    (218401, [0x65, 0x17, 0xd6, 0x1f, 0x5c, 0x02, 0x6f, 0x7f, 0xd0, 0x4f, 0x58, 0x51, 0x5f, 0x04, 0x0d, 0x26]),
    (218402, [0x68, 0x28, 0x36, 0x7b, 0x6f, 0x3c, 0xba, 0x15, 0x1f, 0x22, 0x6a, 0x74, 0x15, 0x5f, 0xb2, 0x8c]),
    (220760, [0x79, 0xed, 0x15, 0x4e, 0xa7, 0x28, 0x1d, 0xce, 0x79, 0xf8, 0xaa, 0x95, 0x88, 0x14, 0x85, 0x7a]),
    (220761, [0x7f, 0x62, 0xdc, 0x90, 0x57, 0x12, 0x06, 0x8e, 0xaf, 0x6e, 0xfc, 0x9d, 0x61, 0xa9, 0xc5, 0x88]),
    (220762, [0x5b, 0x7d, 0x5a, 0x08, 0x89, 0xf1, 0x55, 0xcb, 0xe1, 0x0f, 0x8f, 0xdd, 0x62, 0x3b, 0x49, 0xa2]),
    (220763, [0x49, 0x8a, 0xfa, 0xbe, 0x08, 0x1c, 0xf5, 0x30, 0x71, 0x6d, 0x42, 0x2e, 0xa0, 0x5a, 0xeb, 0x68]),
    (220764, [0xdd, 0x64, 0xe3, 0xee, 0x7d, 0x72, 0x94, 0xe1, 0x10, 0x2c, 0x23, 0xde, 0x23, 0x18, 0x1d, 0x40]),
    (220765, [0xb9, 0x51, 0xb2, 0xc0, 0x64, 0xe6, 0xc1, 0xaf, 0xf9, 0xff, 0x08, 0x9f, 0x28, 0xa6, 0xb9, 0x8a]),
    (221941, [0xf5, 0xb4, 0xba, 0xb5, 0x74, 0x33, 0x14, 0x93, 0x42, 0x90, 0xa7, 0xc8, 0x61, 0xd7, 0xd7, 0xf4]),
    (221942, [0xf1, 0x08, 0x79, 0x1e, 0x7c, 0x9e, 0xcf, 0x28, 0xa2, 0x2f, 0x14, 0x48, 0xe8, 0xbc, 0x61, 0x72]),
    (221943, [0x3f, 0xbc, 0x2e, 0x32, 0xa8, 0xb8, 0xbb, 0x5a, 0xd2, 0x11, 0x87, 0xf2, 0x28, 0xa9, 0x9b, 0xce]),
    (221944, [0xc3, 0xb0, 0x8d, 0x63, 0x0d, 0x1a, 0x5e, 0xb9, 0x24, 0xe2, 0xfb, 0xff, 0x46, 0xa0, 0x35, 0x73]),
    (221945, [0x1e, 0xb3, 0xe1, 0x80, 0x24, 0xcd, 0xfe, 0x76, 0xff, 0x61, 0x21, 0x0d, 0xdf, 0xad, 0x59, 0xaf]),
    (221946, [0x9b, 0xfa, 0x10, 0xcf, 0xcf, 0xf9, 0xcd, 0x28, 0xed, 0xcd, 0xeb, 0x6f, 0x3d, 0xa7, 0x14, 0x02]),
    (221947, [0x9d, 0x45, 0x97, 0x5e, 0xf6, 0xea, 0x7c, 0x1a, 0x20, 0xe4, 0x25, 0xb0, 0x6e, 0xed, 0x8f, 0x54]),
    (221948, [0xd4, 0xf4, 0x67, 0x4a, 0x9e, 0x18, 0x68, 0x64, 0x6f, 0xa8, 0x0a, 0xa5, 0x8b, 0xe7, 0x78, 0x9a]),
    (221949, [0xc3, 0x9f, 0xaa, 0x9c, 0x60, 0x31, 0x8c, 0x39, 0xa4, 0x44, 0xb7, 0x1c, 0x1a, 0xcf, 0xd8, 0x76]),
    (221950, [0x8d, 0xb9, 0x58, 0x53, 0x2b, 0xdc, 0x27, 0x5f, 0xa2, 0x4c, 0x99, 0xb9, 0xd8, 0x18, 0x74, 0xb3]),
    (221952, [0x34, 0xd4, 0x5a, 0xb6, 0xce, 0x5c, 0x5b, 0xdb, 0xc4, 0x9b, 0x43, 0x64, 0xae, 0x01, 0xa8, 0x5b]),
    (221961, [0x98, 0x75, 0xf7, 0x43, 0xd1, 0x8f, 0xc6, 0x86, 0x4b, 0xd9, 0x90, 0xa4, 0xf6, 0xee, 0xe5, 0x48]),
    (221962, [0x95, 0x3a, 0x27, 0xb7, 0x92, 0x3e, 0xc5, 0x5b, 0x90, 0xff, 0x26, 0xec, 0xa8, 0xdb, 0xba, 0x49]),
    (221963, [0x26, 0x96, 0x30, 0x9c, 0x8d, 0x57, 0x34, 0xdd, 0x14, 0x61, 0xae, 0xeb, 0x7f, 0x80, 0xb8, 0xf6]),
    (221964, [0x1b, 0x6d, 0x90, 0x2e, 0xe6, 0x99, 0x60, 0x06, 0x87, 0x7b, 0x13, 0x10, 0xd8, 0x77, 0xb1, 0x5f]),
    (221965, [0xfe, 0x9d, 0x7f, 0x21, 0xb3, 0x86, 0x0a, 0xc9, 0xf0, 0xc5, 0xb6, 0x31, 0x3d, 0x39, 0xbf, 0x96]),
    (221966, [0x4c, 0x4d, 0x8b, 0x9f, 0xa2, 0xa5, 0x13, 0x78, 0xd2, 0xf4, 0x49, 0xd7, 0x49, 0xed, 0xa8, 0xc8]),
    (221967, [0x57, 0x8e, 0x28, 0x17, 0x53, 0xcc, 0x41, 0x34, 0x1c, 0x1a, 0x81, 0x80, 0x57, 0xe4, 0x60, 0x6e]),
    (221968, [0x01, 0xd7, 0xb9, 0x8a, 0x6e, 0x72, 0xaf, 0xd2, 0xae, 0x61, 0x8a, 0x45, 0x95, 0x07, 0x98, 0x79]),
    (221969, [0x81, 0xec, 0x97, 0x5c, 0x5e, 0x0c, 0xec, 0xb0, 0xb6, 0x3b, 0xd7, 0x07, 0x35, 0x47, 0x85, 0x9d]),
    (221970, [0xa6, 0x5c, 0x27, 0xda, 0xf1, 0x9d, 0x18, 0x49, 0xf9, 0x41, 0xf5, 0xbe, 0xbb, 0x00, 0x49, 0xf4]),
    (221972, [0x56, 0x54, 0x01, 0xbb, 0xe6, 0x78, 0xa2, 0xd1, 0xdf, 0x29, 0xdc, 0x2e, 0xfd, 0x4e, 0xb1, 0x8c]),
    (222301, [0x1c, 0x1d, 0x5c, 0x0d, 0xd0, 0xe3, 0x56, 0x0b, 0xa8, 0x3f, 0xfa, 0x64, 0xe8, 0x8c, 0xbe, 0x86]),
    (222302, [0x74, 0x4b, 0x84, 0xa2, 0x30, 0x18, 0x2f, 0xb1, 0xdf, 0xa5, 0x43, 0xcf, 0xed, 0x48, 0x50, 0x8d]),
    (222303, [0x50, 0xc2, 0x21, 0x90, 0xe1, 0xd7, 0x16, 0xf9, 0x6b, 0x26, 0x04, 0x05, 0x15, 0x06, 0xc4, 0x3b]),
    (222304, [0x4d, 0xdc, 0xe0, 0x75, 0xb1, 0x44, 0x4e, 0x85, 0xcc, 0x01, 0x5c, 0x75, 0x7d, 0xb6, 0x49, 0x27]),
    (222305, [0x8e, 0xa2, 0x85, 0x99, 0xcb, 0x72, 0x1f, 0x02, 0xfd, 0xc0, 0x72, 0x17, 0x35, 0x5b, 0x91, 0x33]),
    (222306, [0xb3, 0x24, 0x79, 0xbe, 0x68, 0x42, 0x1b, 0x24, 0xcd, 0x3d, 0x53, 0xdc, 0xad, 0xaa, 0x35, 0xff]),
    (222307, [0xbe, 0x7d, 0xe7, 0x8c, 0x0a, 0x69, 0xd7, 0xc7, 0x64, 0xc0, 0x6c, 0xfd, 0x00, 0x54, 0x83, 0xc0]),
    (222308, [0xd0, 0xf1, 0x0c, 0x5d, 0x9a, 0x21, 0xe0, 0x17, 0xbe, 0x1e, 0x07, 0xc7, 0x3c, 0x3c, 0x21, 0x6e]),
    (222309, [0xc8, 0xe1, 0x76, 0x26, 0xef, 0xac, 0xcb, 0x89, 0x29, 0xbe, 0x56, 0xca, 0x37, 0x33, 0x60, 0x1d]),
    (222310, [0x96, 0x9b, 0x17, 0xea, 0xd5, 0xec, 0x54, 0x44, 0x30, 0xe3, 0xf7, 0xe9, 0x08, 0x89, 0x5c, 0xa8]),
    (222312, [0xc9, 0xf9, 0x99, 0x57, 0x5c, 0x6c, 0xee, 0xbc, 0x26, 0xcb, 0x86, 0xbd, 0x45, 0x49, 0xe9, 0xfc]),
    (222540, [0x7b, 0xcc, 0xa6, 0x49, 0x77, 0x0a, 0x0b, 0x28, 0xff, 0xb7, 0x06, 0xd5, 0xbb, 0xb7, 0xc6, 0x71]),
    (222541, [0xe7, 0x90, 0x3d, 0x5f, 0x17, 0x3f, 0x40, 0x43, 0xd6, 0xfd, 0x25, 0x60, 0xa4, 0x3c, 0x97, 0xe7]),
    (222542, [0xec, 0xcc, 0x6c, 0xde, 0xd5, 0x9e, 0x60, 0x1f, 0x47, 0x82, 0x08, 0x44, 0x83, 0xf5, 0x0b, 0x3e]),
    (222543, [0x54, 0xdb, 0x1b, 0x28, 0xbf, 0xea, 0x90, 0x0a, 0x42, 0xe0, 0x1a, 0xda, 0x1b, 0x87, 0x29, 0x23]),
    (222544, [0x40, 0xf5, 0x8c, 0xa4, 0x46, 0x03, 0xf7, 0x5c, 0xa2, 0xac, 0x46, 0x75, 0x21, 0xb6, 0x42, 0x44]),
    (222545, [0x70, 0xb4, 0x35, 0x94, 0x5d, 0x82, 0xbf, 0x9d, 0x38, 0x69, 0xbe, 0x2e, 0xe3, 0x4f, 0x1b, 0x5c]),
    (222546, [0x25, 0x19, 0x7f, 0x79, 0x32, 0x37, 0xf0, 0xa1, 0x12, 0x0b, 0x61, 0xfe, 0xa2, 0xe6, 0x75, 0x3e]),
    (222547, [0x2f, 0x6b, 0x04, 0x7b, 0xe3, 0xfa, 0x7e, 0x2b, 0x61, 0xeb, 0xd0, 0x51, 0xe9, 0x82, 0xba, 0xe3]),
    (222548, [0x9e, 0x3d, 0x34, 0x64, 0x14, 0xf1, 0x3c, 0xcd, 0x69, 0x42, 0x4e, 0xa5, 0x86, 0x8c, 0x45, 0x2e]),
    (222550, [0x72, 0x8f, 0x60, 0x3a, 0x49, 0x29, 0xb9, 0x77, 0xc8, 0x93, 0xb9, 0xb9, 0x18, 0x93, 0x81, 0xa1]),
    (222551, [0xb8, 0x13, 0x96, 0xb2, 0x2e, 0x7a, 0x2b, 0x5e, 0xff, 0xab, 0x56, 0xfb, 0xcb, 0x2f, 0x78, 0x98]),
    (222562, [0xc4, 0x07, 0x74, 0xfd, 0x75, 0xed, 0xf7, 0xe6, 0x09, 0x53, 0x9b, 0xb9, 0x6f, 0xa3, 0xf3, 0x70]),
    (222564, [0x67, 0xb0, 0xf0, 0xe2, 0x36, 0x58, 0x13, 0x37, 0x54, 0x4e, 0x2c, 0x4a, 0xf5, 0xa9, 0x11, 0x34]),
    (222565, [0xa1, 0x6c, 0xcd, 0xe6, 0x0f, 0xe6, 0xd4, 0xe6, 0x8a, 0x15, 0x00, 0x11, 0x27, 0x05, 0x46, 0xce]),
    (222566, [0x55, 0xff, 0x9d, 0x10, 0x2d, 0x06, 0xb5, 0x79, 0x70, 0x9d, 0x35, 0x32, 0xe1, 0x24, 0xf6, 0xcb]),
    (222567, [0x71, 0xc5, 0xf1, 0xd4, 0xd0, 0x89, 0xe2, 0x26, 0x34, 0x7b, 0xb2, 0x86, 0x34, 0x60, 0x6a, 0x4a]),
    (222568, [0xde, 0xbc, 0xf5, 0xf7, 0xbf, 0x47, 0x2e, 0x3a, 0x57, 0x42, 0x90, 0x87, 0x20, 0x70, 0x42, 0x92]),
    (235781, [0xdf, 0xa9, 0x98, 0x3e, 0x6a, 0xfb, 0x52, 0xcc, 0x5b, 0x0d, 0xcc, 0x35, 0x29, 0x11, 0xb2, 0x3b]),
    (387001, [0x3c, 0x82, 0x8b, 0x33, 0x71, 0x6f, 0x9f, 0xc3, 0x68, 0xac, 0x06, 0x00, 0x48, 0x48, 0x03, 0xad])]"

lemma TABLE_24_span: "span 108722 TABLE_24 200651"
  unfolding TABLE_24_def by (simp only: span_eval) simp

lemma TABLE_25_span: "span 200671 TABLE_25 202485"
  unfolding TABLE_25_def by (simp only: span_eval) simp

lemma TABLE_26_span: "span 202522 TABLE_26 204391"
  unfolding TABLE_26_def by (simp only: span_eval) simp

lemma TABLE_27_span: "span 204411 TABLE_27 206464"
  unfolding TABLE_27_def by (simp only: span_eval) simp

lemma TABLE_28_span: "span 206481 TABLE_28 208364"
  unfolding TABLE_28_def by (simp only: span_eval) simp

lemma TABLE_29_span: "span 208365 TABLE_29 210708"
  unfolding TABLE_29_def by (simp only: span_eval) simp

lemma TABLE_30_span: "span 210721 TABLE_30 215045"
  unfolding TABLE_30_def by (simp only: span_eval) simp

lemma TABLE_31_span: "span 215046 TABLE_31 387001"
  unfolding TABLE_31_def by (simp only: span_eval) simp

end
