(* ===== verification/Rust_Text.thy ===== *)
theory Rust_Text
  imports Prelude
begin

text \<open>
  The parts of Rust's \<open>str\<close> the sources use.  A \<open>str\<close> is a \<^typ>\<open>string\<close> holding its UTF-8 bytes, one
  \<^typ>\<open>char\<close> each.  Integers are printed in a radix, padded with zeros, and parsed back with the rules
  of \<open>from_str_radix\<close> (an optional sign, no empty digits, an error on overflow); strings are split,
  trimmed and cut into lines; bytes that are not UTF-8 are replaced as \<open>from_utf8_lossy\<close> does.
\<close>

section \<open>Definitions\<close>

definition as_bytes :: "string \<Rightarrow> bytes" where
  "as_bytes s = map (\<lambda>c. of_nat (of_char c)) s"

definition from_bytes :: "bytes \<Rightarrow> string" where
  "from_bytes b = map (\<lambda>x. char_of (unat x)) b"

subsection \<open>Integers\<close>

definition to_digit :: "nat \<Rightarrow> char \<Rightarrow> nat option" where
  "to_digit r c =
     (let n = of_char c :: nat;
          d = (if 48 \<le> n \<and> n \<le> 57 then n - 48
               else if 97 \<le> n \<and> n \<le> 122 then n - 87
               else if 65 \<le> n \<and> n \<le> 90 then n - 55
               else r)
      in if d < r then Some d else None)"

fun digits_value :: "nat \<Rightarrow> nat \<Rightarrow> string \<Rightarrow> nat option" where
  "digits_value r acc [] = Some acc"
| "digits_value r acc (c # cs) =
     (case to_digit r c of None \<Rightarrow> None | Some d \<Rightarrow> digits_value r (acc * r + d) cs)"

text \<open>\<open>parse_uint r n s\<close>: an unsigned integer below \<open>n\<close> in radix \<open>r\<close>.\<close>

definition parse_uint :: "nat \<Rightarrow> nat \<Rightarrow> string \<Rightarrow> nat option" where
  "parse_uint r n s =
     (let ds = (if s \<noteq> [] \<and> hd s = CHR ''+'' then tl s else s)
      in if ds = [] then None
         else case digits_value r 0 ds of
           None \<Rightarrow> None
         | Some v \<Rightarrow> if v < n then Some v else None)"

definition parse_u32 :: "string \<Rightarrow> u32 option" where
  "parse_u32 s = map_option of_nat (parse_uint 10 4294967296 s)"

definition parse_u32_hex :: "string \<Rightarrow> u32 option" where
  "parse_u32_hex s = map_option of_nat (parse_uint 16 4294967296 s)"

definition parse_u64 :: "string \<Rightarrow> u64 option" where
  "parse_u64 s = map_option of_nat (parse_uint 10 18446744073709551616 s)"

definition parse_i64 :: "string \<Rightarrow> int option" where
  "parse_i64 s =
     (if s \<noteq> [] \<and> hd s = CHR ''-''
      then if tl s = [] then None
           else case digits_value 10 0 (tl s) of
             None \<Rightarrow> None
           | Some v \<Rightarrow> if v \<le> 9223372036854775808 then Some (- int v) else None
      else map_option int (parse_uint 10 9223372036854775808 s))"

definition digit_char :: "nat \<Rightarrow> char" where
  "digit_char d = char_of (if d < 10 then d + 48 else d + 87)"

function show_radix :: "nat \<Rightarrow> nat \<Rightarrow> string" where
  "show_radix r n =
     (if n < r \<or> r < 2 then [digit_char n]
      else show_radix r (n div r) @ [digit_char (n mod r)])"
  by auto
termination by (relation "measure snd") auto

declare show_radix.simps [simp del]

abbreviation show_dec :: "nat \<Rightarrow> string" where
  "show_dec \<equiv> show_radix 10"

abbreviation show_hex :: "nat \<Rightarrow> string" where
  "show_hex \<equiv> show_radix 16"

definition pad_zero :: "nat \<Rightarrow> string \<Rightarrow> string" where
  "pad_zero w s = replicate (w - length s) CHR ''0'' @ s"

text \<open>\<open>{:08x}\<close>.\<close>

definition hex8 :: "u32 \<Rightarrow> string" where
  "hex8 x = pad_zero 8 (show_hex (unat x))"

subsection \<open>Splitting\<close>

definition split_once :: "char \<Rightarrow> string \<Rightarrow> (string \<times> string) option" where
  "split_once c s =
     (case dropWhile (\<lambda>x. x \<noteq> c) s of
        [] \<Rightarrow> None
      | _ # rest \<Rightarrow> Some (takeWhile (\<lambda>x. x \<noteq> c) s, rest))"

fun splitn :: "nat \<Rightarrow> char \<Rightarrow> string \<Rightarrow> string list" where
  "splitn 0 c s = []"
| "splitn (Suc 0) c s = [s]"
| "splitn (Suc (Suc n)) c s =
     (case split_once c s of None \<Rightarrow> [s] | Some (a, rest) \<Rightarrow> a # splitn (Suc n) c rest)"

text \<open>A string of \<open>n\<close> bytes has at most \<open>n + 1\<close> pieces.\<close>

definition split_all :: "char \<Rightarrow> string \<Rightarrow> string list" where
  "split_all c s = splitn (Suc (length s)) c s"

definition strip_suffix :: "string \<Rightarrow> string \<Rightarrow> string option" where
  "strip_suffix suf s =
     (if suffix suf s then Some (take (length s - length suf) s) else None)"

text \<open>The white space of Unicode, in UTF-8.\<close>

definition white_space :: "string list" where
  "white_space =
     map (map char_of)
       ([[9], [10], [11], [12], [13], [32], [0xc2, 0x85], [0xc2, 0xa0], [0xe1, 0x9a, 0x80]] @
        map (\<lambda>x. [0xe2, 0x80, x]) [0x80..<0x8b] @
        [[0xe2, 0x80, 0xa8], [0xe2, 0x80, 0xa9], [0xe2, 0x80, 0xaf], [0xe2, 0x81, 0x9f],
         [0xe3, 0x80, 0x80 :: nat]])"

text \<open>Dropping any of the non-empty words \<open>ws\<close> from the front, as often as one is there.\<close>

function strip_front :: "string list \<Rightarrow> string \<Rightarrow> string" where
  "strip_front ws s =
     (case List.find (\<lambda>w. w \<noteq> [] \<and> prefix w s) ws of
        None \<Rightarrow> s
      | Some w \<Rightarrow> strip_front ws (drop (length w) s))"
  by auto
termination
proof (relation "measure (\<lambda>(ws, s). length s)")
  fix ws s w
  assume "List.find (\<lambda>w. w \<noteq> [] \<and> prefix w s) ws = Some w"
  then have "w \<noteq> []" "prefix w s"
    by (auto simp: find_Some_iff)
  then show "((ws, drop (length w) s), (ws, s)) \<in> measure (\<lambda>(ws, s). length s)"
    by (cases w) (auto dest: prefix_length_le)
qed simp

declare strip_front.simps [simp del]

definition trim :: "string \<Rightarrow> string" where
  "trim s = rev (strip_front (map rev white_space) (rev (strip_front white_space s)))"

definition strip_cr :: "string \<Rightarrow> string" where
  "strip_cr l = (if l \<noteq> [] \<and> last l = char_of (13 :: nat) then butlast l else l)"

text \<open>A carriage return belongs to a line's end only in front of a line feed.\<close>

definition lines :: "string \<Rightarrow> string list" where
  "lines s =
     (let ps = split_all (char_of (10 :: nat)) s
      in map strip_cr (butlast ps) @ (if last ps = [] then [] else [last ps]))"

subsection \<open>UTF-8\<close>

text \<open>
  The second byte each first byte of a wider sequence allows, with the width of the sequence.
\<close>

definition utf8_second :: "nat \<Rightarrow> (nat \<times> nat \<times> nat) option" where
  "utf8_second b =
     (if 0xc2 \<le> b \<and> b \<le> 0xdf then Some (2, 0x80, 0xbf)
      else if b = 0xe0 then Some (3, 0xa0, 0xbf)
      else if (0xe1 \<le> b \<and> b \<le> 0xec) \<or> b = 0xee \<or> b = 0xef then Some (3, 0x80, 0xbf)
      else if b = 0xed then Some (3, 0x80, 0x9f)
      else if b = 0xf0 then Some (4, 0x90, 0xbf)
      else if 0xf1 \<le> b \<and> b \<le> 0xf3 then Some (4, 0x80, 0xbf)
      else if b = 0xf4 then Some (4, 0x80, 0x8f)
      else None)"

text \<open>
  How many bytes the next sequence takes and whether it is a character: a malformed one ends before
  the first byte that cannot continue it.
\<close>

definition utf8_step :: "nat list \<Rightarrow> nat \<times> bool" where
  "utf8_step bs =
     (let at = (\<lambda>i. if i < length bs then bs ! i else 0);
          cont = (\<lambda>x. 0x80 \<le> x \<and> x \<le> 0xbf)
      in if at 0 < 0x80 then (1, True)
         else case utf8_second (at 0) of
           None \<Rightarrow> (1, False)
         | Some (w, lo, hi) \<Rightarrow>
             if \<not> (lo \<le> at 1 \<and> at 1 \<le> hi) then (1, False)
             else if w = 2 then (2, True)
             else if \<not> cont (at 2) then (2, False)
             else if w = 3 then (3, True)
             else if \<not> cont (at 3) then (3, False)
             else (4, True))"

lemma utf8_step_pos: "0 < fst (utf8_step bs)"
  by (simp add: utf8_step_def Let_def split: option.split)

function lossy :: "nat list \<Rightarrow> nat list" where
  "lossy bs =
     (if bs = [] then []
      else let (n, good) = utf8_step bs
           in (if good then take n bs else [0xef, 0xbf, 0xbd]) @ lossy (drop n bs))"
  by auto
termination
proof (relation "measure length")
  fix bs x n good
  assume "bs \<noteq> []" "x = utf8_step bs" "(n, good) = x"
  then have "0 < n" using utf8_step_pos [of bs] by (metis fst_conv)
  with \<open>bs \<noteq> []\<close> show "(drop n bs, bs) \<in> measure length"
    by (cases bs) auto
qed simp

declare lossy.simps [simp del]

definition from_utf8_lossy :: "bytes \<Rightarrow> string" where
  "from_utf8_lossy b = map char_of (lossy (map unat b))"

section \<open>Bytes and characters\<close>

lemma from_as_bytes [simp]: "from_bytes (as_bytes s) = s"
  by (induction s) (auto simp: from_bytes_def as_bytes_def unat_of_nat)

lemma as_from_bytes [simp]: "as_bytes (from_bytes b) = b"
proof -
  have "of_nat (unat x mod 256) = x" for x :: u8
    using unat_u8_less [of x] by simp
  then show ?thesis
    by (induction b) (auto simp: from_bytes_def as_bytes_def)
qed

lemma as_bytes_inj [simp]: "as_bytes s = as_bytes t \<longleftrightarrow> s = t"
  by (metis from_as_bytes)

section \<open>Printing and parsing integers\<close>

lemma of_char_digit: "d < 36 \<Longrightarrow> (of_char (digit_char d) :: nat) = (if d < 10 then d + 48 else d + 87)"
  by (simp add: digit_char_def)

lemma to_digit_char [simp]: "d < r \<Longrightarrow> r \<le> 36 \<Longrightarrow> to_digit r (digit_char d) = Some d"
  by (auto simp: to_digit_def of_char_digit Let_def)

lemma digits_value_append:
  "digits_value r acc (xs @ ys) =
     (case digits_value r acc xs of None \<Rightarrow> None | Some v \<Rightarrow> digits_value r v ys)"
  by (induction xs arbitrary: acc) (auto split: option.split)

lemma digits_value_show:
  assumes "2 \<le> r" and "r \<le> 36"
  shows "digits_value r acc (show_radix r n) = Some (acc * r ^ length (show_radix r n) + n)"
proof (induction n arbitrary: acc rule: less_induct)
  case (less n)
  show ?case
  proof (cases "n < r")
    case True
    with assms show ?thesis by (simp add: show_radix.simps [of r n])
  next
    case False
    with assms have "n div r < n" by simp
    with False assms less [OF this] show ?thesis
      by (simp add: show_radix.simps [of r n] digits_value_append algebra_simps)
  qed
qed

lemma show_radix_digits:
  assumes "2 \<le> r" and "r \<le> 36"
  shows "\<forall>c \<in> set (show_radix r n). \<exists>d < r. c = digit_char d"
proof (induction n rule: less_induct)
  case (less n)
  show ?case
  proof (cases "n < r")
    case True
    with assms show ?thesis by (auto simp: show_radix.simps [of r n])
  next
    case False
    with assms have "n div r < n" and "n mod r < r" by simp_all
    with False assms less [OF this(1)] show ?thesis
      by (auto simp: show_radix.simps [of r n] intro!: exI [of _ "n mod r"])
  qed
qed

lemma show_radix_nonempty [simp]: "show_radix r n \<noteq> []"
  by (subst show_radix.simps) simp

lemma digit_char_range:
  "d < 16 \<Longrightarrow> digit_char d \<in> set ''0123456789abcdef''"
  "d < 10 \<Longrightarrow> digit_char d \<in> set ''0123456789''"
proof -
  let ?ds = "[0, 1, 2, 3, 4, 5, 6, 7, 8, 9 :: nat]"
  have hex: "map digit_char (?ds @ [10, 11, 12, 13, 14, 15]) = ''0123456789abcdef''"
    by (simp add: digit_char_def char_of_def bit_Suc_0_iff)
  assume "d < 16"
  then have "d \<in> set (?ds @ [10, 11, 12, 13, 14, 15])" by simp presburger
  then show "digit_char d \<in> set ''0123456789abcdef''" by (simp only: hex [symmetric] set_map imageI)
next
  let ?ds = "[0, 1, 2, 3, 4, 5, 6, 7, 8, 9 :: nat]"
  have dec: "map digit_char ?ds = ''0123456789''"
    by (simp add: digit_char_def char_of_def bit_Suc_0_iff)
  assume "d < 10"
  then have "d \<in> set ?ds" by simp presburger
  then show "digit_char d \<in> set ''0123456789''" by (simp only: dec [symmetric] set_map imageI)
qed

lemma show_hex_chars: "set (show_hex n) \<subseteq> set ''0123456789abcdef''"
  using show_radix_digits [of 16 n] digit_char_range(1) by fastforce

lemma show_dec_chars: "set (show_dec n) \<subseteq> set ''0123456789''"
  using show_radix_digits [of 10 n] digit_char_range(2) by fastforce

lemma parse_uint_digits:
  assumes "s \<noteq> []" and "CHR ''+'' \<notin> set s" and "digits_value r 0 s = Some v" and "v < n"
  shows "parse_uint r n s = Some v"
  using assms by (cases s) (auto simp: parse_uint_def)

lemma parse_show_dec: "v < n \<Longrightarrow> parse_uint 10 n (show_dec v) = Some v"
  using show_dec_chars [of v] by (intro parse_uint_digits) (auto simp: digits_value_show)

lemma digits_value_zeros [simp]:
  "2 \<le> r \<Longrightarrow> digits_value r 0 (replicate k CHR ''0'' @ s) = digits_value r 0 s"
  by (induction k) (auto simp: to_digit_def Let_def)

lemma pad_zero_chars: "set (pad_zero w s) \<subseteq> insert CHR ''0'' (set s)"
  by (auto simp: pad_zero_def)

lemma parse_pad_hex: "v < n \<Longrightarrow> parse_uint 16 n (pad_zero w (show_hex v)) = Some v"
  using show_hex_chars [of v] pad_zero_chars [of w "show_hex v"]
  by (intro parse_uint_digits) (auto simp: digits_value_show pad_zero_def)

lemma parse_pad_dec: "v < n \<Longrightarrow> parse_uint 10 n (pad_zero w (show_dec v)) = Some v"
  using show_dec_chars [of v] pad_zero_chars [of w "show_dec v"]
  by (intro parse_uint_digits) (auto simp: digits_value_show pad_zero_def)

lemma parse_u32_show [simp]: "parse_u32 (show_dec (unat x)) = Some x"
  by (simp add: parse_u32_def parse_show_dec bounds)

lemma parse_u32_hex8 [simp]: "parse_u32_hex (hex8 x) = Some x"
  by (simp add: parse_u32_hex_def hex8_def parse_pad_hex bounds)

lemma show_dec_u32_inj: "show_dec (unat (x :: u32)) = show_dec (unat y) \<longleftrightarrow> x = y"
  by (metis parse_u32_show option.inject)

lemma hex8_inj: "hex8 x = hex8 y \<longleftrightarrow> x = y"
  by (metis parse_u32_hex8 option.inject)

lemma hex8_chars: "set (hex8 x) \<subseteq> set ''0123456789abcdef''"
proof -
  have "CHR ''0'' \<in> set ''0123456789abcdef''" by simp
  then show ?thesis
    using show_hex_chars [of "unat x"] pad_zero_chars [of 8 "show_hex (unat x)"]
    unfolding hex8_def by blast
qed

section \<open>Splitting\<close>

lemma split_once_append:
  assumes "c \<notin> set a"
  shows "split_once c (a @ c # b) = Some (a, b)"
proof -
  have "dropWhile (\<lambda>x. x \<noteq> c) (a @ c # b) = dropWhile (\<lambda>x. x \<noteq> c) (c # b)"
    by (rule dropWhile_append2) (use assms in blast)
  moreover have "takeWhile (\<lambda>x. x \<noteq> c) (a @ c # b) = a @ takeWhile (\<lambda>x. x \<noteq> c) (c # b)"
    by (rule takeWhile_append2) (use assms in blast)
  ultimately show ?thesis
    unfolding split_once_def
    by (simp only: dropWhile.simps takeWhile.simps list.case append_Nil2 simp_thms if_False)
qed

lemma split_once_None:
  assumes "c \<notin> set s"
  shows "split_once c s = None"
proof -
  from assms have "dropWhile (\<lambda>x. x \<noteq> c) s = []"
    unfolding dropWhile_eq_Nil_conv by auto
  then show ?thesis unfolding split_once_def by (simp only: list.case)
qed

lemma split_once_Some:
  assumes "split_once c s = Some (a, b)"
  shows "s = a @ c # b \<and> c \<notin> set a"
proof -
  from assms obtain x where d: "dropWhile (\<lambda>x. x \<noteq> c) s = x # b" and a: "a = takeWhile (\<lambda>x. x \<noteq> c) s"
    by (auto simp: split_once_def split: list.splits)
  then have "x = c" using hd_dropWhile [of "\<lambda>x. x \<noteq> c" s] by auto
  with a d show ?thesis
    using takeWhile_dropWhile_id [of "\<lambda>x. x \<noteq> c" s] by (auto dest: set_takeWhileD)
qed

lemma splitn_fuel: "length s < n \<Longrightarrow> length s < m \<Longrightarrow> splitn n c s = splitn m c s"
proof (induction "length s" arbitrary: s n m rule: less_induct)
  case less
  obtain n' m' where nm: "n = Suc n'" "m = Suc m'" using less.prems by (cases n; cases m) auto
  show ?case
  proof (cases "split_once c s")
    case None
    then show ?thesis by (cases n'; cases m') (simp_all add: nm)
  next
    case (Some p)
    obtain a rest where p: "p = (a, rest)" by fastforce
    have len: "length rest < length s" using split_once_Some [of c s a rest] Some p by simp
    then obtain n'' m'' where "n' = Suc n''" "m' = Suc m''" using less.prems nm by (cases n'; cases m') auto
    with less.hyps [OF len, of "Suc n''" "Suc m''"] less.prems len Some p nm show ?thesis by simp
  qed
qed

lemma split_all_line:
  assumes "c \<notin> set l"
  shows "split_all c (l @ c # s) = l # split_all c s"
  using splitn_fuel [of s "Suc (length l + length s)" "Suc (length s)" c]
  by (simp add: split_all_def split_once_append [OF assms])

text \<open>A text of complete lines.\<close>

lemma split_all_text:
  assumes "\<forall>l \<in> set ls. c \<notin> set l"
  shows "split_all c (concat (map (\<lambda>l. l @ [c]) ls)) = ls @ [[]]"
  using assms by (induction ls) (simp_all add: split_all_line, simp add: split_all_def)

lemma lines_text:
  assumes "\<forall>l \<in> set ls. char_of (10 :: nat) \<notin> set l"
  shows "lines (concat (map (\<lambda>l. l @ [char_of (10 :: nat)]) ls)) = map strip_cr ls"
  using split_all_text [OF assms] by (simp add: lines_def Let_def butlast_append)

lemma split_all_single:
  assumes "c \<notin> set s"
  shows "split_all c s = [s]"
  using split_once_None [OF assms] by (cases s) (simp_all add: split_all_def)

lemma split_all_led:
  assumes "c \<notin> set n" and "\<forall>l \<in> set ls. c \<notin> set l"
  shows "split_all c (n @ concat (map (\<lambda>l. c # l) ls)) = n # ls"
  using assms
proof (induction ls arbitrary: n)
  case (Cons l ls)
  then show ?case using split_all_line [of c n "l @ concat (map (\<lambda>l. c # l) ls)"] by simp
qed (simp add: split_all_single)

lemma strip_suffix_append [simp]: "strip_suffix suf (s @ suf) = Some s"
  by (simp add: strip_suffix_def suffix_def)

lemma strip_suffix_Some: "strip_suffix suf s = Some t \<longleftrightarrow> s = t @ suf"
  by (auto simp: strip_suffix_def suffix_def)

section \<open>UTF-8\<close>

lemma lossy_ascii: "\<forall>b \<in> set bs. b < 0x80 \<Longrightarrow> lossy bs = bs"
proof (induction bs)
  case Nil
  then show ?case by (simp add: lossy.simps)
next
  case (Cons b bs)
  then show ?case by (subst lossy.simps) (auto simp: utf8_step_def Let_def)
qed

lemma from_utf8_lossy_ascii:
  assumes "\<forall>c \<in> set s. of_char c < (0x80 :: nat)"
  shows "from_utf8_lossy (as_bytes s) = s"
proof -
  have "map unat (as_bytes s) = map of_char s"
    using assms by (auto simp: as_bytes_def unat_of_nat)
  with assms show ?thesis
    by (simp add: from_utf8_lossy_def lossy_ascii comp_def)
qed

section \<open>Trimming\<close>

text \<open>The printing characters of ASCII, which no white space begins or ends with.\<close>

definition graphic :: "char \<Rightarrow> bool" where
  "graphic c \<longleftrightarrow> 33 \<le> (of_char c :: nat) \<and> of_char c < (127 :: nat)"

lemma white_space_ends:
  "w \<in> set white_space \<Longrightarrow> w \<noteq> [] \<and> \<not> graphic (hd w) \<and> \<not> graphic (last w)"
proof -
  have "list_all (\<lambda>w. w \<noteq> [] \<and> \<not> graphic (hd w) \<and> \<not> graphic (last w)) white_space"
    by (simp add: white_space_def graphic_def)
  then show "w \<in> set white_space \<Longrightarrow> w \<noteq> [] \<and> \<not> graphic (hd w) \<and> \<not> graphic (last w)"
    by (simp add: list_all_iff)
qed

lemma strip_front_id:
  assumes "\<And>w. w \<in> set ws \<Longrightarrow> w \<noteq> [] \<and> \<not> graphic (hd w)" and "s = [] \<or> graphic (hd s)"
  shows "strip_front ws s = s"
proof -
  have "\<not> (w \<noteq> [] \<and> prefix w s)" if "w \<in> set ws" for w
    using assms(1) [OF that] assms(2) by (auto simp: prefix_def)
  then have "List.find (\<lambda>w. w \<noteq> [] \<and> prefix w s) ws = None"
    unfolding find_None_iff by blast
  then show ?thesis by (subst strip_front.simps) simp
qed

lemma trim_id:
  assumes "s = [] \<or> graphic (hd s) \<and> graphic (last s)"
  shows "trim s = s"
proof -
  have "strip_front white_space s = s"
    using assms white_space_ends by (intro strip_front_id) auto
  moreover have "strip_front (map rev white_space) (rev s) = rev s"
    using assms white_space_ends by (intro strip_front_id) (auto simp: hd_rev)
  ultimately show ?thesis by (simp add: trim_def)
qed

lemma hex_graphic: "c \<in> set ''0123456789abcdef'' \<Longrightarrow> graphic c"
  by (auto simp: graphic_def)

lemma trim_graphic: "\<forall>c \<in> set s. graphic c \<Longrightarrow> trim s = s"
  by (rule trim_id) (cases "s = []"; simp)

end
