(* ===== verification/Key_Store.thy ===== *)
theory Key_Store
  imports Key_Table_1 Key_Table_2 Key_Table_3 Key_Table_4 Rust_Slice Rust_Text
begin

text \<open>
  The key store of \<open>src/keys/mod.rs\<close>: the built-in table, searched by depot, under the overrides a
  user gives per depot or per blob, and the parser of key specifications.  The \<open>hex\<close> crate is the
  parameter \<open>hexd\<close>; the order in which a hash map is iterated is a parameter too.
\<close>

section \<open>Definitions\<close>

definition TABLE :: "key_entry list" where
  "TABLE =
     TABLE_00 @ TABLE_01 @ TABLE_02 @ TABLE_03 @ TABLE_04 @ TABLE_05 @
     TABLE_06 @ TABLE_07 @ TABLE_08 @ TABLE_09 @ TABLE_10 @ TABLE_11 @
     TABLE_12 @ TABLE_13 @ TABLE_14 @ TABLE_15 @ TABLE_16 @ TABLE_17 @
     TABLE_18 @ TABLE_19 @ TABLE_20 @ TABLE_21 @ TABLE_22 @ TABLE_23 @
     TABLE_24 @ TABLE_25 @ TABLE_26 @ TABLE_27 @ TABLE_28 @ TABLE_29 @
     TABLE_30 @ TABLE_31"

record key_store =
  overrides :: "u32 \<rightharpoonup> key"
  blob_overrides :: "u32 \<times> u32 \<rightharpoonup> key"

definition key_store_new :: key_store where
  "key_store_new = \<lparr>overrides = Map.empty, blob_overrides = Map.empty\<rparr>"

definition key_insert :: "u32 \<Rightarrow> key \<Rightarrow> key_store \<Rightarrow> key_store" where
  "key_insert depot k ks = ks\<lparr>overrides := (overrides ks)(depot \<mapsto> k)\<rparr>"

definition insert_for_blob :: "u32 \<Rightarrow> u32 \<Rightarrow> key \<Rightarrow> key_store \<Rightarrow> key_store" where
  "insert_for_blob depot blob_crc k ks =
     ks\<lparr>blob_overrides := (blob_overrides ks)((depot, blob_crc) \<mapsto> k)\<rparr>"

datatype key_error =
    Not_a_spec string
  | Bad_hex string
  | Key_length nat
  | Bad_integer string
  | Unreadable_keys string

definition parse_hex :: "(string \<Rightarrow> bytes option) \<Rightarrow> string \<Rightarrow> key_error + key" where
  "parse_hex hexd hex =
     rbind (ok_or (Bad_hex hex) (hexd hex)) (\<lambda>b.
       if length b = 16 then Inr b else Inl (Key_length (length b)))"

definition insert_spec ::
  "(string \<Rightarrow> bytes option) \<Rightarrow> string \<Rightarrow> key_store \<Rightarrow> key_error + key_store" where
  "insert_spec hexd spec ks =
     rbind (ok_or (Not_a_spec spec) (split_once CHR ''='' spec)) (\<lambda>(target, hex).
     rbind (parse_hex hexd (trim hex)) (\<lambda>k.
       case split_once CHR ''@'' (trim target) of
         Some (depot, crc) \<Rightarrow>
           rbind (ok_or (Bad_integer depot) (parse_u32 depot)) (\<lambda>d.
           rbind (ok_or (Bad_integer crc) (parse_u32_hex crc)) (\<lambda>c.
             Inr (insert_for_blob d c k ks)))
       | None \<Rightarrow>
           rbind (ok_or (Bad_integer (trim target)) (parse_u32 (trim target))) (\<lambda>d.
             Inr (key_insert d k ks))))"

text \<open>
  The lines of a keys file, up to the first that is not a specification; the ones before it have
  been inserted.
\<close>

fun load_lines ::
  "(string \<Rightarrow> bytes option) \<Rightarrow> string list \<Rightarrow> key_store \<Rightarrow> key_error option \<times> key_store" where
  "load_lines hexd [] ks = (None, ks)"
| "load_lines hexd (l # ls) ks =
     (let line = trim l in
      if line = [] \<or> hd line = CHR ''#'' then load_lines hexd ls ks
      else case insert_spec hexd line ks of
        Inl e \<Rightarrow> (Some e, ks)
      | Inr ks' \<Rightarrow> load_lines hexd ls ks')"

definition load_file ::
  "(string \<Rightarrow> bytes option) \<Rightarrow> string + string \<Rightarrow> key_store \<Rightarrow> key_error option \<times> key_store" where
  "load_file hexd contents ks =
     (case contents of
        Inl e \<Rightarrow> (Some (Unreadable_keys e), ks)
      | Inr text \<Rightarrow> load_lines hexd (lines text) ks)"

definition key_get :: "key_store \<Rightarrow> u32 \<Rightarrow> key option" where
  "key_get ks depot =
     (case overrides ks depot of
        Some k \<Rightarrow> Some k
      | None \<Rightarrow>
          map_option (\<lambda>i. snd (TABLE ! i))
            (ok (binary_search_by (\<lambda>r. cmp (fst r) depot) TABLE)))"

definition get_for_blob :: "key_store \<Rightarrow> u32 \<Rightarrow> u32 \<Rightarrow> key option" where
  "get_for_blob ks depot blob_crc =
     (case blob_overrides ks (depot, blob_crc) of
        Some k \<Rightarrow> Some k
      | None \<Rightarrow> key_get ks depot)"

text \<open>
  The candidates of a key search; \<open>bs\<close> and \<open>os\<close> are the two hash maps as they are iterated.
\<close>

definition candidates ::
  "((u32 \<times> u32) \<times> key) list \<Rightarrow> (u32 \<times> key) list \<Rightarrow> (string \<times> key) list" where
  "candidates bs os =
     map (\<lambda>((d, c), k). (show_dec (unat d) @ CHR ''@'' # hex8 c, k)) bs @
     map (\<lambda>(d, k). (show_dec (unat d), k)) os @
     map (\<lambda>(d, k). (show_dec (unat d), k)) TABLE"

definition builtin_count :: nat where
  "builtin_count = length TABLE"

text \<open>An iteration of a hash map visits each entry once.\<close>

definition iterates :: "('k \<times> 'v) list \<Rightarrow> ('k \<rightharpoonup> 'v) \<Rightarrow> bool" where
  "iterates xs m \<longleftrightarrow> distinct (map fst xs) \<and> map_of xs = m"

lemma map_of_value: "map_of xs x = Some v \<Longrightarrow> v \<in> snd ` set xs"
  by (force dest: map_of_SomeD)

lemma iterates_value: "iterates xs m \<Longrightarrow> m x = Some v \<Longrightarrow> v \<in> snd ` set xs"
  by (auto simp: iterates_def dest: map_of_value)

section \<open>The built-in table\<close>

lemma TABLE_span: "span 0 TABLE 387001"
  unfolding TABLE_def
  by (rule span_append
    TABLE_00_span TABLE_01_span TABLE_02_span TABLE_03_span
    TABLE_04_span TABLE_05_span TABLE_06_span TABLE_07_span
    TABLE_08_span TABLE_09_span TABLE_10_span TABLE_11_span
    TABLE_12_span TABLE_13_span TABLE_14_span TABLE_15_span
    TABLE_16_span TABLE_17_span TABLE_18_span TABLE_19_span
    TABLE_20_span TABLE_21_span TABLE_22_span TABLE_23_span
    TABLE_24_span TABLE_25_span TABLE_26_span TABLE_27_span
    TABLE_28_span TABLE_29_span TABLE_30_span TABLE_31_span)+ simp_all

interpretation builtin: ascending_table TABLE
  by unfold_locales (rule span_sorted [OF TABLE_span])

lemma key_get_lookup:
  "key_get ks depot = (case overrides ks depot of Some k \<Rightarrow> Some k | None \<Rightarrow> map_of TABLE depot)"
  by (simp add: key_get_def builtin.search_is_lookup split: option.split)

section \<open>Key specifications\<close>

text \<open>What the \<open>hex\<close> crate documents: decoding lower-case pairs of hex digits gives the bytes.\<close>

definition hex_bytes :: "bytes \<Rightarrow> string" where
  "hex_bytes b = concat (map (\<lambda>x. pad_zero 2 (show_hex (unat x))) b)"

definition hex_decodes :: "(string \<Rightarrow> bytes option) \<Rightarrow> bool" where
  "hex_decodes hexd \<longleftrightarrow> (\<forall>b. hexd (hex_bytes b) = Some b)"

text \<open>The line a key search suggests for a keys file, and the one for a whole depot.\<close>

definition blob_spec :: "u32 \<Rightarrow> u32 \<Rightarrow> key \<Rightarrow> string" where
  "blob_spec depot crc k = show_dec (unat depot) @ CHR ''@'' # hex8 crc @ CHR ''='' # hex_bytes k"

definition depot_spec :: "u32 \<Rightarrow> key \<Rightarrow> string" where
  "depot_spec depot k = show_dec (unat depot) @ CHR ''='' # hex_bytes k"

lemma hex_bytes_chars: "set (hex_bytes b) \<subseteq> set ''0123456789abcdef''"
proof -
  have "CHR ''0'' \<in> set ''0123456789abcdef''" by simp
  then have "set (pad_zero 2 (show_hex n)) \<subseteq> set ''0123456789abcdef''" for n
    using pad_zero_chars [of 2 "show_hex n"] show_hex_chars [of n] by blast
  then show ?thesis unfolding hex_bytes_def by (simp only: set_concat set_map) blast
qed

lemma dec_in_hex: "set (show_dec n) \<subseteq> set ''0123456789abcdef''"
proof -
  have "set ''0123456789'' \<subseteq> set ''0123456789abcdef''" by simp
  then show ?thesis using show_dec_chars [of n] by (rule order_trans [rotated])
qed

lemma not_hex_digit: "CHR ''@'' \<notin> set ''0123456789abcdef''" "CHR ''='' \<notin> set ''0123456789abcdef''"
  by simp_all

lemma trim_hex: "set s \<subseteq> set ''0123456789abcdef'' \<Longrightarrow> trim s = s"
  by (rule trim_graphic) (use hex_graphic in blast)

lemma trim_target:
  assumes "set a \<subseteq> set ''0123456789abcdef''" and "set b \<subseteq> set ''0123456789abcdef''"
  shows "trim (a @ CHR ''@'' # b) = a @ CHR ''@'' # b"
proof -
  have "graphic CHR ''@''" by (simp add: graphic_def)
  with assms hex_graphic have "\<forall>c \<in> set (a @ CHR ''@'' # b). graphic c"
    by (simp only: set_append list.set ball_Un) blast
  then show ?thesis by (rule trim_graphic)
qed

lemma insert_spec_blob:
  assumes "hex_decodes hexd" and "length k = 16"
  shows "insert_spec hexd (blob_spec depot crc k) ks = Inr (insert_for_blob depot crc k ks)"
proof -
  let ?t = "show_dec (unat depot) @ CHR ''@'' # hex8 crc"
  have "CHR ''='' \<notin> set ?t"
    using dec_in_hex [of "unat depot"] hex8_chars [of crc] not_hex_digit(2) by auto
  from split_once_append [OF this, of "hex_bytes k"]
  have s: "split_once CHR ''='' (blob_spec depot crc k) = Some (?t, hex_bytes k)"
    by (simp add: blob_spec_def)
  have "CHR ''@'' \<notin> set (show_dec (unat depot))"
    using dec_in_hex [of "unat depot"] not_hex_digit(1) by auto
  from split_once_append [OF this, of "hex8 crc"] show ?thesis
    using assms trim_target [OF dec_in_hex hex8_chars] trim_hex [OF hex_bytes_chars]
    by (simp add: insert_spec_def s parse_hex_def hex_decodes_def)
qed

lemma insert_spec_depot:
  assumes "hex_decodes hexd" and "length k = 16"
  shows "insert_spec hexd (depot_spec depot k) ks = Inr (key_insert depot k ks)"
proof -
  let ?t = "show_dec (unat depot)"
  have "CHR ''='' \<notin> set ?t" and no: "CHR ''@'' \<notin> set ?t"
    using dec_in_hex [of "unat depot"] not_hex_digit by auto
  from split_once_append [OF this(1), of "hex_bytes k"]
  have s: "split_once CHR ''='' (depot_spec depot k) = Some (?t, hex_bytes k)"
    by (simp add: depot_spec_def)
  show ?thesis
    using assms trim_hex [OF dec_in_hex] trim_hex [OF hex_bytes_chars] split_once_None [OF no]
    by (simp add: insert_spec_def s parse_hex_def hex_decodes_def)
qed

section \<open>Properties\<close>

text \<open>
  C35: the key of a depot.  An override wins; without one, the binary search of the built-in table is
  the lookup in that table, for every depot: the table as shipped is strictly ascending.
\<close>

theorem key_get_correct:
  "key_get ks depot = (case overrides ks depot of Some k \<Rightarrow> Some k | None \<Rightarrow> map_of TABLE depot)
   \<and> sorted_wrt (<) (map fst TABLE)"
  by (simp only: key_get_lookup builtin.ascending)

text \<open>
  The line a key search suggests can be pasted into a keys file.  Given that the hex crate
  decodes hex, inserting \<open>DEPOT@CRC=HEX\<close> succeeds, from then on that blob gets that key, and no other
  blob's key and no depot's key changes.
\<close>

theorem insert_spec_roundtrip:
  assumes "hex_decodes hexd" and "length k = 16"
  shows "\<exists>ks'. insert_spec hexd (blob_spec depot crc k) ks = Inr ks' \<and>
    get_for_blob ks' depot crc = Some k \<and> key_get ks' = key_get ks \<and>
    (\<forall>d c. (d, c) \<noteq> (depot, crc) \<longrightarrow> get_for_blob ks' d c = get_for_blob ks d c)"
  using insert_spec_blob [OF assms]
  by (auto simp: insert_for_blob_def get_for_blob_def key_get_def fun_eq_iff split: option.split)

text \<open>A decoder of hex pairs, to show that the law can hold.\<close>

fun unhex :: "string \<Rightarrow> bytes option" where
  "unhex [] = Some []"
| "unhex [c] = None"
| "unhex (a # b # r) =
     (case (to_digit 16 a, to_digit 16 b, unhex r) of
        (Some x, Some y, Some bs) \<Rightarrow> Some (of_nat (x * 16 + y) # bs)
      | _ \<Rightarrow> None)"

lemma hex_pair: "n < 256 \<Longrightarrow> pad_zero 2 (show_hex n) = [digit_char (n div 16), digit_char (n mod 16)]"
proof -
  assume n: "n < 256"
  show ?thesis
  proof (cases "n < 16")
    case True
    then show ?thesis
      by (simp add: show_radix.simps pad_zero_def digit_char_def char_of_def bit_Suc_0_iff)
  next
    case False
    with n have "n div 16 < 16" by simp
    with False show ?thesis
      by (simp add: show_radix.simps [of 16 n] show_radix.simps [of 16 "n div 16"] pad_zero_def)
  qed
qed

lemma unhex_decodes: "hex_decodes unhex"
proof -
  have "unhex (pad_zero 2 (show_hex (unat x)) @ r) = map_option ((#) x) (unhex r)" for x :: u8 and r
  proof -
    have "unat x < 256" by (rule bounds)
    then have "unat x div 16 < 16" and "unat x mod 16 < 16" by simp_all
    moreover have "of_nat (unat x div 16 * 16 + unat x mod 16) = x"
      by (simp only: div_mult_mod_eq) simp
    ultimately show ?thesis
      using \<open>unat x < 256\<close> by (simp add: hex_pair split: option.split del: of_nat_add of_nat_mult)
  qed
  then have "unhex (hex_bytes b) = Some b" for b
    by (induction b) (auto simp: hex_bytes_def)
  then show ?thesis by (simp add: hex_decodes_def)
qed

theorem insert_spec_roundtrip_witness:
  "hex_decodes unhex \<and>
   (\<exists>ks'. insert_spec unhex (blob_spec 0 0xdeadbeef (replicate 16 0xff)) key_store_new = Inr ks' \<and>
      get_for_blob ks' 0 0xdeadbeef = Some (replicate 16 0xff))"
  using insert_spec_roundtrip [OF unhex_decodes, where k = "replicate 16 0xff" and depot = 0
      and crc = "0xdeadbeef" and ks = key_store_new]
    unhex_decodes by auto

text \<open>
  A key search tries every key there is.  However the two hash maps are iterated, the candidates
  hold every key that a lookup for any depot or blob can return, so a search over them cannot miss a
  configured or a built-in key.
\<close>

theorem candidates_complete:
  assumes "iterates bs (blob_overrides ks)" and "iterates os (overrides ks)"
    and "get_for_blob ks depot crc = Some k"
  shows "k \<in> snd ` set (candidates bs os)"
proof -
  have "k \<in> snd ` set bs \<or> k \<in> snd ` set os \<or> k \<in> snd ` set TABLE"
    using assms
    by (auto simp: get_for_blob_def key_get_lookup split: option.splits
        dest: iterates_value map_of_value)
  then show ?thesis
    by (auto simp: candidates_def image_Un image_image case_prod_unfold)
qed

theorem candidates_complete_witness:
  "iterates [((0, 1), [7])] (blob_overrides (insert_for_blob 0 1 [7] key_store_new)) \<and>
   [7] \<in> snd ` set (candidates [((0, 1), [7])] [])"
proof -
  let ?ks = "insert_for_blob 0 1 [7] key_store_new"
  have b: "iterates [((0, 1), [7])] (blob_overrides ?ks)" and o: "iterates [] (overrides ?ks)"
    by (simp_all add: iterates_def insert_for_blob_def key_store_new_def)
  have "get_for_blob ?ks 0 1 = Some [7]"
    by (simp add: get_for_blob_def insert_for_blob_def)
  from candidates_complete [OF b o this] b show ?thesis by simp
qed

end
