(* ===== verification/Byte_Lru.thy ===== *)
theory Byte_Lru
  imports Prelude
begin

text \<open>
  \<open>ByteLru\<close> of \<open>src/cache.rs\<close>: a cache of byte buffers bounded by their total length.  The recency
  list is the \<open>lru\<close> crate's, which is a parameter: a record of its operations over a cache seen as the
  list of its entries, most recently used first, with the crate's documentation as the predicate
  \<open>lru_documented\<close>.  What every cache of the program promises its clients is the locale
  \<open>value_cache\<close>.
\<close>

section \<open>The crate\<close>

record ('k, 'v) lru_cache =
  lru_cap :: "nat option"
  lru_list :: "('k \<times> 'v) list"

definition lru_unbounded :: "('k, 'v) lru_cache" where
  "lru_unbounded = \<lparr>lru_cap = None, lru_list = []\<rparr>"

definition lru_new :: "nat \<Rightarrow> ('k, 'v) lru_cache" where
  "lru_new n = \<lparr>lru_cap = Some n, lru_list = []\<rparr>"

record ('k, 'v) lru_ops =
  lru_get :: "'k \<Rightarrow> ('k, 'v) lru_cache \<Rightarrow> 'v option \<times> ('k, 'v) lru_cache"
  lru_put :: "'k \<Rightarrow> 'v \<Rightarrow> ('k, 'v) lru_cache \<Rightarrow> 'v option \<times> ('k, 'v) lru_cache"
  lru_push :: "'k \<Rightarrow> 'v \<Rightarrow> ('k, 'v) lru_cache \<Rightarrow> ('k \<times> 'v) option \<times> ('k, 'v) lru_cache"
  lru_pop_lru :: "('k, 'v) lru_cache \<Rightarrow> ('k \<times> 'v) option \<times> ('k, 'v) lru_cache"

definition without :: "'k \<Rightarrow> ('k \<times> 'v) list \<Rightarrow> ('k \<times> 'v) list" where
  "without k xs = filter (\<lambda>e. fst e \<noteq> k) xs"

definition full :: "('k, 'v) lru_cache \<Rightarrow> bool" where
  "full c \<longleftrightarrow> lru_cap c = Some (length (lru_list c))"

text \<open>
  The documentation: \<open>get\<close> returns the value and moves its key to the head; \<open>push\<close> puts the entry at
  the head and returns the entry it replaced, or, from a full cache, the one it evicted; \<open>put\<close> does
  the same and returns a replaced value only; \<open>pop_lru\<close> removes the last entry.
\<close>

definition lru_documented :: "('k, 'v) lru_ops \<Rightarrow> bool" where
  "lru_documented ops \<longleftrightarrow>
     (\<forall>k c. lru_get ops k c =
        (case map_of (lru_list c) k of
           None \<Rightarrow> (None, c)
         | Some v \<Rightarrow> (Some v, c\<lparr>lru_list := (k, v) # without k (lru_list c)\<rparr>))) \<and>
     (\<forall>k v c. lru_push ops k v c =
        (case map_of (lru_list c) k of
           Some old \<Rightarrow> (Some (k, old), c\<lparr>lru_list := (k, v) # without k (lru_list c)\<rparr>)
         | None \<Rightarrow>
             if full c \<and> lru_list c \<noteq> []
             then (Some (last (lru_list c)), c\<lparr>lru_list := (k, v) # butlast (lru_list c)\<rparr>)
             else (None, c\<lparr>lru_list := (k, v) # lru_list c\<rparr>))) \<and>
     (\<forall>k v c. lru_put ops k v c =
        (map_of (lru_list c) k, snd (lru_push ops k v c))) \<and>
     (\<forall>c. lru_pop_lru ops c =
        (if lru_list c = [] then (None, c)
         else (Some (last (lru_list c)), c\<lparr>lru_list := butlast (lru_list c)\<rparr>)))"

section \<open>Definitions\<close>

record 'k byte_lru =
  lru :: "('k, bytes) lru_cache"
  bytes_used :: u64
  capacity :: u64

definition byte_lru_new :: "u64 \<Rightarrow> 'k byte_lru" where
  "byte_lru_new cap = \<lparr>lru = lru_unbounded, bytes_used = 0, capacity = cap\<rparr>"

definition byte_lru_get ::
  "('k, bytes) lru_ops \<Rightarrow> 'k \<Rightarrow> 'k byte_lru \<Rightarrow> bytes option \<times> 'k byte_lru" where
  "byte_lru_get ops k g = (let (r, l) = lru_get ops k (lru g) in (r, g\<lparr>lru := l\<rparr>))"

text \<open>
  The eviction loop.  It pops one entry a turn, so one turn more than there are entries is enough;
  \<open>evict_enough\<close> below shows that the bound is never what ends it.
\<close>

fun evict :: "('k, bytes) lru_ops \<Rightarrow> nat \<Rightarrow> 'k byte_lru \<Rightarrow> 'k byte_lru" where
  "evict ops 0 g = g"
| "evict ops (Suc n) g =
     (if capacity g < bytes_used g then
        case lru_pop_lru ops (lru g) of
          (Some (_, v), l) \<Rightarrow> evict ops n (g\<lparr>lru := l, bytes_used := bytes_used g - of_nat (length v)\<rparr>)
        | (None, l) \<Rightarrow> g\<lparr>lru := l\<rparr>
      else g)"

definition byte_lru_insert ::
  "('k, bytes) lru_ops \<Rightarrow> 'k \<Rightarrow> bytes \<Rightarrow> 'k byte_lru \<Rightarrow> 'k byte_lru" where
  "byte_lru_insert ops k v g =
     (if unat (capacity g) < length v then g
      else
        let (old, l) = lru_push ops k v (lru g);
            used = (case old of
                Some (_, w) \<Rightarrow> bytes_used g - of_nat (length w)
              | None \<Rightarrow> bytes_used g);
            g' = g\<lparr>lru := l, bytes_used := used + of_nat (length v)\<rparr>
        in evict ops (Suc (length (lru_list l))) g')"

definition byte_lru_bytes :: "'k byte_lru \<Rightarrow> u64" where
  "byte_lru_bytes g = bytes_used g"

section \<open>What a cache promises\<close>

text \<open>
  A cache returns only entries it holds, a lookup changes none of them, and an insertion adds no other
  entry than its own.  Its client keeps a predicate on the entries: whatever is put in satisfies it,
  so whatever comes out does.
\<close>

locale value_cache =
  fixes get :: "'k \<Rightarrow> 'c \<Rightarrow> 'v option \<times> 'c"
    and put :: "'k \<Rightarrow> 'v \<Rightarrow> 'c \<Rightarrow> 'c"
    and entries :: "'c \<Rightarrow> ('k \<times> 'v) set"
    and inv :: "'c \<Rightarrow> bool"
  assumes get_hit: "inv c \<Longrightarrow> get k c = (Some v, c') \<Longrightarrow> (k, v) \<in> entries c"
    and get_keeps: "inv c \<Longrightarrow> get k c = (r, c') \<Longrightarrow> entries c' = entries c \<and> inv c'"
    and put_adds: "inv c \<Longrightarrow> entries (put k v c) \<subseteq> insert (k, v) (entries c)"
    and put_keeps: "inv c \<Longrightarrow> inv (put k v c)"
begin

lemma sound_get:
  assumes "inv c" and "\<forall>(k, v) \<in> entries c. P k v" and "get k c = (r, c')"
  shows "inv c' \<and> (\<forall>(k, v) \<in> entries c'. P k v) \<and> (\<forall>v. r = Some v \<longrightarrow> P k v)"
  using assms get_hit get_keeps by fastforce

lemma sound_put:
  assumes "inv c" and "\<forall>(k, v) \<in> entries c. P k v" and "P k v"
  shows "inv (put k v c) \<and> (\<forall>(k, v) \<in> entries (put k v c). P k v)"
  using assms put_adds [OF assms(1), of k v] put_keeps [OF assms(1)] by fastforce

end

section \<open>The crate is such a cache\<close>

definition lru_put_state :: "('k, 'v) lru_ops \<Rightarrow> 'k \<Rightarrow> 'v \<Rightarrow> ('k, 'v) lru_cache \<Rightarrow> ('k, 'v) lru_cache" where
  "lru_put_state ops k v c = snd (lru_put ops k v c)"

definition lru_inv :: "('k, 'v) lru_ops \<Rightarrow> ('k, 'v) lru_cache \<Rightarrow> bool" where
  "lru_inv ops c \<longleftrightarrow> lru_documented ops \<and> distinct (map fst (lru_list c))"

lemma set_without [simp]: "set (without k xs) = {e \<in> set xs. fst e \<noteq> k}"
  by (auto simp: without_def)

lemma distinct_without: "distinct (map fst xs) \<Longrightarrow> distinct (map fst (without k xs))"
  by (induction xs) (auto simp: without_def)

lemma distinct_butlast_keys: "distinct (map fst xs) \<Longrightarrow> distinct (map fst (butlast xs))"
  using distinct_butlast [of "map fst xs"] by (simp add: map_butlast)

lemma map_of_None_keys: "map_of xs k = None \<Longrightarrow> k \<notin> fst ` set xs"
  by (simp add: map_of_eq_None_iff)

lemma doc_get:
  "lru_documented ops \<Longrightarrow> lru_get ops k c =
     (case map_of (lru_list c) k of
        None \<Rightarrow> (None, c)
      | Some v \<Rightarrow> (Some v, c\<lparr>lru_list := (k, v) # without k (lru_list c)\<rparr>))"
  by (simp add: lru_documented_def)

lemma doc_push:
  "lru_documented ops \<Longrightarrow> lru_push ops k v c =
     (case map_of (lru_list c) k of
        Some old \<Rightarrow> (Some (k, old), c\<lparr>lru_list := (k, v) # without k (lru_list c)\<rparr>)
      | None \<Rightarrow>
          if full c \<and> lru_list c \<noteq> []
          then (Some (last (lru_list c)), c\<lparr>lru_list := (k, v) # butlast (lru_list c)\<rparr>)
          else (None, c\<lparr>lru_list := (k, v) # lru_list c\<rparr>))"
  by (simp add: lru_documented_def)

lemma doc_pop:
  "lru_documented ops \<Longrightarrow> lru_pop_lru ops c =
     (if lru_list c = [] then (None, c)
      else (Some (last (lru_list c)), c\<lparr>lru_list := butlast (lru_list c)\<rparr>))"
  by (simp add: lru_documented_def)

lemma doc_put: "lru_documented ops \<Longrightarrow> lru_put ops k v c = (map_of (lru_list c) k, snd (lru_push ops k v c))"
  by (simp add: lru_documented_def)

lemma move_to_front:
  assumes "distinct (map fst xs)" and "map_of xs k = Some v"
  shows "insert (k, v) (set (without k xs)) = set xs"
proof
  show "insert (k, v) (set (without k xs)) \<subseteq> set xs"
    using map_of_SomeD [OF assms(2)] by auto
  show "set xs \<subseteq> insert (k, v) (set (without k xs))"
  proof
    fix e
    assume e: "e \<in> set xs"
    show "e \<in> insert (k, v) (set (without k xs))"
    proof (cases "fst e = k")
      case True
      with e have "(k, snd e) \<in> set xs" by auto
      with assms have "snd e = v" by (simp add: map_of_is_SomeI)
      with True have "e = (k, v)" by (cases e) simp
      then show ?thesis by simp
    next
      case False
      with e show ?thesis by simp
    qed
  qed
qed

lemma get_facts:
  assumes "lru_inv ops c" and "lru_get ops k c = (r, c')"
  shows "r = map_of (lru_list c) k" and "set (lru_list c') = set (lru_list c)"
    and "lru_inv ops c'" and "lru_cap c' = lru_cap c"
proof -
  from assms have doc: "lru_documented ops" and d: "distinct (map fst (lru_list c))"
    by (simp_all add: lru_inv_def)
  have "r = map_of (lru_list c) k \<and> set (lru_list c') = set (lru_list c) \<and> lru_inv ops c'
    \<and> lru_cap c' = lru_cap c"
  proof (cases "map_of (lru_list c) k")
    case None
    with assms show ?thesis by (simp add: doc_get [OF doc])
  next
    case (Some v)
    then have c': "c' = c\<lparr>lru_list := (k, v) # without k (lru_list c)\<rparr>" "r = Some v"
      using assms(2) by (simp_all add: doc_get [OF doc])
    have "k \<notin> fst ` set (without k (lru_list c))" by auto
    then have "lru_inv ops c'"
      using doc distinct_without [OF d, of k] by (simp add: lru_inv_def c')
    moreover have "set (lru_list c') = set (lru_list c)"
      using move_to_front [OF d Some] unfolding c' by (simp del: set_without)
    ultimately show ?thesis using c' Some by simp
  qed
  then show "r = map_of (lru_list c) k" "set (lru_list c') = set (lru_list c)"
    "lru_inv ops c'" "lru_cap c' = lru_cap c" by blast+
qed

lemma push_facts:
  assumes "lru_inv ops c" and "lru_push ops k v c = (r, c')"
  shows "lru_inv ops c'" and "set (lru_list c') \<subseteq> insert (k, v) (set (lru_list c))"
    and "\<exists>xs. lru_list c' = (k, v) # xs" and "lru_cap c' = lru_cap c"
proof -
  from assms have doc: "lru_documented ops" and d: "distinct (map fst (lru_list c))"
    by (simp_all add: lru_inv_def)
  have b: "distinct (map fst (butlast (lru_list c)))" "fst ` set (butlast (lru_list c)) \<subseteq> fst ` set (lru_list c)"
    using distinct_butlast_keys [OF d] in_set_butlastD by fastforce+
  show "lru_inv ops c'" "set (lru_list c') \<subseteq> insert (k, v) (set (lru_list c))"
    "\<exists>xs. lru_list c' = (k, v) # xs" "lru_cap c' = lru_cap c"
    using assms(2) doc d distinct_without [OF d, of k] b map_of_None_keys [of "lru_list c" k]
    by (auto simp: doc_push [OF doc] lru_inv_def split: option.splits if_splits dest: in_set_butlastD)
qed

interpretation crate: value_cache "lru_get ops" "lru_put_state ops" "\<lambda>c. set (lru_list c)" "lru_inv ops"
  for ops
proof unfold_locales
  fix c :: "('a, 'b) lru_cache" and k v c' r
  assume inv: "lru_inv ops c"
  show "lru_get ops k c = (Some v, c') \<Longrightarrow> (k, v) \<in> set (lru_list c)"
    using get_facts(1) [OF inv] by (metis map_of_SomeD)
  show "lru_get ops k c = (r, c') \<Longrightarrow> set (lru_list c') = set (lru_list c) \<and> lru_inv ops c'"
    using get_facts [OF inv] by blast
  have put: "lru_put_state ops k v c = snd (lru_push ops k v c)"
    using inv by (simp add: lru_put_state_def lru_inv_def doc_put)
  obtain r' c'' where p: "lru_push ops k v c = (r', c'')" by (cases "lru_push ops k v c")
  show "set (lru_list (lru_put_state ops k v c)) \<subseteq> insert (k, v) (set (lru_list c))"
    and "lru_inv ops (lru_put_state ops k v c)"
    using push_facts [OF inv p] by (simp_all add: put p)
qed

section \<open>The byte count\<close>

definition held :: "('k \<times> bytes) list \<Rightarrow> nat" where
  "held xs = sum_list (map (\<lambda>e. length (snd e)) xs)"

lemma held_simps [simp]: "held [] = 0" "held (x # xs) = length (snd x) + held xs"
  "held (xs @ ys) = held xs + held ys"
  by (simp_all add: held_def)

lemma held_without:
  "distinct (map fst xs) \<Longrightarrow> map_of xs k = Some v \<Longrightarrow> held xs = length v + held (without k xs)"
proof (induction xs)
  case Nil
  then show ?case by simp
next
  case (Cons x xs)
  show ?case
  proof (cases "fst x = k")
    case True
    with Cons.prems have "\<forall>e \<in> set xs. fst e \<noteq> k" by (auto simp: image_iff)
    then have "without k xs = xs" unfolding without_def by (rule filter_True)
    with True Cons.prems show ?thesis by (simp add: without_def)
  next
    case False
    with Cons show ?thesis by (simp add: without_def)
  qed
qed

lemma held_butlast: "xs \<noteq> [] \<Longrightarrow> held xs = held (butlast xs) + length (snd (last xs))"
  using held_simps(3) [of "butlast xs" "[last xs]"] by simp

text \<open>
  The invariant of a byte cache: the count is the total length of what it holds, which is within the
  capacity, and the recency list is unbounded.
\<close>

definition counted :: "'k byte_lru \<Rightarrow> bool" where
  "counted g \<longleftrightarrow> unat (bytes_used g) = held (lru_list (lru g)) \<and> lru_cap (lru g) = None"

definition byte_lru_inv :: "('k, bytes) lru_ops \<Rightarrow> 'k byte_lru \<Rightarrow> bool" where
  "byte_lru_inv ops g \<longleftrightarrow>
     lru_inv ops (lru g) \<and> counted g \<and> bytes_used g \<le> capacity g \<and>
     unat (capacity g) < 9223372036854775808"

lemma evict_enough:
  assumes "lru_inv ops (lru g)" and "counted g" and "length (lru_list (lru g)) < n"
  shows "lru_inv ops (lru (evict ops n g)) \<and> counted (evict ops n g) \<and>
    bytes_used (evict ops n g) \<le> capacity g \<and> capacity (evict ops n g) = capacity g \<and>
    prefix (lru_list (lru (evict ops n g))) (lru_list (lru g)) \<and>
    (\<forall>k v xs. lru_list (lru g) = (k, v) # xs \<longrightarrow> length v \<le> unat (capacity g) \<longrightarrow>
       lru_list (lru (evict ops n g)) \<noteq> [])"
  using assms
proof (induction n arbitrary: g)
  case 0
  then show ?case by simp
next
  case (Suc n)
  let ?xs = "lru_list (lru g)"
  from Suc.prems have doc: "lru_documented ops" and d: "distinct (map fst ?xs)"
    and used: "unat (bytes_used g) = held ?xs" and cap: "lru_cap (lru g) = None"
    by (simp_all add: lru_inv_def counted_def)
  show ?case
  proof (cases "capacity g < bytes_used g")
    case False
    with Suc.prems show ?thesis by auto
  next
    case True
    then have over: "unat (capacity g) < held ?xs" by (simp add: word_less_nat_alt used)
    then have ne: "?xs \<noteq> []" by auto
    let ?g = "g\<lparr>lru := (lru g)\<lparr>lru_list := butlast ?xs\<rparr>,
      bytes_used := bytes_used g - of_nat (length (snd (last ?xs)))\<rparr>"
    have le: "length (snd (last ?xs)) \<le> unat (bytes_used g)"
      by (simp add: used held_butlast [OF ne])
    then have "unat (bytes_used g - of_nat (length (snd (last ?xs)))) = held (butlast ?xs)"
      using unat_u64_less [of "bytes_used g"]
      by (simp add: unat_sub word_le_nat_alt unat_of_nat used held_butlast [OF ne])
    then have "lru_inv ops (lru ?g)" and "counted ?g"
      using doc cap distinct_butlast_keys [OF d] by (simp_all add: lru_inv_def counted_def)
    moreover have "length (lru_list (lru ?g)) < n"
      using Suc.prems(3) ne by (cases ?xs) auto
    ultimately have IH: "lru_inv ops (lru (evict ops n ?g)) \<and> counted (evict ops n ?g) \<and>
      bytes_used (evict ops n ?g) \<le> capacity g \<and> capacity (evict ops n ?g) = capacity g \<and>
      prefix (lru_list (lru (evict ops n ?g))) (butlast ?xs) \<and>
      (\<forall>k v xs. butlast ?xs = (k, v) # xs \<longrightarrow> length v \<le> unat (capacity g) \<longrightarrow>
         lru_list (lru (evict ops n ?g)) \<noteq> [])"
      using Suc.IH [of ?g] by simp
    have step: "evict ops (Suc n) g = evict ops n ?g"
      using True ne by (simp add: doc_pop [OF doc] case_prod_unfold)
    have "prefix (butlast ?xs) ?xs" by (rule prefixeq_butlast)
    moreover have "\<exists>ys. butlast ?xs = (k, v) # ys"
      if "?xs = (k, v) # xs" "length v \<le> unat (capacity g)" for k v xs
      using that over by (cases xs) auto
    ultimately show ?thesis
      unfolding step using IH by (blast intro: prefix_order.trans)
  qed
qed

section \<open>The byte cache is such a cache\<close>

lemma push_held:
  assumes "lru_inv ops c" and "lru_cap c = None" and "lru_push ops k v c = (old, l)"
  shows "held (lru_list l) + (case old of Some (_, w) \<Rightarrow> length w | None \<Rightarrow> 0)
    = held (lru_list c) + length v"
proof -
  from assms have doc: "lru_documented ops" and d: "distinct (map fst (lru_list c))"
    by (simp_all add: lru_inv_def)
  show ?thesis
    using assms(2,3) held_without [OF d, of k]
    by (auto simp: doc_push [OF doc] full_def split: option.splits)
qed

lemma unat_sub_add:
  assumes "x \<le> unat (b :: u64)" and "unat b - x + y < 18446744073709551616"
  shows "unat (b - of_nat x + of_nat y) = unat b - x + y"
proof -
  have "x < 18446744073709551616" using assms(1) unat_u64_less [of b] by simp
  then have "unat (b - of_nat x) = unat b - x"
    using assms(1) by (simp add: unat_sub word_le_nat_alt unat_of_nat)
  moreover have "unat (of_nat y :: u64) = y"
    using assms(2) by (simp add: unat_of_nat)
  ultimately show ?thesis
    using assms(2) by (simp add: unat_word_ariths)
qed

lemma byte_lru_insert_facts:
  assumes "byte_lru_inv ops g"
  shows "byte_lru_inv ops (byte_lru_insert ops k v g)
    \<and> set (lru_list (lru (byte_lru_insert ops k v g))) \<subseteq> insert (k, v) (set (lru_list (lru g)))
    \<and> (length v \<le> unat (capacity g) \<longrightarrow>
         (\<exists>xs. lru_list (lru (byte_lru_insert ops k v g)) = (k, v) # xs))"
proof (cases "unat (capacity g) < length v")
  case True
  with assms show ?thesis by (auto simp: byte_lru_insert_def)
next
  case False
  let ?xs = "lru_list (lru g)"
  from assms have inv: "lru_inv ops (lru g)" and used: "unat (bytes_used g) = held ?xs"
    and cap: "lru_cap (lru g) = None" and le: "held ?xs \<le> unat (capacity g)"
    and small: "unat (capacity g) < 9223372036854775808"
    by (simp_all add: byte_lru_inv_def counted_def word_le_nat_alt)
  obtain old l where p: "lru_push ops k v (lru g) = (old, l)" by (cases "lru_push ops k v (lru g)")
  note pf = push_facts [OF inv p]
  obtain ys where ys: "lru_list l = (k, v) # ys" using pf(3) by blast
  let ?o = "case old of Some (_, w) \<Rightarrow> length w | None \<Rightarrow> 0"
  let ?g = "g\<lparr>lru := l, bytes_used := bytes_used g - of_nat ?o + of_nat (length v)\<rparr>"
  have sum: "held (lru_list l) + ?o = held ?xs + length v"
    using push_held [OF inv cap p] .
  then have "?o \<le> unat (bytes_used g)" using ys by (simp add: used)
  then have "unat (bytes_used g - of_nat ?o + of_nat (length v)) = unat (bytes_used g) - ?o + length v"
    using False le small by (intro unat_sub_add) (simp_all add: used)
  then have "counted ?g"
    using sum \<open>?o \<le> unat (bytes_used g)\<close> pf(4) cap by (simp add: counted_def used)
  have step: "byte_lru_insert ops k v g = evict ops (Suc (length (lru_list l))) ?g"
    using False p by (auto simp: byte_lru_insert_def Let_def simp del: evict.simps split: option.split)
  define e where "e = evict ops (Suc (length (lru_list l))) ?g"
  have e: "lru_inv ops (lru e)" "counted e" "bytes_used e \<le> capacity g" "capacity e = capacity g"
    "prefix (lru_list (lru e)) (lru_list l)"
    "length v \<le> unat (capacity g) \<Longrightarrow> lru_list (lru e) \<noteq> []"
    using evict_enough [of ops ?g "Suc (length (lru_list l))"] pf(1) ys \<open>counted ?g\<close>
    by (simp_all add: e_def del: evict.simps)
  then have "\<exists>xs. lru_list (lru e) = (k, v) # xs" if "length v \<le> unat (capacity g)"
    using that ys by (auto simp: prefix_Cons)
  moreover have "set (lru_list (lru e)) \<subseteq> insert (k, v) (set ?xs)"
    using set_mono_prefix [OF e(5)] pf(2) by blast
  moreover have "byte_lru_insert ops k v g = e"
    unfolding e_def using step .
  ultimately show ?thesis
    using e small by (simp add: byte_lru_inv_def)
qed

lemma byte_lru_get_facts:
  assumes "byte_lru_inv ops g" and "byte_lru_get ops k g = (r, g')"
  shows "byte_lru_inv ops g' \<and> set (lru_list (lru g')) = set (lru_list (lru g)) \<and>
    r = map_of (lru_list (lru g)) k"
proof -
  obtain l where l: "lru_get ops k (lru g) = (r, l)" and g': "g' = g\<lparr>lru := l\<rparr>"
    using assms(2) by (auto simp: byte_lru_get_def split: prod.splits)
  from assms have inv: "lru_inv ops (lru g)" by (simp add: byte_lru_inv_def)
  note gf = get_facts [OF inv l]
  have doc: "lru_documented ops" and d: "distinct (map fst (lru_list (lru g)))"
    using inv by (simp_all add: lru_inv_def)
  have "held (lru_list l) = held (lru_list (lru g))"
    using l held_without [OF d, of k] by (auto simp: doc_get [OF doc] split: option.splits)
  with gf assms(1) show ?thesis by (simp add: byte_lru_inv_def counted_def g')
qed

interpretation byte_cache: value_cache "byte_lru_get ops" "byte_lru_insert ops"
  "\<lambda>g. set (lru_list (lru g))" "byte_lru_inv ops" for ops
proof unfold_locales
  fix g :: "'a byte_lru" and k v g' r
  assume inv: "byte_lru_inv ops g"
  show "byte_lru_get ops k g = (Some v, g') \<Longrightarrow> (k, v) \<in> set (lru_list (lru g))"
    using byte_lru_get_facts [OF inv] by (metis map_of_SomeD)
  show "byte_lru_get ops k g = (r, g') \<Longrightarrow>
      set (lru_list (lru g')) = set (lru_list (lru g)) \<and> byte_lru_inv ops g'"
    using byte_lru_get_facts [OF inv] by blast
  show "set (lru_list (lru (byte_lru_insert ops k v g))) \<subseteq> insert (k, v) (set (lru_list (lru g)))"
    and "byte_lru_inv ops (byte_lru_insert ops k v g)"
    using byte_lru_insert_facts [OF inv] by blast+
qed

lemma byte_lru_new_inv:
  "lru_documented ops \<Longrightarrow> unat cap < 9223372036854775808 \<Longrightarrow> byte_lru_inv ops (byte_lru_new cap)"
  by (simp add: byte_lru_inv_def byte_lru_new_def lru_inv_def lru_unbounded_def counted_def)

section \<open>A recency list that behaves as documented\<close>

definition list_push :: "'k \<Rightarrow> 'v \<Rightarrow> ('k, 'v) lru_cache \<Rightarrow> ('k \<times> 'v) option \<times> ('k, 'v) lru_cache" where
  "list_push k v c =
     (case map_of (lru_list c) k of
        Some old \<Rightarrow> (Some (k, old), c\<lparr>lru_list := (k, v) # without k (lru_list c)\<rparr>)
      | None \<Rightarrow>
          if full c \<and> lru_list c \<noteq> []
          then (Some (last (lru_list c)), c\<lparr>lru_list := (k, v) # butlast (lru_list c)\<rparr>)
          else (None, c\<lparr>lru_list := (k, v) # lru_list c\<rparr>))"

definition list_lru :: "('k, 'v) lru_ops" where
  "list_lru =
     \<lparr>lru_get = (\<lambda>k c. case map_of (lru_list c) k of
          None \<Rightarrow> (None, c)
        | Some v \<Rightarrow> (Some v, c\<lparr>lru_list := (k, v) # without k (lru_list c)\<rparr>)),
      lru_put = (\<lambda>k v c. (map_of (lru_list c) k, snd (list_push k v c))),
      lru_push = list_push,
      lru_pop_lru = (\<lambda>c. if lru_list c = [] then (None, c)
        else (Some (last (lru_list c)), c\<lparr>lru_list := butlast (lru_list c)\<rparr>))\<rparr>"

lemma list_lru_documented: "lru_documented list_lru"
  by (simp add: lru_documented_def list_lru_def list_push_def)

section \<open>Properties\<close>

text \<open>
  C36: the byte cache keeps its budget.  With a recency list that does what the \<open>lru\<close> crate documents,
  an insertion keeps the invariant: the count is exactly the total length of the entries, never above
  the capacity, with one entry a key.  A buffer that fits is found again at once, one that does not
  changes nothing, and no other entry than the inserted one appears.
\<close>

theorem byte_lru_insert_correct:
  assumes "byte_lru_inv ops g"
  shows "byte_lru_inv ops (byte_lru_insert ops k v g) \<and>
    (if length v \<le> unat (capacity g)
     then fst (byte_lru_get ops k (byte_lru_insert ops k v g)) = Some v
     else byte_lru_insert ops k v g = g) \<and>
    (\<forall>k' v'. fst (byte_lru_get ops k' (byte_lru_insert ops k v g)) = Some v' \<longrightarrow>
       k' = k \<and> v' = v \<or> fst (byte_lru_get ops k' g) = Some v')"
proof -
  let ?g = "byte_lru_insert ops k v g"
  have look: "fst (byte_lru_get ops j h) = map_of (lru_list (lru h)) j" if "byte_lru_inv ops h" for j h
    using byte_lru_get_facts [OF that] by (metis prod.collapse)
  note ins = byte_lru_insert_facts [OF assms, of k v]
  have d: "distinct (map fst (lru_list (lru g)))"
    using assms by (simp add: byte_lru_inv_def lru_inv_def)
  have "map_of (lru_list (lru ?g)) j = Some w \<Longrightarrow> j = k \<and> w = v \<or> map_of (lru_list (lru g)) j = Some w"
    for j w
    using ins map_of_SomeD [of "lru_list (lru ?g)" j w] map_of_is_SomeI [OF d] by blast
  moreover have "map_of (lru_list (lru ?g)) k = Some v" if "length v \<le> unat (capacity g)"
    using ins that by auto
  moreover have "?g = g" if "\<not> length v \<le> unat (capacity g)"
    using that by (simp add: byte_lru_insert_def)
  ultimately show ?thesis
    using ins look [OF assms] look [of ?g] by auto
qed

text \<open>The run of the unit test: four bytes each under 1, 2 and, after 1 was used, 3, in ten.\<close>

definition sample_cache :: "nat byte_lru" where
  "sample_cache =
     snd (byte_lru_get list_lru 1
       (byte_lru_insert list_lru 2 [0, 0, 0, 0]
         (byte_lru_insert list_lru 1 [0, 0, 0, 0] (byte_lru_new 10))))"

theorem byte_lru_insert_correct_witness:
  "byte_lru_inv list_lru sample_cache \<and>
   byte_lru_inv list_lru (byte_lru_insert list_lru 3 [0, 0, 0, 0] sample_cache) \<and>
   fst (byte_lru_get list_lru 3 (byte_lru_insert list_lru 3 [0, 0, 0, 0] sample_cache)) = Some [0, 0, 0, 0] \<and>
   fst (byte_lru_get list_lru 2 (byte_lru_insert list_lru 3 [0, 0, 0, 0] sample_cache)) = None"
proof -
  have "byte_lru_inv list_lru (byte_lru_new 10)"
    by (rule byte_lru_new_inv) (simp_all add: list_lru_documented)
  then have inv: "byte_lru_inv list_lru sample_cache"
    unfolding sample_cache_def
    by (intro byte_lru_get_facts [OF _ surjective_pairing, THEN conjunct1]
        byte_lru_insert_facts [THEN conjunct1])
  have s: "sample_cache = \<lparr>lru = \<lparr>lru_cap = None, lru_list = [(1, [0, 0, 0, 0]), (2, [0, 0, 0, 0])]\<rparr>,
      bytes_used = 8, capacity = 10\<rparr>"
    by (simp add: sample_cache_def byte_lru_get_def byte_lru_insert_def byte_lru_new_def
        lru_unbounded_def list_lru_def list_push_def full_def without_def)
  have "fst (byte_lru_get list_lru 2 (byte_lru_insert list_lru 3 [0, 0, 0, 0] sample_cache)) = None"
    by (simp add: s byte_lru_get_def byte_lru_insert_def list_lru_def list_push_def full_def without_def)
  moreover have "capacity sample_cache = 10" by (simp add: s)
  ultimately show ?thesis
    using byte_lru_insert_correct [OF inv, of 3 "[0, 0, 0, 0]"] inv by simp
qed

end
