(* ===== verification/Single_Flight.thy ===== *)
theory Single_Flight
  imports Prelude
begin

text \<open>
  \<open>SingleFlight\<close> of \<open>src/cache.rs\<close> as a state machine.  A call of \<open>dedupe\<close> is cut where other threads
  can interleave: at the two critical sections of the map's lock, at taking and releasing the slot's
  lock, and at the end of the function, where the map's guard is released before the thread's own
  reference to the slot is dropped.  A slot is named by a number; its strong count is computed from
  who refers to it.
\<close>

section \<open>Definitions\<close>

type_synonym slot = nat

text \<open>Where a thread is in \<open>dedupe\<close>, with the key and the slot it has a reference to.\<close>

datatype 'k place =
    Outside
  | Waiting 'k slot
  | Running 'k slot
  | Finished 'k slot
  | Leaving slot

fun refers :: "slot \<Rightarrow> 'k place \<Rightarrow> bool" where
  "refers s Outside \<longleftrightarrow> False"
| "refers s (Waiting k r) \<longleftrightarrow> r = s"
| "refers s (Running k r) \<longleftrightarrow> r = s"
| "refers s (Finished k r) \<longleftrightarrow> r = s"
| "refers s (Leaving r) \<longleftrightarrow> r = s"

record 'k flight =
  inflight :: "('k \<times> slot) list"
  fresh :: slot
  locked :: "slot list"
  threads :: "'k place list"

definition flight_new :: "nat \<Rightarrow> 'k flight" where
  "flight_new n = \<lparr>inflight = [], fresh = 0, locked = [], threads = replicate n Outside\<rparr>"

text \<open>\<open>Arc::strong_count\<close>: the references of the map and of the threads.\<close>

definition strong_count :: "'k flight \<Rightarrow> slot \<Rightarrow> nat" where
  "strong_count st s =
     length (filter (\<lambda>e. snd e = s) (inflight st)) + length (filter (refers s) (threads st))"

definition tracked :: "'k flight \<Rightarrow> nat" where
  "tracked st = length (inflight st)"

text \<open>The first critical section: look the key up, or insert a new slot, and clone the reference.\<close>

definition enter :: "nat \<Rightarrow> 'k \<Rightarrow> 'k flight \<Rightarrow> 'k flight" where
  "enter t k st =
     (case map_of (inflight st) k of
        Some s \<Rightarrow> st\<lparr>threads := (threads st)[t := Waiting k s]\<rparr>
      | None \<Rightarrow>
          st\<lparr>inflight := (k, fresh st) # inflight st, fresh := Suc (fresh st),
             threads := (threads st)[t := Waiting k (fresh st)]\<rparr>)"

text \<open>The second one: remove the key when the map and this thread hold the only references.\<close>

definition sweep :: "nat \<Rightarrow> 'k \<Rightarrow> slot \<Rightarrow> 'k flight \<Rightarrow> 'k flight" where
  "sweep t k own st =
     (let st' = (case map_of (inflight st) k of
            Some s \<Rightarrow>
              if strong_count st s = 2
              then st\<lparr>inflight := filter (\<lambda>e. fst e \<noteq> k) (inflight st)\<rparr> else st
          | None \<Rightarrow> st)
      in st'\<lparr>threads := (threads st')[t := Leaving own]\<rparr>)"

inductive step :: "'k flight \<Rightarrow> 'k flight \<Rightarrow> bool" where
  step_enter: "t < length (threads st) \<Longrightarrow> threads st ! t = Outside \<Longrightarrow> step st (enter t k st)"
| step_lock: "t < length (threads st) \<Longrightarrow> threads st ! t = Waiting k s \<Longrightarrow> s \<notin> set (locked st) \<Longrightarrow>
    step st (st\<lparr>locked := s # locked st, threads := (threads st)[t := Running k s]\<rparr>)"
| step_unlock: "t < length (threads st) \<Longrightarrow> threads st ! t = Running k s \<Longrightarrow>
    step st (st\<lparr>locked := remove1 s (locked st), threads := (threads st)[t := Finished k s]\<rparr>)"
| step_sweep: "t < length (threads st) \<Longrightarrow> threads st ! t = Finished k s \<Longrightarrow>
    step st (sweep t k s st)"
| step_drop: "t < length (threads st) \<Longrightarrow> threads st ! t = Leaving s \<Longrightarrow>
    step st (st\<lparr>threads := (threads st)[t := Outside]\<rparr>)"

inductive reachable :: "nat \<Rightarrow> 'k flight \<Rightarrow> bool" for n where
  start: "reachable n (flight_new n)"
| more: "reachable n st \<Longrightarrow> step st st' \<Longrightarrow> reachable n st'"

inductive_cases stepE: "step st st'"

section \<open>The invariant\<close>

text \<open>The key a thread is inside \<open>dedupe\<close> with, before its sweep, and its slot.\<close>

fun inside :: "'k place \<Rightarrow> ('k \<times> slot) option" where
  "inside (Waiting k s) = Some (k, s)"
| "inside (Running k s) = Some (k, s)"
| "inside (Finished k s) = Some (k, s)"
| "inside _ = None"

fun running :: "'k place \<Rightarrow> slot option" where
  "running (Running k s) = Some s"
| "running _ = None"

text \<open>
  Every thread that has not swept yet holds the slot the map has for its key; keys and slots of the
  map are each used once; slots are older than the next one; and the locked slots are those of the
  running threads, each once.
\<close>

definition map_inv :: "'k flight \<Rightarrow> bool" where
  "map_inv st \<longleftrightarrow>
     distinct (map fst (inflight st)) \<and> distinct (map snd (inflight st)) \<and>
     (\<forall>e \<in> set (inflight st). snd e < fresh st) \<and>
     (\<forall>i < length (threads st). \<forall>k s. inside (threads st ! i) = Some (k, s) \<longrightarrow>
        (k, s) \<in> set (inflight st))"

definition lock_inv :: "slot list \<Rightarrow> 'k place list \<Rightarrow> bool" where
  "lock_inv ls ts \<longleftrightarrow>
     distinct ls \<and>
     (\<forall>i < length ts. \<forall>s. running (ts ! i) = Some s \<longrightarrow> s \<in> set ls) \<and>
     (\<forall>s \<in> set ls. \<exists>i < length ts. running (ts ! i) = Some s) \<and>
     (\<forall>i < length ts. \<forall>j < length ts. \<forall>s.
        running (ts ! i) = Some s \<longrightarrow> running (ts ! j) = Some s \<longrightarrow> i = j)"

definition flight_inv :: "'k flight \<Rightarrow> bool" where
  "flight_inv st \<longleftrightarrow> map_inv st \<and> lock_inv (locked st) (threads st)"

lemma flight_inv_new: "flight_inv (flight_new n)"
  by (auto simp: flight_inv_def map_inv_def lock_inv_def flight_new_def)

text \<open>A thread that is not running and does not start to leaves the locks as they are.\<close>

lemma lock_inv_update:
  assumes "lock_inv ls ts" and "running (ts ! t) = running p"
  shows "lock_inv ls (ts[t := p])"
proof -
  have "running (ts[t := p] ! i) = running (ts ! i)" if "i < length ts" for i
    using assms(2) that by (cases "i = t") auto
  with assms(1) show ?thesis unfolding lock_inv_def by (simp cong: conj_cong)
qed

lemma lock_inv_lock:
  assumes "lock_inv ls ts" and "t < length ts" and "running (ts ! t) = None" and "s \<notin> set ls"
  shows "lock_inv (s # ls) (ts[t := Running k s])"
  unfolding lock_inv_def
proof (intro conjI)
  show "distinct (s # ls)" using assms by (simp add: lock_inv_def)
  show "\<forall>i<length (ts[t := Running k s]). \<forall>r. running (ts[t := Running k s] ! i) = Some r \<longrightarrow>
      r \<in> set (s # ls)"
    using assms(1) by (auto simp: lock_inv_def update_nth)
  show "\<forall>r\<in>set (s # ls). \<exists>i<length (ts[t := Running k s]). running (ts[t := Running k s] ! i) = Some r"
  proof
    fix r
    assume r: "r \<in> set (s # ls)"
    show "\<exists>i<length (ts[t := Running k s]). running (ts[t := Running k s] ! i) = Some r"
    proof (cases "r = s")
      case True
      with assms(2) show ?thesis by (intro exI [of _ t]) simp
    next
      case False
      with r assms(1) obtain i where i: "i < length ts" "running (ts ! i) = Some r"
        by (auto simp: lock_inv_def)
      with assms(3) show ?thesis by (intro exI [of _ i]) (auto simp: update_nth)
    qed
  qed
  show "\<forall>i<length (ts[t := Running k s]). \<forall>j<length (ts[t := Running k s]). \<forall>r.
      running (ts[t := Running k s] ! i) = Some r \<longrightarrow> running (ts[t := Running k s] ! j) = Some r \<longrightarrow> i = j"
    using assms by (auto simp: lock_inv_def update_nth)
qed

lemma lock_inv_unlock:
  assumes "lock_inv ls ts" and "t < length ts" and "ts ! t = Running k s"
  shows "lock_inv (remove1 s ls) (ts[t := Finished k s])"
proof -
  let ?ts = "ts[t := Finished k s]"
  have other: "running (?ts ! i) = Some r \<longleftrightarrow> i \<noteq> t \<and> running (ts ! i) = Some r"
    if "i < length ts" for i r
    using that by (cases "i = t") auto
  have uniq: "r \<noteq> s" if "i < length ts" "i \<noteq> t" "running (ts ! i) = Some r" for i r
    using assms that unfolding lock_inv_def by fastforce
  have "distinct ls" using assms(1) by (simp add: lock_inv_def)
  then show ?thesis
    using assms(1) uniq unfolding lock_inv_def
    by (auto simp: other set_remove1_eq) (metis assms(3) option.inject running.simps(1))
qed

lemma inside_refers: "inside p = Some (k, s) \<Longrightarrow> refers s p"
  by (cases p) auto

lemma count_two:
  assumes "(k, s) \<in> set (inflight st)" and "t < length (threads st)"
    and "refers s (threads st ! t)" and "strong_count st s = 2"
    and "i < length (threads st)" and "refers s (threads st ! i)"
  shows "i = t"
proof (rule ccontr)
  assume ne: "i \<noteq> t"
  let ?xs = "filter (\<lambda>e. snd e = s) (inflight st)" and ?ts = "threads st"
  have "length ?xs \<noteq> 0" using assms(1) by (force simp: filter_empty_conv)
  moreover have "{i, t} \<subseteq> {j. j < length ?ts \<and> refers s (?ts ! j)}"
    using assms by auto
  then have "card {i, t} \<le> card {j. j < length ?ts \<and> refers s (?ts ! j)}"
    by (rule card_mono [rotated]) simp
  then have "2 \<le> length (filter (refers s) ?ts)"
    using ne by (simp add: length_filter_conv_card)
  ultimately show False using assms(4) unfolding strong_count_def by linarith
qed

lemma map_inv_keep:
  assumes "map_inv st" and "\<And>k s. inside p = Some (k, s) \<Longrightarrow> (k, s) \<in> set (inflight st)"
  shows "map_inv (st\<lparr>threads := (threads st)[t := p]\<rparr>)"
  using assms by (auto simp: map_inv_def update_nth)

lemma map_inv_enter:
  assumes "map_inv st"
  shows "map_inv (enter t k st)"
proof (cases "map_of (inflight st) k")
  case (Some s)
  with assms show ?thesis
    by (auto simp: enter_def intro!: map_inv_keep dest: map_of_SomeD)
next
  case None
  then have "k \<notin> fst ` set (inflight st)" by (simp add: map_of_eq_None_iff)
  moreover have "fresh st \<notin> snd ` set (inflight st)"
    using assms by (auto simp: map_inv_def)
  ultimately show ?thesis
    using assms None by (auto simp: enter_def map_inv_def update_nth less_Suc_eq)
qed

text \<open>The sweep removes a key only when no other thread holds its slot, so nobody is left behind.\<close>

lemma map_inv_sweep:
  assumes "map_inv st" and "t < length (threads st)" and "threads st ! t = Finished k s"
  shows "map_inv (sweep t k s st)"
proof -
  have ks: "(k, s) \<in> set (inflight st)"
    using assms by (auto simp: map_inv_def)
  with assms(1) have m: "map_of (inflight st) k = Some s"
    by (simp add: map_inv_def)
  show ?thesis
  proof (cases "strong_count st s = 2")
    case False
    with m assms(1) show ?thesis
      by (auto simp: sweep_def intro!: map_inv_keep)
  next
    case True
    have "k' \<noteq> k" if "i < length (threads st)" "i \<noteq> t" "inside (threads st ! i) = Some (k', s')"
      for i k' s'
    proof
      assume "k' = k"
      with that(1,3) assms(1) have "(k, s') \<in> set (inflight st)" by (simp add: map_inv_def)
      with assms(1) m have "s' = s" by (simp add: map_inv_def)
      with that count_two [OF ks assms(2) _ True that(1)] assms(3) inside_refers show False by fastforce
    qed
    then have "(k', s') \<in> set (filter (\<lambda>e. fst e \<noteq> k) (inflight st))"
      if "i < length (threads st)" "inside ((threads st)[t := Leaving s] ! i) = Some (k', s')" for i k' s'
      using that assms(1) by (cases "i = t") (auto simp: map_inv_def)
    with m True assms(1) show ?thesis
      by (auto simp: sweep_def map_inv_def distinct_map_filter)
  qed
qed

lemma threads_sweep: "threads (sweep t k s st) = (threads st)[t := Leaving s]"
  "locked (sweep t k s st) = locked st"
  by (auto simp: sweep_def Let_def split: option.split)

lemma threads_enter: "\<exists>s. threads (enter t k st) = (threads st)[t := Waiting k s]"
  "locked (enter t k st) = locked st"
  by (auto simp: enter_def split: option.split)

lemma flight_inv_step:
  assumes "step st st'" and "flight_inv st"
  shows "flight_inv st'"
  using assms
proof (cases rule: step.cases)
  case (step_enter t k)
  then show ?thesis
    using assms(2) threads_enter [of t k st] map_inv_enter
    by (auto simp: flight_inv_def intro!: lock_inv_update)
next
  case (step_lock t k s)
  then have "(k, s) \<in> set (inflight st)"
    using assms(2) by (auto simp: flight_inv_def map_inv_def)
  with step_lock assms(2) show ?thesis
    using map_inv_keep [of st "Running k s" t]
    by (auto simp: flight_inv_def map_inv_def intro!: lock_inv_lock)
next
  case (step_unlock t k s)
  then have "(k, s) \<in> set (inflight st)"
    using assms(2) by (auto simp: flight_inv_def map_inv_def)
  with step_unlock assms(2) show ?thesis
    using map_inv_keep [of st "Finished k s" t]
    by (auto simp: flight_inv_def map_inv_def intro!: lock_inv_unlock)
next
  case (step_sweep t k s)
  then show ?thesis
    using assms(2) map_inv_sweep
    by (auto simp: flight_inv_def threads_sweep intro!: lock_inv_update)
next
  case (step_drop t s)
  then show ?thesis
    using assms(2) map_inv_keep [of st Outside t]
    by (auto simp: flight_inv_def intro!: lock_inv_update)
qed

lemma reachable_inv: "reachable n st \<Longrightarrow> flight_inv st"
  by (induction rule: reachable.induct) (auto intro: flight_inv_new flight_inv_step)

lemma length_step: "step st st' \<Longrightarrow> length (threads st') = length (threads st)"
  by (induction rule: step.induct) (auto simp: threads_sweep enter_def split: option.split)

lemma length_reachable: "reachable n st \<Longrightarrow> length (threads st) = n"
  by (induction rule: reachable.induct) (simp_all add: flight_new_def length_step)

section \<open>One thread\<close>

text \<open>With one thread the map holds the key it is inside with, and nothing else.\<close>

definition alone :: "'k flight \<Rightarrow> bool" where
  "alone st \<longleftrightarrow> length (threads st) = 1 \<and>
     inflight st = (case inside (threads st ! 0) of Some e \<Rightarrow> [e] | None \<Rightarrow> [])"

lemma alone_step:
  assumes "step st st'" and "alone st"
  shows "alone st'"
proof -
  from assms(2) obtain p where p: "threads st = [p]"
    by (auto simp: alone_def length_Suc_conv)
  show ?thesis
    using assms(1)
  proof (cases rule: step.cases)
    case (step_enter t k)
    with assms(2) p show ?thesis by (auto simp: alone_def enter_def)
  next
    case (step_sweep t k s)
    with assms(2) p have "inflight st = [(k, s)]" "t = 0" "p = Finished k s"
      by (auto simp: alone_def)
    with p step_sweep show ?thesis by (simp add: alone_def sweep_def strong_count_def)
  qed (use assms(2) p in \<open>auto simp: alone_def\<close>)
qed

lemma alone_reachable: "reachable 1 st \<Longrightarrow> alone st"
proof (induction rule: reachable.induct)
  case start
  show ?case by (simp add: alone_def flight_new_def)
next
  case (more st st')
  then show ?case by (blast intro: alone_step)
qed

section \<open>Properties\<close>

text \<open>
  C37: the work of one key is serialised.  In every interleaving of any number of threads, at most one
  runs the closure for a key at a time, and every thread that waits, runs or has finished with a key
  holds the slot the map has for it: a slot is never dropped from the map under a waiter.
\<close>

theorem flight_mutual_exclusion:
  assumes "reachable n st" and "i < n" and "threads st ! i = Running k s"
    and "j < n" and "threads st ! j = Running k r"
  shows "i = j \<and> map_of (inflight st) k = Some s"
proof -
  have inv: "map_inv st" "lock_inv (locked st) (threads st)" and len: "length (threads st) = n"
    using reachable_inv [OF assms(1)] length_reachable [OF assms(1)] by (simp_all add: flight_inv_def)
  have "(k, s) \<in> set (inflight st)" "(k, r) \<in> set (inflight st)"
    using inv(1) assms len by (auto simp: map_inv_def)
  then have "map_of (inflight st) k = Some s" "s = r"
    using inv(1) by (auto simp: map_inv_def dest: eq_key_imp_eq_value)
  then show ?thesis
    using inv(2) assms len by (auto simp: lock_inv_def)
qed

lemma reach: "reachable n st \<Longrightarrow> step st st' \<Longrightarrow> st' = st'' \<Longrightarrow> reachable n st''"
  using reachable.more by metis

definition one_running :: "nat flight" where
  "one_running = \<lparr>inflight = [(7, 0)], fresh = 1, locked = [0], threads = [Running 7 0, Waiting 7 0]\<rparr>"

lemma one_running_reachable: "reachable 2 one_running"
proof -
  have "reachable 2 (enter 0 7 (flight_new 2 :: nat flight))"
    by (rule reachable.more [OF reachable.start], rule step.step_enter)
      (simp_all add: flight_new_def)
  then have "reachable 2 \<lparr>inflight = [(7, 0)], fresh = 1, locked = [], threads = [Waiting (7 :: nat) 0, Outside]\<rparr>"
    by (simp add: enter_def flight_new_def numeral_2_eq_2)
  from reach [OF this step.step_enter [of 1 _ 7]]
  have "reachable 2 \<lparr>inflight = [(7, 0)], fresh = 1, locked = [],
      threads = [Waiting (7 :: nat) 0, Waiting 7 0]\<rparr>"
    by (simp add: enter_def)
  from reach [OF this step.step_lock [of 0 _ 7 0]] show ?thesis
    by (simp add: one_running_def)
qed

theorem flight_mutual_exclusion_witness:
  "reachable 2 one_running \<and> threads one_running ! 0 = Running 7 0 \<and>
   map_of (inflight one_running) 7 = Some 0"
  using flight_mutual_exclusion [OF one_running_reachable, of 0 7 0 0 0] one_running_reachable
  by (simp add: one_running_def)

text \<open>
  Waiters are never stuck.  In every reachable state in which some thread is inside \<open>dedupe\<close>, some
  such thread can take its next step.
\<close>

theorem flight_progress:
  assumes "reachable n st" and "p \<in> set (threads st)" and "p \<noteq> Outside"
  shows "\<exists>i < n. threads st ! i \<noteq> Outside \<and> (\<exists>st'. step st st' \<and> threads st' ! i \<noteq> threads st ! i)"
proof -
  have inv: "lock_inv (locked st) (threads st)" and len: "length (threads st) = n"
    using reachable_inv [OF assms(1)] length_reachable [OF assms(1)] by (simp_all add: flight_inv_def)
  have run: ?thesis if "i < n" "threads st ! i = Running k s" for i k s
    using that len step.step_unlock [of i st k s] by force
  obtain i where i: "i < n" "threads st ! i = p"
    using assms(2) len by (auto simp: in_set_conv_nth)
  show ?thesis
  proof (cases p)
    case (Waiting k s)
    show ?thesis
    proof (cases "s \<in> set (locked st)")
      case True
      with inv obtain j where "j < n" "running (threads st ! j) = Some s"
        by (auto simp: lock_inv_def len)
      then show ?thesis by (cases "threads st ! j") (auto intro: run)
    next
      case False
      with i Waiting len step.step_lock [of i st k s] show ?thesis by force
    qed
  next
    case (Finished k s)
    with i len step.step_sweep [of i st k s] show ?thesis
      by (intro exI [of _ i]) (auto simp: threads_sweep intro!: exI [of _ "sweep i k s st"])
  next
    case (Leaving s)
    with i len step.step_drop [of i st s] show ?thesis by force
  qed (use assms(3) i run in auto)
qed

theorem flight_progress_witness:
  "reachable 2 one_running \<and> Waiting 7 0 \<in> set (threads one_running) \<and>
   (\<exists>i < 2. threads one_running ! i \<noteq> Outside \<and>
      (\<exists>st'. step one_running st' \<and> threads st' ! i \<noteq> threads one_running ! i))"
proof -
  have "Waiting 7 0 \<in> set (threads one_running)" by (simp add: one_running_def)
  with flight_progress [OF one_running_reachable this] one_running_reachable show ?thesis by simp
qed

text \<open>
  Without concurrency the map empties.  When one thread only ever calls \<open>dedupe\<close>, nothing is
  tracked whenever it is outside.
\<close>

theorem flight_alone_empties:
  assumes "reachable 1 st" and "threads st ! 0 = Outside"
  shows "tracked st = 0"
  using alone_reachable [OF assms(1)] assms(2) by (simp add: alone_def tracked_def)

theorem flight_alone_empties_witness:
  "reachable 1 (flight_new 1 :: nat flight) \<and> tracked (flight_new 1 :: nat flight) = 0"
proof -
  have "threads (flight_new 1 :: nat flight) ! 0 = Outside" by (simp add: flight_new_def)
  from flight_alone_empties [OF reachable.start this] show ?thesis by (simp add: reachable.start)
qed

text \<open>
  C38: two threads can leave an entry behind.  Each one drops its own reference to the slot only after
  it has released the map, so when both have finished and sweep one after the other, each still
  counts the other's reference: neither removes the key, and the map keeps it with nobody inside.
\<close>

theorem flight_leaks_entry:
  "\<exists>st :: nat flight. reachable 2 st \<and> threads st = [Outside, Outside] \<and> tracked st = 1"
proof -
  let ?st = "\<lambda>ls ts. \<lparr>inflight = [(7, 0)], fresh = 1, locked = ls, threads = ts\<rparr> :: nat flight"
  have "reachable 2 (?st [0] [Running 7 0, Waiting 7 0])"
    using one_running_reachable by (simp add: one_running_def)
  from reach [OF this step.step_unlock [of 0 _ 7 0]]
  have "reachable 2 (?st [] [Finished 7 0, Waiting 7 0])" by simp
  from reach [OF this step.step_lock [of 1 _ 7 0]]
  have "reachable 2 (?st [0] [Finished 7 0, Running 7 0])" by simp
  from reach [OF this step.step_unlock [of 1 _ 7 0]]
  have "reachable 2 (?st [] [Finished 7 0, Finished 7 0])" by simp
  from reach [OF this step.step_sweep [of 0 _ 7 0]]
  have "reachable 2 (?st [] [Leaving 0, Finished 7 0])" by (simp add: sweep_def strong_count_def)
  from reach [OF this step.step_sweep [of 1 _ 7 0]]
  have "reachable 2 (?st [] [Leaving 0, Leaving 0])" by (simp add: sweep_def strong_count_def)
  from reach [OF this step.step_drop [of 0 _ 0]]
  have "reachable 2 (?st [] [Outside, Leaving 0])" by simp
  from reach [OF this step.step_drop [of 1 _ 0]]
  have "reachable 2 (?st [] [Outside, Outside])" by simp
  then show ?thesis by (intro exI [of _ "?st [] [Outside, Outside]"]) (simp add: tracked_def)
qed

end
