(* ===== verification/Civil_Dates.thy ===== *)
theory Civil_Dates
  imports Prelude "HOL-Library.Signed_Division"
begin

text \<open>
  The calendar of \<open>src/index.rs\<close>: days since 1970-01-01 to a date of the proleptic Gregorian calendar
  and back.  An \<open>i64\<close> is an \<^typ>\<open>int\<close> with the wrap written out where an operation can overflow; its
  division truncates.  The laws: the two functions are inverse to each other on the days and on the
  dates of the calendar.
\<close>

section \<open>Definitions\<close>

definition i64 :: "int \<Rightarrow> int" where
  "i64 x = (x + 9223372036854775808) mod 18446744073709551616 - 9223372036854775808"

definition civil_from_days :: "int \<Rightarrow> int \<times> u32 \<times> u32" where
  "civil_from_days days =
     (let z = i64 (days + 719468);
          era = (if z \<ge> 0 then z else i64 (z - 146096)) sdiv 146097;
          doe = i64 (z - era * 146097);
          yoe = (doe - doe sdiv 1460 + doe sdiv 36524 - doe sdiv 146096) sdiv 365;
          y = i64 (yoe + era * 400);
          doy = i64 (doe - (365 * yoe + yoe sdiv 4 - yoe sdiv 100));
          mp = (5 * doy + 2) sdiv 153;
          d = word_of_int (doy - (153 * mp + 2) sdiv 5 + 1);
          m = word_of_int (if mp < 10 then mp + 3 else mp - 9)
      in (if m \<le> 2 then i64 (y + 1) else y, m, d))"

definition days_from_civil :: "int \<Rightarrow> u32 \<Rightarrow> u32 \<Rightarrow> int" where
  "days_from_civil year m d =
     (let y = (if m \<le> 2 then i64 (year - 1) else year);
          era = (if y \<ge> 0 then y else i64 (y - 399)) sdiv 400;
          yoe = i64 (y - era * 400);
          mp = uint ((m + 9) mod 12);
          doy = (153 * mp + 2) sdiv 5 + uint d - 1;
          doe = yoe * 365 + yoe sdiv 4 - yoe sdiv 100 + doy
      in i64 (era * 146097 + doe - 719468))"

section \<open>The calendar\<close>

definition leap_year :: "int \<Rightarrow> bool" where
  "leap_year y \<longleftrightarrow> 4 dvd y \<and> (\<not> 100 dvd y \<or> 400 dvd y)"

definition month_length :: "int \<Rightarrow> int \<Rightarrow> int" where
  "month_length y m =
     (if m = 2 then if leap_year y then 29 else 28
      else if m \<in> {4, 6, 9, 11} then 30 else 31)"

definition valid_date :: "int \<Rightarrow> u32 \<Rightarrow> u32 \<Rightarrow> bool" where
  "valid_date y m d \<longleftrightarrow>
     1 \<le> uint m \<and> uint m \<le> 12 \<and> 1 \<le> uint d \<and> uint d \<le> month_length y (uint m)"

section \<open>Arithmetic\<close>

lemma i64_id: "-9223372036854775808 \<le> x \<Longrightarrow> x < 9223372036854775808 \<Longrightarrow> i64 x = x"
  by (simp add: i64_def)

lemma sdiv_nonneg: "0 \<le> x \<Longrightarrow> 0 < k \<Longrightarrow> x sdiv k = x div (k :: int)"
  by (simp add: signed_divide_int_def sgn_if)

lemma div_bounds: "0 < (k :: int) \<Longrightarrow> k * (x div k) \<le> x \<and> x < k * (x div k) + k"
  using mult_div_mod_eq [of k x] pos_mod_bound [of k x] pos_mod_sign [of k x] by linarith

text \<open>The adjusted dividend makes the truncating division round down.\<close>

lemma floor_sdiv:
  assumes "0 < (k :: int)"
  shows "(if x \<ge> 0 then x else x - (k - 1)) sdiv k = x div k"
proof (cases "x \<ge> 0")
  case True
  with assms show ?thesis by (simp add: sdiv_nonneg)
next
  case False
  let ?r = "k - 1 - x mod k"
  have "0 \<le> ?r" "?r < k"
    using assms pos_mod_bound [of k x] pos_mod_sign [of k x] by linarith+
  then have q: "(?r + (- (x div k)) * k) div k = - (x div k)"
    using assms div_mult_self1 [of k ?r "- (x div k)"] div_pos_pos_trivial [of ?r k] by simp
  have x: "k - 1 - x = ?r + (- (x div k)) * k"
    using mult_div_mod_eq [of k x] by (simp add: algebra_simps)
  have "(k - 1 - x) div k = - (x div k)" unfolding x by (rule q)
  with False assms show ?thesis
    by (simp add: signed_divide_int_def sgn_if abs_if)
qed

text \<open>The first day of year \<open>n\<close> of an era, counted from March.\<close>

definition year_start :: "int \<Rightarrow> int" where
  "year_start n = 365 * n + n div 4 - n div 100"

definition year_of_era :: "int \<Rightarrow> int" where
  "year_of_era doe = (doe - doe div 1460 + doe div 36524 - doe div 146096) div 365"

lemma div_lipschitz:
  assumes "x \<le> y" and "0 < (k :: int)"
  shows "x - x div k \<le> y - y div k"
proof -
  have "y div k \<le> (x + (y - x) * k) div k"
    using assms mult_left_mono [of 1 k "y - x"] by (intro zdiv_mono1) simp_all
  also have "\<dots> = x div k + (y - x)" using assms by simp
  finally show ?thesis by simp
qed

lemma days_mono:
  assumes "x \<le> (y :: int)"
  shows "x - x div 1460 + x div 36524 - x div 146096 \<le> y - y div 1460 + y div 36524 - y div 146096"
proof -
  have q: "z div 146096 = z div 36524 div 4" for z :: int
    using zdiv_zmult2_eq [of 4 z 36524] by simp
  have "x div 36524 \<le> y div 36524" using assms by (rule zdiv_mono1) simp
  from div_lipschitz [OF this, of 4] div_lipschitz [OF assms, of 1460] show ?thesis
    by (simp add: q)
qed

definition last_day :: "int \<Rightarrow> int" where
  "last_day n = (if n = 399 then 146096 else year_start (n + 1) - 1)"

lemma years_checked:
  "list_all (\<lambda>n. year_of_era (year_start n) = n \<and> year_of_era (last_day n) = n \<and>
      last_day n - year_start n = (if leap_year (n + 1) then 365 else 364)) [0..399]"
  by code_simp

lemma year_checked:
  assumes "0 \<le> n" and "n \<le> 399"
  shows "year_of_era (year_start n) = n" and "year_of_era (last_day n) = n"
    and "last_day n - year_start n = (if leap_year (n + 1) then 365 else 364)"
  using years_checked assms by (auto simp: list_all_iff)

lemma year_of_era_mono: "x \<le> y \<Longrightarrow> year_of_era x \<le> year_of_era y"
  unfolding year_of_era_def by (intro zdiv_mono1 days_mono) simp_all

lemma year_of_era_unique:
  assumes "0 \<le> n" and "n \<le> 399" and "year_start n \<le> doe" and "doe \<le> last_day n"
  shows "year_of_era doe = n"
  using year_of_era_mono [OF assms(3)] year_of_era_mono [OF assms(4)] year_checked [OF assms(1,2)]
  by simp

lemma year_of_era_spec:
  assumes "0 \<le> doe" and "doe < 146097"
  shows "0 \<le> year_of_era doe \<and> year_of_era doe \<le> 399 \<and>
    year_start (year_of_era doe) \<le> doe \<and> doe \<le> last_day (year_of_era doe)"
proof -
  let ?S = "{n. 0 \<le> n \<and> n \<le> 399 \<and> year_start n \<le> doe}"
  have fin: "finite ?S" by (rule finite_subset [of _ "{0..399}"]) auto
  have "0 \<in> ?S" using assms by (simp add: year_start_def)
  then have "?S \<noteq> {}" by blast
  then have n: "Max ?S \<in> ?S" by (rule Max_in [OF fin])
  have "doe \<le> last_day (Max ?S)"
  proof (cases "Max ?S = 399")
    case True
    with assms show ?thesis by (simp add: last_day_def)
  next
    case False
    have "Max ?S + 1 \<notin> ?S"
    proof
      assume "Max ?S + 1 \<in> ?S"
      with fin have "Max ?S + 1 \<le> Max ?S" by (rule Max_ge)
      then show False by simp
    qed
    with False n have "doe < year_start (Max ?S + 1)" by simp
    with False show ?thesis by (simp add: last_day_def)
  qed
  with n year_of_era_unique [of "Max ?S" doe] show ?thesis by simp
qed

section \<open>Both functions without the machine\<close>

definition month_of :: "int \<Rightarrow> int" where
  "month_of mp = (if mp < 10 then mp + 3 else mp - 9)"

lemma civil_unfold:
  assumes "-4611686018427387904 \<le> days" and "days \<le> 4611686018427387904"
  shows "civil_from_days days =
    (let z = days + 719468; era = z div 146097; doe = z mod 146097; yoe = year_of_era doe;
         y = yoe + era * 400; doy = doe - year_start yoe; mp = (5 * doy + 2) div 153;
         m = month_of mp
     in (if m \<le> 2 then y + 1 else y, word_of_int m, word_of_int (doy - (153 * mp + 2) div 5 + 1)))
   \<and> (let z = days + 719468; doe = z mod 146097; yoe = year_of_era doe; doy = doe - year_start yoe;
          mp = (5 * doy + 2) div 153 in
      0 \<le> yoe \<and> yoe \<le> 399 \<and> 0 \<le> doy \<and> doy \<le> last_day yoe - year_start yoe \<and> 0 \<le> mp \<and> mp \<le> 11 \<and>
      0 \<le> doy - (153 * mp + 2) div 5 \<and> doy - (153 * mp + 2) div 5 \<le> 30)"
proof -
  define z where "z = days + 719468"
  define era where "era = z div 146097"
  define doe where "doe = z mod 146097"
  define yoe where "yoe = year_of_era doe"
  define doy where "doy = doe - year_start yoe"
  define mp where "mp = (5 * doy + 2) div 153"
  have z: "i64 (days + 719468) = z" using assms by (simp add: z_def i64_id)
  have dm: "z = era * 146097 + doe" "0 \<le> doe" "doe < 146097"
    by (simp_all add: era_def doe_def)
  then have era_b: "-40000000000000 \<le> era" "era \<le> 40000000000000"
    using assms z_def by linarith+
  have "i64 (z - 146096) = z - 146096" using assms by (simp add: z_def i64_id)
  then have era: "(if z \<ge> 0 then z else i64 (z - 146096)) sdiv 146097 = era"
    using floor_sdiv [of 146097 z] by (simp add: era_def split: if_splits)
  have doe: "i64 (z - era * 146097) = doe" using dm by (simp add: i64_id)
  have spec: "0 \<le> yoe" "yoe \<le> 399" "year_start yoe \<le> doe" "doe \<le> last_day yoe"
    using year_of_era_spec [OF dm(2,3)] by (simp_all add: yoe_def)
  then have doy: "0 \<le> doy" "doy \<le> 365" "doy \<le> last_day yoe - year_start yoe"
    using year_checked(3) [OF spec(1,2)] by (auto simp: doy_def split: if_splits)
  have days_le: "0 \<le> doe - doe div 1460 + doe div 36524 - doe div 146096"
    using days_mono [of 0 doe] dm(2) by simp
  have yoe: "(doe - doe sdiv 1460 + doe sdiv 36524 - doe sdiv 146096) sdiv 365 = yoe"
    using dm(2) days_le by (simp add: sdiv_nonneg yoe_def year_of_era_def)
  have doy_eq: "i64 (doe - (365 * yoe + yoe sdiv 4 - yoe sdiv 100)) = doy"
    using doy spec by (simp add: sdiv_nonneg i64_id doy_def year_start_def)
  have mp: "(5 * doy + 2) sdiv 153 = mp" "0 \<le> mp" "mp \<le> 11"
    using doy div_bounds [of 153 "5 * doy + 2"] by (simp_all add: sdiv_nonneg mp_def)
  have d: "0 \<le> doy - (153 * mp + 2) div 5" "doy - (153 * mp + 2) div 5 \<le> 30"
    using div_bounds [of 153 "5 * doy + 2"] div_bounds [of 5 "153 * mp + 2"] by (simp_all add: mp_def)
  define m where "m = month_of mp"
  have m: "(word_of_int m :: u32) \<le> 2 \<longleftrightarrow> m \<le> 2"
    using mp(2,3) by (simp add: m_def month_of_def word_le_def uint_word_of_int)
  have y: "i64 (yoe + era * 400) = yoe + era * 400" "i64 (yoe + era * 400 + 1) = yoe + era * 400 + 1"
    using era_b spec by (simp_all add: i64_id)
  have c: "civil_from_days days =
      (if m \<le> 2 then yoe + era * 400 + 1 else yoe + era * 400, word_of_int m,
       word_of_int (doy - (153 * mp + 2) div 5 + 1))"
    unfolding civil_from_days_def Let_def z era doe yoe doy_eq mp(1) y
    month_of_def [symmetric] m_def [symmetric]
    using mp(2) by (simp add: sdiv_nonneg m)
  show ?thesis
    unfolding c Let_def z_def [symmetric] era_def [symmetric] doe_def [symmetric]
      yoe_def [symmetric] doy_def [symmetric] mp_def [symmetric] m_def [symmetric]
    using spec doy mp(2,3) d by simp
qed

lemma days_unfold:
  assumes "-1125899906842624 \<le> year" and "year \<le> 1125899906842624"
    and "1 \<le> uint m" and "uint m \<le> 12" and "uint d \<le> 31"
  shows "days_from_civil year m d =
    (let y = (if uint m \<le> 2 then year - 1 else year); mp = (uint m + 9) mod 12 in
     y div 400 * 146097 + year_start (y mod 400) + (153 * mp + 2) div 5 + uint d - 1 - 719468)"
proof -
  define y where "y = (if uint m \<le> 2 then year - 1 else year)"
  define mp where "mp = (uint m + 9) mod 12"
  have "m \<le> 2 \<longleftrightarrow> uint m \<le> 2" by (simp add: word_le_def)
  then have y: "(if m \<le> 2 then i64 (year - 1) else year) = y"
    using assms by (simp add: y_def i64_id)
  have yb: "-1125899906842625 \<le> y" "y \<le> 1125899906842624"
    using assms by (auto simp: y_def)
  have "i64 (y - 399) = y - 399" using yb by (simp add: i64_id)
  then have era: "(if y \<ge> 0 then y else i64 (y - 399)) sdiv 400 = y div 400"
    using floor_sdiv [of 400 y] by (simp split: if_splits)
  have yoe: "i64 (y - y div 400 * 400) = y mod 400"
    using div_bounds [of 400 y] by (simp add: i64_id minus_div_mult_eq_mod)
  have "uint (m + 9) = uint m + 9"
    using assms by (simp add: uint_word_ariths)
  then have mp: "uint ((m + 9) mod 12) = mp"
    by (simp add: uint_mod mp_def)
  have mpb: "0 \<le> mp" "mp < 12" by (simp_all add: mp_def)
  have st: "y mod 400 * 365 + y mod 400 sdiv 4 - y mod 400 sdiv 100 = year_start (y mod 400)"
    by (simp add: sdiv_nonneg year_start_def)
  have sb: "0 \<le> year_start (y mod 400)" "year_start (y mod 400) < 146100"
    using div_bounds [of 400 y] minus_div_mult_eq_mod [of y 400] div_bounds [of 4 "y mod 400"]
      div_bounds [of 100 "y mod 400"] by (simp_all add: year_start_def)
  have q: "0 \<le> (153 * mp + 2) div 5" "(153 * mp + 2) div 5 < 400"
    using mpb div_bounds [of 5 "153 * mp + 2"] by simp_all
  have eb: "-5000000000000 \<le> y div 400" "y div 400 \<le> 5000000000000"
    using div_bounds [of 400 y] yb by simp_all
  have "0 \<le> uint d" by simp
  then have r: "i64 (y div 400 * 146097 + (year_start (y mod 400) + ((153 * mp + 2) div 5 + uint d - 1)) - 719468)
      = y div 400 * 146097 + (year_start (y mod 400) + ((153 * mp + 2) div 5 + uint d - 1)) - 719468"
    using q sb eb assms(5) by (intro i64_id) linarith+
  have s5: "(153 * mp + 2) sdiv 5 = (153 * mp + 2) div 5" using mpb by (simp add: sdiv_nonneg)
  show ?thesis
    unfolding days_from_civil_def Let_def y era yoe mp st s5 r y_def [symmetric] mp_def [symmetric]
    by simp
qed

section \<open>Months\<close>

lemma month_cases:
  assumes "0 \<le> mp" and "mp \<le> (11 :: int)"
  obtains "mp = 0" | "mp = 1" | "mp = 2" | "mp = 3" | "mp = 4" | "mp = 5" | "mp = 6" | "mp = 7"
    | "mp = 8" | "mp = 9" | "mp = 10" | "mp = 11"
proof -
  from assms have "mp = 0 \<or> mp = 1 \<or> mp = 2 \<or> mp = 3 \<or> mp = 4 \<or> mp = 5 \<or> mp = 6 \<or> mp = 7
    \<or> mp = 8 \<or> mp = 9 \<or> mp = 10 \<or> mp = 11" by presburger
  then show thesis using that by blast
qed

lemma month_of_inverse:
  "0 \<le> mp \<Longrightarrow> mp \<le> 11 \<Longrightarrow> (month_of mp + 9) mod 12 = mp"
  "1 \<le> m \<Longrightarrow> m \<le> 12 \<Longrightarrow> month_of ((m + 9) mod 12) = m"
proof -
  show "0 \<le> mp \<Longrightarrow> mp \<le> 11 \<Longrightarrow> (month_of mp + 9) mod 12 = mp"
    by (cases rule: month_cases) (auto simp: month_of_def)
  assume m: "1 \<le> m" "m \<le> 12"
  show "month_of ((m + 9) mod 12) = m"
  proof (cases "m \<le> 2")
    case True
    with m show ?thesis by (simp add: month_of_def)
  next
    case False
    have "(m + 9) mod 12 = (m - 3 + 12) mod 12" by (simp add: algebra_simps)
    also have "\<dots> = m - 3" using m False by (simp only: mod_add_self2) simp
    finally show ?thesis using m False by (simp add: month_of_def)
  qed
qed

text \<open>A day of the year is in month \<open>mp\<close>, counted from March, exactly from its first to its last day.\<close>

lemma day_of_month:
  assumes "0 \<le> mp" and "mp \<le> 11" and "0 \<le> doy" and "doy \<le> (if leap_year y then 365 else 364)"
  shows "(5 * doy + 2) div 153 = mp \<longleftrightarrow>
    1 \<le> doy - (153 * mp + 2) div 5 + 1 \<and> doy - (153 * mp + 2) div 5 + 1 \<le> month_length y (month_of mp)"
proof -
  have "(5 * doy + 2) div 153 = mp \<longleftrightarrow> 153 * mp \<le> 5 * doy + 2 \<and> 5 * doy + 2 < 153 * mp + 153"
    using div_bounds [of 153 "5 * doy + 2"] by auto
  then show ?thesis
    using assms by (cases rule: month_cases [OF assms(1,2)]) (auto simp: month_length_def month_of_def)
qed

lemma leap_year_era: "leap_year (n + era * 400 + 1) \<longleftrightarrow> leap_year (n + 1)"
proof -
  have "k dvd n + era * 400 + 1 \<longleftrightarrow> k dvd n + 1" if "k dvd 400" for k :: int
    using that dvd_add_left_iff [of k "era * 400" "n + 1"] by (simp add: algebra_simps)
  from this [of 4] this [of 100] this [of 400] show ?thesis
    by (simp add: leap_year_def)
qed

lemma month_length_bound: "28 \<le> month_length y m" "month_length y m \<le> 31"
  by (simp_all add: month_length_def)

lemma era_bounds:
  fixes e r k :: int
  assumes "0 < k" and "0 \<le> r" and "r < k"
  shows "(e * k + r) div k = e" and "(e * k + r) mod k = r"
  using assms by (simp_all add: div_pos_pos_trivial)

lemma start_nonneg: "0 \<le> n \<Longrightarrow> 0 \<le> year_start n"
  using div_bounds [of 4 n] div_bounds [of 100 n] by (simp add: year_start_def)

lemma last_day_bound:
  assumes "0 \<le> n" and "n \<le> 399"
  shows "last_day n \<le> 146096"
  using assms div_bounds [of 4 "n + 1"] div_bounds [of 100 "n + 1"]
  by (auto simp: last_day_def year_start_def)

lemma civil_from_days_ok:
  assumes "-1125899906842624 \<le> days" and "days \<le> 1125899906842624"
    and "civil_from_days days = (y, m, d)"
  shows "valid_date y m d \<and> days_from_civil y m d = days"
proof -
  define z where "z = days + 719468"
  define era where "era = z div 146097"
  define doe where "doe = z mod 146097"
  define yoe where "yoe = year_of_era doe"
  define doy where "doy = doe - year_start yoe"
  define mp where "mp = (5 * doy + 2) div 153"
  have un: "y = (if month_of mp \<le> 2 then yoe + era * 400 + 1 else yoe + era * 400)"
      "m = word_of_int (month_of mp)" "d = word_of_int (doy - (153 * mp + 2) div 5 + 1)"
    and b: "0 \<le> yoe" "yoe \<le> 399" "0 \<le> doy" "doy \<le> last_day yoe - year_start yoe" "0 \<le> mp" "mp \<le> 11"
      "0 \<le> doy - (153 * mp + 2) div 5" "doy - (153 * mp + 2) div 5 \<le> 30"
    using civil_unfold [of days] assms
    unfolding Let_def z_def [symmetric] era_def [symmetric] doe_def [symmetric] yoe_def [symmetric]
      doy_def [symmetric] mp_def [symmetric] by simp_all
  have mb: "1 \<le> month_of mp" "month_of mp \<le> 12" using b by (auto simp: month_of_def)
  have um: "uint m = month_of mp"
    using mb by (simp only: un uint_word_of_int) simp
  have ud: "uint d = doy - (153 * mp + 2) div 5 + 1"
    using b(7,8) by (simp only: un uint_word_of_int) simp
  let ?ly = "yoe + era * 400 + 1"
  have doy: "doy \<le> (if leap_year ?ly then 365 else 364)"
    using b(4) year_checked(3) [OF b(1,2)] by (simp add: leap_year_era)
  have "month_length y (month_of mp) = month_length ?ly (month_of mp)"
    by (simp add: un month_length_def)
  then have v: "valid_date y m d"
    using day_of_month [OF b(5,6,3) doy] b(7) mb by (simp add: valid_date_def um ud mp_def [symmetric])
  have z: "days = era * 146097 + doe - 719468" by (simp add: era_def doe_def z_def)
  then have yb: "-1125899906842624 \<le> y" "y \<le> 1125899906842624"
    using assms(1,2) b(1,2) un(1) pos_mod_bound [of 146097 z] pos_mod_sign [of 146097 z]
    by (auto simp: doe_def [symmetric])
  have "(if uint m \<le> 2 then y - 1 else y) = era * 400 + yoe"
    unfolding um by (simp add: un(1))
  then have "days_from_civil y m d = era * 146097 + year_start yoe + (153 * mp + 2) div 5 + uint d - 1 - 719468"
    using days_unfold [OF yb, of m d] mb b(7,8) era_bounds [of 400 yoe era] b(1,2)
      month_of_inverse(1) [OF b(5,6)]
    by (simp add: um ud Let_def)
  with v show ?thesis by (simp add: ud z doy_def)
qed

section \<open>Properties\<close>

text \<open>
  Every day is a date of the calendar, and the right one.  Within a quadrillion days of the
  epoch in either direction, the date of a day number is a date of the Gregorian calendar (month,
  length of the month and leap years included) and its day number is the one it came from.
\<close>

theorem civil_from_days_correct:
  assumes "-1125899906842624 \<le> days" and "days \<le> 1125899906842624"
    and "civil_from_days days = (y, m, d)"
  shows "valid_date y m d \<and> days_from_civil y m d = days"
  using assms by (rule civil_from_days_ok)

theorem civil_from_days_correct_witness:
  "civil_from_days 11016 = (2000, 2, 29) \<and> valid_date 2000 2 29 \<and> days_from_civil 2000 2 29 = 11016"
proof -
  have "civil_from_days 11016 = (2000, 2, 29)"
    by code_simp
  with civil_from_days_correct [of 11016 2000 2 29] show ?thesis by simp
qed

text \<open>
  Every date of the calendar comes back from its day number, so a version's date is printed as it
  was parsed.
\<close>

theorem days_from_civil_correct:
  assumes "-1000000000000 \<le> y" and "y \<le> 1000000000000" and "valid_date y m d"
  shows "civil_from_days (days_from_civil y m d) = (y, m, d)"
proof -
  define yy where "yy = (if uint m \<le> 2 then y - 1 else y)"
  define mp where "mp = (uint m + 9) mod 12"
  define yoe where "yoe = yy mod 400"
  define doy where "doy = (153 * mp + 2) div 5 + uint d - 1"
  define era where "era = yy div 400"
  have v: "1 \<le> uint m" "uint m \<le> 12" "1 \<le> uint d" "uint d \<le> month_length y (uint m)" "uint d \<le> 31"
    using assms(3) month_length_bound(2) [of y "uint m"] by (auto simp: valid_date_def)
  have days: "days_from_civil y m d = era * 146097 + year_start yoe + doy - 719468"
    using days_unfold [of y m d] assms v
    by (simp add: Let_def yy_def [symmetric] mp_def [symmetric] yoe_def [symmetric]
        era_def [symmetric] doy_def)
  have yoe: "0 \<le> yoe" "yoe \<le> 399" "yy = era * 400 + yoe" by (simp_all add: yoe_def era_def)
  have mp: "0 \<le> mp" "mp \<le> 11" "month_of mp = uint m"
    using month_of_inverse(2) [OF v(1,2)] by (simp_all add: mp_def)
  let ?ly = "yoe + era * 400 + 1"
  have "y = ?ly" if "uint m = 2" using that yoe(3) by (simp add: yy_def)
  then have ml: "month_length y (uint m) = month_length ?ly (uint m)"
    by (simp add: month_length_def)
  have doy0: "0 \<le> doy" using v mp(1) div_bounds [of 5 "153 * mp + 2"] by (simp add: doy_def)
  have doy: "doy \<le> (if leap_year ?ly then 365 else 364)"
    using v(4) mp(3) unfolding ml doy_def
    by (cases rule: month_cases [OF mp(1,2)]) (auto simp: month_length_def month_of_def split: if_splits)
  have m: "(5 * doy + 2) div 153 = mp"
    using day_of_month [OF mp(1,2) doy0 doy] v ml mp(3) by (simp add: doy_def)
  have "year_start yoe + doy \<le> last_day yoe"
    using doy year_checked(3) [OF yoe(1,2)] by (simp add: leap_year_era)
  then have year: "year_of_era (year_start yoe + doy) = yoe"
    using doy0 by (intro year_of_era_unique [OF yoe(1,2)]) simp_all
  have rng: "0 \<le> year_start yoe + doy" "year_start yoe + doy < 146097"
    using last_day_bound [OF yoe(1,2)] \<open>year_start yoe + doy \<le> last_day yoe\<close> doy0 start_nonneg [OF yoe(1)]
    by simp_all
  let ?days = "era * 146097 + year_start yoe + doy - 719468"
  have db: "-4611686018427387904 \<le> ?days" "?days \<le> 4611686018427387904"
    using assms(1,2) rng yoe by (auto simp: yy_def split: if_splits)
  have z: "?days + 719468 = era * 146097 + (year_start yoe + doy)" by simp
  have uy: "y = (if uint m \<le> 2 then yoe + era * 400 + 1 else yoe + era * 400)"
    using yoe(3) by (simp add: yy_def split: if_splits)
  have dd: "year_start yoe + doy - year_start yoe = doy" by simp
  have c: "civil_from_days ?days =
      (if uint m \<le> 2 then yoe + era * 400 + 1 else yoe + era * 400, word_of_int (uint m),
       word_of_int (doy - (153 * mp + 2) div 5 + 1))"
    using conjunct1 [OF civil_unfold [OF db]]
    unfolding z Let_def era_bounds(1) [OF zero_less_numeral rng] era_bounds(2) [OF zero_less_numeral rng]
      year dd m mp(3) .
  have "doy - (153 * mp + 2) div 5 + 1 = uint d" by (simp add: doy_def)
  then show ?thesis unfolding days c uy [symmetric] by simp
qed

theorem days_from_civil_correct_witness:
  "valid_date 2003 9 10 \<and> civil_from_days (days_from_civil 2003 9 10) = (2003, 9, 10)"
proof -
  have "valid_date 2003 9 10" by (simp add: valid_date_def month_length_def)
  with days_from_civil_correct [OF _ _ this] show ?thesis by simp
qed

end
