(* ===== verification/Backends.thy ===== *)
theory Backends
  imports Rust_Text
begin

text \<open>
  Where the dump's bytes come from (\<open>src/backend/mod.rs\<close>, \<open>src/backend/local.rs\<close>): the interface a
  backend gives the layers above, how a source string selects one, and the local backend.  The
  operating system is a parameter: what a path holds, and a positional read that may return fewer
  bytes than asked.  The law of the interface is the locale \<open>ranged_reads\<close>: a read returns the range
  of the file, short only at its end.
\<close>

section \<open>Definitions\<close>

record dir_entry =
  de_name :: string
  de_size :: u64
  de_is_dir :: bool

type_synonym backend_error = string

record backend =
  be_list_dir :: "string \<Rightarrow> backend_error + dir_entry list"
  be_read_at :: "string \<Rightarrow> u64 \<Rightarrow> nat \<Rightarrow> backend_error + bytes"
  be_read_all :: "string \<Rightarrow> backend_error + bytes"

datatype source = Local string | Sftp string string

definition strip_prefix :: "string \<Rightarrow> string \<Rightarrow> string option" where
  "strip_prefix p s = (if prefix p s then Some (drop (length p) s) else None)"

definition parse_source :: "(string \<Rightarrow> bool) \<Rightarrow> string \<Rightarrow> source" where
  "parse_source exists s =
     (if exists s then Local s
      else case strip_prefix ''sftp://'' s of
        Some rest \<Rightarrow>
          (let host = takeWhile (\<lambda>c. c \<noteq> CHR ''/'') rest; path = dropWhile (\<lambda>c. c \<noteq> CHR ''/'') rest
           in Sftp (''ssh://'' @ host) (if path = [] then ''/'' else path))
      | None \<Rightarrow>
          (case split_once CHR '':'' s of
             Some (host, path) \<Rightarrow>
               if host \<noteq> [] \<and> CHR ''/'' \<notin> set host
               then Sftp host (if path = [] then ''.'' else path)
               else Local s
           | None \<Rightarrow> Local s))"

subsection \<open>The local backend\<close>

text \<open>What the operating system offers: the entries of a directory and the contents of a file.\<close>

record os_meta =
  om_size :: u64
  om_is_dir :: bool
  om_is_symlink :: bool

record os_view =
  os_readdir :: "string \<Rightarrow> backend_error + (backend_error + (bytes \<times> (backend_error + os_meta))) list"
  os_stat :: "string \<Rightarrow> backend_error + os_meta"
  os_open :: "string \<Rightarrow> backend_error + bytes"
  os_canonicalize :: "string \<Rightarrow> backend_error + string"
  os_is_dir :: "string \<Rightarrow> bool"
  os_pread :: "bytes \<Rightarrow> u64 \<Rightarrow> nat \<Rightarrow> backend_error + bytes"

definition path_join :: "string \<Rightarrow> string \<Rightarrow> string" where
  "path_join dir rel =
     (if rel \<noteq> [] \<and> hd rel = CHR ''/'' then rel
      else if dir = [] \<or> last dir = CHR ''/'' then dir @ rel
      else dir @ CHR ''/'' # rel)"

definition local_path :: "string \<Rightarrow> string \<Rightarrow> string" where
  "local_path root rel = (if rel = [] then root else path_join root rel)"

definition local_new :: "os_view \<Rightarrow> string \<Rightarrow> backend_error + string" where
  "local_new os root =
     rbind (os_canonicalize os root) (\<lambda>r.
       if os_is_dir os r then Inr r else Inl (r @ '' is not a directory''))"

text \<open>
  \<open>read_range\<close>: positional reads until the buffer is full or one returns nothing.  A read returns at
  most what the rest of the buffer holds.
\<close>

function read_range ::
  "(u64 \<Rightarrow> nat \<Rightarrow> backend_error + bytes) \<Rightarrow> u64 \<Rightarrow> nat \<Rightarrow> bytes \<Rightarrow> backend_error + bytes" where
  "read_range pread offset len buf =
     (if length buf < len then
        case pread (offset + of_nat (length buf)) (len - length buf) of
          Inl e \<Rightarrow> Inl e
        | Inr got \<Rightarrow>
            if got = [] then Inr buf
            else read_range pread offset len (buf @ take (len - length buf) got)
      else Inr buf)"
  by pat_completeness auto
termination
proof (relation "measure (\<lambda>(pread, offset, len, buf). len - length buf)")
  fix pread :: "u64 \<Rightarrow> nat \<Rightarrow> backend_error + bytes" and offset len and buf got :: bytes
  assume "length buf < len" "got \<noteq> []"
  then show "((pread, offset, len, buf @ take (len - length buf) got), (pread, offset, len, buf))
      \<in> measure (\<lambda>(pread, offset, len, buf). len - length buf)"
    by (cases got) auto
qed simp

declare read_range.simps [simp del]

definition local_read_at :: "os_view \<Rightarrow> string \<Rightarrow> string \<Rightarrow> u64 \<Rightarrow> nat \<Rightarrow> backend_error + bytes" where
  "local_read_at os root rel offset len =
     rbind (os_open os (local_path root rel)) (\<lambda>file.
       read_range (os_pread os file) offset len [])"

definition local_read_all :: "os_view \<Rightarrow> string \<Rightarrow> string \<Rightarrow> backend_error + bytes" where
  "local_read_all os root rel = os_open os (local_path root rel)"

fun list_entries ::
  "os_view \<Rightarrow> string \<Rightarrow> (backend_error + (bytes \<times> (backend_error + os_meta))) list
    \<Rightarrow> backend_error + dir_entry list" where
  "list_entries os dir [] = Inr []"
| "list_entries os dir (e # es) =
     rbind e (\<lambda>(name, meta).
     rbind meta (\<lambda>m.
     rbind (if om_is_symlink m then os_stat os (path_join dir (from_bytes name)) else Inr m) (\<lambda>m'.
     rbind (list_entries os dir es) (\<lambda>rest.
       Inr (\<lparr>de_name = from_utf8_lossy name, de_size = om_size m', de_is_dir = om_is_dir m'\<rparr> # rest)))))"

definition local_list_dir :: "os_view \<Rightarrow> string \<Rightarrow> string \<Rightarrow> backend_error + dir_entry list" where
  "local_list_dir os root rel =
     (let dir = local_path root rel in rbind (os_readdir os dir) (list_entries os dir))"

definition local_backend :: "os_view \<Rightarrow> string \<Rightarrow> backend" where
  "local_backend os root =
     \<lparr>be_list_dir = local_list_dir os root, be_read_at = local_read_at os root,
      be_read_all = local_read_all os root\<rparr>"

section \<open>The contract\<close>

text \<open>
  What the layers above rely on, when the world below behaves (\<open>sane\<close>): whatever a ranged read
  returns is the range of the file, cut off at its end, and a whole read is the whole file.
\<close>

locale ranged_reads =
  fixes read_at :: "string \<Rightarrow> u64 \<Rightarrow> nat \<Rightarrow> backend_error + bytes"
    and read_all :: "string \<Rightarrow> backend_error + bytes"
    and contents :: "string \<Rightarrow> bytes option"
    and sane :: bool
  assumes read_at_range: "sane \<Longrightarrow> contents p = Some c \<Longrightarrow> read_at p off n = Inr b \<Longrightarrow>
      b = take n (drop (unat off) c)"
    and read_all_whole: "sane \<Longrightarrow> contents p = Some c \<Longrightarrow> read_all p = Inr b \<Longrightarrow> b = c"
begin

lemma read_at_append:
  assumes "sane" and "contents p = Some c" and "read_at p off n = Inr b"
    and "read_at p (off + of_nat n) k = Inr b'" and "unat off + n < 18446744073709551616"
  shows "b @ b' = take (n + k) (drop (unat off) c)"
proof -
  have "unat (off + of_nat n) = unat off + n"
    using assms(5) by (simp add: unat_word_ariths unat_of_nat)
  then show ?thesis
    using read_at_range [OF assms(1-3)] read_at_range [OF assms(1,2,4)]
    using take_add [of n k "drop (unat off) c"] by (simp add: add.commute [of n "unat off"])
qed

lemma short_read_at_end:
  assumes "sane" and "contents p = Some c" and "read_at p off n = Inr b" and "length b < n"
  shows "b = drop (unat off) c"
  using read_at_range [OF assms(1-3)] assms(4) by simp

end

section \<open>The local backend keeps it\<close>

text \<open>
  What the operating system documents of a positional read: it returns the bytes at the offset, at
  most as many as asked, and none only at the end of the file.  A file's length fits a 64-bit offset.
\<close>

definition pread_documented :: "os_view \<Rightarrow> bool" where
  "pread_documented os \<longleftrightarrow>
     (\<forall>c off n b. os_pread os c off n = Inr b \<longrightarrow>
        prefix b (take n (drop (unat off) c)) \<and> (b = [] \<longrightarrow> n = 0 \<or> length c \<le> unat off)) \<and>
     (\<forall>p c. os_open os p = Inr c \<longrightarrow> length c < 18446744073709551616)"

lemma prefix_take_iff:
  "length xs \<le> n \<Longrightarrow> prefix xs (take n ys) \<Longrightarrow> xs = take (length xs) ys"
  by (metis append_eq_conv_conj min.absorb1 prefix_def take_take)

lemma read_range_correct:
  assumes "\<forall>off n b. pread off n = Inr b \<longrightarrow>
      prefix b (take n (drop (unat off) c)) \<and> (b = [] \<longrightarrow> n = 0 \<or> length c \<le> unat off)"
    and "read_range pread offset len buf = Inr b" and "buf = take (length buf) (drop (unat offset) c)"
    and "length buf \<le> len" and "length c < 18446744073709551616"
  shows "b = take len (drop (unat offset) c)"
  using assms
proof (induction pread offset len buf rule: read_range.induct)
  case (1 pread offset len buf)
  show ?case
  proof (cases "length buf < len")
    case False
    with 1 show ?thesis by (simp add: read_range.simps [of pread offset len buf])
  next
    case True
    with "1.prems"(2) obtain got where got: "pread (offset + of_nat (length buf)) (len - length buf) = Inr got"
      and rest: "(if got = [] then Inr buf
        else read_range pread offset len (buf @ take (len - length buf) got)) = Inr b"
      by (subst (asm) read_range.simps) (auto split: sum.splits)
    have at: "unat (offset + of_nat (length buf)) = unat offset + length buf"
    proof (cases "buf = []")
      case False
      then have "unat offset + length buf \<le> length c"
        using "1.prems"(3) by (metis add.commute drop_eq_Nil2 le_diff_conv2 length_drop length_take
            linorder_not_le min.cobounded1 min_def nat_le_linear take_eq_Nil)
      with "1.prems"(5) show ?thesis by (simp add: unat_word_ariths unat_of_nat)
    qed simp
    from "1.prems"(1) got have
      pre: "prefix got (take (len - length buf) (drop (unat offset + length buf) c))"
      and emp: "got = [] \<Longrightarrow> length c \<le> unat offset + length buf"
      using True unfolding at [symmetric] by fastforce+
    show ?thesis
    proof (cases "got = []")
      case True
      with rest emp have "b = buf" "length c \<le> unat offset + length buf" by auto
      then have "length (drop (unat offset) c) \<le> length buf" by simp
      then have "take (length buf) (drop (unat offset) c) = drop (unat offset) c" "take len (drop (unat offset) c) = drop (unat offset) c"
        using "1.prems"(4) by simp_all
      with "1.prems"(3) \<open>b = buf\<close> show ?thesis by simp
    next
      case False
      have "length got \<le> len - length buf"
        using prefix_length_le [OF pre] by simp
      then have t: "take (len - length buf) got = got" by simp
      have "got = take (length got) (drop (length buf) (drop (unat offset) c))"
        using pre \<open>length got \<le> len - length buf\<close>
        by (intro prefix_take_iff) (simp_all add: add.commute)
      then have good: "buf @ got = take (length (buf @ got)) (drop (unat offset) c)"
        using "1.prems"(3) take_add [of "length buf" "length got" "drop (unat offset) c"] by simp
      have fits: "length (buf @ got) \<le> len"
        using \<open>length got \<le> len - length buf\<close> "1.prems"(4) by simp
      have "read_range pread offset len (buf @ got) = Inr b"
        using rest False t by simp
      from "1.IH" [OF \<open>length buf < len\<close> got False, unfolded t, OF "1.prems"(1) this good fits "1.prems"(5)]
      show ?thesis .
    qed
  qed
qed

interpretation local: ranged_reads "local_read_at os root" "local_read_all os root"
  "\<lambda>p. ok (os_open os (local_path root p))" "pread_documented os" for os root
proof unfold_locales
  fix p c off n b
  assume doc: "pread_documented os" and c: "ok (os_open os (local_path root p)) = Some c"
  show "b = take n (drop (unat off) c)" if "local_read_at os root p off n = Inr b"
  proof (rule read_range_correct)
    show "\<forall>off n b. os_pread os c off n = Inr b \<longrightarrow>
        prefix b (take n (drop (unat off) c)) \<and> (b = [] \<longrightarrow> n = 0 \<or> length c \<le> unat off)"
      using doc by (simp add: pread_documented_def)
    show "read_range (os_pread os c) off n [] = Inr b"
      using that c by (simp add: local_read_at_def result_simps)
    show "length c < 18446744073709551616"
      using doc c by (cases "os_open os (local_path root p)") (auto simp: pread_documented_def)
  qed simp_all
  show "b = c" if "local_read_all os root p = Inr b"
    using that c by (simp add: local_read_all_def)
qed

section \<open>Properties\<close>

text \<open>
  A local read is exact.  However the operating system splits its positional reads, what
  \<open>read_at\<close> returns is the asked range of the file, and when it is shorter than asked the file ends
  there.
\<close>

theorem local_read_at_range:
  assumes "pread_documented os" and "os_open os (local_path root rel) = Inr c"
    and "be_read_at (local_backend os root) rel off n = Inr b"
  shows "b = take n (drop (unat off) c) \<and> (length b < n \<longrightarrow> b = drop (unat off) c)"
  using local.read_at_range [of os root rel c off n b] local.short_read_at_end [of os root rel c off n b]
    assms by (simp add: local_backend_def)

text \<open>An operating system that hands out one byte a time.\<close>

definition slow_os :: "bytes \<Rightarrow> os_view" where
  "slow_os c =
     \<lparr>os_readdir = (\<lambda>_. Inr []), os_stat = (\<lambda>_. Inl ''none''), os_open = (\<lambda>_. Inr c),
      os_canonicalize = Inr, os_is_dir = (\<lambda>_. True),
      os_pread = (\<lambda>c off n. Inr (take (min n 1) (drop (unat off) c)))\<rparr>"

lemma slow_os_documented:
  assumes "length c < 18446744073709551616"
  shows "pread_documented (slow_os c)"
proof -
  have "take (min n 1) xs = take 1 (take n xs)" for n and xs :: bytes
    by (simp only: take_take min.commute)
  then have "prefix (take (min n 1) xs) (take n xs)" for n and xs :: bytes
    by (simp only: take_is_prefix)
  with assms show ?thesis by (auto simp: pread_documented_def slow_os_def)
qed

theorem local_read_at_range_witness:
  "be_read_at (local_backend (slow_os [1, 2, 3, 4]) ''/d'') ''f'' 1 2 = Inr [2, 3] \<and>
   [2, 3] = take 2 (drop (unat (1 :: u64)) [1, 2, 3, 4 :: u8])"
proof -
  have r: "be_read_at (local_backend (slow_os [1, 2, 3, 4]) ''/d'') ''f'' 1 2 = Inr [2, 3]"
    by (simp add: local_backend_def local_read_at_def slow_os_def read_range.simps)
  have "pread_documented (slow_os [1, 2, 3, 4])" by (rule slow_os_documented) simp
  from local_read_at_range [OF this _ r, of "[1, 2, 3, 4]"] r show ?thesis
    by (simp add: slow_os_def)
qed

end
