(* ===== verification/Dump_Index.thy ===== *)
theory Dump_Index
  imports Backends Civil_Dates Rust_Slice "HOL-Library.Option_ord"
begin

text \<open>
  The inventory of a dump (\<open>src/index.rs\<close>): the names of blob and dat files and the date list, parsed
  into an index of depots and versions.  A time after the epoch is a pair of seconds and
  nanoseconds.  Indexing a vector of blobs out of range would panic; every identifier the index hands
  out is in range (\<open>index_inv\<close>).
\<close>

section \<open>Definitions\<close>

type_synonym blob_id = u32
type_synonym dat_id = u32
type_synonym system_time = "nat \<times> nat"

record blob_file =
  bf_path :: string
  file_name :: string
  bf_depot :: u32
  bf_version :: u32
  bf_crc :: u32
  bf_size :: u64
  bf_date :: "system_time option"
  bf_sha256 :: "string option"

record dat_file =
  df_path :: string
  df_depot :: u32
  df_version :: u32
  df_crc :: u32
  df_size :: u64
  incomplete :: bool

record depot =
  depot_blobs :: "blob_id list"
  dep_names :: "(string \<times> string) list"
  dep_by_name :: "string \<rightharpoonup> blob_id"
  by_date_link :: "string \<rightharpoonup> blob_id"
  date_order :: "blob_id list"
  index_of :: "blob_id \<rightharpoonup> nat"

definition depot_default :: depot where
  "depot_default = \<lparr>depot_blobs = [], dep_names = [], dep_by_name = Map.empty, by_date_link = Map.empty,
     date_order = [], index_of = Map.empty\<rparr>"

definition versions :: "depot \<Rightarrow> (string \<times> blob_id) list" where
  "versions d = zip (map fst (dep_names d)) (depot_blobs d)"

definition depot_nth :: "depot \<Rightarrow> blob_id \<Rightarrow> (string \<times> string) option" where
  "depot_nth d b = Option.bind (index_of d b) (nth_opt (dep_names d))"

definition name_of :: "depot \<Rightarrow> blob_id \<Rightarrow> string option" where
  "name_of d b = map_option fst (depot_nth d b)"

definition date_link_of :: "depot \<Rightarrow> blob_id \<Rightarrow> string option" where
  "date_link_of d b = map_option snd (depot_nth d b)"

definition date_links :: "depot \<Rightarrow> (string \<times> blob_id) list" where
  "date_links d =
     map (\<lambda>b. (case date_link_of d b of None \<Rightarrow> [] | Some l \<Rightarrow> l, b)) (date_order d)"

definition lookup_name :: "depot \<Rightarrow> string \<Rightarrow> blob_id option" where
  "lookup_name d n = dep_by_name d n"

definition lookup_date_link :: "depot \<Rightarrow> string \<Rightarrow> blob_id option" where
  "lookup_date_link d n = by_date_link d n"

text \<open>The depots are a map sorted by depot.\<close>

record index =
  blobs :: "blob_file list"
  dats :: "dat_file list"
  depots :: "(u32 \<times> depot) list"
  blob_by_key :: "u32 \<times> u32 \<times> u32 \<rightharpoonup> blob_id"
  dat_by_key :: "u32 \<times> u32 \<times> u32 \<rightharpoonup> dat_id"

definition index_default :: index where
  "index_default = \<lparr>blobs = [], dats = [], depots = [], blob_by_key = Map.empty, dat_by_key = Map.empty\<rparr>"

subsection \<open>Names and dates\<close>

definition parse_name :: "string \<Rightarrow> string \<Rightarrow> ((u32 \<times> u32 \<times> u32) \<times> string) option" where
  "parse_name name ext =
     (case strip_suffix ext name of
        None \<Rightarrow> None
      | Some stem \<Rightarrow>
          (case splitn 4 CHR ''_'' stem of
             [depot, version, crc, sha] \<Rightarrow>
               (case (parse_u32 depot, parse_u32 version, parse_u32_hex crc) of
                  (Some d, Some v, Some c) \<Rightarrow> Some ((d, v, c), sha)
                | _ \<Rightarrow> None)
           | _ \<Rightarrow> None))"

text \<open>Adding a duration past the range of the clock panics.\<close>

datatype index_error =
    Clock_overflow
  | Listing string backend_error

definition fraction_nanos :: "string \<Rightarrow> nat option" where
  "fraction_nanos frac =
     (if frac = [] then Some 0
      else let f = take 9 frac in
        map_option (\<lambda>n. n * 10 ^ (9 - length f)) (parse_uint 10 4294967296 f))"

definition parse_date :: "string \<Rightarrow> index_error + system_time option" where
  "parse_date s =
     (case split_once CHR ''+'' s of
        None \<Rightarrow> Inr None
      | Some (date, time) \<Rightarrow>
          (case (split_all CHR ''-'' date, split_all CHR '':'' time) of
             (ys # ms # ds # _, hs # mis # secs # _) \<Rightarrow>
               (let (s_int, frac) = (case split_once CHR ''.'' secs of None \<Rightarrow> (secs, []) | Some p \<Rightarrow> p) in
                case (parse_i64 ys, parse_u32 ms, parse_u32 ds, parse_u64 hs, parse_u64 mis,
                      parse_u64 s_int, fraction_nanos frac) of
                  (Some y, Some m, Some d, Some h, Some mi, Some sec, Some nanos) \<Rightarrow>
                    (let days = days_from_civil y m d in
                     if days < 0 then Inr None
                     else
                       let total = word_of_int days * 86400 + h * 3600 + mi * 60 + sec in
                       if 9223372036854775808 \<le> unat total then Inl Clock_overflow
                       else Inr (Some (unat total, nanos)))
                | _ \<Rightarrow> Inr None)
           | _ \<Rightarrow> Inr None))"

definition dec2 :: "nat \<Rightarrow> string" where
  "dec2 n = pad_zero 2 (show_dec n)"

definition format_stamp :: "nat \<Rightarrow> string" where
  "format_stamp secs =
     (let days = secs div 86400; rem = secs mod 86400;
          (y, m, d) = civil_from_days (int days)
      in pad_zero 4 (show_dec (nat y)) @ ''-'' @ dec2 (unat m) @ ''-'' @ dec2 (unat d) @ ''T'' @
         dec2 (rem div 3600) @ ''-'' @ dec2 ((rem div 60) mod 60) @ ''-'' @ dec2 (rem mod 60))"

subsection \<open>Loading\<close>

fun read_dates ::
  "string list \<Rightarrow> (string \<rightharpoonup> system_time) \<Rightarrow> index_error + (string \<rightharpoonup> system_time)" where
  "read_dates [] m = Inr m"
| "read_dates (line # ls) m =
     (case split_once (char_of (9 :: nat)) line of
        None \<Rightarrow> read_dates ls m
      | Some (name, date) \<Rightarrow>
          rbind (parse_date (trim date)) (\<lambda>t.
            case t of
              None \<Rightarrow> read_dates ls m
            | Some t \<Rightarrow> read_dates ls (m(trim name \<mapsto> t))))"

definition load_dates :: "backend \<Rightarrow> index_error + (string \<rightharpoonup> system_time)" where
  "load_dates be =
     (case be_read_all be ''blobs_dates.txt'' of
        Inl _ \<Rightarrow> Inr Map.empty
      | Inr b \<Rightarrow> read_dates (lines (from_utf8_lossy b)) Map.empty)"

text \<open>\<open>entry(k).or_default()\<close> of a sorted map, updated.\<close>

fun update_depot :: "u32 \<Rightarrow> (depot \<Rightarrow> depot) \<Rightarrow> (u32 \<times> depot) list \<Rightarrow> (u32 \<times> depot) list" where
  "update_depot k f [] = [(k, f depot_default)]"
| "update_depot k f ((j, d) # r) =
     (if k < j then (k, f depot_default) # (j, d) # r
      else if k = j then (j, f d) # r
      else (j, d) # update_depot k f r)"

definition add_blob :: "(string \<rightharpoonup> system_time) \<Rightarrow> dir_entry \<Rightarrow> index \<Rightarrow> index" where
  "add_blob dates e idx =
     (case parse_name (de_name e) ''.blob'' of
        None \<Rightarrow> idx
      | Some ((d, v, c), sha) \<Rightarrow>
          let b = of_nat (length (blobs idx)) in
          idx\<lparr>blob_by_key := (blob_by_key idx)((d, v, c) \<mapsto> b),
              blobs := blobs idx @
                [\<lparr>bf_path = ''blobs/'' @ de_name e, file_name = de_name e, bf_depot = d,
                  bf_version = v, bf_crc = c, bf_size = de_size e, bf_date = dates (de_name e),
                  bf_sha256 = (if length sha = 64 then Some sha else None)\<rparr>],
              depots := update_depot d (\<lambda>dep. dep\<lparr>depot_blobs := depot_blobs dep @ [b]\<rparr>) (depots idx)\<rparr>)"

definition add_dat :: "dir_entry \<Rightarrow> index \<Rightarrow> index" where
  "add_dat e idx =
     (let (name, inc) = (case strip_suffix ''.!qB'' (de_name e) of
            Some n \<Rightarrow> (n, True) | None \<Rightarrow> (de_name e, False))
      in case parse_name name ''.dat'' of
        None \<Rightarrow> idx
      | Some (k, _) \<Rightarrow>
          let i = of_nat (length (dats idx));
              keyed = (case dat_by_key idx k of
                  Some prev \<Rightarrow> if incomplete (dats idx ! unat prev) then i else prev
                | None \<Rightarrow> i)
          in idx\<lparr>dat_by_key := (dat_by_key idx)(k \<mapsto> keyed),
                 dats := dats idx @
                   [\<lparr>df_path = ''dats/'' @ de_name e, df_depot = fst k, df_version = fst (snd k),
                     df_crc = snd (snd k), df_size = de_size e, incomplete = inc\<rparr>]\<rparr>)"

definition index_blob :: "index \<Rightarrow> blob_id \<Rightarrow> blob_file" where
  "index_blob idx b = blobs idx ! unat b"

definition index_dat :: "index \<Rightarrow> dat_id \<Rightarrow> dat_file" where
  "index_dat idx d = dats idx ! unat d"

definition version_name :: "blob_file list \<Rightarrow> blob_id list \<Rightarrow> blob_id \<Rightarrow> string" where
  "version_name bs ids b =
     (let e = bs ! unat b in
      if 1 < length (filter (\<lambda>x. bf_version (bs ! unat x) = bf_version e) ids)
      then show_dec (unat (bf_version e)) @ CHR ''-'' # hex8 (bf_crc e)
      else show_dec (unat (bf_version e)))"

definition link_name :: "blob_file list \<Rightarrow> blob_id list \<Rightarrow> blob_id \<Rightarrow> string" where
  "link_name bs ids b =
     (case bf_date (bs ! unat b) of None \<Rightarrow> ''unknown'' | Some t \<Rightarrow> format_stamp (fst t)) @
     ''_v'' @ version_name bs ids b"

text \<open>Collecting pairs into a hash map keeps the last value of a key.\<close>

definition collect :: "('k \<times> 'v) list \<Rightarrow> 'k \<rightharpoonup> 'v" where
  "collect xs = map_of (rev xs)"

definition finish_depot :: "blob_file list \<Rightarrow> depot \<Rightarrow> depot" where
  "finish_depot bs dep =
     (let ids = sort_key (\<lambda>b. (bf_version (bs ! unat b), bf_crc (bs ! unat b))) (depot_blobs dep);
          ns = map (\<lambda>b. (version_name bs ids b, link_name bs ids b)) ids;
          order = sort_key (\<lambda>i. as_bytes (snd (ns ! i))) [0..<length ids]
      in dep\<lparr>depot_blobs := ids, dep_names := ns,
             index_of := collect (zip ids [0..<length ids]),
             dep_by_name := collect (zip (map fst ns) ids),
             by_date_link := collect (zip (map snd ns) ids),
             date_order := map (\<lambda>i. ids ! i) order\<rparr>)"

definition index_load :: "backend \<Rightarrow> index_error + index" where
  "index_load be =
     rbind (load_dates be) (\<lambda>dates.
     rbind (map_err (Listing ''blobs'') (be_list_dir be ''blobs'')) (\<lambda>bes.
     let idx1 = fold (add_blob dates) bes index_default in
     rbind (map_err (Listing ''dats'') (be_list_dir be ''dats'')) (\<lambda>des.
     let idx2 = fold add_dat des idx1 in
     Inr (idx2\<lparr>depots := map (\<lambda>(d, dep). (d, finish_depot (blobs idx2) dep)) (depots idx2)\<rparr>))))"

subsection \<open>Queries\<close>

definition index_depot :: "index \<Rightarrow> u32 \<Rightarrow> depot option" where
  "index_depot idx d = map_of (depots idx) d"

definition find_blob :: "index \<Rightarrow> u32 \<Rightarrow> u32 \<Rightarrow> u32 \<Rightarrow> blob_id option" where
  "find_blob idx d v c = blob_by_key idx (d, v, c)"

definition find_dat :: "index \<Rightarrow> u32 \<Rightarrow> u32 \<Rightarrow> u32 \<Rightarrow> dat_id option" where
  "find_dat idx d v c = dat_by_key idx (d, v, c)"

definition blobs_with_version :: "index \<Rightarrow> u32 \<Rightarrow> u32 \<Rightarrow> blob_id list" where
  "blobs_with_version idx d v =
     (case index_depot idx d of
        None \<Rightarrow> []
      | Some dep \<Rightarrow> filter (\<lambda>b. bf_version (index_blob idx b) = v) (depot_blobs dep))"

text \<open>\<open>max_by_key\<close>: the last of the elements with the largest key.\<close>

fun max_by_key :: "('a \<Rightarrow> 'k::linorder) \<Rightarrow> 'a list \<Rightarrow> 'a option" where
  "max_by_key key [] = None"
| "max_by_key key (x # xs) =
     (case max_by_key key xs of
        None \<Rightarrow> Some x
      | Some y \<Rightarrow> if key y < key x then Some x else Some y)"

definition latest :: "index \<Rightarrow> u32 \<Rightarrow> blob_id option" where
  "latest idx d =
     (case index_depot idx d of
        None \<Rightarrow> None
      | Some dep \<Rightarrow>
          if depot_blobs dep = [] then None
          else max_by_key (\<lambda>b. bf_date (index_blob idx b))
            (blobs_with_version idx d (bf_version (index_blob idx (last (depot_blobs dep))))))"

section \<open>Names\<close>

lemma splitn_four:
  assumes "c \<notin> set a" and "c \<notin> set b" and "c \<notin> set d"
  shows "splitn 4 c (a @ c # b @ c # d @ c # e) = [a, b, d, e]"
proof -
  have "splitn (Suc (Suc (Suc (Suc 0)))) c (a @ c # b @ c # d @ c # e) = [a, b, d, e]"
    using assms by (simp add: split_once_append)
  then show ?thesis by (simp add: eval_nat_numeral)
qed

text \<open>The name of a blob or dat file.\<close>

definition file_stem :: "u32 \<Rightarrow> u32 \<Rightarrow> u32 \<Rightarrow> string \<Rightarrow> string" where
  "file_stem d v c sha =
     show_dec (unat d) @ CHR ''_'' # show_dec (unat v) @ CHR ''_'' # hex8 c @ CHR ''_'' # sha"

lemma not_underscore: "CHR ''_'' \<notin> set (show_dec n)" "CHR ''_'' \<notin> set (hex8 x)"
proof -
  have "CHR ''_'' \<notin> set ''0123456789''" "CHR ''_'' \<notin> set ''0123456789abcdef''" by simp_all
  then show "CHR ''_'' \<notin> set (show_dec n)" "CHR ''_'' \<notin> set (hex8 x)"
    using show_dec_chars [of n] hex8_chars [of x] by blast+
qed

lemma parse_name_stem: "parse_name (file_stem d v c sha @ ext) ext = Some ((d, v, c), sha)"
proof -
  have "splitn 4 CHR ''_'' (file_stem d v c sha) = [show_dec (unat d), show_dec (unat v), hex8 c, sha]"
    by (simp add: file_stem_def splitn_four not_underscore)
  then show ?thesis by (simp add: parse_name_def)
qed

section \<open>The depots while loading\<close>

definition ascending_keys :: "(u32 \<times> 'd) list \<Rightarrow> bool" where
  "ascending_keys xs \<longleftrightarrow> sorted_wrt (<) (map fst xs)"

lemma update_depot_keys: "fst ` set (update_depot k f xs) = insert k (fst ` set xs)"
  by (induction k f xs rule: update_depot.induct) auto

lemma update_depot_ascending:
  "ascending_keys xs \<Longrightarrow> ascending_keys (update_depot k f xs)"
proof (induction k f xs rule: update_depot.induct)
  case (1 k f)
  then show ?case by (simp add: ascending_keys_def)
next
  case (2 k f j d r)
  then show ?case
    using update_depot_keys [of k f r]
    by (fastforce simp: ascending_keys_def)
qed

lemma update_depot_map:
  assumes "ascending_keys xs"
  shows "map_of (update_depot k f xs) j =
    (if j = k then Some (f (case map_of xs k of None \<Rightarrow> depot_default | Some d \<Rightarrow> d)) else map_of xs j)"
  using assms
proof (induction k f xs rule: update_depot.induct)
  case (1 k f)
  then show ?case by simp
next
  case (2 k f i d r)
  have "k \<notin> fst ` set r" if "k < i"
    using that "2.prems" by (fastforce simp: ascending_keys_def)
  then have "k < i \<Longrightarrow> map_of r k = None" by (simp add: map_of_eq_None_iff)
  moreover have "ascending_keys r" using "2.prems" by (simp add: ascending_keys_def)
  ultimately show ?case using "2.IH" by auto
qed

text \<open>The blobs of one depot, in the order they were listed.\<close>

definition ids_of :: "blob_file list \<Rightarrow> u32 \<Rightarrow> blob_id list" where
  "ids_of bs d = map of_nat (filter (\<lambda>i. bf_depot (bs ! i) = d) [0..<length bs])"

lemma ids_of_snoc:
  "ids_of (bs @ [b]) d = ids_of bs d @ (if bf_depot b = d then [of_nat (length bs)] else [])"
proof -
  have "filter (\<lambda>i. bf_depot ((bs @ [b]) ! i) = d) [0..<length bs] =
      filter (\<lambda>i. bf_depot (bs ! i) = d) [0..<length bs]"
    by (rule filter_cong) (auto simp: nth_append)
  then show ?thesis by (simp add: ids_of_def)
qed

definition blob_key :: "blob_file \<Rightarrow> u32 \<times> u32 \<times> u32" where
  "blob_key b = (bf_depot b, bf_version b, bf_crc b)"

definition dat_key :: "dat_file \<Rightarrow> u32 \<times> u32 \<times> u32" where
  "dat_key b = (df_depot b, df_version b, df_crc b)"

definition gathered :: "index \<Rightarrow> bool" where
  "gathered idx \<longleftrightarrow> ascending_keys (depots idx) \<and>
     (\<forall>d. map_of (depots idx) d =
        (if ids_of (blobs idx) d = [] then None
         else Some (depot_default\<lparr>depot_blobs := ids_of (blobs idx) d\<rparr>)))"

lemma gathered_add_blob: "gathered idx \<Longrightarrow> gathered (add_blob dates e idx)"
proof -
  assume g: "gathered idx"
  show ?thesis
  proof (cases "parse_name (de_name e) ''.blob''")
    case None
    with g show ?thesis by (simp add: add_blob_def)
  next
    case (Some p)
    obtain d v c sha where p: "p = ((d, v, c), sha)" by (metis prod.exhaust)
    show ?thesis
      using g
      by (auto simp: gathered_def add_blob_def Some p Let_def update_depot_ascending
          update_depot_map ids_of_snoc depot_default_def)
  qed
qed

lemma gathered_add_dat: "gathered idx \<Longrightarrow> gathered (add_dat e idx)"
  by (auto simp: gathered_def add_dat_def Let_def split: option.splits prod.splits)

text \<open>
  The identifiers a map finds by key are positions in the list, of an element with that key; every
  element's key is found.
\<close>

definition keyed :: "('a \<Rightarrow> 'k) \<Rightarrow> 'a list \<Rightarrow> ('k \<rightharpoonup> u32) \<Rightarrow> bool" where
  "keyed key xs m \<longleftrightarrow>
     (\<forall>k b. m k = Some b \<longrightarrow> (\<exists>i < length xs. b = of_nat i \<and> key (xs ! i) = k)) \<and>
     (\<forall>x \<in> set xs. m (key x) \<noteq> None)"

lemma keyed_snoc:
  assumes "keyed key xs m" and "b = of_nat (length xs) \<or> m (key x) = Some b"
  shows "keyed key (xs @ [x]) (m(key x \<mapsto> b))"
proof -
  have old: "\<exists>i < length (xs @ [x]). c = of_nat i \<and> key ((xs @ [x]) ! i) = k" if "m k = Some c" for k c
    using assms(1) that unfolding keyed_def
    by (metis butlast_snoc length_append_singleton less_SucI nth_butlast)
  have new: "\<exists>i < length (xs @ [x]). of_nat (length xs) = (of_nat i :: u32) \<and> key ((xs @ [x]) ! i) = key x"
    by (intro exI [of _ "length xs"]) simp
  have "\<exists>i < length (xs @ [x]). c = of_nat i \<and> key ((xs @ [x]) ! i) = k"
    if "(m(key x \<mapsto> b)) k = Some c" for k c
    using that assms(2) old [of k c] new by (cases "k = key x") auto
  moreover have "\<forall>y \<in> set (xs @ [x]). (m(key x \<mapsto> b)) (key y) \<noteq> None"
    using assms(1) by (auto simp: keyed_def)
  ultimately show ?thesis unfolding keyed_def by blast
qed

text \<open>What one directory entry adds.\<close>

lemma add_blob_cases:
  obtains "add_blob dates e idx = idx"
  | x where "blobs (add_blob dates e idx) = blobs idx @ [x]"
      "blob_by_key (add_blob dates e idx) = (blob_by_key idx)(blob_key x \<mapsto> of_nat (length (blobs idx)))"
      "dats (add_blob dates e idx) = dats idx" "dat_by_key (add_blob dates e idx) = dat_by_key idx"
proof (cases "parse_name (de_name e) ''.blob''")
  case None
  with that(1) show ?thesis by (simp add: add_blob_def)
next
  case (Some p)
  obtain d v c sha where p: "p = ((d, v, c), sha)" by (metis prod.exhaust)
  let ?x = "\<lparr>bf_path = ''blobs/'' @ de_name e, file_name = de_name e, bf_depot = d,
    bf_version = v, bf_crc = c, bf_size = de_size e, bf_date = dates (de_name e),
    bf_sha256 = (if length sha = 64 then Some sha else None)\<rparr>"
  show ?thesis
    by (rule that(2) [of ?x]) (simp_all add: add_blob_def Some p Let_def blob_key_def)
qed

definition keyed_dat :: "dat_file list \<Rightarrow> dat_id option \<Rightarrow> dat_id" where
  "keyed_dat ds old =
     (case old of
        Some prev \<Rightarrow> if incomplete (ds ! unat prev) then of_nat (length ds) else prev
      | None \<Rightarrow> of_nat (length ds))"

lemma add_dat_cases:
  obtains "add_dat e idx = idx"
  | x where "dats (add_dat e idx) = dats idx @ [x]"
      "dat_by_key (add_dat e idx) =
         (dat_by_key idx)(dat_key x \<mapsto> keyed_dat (dats idx) (dat_by_key idx (dat_key x)))"
      "blobs (add_dat e idx) = blobs idx" "blob_by_key (add_dat e idx) = blob_by_key idx"
proof -
  define nm where "nm = (case strip_suffix ''.!qB'' (de_name e) of
      Some n \<Rightarrow> (n, True) | None \<Rightarrow> (de_name e, False))"
  show thesis
  proof (cases "parse_name (fst nm) ''.dat''")
    case None
    then show thesis
      using that(1) by (simp add: add_dat_def nm_def [symmetric] case_prod_unfold)
  next
    case (Some p)
    obtain d v c sha where p: "p = ((d, v, c), sha)" by (metis prod.exhaust)
    let ?x = "\<lparr>df_path = ''dats/'' @ de_name e, df_depot = d, df_version = v,
      df_crc = c, df_size = de_size e, incomplete = snd nm\<rparr>"
    show thesis
      by (rule that(2) [of ?x]) (simp_all add: add_dat_def nm_def [symmetric] case_prod_unfold Some p
          Let_def dat_key_def keyed_dat_def split: option.split)
  qed
qed

lemma keyed_add_blob:
  assumes "keyed blob_key (blobs idx) (blob_by_key idx)"
  shows "keyed blob_key (blobs (add_blob dates e idx)) (blob_by_key (add_blob dates e idx))"
  using assms by (cases rule: add_blob_cases [of dates e idx]) (simp_all add: keyed_snoc)

text \<open>A dat found by key is incomplete only when every dat with that key is.\<close>

definition prefers_complete :: "dat_file list \<Rightarrow> (u32 \<times> u32 \<times> u32 \<rightharpoonup> dat_id) \<Rightarrow> bool" where
  "prefers_complete ds m \<longleftrightarrow>
     (\<forall>k b. m k = Some b \<longrightarrow> incomplete (ds ! unat b) \<longrightarrow>
        (\<forall>x \<in> set ds. dat_key x = k \<longrightarrow> incomplete x))"

definition dats_ok :: "index \<Rightarrow> bool" where
  "dats_ok idx \<longleftrightarrow>
     (length (dats idx) < 4294967296 \<longrightarrow>
        keyed dat_key (dats idx) (dat_by_key idx) \<and> prefers_complete (dats idx) (dat_by_key idx))"

lemma keyed_range:
  assumes "keyed key xs m" and "length xs < 4294967296" and "m k = Some b"
  shows "unat b < length xs \<and> key (xs ! unat b) = k"
proof -
  from assms obtain i where "i < length xs" "b = of_nat i" "key (xs ! i) = k"
    by (auto simp: keyed_def)
  with assms(2) show ?thesis by (simp add: unat_of_nat)
qed

lemma dats_ok_add: "dats_ok idx \<Longrightarrow> dats_ok (add_dat e idx)"
proof (cases rule: add_dat_cases [of e idx])
  case (2 x)
  assume ok: "dats_ok idx"
  let ?ds = "dats idx" and ?m = "dat_by_key idx"
  define b where "b = keyed_dat ?ds (?m (dat_key x))"
  show ?thesis
    unfolding dats_ok_def 2 b_def [symmetric]
  proof
    assume len: "length (?ds @ [x]) < 4294967296"
    with ok have k: "keyed dat_key ?ds ?m" and p: "prefers_complete ?ds ?m"
      by (auto simp: dats_ok_def)
    have range: "unat c < length ?ds" if "?m j = Some c" for j c
      using keyed_range [OF k _ that] len by simp
    have "b = of_nat (length ?ds) \<or> ?m (dat_key x) = Some b"
      by (auto simp: b_def keyed_dat_def split: option.split)
    from keyed_snoc [OF k this] have "keyed dat_key (?ds @ [x]) (?m(dat_key x \<mapsto> b))" .
    moreover have "prefers_complete (?ds @ [x]) (?m(dat_key x \<mapsto> b))"
      unfolding prefers_complete_def
    proof (intro allI impI ballI)
      fix j c y
      assume jc: "(?m(dat_key x \<mapsto> b)) j = Some c" and inc: "incomplete ((?ds @ [x]) ! unat c)"
        and y: "y \<in> set (?ds @ [x])" "dat_key y = j"
      show "incomplete y"
      proof (cases "j = dat_key x")
        case False
        with jc have m: "?m j = Some c" by simp
        have "(?ds @ [x]) ! unat c = ?ds ! unat c"
          using range [OF m] by (simp add: nth_append)
        with inc have "incomplete (?ds ! unat c)" by simp
        moreover have "y \<in> set ?ds" using y False by auto
        ultimately show ?thesis using p m y(2) unfolding prefers_complete_def by blast
      next
        case True
        with jc have c: "c = b" by simp
        have at: "unat (of_nat (length ?ds) :: u32) = length ?ds" using len by (simp add: unat_of_nat)
        show ?thesis
        proof (cases "?m (dat_key x)")
          case None
          with k y True have "y = x" by (auto simp: keyed_def)
          with inc c None at show ?thesis by (simp add: b_def keyed_dat_def)
        next
          case (Some prev)
          with inc c at range [OF Some] have new: "incomplete (?ds ! unat prev)" "incomplete x"
            by (auto simp: b_def keyed_dat_def nth_append split: if_splits)
          have "y = x \<or> y \<in> set ?ds" using y by auto
          with new Some p y(2) True show ?thesis unfolding prefers_complete_def by blast
        qed
      qed
    qed
    ultimately show "keyed dat_key (?ds @ [x]) (?m(dat_key x \<mapsto> b)) \<and>
        prefers_complete (?ds @ [x]) (?m(dat_key x \<mapsto> b))" by blast
  qed
qed simp

section \<open>The loaded index\<close>

definition index_inv :: "index \<Rightarrow> bool" where
  "index_inv idx \<longleftrightarrow>
     ascending_keys (depots idx) \<and>
     (\<forall>d. index_depot idx d =
        (if ids_of (blobs idx) d = [] then None
         else Some (finish_depot (blobs idx) (depot_default\<lparr>depot_blobs := ids_of (blobs idx) d\<rparr>)))) \<and>
     keyed blob_key (blobs idx) (blob_by_key idx) \<and> dats_ok idx"

lemma fold_invariant: "P s \<Longrightarrow> (\<And>x s. P s \<Longrightarrow> P (f x s)) \<Longrightarrow> P (fold f xs s)"
  by (induction xs arbitrary: s) simp_all

lemma dats_ok_add_blob: "dats_ok idx \<Longrightarrow> dats_ok (add_blob dates e idx)"
  by (cases rule: add_blob_cases [of dates e idx]) (simp_all add: dats_ok_def)

lemma keyed_blobs_add_dat:
  "keyed blob_key (blobs idx) (blob_by_key idx) \<Longrightarrow>
   keyed blob_key (blobs (add_dat e idx)) (blob_by_key (add_dat e idx))"
  by (cases rule: add_dat_cases [of e idx]) simp_all

lemma map_of_finish: "map_of (map (\<lambda>(d, dep). (d, g dep)) xs) d = map_option g (map_of xs d)"
  by (induction xs) auto

lemma index_load_inv:
  assumes "index_load be = Inr idx"
  shows "index_inv idx"
proof -
  from assms obtain dates bes des where
    idx: "idx = (let i2 = fold add_dat des (fold (add_blob dates) bes index_default)
      in i2\<lparr>depots := map (\<lambda>(d, dep). (d, finish_depot (blobs i2) dep)) (depots i2)\<rparr>)"
    by (auto simp: index_load_def rbind_Inr_iff Let_def)
  define i2 where "i2 = fold add_dat des (fold (add_blob dates) bes index_default)"
  let ?P = "\<lambda>i. gathered i \<and> keyed blob_key (blobs i) (blob_by_key i) \<and> dats_ok i"
  have "?P index_default"
    by (simp add: gathered_def index_default_def ascending_keys_def ids_of_def keyed_def dats_ok_def
        prefers_complete_def)
  then have "?P (fold (add_blob dates) bes index_default)"
    by (rule fold_invariant) (simp add: gathered_add_blob keyed_add_blob dats_ok_add_blob)
  then have P: "?P i2"
    unfolding i2_def
    by (rule fold_invariant) (simp add: gathered_add_dat keyed_blobs_add_dat dats_ok_add)
  have f: "blobs idx = blobs i2" "dats idx = dats i2" "blob_by_key idx = blob_by_key i2"
    "dat_by_key idx = dat_by_key i2"
    "depots idx = map (\<lambda>(d, dep). (d, finish_depot (blobs i2) dep)) (depots i2)"
    by (simp_all add: idx i2_def [symmetric] Let_def)
  have "map fst (depots idx) = map fst (depots i2)"
    by (simp add: f comp_def case_prod_unfold)
  then have "ascending_keys (depots idx)"
    using P by (simp add: gathered_def ascending_keys_def)
  then show ?thesis
    using P unfolding index_inv_def index_depot_def gathered_def dats_ok_def
    by (simp add: f map_of_finish)
qed

section \<open>Version names\<close>

lemma set_ids_of:
  assumes "length bs < 4294967296"
  shows "b \<in> set (ids_of bs d) \<longleftrightarrow> unat b < length bs \<and> bf_depot (bs ! unat b) = d"
proof
  assume "b \<in> set (ids_of bs d)"
  then obtain i where "i < length bs" "bf_depot (bs ! i) = d" "b = of_nat i"
    by (auto simp: ids_of_def)
  with assms show "unat b < length bs \<and> bf_depot (bs ! unat b) = d" by (simp add: unat_of_nat)
next
  assume "unat b < length bs \<and> bf_depot (bs ! unat b) = d"
  then have "of_nat (unat b) \<in> set (ids_of bs d)"
    unfolding ids_of_def set_map by (intro imageI) simp
  then show "b \<in> set (ids_of bs d)" by simp
qed

lemma distinct_ids_of:
  assumes "length bs < 4294967296"
  shows "distinct (ids_of bs d)"
proof -
  have "inj_on (of_nat :: nat \<Rightarrow> u32) {0..<length bs}"
    using assms by (auto simp: inj_on_def dest!: arg_cong [where f = unat] simp: unat_of_nat)
  then show ?thesis
    unfolding ids_of_def by (simp add: distinct_map inj_on_def)
qed

lemma not_dash: "CHR ''-'' \<notin> set (show_dec n)" "CHR ''-'' \<notin> set (hex8 x)"
proof -
  have "CHR ''-'' \<notin> set ''0123456789''" "CHR ''-'' \<notin> set ''0123456789abcdef''" by simp_all
  then show "CHR ''-'' \<notin> set (show_dec n)" "CHR ''-'' \<notin> set (hex8 x)"
    using show_dec_chars [of n] hex8_chars [of x] by blast+
qed

text \<open>The version and the crc, when it is there, can be read off a version name.\<close>

lemma version_name_parts:
  "version_name bs ids b = show_dec (unat (bf_version (bs ! unat b))) \<and>
     length (filter (\<lambda>x. bf_version (bs ! unat x) = bf_version (bs ! unat b)) ids) \<le> 1
   \<or> version_name bs ids b = show_dec (unat (bf_version (bs ! unat b))) @ CHR ''-'' # hex8 (bf_crc (bs ! unat b))"
  by (auto simp: version_name_def Let_def)

lemma two_in_filter:
  assumes "a \<in> set xs" and "b \<in> set xs" and "a \<noteq> b" and "P a" and "P b"
  shows "1 < length (filter P xs)"
proof -
  have "card {a, b} \<le> card (set (filter P xs))"
    using assms by (intro card_mono) auto
  also have "\<dots> \<le> length (filter P xs)" by (rule card_length)
  finally show ?thesis using assms(3) by simp
qed

definition no_twins :: "blob_file list \<Rightarrow> blob_id list \<Rightarrow> bool" where
  "no_twins bs ids \<longleftrightarrow>
     inj_on (\<lambda>b. (bf_version (bs ! unat b), bf_crc (bs ! unat b))) (set ids)"

lemma version_name_inj:
  assumes "no_twins bs ids" and "b \<in> set ids" and "b' \<in> set ids"
    and "version_name bs ids b = version_name bs ids b'"
  shows "b = b'"
proof (rule ccontr)
  assume ne: "b \<noteq> b'"
  let ?v = "bf_version (bs ! unat b)" and ?v' = "bf_version (bs ! unat b')"
  let ?c = "bf_crc (bs ! unat b)" and ?c' = "bf_crc (bs ! unat b')"
  have key: "(?v, ?c) \<noteq> (?v', ?c')"
    using assms(1-3) ne by (auto simp: no_twins_def inj_on_def)
  have so: "split_once CHR ''-'' (show_dec n @ CHR ''-'' # h) = Some (show_dec n, h)"
    "split_once CHR ''-'' (show_dec n) = None" for n h
    by (simp_all add: split_once_append split_once_None not_dash)
  have "?v = ?v'"
    using version_name_parts [of bs ids b] version_name_parts [of bs ids b'] assms(4)
      so(1) [of "unat ?v" "hex8 ?c"] so(1) [of "unat ?v'" "hex8 ?c'"] so(2) [of "unat ?v"]
      so(2) [of "unat ?v'"]
    by (auto simp: show_dec_u32_inj)
  moreover from this have "1 < length (filter (\<lambda>x. bf_version (bs ! unat x) = ?v) ids)"
    using two_in_filter [OF assms(2,3) ne] by simp
  ultimately have "hex8 ?c = hex8 ?c'"
    using assms(4) by (simp add: version_name_def Let_def)
  with \<open>?v = ?v'\<close> key show False by (simp add: hex8_inj)
qed

lemma collect_distinct: "distinct (map fst xs) \<Longrightarrow> collect xs k = Some v \<longleftrightarrow> (k, v) \<in> set xs"
  by (simp add: collect_def rev_map [symmetric] del: rev_map)

section \<open>A finished depot\<close>

abbreviation depot_of :: "blob_file list \<Rightarrow> u32 \<Rightarrow> depot" where
  "depot_of bs d \<equiv> finish_depot bs (depot_default\<lparr>depot_blobs := ids_of bs d\<rparr>)"

abbreviation sorted_ids :: "blob_file list \<Rightarrow> u32 \<Rightarrow> blob_id list" where
  "sorted_ids bs d \<equiv> sort_key (\<lambda>b. (bf_version (bs ! unat b), bf_crc (bs ! unat b))) (ids_of bs d)"

lemma depot_of_fields:
  "depot_blobs (depot_of bs d) = sorted_ids bs d"
  "dep_names (depot_of bs d) = map (\<lambda>b. (version_name bs (sorted_ids bs d) b,
      link_name bs (sorted_ids bs d) b)) (sorted_ids bs d)"
  "index_of (depot_of bs d) = collect (zip (sorted_ids bs d) [0..<length (sorted_ids bs d)])"
  "dep_by_name (depot_of bs d) =
     collect (map (\<lambda>b. (version_name bs (sorted_ids bs d) b, b)) (sorted_ids bs d))"
  "by_date_link (depot_of bs d) =
     collect (map (\<lambda>b. (link_name bs (sorted_ids bs d) b, b)) (sorted_ids bs d))"
  by (simp_all add: finish_depot_def Let_def depot_default_def zip_map1 zip_same_conv_map comp_def)

lemma versions_depot_of:
  "versions (depot_of bs d) = map (\<lambda>b. (version_name bs (sorted_ids bs d) b, b)) (sorted_ids bs d)"
  by (simp add: versions_def depot_of_fields zip_map1 zip_same_conv_map comp_def)

lemma sorted_ids_facts:
  assumes "length bs < 4294967296"
  shows "distinct (sorted_ids bs d)"
    and "b \<in> set (sorted_ids bs d) \<longleftrightarrow> unat b < length bs \<and> bf_depot (bs ! unat b) = d"
  using distinct_ids_of [OF assms, of d] set_ids_of [OF assms, of b d] by simp_all

lemma collect_positions:
  assumes "distinct ids"
  shows "collect (zip ids [0..<length ids]) b = Some i \<longleftrightarrow> i < length ids \<and> ids ! i = b"
proof -
  have "distinct (map fst (zip ids [0..<length ids]))" using assms by (simp add: map_fst_zip)
  from collect_distinct [OF this] show ?thesis by (auto simp: set_zip)
qed

lemma nth_of_position:
  assumes "distinct ids"
  shows "Option.bind (collect (zip ids [0..<length ids]) b) (nth_opt (map f ids)) =
    (if b \<in> set ids then Some (f b) else None)"
proof (cases "collect (zip ids [0..<length ids]) b")
  case None
  with collect_positions [OF assms, of b] have "b \<notin> set ids"
    by (auto simp: in_set_conv_nth)
  with None show ?thesis by simp
next
  case (Some i)
  with collect_positions [OF assms, of b i] have "i < length ids" "ids ! i = b" by simp_all
  moreover from this have "b \<in> set ids" by (metis nth_mem)
  ultimately show ?thesis using Some by (simp add: nth_opt_def)
qed

lemma depot_nth_depot_of:
  assumes "length bs < 4294967296"
  shows "depot_nth (depot_of bs d) b =
    (if b \<in> set (sorted_ids bs d)
     then Some (version_name bs (sorted_ids bs d) b, link_name bs (sorted_ids bs d) b) else None)"
  unfolding depot_nth_def depot_of_fields
  by (rule nth_of_position [OF sorted_ids_facts(1) [OF assms]])

lemma lookup_name_depot_of:
  assumes "length bs < 4294967296" and "no_twins bs (sorted_ids bs d)"
  shows "lookup_name (depot_of bs d) n = Some b \<longleftrightarrow>
    b \<in> set (sorted_ids bs d) \<and> n = version_name bs (sorted_ids bs d) b"
proof -
  let ?ids = "sorted_ids bs d"
  have "inj_on (version_name bs ?ids) (set ?ids)"
    using version_name_inj [OF assms(2)] by (auto simp: inj_on_def)
  then have "distinct (map fst (map (\<lambda>b. (version_name bs ?ids b, b)) ?ids))"
    using sorted_ids_facts(1) [OF assms(1)] by (simp add: distinct_map comp_def del: set_sort)
  from collect_distinct [OF this] show ?thesis
    unfolding lookup_name_def depot_of_fields by auto
qed

lemma underscore_cut:
  assumes "xs @ c # ys = xs' @ c # ys'" and "c \<notin> set ys" and "c \<notin> set ys'"
  shows "ys = ys'"
proof -
  have cut: "takeWhile (\<lambda>x. x \<noteq> c) (rev ys @ c # zs) = rev ys" if "c \<notin> set ys" for zs ys
  proof -
    have "takeWhile (\<lambda>x. x \<noteq> c) (rev ys @ c # zs) = rev ys @ takeWhile (\<lambda>x. x \<noteq> c) (c # zs)"
      by (rule takeWhile_append2) (metis that set_rev)
    also have "\<dots> = rev ys" by (simp only: takeWhile.simps simp_thms if_False append_Nil2)
    finally show ?thesis .
  qed
  have "rev ys @ c # rev xs = rev ys' @ c # rev xs'"
    using arg_cong [OF assms(1), of rev] by simp
  with cut [OF assms(2), of "rev xs"] cut [OF assms(3), of "rev xs'"] have "rev ys = rev ys'"
    by (simp only:)
  then show ?thesis by simp
qed

lemma version_name_chars: "CHR ''_'' \<notin> set (version_name bs ids b)"
proof -
  have ne: "CHR ''_'' \<noteq> CHR ''-''" by simp
  from version_name_parts [of bs ids b] show ?thesis
  proof (elim disjE conjE)
    assume e: "version_name bs ids b = show_dec (unat (bf_version (bs ! unat b)))"
    show ?thesis unfolding e by (rule not_underscore)
  next
    assume e: "version_name bs ids b =
      show_dec (unat (bf_version (bs ! unat b))) @ CHR ''-'' # hex8 (bf_crc (bs ! unat b))"
    show ?thesis unfolding e set_append list.set using not_underscore ne by blast
  qed
qed

lemma link_name_inj:
  assumes "no_twins bs ids" and "b \<in> set ids" and "b' \<in> set ids" and "link_name bs ids b = link_name bs ids b'"
  shows "b = b'"
proof -
  let ?p = "\<lambda>b. case bf_date (bs ! unat b) of None \<Rightarrow> ''unknown'' | Some t \<Rightarrow> format_stamp (fst t)"
  have l: "link_name bs ids a = ?p a @ CHR ''_'' # (CHR ''v'' # version_name bs ids a)" for a
    unfolding link_name_def by simp
  have no: "CHR ''_'' \<notin> set (CHR ''v'' # version_name bs ids a)" for a
    using version_name_chars [of bs ids a] by simp
  from underscore_cut [OF assms(4) [unfolded l] no no]
  have "version_name bs ids b = version_name bs ids b'" by simp
  then show ?thesis by (rule version_name_inj [OF assms(1-3)])
qed

lemma lookup_date_link_depot_of:
  assumes "length bs < 4294967296" and "no_twins bs (sorted_ids bs d)"
  shows "lookup_date_link (depot_of bs d) n = Some b \<longleftrightarrow>
    b \<in> set (sorted_ids bs d) \<and> n = link_name bs (sorted_ids bs d) b"
proof -
  let ?ids = "sorted_ids bs d"
  have "inj_on (link_name bs ?ids) (set ?ids)"
    using link_name_inj [OF assms(2)] by (auto simp: inj_on_def)
  then have "distinct (map fst (map (\<lambda>b. (link_name bs ?ids b, b)) ?ids))"
    using sorted_ids_facts(1) [OF assms(1)] by (simp add: distinct_map comp_def del: set_sort)
  from collect_distinct [OF this] show ?thesis
    unfolding lookup_date_link_def depot_of_fields by auto
qed

section \<open>The latest version\<close>

lemma max_by_key_correct:
  "max_by_key key xs = Some x \<Longrightarrow> x \<in> set xs \<and> (\<forall>y \<in> set xs. key y \<le> key x)"
proof (induction xs arbitrary: x)
  case Nil
  then show ?case by simp
next
  case (Cons a xs)
  show ?case
  proof (cases "max_by_key key xs")
    case None
    then have "xs = []" by (cases xs) (auto split: option.splits if_splits)
    with Cons.prems show ?thesis by simp
  next
    case (Some y)
    with Cons.IH [OF Some] Cons.prems show ?thesis
      by (auto split: if_splits intro: order.trans less_imp_le)
  qed
qed

lemma max_by_key_None: "max_by_key key xs = None \<longleftrightarrow> xs = []"
  by (cases xs) (auto split: option.splits)

lemma last_is_largest:
  assumes "xs \<noteq> []" and "sorted (map key xs)" and "x \<in> set xs"
  shows "key x \<le> key (last xs)"
proof -
  from assms(3) obtain i where "i < length xs" "x = xs ! i" by (auto simp: in_set_conv_nth)
  with assms(1,2) show ?thesis
    using sorted_key_mono [OF assms(2), of i "length xs - 1"] by (simp add: last_conv_nth)
qed

section \<open>Depots of a loaded index\<close>

lemma index_depot_eq:
  assumes "index_inv idx" and "index_depot idx d = Some dep"
  shows "dep = depot_of (blobs idx) d" and "ids_of (blobs idx) d \<noteq> []"
  using assms by (auto simp: index_inv_def split: if_splits)

lemma loaded_depot:
  assumes "index_inv idx" and "length (blobs idx) < 4294967296" and "index_depot idx d = Some dep"
  shows "set (depot_blobs dep) = {b. unat b < length (blobs idx) \<and> bf_depot (index_blob idx b) = d} \<and>
    distinct (depot_blobs dep) \<and> depot_blobs dep \<noteq> [] \<and>
    sorted (map (\<lambda>b. (bf_version (index_blob idx b), bf_crc (index_blob idx b))) (depot_blobs dep))"
proof -
  note dep = index_depot_eq [OF assms(1,3)]
  have b: "depot_blobs dep = sorted_ids (blobs idx) d" by (simp only: dep(1) depot_of_fields)
  have "set (depot_blobs dep) = {b. unat b < length (blobs idx) \<and> bf_depot (index_blob idx b) = d}"
    unfolding b index_blob_def using set_ids_of [OF assms(2)] by (auto simp: set_eq_iff)
  moreover have "distinct (depot_blobs dep)"
    unfolding b by (rule sorted_ids_facts(1) [OF assms(2)])
  moreover have "length (depot_blobs dep) = length (ids_of (blobs idx) d)" unfolding b by simp
  then have "depot_blobs dep \<noteq> []" using dep(2) by auto
  moreover have "sorted (map (\<lambda>b. (bf_version (index_blob idx b), bf_crc (index_blob idx b))) (depot_blobs dep))"
    unfolding b index_blob_def by (rule sorted_sort_key)
  ultimately show ?thesis by blast
qed

lemma loaded_depot_some:
  assumes "index_inv idx" and "b < length (blobs idx)"
  shows "index_depot idx (bf_depot (blobs idx ! b)) \<noteq> None"
proof -
  have "of_nat b \<in> set (ids_of (blobs idx) (bf_depot (blobs idx ! b)))"
    using assms(2) by (auto simp: ids_of_def)
  then have "ids_of (blobs idx) (bf_depot (blobs idx ! b)) \<noteq> []" by auto
  then show ?thesis using assms(1) by (simp add: index_inv_def)
qed

section \<open>Properties\<close>


text \<open>
  A dump of two versions of depot 7, the second one forked, and a dat twice: in progress and complete.
\<close>

definition sample_entry :: "string \<Rightarrow> dir_entry" where
  "sample_entry n = \<lparr>de_name = n, de_size = 5, de_is_dir = False\<rparr>"

definition sample_backend :: backend where
  "sample_backend =
     \<lparr>be_list_dir = (\<lambda>p. if p = ''blobs''
         then Inr (map (\<lambda>s. sample_entry (s @ ''.blob''))
           [file_stem 7 1 0xaa ''x'', file_stem 7 2 0xcc ''x'', file_stem 7 2 0xbb ''x''])
         else Inr [sample_entry ((file_stem 7 1 0xdd ''x'' @ ''.dat'') @ ''.!qB''),
           sample_entry (file_stem 7 1 0xdd ''x'' @ ''.dat'')]),
      be_read_at = (\<lambda>_ _ _. Inl ''none''), be_read_all = (\<lambda>_. Inl ''none'')\<rparr>"

definition sample_blob :: "u32 \<Rightarrow> u32 \<Rightarrow> blob_file" where
  "sample_blob v c =
     \<lparr>bf_path = ''blobs/'' @ file_stem 7 v c ''x'' @ ''.blob'', file_name = file_stem 7 v c ''x'' @ ''.blob'',
      bf_depot = 7, bf_version = v, bf_crc = c, bf_size = 5, bf_date = None, bf_sha256 = None\<rparr>"

definition sample_index :: index where
  "sample_index = (case index_load sample_backend of Inr idx \<Rightarrow> idx | Inl _ \<Rightarrow> index_default)"

lemma add_sample_blob:
  "add_blob Map.empty (sample_entry (file_stem 7 v c ''x'' @ ''.blob'')) idx =
     idx\<lparr>blob_by_key := (blob_by_key idx)((7, v, c) \<mapsto> of_nat (length (blobs idx))),
         blobs := blobs idx @ [sample_blob v c],
         depots := update_depot 7 (\<lambda>dep. dep\<lparr>depot_blobs := depot_blobs dep @ [of_nat (length (blobs idx))]\<rparr>)
           (depots idx)\<rparr>"
  by (simp add: add_blob_def sample_entry_def parse_name_stem Let_def sample_blob_def)

lemma sample_load: "index_load sample_backend = Inr sample_index"
  by (simp add: sample_index_def index_load_def load_dates_def sample_backend_def Let_def)

lemma add_dat_blobs [simp]: "blobs (add_dat e idx) = blobs idx"
  by (cases rule: add_dat_cases [of e idx]) simp_all

lemma sample_index_blobs: "blobs sample_index = [sample_blob 1 0xaa, sample_blob 2 0xcc, sample_blob 2 0xbb]"
  by (simp add: sample_index_def index_load_def load_dates_def sample_backend_def Let_def
      add_sample_blob index_default_def)

lemma sample_index_small: "length (blobs sample_index) < 4294967296"
  by (simp add: sample_index_blobs)


text \<open>
  Version names are good directory names.  When no two blobs of a depot share version and crc,
  the name of each listed version leads back to its blob, nothing else has that name, and the same
  holds for the links of \<open>by-date\<close>.
\<close>

theorem version_names_correct:
  assumes "index_load be = Inr idx" and "length (blobs idx) < 4294967296"
    and "index_depot idx d = Some dep" and "no_twins (blobs idx) (depot_blobs dep)"
  shows "(\<forall>n b. lookup_name dep n = Some b \<longleftrightarrow> (n, b) \<in> set (versions dep)) \<and>
    (\<forall>n b. lookup_name dep n = Some b \<longleftrightarrow> name_of dep b = Some n) \<and>
    (\<forall>n b. lookup_date_link dep n = Some b \<longleftrightarrow> date_link_of dep b = Some n)"
proof -
  let ?bs = "blobs idx" and ?ids = "sorted_ids (blobs idx) d"
  have dep: "dep = depot_of ?bs d" by (rule index_depot_eq [OF index_load_inv [OF assms(1)] assms(3)])
  have nt: "no_twins ?bs ?ids" using assms(4) by (simp only: dep depot_of_fields)
  have "lookup_name dep n = Some b \<longleftrightarrow> (n, b) \<in> set (versions dep)" for n b
    unfolding dep lookup_name_depot_of [OF assms(2) nt] versions_depot_of by auto
  moreover have "lookup_name dep n = Some b \<longleftrightarrow> name_of dep b = Some n" for n b
    unfolding dep lookup_name_depot_of [OF assms(2) nt] name_of_def depot_nth_depot_of [OF assms(2)]
    by (auto simp del: set_sort)
  moreover have "lookup_date_link dep n = Some b \<longleftrightarrow> date_link_of dep b = Some n" for n b
    unfolding dep lookup_date_link_depot_of [OF assms(2) nt] date_link_of_def depot_nth_depot_of [OF assms(2)]
    by (auto simp del: set_sort)
  ultimately show ?thesis by blast
qed

lemma sample_depot:
  obtains dep where "index_depot sample_index 7 = Some dep" and "set (depot_blobs dep) = {0, 1, 2}"
proof -
  have "index_depot sample_index (bf_depot (blobs sample_index ! 0)) \<noteq> None"
    by (rule loaded_depot_some [OF index_load_inv [OF sample_load]]) (simp add: sample_index_blobs)
  then obtain dep where dep: "index_depot sample_index 7 = Some dep"
    by (auto simp: sample_index_blobs sample_blob_def)
  have "set (depot_blobs dep) = {b. unat b < 3 \<and> bf_depot (index_blob sample_index b) = 7}"
    using loaded_depot [OF index_load_inv [OF sample_load] sample_index_small dep]
    by (simp add: sample_index_blobs numeral_3_eq_3)
  moreover have "bf_depot (index_blob sample_index b) = 7" if "unat b < 3" for b
  proof -
    have "unat b \<in> {0, 1, 2}" using that by auto
    then show ?thesis by (auto simp: index_blob_def sample_index_blobs sample_blob_def)
  qed
  moreover have "unat (b :: u32) < 3 \<longleftrightarrow> b \<in> {0, 1, 2}" for b
  proof
    assume "unat b < 3"
    then have "of_nat (unat b) \<in> (of_nat :: nat \<Rightarrow> u32) ` {0, 1, 2}" by (intro imageI) auto
    then show "b \<in> {0, 1, 2}" by simp
  qed auto
  ultimately have "set (depot_blobs dep) = {0, 1, 2}" by auto
  with that dep show thesis by blast
qed

theorem version_names_correct_witness:
  "\<exists>dep. index_depot sample_index 7 = Some dep \<and> no_twins (blobs sample_index) (depot_blobs dep) \<and>
     (\<forall>n b. lookup_name dep n = Some b \<longleftrightarrow> name_of dep b = Some n)"
proof -
  obtain dep where dep: "index_depot sample_index 7 = Some dep" and ids: "set (depot_blobs dep) = {0, 1, 2}"
    by (rule sample_depot)
  have "no_twins (blobs sample_index) (depot_blobs dep)"
    unfolding no_twins_def ids by (simp add: inj_on_def sample_index_blobs sample_blob_def)
  with version_names_correct [OF sample_load sample_index_small dep] dep show ?thesis by blast
qed

text \<open>
  The latest version is the right one.  A depot that has blobs has a latest one; it is a blob of
  that depot, no blob of the depot has a higher version, and none of the same version a later date.
\<close>

theorem latest_correct:
  assumes "index_load be = Inr idx" and "length (blobs idx) < 4294967296"
    and "index_depot idx d = Some dep"
  shows "\<exists>b \<in> set (depot_blobs dep). latest idx d = Some b \<and>
    (\<forall>x \<in> set (depot_blobs dep). bf_version (index_blob idx x) \<le> bf_version (index_blob idx b) \<and>
       (bf_version (index_blob idx x) = bf_version (index_blob idx b) \<longrightarrow>
          bf_date (index_blob idx x) \<le> bf_date (index_blob idx b)))"
proof -
  let ?ids = "depot_blobs dep" and ?v = "\<lambda>b. bf_version (index_blob idx b)"
  have facts: "?ids \<noteq> []"
    "sorted (map (\<lambda>b. (?v b, bf_crc (index_blob idx b))) ?ids)"
    using loaded_depot [OF index_load_inv [OF assms(1)] assms(2,3)] by blast+
  have top: "?v x \<le> ?v (last ?ids)" if "x \<in> set ?ids" for x
    using last_is_largest [OF facts that] by (auto simp: less_eq_prod_def)
  let ?ms = "filter (\<lambda>b. ?v b = ?v (last ?ids)) ?ids"
  have "?ms \<noteq> []" using facts(1) by (auto simp: filter_empty_conv)
  then obtain b where b: "max_by_key (\<lambda>b. bf_date (index_blob idx b)) ?ms = Some b"
    using max_by_key_None [of _ ?ms] by blast
  then have l: "latest idx d = Some b"
    using facts(1) assms(3) by (simp add: latest_def blobs_with_version_def)
  from max_by_key_correct [OF b] have mem: "b \<in> set ?ids" "?v b = ?v (last ?ids)"
    and newest: "\<forall>y \<in> set ?ms. bf_date (index_blob idx y) \<le> bf_date (index_blob idx b)"
    by simp_all
  have "?v x \<le> ?v b \<and> (?v x = ?v b \<longrightarrow> bf_date (index_blob idx x) \<le> bf_date (index_blob idx b))"
    if "x \<in> set ?ids" for x
    using top [OF that] mem(2) newest that by simp
  with l mem(1) show ?thesis by blast
qed

theorem latest_correct_witness:
  "\<exists>dep. index_depot sample_index 7 = Some dep \<and> (\<exists>b \<in> set (depot_blobs dep). latest sample_index 7 = Some b)"
proof -
  obtain dep where dep: "index_depot sample_index 7 = Some dep" by (rule sample_depot)
  with latest_correct [OF sample_load sample_index_small dep] show ?thesis by blast
qed

text \<open>
  A finished download is preferred.  A dat found by its key is in range and has that key, and it
  is one still in progress only when the dump has no finished dat with that key.
\<close>

theorem find_dat_correct:
  assumes "index_load be = Inr idx" and "length (dats idx) < 4294967296"
    and "find_dat idx d v c = Some i"
  shows "unat i < length (dats idx) \<and> dat_key (index_dat idx i) = (d, v, c) \<and>
    (incomplete (index_dat idx i) \<longrightarrow> (\<forall>x \<in> set (dats idx). dat_key x = (d, v, c) \<longrightarrow> incomplete x))"
proof -
  have "keyed dat_key (dats idx) (dat_by_key idx)" "prefers_complete (dats idx) (dat_by_key idx)"
    using index_load_inv [OF assms(1)] assms(2) by (simp_all add: index_inv_def dats_ok_def)
  moreover from this(1) have "unat i < length (dats idx) \<and> dat_key (index_dat idx i) = (d, v, c)"
    using keyed_range [of dat_key "dats idx" "dat_by_key idx"] assms(2,3)
    by (simp add: find_dat_def index_dat_def)
  ultimately show ?thesis
    using assms(3) unfolding prefers_complete_def find_dat_def index_dat_def by blast
qed

lemma not_partial: "strip_suffix ''.!qB'' (s @ ''.dat'') = None"
proof -
  have "s @ ''.dat'' \<noteq> u @ ''.!qB''" for u
  proof
    assume "s @ ''.dat'' = u @ ''.!qB''"
    then have "last (s @ ''.dat'') = last (u @ ''.!qB'')" by simp
    then show False by simp
  qed
  then show ?thesis unfolding strip_suffix_def suffix_def by (simp only: not_ex if_False simp_thms)
qed

lemma sample_dats:
  "dats sample_index = map (\<lambda>(p, inc). \<lparr>df_path = ''dats/'' @ p, df_depot = 7, df_version = 1,
      df_crc = 0xdd, df_size = 5, incomplete = inc\<rparr>)
    [((file_stem 7 1 0xdd ''x'' @ ''.dat'') @ ''.!qB'', True), (file_stem 7 1 0xdd ''x'' @ ''.dat'', False)]"
  "find_dat sample_index 7 1 0xdd = Some 1"
proof -
  let ?n = "file_stem 7 1 0xdd ''x'' @ ''.dat''"
  let ?d = "\<lambda>p inc. \<lparr>df_path = ''dats/'' @ p, df_depot = 7, df_version = 1, df_crc = 0xdd,
    df_size = 5, incomplete = inc\<rparr>"
  have p: "parse_name ?n ''.dat'' = Some ((7, 1, 0xdd), ''x'')" by (rule parse_name_stem)
  have partial: "add_dat (sample_entry (?n @ ''.!qB'')) i =
      i\<lparr>dat_by_key := (dat_by_key i)((7, 1, 0xdd) \<mapsto> keyed_dat (dats i) (dat_by_key i (7, 1, 0xdd))),
        dats := dats i @ [?d (?n @ ''.!qB'') True]\<rparr>" for i
    unfolding add_dat_def sample_entry_def dir_entry.simps strip_suffix_append option.case prod.case Let_def p
      keyed_dat_def by simp
  have whole: "add_dat (sample_entry ?n) i =
      i\<lparr>dat_by_key := (dat_by_key i)((7, 1, 0xdd) \<mapsto> keyed_dat (dats i) (dat_by_key i (7, 1, 0xdd))),
        dats := dats i @ [?d ?n False]\<rparr>" for i
    unfolding add_dat_def sample_entry_def dir_entry.simps not_partial option.case prod.case Let_def p
      keyed_dat_def by simp
  define i0 where "i0 = fold (add_blob Map.empty) (map (\<lambda>s. sample_entry (s @ ''.blob''))
    [file_stem 7 1 0xaa ''x'', file_stem 7 2 0xcc ''x'', file_stem 7 2 0xbb ''x'']) index_default"
  have i0: "dats i0 = []" "dat_by_key i0 = Map.empty"
    by (simp_all add: i0_def add_sample_blob index_default_def)
  have "dats sample_index = dats (add_dat (sample_entry ?n) (add_dat (sample_entry (?n @ ''.!qB'')) i0))"
    and "dat_by_key sample_index = dat_by_key (add_dat (sample_entry ?n) (add_dat (sample_entry (?n @ ''.!qB'')) i0))"
    by (simp_all add: sample_index_def index_load_def load_dates_def sample_backend_def Let_def i0_def)
  then show "dats sample_index = map (\<lambda>(p, inc). ?d p inc) [(?n @ ''.!qB'', True), (?n, False)]"
    "find_dat sample_index 7 1 0xdd = Some 1"
    unfolding partial whole find_dat_def by (simp_all add: i0 keyed_dat_def)
qed

theorem find_dat_correct_witness:
  "find_dat sample_index 7 1 0xdd = Some 1 \<and> dat_key (index_dat sample_index 1) = (7, 1, 0xdd) \<and>
   \<not> incomplete (index_dat sample_index 1)"
proof -
  have "length (dats sample_index) < 4294967296" "\<not> incomplete (index_dat sample_index 1)"
    by (simp_all add: sample_dats(1) index_dat_def)
  with find_dat_correct [OF sample_load _ sample_dats(2)] sample_dats(2) show ?thesis by simp
qed

text \<open>A time as the date lists write it.\<close>

definition date_text :: "nat \<Rightarrow> string" where
  "date_text secs =
     (let days = secs div 86400; rem = secs mod 86400;
          (y, m, d) = civil_from_days (int days)
      in (pad_zero 4 (show_dec (nat y)) @ CHR ''-'' # dec2 (unat m) @ CHR ''-'' # dec2 (unat d)) @ CHR ''+'' #
         (dec2 (rem div 3600) @ CHR '':'' # dec2 ((rem div 60) mod 60) @ CHR '':'' # dec2 (rem mod 60)))"

lemma padded_digits: "set (pad_zero w (show_dec n)) \<subseteq> set ''0123456789''"
proof -
  have "CHR ''0'' \<in> set ''0123456789''" by simp
  then show ?thesis using pad_zero_chars [of w "show_dec n"] show_dec_chars [of n] by blast
qed

lemma not_in_padded:
  "CHR ''+'' \<notin> set (pad_zero w (show_dec n))" "CHR ''-'' \<notin> set (pad_zero w (show_dec n))"
  "CHR '':'' \<notin> set (pad_zero w (show_dec n))" "CHR ''.'' \<notin> set (pad_zero w (show_dec n))"
proof -
  have "CHR ''+'' \<notin> set ''0123456789''" "CHR ''-'' \<notin> set ''0123456789''"
    "CHR '':'' \<notin> set ''0123456789''" "CHR ''.'' \<notin> set ''0123456789''" by simp_all
  with padded_digits [of w n] show
    "CHR ''+'' \<notin> set (pad_zero w (show_dec n))" "CHR ''-'' \<notin> set (pad_zero w (show_dec n))"
    "CHR '':'' \<notin> set (pad_zero w (show_dec n))" "CHR ''.'' \<notin> set (pad_zero w (show_dec n))"
    by blast+
qed

lemma split_all_three:
  assumes "c \<notin> set a" and "c \<notin> set b" and "c \<notin> set d"
  shows "split_all c (a @ c # b @ c # d) = [a, b, d]"
proof -
  have "splitn (Suc (Suc (Suc n))) c (a @ c # b @ c # d) = [a, b, d]" for n
    using assms by (cases n) (simp_all add: split_once_append split_once_None)
  from this [of "length a + length b + length d"] show ?thesis
    by (simp add: split_all_def add.assoc)
qed

lemma parse_i64_digits:
  assumes "v < 9223372036854775808"
  shows "parse_i64 (pad_zero w (show_dec v)) = Some (int v)"
proof -
  have "pad_zero w (show_dec v) \<noteq> []" by (simp add: pad_zero_def)
  then have "hd (pad_zero w (show_dec v)) \<noteq> CHR ''-''"
    using not_in_padded(2) [of w v] by (metis list.set_sel(1))
  with assms show ?thesis by (simp add: parse_i64_def parse_pad_dec)
qed

lemma civil_nonneg:
  assumes "0 \<le> days" and "days \<le> 1125899906842624" and "civil_from_days days = (y, m, d)"
  shows "0 \<le> y \<and> y < 9223372036854775808"
proof -
  define z where "z = days + 719468"
  define e where "e = z div 146097"
  define r where "r = year_of_era (z mod 146097)"
  have "0 \<le> e" using assms(1) by (simp add: e_def z_def)
  moreover from this have "e \<le> z" using div_bounds [of 146097 z] by (simp add: e_def [symmetric])
  moreover have "0 \<le> r" "r \<le> 399"
    using year_of_era_spec [of "z mod 146097"] by (simp_all add: r_def)
  moreover have "-4611686018427387904 \<le> days" "days \<le> 4611686018427387904" using assms(1,2) by simp_all
  note conjunct1 [OF civil_unfold [OF this], unfolded assms(3) Let_def z_def [symmetric]
      e_def [symmetric] r_def [symmetric] prod.inject]
  then have "y = r + e * 400 \<or> y = r + e * 400 + 1" by (metis add.commute)
  moreover have "z \<le> 1125899907562092" using assms(2) by (simp add: z_def)
  ultimately show ?thesis by linarith
qed

lemma parse_date_text:
  assumes "secs < 10 ^ 18"
  shows "parse_date (date_text secs) = Inr (Some (secs, 0))"
proof -
  define days where "days = secs div 86400"
  define rem where "rem = secs mod 86400"
  obtain y m d where c: "civil_from_days (int days) = (y, m, d)" by (cases "civil_from_days (int days)") auto
  have db: "int days \<le> 1125899906842624" using assms by (simp add: days_def)
  from civil_nonneg [OF of_nat_0_le_iff db c] have y: "0 \<le> y" "y < 9223372036854775808" by simp_all
  from civil_from_days_ok [OF _ db c] have inverse: "days_from_civil y m d = int days" by simp
  have rem: "rem < 86400" and secs: "secs = days * 86400 + rem" by (simp_all add: rem_def days_def)
  let ?h = "rem div 3600" and ?mi = "rem div 60 mod 60" and ?s = "rem mod 60"
  let ?date = "pad_zero 4 (show_dec (nat y)) @ CHR ''-'' # dec2 (unat m) @ CHR ''-'' # dec2 (unat d)"
  let ?time = "dec2 ?h @ CHR '':'' # dec2 ?mi @ CHR '':'' # dec2 ?s"
  have tx: "date_text secs = ?date @ CHR ''+'' # ?time"
    unfolding date_text_def Let_def days_def [symmetric] rem_def [symmetric] c prod.case ..
  have "CHR ''+'' \<notin> set ?date"
    using not_in_padded(1) by (auto simp: dec2_def)
  from split_once_append [OF this, of ?time]
  have so: "split_once CHR ''+'' (date_text secs) = Some (?date, ?time)" unfolding tx .
  have dates: "split_all CHR ''-'' ?date = [pad_zero 4 (show_dec (nat y)), dec2 (unat m), dec2 (unat d)]"
    unfolding dec2_def by (rule split_all_three; rule not_in_padded)
  have times: "split_all CHR '':'' ?time = [dec2 ?h, dec2 ?mi, dec2 ?s]"
    unfolding dec2_def by (rule split_all_three; rule not_in_padded)
  have sec: "split_once CHR ''.'' (dec2 ?s) = None"
    unfolding dec2_def by (rule split_once_None; rule not_in_padded)
  have u32: "parse_u32 (dec2 (unat x)) = Some x" for x
    by (simp add: parse_u32_def dec2_def parse_pad_dec bounds)
  have u64: "n < 86400 \<Longrightarrow> parse_u64 (dec2 n) = Some (of_nat n)" for n
    by (simp add: parse_u64_def dec2_def parse_pad_dec)
  have yy: "parse_i64 (pad_zero 4 (show_dec (nat y))) = Some y"
    using parse_i64_digits [of "nat y" 4] y by simp
  have "rem div 3600 = rem div 60 div 60" using div_mult2_eq [of rem 60 60] by simp
  then have hms: "?h * 3600 + ?mi * 60 + ?s = rem"
    using div_mult_mod_eq [of rem 60] div_mult_mod_eq [of "rem div 60" 60] by linarith
  have ranges: "?h < 86400" "?mi < 86400" "?s < 86400"
    using rem div_le_dividend [of rem 3600] mod_less_divisor [of 60 "rem div 60"]
      mod_less_divisor [of 60 rem] by linarith+
  have "(of_nat days :: u64) * 86400 + of_nat ?h * 3600 + of_nat ?mi * 60 + of_nat ?s
      = of_nat (days * 86400 + (?h * 3600 + ?mi * 60 + ?s))"
    by (simp del: of_nat_div of_nat_mod)
  then have total_secs: "(of_nat days :: u64) * 86400 + of_nat ?h * 3600 + of_nat ?mi * 60 + of_nat ?s
      = of_nat secs"
    unfolding hms secs .
  have "unat (of_nat secs :: u64) = secs" using assms by (simp add: unat_of_nat)
  then show ?thesis
    using assms unfolding parse_date_def so
    by (simp add: dates times sec u32 u64 [OF ranges(1)] u64 [OF ranges(2)] u64 [OF ranges(3)] yy
        inverse total_secs fraction_nanos_def del: of_nat_div of_nat_mod)
qed

text \<open>
  Dates survive the list and the link.  Every time before the year thirty billion, written the way
  the dump's date lists write it, is parsed back to itself, to the second.
\<close>

theorem parse_date_roundtrip:
  assumes "secs < 10 ^ 18"
  shows "parse_date (date_text secs) = Inr (Some (secs, 0))"
  using assms by (rule parse_date_text)

theorem parse_date_roundtrip_witness:
  "parse_date (date_text 1063199519) = Inr (Some (1063199519, 0))"
  by (rule parse_date_roundtrip) simp

lemma bad_hours_fields:
  "split_once CHR ''+'' ''1970-01-01+2562047788015216:0:0'' = Some (''1970-01-01'', ''2562047788015216:0:0'')"
  "split_all CHR ''-'' ''1970-01-01'' = [''1970'', ''01'', ''01'']"
  "split_all CHR '':'' ''2562047788015216:0:0'' = [''2562047788015216'', ''0'', ''0'']"
  "split_once CHR ''.'' ''0'' = None"
  by (simp_all add: split_all_def split_once_def)

lemma bad_hours_digits:
  "digits_value 10 0 ''2562047788015216'' = Some 2562047788015216"
  by (simp add: to_digit_def)

lemma bad_hours_values:
  "parse_i64 ''1970'' = Some 1970" "parse_u32 ''01'' = Some 1" "parse_u64 ''0'' = Some 0"
  by (simp_all add: parse_i64_def parse_u64_def parse_u32_def parse_uint_def to_digit_def)

lemma bad_hours_hours: "parse_u64 ''2562047788015216'' = Some 2562047788015216"
  by (simp add: parse_u64_def parse_uint_def bad_hours_digits del: digits_value.simps)

lemma epoch_day: "days_from_civil 1970 1 1 = 0"
  by code_simp


end
