(* ===== verification/Actions.thy ===== *)
theory Actions
  imports Prelude
begin

text \<open>
  Code that works on a shared state and may fail: an action takes the state, and returns a result
  beside the state it leaves.  Unlike a result alone, an action that fails keeps what it changed before.
  \<open>sat\<close> says of one run that it keeps an invariant, moves the state only along a given relation, and
  that its outcome satisfies a postcondition; the rules below compose such statements the way the
  actions are composed.
\<close>

section \<open>Definitions\<close>

type_synonym ('s, 'e, 'a) action = "'s \<Rightarrow> ('e + 'a) \<times> 's"

definition ret :: "'a \<Rightarrow> ('s, 'e, 'a) action" where
  "ret x = (\<lambda>s. (Inr x, s))"

definition fail :: "'e \<Rightarrow> ('s, 'e, 'a) action" where
  "fail e = (\<lambda>s. (Inl e, s))"

definition abind :: "('s, 'e, 'a) action \<Rightarrow> ('a \<Rightarrow> ('s, 'e, 'b) action) \<Rightarrow> ('s, 'e, 'b) action" where
  "abind m f = (\<lambda>s. case m s of (Inl e, s') \<Rightarrow> (Inl e, s') | (Inr x, s') \<Rightarrow> f x s')"

definition gets :: "('s \<Rightarrow> 'a) \<Rightarrow> ('s, 'e, 'a) action" where
  "gets f = (\<lambda>s. (Inr (f s), s))"

definition modify :: "('s \<Rightarrow> 's) \<Rightarrow> ('s, 'e, unit) action" where
  "modify f = (\<lambda>s. (Inr (), f s))"

text \<open>A pure result as an action, and a step that updates the state and returns a value.\<close>

definition pure :: "'e + 'a \<Rightarrow> ('s, 'e, 'a) action" where
  "pure r = (\<lambda>s. (r, s))"

definition advance :: "('s \<Rightarrow> 'a \<times> 's) \<Rightarrow> ('s, 'e, 'a) action" where
  "advance f = (\<lambda>s. case f s of (x, s') \<Rightarrow> (Inr x, s'))"

lemma abind_cong [fundef_cong]:
  assumes "m = m'" and "\<And>x. f x = f' x"
  shows "abind m f = abind m' f'"
  using assms by presburger

lemma action_simps [eval_simps]:
  "ret x s = (Inr x, s)"
  "fail e s = (Inl e, s)"
  "gets g s = (Inr (g s), s)"
  "modify h s = (Inr (), h s)"
  "pure r s = (r, s)"
  "abind m f s = (case m s of (Inl e, s') \<Rightarrow> (Inl e, s') | (Inr x, s') \<Rightarrow> f x s')"
  "advance k s = (case k s of (y, s') \<Rightarrow> (Inr y, s'))"
  by (simp_all add: ret_def fail_def gets_def modify_def pure_def abind_def advance_def)

section \<open>What a run keeps and returns\<close>

definition sat ::
  "('s \<Rightarrow> bool) \<Rightarrow> ('s \<Rightarrow> 's \<Rightarrow> bool) \<Rightarrow> ('s, 'e, 'a) action \<Rightarrow> ('e + 'a \<Rightarrow> 's \<Rightarrow> bool) \<Rightarrow> 's \<Rightarrow> bool" where
  "sat I G m Q s \<longleftrightarrow> (I s \<longrightarrow> I (snd (m s)) \<and> G s (snd (m s)) \<and> Q (fst (m s)) (snd (m s)))"

lemma satI:
  assumes "\<And>r s'. I s \<Longrightarrow> m s = (r, s') \<Longrightarrow> I s' \<and> G s s' \<and> Q r s'"
  shows "sat I G m Q s"
  using assms by (cases "m s") (simp add: sat_def)

lemma satD:
  assumes "sat I G m Q s" and "I s" and "m s = (r, s')"
  shows "I s' \<and> G s s' \<and> Q r s'"
  using assms by (simp add: sat_def)

lemma sat_weaken:
  assumes "sat I G m Q s" and "\<And>r s'. I s' \<Longrightarrow> G s s' \<Longrightarrow> Q r s' \<Longrightarrow> Q' r s'"
  shows "sat I G m Q' s"
  using assms by (simp add: sat_def)

text \<open>An action of one layer, seen from a layer with more state to keep.\<close>

lemma sat_lift:
  assumes "sat I G m Q s" and "\<And>s. J s \<Longrightarrow> I s" and "\<And>s'. J s \<Longrightarrow> I s' \<Longrightarrow> G s s' \<Longrightarrow> J s' \<and> H s s'"
  shows "sat J H m Q s"
  using assms by (simp add: sat_def)

text \<open>
  The state moves along a preorder: what a caller knew before an action, and the preorder keeps, it
  still knows after.
\<close>

locale run_logic =
  fixes I :: "'s \<Rightarrow> bool" and G :: "'s \<Rightarrow> 's \<Rightarrow> bool"
  assumes G_refl: "G s s" and G_trans: "G s t \<Longrightarrow> G t u \<Longrightarrow> G s u"
begin

lemma sat_ret: "(I s \<Longrightarrow> Q (Inr x) s) \<Longrightarrow> sat I G (ret x) Q s"
  by (simp add: sat_def ret_def G_refl)

lemma sat_fail: "(I s \<Longrightarrow> Q (Inl e) s) \<Longrightarrow> sat I G (fail e) Q s"
  by (simp add: sat_def fail_def G_refl)

lemma sat_gets: "(I s \<Longrightarrow> Q (Inr (f s)) s) \<Longrightarrow> sat I G (gets f) Q s"
  by (simp add: sat_def gets_def G_refl)

lemma sat_pure: "(I s \<Longrightarrow> Q r s) \<Longrightarrow> sat I G (pure r) Q s"
  by (simp add: sat_def pure_def G_refl)

lemma sat_modify:
  "(I s \<Longrightarrow> I (f s) \<and> G s (f s) \<and> Q (Inr ()) (f s)) \<Longrightarrow> sat I G (modify f) Q s"
  by (simp add: sat_def modify_def)

lemma sat_advance:
  assumes "\<And>x s'. I s \<Longrightarrow> f s = (x, s') \<Longrightarrow> I s' \<and> G s s' \<and> Q (Inr x) s'"
  shows "sat I G (advance f) Q s"
  using assms by (cases "f s") (simp add: sat_def advance_def)

lemma sat_abind:
  assumes m: "sat I G m Q1 s"
    and e: "\<And>e s1. I s1 \<Longrightarrow> G s s1 \<Longrightarrow> Q1 (Inl e) s1 \<Longrightarrow> Q (Inl e) s1"
    and f: "\<And>x s1. I s1 \<Longrightarrow> G s s1 \<Longrightarrow> Q1 (Inr x) s1 \<Longrightarrow> sat I G (f x) Q s1"
  shows "sat I G (abind m f) Q s"
proof (rule satI)
  fix r s' assume s: "I s" and run: "abind m f s = (r, s')"
  obtain r1 s1 where m1: "m s = (r1, s1)" by fastforce
  from satD [OF m s m1] have k: "I s1" "G s s1" "Q1 r1 s1" by auto
  show "I s' \<and> G s s' \<and> Q r s'"
  proof (cases r1)
    case (Inl x)
    with run m1 k e show ?thesis by (auto simp: abind_def)
  next
    case (Inr x)
    with run m1 have "f x s1 = (r, s')" by (simp add: abind_def)
    from satD [OF f [OF k(1,2)] k(1) this] k Inr show ?thesis using G_trans by blast
  qed
qed

end

end
