(* ===== verification/Store_Base.thy ===== *)
theory Store_Base
  imports Actions Blob_Format Manifest_Format Dat_Chunk Key_Store Byte_Lru Dump_Index
begin

text \<open>
  The store's data (\<open>src/store.rs\<close>): its errors and their classes, what is parsed out of a blob, file
  locations and layered file tables, the configuration, and the state behind the locks.  What the store
  runs on is the record \<open>env\<close>: the backend, which may answer every request differently, so that the
  \<open>t\<close>-th request goes to \<open>env_backend env t\<close>; the cache directory, whose \<open>t\<close>-th operation comes out as
  \<open>env_disk env t\<close>; the crates; and the order in which the key store's hash maps are visited.
\<close>

section \<open>Errors\<close>

text \<open>\<open>anyhow\<close> errors, with one constructor per place that makes one.\<close>

datatype parse_error =
    In_format format_error
  | Fingerprint u32 u32
  | Own_crc_length nat
  | Own_crc_differs u32 u32

datatype other_error =
    Backend_failed backend_error
  | Wrong_sha256 string string
  | Wrong_size string nat nat
  | Parsing string parse_error
  | Empty_chain

datatype read_error =
    MissingRecord u32
  | MissingDat u32 u32 u32
  | NoKey u32
  | NoWorkingKey u32 u32 nat
  | Checksum u32 nat u32 u32
  | ShortRead u32 nat nat nat
  | NoSuchBlock u32 nat nat
  | BlockSize u32 nat u64 nat
  | NoBlocksToProbe u32
  | Format format_error
  | Other other_error

text \<open>A panic ends the process; it is not a value of the source.\<close>

datatype failure =
    Error read_error
  | Panic

datatype error_class = Class_missing | Class_no_key | Class_io | Class_bad_data

fun read_error_class :: "read_error \<Rightarrow> error_class" where
  "read_error_class (MissingRecord _) = Class_missing"
| "read_error_class (MissingDat _ _ _) = Class_missing"
| "read_error_class (NoKey _) = Class_no_key"
| "read_error_class (NoWorkingKey _ _ _) = Class_no_key"
| "read_error_class (Checksum _ _ _ _) = Class_io"
| "read_error_class (ShortRead _ _ _ _) = Class_io"
| "read_error_class (NoSuchBlock _ _ _) = Class_io"
| "read_error_class (BlockSize _ _ _ _) = Class_io"
| "read_error_class (NoBlocksToProbe _) = Class_io"
| "read_error_class (Format _) = Class_bad_data"
| "read_error_class (Other _) = Class_io"

section \<open>Data\<close>

record parsed_blob =
  pb_meta :: version_meta
  pb_manifest :: manifest
  pb_records :: "file_record list"

record file_loc =
  loc_source :: blob_id
  loc_dat :: "dat_id option"
  loc_record :: file_record
  loc_offsets :: "u64 list"

definition block_span :: "file_loc \<Rightarrow> nat \<Rightarrow> (u64 \<times> u64) option" where
  "block_span loc i =
     (case (nth_opt (loc_offsets loc) i, nth_opt (loc_offsets loc) (i + 1)) of
        (Some a, Some b) \<Rightarrow> Some (a, b)
      | _ \<Rightarrow> None)"

definition no_such_block :: "file_loc \<Rightarrow> nat \<Rightarrow> read_error" where
  "no_such_block loc i = NoSuchBlock (file_id (loc_record loc)) i (num_blocks (loc_record loc))"

datatype file_table = File_table (table_own: "u32 \<rightharpoonup> file_loc") (table_parent: "file_table option")

fun table_get :: "file_table \<Rightarrow> u32 \<Rightarrow> file_loc option" where
  "table_get (File_table own par) f =
     (case own f of
        Some loc \<Rightarrow> Some loc
      | None \<Rightarrow> (case par of None \<Rightarrow> None | Some t \<Rightarrow> table_get t f))"

definition table_contains :: "file_table \<Rightarrow> u32 \<Rightarrow> bool" where
  "table_contains t f \<longleftrightarrow> table_get t f \<noteq> None"

record store_config =
  blob_cache_dir :: "string option"
  raw_cache_bytes :: u64
  block_cache_bytes :: u64
  verify :: bool
  key_search :: bool

datatype key_resolution =
    Configured key
  | Discovered key u32
  | No_key nat

section \<open>The cache directory\<close>

text \<open>
  A disk operation succeeds, is refused, or, for a write, fails after some of its bytes.  Renaming
  replaces the target in one step.
\<close>

datatype outcome = Done | Refused | Torn nat

datatype disk_op = Write string bytes | Rename string string | Remove string

type_synonym disk = "string \<rightharpoonup> bytes"

fun run_disk_op :: "outcome \<Rightarrow> disk_op \<Rightarrow> disk \<Rightarrow> bool \<times> disk" where
  "run_disk_op Done (Write p b) d = (True, d(p \<mapsto> b))"
| "run_disk_op (Torn n) (Write p b) d = (False, d(p \<mapsto> take n b))"
| "run_disk_op Done (Rename p q) d =
     (case d p of None \<Rightarrow> (False, d) | Some b \<Rightarrow> (True, d(p := None, q \<mapsto> b)))"
| "run_disk_op Done (Remove p) d = (d p \<noteq> None, d(p := None))"
| "run_disk_op _ _ d = (False, d)"

section \<open>The store\<close>

record env =
  env_backend :: "nat \<Rightarrow> backend"
  env_disk :: "nat \<Rightarrow> outcome"
  env_codecs :: codecs
  env_hex :: "bytes \<Rightarrow> string"
  env_index :: index
  env_keys :: key_store
  env_blob_keys :: "((u32 \<times> u32) \<times> key) list"
  env_depot_keys :: "(u32 \<times> key) list"
  env_cfg :: store_config
  env_parsed_lru :: "(blob_id, parsed_blob) lru_ops"
  env_table_lru :: "(blob_id, file_table) lru_ops"
  env_byte_lru :: "(dat_id \<times> u64, bytes) lru_ops"

record store =
  parsed_cache :: "(blob_id, parsed_blob) lru_cache"
  table_cache :: "(blob_id, file_table) lru_cache"
  raw_cache :: "(dat_id \<times> u64) byte_lru"
  block_cache :: "(dat_id \<times> u64) byte_lru"
  resolved_keys :: "blob_id \<rightharpoonup> key_resolution"
  store_disk :: disk
  clock :: nat

type_synonym 'a run = "(store, failure, 'a) action"

definition store_new :: "env \<Rightarrow> disk \<Rightarrow> store" where
  "store_new env d =
     \<lparr>parsed_cache = lru_new 512, table_cache = lru_new 256,
      raw_cache = byte_lru_new (raw_cache_bytes (env_cfg env)),
      block_cache = byte_lru_new (block_cache_bytes (env_cfg env)),
      resolved_keys = Map.empty, store_disk = d, clock = 0\<rparr>"

definition key_for :: "env \<Rightarrow> u32 \<Rightarrow> key option" where
  "key_for env d = key_get (env_keys env) d"

definition cache_stats :: "store \<Rightarrow> u64 \<times> u64" where
  "cache_stats s = (byte_lru_bytes (raw_cache s), byte_lru_bytes (block_cache s))"

text \<open>A request to the backend or the disk takes the next tick of the clock.\<close>

definition tick :: "nat run" where
  "tick = advance (\<lambda>s. (clock s, s\<lparr>clock := Suc (clock s)\<rparr>))"

definition ask_backend :: "env \<Rightarrow> (backend \<Rightarrow> backend_error + 'a) \<Rightarrow> 'a run" where
  "ask_backend env req =
     abind tick (\<lambda>t. pure (map_err (\<lambda>e. Error (Other (Backend_failed e))) (req (env_backend env t))))"

definition disk_do :: "env \<Rightarrow> disk_op \<Rightarrow> bool run" where
  "disk_do env opn =
     abind tick (\<lambda>t. advance (\<lambda>s.
       case run_disk_op (env_disk env t) opn (store_disk s) of (okay, d) \<Rightarrow> (okay, s\<lparr>store_disk := d\<rparr>)))"

definition disk_read :: "env \<Rightarrow> string \<Rightarrow> bytes option run" where
  "disk_read env p =
     abind tick (\<lambda>t. gets (\<lambda>s. if env_disk env t = Done then store_disk s p else None))"

text \<open>The caches behind their locks.\<close>

definition parsed_cache_get :: "env \<Rightarrow> blob_id \<Rightarrow> parsed_blob option run" where
  "parsed_cache_get env b = advance (\<lambda>s.
     case lru_get (env_parsed_lru env) b (parsed_cache s) of (r, c) \<Rightarrow> (r, s\<lparr>parsed_cache := c\<rparr>))"

definition parsed_cache_put :: "env \<Rightarrow> blob_id \<Rightarrow> parsed_blob \<Rightarrow> unit run" where
  "parsed_cache_put env b p = modify (\<lambda>s.
     s\<lparr>parsed_cache := lru_put_state (env_parsed_lru env) b p (parsed_cache s)\<rparr>)"

definition table_cache_get :: "env \<Rightarrow> blob_id \<Rightarrow> file_table option run" where
  "table_cache_get env b = advance (\<lambda>s.
     case lru_get (env_table_lru env) b (table_cache s) of (r, c) \<Rightarrow> (r, s\<lparr>table_cache := c\<rparr>))"

definition table_cache_put :: "env \<Rightarrow> blob_id \<Rightarrow> file_table \<Rightarrow> unit run" where
  "table_cache_put env b t = modify (\<lambda>s.
     s\<lparr>table_cache := lru_put_state (env_table_lru env) b t (table_cache s)\<rparr>)"

definition raw_get :: "env \<Rightarrow> dat_id \<times> u64 \<Rightarrow> bytes option run" where
  "raw_get env k = advance (\<lambda>s.
     case byte_lru_get (env_byte_lru env) k (raw_cache s) of (r, c) \<Rightarrow> (r, s\<lparr>raw_cache := c\<rparr>))"

definition raw_put :: "env \<Rightarrow> dat_id \<times> u64 \<Rightarrow> bytes \<Rightarrow> unit run" where
  "raw_put env k w = modify (\<lambda>s. s\<lparr>raw_cache := byte_lru_insert (env_byte_lru env) k w (raw_cache s)\<rparr>)"

definition block_get :: "env \<Rightarrow> dat_id \<times> u64 \<Rightarrow> bytes option run" where
  "block_get env k = advance (\<lambda>s.
     case byte_lru_get (env_byte_lru env) k (block_cache s) of (r, c) \<Rightarrow> (r, s\<lparr>block_cache := c\<rparr>))"

definition block_put :: "env \<Rightarrow> dat_id \<times> u64 \<Rightarrow> bytes \<Rightarrow> unit run" where
  "block_put env k w = modify (\<lambda>s. s\<lparr>block_cache := byte_lru_insert (env_byte_lru env) k w (block_cache s)\<rparr>)"

lemma is_ok_simps [simp]: "is_ok (Inr x)" "\<not> is_ok (Inl e)"
  by (simp_all add: is_ok_def)

end
