(* ===== verification/Blob_Store.thy ===== *)
theory Blob_Store
  imports Store_Base
begin

text \<open>
  The blobs of the store (\<open>src/store.rs\<close>, first part): parsing a whole version blob, reading it through
  the cache directory, refetching an entry that has rotted, and following version chains.  Whatever the
  backend and the disk do, a parsed blob is the parse of the dump's file, the cache directory never
  holds a torn blob, and a chain is the list of ancestors.
\<close>

section \<open>Definitions\<close>

text \<open>The hasher of \<open>crc32fast\<close> is fed in pieces; its value is the hash of their concatenation.\<close>

definition own_crc_of :: "codecs \<Rightarrow> bytes \<Rightarrow> nat \<Rightarrow> u32" where
  "own_crc_of cx data off = crc32 cx (take off data @ replicate 4 0 @ drop (off + 4) data)"

definition parse_blob :: "codecs \<Rightarrow> bytes \<Rightarrow> parse_error + parsed_blob" where
  "parse_blob cx data =
     rbind (map_err In_format (parse_plain data)) (\<lambda>top.
     rbind (map_err In_format (from_blob top)) (\<lambda>meta.
     rbind (map_err In_format (require top MANIFEST)) (\<lambda>mbytes.
     rbind (map_err In_format (decompress cx mbytes)) (\<lambda>wrapper.
     rbind (map_err In_format (parse_plain wrapper)) (\<lambda>inner.
     rbind (map_err In_format (require inner 0)) (\<lambda>body.
     rbind (map_err In_format (parse_manifest cx body)) (\<lambda>m.
     rbind (map_err In_format (blob_u32 top MANIFEST_FINGERPRINT)) (\<lambda>fp.
     if fp \<noteq> fingerprint m then Inl (Fingerprint fp (fingerprint m))
     else
     rbind (map_err In_format (require top OWN_CRC)) (\<lambda>own.
     if length own \<noteq> 4 then Inl (Own_crc_length (length own))
     else
     rbind (map_err In_format (value_offset top OWN_CRC)) (\<lambda>off.
     let crc = own_crc_of cx data off in
     if crc \<noteq> vm_own_crc meta then Inl (Own_crc_differs crc (vm_own_crc meta))
     else
     rbind (map_err In_format (require top CHECKSUMS)) (\<lambda>cbytes.
     rbind (map_err In_format (parse_table cbytes)) (\<lambda>recs.
       Inr \<lparr>pb_meta = meta, pb_manifest = m, pb_records = recs\<rparr>))))))))))))"

definition cache_path :: "env \<Rightarrow> blob_id \<Rightarrow> string option" where
  "cache_path env b =
     map_option (\<lambda>d. path_join d (file_name (index_blob (env_index env) b)))
       (blob_cache_dir (env_cfg env))"

text \<open>
  \<open>Path::with_extension\<close> on a path whose last component is a plain name: what follows the last dot of
  that component, unless it starts it, is replaced.
\<close>

definition with_extension :: "string \<Rightarrow> string \<Rightarrow> string" where
  "with_extension p ext =
     (let name = rev (takeWhile (\<lambda>c. c \<noteq> CHR ''/'') (rev p));
          dir = take (length p - length name) p;
          stem = rev (tl (dropWhile (\<lambda>c. c \<noteq> CHR ''.'') (rev name)))
      in dir @ (if stem = [] then name else stem) @ CHR ''.'' # ext)"

text \<open>
  The write of \<open>fetch_blob\<close>: to a temporary file, then renamed; a failure removes the temporary file
  and is not reported.
\<close>

definition cache_write :: "env \<Rightarrow> string \<Rightarrow> bytes \<Rightarrow> unit run" where
  "cache_write env p data =
     (let tmp = with_extension p ''blob.tmp'' in
     abind (disk_do env (Write tmp data)) (\<lambda>wrote.
     abind (if wrote then disk_do env (Rename tmp p) else ret False) (\<lambda>moved.
     if moved then ret () else abind (disk_do env (Remove tmp)) (\<lambda>_. ret ()))))"

text \<open>A fetched blob is checked against the digest in its name, or, without one, against its size.\<close>

definition check_fetched :: "env \<Rightarrow> blob_file \<Rightarrow> bytes \<Rightarrow> unit run" where
  "check_fetched env entry data =
     (case bf_sha256 entry of
        Some expected \<Rightarrow>
          (let actual = env_hex env (sha256 (env_codecs env) data) in
           if actual \<noteq> expected then fail (Error (Other (Wrong_sha256 (file_name entry) actual)))
           else ret ())
      | None \<Rightarrow>
          if length data \<noteq> unat (bf_size entry)
          then fail (Error (Other (Wrong_size (file_name entry) (length data) (unat (bf_size entry)))))
          else ret ())"

definition fetch_blob :: "env \<Rightarrow> blob_id \<Rightarrow> bytes run" where
  "fetch_blob env b =
     (let entry = index_blob (env_index env) b in
     abind (ask_backend env (\<lambda>be. be_read_all be (bf_path entry))) (\<lambda>data.
     abind (check_fetched env entry data) (\<lambda>_.
     abind (case cache_path env b of None \<Rightarrow> ret () | Some p \<Rightarrow> cache_write env p data) (\<lambda>_.
     ret data))))"

definition blob_bytes_cached :: "env \<Rightarrow> blob_id \<Rightarrow> (bytes \<times> bool) run" where
  "blob_bytes_cached env b =
     abind (case cache_path env b of None \<Rightarrow> ret None | Some p \<Rightarrow> disk_read env p) (\<lambda>cached.
     case cached of
       Some data \<Rightarrow>
         if length data = unat (bf_size (index_blob (env_index env) b)) then ret (data, True)
         else abind (fetch_blob env b) (\<lambda>d. ret (d, False))
     | None \<Rightarrow> abind (fetch_blob env b) (\<lambda>d. ret (d, False)))"

definition blob_bytes :: "env \<Rightarrow> blob_id \<Rightarrow> bytes run" where
  "blob_bytes env b = abind (blob_bytes_cached env b) (\<lambda>d. ret (fst d))"

text \<open>A capacity overflow while parsing is a panic: no error value reaches the caller.\<close>

definition parse_bytes :: "env \<Rightarrow> bytes \<Rightarrow> (parse_error + parsed_blob) run" where
  "parse_bytes env data =
     (let r = parse_blob (env_codecs env) data in
      if r = Inl (In_format Capacity_overflow) then fail Panic else ret r)"

text \<open>
  A blob from the cache directory that does not parse is removed and fetched again; one from the
  backend is an error.
\<close>

definition parse_or_refetch :: "env \<Rightarrow> blob_id \<Rightarrow> bytes \<Rightarrow> bool \<Rightarrow> parsed_blob run" where
  "parse_or_refetch env b data from_cache =
     (let name = file_name (index_blob (env_index env) b) in
     abind (parse_bytes env data) (\<lambda>r.
     case r of
       Inr p \<Rightarrow> ret p
     | Inl e \<Rightarrow>
         if from_cache then
           abind (case cache_path env b of None \<Rightarrow> ret False | Some p \<Rightarrow> disk_do env (Remove p)) (\<lambda>_.
           abind (fetch_blob env b) (\<lambda>data'.
           abind (parse_bytes env data') (\<lambda>r'.
           pure (map_err (\<lambda>e'. Error (Other (Parsing name e'))) r'))))
         else fail (Error (Other (Parsing name e)))))"

text \<open>The comparisons with the file name, the dat size and the index only write to the log.\<close>

definition parse_uncached :: "env \<Rightarrow> blob_id \<Rightarrow> parsed_blob run" where
  "parse_uncached env b =
     abind (parsed_cache_get env b) (\<lambda>hit.
     case hit of
       Some p \<Rightarrow> ret p
     | None \<Rightarrow>
         abind (blob_bytes_cached env b) (\<lambda>d.
         abind (parse_or_refetch env b (fst d) (snd d)) (\<lambda>p.
         abind (parsed_cache_put env b p) (\<lambda>_.
         ret p))))"

definition parsed :: "env \<Rightarrow> blob_id \<Rightarrow> parsed_blob run" where
  "parsed env b =
     abind (parsed_cache_get env b) (\<lambda>hit.
     case hit of Some p \<Rightarrow> ret p | None \<Rightarrow> parse_uncached env b)"

text \<open>The parent a blob's metadata names, looked up in the index alone.\<close>

definition parent_in :: "index \<Rightarrow> blob_id \<Rightarrow> version_meta \<Rightarrow> blob_id option" where
  "parent_in idx b meta =
     (case vm_prev meta of
        None \<Rightarrow> None
      | Some (pver, pcrc) \<Rightarrow>
          (let depot = bf_depot (index_blob idx b) in
           case find_blob idx depot pver pcrc of
             Some p \<Rightarrow> Some p
           | None \<Rightarrow>
               (case blobs_with_version idx depot pver of
                  [only] \<Rightarrow> Some only
                | _ \<Rightarrow> None)))"

definition store_parent :: "env \<Rightarrow> blob_id \<Rightarrow> blob_id option run" where
  "store_parent env b =
     abind (parsed env b) (\<lambda>p. ret (parent_in (env_index env) b (pb_meta p)))"

text \<open>
  The loop of \<open>chain\<close>.  Its bound on the length makes it end on every dump.
\<close>

definition CHAIN_MAX :: nat where
  "CHAIN_MAX = 100000"

function chain_loop :: "env \<Rightarrow> blob_id list \<Rightarrow> blob_id \<Rightarrow> blob_id list run" where
  "chain_loop env out cur =
     abind (store_parent env cur) (\<lambda>r.
       case r of
         None \<Rightarrow> ret out
       | Some p \<Rightarrow>
           if p \<in> set out \<or> CHAIN_MAX < length out then ret out
           else chain_loop env (out @ [p]) p)"
  by pat_completeness auto
termination
  by (relation "measure (\<lambda>(env, out, cur). Suc CHAIN_MAX - length out)") auto

declare chain_loop.simps [simp del]

definition chain :: "env \<Rightarrow> blob_id \<Rightarrow> blob_id list run" where
  "chain env b = abind (chain_loop env [b] b) (\<lambda>out. ret (rev out))"

section \<open>The dump behind the backend\<close>

text \<open>
  \<open>honest\<close>: whatever the backend answers, at any time, comes from the files of one dump; it may fail
  at any time.  \<open>reliable\<close>: it does not fail on the files of the index.
\<close>

definition honest :: "env \<Rightarrow> (string \<Rightarrow> bytes) \<Rightarrow> bool" where
  "honest env files \<longleftrightarrow>
     (\<forall>t. ranged_reads (be_read_at (env_backend env t)) (be_read_all (env_backend env t))
        (\<lambda>p. Some (files p)) True)"

definition reliable :: "env \<Rightarrow> bool" where
  "reliable env \<longleftrightarrow>
     (\<forall>t. (\<forall>e \<in> set (blobs (env_index env)). \<exists>b. be_read_all (env_backend env t) (bf_path e) = Inr b) \<and>
        (\<forall>d \<in> set (dats (env_index env)). \<forall>off n. \<exists>b.
           be_read_at (env_backend env t) (df_path d) off n = Inr b))"

lemma honest_read_all: "honest env files \<Longrightarrow> be_read_all (env_backend env t) p = Inr b \<Longrightarrow> b = files p"
  by (auto simp: honest_def dest: ranged_reads.read_all_whole [where p = p])

lemma honest_read_at:
  "honest env files \<Longrightarrow> be_read_at (env_backend env t) p off n = Inr b \<Longrightarrow>
   b = take n (drop (unat off) (files p))"
  by (auto simp: honest_def dest: ranged_reads.read_at_range [where p = p])

definition known :: "env \<Rightarrow> blob_id \<Rightarrow> bool" where
  "known env b \<longleftrightarrow> unat b < length (blobs (env_index env))"

definition blob_data :: "env \<Rightarrow> (string \<Rightarrow> bytes) \<Rightarrow> blob_id \<Rightarrow> bytes" where
  "blob_data env files b = files (bf_path (index_blob (env_index env) b))"

definition parse_of :: "env \<Rightarrow> (string \<Rightarrow> bytes) \<Rightarrow> blob_id \<Rightarrow> parse_error + parsed_blob" where
  "parse_of env files b = parse_blob (env_codecs env) (blob_data env files b)"

text \<open>The file of a blob passes the checks of a fetch, and parses.\<close>

definition intact :: "env \<Rightarrow> (string \<Rightarrow> bytes) \<Rightarrow> blob_id \<Rightarrow> bool" where
  "intact env files b \<longleftrightarrow>
     (case bf_sha256 (index_blob (env_index env) b) of
        Some h \<Rightarrow> env_hex env (sha256 (env_codecs env) (blob_data env files b)) = h
      | None \<Rightarrow> length (blob_data env files b) = unat (bf_size (index_blob (env_index env) b))) \<and>
     (\<exists>p. parse_of env files b = Inr p)"

text \<open>
  The names of an index: a blob's file is listed under \<open>blobs/\<close>, ends in \<open>.blob\<close> and is relative.
  Identifiers that the index hands out are in range.
\<close>

definition names_ok :: "index \<Rightarrow> bool" where
  "names_ok idx \<longleftrightarrow>
     (\<forall>e \<in> set (blobs idx). bf_path e = ''blobs/'' @ file_name e \<and> suffix ''.blob'' (file_name e) \<and>
        hd (file_name e) \<noteq> CHR ''/'')"

definition closed_index :: "index \<Rightarrow> bool" where
  "closed_index idx \<longleftrightarrow> index_inv idx \<and> names_ok idx \<and> length (blobs idx) < 4294967296"

text \<open>
  A cached blob of the right length is the dump's file, or parsing it reports an error: damage shows.
\<close>

definition rot_shows :: "env \<Rightarrow> (string \<Rightarrow> bytes) \<Rightarrow> disk \<Rightarrow> bool" where
  "rot_shows env files d \<longleftrightarrow>
     (\<forall>b p data. known env b \<longrightarrow> cache_path env b = Some p \<longrightarrow> d p = Some data \<longrightarrow>
        length data = unat (bf_size (index_blob (env_index env) b)) \<longrightarrow>
        data = blob_data env files b \<or>
        (\<exists>e. parse_blob (env_codecs env) data = Inl e \<and> e \<noteq> In_format Capacity_overflow))"

definition blob_inv :: "env \<Rightarrow> (string \<Rightarrow> bytes) \<Rightarrow> store \<Rightarrow> bool" where
  "blob_inv env files s \<longleftrightarrow>
     lru_inv (env_parsed_lru env) (parsed_cache s) \<and>
     (\<forall>(b, p) \<in> set (lru_list (parsed_cache s)). parse_of env files b = Inr p) \<and>
     rot_shows env files (store_disk s)"

text \<open>What the blob operations leave alone.\<close>

definition blob_frame :: "store \<Rightarrow> store \<Rightarrow> bool" where
  "blob_frame s s' \<longleftrightarrow>
     table_cache s' = table_cache s \<and> raw_cache s' = raw_cache s \<and> block_cache s' = block_cache s \<and>
     resolved_keys s' = resolved_keys s"

interpretation blob_runs: run_logic "blob_inv env files" blob_frame for env files
  by unfold_locales (auto simp: blob_frame_def)

section \<open>Names in the cache directory\<close>

text \<open>What the index loads has such names: a name that parses starts with a digit or a sign.\<close>

lemma parse_u32_head: "parse_u32 (CHR ''/'' # s) = None"
  by (simp add: parse_u32_def parse_uint_def to_digit_def)

lemma parse_name_shape:
  assumes "parse_name name ''.blob'' = Some r"
  shows "suffix ''.blob'' name \<and> hd name \<noteq> CHR ''/''"
proof -
  from assms obtain stem depot version crc sha d where stem: "strip_suffix ''.blob'' name = Some stem"
    and parts: "splitn 4 CHR ''_'' stem = [depot, version, crc, sha]" and d: "parse_u32 depot = Some d"
    by (auto simp: parse_name_def split: option.splits list.splits)
  have name: "name = stem @ ''.blob''" using stem by (simp add: strip_suffix_Some)
  have "splitn (Suc (Suc (Suc (Suc 0)))) CHR ''_'' stem = [depot, version, crc, sha]"
    using parts by (simp add: eval_nat_numeral)
  then obtain rest where "split_once CHR ''_'' stem = Some (depot, rest)"
    by (auto split: option.splits prod.splits)
  from split_once_Some [OF this] have s: "stem = depot @ CHR ''_'' # rest" by blast
  have "hd stem \<noteq> CHR ''/''"
    using d parse_u32_head by (cases depot) (auto simp: s)
  then show ?thesis using s by (cases depot) (auto simp: name suffix_def)
qed

lemma names_ok_add_blob: "names_ok idx \<Longrightarrow> names_ok (add_blob dates e idx)"
  using parse_name_shape [of "de_name e"]
  by (auto simp: add_blob_def names_ok_def Let_def split: option.split prod.split)

lemma names_ok_add_dat: "names_ok idx \<Longrightarrow> names_ok (add_dat e idx)"
  by (simp add: names_ok_def)

lemma index_load_names:
  assumes "index_load be = Inr idx"
  shows "names_ok idx"
proof -
  from assms obtain dates bes des where
    idx: "blobs idx = blobs (fold add_dat des (fold (add_blob dates) bes index_default))"
    by (auto simp: index_load_def rbind_Inr_iff Let_def)
  have "names_ok index_default" by (simp add: names_ok_def index_default_def)
  then have "names_ok (fold (add_blob dates) bes index_default)"
    by (rule fold_invariant) (rule names_ok_add_blob)
  then have "names_ok (fold add_dat des (fold (add_blob dates) bes index_default))"
    by (rule fold_invariant) (rule names_ok_add_dat)
  then show ?thesis by (simp add: names_ok_def idx)
qed

lemma index_load_closed:
  "index_load be = Inr idx \<Longrightarrow> length (blobs idx) < 4294967296 \<Longrightarrow> closed_index idx"
  by (simp add: closed_index_def index_load_names index_load_inv)

lemma path_join_inj:
  assumes "path_join d r = path_join d r'" and "r \<noteq> []" and "hd r \<noteq> CHR ''/''" and "r' \<noteq> []"
    and "hd r' \<noteq> CHR ''/''"
  shows "r = r'"
  using assms by (auto simp: path_join_def split: if_splits)

lemma last_path_join: "r \<noteq> [] \<Longrightarrow> last (path_join d r) = last r"
  by (simp add: path_join_def)

lemma last_with_extension: "ext \<noteq> [] \<Longrightarrow> last (with_extension p ext) = last ext"
  by (simp add: with_extension_def Let_def)

lemma known_name:
  assumes "closed_index (env_index env)" and "known env b"
  defines "e \<equiv> index_blob (env_index env) b"
  shows "file_name e \<noteq> []" and "hd (file_name e) \<noteq> CHR ''/''" and "last (file_name e) = CHR ''b''"
    and "bf_path e = ''blobs/'' @ file_name e"
proof -
  have "e \<in> set (blobs (env_index env))" using assms(2) by (simp add: e_def known_def index_blob_def)
  with assms(1) have n: "bf_path e = ''blobs/'' @ file_name e" "suffix ''.blob'' (file_name e)"
    "hd (file_name e) \<noteq> CHR ''/''" by (auto simp: closed_index_def names_ok_def)
  from n(2) obtain z where "file_name e = z @ ''.blob''" by (auto simp: suffix_def)
  then show "file_name e \<noteq> []" "last (file_name e) = CHR ''b''" by simp_all
  from n show "hd (file_name e) \<noteq> CHR ''/''" "bf_path e = ''blobs/'' @ file_name e" by auto
qed

lemma cache_path_determines:
  assumes "closed_index (env_index env)" and "known env b" and "known env b'"
    and "cache_path env b = Some p" and "cache_path env b' = Some p"
  shows "blob_data env files b = blob_data env files b'"
proof -
  note n = known_name [OF assms(1,2)] and n' = known_name [OF assms(1,3)]
  from assms(4,5) obtain d where "p = path_join d (file_name (index_blob (env_index env) b))"
    "p = path_join d (file_name (index_blob (env_index env) b'))"
    by (auto simp: cache_path_def)
  then have "path_join d (file_name (index_blob (env_index env) b)) =
      path_join d (file_name (index_blob (env_index env) b'))" by simp
  from path_join_inj [OF this n(1,2) n'(1,2)] n(4) n'(4) show ?thesis by (simp add: blob_data_def)
qed

lemma tmp_no_cache_path:
  assumes "closed_index (env_index env)" and "known env b" and "cache_path env b = Some p"
  shows "with_extension q ''blob.tmp'' \<noteq> p"
proof -
  note n = known_name [OF assms(1,2)]
  from assms(3) have "last p = CHR ''b''" by (auto simp: cache_path_def last_path_join n(1,3))
  then show ?thesis using last_with_extension [of "''blob.tmp''" q] by auto
qed

section \<open>The operations keep the invariant\<close>

text \<open>A disk operation that touches no blob's entry, or leaves the dump's bytes there, or nothing.\<close>

lemma rot_shows_update:
  assumes "closed_index (env_index env)" and "rot_shows env files d"
    and "\<And>b p. known env b \<Longrightarrow> cache_path env b = Some p \<Longrightarrow>
      d' p = d p \<or> d' p = None \<or> d' p = Some (blob_data env files b)"
  shows "rot_shows env files d'"
  unfolding rot_shows_def
proof (intro allI impI)
  fix b p data
  assume k: "known env b" "cache_path env b = Some p" and d: "d' p = Some data"
    "length data = unat (bf_size (index_blob (env_index env) b))"
  from assms(3) [OF k] d(1) have "d p = Some data \<or> data = blob_data env files b" by auto
  with assms(2) k d(2) show "data = blob_data env files b \<or>
      (\<exists>e. parse_blob (env_codecs env) data = Inl e \<and> e \<noteq> In_format Capacity_overflow)"
    unfolding rot_shows_def by blast
qed

lemma run_disk_op_elsewhere:
  assumes "run_disk_op oc opn d = (r, d')"
    and "case opn of Write q data \<Rightarrow> q \<noteq> p | Rename q q' \<Rightarrow> q \<noteq> p \<and> q' \<noteq> p | Remove q \<Rightarrow> q \<noteq> p"
  shows "d' p = d p"
  using assms by (cases "(oc, opn, d)" rule: run_disk_op.cases) (auto split: option.splits)

lemma sat_tick: "sat (blob_inv env files) blob_frame tick (\<lambda>r s. is_ok r) s"
  unfolding tick_def
  by (rule blob_runs.sat_advance) (auto simp: blob_inv_def blob_frame_def)

lemma sat_ask_backend:
  assumes "\<And>t. Q (map_err (\<lambda>e. Error (Other (Backend_failed e))) (req (env_backend env t)))"
  shows "sat (blob_inv env files) blob_frame (ask_backend env req) (\<lambda>r s. Q r) s"
  unfolding ask_backend_def
  by (rule blob_runs.sat_abind [OF sat_tick])
    (use assms in \<open>auto intro: blob_runs.sat_pure\<close>)

lemma sat_disk_do:
  assumes "\<And>oc d r d'. rot_shows env files d \<Longrightarrow> P d \<Longrightarrow> run_disk_op oc opn d = (r, d') \<Longrightarrow>
      rot_shows env files d' \<and> Q (Inr r) d'" and "P (store_disk s)"
  shows "sat (blob_inv env files) blob_frame (disk_do env opn) (\<lambda>r s. Q r (store_disk s)) s"
proof (rule satI)
  fix r s' assume inv: "blob_inv env files s" and run: "disk_do env opn s = (r, s')"
  obtain x d' where x: "run_disk_op (env_disk env (clock s)) opn (store_disk s) = (x, d')" by fastforce
  from run x have "r = Inr x" "s' = s\<lparr>clock := Suc (clock s), store_disk := d'\<rparr>"
    by (auto simp: disk_do_def tick_def action_simps)
  with assms(1) [OF _ assms(2) x] inv show "blob_inv env files s' \<and> blob_frame s s' \<and> Q r (store_disk s')"
    by (auto simp: blob_inv_def blob_frame_def)
qed

lemma sat_remove:
  assumes "closed_index (env_index env)"
  shows "sat (blob_inv env files) blob_frame (disk_do env (Remove q)) (\<lambda>r s. is_ok r) s"
proof -
  have "rot_shows env files d' \<and> is_ok (Inr r)"
    if "rot_shows env files d" and "run_disk_op oc (Remove q) d = (r, d')" for oc d r d'
  proof -
    have "d' p = d p \<or> d' p = None" for p
      using that(2) by (cases oc) (auto split: if_splits)
    then show ?thesis using rot_shows_update [OF assms that(1), of d'] by auto
  qed
  then show ?thesis by (intro sat_disk_do [where P = "\<lambda>_. True" and Q = "\<lambda>r d. is_ok r"]) blast+
qed

lemma sat_cache_write:
  assumes ix: "closed_index (env_index env)" and b: "known env b" "cache_path env b = Some p"
  shows "sat (blob_inv env files) blob_frame (cache_write env p (blob_data env files b))
    (\<lambda>r s. r = Inr ()) s"
proof -
  define tmp where "tmp = with_extension p ''blob.tmp''"
  let ?data = "blob_data env files b"
  note apart = tmp_no_cache_path [OF ix, of _ _ p, folded tmp_def]
  have w: "rot_shows env files d' \<and> (r \<longrightarrow> d' tmp = Some ?data)"
    if "rot_shows env files d" "run_disk_op oc (Write tmp ?data) d = (r, d')" for oc d r d'
  proof -
    have "d' q = d q" if "known env c" "cache_path env c = Some q" for c q
      using run_disk_op_elsewhere [OF \<open>run_disk_op oc (Write tmp ?data) d = (r, d')\<close>, of q]
        apart [OF that] by simp
    with rot_shows_update [OF ix that(1), of d'] that(2) show ?thesis by (cases oc) auto
  qed
  have m: "rot_shows env files d' \<and> True"
    if "rot_shows env files d" "d tmp = Some ?data" "run_disk_op oc (Rename tmp p) d = (r, d')"
    for oc d r d'
  proof -
    have "d' q = d q \<or> d' q = Some (blob_data env files c)" if "known env c" "cache_path env c = Some q" for c q
      using run_disk_op_elsewhere [OF \<open>run_disk_op oc (Rename tmp p) d = (r, d')\<close>, of q] apart [OF that]
        \<open>run_disk_op oc (Rename tmp p) d = (r, d')\<close> \<open>d tmp = Some ?data\<close>
        cache_path_determines [OF ix that(1) b(1) that(2), of files] b(2)
      by (cases "q = p"; cases oc) auto
    with rot_shows_update [OF ix that(1), of d'] show ?thesis by blast
  qed
  note S = sat_disk_do [where P = "\<lambda>_. True" and Q = "\<lambda>r d. \<exists>x. r = Inr x \<and> (x \<longrightarrow> d tmp = Some ?data)"]
    and S' = sat_disk_do [where P = "\<lambda>d. d tmp = Some ?data" and Q = "\<lambda>r d. is_ok r"]
  show ?thesis
    unfolding cache_write_def Let_def tmp_def [symmetric]
  proof (rule blob_runs.sat_abind [OF S])
    fix x and s1 :: store assume x: "\<exists>y. Inr x = Inr y \<and> (y \<longrightarrow> store_disk s1 tmp = Some ?data)"
    have "sat (blob_inv env files) blob_frame (if x then disk_do env (Rename tmp p) else ret False)
        (\<lambda>r s. is_ok r) s1"
      using x m by (auto intro!: S' blob_runs.sat_ret)
    then show "sat (blob_inv env files) blob_frame
        (abind (if x then disk_do env (Rename tmp p) else ret False)
          (\<lambda>moved. if moved then ret () else abind (disk_do env (Remove tmp)) (\<lambda>_. ret ())))
        (\<lambda>r s. r = Inr ()) s1"
      by (rule blob_runs.sat_abind)
        (auto intro!: blob_runs.sat_ret blob_runs.sat_abind [OF sat_remove [OF ix]])
  qed (use w in auto)
qed

text \<open>What an action on a blob may return: the value read off the dump, or an error with an excuse.\<close>

definition yields :: "env \<Rightarrow> (string \<Rightarrow> bytes) \<Rightarrow> blob_id \<Rightarrow> ('a \<Rightarrow> bool) \<Rightarrow> failure + 'a \<Rightarrow> bool" where
  "yields env files b P r \<longleftrightarrow>
     (case r of Inr x \<Rightarrow> P x | Inl _ \<Rightarrow> \<not> (reliable env \<and> intact env files b))"

lemma yields_simps [simp]:
  "yields env files b P (Inr x) = P x"
  "yields env files b P (Inl e) = (\<not> (reliable env \<and> intact env files b))"
  by (simp_all add: yields_def)

lemma known_entry: "known env b \<Longrightarrow> index_blob (env_index env) b \<in> set (blobs (env_index env))"
  by (simp add: known_def index_blob_def)

lemma reliable_read_all:
  assumes "reliable env" and "known env b"
  shows "\<exists>d. be_read_all (env_backend env t) (bf_path (index_blob (env_index env) b)) = Inr d"
  using assms known_entry unfolding reliable_def by blast

lemma sat_fetch_blob:
  assumes env: "honest env files" "closed_index (env_index env)" and b: "known env b"
  shows "sat (blob_inv env files) blob_frame (fetch_blob env b)
    (\<lambda>r s. yields env files b (\<lambda>d. d = blob_data env files b) r) s"
  unfolding fetch_blob_def Let_def
proof (rule blob_runs.sat_abind [OF sat_ask_backend
      [where Q = "yields env files b (\<lambda>d. d = blob_data env files b)"]])
  fix t
  let ?r = "be_read_all (env_backend env t) (bf_path (index_blob (env_index env) b))"
  show "yields env files b (\<lambda>d. d = blob_data env files b)
      (map_err (\<lambda>e. Error (Other (Backend_failed e))) ?r)"
    using honest_read_all [OF env(1), of t] reliable_read_all [OF _ b, of t]
    by (cases ?r) (auto simp: blob_data_def)
next
  fix data and s1 :: store
  assume "yields env files b (\<lambda>d. d = blob_data env files b) (Inr data)"
  then have data: "data = blob_data env files b" by simp
  let ?entry = "index_blob (env_index env) b"
  have check: "sat (blob_inv env files) blob_frame (check_fetched env ?entry data)
      (\<lambda>r s. is_ok r \<or> \<not> intact env files b) s1"
    by (auto simp: check_fetched_def intact_def data Let_def split: option.split
        intro!: blob_runs.sat_fail blob_runs.sat_ret)
  have cache: "sat (blob_inv env files) blob_frame
      (case cache_path env b of None \<Rightarrow> ret () | Some p \<Rightarrow> cache_write env p data) (\<lambda>r s. r = Inr ()) s" for s
    by (cases "cache_path env b") (auto simp: data intro: blob_runs.sat_ret sat_cache_write [OF env(2) b])
  show "sat (blob_inv env files) blob_frame
      (abind (check_fetched env ?entry data)
        (\<lambda>_. abind (case cache_path env b of None \<Rightarrow> ret () | Some p \<Rightarrow> cache_write env p data)
          (\<lambda>_. ret data)))
      (\<lambda>r s. yields env files b (\<lambda>d. d = blob_data env files b) r) s1"
  proof (rule blob_runs.sat_abind [OF check])
    fix s2
    show "sat (blob_inv env files) blob_frame
        (abind (case cache_path env b of None \<Rightarrow> ret () | Some p \<Rightarrow> cache_write env p data) (\<lambda>_. ret data))
        (\<lambda>r s. yields env files b (\<lambda>d. d = blob_data env files b) r) s2"
      by (rule blob_runs.sat_abind [OF cache]) (auto simp: data intro: blob_runs.sat_ret)
  qed auto
qed auto

lemma sat_disk_read:
  "sat (blob_inv env files) blob_frame (disk_read env p)
    (\<lambda>r s. \<exists>v. r = Inr v \<and> (\<forall>data. v = Some data \<longrightarrow> store_disk s p = Some data)) s"
  unfolding disk_read_def
  by (rule blob_runs.sat_abind [OF sat_tick]) (auto intro: blob_runs.sat_gets split: if_splits)

text \<open>Bytes from the cache directory are the dump's, or their parse reports an error.\<close>

definition usable :: "env \<Rightarrow> (string \<Rightarrow> bytes) \<Rightarrow> blob_id \<Rightarrow> bytes \<times> bool \<Rightarrow> bool" where
  "usable env files b = (\<lambda>(data, from_cache). data = blob_data env files b \<or>
     from_cache \<and> (\<exists>e. parse_blob (env_codecs env) data = Inl e \<and> e \<noteq> In_format Capacity_overflow))"

lemma sat_blob_bytes_cached:
  assumes env: "honest env files" "closed_index (env_index env)" and b: "known env b"
  shows "sat (blob_inv env files) blob_frame (blob_bytes_cached env b)
    (\<lambda>r s. yields env files b (usable env files b) r) s"
proof -
  let ?Q = "\<lambda>r s. \<exists>v. r = Inr v \<and> (\<forall>data p. v = Some data \<longrightarrow> cache_path env b = Some p \<longrightarrow>
      store_disk s p = Some data) \<and> (v \<noteq> None \<longrightarrow> cache_path env b \<noteq> None)"
  have r: "sat (blob_inv env files) blob_frame
      (case cache_path env b of None \<Rightarrow> ret None | Some p \<Rightarrow> disk_read env p) ?Q s"
    by (cases "cache_path env b")
      (auto intro: blob_runs.sat_ret sat_weaken [OF sat_disk_read])
  have f: "sat (blob_inv env files) blob_frame (abind (fetch_blob env b) (\<lambda>d. ret (d, False)))
      (\<lambda>r s. yields env files b (usable env files b) r) s" for s
    by (rule blob_runs.sat_abind [OF sat_fetch_blob [OF env b]])
      (auto simp: usable_def intro: blob_runs.sat_ret)
  show ?thesis
    unfolding blob_bytes_cached_def
  proof (rule blob_runs.sat_abind [OF r])
    fix v and s1 :: store
    assume inv: "blob_inv env files s1" and v: "?Q (Inr v) s1"
    have u: "usable env files b (data, True)"
      if "v = Some data" "length data = unat (bf_size (index_blob (env_index env) b))" for data
    proof -
      from v that(1) obtain p where "cache_path env b = Some p" "store_disk s1 p = Some data" by auto
      moreover have "rot_shows env files (store_disk s1)" using inv by (simp add: blob_inv_def)
      ultimately show ?thesis using b that(2) unfolding rot_shows_def usable_def by blast
    qed
    show "sat (blob_inv env files) blob_frame
        (case v of
           None \<Rightarrow> abind (fetch_blob env b) (\<lambda>d. ret (d, False))
         | Some data \<Rightarrow>
             if length data = unat (bf_size (index_blob (env_index env) b)) then ret (data, True)
             else abind (fetch_blob env b) (\<lambda>d. ret (d, False)))
        (\<lambda>r s. yields env files b (usable env files b) r) s1"
      using f u by (auto split: option.split intro!: blob_runs.sat_ret)
  qed auto
qed

lemma sat_parse_bytes:
  "sat (blob_inv env files) blob_frame (parse_bytes env data)
    (\<lambda>r s. r = (if parse_blob (env_codecs env) data = Inl (In_format Capacity_overflow) then Inl Panic
            else Inr (parse_blob (env_codecs env) data))) s"
  unfolding parse_bytes_def Let_def by (auto intro: blob_runs.sat_ret blob_runs.sat_fail)

lemma sat_parse_or_refetch:
  assumes env: "honest env files" "closed_index (env_index env)" and b: "known env b"
    and d: "usable env files b (data, from_cache)"
  shows "sat (blob_inv env files) blob_frame (parse_or_refetch env b data from_cache)
    (\<lambda>r s. yields env files b (\<lambda>p. parse_of env files b = Inr p) r) s"
proof -
  let ?Q = "\<lambda>r s. yields env files b (\<lambda>p. parse_of env files b = Inr p) r"
  let ?name = "file_name (index_blob (env_index env) b)"
  have no: "?Q (Inl e) s1" if "parse_of env files b = Inl x" for e x and s1 :: store
    using that by (simp add: intact_def)
  have last: "sat (blob_inv env files) blob_frame
      (abind (parse_bytes env (blob_data env files b))
        (\<lambda>r'. pure (map_err (\<lambda>e'. Error (Other (Parsing ?name e'))) r'))) ?Q s1" for s1
    by (rule blob_runs.sat_abind [OF sat_parse_bytes], unfold parse_of_def [symmetric])
      (cases "parse_of env files b"; auto intro!: blob_runs.sat_pure simp: intact_def split: if_splits)+
  have refetch: "sat (blob_inv env files) blob_frame
      (abind (fetch_blob env b) (\<lambda>data'. abind (parse_bytes env data')
        (\<lambda>r'. pure (map_err (\<lambda>e'. Error (Other (Parsing ?name e'))) r')))) ?Q s1" for s1
    by (rule blob_runs.sat_abind [OF sat_fetch_blob [OF env b]]) (use last in auto)
  have rm: "sat (blob_inv env files) blob_frame
      (case cache_path env b of None \<Rightarrow> ret False | Some p \<Rightarrow> disk_do env (Remove p)) (\<lambda>r s. is_ok r) s1" for s1
    by (cases "cache_path env b") (auto intro: blob_runs.sat_ret sat_remove [OF env(2)])
  have heal: "sat (blob_inv env files) blob_frame
      (abind (case cache_path env b of None \<Rightarrow> ret False | Some p \<Rightarrow> disk_do env (Remove p))
        (\<lambda>_. abind (fetch_blob env b) (\<lambda>data'. abind (parse_bytes env data')
          (\<lambda>r'. pure (map_err (\<lambda>e'. Error (Other (Parsing ?name e'))) r'))))) ?Q s1" for s1
    by (rule blob_runs.sat_abind [OF rm]) (use refetch in auto)
  have bad: "parse_of env files b = Inl e" if "parse_blob (env_codecs env) data = Inl e" "\<not> from_cache" for e
    using d that by (simp add: usable_def parse_of_def)
  have good: "parse_of env files b = Inr p" if "parse_blob (env_codecs env) data = Inr p" for p
    using d that by (auto simp: usable_def parse_of_def)
  have over: "parse_of env files b = Inl (In_format Capacity_overflow)"
    if "parse_blob (env_codecs env) data = Inl (In_format Capacity_overflow)"
    using d that by (auto simp: usable_def parse_of_def)
  show ?thesis
    unfolding parse_or_refetch_def Let_def
  proof (rule blob_runs.sat_abind [OF sat_parse_bytes])
    show "?Q (Inl e) s1" if "Inl e = (if parse_blob (env_codecs env) data = Inl (In_format Capacity_overflow)
        then Inl Panic else Inr (parse_blob (env_codecs env) data))" for e and s1 :: store
      using that no [OF over] by (auto split: if_splits)
  next
    fix r s1
    assume "Inr r = (if parse_blob (env_codecs env) data = Inl (In_format Capacity_overflow)
        then Inl Panic else Inr (parse_blob (env_codecs env) data))"
    then have r: "r = parse_blob (env_codecs env) data" by (auto split: if_splits)
    show "sat (blob_inv env files) blob_frame
        (case r of
           Inl e \<Rightarrow>
             if from_cache then
               abind (case cache_path env b of None \<Rightarrow> ret False | Some p \<Rightarrow> disk_do env (Remove p))
                (\<lambda>_. abind (fetch_blob env b) (\<lambda>data'. abind (parse_bytes env data')
                  (\<lambda>r'. pure (map_err (\<lambda>e'. Error (Other (Parsing ?name e'))) r'))))
             else fail (Error (Other (Parsing ?name e)))
         | Inr p \<Rightarrow> ret p) ?Q s1"
      using good [folded r] bad [folded r] heal no
      by (cases r; cases from_cache) (auto intro!: blob_runs.sat_ret blob_runs.sat_fail)
  qed
qed

lemma sat_parsed_cache_get:
  "sat (blob_inv env files) blob_frame (parsed_cache_get env b)
    (\<lambda>r s. \<exists>v. r = Inr v \<and> (\<forall>p. v = Some p \<longrightarrow> parse_of env files b = Inr p)) s"
  unfolding parsed_cache_get_def
proof (rule blob_runs.sat_advance)
  fix x s'
  assume inv: "blob_inv env files s"
    and run: "(case lru_get (env_parsed_lru env) b (parsed_cache s) of (r, c) \<Rightarrow> (r, s\<lparr>parsed_cache := c\<rparr>)) = (x, s')"
  obtain c where c: "lru_get (env_parsed_lru env) b (parsed_cache s) = (x, c)" "s' = s\<lparr>parsed_cache := c\<rparr>"
    using run by (auto split: prod.splits)
  from inv crate.sound_get [OF _ _ c(1), of "\<lambda>b p. parse_of env files b = Inr p"] c(2)
  show "blob_inv env files s' \<and> blob_frame s s' \<and>
      (\<exists>v. Inr x = Inr v \<and> (\<forall>p. v = Some p \<longrightarrow> parse_of env files b = Inr p))"
    by (simp add: blob_inv_def blob_frame_def)
qed

lemma sat_parsed_cache_put:
  assumes "parse_of env files b = Inr p"
  shows "sat (blob_inv env files) blob_frame (parsed_cache_put env b p) (\<lambda>r s. r = Inr ()) s"
  unfolding parsed_cache_put_def
proof (rule blob_runs.sat_modify)
  let ?c = "lru_put_state (env_parsed_lru env) b p (parsed_cache s)"
  assume inv: "blob_inv env files s"
  from inv crate.sound_put [of "env_parsed_lru env" "parsed_cache s" "\<lambda>b p. parse_of env files b = Inr p", OF _ _ assms]
  have "lru_inv (env_parsed_lru env) ?c \<and> (\<forall>(b, p) \<in> set (lru_list ?c). parse_of env files b = Inr p)"
    by (simp add: blob_inv_def)
  with inv show "blob_inv env files (s\<lparr>parsed_cache := ?c\<rparr>) \<and> blob_frame s (s\<lparr>parsed_cache := ?c\<rparr>) \<and>
      Inr () = Inr ()"
    by (simp add: blob_inv_def blob_frame_def)
qed

lemma sat_parse_uncached:
  assumes env: "honest env files" "closed_index (env_index env)" and b: "known env b"
  shows "sat (blob_inv env files) blob_frame (parse_uncached env b)
    (\<lambda>r s. yields env files b (\<lambda>p. parse_of env files b = Inr p) r) s"
proof -
  let ?Q = "\<lambda>r s. yields env files b (\<lambda>p. parse_of env files b = Inr p) r"
  have put: "sat (blob_inv env files) blob_frame (abind (parsed_cache_put env b p) (\<lambda>_. ret p)) ?Q s1"
    if "parse_of env files b = Inr p" for p s1
    by (rule blob_runs.sat_abind [OF sat_parsed_cache_put [OF that]]) (use that in \<open>auto intro: blob_runs.sat_ret\<close>)
  have parse: "sat (blob_inv env files) blob_frame (abind (parse_or_refetch env b (fst d) (snd d))
      (\<lambda>p. abind (parsed_cache_put env b p) (\<lambda>_. ret p))) ?Q s1" if "usable env files b d" for d s1
    by (rule blob_runs.sat_abind [OF sat_parse_or_refetch [OF env b]]) (use that put in auto)
  have miss: "sat (blob_inv env files) blob_frame (abind (blob_bytes_cached env b)
      (\<lambda>d. abind (parse_or_refetch env b (fst d) (snd d))
      (\<lambda>p. abind (parsed_cache_put env b p) (\<lambda>_. ret p)))) ?Q s1" for s1
    by (rule blob_runs.sat_abind [OF sat_blob_bytes_cached [OF env b]]) (use parse in auto)
  show ?thesis
    unfolding parse_uncached_def
    by (rule blob_runs.sat_abind [OF sat_parsed_cache_get])
      (use miss in \<open>auto split: option.split intro!: blob_runs.sat_ret\<close>)
qed

lemma sat_parsed:
  assumes env: "honest env files" "closed_index (env_index env)" and b: "known env b"
  shows "sat (blob_inv env files) blob_frame (parsed env b)
    (\<lambda>r s. yields env files b (\<lambda>p. parse_of env files b = Inr p) r) s"
  unfolding parsed_def
  by (rule blob_runs.sat_abind [OF sat_parsed_cache_get])
    (use sat_parse_uncached [OF env b] in \<open>auto split: option.split intro!: blob_runs.sat_ret\<close>)

section \<open>Version chains\<close>

definition parent_of :: "env \<Rightarrow> (string \<Rightarrow> bytes) \<Rightarrow> blob_id \<Rightarrow> blob_id option" where
  "parent_of env files b =
     (case parse_of env files b of
        Inr p \<Rightarrow> parent_in (env_index env) b (pb_meta p)
      | Inl _ \<Rightarrow> None)"

definition all_intact :: "env \<Rightarrow> (string \<Rightarrow> bytes) \<Rightarrow> bool" where
  "all_intact env files \<longleftrightarrow> (\<forall>b. known env b \<longrightarrow> intact env files b)"

lemma parent_known:
  assumes ix: "closed_index (env_index env)" and p: "parent_of env files b = Some p"
  shows "known env p"
proof -
  let ?idx = "env_index env"
  from p obtain d v c where pr: "find_blob ?idx d v c = Some p \<or> blobs_with_version ?idx d v = [p]"
    by (auto simp: parent_of_def parent_in_def Let_def split: sum.splits option.splits prod.splits list.splits)
  have small: "length (blobs ?idx) < 4294967296" and inv: "index_inv ?idx"
    using ix by (simp_all add: closed_index_def)
  from pr show ?thesis
  proof
    assume "find_blob ?idx d v c = Some p"
    moreover have "keyed blob_key (blobs ?idx) (blob_by_key ?idx)" using inv by (simp add: index_inv_def)
    ultimately show ?thesis using keyed_range small by (fastforce simp: find_blob_def known_def)
  next
    assume v: "blobs_with_version ?idx d v = [p]"
    then obtain dep where dep: "index_depot ?idx d = Some dep"
      by (auto simp: blobs_with_version_def split: option.splits)
    from v dep have "p \<in> set (filter (\<lambda>b. bf_version (index_blob ?idx b) = v) (depot_blobs dep))"
      by (simp add: blobs_with_version_def)
    with loaded_depot [OF inv small dep] show ?thesis by (auto simp: known_def)
  qed
qed

lemma sat_store_parent:
  assumes env: "honest env files" "closed_index (env_index env)" and b: "known env b"
  shows "sat (blob_inv env files) blob_frame (store_parent env b)
    (\<lambda>r s. yields env files b (\<lambda>p. p = parent_of env files b) r) s"
  unfolding store_parent_def
  by (rule blob_runs.sat_abind [OF sat_parsed [OF env b]])
    (auto simp: parent_of_def intro: blob_runs.sat_ret)

text \<open>
  A list that starts at some blob and goes from each to its parent; it is complete when it cannot go
  on, because there is no parent, or the parent is in it already, or it is as long as the code allows.
\<close>

fun climbs :: "env \<Rightarrow> (string \<Rightarrow> bytes) \<Rightarrow> blob_id list \<Rightarrow> bool" where
  "climbs env files (b # c # bs) \<longleftrightarrow> parent_of env files b = Some c \<and> climbs env files (c # bs)"
| "climbs env files bs \<longleftrightarrow> True"

definition complete_chain :: "env \<Rightarrow> (string \<Rightarrow> bytes) \<Rightarrow> blob_id list \<Rightarrow> bool" where
  "complete_chain env files bs \<longleftrightarrow>
     bs \<noteq> [] \<and> distinct bs \<and> climbs env files bs \<and> length bs \<le> Suc CHAIN_MAX \<and>
     (\<forall>p. parent_of env files (last bs) = Some p \<longrightarrow> p \<in> set bs \<or> CHAIN_MAX < length bs)"

lemma climbs_snoc:
  "bs \<noteq> [] \<Longrightarrow> climbs env files (bs @ [p]) \<longleftrightarrow> climbs env files bs \<and> parent_of env files (last bs) = Some p"
  by (induction bs rule: climbs.induct [of _ env files for env files, case_names two nil one]) auto

lemma sat_chain_loop:
  assumes "honest env files" and "closed_index (env_index env)"
    and "out \<noteq> []" and "last out = cur" and "distinct out" and "climbs env files out"
    and "length out \<le> Suc CHAIN_MAX" and "known env cur"
  shows "sat (blob_inv env files) blob_frame (chain_loop env out cur)
    (\<lambda>r s. case r of Inl _ \<Rightarrow> \<not> (reliable env \<and> all_intact env files)
      | Inr bs \<Rightarrow> complete_chain env files bs \<and> prefix out bs) s"
  using assms
proof (induction env out cur arbitrary: s rule: chain_loop.induct)
  case (1 env out cur)
  let ?Q = "\<lambda>r s. case r of Inl _ \<Rightarrow> \<not> (reliable env \<and> all_intact env files)
      | Inr bs \<Rightarrow> complete_chain env files bs \<and> prefix out bs"
  show ?case
  proof (subst chain_loop.simps, rule blob_runs.sat_abind [OF sat_store_parent])
    show "honest env files" "closed_index (env_index env)" "known env cur" by fact+
    show "?Q (Inl e) s1" if "yields env files cur (\<lambda>p. p = parent_of env files cur) (Inl e)"
      for e and s1 :: store
      using that \<open>known env cur\<close> by (auto simp: all_intact_def)
    fix r s1
    assume "yields env files cur (\<lambda>p. p = parent_of env files cur) (Inr r)"
    then have r: "r = parent_of env files cur" by simp
    show "sat (blob_inv env files) blob_frame
        (case r of None \<Rightarrow> ret out
         | Some p \<Rightarrow> if p \<in> set out \<or> CHAIN_MAX < length out then ret out
                     else chain_loop env (out @ [p]) p) ?Q s1"
    proof (cases "\<exists>p. r = Some p \<and> \<not> (p \<in> set out \<or> CHAIN_MAX < length out)")
      case False
      with "1.prems" r have "complete_chain env files out" by (auto simp: complete_chain_def)
      with False show ?thesis by (auto split: option.split intro!: blob_runs.sat_ret)
    next
      case True
      then obtain p where p: "r = Some p" "\<not> (p \<in> set out \<or> CHAIN_MAX < length out)" by blast
      have "sat (blob_inv env files) blob_frame (chain_loop env (out @ [p]) p)
          (\<lambda>r s. case r of Inl _ \<Rightarrow> \<not> (reliable env \<and> all_intact env files)
            | Inr bs \<Rightarrow> complete_chain env files bs \<and> prefix (out @ [p]) bs) s1"
        by (rule "1.IH" [OF p]) (use "1.prems" p r parent_known in \<open>auto simp: climbs_snoc\<close>)
      then have "sat (blob_inv env files) blob_frame (chain_loop env (out @ [p]) p) ?Q s1"
        by (rule sat_weaken) (auto split: sum.splits intro: append_prefixD)
      with p show ?thesis by simp
    qed
  qed
qed

lemma sat_chain:
  assumes "honest env files" and "closed_index (env_index env)" and "known env b"
  shows "sat (blob_inv env files) blob_frame (chain env b)
    (\<lambda>r s. case r of Inl _ \<Rightarrow> \<not> (reliable env \<and> all_intact env files)
      | Inr bs \<Rightarrow> complete_chain env files (rev bs) \<and> last bs = b) s"
  unfolding chain_def
  by (rule blob_runs.sat_abind [OF sat_chain_loop])
    (use assms in \<open>auto simp: prefix_def CHAIN_MAX_def intro!: blob_runs.sat_ret\<close>)

end
