(* ===== verification/File_Tables.thy ===== *)
theory File_Tables
  imports Blob_Store
begin

text \<open>
  The file tables of the store (\<open>src/store.rs\<close>, second part): a version's table is the records it
  introduced over its parent's table, built root-first along the version chain and cached per version.
  On a dump whose version numbers descend along parents, a lookup finds the newest record of the file
  on the way to the root, whatever the caches hold.
\<close>

section \<open>Definitions\<close>

text \<open>The offset of each block, and after them the end of the last.\<close>

fun offsets_from :: "u64 \<Rightarrow> block list \<Rightarrow> u64 list" where
  "offsets_from off [] = [off]"
| "offsets_from off (b # bs) = off # offsets_from (off + ucast (compressed_size b)) bs"

definition file_loc_of :: "blob_id \<Rightarrow> dat_id option \<Rightarrow> file_record \<Rightarrow> file_loc" where
  "file_loc_of b dat r =
     \<lparr>loc_source = b, loc_dat = dat, loc_record = r,
      loc_offsets = offsets_from (fr_offset r) (Checksum_Table.blocks r)\<rparr>"

definition own_map :: "blob_id \<Rightarrow> dat_id option \<Rightarrow> file_record list \<Rightarrow> u32 \<rightharpoonup> file_loc" where
  "own_map b dat rs = fold (\<lambda>r m. m(file_id r \<mapsto> file_loc_of b dat r)) rs Map.empty"

definition dat_of :: "env \<Rightarrow> blob_id \<Rightarrow> parsed_blob \<Rightarrow> dat_id option" where
  "dat_of env b p =
     (let entry = index_blob (env_index env) b
      in find_dat (env_index env) (bf_depot entry) (bf_version entry) (vm_dat_crc (pb_meta p)))"

definition own_table :: "env \<Rightarrow> blob_id \<Rightarrow> file_table option \<Rightarrow> file_table run" where
  "own_table env b par =
     abind (parsed env b) (\<lambda>p. ret (File_table (own_map b (dat_of env b p) (pb_records p)) par))"

text \<open>The loop of \<open>build_table\<close> over the chain, with the table of the layers so far.\<close>

fun build_layers :: "env \<Rightarrow> blob_id list \<Rightarrow> file_table option \<Rightarrow> file_table option run" where
  "build_layers env [] par = ret par"
| "build_layers env (b # bs) par =
     abind (table_cache_get env b) (\<lambda>hit.
     case hit of
       Some t \<Rightarrow> build_layers env bs (Some t)
     | None \<Rightarrow>
         abind (own_table env b par) (\<lambda>t.
         abind (table_cache_put env b t) (\<lambda>_.
         build_layers env bs (Some t))))"

definition build_table :: "env \<Rightarrow> blob_id \<Rightarrow> file_table run" where
  "build_table env b =
     abind (table_cache_get env b) (\<lambda>hit.
     case hit of
       Some t \<Rightarrow> ret t
     | None \<Rightarrow>
         abind (chain env b) (\<lambda>bs.
         abind (build_layers env bs None) (\<lambda>par.
         pure (ok_or (Error (Other Empty_chain)) par))))"

definition table :: "env \<Rightarrow> blob_id \<Rightarrow> file_table run" where
  "table env b =
     abind (table_cache_get env b) (\<lambda>hit.
     case hit of Some t \<Rightarrow> ret t | None \<Rightarrow> build_table env b)"

definition locate :: "env \<Rightarrow> blob_id \<Rightarrow> u32 \<Rightarrow> file_loc run" where
  "locate env b f =
     abind (table env b) (\<lambda>t. pure (ok_or (Error (MissingRecord f)) (table_get t f)))"

section \<open>What a table stands for\<close>

definition own_of :: "env \<Rightarrow> (string \<Rightarrow> bytes) \<Rightarrow> blob_id \<Rightarrow> u32 \<rightharpoonup> file_loc" where
  "own_of env files b =
     (case parse_of env files b of
        Inr p \<Rightarrow> own_map b (dat_of env b p) (pb_records p)
      | Inl _ \<Rightarrow> Map.empty)"

text \<open>The newest record of a file in a list of versions, newest version first.\<close>

fun newest :: "env \<Rightarrow> (string \<Rightarrow> bytes) \<Rightarrow> blob_id list \<Rightarrow> u32 \<rightharpoonup> file_loc" where
  "newest env files [] f = None"
| "newest env files (b # bs) f =
     (case own_of env files b f of Some loc \<Rightarrow> Some loc | None \<Rightarrow> newest env files bs f)"

fun layered :: "env \<Rightarrow> (string \<Rightarrow> bytes) \<Rightarrow> blob_id list \<Rightarrow> file_table option \<Rightarrow> bool" where
  "layered env files [] t \<longleftrightarrow> t = None"
| "layered env files (b # bs) t \<longleftrightarrow>
     (\<exists>par. t = Some (File_table (own_of env files b) par) \<and> layered env files bs par)"

lemma layered_get:
  "layered env files bs (Some t) \<Longrightarrow> table_get t f = newest env files bs f"
proof (induction bs arbitrary: t)
  case (Cons b bs)
  then obtain par where t: "t = File_table (own_of env files b) par" "layered env files bs par" by auto
  with Cons.IH show ?case
    by (cases bs; cases par) (auto split: option.split)
qed simp

text \<open>The whole way from a version to the root of its chain.\<close>

definition ancestry :: "env \<Rightarrow> (string \<Rightarrow> bytes) \<Rightarrow> blob_id \<Rightarrow> blob_id list \<Rightarrow> bool" where
  "ancestry env files b bs \<longleftrightarrow>
     bs \<noteq> [] \<and> hd bs = b \<and> climbs env files bs \<and> parent_of env files (last bs) = None"

lemma ancestry_Cons:
  "ancestry env files b (c # bs) \<longleftrightarrow>
     c = b \<and> (case parent_of env files b of None \<Rightarrow> bs = [] | Some p \<Rightarrow> ancestry env files p bs)"
  by (cases bs) (auto simp: ancestry_def split: option.splits)

lemma ancestry_unique:
  "ancestry env files b bs \<Longrightarrow> ancestry env files b cs \<Longrightarrow> bs = cs"
proof (induction bs arbitrary: b cs)
  case Nil
  then show ?case by (simp add: ancestry_def)
next
  case (Cons x bs)
  from Cons.prems(2) obtain y ys where cs: "cs = y # ys" by (cases cs) (auto simp: ancestry_def)
  with Cons show ?case by (auto simp: ancestry_Cons split: option.splits)
qed

text \<open>
  A dump whose chains come to an end: some rank goes down from a version to its parent, within the
  length the code allows.  Version numbers are such a rank when every parent has a smaller one.
\<close>

definition ranked :: "env \<Rightarrow> (string \<Rightarrow> bytes) \<Rightarrow> bool" where
  "ranked env files \<longleftrightarrow>
     (\<exists>rank. \<forall>b p. known env b \<longrightarrow> parent_of env files b = Some p \<longrightarrow> rank p < rank b \<and> rank b \<le> CHAIN_MAX)"

lemma climbs_known:
  assumes "closed_index (env_index env)" and "climbs env files bs" and "bs \<noteq> []" and "known env (hd bs)"
  shows "\<forall>b \<in> set bs. known env b"
  using assms(2-)
proof (induction bs rule: induct_list012)
  case (3 b c bs)
  from "3.prems"(1) have p: "parent_of env files b = Some c" "climbs env files (c # bs)" by simp_all
  from parent_known [OF assms(1) p(1)] "3.IH"(2) p(2) "3.prems"(3) show ?case by simp
qed auto

lemma climbs_rank:
  assumes "\<forall>b \<in> set bs. \<forall>p. parent_of env files b = Some p \<longrightarrow> rank p < (rank b :: nat)"
    and "climbs env files bs" and "bs \<noteq> []"
  shows "rank (last bs) + length bs \<le> Suc (rank (hd bs)) \<and> (\<forall>x \<in> set bs. rank (last bs) \<le> rank x)"
  using assms
proof (induction bs rule: induct_list012)
  case (3 b c bs)
  from "3.prems"(1,2) have lt: "rank c < rank b" by simp
  have "rank (last (c # bs)) + length (c # bs) \<le> Suc (rank c) \<and> (\<forall>x \<in> set (c # bs). rank (last (c # bs)) \<le> rank x)"
    using "3.IH"(2) "3.prems"(1,2) by simp
  with lt show ?case by auto
qed auto

lemma complete_ancestry:
  assumes ix: "closed_index (env_index env)" and "ranked env files" and "complete_chain env files bs"
    and "hd bs = b" and "known env b"
  shows "ancestry env files b bs"
proof -
  from assms(2) obtain rank :: "blob_id \<Rightarrow> nat" where
    rank: "\<forall>b p. known env b \<longrightarrow> parent_of env files b = Some p \<longrightarrow> rank p < rank b \<and> rank b \<le> CHAIN_MAX"
    by (auto simp: ranked_def)
  from assms(3) have bs: "bs \<noteq> []" "climbs env files bs"
    "\<And>p. parent_of env files (last bs) = Some p \<Longrightarrow> p \<in> set bs \<or> CHAIN_MAX < length bs"
    by (auto simp: complete_chain_def)
  have known: "\<forall>b \<in> set bs. known env b" using climbs_known [OF ix bs(2,1)] assms(4,5) by simp
  have r: "rank (last bs) + length bs \<le> Suc (rank (hd bs)) \<and> (\<forall>x \<in> set bs. rank (last bs) \<le> rank x)"
    using climbs_rank [OF _ bs(2,1)] rank known by blast
  have "parent_of env files (last bs) = None"
  proof (rule ccontr)
    assume "parent_of env files (last bs) \<noteq> None"
    then obtain p where p: "parent_of env files (last bs) = Some p" by blast
    have low: "rank p < rank (last bs)" using rank known p bs(1) last_in_set by blast
    have "rank (hd bs) \<le> CHAIN_MAX"
      using p rank known bs(1,2) by (cases bs; cases "tl bs") auto
    with bs(3) [OF p] r low show False by fastforce
  qed
  with bs assms(4) show ?thesis by (simp add: ancestry_def)
qed

lemma ancestry_suffix:
  "ancestry env files b (xs @ c # ys) \<Longrightarrow> ancestry env files c (c # ys)"
proof (induction xs arbitrary: b)
  case Nil
  then show ?case by (auto simp: ancestry_Cons)
next
  case (Cons x xs)
  then show ?case by (cases xs) (auto simp: ancestry_Cons split: option.splits)
qed

section \<open>The caches hold what the chains say\<close>

definition sound_table :: "env \<Rightarrow> (string \<Rightarrow> bytes) \<Rightarrow> blob_id \<Rightarrow> file_table \<Rightarrow> bool" where
  "sound_table env files b t \<longleftrightarrow> (\<exists>bs. ancestry env files b bs \<and> layered env files bs (Some t))"

definition table_inv :: "env \<Rightarrow> (string \<Rightarrow> bytes) \<Rightarrow> store \<Rightarrow> bool" where
  "table_inv env files s \<longleftrightarrow>
     blob_inv env files s \<and> lru_inv (env_table_lru env) (table_cache s) \<and>
     (\<forall>(b, t) \<in> set (lru_list (table_cache s)). sound_table env files b t)"

definition table_frame :: "store \<Rightarrow> store \<Rightarrow> bool" where
  "table_frame s s' \<longleftrightarrow>
     raw_cache s' = raw_cache s \<and> block_cache s' = block_cache s \<and> resolved_keys s' = resolved_keys s"

interpretation table_runs: run_logic "table_inv env files" table_frame for env files
  by unfold_locales (auto simp: table_frame_def)

lemma table_lift:
  assumes "sat (blob_inv env files) blob_frame m Q s"
  shows "sat (table_inv env files) table_frame m Q s"
  by (rule sat_lift [OF assms]) (auto simp: table_inv_def blob_frame_def table_frame_def)

text \<open>What an action over several blobs may return.\<close>

definition yields_all :: "env \<Rightarrow> (string \<Rightarrow> bytes) \<Rightarrow> ('a \<Rightarrow> bool) \<Rightarrow> failure + 'a \<Rightarrow> bool" where
  "yields_all env files P r \<longleftrightarrow>
     (case r of Inr x \<Rightarrow> P x | Inl _ \<Rightarrow> \<not> (reliable env \<and> all_intact env files))"

lemma yields_all_simps [simp]:
  "yields_all env files P (Inr x) = P x"
  "yields_all env files P (Inl e) = (\<not> (reliable env \<and> all_intact env files))"
  by (simp_all add: yields_all_def)

lemma sat_table_cache_get:
  "sat (table_inv env files) table_frame (table_cache_get env b)
    (\<lambda>r s. \<exists>v. r = Inr v \<and> (\<forall>t. v = Some t \<longrightarrow> sound_table env files b t)) s"
  unfolding table_cache_get_def
proof (rule table_runs.sat_advance)
  fix x s'
  assume inv: "table_inv env files s"
    and run: "(case lru_get (env_table_lru env) b (table_cache s) of (r, c) \<Rightarrow> (r, s\<lparr>table_cache := c\<rparr>)) = (x, s')"
  obtain c where c: "lru_get (env_table_lru env) b (table_cache s) = (x, c)" "s' = s\<lparr>table_cache := c\<rparr>"
    using run by (auto split: prod.splits)
  from inv crate.sound_get [OF _ _ c(1), of "sound_table env files"] c(2)
  show "table_inv env files s' \<and> table_frame s s' \<and>
      (\<exists>v. Inr x = Inr v \<and> (\<forall>t. v = Some t \<longrightarrow> sound_table env files b t))"
    by (simp add: table_inv_def blob_inv_def table_frame_def)
qed

lemma sat_table_cache_put:
  assumes "sound_table env files b t"
  shows "sat (table_inv env files) table_frame (table_cache_put env b t) (\<lambda>r s. r = Inr ()) s"
  unfolding table_cache_put_def
proof (rule table_runs.sat_modify)
  let ?c = "lru_put_state (env_table_lru env) b t (table_cache s)"
  assume inv: "table_inv env files s"
  from inv crate.sound_put [of "env_table_lru env" "table_cache s" "sound_table env files", OF _ _ assms]
  have "lru_inv (env_table_lru env) ?c \<and> (\<forall>(b, t) \<in> set (lru_list ?c). sound_table env files b t)"
    by (simp add: table_inv_def)
  with inv show "table_inv env files (s\<lparr>table_cache := ?c\<rparr>) \<and> table_frame s (s\<lparr>table_cache := ?c\<rparr>) \<and>
      Inr () = Inr ()"
    by (simp add: table_inv_def blob_inv_def table_frame_def)
qed

lemma sat_own_table:
  assumes "honest env files" and "closed_index (env_index env)" and "known env b"
  shows "sat (table_inv env files) table_frame (own_table env b par)
    (\<lambda>r s. yields_all env files (\<lambda>t. t = File_table (own_of env files b) par) r) s"
  unfolding own_table_def
  by (rule table_runs.sat_abind [OF table_lift [OF sat_parsed [OF assms]]])
    (use assms(3) in \<open>auto simp: own_of_def all_intact_def intro: table_runs.sat_ret\<close>)

lemma sat_build_layers:
  assumes "honest env files" and "closed_index (env_index env)" and "\<forall>b \<in> set bs. known env b"
    and "ancestry env files b (rev (acc @ bs))" and "layered env files (rev acc) par"
  shows "sat (table_inv env files) table_frame (build_layers env bs par)
    (\<lambda>r s. yields_all env files (\<lambda>t. layered env files (rev (acc @ bs)) t) r) s"
  using assms(3-)
proof (induction bs arbitrary: acc par s)
  case Nil
  then show ?case by (auto intro: table_runs.sat_ret)
next
  case (Cons c bs)
  have anc: "ancestry env files c (c # rev acc)"
    using ancestry_suffix [of env files b "rev bs" c "rev acc"] Cons.prems(2) by simp
  have next_: "sat (table_inv env files) table_frame (build_layers env bs (Some t))
      (\<lambda>r s. yields_all env files (\<lambda>t. layered env files (rev (acc @ c # bs)) t) r) s1"
    if "layered env files (c # rev acc) (Some t)" for t s1
    using Cons.IH [of "acc @ [c]" "Some t" s1] Cons.prems(1,2) that by simp
  have put: "sat (table_inv env files) table_frame
      (abind (table_cache_put env c t) (\<lambda>_. build_layers env bs (Some t)))
      (\<lambda>r s. yields_all env files (\<lambda>t. layered env files (rev (acc @ c # bs)) t) r) s1"
    if "t = File_table (own_of env files c) par" for t s1
  proof (rule table_runs.sat_abind [OF sat_table_cache_put])
    have l: "layered env files (c # rev acc) (Some t)" using that Cons.prems(3) by simp
    then show "sound_table env files c t" using anc unfolding sound_table_def by blast
    show "sat (table_inv env files) table_frame (build_layers env bs (Some t))
        (\<lambda>r s. yields_all env files (\<lambda>t. layered env files (rev (acc @ c # bs)) t) r) s2" for s2
      using next_ l by blast
  qed auto
  have miss: "sat (table_inv env files) table_frame
      (abind (own_table env c par) (\<lambda>t. abind (table_cache_put env c t) (\<lambda>_. build_layers env bs (Some t))))
      (\<lambda>r s. yields_all env files (\<lambda>t. layered env files (rev (acc @ c # bs)) t) r) s1" for s1
    by (rule table_runs.sat_abind [OF sat_own_table]) (use assms(1,2) Cons.prems(1) put in auto)
  have hit: "layered env files (c # rev acc) (Some t)" if "sound_table env files c t" for t
    using that anc ancestry_unique unfolding sound_table_def by blast
  show ?case
    unfolding build_layers.simps
    by (rule table_runs.sat_abind [OF sat_table_cache_get])
      (use miss next_ hit in \<open>auto split: option.split\<close>)
qed

lemma sat_build_table:
  assumes env: "honest env files" "closed_index (env_index env)" "ranked env files" and b: "known env b"
  shows "sat (table_inv env files) table_frame (build_table env b)
    (\<lambda>r s. yields_all env files (sound_table env files b) r) s"
proof -
  let ?Q = "\<lambda>r s. yields_all env files (sound_table env files b) r"
  have layers: "sat (table_inv env files) table_frame
      (abind (build_layers env bs None) (\<lambda>par. pure (ok_or (Error (Other Empty_chain)) par))) ?Q s1"
    if c: "complete_chain env files (rev bs)" "last bs = b" for bs s1
  proof (rule table_runs.sat_abind [OF sat_build_layers [OF env(1,2), where acc = "[]" and b = b]])
    have ne: "bs \<noteq> []" using c(1) by (auto simp: complete_chain_def)
    then have "ancestry env files b (rev bs)"
      using complete_ancestry [OF env(2,3) c(1)] c(2) b by (simp add: hd_rev)
    then show anc: "ancestry env files b (rev ([] @ bs))" by simp
    show "\<forall>b \<in> set bs. known env b"
      using climbs_known [OF env(2), of files "rev bs"] c b ne by (simp add: complete_chain_def hd_rev)
    fix r s2
    assume "yields_all env files (\<lambda>t. layered env files (rev ([] @ bs)) t) (Inr r)"
    then have l: "layered env files (rev bs) r" by simp
    then obtain t where "r = Some t" using ne by (cases "rev bs") auto
    with l anc show "sat (table_inv env files) table_frame (pure (ok_or (Error (Other Empty_chain)) r)) ?Q s2"
      by (auto simp: sound_table_def intro!: table_runs.sat_pure)
  qed auto
  have miss: "sat (table_inv env files) table_frame
      (abind (chain env b) (\<lambda>bs. abind (build_layers env bs None)
        (\<lambda>par. pure (ok_or (Error (Other Empty_chain)) par)))) ?Q s1" for s1
    by (rule table_runs.sat_abind [OF table_lift [OF sat_chain [OF env(1,2) b]]])
      (simp_all add: layers)
  show ?thesis
    unfolding build_table_def
    by (rule table_runs.sat_abind [OF sat_table_cache_get])
      (use miss in \<open>auto split: option.split intro!: table_runs.sat_ret\<close>)
qed

lemma sat_table:
  assumes env: "honest env files" "closed_index (env_index env)" "ranked env files" and b: "known env b"
  shows "sat (table_inv env files) table_frame (table env b)
    (\<lambda>r s. yields_all env files (sound_table env files b) r) s"
  unfolding table_def
  by (rule table_runs.sat_abind [OF sat_table_cache_get])
    (use sat_build_table [OF env b] in \<open>auto split: option.split intro!: table_runs.sat_ret\<close>)

text \<open>A lookup finds the newest record on the way to the root, or reports that there is none.\<close>

definition located :: "env \<Rightarrow> (string \<Rightarrow> bytes) \<Rightarrow> blob_id \<Rightarrow> u32 \<Rightarrow> failure + file_loc \<Rightarrow> bool" where
  "located env files b f r \<longleftrightarrow>
     (\<exists>bs. ancestry env files b bs \<and> r = ok_or (Error (MissingRecord f)) (newest env files bs f))"

lemma sat_locate:
  assumes env: "honest env files" "closed_index (env_index env)" "ranked env files" and b: "known env b"
  shows "sat (table_inv env files) table_frame (locate env b f)
    (\<lambda>r s. located env files b f r \<or> \<not> is_ok r \<and> \<not> (reliable env \<and> all_intact env files)) s"
  unfolding locate_def
proof (rule table_runs.sat_abind [OF sat_table [OF env b]])
  fix t s1
  assume "yields_all env files (sound_table env files b) (Inr t)"
  then obtain bs where "ancestry env files b bs" "layered env files bs (Some t)"
    by (auto simp: sound_table_def)
  then have "located env files b f (ok_or (Error (MissingRecord f)) (table_get t f))"
    using layered_get [of env files bs t f] by (auto simp: located_def)
  then show "sat (table_inv env files) table_frame (pure (ok_or (Error (MissingRecord f)) (table_get t f)))
      (\<lambda>r s. located env files b f r \<or> \<not> is_ok r \<and> \<not> (reliable env \<and> all_intact env files)) s1"
    by (auto intro: table_runs.sat_pure)
qed auto

end
