(* ===== verification/Block_Store.thy ===== *)
theory Block_Store
  imports File_Tables
begin

text \<open>
  The data path of the store (\<open>src/store.rs\<close>, third part): aligned windows of a dat behind a byte
  cache, spans assembled from windows, the key of an encrypted blob, decoded blocks behind a second
  byte cache, and reads of a file.  With both caches sound, a read returns the bytes the blocks decode
  to, and every error is one the stored bytes explain or a failure of the backend.
\<close>

section \<open>Definitions\<close>

subsection \<open>Windows\<close>

definition RAW_WINDOW :: u64 where
  "RAW_WINDOW = 1048576"

definition saturating_sub :: "u64 \<Rightarrow> u64 \<Rightarrow> u64" where
  "saturating_sub a b = (if b \<le> a then a - b else 0)"

definition window_len :: "dat_file \<Rightarrow> u64 \<Rightarrow> nat" where
  "window_len entry i = unat (min RAW_WINDOW (saturating_sub (df_size entry) (i * RAW_WINDOW)))"

definition fetch_window :: "env \<Rightarrow> dat_id \<Rightarrow> u64 \<Rightarrow> bytes run" where
  "fetch_window env dat i =
     abind (raw_get env (dat, i)) (\<lambda>hit.
     case hit of
       Some w \<Rightarrow> ret w
     | None \<Rightarrow>
         (let entry = index_dat (env_index env) dat; len = window_len entry i in
         abind (if len = 0 then ret []
                else ask_backend env (\<lambda>be. be_read_at be (df_path entry) (i * RAW_WINDOW) len)) (\<lambda>w.
         abind (raw_put env (dat, i) w) (\<lambda>_.
         ret w))))"

definition raw_window :: "env \<Rightarrow> dat_id \<Rightarrow> u64 \<Rightarrow> bytes run" where
  "raw_window env dat i =
     abind (raw_get env (dat, i)) (\<lambda>hit.
     case hit of Some w \<Rightarrow> ret w | None \<Rightarrow> fetch_window env dat i)"

text \<open>The loop of \<open>dat_bytes\<close>; a window that ends before the position ends it.\<close>

lemma advance_below:
  assumes "pos < fin" and "n \<le> unat (fin - pos)"
  shows "unat (pos + of_nat n :: u64) = unat pos + n"
proof -
  have d: "unat (fin - pos) = unat fin - unat pos"
    using assms(1) by (simp add: unat_sub_if_size word_less_nat_alt)
  have "unat pos + n \<le> unat fin" using assms d by (simp add: word_less_nat_alt)
  also have "\<dots> < 18446744073709551616" by (rule unat_u64_less)
  finally show ?thesis by (simp add: unat_word_ariths unat_of_nat)
qed

function dat_loop :: "env \<Rightarrow> dat_id \<Rightarrow> u64 \<Rightarrow> u64 \<Rightarrow> bytes \<Rightarrow> bytes run" where
  "dat_loop env dat fin pos out =
     (if pos < fin then
        abind (raw_window env dat (pos div RAW_WINDOW)) (\<lambda>w.
          let in_w = unat (pos - pos div RAW_WINDOW * RAW_WINDOW) in
          if length w \<le> in_w then ret out
          else
            let n = min (unat (fin - pos)) (length w - in_w)
            in dat_loop env dat fin (pos + of_nat n) (out @ take n (drop in_w w)))
      else ret out)"
  by pat_completeness auto
termination
proof (relation "measure (\<lambda>(env, dat, fin, pos, out). unat fin - unat pos)")
  fix env :: env and dat :: dat_id and fin pos :: u64 and out w :: bytes and in_w n
  assume "pos < fin" "\<not> length w \<le> in_w" "n = min (unat (fin - pos)) (length w - in_w)"
  then have "unat (pos + of_nat n) = unat pos + n" "0 < n"
    using advance_below [of pos fin n] by (auto simp: unat_gt_0)
  moreover have "unat pos < unat fin" using \<open>pos < fin\<close> by (simp add: word_less_nat_alt)
  ultimately show "((env, dat, fin, pos + of_nat n, out @ take n (drop in_w w)), env, dat, fin, pos, out)
      \<in> measure (\<lambda>(env, dat, fin, pos, out). unat fin - unat pos)"
    by simp
qed simp

declare dat_loop.simps [simp del]

text \<open>The buffer is reserved first; a capacity past \<open>isize::MAX\<close> panics.\<close>

definition dat_bytes :: "env \<Rightarrow> dat_id \<Rightarrow> u64 \<Rightarrow> u64 \<Rightarrow> bytes run" where
  "dat_bytes env dat start fin =
     (if ISIZE_MAX < unat (fin - start) then fail Panic else dat_loop env dat fin start [])"

subsection \<open>Keys\<close>

text \<open>A key is tested against one encrypted block with its mode and its stored checksum.\<close>

type_synonym sample = "mode \<times> bytes \<times> u32"

definition key_works :: "env \<Rightarrow> sample \<Rightarrow> key \<Rightarrow> bool" where
  "key_works env = (\<lambda>(m, raw, expected) k. is_ok (decode_verified (env_codecs env) m raw (Some k) expected))"

definition label_depot :: "string \<Rightarrow> u32" where
  "label_depot label = (case parse_u32 (hd (split_all CHR ''@'' label)) of None \<Rightarrow> 0 | Some d \<Rightarrow> d)"

definition search_key :: "env \<Rightarrow> sample \<Rightarrow> key_resolution" where
  "search_key env smp =
     (let cs = candidates (env_blob_keys env) (env_depot_keys env) in
      case List.find (\<lambda>(label, k). key_works env smp k) cs of
        Some (label, k) \<Rightarrow> Discovered k (label_depot label)
      | None \<Rightarrow> No_key (length cs))"

definition resolve :: "env \<Rightarrow> blob_id \<Rightarrow> sample \<Rightarrow> key_resolution" where
  "resolve env src smp =
     (let entry = index_blob (env_index env) src;
          configured = (case get_for_blob (env_keys env) (bf_depot entry) (bf_crc entry) of
              Some k \<Rightarrow> if key_works env smp k then Configured k else No_key 0
            | None \<Rightarrow> No_key 0)
      in case configured of
           No_key _ \<Rightarrow> if key_search (env_cfg env) then search_key env smp else configured
         | _ \<Rightarrow> configured)"

definition resolve_key :: "env \<Rightarrow> blob_id \<Rightarrow> sample \<Rightarrow> key_resolution run" where
  "resolve_key env src smp =
     abind (gets (\<lambda>s. resolved_keys s src)) (\<lambda>r.
     case r of
       Some kr \<Rightarrow> ret kr
     | None \<Rightarrow>
         (let kr = resolve env src smp in
         abind (modify (\<lambda>s. s\<lparr>resolved_keys := (resolved_keys s)(src \<mapsto> kr)\<rparr>)) (\<lambda>_.
         ret kr)))"

subsection \<open>Blocks\<close>

text \<open>The dat's checksum for an error message: an error while looking for it reads as 0.\<close>

definition dat_crc_or_zero :: "env \<Rightarrow> blob_id \<Rightarrow> u32 run" where
  "dat_crc_or_zero env b =
     (\<lambda>s. case parsed env b s of
        (Inr p, s') \<Rightarrow> (Inr (vm_dat_crc (pb_meta p)), s')
      | (Inl Panic, s') \<Rightarrow> (Inl Panic, s')
      | (Inl (Error _), s') \<Rightarrow> (Inr 0, s'))"

definition missing_dat :: "env \<Rightarrow> file_loc \<Rightarrow> read_error run" where
  "missing_dat env loc =
     (let e = index_blob (env_index env) (loc_source loc) in
     abind (dat_crc_or_zero env (loc_source loc)) (\<lambda>c. ret (MissingDat (bf_depot e) (bf_version e) c)))"

definition need_dat :: "env \<Rightarrow> file_loc \<Rightarrow> dat_id run" where
  "need_dat env loc =
     (case loc_dat loc of
        Some d \<Rightarrow> ret d
      | None \<Rightarrow> abind (missing_dat env loc) (\<lambda>e. fail (Error e)))"

text \<open>The stored bytes of a block, all of them or an error.\<close>

definition whole_span :: "file_loc \<Rightarrow> nat \<Rightarrow> u64 \<Rightarrow> u64 \<Rightarrow> bytes \<Rightarrow> failure + bytes" where
  "whole_span loc i start fin raw =
     (if length raw \<noteq> unat (fin - start)
      then Inl (Error (ShortRead (file_id (loc_record loc)) i (unat (fin - start)) (length raw)))
      else Inr raw)"

definition probe_key :: "env \<Rightarrow> file_loc \<Rightarrow> key_resolution run" where
  "probe_key env loc =
     abind (need_dat env loc) (\<lambda>dat.
     case (nth_opt (Checksum_Table.blocks (loc_record loc)) 0, block_span loc 0) of
       (Some first, Some (start, fin)) \<Rightarrow>
         abind (dat_bytes env dat start fin) (\<lambda>raw.
         abind (pure (whole_span loc 0 start fin raw)) (\<lambda>raw.
         resolve_key env (loc_source loc) (fr_mode (loc_record loc), raw, checksum first)))
     | _ \<Rightarrow> fail (Error (NoBlocksToProbe (file_id (loc_record loc)))))"

text \<open>The key a resolution gives, or the error it stands for.\<close>

definition resolution_key :: "env \<Rightarrow> blob_id \<Rightarrow> key_resolution \<Rightarrow> failure + key" where
  "resolution_key env src kr =
     (let entry = index_blob (env_index env) src in
      case kr of
        Configured k \<Rightarrow> Inr k
      | Discovered k _ \<Rightarrow> Inr k
      | No_key n \<Rightarrow>
          if n = 0 then Inl (Error (NoKey (bf_depot entry)))
          else Inl (Error (NoWorkingKey (bf_depot entry) (bf_crc entry) n)))"

text \<open>Decoding, the checksum, and the length the block must have.\<close>

definition decode_block :: "env \<Rightarrow> file_loc \<Rightarrow> nat \<Rightarrow> block \<Rightarrow> bytes \<Rightarrow> key option \<Rightarrow> failure + bytes" where
  "decode_block env loc i meta raw key =
     (let rec = loc_record loc in
     rbind (map_err (\<lambda>e. Error (Format e)) (decode_owned (env_codecs env) (fr_mode rec) raw key)) (\<lambda>decoded.
     let actual = chunk_checksum (env_codecs env) decoded; (bs, be) = block_range rec i in
     if verify (env_cfg env) \<and> actual \<noteq> checksum meta
     then Inl (Error (Checksum (file_id rec) i (checksum meta) actual))
     else if of_nat (length decoded) \<noteq> be - bs
     then Inl (Error (BlockSize (file_id rec) i (be - bs) (length decoded)))
     else Inr decoded))"

definition block_key :: "env \<Rightarrow> file_loc \<Rightarrow> block \<Rightarrow> bytes \<Rightarrow> key option run" where
  "block_key env loc meta raw =
     (if is_encrypted (fr_mode (loc_record loc))
      then abind (resolve_key env (loc_source loc) (fr_mode (loc_record loc), raw, checksum meta)) (\<lambda>kr.
           abind (pure (resolution_key env (loc_source loc) kr)) (\<lambda>k. ret (Some k)))
      else ret None)"

definition read_block :: "env \<Rightarrow> file_loc \<Rightarrow> nat \<Rightarrow> bytes run" where
  "read_block env loc i =
     abind (need_dat env loc) (\<lambda>dat.
     case (nth_opt (Checksum_Table.blocks (loc_record loc)) i, block_span loc i) of
       (Some meta, Some (start, fin)) \<Rightarrow>
         abind (block_get env (dat, start)) (\<lambda>hit.
         case hit of
           Some b \<Rightarrow> ret b
         | None \<Rightarrow>
             abind (dat_bytes env dat start fin) (\<lambda>raw.
             abind (pure (whole_span loc i start fin raw)) (\<lambda>raw.
             abind (block_key env loc meta raw) (\<lambda>key.
             abind (pure (decode_block env loc i meta raw key)) (\<lambda>decoded.
             abind (if fr_mode (loc_record loc) \<noteq> Plain then block_put env (dat, start) decoded else ret ())
               (\<lambda>_. ret decoded))))))
     | _ \<Rightarrow> fail (Error (no_such_block loc i)))"

subsection \<open>Files\<close>

function read_loop :: "env \<Rightarrow> file_loc \<Rightarrow> u64 \<Rightarrow> u64 \<Rightarrow> bytes \<Rightarrow> bytes run" where
  "read_loop env loc fin pos out =
     (if pos < fin then
        abind (read_block env loc (unat pos div BLOCK_SIZE)) (\<lambda>blk.
          let in_block = unat pos mod BLOCK_SIZE in
          if length blk \<le> in_block then fail (Error (no_such_block loc (unat pos div BLOCK_SIZE)))
          else
            let n = min (unat (fin - pos)) (length blk - in_block)
            in read_loop env loc fin (pos + of_nat n) (out @ take n (drop in_block blk)))
      else ret out)"
  by pat_completeness auto
termination
proof (relation "measure (\<lambda>(env, loc, fin, pos, out). unat fin - unat pos)")
  fix env :: env and loc :: file_loc and fin pos :: u64 and out blk :: bytes and in_block n
  assume "pos < fin" "\<not> length blk \<le> in_block" "n = min (unat (fin - pos)) (length blk - in_block)"
  then have "unat (pos + of_nat n) = unat pos + n" "0 < n"
    using advance_below [of pos fin n] by (auto simp: unat_gt_0)
  moreover have "unat pos < unat fin" using \<open>pos < fin\<close> by (simp add: word_less_nat_alt)
  ultimately show "((env, loc, fin, pos + of_nat n, out @ take n (drop in_block blk)), env, loc, fin, pos, out)
      \<in> measure (\<lambda>(env, loc, fin, pos, out). unat fin - unat pos)"
    by simp
qed simp

declare read_loop.simps [simp del]

definition store_read :: "env \<Rightarrow> file_loc \<Rightarrow> u64 \<Rightarrow> nat \<Rightarrow> bytes run" where
  "store_read env loc offset len =
     (let size = fr_size (loc_record loc) in
      if size \<le> offset \<or> len = 0 then ret []
      else
        let fin = min (offset + of_nat len) size in
        if ISIZE_MAX < unat (fin - offset) then fail Panic else read_loop env loc fin offset [])"

section \<open>What the dump stores\<close>

definition known_dat :: "env \<Rightarrow> dat_id \<Rightarrow> bool" where
  "known_dat env d \<longleftrightarrow> unat d < length (dats (env_index env))"

text \<open>The bytes of a dat, up to the length it was listed with.\<close>

definition stored :: "env \<Rightarrow> (string \<Rightarrow> bytes) \<Rightarrow> dat_id \<Rightarrow> bytes" where
  "stored env files dat =
     (let e = index_dat (env_index env) dat in take (unat (df_size e)) (files (df_path e)))"

definition window_of :: "env \<Rightarrow> (string \<Rightarrow> bytes) \<Rightarrow> dat_id \<Rightarrow> u64 \<Rightarrow> bytes" where
  "window_of env files dat i =
     (let e = index_dat (env_index env) dat
      in take (window_len e i) (drop (unat (i * RAW_WINDOW)) (files (df_path e))))"

definition span_of :: "env \<Rightarrow> (string \<Rightarrow> bytes) \<Rightarrow> dat_id \<Rightarrow> u64 \<Rightarrow> u64 \<Rightarrow> bytes" where
  "span_of env files dat start fin = take (unat fin - unat start) (drop (unat start) (stored env files dat))"

text \<open>What a block of a file decodes to under a key resolution, read straight from the dat.\<close>

definition block_value ::
  "env \<Rightarrow> (string \<Rightarrow> bytes) \<Rightarrow> key_resolution \<Rightarrow> file_loc \<Rightarrow> nat \<Rightarrow> failure + bytes" where
  "block_value env files kr loc i =
     (case (loc_dat loc, nth_opt (Checksum_Table.blocks (loc_record loc)) i, block_span loc i) of
        (Some dat, Some meta, Some (start, fin)) \<Rightarrow>
          if ISIZE_MAX < unat (fin - start) then Inl Panic
          else
          rbind (whole_span loc i start fin (span_of env files dat start fin)) (\<lambda>raw.
          rbind (if is_encrypted (fr_mode (loc_record loc))
                 then map_sum id Some (resolution_key env (loc_source loc) kr) else Inr None) (\<lambda>key.
          decode_block env loc i meta raw key))
      | _ \<Rightarrow> Inl (Error (no_such_block loc i)))"

text \<open>
  The block cache is keyed by the dat and the start of the block alone.  Two blocks may share an entry
  when they are the same stored bytes read the same way.
\<close>

definition same_block :: "file_loc \<Rightarrow> nat \<Rightarrow> file_loc \<Rightarrow> nat \<Rightarrow> bool" where
  "same_block l i l' j \<longleftrightarrow>
     fr_mode (loc_record l) = fr_mode (loc_record l') \<and> loc_source l = loc_source l' \<and>
     block_span l i = block_span l' j \<and>
     map_option checksum (nth_opt (Checksum_Table.blocks (loc_record l)) i) =
       map_option checksum (nth_opt (Checksum_Table.blocks (loc_record l')) j) \<and>
     snd (block_range (loc_record l) i) - fst (block_range (loc_record l) i) =
       snd (block_range (loc_record l') j) - fst (block_range (loc_record l') j)"

definition unshared :: "file_loc set \<Rightarrow> bool" where
  "unshared L \<longleftrightarrow>
     (\<forall>l \<in> L. \<forall>l' \<in> L. \<forall>i j start fin fin'. loc_dat l = loc_dat l' \<longrightarrow>
        block_span l i = Some (start, fin) \<longrightarrow> block_span l' j = Some (start, fin') \<longrightarrow> same_block l i l' j)"

lemma decode_block_Inr:
  "decode_block env loc i meta raw key = Inr v \<longleftrightarrow>
     decode_owned (env_codecs env) (fr_mode (loc_record loc)) raw key = Inr v \<and>
     (verify (env_cfg env) \<longrightarrow> chunk_checksum (env_codecs env) v = checksum meta) \<and>
     of_nat (length v) = snd (block_range (loc_record loc) i) - fst (block_range (loc_record loc) i)"
  by (auto simp: decode_block_def rbind_Inr_iff map_err_Inr_iff Let_def case_prod_unfold split: if_splits)

lemma whole_span_Inr:
  "whole_span loc i start fin raw = Inr b \<longleftrightarrow> b = raw \<and> length raw = unat (fin - start)"
  by (auto simp: whole_span_def)

lemma same_block_value:
  assumes "same_block l i l' j" and "loc_dat l = loc_dat l'" and "block_value env files kr l i = Inr v"
  shows "block_value env files kr l' j = Inr v"
  using assms
  by (auto simp: block_value_def same_block_def decode_block_Inr whole_span_Inr rbind_Inr_iff
      split: option.splits prod.splits if_splits)

definition key_settled :: "store \<Rightarrow> file_loc \<Rightarrow> key_resolution \<Rightarrow> bool" where
  "key_settled s loc kr \<longleftrightarrow>
     (is_encrypted (fr_mode (loc_record loc)) \<longrightarrow> resolved_keys s (loc_source loc) = Some kr)"

definition block_entry :: "env \<Rightarrow> (string \<Rightarrow> bytes) \<Rightarrow> file_loc set \<Rightarrow> store \<Rightarrow> dat_id \<times> u64 \<Rightarrow> bytes \<Rightarrow> bool" where
  "block_entry env files L s k v \<longleftrightarrow>
     (\<exists>loc \<in> L. \<exists>i fin kr. loc_dat loc = Some (fst k) \<and> block_span loc i = Some (snd k, fin) \<and>
        key_settled s loc kr \<and> block_value env files kr loc i = Inr v)"

definition data_inv :: "env \<Rightarrow> (string \<Rightarrow> bytes) \<Rightarrow> file_loc set \<Rightarrow> store \<Rightarrow> bool" where
  "data_inv env files L s \<longleftrightarrow>
     blob_inv env files s \<and>
     byte_lru_inv (env_byte_lru env) (raw_cache s) \<and>
     (\<forall>(k, w) \<in> set (lru_list (lru (raw_cache s))). w = window_of env files (fst k) (snd k)) \<and>
     byte_lru_inv (env_byte_lru env) (block_cache s) \<and>
     (\<forall>(k, v) \<in> set (lru_list (lru (block_cache s))). block_entry env files L s k v)"

text \<open>A key once resolved stays.\<close>

definition data_frame :: "store \<Rightarrow> store \<Rightarrow> bool" where
  "data_frame s s' \<longleftrightarrow> table_cache s' = table_cache s \<and> resolved_keys s \<subseteq>\<^sub>m resolved_keys s'"

interpretation data_runs: run_logic "data_inv env files L" data_frame for env files L
  by unfold_locales (auto simp: data_frame_def intro: map_le_trans)

lemma key_settled_mono: "data_frame s s' \<Longrightarrow> key_settled s loc kr \<Longrightarrow> key_settled s' loc kr"
  by (auto simp: data_frame_def key_settled_def map_le_def dom_def)

lemma block_entry_mono:
  "data_frame s s' \<Longrightarrow> block_entry env files L s k v \<Longrightarrow> block_entry env files L s' k v"
  unfolding block_entry_def using key_settled_mono by blast

lemma data_lift:
  assumes "sat (blob_inv env files) blob_frame m Q s"
  shows "sat (data_inv env files L) data_frame m Q s"
  by (rule sat_lift [OF assms])
    (auto simp: data_inv_def blob_frame_def data_frame_def block_entry_def key_settled_def)

section \<open>Windows and spans\<close>

lemma sat_raw_get:
  "sat (data_inv env files L) data_frame (raw_get env (dat, i))
    (\<lambda>r s. \<exists>v. r = Inr v \<and> (\<forall>w. v = Some w \<longrightarrow> w = window_of env files dat i)) s"
  unfolding raw_get_def
proof (rule data_runs.sat_advance)
  fix x s'
  assume inv: "data_inv env files L s"
    and run: "(case byte_lru_get (env_byte_lru env) (dat, i) (raw_cache s) of
      (r, c) \<Rightarrow> (r, s\<lparr>raw_cache := c\<rparr>)) = (x, s')"
  obtain c where c: "byte_lru_get (env_byte_lru env) (dat, i) (raw_cache s) = (x, c)" "s' = s\<lparr>raw_cache := c\<rparr>"
    using run by (auto split: prod.splits)
  from inv byte_cache.sound_get [OF _ _ c(1), of "\<lambda>k w. w = window_of env files (fst k) (snd k)"] c(2)
  show "data_inv env files L s' \<and> data_frame s s' \<and>
      (\<exists>v. Inr x = Inr v \<and> (\<forall>w. v = Some w \<longrightarrow> w = window_of env files dat i))"
    by (simp add: data_inv_def blob_inv_def data_frame_def block_entry_def key_settled_def)
qed

lemma sat_raw_put:
  "sat (data_inv env files L) data_frame (raw_put env (dat, i) (window_of env files dat i)) (\<lambda>r s. r = Inr ()) s"
  unfolding raw_put_def
proof (rule data_runs.sat_modify)
  let ?c = "byte_lru_insert (env_byte_lru env) (dat, i) (window_of env files dat i) (raw_cache s)"
  let ?P = "\<lambda>k w. w = window_of env files (fst k) (snd k)"
  assume inv: "data_inv env files L s"
  have "byte_lru_inv (env_byte_lru env) ?c \<and> (\<forall>(k, w) \<in> set (lru_list (lru ?c)). ?P k w)"
    using inv by (intro byte_cache.sound_put) (auto simp: data_inv_def)
  with inv show "data_inv env files L (s\<lparr>raw_cache := ?c\<rparr>) \<and> data_frame s (s\<lparr>raw_cache := ?c\<rparr>) \<and> Inr () = Inr ()"
    by (simp add: data_inv_def blob_inv_def data_frame_def block_entry_def key_settled_def)
qed

lemma reliable_read_at:
  assumes "reliable env" and "known_dat env d"
  shows "\<exists>b. be_read_at (env_backend env t) (df_path (index_dat (env_index env) d)) off n = Inr b"
  using assms unfolding reliable_def known_dat_def index_dat_def by simp

text \<open>A failure here is the backend's.\<close>

definition gives :: "env \<Rightarrow> 'a \<Rightarrow> failure + 'a \<Rightarrow> bool" where
  "gives env x r \<longleftrightarrow> (case r of Inr y \<Rightarrow> y = x | Inl e \<Rightarrow> \<not> reliable env \<and> (\<exists>m. e = Error (Other (Backend_failed m))))"

lemma gives_simps [simp]:
  "gives env x (Inr y) = (y = x)"
  "gives env x (Inl e) = (\<not> reliable env \<and> (\<exists>m. e = Error (Other (Backend_failed m))))"
  by (simp_all add: gives_def)

lemma sat_fetch_window:
  assumes "honest env files" and "known_dat env dat"
  shows "sat (data_inv env files L) data_frame (fetch_window env dat i)
    (\<lambda>r s. gives env (window_of env files dat i) r) s"
proof -
  let ?e = "index_dat (env_index env) dat"
  let ?n = "window_len ?e i"
  have ask: "sat (data_inv env files L) data_frame
      (if ?n = 0 then ret [] else ask_backend env (\<lambda>be. be_read_at be (df_path ?e) (i * RAW_WINDOW) ?n))
      (\<lambda>r s. gives env (window_of env files dat i) r) s1" for s1
  proof (cases "?n = 0")
    case True
    then show ?thesis by (simp add: window_of_def Let_def data_runs.sat_ret)
  next
    case False
    have "gives env (window_of env files dat i) (map_err (\<lambda>e. Error (Other (Backend_failed e)))
        (be_read_at (env_backend env t) (df_path ?e) (i * RAW_WINDOW) ?n))" for t
      using honest_read_at [OF assms(1), of t "df_path ?e" "i * RAW_WINDOW" ?n]
        reliable_read_at [OF _ assms(2), of t "i * RAW_WINDOW" ?n]
      by (cases "be_read_at (env_backend env t) (df_path ?e) (i * RAW_WINDOW) ?n")
        (auto simp: window_of_def Let_def)
    then have "sat (data_inv env files L) data_frame
        (ask_backend env (\<lambda>be. be_read_at be (df_path ?e) (i * RAW_WINDOW) ?n))
        (\<lambda>r s. gives env (window_of env files dat i) r) s1"
      by (intro data_lift sat_ask_backend)
    with False show ?thesis by simp
  qed
  have put: "sat (data_inv env files L) data_frame
      (abind (raw_put env (dat, i) (window_of env files dat i)) (\<lambda>_. ret (window_of env files dat i)))
      (\<lambda>r s. gives env (window_of env files dat i) r) s1" for s1
    by (rule data_runs.sat_abind [OF sat_raw_put]) (auto intro: data_runs.sat_ret)
  have miss: "sat (data_inv env files L) data_frame
      (abind (if ?n = 0 then ret [] else ask_backend env (\<lambda>be. be_read_at be (df_path ?e) (i * RAW_WINDOW) ?n))
        (\<lambda>w. abind (raw_put env (dat, i) w) (\<lambda>_. ret w)))
      (\<lambda>r s. gives env (window_of env files dat i) r) s1" for s1
    by (rule data_runs.sat_abind [OF ask]) (use put in auto)
  show ?thesis
    unfolding fetch_window_def Let_def
    by (rule data_runs.sat_abind [OF sat_raw_get])
      (use miss in \<open>auto split: option.split intro!: data_runs.sat_ret\<close>)
qed

lemma sat_raw_window:
  assumes "honest env files" and "known_dat env dat"
  shows "sat (data_inv env files L) data_frame (raw_window env dat i)
    (\<lambda>r s. gives env (window_of env files dat i) r) s"
  unfolding raw_window_def
  by (rule data_runs.sat_abind [OF sat_raw_get])
    (use sat_fetch_window [OF assms] in \<open>auto split: option.split intro!: data_runs.sat_ret\<close>)

lemma window_start:
  "unat (pos div RAW_WINDOW * RAW_WINDOW) = unat pos div 1048576 * 1048576"
  "unat (pos - pos div RAW_WINDOW * RAW_WINDOW) = unat pos mod 1048576"
proof -
  have "unat pos div 1048576 * 1048576 \<le> unat pos" by (rule div_times_less_eq_dividend)
  then have "unat pos div 1048576 * 1048576 < 18446744073709551616"
    using unat_u64_less [of pos] by (rule le_less_trans)
  then show a: "unat (pos div RAW_WINDOW * RAW_WINDOW) = unat pos div 1048576 * 1048576"
    by (simp add: RAW_WINDOW_def unat_word_ariths unat_div_distrib)
  have "pos div RAW_WINDOW * RAW_WINDOW \<le> pos"
    unfolding word_le_nat_alt a by (rule div_times_less_eq_dividend)
  then show "unat (pos - pos div RAW_WINDOW * RAW_WINDOW) = unat pos mod 1048576"
    by (simp add: minus_div_mult_eq_mod RAW_WINDOW_def unat_mod_distrib)
qed

lemma window_of_stored:
  "window_of env files dat (pos div RAW_WINDOW) =
     take 1048576 (drop (unat pos div 1048576 * 1048576) (stored env files dat))"
proof -
  let ?e = "index_dat (env_index env) dat" and ?st = "unat pos div 1048576 * 1048576"
  have len: "window_len ?e (pos div RAW_WINDOW) = min 1048576 (unat (df_size ?e) - ?st)"
    using window_start(1) [of pos]
    by (auto simp: window_len_def saturating_sub_def min_def word_le_nat_alt unat_sub_if_size RAW_WINDOW_def)
  have "take (min 1048576 (unat (df_size ?e) - ?st)) (drop ?st f) =
      take 1048576 (drop ?st (take (unat (df_size ?e)) f))" for f :: bytes
    by (simp add: drop_take)
  then show ?thesis by (simp add: window_of_def stored_def Let_def len window_start)
qed

lemma sat_dat_loop:
  assumes "honest env files" and "known_dat env dat"
  shows "sat (data_inv env files L) data_frame (dat_loop env dat fin pos out)
    (\<lambda>r s. gives env (out @ span_of env files dat pos fin) r) s"
  using assms
proof (induction env dat fin pos out arbitrary: s rule: dat_loop.induct)
  case (1 env dat fin pos out s)
  let ?X = "drop (unat pos) (stored env files dat)"
  show ?case
  proof (cases "pos < fin")
    case False
    then have "span_of env files dat pos fin = []" by (simp add: span_of_def word_less_nat_alt)
    with False show ?thesis by (subst dat_loop.simps) (simp add: data_runs.sat_ret)
  next
    case True
    define in_w where "in_w = unat (pos - pos div RAW_WINDOW * RAW_WINDOW)"
    define w where "w = window_of env files dat (pos div RAW_WINDOW)"
    have in_w: "in_w = unat pos mod 1048576" by (simp add: in_w_def window_start)
    have w: "drop in_w w = take (1048576 - in_w) ?X"
      by (simp add: w_def window_of_stored in_w drop_take)
    have "sat (data_inv env files L) data_frame
        (if length w \<le> in_w then ret out
         else let n = min (unat (fin - pos)) (length w - in_w)
              in dat_loop env dat fin (pos + of_nat n) (out @ take n (drop in_w w)))
        (\<lambda>r s. gives env (out @ span_of env files dat pos fin) r) s1" for s1
    proof (cases "length w \<le> in_w")
      case True
      then have "take (1048576 - in_w) ?X = []" using w by simp
      moreover have "in_w < 1048576" by (simp add: in_w)
      ultimately have "?X = []" by (metis take_eq_Nil2 zero_less_diff less_irrefl)
      then have "span_of env files dat pos fin = []" by (simp add: span_of_def)
      with True show ?thesis by (simp add: data_runs.sat_ret)
    next
      case far: False
      define n where "n = min (unat (fin - pos)) (length w - in_w)"
      have n: "n \<le> unat (fin - pos)" "n \<le> length w - in_w" by (simp_all add: n_def)
      note adv = advance_below [OF True n(1)]
      have "length w - in_w \<le> 1048576 - in_w" using arg_cong [OF w, of length] by simp
      with n(2) have "take n (drop in_w w) = take n ?X" by (simp add: w)
      moreover have "n + (unat fin - (unat pos + n)) = unat fin - unat pos"
        using n(1) True by (simp add: unat_sub_if_size word_less_nat_alt)
      ultimately have "take n (drop in_w w) @ span_of env files dat (pos + of_nat n) fin =
          span_of env files dat pos fin"
        using take_add [of n "unat fin - (unat pos + n)" ?X]
        by (simp add: span_of_def adv add.commute)
      with "1.IH" [OF True in_w_def far n_def "1.prems", of s1] far show ?thesis
        by (simp add: n_def [symmetric])
    qed
    then have "sat (data_inv env files L) data_frame
        (abind (raw_window env dat (pos div RAW_WINDOW)) (\<lambda>w.
          if length w \<le> in_w then ret out
          else let n = min (unat (fin - pos)) (length w - in_w)
               in dat_loop env dat fin (pos + of_nat n) (out @ take n (drop in_w w))))
        (\<lambda>r s. gives env (out @ span_of env files dat pos fin) r) s"
      by (intro data_runs.sat_abind [OF sat_raw_window [OF "1.prems"]]) (auto simp: w_def)
    then show ?thesis using True by (subst dat_loop.simps) (simp add: in_w_def [symmetric])
  qed
qed

lemma sat_dat_bytes:
  assumes "honest env files" and "known_dat env dat" and "unat (fin - start) \<le> ISIZE_MAX"
  shows "sat (data_inv env files L) data_frame (dat_bytes env dat start fin)
    (\<lambda>r s. gives env (span_of env files dat start fin) r) s"
  using sat_dat_loop [OF assms(1,2), of L fin start "[]" s] assms(3) by (simp add: dat_bytes_def)

section \<open>Blocks\<close>

lemma sat_resolve_key:
  "sat (data_inv env files L) data_frame (resolve_key env src smp)
    (\<lambda>r s'. \<exists>kr. r = Inr kr \<and> resolved_keys s' src = Some kr \<and>
       (resolved_keys s src = Some kr \<or> resolved_keys s src = None \<and> kr = resolve env src smp)) s"
proof (cases "resolved_keys s src")
  case (Some kr)
  then show ?thesis
    by (simp add: sat_def resolve_key_def action_simps data_frame_def)
next
  case None
  let ?kr = "resolve env src smp"
  let ?s = "s\<lparr>resolved_keys := (resolved_keys s)(src \<mapsto> ?kr)\<rparr>"
  have g: "data_frame s ?s" using None by (auto simp: data_frame_def map_le_def)
  have "data_inv env files L ?s" if "data_inv env files L s"
    using that block_entry_mono [OF g, of env files L] by (auto simp: data_inv_def blob_inv_def)
  with None g show ?thesis
    by (simp add: sat_def resolve_key_def action_simps Let_def)
qed

definition key_of :: "env \<Rightarrow> file_loc \<Rightarrow> key_resolution \<Rightarrow> failure + key option" where
  "key_of env loc kr =
     (if is_encrypted (fr_mode (loc_record loc))
      then map_sum id Some (resolution_key env (loc_source loc) kr) else Inr None)"

lemma sat_block_key:
  "sat (data_inv env files L) data_frame (block_key env loc meta raw)
    (\<lambda>r s. \<exists>kr. key_settled s loc kr \<and> r = key_of env loc kr) s"
proof (cases "is_encrypted (fr_mode (loc_record loc))")
  case False
  then show ?thesis by (auto simp: block_key_def key_of_def key_settled_def intro: data_runs.sat_ret)
next
  case True
  have "sat (data_inv env files L) data_frame
      (abind (pure (resolution_key env (loc_source loc) kr)) (\<lambda>k. ret (Some k)))
      (\<lambda>r s. \<exists>kr. key_settled s loc kr \<and> r = key_of env loc kr) s1"
    if "resolved_keys s1 (loc_source loc) = Some kr" for kr s1
    using that True
    by (auto simp: sat_def action_simps key_settled_def key_of_def data_frame_def split: sum.split)
  with True show ?thesis
    unfolding block_key_def by (auto intro!: data_runs.sat_abind [OF sat_resolve_key])
qed

text \<open>
  What reading a block may return: its value under the key that is settled by then, or an error that
  no key changes, or the backend's failure.
\<close>

definition block_post ::
  "env \<Rightarrow> (string \<Rightarrow> bytes) \<Rightarrow> file_loc \<Rightarrow> nat \<Rightarrow> failure + bytes \<Rightarrow> store \<Rightarrow> bool" where
  "block_post env files loc i r s \<longleftrightarrow>
     (\<exists>kr. key_settled s loc kr \<and> r = block_value env files kr loc i) \<or>
     \<not> is_ok r \<and> (\<forall>kr. r = block_value env files kr loc i) \<or>
     \<not> reliable env \<and> (\<exists>m. r = Inl (Error (Other (Backend_failed m))))"

lemma sat_block_get:
  assumes "unshared L" and "loc \<in> L" and "loc_dat loc = Some dat" and "block_span loc i = Some (start, fin)"
  shows "sat (data_inv env files L) data_frame (block_get env (dat, start))
    (\<lambda>r s. \<exists>v. r = Inr v \<and> (\<forall>b. v = Some b \<longrightarrow> block_post env files loc i (Inr b) s)) s"
  unfolding block_get_def
proof (rule data_runs.sat_advance)
  fix x s'
  assume inv: "data_inv env files L s"
    and run: "(case byte_lru_get (env_byte_lru env) (dat, start) (block_cache s) of
      (r, c) \<Rightarrow> (r, s\<lparr>block_cache := c\<rparr>)) = (x, s')"
  obtain c where c: "byte_lru_get (env_byte_lru env) (dat, start) (block_cache s) = (x, c)"
    "s' = s\<lparr>block_cache := c\<rparr>"
    using run by (auto split: prod.splits)
  have g: "data_frame s s'" by (simp add: c(2) data_frame_def)
  from inv byte_cache.sound_get [OF _ _ c(1), of "block_entry env files L s"]
  have k: "byte_lru_inv (env_byte_lru env) c" "\<forall>(k, v) \<in> set (lru_list (lru c)). block_entry env files L s k v"
    and hit: "\<And>b. x = Some b \<Longrightarrow> block_entry env files L s (dat, start) b"
    by (auto simp: data_inv_def)
  have "block_post env files loc i (Inr b) s'" if "x = Some b" for b
  proof -
    from hit [OF that] obtain l j fin' kr where l: "l \<in> L" "loc_dat l = Some dat"
      "block_span l j = Some (start, fin')" "key_settled s l kr" "block_value env files kr l j = Inr b"
      by (auto simp: block_entry_def)
    have sb: "same_block l j loc i" using assms l(1-3) unfolding unshared_def by metis
    have "block_value env files kr loc i = Inr b"
      using same_block_value [OF sb _ l(5)] l(2) assms(3) by simp
    moreover have "key_settled s' loc kr"
      using key_settled_mono [OF g l(4)] sb by (simp add: key_settled_def same_block_def)
    ultimately show ?thesis unfolding block_post_def by metis
  qed
  with inv k block_entry_mono [OF g, of env files L] g
  show "data_inv env files L s' \<and> data_frame s s' \<and>
      (\<exists>v. Inr x = Inr v \<and> (\<forall>b. v = Some b \<longrightarrow> block_post env files loc i (Inr b) s'))"
    by (auto simp: data_inv_def blob_inv_def c(2))
qed

lemma sat_block_put:
  assumes "loc \<in> L" and "loc_dat loc = Some dat" and "block_span loc i = Some (start, fin)"
    and "key_settled s loc kr" and "block_value env files kr loc i = Inr v"
  shows "sat (data_inv env files L) data_frame (block_put env (dat, start) v)
    (\<lambda>r s'. r = Inr () \<and> key_settled s' loc kr) s"
  unfolding block_put_def
proof (rule data_runs.sat_modify)
  let ?c = "byte_lru_insert (env_byte_lru env) (dat, start) v (block_cache s)"
  let ?s = "s\<lparr>block_cache := ?c\<rparr>"
  assume inv: "data_inv env files L s"
  have g: "data_frame s ?s" by (simp add: data_frame_def)
  have "block_entry env files L s (dat, start) v" using assms by (auto simp: block_entry_def)
  with inv have "byte_lru_inv (env_byte_lru env) ?c \<and>
      (\<forall>(k, v) \<in> set (lru_list (lru ?c)). block_entry env files L s k v)"
    by (intro byte_cache.sound_put) (auto simp: data_inv_def)
  with inv g block_entry_mono [OF g, of env files L] key_settled_mono [OF g assms(4)]
  show "data_inv env files L ?s \<and> data_frame s ?s \<and> Inr () = Inr () \<and> key_settled ?s loc kr"
    by (auto simp: data_inv_def blob_inv_def)
qed

lemma block_value_eq:
  assumes "loc_dat loc = Some dat" and "nth_opt (Checksum_Table.blocks (loc_record loc)) i = Some meta"
    and "block_span loc i = Some (start, fin)"
  shows "block_value env files kr loc i =
    (if ISIZE_MAX < unat (fin - start) then Inl Panic
     else rbind (whole_span loc i start fin (span_of env files dat start fin)) (\<lambda>raw.
          rbind (key_of env loc kr) (decode_block env loc i meta raw)))"
  using assms by (simp add: block_value_def key_of_def)

lemma sat_decode_stage:
  assumes loc: "loc \<in> L" "loc_dat loc = Some dat" "block_span loc i = Some (start, fin)"
    and val: "\<And>kr. block_value env files kr loc i = rbind (key_of env loc kr) (decode_block env loc i meta raw)"
  shows "sat (data_inv env files L) data_frame
    (abind (block_key env loc meta raw) (\<lambda>key.
     abind (pure (decode_block env loc i meta raw key)) (\<lambda>decoded.
     abind (if fr_mode (loc_record loc) \<noteq> Plain then block_put env (dat, start) decoded else ret ())
       (\<lambda>_. ret decoded)))) (block_post env files loc i) s"
proof (rule data_runs.sat_abind [OF sat_block_key])
  fix e and s1 :: store
  assume "\<exists>kr. key_settled s1 loc kr \<and> Inl e = key_of env loc kr"
  then show "block_post env files loc i (Inl e) s1"
    unfolding block_post_def by (metis val rbind_simps(1))
next
  fix key s1
  assume "\<exists>kr. key_settled s1 loc kr \<and> Inr key = key_of env loc kr"
  then obtain kr where kr: "key_settled s1 loc kr" "key_of env loc kr = Inr key" by auto
  have v: "block_value env files kr loc i = decode_block env loc i meta raw key"
    by (simp add: val kr(2))
  show "sat (data_inv env files L) data_frame
      (abind (pure (decode_block env loc i meta raw key)) (\<lambda>decoded.
       abind (if fr_mode (loc_record loc) \<noteq> Plain then block_put env (dat, start) decoded else ret ())
         (\<lambda>_. ret decoded))) (block_post env files loc i) s1"
  proof (rule data_runs.sat_abind [OF data_runs.sat_pure
        [where Q = "\<lambda>r s. r = decode_block env loc i meta raw key \<and> key_settled s loc kr"]])
    show "block_post env files loc i (Inl e) s2"
      if "Inl e = decode_block env loc i meta raw key \<and> key_settled s2 loc kr" for e s2
      using that v unfolding block_post_def by metis
    fix d s2
    assume d: "Inr d = decode_block env loc i meta raw key \<and> key_settled s2 loc kr"
    with v have vd: "block_value env files kr loc i = Inr d" by simp
    have put: "sat (data_inv env files L) data_frame
        (if fr_mode (loc_record loc) \<noteq> Plain then block_put env (dat, start) d else ret ())
        (\<lambda>r s'. r = Inr () \<and> key_settled s' loc kr) s2"
      using sat_block_put [OF loc _ vd, of s2] d by (auto intro: data_runs.sat_ret)
    show "sat (data_inv env files L) data_frame
        (abind (if fr_mode (loc_record loc) \<noteq> Plain then block_put env (dat, start) d else ret ()) (\<lambda>_. ret d))
        (block_post env files loc i) s2"
      by (rule data_runs.sat_abind [OF put])
        (use vd in \<open>fastforce simp: block_post_def intro!: data_runs.sat_ret\<close>)+
  qed (use kr(1) in auto)
qed

lemma sat_read_block:
  assumes env: "honest env files" and L: "unshared L" "loc \<in> L"
    and dat: "loc_dat loc = Some dat" "known_dat env dat"
  shows "sat (data_inv env files L) data_frame (read_block env loc i) (block_post env files loc i) s"
proof (cases "\<exists>meta start fin. nth_opt (Checksum_Table.blocks (loc_record loc)) i = Some meta \<and>
    block_span loc i = Some (start, fin)")
  case False
  then have run: "read_block env loc i = abind (ret dat) (\<lambda>dat. fail (Error (no_such_block loc i)))"
    by (cases "nth_opt (Checksum_Table.blocks (loc_record loc)) i"; cases "block_span loc i")
      (auto simp: read_block_def need_dat_def dat)
  have v: "block_value env files kr loc i = Inl (Error (no_such_block loc i))" for kr
    using False by (auto simp: block_value_def dat split: option.splits)
  show ?thesis
    unfolding run
    by (auto simp: sat_def action_simps block_post_def v data_frame_def)
next
  case True
  then obtain meta start fin where m: "nth_opt (Checksum_Table.blocks (loc_record loc)) i = Some meta"
    and sp: "block_span loc i = Some (start, fin)" by blast
  note v = block_value_eq [OF dat(1) m sp, of env files]
  let ?raw = "span_of env files dat start fin"
  let ?rest = "\<lambda>raw. abind (pure (whole_span loc i start fin raw)) (\<lambda>raw.
     abind (block_key env loc meta raw) (\<lambda>key.
     abind (pure (decode_block env loc i meta raw key)) (\<lambda>decoded.
     abind (if fr_mode (loc_record loc) \<noteq> Plain then block_put env (dat, start) decoded else ret ())
       (\<lambda>_. ret decoded))))"
  have whole: "sat (data_inv env files L) data_frame (?rest ?raw) (block_post env files loc i) s1"
    if "unat (fin - start) \<le> ISIZE_MAX" for s1
  proof (rule data_runs.sat_abind [OF data_runs.sat_pure
        [where Q = "\<lambda>r s. r = whole_span loc i start fin ?raw"]])
    show "block_post env files loc i (Inl e) s2" if "Inl e = whole_span loc i start fin ?raw" for e s2
      using that \<open>unat (fin - start) \<le> ISIZE_MAX\<close> by (simp add: block_post_def v flip: that)
    fix raw s2 assume "Inr raw = whole_span loc i start fin ?raw"
    then have w: "whole_span loc i start fin ?raw = Inr ?raw" and raw: "raw = ?raw"
      by (auto simp: whole_span_def split: if_splits)
    show "sat (data_inv env files L) data_frame
        (abind (block_key env loc meta raw) (\<lambda>key.
         abind (pure (decode_block env loc i meta raw key)) (\<lambda>decoded.
         abind (if fr_mode (loc_record loc) \<noteq> Plain then block_put env (dat, start) decoded else ret ())
           (\<lambda>_. ret decoded)))) (block_post env files loc i) s2"
      unfolding raw by (rule sat_decode_stage [OF L(2) dat(1) sp]) (use that in \<open>simp add: v w\<close>)
  qed auto
  have miss: "sat (data_inv env files L) data_frame (abind (dat_bytes env dat start fin) ?rest)
      (block_post env files loc i) s1" for s1
  proof (cases "ISIZE_MAX < unat (fin - start)")
    case True
    then show ?thesis
      by (simp add: dat_bytes_def sat_def action_simps block_post_def v data_frame_def)
  next
    case False
    then have le: "unat (fin - start) \<le> ISIZE_MAX" by simp
    show ?thesis
      by (rule data_runs.sat_abind [OF sat_dat_bytes [OF env dat(2) le]])
        (use whole [OF le] in \<open>auto simp: block_post_def\<close>)
  qed
  have "read_block env loc i = abind (ret dat) (\<lambda>dat. abind (block_get env (dat, start)) (\<lambda>hit.
      case hit of Some b \<Rightarrow> ret b | None \<Rightarrow> abind (dat_bytes env dat start fin)
        (\<lambda>raw. abind (pure (whole_span loc i start fin raw)) (\<lambda>raw.
         abind (block_key env loc meta raw) (\<lambda>key.
         abind (pure (decode_block env loc i meta raw key)) (\<lambda>decoded.
         abind (if fr_mode (loc_record loc) \<noteq> Plain then block_put env (dat, start) decoded else ret ())
           (\<lambda>_. ret decoded)))))))"
    by (simp add: read_block_def need_dat_def dat m sp)
  then have run: "read_block env loc i = abind (block_get env (dat, start)) (\<lambda>hit.
      case hit of Some b \<Rightarrow> ret b | None \<Rightarrow> abind (dat_bytes env dat start fin) ?rest)"
    by (simp add: fun_eq_iff action_simps)
  show ?thesis
    unfolding run
    by (rule data_runs.sat_abind [OF sat_block_get [OF L dat(1) sp]])
      (use miss in \<open>auto split: option.split intro!: data_runs.sat_ret\<close>)
qed

section \<open>Files\<close>

lemma settled_value_eq:
  assumes "key_settled s loc kr" and "key_settled s loc kr'"
  shows "block_value env files kr loc i = block_value env files kr' loc i"
  using assms by (cases "is_encrypted (fr_mode (loc_record loc))") (auto simp: key_settled_def block_value_def)

text \<open>Decryption works in place.\<close>

definition cipher_in_place :: "codecs \<Rightarrow> bool" where
  "cipher_in_place cx \<longleftrightarrow> (\<forall>k b. length (aes_cfb_dec cx k b) = length b)"

lemma decode_owned_length:
  assumes "cipher_in_place cx" and "decode_owned cx m raw key = Inr d"
  shows "length d \<le> max (length raw) BLOCK_SIZE"
proof (cases m)
  case Plain
  with assms show ?thesis by simp
next
  case Compressed
  then have "length d \<le> BLOCK_SIZE" using assms(2) by (auto simp: inflate_def rbind_Inr_iff split: if_splits)
  then show ?thesis by simp
next
  case CompressedEncrypted
  then have "length d \<le> BLOCK_SIZE"
    using assms(2) by (auto simp: rbind_Inr_iff ok_or_Inr_iff Let_def split: if_splits)
  then show ?thesis by simp
next
  case Encrypted
  with assms show ?thesis
    by (auto simp: rbind_Inr_iff ok_or_Inr_iff decrypt_def cipher_in_place_def)
qed

text \<open>A block that reads is long enough for every position of the file in it, and not longer than a block.\<close>

lemma block_range_covers:
  assumes "pos < fr_size r"
  defines "be \<equiv> snd (block_range r (unat pos div BLOCK_SIZE))" and "bs \<equiv> fst (block_range r (unat pos div BLOCK_SIZE))"
  shows "unat pos mod BLOCK_SIZE < unat (be - bs)" and "unat (be - bs) \<le> BLOCK_SIZE"
proof -
  let ?i = "unat pos div BLOCK_SIZE" and ?m = "unat pos mod BLOCK_SIZE"
  have m: "?m < BLOCK_SIZE" by (simp add: BLOCK_SIZE_def)
  have pos: "unat pos = ?i * BLOCK_SIZE + ?m" by simp
  have lt: "?i * BLOCK_SIZE < 18446744073709551616" using unat_u64_less [of pos] pos by linarith
  have "bs = of_nat (?i * BLOCK_SIZE)" by (simp add: bs_def block_range_def Let_def)
  then have bs: "unat bs = ?i * BLOCK_SIZE" using lt by (simp only: unat_of_nat) simp
  have be: "be = min (bs + of_nat BLOCK_SIZE) (fr_size r)"
    by (simp add: be_def bs_def block_range_def Let_def)
  have sz: "unat pos < unat (fr_size r)" using assms(1) by (simp add: word_less_nat_alt)
  have "?m < unat (be - bs) \<and> unat (be - bs) \<le> BLOCK_SIZE"
  proof (cases "bs + of_nat BLOCK_SIZE \<le> fr_size r")
    case True
    then have "be - bs = of_nat BLOCK_SIZE" by (simp add: be min_def)
    with m show ?thesis by (simp add: BLOCK_SIZE_def)
  next
    case False
    then have e: "be = fr_size r" by (simp add: be min_def)
    have "unat (fr_size r) < unat (bs + of_nat BLOCK_SIZE)" using False by (simp add: word_le_nat_alt)
    also have "\<dots> \<le> unat bs + BLOCK_SIZE" by (simp add: unat_word_ariths BLOCK_SIZE_def)
    finally have "unat (fr_size r) < unat bs + BLOCK_SIZE" .
    moreover have "bs \<le> be" unfolding e word_le_nat_alt bs using sz pos by linarith
    then have "unat (be - bs) = unat (fr_size r) - unat bs" by (simp add: unat_sub e)
    ultimately show ?thesis using sz pos bs by linarith
  qed
  then show "?m < unat (be - bs)" and "unat (be - bs) \<le> BLOCK_SIZE" by auto
qed

lemma block_value_length:
  assumes cx: "cipher_in_place (env_codecs env)" and v: "block_value env files kr loc (unat pos div BLOCK_SIZE) = Inr d"
    and pos: "pos < fr_size (loc_record loc)"
  shows "unat pos mod BLOCK_SIZE < length d" and "length d \<le> BLOCK_SIZE"
proof -
  let ?i = "unat pos div BLOCK_SIZE" and ?r = "loc_record loc"
  from v have "\<exists>meta raw key. decode_block env loc ?i meta raw key = Inr d \<and> length raw \<le> ISIZE_MAX"
    by (fastforce simp: block_value_def rbind_Inr_iff whole_span_Inr split: option.splits prod.splits if_splits)
  then obtain meta raw key where
    d: "decode_block env loc ?i meta raw key = Inr d" and raw: "length raw \<le> ISIZE_MAX" by blast
  then have "length d \<le> max (length raw) BLOCK_SIZE"
    using decode_owned_length [OF cx] by (auto simp: decode_block_Inr)
  then have small: "length d < 18446744073709551616" using raw by (simp add: ISIZE_MAX_def BLOCK_SIZE_def)
  have "of_nat (length d) = snd (block_range ?r ?i) - fst (block_range ?r ?i)"
    using d by (simp add: decode_block_Inr)
  then have "length d = unat (snd (block_range ?r ?i) - fst (block_range ?r ?i))"
    using small by (simp add: unat_of_nat flip: \<open>of_nat (length d) = _\<close>)
  then show "unat pos mod BLOCK_SIZE < length d" "length d \<le> BLOCK_SIZE"
    using block_range_covers [OF pos] by simp_all
qed

lemma block_value_decodes:
  assumes "block_value env files kr loc i = Inr d"
  obtains meta raw key where "nth_opt (Checksum_Table.blocks (loc_record loc)) i = Some meta"
    and "decode_block env loc i meta raw key = Inr d" and "length raw \<le> ISIZE_MAX"
proof -
  from assms have "\<exists>meta raw key. nth_opt (Checksum_Table.blocks (loc_record loc)) i = Some meta \<and>
      decode_block env loc i meta raw key = Inr d \<and> length raw \<le> ISIZE_MAX"
    by (fastforce simp: block_value_def rbind_Inr_iff whole_span_Inr split: option.splits prod.splits if_splits)
  with that show ?thesis by blast
qed

lemma block_value_exact:
  assumes cx: "cipher_in_place (env_codecs env)" and v: "block_value env files kr loc i = Inr d"
    and size: "unat (fr_size (loc_record loc)) \<le> ISIZE_MAX"
    and i: "i * BLOCK_SIZE < unat (fr_size (loc_record loc))"
  shows "length d = min BLOCK_SIZE (unat (fr_size (loc_record loc)) - i * BLOCK_SIZE)"
proof -
  let ?r = "loc_record loc"
  obtain meta raw key where d: "decode_block env loc i meta raw key = Inr d" and raw: "length raw \<le> ISIZE_MAX"
    by (rule block_value_decodes [OF v])
  have small: "length d < 18446744073709551616"
    using decode_owned_length [OF cx, of "fr_mode ?r" raw key d] d raw
    by (simp add: decode_block_Inr ISIZE_MAX_def BLOCK_SIZE_def)
  have bs: "unat (of_nat i * of_nat BLOCK_SIZE :: u64) = i * BLOCK_SIZE"
    and sum: "unat (of_nat i * of_nat BLOCK_SIZE + of_nat BLOCK_SIZE :: u64) = i * BLOCK_SIZE + BLOCK_SIZE"
    using i size unat_of_nat [of "i * BLOCK_SIZE", where 'a = 64] unat_of_nat [of "i * BLOCK_SIZE + BLOCK_SIZE", where 'a = 64]
    by (simp_all add: ISIZE_MAX_def BLOCK_SIZE_def)
  let ?be = "snd (block_range ?r i)" and ?bs = "fst (block_range ?r i)"
  have "?bs \<le> ?be" "unat ?be - unat ?bs = min BLOCK_SIZE (unat (fr_size ?r) - i * BLOCK_SIZE)"
    using i by (auto simp: block_range_def Let_def min_def word_le_nat_alt bs sum)
  moreover have "of_nat (length d) = ?be - ?bs" using d by (simp add: decode_block_Inr)
  then have "length d = unat (?be - ?bs)" using small by (simp add: unat_of_nat flip: \<open>of_nat (length d) = _\<close>)
  ultimately show ?thesis by (simp add: unat_sub)
qed

lemma block_value_checked:
  assumes "block_value env files kr loc i = Inr d" and "verify (env_cfg env)"
  shows "\<exists>meta. nth_opt (Checksum_Table.blocks (loc_record loc)) i = Some meta \<and>
      chunk_checksum (env_codecs env) d = checksum meta"
proof -
  obtain meta raw key where "nth_opt (Checksum_Table.blocks (loc_record loc)) i = Some meta"
    "decode_block env loc i meta raw key = Inr d"
    by (rule block_value_decodes [OF assms(1)])
  with assms(2) show ?thesis by (auto simp: decode_block_Inr)
qed

definition file_byte :: "env \<Rightarrow> (string \<Rightarrow> bytes) \<Rightarrow> key_resolution \<Rightarrow> file_loc \<Rightarrow> nat \<Rightarrow> u8" where
  "file_byte env files kr loc p =
     (case block_value env files kr loc (p div BLOCK_SIZE) of Inr d \<Rightarrow> d ! (p mod BLOCK_SIZE) | Inl _ \<Rightarrow> 0)"

text \<open>The blocks that positions \<open>a\<close> to \<open>b\<close> of a file lie in.\<close>

definition reads :: "env \<Rightarrow> (string \<Rightarrow> bytes) \<Rightarrow> key_resolution \<Rightarrow> file_loc \<Rightarrow> nat \<Rightarrow> nat \<Rightarrow> bool" where
  "reads env files kr loc a b \<longleftrightarrow> (\<forall>p. a \<le> p \<longrightarrow> p < b \<longrightarrow> is_ok (block_value env files kr loc (p div BLOCK_SIZE)))"

text \<open>
  What a read of the positions \<open>a\<close> to \<open>b\<close> may return: every byte as its block has it, the error of one
  of the blocks, or a failure of the backend.
\<close>

definition read_post ::
  "env \<Rightarrow> (string \<Rightarrow> bytes) \<Rightarrow> file_loc \<Rightarrow> nat \<Rightarrow> nat \<Rightarrow> bytes \<Rightarrow> failure + bytes \<Rightarrow> store \<Rightarrow> bool" where
  "read_post env files loc a b out r s \<longleftrightarrow>
     (\<exists>kr. (a < b \<longrightarrow> key_settled s loc kr) \<and> reads env files kr loc a b \<and>
        r = Inr (out @ map (file_byte env files kr loc) [a..<b])) \<or>
     (\<exists>p. a \<le> p \<and> p < b \<and> \<not> is_ok r \<and>
        ((\<exists>kr. key_settled s loc kr \<and> r = block_value env files kr loc (p div BLOCK_SIZE)) \<or>
         (\<forall>kr. r = block_value env files kr loc (p div BLOCK_SIZE)))) \<or>
     \<not> reliable env \<and> (\<exists>m. r = Inl (Error (Other (Backend_failed m))))"

lemma div_mod_within:
  assumes "m + j < (b :: nat)"
  shows "(q * b + m + j) div b = q \<and> (q * b + m + j) mod b = m + j"
  using assms by (simp add: add.assoc)

lemma block_piece:
  assumes "block_value env files kr loc (a div BLOCK_SIZE) = Inr d" and "a mod BLOCK_SIZE + n \<le> length d"
    and "length d \<le> BLOCK_SIZE"
  shows "take n (drop (a mod BLOCK_SIZE) d) = map (file_byte env files kr loc) [a..<a + n]"
    and "reads env files kr loc a (a + n)"
proof -
  have at: "(a + j) div BLOCK_SIZE = a div BLOCK_SIZE \<and> (a + j) mod BLOCK_SIZE = a mod BLOCK_SIZE + j"
    if "j < n" for j
  proof -
    have "a mod BLOCK_SIZE + j < BLOCK_SIZE" using that assms(2,3) by linarith
    from div_mod_within [OF this, of "a div BLOCK_SIZE"] show ?thesis
      by (simp only: div_mult_mod_eq)
  qed
  show "take n (drop (a mod BLOCK_SIZE) d) = map (file_byte env files kr loc) [a..<a + n]"
    by (rule nth_equalityI) (use assms at in \<open>auto simp: file_byte_def\<close>)
  show "reads env files kr loc a (a + n)"
    unfolding reads_def
  proof (intro allI impI)
    fix p assume "a \<le> p" "p < a + n"
    then have "p div BLOCK_SIZE = a div BLOCK_SIZE" using at [of "p - a"] by simp
    then show "is_ok (block_value env files kr loc (p div BLOCK_SIZE))" by (simp add: assms(1))
  qed
qed

lemma read_post_extend:
  assumes first: "key_settled s1 loc kr" "reads env files kr loc a c"
    and g: "data_frame s1 s" and rest: "read_post env files loc c b (out @ map (file_byte env files kr loc) [a..<c]) r s"
    and le: "a \<le> c" "c \<le> b"
  shows "read_post env files loc a b out r s"
proof -
  have k: "key_settled s loc kr" by (rule key_settled_mono [OF g first(1)])
  from rest consider
      (bytes) kr' where "c < b \<longrightarrow> key_settled s loc kr'" "reads env files kr' loc c b"
        "r = Inr ((out @ map (file_byte env files kr loc) [a..<c]) @ map (file_byte env files kr' loc) [c..<b])"
    | (block) p where "c \<le> p" "p < b" "\<not> is_ok r"
        "(\<exists>kr'. key_settled s loc kr' \<and> r = block_value env files kr' loc (p div BLOCK_SIZE)) \<or>
         (\<forall>kr'. r = block_value env files kr' loc (p div BLOCK_SIZE))"
    | (backend) "\<not> reliable env \<and> (\<exists>m. r = Inl (Error (Other (Backend_failed m))))"
    unfolding read_post_def by blast
  then show ?thesis
  proof cases
    case bytes
    have same: "block_value env files kr' loc i = block_value env files kr loc i" if "c < b" for i
      using settled_value_eq bytes(1) k that by blast
    have "reads env files kr loc c b"
      using bytes(2) same unfolding reads_def by (metis le_less_trans)
    then have "reads env files kr loc a b" using first(2) unfolding reads_def by (metis not_le)
    moreover have "map (file_byte env files kr' loc) [c..<b] = map (file_byte env files kr loc) [c..<b]"
      using same by (auto simp: file_byte_def)
    moreover have "[a..<b] = [a..<c] @ [c..<b]" using le by (metis le_add_diff_inverse upt_add_eq_append)
    ultimately show ?thesis using bytes(3) k unfolding read_post_def by auto
  next
    case block
    moreover have "a \<le> p" using le(1) block(1) by simp
    ultimately show ?thesis unfolding read_post_def by blast
  next
    case backend
    then show ?thesis unfolding read_post_def by blast
  qed
qed

lemma sat_read_loop:
  assumes "honest env files" and "unshared L" and "loc \<in> L" and "loc_dat loc = Some dat" and "known_dat env dat"
    and "cipher_in_place (env_codecs env)" and "fin \<le> fr_size (loc_record loc)"
  shows "sat (data_inv env files L) data_frame (read_loop env loc fin pos out)
    (read_post env files loc (unat pos) (unat fin) out) s"
  using assms
proof (induction env loc fin pos out arbitrary: s rule: read_loop.induct)
  case (1 env loc fin pos out s)
  show ?case
  proof (cases "pos < fin")
    case False
    then have "read_post env files loc (unat pos) (unat fin) out (Inr out) s"
      by (simp add: read_post_def reads_def word_less_nat_alt)
    with False show ?thesis by (subst read_loop.simps) (simp add: data_runs.sat_ret)
  next
    case True
    let ?Q = "read_post env files loc (unat pos) (unat fin) out"
    let ?i = "unat pos div BLOCK_SIZE" and ?m = "unat pos mod BLOCK_SIZE"
    have lt: "unat pos < unat fin" using True by (simp add: word_less_nat_alt)
    have pos: "pos < fr_size (loc_record loc)" using True "1.prems"(7) by simp
    have err: "?Q (Inl e) s1" if "block_post env files loc ?i (Inl e) s1" for e s1
      using that unfolding block_post_def
    proof (elim disjE)
      assume "\<exists>kr. key_settled s1 loc kr \<and> Inl e = block_value env files kr loc ?i"
      with lt show ?thesis unfolding read_post_def by (intro disjI2 disjI1 exI [of _ "unat pos"]) simp
    next
      assume "\<not> is_ok (Inl e) \<and> (\<forall>kr. Inl e = block_value env files kr loc ?i)"
      with lt show ?thesis unfolding read_post_def by (intro disjI2 disjI1 exI [of _ "unat pos"]) simp
    qed (simp add: read_post_def)
    have body: "sat (data_inv env files L) data_frame
        (if length d \<le> ?m then fail (Error (no_such_block loc ?i))
         else let n = min (unat (fin - pos)) (length d - ?m)
              in read_loop env loc fin (pos + of_nat n) (out @ take n (drop ?m d))) ?Q s1"
      if post: "block_post env files loc ?i (Inr d) s1" for d s1
    proof -
      from post obtain kr where kr: "key_settled s1 loc kr" "block_value env files kr loc ?i = Inr d"
        unfolding block_post_def by auto
      note len = block_value_length [OF "1.prems"(6) kr(2) pos]
      define n where "n = min (unat (fin - pos)) (length d - ?m)"
      have n: "n \<le> unat (fin - pos)" "?m + n \<le> length d" using len by (auto simp: n_def)
      note adv = advance_below [OF True n(1)] and piece = block_piece [OF kr(2) n(2) len(2)]
      have "unat pos + n \<le> unat fin" using n(1) lt by (simp add: unat_sub_if_size)
      have "sat (data_inv env files L) data_frame (read_loop env loc fin (pos + of_nat n) (out @ take n (drop ?m d)))
          (read_post env files loc (unat (pos + of_nat n)) (unat fin) (out @ take n (drop ?m d))) s1"
        by (rule "1.IH" [OF True refl _ n_def "1.prems"]) (use len in simp)
      then have "sat (data_inv env files L) data_frame (read_loop env loc fin (pos + of_nat n) (out @ take n (drop ?m d))) ?Q s1"
        by (rule sat_weaken)
          (use read_post_extend [OF kr(1) piece(2)] \<open>unat pos + n \<le> unat fin\<close> in \<open>auto simp: piece(1) adv\<close>)
      with len show ?thesis by (simp add: n_def [symmetric])
    qed
    have "sat (data_inv env files L) data_frame
        (abind (read_block env loc ?i) (\<lambda>d.
          if length d \<le> ?m then fail (Error (no_such_block loc ?i))
          else let n = min (unat (fin - pos)) (length d - ?m)
               in read_loop env loc fin (pos + of_nat n) (out @ take n (drop ?m d)))) ?Q s"
      by (rule data_runs.sat_abind [OF sat_read_block [OF "1.prems"(1-5)]]) (use err body in auto)
    with True show ?thesis by (subst read_loop.simps) (simp add: Let_def)
  qed
qed

lemma sat_store_read:
  assumes "honest env files" and "unshared L" and "loc \<in> L" and "loc_dat loc = Some dat" and "known_dat env dat"
    and "cipher_in_place (env_codecs env)" and fits: "unat off + len < 18446744073709551616" "len \<le> ISIZE_MAX"
  shows "sat (data_inv env files L) data_frame (store_read env loc off len)
    (read_post env files loc (unat off) (min (unat off + len) (unat (fr_size (loc_record loc)))) []) s"
proof (cases "fr_size (loc_record loc) \<le> off \<or> len = 0")
  case True
  define b where "b = min (unat off + len) (unat (fr_size (loc_record loc)))"
  have "b \<le> unat off" using True by (auto simp: b_def word_le_nat_alt)
  then have "read_post env files loc (unat off) b [] (Inr []) s" by (simp add: read_post_def reads_def)
  with True show ?thesis
    unfolding b_def [symmetric] by (auto simp: store_read_def Let_def intro!: data_runs.sat_ret)
next
  case False
  let ?fin = "min (off + of_nat len) (fr_size (loc_record loc))"
  have sum: "unat (off + of_nat len) = unat off + len"
    using fits(1) by (simp add: unat_word_ariths unat_of_nat)
  have fin: "unat ?fin = min (unat off + len) (unat (fr_size (loc_record loc)))"
    by (simp add: min_def word_le_nat_alt sum)
  have "off \<le> ?fin" using False by (auto simp: word_le_nat_alt fin)
  then have "unat (?fin - off) \<le> ISIZE_MAX" using fits(2) by (simp add: unat_sub fin)
  then have "store_read env loc off len = read_loop env loc ?fin off []"
    using False by (simp add: store_read_def Let_def)
  then show ?thesis using sat_read_loop [OF assms(1-6), of ?fin off "[]" s] by (simp add: fin)
qed

section \<open>Keys\<close>

lemma resolve_cases:
  defines "cs \<equiv> \<lambda>env. candidates (env_blob_keys env) (env_depot_keys env)"
  shows "case resolve env src smp of
      Configured k \<Rightarrow>
        get_for_blob (env_keys env) (bf_depot (index_blob (env_index env) src)) (bf_crc (index_blob (env_index env) src))
          = Some k \<and> key_works env smp k
    | Discovered k d \<Rightarrow> key_search (env_cfg env) \<and> key_works env smp k \<and> (\<exists>l. (l, k) \<in> set (cs env) \<and> d = label_depot l)
    | No_key n \<Rightarrow>
        (\<forall>k. get_for_blob (env_keys env) (bf_depot (index_blob (env_index env) src))
           (bf_crc (index_blob (env_index env) src)) = Some k \<longrightarrow> \<not> key_works env smp k) \<and>
        (if key_search (env_cfg env) then n = length (cs env) \<and> (\<forall>(l, k) \<in> set (cs env). \<not> key_works env smp k)
         else n = 0)"
proof -
  have none: "\<forall>(l, k) \<in> set (cs env). \<not> key_works env smp k"
    if "List.find (\<lambda>(l, k). key_works env smp k) (cs env) = None"
    using that by (auto simp: find_None_iff)
  have some: "key_works env smp k \<and> (l, k) \<in> set (cs env)"
    if "List.find (\<lambda>(l, k). key_works env smp k) (cs env) = Some (l, k)" for l k
    using that by (auto simp: find_Some_iff) (metis nth_mem)
  show ?thesis
    using none some
    by (auto simp: resolve_def search_key_def Let_def cs_def split: option.splits if_splits key_resolution.splits)
qed

end
