(* ===== verification/Blob_Image.thy ===== *)
theory Blob_Image
  imports Block_Store
begin

text \<open>
  A version blob as the format lays it out, from its parts: the metadata keys, the packed manifest and
  the checksum table, with the blob's own checksum over everything but itself.  \<open>parse_blob\<close> takes it
  apart again.
\<close>

section \<open>The image of a blob\<close>

definition image_kvs ::
  "u32 \<Rightarrow> u32 \<Rightarrow> bytes \<Rightarrow> bytes \<Rightarrow> u32 \<Rightarrow> u32 \<Rightarrow> u32 \<times> u32 \<Rightarrow> u64 \<Rightarrow> (bytes \<times> bytes) list" where
  "image_kvs fmt fp packed tab dcrc own prev dsize =
     [(u32_le FORMAT, u32_le fmt), (u32_le MANIFEST_FINGERPRINT, u32_le fp), (u32_le MANIFEST, packed),
      (u32_le CHECKSUMS, tab), (u32_le DAT_CRC, u32_le dcrc), (u32_le OWN_CRC, u32_le own),
      (u32_le PREV_VERSION, u32_le (fst prev)), (u32_le PREV_CRC, u32_le (snd prev)),
      (u32_le DAT_SIZE, u64_le dsize)]"

definition blob_image ::
  "codecs \<Rightarrow> u32 \<Rightarrow> u32 \<Rightarrow> bytes \<Rightarrow> bytes \<Rightarrow> u32 \<Rightarrow> u32 \<times> u32 \<Rightarrow> u64 \<Rightarrow> bytes" where
  "blob_image cx fmt fp packed tab dcrc prev dsize =
     (let own = crc32 cx (build (image_kvs fmt fp packed tab dcrc 0 prev dsize))
      in build (image_kvs fmt fp packed tab dcrc own prev dsize))"

text \<open>The manifest travels in a blob of its own, packed.\<close>

definition manifest_wrapper :: "bytes \<Rightarrow> bytes" where
  "manifest_wrapper mdata = build [(u32_le 0, mdata)]"

lemma length_build: "length (build kvs) = 10 + length (body_bytes kvs)"
  by (simp add: build_def)

lemma body_bytes_append: "body_bytes (xs @ ys) = body_bytes xs @ body_bytes ys"
  by (simp add: body_bytes_def)

text \<open>Replacing a value by one of the same length replaces its bytes in place.\<close>

lemma build_replace:
  assumes "length v = length v'" and off_def: "off = 10 + length (body_bytes xs) + 6 + length k"
  shows "take off (build (xs @ (k, v) # ys)) @ v' @ drop (off + length v) (build (xs @ (k, v) # ys)) =
    build (xs @ (k, v') # ys)"
proof -
  let ?n = "length (body_bytes (xs @ (k, v) # ys)) + 10"
  let ?pre = "u16_le MAGIC_PLAIN @ le_bytes 4 ?n @ le_bytes 4 0 @ body_bytes xs @
    le_bytes 2 (length k) @ le_bytes 4 (length v) @ k"
  have n: "length (body_bytes (xs @ (k, v') # ys)) + 10 = ?n" using assms(1) by (simp add: body_bytes_append)
  have b: "build (xs @ (k, w) # ys) = ?pre @ w @ body_bytes ys" if "length w = length v" for w
    using that n by (simp add: build_def body_bytes_append entry_bytes_def)
  have len: "length ?pre = off" by (simp add: off_def)
  show ?thesis using b [of v] b [of v'] assms(1) len by (simp add: append_eq_conv_conj)
qed

lemma u32_at_le: "u32_at (u32_le x) 0 = Inr x"
  by (rule u32_at_appendI [where xs = "[]" and ys = "[]"]) simp_all

lemma u64_at_le: "u64_at (u64_le x) 0 = Inr x"
  by (rule u64_at_appendI [where xs = "[]" and ys = "[]"]) simp_all

lemma u32_le_inj: "u32_le x = u32_le y \<longleftrightarrow> x = y"
  using u32_at_le [of x] u32_at_le [of y] by (metis sum.inject(2))

lemma require_map_of: "require \<lparr>entries = entries_from 10 kvs\<rparr> k =
    ok_or (Malformed (In_blob (Missing_key k))) (map_of kvs (u32_le k))"
  by (simp add: require_def get_u32_key_def blob_get_map_of entries_from_pairs)

lemmas image_keys = FORMAT_def MANIFEST_FINGERPRINT_def MANIFEST_def CHECKSUMS_def DAT_CRC_def OWN_CRC_def
  PREV_VERSION_def PREV_CRC_def DAT_SIZE_def

lemma image_lookup:
  defines "b \<equiv> \<lambda>fmt fp packed tab dcrc own prev dsize.
    \<lparr>entries = entries_from 10 (image_kvs fmt fp packed tab dcrc own prev dsize)\<rparr>"
  shows "require (b fmt fp packed tab dcrc own prev dsize) FORMAT = Inr (u32_le fmt)"
    and "require (b fmt fp packed tab dcrc own prev dsize) MANIFEST_FINGERPRINT = Inr (u32_le fp)"
    and "require (b fmt fp packed tab dcrc own prev dsize) MANIFEST = Inr packed"
    and "require (b fmt fp packed tab dcrc own prev dsize) CHECKSUMS = Inr tab"
    and "require (b fmt fp packed tab dcrc own prev dsize) DAT_CRC = Inr (u32_le dcrc)"
    and "require (b fmt fp packed tab dcrc own prev dsize) OWN_CRC = Inr (u32_le own)"
    and "require (b fmt fp packed tab dcrc own prev dsize) PREV_VERSION = Inr (u32_le (fst prev))"
    and "require (b fmt fp packed tab dcrc own prev dsize) PREV_CRC = Inr (u32_le (snd prev))"
    and "require (b fmt fp packed tab dcrc own prev dsize) DAT_SIZE = Inr (u64_le dsize)"
  unfolding b_def require_map_of by (simp_all add: image_kvs_def u32_le_inj image_keys)

lemma image_meta:
  "from_blob \<lparr>entries = entries_from 10 (image_kvs fmt fp packed tab dcrc own prev dsize)\<rparr> =
     Inr \<lparr>vm_format = fmt, vm_own_crc = own, vm_dat_crc = dcrc, vm_dat_size = dsize,
          vm_prev = (if fst prev \<noteq> u32_max then Some prev else None)\<rparr>"
  by (simp add: from_blob_def blob_u32_def u32_or_u64_def image_lookup u32_at_le u64_at_le)

lemma image_own_offset:
  "value_offset \<lparr>entries = entries_from 10 (image_kvs fmt fp packed tab dcrc own prev dsize)\<rparr> OWN_CRC =
     Inr (10 + length (body_bytes [(u32_le FORMAT, u32_le fmt), (u32_le MANIFEST_FINGERPRINT, u32_le fp),
       (u32_le MANIFEST, packed), (u32_le CHECKSUMS, tab), (u32_le DAT_CRC, u32_le dcrc)]) + 6 + 4)"
  by (simp add: value_offset_def image_kvs_def u32_le_inj image_keys)

lemma image_own_crc:
  assumes "value_offset \<lparr>entries = entries_from 10 (image_kvs fmt fp packed tab dcrc own prev dsize)\<rparr> OWN_CRC = Inr off"
  shows "own_crc_of cx (build (image_kvs fmt fp packed tab dcrc own prev dsize)) off =
    crc32 cx (build (image_kvs fmt fp packed tab dcrc 0 prev dsize))"
proof -
  let ?xs = "[(u32_le FORMAT, u32_le fmt), (u32_le MANIFEST_FINGERPRINT, u32_le fp), (u32_le MANIFEST, packed),
    (u32_le CHECKSUMS, tab), (u32_le DAT_CRC, u32_le dcrc)]"
  let ?ys = "[(u32_le PREV_VERSION, u32_le (fst prev)), (u32_le PREV_CRC, u32_le (snd prev)),
    (u32_le DAT_SIZE, u64_le dsize)]"
  have kvs: "image_kvs fmt fp packed tab dcrc o' prev dsize = ?xs @ (u32_le OWN_CRC, u32_le o') # ?ys" for o'
    by (simp add: image_kvs_def)
  have off: "off = 10 + length (body_bytes ?xs) + 6 + length (u32_le OWN_CRC)"
    using assms unfolding image_own_offset by (simp only: sum.inject length_u_le)
  have zero: "u32_le 0 = replicate 4 0" by code_simp
  have len: "length (u32_le own) = length (replicate 4 (0 :: u8))"
    by (simp only: length_u_le length_replicate)
  from build_replace [OF len off, of ?ys] show ?thesis
    unfolding own_crc_of_def kvs zero len length_replicate by (rule arg_cong)
qed

text \<open>Whatever the parts are, if each of them parses then the blob does, to them.\<close>

lemma parse_blob_of_image:
  assumes m: "parse_manifest cx mdata = Inr m" and t: "parse_table tab = Inr rs"
    and z: "zlib cx z = (manifest_wrapper mdata, None)" and len: "length mdata < 1000000000" "length z < 1000000000"
      "length tab < 1000000000"
  shows "parse_blob cx (blob_image cx fmt (fingerprint m) (pack (length (manifest_wrapper mdata)) level z) tab dcrc
      prev dsize) =
    Inr \<lparr>pb_meta = \<lparr>vm_format = fmt,
            vm_own_crc = crc32 cx (build (image_kvs fmt (fingerprint m)
              (pack (length (manifest_wrapper mdata)) level z) tab dcrc 0 prev dsize)),
            vm_dat_crc = dcrc, vm_dat_size = dsize,
            vm_prev = (if fst prev \<noteq> u32_max then Some prev else None)\<rparr>,
         pb_manifest = m, pb_records = rs\<rparr>"
proof -
  let ?p = "pack (length (manifest_wrapper mdata)) level z"
  let ?own = "crc32 cx (build (image_kvs fmt (fingerprint m) ?p tab dcrc 0 prev dsize))"
  let ?kvs = "image_kvs fmt (fingerprint m) ?p tab dcrc ?own prev dsize"
  have lp: "length ?p = 20 + length z" by (simp add: pack_def)
  have top: "parse_plain (build ?kvs) = Inr \<lparr>entries = entries_from 10 ?kvs\<rparr>"
    using parse_plain_build [of ?kvs "[]"] len lp by (simp add: encodable_def image_kvs_def)
  have lw: "length (manifest_wrapper mdata) = 20 + length mdata" by (simp add: manifest_wrapper_def length_build)
  have un: "decompress cx ?p = Inr (manifest_wrapper mdata)"
    using decompress_pack_eq [of "length (manifest_wrapper mdata)" z cx level] len lw
    by (simp add: ISIZE_MAX_def zlib_read_to_end_def z)
  have inner: "parse_plain (manifest_wrapper mdata) = Inr \<lparr>entries = entries_from 10 [(u32_le 0, mdata)]\<rparr>"
    using parse_plain_build [of "[(u32_le 0, mdata)]" "[]"] len(1) by (simp add: encodable_def manifest_wrapper_def)
  have body: "require \<lparr>entries = entries_from 10 [(u32_le 0, mdata)]\<rparr> 0 = Inr mdata"
    by (simp add: require_map_of del: entries_from.simps)
  show ?thesis
    unfolding blob_image_def Let_def parse_blob_def top map_err_simps rbind_simps image_meta image_lookup un inner
      body m blob_u32_def
    using image_own_offset [of fmt "fingerprint m" ?p tab dcrc ?own prev dsize] image_own_crc
    by (simp add: u32_at_le t)
qed

end
