(* ===== verification/Sample_Dump.thy ===== *)
theory Sample_Dump
  imports Blob_Image
begin

text \<open>
  A small dump that the properties of the store and of the tree are tried on: depot 7 in two versions
  with the manifest of \<open>src/format/manifest.rs\<close>'s unit test (a file 7 in a directory and a file 8 at the
  root).  Version 0 stores both files, file 7 compressed and file 8 plain; version 1 replaces file 7,
  encrypted.  The codecs leave the bytes as they are, and a block's checksum is its length.
\<close>

section \<open>The files\<close>

definition dump_manifest :: bytes where
  "dump_manifest = manifest_bytes null_codecs sample_head sample_nodes sample_strings [1, 2, 3]"

definition dump_packed :: bytes where
  "dump_packed = pack (length (manifest_wrapper dump_manifest)) 9 (manifest_wrapper dump_manifest)"

definition dump_record :: "u32 \<Rightarrow> mode \<Rightarrow> u64 \<Rightarrow> u32 \<Rightarrow> file_record" where
  "dump_record f m off n =
     \<lparr>file_id = f, fr_mode = m, fr_offset = off, fr_size = ucast n,
      blocks = [\<lparr>compressed_size = n, checksum = n\<rparr>]\<rparr>"

definition records_0 :: "file_record list" where
  "records_0 = [dump_record 7 Compressed 0 10, dump_record 8 Plain 10 20]"

definition records_1 :: "file_record list" where
  "records_1 = [dump_record 7 Encrypted 0 10]"

definition blob_0 :: bytes where
  "blob_0 = blob_image null_codecs 3 0xabcd dump_packed (table_bytes 1 [(7, records_0)]) 0xd0 (u32_max, 0) 30"

definition blob_1 :: bytes where
  "blob_1 = blob_image null_codecs 3 0xabcd dump_packed (table_bytes 1 [(7, records_1)]) 0xd1 (0, 0xaa) 10"

definition dat_0 :: bytes where
  "dat_0 = map of_nat [0..<30]"

definition dat_1 :: bytes where
  "dat_1 = map of_nat [100..<110]"

definition dump_file :: "string \<Rightarrow> bytes" where
  "dump_file p =
     (if p = ''blobs/'' @ file_stem 7 0 0xaa ''x'' @ ''.blob'' then blob_0
      else if p = ''blobs/'' @ file_stem 7 1 0xbb ''x'' @ ''.blob'' then blob_1
      else if p = ''dats/'' @ file_stem 7 0 0xd0 ''x'' @ ''.dat'' then dat_0
      else if p = ''dats/'' @ file_stem 7 1 0xd1 ''x'' @ ''.dat'' then dat_1
      else [])"

definition dump_entry :: "string \<Rightarrow> string \<Rightarrow> dir_entry" where
  "dump_entry dir n = \<lparr>de_name = n, de_size = of_nat (length (dump_file (dir @ n))), de_is_dir = False\<rparr>"

definition dump_backend :: backend where
  "dump_backend =
     \<lparr>be_list_dir = (\<lambda>p.
        if p = ''blobs'' then Inr [dump_entry ''blobs/'' (file_stem 7 0 0xaa ''x'' @ ''.blob''),
          dump_entry ''blobs/'' (file_stem 7 1 0xbb ''x'' @ ''.blob'')]
        else Inr [dump_entry ''dats/'' (file_stem 7 0 0xd0 ''x'' @ ''.dat''),
          dump_entry ''dats/'' (file_stem 7 1 0xd1 ''x'' @ ''.dat'')]),
      be_read_at = (\<lambda>p off n. Inr (take n (drop (unat off) (dump_file p)))),
      be_read_all = (\<lambda>p. if p = ''blobs_dates.txt'' then Inl ''none'' else Inr (dump_file p))\<rparr>"

definition dump_index :: index where
  "dump_index = (case index_load dump_backend of Inr idx \<Rightarrow> idx | Inl _ \<Rightarrow> index_default)"

section \<open>The blobs parse\<close>

lemma dump_records_parse:
  "parse_table (table_bytes 1 [(7, records_0)]) = Inr records_0"
  "parse_table (table_bytes 1 [(7, records_1)]) = Inr records_1"
proof -
  have "table_fits 1 [(7, records_0)]" "table_fits 1 [(7, records_1)]"
    by (simp_all add: table_fits_def record_fits_def records_0_def records_1_def dump_record_def num_blocks_def
        table_bytes_def file_bytes_def head_bytes_def Let_def)
  from this [THEN parse_table_written] show "parse_table (table_bytes 1 [(7, records_0)]) = Inr records_0"
    "parse_table (table_bytes 1 [(7, records_1)]) = Inr records_1" by simp_all
qed

lemma dump_lengths:
  "length dump_manifest = 178" "length (table_bytes 1 [(7, records_0)]) < 1000"
  "length (table_bytes 1 [(7, records_1)]) < 1000"
  by (simp_all add: dump_manifest_def length_manifest_bytes sample_nodes_def sample_strings_def table_bytes_def
      records_0_def records_1_def dump_record_def num_blocks_def file_bytes_def head_bytes_def Let_def)

lemma sample_fingerprint: "fingerprint sample_manifest = 0xabcd"
  by (simp add: sample_manifest_def written_manifest_def Let_def sample_head_def)

definition meta_0 :: version_meta where
  "meta_0 = \<lparr>vm_format = 3, vm_own_crc = 0, vm_dat_crc = 0xd0, vm_dat_size = 30, vm_prev = None\<rparr>"

definition meta_1 :: version_meta where
  "meta_1 = \<lparr>vm_format = 3, vm_own_crc = 0, vm_dat_crc = 0xd1, vm_dat_size = 10, vm_prev = Some (0, 0xaa)\<rparr>"

lemma dump_blobs_parse:
  "parse_blob null_codecs blob_0 = Inr \<lparr>pb_meta = meta_0, pb_manifest = sample_manifest, pb_records = records_0\<rparr>"
  "parse_blob null_codecs blob_1 = Inr \<lparr>pb_meta = meta_1, pb_manifest = sample_manifest, pb_records = records_1\<rparr>"
proof -
  have m: "parse_manifest null_codecs dump_manifest = Inr sample_manifest"
    unfolding dump_manifest_def by (rule sample_parses)
  have z: "zlib null_codecs (manifest_wrapper dump_manifest) = (manifest_wrapper dump_manifest, None)"
    by (simp add: null_codecs_def)
  have len: "length dump_manifest < 1000000000" "length (manifest_wrapper dump_manifest) < 1000000000"
    "length (table_bytes 1 [(7, records_0)]) < 1000000000" "length (table_bytes 1 [(7, records_1)]) < 1000000000"
    using dump_lengths by (simp_all add: manifest_wrapper_def length_build)
  have crc: "crc32 null_codecs x = 0" for x by (simp add: null_codecs_def)
  show "parse_blob null_codecs blob_0 = Inr \<lparr>pb_meta = meta_0, pb_manifest = sample_manifest, pb_records = records_0\<rparr>"
    using parse_blob_of_image [OF m dump_records_parse(1) z len(1-3)]
    by (simp add: blob_0_def dump_packed_def sample_fingerprint crc meta_0_def)
  show "parse_blob null_codecs blob_1 = Inr \<lparr>pb_meta = meta_1, pb_manifest = sample_manifest, pb_records = records_1\<rparr>"
    using parse_blob_of_image [OF m dump_records_parse(2) z len(1,2,4)]
    by (simp add: blob_1_def dump_packed_def sample_fingerprint crc meta_1_def)
qed

section \<open>The index\<close>

definition dump_blob :: "u32 \<Rightarrow> u32 \<Rightarrow> bytes \<Rightarrow> blob_file" where
  "dump_blob v c data =
     \<lparr>bf_path = ''blobs/'' @ file_stem 7 v c ''x'' @ ''.blob'', file_name = file_stem 7 v c ''x'' @ ''.blob'',
      bf_depot = 7, bf_version = v, bf_crc = c, bf_size = of_nat (length data), bf_date = None, bf_sha256 = None\<rparr>"

definition dump_dat :: "u32 \<Rightarrow> u32 \<Rightarrow> u64 \<Rightarrow> dat_file" where
  "dump_dat v c n =
     \<lparr>df_path = ''dats/'' @ file_stem 7 v c ''x'' @ ''.dat'', df_depot = 7, df_version = v, df_crc = c,
      df_size = n, incomplete = False\<rparr>"

lemma file_stem_inj: "file_stem d v c sha = file_stem d' v' c' sha' \<longleftrightarrow> d = d' \<and> v = v' \<and> c = c' \<and> sha = sha'"
proof
  assume "file_stem d v c sha = file_stem d' v' c' sha'"
  then have "parse_name (file_stem d v c sha @ []) [] = parse_name (file_stem d' v' c' sha' @ []) []" by simp
  then show "d = d' \<and> v = v' \<and> c = c' \<and> sha = sha'" by (simp only: parse_name_stem) simp
qed auto

lemma dump_files:
  "dump_file (''blobs/'' @ file_stem 7 0 0xaa ''x'' @ ''.blob'') = blob_0"
  "dump_file (''blobs/'' @ file_stem 7 1 0xbb ''x'' @ ''.blob'') = blob_1"
  "dump_file (''dats/'' @ file_stem 7 0 0xd0 ''x'' @ ''.dat'') = dat_0"
  "dump_file (''dats/'' @ file_stem 7 1 0xd1 ''x'' @ ''.dat'') = dat_1"
  by (simp_all add: dump_file_def file_stem_inj)

lemma add_dump_blob:
  "add_blob Map.empty (dump_entry ''blobs/'' (file_stem 7 v c ''x'' @ ''.blob'')) idx =
     idx\<lparr>blob_by_key := (blob_by_key idx)((7, v, c) \<mapsto> of_nat (length (blobs idx))),
         blobs := blobs idx @ [dump_blob v c (dump_file (''blobs/'' @ file_stem 7 v c ''x'' @ ''.blob''))],
         depots := update_depot 7 (\<lambda>dep. dep\<lparr>depot_blobs := depot_blobs dep @ [of_nat (length (blobs idx))]\<rparr>)
           (depots idx)\<rparr>"
  by (simp add: add_blob_def dump_entry_def parse_name_stem Let_def dump_blob_def)

lemma add_dump_dat:
  assumes "dat_by_key idx (7, v, c) = None"
  shows "add_dat (dump_entry ''dats/'' (file_stem 7 v c ''x'' @ ''.dat'')) idx =
     idx\<lparr>dat_by_key := (dat_by_key idx)((7, v, c) \<mapsto> of_nat (length (dats idx))),
         dats := dats idx @ [dump_dat v c (of_nat (length (dump_file (''dats/'' @ file_stem 7 v c ''x'' @ ''.dat''))))]\<rparr>"
  unfolding add_dat_def dump_entry_def dir_entry.simps not_partial option.case prod.case Let_def parse_name_stem
    assms by (simp add: dump_dat_def)

lemma dump_load: "index_load dump_backend = Inr dump_index"
  by (simp add: dump_index_def index_load_def load_dates_def dump_backend_def Let_def)

lemma dump_index_parts:
  "blobs dump_index = [dump_blob 0 0xaa blob_0, dump_blob 1 0xbb blob_1]"
  "dats dump_index = [dump_dat 0 0xd0 30, dump_dat 1 0xd1 10]"
  "blob_by_key dump_index = [(7, 0, 0xaa) \<mapsto> 0, (7, 1, 0xbb) \<mapsto> 1]"
  "dat_by_key dump_index = [(7, 0, 0xd0) \<mapsto> 0, (7, 1, 0xd1) \<mapsto> 1]"
  by (simp_all add: dump_index_def index_load_def load_dates_def dump_backend_def Let_def add_dump_blob add_dump_dat
      index_default_def dump_files [simplified] dat_0_def dat_1_def)

lemma dump_closed: "closed_index dump_index"
  by (rule index_load_closed [OF dump_load]) (simp add: dump_index_parts)

section \<open>The world around the store\<close>

definition dump_key :: key where
  "dump_key = replicate 16 1"

definition dump_cfg :: store_config where
  "dump_cfg = \<lparr>blob_cache_dir = Some ''/cache'', raw_cache_bytes = 67108864, block_cache_bytes = 67108864,
     verify = True, key_search = True\<rparr>"

definition dump_env :: env where
  "dump_env =
     \<lparr>env_backend = (\<lambda>t. dump_backend), env_disk = (\<lambda>t. if t = 3 then Torn 5 else Done),
      env_codecs = null_codecs, env_hex = hex_bytes, env_index = dump_index,
      env_keys = key_insert 7 dump_key key_store_new, env_blob_keys = [], env_depot_keys = [(7, dump_key)],
      env_cfg = dump_cfg, env_parsed_lru = list_lru, env_table_lru = list_lru, env_byte_lru = list_lru\<rparr>"

definition dump_store :: store where
  "dump_store = store_new dump_env Map.empty"

lemma dump_env_simps [simp]:
  "env_backend dump_env t = dump_backend" "env_codecs dump_env = null_codecs" "env_index dump_env = dump_index"
  "env_cfg dump_env = dump_cfg" "env_parsed_lru dump_env = list_lru" "env_table_lru dump_env = list_lru"
  "env_byte_lru dump_env = list_lru" "env_keys dump_env = key_insert 7 dump_key key_store_new"
  "verify dump_cfg = True" "key_search dump_cfg = True" "blob_cache_dir dump_cfg = Some ''/cache''"
  "raw_cache_bytes dump_cfg = 67108864" "block_cache_bytes dump_cfg = 67108864"
  by (simp_all add: dump_env_def dump_cfg_def)

lemma dump_honest: "honest dump_env dump_file"
  unfolding honest_def
  by (intro allI, unfold_locales) (auto simp: dump_backend_def split: if_splits)

lemma dump_reliable: "reliable dump_env"
  by (auto simp: reliable_def dump_index_parts dump_backend_def dump_blob_def)

lemma dump_known: "known dump_env 0" "known dump_env 1" "known dump_env b \<Longrightarrow> b = 0 \<or> b = 1"
proof -
  show "known dump_env 0" "known dump_env 1" by (simp_all add: known_def dump_index_parts)
  assume "known dump_env b"
  then have "unat b < 2" by (simp add: known_def dump_index_parts)
  then have "unat b = 0 \<or> unat b = 1" by auto
  then show "b = 0 \<or> b = 1" by (auto intro: word_unat_eq_iff [THEN iffD2])
qed

lemma dump_entries:
  "index_blob dump_index 0 = dump_blob 0 0xaa blob_0" "index_blob dump_index 1 = dump_blob 1 0xbb blob_1"
  "index_dat dump_index 0 = dump_dat 0 0xd0 30" "index_dat dump_index 1 = dump_dat 1 0xd1 10"
  by (simp_all add: index_blob_def index_dat_def dump_index_parts)

lemma dump_data:
  "blob_data dump_env dump_file 0 = blob_0" "blob_data dump_env dump_file 1 = blob_1"
  by (simp_all add: blob_data_def dump_entries dump_blob_def dump_files [simplified])

lemma dump_parse_of:
  "parse_of dump_env dump_file 0 = Inr \<lparr>pb_meta = meta_0, pb_manifest = sample_manifest, pb_records = records_0\<rparr>"
  "parse_of dump_env dump_file 1 = Inr \<lparr>pb_meta = meta_1, pb_manifest = sample_manifest, pb_records = records_1\<rparr>"
  by (simp_all add: parse_of_def dump_data dump_blobs_parse)

lemma dump_parents:
  "parent_of dump_env dump_file 0 = None" "parent_of dump_env dump_file 1 = Some 0"
  by (simp_all add: parent_of_def dump_parse_of parent_in_def meta_0_def meta_1_def dump_entries dump_blob_def
      find_blob_def dump_index_parts Let_def)

lemma dump_sizes: "length blob_0 < 1000" "length blob_1 < 1000"
  using dump_lengths
  by (simp_all add: blob_0_def blob_1_def blob_image_def Let_def length_build image_kvs_def dump_packed_def pack_def
      manifest_wrapper_def table_bytes_def records_0_def records_1_def dump_record_def num_blocks_def file_bytes_def
      head_bytes_def)

lemma dump_intact: "all_intact dump_env dump_file"
  unfolding all_intact_def
proof (intro allI impI)
  fix b assume "known dump_env b"
  then have "b = 0 \<or> b = 1" by (rule dump_known(3))
  then show "intact dump_env dump_file b"
    using dump_sizes
    by (auto simp: intact_def dump_entries dump_blob_def dump_data dump_parse_of unat_of_nat)
qed

lemma dump_ranked: "ranked dump_env dump_file"
  unfolding ranked_def
proof (intro exI [of _ unat] allI impI)
  fix b p assume "known dump_env b" and p: "parent_of dump_env dump_file b = Some p"
  then have "b = 0 \<or> b = 1" by (intro dump_known(3))
  with p show "unat p < unat b \<and> unat b \<le> CHAIN_MAX" by (auto simp: dump_parents CHAIN_MAX_def)
qed

lemma dump_store_tables: "table_inv dump_env dump_file dump_store"
  by (simp add: table_inv_def blob_inv_def dump_store_def store_new_def lru_inv_def lru_new_def list_lru_documented
      rot_shows_def)

lemma dump_store_data: "data_inv dump_env dump_file L dump_store"
  using dump_store_tables byte_lru_new_inv [of list_lru "67108864"]
  by (simp add: data_inv_def table_inv_def dump_store_def store_new_def list_lru_documented byte_lru_new_def
      lru_unbounded_def)

end
