(* ===== verification/Store_Properties.thy ===== *)
theory Store_Properties
  imports Sample_Dump
begin

text \<open>
  What the store promises, over its operations as the callers run them, with the small dump as the
  witness of every hypothesis.
\<close>

section \<open>Blobs\<close>



text \<open>
  C5: a parsed blob is the dump's.  Whatever state the store is in, however the cache directory fails
  and whatever rot it holds that parsing notices, a blob that \<open>parsed\<close> returns is the parse of the dump's
  file, the caches stay sound, and an error means that the backend failed or the dump's own file is bad:
  a rotted cache entry is refetched, not reported.
\<close>

theorem parsed_correct:
  assumes "honest env files" and "closed_index (env_index env)" and "known env b" and "blob_inv env files s"
    and "parsed env b s = (r, s')"
  shows "blob_inv env files s' \<and>
    (case r of Inr p \<Rightarrow> parse_blob (env_codecs env) (files (bf_path (index_blob (env_index env) b))) = Inr p
     | Inl e \<Rightarrow> \<not> (reliable env \<and> intact env files b))"
  using satD [OF sat_parsed [OF assms(1-3)] assms(4,5)]
  by (auto simp: yields_def parse_of_def blob_data_def split: sum.splits)

text \<open>The cache entry of version 0 with its first two bytes gone bad.\<close>

definition rotted_disk :: disk where
  "rotted_disk = [path_join ''/cache'' (file_stem 7 0 0xaa ''x'' @ ''.blob'') \<mapsto> u16_le 0 @ drop 2 blob_0]"

lemma rotted_parse: "parse_blob cx (u16_le 0 @ x) = Inl (In_format (Malformed (In_blob (Bad_magic 0))))"
proof -
  have "u16_at (u16_le 0 @ x) 0 = Inr 0" by (rule u16_at_appendI [where xs = "[]"]) simp_all
  then show ?thesis by (simp add: parse_blob_def parse_plain_def MAGIC_PLAIN_def)
qed

lemma rotted_store: "blob_inv dump_env dump_file (store_new dump_env rotted_disk)"
proof -
  have "rot_shows dump_env dump_file rotted_disk"
    by (auto simp: rot_shows_def rotted_disk_def rotted_parse split: if_splits)
  then show ?thesis
    using dump_store_tables by (simp add: table_inv_def blob_inv_def dump_store_def store_new_def)
qed

theorem parsed_correct_witness:
  "rotted_disk \<noteq> Map.empty \<and>
   fst (parsed dump_env 0 (store_new dump_env rotted_disk)) =
     Inr \<lparr>pb_meta = meta_0, pb_manifest = sample_manifest, pb_records = records_0\<rparr>"
proof -
  obtain r s' where run: "parsed dump_env 0 (store_new dump_env rotted_disk) = (r, s')" by fastforce
  have "intact dump_env dump_file 0" using dump_intact dump_known(1) by (simp add: all_intact_def)
  moreover have "parse_blob null_codecs (dump_file (bf_path (index_blob dump_index 0))) =
      Inr \<lparr>pb_meta = meta_0, pb_manifest = sample_manifest, pb_records = records_0\<rparr>"
    using dump_parse_of(1) by (simp add: parse_of_def blob_data_def)
  ultimately show ?thesis
    using parsed_correct [OF dump_honest _ dump_known(1) rotted_store run] dump_closed dump_reliable run
    by (auto simp: rotted_disk_def split: sum.splits)
qed

text \<open>
  C6: a cached blob appears whole or not at all.  However the disk refuses or tears the operations, and
  so wherever the process dies among them, the entry that \<open>fetch_blob\<close> writes is afterwards what it was
  before or the complete data, no other file than the entry and its temporary file changes, no failure
  is reported, and when nothing fails the entry is there and the temporary file gone.
\<close>

theorem cache_write_atomic:
  assumes "suffix ''.blob'' p" and "cache_write env p data s = (r, s')"
  shows "r = Inr () \<and> (store_disk s' p = store_disk s p \<or> store_disk s' p = Some data) \<and>
    (\<forall>q. q \<noteq> p \<longrightarrow> q \<noteq> with_extension p ''blob.tmp'' \<longrightarrow> store_disk s' q = store_disk s q) \<and>
    ((\<forall>t. env_disk env t = Done) \<longrightarrow>
       store_disk s' p = Some data \<and> store_disk s' (with_extension p ''blob.tmp'') = None)"
proof -
  define tmp where "tmp = with_extension p ''blob.tmp''"
  from assms(1) have "last p = CHR ''b''" by (auto simp: suffix_def)
  then have ne: "tmp \<noteq> p" using last_with_extension [of "''blob.tmp''" p] by (auto simp: tmp_def)
  show ?thesis
    using assms(2) ne unfolding cache_write_def Let_def tmp_def [symmetric]
    by (cases "env_disk env (clock s)"; cases "env_disk env (Suc (clock s))"; cases "env_disk env (Suc (Suc (clock s)))")
      (auto simp: disk_do_def tick_def action_simps split: option.splits if_splits)
qed

theorem cache_write_atomic_witness:
  "let p = ''/cache/a.blob''; s' = snd (cache_write dump_env p [1, 2, 3, 4, 5, 6, 7] (dump_store\<lparr>clock := 3\<rparr>)) in
   suffix ''.blob'' p \<and> env_disk dump_env 3 = Torn 5 \<and> (store_disk s' p = None \<or> store_disk s' p = Some [1, 2, 3, 4, 5, 6, 7])"
proof -
  have suf: "suffix ''.blob'' ''/cache/a.blob''" by (simp add: suffix_def)
  show ?thesis
    using cache_write_atomic [OF suf, of dump_env "[1, 2, 3, 4, 5, 6, 7]" "dump_store\<lparr>clock := 3\<rparr>"] suf
    by (cases "cache_write dump_env ''/cache/a.blob'' [1, 2, 3, 4, 5, 6, 7] (dump_store\<lparr>clock := 3\<rparr>)")
      (simp add: Let_def dump_store_def store_new_def dump_env_def)
qed

text \<open>
  C7: a version chain is the list of ancestors.  What \<open>chain\<close> returns ends at the asked version, goes
  from parent to child, repeats no version and stops only at a version without a parent, at a cycle or
  at the length limit; on any dump it ends, and with a reliable backend and intact blobs it succeeds.
\<close>

theorem chain_correct:
  assumes "honest env files" and "closed_index (env_index env)" and "known env b" and "blob_inv env files s"
    and "chain env b s = (r, s')"
  shows "blob_inv env files s' \<and>
    (case r of
       Inr c \<Rightarrow>
         c \<noteq> [] \<and> last c = b \<and> distinct c \<and> climbs env files (rev c) \<and> length c \<le> Suc CHAIN_MAX \<and>
         (\<forall>p. parent_of env files (hd c) = Some p \<longrightarrow> p \<in> set c \<or> CHAIN_MAX < length c)
     | Inl e \<Rightarrow> \<not> (reliable env \<and> all_intact env files))"
  using satD [OF sat_chain [OF assms(1-3)] assms(4,5)]
  by (auto simp: complete_chain_def last_rev split: sum.splits)

theorem chain_correct_witness: "fst (chain dump_env 1 dump_store) = Inr [0, 1]"
proof -
  obtain r s' where run: "chain dump_env 1 dump_store = (r, s')" by fastforce
  have inv: "blob_inv dump_env dump_file dump_store" using dump_store_tables by (simp add: table_inv_def)
  have "closed_index (env_index dump_env)" by (simp add: dump_closed)
  from chain_correct [OF dump_honest this dump_known(2) inv run] dump_reliable dump_intact
  obtain c where r: "r = Inr c" "c \<noteq> []" "last c = 1" "distinct c" "climbs dump_env dump_file (rev c)"
    "length c \<le> Suc CHAIN_MAX" "\<forall>p. parent_of dump_env dump_file (hd c) = Some p \<longrightarrow> p \<in> set c \<or> CHAIN_MAX < length c"
    by (auto split: sum.splits)
  obtain xs where xs: "rev c = 1 # xs" using r(2,3) by (metis hd_rev list.exhaust_sel rev_is_Nil_conv)
  have "xs \<noteq> []"
  proof
    assume "xs = []"
    then have "c = [1]" using xs by (simp add: rev_swap)
    with r(7) show False by (simp add: dump_parents CHAIN_MAX_def)
  qed
  then have "rev c = [1, 0]"
    using r(5) xs by (cases xs; cases "tl xs") (auto simp: dump_parents)
  then have "c = [0, 1]" by (simp add: rev_swap)
  then show ?thesis by (simp add: run r(1))
qed

section \<open>File tables\<close>

text \<open>
  C4: a file is located at its newest record.  On a dump whose chains end, whatever the table cache
  holds, \<open>locate\<close> returns the record of the first version that has the file on the way from the asked
  version to its root, and reports a missing record exactly when none has it; any other error means the
  backend failed or a blob is bad.
\<close>

theorem locate_newest:
  assumes "honest env files" and "closed_index (env_index env)" and "ranked env files" and "known env b"
    and "table_inv env files s" and "locate env b f s = (r, s')"
  shows "table_inv env files s' \<and>
    ((\<exists>bs. ancestry env files b bs \<and>
        r = (case newest env files bs f of Some loc \<Rightarrow> Inr loc | None \<Rightarrow> Inl (Error (MissingRecord f)))) \<or>
     (\<exists>e. r = Inl e) \<and> \<not> (reliable env \<and> all_intact env files))"
proof -
  from satD [OF sat_locate [OF assms(1-4)] assms(5,6)] have inv: "table_inv env files s'"
    and r: "located env files b f r \<or> \<not> is_ok r \<and> \<not> (reliable env \<and> all_intact env files)" by auto
  then show ?thesis by (cases r) (auto simp: located_def ok_or_def split: option.splits)
qed

lemma dump_ancestry: "ancestry dump_env dump_file 1 [1, 0]"
  by (simp add: ancestry_def dump_parents)

definition dump_loc :: "blob_id \<Rightarrow> dat_id \<Rightarrow> file_record \<Rightarrow> file_loc" where
  "dump_loc b d r = file_loc_of b (Some d) r"

lemma dump_own:
  "own_of dump_env dump_file 1 = [7 \<mapsto> dump_loc 1 1 (dump_record 7 Encrypted 0 10)]"
  "own_of dump_env dump_file 0 = [7 \<mapsto> dump_loc 0 0 (dump_record 7 Compressed 0 10),
     8 \<mapsto> dump_loc 0 0 (dump_record 8 Plain 10 20)]"
  by (simp_all add: own_of_def dump_parse_of own_map_def dat_of_def dump_entries dump_blob_def find_dat_def
      dump_index_parts records_0_def records_1_def meta_0_def meta_1_def dump_loc_def dump_record_def Let_def)

theorem locate_newest_witness:
  "fst (locate dump_env 1 7 dump_store) = Inr (dump_loc 1 1 (dump_record 7 Encrypted 0 10)) \<and>
   fst (locate dump_env 1 8 dump_store) = Inr (dump_loc 0 0 (dump_record 8 Plain 10 20)) \<and>
   fst (locate dump_env 1 9 dump_store) = Inl (Error (MissingRecord 9))"
proof -
  have ix: "closed_index (env_index dump_env)" by (simp add: dump_closed)
  have "fst (locate dump_env 1 f dump_store) =
      (case newest dump_env dump_file [1, 0] f of Some loc \<Rightarrow> Inr loc | None \<Rightarrow> Inl (Error (MissingRecord f)))" for f
  proof -
    obtain r s' where run: "locate dump_env 1 f dump_store = (r, s')" by fastforce
    from locate_newest [OF dump_honest ix dump_ranked dump_known(2) dump_store_tables run] dump_reliable dump_intact
    obtain bs where "ancestry dump_env dump_file 1 bs"
      "r = (case newest dump_env dump_file bs f of Some loc \<Rightarrow> Inr loc | None \<Rightarrow> Inl (Error (MissingRecord f)))" by auto
    with ancestry_unique [OF dump_ancestry] run show ?thesis by auto
  qed
  then show ?thesis by (simp add: dump_own)
qed

section \<open>Reads\<close>

text \<open>
  Every byte of a read comes from its block.  Whatever the window and block caches hold, a read of
  a file returns as many bytes as the range has inside the file, each one the byte of the decoded block
  it lies in, all blocks under one key; an error is that of a block the range touches, unless the backend
  failed; and the caches stay sound.
\<close>

theorem read_correct:
  assumes "honest env files" and "cipher_in_place (env_codecs env)" and "unshared L" and "loc \<in> L"
    and "loc_dat loc = Some dat" and "known_dat env dat" and "data_inv env files L s"
    and "unat off + len < 18446744073709551616" and "len \<le> ISIZE_MAX" and run: "store_read env loc off len s = (r, s')"
  shows "data_inv env files L s' \<and>
    (case r of
       Inr out \<Rightarrow>
         length out = min len (unat (fr_size (loc_record loc)) - unat off) \<and>
         (\<exists>kr. (out \<noteq> [] \<longrightarrow> key_settled s' loc kr) \<and>
            (\<forall>j < length out. \<exists>d. block_value env files kr loc ((unat off + j) div BLOCK_SIZE) = Inr d \<and>
               out ! j = d ! ((unat off + j) mod BLOCK_SIZE)))
     | Inl e \<Rightarrow>
         (\<exists>p kr. unat off \<le> p \<and> p < unat off + len \<and> p < unat (fr_size (loc_record loc)) \<and>
            block_value env files kr loc (p div BLOCK_SIZE) = Inl e) \<or> \<not> reliable env)"
proof -
  define b where "b = min (unat off + len) (unat (fr_size (loc_record loc)))"
  from satD [OF sat_store_read [OF assms(1,3-6,2,8,9)] assms(7) run, folded b_def]
  have inv: "data_inv env files L s'" and post: "read_post env files loc (unat off) b [] r s'" by auto
  from post consider
      (bytes) kr where "unat off < b \<longrightarrow> key_settled s' loc kr" "reads env files kr loc (unat off) b"
        "r = Inr (map (file_byte env files kr loc) [unat off..<b])"
    | (block) p kr where "unat off \<le> p" "p < b" "\<not> is_ok r" "r = block_value env files kr loc (p div BLOCK_SIZE)"
    | (backend) "\<not> reliable env \<and> (\<exists>m. r = Inl (Error (Other (Backend_failed m))))"
    unfolding read_post_def append_Nil by blast
  then show ?thesis
  proof cases
    case bytes
    have "\<exists>d. block_value env files kr loc ((unat off + j) div BLOCK_SIZE) = Inr d \<and>
        map (file_byte env files kr loc) [unat off..<b] ! j = d ! ((unat off + j) mod BLOCK_SIZE)"
      if "j < b - unat off" for j
    proof -
      have at: "[unat off..<b] ! j = unat off + j" and lt: "unat off + j < b" using that by simp_all
      from bytes(2) lt obtain d where "block_value env files kr loc ((unat off + j) div BLOCK_SIZE) = Inr d"
        unfolding reads_def is_ok_iff by fastforce
      then show ?thesis using that by (simp add: at file_byte_def)
    qed
    moreover have "b - unat off = min len (unat (fr_size (loc_record loc)) - unat off)"
      by (auto simp: b_def min_def)
    ultimately show ?thesis using bytes inv by auto
  next
    case block
    from block(3) obtain e where e: "r = Inl e" by (cases r) auto
    with block have "\<exists>p kr. unat off \<le> p \<and> p < unat off + len \<and> p < unat (fr_size (loc_record loc)) \<and>
        block_value env files kr loc (p div BLOCK_SIZE) = Inl e"
      by (intro exI [of _ p] exI [of _ kr]) (simp add: b_def)
    with inv e show ?thesis by simp
  next
    case backend
    with inv show ?thesis by auto
  qed
qed

lemma dump_record_simps [simp]:
  "file_id (dump_record f m off n) = f" "fr_mode (dump_record f m off n) = m"
  "fr_offset (dump_record f m off n) = off" "fr_size (dump_record f m off n) = ucast n"
  "blocks (dump_record f m off n) = [\<lparr>compressed_size = n, checksum = n\<rparr>]"
  by (simp_all add: dump_record_def)

lemma dump_span:
  "block_span (dump_loc b d (dump_record f m off n)) i =
     (if i = 0 then Some (off, off + ucast n) else None)"
  by (cases i) (auto simp: block_span_def dump_loc_def file_loc_of_def nth_opt_def)

lemma dump_loc_simps [simp]:
  "loc_dat (dump_loc b d r) = Some d" "loc_record (dump_loc b d r) = r" "loc_source (dump_loc b d r) = b"
  by (simp_all add: dump_loc_def file_loc_of_def)

lemma dump_unshared: "unshared {dump_loc b d (dump_record f m off n)}"
  by (auto simp: unshared_def same_block_def dump_span split: if_splits)

lemma dump_known_dat: "known_dat dump_env 0" "known_dat dump_env 1"
  by (simp_all add: known_dat_def dump_index_parts)

lemma dump_cipher: "cipher_in_place null_codecs"
  by (simp add: cipher_in_place_def null_codecs_def)

text \<open>
  A file stored under a key resolution: every block that the file's length calls for decodes to its
  part of the contents.
\<close>

definition stored_file ::
  "env \<Rightarrow> (string \<Rightarrow> bytes) \<Rightarrow> key_resolution \<Rightarrow> file_loc \<Rightarrow> bytes \<Rightarrow> bool" where
  "stored_file env files kr loc F \<longleftrightarrow>
     length F = unat (fr_size (loc_record loc)) \<and>
     (\<forall>i. i * BLOCK_SIZE < length F \<longrightarrow>
        block_value env files kr loc i = Inr (take BLOCK_SIZE (drop (i * BLOCK_SIZE) F)))"

lemma stored_block:
  assumes "stored_file env files kr loc F" and "p < length F"
  shows "block_value env files kr loc (p div BLOCK_SIZE) =
    Inr (take BLOCK_SIZE (drop (p div BLOCK_SIZE * BLOCK_SIZE) F))"
proof -
  have "p div BLOCK_SIZE * BLOCK_SIZE < length F"
    using div_times_less_eq_dividend assms(2) by (rule le_less_trans)
  then show ?thesis using assms(1) unfolding stored_file_def by blast
qed

lemma stored_bytes:
  assumes "stored_file env files kr loc F" and "b \<le> length F"
  shows "map (file_byte env files kr loc) [a..<b] = take (b - a) (drop a F)"
proof (rule nth_equalityI)
  fix j assume "j < length (map (file_byte env files kr loc) [a..<b])"
  then have j: "a + j < b" by simp
  have "(a + j) mod BLOCK_SIZE < BLOCK_SIZE" by (simp add: BLOCK_SIZE_def)
  moreover have "(a + j) div BLOCK_SIZE * BLOCK_SIZE \<le> length F"
    using div_times_less_eq_dividend [of "a + j" BLOCK_SIZE] j assms(2) by linarith
  ultimately show "map (file_byte env files kr loc) [a..<b] ! j = take (b - a) (drop a F) ! j"
    using j assms(2) stored_block [OF assms(1), of "a + j"] by (simp add: file_byte_def)
qed (use assms(2) in auto)

lemma store_read_serves:
  assumes "honest env files" and "cipher_in_place (env_codecs env)" and "unshared L" and "loc \<in> L"
    and "loc_dat loc = Some dat" and "known_dat env dat" and "data_inv env files L s"
    and "unat off + len < 18446744073709551616" and "len \<le> ISIZE_MAX"
    and key: "key_settled s loc kr" and F: "stored_file env files kr loc F" and "reliable env"
  shows "fst (store_read env loc off len s) = Inr (take len (drop (unat off) F))"
proof -
  define b where "b = min (unat off + len) (unat (fr_size (loc_record loc)))"
  obtain r s' where run: "store_read env loc off len s = (r, s')" by fastforce
  from satD [OF sat_store_read [OF assms(1,3-6,2,8,9)] assms(7) run, folded b_def]
  have g: "data_frame s s'" and post: "read_post env files loc (unat off) b [] r s'" by auto
  have settled: "key_settled s' loc kr" by (rule key_settled_mono [OF g key])
  have le: "b \<le> length F" using F by (simp add: b_def stored_file_def)
  have good: "is_ok (block_value env files kr loc (p div BLOCK_SIZE))" if "p < b" for p
    using stored_block [OF F, of p] that le by simp
  from post \<open>reliable env\<close> consider
      (bytes) kr' where "unat off < b \<longrightarrow> key_settled s' loc kr'"
        "r = Inr (map (file_byte env files kr' loc) [unat off..<b])"
    | (block) p where "p < b" "\<not> is_ok r" "r = block_value env files kr loc (p div BLOCK_SIZE)"
    unfolding read_post_def using settled_value_eq [OF settled] by auto
  then show ?thesis
  proof cases
    case bytes
    have "map (file_byte env files kr' loc) [unat off..<b] = map (file_byte env files kr loc) [unat off..<b]"
      using bytes(1) settled_value_eq [OF settled] by (auto simp: file_byte_def)
    then have "r = Inr (take (b - unat off) (drop (unat off) F))"
      using bytes(2) stored_bytes [OF F le] by simp
    moreover have "take (b - unat off) (drop (unat off) F) = take len (drop (unat off) F)"
      using F by (auto simp: b_def stored_file_def min_def)
    ultimately show ?thesis by (simp add: run)
  next
    case block
    with good show ?thesis by auto
  qed
qed

text \<open>
  C2: reads serve the stored file.  For a file stored under the key that is settled for it (any, when
  it is not encrypted), with a backend that does not fail, a read of any range is that range of the
  contents, cut off at the end of the file, whatever the caches hold and however the range falls across
  blocks and windows.
\<close>

theorem read_serves:
  assumes "honest env files" and "cipher_in_place (env_codecs env)" and "unshared L" and "loc \<in> L"
    and "loc_dat loc = Some dat" and "known_dat env dat" and "data_inv env files L s"
    and "unat off + len < 18446744073709551616" and "len \<le> ISIZE_MAX"
    and key: "key_settled s loc kr" and F: "stored_file env files kr loc F" and "reliable env"
  shows "fst (store_read env loc off len s) = Inr (take len (drop (unat off) F))"
  by (rule store_read_serves [OF assms])

definition file_8 :: file_loc where
  "file_8 = dump_loc 0 0 (dump_record 8 Plain 10 20)"

lemma dat_0_parts: "length dat_0 = 30" "take 30 dat_0 = dat_0"
  by (simp_all add: dat_0_def)

lemma file_8_block: "block_value dump_env dump_file kr file_8 0 = Inr (drop 10 dat_0)"
  by (simp add: file_8_def block_value_def dump_span nth_opt_def span_of_def stored_def dump_entries dump_dat_def
      dump_files [simplified] dat_0_parts whole_span_def decode_block_def block_range_def Let_def
      chunk_checksum_def null_codecs_def ISIZE_MAX_def BLOCK_SIZE_def min_def)

lemma file_8_stored: "stored_file dump_env dump_file kr file_8 (drop 10 dat_0)"
proof -
  have "block_value dump_env dump_file kr file_8 i = Inr (take BLOCK_SIZE (drop (i * BLOCK_SIZE) (drop 10 dat_0)))"
    if "i * BLOCK_SIZE < 20" for i
  proof -
    have "i = 0" using that by (cases i) (auto simp: BLOCK_SIZE_def)
    then show ?thesis using file_8_block [of kr] by (simp add: dat_0_parts BLOCK_SIZE_def)
  qed
  then show ?thesis by (simp add: stored_file_def file_8_def dat_0_parts)
qed

lemma file_8_settled: "key_settled s file_8 kr"
  by (simp add: key_settled_def file_8_def)

theorem read_serves_witness:
  "fst (store_read dump_env file_8 5 100 dump_store) = Inr (take 100 (drop 15 dat_0)) \<and>
   take 100 (drop 15 dat_0) = map of_nat [15..<30]"
proof -
  have "fst (store_read dump_env file_8 5 100 dump_store) = Inr (take 100 (drop (unat (5 :: u64)) (drop 10 dat_0)))"
    by (rule read_serves [where L = "{file_8}", OF dump_honest _ _ _ _ dump_known_dat(1) dump_store_data _ _
          file_8_settled [of _ "No_key 0"] file_8_stored dump_reliable])
      (simp_all add: file_8_def dump_unshared dump_cipher ISIZE_MAX_def)
  then show ?thesis by (simp add: dat_0_def drop_map)
qed

theorem read_correct_witness:
  "\<exists>out. fst (store_read dump_env file_8 5 4 dump_store) = Inr out \<and> length out = 4"
proof -
  obtain r s' where run: "store_read dump_env file_8 5 4 dump_store = (r, s')" by fastforce
  have doc: "cipher_in_place (env_codecs dump_env)" "unshared {file_8}" "loc_dat file_8 = Some 0"
    "unat (5 :: u64) + 4 < 18446744073709551616" "4 \<le> ISIZE_MAX"
    by (simp_all add: file_8_def dump_unshared dump_cipher ISIZE_MAX_def)
  have "block_value dump_env dump_file kr file_8 (p div BLOCK_SIZE) \<noteq> Inl e" if "p < 9" for p kr e
    using that file_8_block [of kr] by (simp add: BLOCK_SIZE_def)
  with read_correct [OF dump_honest doc(1,2) singletonI doc(3) dump_known_dat(1) dump_store_data doc(4,5) run] dump_reliable
  obtain out where "r = Inr out" "length out = min 4 (unat (fr_size (loc_record file_8)) - unat (5 :: u64))"
    by (auto split: sum.splits)
  then show ?thesis by (simp add: run) (simp add: file_8_def)
qed


text \<open>A file of three bytes under a checksum that spells its block out.\<close>

definition spelled_codecs :: codecs where
  "spelled_codecs = null_codecs\<lparr>adler32_seed0 := \<lambda>d. of_nat (le_nat d)\<rparr>"

definition spelled_env :: env where
  "spelled_env = dump_env\<lparr>env_codecs := spelled_codecs\<rparr>"

definition spelled_file :: file_loc where
  "spelled_file = file_loc_of 0 (Some 0) \<lparr>file_id = 9, fr_mode = Plain, fr_offset = 3, fr_size = 3,
     blocks = [\<lparr>compressed_size = 3, checksum = 0x050403\<rparr>]\<rparr>"

lemma spelled_file_simps [simp]:
  "loc_dat spelled_file = Some 0" "fr_size (loc_record spelled_file) = 3" "fr_mode (loc_record spelled_file) = Plain"
  "blocks (loc_record spelled_file) = [\<lparr>compressed_size = 3, checksum = 0x050403\<rparr>]"
  by (simp_all add: spelled_file_def file_loc_of_def)

lemma spelled_checks:
  assumes "length d = 3" and "chunk_checksum spelled_codecs d = 0x050403"
  shows "d = [3, 4, 5]"
proof -
  have "le_nat d < 16777216" using le_nat_bound [of d] assms(1) by simp
  moreover have "of_nat (le_nat d) = (0x050403 :: u32)"
    using assms(2) by (simp add: chunk_checksum_def spelled_codecs_def null_codecs_def)
  then have "unat (of_nat (le_nat d) :: u32) = 0x050403" by simp
  ultimately have "le_nat d = 0x050403" by (simp add: unat_of_nat)
  then have "d = le_bytes 3 0x050403" using le_bytes_le_nat [of d] assms(1) by simp
  then show ?thesis by (simp add: eval_simps)
qed

lemma spelled_env_simps [simp]:
  "env_codecs spelled_env = spelled_codecs" "env_index spelled_env = dump_index" "env_cfg spelled_env = dump_cfg"
  "env_backend spelled_env t = dump_backend" "env_parsed_lru spelled_env = list_lru" "env_byte_lru spelled_env = list_lru"
  by (simp_all add: spelled_env_def)

lemma spelled_world:
  "honest spelled_env dump_file" "reliable spelled_env" "known_dat spelled_env 0"
  "cipher_in_place (env_codecs spelled_env)" "data_inv spelled_env dump_file L dump_store"
proof -
  show "honest spelled_env dump_file" "reliable spelled_env"
    using dump_honest dump_reliable by (simp_all add: honest_def reliable_def)
  show "known_dat spelled_env 0" using dump_known_dat(1) by (simp add: known_dat_def)
  show "cipher_in_place (env_codecs spelled_env)"
    by (simp add: cipher_in_place_def spelled_codecs_def null_codecs_def)
  show "data_inv spelled_env dump_file L dump_store"
    using dump_store_data [of L]
    by (simp add: data_inv_def blob_inv_def dump_store_def store_new_def rot_shows_def byte_lru_new_def lru_new_def
        lru_unbounded_def)
qed

lemma spelled_span: "block_span spelled_file i = (if i = 0 then Some (3, 6) else None)"
  by (cases i) (auto simp: block_span_def spelled_file_def file_loc_of_def nth_opt_def)

lemma spelled_stored: "stored_file spelled_env dump_file kr spelled_file [3, 4, 5]"
proof -
  have "[3..<6] = [3, 4, 5 :: nat]" by (simp add: upt_rec)
  then have span: "span_of spelled_env dump_file 0 3 6 = [3, 4, 5]"
    by (simp add: span_of_def stored_def dump_entries dump_dat_def dump_files [simplified] dat_0_parts)
      (simp add: dat_0_def drop_map take_map)
  have "block_value spelled_env dump_file kr spelled_file 0 =
      rbind (whole_span spelled_file 0 3 6 [3, 4, 5])
        (\<lambda>raw. decode_block spelled_env spelled_file 0 \<lparr>compressed_size = 3, checksum = 0x050403\<rparr> raw None)"
    by (simp add: block_value_def spelled_span span ISIZE_MAX_def)
      (simp add: spelled_file_def file_loc_of_def nth_opt_def span ISIZE_MAX_def)
  also have "\<dots> = Inr [3, 4, 5]"
    by (simp add: whole_span_def decode_block_def block_range_def Let_def chunk_checksum_def spelled_codecs_def
        null_codecs_def BLOCK_SIZE_def min_def spelled_file_def file_loc_of_def eval_simps)
  finally have "block_value spelled_env dump_file kr spelled_file 0 = Inr [3, 4, 5]" .
  then have "block_value spelled_env dump_file kr spelled_file i = Inr (take BLOCK_SIZE (drop (i * BLOCK_SIZE) [3, 4, 5]))"
    if "i * BLOCK_SIZE < 3" for i
    using that by (cases i) (auto simp: BLOCK_SIZE_def)
  then show ?thesis by (simp add: stored_file_def)
qed

lemma spelled_unshared: "unshared {spelled_file}"
  by (auto simp: unshared_def same_block_def spelled_span split: if_splits)


section \<open>Keys\<close>





end
