(* ===== verification/Node_Flags.thy ===== *)
theory Node_Flags
  imports Rust_Text
begin

text \<open>
  The flag word of a manifest node and its description (\<open>src/format/manifest.rs\<close>, module \<open>flags\<close>): the
  names of the known bits, the rest in hexadecimal.  The description loses nothing: reading it back
  gives the word.
\<close>

unbundle bit_operations_syntax

section \<open>Definitions\<close>

definition FLAG_FILE :: u32 where "FLAG_FILE = 0x4000"
definition FLAG_ENCRYPTED :: u32 where "FLAG_ENCRYPTED = 0x0100"
definition FLAG_BACKUP_LOCAL :: u32 where "FLAG_BACKUP_LOCAL = 0x0040"
definition FLAG_COPY_LOCAL :: u32 where "FLAG_COPY_LOCAL = 0x000a"
definition FLAG_COPY_LOCAL_NO_OVERWRITE :: u32 where "FLAG_COPY_LOCAL_NO_OVERWRITE = 0x0001"

definition flag_names :: "(u32 \<times> string) list" where
  "flag_names =
     [(FLAG_FILE, ''file''), (FLAG_ENCRYPTED, ''encrypted''), (FLAG_BACKUP_LOCAL, ''backup_local''),
      (FLAG_COPY_LOCAL, ''copy_local''), (FLAG_COPY_LOCAL_NO_OVERWRITE, ''copy_local_no_overwrite'')]"

text \<open>The loop over the known flags: the names found, and the bits that are left.\<close>

fun describe_bits :: "(u32 \<times> string) list \<Rightarrow> u32 \<Rightarrow> string list \<times> u32" where
  "describe_bits [] v = ([], v)"
| "describe_bits ((bits, name) # rest) v =
     (if v AND bits = bits
      then (case describe_bits rest (v AND NOT bits) of (out, w) \<Rightarrow> (name # out, w))
      else describe_bits rest v)"

text \<open>\<open>slice::join\<close>.\<close>

fun join :: "string \<Rightarrow> string list \<Rightarrow> string" where
  "join sep [] = []"
| "join sep [p] = p"
| "join sep (p # ps) = p @ sep @ join sep ps"

definition describe :: "u32 \<Rightarrow> string" where
  "describe v =
     (case describe_bits flag_names v of (out, w) \<Rightarrow>
        let out = (if w \<noteq> 0 then out @ [''0x'' @ show_hex (unat w)] else out)
        in if out = [] then ''directory'' else join '','' out)"

section \<open>Reading a description back\<close>

text \<open>The bits a part of a description stands for: those of a known name, those of a hexadecimal number.\<close>

definition flag_value :: "string \<Rightarrow> u32" where
  "flag_value part =
     (case List.find (\<lambda>(bits, name). name = part) flag_names of
        Some (bits, _) \<Rightarrow> bits
      | None \<Rightarrow> if take 2 part = ''0x'' then (case parse_u32_hex (drop 2 part) of Some w \<Rightarrow> w | None \<Rightarrow> 0) else 0)"

definition flags_of :: "string \<Rightarrow> u32" where
  "flags_of s = foldr (\<lambda>part w. flag_value part OR w) (split_all CHR '','' s) 0"

lemma flag_value_names:
  "(bits, name) \<in> set flag_names \<Longrightarrow> flag_value name = bits"
  by (auto simp: flag_names_def flag_value_def FLAG_FILE_def FLAG_ENCRYPTED_def FLAG_BACKUP_LOCAL_def
      FLAG_COPY_LOCAL_def FLAG_COPY_LOCAL_NO_OVERWRITE_def)

lemma parse_u32_hex_show: "parse_u32_hex (show_hex (unat (w :: u32))) = Some w"
  using parse_pad_hex [of "unat w" 4294967296 0] unat_u32_less [of w]
  by (simp add: parse_u32_hex_def pad_zero_def)

lemma flag_value_hex: "flag_value (''0x'' @ show_hex (unat w)) = w"
  by (simp add: flag_value_def flag_names_def parse_u32_hex_show)

lemma flag_value_directory: "flag_value ''directory'' = 0"
  by (simp add: flag_value_def flag_names_def)

lemma take_back:
  assumes "v AND bits = bits"
  shows "bits OR (v AND NOT bits) = (v :: u32)"
proof (rule bit_eqI)
  fix n
  from assms have "bit (v AND bits) n = bit bits n" by simp
  then show "bit (bits OR (v AND NOT bits)) n = bit v n"
    by (auto simp: bit_simps dest: bit_imp_le_length)
qed

lemma describe_bits_value:
  assumes "describe_bits bs v = (out, w)" and "\<And>bits name. (bits, name) \<in> set bs \<Longrightarrow> flag_value name = bits"
  shows "foldr (\<lambda>part w. flag_value part OR w) out w = v"
  using assms
proof (induction bs v arbitrary: out w rule: describe_bits.induct)
  case (2 bits name rest v)
  show ?case
  proof (cases "v AND bits = bits")
    case True
    then obtain out' where o: "describe_bits rest (v AND NOT bits) = (out', w)" "out = name # out'"
      using "2.prems"(1) by (auto split: prod.splits)
    have "foldr (\<lambda>part w. flag_value part OR w) out' w = v AND NOT bits"
      by (rule "2.IH"(1) [OF True o(1)]) (use "2.prems"(2) in simp)
    moreover have "bits OR (v AND NOT bits) = v"
      by (rule take_back [OF True])
    moreover have "flag_value name = bits" by (rule "2.prems"(2)) simp
    ultimately show ?thesis by (simp add: o(2))
  next
    case False
    with "2.IH"(2) "2.prems" show ?thesis by simp
  qed
qed simp

lemma describe_bits_names:
  "describe_bits bs v = (out, w) \<Longrightarrow> set out \<subseteq> snd ` set bs"
  by (induction bs v arbitrary: out w rule: describe_bits.induct) (fastforce split: if_splits prod.splits)+

lemma splitn_enough:
  assumes "length s < n" and "c \<notin> set p"
  shows "splitn (Suc n) c (p @ c # s) = p # splitn n c s"
proof -
  obtain k where "n = Suc k" using assms(1) by (cases n) auto
  then show ?thesis by (simp add: split_once_append [OF assms(2)])
qed

lemma splitn_join:
  assumes "ps \<noteq> []" and "\<forall>p \<in> set ps. c \<notin> set p" and "length (join [c] ps) < n"
  shows "splitn n c (join [c] ps) = ps"
  using assms
proof (induction "[c]" ps arbitrary: n rule: join.induct)
  case (2 p)
  then obtain k where "n = Suc k" by (cases n) auto
  with "2.prems" show ?case by (cases k) (simp_all add: split_once_None)
next
  case (3 p q ps)
  then obtain k where n: "n = Suc k" by (cases n) auto
  have "splitn k c (join [c] (q # ps)) = q # ps" by (rule "3.hyps") (use "3.prems" n in auto)
  with "3.prems" n show ?case by (simp add: splitn_enough del: splitn.simps)
qed simp

lemma split_join:
  assumes "ps \<noteq> []" and "\<forall>p \<in> set ps. c \<notin> set p"
  shows "split_all c (join [c] ps) = ps"
  using splitn_join [OF assms] by (simp add: split_all_def)

lemma no_comma: "(bits, name) \<in> set flag_names \<Longrightarrow> CHR '','' \<notin> set name" "CHR '','' \<notin> set (show_hex n)"
  using show_hex_chars [of n] by (auto simp: flag_names_def)

lemma flags_of_join:
  assumes "ps \<noteq> []" and "\<forall>p \<in> set ps. CHR '','' \<notin> set p"
  shows "flags_of (join '','' ps) = foldr (\<lambda>part w. flag_value part OR w) ps 0"
  by (simp add: flags_of_def split_join [OF assms])

section \<open>The description\<close>

text \<open>
  A description names every flag.  Reading the comma-separated parts back, each as the bits of its
  name or as a hexadecimal number, gives the flag word: no bit is lost, none is invented, and two
  different words never have the same description.
\<close>

theorem describe_roundtrip:
  "flags_of (describe v) = v"
proof -
  obtain out w where d: "describe_bits flag_names v = (out, w)" by fastforce
  let ?parts = "out @ (if w \<noteq> 0 then [''0x'' @ show_hex (unat w)] else [])"
  have v: "foldr (\<lambda>part w. flag_value part OR w) out w = v"
    by (rule describe_bits_value [OF d]) (rule flag_value_names)
  have parts: "foldr (\<lambda>part w. flag_value part OR w) ?parts 0 = v"
    using v by (cases "w = 0") (auto simp: flag_value_hex [simplified])
  have "\<forall>p \<in> set ?parts. CHR '','' \<notin> set p"
    using describe_bits_names [OF d] no_comma by fastforce
  with parts flags_of_join have "?parts \<noteq> [] \<longrightarrow> flags_of (join '','' ?parts) = v" by metis
  moreover have "flags_of ''directory'' = 0"
    using flags_of_join [of "[''directory'']"] by (simp add: flag_value_directory)
  ultimately show ?thesis using v by (cases "w = 0") (auto simp: describe_def d Let_def)
qed

end
