(* ===== verification/Virtual_Tree.thy ===== *)
theory Virtual_Tree
  imports Block_Store Node_Flags
begin

text \<open>
  The tree that the file system front ends serve (\<open>src/tree.rs\<close>): depots, their versions and links, and
  below a version the nodes of its manifest, every one of them named by a key.  A listing, a lookup, a
  parent, a stat, a link target and the extended attributes are each one operation over the store.
\<close>

section \<open>Definitions\<close>

datatype tree_key =
    Root
  | Depot u32
  | Latest u32
  | ByDate u32
  | DateLink blob_id
  | Version blob_id
  | Node blob_id u32

datatype kind = Dir | File | Symlink

record meta =
  m_kind :: kind
  m_size :: u64
  m_mtime :: system_time

record tree_entry =
  e_name :: bytes
  e_key :: tree_key
  e_kind :: kind

datatype tree_error =
    NotFound
  | NotADirectory
  | Read read_error

datatype tree_failure =
    Tree_error tree_error
  | Tree_panic

type_synonym 'a tree_run = "(store, tree_failure, 'a) action"

text \<open>The \<open>?\<close> operator on a store result, and \<open>match\<close> on one: a panic is no value to match.\<close>

fun from_read :: "failure \<Rightarrow> tree_failure" where
  "from_read (Error e) = Tree_error (Read e)"
| "from_read Panic = Tree_panic"

definition lift :: "'a run \<Rightarrow> 'a tree_run" where
  "lift m = (\<lambda>s. map_prod (map_err from_read) id (m s))"

definition attempt :: "'a run \<Rightarrow> 'a option tree_run" where
  "attempt m = (\<lambda>s. case m s of
     (Inr x, s') \<Rightarrow> (Inr (Some x), s')
   | (Inl (Error e), s') \<Rightarrow> (Inr None, s')
   | (Inl Panic, s') \<Rightarrow> (Inl Tree_panic, s'))"

definition UNIX_EPOCH :: system_time where
  "UNIX_EPOCH = (0, 0)"

definition blob_date :: "env \<Rightarrow> blob_id \<Rightarrow> system_time" where
  "blob_date env b = (case bf_date (index_blob (env_index env) b) of Some t \<Rightarrow> t | None \<Rightarrow> UNIX_EPOCH)"

definition tree_manifest :: "env \<Rightarrow> blob_id \<Rightarrow> manifest run" where
  "tree_manifest env b = abind (parsed env b) (\<lambda>p. ret (pb_manifest p))"

definition node_key :: "blob_id \<Rightarrow> manifest \<Rightarrow> u32 \<Rightarrow> tree_key" where
  "node_key b m idx = (if idx = root m then Version b else Node b idx)"

fun node_index :: "tree_key \<Rightarrow> manifest \<Rightarrow> u32 option" where
  "node_index (Version _) m = Some (root m)"
| "node_index (Node _ idx) m = Some idx"
| "node_index _ m = None"

definition default_node :: node where
  "default_node = \<lparr>name_offset = 0, count_or_size = 0, node_file_id = NO_NODE, node_flags = 0,
     parent = NO_NODE, next_sibling = NO_NODE, first_child = NO_NODE\<rparr>"

definition dir_meta :: "system_time \<Rightarrow> meta" where
  "dir_meta t = \<lparr>m_kind = Dir, m_size = 0, m_mtime = t\<rparr>"

definition node_meta :: "env \<Rightarrow> blob_id \<Rightarrow> manifest \<Rightarrow> u32 \<Rightarrow> meta tree_run" where
  "node_meta env b m idx =
     (let n = (case node_at m idx of Some n \<Rightarrow> n | None \<Rightarrow> default_node) in
      if is_dir n then ret (dir_meta (blob_date env b))
      else abind (attempt (locate env b (node_file_id n))) (\<lambda>r.
        let (size, mtime) = (case r of
              Some loc \<Rightarrow> (fr_size (loc_record loc), blob_date env (loc_source loc))
            | None \<Rightarrow> (ucast (count_or_size n), blob_date env b))
        in ret \<lparr>m_kind = File, m_size = size, m_mtime = mtime\<rparr>))"

definition link_target :: "env \<Rightarrow> tree_key \<Rightarrow> string option" where
  "link_target env key =
     (let idx = env_index env in
      case key of
        Latest d \<Rightarrow> Option.bind (latest idx d) (\<lambda>b. Option.bind (index_depot idx d) (\<lambda>x. name_of x b))
      | DateLink b \<Rightarrow>
          map_option (\<lambda>n. ''../'' @ n)
            (Option.bind (index_depot idx (bf_depot (index_blob idx b))) (\<lambda>x. name_of x b))
      | _ \<Rightarrow> None)"

definition link_meta :: "env \<Rightarrow> tree_key \<Rightarrow> blob_id \<Rightarrow> meta" where
  "link_meta env key b =
     \<lparr>m_kind = Symlink, m_size = of_nat (length (case link_target env key of Some n \<Rightarrow> n | None \<Rightarrow> [])),
      m_mtime = blob_date env b\<rparr>"

fun tree_meta :: "env \<Rightarrow> tree_key \<Rightarrow> meta tree_run" where
  "tree_meta env Root = ret (dir_meta UNIX_EPOCH)"
| "tree_meta env (Depot d) =
     ret (dir_meta (case latest (env_index env) d of Some b \<Rightarrow> blob_date env b | None \<Rightarrow> UNIX_EPOCH))"
| "tree_meta env (ByDate d) = ret (dir_meta UNIX_EPOCH)"
| "tree_meta env (Latest d) =
     (case latest (env_index env) d of
        None \<Rightarrow> fail (Tree_error NotFound)
      | Some target \<Rightarrow> ret (link_meta env (Latest d) target))"
| "tree_meta env (DateLink b) = ret (link_meta env (DateLink b) b)"
| "tree_meta env (Version b) = ret (dir_meta (blob_date env b))"
| "tree_meta env (Node b idx) = abind (lift (tree_manifest env b)) (\<lambda>m. node_meta env b m idx)"

fun tree_parent :: "env \<Rightarrow> tree_key \<Rightarrow> tree_key tree_run" where
  "tree_parent env (Version b) = ret (Depot (bf_depot (index_blob (env_index env) b)))"
| "tree_parent env (Node b i) =
     abind (attempt (tree_manifest env b)) (\<lambda>r. ret
       (case r of
          Some m \<Rightarrow> (case node_at m i of None \<Rightarrow> Version b | Some n \<Rightarrow> node_key b m (parent n))
        | None \<Rightarrow> Version b))"
| "tree_parent env _ = ret Root"

definition node_entry :: "blob_id \<Rightarrow> manifest \<Rightarrow> u32 \<Rightarrow> tree_entry" where
  "node_entry b m c =
     \<lparr>e_name = node_name m c, e_key = node_key b m c,
      e_kind = (case node_at m c of Some n \<Rightarrow> if is_dir n then Dir else File | None \<Rightarrow> File)\<rparr>"

definition named :: "string \<Rightarrow> tree_key \<Rightarrow> kind \<Rightarrow> tree_entry" where
  "named name key kind = \<lparr>e_name = as_bytes name, e_key = key, e_kind = kind\<rparr>"

definition list_node :: "env \<Rightarrow> blob_id \<Rightarrow> tree_key \<Rightarrow> tree_entry list tree_run" where
  "list_node env b key =
     abind (lift (tree_manifest env b)) (\<lambda>m.
     case node_index key m of
       None \<Rightarrow> fail (Tree_error NotADirectory)
     | Some dir \<Rightarrow>
         if \<not> (case node_at m dir of Some n \<Rightarrow> is_dir n | None \<Rightarrow> False) then fail (Tree_error NotADirectory)
         else ret (map (node_entry b m) (children m dir)))"

fun entries :: "env \<Rightarrow> tree_key \<Rightarrow> tree_entry list tree_run" where
  "entries env Root =
     ret (map (\<lambda>(d, _). named (show_dec (unat d)) (Depot d) Dir) (depots (env_index env)))"
| "entries env (Depot d) =
     ret (case index_depot (env_index env) d of
            None \<Rightarrow> []
          | Some dep \<Rightarrow>
              map (\<lambda>(name, b). named name (Version b) Dir) (versions dep) @
              (if latest (env_index env) d \<noteq> None then [named ''latest'' (Latest d) Symlink] else []) @
              [named ''by-date'' (ByDate d) Dir])"
| "entries env (ByDate d) =
     ret (case index_depot (env_index env) d of
            None \<Rightarrow> []
          | Some dep \<Rightarrow> map (\<lambda>(name, b). named name (DateLink b) Symlink) (date_links dep))"
| "entries env (Version b) = list_node env b (Version b)"
| "entries env (Node b i) = list_node env b (Node b i)"
| "entries env (Latest d) = fail (Tree_error NotADirectory)"
| "entries env (DateLink b) = fail (Tree_error NotADirectory)"

definition lookup_node :: "env \<Rightarrow> blob_id \<Rightarrow> tree_key \<Rightarrow> bytes \<Rightarrow> tree_key option tree_run" where
  "lookup_node env b key name =
     abind (lift (tree_manifest env b)) (\<lambda>m.
     case node_index key m of
       None \<Rightarrow> fail (Tree_error NotADirectory)
     | Some dir \<Rightarrow> ret (map_option (node_key b m) (child_by_name m dir name)))"

fun tree_lookup :: "env \<Rightarrow> tree_key \<Rightarrow> bytes \<Rightarrow> tree_key option tree_run" where
  "tree_lookup env Root name =
     ret (case parse_u32 (from_utf8_lossy name) of
            None \<Rightarrow> None
          | Some d \<Rightarrow> if index_depot (env_index env) d \<noteq> None then Some (Depot d) else None)"
| "tree_lookup env (Depot d) name =
     (let n = from_utf8_lossy name in
      ret (if n = ''latest'' then map_option (\<lambda>_. Latest d) (latest (env_index env) d)
           else if n = ''by-date'' then Some (ByDate d)
           else map_option Version (Option.bind (index_depot (env_index env) d) (\<lambda>dep. lookup_name dep n))))"
| "tree_lookup env (ByDate d) name =
     ret (map_option DateLink
       (Option.bind (index_depot (env_index env) d) (\<lambda>dep. lookup_date_link dep (from_utf8_lossy name))))"
| "tree_lookup env (Version b) name = lookup_node env b (Version b) name"
| "tree_lookup env (Node b i) name = lookup_node env b (Node b i) name"
| "tree_lookup env (Latest d) name = ret None"
| "tree_lookup env (DateLink b) name = ret None"

fun tree_locate :: "env \<Rightarrow> tree_key \<Rightarrow> file_loc tree_run" where
  "tree_locate env (Node b idx) =
     abind (lift (tree_manifest env b)) (\<lambda>m.
     case node_at m idx of
       None \<Rightarrow> fail (Tree_error NotFound)
     | Some n \<Rightarrow>
         if is_dir n then fail (Tree_error NotFound) else lift (locate env b (node_file_id n)))"
| "tree_locate env _ = fail (Tree_error NotFound)"

definition tree_read :: "env \<Rightarrow> file_loc \<Rightarrow> u64 \<Rightarrow> nat \<Rightarrow> bytes tree_run" where
  "tree_read env loc off len = lift (store_read env loc off len)"

subsection \<open>Extended attributes\<close>

definition attr :: "string \<Rightarrow> string \<Rightarrow> string \<times> string" where
  "attr name v = (''user.steam2.'' @ name, v)"

definition parsed_attrs :: "parsed_blob \<Rightarrow> (string \<times> string) list" where
  "parsed_attrs p =
     [attr ''app_id'' (show_dec (unat (app_id (pb_manifest p)))), attr ''dat_crc'' (hex8 (vm_dat_crc (pb_meta p)))] @
     (case vm_prev (pb_meta p) of
        Some (v, c) \<Rightarrow> [attr ''parent'' (show_dec (unat v) @ ''-'' @ hex8 c)]
      | None \<Rightarrow> [])"

definition blob_attrs :: "env \<Rightarrow> blob_id \<Rightarrow> (string \<times> string) list tree_run" where
  "blob_attrs env b =
     (let e = index_blob (env_index env) b in
      abind (attempt (parsed env b)) (\<lambda>r. ret
        ([attr ''depot'' (show_dec (unat (bf_depot e))), attr ''version'' (show_dec (unat (bf_version e))),
          attr ''blob'' (file_name e)] @
         (case bf_date e of Some t \<Rightarrow> [attr ''date'' (format_stamp (fst t))] | None \<Rightarrow> []) @
         (case r of Some p \<Rightarrow> parsed_attrs p | None \<Rightarrow> []))))"

text \<open>\<open>{:?}\<close> of a storage mode.\<close>

fun mode_debug :: "mode \<Rightarrow> string" where
  "mode_debug Plain = ''Plain''"
| "mode_debug Compressed = ''Compressed''"
| "mode_debug CompressedEncrypted = ''CompressedEncrypted''"
| "mode_debug Encrypted = ''Encrypted''"

definition loc_attrs :: "env \<Rightarrow> file_loc \<Rightarrow> (string \<times> string) list" where
  "loc_attrs env loc =
     [attr ''mode'' (mode_debug (fr_mode (loc_record loc))),
      attr ''source_version'' (show_dec (unat (bf_version (index_blob (env_index env) (loc_source loc))))),
      attr ''blocks'' (show_dec (num_blocks (loc_record loc)))] @
     (case loc_dat loc of
        Some d \<Rightarrow>
          let de = index_dat (env_index env) d in
          [attr ''dat'' (df_path de), attr ''dat_offset'' (show_dec (unat (fr_offset (loc_record loc))))] @
          (if incomplete de then [attr ''dat_incomplete'' ''1''] else [])
      | None \<Rightarrow> [attr ''dat'' ''missing''])"

definition node_attrs :: "env \<Rightarrow> blob_id \<Rightarrow> node \<Rightarrow> (string \<times> string) list tree_run" where
  "node_attrs env b n =
     (let shown = [attr ''flags'' (''0x'' @ pad_zero 4 (show_hex (unat (node_flags n)))),
                   attr ''flags_decoded'' (describe (node_flags n))] in
      if is_dir n then ret shown
      else abind (attempt (locate env b (node_file_id n))) (\<lambda>r. ret
        (shown @ [attr ''file_id'' (show_dec (unat (node_file_id n)))] @
         (case r of Some loc \<Rightarrow> loc_attrs env loc | None \<Rightarrow> []))))"

fun xattrs :: "env \<Rightarrow> tree_key \<Rightarrow> (string \<times> string) list tree_run" where
  "xattrs env (Depot d) = ret [attr ''depot'' (show_dec (unat d))]"
| "xattrs env (Version b) = blob_attrs env b"
| "xattrs env (Node b i) =
     abind (blob_attrs env b) (\<lambda>own.
     abind (attempt (tree_manifest env b)) (\<lambda>r.
     case Option.bind r (\<lambda>m. node_at m i) of
       None \<Rightarrow> ret own
     | Some n \<Rightarrow> abind (node_attrs env b n) (\<lambda>more. ret (own @ more))))"
| "xattrs env _ = ret []"

section \<open>Runs of the tree\<close>

text \<open>
  The tree keeps what the tables and the data caches keep.  A key resolution once made stays.
\<close>

definition store_inv :: "env \<Rightarrow> (string \<Rightarrow> bytes) \<Rightarrow> file_loc set \<Rightarrow> store \<Rightarrow> bool" where
  "store_inv env files L s \<longleftrightarrow> table_inv env files s \<and> data_inv env files L s"

definition store_frame :: "store \<Rightarrow> store \<Rightarrow> bool" where
  "store_frame s s' \<longleftrightarrow> resolved_keys s \<subseteq>\<^sub>m resolved_keys s'"

interpretation store_runs: run_logic "store_inv env files L" store_frame for env files L
  by unfold_locales (auto simp: store_frame_def intro: map_le_trans)

lemma store_lift_table:
  assumes "sat (table_inv env files) table_frame m Q s"
  shows "sat (store_inv env files L) store_frame m Q s"
  by (rule sat_lift [OF assms])
    (auto simp: store_inv_def store_frame_def table_inv_def table_frame_def data_inv_def block_entry_def key_settled_def)

lemma store_lift_data:
  assumes "sat (data_inv env files L) data_frame m Q s"
  shows "sat (store_inv env files L) store_frame m Q s"
  by (rule sat_lift [OF assms])
    (auto simp: store_inv_def store_frame_def data_frame_def table_inv_def data_inv_def)

lemma store_lift_blob:
  assumes "sat (blob_inv env files) blob_frame m Q s"
  shows "sat (store_inv env files L) store_frame m Q s"
  by (rule store_lift_table [OF table_lift [OF assms]])

lemma sat_lift_run:
  assumes "sat I G m Q s" and "\<And>r s'. Q r s' \<Longrightarrow> Q' (map_err from_read r) s'"
  shows "sat I G (lift m) Q' s"
  using assms by (auto simp: sat_def lift_def)

lemma sat_attempt:
  assumes "sat I G m Q s" and "\<And>x s'. Q (Inr x) s' \<Longrightarrow> Q' (Inr (Some x)) s'"
    and "\<And>e s'. Q (Inl (Error e)) s' \<Longrightarrow> Q' (Inr None) s'" and "\<And>s'. Q (Inl Panic) s' \<Longrightarrow> Q' (Inl Tree_panic) s'"
  shows "sat I G (attempt m) Q' s"
  using assms by (auto simp: sat_def attempt_def split: prod.splits sum.splits failure.splits)

text \<open>The manifest a version has in the dump.\<close>

definition manifest_of :: "env \<Rightarrow> (string \<Rightarrow> bytes) \<Rightarrow> blob_id \<Rightarrow> manifest option" where
  "manifest_of env files b = (case parse_of env files b of Inr p \<Rightarrow> Some (pb_manifest p) | Inl _ \<Rightarrow> None)"

lemma sat_tree_manifest:
  assumes "honest env files" and "closed_index (env_index env)" and "known env b"
  shows "sat (store_inv env files L) store_frame (tree_manifest env b)
    (\<lambda>r s. yields env files b (\<lambda>m. manifest_of env files b = Some m) r) s"
  unfolding tree_manifest_def
  by (rule store_runs.sat_abind [OF store_lift_blob [OF sat_parsed [OF assms]]])
    (auto simp: manifest_of_def intro!: store_runs.sat_ret)

lemma manifest_of_wf: "manifest_of env files b = Some m \<Longrightarrow> wf_manifest m"
  by (auto simp: manifest_of_def parse_of_def parse_blob_def rbind_Inr_iff map_err_Inr_iff Let_def
      split: sum.splits if_splits intro: parse_manifest_wf)

end
