(* ===== verification/Tree_Names.thy ===== *)
theory Tree_Names
  imports Virtual_Tree
begin

text \<open>
  Names in the virtual tree: a listing and a lookup of the same directory speak of the same entries.
  The conditions are those that make it possible: no two blobs of a depot share version and crc, and in
  a manifest the sibling lists agree with the parent links and no two siblings share a name.
\<close>

section \<open>Names that are read back\<close>

lemma lossy_clean:
  "\<forall>b \<in> set (lossy bs). b < 0x80 \<Longrightarrow> lossy bs = bs"
proof (induction bs rule: lossy.induct)
  case (1 bs)
  show ?case
  proof (cases "bs = []")
    case False
    obtain n good where step: "utf8_step bs = (n, good)" by fastforce
    then have eq: "lossy bs = (if good then take n bs else [0xef, 0xbf, 0xbd]) @ lossy (drop n bs)"
      using False by (subst lossy.simps) simp
    with "1.prems" have good by (auto split: if_splits)
    moreover have "lossy (drop n bs) = drop n bs"
      by (rule "1.IH" [OF False step [symmetric]]) (use "1.prems" eq in auto)
    ultimately show ?thesis by (simp add: eq)
  qed (simp add: lossy.simps)
qed

lemma lossy_bytes:
  "\<forall>b \<in> set bs. b < 256 \<Longrightarrow> b \<in> set (lossy bs) \<Longrightarrow> b < 256"
proof (induction bs arbitrary: b rule: lossy.induct)
  case (1 bs)
  show ?case
  proof (cases "bs = []")
    case False
    obtain n good where step: "utf8_step bs = (n, good)" by fastforce
    then have eq: "lossy bs = (if good then take n bs else [0xef, 0xbf, 0xbd]) @ lossy (drop n bs)"
      using False by (subst lossy.simps) simp
    have "b < 256" if "b \<in> set (lossy (drop n bs))"
      by (rule "1.IH" [OF False step [symmetric] refl]) (use "1.prems"(1) that in \<open>auto dest: in_set_dropD\<close>)
    with "1.prems" eq show ?thesis by (auto split: if_splits dest: in_set_takeD)
  qed (use "1.prems" in \<open>simp add: lossy.simps\<close>)
qed

lemma from_utf8_lossy_clean:
  assumes "from_utf8_lossy name = s" and "\<forall>c \<in> set s. of_char c < (0x80 :: nat)"
  shows "name = as_bytes s"
proof -
  let ?l = "lossy (map unat name)"
  have "b < 256" if "b \<in> set ?l" for b
    by (rule lossy_bytes [OF _ that]) (auto simp: unat_u8_less)
  then have "map of_char (map char_of ?l :: string) = ?l" by (auto intro!: map_idI)
  then have l: "?l = map of_char s" using assms(1) by (metis from_utf8_lossy_def)
  then have "\<forall>b \<in> set ?l. b < 0x80" using assms(2) by auto
  then have "map unat name = map of_char s" using lossy_clean [of "map unat name"] l by simp
  then have "map ((of_nat :: nat \<Rightarrow> u8) \<circ> unat) name = map (of_nat \<circ> of_char) s" by (metis map_map)
  then show ?thesis by (simp add: as_bytes_def comp_def)
qed

definition ascii :: "string \<Rightarrow> bool" where
  "ascii s \<longleftrightarrow> (\<forall>c \<in> set s. of_char c < (0x80 :: nat))"

lemma ascii_append [simp]: "ascii (s @ t) \<longleftrightarrow> ascii s \<and> ascii t" "ascii (c # s) \<longleftrightarrow> of_char c < (0x80 :: nat) \<and> ascii s"
  "ascii []"
  by (auto simp: ascii_def)

lemma ascii_hex_digits: "set s \<subseteq> set ''0123456789abcdef'' \<Longrightarrow> ascii s"
  unfolding ascii_def using hex_graphic by (fastforce simp: graphic_def)

lemma digits_hex: "set s \<subseteq> set ''0123456789'' \<Longrightarrow> set s \<subseteq> set ''0123456789abcdef''"
  by (erule subset_trans) simp

lemma ascii_numbers [simp]: "ascii (show_dec n)" "ascii (hex8 x)" "ascii (pad_zero w (show_dec n))"
  by (rule ascii_hex_digits [OF digits_hex [OF show_dec_chars]] ascii_hex_digits [OF hex8_chars]
      ascii_hex_digits [OF digits_hex [OF padded_digits]])+

lemma ascii_version_name [simp]: "ascii (version_name bs ids b)"
  by (simp add: version_name_def Let_def)

lemma ascii_link_name [simp]: "ascii (link_name bs ids b)"
  by (simp add: link_name_def format_stamp_def dec2_def Let_def case_prod_unfold split: option.split)

lemma lossy_name: "ascii s \<Longrightarrow> from_utf8_lossy name = s \<longleftrightarrow> name = as_bytes s"
  using from_utf8_lossy_clean from_utf8_lossy_ascii unfolding ascii_def by blast

section \<open>Directories of a version\<close>

text \<open>
  The sibling lists of a manifest agree with its parent links: the listed children of a node are the
  nodes that name it as their parent.  The root is a directory.
\<close>

definition tree_shaped :: "manifest \<Rightarrow> bool" where
  "tree_shaped m \<longleftrightarrow>
     (\<forall>dir c. dir \<noteq> NO_NODE \<longrightarrow>
        (c \<in> set (children m dir) \<longleftrightarrow> (\<exists>n. node_at m c = Some n \<and> parent n = dir)))"

definition rooted :: "manifest \<Rightarrow> bool" where
  "rooted m \<longleftrightarrow> (\<exists>n. node_at m (root m) = Some n \<and> is_dir n)"

lemma child_not_root:
  assumes wf: "wf_manifest m" and "c \<in> set (children m dir)" and "node_at m c = Some n" and "parent n \<noteq> NO_NODE"
  shows "c \<noteq> root m"
proof
  assume c: "c = root m"
  have "c \<noteq> 0"
    using assms(2) children_from_bounds(2) by (auto simp: children_def split: option.splits)
  with c obtain i where i: "List.find (\<lambda>i. parent (nodes m ! i) = NO_NODE) [0..<length (nodes m)] = Some i"
    and ci: "c = of_nat i" by (auto simp: root_def split: option.splits)
  then have "i < length (nodes m)" "parent (nodes m ! i) = NO_NODE" by (auto simp: find_Some_iff)
  moreover from this wf ci have "unat c = i" by (simp add: wf_manifest_def unat_of_nat)
  ultimately show False using assms(3,4) by (auto simp: node_at_def nth_opt_def split: if_splits)
qed

lemma node_not_none: "wf_manifest m \<Longrightarrow> node_at m c = Some n \<Longrightarrow> c \<noteq> NO_NODE"
  by (auto simp: wf_manifest_def node_at_def nth_opt_def NO_NODE_def split: if_splits)

lemma listed_children:
  assumes "wf_manifest m" and "tree_shaped m" and "unique_names m" and "node_at m dir = Some d"
  shows "c \<in> set (children m dir) \<and> node_name m c = name \<longleftrightarrow> child_by_name m dir name = Some c"
  using assms node_not_none [OF assms(1,4)]
  by (auto simp: child_by_name_iff is_child_def tree_shaped_def)

lemma child_node:
  assumes "wf_manifest m" and "tree_shaped m" and "node_at m dir = Some d" and "c \<in> set (children m dir)"
  obtains n where "node_at m c = Some n" and "parent n = dir" and "c \<noteq> root m"
  using assms node_not_none [OF assms(1,3)] child_not_root [OF assms(1,4)]
  by (fastforce simp: tree_shaped_def)

section \<open>Keys\<close>

text \<open>
  The keys that stand for something in the dump: what every operation of the tree is given, since a key
  is only ever obtained from a listing or a lookup.
\<close>

fun known_key :: "env \<Rightarrow> (string \<Rightarrow> bytes) \<Rightarrow> tree_key \<Rightarrow> bool" where
  "known_key env files Root \<longleftrightarrow> True"
| "known_key env files (Depot d) \<longleftrightarrow> index_depot (env_index env) d \<noteq> None"
| "known_key env files (Latest d) \<longleftrightarrow> index_depot (env_index env) d \<noteq> None"
| "known_key env files (ByDate d) \<longleftrightarrow> index_depot (env_index env) d \<noteq> None"
| "known_key env files (DateLink b) \<longleftrightarrow> known env b"
| "known_key env files (Version b) \<longleftrightarrow> known env b"
| "known_key env files (Node b i) \<longleftrightarrow>
     known env b \<and> (\<forall>m. manifest_of env files b = Some m \<longrightarrow> node_at m i \<noteq> None \<and> i \<noteq> root m)"

fun tidy :: "env \<Rightarrow> (string \<Rightarrow> bytes) \<Rightarrow> tree_key \<Rightarrow> bool" where
  "tidy env files (Depot d) \<longleftrightarrow> no_twins (blobs (env_index env)) (sorted_ids (blobs (env_index env)) d)"
| "tidy env files (ByDate d) \<longleftrightarrow> no_twins (blobs (env_index env)) (sorted_ids (blobs (env_index env)) d)"
| "tidy env files (Version b) \<longleftrightarrow>
     (\<forall>m. manifest_of env files b = Some m \<longrightarrow> unique_names m \<and> tree_shaped m \<and> rooted m \<and> single_root m)"
| "tidy env files (Node b i) \<longleftrightarrow>
     (\<forall>m. manifest_of env files b = Some m \<longrightarrow> unique_names m \<and> tree_shaped m \<and> rooted m \<and> single_root m)"
| "tidy env files _ \<longleftrightarrow> True"

lemma list_node_run:
  assumes "honest env files" and "closed_index (env_index env)" and "known env b" and "store_inv env files L s"
    and "list_node env b key s = (Inr es, s')"
  obtains m dir d where "manifest_of env files b = Some m" and "node_index key m = Some dir"
    and "node_at m dir = Some d" and "is_dir d" and "es = map (node_entry b m) (children m dir)"
    and "store_inv env files L s'"
proof -
  let ?Q = "\<lambda>r s. \<forall>es. r = Inr es \<longrightarrow> (\<exists>m dir d. manifest_of env files b = Some m \<and> node_index key m = Some dir \<and>
      node_at m dir = Some d \<and> is_dir d \<and> es = map (node_entry b m) (children m dir))"
  have "sat (store_inv env files L) store_frame (list_node env b key) ?Q s"
    unfolding list_node_def
    by (rule store_runs.sat_abind [OF sat_lift_run [OF sat_tree_manifest [OF assms(1-3)],
            where Q' = "\<lambda>r s. \<forall>m. r = Inr m \<longrightarrow> manifest_of env files b = Some m"]])
      (auto simp: map_err_Inr_iff split: option.split intro!: store_runs.sat_ret store_runs.sat_fail)
  from satD [OF this assms(4,5)] that show ?thesis by blast
qed

lemma lookup_node_run:
  assumes "honest env files" and "closed_index (env_index env)" and "known env b" and "store_inv env files L s"
    and "lookup_node env b key name s = (Inr r, s')"
  obtains m dir where "manifest_of env files b = Some m" and "node_index key m = Some dir"
    and "r = map_option (node_key b m) (child_by_name m dir name)" and "store_inv env files L s'"
proof -
  let ?Q = "\<lambda>r s. \<forall>k. r = Inr k \<longrightarrow> (\<exists>m dir. manifest_of env files b = Some m \<and> node_index key m = Some dir \<and>
      k = map_option (node_key b m) (child_by_name m dir name))"
  have "sat (store_inv env files L) store_frame (lookup_node env b key name) ?Q s"
    unfolding lookup_node_def
    by (rule store_runs.sat_abind [OF sat_lift_run [OF sat_tree_manifest [OF assms(1-3)],
            where Q' = "\<lambda>r s. \<forall>m. r = Inr m \<longrightarrow> manifest_of env files b = Some m"]])
      (auto simp: map_err_Inr_iff split: option.split intro!: store_runs.sat_ret store_runs.sat_fail)
  from satD [OF this assms(4,5)] that show ?thesis by blast
qed

section \<open>Listings and lookups\<close>

text \<open>
  A listing and the answer to a lookup of \<open>name\<close> agree: a listed entry of that name is what is found,
  and what is found is listed, under that name.  Depots are the exception: a lookup reads the name as a
  number, so \<open>+7\<close> and \<open>007\<close> find depot 7 as well.
\<close>

definition agree :: "tree_key \<Rightarrow> bytes \<Rightarrow> tree_entry list \<Rightarrow> tree_key option \<Rightarrow> bool" where
  "agree key name es found \<longleftrightarrow>
     (\<forall>e \<in> set es. e_name e = name \<longrightarrow> found = Some (e_key e)) \<and>
     (\<forall>k. found = Some k \<longrightarrow> (\<exists>e \<in> set es. e_key e = k \<and> (key = Root \<or> e_name e = name)))"

lemma named_simps [simp]:
  "e_name (named n k t) = as_bytes n" "e_key (named n k t) = k" "e_kind (named n k t) = t"
  by (simp_all add: named_def)

lemma agree_mapped:
  assumes "\<And>n b. (n, b) \<in> set vs \<Longrightarrow> as_bytes n = name \<Longrightarrow> found = Some (k b)"
    and "\<And>x. found = Some x \<Longrightarrow> \<exists>n b. (n, b) \<in> set vs \<and> as_bytes n = name \<and> x = k b"
  shows "agree key name (map (\<lambda>(n, b). named n (k b) t) vs) found"
  unfolding agree_def
proof (intro conjI ballI allI impI)
  fix e assume "e \<in> set (map (\<lambda>(n, b). named n (k b) t) vs)" "e_name e = name"
  then show "found = Some (e_key e)" using assms(1) by auto
next
  fix x assume "found = Some x"
  from assms(2) [OF this] obtain n b where "(n, b) \<in> set vs" "as_bytes n = name" "x = k b" by blast
  then show "\<exists>e \<in> set (map (\<lambda>(n, b). named n (k b) t) vs). e_key e = x \<and> (key = Root \<or> e_name e = name)"
    by (intro bexI [of _ "named n (k b) t"]) auto
qed

lemma agree_append:
  assumes "agree key name es found" and "\<forall>e \<in> set es'. e_name e \<noteq> name"
  shows "agree key name (es @ es') found"
  using assms unfolding agree_def set_append by blast

lemma agree_single:
  assumes "\<forall>e \<in> set es. e_name e = name \<longrightarrow> e_key e = k" and "\<exists>e \<in> set es. e_name e = name \<and> e_key e = k"
  shows "agree key name es (Some k)"
  using assms unfolding agree_def by auto

lemma agree_nothing: "\<forall>e \<in> set es. e_name e \<noteq> name \<Longrightarrow> agree key name es None"
  unfolding agree_def by simp

lemma agree_root:
  "agree Root name (map (\<lambda>(d, _). named (show_dec (unat d)) (Depot d) Dir) (depots idx))
     (case parse_u32 (from_utf8_lossy name) of None \<Rightarrow> None
      | Some d \<Rightarrow> if index_depot idx d \<noteq> None then Some (Depot d) else None)"
    (is "agree _ _ ?es ?found")
  unfolding agree_def
proof (intro conjI ballI allI impI)
  fix e assume e: "e \<in> set ?es" "e_name e = name"
  then obtain d dep where d: "(d, dep) \<in> set (depots idx)" "e = named (show_dec (unat d)) (Depot d) Dir" by auto
  then have "from_utf8_lossy name = show_dec (unat d)"
    using e(2) lossy_name [of "show_dec (unat d)" name] by simp
  moreover have "index_depot idx d \<noteq> None" using weak_map_of_SomeI [OF d(1)] by (auto simp: index_depot_def)
  ultimately show "?found = Some (e_key e)" unfolding d(2) by (simp only: parse_u32_show option.case if_True named_simps not_False_eq_True)
next
  fix k assume "?found = Some k"
  then obtain d where d: "index_depot idx d \<noteq> None" "k = Depot d" by (auto split: option.splits if_splits)
  then obtain dep where "(d, dep) \<in> set (depots idx)"
    unfolding index_depot_def by (auto dest: map_of_SomeD)
  then show "\<exists>e \<in> set ?es. e_key e = k \<and> (Root = Root \<or> e_name e = name)"
    using d(2) by (intro bexI [of _ "named (show_dec (unat d)) (Depot d) Dir"]) auto
qed

lemma version_name_letters:
  assumes "c \<notin> set ''0123456789abcdef''" and "c \<noteq> CHR ''-''"
  shows "c \<notin> set (version_name bs ids b)"
proof -
  have "c \<notin> set (show_dec n)" "c \<notin> set (hex8 x)" for n x
    using digits_hex [OF show_dec_chars] hex8_chars assms(1) by blast+
  with assms(2) show ?thesis unfolding version_name_def Let_def if_distrib [of set] by simp
qed

lemma version_name_special: "version_name bs ids b \<noteq> ''latest''" "version_name bs ids b \<noteq> ''by-date''"
proof -
  have "CHR ''t'' \<notin> set (version_name bs ids b)"
    by (rule version_name_letters) simp_all
  moreover have "CHR ''t'' \<in> set ''latest''" "CHR ''t'' \<in> set ''by-date''" by simp_all
  ultimately show "version_name bs ids b \<noteq> ''latest''" "version_name bs ids b \<noteq> ''by-date''" by metis+
qed

lemma agree_special:
  assumes look: "\<And>n b. vfind n = Some b \<longleftrightarrow> (n, b) \<in> set vs"
    and clean: "\<And>n b. (n, b) \<in> set vs \<Longrightarrow> ascii n \<and> n \<noteq> l \<and> n \<noteq> y" and "ascii l" "ascii y" "l \<noteq> y"
  shows "agree (Depot d) name
    (map (\<lambda>(name, b). named name (Version b) Dir) vs @ (if t \<noteq> None then [named l (Latest d) Symlink] else []) @
       [named y (ByDate d) Dir])
    (let n = from_utf8_lossy name in
       if n = l then map_option (\<lambda>_. Latest d) t else if n = y then Some (ByDate d) else map_option Version (vfind n))"
    (is "agree _ _ ?es ?found")
proof -
  have spelled: "from_utf8_lossy name = n \<longleftrightarrow> name = as_bytes n" if "ascii n" for n
    by (rule lossy_name [OF that])
  have other: "as_bytes n \<noteq> as_bytes l \<and> as_bytes n \<noteq> as_bytes y" if "(n, b) \<in> set vs" for n b
    using clean [OF that] by simp
  consider "name = as_bytes l" | "name = as_bytes y" | "name \<noteq> as_bytes l" "name \<noteq> as_bytes y" by blast
  then show ?thesis
  proof cases
    case 1
    then have found: "?found = map_option (\<lambda>_. Latest d) t" using spelled assms(3) by simp
    show ?thesis
      unfolding found using 1 other assms(5) by (cases t) (auto intro!: agree_single agree_nothing)
  next
    case 2
    then have "from_utf8_lossy name = y" using spelled assms(4) by simp
    then have found: "?found = Some (ByDate d)" using assms(5) by (simp add: Let_def)
    show ?thesis
      unfolding found using 2 other assms(5) by (auto intro!: agree_single)
  next
    case 3
    then have found: "?found = map_option Version (vfind (from_utf8_lossy name))"
      using spelled assms(3,4) by (auto simp: Let_def)
    have "agree (Depot d) name (map (\<lambda>(name, b). named name (Version b) Dir) vs) ?found"
    proof (rule agree_mapped)
      show "?found = Some (Version b)" if "(n, b) \<in> set vs" "as_bytes n = name" for n b
        using that clean [OF that(1)] spelled [of n] look found by auto
      fix k assume "?found = Some k"
      then have "map_option Version (vfind (from_utf8_lossy name)) = Some k" unfolding found .
      then obtain b where "vfind (from_utf8_lossy name) = Some b" and k: "k = Version b" by blast
      then have b: "(from_utf8_lossy name, b) \<in> set vs" using look by blast
      have "as_bytes (from_utf8_lossy name) = name" using clean [OF b] spelled by metis
      with b k show "\<exists>n b. (n, b) \<in> set vs \<and> as_bytes n = name \<and> k = Version b" by metis
    qed
    then show ?thesis by (rule agree_append) (use 3 in auto)
  qed
qed

lemma agree_depot:
  assumes "index_inv idx" and small: "length (blobs idx) < 4294967296" and d: "index_depot idx d = Some dep"
    and twins: "no_twins (blobs idx) (sorted_ids (blobs idx) d)"
  shows "agree (Depot d) name
    (map (\<lambda>(name, b). named name (Version b) Dir) (versions dep) @
       (if latest idx d \<noteq> None then [named ''latest'' (Latest d) Symlink] else []) @ [named ''by-date'' (ByDate d) Dir])
    (let n = from_utf8_lossy name in
       if n = ''latest'' then map_option (\<lambda>_. Latest d) (latest idx d)
       else if n = ''by-date'' then Some (ByDate d) else map_option Version (lookup_name dep n))"
proof (rule agree_special)
  have dep: "dep = depot_of (blobs idx) d" by (rule index_depot_eq [OF assms(1) d])
  show "lookup_name dep n = Some b \<longleftrightarrow> (n, b) \<in> set (versions dep)" for n b
    unfolding dep lookup_name_depot_of [OF small twins] versions_depot_of by auto
  show "ascii n \<and> n \<noteq> ''latest'' \<and> n \<noteq> ''by-date''" if "(n, b) \<in> set (versions dep)" for n b
    using that version_name_special unfolding dep versions_depot_of by fastforce
qed simp_all

text \<open>The links of a depot are those of its versions, sorted by name.\<close>

lemma date_order_depot_of: "set (date_order (depot_of bs d)) = set (sorted_ids bs d)"
proof -
  define ids where "ids = sorted_ids bs d"
  have "\<exists>key. date_order (depot_of bs d) = map (\<lambda>i. ids ! i) (sort_key (key :: nat \<Rightarrow> bytes) [0..<length ids])"
    unfolding ids_def by (intro exI) (simp add: finish_depot_def Let_def depot_default_def)
  then obtain key :: "nat \<Rightarrow> bytes" where
    "date_order (depot_of bs d) = map (\<lambda>i. ids ! i) (sort_key key [0..<length ids])" by blast
  then have "set (date_order (depot_of bs d)) = (\<lambda>i. ids ! i) ` set [0..<length ids]" by simp
  also have "\<dots> = set ids" by (metis list.set_map map_nth)
  finally show ?thesis unfolding ids_def .
qed

lemma date_links_depot_of:
  assumes "length bs < 4294967296"
  shows "(n, b) \<in> set (date_links (depot_of bs d)) \<longleftrightarrow>
    b \<in> set (sorted_ids bs d) \<and> n = link_name bs (sorted_ids bs d) b"
  unfolding date_links_def date_link_of_def depot_nth_depot_of [OF assms] set_map date_order_depot_of
  by (auto simp del: set_sort)

lemma agree_dates:
  assumes "index_inv idx" and small: "length (blobs idx) < 4294967296" and d: "index_depot idx d = Some dep"
    and twins: "no_twins (blobs idx) (sorted_ids (blobs idx) d)"
  shows "agree (ByDate d) name (map (\<lambda>(name, b). named name (DateLink b) Symlink) (date_links dep))
    (map_option DateLink (lookup_date_link dep (from_utf8_lossy name)))"
proof -
  have dep: "dep = depot_of (blobs idx) d" by (rule index_depot_eq [OF assms(1) d])
  have look: "lookup_date_link dep n = Some b \<longleftrightarrow> (n, b) \<in> set (date_links dep)" for n b
    unfolding dep lookup_date_link_depot_of [OF small twins] date_links_depot_of [OF small] by (rule refl)
  have clean: "ascii n" if "(n, b) \<in> set (date_links dep)" for n b
    using that unfolding dep date_links_depot_of [OF small] by simp
  have spelled: "from_utf8_lossy name = n \<longleftrightarrow> name = as_bytes n" if "(n, b) \<in> set (date_links dep)" for n b
    by (rule lossy_name [OF clean [OF that]])
  show ?thesis
  proof (rule agree_mapped)
    show "map_option DateLink (lookup_date_link dep (from_utf8_lossy name)) = Some (DateLink b)"
      if "(n, b) \<in> set (date_links dep)" "as_bytes n = name" for n b
      using that spelled [OF that(1)] look by auto
    fix k assume "map_option DateLink (lookup_date_link dep (from_utf8_lossy name)) = Some k"
    with look obtain b where b: "(from_utf8_lossy name, b) \<in> set (date_links dep)" "k = DateLink b" by auto
    with spelled [OF b(1)] show "\<exists>n b. (n, b) \<in> set (date_links dep) \<and> as_bytes n = name \<and> k = DateLink b"
      by metis
  qed
qed

lemma agree_children:
  assumes m: "wf_manifest m" "tree_shaped m" "unique_names m" and d: "node_at m dir = Some d"
  shows "agree key name (map (node_entry b m) (children m dir)) (map_option (node_key b m) (child_by_name m dir name))"
  unfolding agree_def
proof (intro conjI ballI allI impI)
  note at = listed_children [OF m d]
  fix e assume "e \<in> set (map (node_entry b m) (children m dir))" "e_name e = name"
  then obtain c where c: "c \<in> set (children m dir)" "node_name m c = name" "e_key e = node_key b m c"
    by (auto simp: node_entry_def)
  then have "child_by_name m dir name = Some c" using at by blast
  with c(3) show "map_option (node_key b m) (child_by_name m dir name) = Some (e_key e)" by simp
next
  fix k assume "map_option (node_key b m) (child_by_name m dir name) = Some k"
  then obtain c where c: "child_by_name m dir name = Some c" "k = node_key b m c" by auto
  then have "c \<in> set (children m dir)" "node_name m c = name" using listed_children [OF m d] by blast+
  with c(2) show "\<exists>e \<in> set (map (node_entry b m) (children m dir)). e_key e = k \<and> (key = Root \<or> e_name e = name)"
    by (intro bexI [of _ "node_entry b m c"]) (auto simp: node_entry_def)
qed

lemma closed_index_parts:
  "closed_index idx \<Longrightarrow> index_inv idx" "closed_index idx \<Longrightarrow> length (blobs idx) < 4294967296"
  by (simp_all add: closed_index_def)

lemma entries_lookup_agree:
  assumes env: "honest env files" "closed_index (env_index env)" and k: "known_key env files key" "tidy env files key"
    and s: "store_inv env files L s" "store_inv env files L t"
    and es: "entries env key s = (Inr es, s')" and found: "tree_lookup env key name t = (Inr found, t')"
  shows "agree key name es found"
proof -
  note ix = closed_index_parts [OF env(2)]
  have node: "agree key name es found"
    if "known env b" "list_node env b key s = (Inr es, s')" "lookup_node env b key name t = (Inr found, t')"
      "\<forall>m. manifest_of env files b = Some m \<longrightarrow> unique_names m \<and> tree_shaped m" for b
  proof -
    from list_node_run [OF env that(1) s(1) that(2)] obtain m dir d where
      m: "manifest_of env files b = Some m" and l: "node_index key m = Some dir" "node_at m dir = Some d"
        "es = map (node_entry b m) (children m dir)" by blast
    from lookup_node_run [OF env that(1) s(2) that(3)] m l(1)
    have f: "found = map_option (node_key b m) (child_by_name m dir name)" by (metis option.inject)
    show ?thesis unfolding l(3) f by (rule agree_children) (use m that(4) l(2) manifest_of_wf [OF m] in auto)
  qed
  show ?thesis
  proof (cases key)
    case Root
    with es found agree_root [of name "env_index env"] show ?thesis by (simp add: ret_def)
  next
    case (Depot d)
    with k obtain dep where d: "index_depot (env_index env) d = Some dep" by auto
    have "found = (let n = from_utf8_lossy name in
        if n = ''latest'' then map_option (\<lambda>_. Latest d) (latest (env_index env) d)
        else if n = ''by-date'' then Some (ByDate d) else map_option Version (lookup_name dep n))"
      using found Depot d by (auto simp: ret_def Let_def)
    with agree_depot [OF ix d, of name] k Depot es d show ?thesis by (simp add: ret_def Let_def)
  next
    case (ByDate d)
    with k obtain dep where d: "index_depot (env_index env) d = Some dep" by auto
    from agree_dates [OF ix d, of name] k ByDate es found d show ?thesis by (simp add: ret_def)
  next
    case (Version b)
    with node [of b] k es found show ?thesis by simp
  next
    case (Node b i)
    with node [of b] k es found show ?thesis by simp
  qed (use es in \<open>simp_all add: fail_def\<close>)
qed

end
