(* ===== verification/Tree_Kinds.thy ===== *)
theory Tree_Kinds
  imports Tree_Names
begin

text \<open>
  What the operations of the virtual tree return for the keys it hands out: kinds, known keys, parents,
  and which errors are possible.
\<close>

section \<open>The kind of a key\<close>

fun key_kind :: "env \<Rightarrow> (string \<Rightarrow> bytes) \<Rightarrow> tree_key \<Rightarrow> kind" where
  "key_kind env files (Latest d) = Symlink"
| "key_kind env files (DateLink b) = Symlink"
| "key_kind env files (Node b i) =
     (case Option.bind (manifest_of env files b) (\<lambda>m. node_at m i) of
        Some n \<Rightarrow> if is_dir n then Dir else File
      | None \<Rightarrow> Dir)"
| "key_kind env files _ = Dir"

text \<open>An outcome that is an error only when the backend fails or a blob is bad.\<close>

definition sound :: "env \<Rightarrow> (string \<Rightarrow> bytes) \<Rightarrow> ('a \<Rightarrow> bool) \<Rightarrow> tree_failure + 'a \<Rightarrow> bool" where
  "sound env files P r \<longleftrightarrow> (case r of Inr x \<Rightarrow> P x | Inl _ \<Rightarrow> \<not> (reliable env \<and> all_intact env files))"

lemma sound_simps [simp]:
  "sound env files P (Inr x) = P x"
  "sound env files P (Inl e) = (\<not> (reliable env \<and> all_intact env files))"
  by (simp_all add: sound_def)

lemma sat_manifest:
  assumes "honest env files" and "closed_index (env_index env)" and "known env b"
  shows "sat (store_inv env files L) store_frame (lift (tree_manifest env b))
    (\<lambda>r s. sound env files (\<lambda>m. manifest_of env files b = Some m) r) s"
  by (rule sat_lift_run [OF sat_tree_manifest [OF assms]])
    (use assms(3) in \<open>auto simp: sound_def yields_def all_intact_def map_err_def split: sum.splits\<close>)

lemma sat_attempt_manifest:
  assumes "honest env files" and "closed_index (env_index env)" and "known env b"
  shows "sat (store_inv env files L) store_frame (attempt (tree_manifest env b))
    (\<lambda>r s. sound env files (\<lambda>x. case x of Some m \<Rightarrow> manifest_of env files b = Some m
       | None \<Rightarrow> \<not> (reliable env \<and> all_intact env files)) r) s"
  by (rule sat_attempt [OF sat_tree_manifest [OF assms]])
    (use assms(3) in \<open>auto simp: yields_def all_intact_def\<close>)

lemma sat_attempt_locate:
  assumes "honest env files" and "closed_index (env_index env)" and "ranked env files" and "known env b"
  shows "sat (store_inv env files L) store_frame (attempt (locate env b f)) (\<lambda>r s. sound env files (\<lambda>_. True) r) s"
  by (rule sat_attempt [OF store_lift_table [OF sat_locate [OF assms]]])
    (auto simp: located_def ok_or_def split: option.splits)

lemma latest_some:
  assumes "closed_index idx" and "index_depot idx d \<noteq> None"
  obtains b where "latest idx d = Some b" and "unat b < length (blobs idx)" and "bf_depot (index_blob idx b) = d"
proof -
  from assms(2) obtain dep where dep: "index_depot idx d = Some dep" by auto
  note facts = loaded_depot [OF closed_index_parts [OF assms(1)] dep]
  let ?v = "bf_version (index_blob idx (last (depot_blobs dep)))"
  let ?vs = "blobs_with_version idx d ?v"
  have "last (depot_blobs dep) \<in> set (depot_blobs dep)" by (rule last_in_set) (use facts in blast)
  then have "last (depot_blobs dep) \<in> set ?vs" using dep by (simp add: blobs_with_version_def)
  then have "?vs \<noteq> []" by auto
  then obtain b where m: "max_by_key (\<lambda>b. bf_date (index_blob idx b)) ?vs = Some b"
    using max_by_key_None by blast
  then have b: "latest idx d = Some b" using facts dep by (simp add: latest_def)
  have "b \<in> set ?vs" using max_by_key_correct [OF m] by simp
  then have "b \<in> set (depot_blobs dep)" using dep by (simp add: blobs_with_version_def)
  with that [OF b] facts show ?thesis by blast
qed

lemma sat_node_meta:
  assumes "honest env files" and "closed_index (env_index env)" and "ranked env files" and "known env b"
    and "node_at m i = Some n"
  shows "sat (store_inv env files L) store_frame (node_meta env b m i)
    (\<lambda>r s. sound env files (\<lambda>mt. m_kind mt = (if is_dir n then Dir else File)) r) s"
proof (cases "is_dir n")
  case True
  then show ?thesis using assms(5) by (auto simp: node_meta_def dir_meta_def intro!: store_runs.sat_ret)
next
  case False
  then show ?thesis
    unfolding node_meta_def Let_def assms(5) option.case if_not_P [OF False]
    by (intro store_runs.sat_abind [OF sat_attempt_locate [OF assms(1-4)]])
      (auto simp: case_prod_unfold intro!: store_runs.sat_ret)
qed

lemma sat_tree_meta:
  assumes env: "honest env files" "closed_index (env_index env)" "ranked env files" and k: "known_key env files key"
  shows "sat (store_inv env files L) store_frame (tree_meta env key)
    (\<lambda>r s. sound env files (\<lambda>mt. m_kind mt = key_kind env files key) r) s"
proof (cases key)
  case (Latest d)
  with k obtain b where "latest (env_index env) d = Some b" using latest_some [OF env(2), of d] by auto
  with Latest show ?thesis by (auto simp: link_meta_def intro!: store_runs.sat_ret)
next
  case (Node b i)
  show ?thesis
    unfolding Node tree_meta.simps
  proof (rule store_runs.sat_abind [OF sat_manifest [OF env(1,2)]])
    show "known env b" using k Node by simp
    fix m s1 assume "sound env files (\<lambda>m. manifest_of env files b = Some m) (Inr m)"
    then have m: "manifest_of env files b = Some m" by simp
    then obtain n where n: "node_at m i = Some n" using k Node by auto
    show "sat (store_inv env files L) store_frame (node_meta env b m i)
        (\<lambda>r s. sound env files (\<lambda>mt. m_kind mt = key_kind env files (Node b i)) r) s1"
      using sat_node_meta [OF env _ n] k Node m n by simp
  qed simp
qed (auto simp: dir_meta_def link_meta_def intro!: store_runs.sat_ret)

section \<open>Listings and lookups\<close>

definition listed :: "env \<Rightarrow> (string \<Rightarrow> bytes) \<Rightarrow> tree_entry \<Rightarrow> bool" where
  "listed env files e \<longleftrightarrow> known_key env files (e_key e) \<and> key_kind env files (e_key e) = e_kind e"

lemma listed_child:
  assumes m: "manifest_of env files b = Some m" "tree_shaped m" and "known env b"
    and d: "node_at m dir = Some d" and c: "c \<in> set (children m dir)"
  shows "listed env files (node_entry b m c)"
proof -
  from child_node [OF manifest_of_wf [OF m(1)] m(2) d c] obtain n where "node_at m c = Some n" "c \<noteq> root m" by metis
  then show ?thesis using assms(1,3) by (simp add: listed_def node_entry_def node_key_def)
qed

lemma depot_blob_known:
  assumes "closed_index (env_index env)" and "index_depot (env_index env) d = Some dep" and "b \<in> set (depot_blobs dep)"
  shows "known env b" and "bf_depot (index_blob (env_index env) b) = d"
  using loaded_depot [OF closed_index_parts [OF assms(1)] assms(2)] assms(3) by (auto simp: known_def)

lemma versions_blobs: "(n, b) \<in> set (versions dep) \<Longrightarrow> b \<in> set (depot_blobs dep)"
  by (auto simp: versions_def dest: set_zip_rightD)

lemma date_links_blobs:
  assumes "closed_index idx" and "index_depot idx d = Some dep" and "(n, b) \<in> set (date_links dep)"
  shows "b \<in> set (depot_blobs dep)"
proof -
  have dep: "dep = depot_of (blobs idx) d" by (rule index_depot_eq(1) [OF closed_index_parts(1) [OF assms(1)] assms(2)])
  from assms(3) show ?thesis
    unfolding dep date_links_depot_of [OF closed_index_parts(2) [OF assms(1)]] depot_of_fields(1) by (rule conjunct1)
qed

text \<open>A listing of a directory, or the error for what is none.\<close>

definition opens :: "env \<Rightarrow> (string \<Rightarrow> bytes) \<Rightarrow> tree_key \<Rightarrow> tree_failure + tree_entry list \<Rightarrow> bool" where
  "opens env files key r \<longleftrightarrow>
     (case r of
        Inr es \<Rightarrow> key_kind env files key = Dir \<and> (\<forall>e \<in> set es. listed env files e)
      | Inl e \<Rightarrow> \<not> (reliable env \<and> all_intact env files) \<or>
          key_kind env files key \<noteq> Dir \<and> e = Tree_error NotADirectory)"

lemma opens_simps [simp]:
  "opens env files key (Inr es) \<longleftrightarrow> key_kind env files key = Dir \<and> (\<forall>e \<in> set es. listed env files e)"
  "opens env files key (Inl e) \<longleftrightarrow> \<not> (reliable env \<and> all_intact env files) \<or>
     key_kind env files key \<noteq> Dir \<and> e = Tree_error NotADirectory"
  by (simp_all add: opens_def)

lemma sat_list_node:
  assumes env: "honest env files" "closed_index (env_index env)" and b: "known env b"
    and shape: "\<And>m. manifest_of env files b = Some m \<Longrightarrow> tree_shaped m"
    and dir: "\<And>m. manifest_of env files b = Some m \<Longrightarrow> \<exists>dir d. node_index key m = Some dir \<and> node_at m dir = Some d \<and>
      key_kind env files key = (if is_dir d then Dir else File)"
  shows "sat (store_inv env files L) store_frame (list_node env b key) (\<lambda>r s. opens env files key r) s"
  unfolding list_node_def
proof (rule store_runs.sat_abind [OF sat_manifest [OF env b]])
  fix m s1 assume "sound env files (\<lambda>m. manifest_of env files b = Some m) (Inr m)"
  then have m: "manifest_of env files b = Some m" by simp
  from dir [OF m] obtain i d where i: "node_index key m = Some i" "node_at m i = Some d"
    "key_kind env files key = (if is_dir d then Dir else File)" by blast
  have "sat (store_inv env files L) store_frame
      (if \<not> is_dir d then fail (Tree_error NotADirectory) else ret (map (node_entry b m) (children m i)))
      (\<lambda>r s. opens env files key r) s1"
  proof (cases "is_dir d")
    case True
    have "\<forall>e \<in> set (map (node_entry b m) (children m i)). listed env files e"
      using listed_child [OF m shape [OF m] b i(2)] by auto
    with True i(3) show ?thesis by (auto intro: store_runs.sat_ret)
  next
    case False
    with i(3) show ?thesis by (auto intro: store_runs.sat_fail)
  qed
  then show "sat (store_inv env files L) store_frame
      (case node_index key m of None \<Rightarrow> fail (Tree_error NotADirectory)
       | Some dir \<Rightarrow> if \<not> (case node_at m dir of None \<Rightarrow> False | Some n \<Rightarrow> is_dir n) then fail (Tree_error NotADirectory)
           else ret (map (node_entry b m) (children m dir))) (\<lambda>r s. opens env files key r) s1"
    by (simp only: i(1,2) option.case)
qed simp

lemma sat_entries:
  assumes env: "honest env files" "closed_index (env_index env)" and k: "known_key env files key" "tidy env files key"
  shows "sat (store_inv env files L) store_frame (entries env key) (\<lambda>r s. opens env files key r) s"
proof (cases key)
  case Root
  have "index_depot (env_index env) d \<noteq> None" if "(d, dep) \<in> set (depots (env_index env))" for d dep
    using weak_map_of_SomeI [OF that] by (auto simp: index_depot_def)
  then show ?thesis unfolding Root by (auto simp: listed_def intro!: store_runs.sat_ret)
next
  case (Depot d)
  with k obtain dep where d: "index_depot (env_index env) d = Some dep" by auto
  show ?thesis
    unfolding Depot entries.simps d option.case
    by (rule store_runs.sat_ret)
      (auto simp: listed_def d dest!: versions_blobs intro: depot_blob_known(1) [OF env(2) d])
next
  case (ByDate d)
  with k obtain dep where d: "index_depot (env_index env) d = Some dep" by auto
  show ?thesis
    unfolding ByDate entries.simps d option.case
    by (rule store_runs.sat_ret)
      (auto simp: listed_def dest!: date_links_blobs [OF env(2) d] intro: depot_blob_known(1) [OF env(2) d])
next
  case (Version b)
  show ?thesis
    unfolding Version entries.simps
    by (rule sat_list_node [OF env]) (use k Version in \<open>auto simp: rooted_def\<close>)
next
  case (Node b i)
  show ?thesis
    unfolding Node entries.simps
    by (rule sat_list_node [OF env]) (use k Node in auto)
qed (auto intro!: store_runs.sat_fail)

lemma sat_lookup_node:
  assumes env: "honest env files" "closed_index (env_index env)" and b: "known env b"
    and key: "\<And>m. node_index key m \<noteq> None"
  shows "sat (store_inv env files L) store_frame (lookup_node env b key name)
    (\<lambda>r s. sound env files (\<lambda>found. \<forall>k. found = Some k \<longrightarrow> known_key env files k) r) s"
  unfolding lookup_node_def
proof (rule store_runs.sat_abind [OF sat_manifest [OF env b]])
  fix m s1 assume "sound env files (\<lambda>m. manifest_of env files b = Some m) (Inr m)"
  then have m: "manifest_of env files b = Some m" by simp
  obtain dir where dir: "node_index key m = Some dir" using key [of m] by auto
  have "known_key env files (node_key b m c)" if "child_by_name m dir name = Some c" for c
    using child_by_name_Some [OF manifest_of_wf [OF m] that] m b by (auto simp: node_key_def is_child_def)
  then have "\<forall>k. map_option (node_key b m) (child_by_name m dir name) = Some k \<longrightarrow> known_key env files k" by auto
  then show "sat (store_inv env files L) store_frame
      (case node_index key m of None \<Rightarrow> fail (Tree_error NotADirectory)
       | Some dir \<Rightarrow> ret (map_option (node_key b m) (child_by_name m dir name)))
      (\<lambda>r s. sound env files (\<lambda>found. \<forall>k. found = Some k \<longrightarrow> known_key env files k) r) s1"
    unfolding dir option.case by (intro store_runs.sat_ret) (simp only: sound_simps)
qed simp

lemma collect_in: "collect xs k = Some v \<Longrightarrow> (k, v) \<in> set xs"
  unfolding collect_def by (drule map_of_SomeD) simp

lemma lookups_blobs:
  assumes "closed_index idx" and "index_depot idx d = Some dep"
  shows "lookup_name dep n = Some b \<Longrightarrow> b \<in> set (depot_blobs dep)"
    and "lookup_date_link dep n = Some b \<Longrightarrow> b \<in> set (depot_blobs dep)"
proof -
  have dep: "dep = depot_of (blobs idx) d" by (rule index_depot_eq(1) [OF closed_index_parts(1) [OF assms(1)] assms(2)])
  show "b \<in> set (depot_blobs dep)" if "lookup_name dep n = Some b"
    using collect_in [OF that [unfolded dep lookup_name_def depot_of_fields]] unfolding dep depot_of_fields by force
  show "b \<in> set (depot_blobs dep)" if "lookup_date_link dep n = Some b"
    using collect_in [OF that [unfolded dep lookup_date_link_def depot_of_fields]] unfolding dep depot_of_fields by force
qed

lemma sat_tree_lookup:
  assumes env: "honest env files" "closed_index (env_index env)" and k: "known_key env files key"
  shows "sat (store_inv env files L) store_frame (tree_lookup env key name)
    (\<lambda>r s. sound env files (\<lambda>found. \<forall>k. found = Some k \<longrightarrow> known_key env files k) r) s"
proof (cases key)
  case Root
  show ?thesis unfolding Root tree_lookup.simps
    by (rule store_runs.sat_ret) (auto split: option.splits if_splits)
next
  case (Depot d)
  with k obtain dep where d: "index_depot (env_index env) d = Some dep" by auto
  have "known env b" if "lookup_name dep n = Some b" for n b
    by (rule depot_blob_known(1) [OF env(2) d lookups_blobs(1) [OF env(2) d that]])
  then show ?thesis unfolding Depot tree_lookup.simps Let_def
    by (intro store_runs.sat_ret) (auto simp: d split: if_splits)
next
  case (ByDate d)
  with k obtain dep where d: "index_depot (env_index env) d = Some dep" by auto
  have "known env b" if "lookup_date_link dep n = Some b" for n b
    by (rule depot_blob_known(1) [OF env(2) d lookups_blobs(2) [OF env(2) d that]])
  then show ?thesis unfolding ByDate tree_lookup.simps
    by (intro store_runs.sat_ret) (auto simp: d)
next
  case (Version b)
  then show ?thesis using k sat_lookup_node [OF env] by simp
next
  case (Node b i)
  then show ?thesis using k sat_lookup_node [OF env] by simp
qed (auto intro!: store_runs.sat_ret)

section \<open>Parents\<close>

text \<open>The directory a listed key is reported to live in.\<close>

fun reported_parent :: "tree_key \<Rightarrow> tree_key \<Rightarrow> tree_key" where
  "reported_parent dir (Latest d) = Root"
| "reported_parent dir (ByDate d) = Root"
| "reported_parent dir (DateLink b) = Root"
| "reported_parent dir key = dir"

lemma sat_tree_parent_child:
  assumes env: "honest env files" "closed_index (env_index env)" and b: "known env b"
    and m: "manifest_of env files b = Some m" and c: "node_at m c = Some n" and key: "key = node_key b m (parent n)"
  shows "sat (store_inv env files L) store_frame (tree_parent env (Node b c))
    (\<lambda>r s. sound env files (\<lambda>p. p = key \<or> \<not> (reliable env \<and> all_intact env files)) r) s"
  unfolding tree_parent.simps
  by (rule store_runs.sat_abind [OF sat_attempt_manifest [OF env b]])
    (use m c key in \<open>auto split: option.splits intro!: store_runs.sat_ret\<close>)

lemma child_parent:
  assumes env: "honest env files" "closed_index (env_index env)" and b: "known env b"
    and shape: "\<And>m. manifest_of env files b = Some m \<Longrightarrow> tree_shaped m"
    and key: "\<And>m dir. manifest_of env files b = Some m \<Longrightarrow> node_index key m = Some dir \<Longrightarrow> node_key b m dir = key"
    and s: "store_inv env files L s" "store_inv env files L t"
    and es: "list_node env b key s = (Inr es, s')" "e \<in> set es" and run: "tree_parent env (e_key e) t = (r, t')"
    and good: "reliable env" "all_intact env files"
  shows "r = Inr (reported_parent key (e_key e))"
proof -
  from list_node_run [OF env b s(1) es(1)] obtain m dir d where m: "manifest_of env files b = Some m"
    and l: "node_index key m = Some dir" "node_at m dir = Some d" "es = map (node_entry b m) (children m dir)" by blast
  from es(2) l(3) obtain c where c: "c \<in> set (children m dir)" "e = node_entry b m c" by auto
  from child_node [OF manifest_of_wf [OF m] shape [OF m] l(2) c(1)] obtain n where
    n: "node_at m c = Some n" "parent n = dir" "c \<noteq> root m" by metis
  then have e: "e_key e = Node b c" by (simp add: c(2) node_entry_def node_key_def)
  have "key = node_key b m (parent n)" using key [OF m l(1)] n(2) by simp
  from satD [OF sat_tree_parent_child [OF env b m n(1) this] s(2) run [unfolded e]] good
  have "r = Inr key" by (cases r) auto
  then show ?thesis by (simp add: e)
qed

lemma entries_parent:
  assumes env: "honest env files" "closed_index (env_index env)" and k: "known_key env files key" "tidy env files key"
    and s: "store_inv env files L s" "store_inv env files L t"
    and es: "entries env key s = (Inr es, s')" "e \<in> set es" and run: "tree_parent env (e_key e) t = (r, t')"
    and good: "reliable env" "all_intact env files"
  shows "r = Inr (reported_parent key (e_key e))"
proof (cases key)
  case Root
  with es obtain d where "e_key e = Depot d" by (auto simp: ret_def)
  with run Root show ?thesis by (simp add: ret_def)
next
  case (Depot d)
  with k obtain dep where d: "index_depot (env_index env) d = Some dep" by auto
  from es Depot d consider n b where "(n, b) \<in> set (versions dep)" "e_key e = Version b"
    | "e_key e = Latest d" | "e_key e = ByDate d" by (auto simp: ret_def split: if_splits)
  then show ?thesis
  proof cases
    case 1
    with run Depot depot_blob_known(2) [OF env(2) d versions_blobs [OF 1(1)]] show ?thesis by (simp add: ret_def)
  qed (use run in \<open>simp_all add: ret_def\<close>)
next
  case (ByDate d)
  with es obtain b where "e_key e = DateLink b" by (auto simp: ret_def split: option.splits)
  with run show ?thesis by (simp add: ret_def)
next
  case (Version b)
  show ?thesis
    by (rule child_parent [OF env _ _ _ s _ es(2) run good]) (use k es Version in \<open>auto simp: node_key_def\<close>)
next
  case (Node b i)
  show ?thesis
    by (rule child_parent [OF env _ _ _ s _ es(2) run good]) (use k es Node in \<open>auto simp: node_key_def\<close>)
qed (use es in \<open>simp_all add: fail_def\<close>)

end
