(* ===== verification/Tree_Properties.thy ===== *)
theory Tree_Properties
  imports Tree_Kinds Store_Properties
begin

text \<open>
  The properties of the virtual tree, each with an instance on the sample dump.
\<close>

section \<open>The sample dump as a tree\<close>

lemma dump_store_inv: "store_inv dump_env dump_file L dump_store"
  using dump_store_tables dump_store_data by (simp add: store_inv_def)

lemma dump_manifest_of: "manifest_of dump_env dump_file 0 = Some sample_manifest"
  "manifest_of dump_env dump_file 1 = Some sample_manifest"
  by (simp_all add: manifest_of_def dump_parse_of)

lemma sample_node_at:
  "node_at sample_manifest 0 = Some (sample_nodes ! 0)" "node_at sample_manifest 1 = Some (sample_nodes ! 1)"
  "node_at sample_manifest 2 = Some (sample_nodes ! 2)" "node_at sample_manifest 3 = Some (sample_nodes ! 3)"
  by (simp_all add: node_at_def sample_nodes_eq nth_opt_def sample_nodes_def)

lemma sample_children:
  "children sample_manifest 0 = [1, 3]" "children sample_manifest 1 = [2]"
  "children sample_manifest 2 = []" "children sample_manifest 3 = []"
proof -
  have "sibling_chain sample_manifest 1 [1, 3]" "sibling_chain sample_manifest 2 [2]"
    by (simp_all add: sample_eval eval_simps)
  then have "children_from sample_manifest 1 2 = [1, 3]" "children_from sample_manifest 2 1 = [2]"
    by (auto intro!: children_from_chain)
  then show "children sample_manifest 0 = [1, 3]" "children sample_manifest 1 = [2]"
    "children sample_manifest 2 = []" "children sample_manifest 3 = []"
    unfolding children_def sample_node_at option.case by (simp_all add: is_dir_def sample_nodes_def NO_FILE_def)
qed

lemma sample_root: "root sample_manifest = 0"
  by (simp add: root_def sample_nodes_eq sample_nodes_def upt_rec_numeral)

lemma sample_shaped: "tree_shaped sample_manifest"
  unfolding tree_shaped_def
proof (intro allI impI)
  fix dir c :: u32
  assume "dir \<noteq> NO_NODE"
  show "c \<in> set (children sample_manifest dir) \<longleftrightarrow> (\<exists>n. node_at sample_manifest c = Some n \<and> parent n = dir)"
  proof (cases "node_at sample_manifest dir")
    case None
    then have "dir \<notin> {0, 1}" using sample_node_at by auto
    moreover have "parent n \<in> {NO_NODE, 0, 1}" if "node_at sample_manifest c = Some n" for n
      using sample_node_cases [OF that] that by (auto simp: sample_node_at sample_nodes_def)
    ultimately show ?thesis using None \<open>dir \<noteq> NO_NODE\<close> by (auto simp: children_def)
  next
    case (Some d)
    have "(\<exists>n. node_at sample_manifest c = Some n \<and> parent n = dir) \<longleftrightarrow>
        c \<in> {1, 3} \<and> dir = 0 \<or> c = 2 \<and> dir = 1"
      using sample_node_cases [of c] \<open>dir \<noteq> NO_NODE\<close> by (auto simp: sample_node_at sample_nodes_def)
    then show ?thesis using sample_node_cases [OF Some] by (auto simp: sample_children)
  qed
qed

lemma sample_rooted: "rooted sample_manifest"
  by (simp add: rooted_def sample_root sample_node_at is_dir_def sample_nodes_def)

lemma dump_tidy:
  "tidy dump_env dump_file (Version 1)" "tidy dump_env dump_file (Node 1 i)"
  by (simp_all add: dump_manifest_of sample_unique sample_shaped sample_rooted sample_single_root)

section \<open>Names\<close>



section \<open>Kinds and errors\<close>

text \<open>
  C27: the tree hands out keys that work.  For a key of the dump, whatever the store has cached: a stat
  returns the key's kind; a listing succeeds exactly on directories, is refused with \<open>NotADirectory\<close> on
  anything else, and gives each entry a key of the dump and the kind its own stat would return; a lookup
  finds only keys of the dump; and nothing fails otherwise unless the backend fails or a blob is bad.
\<close>

theorem tree_keys_work:
  assumes "honest env files" and "closed_index (env_index env)" and "ranked env files"
    and "known_key env files key" and "tidy env files key"
    and "store_inv env files L s" and "tree_meta env key s = (mr, s1)" and "entries env key s = (er, s2)"
    and "tree_lookup env key name s = (lr, s3)"
  shows "(case mr of Inr mt \<Rightarrow> m_kind mt = key_kind env files key | Inl _ \<Rightarrow> \<not> (reliable env \<and> all_intact env files)) \<and>
    (case er of
       Inr es \<Rightarrow> key_kind env files key = Dir \<and>
         (\<forall>e \<in> set es. known_key env files (e_key e) \<and> key_kind env files (e_key e) = e_kind e)
     | Inl e \<Rightarrow> \<not> (reliable env \<and> all_intact env files) \<or>
         key_kind env files key \<noteq> Dir \<and> e = Tree_error NotADirectory) \<and>
    (case lr of Inr found \<Rightarrow> \<forall>k. found = Some k \<longrightarrow> known_key env files k
     | Inl _ \<Rightarrow> \<not> (reliable env \<and> all_intact env files)) \<and>
    store_inv env files L s1 \<and> store_inv env files L s2 \<and> store_inv env files L s3"
  using satD [OF sat_tree_meta [OF assms(1-4)] assms(6,7)]
    satD [OF sat_entries [OF assms(1,2,4,5)] assms(6,8)]
    satD [OF sat_tree_lookup [OF assms(1,2,4)] assms(6,9)]
  unfolding sound_def opens_def listed_def by blast

theorem tree_keys_work_witness:
  "fst (entries dump_env (Node 1 3) dump_store) = Inl (Tree_error NotADirectory) \<and>
   (\<exists>mt. fst (tree_meta dump_env (Node 1 3) dump_store) = Inr mt \<and> m_kind mt = File)"
proof -
  have ix: "closed_index (env_index dump_env)" by (simp add: dump_closed)
  have k: "known_key dump_env dump_file (Node 1 3)"
    by (simp add: dump_known dump_manifest_of sample_node_at sample_root)
  have kind: "key_kind dump_env dump_file (Node 1 3) = File"
    by (simp add: dump_manifest_of sample_node_at is_dir_def sample_nodes_def NO_FILE_def)
  obtain mr s1 where m: "tree_meta dump_env (Node 1 3) dump_store = (mr, s1)" by fastforce
  obtain er s2 where e: "entries dump_env (Node 1 3) dump_store = (er, s2)" by fastforce
  obtain lr s3 where l: "tree_lookup dump_env (Node 1 3) [] dump_store = (lr, s3)" by fastforce
  from tree_keys_work [OF dump_honest ix dump_ranked k dump_tidy(2) dump_store_inv m e l]
  have "(case mr of Inr mt \<Rightarrow> m_kind mt = File | Inl _ \<Rightarrow> False)"
    and "(case er of Inr es \<Rightarrow> False | Inl e \<Rightarrow> e = Tree_error NotADirectory)"
    using dump_reliable dump_intact unfolding kind by (auto split: sum.splits)
  then show ?thesis using m e by (auto split: sum.splits)
qed

section \<open>Links and parents\<close>

text \<open>A version is found in its depot under its name.\<close>

lemma version_lookup:
  assumes "closed_index (env_index env)" and "index_depot (env_index env) d = Some dep" and "tidy env files (Depot d)"
    and "bf_depot (index_blob (env_index env) b) = d" and "unat b < length (blobs (env_index env))"
  defines "n \<equiv> version_name (blobs (env_index env)) (sorted_ids (blobs (env_index env)) d) b"
  shows "name_of dep b = Some n" and "tree_lookup env (Depot d) (as_bytes n) s = (Inr (Some (Version b)), s)"
proof -
  let ?bs = "blobs (env_index env)"
  note ix = closed_index_parts [OF assms(1)]
  have dep: "dep = depot_of ?bs d" by (rule index_depot_eq [OF ix(1) assms(2)])
  have b: "b \<in> set (sorted_ids ?bs d)"
    using assms(4,5) sorted_ids_facts(2) [OF ix(2)] by (simp add: index_blob_def)
  then show "name_of dep b = Some n"
    unfolding dep n_def name_of_def depot_nth_depot_of [OF ix(2)] by simp
  have "lookup_name dep n = Some b"
    unfolding dep n_def using lookup_name_depot_of [OF ix(2)] assms(3) b by simp
  moreover have "from_utf8_lossy (as_bytes n) = n" using lossy_name [of n] by (simp add: n_def)
  ultimately show "tree_lookup env (Depot d) (as_bytes n) s = (Inr (Some (Version b)), s)"
    using assms(2) version_name_special by (simp add: n_def ret_def Let_def)
qed

text \<open>
  Links lead to versions.  In a depot without twins, \<open>latest\<close> and every link of \<open>by-date\<close> have a
  target, and its name, looked up in the depot, is the version that the link stands for: the latest
  blob of the depot, or the link's own.
\<close>

theorem links_resolve:
  assumes "closed_index (env_index env)" and "index_depot (env_index env) d \<noteq> None" and "tidy env files (Depot d)"
  shows "(\<exists>b n. latest (env_index env) d = Some b \<and> link_target env (Latest d) = Some n \<and>
      fst (tree_lookup env (Depot d) (as_bytes n) s) = Inr (Some (Version b))) \<and>
    (\<forall>b. known env b \<and> bf_depot (index_blob (env_index env) b) = d \<longrightarrow>
      (\<exists>n. link_target env (DateLink b) = Some (''../'' @ n) \<and>
         fst (tree_lookup env (Depot d) (as_bytes n) s) = Inr (Some (Version b))))"
proof -
  let ?idx = "env_index env" and ?bs = "blobs (env_index env)"
  let ?n = "\<lambda>b. version_name ?bs (sorted_ids ?bs d) b"
  from assms(2) obtain dep where d: "index_depot ?idx d = Some dep" by auto
  note at = version_lookup [OF assms(1) d assms(3)]
  obtain b where b: "latest ?idx d = Some b" "unat b < length ?bs" "bf_depot (index_blob ?idx b) = d"
    using latest_some [OF assms(1,2)] by metis
  have "link_target env (Latest d) = Some (?n b)" using b at(1) [OF b(3,2)] d by (simp add: link_target_def Let_def)
  moreover have "link_target env (DateLink c) = Some (''../'' @ ?n c)"
    if "known env c" "bf_depot (index_blob ?idx c) = d" for c
    using at(1) [of c] that d by (simp add: link_target_def known_def Let_def)
  moreover have "fst (tree_lookup env (Depot d) (as_bytes (?n c)) s) = Inr (Some (Version c))"
    if "unat c < length ?bs" "bf_depot (index_blob ?idx c) = d" for c
    using at(2) [OF that(2,1), of s] by simp
  ultimately show ?thesis using b unfolding known_def by blast
qed

lemma dump_depot: "index_depot dump_index 7 \<noteq> None"
proof -
  have "bf_depot (blobs dump_index ! 0) = 7" by (simp add: dump_index_parts dump_blob_def)
  then show ?thesis
    using loaded_depot_some [OF closed_index_parts(1) [OF dump_closed], of 0] by (simp add: dump_index_parts)
qed

lemma dump_depot_tidy: "tidy dump_env dump_file (Depot 7)"
proof -
  have small: "length (blobs dump_index) < 4294967296" by (rule closed_index_parts(2) [OF dump_closed])
  have "b \<in> {0, 1}" if "b \<in> set (sorted_ids (blobs dump_index) 7)" for b
    using that dump_known(3) [of b] unfolding sorted_ids_facts(2) [OF small] by (simp add: known_def)
  then have "set (sorted_ids (blobs dump_index) 7) \<subseteq> {0, 1}" by blast
  moreover have "inj_on (\<lambda>b. (bf_version (blobs dump_index ! unat b), bf_crc (blobs dump_index ! unat b))) {0, 1 :: blob_id}"
    unfolding inj_on_def dump_index_parts by (simp add: dump_blob_def)
  ultimately show ?thesis unfolding tidy.simps no_twins_def dump_env_simps by (rule inj_on_subset [rotated])
qed

theorem links_resolve_witness:
  "\<exists>n. link_target dump_env (DateLink 1) = Some (''../'' @ n) \<and>
     fst (tree_lookup dump_env (Depot 7) (as_bytes n) dump_store) = Inr (Some (Version 1))"
proof -
  have "bf_depot (index_blob (env_index dump_env) 1) = 7" by (simp add: dump_entries dump_blob_def)
  then show ?thesis
    using links_resolve [OF _ _ dump_depot_tidy, of dump_store] dump_closed dump_depot dump_known(2) by simp
qed

text \<open>
  What a parent is.  For an entry that a directory lists, \<open>parent\<close> returns that directory when the
  entry is a depot, a version or a node; for \<open>latest\<close>, \<open>by-date\<close> and the links in it, it returns the root
  of the tree, which is not where they are listed.
\<close>

theorem parent_of_listed:
  assumes "honest env files" and "closed_index (env_index env)" and "known_key env files key" and "tidy env files key"
    and "store_inv env files L s" and "store_inv env files L t"
    and "entries env key s = (Inr es, s')" and "e \<in> set es" and "tree_parent env (e_key e) t = (r, t')"
    and "reliable env" and "all_intact env files"
  shows "r = Inr (case e_key e of Latest _ \<Rightarrow> Root | ByDate _ \<Rightarrow> Root | DateLink _ \<Rightarrow> Root | _ \<Rightarrow> key)"
  using entries_parent [OF assms] by (cases "e_key e") simp_all

theorem parent_of_listed_witness:
  "\<exists>es e. fst (entries dump_env (Depot 7) dump_store) = Inr es \<and> e \<in> set es \<and> e_key e = ByDate 7 \<and>
     fst (tree_parent dump_env (ByDate 7) dump_store) = Inr Root \<and> Root \<noteq> Depot 7"
proof -
  have ix: "closed_index (env_index dump_env)" by (simp add: dump_closed)
  have k: "known_key dump_env dump_file (Depot 7)" using dump_depot by simp
  from dump_depot obtain dep where d: "index_depot dump_index 7 = Some dep" by auto
  obtain es where es: "entries dump_env (Depot 7) dump_store = (Inr es, dump_store)" by (simp add: ret_def d)
  let ?e = "named ''by-date'' (ByDate 7) Dir"
  have e: "?e \<in> set es" using es d by (auto simp: ret_def)
  obtain r t' where run: "tree_parent dump_env (e_key ?e) dump_store = (r, t')" by fastforce
  from parent_of_listed [OF dump_honest ix k dump_depot_tidy dump_store_inv dump_store_inv es e run dump_reliable dump_intact]
  have "fst (tree_parent dump_env (ByDate 7) dump_store) = Inr Root" using run by simp
  with es e show ?thesis by force
qed

end
