(* ===== verification/Served_Files.thy ===== *)
theory Served_Files
  imports Tree_Kinds
begin

text \<open>
  Reads through the tree: every file that a version has is read from the place its newest record says,
  and no read of one ends the process.
\<close>

section \<open>The files of a dump\<close>

definition located_files :: "env \<Rightarrow> (string \<Rightarrow> bytes) \<Rightarrow> file_loc set" where
  "located_files env files =
     {loc. \<exists>b bs f. known env b \<and> ancestry env files b bs \<and> newest env files bs f = Some loc}"

text \<open>
  What is asked of a dump throughout: the backend answers from its files, the index is a loaded one,
  chains end, the directories are tidy, no two different blocks share a place, and decryption works in
  place.
\<close>

definition good_dump :: "env \<Rightarrow> (string \<Rightarrow> bytes) \<Rightarrow> bool" where
  "good_dump env files \<longleftrightarrow>
     honest env files \<and> closed_index (env_index env) \<and> length (dats (env_index env)) < 4294967296 \<and>
     ranked env files \<and> (\<forall>key. known_key env files key \<longrightarrow> tidy env files key) \<and>
     unshared (located_files env files) \<and> cipher_in_place (env_codecs env)"

lemma good_dump_parts:
  assumes "good_dump env files"
  shows "honest env files" "closed_index (env_index env)" "ranked env files" "unshared (located_files env files)"
    "cipher_in_place (env_codecs env)" "known_key env files key \<Longrightarrow> tidy env files key"
  using assms by (auto simp: good_dump_def)

lemma own_map_Some:
  "own_map b dat rs f = Some loc \<Longrightarrow> \<exists>r \<in> set rs. loc = file_loc_of b dat r \<and> file_id r = f"
proof (induction rs rule: rev_induct)
  case (snoc r rs)
  then show ?case by (auto simp: own_map_def split: if_splits)
qed (simp add: own_map_def)

lemma newest_Some:
  "newest env files bs f = Some loc \<Longrightarrow>
   \<exists>b p r. parse_of env files b = Inr p \<and> loc = file_loc_of b (dat_of env b p) r"
proof (induction bs)
  case (Cons b bs)
  then show ?case
    by (auto simp: own_of_def split: option.splits sum.splits dest!: own_map_Some)
qed simp

lemma located_dat:
  assumes "good_dump env files" and "loc \<in> located_files env files" and "loc_dat loc = Some dat"
  shows "known_dat env dat"
proof -
  from assms(2) obtain bs f where "newest env files bs f = Some loc" by (auto simp: located_files_def)
  from newest_Some [OF this] assms(3) obtain d v c where "find_dat (env_index env) d v c = Some dat"
    by (auto simp: file_loc_of_def dat_of_def Let_def)
  then have "dat_by_key (env_index env) (d, v, c) = Some dat" by (simp add: find_dat_def)
  moreover have "keyed dat_key (dats (env_index env)) (dat_by_key (env_index env))" "length (dats (env_index env)) < 4294967296"
    using assms(1) by (auto simp: good_dump_def closed_index_def index_inv_def dats_ok_def)
  ultimately show ?thesis using keyed_range unfolding known_dat_def by metis
qed

text \<open>A block is stored in as many bytes as its record counts, fewer than \<open>2 ^ 32\<close>.\<close>

lemma offsets_step:
  "nth_opt (offsets_from off bs) i = Some a \<Longrightarrow> nth_opt (offsets_from off bs) (Suc i) = Some b \<Longrightarrow>
   \<exists>c :: u32. b - a = ucast c"
proof (induction off bs arbitrary: i rule: offsets_from.induct)
  case (1 off)
  then show ?case by (simp add: nth_opt_def split: if_splits)
next
  case (2 off blk bs)
  show ?case
  proof (cases i)
    case 0
    then have "a = off" using "2.prems"(1) by (simp add: nth_opt_def)
    moreover have "b = off + ucast (compressed_size blk)"
      using "2.prems"(2) 0 by (cases bs) (auto simp: nth_opt_def split: if_splits)
    ultimately show ?thesis by (intro exI [of _ "compressed_size blk"]) simp
  next
    case (Suc j)
    with "2.prems" have "nth_opt (offsets_from (off + ucast (compressed_size blk)) bs) j = Some a"
      "nth_opt (offsets_from (off + ucast (compressed_size blk)) bs) (Suc j) = Some b"
      by (auto simp: nth_opt_def split: if_splits)
    then show ?thesis by (rule "2.IH")
  qed
qed

lemma located_span:
  assumes "loc \<in> located_files env files" and "block_span loc i = Some (start, fin)"
  shows "unat (fin - start) \<le> ISIZE_MAX"
proof -
  from assms(1) obtain bs f where "newest env files bs f = Some loc" by (auto simp: located_files_def)
  from newest_Some [OF this] obtain b p r where loc: "loc = file_loc_of b (dat_of env b p) r" by blast
  have "nth_opt (offsets_from (fr_offset r) (blocks r)) i = Some start"
    "nth_opt (offsets_from (fr_offset r) (blocks r)) (Suc i) = Some fin"
    using assms(2) by (auto simp: loc file_loc_of_def block_span_def split: option.splits)
  from offsets_step [OF this] obtain c :: u32 where "fin - start = ucast c" by blast
  then show ?thesis using unat_u32_less [of c] by (simp add: ISIZE_MAX_def)
qed

lemma no_panics:
  "whole_span loc i start fin raw \<noteq> Inl Panic" "resolution_key env src kr \<noteq> Inl Panic"
  "decode_block env loc i meta raw key \<noteq> Inl Panic"
  by (auto simp: whole_span_def resolution_key_def decode_block_def rbind_Inl_iff map_err_def Let_def
      split: key_resolution.splits if_splits sum.splits prod.splits)

lemma located_value:
  assumes "loc \<in> located_files env files"
  shows "block_value env files kr loc i \<noteq> Inl Panic"
proof
  assume "block_value env files kr loc i = Inl Panic"
  then show False
    using located_span [OF assms, of i] no_panics
    by (auto simp: block_value_def rbind_Inl_iff map_sum_def split: option.splits prod.splits if_splits sum.splits)
qed

section \<open>Reads never end the process\<close>

text \<open>An outcome that is a panic only when the backend fails or a blob is bad.\<close>

definition calm :: "env \<Rightarrow> (string \<Rightarrow> bytes) \<Rightarrow> failure + 'a \<Rightarrow> bool" where
  "calm env files r \<longleftrightarrow> r \<noteq> Inl Panic \<or> \<not> (reliable env \<and> all_intact env files)"

lemma calm_simps [simp]: "calm env files (Inr x)" "calm env files (Inl (Error e))"
  "calm env files (Inl Panic) \<longleftrightarrow> \<not> (reliable env \<and> all_intact env files)"
  by (simp_all add: calm_def)

lemma located_source:
  assumes "closed_index (env_index env)" and "loc \<in> located_files env files"
  shows "known env (loc_source loc)"
proof -
  from assms(2) obtain b bs f where b: "known env b" "ancestry env files b bs" "newest env files bs f = Some loc"
    by (auto simp: located_files_def)
  have "loc_source loc \<in> set bs"
    using b(3) by (induction bs) (auto simp: own_of_def file_loc_of_def split: option.splits sum.splits dest!: own_map_Some)
  then show ?thesis
    using climbs_known [OF assms(1), of files bs] b by (auto simp: ancestry_def)
qed

lemma sat_need_dat_missing:
  assumes "honest env files" and "closed_index (env_index env)" and "known env (loc_source loc)" and "loc_dat loc = None"
  shows "sat (data_inv env files L) data_frame (need_dat env loc) (\<lambda>r s. \<not> is_ok r \<and> calm env files r) s"
proof -
  have "sat (data_inv env files L) data_frame (dat_crc_or_zero env (loc_source loc)) (\<lambda>r s. calm env files r) s"
    using data_lift [OF sat_parsed [OF assms(1-3)], of L s] assms(3)
    by (auto simp: sat_def dat_crc_or_zero_def yields_def all_intact_def split: prod.splits sum.splits failure.splits)
  then have "sat (data_inv env files L) data_frame (missing_dat env loc) (\<lambda>r s. calm env files r) s"
    unfolding missing_dat_def Let_def by (rule data_runs.sat_abind) (auto simp: calm_def intro!: data_runs.sat_ret)
  then show ?thesis
    unfolding need_dat_def assms(4) option.case
    by (rule data_runs.sat_abind) (auto simp: calm_def intro!: data_runs.sat_fail)
qed

text \<open>The end of a read, with the sum of offset and length on 64 bits.\<close>

lemma read_unfold:
  assumes "\<not> (fr_size (loc_record loc) \<le> off \<or> len = 0)" and "len \<le> ISIZE_MAX"
  shows "store_read env loc off len = read_loop env loc (min (off + of_nat len) (fr_size (loc_record loc))) off []"
proof -
  let ?fin = "min (off + of_nat len) (fr_size (loc_record loc))"
  have n: "unat (of_nat len :: u64) = len" using assms(2) by (simp add: unat_of_nat ISIZE_MAX_def)
  have "unat (?fin - off) \<le> len"
  proof (cases "off + of_nat len \<le> fr_size (loc_record loc)")
    case True
    then show ?thesis by (simp add: min_def n)
  next
    case False
    then have lt: "fr_size (loc_record loc) < off + of_nat len" "off < fr_size (loc_record loc)" using assms(1) by auto
    then have "unat (off + of_nat len) = unat off + len"
      by (metis n no_olen_add_nat order.strict_implies_order order.strict_trans unat_plus_simple word_le_less_eq)
    with lt show ?thesis by (simp add: min_def word_less_nat_alt unat_sub word_le_nat_alt)
  qed
  then show ?thesis using assms by (simp add: store_read_def Let_def)
qed

lemma read_end_le:
  assumes "len \<le> ISIZE_MAX"
  shows "unat (min (off + of_nat len) n :: u64) - unat off \<le> len"
proof -
  have "unat (off + of_nat len) \<le> unat off + len"
    using assms by (simp add: unat_word_ariths unat_of_nat ISIZE_MAX_def)
  moreover have "unat (min (off + of_nat len) n) \<le> unat (off + of_nat len)" by (simp add: word_le_nat_alt [symmetric])
  ultimately show ?thesis by linarith
qed

lemma sat_missing_read:
  assumes "honest env files" and "closed_index (env_index env)" and "known env (loc_source loc)" and "loc_dat loc = None"
  shows "sat (data_inv env files L) data_frame (read_loop env loc fin off out)
    (\<lambda>r s. calm env files r \<and> (\<forall>d. r = Inr d \<longrightarrow> d = out)) s"
proof (cases "off < fin")
  case True
  have blk: "sat (data_inv env files L) data_frame (read_block env loc i) (\<lambda>r s. \<not> is_ok r \<and> calm env files r) s" for i
    unfolding read_block_def
    by (rule data_runs.sat_abind [OF sat_need_dat_missing [OF assms]]) (auto simp: calm_def)
  show ?thesis
    unfolding read_loop.simps [of env loc fin off] if_P [OF True] by (rule data_runs.sat_abind [OF blk]) auto
next
  case False
  then show ?thesis by (subst read_loop.simps) (simp add: data_runs.sat_ret)
qed

lemma sat_located_read:
  assumes good: "good_dump env files" and loc: "loc \<in> located_files env files" and len: "len \<le> ISIZE_MAX"
  shows "sat (data_inv env files (located_files env files)) data_frame (store_read env loc off len)
    (\<lambda>r s. calm env files r \<and> (\<forall>d. r = Inr d \<longrightarrow> length d \<le> len)) s"
proof (cases "fr_size (loc_record loc) \<le> off \<or> len = 0")
  case True
  then show ?thesis by (auto simp: store_read_def Let_def intro!: data_runs.sat_ret)
next
  case False
  note parts = good_dump_parts [OF good]
  let ?fin = "min (off + of_nat len) (fr_size (loc_record loc))"
  note run = read_unfold [OF False len]
  show ?thesis
  proof (cases "loc_dat loc")
    case None
    show ?thesis unfolding run
      by (rule sat_weaken [OF sat_missing_read [OF parts(1,2) located_source [OF parts(2) loc] None]]) auto
  next
    case (Some dat)
    have calm: "calm env files r" if "read_post env files loc a b out r s" for a b out r s
      using that located_value [OF loc] unfolding read_post_def calm_def by (metis Inl_inject failure.distinct(1) is_ok_simps(1) sum.distinct(1))
    have short: "length d \<le> len" if "read_post env files loc (unat off) (unat ?fin) [] (Inr d) s" for d s
    proof -
      have "length d \<le> unat ?fin - unat off" using that unfolding read_post_def by auto
      then show ?thesis using read_end_le [OF len, of off "fr_size (loc_record loc)"] by (rule order_trans)
    qed
    show ?thesis
      unfolding run
      by (rule sat_weaken [OF sat_read_loop [OF parts(1,4) loc Some located_dat [OF good loc Some] parts(5)]])
        (auto intro: calm short)
  qed
qed

section \<open>Locating a node's file\<close>

lemma sat_tree_locate:
  assumes good: "good_dump env files" and k: "known_key env files key"
  shows "sat (store_inv env files L) store_frame (tree_locate env key)
    (\<lambda>r s. case r of Inr loc \<Rightarrow> loc \<in> located_files env files
      | Inl e \<Rightarrow> e \<noteq> Tree_panic \<or> \<not> (reliable env \<and> all_intact env files)) s"
proof (cases "\<exists>b i. key = Node b i")
  case True
  note parts = good_dump_parts [OF good]
  from True obtain b i where key: "key = Node b i" by blast
  with k have b: "known env b" by simp
  have loc: "sat (store_inv env files L) store_frame (lift (locate env b f))
      (\<lambda>r s. case r of Inr loc \<Rightarrow> loc \<in> located_files env files
        | Inl e \<Rightarrow> e \<noteq> Tree_panic \<or> \<not> (reliable env \<and> all_intact env files)) s1" for f s1
    by (rule sat_lift_run [OF store_lift_table [OF sat_locate [OF parts(1-3) b]]])
      (use b in \<open>auto simp: located_def located_files_def ok_or_def is_ok_def map_err_def
          split: option.splits sum.splits\<close>)
  show ?thesis
    unfolding key tree_locate.simps
    by (rule store_runs.sat_abind [OF sat_manifest [OF parts(1,2) b]])
      (use loc in \<open>auto split: option.split intro!: store_runs.sat_fail\<close>)
next
  case False
  then show ?thesis by (cases key) (auto intro!: store_runs.sat_fail)
qed

lemma sat_tree_read:
  assumes "good_dump env files" and "loc \<in> located_files env files" and "len \<le> ISIZE_MAX"
  shows "sat (store_inv env files (located_files env files)) store_frame (tree_read env loc off len)
    (\<lambda>r s. (r \<noteq> Inl Tree_panic \<or> \<not> (reliable env \<and> all_intact env files)) \<and> (\<forall>d. r = Inr d \<longrightarrow> length d \<le> len)) s"
  unfolding tree_read_def
  by (rule sat_lift_run [OF store_lift_data [OF sat_located_read [OF assms]]])
    (auto simp: calm_def map_err_def split: sum.splits elim: from_read.elims)

end
