(* ===== verification/Fuse_Fs.thy ===== *)
theory Fuse_Fs
  imports Virtual_Tree
begin

text \<open>
  The FUSE front end (\<open>src/fs.rs\<close>): inode numbers for the keys of the tree, open directories, and one
  handler per request of the kernel.  A handler takes the state of the file system and returns the
  reply it sends.  The buffer a directory listing is written to belongs to the kernel; whether it is
  full for a further entry is a parameter of the handlers.
\<close>

section \<open>Definitions\<close>

subsection \<open>Inodes\<close>

record inodes =
  ino_by_key :: "tree_key \<rightharpoonup> u64"
  ino_keys :: "tree_key list"

definition intern :: "tree_key \<Rightarrow> inodes \<Rightarrow> u64 \<times> inodes" where
  "intern key s =
     (case ino_by_key s key of
        Some ino \<Rightarrow> (ino, s)
      | None \<Rightarrow>
          let ino = of_nat (length (ino_keys s)) + 1
          in (ino, s\<lparr>ino_keys := ino_keys s @ [key], ino_by_key := (ino_by_key s)(key \<mapsto> ino)\<rparr>))"

definition inodes_new :: inodes where
  "inodes_new = snd (intern Root \<lparr>ino_by_key = Map.empty, ino_keys = []\<rparr>)"

definition inode_key :: "inodes \<Rightarrow> u64 \<Rightarrow> tree_key option" where
  "inode_key s ino = (if ino = 0 then None else nth_opt (ino_keys s) (unat ino - 1))"

subsection \<open>The file system\<close>

datatype errno = ENOENT | ENOTDIR | ENXIO | ENOKEY | EIO | EBADMSG | EINVAL | EISDIR | ENODATA | ERANGE

datatype file_type = Directory | RegularFile | SymbolicLink

type_synonym dir_list = "(bytes \<times> tree_key \<times> file_type) list"

record open_dirs =
  next_fh :: u64
  open_lists :: "u64 \<rightharpoonup> dir_list"

record fs =
  fs_store :: store
  fs_inodes :: inodes
  fs_dirs :: open_dirs
  fs_uid :: u32
  fs_gid :: u32

record file_attr =
  a_ino :: u64
  a_size :: u64
  a_blocks :: u64
  a_atime :: system_time
  a_mtime :: system_time
  a_ctime :: system_time
  a_crtime :: system_time
  a_kind :: file_type
  a_perm :: nat
  a_nlink :: nat
  a_uid :: u32
  a_gid :: u32
  a_rdev :: nat
  a_blksize :: nat
  a_flags :: nat

datatype fs_failure =
    Fs_errno errno
  | Fs_panic

type_synonym 'a fs_run = "(fs, fs_failure, 'a) action"

fun class_errno :: "error_class \<Rightarrow> errno" where
  "class_errno Class_missing = ENXIO"
| "class_errno Class_no_key = ENOKEY"
| "class_errno Class_io = EIO"
| "class_errno Class_bad_data = EBADMSG"

fun errno_of :: "tree_error \<Rightarrow> errno" where
  "errno_of NotFound = ENOENT"
| "errno_of NotADirectory = ENOTDIR"
| "errno_of (Read r) = class_errno (read_error_class r)"

fun file_type_of :: "kind \<Rightarrow> file_type" where
  "file_type_of Dir = Directory"
| "file_type_of File = RegularFile"
| "file_type_of Symlink = SymbolicLink"

definition fs_new :: "store \<Rightarrow> u32 \<Rightarrow> u32 \<Rightarrow> fs" where
  "fs_new st uid gid =
     \<lparr>fs_store = st, fs_inodes = inodes_new, fs_dirs = \<lparr>next_fh = 0, open_lists = Map.empty\<rparr>,
      fs_uid = uid, fs_gid = gid\<rparr>"

text \<open>An operation of the tree, its error as an error number.\<close>

fun to_errno :: "tree_failure \<Rightarrow> fs_failure" where
  "to_errno (Tree_error e) = Fs_errno (errno_of e)"
| "to_errno Tree_panic = Fs_panic"

definition on_tree :: "'a tree_run \<Rightarrow> 'a fs_run" where
  "on_tree m = (\<lambda>s. case m (fs_store s) of (r, st) \<Rightarrow> (map_err to_errno r, s\<lparr>fs_store := st\<rparr>))"

definition fs_ino :: "tree_key \<Rightarrow> u64 fs_run" where
  "fs_ino key = advance (\<lambda>s. case intern key (fs_inodes s) of (ino, i) \<Rightarrow> (ino, s\<lparr>fs_inodes := i\<rparr>))"

definition fs_key :: "u64 \<Rightarrow> tree_key option fs_run" where
  "fs_key ino = gets (\<lambda>s. inode_key (fs_inodes s) ino)"

definition known_ino :: "u64 \<Rightarrow> tree_key fs_run" where
  "known_ino ino = abind (fs_key ino) (\<lambda>k. pure (ok_or (Fs_errno ENOENT) k))"

definition fs_attr :: "u64 \<Rightarrow> file_type \<Rightarrow> u64 \<Rightarrow> system_time \<Rightarrow> file_attr fs_run" where
  "fs_attr ino kind sz mtime = gets (\<lambda>s.
     \<lparr>a_ino = ino, a_size = sz, a_blocks = of_nat ((unat sz + 511) div 512),
      a_atime = mtime, a_mtime = mtime, a_ctime = mtime, a_crtime = mtime, a_kind = kind,
      a_perm = (case kind of Directory \<Rightarrow> 365 | SymbolicLink \<Rightarrow> 511 | RegularFile \<Rightarrow> 292),
      a_nlink = (if kind = Directory then 2 else 1), a_uid = fs_uid s, a_gid = fs_gid s,
      a_rdev = 0, a_blksize = 65536, a_flags = 0\<rparr>)"

definition attr_of :: "tree_key \<Rightarrow> meta \<Rightarrow> file_attr fs_run" where
  "attr_of key mt = abind (fs_ino key) (\<lambda>ino. fs_attr ino (file_type_of (m_kind mt)) (m_size mt) (m_mtime mt))"

definition attr_for :: "env \<Rightarrow> tree_key \<Rightarrow> file_attr fs_run" where
  "attr_for env key = abind (on_tree (tree_meta env key)) (attr_of key)"

definition dir_entries :: "env \<Rightarrow> tree_key \<Rightarrow> dir_list fs_run" where
  "dir_entries env key =
     abind (on_tree (entries env key)) (\<lambda>children.
     abind (on_tree (tree_parent env key)) (\<lambda>up.
     ret ([(as_bytes ''.'', key, Directory), (as_bytes ''..'', up, Directory)] @
       map (\<lambda>e. (e_name e, e_key e, file_type_of (e_kind e))) children)))"

definition dir_list :: "env \<Rightarrow> u64 \<Rightarrow> u64 \<Rightarrow> dir_list fs_run" where
  "dir_list env ino fh =
     abind (gets (\<lambda>s. open_lists (fs_dirs s) fh)) (\<lambda>l.
     case l of
       Some es \<Rightarrow> ret es
     | None \<Rightarrow> abind (known_ino ino) (dir_entries env))"

subsection \<open>Replies\<close>

type_synonym dir_item = "u64 \<times> u64 \<times> file_type \<times> bytes"
type_synonym plus_item = "u64 \<times> u64 \<times> bytes \<times> file_attr"

datatype fopen_flags = No_flags | Keep_cache

datatype reply =
    Reply_error errno
  | Reply_entry file_attr
  | Reply_attr file_attr
  | Reply_data bytes
  | Reply_opened u64 fopen_flags
  | Reply_directory "dir_item list"
  | Reply_directory_plus "plus_item list"
  | Reply_size u32
  | Reply_statfs u64
  | Reply_ok

definition answer :: "reply fs_run \<Rightarrow> reply fs_run" where
  "answer m = (\<lambda>s. case m s of
     (Inl (Fs_errno e), s') \<Rightarrow> (Inr (Reply_error e), s')
   | (r, s') \<Rightarrow> (r, s'))"

subsection \<open>Handlers\<close>

definition fuse_lookup :: "env \<Rightarrow> u64 \<Rightarrow> bytes \<Rightarrow> reply fs_run" where
  "fuse_lookup env dir name = answer (
     abind (known_ino dir) (\<lambda>pkey.
     abind (on_tree (tree_lookup env pkey name)) (\<lambda>found.
     case found of
       Some k \<Rightarrow> abind (attr_for env k) (\<lambda>a. ret (Reply_entry a))
     | None \<Rightarrow> fail (Fs_errno ENOENT))))"

definition fuse_getattr :: "env \<Rightarrow> u64 \<Rightarrow> reply fs_run" where
  "fuse_getattr env ino = answer (
     abind (known_ino ino) (\<lambda>k. abind (attr_for env k) (\<lambda>a. ret (Reply_attr a))))"

definition fuse_readlink :: "env \<Rightarrow> u64 \<Rightarrow> reply fs_run" where
  "fuse_readlink env ino =
     abind (fs_key ino) (\<lambda>k. ret
       (case Option.bind k (link_target env) of
          Some t \<Rightarrow> Reply_data (as_bytes t)
        | None \<Rightarrow> Reply_error EINVAL))"

definition fuse_opendir :: "env \<Rightarrow> u64 \<Rightarrow> reply fs_run" where
  "fuse_opendir env ino = answer (
     abind (known_ino ino) (\<lambda>k.
     abind (dir_entries env k) (\<lambda>es.
     advance (\<lambda>s.
       let fh = next_fh (fs_dirs s) + 1
       in (Reply_opened fh No_flags,
           s\<lparr>fs_dirs := \<lparr>next_fh = fh, open_lists = (open_lists (fs_dirs s))(fh \<mapsto> es)\<rparr>\<rparr>)))))"

text \<open>
  The loops over a listing.  \<open>no_room\<close> says whether the reply buffer, holding the given items already, has
  no room for a further one.
\<close>

fun readdir_loop :: "(dir_item list \<Rightarrow> dir_item \<Rightarrow> bool) \<Rightarrow> (nat \<times> bytes \<times> tree_key \<times> file_type) list \<Rightarrow>
    dir_item list \<Rightarrow> dir_item list fs_run" where
  "readdir_loop no_room [] acc = ret acc"
| "readdir_loop no_room ((i, name, key, kind) # rest) acc =
     abind (fs_ino key) (\<lambda>ino.
     let item = (ino, of_nat i + 1, kind, name) in
     if no_room acc item then ret acc else readdir_loop no_room rest (acc @ [item]))"

definition fuse_readdir :: "env \<Rightarrow> (dir_item list \<Rightarrow> dir_item \<Rightarrow> bool) \<Rightarrow> u64 \<Rightarrow> u64 \<Rightarrow> u64 \<Rightarrow> reply fs_run" where
  "fuse_readdir env no_room ino fh offset = answer (
     abind (dir_list env ino fh) (\<lambda>es.
     abind (readdir_loop no_room (drop (unat offset) (enumerate 0 es)) []) (\<lambda>items.
     ret (Reply_directory items))))"

definition attr_or_blank :: "env \<Rightarrow> u64 \<Rightarrow> tree_key \<Rightarrow> file_type \<Rightarrow> file_attr fs_run" where
  "attr_or_blank env ino key kind = (\<lambda>s. case attr_for env key s of
     (Inl (Fs_errno e), s') \<Rightarrow> fs_attr ino kind 0 UNIX_EPOCH s'
   | (r, s') \<Rightarrow> (r, s'))"

fun readdirplus_loop :: "env \<Rightarrow> (plus_item list \<Rightarrow> plus_item \<Rightarrow> bool) \<Rightarrow>
    (nat \<times> bytes \<times> tree_key \<times> file_type) list \<Rightarrow> plus_item list \<Rightarrow> plus_item list fs_run" where
  "readdirplus_loop env no_room [] acc = ret acc"
| "readdirplus_loop env no_room ((i, name, key, kind) # rest) acc =
     abind (fs_ino key) (\<lambda>ino.
     abind (attr_or_blank env ino key kind) (\<lambda>a.
     let item = (ino, of_nat i + 1, name, a) in
     if no_room acc item then ret acc else readdirplus_loop env no_room rest (acc @ [item])))"

definition fuse_readdirplus :: "env \<Rightarrow> (plus_item list \<Rightarrow> plus_item \<Rightarrow> bool) \<Rightarrow> u64 \<Rightarrow> u64 \<Rightarrow> u64 \<Rightarrow> reply fs_run" where
  "fuse_readdirplus env no_room ino fh offset = answer (
     abind (dir_list env ino fh) (\<lambda>es.
     abind (readdirplus_loop env no_room (drop (unat offset) (enumerate 0 es)) []) (\<lambda>items.
     ret (Reply_directory_plus items))))"

definition fuse_releasedir :: "u64 \<Rightarrow> reply fs_run" where
  "fuse_releasedir fh = advance (\<lambda>s.
     (Reply_ok, s\<lparr>fs_dirs := (fs_dirs s)\<lparr>open_lists := (open_lists (fs_dirs s))(fh := None)\<rparr>\<rparr>))"

definition fuse_open :: "u64 \<Rightarrow> reply fs_run" where
  "fuse_open ino =
     abind (fs_key ino) (\<lambda>k. ret
       (case k of
          Some (Node _ _) \<Rightarrow> Reply_opened 0 Keep_cache
        | Some _ \<Rightarrow> Reply_error EISDIR
        | None \<Rightarrow> Reply_error ENOENT))"

definition fuse_read :: "env \<Rightarrow> u64 \<Rightarrow> u64 \<Rightarrow> u32 \<Rightarrow> reply fs_run" where
  "fuse_read env ino offset sz = answer (
     abind (known_ino ino) (\<lambda>key.
     abind (on_tree (tree_locate env key)) (\<lambda>loc.
     abind (on_tree (tree_read env loc offset (unat sz))) (\<lambda>data. ret (Reply_data data)))))"

definition sized :: "bytes \<Rightarrow> u32 \<Rightarrow> reply" where
  "sized v sz =
     (if sz = 0 then Reply_size (of_nat (length v))
      else if of_nat (length v) \<le> sz then Reply_data v
      else Reply_error ERANGE)"

definition fuse_getxattr :: "env \<Rightarrow> u64 \<Rightarrow> bytes \<Rightarrow> u32 \<Rightarrow> reply fs_run" where
  "fuse_getxattr env ino name sz = answer (
     abind (known_ino ino) (\<lambda>key.
     let wanted = from_utf8_lossy name in
     if \<not> prefix ''user.steam2.'' wanted then fail (Fs_errno ENODATA)
     else abind (on_tree (xattrs env key)) (\<lambda>attrs. ret
       (case List.find (\<lambda>(n, _). n = wanted) attrs of
          Some (_, v) \<Rightarrow> sized (as_bytes v) sz
        | None \<Rightarrow> Reply_error ENODATA))))"

definition fuse_listxattr :: "env \<Rightarrow> u64 \<Rightarrow> u32 \<Rightarrow> reply fs_run" where
  "fuse_listxattr env ino sz = answer (
     abind (known_ino ino) (\<lambda>key.
     abind (on_tree (xattrs env key)) (\<lambda>attrs.
     ret (sized (concat (map (\<lambda>(n, _). as_bytes n @ [0]) attrs)) sz))))"

definition fuse_statfs :: "env \<Rightarrow> reply fs_run" where
  "fuse_statfs env = ret (Reply_statfs (of_nat (length (blobs (env_index env)))))"

subsection \<open>The file system as a whole\<close>

datatype request =
    Lookup u64 bytes
  | Getattr u64
  | Readlink u64
  | Opendir u64
  | Readdir u64 u64 u64 "dir_item list \<Rightarrow> dir_item \<Rightarrow> bool"
  | Readdirplus u64 u64 u64 "plus_item list \<Rightarrow> plus_item \<Rightarrow> bool"
  | Releasedir u64
  | Open u64
  | Read_at u64 u64 u32
  | Getxattr u64 bytes u32
  | Listxattr u64 u32
  | Flush
  | Release
  | Statfs

fun handle :: "env \<Rightarrow> request \<Rightarrow> reply fs_run" where
  "handle env (Lookup dir name) = fuse_lookup env dir name"
| "handle env (Getattr ino) = fuse_getattr env ino"
| "handle env (Readlink ino) = fuse_readlink env ino"
| "handle env (Opendir ino) = fuse_opendir env ino"
| "handle env (Readdir ino fh off room) = fuse_readdir env room ino fh off"
| "handle env (Readdirplus ino fh off room) = fuse_readdirplus env room ino fh off"
| "handle env (Releasedir fh) = fuse_releasedir fh"
| "handle env (Open ino) = fuse_open ino"
| "handle env (Read_at ino off n) = fuse_read env ino off n"
| "handle env (Getxattr ino name n) = fuse_getxattr env ino name n"
| "handle env (Listxattr ino n) = fuse_listxattr env ino n"
| "handle env Flush = ret Reply_ok"
| "handle env Release = ret Reply_ok"
| "handle env Statfs = fuse_statfs env"

text \<open>What a sequence of requests leads to; the process ends with a panic.\<close>

inductive served :: "env \<Rightarrow> fs \<Rightarrow> fs \<Rightarrow> bool" for env s where
  idle: "served env s s"
| request: "served env s t \<Longrightarrow> handle env req t = (Inr reply, u) \<Longrightarrow> served env s u"

inductive_cases served_elim: "served env s t"

end
