(* ===== verification/Fuse_Inodes.thy ===== *)
theory Fuse_Inodes
  imports Fuse_Fs
begin

text \<open>
  Inode numbers of the FUSE front end: whatever is requested, in whatever order, the table stays a
  bijection, grows only, and the root stays number 1.
\<close>

section \<open>Inode numbers\<close>

text \<open>
  A table of inodes: every key has at most one number, every number one key, and the root is number 1.
\<close>

definition wf_inodes :: "inodes \<Rightarrow> bool" where
  "wf_inodes i \<longleftrightarrow>
     (\<forall>k n. ino_by_key i k = Some n \<longleftrightarrow> inode_key i n = Some k) \<and> inode_key i 1 = Some Root"

text \<open>Numbers do not wrap as long as fewer keys are interned than there are numbers.\<close>

definition MAX_KEYS :: nat where
  "MAX_KEYS = 2 ^ 63"

definition inode_inv :: "fs \<Rightarrow> bool" where
  "inode_inv s \<longleftrightarrow> (length (ino_keys (fs_inodes s)) < MAX_KEYS \<longrightarrow> wf_inodes (fs_inodes s))"

definition inode_frame :: "fs \<Rightarrow> fs \<Rightarrow> bool" where
  "inode_frame s s' \<longleftrightarrow> prefix (ino_keys (fs_inodes s)) (ino_keys (fs_inodes s'))"

interpretation inode_runs: run_logic inode_inv inode_frame
  by unfold_locales (auto simp: inode_frame_def)

lemma inode_key_prefix:
  assumes "prefix (ino_keys i) (ino_keys i')" and "inode_key i n = Some k"
  shows "inode_key i' n = Some k"
  using assms by (auto simp: inode_key_def nth_opt_def prefix_def nth_append split: if_splits)

lemma inode_key_snoc:
  assumes "Suc (length ks) < 2 ^ 64"
  shows "inode_key \<lparr>ino_by_key = f, ino_keys = ks @ [key]\<rparr> n =
    (if n = of_nat (length ks) + 1 then Some key else inode_key \<lparr>ino_by_key = g, ino_keys = ks\<rparr> n)"
proof -
  have num: "unat (of_nat (length ks) + 1 :: u64) = Suc (length ks)"
    using assms by (simp add: unat_word_ariths unat_of_nat)
  show ?thesis
  proof (cases "n = of_nat (length ks) + 1")
    case True
    then show ?thesis using num by (auto simp: inode_key_def nth_opt_def)
  next
    case False
    then have "unat n \<noteq> Suc (length ks)" using num by (metis word_unat_eq_iff)
    with False show ?thesis by (auto simp: inode_key_def nth_opt_def nth_append unat_gt_0 [symmetric])
  qed
qed

lemma intern_correct:
  assumes "wf_inodes i" and "length (ino_keys i) < MAX_KEYS" and "intern key i = (n, i')"
  shows "wf_inodes i'" and "inode_key i' n = Some key" and "prefix (ino_keys i) (ino_keys i')"
proof -
  have small: "Suc (length (ino_keys i)) < 2 ^ 64" using assms(2) by (simp add: MAX_KEYS_def)
  show "prefix (ino_keys i) (ino_keys i')"
    using assms(3) by (auto simp: intern_def Let_def split: option.splits)
  have "wf_inodes i' \<and> inode_key i' n = Some key"
  proof (cases "ino_by_key i key")
    case (Some m)
    with assms show ?thesis by (auto simp: intern_def wf_inodes_def)
  next
    case None
    obtain f ks where i: "i = \<lparr>ino_by_key = f, ino_keys = ks\<rparr>" by (cases i)
    let ?n = "of_nat (length ks) + 1 :: u64"
    have num: "unat ?n = Suc (length ks)" using small by (simp add: i unat_word_ariths unat_of_nat)
    have eq: "n = ?n" "i' = \<lparr>ino_by_key = f(key \<mapsto> ?n), ino_keys = ks @ [key]\<rparr>"
      using assms(3) None by (auto simp: i intern_def Let_def)
    have fresh: "inode_key i m \<noteq> Some key" for m
      using assms(1) None unfolding wf_inodes_def by (metis option.distinct(1))
    have old: "inode_key i ?n = None" using num by (simp add: i inode_key_def nth_opt_def)
    have at: "inode_key i' m = (if m = ?n then Some key else inode_key i m)" for m
      using inode_key_snoc [of ks "f(key \<mapsto> ?n)" key m f] small by (simp add: eq(2) i)
    have "ino_by_key i' k = Some m \<longleftrightarrow> inode_key i' m = Some k" for k m
      using assms(1) fresh [of m] old unfolding at by (auto simp: eq(2) i wf_inodes_def)
    moreover have "inode_key i' 1 = Some Root"
      using assms(1) old unfolding at wf_inodes_def by (metis option.distinct(1))
    ultimately show ?thesis using at eq(1) by (simp add: wf_inodes_def)
  qed
  then show "wf_inodes i'" "inode_key i' n = Some key" by auto
qed

section \<open>What the handlers have in common\<close>

definition keeps :: "(fs \<Rightarrow> bool) \<Rightarrow> (fs \<Rightarrow> fs \<Rightarrow> bool) \<Rightarrow> 'a fs_run \<Rightarrow> bool" where
  "keeps I G m \<longleftrightarrow> (\<forall>s. sat I G m (\<lambda>_ _. True) s)"

text \<open>
  An invariant that work in the store and the interning of a key keep: every handler keeps it, except
  for those that open and close directories, which change the open listings as well.
\<close>

locale fs_frame = run_logic I G for I :: "fs \<Rightarrow> bool" and G :: "fs \<Rightarrow> fs \<Rightarrow> bool" +
  assumes store_step: "I s \<Longrightarrow> I (s\<lparr>fs_store := st\<rparr>) \<and> G s (s\<lparr>fs_store := st\<rparr>)"
    and ino_step: "I s \<Longrightarrow> intern key (fs_inodes s) = (n, i) \<Longrightarrow> I (s\<lparr>fs_inodes := i\<rparr>) \<and> G s (s\<lparr>fs_inodes := i\<rparr>)"
begin

lemma keeps_simple: "keeps I G (ret x)" "keeps I G (fail e)" "keeps I G (gets f)" "keeps I G (pure r)"
  by (auto simp: keeps_def intro: sat_ret sat_fail sat_gets sat_pure)

lemma keeps_abind:
  assumes "keeps I G m" and "\<And>x. keeps I G (f x)"
  shows "keeps I G (abind m f)"
  using assms unfolding keeps_def by (blast intro: sat_abind)

lemma keeps_splits:
  "(P \<Longrightarrow> keeps I G m) \<Longrightarrow> (\<not> P \<Longrightarrow> keeps I G m') \<Longrightarrow> keeps I G (if P then m else m')"
  "(y = None \<Longrightarrow> keeps I G n) \<Longrightarrow> (\<And>x. y = Some x \<Longrightarrow> keeps I G (g x)) \<Longrightarrow>
    keeps I G (case y of None \<Rightarrow> n | Some x \<Rightarrow> g x)"
  "keeps I G (h z) \<Longrightarrow> keeps I G (Let z h)"
  by (auto split: option.split)

lemma keeps_answer: "keeps I G m \<Longrightarrow> keeps I G (answer m)"
  by (auto simp: keeps_def sat_def answer_def split: prod.splits sum.splits fs_failure.splits)

lemma keeps_on_tree: "keeps I G (on_tree m)"
  using store_step by (auto simp: keeps_def sat_def on_tree_def split: prod.splits)

lemma keeps_fs_ino: "keeps I G (fs_ino key)"
  unfolding keeps_def fs_ino_def using ino_step by (auto simp: sat_def advance_def split: prod.splits)

lemmas keeps_rules = keeps_simple keeps_abind keeps_splits keeps_answer keeps_on_tree keeps_fs_ino

lemma keeps_parts:
  "keeps I G (fs_key ino)" "keeps I G (known_ino ino)" "keeps I G (fs_attr ino kind n t)" "keeps I G (attr_of key mt)"
  "keeps I G (attr_for env key)" "keeps I G (dir_entries env key)" "keeps I G (dir_list env ino fh)"
  unfolding known_ino_def attr_of_def attr_for_def dir_entries_def dir_list_def fs_key_def fs_attr_def
  by (intro keeps_rules)+

lemma keeps_attr_or_blank: "keeps I G (attr_or_blank env ino key kind)"
proof -
  have "keeps I G (attr_for env key)" by (rule keeps_parts)
  then show ?thesis
    unfolding keeps_def sat_def attr_or_blank_def fs_attr_def gets_def
    by (auto split: prod.splits sum.splits fs_failure.splits)
qed

lemma keeps_loops: "keeps I G (readdir_loop room xs acc)" "keeps I G (readdirplus_loop env rm xs acc')"
proof -
  show "keeps I G (readdir_loop room xs acc)"
    by (induction room xs acc rule: readdir_loop.induct) (auto intro!: keeps_rules)
  show "keeps I G (readdirplus_loop env rm xs acc')"
    by (induction env rm xs acc' rule: readdirplus_loop.induct) (auto intro!: keeps_rules keeps_attr_or_blank)
qed

lemma keeps_handle:
  assumes "\<not> (\<exists>ino. req = Opendir ino)" and "\<not> (\<exists>fh. req = Releasedir fh)"
  shows "keeps I G (handle env req)"
  using assms
  by (cases req)
    (simp_all add: fuse_lookup_def fuse_getattr_def fuse_readlink_def fuse_readdir_def
      fuse_readdirplus_def fuse_open_def fuse_read_def fuse_getxattr_def fuse_listxattr_def
      fuse_statfs_def Let_def keeps_rules keeps_parts keeps_loops)

end

section \<open>Every request keeps the table\<close>

lemma intern_keeps:
  assumes "inode_inv s" and i: "intern key (fs_inodes s) = (n, i)"
  shows "inode_inv (s\<lparr>fs_inodes := i\<rparr>) \<and> inode_frame s (s\<lparr>fs_inodes := i\<rparr>)"
    and "length (ino_keys i) < MAX_KEYS \<Longrightarrow> inode_key i n = Some key"
proof -
  have grow: "prefix (ino_keys (fs_inodes s)) (ino_keys i)"
    using i by (auto simp: intern_def Let_def split: option.splits)
  then have "length (ino_keys (fs_inodes s)) \<le> length (ino_keys i)" by (rule prefix_length_le)
  with assms intern_correct(1,2) [OF _ _ i] grow
  show "inode_inv (s\<lparr>fs_inodes := i\<rparr>) \<and> inode_frame s (s\<lparr>fs_inodes := i\<rparr>)"
    and "length (ino_keys i) < MAX_KEYS \<Longrightarrow> inode_key i n = Some key"
    by (auto simp: inode_inv_def inode_frame_def)
qed

interpretation numbers: fs_frame inode_inv inode_frame
  by unfold_locales (simp add: inode_inv_def inode_frame_def, rule intern_keeps(1))

lemma dirs_numbers: "keeps inode_inv inode_frame (advance (\<lambda>s. (g s, s\<lparr>fs_dirs := h s\<rparr>)))"
  by (auto simp: keeps_def sat_def advance_def inode_inv_def inode_frame_def)

lemma handle_numbers: "keeps inode_inv inode_frame (handle env req)"
proof (cases "(\<exists>ino. req = Opendir ino) \<or> (\<exists>fh. req = Releasedir fh)")
  case True
  then show ?thesis
    by (auto simp: fuse_opendir_def fuse_releasedir_def Let_def
        intro!: numbers.keeps_rules numbers.keeps_parts dirs_numbers)
next
  case False
  then show ?thesis by (intro numbers.keeps_handle) auto
qed

lemma served_keeps:
  assumes "served env s t" and "inode_inv s"
  shows "inode_inv t \<and> inode_frame s t"
  using assms
proof (induction rule: served.induct)
  case idle
  then show ?case by (simp add: inode_frame_def)
next
  case (request t req reply u)
  have "sat inode_inv inode_frame (handle env req) (\<lambda>_ _. True) t" using handle_numbers by (simp add: keeps_def)
  from satD [OF this _ request.hyps(2)] request.IH request.prems show ?case by (auto simp: inode_frame_def)
qed

lemma fs_new_inodes: "inode_inv (fs_new st uid gid)"
proof -
  have "inode_key inodes_new n = (if n = 1 then Some Root else None)" for n
  proof (cases "n = 0 \<or> n = 1")
    case False
    then have "unat n \<noteq> unat (0 :: u64)" "unat n \<noteq> unat (1 :: u64)" by (simp_all only: word_unat_eq_iff [symmetric] de_Morgan_disj not_False_eq_True)
    then have "\<not> unat n - 1 < 1" by simp
    with False show ?thesis by (simp add: inodes_new_def intern_def Let_def inode_key_def nth_opt_def)
  qed (auto simp: inodes_new_def intern_def Let_def inode_key_def nth_opt_def)
  then show ?thesis
    by (auto simp: inode_inv_def fs_new_def wf_inodes_def inodes_new_def intern_def Let_def)
qed

end
