(* ===== verification/Fuse_Safety.thy ===== *)
theory Fuse_Safety
  imports Served_Files Fuse_Inodes
begin

text \<open>
  Every request is answered.  The file system keeps the invariants of the store, its inodes and its open
  directories name only keys of the dump, and on a good dump no handler ends the process.
\<close>

section \<open>The invariant\<close>

definition fs_inv :: "env \<Rightarrow> (string \<Rightarrow> bytes) \<Rightarrow> fs \<Rightarrow> bool" where
  "fs_inv env files s \<longleftrightarrow>
     store_inv env files (located_files env files) (fs_store s) \<and>
     (\<forall>k \<in> set (ino_keys (fs_inodes s)). known_key env files k) \<and>
     (\<forall>k n. ino_by_key (fs_inodes s) k = Some n \<longrightarrow> known_key env files k) \<and>
     (\<forall>l \<in> ran (open_lists (fs_dirs s)). \<forall>(_, k, _) \<in> set l. known_key env files k)"

definition fs_step :: "fs \<Rightarrow> fs \<Rightarrow> bool" where
  "fs_step s s' \<longleftrightarrow> inode_frame s s' \<and> store_frame (fs_store s) (fs_store s')"

interpretation fs_runs: run_logic "fs_inv env files" fs_step for env files
  by unfold_locales (auto simp: fs_step_def inode_frame_def store_frame_def intro: map_le_trans)

text \<open>A run that ends the process only when the backend fails or a blob is bad.\<close>

definition answers :: "env \<Rightarrow> (string \<Rightarrow> bytes) \<Rightarrow> ('a \<Rightarrow> bool) \<Rightarrow> 'a fs_run \<Rightarrow> bool" where
  "answers env files P m \<longleftrightarrow>
     (\<forall>s. sat (fs_inv env files) fs_step m
       (\<lambda>r s. case r of Inr x \<Rightarrow> P x | Inl e \<Rightarrow> e \<noteq> Fs_panic \<or> \<not> (reliable env \<and> all_intact env files)) s)"

lemma answers_ret: "P x \<Longrightarrow> answers env files P (ret x)"
  by (simp add: answers_def fs_runs.sat_ret)

lemma answers_fail: "answers env files P (fail (Fs_errno e))"
  by (simp add: answers_def fs_runs.sat_fail)

lemma answers_gets: "(\<And>s. fs_inv env files s \<Longrightarrow> P (f s)) \<Longrightarrow> answers env files P (gets f)"
  by (simp add: answers_def fs_runs.sat_gets)

lemma answers_abind:
  assumes "answers env files P m" and "\<And>x. P x \<Longrightarrow> answers env files Q (f x)"
  shows "answers env files Q (abind m f)"
  unfolding answers_def
  by (intro allI fs_runs.sat_abind [OF spec [OF assms(1) [unfolded answers_def]]])
    (use assms(2) in \<open>auto simp: answers_def\<close>)

lemma answers_weaken: "answers env files P m \<Longrightarrow> (\<And>x. P x \<Longrightarrow> Q x) \<Longrightarrow> answers env files Q m"
  unfolding answers_def by (intro allI, erule allE, erule sat_weaken) (auto split: sum.splits)

lemma answers_split:
  "(c \<Longrightarrow> answers env files P m) \<Longrightarrow> (\<not> c \<Longrightarrow> answers env files P m') \<Longrightarrow> answers env files P (if c then m else m')"
  "(y = None \<Longrightarrow> answers env files P n) \<Longrightarrow> (\<And>x. y = Some x \<Longrightarrow> answers env files P (g x)) \<Longrightarrow>
    answers env files P (case y of None \<Rightarrow> n | Some x \<Rightarrow> g x)"
  by (auto split: option.split)

lemma answers_answer:
  assumes "answers env files P m" and "\<And>e. P (Reply_error e)"
  shows "answers env files P (answer m)"
  using assms by (auto simp: answers_def sat_def answer_def split: prod.splits sum.splits fs_failure.splits)

text \<open>Work in the store.\<close>

lemma answers_on_tree:
  assumes "\<And>s. sat (store_inv env files (located_files env files)) store_frame m
    (\<lambda>r s. case r of Inr x \<Rightarrow> P x | Inl e \<Rightarrow> e \<noteq> Tree_panic \<or> \<not> (reliable env \<and> all_intact env files)) s"
  shows "answers env files P (on_tree m)"
  unfolding answers_def
proof (intro allI satI)
  fix s r s'
  assume inv: "fs_inv env files s" and run: "on_tree m s = (r, s')"
  obtain r0 st where m: "m (fs_store s) = (r0, st)" by fastforce
  then have s': "s' = s\<lparr>fs_store := st\<rparr>" "r = map_err to_errno r0" using run by (auto simp: on_tree_def)
  have "store_inv env files (located_files env files) (fs_store s)" using inv by (simp add: fs_inv_def)
  from satD [OF assms this m] inv s' show "fs_inv env files s' \<and> fs_step s s' \<and>
      (case r of Inr x \<Rightarrow> P x | Inl e \<Rightarrow> e \<noteq> Fs_panic \<or> \<not> (reliable env \<and> all_intact env files))"
    by (cases r0) (auto simp: fs_inv_def fs_step_def inode_frame_def elim: to_errno.elims)
qed

lemma sound_outcome:
  assumes "sat I G m (\<lambda>r s. sound env files P r) s"
  shows "sat I G m (\<lambda>r s. case r of Inr x \<Rightarrow> P x | Inl e \<Rightarrow> e \<noteq> Tree_panic \<or> \<not> (reliable env \<and> all_intact env files)) s"
  by (rule sat_weaken [OF assms]) (auto simp: sound_def split: sum.splits)

lemma answers_fs_ino:
  assumes "known_key env files key"
  shows "answers env files (\<lambda>_. True) (fs_ino key)"
  unfolding answers_def fs_ino_def
  using assms
  by (auto simp: sat_def advance_def fs_inv_def fs_step_def inode_frame_def store_frame_def intern_def Let_def
      split: option.splits prod.splits if_splits)

lemma answers_known_ino: "answers env files (known_key env files) (known_ino ino)"
proof -
  have "known_key env files k" if "fs_inv env files s" "inode_key (fs_inodes s) ino = Some k" for s k
    using that by (auto simp: fs_inv_def inode_key_def nth_opt_def split: if_splits)
  then show ?thesis
    by (auto simp: answers_def sat_def known_ino_def fs_key_def abind_def gets_def pure_def ok_or_def
        fs_runs.G_refl split: option.splits)
qed

section \<open>The handlers\<close>

lemma answers_meta:
  assumes "good_dump env files" and "known_key env files key"
  shows "answers env files (\<lambda>_. True) (on_tree (tree_meta env key))"
  by (rule answers_weaken [OF answers_on_tree [OF sound_outcome [OF sat_tree_meta]]])
    (use assms good_dump_parts in auto)

lemma answers_attr_for:
  assumes "good_dump env files" and "known_key env files key"
  shows "answers env files (\<lambda>_. True) (attr_for env key)"
  unfolding attr_for_def attr_of_def fs_attr_def
  by (intro answers_abind [OF answers_meta [OF assms]] answers_abind [OF answers_fs_ino [OF assms(2)]] answers_gets TrueI)

lemma answers_attr_or_blank:
  assumes "good_dump env files" and "known_key env files key"
  shows "answers env files (\<lambda>_. True) (attr_or_blank env ino key kind)"
  using answers_attr_for [OF assms]
  by (auto simp: answers_def sat_def attr_or_blank_def fs_attr_def gets_def
      split: prod.splits sum.splits fs_failure.splits)

lemma sat_tree_parent:
  assumes good: "good_dump env files" and k: "known_key env files key"
  shows "sat (store_inv env files L) store_frame (tree_parent env key)
    (\<lambda>r s. sound env files (known_key env files) r) s"
proof (cases "\<exists>b i. key = Node b i")
  case True
  note parts = good_dump_parts [OF good]
  from True obtain b i where key: "key = Node b i" by blast
  with k have b: "known env b" by simp
  have up: "known_key env files (node_key b m (parent n))"
    if m: "manifest_of env files b = Some m" and n: "node_at m i = Some n" for m n
  proof (cases "parent n = root m")
    case False
    have "single_root m" using parts(6) [OF k] m by (simp add: key)
    moreover have "i \<noteq> root m" using k key m by auto
    ultimately have "parent n \<noteq> NO_NODE" using n by (auto simp: single_root_def)
    with manifest_of_wf [OF m] n have "unat (parent n) < length (nodes m)"
      by (auto simp: wf_manifest_def node_at_def nth_opt_def split: if_splits)
    with False b m show ?thesis by (simp add: node_key_def node_at_def nth_opt_def)
  qed (use b in \<open>simp add: node_key_def\<close>)
  show ?thesis
    unfolding key tree_parent.simps
    by (rule store_runs.sat_abind [OF sat_attempt_manifest [OF parts(1,2) b]])
      (use b up in \<open>auto split: option.splits intro!: store_runs.sat_ret\<close>)
next
  case False
  have "known_key env files (Depot (bf_depot (index_blob (env_index env) b)))" if "known env b" for b
    using loaded_depot_some [OF closed_index_parts(1) [OF good_dump_parts(2) [OF good]], of "unat b"] that
    by (simp add: known_def index_blob_def)
  with False k show ?thesis by (cases key) (auto intro!: store_runs.sat_ret)
qed

lemma answers_dir_entries:
  assumes "good_dump env files" and "known_key env files key"
  shows "answers env files (\<lambda>l. \<forall>(_, k, _) \<in> set l. known_key env files k) (dir_entries env key)"
proof -
  note parts = good_dump_parts [OF assms(1)]
  have "answers env files (\<lambda>es. \<forall>e \<in> set es. listed env files e) (on_tree (entries env key))"
    by (rule answers_on_tree, rule sat_weaken [OF sat_entries [OF parts(1,2) assms(2) parts(6) [OF assms(2)]]])
      (auto simp: opens_def split: sum.splits)
  moreover have "answers env files (known_key env files) (on_tree (tree_parent env key))"
    by (rule answers_on_tree [OF sound_outcome [OF sat_tree_parent [OF assms]]])
  ultimately show ?thesis
    unfolding dir_entries_def
    by (elim answers_abind) (auto simp: listed_def assms(2) intro!: answers_ret)
qed

lemma answers_dir_list:
  assumes "good_dump env files"
  shows "answers env files (\<lambda>l. \<forall>(_, k, _) \<in> set l. known_key env files k) (dir_list env ino fh)"
proof -
  have "answers env files (\<lambda>x. \<forall>l. x = Some l \<longrightarrow> (\<forall>(_, k, _) \<in> set l. known_key env files k))
      (gets (\<lambda>s. open_lists (fs_dirs s) fh))"
    by (rule answers_gets) (auto simp: fs_inv_def ran_def)
  then show ?thesis
    unfolding dir_list_def
    by (rule answers_abind)
      (auto intro!: answers_split answers_ret answers_abind [OF answers_known_ino] answers_dir_entries [OF assms])
qed

lemma answers_loops:
  assumes "good_dump env files" and "\<forall>(_, _, k, _) \<in> set xs. known_key env files k"
  shows "answers env files (\<lambda>_. True) (readdir_loop room xs acc)"
    and "answers env files (\<lambda>_. True) (readdirplus_loop env rm xs acc')"
proof -
  show "answers env files (\<lambda>_. True) (readdir_loop room xs acc)"
    using assms(2)
    by (induction room xs acc rule: readdir_loop.induct)
      (auto simp: Let_def intro!: answers_ret answers_split answers_abind [OF answers_fs_ino])
  show "answers env files (\<lambda>_. True) (readdirplus_loop env rm xs acc')"
    using assms
    by (induction env rm xs acc' rule: readdirplus_loop.induct)
      (auto simp: Let_def intro!: answers_ret answers_split answers_abind [OF answers_fs_ino]
        answers_abind [OF answers_attr_or_blank])
qed

lemma sat_attempt_parsed:
  assumes "good_dump env files" and "known env b"
  shows "sat (store_inv env files L) store_frame (attempt (parsed env b)) (\<lambda>r s. sound env files (\<lambda>_. True) r) s"
  by (rule sat_attempt [OF store_lift_blob [OF sat_parsed [OF good_dump_parts(1,2) [OF assms(1)] assms(2)]]])
    (use assms(2) in \<open>auto simp: yields_def all_intact_def\<close>)

lemma sat_blob_attrs:
  assumes "good_dump env files" and "known env b"
  shows "sat (store_inv env files L) store_frame (blob_attrs env b) (\<lambda>r s. sound env files (\<lambda>_. True) r) s"
  unfolding blob_attrs_def Let_def
  by (rule store_runs.sat_abind [OF sat_attempt_parsed [OF assms]]) (auto intro!: store_runs.sat_ret)

lemma sat_node_attrs:
  assumes "good_dump env files" and "known env b"
  shows "sat (store_inv env files L) store_frame (node_attrs env b n) (\<lambda>r s. sound env files (\<lambda>_. True) r) s"
proof (cases "is_dir n")
  case True
  then show ?thesis by (simp add: node_attrs_def Let_def store_runs.sat_ret)
next
  case False
  show ?thesis
    unfolding node_attrs_def Let_def if_not_P [OF False]
    by (rule store_runs.sat_abind [OF sat_attempt_locate [OF good_dump_parts(1-3) [OF assms(1)] assms(2)]])
      (auto intro!: store_runs.sat_ret)
qed

lemma sat_xattrs:
  assumes good: "good_dump env files" and k: "known_key env files key"
  shows "sat (store_inv env files L) store_frame (xattrs env key) (\<lambda>r s. sound env files (\<lambda>_. True) r) s"
proof (cases "\<exists>b i. key = Node b i")
  case True
  from True obtain b i where key: "key = Node b i" by blast
  with k have b: "known env b" by simp
  have "sat (store_inv env files L) store_frame
      (case y of None \<Rightarrow> ret own | Some n \<Rightarrow> abind (node_attrs env b n) (\<lambda>more. ret (own @ more)))
      (\<lambda>r s. sound env files (\<lambda>_. True) r) s1" for y own s1
    by (cases y) (auto intro!: store_runs.sat_ret store_runs.sat_abind [OF sat_node_attrs [OF good b]])
  then show ?thesis
    unfolding key xattrs.simps
    by (intro store_runs.sat_abind [OF sat_blob_attrs [OF good b]]
        store_runs.sat_abind [OF sat_attempt_manifest [OF good_dump_parts(1,2) [OF good] b]]) auto
next
  case False
  with k sat_blob_attrs [OF good] show ?thesis by (cases key) (auto intro!: store_runs.sat_ret)
qed

lemma answers_opendir:
  assumes "good_dump env files"
  shows "answers env files (\<lambda>_. True) (fuse_opendir env ino)"
proof -
  have add: "answers env files (\<lambda>_. True) (advance (\<lambda>s.
      let fh = next_fh (fs_dirs s) + 1
      in (Reply_opened fh No_flags,
          s\<lparr>fs_dirs := \<lparr>next_fh = fh, open_lists = (open_lists (fs_dirs s))(fh \<mapsto> es)\<rparr>\<rparr>)))"
    if "\<forall>(_, k, _) \<in> set es. known_key env files k" for es
    using that
    by (auto simp: answers_def sat_def advance_def Let_def fs_inv_def fs_step_def inode_frame_def store_frame_def
        ran_def split: if_splits)
  show ?thesis
    unfolding fuse_opendir_def
    by (intro answers_answer answers_abind [OF answers_known_ino] answers_abind [OF answers_dir_entries [OF assms]]
        add TrueI)
qed

lemma answers_read:
  assumes "good_dump env files"
  shows "answers env files (\<lambda>_. True) (fuse_read env ino off n)"
proof -
  have n: "unat n \<le> ISIZE_MAX" using unat_u32_less [of n] by (simp add: ISIZE_MAX_def)
  have "answers env files (\<lambda>loc. loc \<in> located_files env files) (on_tree (tree_locate env key))"
    if "known_key env files key" for key
    by (rule answers_on_tree [OF sat_tree_locate [OF assms that]])
  moreover have "answers env files (\<lambda>_. True) (on_tree (tree_read env loc off (unat n)))"
    if "loc \<in> located_files env files" for loc
    by (rule answers_on_tree, rule sat_weaken [OF sat_tree_read [OF assms that n]]) (auto split: sum.splits)
  ultimately show ?thesis
    unfolding fuse_read_def
    by (intro answers_answer answers_abind [OF answers_known_ino]) (auto intro!: answers_abind answers_ret)
qed

lemma sat_tree_lookup_known:
  assumes "good_dump env files" and "known_key env files key"
  shows "answers env files (\<lambda>r. \<forall>k. r = Some k \<longrightarrow> known_key env files k) (on_tree (tree_lookup env key name))"
proof -
  note parts = good_dump_parts [OF assms(1)]
  show ?thesis
    by (rule answers_on_tree, rule sat_weaken [OF sat_tree_lookup [OF parts(1,2) assms(2)]])
      (use parts(6) [OF assms(2)] in \<open>auto split: sum.splits\<close>)
qed

lemma answers_gets_true: "answers env files (\<lambda>_. True) (gets f)"
  by (rule answers_gets) simp

lemma listed_rest:
  assumes "\<forall>(_, k, _) \<in> set es. P k"
  shows "\<forall>(_, _, k, _) \<in> set (drop n (enumerate 0 es)). P k"
proof (intro ballI)
  fix x assume "x \<in> set (drop n (enumerate 0 es))"
  then have "fst x < length es" "es ! fst x = snd x" by (auto simp: in_set_enumerate_eq dest!: in_set_dropD)
  then have "snd x \<in> set es" using nth_mem [of "fst x" es] by simp
  with assms show "case x of (_, _, k, _) \<Rightarrow> P k" by (cases x) auto
qed

lemma answers_handle:
  assumes "good_dump env files"
  shows "answers env files (\<lambda>_. True) (handle env req)"
proof (cases req)
  case (Lookup dir name)
  show ?thesis
    unfolding Lookup handle.simps fuse_lookup_def
    by (intro answers_answer answers_abind [OF answers_known_ino]
        answers_abind [OF sat_tree_lookup_known [OF assms]] answers_split answers_fail)
      (auto intro!: answers_abind [OF answers_attr_for [OF assms]] answers_ret)
next
  case (Getattr ino)
  show ?thesis
    unfolding Getattr handle.simps fuse_getattr_def
    by (intro answers_answer answers_abind [OF answers_known_ino] answers_abind [OF answers_attr_for [OF assms]]
        answers_ret TrueI)
next
  case (Readlink ino)
  show ?thesis
    unfolding Readlink handle.simps fuse_readlink_def fs_key_def
    by (intro answers_abind [OF answers_gets_true] answers_ret TrueI)
next
  case (Opendir ino)
  show ?thesis unfolding Opendir handle.simps by (rule answers_opendir [OF assms])
next
  case (Readdir ino fh off room)
  show ?thesis
    unfolding Readdir handle.simps fuse_readdir_def
    by (intro answers_answer answers_abind [OF answers_dir_list [OF assms]]
        answers_abind [OF answers_loops(1) [OF assms]] answers_ret TrueI listed_rest)
next
  case (Readdirplus ino fh off room)
  show ?thesis
    unfolding Readdirplus handle.simps fuse_readdirplus_def
    by (intro answers_answer answers_abind [OF answers_dir_list [OF assms]]
        answers_abind [OF answers_loops(2) [OF assms]] answers_ret TrueI listed_rest)
next
  case (Releasedir fh)
  have "ran (m(fh := None)) \<subseteq> ran m" for m :: "u64 \<rightharpoonup> dir_list" by (auto simp: ran_def split: if_splits)
  then show ?thesis
    unfolding Releasedir handle.simps fuse_releasedir_def
    by (fastforce simp: answers_def sat_def advance_def fs_inv_def fs_step_def inode_frame_def store_frame_def)
next
  case (Open ino)
  show ?thesis
    unfolding Open handle.simps fuse_open_def fs_key_def
    by (intro answers_abind [OF answers_gets_true] answers_ret TrueI)
next
  case (Read_at ino off n)
  show ?thesis unfolding Read_at handle.simps by (rule answers_read [OF assms])
next
  case (Getxattr ino name n)
  show ?thesis
    unfolding Getxattr handle.simps fuse_getxattr_def Let_def
    by (intro answers_answer answers_abind [OF answers_known_ino] answers_split answers_fail
        answers_abind [OF answers_on_tree [OF sound_outcome [OF sat_xattrs [OF assms]]]] answers_ret TrueI)
next
  case (Listxattr ino n)
  show ?thesis
    unfolding Listxattr handle.simps fuse_listxattr_def
    by (intro answers_answer answers_abind [OF answers_known_ino]
        answers_abind [OF answers_on_tree [OF sound_outcome [OF sat_xattrs [OF assms]]]] answers_ret TrueI)
qed (auto simp: fuse_statfs_def intro!: answers_ret)

text \<open>A handler never fails with an error number: it is sent as the reply.\<close>

lemma handle_replies: "handle env req s = (Inl e, t) \<Longrightarrow> e = Fs_panic"
proof -
  have "answer m s = (Inl e, t) \<Longrightarrow> e = Fs_panic" for m
    by (auto simp: answer_def split: prod.splits sum.splits fs_failure.splits)
  then show "handle env req s = (Inl e, t) \<Longrightarrow> e = Fs_panic"
    by (cases req) (auto simp: fuse_lookup_def fuse_getattr_def fuse_readlink_def fuse_opendir_def fuse_readdir_def
        fuse_readdirplus_def fuse_releasedir_def fuse_open_def fuse_read_def fuse_getxattr_def fuse_listxattr_def
        fuse_statfs_def fs_key_def abind_def gets_def ret_def advance_def split: prod.splits)
qed

lemma handle_answers:
  assumes "good_dump env files" and "reliable env" and "all_intact env files" and "fs_inv env files s"
  obtains reply t where "handle env req s = (Inr reply, t)" "fs_inv env files t" "fs_step s t"
proof -
  obtain r t where run: "handle env req s = (r, t)" by fastforce
  from satD [OF spec [OF answers_handle [OF assms(1), unfolded answers_def]] assms(4) run] assms(2,3)
  have "fs_inv env files t" "fs_step s t" "r \<noteq> Inl Fs_panic" by (auto split: sum.splits)
  with that run handle_replies [of env req s] show ?thesis by (cases r) auto
qed

lemma served_inv:
  assumes "good_dump env files" and "served env s t" and "fs_inv env files s"
  shows "fs_inv env files t \<and> fs_step s t"
  using assms(2,3)
proof (induction rule: served.induct)
  case (request t req reply u)
  from satD [OF spec [OF answers_handle [OF assms(1), unfolded answers_def]] _ request.hyps(2)] request
  show ?case by (auto intro: fs_runs.G_trans)
qed (simp add: fs_runs.G_refl)

lemma fs_new_inv:
  assumes "store_inv env files (located_files env files) st"
  shows "fs_inv env files (fs_new st uid gid)"
  using assms by (simp add: fs_inv_def fs_new_def inodes_new_def intern_def Let_def)

end
