(* ===== verification/Fuse_Paging.thy ===== *)
theory Fuse_Paging
  imports Fuse_Inodes
begin

text \<open>
  Paging through an open directory: the kernel reads the listing of a handle in as many calls as its
  buffer needs, each continuing at the offset of the last entry it got, while other requests are served
  in between.
\<close>

section \<open>Open listings\<close>

definition dirs_kept :: "fs \<Rightarrow> fs \<Rightarrow> bool" where
  "dirs_kept s s' \<longleftrightarrow> fs_dirs s' = fs_dirs s"

interpretation dirs: fs_frame "\<lambda>_. True" dirs_kept
  by unfold_locales (auto simp: dirs_kept_def)

lemma kept_run: "keeps (\<lambda>_. True) dirs_kept m \<Longrightarrow> m s = (r, t) \<Longrightarrow> fs_dirs t = fs_dirs s"
  by (auto simp: keeps_def sat_def dirs_kept_def dest!: spec [of _ s])

text \<open>
  Requests that leave the handle alone: it is not released, and the counter of handles does not come
  round to it.
\<close>

inductive undisturbed :: "env \<Rightarrow> u64 \<Rightarrow> fs \<Rightarrow> fs \<Rightarrow> bool" for env fh s where
  at_once: "undisturbed env fh s s"
| other: "undisturbed env fh s t \<Longrightarrow> handle env req t = (Inr reply, u) \<Longrightarrow> req \<noteq> Releasedir fh \<Longrightarrow>
    next_fh (fs_dirs t) + 1 \<noteq> fh \<or> \<not> (\<exists>ino. req = Opendir ino) \<Longrightarrow> undisturbed env fh s u"

lemma undisturbed_served: "undisturbed env fh s t \<Longrightarrow> served env s t"
  by (induction rule: undisturbed.induct) (auto intro: served.intros)

lemma opendir_run:
  assumes "fuse_opendir env ino s = (Inr reply, t)"
  shows "fs_dirs t = fs_dirs s \<or>
    (\<exists>es fh. fh = next_fh (fs_dirs s) + 1 \<and> reply = Reply_opened fh No_flags \<and>
       fs_dirs t = \<lparr>next_fh = fh, open_lists = (open_lists (fs_dirs s))(fh \<mapsto> es)\<rparr>)"
proof -
  let ?m = "abind (known_ino ino) (dir_entries env)"
  obtain r u where m: "?m s = (r, u)" by fastforce
  have "keeps (\<lambda>_. True) dirs_kept ?m" by (intro dirs.keeps_rules dirs.keeps_parts)
  from kept_run [OF this m] have d: "fs_dirs u = fs_dirs s" .
  have "fuse_opendir env ino s = (case r of
      Inr es \<Rightarrow> (Inr (Reply_opened (next_fh (fs_dirs u) + 1) No_flags),
        u\<lparr>fs_dirs := \<lparr>next_fh = next_fh (fs_dirs u) + 1, open_lists = (open_lists (fs_dirs u))(next_fh (fs_dirs u) + 1 \<mapsto> es)\<rparr>\<rparr>)
    | Inl (Fs_errno e) \<Rightarrow> (Inr (Reply_error e), u)
    | Inl Fs_panic \<Rightarrow> (Inl Fs_panic, u))"
    using m by (auto simp: fuse_opendir_def answer_def abind_def advance_def Let_def split: prod.splits sum.splits fs_failure.splits)
  with assms d show ?thesis by (auto split: sum.splits fs_failure.splits)
qed

lemma handle_kept:
  assumes "handle env req s = (Inr reply, t)" and "req \<noteq> Releasedir fh"
    and "next_fh (fs_dirs s) + 1 \<noteq> fh \<or> \<not> (\<exists>ino. req = Opendir ino)"
  shows "open_lists (fs_dirs t) fh = open_lists (fs_dirs s) fh"
proof -
  consider ino where "req = Opendir ino" | fh' where "req = Releasedir fh'"
    | "\<not> (\<exists>ino. req = Opendir ino)" "\<not> (\<exists>fh. req = Releasedir fh)" by blast
  then show ?thesis
  proof cases
    case 1
    with opendir_run [of env ino s reply t] assms show ?thesis by auto
  next
    case 2
    with assms show ?thesis by (auto simp: fuse_releasedir_def advance_def)
  next
    case 3
    with kept_run [OF dirs.keeps_handle assms(1)] show ?thesis by simp
  qed
qed

lemma undisturbed_kept: "undisturbed env fh s t \<Longrightarrow> open_lists (fs_dirs t) fh = open_lists (fs_dirs s) fh"
  by (induction rule: undisturbed.induct) (simp_all add: handle_kept)

section \<open>One call\<close>

text \<open>An item of a reply stands for an entry of the listing: same name and kind, the inode of its key, and the offset to go on from.\<close>

fun shown :: "fs \<Rightarrow> nat \<times> bytes \<times> tree_key \<times> file_type \<Rightarrow> dir_item \<Rightarrow> bool" where
  "shown t (i, name, key, kind) (ino, off, kind', name') \<longleftrightarrow>
     off = of_nat i + 1 \<and> kind' = kind \<and> name' = name \<and> inode_key (fs_inodes t) ino = Some key"

lemma shown_mono: "inode_frame s t \<Longrightarrow> shown s x y \<Longrightarrow> shown t x y"
  by (cases x; cases y) (auto simp: inode_frame_def intro: inode_key_prefix)

lemma fs_ino_run:
  obtains n t where "fs_ino key s = (Inr n, t)" and "fs_dirs t = fs_dirs s" and "inode_inv s \<Longrightarrow> inode_inv t"
    and "inode_inv s \<Longrightarrow> inode_frame s t"
    and "inode_inv s \<Longrightarrow> length (ino_keys (fs_inodes t)) < MAX_KEYS \<Longrightarrow> inode_key (fs_inodes t) n = Some key"
proof -
  obtain n i where i: "intern key (fs_inodes s) = (n, i)" by fastforce
  then have "fs_ino key s = (Inr n, s\<lparr>fs_inodes := i\<rparr>)" by (simp add: fs_ino_def advance_def)
  with that intern_keeps [OF _ i] show ?thesis by fastforce
qed

lemma readdir_loop_run:
  assumes "inode_inv s"
  shows "\<exists>n items t. readdir_loop room xs acc s = (Inr (acc @ items), t) \<and> n \<le> length xs \<and>
    fs_dirs t = fs_dirs s \<and> inode_inv t \<and> inode_frame s t \<and>
    (length (ino_keys (fs_inodes t)) < MAX_KEYS \<longrightarrow> list_all2 (shown t) (take n xs) items) \<and>
    map (\<lambda>e. fst (snd e)) items = map (\<lambda>x. of_nat (fst x) + 1) (take n xs) \<and>
    (xs \<noteq> [] \<longrightarrow> (\<forall>e. \<not> room acc e) \<longrightarrow> 0 < n)"
  using assms
proof (induction room xs acc arbitrary: s rule: readdir_loop.induct)
  case (1 room acc)
  then show ?case by (auto simp: ret_def inode_frame_def)
next
  case (2 room i name key kind rest acc)
  obtain n t where ino: "fs_ino key s = (Inr n, t)" "fs_dirs t = fs_dirs s" "inode_inv t" "inode_frame s t"
    "length (ino_keys (fs_inodes t)) < MAX_KEYS \<Longrightarrow> inode_key (fs_inodes t) n = Some key"
    using fs_ino_run [of key s] "2.prems" by metis
  let ?item = "(n, of_nat i + 1, kind, name) :: dir_item"
  show ?case
  proof (cases "room acc ?item")
    case True
    then have "readdir_loop room ((i, name, key, kind) # rest) acc s = (Inr (acc @ []), t)"
      using ino(1) by (simp add: abind_def ret_def)
    with ino True show ?thesis by (intro exI [of _ 0] exI [of _ "[]"] exI [of _ t]) auto
  next
    case False
    from "2.IH" [OF refl False ino(3)] obtain m items u where
      u: "readdir_loop room rest (acc @ [?item]) t = (Inr ((acc @ [?item]) @ items), u)" "m \<le> length rest"
        "fs_dirs u = fs_dirs t" "inode_inv u" "inode_frame t u" "map (\<lambda>e. fst (snd e)) items = map (\<lambda>x. of_nat (fst x) + 1) (take m rest)"
        "length (ino_keys (fs_inodes u)) < MAX_KEYS \<longrightarrow> list_all2 (shown u) (take m rest) items" by blast
    have frame: "inode_frame s u" using ino(4) u(5) by (auto simp: inode_frame_def)
    have len: "length (ino_keys (fs_inodes t)) \<le> length (ino_keys (fs_inodes u))"
      using u(5) by (auto simp: inode_frame_def dest: prefix_length_le)
    have "shown u (i, name, key, kind) ?item" if "length (ino_keys (fs_inodes u)) < MAX_KEYS"
      by (rule shown_mono [OF u(5)]) (use ino(5) that len in simp)
    with False u ino frame show ?thesis
      by (intro exI [of _ "Suc m"] exI [of _ "?item # items"] exI [of _ u]) (auto simp: abind_def)
  qed
qed

lemma readdir_run:
  assumes "open_lists (fs_dirs s) fh = Some l" and "inode_inv s"
  obtains n items t where "handle env (Readdir ino fh off room) s = (Inr (Reply_directory items), t)"
    and "n \<le> length l - unat off" and "fs_dirs t = fs_dirs s" and "inode_inv t" and "inode_frame s t"
    and "length (ino_keys (fs_inodes t)) < MAX_KEYS \<Longrightarrow>
       list_all2 (shown t) (take n (drop (unat off) (enumerate 0 l))) items"
    and "map (\<lambda>e. fst (snd e)) items = map (\<lambda>x. of_nat (fst x) + 1) (take n (drop (unat off) (enumerate 0 l)))"
    and "length items = n" and "unat off < length l \<Longrightarrow> \<forall>e. \<not> room [] e \<Longrightarrow> 0 < n"
proof -
  let ?xs = "drop (unat off) (enumerate 0 l)"
  from readdir_loop_run [OF assms(2), of room ?xs "[]"] obtain n items t where
    t: "readdir_loop room ?xs [] s = (Inr ([] @ items), t)" "n \<le> length ?xs" "fs_dirs t = fs_dirs s" "inode_inv t" "inode_frame s t"
      "length (ino_keys (fs_inodes t)) < MAX_KEYS \<longrightarrow> list_all2 (shown t) (take n ?xs) items"
      "map (\<lambda>e. fst (snd e)) items = map (\<lambda>x. of_nat (fst x) + 1) (take n ?xs)"
      "?xs \<noteq> [] \<longrightarrow> (\<forall>e. \<not> room [] e) \<longrightarrow> 0 < n" by blast
  have "dir_list env ino fh s = (Inr l, s)" using assms(1) by (simp add: dir_list_def abind_def gets_def ret_def)
  with t(1) have run: "handle env (Readdir ino fh off room) s = (Inr (Reply_directory items), t)"
    by (simp add: fuse_readdir_def answer_def abind_def ret_def)
  have len: "length items = n" using arg_cong [OF t(7), of length] t(2) by simp
  show ?thesis by (rule that [OF run]) (use t len in simp_all)
qed

section \<open>All calls\<close>

text \<open>
  \<open>pages env ino fh s off items t\<close>: reading the handle from offset \<open>off\<close> on, until a call returns nothing,
  gives \<open>items\<close>.  Every call may bring another buffer, with room for at least one entry.
\<close>

inductive pages :: "env \<Rightarrow> u64 \<Rightarrow> u64 \<Rightarrow> fs \<Rightarrow> u64 \<Rightarrow> dir_item list \<Rightarrow> fs \<Rightarrow> bool" for env ino fh where
  last_page: "handle env (Readdir ino fh off room) s = (Inr (Reply_directory []), t) \<Longrightarrow> \<forall>e. \<not> room [] e \<Longrightarrow>
    pages env ino fh s off [] t"
| page: "handle env (Readdir ino fh off room) s = (Inr (Reply_directory items), t) \<Longrightarrow> \<forall>e. \<not> room [] e \<Longrightarrow>
    items \<noteq> [] \<Longrightarrow> undisturbed env fh t u \<Longrightarrow> pages env ino fh u (fst (snd (last items))) rest v \<Longrightarrow>
    pages env ino fh s off (items @ rest) v"

lemma last_offset:
  assumes "map (\<lambda>e. fst (snd e)) items = map (\<lambda>x. of_nat (fst x) + 1) (take n (drop k (enumerate 0 l)))"
    and "0 < n" and "n \<le> length l - k" and "length l < 2 ^ 64"
  shows "unat (fst (snd (last items)) :: u64) = k + n"
proof -
  let ?xs = "take n (drop k (enumerate 0 l))"
  have len: "k + n \<le> length l" "length ?xs = n" using assms(2,3) by simp_all
  then have ne: "?xs \<noteq> []" "items \<noteq> []" using assms(1,2) by auto
  have "fst (snd (last items)) = last (map (\<lambda>e. fst (snd e)) items)" using ne by (simp add: last_map)
  also have "\<dots> = of_nat (fst (last ?xs)) + 1" unfolding assms(1) using ne(1) by (rule last_map)
  also have "last ?xs = (k + (n - 1), l ! (k + (n - 1)))"
    using len assms(2) ne(1) by (simp add: last_conv_nth enumerate_eq_zip)
  also have "of_nat (fst (k + (n - 1), l ! (k + (n - 1)))) + 1 = (of_nat (k + n) :: u64)"
    using assms(2) by (cases n) (simp_all add: algebra_simps)
  finally show ?thesis using len assms(4) by (simp add: unat_of_nat del: of_nat_add)
qed

lemma pages_frame: "pages env ino fh s off items t \<Longrightarrow> inode_inv s \<Longrightarrow> inode_inv t \<and> inode_frame s t"
proof (induction rule: pages.induct)
  case (last_page off room s t)
  have "served env s t" by (rule served.request [OF served.idle last_page.hyps(1)])
  from served_keeps [OF this last_page.prems] show ?case .
next
  case (page off room s items t u rest v)
  have "served env s t" by (rule served.request [OF served.idle page.hyps(1)])
  from served_keeps [OF this page.prems] have t: "inode_inv t" "inode_frame s t" by auto
  from served_keeps [OF undisturbed_served [OF page.hyps(4)] t(1)] have u: "inode_inv u" "inode_frame t u" by auto
  from page.IH [OF u(1)] t(2) u(2) show ?case by (auto simp: inode_frame_def)
qed

lemma pages_complete:
  assumes "pages env ino fh s off items t" and "open_lists (fs_dirs s) fh = Some l" and "length l < 2 ^ 64"
    and "inode_inv s" and "length (ino_keys (fs_inodes t)) < MAX_KEYS"
  shows "list_all2 (shown t) (drop (unat off) (enumerate 0 l)) items"
  using assms
proof (induction rule: pages.induct)
  case (last_page off room s t)
  obtain n items t' where "handle env (Readdir ino fh off room) s = (Inr (Reply_directory items), t')"
    "length items = n" "unat off < length l \<Longrightarrow> \<forall>e. \<not> room [] e \<Longrightarrow> 0 < n"
    by (rule readdir_run [OF last_page.prems(1,3), of env ino off room]) blast
  with last_page.hyps have "\<not> unat off < length l" by auto
  then show ?case by simp
next
  case (page off room s items t u rest v)
  let ?xs = "drop (unat off) (enumerate 0 l)"
  obtain n items' t' where run: "handle env (Readdir ino fh off room) s = (Inr (Reply_directory items'), t')"
    and n: "n \<le> length l - unat off" "fs_dirs t' = fs_dirs s" "inode_inv t'" "length items' = n"
    and offs: "map (\<lambda>e. fst (snd e)) items' = map (\<lambda>x. of_nat (fst x) + 1) (take n ?xs)"
    and listed: "length (ino_keys (fs_inodes t')) < MAX_KEYS \<Longrightarrow> list_all2 (shown t') (take n ?xs) items'"
    by (rule readdir_run [OF page.prems(1,3), of env ino off room]) blast
  from run page.hyps(1) have same: "items' = items" "t' = t" by auto
  from served_keeps [OF undisturbed_served [OF page.hyps(4)]] n(3) same have u: "inode_inv u" "inode_frame t u" by auto
  from pages_frame [OF page.hyps(5) u(1)] u(2) have v: "inode_frame t v" by (auto simp: inode_frame_def)
  then have "length (ino_keys (fs_inodes t)) < MAX_KEYS"
    using page.prems(4) by (auto simp: inode_frame_def dest: prefix_length_le)
  with listed same have here: "list_all2 (shown t) (take n ?xs) items" by simp
  have "0 < n" using page.hyps(3) n(4) same by auto
  from last_offset [OF offs this n(1) page.prems(2)] same
  have off: "unat (fst (snd (last items))) = unat off + n" by simp
  have "open_lists (fs_dirs u) fh = Some l"
    using undisturbed_kept [OF page.hyps(4)] n(2) page.prems(1) same by simp
  from page.IH [OF this page.prems(2) u(1) page.prems(4)]
  have "list_all2 (shown v) (drop n ?xs) rest" by (simp add: off add.commute)
  moreover have "list_all2 (shown v) (take n ?xs) items"
    using here by (rule list_all2_mono) (rule shown_mono [OF v])
  ultimately show ?case using list_all2_appendI by (metis append_take_drop_id)
qed

lemma pages_exist:
  fixes room :: "dir_item list \<Rightarrow> dir_item \<Rightarrow> bool"
  assumes "open_lists (fs_dirs s) fh = Some l" and "length l < 2 ^ 64" and "inode_inv s" and "\<forall>e. \<not> room [] e"
  shows "\<exists>items t. pages env ino fh s off items t"
  using assms
proof (induction "length l - unat off" arbitrary: s off rule: less_induct)
  case less
  obtain n items t where run: "handle env (Readdir ino fh off room) s = (Inr (Reply_directory items), t)"
    and n: "n \<le> length l - unat off" "fs_dirs t = fs_dirs s" "inode_inv t" "length items = n"
    and offs: "map (\<lambda>e. fst (snd e)) items = map (\<lambda>x. of_nat (fst x) + 1) (take n (drop (unat off) (enumerate 0 l)))"
    by (rule readdir_run [OF less.prems(1,3), of env ino off room]) blast
  show ?case
  proof (cases "items = []")
    case True
    with run have "handle env (Readdir ino fh off room) s = (Inr (Reply_directory []), t)" by simp
    from pages.last_page [OF this less.prems(4)] show ?thesis by blast
  next
    case False
    then have "0 < n" using n(4) by auto
    note at = last_offset [OF offs this n(1) less.prems(2)]
    have "\<exists>rest v. pages env ino fh t (fst (snd (last items))) rest v"
      by (rule less.hyps) (use at n \<open>0 < n\<close> less.prems in auto)
    with False run less.prems(4) show ?thesis by (meson pages.page undisturbed.at_once)
  qed
qed

end
