(* ===== verification/File_Service.thy ===== *)
theory File_Service
  imports Fuse_Safety Fuse_Paging Tree_Properties
begin

text \<open>
  Files as the kernel reaches them: a path is looked up name by name from the root inode, and the inode
  at its end is read.
\<close>

section \<open>Paths of a dump\<close>

text \<open>What a name means in a directory, over the files of the dump alone.\<close>

inductive leads :: "env \<Rightarrow> (string \<Rightarrow> bytes) \<Rightarrow> tree_key \<Rightarrow> bytes \<Rightarrow> tree_key \<Rightarrow> bool" for env files where
  depot: "index_depot (env_index env) d \<noteq> None \<Longrightarrow> leads env files Root (as_bytes (show_dec (unat d))) (Depot d)"
| version: "index_depot (env_index env) d \<noteq> None \<Longrightarrow> known env b \<Longrightarrow> bf_depot (index_blob (env_index env) b) = d \<Longrightarrow>
    n = version_name (blobs (env_index env)) (sorted_ids (blobs (env_index env)) d) b \<Longrightarrow>
    leads env files (Depot d) (as_bytes n) (Version b)"
| top: "known env b \<Longrightarrow> manifest_of env files b = Some m \<Longrightarrow> child_by_name m (root m) name = Some c \<Longrightarrow>
    leads env files (Version b) name (node_key b m c)"
| below: "known env b \<Longrightarrow> manifest_of env files b = Some m \<Longrightarrow> child_by_name m i name = Some c \<Longrightarrow>
    leads env files (Node b i) name (node_key b m c)"

inductive path_leads :: "env \<Rightarrow> (string \<Rightarrow> bytes) \<Rightarrow> tree_key \<Rightarrow> bytes list \<Rightarrow> tree_key \<Rightarrow> bool" for env files where
  here: "path_leads env files key [] key"
| further: "leads env files key name k \<Longrightarrow> path_leads env files k names key' \<Longrightarrow>
    path_leads env files key (name # names) key'"

text \<open>The lookups of the kernel along a path.\<close>

fun fs_walk :: "env \<Rightarrow> u64 \<Rightarrow> bytes list \<Rightarrow> u64 option fs_run" where
  "fs_walk env ino [] = ret (Some ino)"
| "fs_walk env ino (name # names) =
     abind (handle env (Lookup ino name)) (\<lambda>r.
     case r of
       Reply_entry a \<Rightarrow> fs_walk env (a_ino a) names
     | _ \<Rightarrow> ret None)"

lemma leads_lookup:
  assumes "good_dump env files" and "reliable env" and "all_intact env files"
    and "known_key env files key" and "leads env files key name k" and "store_inv env files L st"
  shows "\<exists>st'. tree_lookup env key name st = (Inr (Some k), st')"
proof -
  note parts = good_dump_parts [OF assms(1)]
  have node: "\<exists>st'. tree_lookup env key name st = (Inr (Some (node_key b m c)), st')"
    if "key = Version b \<and> i = root m \<or> key = Node b i" "known env b" "manifest_of env files b = Some m"
      "child_by_name m i name = Some c" for b m i c
  proof -
    obtain r st' where run: "tree_lookup env key name st = (r, st')" by fastforce
    from satD [OF sat_tree_lookup [OF parts(1,2) assms(4)] assms(6) run] assms(2,3)
    obtain found where r: "r = Inr found" by (cases r) (auto simp: sound_def)
    have "lookup_node env b key name st = (Inr found, st')" using run r that(1) by auto
    from lookup_node_run [OF parts(1,2) that(2) assms(6) this] obtain m' dir where
      "manifest_of env files b = Some m'" "node_index key m' = Some dir"
      "found = map_option (node_key b m') (child_by_name m' dir name)" by metis
    with that have "found = Some (node_key b m c)" by auto
    with run r show ?thesis by simp
  qed
  from assms(5) show ?thesis
  proof cases
    case (depot d)
    then show ?thesis using lossy_name [of "show_dec (unat d)" name] by (simp add: ret_def parse_u32_show)
  next
    case (version d b n)
    from version(4) obtain dep where d: "index_depot (env_index env) d = Some dep" by auto
    have "tidy env files (Depot d)" using parts(6) [OF assms(4)] version(1) by simp
    from version_lookup(2) [OF parts(2) d this, of b st] version show ?thesis by (simp add: known_def)
  next
    case (top b m c)
    with node [of b "root m" m c] show ?thesis by simp
  next
    case (below b m i c)
    with node [of b i m c] show ?thesis by simp
  qed
qed

lemma leads_known:
  assumes "good_dump env files" and "known_key env files key" and "leads env files key name k"
  shows "known_key env files k"
proof -
  have child: "known_key env files (node_key b m c)"
    if "known env b" "manifest_of env files b = Some m" "child_by_name m i name = Some c" for b m i c
    using child_by_name_Some [OF manifest_of_wf [OF that(2)] that(3)] that by (auto simp: node_key_def is_child_def)
  show ?thesis
    using assms(3)
  proof cases
    case (top b m c)
    then show ?thesis using child by simp
  next
    case (below b m i c)
    then show ?thesis using child by simp
  qed auto
qed

text \<open>One lookup.\<close>

lemma lookup_leads:
  assumes "good_dump env files" and "reliable env" and "all_intact env files"
    and "fs_inv env files s" and "inode_inv s" and "inode_key (fs_inodes s) dir = Some key"
    and "leads env files key name k"
  obtains a t where "handle env (Lookup dir name) s = (Inr (Reply_entry a), t)" and "fs_inv env files t"
    and "inode_inv t" and "fs_step s t"
    and "length (ino_keys (fs_inodes t)) < MAX_KEYS \<Longrightarrow> inode_key (fs_inodes t) (a_ino a) = Some k"
proof -
  have key: "known_key env files key"
    using assms(4,6) by (auto simp: fs_inv_def inode_key_def nth_opt_def split: if_splits)
  have k: "known_key env files k" by (rule leads_known [OF assms(1) key assms(7)])
  have inv: "store_inv env files (located_files env files) (fs_store s)" using assms(4) by (simp add: fs_inv_def)
  from leads_lookup [OF assms(1-3) key assms(7) inv] obtain st where
    look: "tree_lookup env key name (fs_store s) = (Inr (Some k), st)" by blast
  obtain r1 st1 where meta: "tree_meta env k st = (r1, st1)" by fastforce
  note parts = good_dump_parts [OF assms(1)]
  have "store_inv env files (located_files env files) st"
    using satD [OF sat_tree_lookup [OF parts(1,2) key] inv look] by blast
  from satD [OF sat_tree_meta [OF parts(1-3) k] this meta] assms(2,3)
  obtain mt where r1: "r1 = Inr mt" by (cases r1) (auto simp: sound_def)
  let ?s1 = "s\<lparr>fs_store := st1\<rparr>"
  obtain n t where ino: "fs_ino k ?s1 = (Inr n, t)" "inode_inv ?s1 \<Longrightarrow> length (ino_keys (fs_inodes t)) < MAX_KEYS \<Longrightarrow>
      inode_key (fs_inodes t) n = Some k" by (rule fs_ino_run [of k ?s1]) blast
  have at: "\<exists>a. handle env (Lookup dir name) s = (Inr (Reply_entry a), t) \<and> a_ino a = n"
    using look meta r1 ino(1) assms(6)
    by (simp add: fuse_lookup_def answer_def abind_def known_ino_def fs_key_def gets_def pure_def ok_or_def on_tree_def
        attr_for_def attr_of_def fs_attr_def ret_def)
  then obtain a where a: "handle env (Lookup dir name) s = (Inr (Reply_entry a), t)" "a_ino a = n" by blast
  have "served env s t" by (rule served.request [OF served.idle a(1)])
  with served_inv [OF assms(1) _ assms(4)] served_keeps [OF _ assms(5)]
  have "fs_inv env files t" "fs_step s t" "inode_inv t" by blast+
  moreover have "inode_inv ?s1" using assms(5) by (simp add: inode_inv_def)
  ultimately show ?thesis using that [OF a(1)] ino(2) a(2) by simp
qed

lemma walk_frame: "inode_inv s \<Longrightarrow> inode_frame s (snd (fs_walk env ino names s))"
proof (induction env ino names arbitrary: s rule: fs_walk.induct)
  case (1 env ino)
  then show ?case by (simp add: ret_def inode_frame_def)
next
  case (2 env ino name names)
  obtain r t where run: "handle env (Lookup ino name) s = (r, t)" by fastforce
  have "inode_inv t \<and> inode_frame s t"
    using handle_numbers [of env "Lookup ino name"] run "2.prems" by (auto simp: keeps_def sat_def)
  with run "2.IH" [of _ _ t] show ?case
    by (cases r; cases "projr r") (auto simp: abind_def ret_def inode_frame_def intro: prefix_order.trans)
qed

lemma walk_leads:
  assumes "good_dump env files" and "reliable env" and "all_intact env files"
    and "path_leads env files key names key'"
    and "fs_inv env files s" and "inode_inv s" and "inode_key (fs_inodes s) ino = Some key"
    and "length (ino_keys (fs_inodes (snd (fs_walk env ino names s)))) < MAX_KEYS"
  shows "\<exists>n t. fs_walk env ino names s = (Inr (Some n), t) \<and> fs_inv env files t \<and> inode_inv t \<and> fs_step s t \<and>
    inode_key (fs_inodes t) n = Some key'"
  using assms(4-)
proof (induction arbitrary: s ino rule: path_leads.induct)
  case (here key)
  then show ?case by (simp add: ret_def fs_runs.G_refl)
next
  case (further key name k names key')
  obtain a t where t: "handle env (Lookup ino name) s = (Inr (Reply_entry a), t)" "fs_inv env files t" "inode_inv t"
      "fs_step s t" "length (ino_keys (fs_inodes t)) < MAX_KEYS \<Longrightarrow> inode_key (fs_inodes t) (a_ino a) = Some k"
    by (rule lookup_leads [OF assms(1-3) further.prems(1-3) further.hyps(1)]) blast
  have walk: "fs_walk env ino (name # names) s = fs_walk env (a_ino a) names t" using t(1) by (simp add: abind_def)
  have "inode_frame t (snd (fs_walk env (a_ino a) names t))" by (rule walk_frame [OF t(3)])
  then have "length (ino_keys (fs_inodes t)) < MAX_KEYS"
    using further.prems(4) unfolding walk by (auto simp: inode_frame_def dest!: prefix_length_le)
  from further.IH [OF t(2,3) t(5) [OF this]] further.prems(4) t(4) show ?case
    unfolding walk by (blast intro: fs_runs.G_trans)
qed

section \<open>Reading\<close>

lemma sat_locate_node:
  assumes "good_dump env files" and "known env b" and "manifest_of env files b = Some m"
    and "node_at m i = Some n" and "\<not> is_dir n" and "ancestry env files b bs"
    and "newest env files bs (node_file_id n) = Some loc"
  shows "sat (store_inv env files L) store_frame (tree_locate env (Node b i))
    (\<lambda>r s. r = Inr loc \<or> \<not> (reliable env \<and> all_intact env files)) s"
proof -
  note parts = good_dump_parts [OF assms(1)]
  have loc: "sat (store_inv env files L) store_frame (lift (locate env b (node_file_id n)))
      (\<lambda>r s. r = Inr loc \<or> \<not> (reliable env \<and> all_intact env files)) s1" for s1
    by (rule sat_lift_run [OF store_lift_table [OF sat_locate [OF parts(1-3) assms(2)]]])
      (use assms(7) ancestry_unique [OF assms(6)] in \<open>auto simp: located_def ok_or_def map_err_def split: sum.splits\<close>)
  show ?thesis
    unfolding tree_locate.simps
    by (rule store_runs.sat_abind [OF sat_manifest [OF parts(1,2) assms(2)]])
      (use loc assms(3-5) in \<open>auto simp: sound_def\<close>)
qed

lemma store_frame_settled: "store_frame s s' \<Longrightarrow> key_settled s loc kr \<Longrightarrow> key_settled s' loc kr"
  by (auto simp: store_frame_def key_settled_def map_le_def dom_def)

lemma read_node:
  assumes "good_dump env files" and "reliable env" and "all_intact env files" and "known env b"
    and "manifest_of env files b = Some m" and "node_at m i = Some n" and "\<not> is_dir n"
    and "ancestry env files b bs" and "newest env files bs (node_file_id n) = Some loc" and "loc_dat loc = Some dat"
    and "stored_file env files kr loc F" and "key_settled (fs_store s) loc kr"
    and "unat off + unat len < 18446744073709551616"
    and "fs_inv env files s" and "inode_key (fs_inodes s) ino = Some (Node b i)"
  shows "fst (handle env (Read_at ino off len) s) = Inr (Reply_data (take (unat len) (drop (unat off) F)))"
proof -
  note parts = good_dump_parts [OF assms(1)]
  let ?L = "located_files env files"
  have loc: "loc \<in> ?L" using assms(4,8,9) by (auto simp: located_files_def)
  have inv: "store_inv env files ?L (fs_store s)" using assms(14) by (simp add: fs_inv_def)
  obtain r st where run: "tree_locate env (Node b i) (fs_store s) = (r, st)" by fastforce
  from satD [OF sat_locate_node [OF assms(1,4-9)] inv run] assms(2,3)
  have r: "r = Inr loc" and st: "store_inv env files ?L st" "store_frame (fs_store s) st" by auto
  have n: "unat len \<le> ISIZE_MAX" using unat_u32_less [of len] by (simp add: ISIZE_MAX_def)
  have "data_inv env files ?L st" using st(1) by (simp add: store_inv_def)
  from store_read_serves [OF parts(1,5,4) loc assms(10) located_dat [OF assms(1) loc assms(10)] this assms(13) n
      store_frame_settled [OF st(2) assms(12)] assms(11,2)]
  have "fst (store_read env loc off (unat len) st) = Inr (take (unat len) (drop (unat off) F))" .
  then obtain st' where "tree_read env loc off (unat len) st = (Inr (take (unat len) (drop (unat off) F)), st')"
    by (cases "store_read env loc off (unat len) st") (simp add: tree_read_def lift_def)
  with run r assms(15) show ?thesis
    by (simp add: fuse_read_def answer_def abind_def known_ino_def fs_key_def gets_def pure_def ok_or_def on_tree_def
        ret_def del: tree_locate.simps)
qed

end
