(* ===== verification/Fuse_Properties.thy ===== *)
theory Fuse_Properties
  imports File_Service
begin

text \<open>
  What the FUSE front end promises the kernel, over sequences of requests, with the small dump as the
  witness.
\<close>

section \<open>The small dump is a good one\<close>

lemma dump_located: "loc \<in> located_files dump_env dump_file \<Longrightarrow>
  loc \<in> {dump_loc 1 1 (dump_record 7 Encrypted 0 10), dump_loc 0 0 (dump_record 7 Compressed 0 10),
    dump_loc 0 0 (dump_record 8 Plain 10 20)}"
proof -
  have a0: "ancestry dump_env dump_file 0 [0]" by (simp add: ancestry_def dump_parents)
  assume "loc \<in> located_files dump_env dump_file"
  then obtain b bs f where b: "known dump_env b" "ancestry dump_env dump_file b bs" "newest dump_env dump_file bs f = Some loc"
    by (auto simp: located_files_def)
  from dump_known(3) [OF b(1)] b(2) have "bs = [0] \<or> bs = [1, 0]"
    using ancestry_unique [OF a0] ancestry_unique [OF dump_ancestry] by auto
  with b(3) show ?thesis by (auto simp: dump_own split: if_splits)
qed

lemma dump_depot_only:
  assumes "index_depot dump_index d \<noteq> None"
  shows "d = 7"
proof -
  from assms obtain dep where "index_depot dump_index d = Some dep" by auto
  then have "set (ids_of (blobs dump_index) d) \<noteq> {}" using index_depot_eq(2) closed_index_parts(1) [OF dump_closed] by simp
  then obtain b where b: "b \<in> set (ids_of (blobs dump_index) d)" by (meson equals0I)
  then have at: "unat b < length (blobs dump_index)" "bf_depot (blobs dump_index ! unat b) = d"
    using set_ids_of [OF closed_index_parts(2) [OF dump_closed]] by auto
  then have "b = 0 \<or> b = 1" using dump_known(3) [of b] by (simp add: known_def)
  with at(2) show "d = 7" by (auto simp: dump_index_parts dump_blob_def)
qed

lemma dump_all_tidy: "known_key dump_env dump_file key \<Longrightarrow> tidy dump_env dump_file key"
proof -
  assume k: "known_key dump_env dump_file key"
  have m: "m = sample_manifest" if "known dump_env b" "manifest_of dump_env dump_file b = Some m" for b m
    using dump_known(3) [OF that(1)] that(2) by (auto simp: dump_manifest_of)
  show ?thesis
    using k dump_depot_only m dump_depot_tidy sample_unique sample_shaped sample_rooted sample_single_root
    by (cases key) auto
qed

lemma dump_good: "good_dump dump_env dump_file"
proof -
  have "unshared (located_files dump_env dump_file)"
    unfolding unshared_def
    by (auto dest!: dump_located simp: dump_span same_block_def split: if_splits)
  then show ?thesis
    using dump_honest dump_closed dump_ranked dump_all_tidy dump_cipher
    by (auto simp: good_dump_def dump_index_parts)
qed

lemma dump_fs_inv: "fs_inv dump_env dump_file (fs_new dump_store uid gid)"
  by (rule fs_new_inv [OF dump_store_inv])

section \<open>Files\<close>

text \<open>
  C1: what a mount serves.  On a good dump, after any requests, looking a path up name by name from the
  root inode gives an inode, and at any later time, whatever is requested in between, reading a range of
  it returns that range of the file that the version has under the path: the contents stored for the
  newest record of its file id on the way to the root of the version's chain, under the key settled for
  it, cut off at its end.
\<close>

theorem file_served:
  assumes "good_dump env files" and "reliable env" and "all_intact env files"
    and "store_inv env files (located_files env files) st" and "served env (fs_new st uid gid) s"
    and "path_leads env files Root names (Node b i)" and "known env b" and "manifest_of env files b = Some m"
    and "node_at m i = Some n" and "\<not> is_dir n" and "ancestry env files b bs"
    and "newest env files bs (node_file_id n) = Some loc" and "loc_dat loc = Some dat"
    and "stored_file env files kr loc F" and "key_settled (fs_store s) loc kr"
    and "fs_walk env 1 names s = (r, t)" and "length (ino_keys (fs_inodes t)) < MAX_KEYS"
    and "unat off + unat len < 18446744073709551616"
  shows "\<exists>ino. r = Inr (Some ino) \<and>
    (\<forall>u. served env t u \<longrightarrow>
       fst (handle env (Read_at ino off len) u) = Inr (Reply_data (take (unat len) (drop (unat off) F))))"
proof -
  from served_inv [OF assms(1,5) fs_new_inv [OF assms(4)]] have s: "fs_inv env files s" by blast
  from served_keeps [OF assms(5) fs_new_inodes] have i: "inode_inv s" by blast
  have "inode_frame (fs_new st uid gid) s"
    using served_keeps [OF assms(5) fs_new_inodes] by blast
  moreover have "inode_key (fs_inodes (fs_new st uid gid)) 1 = Some Root"
    by (simp add: fs_new_def inodes_new_def intern_def Let_def inode_key_def nth_opt_def)
  ultimately have one: "inode_key (fs_inodes s) 1 = Some Root"
    unfolding inode_frame_def by (rule inode_key_prefix)
  from walk_leads [OF assms(1-3,6) s i one] assms(16,17) obtain ino where
    t: "r = Inr (Some ino)" "fs_inv env files t" "fs_step s t" "inode_key (fs_inodes t) ino = Some (Node b i)" by auto
  have "fst (handle env (Read_at ino off len) u) = Inr (Reply_data (take (unat len) (drop (unat off) F)))"
    if "served env t u" for u
  proof -
    from served_inv [OF assms(1) that t(2)] have u: "fs_inv env files u" "fs_step t u" by blast+
    have "inode_key (fs_inodes u) ino = Some (Node b i)"
      using u(2) t(4) by (auto simp: fs_step_def inode_frame_def intro: inode_key_prefix)
    moreover have "key_settled (fs_store u) loc kr"
      using u(2) t(3) assms(15) by (auto simp: fs_step_def intro: store_frame_settled)
    ultimately show ?thesis using read_node [OF assms(1-3,7-14) _ assms(18) u(1)] by blast
  qed
  with t(1) show ?thesis by blast
qed

lemma dump_path:
  "\<exists>names. length names = 3 \<and> hd names = [0x37] \<and> last names = [0x79] \<and>
     path_leads dump_env dump_file Root names (Node 1 3)"
proof -
  let ?n = "as_bytes (version_name (blobs dump_index) (sorted_ids (blobs dump_index) 7) 1)"
  have "as_bytes (show_dec 7) = [0x37]" by (simp add: show_radix.simps digit_char_def as_bytes_def)
  then have d: "leads dump_env dump_file Root [0x37] (Depot 7)"
    using leads.depot [of dump_env 7 dump_file] dump_depot by simp
  have v: "leads dump_env dump_file (Depot 7) ?n (Version 1)"
    by (rule leads.version [OF _ dump_known(2)]) (simp_all add: dump_depot dump_entries dump_blob_def)
  have "is_child sample_manifest 0 [0x79] 3"
    by (simp add: is_child_def sample_node_at sample_eval eval_simps)
  then have "child_by_name sample_manifest (root sample_manifest) [0x79] = Some 3"
    using child_by_name_iff [OF manifest_of_wf [OF dump_manifest_of(2)] sample_unique] by (simp add: sample_root)
  from leads.top [OF dump_known(2) dump_manifest_of(2) this]
  have "leads dump_env dump_file (Version 1) [0x79] (Node 1 3)" by (simp add: node_key_def sample_root)
  with d v have "path_leads dump_env dump_file Root [[0x37], ?n, [0x79]] (Node 1 3)"
    by (blast intro: path_leads.intros)
  then show ?thesis by (intro exI [of _ "[[0x37], ?n, [0x79]]"]) simp
qed

lemma walk_keys: "length (ino_keys (fs_inodes (snd (fs_walk env ino names s)))) \<le> length (ino_keys (fs_inodes s)) + length names"
proof (induction env ino names arbitrary: s rule: fs_walk.induct)
  case (2 env ino name names)
  have intern: "length (ino_keys (snd (intern k i))) \<le> Suc (length (ino_keys i))" for k i
    by (auto simp: intern_def Let_def split: option.splits)
  have "length (ino_keys (fs_inodes (snd (handle env (Lookup ino name) s)))) \<le> Suc (length (ino_keys (fs_inodes s)))"
    using intern
    by (auto simp: fuse_lookup_def answer_def abind_def known_ino_def fs_key_def gets_def pure_def ok_or_def on_tree_def
        attr_for_def attr_of_def fs_attr_def ret_def fail_def fs_ino_def advance_def
        split: prod.splits sum.splits option.splits fs_failure.splits) (metis le_SucI snd_conv)+
  moreover obtain r t where run: "handle env (Lookup ino name) s = (r, t)" by fastforce
  ultimately have t: "length (ino_keys (fs_inodes t)) \<le> Suc (length (ino_keys (fs_inodes s)))" by simp
  have "length (ino_keys (fs_inodes (snd (fs_walk env (a_ino a) names t)))) \<le>
      Suc (length (ino_keys (fs_inodes s))) + length names" for a :: file_attr
    using "2.IH" [OF refl, of a t] t by simp
  with t run show ?case by (cases r; cases "projr r") (auto simp: abind_def ret_def)
qed (simp add: ret_def)

theorem file_served_witness:
  "\<exists>names ino. length names = 3 \<and> hd names = [0x37] \<and> last names = [0x79] \<and>
     fst (fs_walk dump_env 1 names (fs_new dump_store 0 0)) = Inr (Some ino) \<and>
     fst (handle dump_env (Read_at ino 5 100) (snd (fs_walk dump_env 1 names (fs_new dump_store 0 0)))) =
       Inr (Reply_data (map of_nat [15..<30]))"
proof -
  from dump_path obtain names where names: "length names = 3" "hd names = [0x37]" "last names = [0x79]"
    "path_leads dump_env dump_file Root names (Node 1 3)" by blast
  let ?s = "fs_new dump_store 0 0"
  obtain r t where run: "fs_walk dump_env 1 names ?s = (r, t)" by fastforce
  have "length (ino_keys (fs_inodes t)) < MAX_KEYS"
    using walk_keys [of dump_env 1 names ?s] names(1) run
    by (simp add: fs_new_def inodes_new_def intern_def Let_def MAX_KEYS_def)
  moreover have "newest dump_env dump_file [1, 0] (node_file_id (sample_nodes ! 3)) = Some file_8"
    by (simp add: dump_own sample_nodes_def file_8_def)
  moreover have "\<not> is_dir (sample_nodes ! 3)" by (simp add: is_dir_def sample_nodes_def NO_FILE_def)
  moreover have "loc_dat file_8 = Some 0" by (simp add: file_8_def)
  ultimately obtain ino where ino: "r = Inr (Some ino)"
      "fst (handle dump_env (Read_at ino 5 100) t) = Inr (Reply_data (take (unat (100 :: u32)) (drop (unat (5 :: u64)) (drop 10 dat_0))))"
    using file_served [OF dump_good dump_reliable dump_intact dump_store_inv served.idle names(4) dump_known(2)
        dump_manifest_of(2) sample_node_at(4) _ dump_ancestry _ _ file_8_stored file_8_settled run, of 0 5 100] served.idle
    by auto
  then show ?thesis using names run by (intro exI [of _ names] exI [of _ ino]) (simp add: dat_0_def drop_map)
qed

section \<open>Requests\<close>

text \<open>
  C8: every request is answered.  On a good dump with a backend that does not fail, no request, after
  any sequence of requests, ends the process: each gets a reply, and the inodes and open directories
  still name keys of the dump only.
\<close>

theorem requests_answered:
  assumes "good_dump env files" and "reliable env" and "all_intact env files"
    and "store_inv env files (located_files env files) st" and "served env (fs_new st uid gid) s"
  shows "\<exists>reply t. handle env req s = (Inr reply, t) \<and> fs_inv env files t"
proof -
  from served_inv [OF assms(1,5) fs_new_inv [OF assms(4)]] have "fs_inv env files s" by blast
  from handle_answers [OF assms(1-3) this] show ?thesis by metis
qed

theorem requests_answered_witness:
  "\<exists>reply t. handle dump_env (Read_at 77 5 100) (fs_new dump_store 0 0) = (Inr reply, t) \<and> fs_inv dump_env dump_file t"
  by (rule requests_answered [OF dump_good dump_reliable dump_intact dump_store_inv served.idle])

text \<open>
  C9: inode numbers name keys for good.  From a fresh file system, after any sequence of requests that
  interned fewer than \<open>2 ^ 63\<close> keys, the root is inode 1 and the table of numbers and the table of keys are
  inverse to each other, so two keys never share a number; and a number that once named a key names it
  after any further requests.
\<close>

theorem inodes_stable:
  assumes "served env (fs_new st uid gid) s" and "length (ino_keys (fs_inodes s)) < MAX_KEYS"
    and "served env s t" and "length (ino_keys (fs_inodes t)) < MAX_KEYS"
  shows "inode_key (fs_inodes s) 1 = Some Root \<and>
    (\<forall>k n. ino_by_key (fs_inodes s) k = Some n \<longleftrightarrow> inode_key (fs_inodes s) n = Some k) \<and>
    (\<forall>k n. inode_key (fs_inodes s) n = Some k \<longrightarrow>
       inode_key (fs_inodes t) n = Some k \<and> ino_by_key (fs_inodes t) k = Some n)"
proof -
  from served_keeps [OF assms(1) fs_new_inodes] have s: "inode_inv s" ..
  from served_keeps [OF assms(3) s] have t: "inode_inv t" "inode_frame s t" by auto
  from s t assms(2,4) show ?thesis
    using inode_key_prefix by (auto simp: inode_inv_def inode_frame_def wf_inodes_def)
qed

lemma dump_lookup_7:
  "\<exists>a t. handle dump_env (Lookup 1 [0x37]) (fs_new dump_store 0 0) = (Inr (Reply_entry a), t) \<and> a_ino a = 2 \<and>
     ino_keys (fs_inodes t) = [Root, Depot 7]"
proof -
  have "from_utf8_lossy [0x37] = show_dec (unat (7 :: u32))"
    by (subst lossy_name) (simp_all add: show_radix.simps digit_char_def as_bytes_def)
  then have "parse_u32 (from_utf8_lossy [0x37]) = Some 7" using parse_u32_show [of 7] by simp
  then show ?thesis
    using dump_depot
    by (simp add: fs_new_def inodes_new_def intern_def Let_def inode_key_def nth_opt_def fuse_lookup_def answer_def
        abind_def known_ino_def fs_key_def gets_def pure_def ok_or_def on_tree_def attr_for_def attr_of_def fs_attr_def
        ret_def fs_ino_def advance_def)
qed

theorem inodes_stable_witness:
  "let t = snd (handle dump_env (Lookup 1 [0x37]) (fs_new dump_store 0 0)) in
   inode_key (fs_inodes t) 1 = Some Root \<and> ino_by_key (fs_inodes t) Root = Some 1"
proof -
  from dump_lookup_7 obtain a t where t: "handle dump_env (Lookup 1 [0x37]) (fs_new dump_store 0 0) = (Inr (Reply_entry a), t)"
    "ino_keys (fs_inodes t) = [Root, Depot 7]" by blast
  have "length (ino_keys (fs_inodes t)) < MAX_KEYS" "length (ino_keys (fs_inodes (fs_new dump_store 0 0))) < MAX_KEYS"
    using t(2) by (simp_all add: MAX_KEYS_def fs_new_def inodes_new_def intern_def Let_def)
  with inodes_stable [OF served.idle _ served.request [OF served.idle t(1)]] t(1) show ?thesis by (simp add: Let_def)
qed

section \<open>Directories\<close>

lemma opendir_listing:
  assumes "handle env (Opendir ino) s = (Inr (Reply_opened fh fl), t)"
  shows "\<exists>k l. inode_key (fs_inodes s) ino = Some k \<and> fst (dir_entries env k s) = Inr l \<and> open_lists (fs_dirs t) fh = Some l"
  using assms
  by (auto simp: fuse_opendir_def answer_def abind_def known_ino_def fs_key_def gets_def pure_def ok_or_def fail_def ret_def
      advance_def Let_def split: prod.splits sum.splits option.splits fs_failure.splits)



end
