(* ===== verification/Sftp.thy ===== *)
theory Sftp
  imports Backends Byte_Lru Actions Blob_Format
begin

text \<open>
  The SFTP backend (\<open>src/backend/sftp.rs\<close>).  The SSH session is a parameter: a record of the requests
  it answers over a state of its own, so that a server may answer the same request differently at
  different times.  Modelled are the destination, remote paths, the cache of open handles, both ways to
  list a directory, and the pipelined ranged read; connecting and authenticating are calls into the SSH
  crates.  What a server documents of its handles and reads is the predicate \<open>serves\<close>.
\<close>

section \<open>Definitions\<close>

definition HANDLE_CACHE :: nat where
  "HANDLE_CACHE = 64"

definition MAX_READ :: nat where
  "MAX_READ = 64 * 1024"

definition MAX_IN_FLIGHT :: nat where
  "MAX_IN_FLIGHT = 16"

definition rsplit_once :: "char \<Rightarrow> string \<Rightarrow> (string \<times> string) option" where
  "rsplit_once c s = map_option (\<lambda>(a, b). (rev b, rev a)) (split_once c (rev s))"

definition parse_u16 :: "string \<Rightarrow> u16 option" where
  "parse_u16 s = map_option of_nat (parse_uint 10 65536 s)"

definition split_destination :: "string \<Rightarrow> string option \<times> string \<times> u16 option" where
  "split_destination destination =
     (let rest = (case strip_prefix ''ssh://'' destination of Some r \<Rightarrow> r | None \<Rightarrow> destination);
          (user, hostport) =
            (case split_once CHR ''@'' rest of Some (u, h) \<Rightarrow> (Some u, h) | None \<Rightarrow> (None, rest))
      in case rsplit_once CHR '':'' hostport of
           Some (h, p) \<Rightarrow>
             (case parse_u16 p of
                Some port \<Rightarrow> (user, h, Some port)
              | None \<Rightarrow> (user, hostport, None))
         | None \<Rightarrow> (user, hostport, None))"

subsection \<open>The session\<close>

text \<open>An error of the session, with its message; the end of a file or a directory is a status of its own.\<close>

datatype session_error =
    Status_eof string
  | Session_error string

datatype channel_msg =
    Msg_data bytes
  | Msg_exit_status u32
  | Msg_other

record sftp_file =
  sf_filename :: string
  sf_size :: "u64 option"
  sf_is_dir :: bool

text \<open>
  What the session answers.  \<open>ss_exec\<close> runs a command on a channel of its own: an error of opening the
  channel or starting the command, or the messages that arrive until the channel closes.
\<close>

record 's session =
  ss_open :: "string \<Rightarrow> 's \<Rightarrow> (session_error + string) \<times> 's"
  ss_close :: "string \<Rightarrow> 's \<Rightarrow> (session_error + unit) \<times> 's"
  ss_read :: "string \<Rightarrow> u64 \<Rightarrow> u32 \<Rightarrow> 's \<Rightarrow> (session_error + bytes) \<times> 's"
  ss_stat :: "string \<Rightarrow> 's \<Rightarrow> (session_error + u64 option) \<times> 's"
  ss_opendir :: "string \<Rightarrow> 's \<Rightarrow> (session_error + string) \<times> 's"
  ss_readdir :: "string \<Rightarrow> 's \<Rightarrow> (session_error + sftp_file list) \<times> 's"
  ss_exec :: "string \<Rightarrow> 's \<Rightarrow> (session_error + channel_msg list) \<times> 's"

record 's sftp_backend =
  sb_session :: "'s session"
  sb_lru :: "(string, string) lru_ops"
  sb_destination :: string
  sb_root :: string

record 's sftp_state =
  handles :: "(string, string) lru_cache"
  session_state :: 's

text \<open>A reservation of more bytes than a vector can have ends the process.\<close>

datatype sftp_error =
    Of_session session_error
  | Read_failed session_error
  | Readdir_failed string session_error
  | Find_exited "u32 option"
  | In_context string sftp_error
  | Capacity_overflow

fun session_text :: "session_error \<Rightarrow> string" where
  "session_text (Status_eof m) = m"
| "session_text (Session_error m) = m"

text \<open>The message of an error with its contexts.\<close>

fun error_text :: "sftp_error \<Rightarrow> string" where
  "error_text (Of_session e) = session_text e"
| "error_text (Read_failed e) = ''sftp read: '' @ session_text e"
| "error_text (Readdir_failed path e) = ''sftp readdir '' @ path @ '': '' @ session_text e"
| "error_text (Find_exited st) =
     ''remote find exited with '' @ (case st of None \<Rightarrow> ''None'' | Some n \<Rightarrow> ''Some('' @ show_dec (unat n) @ '')'')"
| "error_text (In_context msg e) = msg @ '': '' @ error_text e"
| "error_text Capacity_overflow = ''capacity overflow''"

type_synonym ('s, 'a) sftp_run = "('s sftp_state, sftp_error, 'a) action"

definition ask :: "('s \<Rightarrow> (session_error + 'a) \<times> 's) \<Rightarrow> ('s, session_error + 'a) sftp_run" where
  "ask req = advance (\<lambda>t. case req (session_state t) of (r, s) \<Rightarrow> (r, t\<lparr>session_state := s\<rparr>))"

definition with_context :: "string \<Rightarrow> ('s, 'a) sftp_run \<Rightarrow> ('s, 'a) sftp_run" where
  "with_context msg m = (\<lambda>t. case m t of
     (Inl e, t') \<Rightarrow> (Inl (if e = Capacity_overflow then e else In_context msg e), t')
   | (Inr x, t') \<Rightarrow> (Inr x, t'))"

definition asked :: "('s \<Rightarrow> (session_error + 'a) \<times> 's) \<Rightarrow> ('s, 'a) sftp_run" where
  "asked req = abind (ask req) (\<lambda>r. pure (map_err Of_session r))"

definition trim_end_slash :: "string \<Rightarrow> string" where
  "trim_end_slash s = rev (dropWhile (\<lambda>c. c = CHR ''/'') (rev s))"

definition sftp_new :: "'s session \<Rightarrow> (string, string) lru_ops \<Rightarrow> string \<Rightarrow> string \<Rightarrow> 's \<Rightarrow>
    's sftp_backend \<times> 's sftp_state" where
  "sftp_new ses ops destination root s =
     (\<lparr>sb_session = ses, sb_lru = ops, sb_destination = destination, sb_root = trim_end_slash root\<rparr>,
      \<lparr>handles = lru_new HANDLE_CACHE, session_state = s\<rparr>)"

definition sftp_path :: "'s sftp_backend \<Rightarrow> string \<Rightarrow> string" where
  "sftp_path b rel =
     (if rel = [] then (if sb_root b = [] then ''.'' else sb_root b)
      else if sb_root b = [] then rel
      else sb_root b @ ''/'' @ rel)"

subsection \<open>Handles\<close>

definition evicted :: "string \<Rightarrow> (string \<times> string) option \<Rightarrow> string option" where
  "evicted rel old = (case old of Some (key, h) \<Rightarrow> if key \<noteq> rel then Some h else None | None \<Rightarrow> None)"

definition sftp_handle :: "'s sftp_backend \<Rightarrow> string \<Rightarrow> ('s, string) sftp_run" where
  "sftp_handle b rel =
     abind (advance (\<lambda>t. case lru_get (sb_lru b) rel (handles t) of (r, c) \<Rightarrow> (r, t\<lparr>handles := c\<rparr>))) (\<lambda>cached.
     case cached of
       Some h \<Rightarrow> ret h
     | None \<Rightarrow>
         let p = sftp_path b rel in
         abind (with_context (''sftp open '' @ p) (asked (ss_open (sb_session b) p))) (\<lambda>h.
         abind (advance (\<lambda>t. case lru_push (sb_lru b) rel h (handles t) of (r, c) \<Rightarrow> (r, t\<lparr>handles := c\<rparr>))) (\<lambda>old.
         case evicted rel old of
           Some g \<Rightarrow> abind (ask (ss_close (sb_session b) g)) (\<lambda>_. ret h)
         | None \<Rightarrow> ret h)))"

subsection \<open>Listings\<close>

definition quote :: "string \<Rightarrow> string" where
  "quote path =
     CHR 0x27 # concat (map (\<lambda>c. if c = CHR 0x27 then [CHR 0x27, CHR 0x5C, CHR 0x27, CHR 0x27] else [c]) path) @ [CHR 0x27]"

definition find_command :: "string \<Rightarrow> string" where
  "find_command path =
     ''find -L '' @ quote path @ '' -mindepth 1 -maxdepth 1 -printf '' @
     [CHR 0x27] @ ''%y'' @ [CHR 0x5C] @ ''t%s'' @ [CHR 0x5C] @ ''t%f'' @ [CHR 0x5C] @ ''n'' @ [CHR 0x27]"

fun collect :: "channel_msg list \<Rightarrow> bytes \<Rightarrow> u32 option \<Rightarrow> bytes \<times> u32 option" where
  "collect [] out status = (out, status)"
| "collect (Msg_data d # ms) out status = collect ms (out @ d) status"
| "collect (Msg_exit_status e # ms) out status = collect ms out (Some e)"
| "collect (Msg_other # ms) out status = collect ms out status"

definition find_line :: "string \<Rightarrow> dir_entry option" where
  "find_line line =
     (case splitn 3 (char_of (9 :: nat)) line of
        [ty, sz, name] \<Rightarrow>
          Some \<lparr>de_name = name, de_size = (case parse_u64 sz of Some n \<Rightarrow> n | None \<Rightarrow> 0), de_is_dir = ty = ''d''\<rparr>
      | _ \<Rightarrow> None)"

definition list_dir_via_find :: "'s sftp_backend \<Rightarrow> string \<Rightarrow> ('s, dir_entry list) sftp_run" where
  "list_dir_via_find b path =
     abind (asked (ss_exec (sb_session b) (find_command path))) (\<lambda>msgs.
     let (out, status) = collect msgs [] None in
     if status \<noteq> Some 0 then fail (Find_exited status)
     else ret (List.map_filter find_line (lines (from_utf8_lossy out))))"

definition sftp_entries :: "sftp_file list \<Rightarrow> dir_entry list" where
  "sftp_entries fs =
     map (\<lambda>f. \<lparr>de_name = sf_filename f, de_size = (case sf_size f of Some n \<Rightarrow> n | None \<Rightarrow> 0), de_is_dir = sf_is_dir f\<rparr>)
       (filter (\<lambda>f. sf_filename f \<noteq> ''.'' \<and> sf_filename f \<noteq> ''..'') fs)"

text \<open>Nothing bounds how often a server has more names: not returning is None.\<close>

partial_function (option) readdir_all ::
  "'s sftp_backend \<Rightarrow> string \<Rightarrow> string \<Rightarrow> dir_entry list \<Rightarrow> 's sftp_state \<Rightarrow>
    ((sftp_error + dir_entry list) \<times> 's sftp_state) option" where
  "readdir_all b path dir out t =
     (case ss_readdir (sb_session b) dir (session_state t) of
        (Inr files, s) \<Rightarrow> readdir_all b path dir (out @ sftp_entries files) (t\<lparr>session_state := s\<rparr>)
      | (Inl (Status_eof _), s) \<Rightarrow>
          Some (abind (ask (ss_close (sb_session b) dir)) (\<lambda>_. ret out) (t\<lparr>session_state := s\<rparr>))
      | (Inl e, s) \<Rightarrow>
          Some (abind (ask (ss_close (sb_session b) dir)) (\<lambda>_. fail (Readdir_failed path e)) (t\<lparr>session_state := s\<rparr>)))"

definition list_dir_via_sftp :: "'s sftp_backend \<Rightarrow> string \<Rightarrow> 's sftp_state \<Rightarrow>
    ((sftp_error + dir_entry list) \<times> 's sftp_state) option" where
  "list_dir_via_sftp b path t =
     (case with_context (''sftp opendir '' @ path) (asked (ss_opendir (sb_session b) path)) t of
        (Inr dir, t') \<Rightarrow> readdir_all b path dir [] t'
      | (Inl e, t') \<Rightarrow> Some (Inl e, t'))"

definition sftp_list_dir :: "'s sftp_backend \<Rightarrow> string \<Rightarrow> 's sftp_state \<Rightarrow>
    ((sftp_error + dir_entry list) \<times> 's sftp_state) option" where
  "sftp_list_dir b rel t =
     (let p = sftp_path b rel in
      case list_dir_via_find b p t of
        (Inr v, t') \<Rightarrow> Some (Inr v, t')
      | (Inl e, t') \<Rightarrow> list_dir_via_sftp b p t')"

subsection \<open>Ranged reads\<close>

definition wants :: "u64 \<Rightarrow> nat \<Rightarrow> (u64 \<times> nat) list" where
  "wants base remaining =
     map (\<lambda>start. (base + of_nat start, min MAX_READ (remaining - start)))
       (takeWhile (\<lambda>start. start < remaining) (map (\<lambda>i. i * MAX_READ) [0..<MAX_IN_FLIGHT]))"

text \<open>All requests of a batch are sent, and all answers awaited, before any answer is used.\<close>

fun send_all :: "'s session \<Rightarrow> string \<Rightarrow> (u64 \<times> nat) list \<Rightarrow> 's \<Rightarrow> (session_error + bytes) list \<times> 's" where
  "send_all ses h [] s = ([], s)"
| "send_all ses h ((at, want) # ws) s =
     (let (r, s1) = ss_read ses h at (of_nat want) s; (rs, s2) = send_all ses h ws s1 in (r # rs, s2))"

datatype batch = More bytes | Ended bytes | Failed session_error

fun take_replies :: "((session_error + bytes) \<times> u64 \<times> nat) list \<Rightarrow> bytes \<Rightarrow> batch" where
  "take_replies [] out = More out"
| "take_replies ((Inr d, at, want) # rs) out =
     (if d = [] then Ended out
      else if length d < want then More (out @ d)
      else take_replies rs (out @ d))"
| "take_replies ((Inl (Status_eof _), at, want) # rs) out = Ended out"
| "take_replies ((Inl e, at, want) # rs) out = Failed e"

lemma take_replies_longer: "take_replies rs out = More out' \<Longrightarrow> rs \<noteq> [] \<Longrightarrow> length out < length out'"
proof (induction rs out rule: take_replies.induct)
  case (2 d at want rs out)
  show ?case
  proof (cases "rs = []")
    case True
    with 2 show ?thesis by (auto split: if_splits)
  next
    case False
    with 2 show ?thesis by (fastforce split: if_splits)
  qed
qed simp_all

lemma send_all_length: "length (fst (send_all ses h ws s)) = length ws"
  by (induction ses h ws s rule: send_all.induct) (auto split: prod.splits)

lemma wants_nonempty: "0 < remaining \<Longrightarrow> wants base remaining \<noteq> []"
  by (simp add: wants_def MAX_IN_FLIGHT_def upt_conv_Cons)

lemma batch_progress:
  assumes "length out < len" and "ws = wants (offset + of_nat (length out)) (len - length out)"
    and "send_all ses h ws s = (replies, s')" and "take_replies (zip replies ws) out = More out'"
  shows "length out < length out'"
proof (rule take_replies_longer [OF assms(4)])
  have "length replies = length ws" using send_all_length [of ses h ws s] assms(3) by simp
  moreover have "ws \<noteq> []" using wants_nonempty assms(1,2) by simp
  ultimately show "zip replies ws \<noteq> []" by (cases replies; cases ws) simp_all
qed

function batches :: "'s session \<Rightarrow> string \<Rightarrow> u64 \<Rightarrow> nat \<Rightarrow> bytes \<Rightarrow> 's \<Rightarrow> (session_error + bytes) \<times> 's" where
  "batches ses h offset len out s =
     (if length out < len then
        let ws = wants (offset + of_nat (length out)) (len - length out) in
        case send_all ses h ws s of (replies, s') \<Rightarrow>
        case take_replies (zip replies ws) out of
          More out' \<Rightarrow> batches ses h offset len out' s'
        | Ended out' \<Rightarrow> (Inr out', s')
        | Failed e \<Rightarrow> (Inl e, s')
      else (Inr out, s))"
  by pat_completeness auto
termination
proof (relation "measure (\<lambda>(ses, h, offset, len, out, s). len - length out)", goal_cases)
  case (2 ses h offset len out s ws replies s' out')
  then have "length out < length out'" using batch_progress [of out len ws offset ses h s replies s' out'] by simp
  with 2 show ?case by simp
qed simp

declare batches.simps [simp del]

definition sftp_read_range :: "'s sftp_backend \<Rightarrow> string \<Rightarrow> u64 \<Rightarrow> nat \<Rightarrow> ('s, bytes) sftp_run" where
  "sftp_read_range b rel offset len =
     abind (sftp_handle b rel) (\<lambda>h.
     if ISIZE_MAX < len then fail Capacity_overflow
     else abind (ask (batches (sb_session b) h offset len [])) (\<lambda>r. pure (map_err Read_failed r)))"

definition sftp_read_at :: "'s sftp_backend \<Rightarrow> string \<Rightarrow> u64 \<Rightarrow> nat \<Rightarrow> ('s, bytes) sftp_run" where
  "sftp_read_at b rel offset len =
     with_context (''sftp read '' @ rel @ ''@'' @ show_dec (unat offset) @ ''+'' @ show_dec len)
       (sftp_read_range b rel offset len)"

definition sftp_read_all :: "'s sftp_backend \<Rightarrow> string \<Rightarrow> ('s, bytes) sftp_run" where
  "sftp_read_all b rel =
     (let p = sftp_path b rel in
      abind (with_context (''sftp stat '' @ p) (asked (ss_stat (sb_session b) p))) (\<lambda>size.
      sftp_read_range b rel 0 (case size of Some n \<Rightarrow> unat n | None \<Rightarrow> 0)))"

definition sftp_describe :: "'s sftp_backend \<Rightarrow> string" where
  "sftp_describe b = ''sftp:'' @ sb_destination b @ '':'' @ sb_root b"

end
