(* ===== verification/Sftp_Reads.thy ===== *)
theory Sftp_Reads
  imports Sftp
begin

text \<open>
  Reads over SFTP: pipelined, with short answers, through cached handles, they are still the ranges of
  the remote file, which makes the SFTP backend another provider of \<open>ranged_reads\<close>.
\<close>

section \<open>A server\<close>

text \<open>
  What a session documents.  \<open>refers s h p\<close> says that in state \<open>s\<close> the handle \<open>h\<close> is open on the remote
  path \<open>p\<close>.  Opening gives a handle that was not open before, closing ends that handle only, and nothing
  else ends one.  A read returns a prefix of the asked range; nothing, or an end-of-file status, only at
  the end of the file.
\<close>

definition kept :: "('s \<Rightarrow> string \<Rightarrow> string \<Rightarrow> bool) \<Rightarrow> 's \<Rightarrow> 's \<Rightarrow> bool" where
  "kept refers s s' \<longleftrightarrow> (\<forall>h q. refers s h q \<longrightarrow> refers s' h q)"

definition opens_afresh :: "'s session \<Rightarrow> ('s \<Rightarrow> string \<Rightarrow> string \<Rightarrow> bool) \<Rightarrow> bool" where
  "opens_afresh ses refers \<longleftrightarrow>
     (\<forall>p s r s'. ss_open ses p s = (r, s') \<longrightarrow>
        kept refers s s' \<and> (\<forall>h. r = Inr h \<longrightarrow> refers s' h p \<and> (\<forall>q. \<not> refers s h q)))"

definition closes_only :: "'s session \<Rightarrow> ('s \<Rightarrow> string \<Rightarrow> string \<Rightarrow> bool) \<Rightarrow> bool" where
  "closes_only ses refers \<longleftrightarrow>
     (\<forall>g s r s' h q. ss_close ses g s = (r, s') \<longrightarrow> refers s h q \<longrightarrow> h \<noteq> g \<longrightarrow> refers s' h q)"

definition reads_prefixes :: "'s session \<Rightarrow> (string \<Rightarrow> bytes option) \<Rightarrow> ('s \<Rightarrow> string \<Rightarrow> string \<Rightarrow> bool) \<Rightarrow> bool" where
  "reads_prefixes ses files refers \<longleftrightarrow>
     (\<forall>h at n s r s'. ss_read ses h at n s = (r, s') \<longrightarrow>
        kept refers s s' \<and>
        (\<forall>p c. refers s h p \<longrightarrow> files p = Some c \<longrightarrow>
           (\<forall>d. r = Inr d \<longrightarrow> prefix d (take (unat n) (drop (unat at) c)) \<and> (d = [] \<longrightarrow> n = 0 \<or> length c \<le> unat at)) \<and>
           (\<forall>m. r = Inl (Status_eof m) \<longrightarrow> length c \<le> unat at)))"

definition measures :: "'s session \<Rightarrow> (string \<Rightarrow> bytes option) \<Rightarrow> ('s \<Rightarrow> string \<Rightarrow> string \<Rightarrow> bool) \<Rightarrow> bool" where
  "measures ses files refers \<longleftrightarrow>
     (\<forall>p s r s'. ss_stat ses p s = (r, s') \<longrightarrow>
        kept refers s s' \<and> (\<forall>sz c. r = Inr sz \<longrightarrow> files p = Some c \<longrightarrow> sz = Some (of_nat (length c))))"

definition serves :: "'s session \<Rightarrow> (string \<Rightarrow> bytes option) \<Rightarrow> ('s \<Rightarrow> string \<Rightarrow> string \<Rightarrow> bool) \<Rightarrow> bool" where
  "serves ses files refers \<longleftrightarrow>
     opens_afresh ses refers \<and> closes_only ses refers \<and> reads_prefixes ses files refers \<and> measures ses files refers \<and>
     (\<forall>p c. files p = Some c \<longrightarrow> length c < 18446744073709551616)"

text \<open>A session that is never cut off: what exists can be opened, read and measured.\<close>

definition steady :: "'s session \<Rightarrow> (string \<Rightarrow> bytes option) \<Rightarrow> bool" where
  "steady ses files \<longleftrightarrow>
     (\<forall>p s. files p \<noteq> None \<longrightarrow> (\<exists>h. fst (ss_open ses p s) = Inr h)) \<and>
     (\<forall>h at n s m. fst (ss_read ses h at n s) \<noteq> Inl (Session_error m)) \<and>
     (\<forall>p s. files p \<noteq> None \<longrightarrow> (\<exists>sz. fst (ss_stat ses p s) = Inr sz))"

section \<open>One batch\<close>

fun in_a_row :: "nat \<Rightarrow> (u64 \<times> nat) list \<Rightarrow> bool" where
  "in_a_row pos [] \<longleftrightarrow> True"
| "in_a_row pos ((at, want) # ws) \<longleftrightarrow> at = of_nat pos \<and> 0 < want \<and> want \<le> MAX_READ \<and> in_a_row (pos + want) ws"

lemma wants_in_a_row:
  "in_a_row pos (wants (of_nat pos) remaining)" "sum_list (map snd (wants (of_nat pos) remaining)) \<le> remaining"
proof -
  let ?ws = "\<lambda>a n. map (\<lambda>start. (of_nat pos + of_nat start :: u64, min MAX_READ (remaining - start)))
      (takeWhile (\<lambda>start. start < remaining) (map (\<lambda>i. i * MAX_READ) [a..<n]))"
  have "in_a_row (pos + a * MAX_READ) (?ws a n) \<and> sum_list (map snd (?ws a n)) \<le> remaining - a * MAX_READ" for a n
  proof (induction "n - a" arbitrary: a)
    case (Suc k)
    then have lt: "a < n" "k = n - Suc a" by simp_all
    show ?case
    proof (cases "remaining - a * MAX_READ < MAX_READ")
      case True
      then have "?ws (Suc a) n = []"
        by (cases "Suc a < n") (simp_all add: upt_conv_Cons)
      with True lt show ?thesis by (simp add: upt_conv_Cons)
    next
      case False
      then have full: "min MAX_READ (remaining - a * MAX_READ) = MAX_READ" "a * MAX_READ < remaining"
        by (simp_all add: MAX_READ_def)
      then have "?ws a n = (of_nat pos + of_nat (a * MAX_READ), MAX_READ) # ?ws (Suc a) n"
        using lt(1) by (simp add: upt_conv_Cons)
      moreover have "pos + a * MAX_READ + MAX_READ = pos + Suc a * MAX_READ" by simp
      moreover have "0 < MAX_READ" by (simp add: MAX_READ_def)
      ultimately show ?thesis using Suc.hyps(1) [OF lt(2)] False by (simp only: in_a_row.simps) (simp, linarith)
    qed
  qed simp
  from this [of 0] show "in_a_row pos (wants (of_nat pos) remaining)"
    "sum_list (map snd (wants (of_nat pos) remaining)) \<le> remaining"
    by (simp_all add: wants_def)
qed

text \<open>An answer that a server may give for a range of a file.\<close>

definition fair :: "bytes \<Rightarrow> (session_error + bytes) \<times> u64 \<times> nat \<Rightarrow> bool" where
  "fair c x \<longleftrightarrow> (case x of (r, at, want) \<Rightarrow>
     (\<forall>d. r = Inr d \<longrightarrow> prefix d (take want (drop (unat at) c)) \<and> (d = [] \<longrightarrow> want = 0 \<or> length c \<le> unat at)) \<and>
     (\<forall>m. r = Inl (Status_eof m) \<longrightarrow> length c \<le> unat at))"

lemma serves_open:
  assumes "serves ses files refers" and "ss_open ses p s = (r, s')"
  shows "kept refers s s'" and "r = Inr g \<Longrightarrow> refers s' g p" and "r = Inr g \<Longrightarrow> \<not> refers s g q"
proof -
  have "opens_afresh ses refers" using assms(1) by (simp add: serves_def)
  with assms(2) show "kept refers s s'" "r = Inr g \<Longrightarrow> refers s' g p" "r = Inr g \<Longrightarrow> \<not> refers s g q"
    unfolding opens_afresh_def by blast+
qed

lemma serves_close:
  assumes "serves ses files refers" and "ss_close ses g s = (r, s')" and "refers s h q" and "h \<noteq> g"
  shows "refers s' h q"
  using assms unfolding serves_def closes_only_def by metis

lemma serves_stat:
  assumes "serves ses files refers" and "ss_stat ses p s = (r, s')"
  shows "kept refers s s'" and "r = Inr sz \<Longrightarrow> files p = Some c \<Longrightarrow> sz = Some (of_nat (length c))"
proof -
  have "measures ses files refers" using assms(1) by (simp add: serves_def)
  with assms(2) show "kept refers s s'" "r = Inr sz \<Longrightarrow> files p = Some c \<Longrightarrow> sz = Some (of_nat (length c))"
    unfolding measures_def by blast+
qed

lemma serves_read:
  assumes "serves ses files refers" and "ss_read ses h at (of_nat want) s = (r, s')" and "want \<le> MAX_READ"
  shows "kept refers s s'" and "refers s h p \<Longrightarrow> files p = Some c \<Longrightarrow> fair c (r, at, want)"
proof -
  have n: "unat (of_nat want :: u32) = want" using assms(3) by (simp add: unat_of_nat MAX_READ_def)
  then have z: "(of_nat want :: u32) = 0 \<longleftrightarrow> want = 0" by (metis unat_eq_0)
  have law: "reads_prefixes ses files refers" using assms(1) by (simp add: serves_def)
  with assms(2) show "kept refers s s'" unfolding reads_prefixes_def by blast
  assume "refers s h p" "files p = Some c"
  with law assms(2) have "(\<forall>d. r = Inr d \<longrightarrow> prefix d (take (unat (of_nat want :: u32)) (drop (unat at) c)) \<and>
        (d = [] \<longrightarrow> (of_nat want :: u32) = 0 \<or> length c \<le> unat at)) \<and>
      (\<forall>m. r = Inl (Status_eof m) \<longrightarrow> length c \<le> unat at)"
    unfolding reads_prefixes_def by blast
  then show "fair c (r, at, want)" by (simp add: fair_def n z)
qed

lemma send_all_fair:
  assumes "serves ses files refers" and "refers s h p" and "files p = Some c"
    and "in_a_row pos ws" and "send_all ses h ws s = (rs, s')"
  shows "(\<forall>x \<in> set (zip rs ws). fair c x) \<and> kept refers s s' \<and>
    (steady ses files \<longrightarrow> (\<forall>m. Inl (Session_error m) \<notin> set rs))"
  using assms(2,4,5)
proof (induction ws arbitrary: s rs s' pos)
  case (Cons w ws)
  obtain at want where w: "w = (at, want)" by fastforce
  obtain r s1 where r: "ss_read ses h at (of_nat want) s = (r, s1)" by fastforce
  obtain rest where rest: "send_all ses h ws s1 = (rest, s')" "rs = r # rest"
    using Cons.prems(3) r by (auto simp: w split: prod.splits)
  have le: "want \<le> MAX_READ" "in_a_row (pos + want) ws" using Cons.prems(2) by (simp_all add: w)
  note law = serves_read [OF assms(1) r le(1)]
  have "steady ses files \<longrightarrow> (\<forall>m. r \<noteq> Inl (Session_error m))"
    unfolding steady_def by (metis fst_conv r)
  moreover have "refers s1 h p" using law(1) Cons.prems(1) by (simp add: kept_def)
  from Cons.IH [OF this le(2) rest(1)] have "(\<forall>x \<in> set (zip rest ws). fair c x) \<and> kept refers s1 s' \<and>
      (steady ses files \<longrightarrow> (\<forall>m. Inl (Session_error m) \<notin> set rest))" .
  ultimately show ?case using law(2) [OF Cons.prems(1) assms(3)] law(1) by (auto simp: w rest(2) kept_def)
qed (simp add: kept_def)

text \<open>What has been read is the beginning of the range.\<close>

definition so_far :: "bytes \<Rightarrow> nat \<Rightarrow> bytes \<Rightarrow> bool" where
  "so_far c off out \<longleftrightarrow> out = take (length out) (drop off c)"

lemma so_far_length: "so_far c off out \<Longrightarrow> out \<noteq> [] \<Longrightarrow> off + length out \<le> length c"
  unfolding so_far_def by (metis add.commute drop_eq_Nil le_diff_conv2 length_drop length_take min.cobounded1
      min.commute nat_le_linear take_eq_Nil)

lemma take_replies_range:
  assumes "\<forall>x \<in> set (zip rs ws). fair c x" and "in_a_row (off + length out) ws" and "so_far c off out"
    and "length out + sum_list (map snd ws) \<le> len" and "length c < 18446744073709551616" and "off < 18446744073709551616"
    and "length rs = length ws"
  shows "case take_replies (zip rs ws) out of
      More out' \<Rightarrow> so_far c off out' \<and> length out' \<le> len
    | Ended out' \<Rightarrow> out' = take len (drop off c)
    | Failed e \<Rightarrow> (\<exists>m. e = Session_error m \<and> Inl e \<in> set rs)"
  using assms
proof (induction ws arbitrary: rs out)
  case (Cons w ws)
  obtain at want where w: "w = (at, want)" by fastforce
  obtain r rest where rs: "rs = r # rest" "length rest = length ws" using Cons.prems(7) by (cases rs) auto
  let ?pos = "off + length out"
  have pos: "?pos < 18446744073709551616"
    using so_far_length [OF Cons.prems(3)] Cons.prems(5,6) by (cases "out = []") auto
  have at: "unat at = ?pos" "0 < want" "in_a_row (?pos + want) ws"
    using Cons.prems(2) pos by (simp_all add: w unat_of_nat del: of_nat_add)
  have f: "fair c (r, at, want)" using Cons.prems(1) by (simp add: w rs)
  have ended: "out = take len (drop off c)" if "length c \<le> ?pos"
    using that Cons.prems(3,4) by (simp add: so_far_def)
  show ?case
  proof (cases r)
    case (Inl e)
    then show ?thesis using f ended at(1) by (cases e) (auto simp: w rs fair_def)
  next
    case (Inr d)
    then have d: "prefix d (take want (drop ?pos c))" "d = [] \<Longrightarrow> length c \<le> ?pos" using f at by (auto simp: fair_def)
    have len: "length d \<le> want" using prefix_length_le [OF d(1)] by simp
    have "d = take (length d) (drop (length out) (drop off c))"
      using prefix_take_iff [OF len d(1)] by (simp add: add.commute)
    then have more: "so_far c off (out @ d)"
      using Cons.prems(3) take_add [of "length out" "length d" "drop off c"] by (simp add: so_far_def)
    consider "d = []" | "d \<noteq> []" "length d < want" | "d \<noteq> []" "length d = want" using len by linarith
    then show ?thesis
    proof cases
      case 1
      then show ?thesis using ended d(2) Inr by (simp add: w rs)
    next
      case 2
      then show ?thesis using more Cons.prems(4) Inr by (simp add: w rs)
    next
      case 3
      have "case take_replies (zip rest ws) (out @ d) of
          More out' \<Rightarrow> so_far c off out' \<and> length out' \<le> len
        | Ended out' \<Rightarrow> out' = take len (drop off c)
        | Failed e \<Rightarrow> (\<exists>m. e = Session_error m \<and> Inl e \<in> set rest)"
        by (rule Cons.IH) (use Cons.prems 3 at(3) more rs in \<open>simp_all add: w add.assoc\<close>)
      with 3 Inr show ?thesis by (auto simp: w rs split: batch.splits)
    qed
  qed
qed simp

section \<open>A whole read\<close>

lemma batches_range:
  assumes "serves ses files refers" and "files p = Some c" and "refers s h p" and "so_far c (unat off) out"
    and "length out \<le> len" and "batches ses h off len out s = (r, s')"
  shows "(case r of Inr b \<Rightarrow> b = take len (drop (unat off) c) | Inl e \<Rightarrow> \<not> steady ses files) \<and>
    kept refers s s'"
  using assms(3-)
proof (induction "len - length out" arbitrary: out s rule: less_induct)
  case less
  have c: "length c < 18446744073709551616" using assms(1,2) by (auto simp: serves_def)
  show ?case
  proof (cases "length out < len")
    case False
    then have "r = Inr out" "s' = s" "length out = len" using less.prems(3,4) by (simp_all add: batches.simps)
    then show ?thesis using less.prems(2) by (simp add: so_far_def kept_def)
  next
    case True
    define ws where "ws = wants (off + of_nat (length out)) (len - length out)"
    obtain rs s1 where sent: "send_all ses h ws s = (rs, s1)" by fastforce
    have base: "off + of_nat (length out) = of_nat (unat off + length out)" by simp
    have row: "in_a_row (unat off + length out) ws" "length out + sum_list (map snd ws) \<le> len"
      using wants_in_a_row [of "unat off + length out" "len - length out"] True unfolding ws_def base by simp_all
    note all = send_all_fair [OF assms(1) less.prems(1) assms(2) row(1) sent]
    have len: "length rs = length ws" using send_all_length [of ses h ws s] sent by simp
    have "unat off < 18446744073709551616" by (rule unat_u64_less)
    note post = take_replies_range [OF conjunct1 [OF all] row(1) less.prems(2) row(2) c this len]
    have run: "batches ses h off len out s = (case take_replies (zip rs ws) out of
        More out' \<Rightarrow> batches ses h off len out' s1 | Ended out' \<Rightarrow> (Inr out', s1) | Failed e \<Rightarrow> (Inl e, s1))"
      using True sent by (subst batches.simps) (simp add: ws_def Let_def)
    show ?thesis
    proof (cases "take_replies (zip rs ws) out")
      case (More out')
      have "length out < length out'" by (rule batch_progress [OF True ws_def sent More])
      with True have "len - length out' < len - length out" by simp
      moreover have s1: "kept refers s s1" "refers s1 h p" using all less.prems(1) by (auto simp: kept_def)
      moreover have "so_far c (unat off) out'" "length out' \<le> len" "batches ses h off len out' s1 = (r, s')"
        using post More run less.prems(4) by simp_all
      ultimately have "(case r of Inr b \<Rightarrow> b = take len (drop (unat off) c) | Inl e \<Rightarrow> \<not> steady ses files) \<and> kept refers s1 s'"
        by (intro less.hyps)
      with s1(1) show ?thesis by (auto simp: kept_def)
    next
      case (Ended out')
      then show ?thesis using post run all less.prems(4) by auto
    next
      case (Failed e)
      then show ?thesis using post run all less.prems(4) by auto
    qed
  qed
qed

section \<open>Handles\<close>

text \<open>
  Every cached handle is open on its file, no two files share one, and there are no more than the
  cache holds.
\<close>

definition sftp_inv :: "'s sftp_backend \<Rightarrow> ('s \<Rightarrow> string \<Rightarrow> string \<Rightarrow> bool) \<Rightarrow> 's sftp_state \<Rightarrow> bool" where
  "sftp_inv b refers t \<longleftrightarrow>
     lru_documented (sb_lru b) \<and> lru_cap (handles t) = Some HANDLE_CACHE \<and>
     length (lru_list (handles t)) \<le> HANDLE_CACHE \<and>
     distinct (map fst (lru_list (handles t))) \<and> distinct (map snd (lru_list (handles t))) \<and>
     (\<forall>(rel, h) \<in> set (lru_list (handles t)). refers (session_state t) h (sftp_path b rel))"

lemma distinct_map_without:
  "distinct (map f xs) \<Longrightarrow> distinct (map f (without k xs))"
  by (simp add: without_def distinct_map_filter)

lemma sftp_inv_session:
  assumes "sftp_inv b refers t" and "kept refers (session_state t) s"
  shows "sftp_inv b refers (t\<lparr>session_state := s\<rparr>)"
  using assms by (auto simp: sftp_inv_def kept_def)

lemma lru_hit:
  assumes "sftp_inv b refers t" and "lru_get (sb_lru b) rel (handles t) = (Some h, c)"
  shows "sftp_inv b refers (t\<lparr>handles := c\<rparr>)" and "refers (session_state t) h (sftp_path b rel)"
proof -
  let ?xs = "lru_list (handles t)"
  have doc: "lru_documented (sb_lru b)" using assms(1) by (simp add: sftp_inv_def)
  with assms(2) have hit: "map_of ?xs rel = Some h" and c: "c = (handles t)\<lparr>lru_list := (rel, h) # without rel ?xs\<rparr>"
    by (auto simp: lru_documented_def split: option.splits)
  from hit have mem: "(rel, h) \<in> set ?xs" by (rule map_of_SomeD)
  then show "refers (session_state t) h (sftp_path b rel)" using assms(1) by (auto simp: sftp_inv_def)
  have dist: "distinct (map fst ?xs)" "distinct (map snd ?xs)" using assms(1) by (auto simp: sftp_inv_def)
  have new: "h \<notin> snd ` set (without rel ?xs)" "rel \<notin> fst ` set (without rel ?xs)"
  proof -
    have "k = rel" if "(k, h) \<in> set ?xs" for k
      using inj_onD [of snd "set ?xs" "(k, h)" "(rel, h)"] that mem dist(2) by (simp add: distinct_map)
    then show "h \<notin> snd ` set (without rel ?xs)" by auto
    show "rel \<notin> fst ` set (without rel ?xs)" by auto
  qed
  have "length (without rel ?xs) < length ?xs"
    unfolding without_def using length_filter_less [OF mem] by simp
  then have len: "length ((rel, h) # without rel ?xs) \<le> HANDLE_CACHE" using assms(1) by (simp add: sftp_inv_def)
  have refs: "\<forall>(k, g) \<in> set ((rel, h) # without rel ?xs). refers (session_state t) g (sftp_path b k)"
    using assms(1) mem by (auto simp: sftp_inv_def)
  have "distinct (map fst ((rel, h) # without rel ?xs))" "distinct (map snd ((rel, h) # without rel ?xs))"
    using new distinct_map_without [OF dist(1)] distinct_map_without [OF dist(2)] by simp_all
  with doc len refs assms(1) show "sftp_inv b refers (t\<lparr>handles := c\<rparr>)"
    unfolding sftp_inv_def c by simp
qed

text \<open>A new handle goes into the cache; the one that goes out for it is closed.\<close>

lemma push_fresh:
  assumes "sftp_inv b refers t" and "map_of (lru_list (handles t)) rel = None"
    and "\<forall>(k, g) \<in> set (lru_list (handles t)). g \<noteq> h" and "refers (session_state t) h (sftp_path b rel)"
    and "lru_push (sb_lru b) rel h (handles t) = (old, c)"
  shows "case evicted rel old of
      None \<Rightarrow> sftp_inv b refers (t\<lparr>handles := c\<rparr>)
    | Some g \<Rightarrow> g \<noteq> h \<and> (\<forall>s. (\<forall>h' q. refers (session_state t) h' q \<longrightarrow> h' \<noteq> g \<longrightarrow> refers s h' q) \<longrightarrow>
        sftp_inv b refers (t\<lparr>handles := c, session_state := s\<rparr>))"
proof -
  let ?xs = "lru_list (handles t)"
  have doc: "lru_documented (sb_lru b)" and inv: "lru_cap (handles t) = Some HANDLE_CACHE" "length ?xs \<le> HANDLE_CACHE"
      "distinct (map fst ?xs)" "distinct (map snd ?xs)" "\<forall>(rel, h) \<in> set ?xs. refers (session_state t) h (sftp_path b rel)"
    using assms(1) by (auto simp: sftp_inv_def)
  have new: "rel \<notin> fst ` set ?xs" "h \<notin> snd ` set ?xs" using assms(2,3) by (auto simp: map_of_eq_None_iff)
  show ?thesis
  proof (cases "full (handles t)")
    case False
    with doc assms(2,5) have "old = None" "c = (handles t)\<lparr>lru_list := (rel, h) # ?xs\<rparr>"
      by (auto simp: lru_documented_def)
    moreover have "length ?xs < HANDLE_CACHE" using False inv(1,2) by (auto simp: full_def)
    moreover have "\<forall>(k, g) \<in> set ((rel, h) # ?xs). refers (session_state t) g (sftp_path b k)" using inv(5) assms(4) by auto
    ultimately show ?thesis using doc inv(1,3,4) new unfolding sftp_inv_def evicted_def by simp
  next
    case True
    then have ne: "?xs \<noteq> []" "length ?xs = HANDLE_CACHE" using inv(1) by (auto simp: full_def HANDLE_CACHE_def)
    obtain k g where last: "last ?xs = (k, g)" by fastforce
    then have xs: "?xs = butlast ?xs @ [(k, g)]" using ne(1) by (metis append_butlast_last_id)
    have c: "old = Some (k, g)" "c = (handles t)\<lparr>lru_list := (rel, h) # butlast ?xs\<rparr>"
      using doc assms(2,5) True ne(1) last by (auto simp: lru_documented_def)
    have mem: "(k, g) \<in> set ?xs" using last ne(1) by (metis last_in_set)
    then have out: "evicted rel old = Some g" "g \<noteq> h" using new c(1) by (force simp: evicted_def)+
    have "map f ?xs = map f (butlast ?xs) @ [f (k, g)]" for f :: "string \<times> string \<Rightarrow> string"
      using arg_cong [OF xs, of "map f"] by simp
    then have dist: "distinct (map fst (butlast ?xs))" "distinct (map snd (butlast ?xs))" "g \<notin> snd ` set (butlast ?xs)"
      using inv(3,4) by simp_all
    have "sftp_inv b refers (t\<lparr>handles := c, session_state := s\<rparr>)"
      if others: "\<forall>h' q. refers (session_state t) h' q \<longrightarrow> h' \<noteq> g \<longrightarrow> refers s h' q" for s
    proof -
      have "refers s h' (sftp_path b k')" if e: "(k', h') \<in> set (butlast ?xs)" for k' h'
      proof -
        from e dist(3) have "h' \<noteq> g" by force
        moreover have "refers (session_state t) h' (sftp_path b k')" using inv(5) in_set_butlastD [OF e] by blast
        ultimately show ?thesis using others by blast
      qed
      moreover have "refers s h (sftp_path b rel)" using others assms(4) out(2) by blast
      ultimately have refs: "\<forall>(k, g) \<in> set ((rel, h) # butlast ?xs). refers s g (sftp_path b k)" by auto
      have "rel \<notin> fst ` set (butlast ?xs)" "h \<notin> snd ` set (butlast ?xs)"
        using new by (blast dest: in_set_butlastD)+
      then have "distinct (map fst ((rel, h) # butlast ?xs))" "distinct (map snd ((rel, h) # butlast ?xs))"
        using dist by simp_all
      moreover have "length ((rel, h) # butlast ?xs) \<le> HANDLE_CACHE" using ne by (cases ?xs) simp_all
      ultimately show ?thesis using doc inv(1) refs unfolding sftp_inv_def c(2) by simp
    qed
    with out show ?thesis by simp
  qed
qed

lemma sftp_handle_opens:
  assumes "serves (sb_session b) files refers" and "sftp_inv b refers t" and "sftp_handle b rel t = (r, t')"
  shows "sftp_inv b refers t' \<and>
    (case r of Inr h \<Rightarrow> refers (session_state t') h (sftp_path b rel)
     | Inl e \<Rightarrow> \<not> (steady (sb_session b) files \<and> files (sftp_path b rel) \<noteq> None))"
proof -
  let ?p = "sftp_path b rel" and ?ses = "sb_session b"
  obtain cached c where get: "lru_get (sb_lru b) rel (handles t) = (cached, c)" by fastforce
  show ?thesis
  proof (cases cached)
    case (Some h)
    with assms(3) get have "r = Inr h" "t' = t\<lparr>handles := c\<rparr>" by (simp_all add: sftp_handle_def action_simps)
    with lru_hit [OF assms(2)] get Some show ?thesis by simp
  next
    case None
    have miss: "map_of (lru_list (handles t)) rel = None" "c = handles t"
      using assms(2) get None by (auto simp: sftp_inv_def lru_documented_def split: option.splits)
    obtain ro s where op: "ss_open ?ses ?p (session_state t) = (ro, s)" by fastforce
    let ?t = "t\<lparr>session_state := s\<rparr>"
    note law = serves_open [OF assms(1) op]
    have inv: "sftp_inv b refers ?t" by (rule sftp_inv_session [OF assms(2) law(1)])
    have t: "t\<lparr>handles := handles t\<rparr> = t" by simp
    show ?thesis
    proof (cases ro)
      case (Inl e)
      then have "r = Inl (In_context (''sftp open '' @ ?p) (Of_session e))" "t' = ?t"
        using assms(3) get None op miss(2)
        by (simp_all add: sftp_handle_def Let_def action_simps with_context_def asked_def ask_def map_err_def)
      moreover have "\<not> (steady ?ses files \<and> files ?p \<noteq> None)"
        using op Inl unfolding steady_def by (metis Inl_Inr_False fst_conv)
      ultimately show ?thesis using inv by simp
    next
      case (Inr h)
      obtain old d where push: "lru_push (sb_lru b) rel h (handles t) = (old, d)" by fastforce
      have "\<forall>(k, g) \<in> set (lru_list (handles ?t)). g \<noteq> h"
        using assms(2) law(3) [OF Inr] by (auto simp: sftp_inv_def)
      moreover have "refers (session_state ?t) h ?p" using law(2) [OF Inr] by simp
      ultimately have out: "case evicted rel old of
          None \<Rightarrow> sftp_inv b refers (?t\<lparr>handles := d\<rparr>)
        | Some g \<Rightarrow> g \<noteq> h \<and> (\<forall>s'. (\<forall>h' q. refers (session_state ?t) h' q \<longrightarrow> h' \<noteq> g \<longrightarrow> refers s' h' q) \<longrightarrow>
            sftp_inv b refers (?t\<lparr>handles := d, session_state := s'\<rparr>))"
        by (intro push_fresh [OF inv]) (use miss push in simp_all)
      have run: "sftp_handle b rel t = (case evicted rel old of
          Some g \<Rightarrow> abind (ask (ss_close ?ses g)) (\<lambda>_. ret h) (?t\<lparr>handles := d\<rparr>)
        | None \<Rightarrow> (Inr h, ?t\<lparr>handles := d\<rparr>))"
        using get None op miss(2) Inr push
        by (simp add: sftp_handle_def Let_def action_simps with_context_def asked_def ask_def map_err_def split: option.split)
      show ?thesis
      proof (cases "evicted rel old")
        case None
        then show ?thesis using run out assms(3) law(2) [OF Inr] by auto
      next
        case (Some g)
        obtain rc s' where close: "ss_close ?ses g s = (rc, s')" by fastforce
        from run Some assms(3) close have "r = Inr h" "t' = ?t\<lparr>handles := d, session_state := s'\<rparr>"
          by (simp_all add: ask_def action_simps)
        with out Some serves_close [OF assms(1) close] law(2) [OF Inr] show ?thesis by auto
      qed
    qed
  qed
qed

section \<open>Reads\<close>

lemma sftp_read_range_exact:
  assumes "serves (sb_session b) files refers" and "sftp_inv b refers t" and "files (sftp_path b rel) = Some c"
    and "sftp_read_range b rel off len t = (r, t')"
  shows "sftp_inv b refers t' \<and>
    (case r of Inr d \<Rightarrow> d = take len (drop (unat off) c) | Inl e \<Rightarrow> \<not> (steady (sb_session b) files \<and> len \<le> ISIZE_MAX))"
proof -
  obtain rh t1 where h: "sftp_handle b rel t = (rh, t1)" by fastforce
  note opens = sftp_handle_opens [OF assms(1,2) h]
  show ?thesis
  proof (cases rh)
    case (Inl e)
    with h assms(3,4) opens show ?thesis by (auto simp: sftp_read_range_def abind_def)
  next
    case (Inr g)
    with opens have inv: "sftp_inv b refers t1" and g: "refers (session_state t1) g (sftp_path b rel)" by simp_all
    obtain rb s where run: "batches (sb_session b) g off len [] (session_state t1) = (rb, s)" by fastforce
    have "so_far c (unat off) []" by (simp add: so_far_def)
    note got = batches_range [OF assms(1,3) g this _ run]
    show ?thesis
    proof (cases "ISIZE_MAX < len")
      case True
      with h Inr inv assms(4) show ?thesis by (auto simp: sftp_read_range_def action_simps)
    next
      case False
      then have "r = map_err Read_failed rb" "t' = t1\<lparr>session_state := s\<rparr>"
        using h Inr assms(4) run by (simp_all add: sftp_read_range_def ask_def action_simps)
      with got sftp_inv_session [OF inv] False show ?thesis by (cases rb) auto
    qed
  qed
qed

lemma sftp_read_at_exact:
  assumes "serves (sb_session b) files refers" and "sftp_inv b refers t" and "files (sftp_path b rel) = Some c"
    and "sftp_read_at b rel off len t = (r, t')"
  shows "sftp_inv b refers t' \<and>
    (case r of Inr d \<Rightarrow> d = take len (drop (unat off) c) | Inl e \<Rightarrow> \<not> (steady (sb_session b) files \<and> len \<le> ISIZE_MAX))"
proof -
  obtain r0 t0 where r0: "sftp_read_range b rel off len t = (r0, t0)" by fastforce
  note exact = sftp_read_range_exact [OF assms(1-3) r0]
  show ?thesis
  proof (cases r0)
    case (Inl e)
    then have "\<exists>e'. r = Inl e'" "t' = t0" using assms(4) r0 by (auto simp: sftp_read_at_def with_context_def)
    with exact Inl show ?thesis by auto
  next
    case (Inr d)
    then have "r = Inr d" "t' = t0" using assms(4) r0 by (simp_all add: sftp_read_at_def with_context_def)
    with exact Inr show ?thesis by simp
  qed
qed

lemma sftp_read_all_exact:
  assumes "serves (sb_session b) files refers" and "sftp_inv b refers t" and "files (sftp_path b rel) = Some c"
    and "sftp_read_all b rel t = (r, t')"
  shows "sftp_inv b refers t' \<and>
    (case r of Inr d \<Rightarrow> d = c | Inl e \<Rightarrow> \<not> (steady (sb_session b) files \<and> length c \<le> ISIZE_MAX))"
proof -
  let ?p = "sftp_path b rel"
  obtain rs s where stat: "ss_stat (sb_session b) ?p (session_state t) = (rs, s)" by fastforce
  let ?t = "t\<lparr>session_state := s\<rparr>"
  note law = serves_stat [OF assms(1) stat]
  have inv: "sftp_inv b refers ?t" by (rule sftp_inv_session [OF assms(2) law(1)])
  have c: "length c < 18446744073709551616" using assms(1,3) by (auto simp: serves_def)
  then have n: "unat (of_nat (length c) :: u64) = length c" by (simp add: unat_of_nat)
  show ?thesis
  proof (cases rs)
    case (Inl e)
    then have "\<exists>e'. r = Inl e'" "t' = ?t"
      using assms(4) stat by (auto simp: sftp_read_all_def Let_def action_simps with_context_def asked_def ask_def map_err_def)
    moreover have "\<not> steady (sb_session b) files"
      using stat Inl assms(3) unfolding steady_def by (metis Inl_Inr_False fst_conv option.distinct(1))
    ultimately show ?thesis using inv by auto
  next
    case (Inr sz)
    then have "sftp_read_range b rel 0 (length c) ?t = (r, t')"
      using assms(4) stat law(2) [OF Inr assms(3)] n
      by (simp add: sftp_read_all_def Let_def action_simps with_context_def asked_def ask_def map_err_def)
    from sftp_read_range_exact [OF assms(1) inv assms(3) this] show ?thesis by (cases r) simp_all
  qed
qed

text \<open>In any state the backend can be in, its reads keep the contract that the layers above rely on.\<close>

interpretation sftp: ranged_reads "\<lambda>p off n. map_err error_text (fst (sftp_read_at b p off n t))"
  "\<lambda>p. map_err error_text (fst (sftp_read_all b p t))" "\<lambda>p. files (sftp_path b p)"
  "serves (sb_session b) files refers \<and> sftp_inv b refers t" for b files refers t
proof unfold_locales
  fix p c off n d
  assume sane: "serves (sb_session b) files refers \<and> sftp_inv b refers t" and c: "files (sftp_path b p) = Some c"
  show "d = take n (drop (unat off) c)" if "map_err error_text (fst (sftp_read_at b p off n t)) = Inr d"
    using sftp_read_at_exact [OF conjunct1 [OF sane] conjunct2 [OF sane] c, of off n] that
    by (cases "sftp_read_at b p off n t") (auto simp: map_err_Inr_iff)
  show "d = c" if "map_err error_text (fst (sftp_read_all b p t)) = Inr d"
    using sftp_read_all_exact [OF conjunct1 [OF sane] conjunct2 [OF sane] c] that
    by (cases "sftp_read_all b p t") (auto simp: map_err_Inr_iff)
qed

lemma sftp_new_inv:
  assumes "lru_documented ops" and "sftp_new ses ops destination root s = (b, t)"
  shows "sftp_inv b refers t" and "sb_session b = ses"
  using assms by (auto simp: sftp_new_def sftp_inv_def lru_new_def HANDLE_CACHE_def)

section \<open>Properties\<close>

text \<open>
  C11: a read over SFTP is exact.  Whatever answers of a documented server come back short, and whichever
  handles are cached or evicted, \<open>read_at\<close> returns the asked range of the remote file, cut off at its end, and
  fails only when the session does; afterwards every cached handle is still open on its own file and the
  server holds at most 64 of them.
\<close>

theorem sftp_reads_exact:
  assumes "serves (sb_session b) files refers" and "sftp_inv b refers t" and "files (sftp_path b rel) = Some c"
    and "sftp_read_at b rel off len t = (r, t')" and "len \<le> ISIZE_MAX"
  shows "(case r of Inr d \<Rightarrow> d = take len (drop (unat off) c) | Inl e \<Rightarrow> \<not> steady (sb_session b) files) \<and>
    length (lru_list (handles t')) \<le> 64 \<and> distinct (map snd (lru_list (handles t'))) \<and>
    (\<forall>(k, h) \<in> set (lru_list (handles t')). refers (session_state t') h (sftp_path b k))"
  using sftp_read_at_exact [OF assms(1-4)] assms(5) by (cases r) (auto simp: sftp_inv_def HANDLE_CACHE_def)

text \<open>A server that numbers its handles and answers three bytes at a time.\<close>

definition slow_session :: "bytes \<Rightarrow> (nat \<times> (string \<rightharpoonup> string)) session" where
  "slow_session c =
     \<lparr>ss_open = (\<lambda>p (n, m). let h = replicate n CHR ''x'' in (Inr h, Suc n, m(h \<mapsto> p))),
      ss_close = (\<lambda>h (n, m). (Inr (), n, m(h := None))),
      ss_read = (\<lambda>h at n s. (Inr (take (min (unat n) 3) (drop (unat at) c)), s)),
      ss_stat = (\<lambda>p s. (Inr (Some (of_nat (length c))), s)),
      ss_opendir = (\<lambda>p s. (Inr p, s)), ss_readdir = (\<lambda>h s. (Inl (Status_eof ''end''), s)),
      ss_exec = (\<lambda>cmd s. (Inl (Session_error ''no shell''), s))\<rparr>"

definition slow_refers :: "nat \<times> (string \<rightharpoonup> string) \<Rightarrow> string \<Rightarrow> string \<Rightarrow> bool" where
  "slow_refers s h p \<longleftrightarrow> snd s h = Some p \<and> length h < fst s"

lemma slow_serves:
  assumes "length c < 18446744073709551616"
  shows "serves (slow_session c) (\<lambda>_. Some c) slow_refers"
proof -
  have take: "prefix (take (min n 3) xs) (take n xs)" for n and xs :: bytes
    by (metis min.commute take_is_prefix take_take)
  have zero: "min (unat n) 3 = 0 \<Longrightarrow> n = 0" for n :: u32 by (simp add: min_def unat_eq_0 split: if_splits)
  have "opens_afresh (slow_session c) slow_refers"
    by (auto simp: opens_afresh_def slow_session_def slow_refers_def kept_def Let_def)
  moreover have "closes_only (slow_session c) slow_refers"
    by (auto simp: closes_only_def slow_session_def slow_refers_def)
  moreover have "reads_prefixes (slow_session c) (\<lambda>_. Some c) slow_refers"
    using take zero by (auto simp: reads_prefixes_def slow_session_def kept_def)
  moreover have "measures (slow_session c) (\<lambda>_. Some c) slow_refers"
    by (simp add: measures_def slow_session_def kept_def)
  ultimately show ?thesis using assms by (simp add: serves_def)
qed

theorem sftp_reads_exact_witness:
  "let (b, t) = sftp_new (slow_session [1, 2, 3, 4, 5, 6, 7, 8]) list_lru ''h'' ''/d/'' (0, Map.empty) in
   fst (sftp_read_at b ''f'' 1 5 t) = Inr [2, 3, 4, 5, 6]"
proof -
  let ?c = "[1, 2, 3, 4, 5, 6, 7, 8] :: bytes"
  obtain b t where new: "sftp_new (slow_session ?c) list_lru ''h'' ''/d/'' (0, Map.empty) = (b, t)" by fastforce
  note inv = sftp_new_inv(1) [OF list_lru_documented new, of slow_refers] sftp_new_inv(2) [OF list_lru_documented new]
  have srv: "serves (sb_session b) (\<lambda>_. Some ?c) slow_refers" unfolding inv(2) by (rule slow_serves) simp
  obtain r t' where run: "sftp_read_at b ''f'' 1 5 t = (r, t')" by fastforce
  have "steady (sb_session b) (\<lambda>_. Some ?c)"
    unfolding inv(2) by (auto simp: steady_def slow_session_def Let_def split: prod.splits)
  with sftp_reads_exact [OF srv inv(1) refl run] have "r = Inr (take 5 (drop (unat (1 :: u64)) ?c))"
    by (simp add: ISIZE_MAX_def split: sum.splits)
  then show ?thesis using new run by simp
qed

end
