(* ===== verification/Sftp_Listings.thy ===== *)
theory Sftp_Listings
  imports Sftp
begin

text \<open>
  Listings and destinations of the SFTP backend: the command that is run for a listing names exactly the
  directory, what it prints comes back as the entries, and the fallback over the protocol collects all
  answers of the server.
\<close>

section \<open>Quoting\<close>

text \<open>
  One word of a POSIX shell: outside quotes a blank ends it, a backslash takes the next character as it
  is, and a single quote starts a quoted part, in which only the next single quote is special.  Other
  characters that mean something to the shell are refused outside quotes.
\<close>

abbreviation quote_mark :: char where "quote_mark \<equiv> CHR 0x27"
abbreviation backslash :: char where "backslash \<equiv> CHR 0x5C"

datatype sh_mode = Unquoted | Quoted | Escaped

fun sh_word :: "sh_mode \<Rightarrow> string \<Rightarrow> string \<Rightarrow> (string \<times> string) option" where
  "sh_word Unquoted acc [] = Some (acc, [])"
| "sh_word Unquoted acc (c # cs) =
     (if c = CHR '' '' then Some (acc, c # cs)
      else if c = quote_mark then sh_word Quoted acc cs
      else if c = backslash then sh_word Escaped acc cs
      else if c \<in> set ''|&;<>()$`*?[]#~=%{}!'' \<or> c = CHR 0x22 then None
      else sh_word Unquoted (acc @ [c]) cs)"
| "sh_word Quoted acc [] = None"
| "sh_word Quoted acc (c # cs) = (if c = quote_mark then sh_word Unquoted acc cs else sh_word Quoted (acc @ [c]) cs)"
| "sh_word Escaped acc [] = None"
| "sh_word Escaped acc (c # cs) = sh_word Unquoted (acc @ [c]) cs"

lemma sh_word_quoted:
  "sh_word Quoted acc (concat (map (\<lambda>c. if c = quote_mark then [quote_mark, backslash, quote_mark, quote_mark] else [c]) path) @
     quote_mark # rest) = sh_word Unquoted (acc @ path) rest"
  by (induction path arbitrary: acc) simp_all

lemma sh_word_quote: "sh_word Unquoted acc (quote path @ rest) = sh_word Unquoted (acc @ path) rest"
  using sh_word_quoted [of acc path rest] by (simp add: quote_def)

section \<open>Listings\<close>

text \<open>What \<open>find\<close> prints for an entry: its type, size and name.\<close>

definition tab :: char where "tab = char_of (9 :: nat)"
definition newline :: char where "newline = char_of (10 :: nat)"

definition found_line :: "dir_entry \<Rightarrow> string" where
  "found_line e = (if de_is_dir e then ''d'' else ''f'') @ [tab] @ show_dec (unat (de_size e)) @ [tab] @ de_name e"

lemma blank_chars: "tab = CHR 0x09" "newline = CHR 0x0A"
  by (simp_all add: tab_def newline_def char_of_def bit_iff_odd drop_bit_eq_div)

lemma show_dec_no_tab: "tab \<notin> set (show_dec n)" "newline \<notin> set (show_dec n)"
  using show_dec_chars [of n] by (auto simp: blank_chars)

lemma parse_u64_show: "parse_u64 (show_dec (unat n)) = Some n"
  using unat_u64_less [of n] by (simp add: parse_u64_def parse_show_dec)

lemma find_line_found: "find_line (found_line e) = Some e"
proof -
  let ?t = "if de_is_dir e then ''d'' else ''f''"
  have "split_once tab (found_line e) = Some (?t, show_dec (unat (de_size e)) @ tab # de_name e)"
    using split_once_append [of tab "''d''"] split_once_append [of tab "''f''"] by (simp add: found_line_def blank_chars)
  moreover have "split_once tab (show_dec (unat (de_size e)) @ tab # de_name e) = Some (show_dec (unat (de_size e)), de_name e)"
    by (rule split_once_append [OF show_dec_no_tab(1)])
  ultimately have "splitn 3 tab (found_line e) = [?t, show_dec (unat (de_size e)), de_name e]"
    by (simp add: numeral_3_eq_3)
  then show ?thesis by (simp add: find_line_def tab_def [symmetric] parse_u64_show)
qed

lemma collect_data: "collect ms out st = (out @ concat [d. Msg_data d \<leftarrow> ms], snd (collect ms out st))"
  by (induction ms out st rule: collect.induct) simp_all

lemma found_listing:
  assumes "\<forall>e \<in> set es. newline \<notin> set (de_name e) \<and> (de_name e \<noteq> [] \<longrightarrow> last (de_name e) \<noteq> char_of (13 :: nat))"
  shows "List.map_filter find_line (lines (concat (map (\<lambda>e. found_line e @ [newline]) es))) = es"
proof -
  let ?ls = "map found_line es"
  have clean: "newline \<notin> set (found_line e)" "strip_cr (found_line e) = found_line e" if "e \<in> set es" for e
  proof -
    show "newline \<notin> set (found_line e)"
      using assms that show_dec_no_tab(2) by (auto simp: found_line_def blank_chars)
    have "tab \<noteq> char_of (13 :: nat)" by (simp add: tab_def)
    then have "last (found_line e) \<noteq> char_of (13 :: nat)"
      using assms that by (cases "de_name e = []") (auto simp: found_line_def)
    then show "strip_cr (found_line e) = found_line e" by (simp add: strip_cr_def)
  qed
  have "lines (concat (map (\<lambda>l. l @ [newline]) ?ls)) = map strip_cr ?ls"
    unfolding newline_def by (rule lines_text) (use clean in \<open>auto simp: newline_def\<close>)
  also have "map strip_cr ?ls = ?ls" using clean(2) by (simp add: map_idI)
  finally have "lines (concat (map (\<lambda>e. found_line e @ [newline]) es)) = ?ls" by (simp add: comp_def)
  moreover have "List.map_filter find_line (map found_line es) = es"
    by (induction es) (simp_all add: find_line_found)
  ultimately show ?thesis by simp
qed

text \<open>
  The answers of a server to a directory that is read: some with names, and then the end.
\<close>

inductive gives :: "'s session \<Rightarrow> string \<Rightarrow> 's \<Rightarrow> sftp_file list list \<Rightarrow> 's \<Rightarrow> bool" for ses dir where
  no_more: "ss_readdir ses dir s = (Inl (Status_eof m), s') \<Longrightarrow> gives ses dir s [] s'"
| some_more: "ss_readdir ses dir s = (Inr fs, s1) \<Longrightarrow> gives ses dir s1 fss s' \<Longrightarrow> gives ses dir s (fs # fss) s'"

lemma readdir_all_collects:
  assumes "gives (sb_session b) dir s fss s'" and "session_state t = s"
  shows "readdir_all b path dir out t =
    Some (Inr (out @ concat (map sftp_entries fss)),
      t\<lparr>session_state := snd (ss_close (sb_session b) dir s')\<rparr>)"
  using assms
proof (induction arbitrary: t out rule: gives.induct)
  case (no_more s m s')
  then show ?case by (subst readdir_all.simps) (simp add: ask_def action_simps split: prod.splits)
next
  case (some_more s fs s1 fss s')
  then show ?case by (subst readdir_all.simps) simp
qed

section \<open>Destinations\<close>

lemma rsplit_once_append:
  assumes "c \<notin> set p"
  shows "rsplit_once c (h @ c # p) = Some (h, p)"
  using split_once_append [of c "rev p" "rev h"] assms by (simp add: rsplit_once_def)

lemma parse_u16_show: "parse_u16 (show_dec (unat n)) = Some n"
  using unat_u16_less [of n] by (simp add: parse_u16_def parse_show_dec)

lemma show_dec_chars_not: "c \<notin> set ''0123456789'' \<Longrightarrow> c \<notin> set (show_dec n)"
  using show_dec_chars [of n] by blast

section \<open>Properties\<close>

text \<open>
  C12: the listing command is about the directory and nothing else.  For every path, whatever quotes,
  blanks or shell characters it has, the remote shell reads the quoted part of the command as one word,
  which is the path, followed by the fixed options.
\<close>

theorem find_command_safe:
  "sh_word Unquoted [] (drop (length ''find -L '') (find_command path)) =
     Some (path, drop (length (''find -L '' @ quote path)) (find_command path))"
  using sh_word_quote [of "[]" path "drop (length (''find -L '' @ quote path)) (find_command path)"]
  by (simp add: find_command_def)

text \<open>
  C13: a listing comes back as it was found.  When the remote \<open>find\<close> prints one line for each entry,
  however the channel cuts up its output, and exits with success, \<open>list_dir\<close> returns exactly those entries
  with their names, sizes and kinds; the names must be UTF-8, have no line feed and not end in a carriage
  return, but may contain tabs.
\<close>

theorem find_listing_roundtrip:
  assumes "ss_exec (sb_session b) (find_command (sftp_path b rel)) (session_state t) = (Inr msgs, s1)"
    and "concat [d. Msg_data d \<leftarrow> msgs] = as_bytes (concat (map (\<lambda>e. found_line e @ [newline]) es))"
    and "snd (collect msgs [] None) = Some 0"
    and "\<forall>e \<in> set es. newline \<notin> set (de_name e) \<and> (de_name e \<noteq> [] \<longrightarrow> last (de_name e) \<noteq> char_of (13 :: nat))"
    and "from_utf8_lossy (as_bytes (concat (map (\<lambda>e. found_line e @ [newline]) es))) =
      concat (map (\<lambda>e. found_line e @ [newline]) es)"
  shows "sftp_list_dir b rel t = Some (Inr es, t\<lparr>session_state := s1\<rparr>)"
proof -
  have "collect msgs [] None = (as_bytes (concat (map (\<lambda>e. found_line e @ [newline]) es)), Some 0)"
    using collect_data [of msgs "[]" None] assms(2,3) by simp
  then have "list_dir_via_find b (sftp_path b rel) t = (Inr es, t\<lparr>session_state := s1\<rparr>)"
    using assms(1,5) found_listing [OF assms(4)]
    by (simp add: list_dir_via_find_def asked_def ask_def action_simps map_err_def)
  then show ?thesis by (simp add: sftp_list_dir_def)
qed

theorem find_listing_roundtrip_witness:
  "let out = ''d'' @ [tab] @ ''4096'' @ [tab] @ ''a'' @ [tab] @ ''b'' @ [newline];
       ses = \<lparr>ss_open = (\<lambda>p s. (Inl (Session_error ''no''), s)), ss_close = (\<lambda>h s. (Inr (), s)),
         ss_read = (\<lambda>h at n s. (Inr [], s)), ss_stat = (\<lambda>p s. (Inr None, s)), ss_opendir = (\<lambda>p s. (Inr p, s)),
         ss_readdir = (\<lambda>h s. (Inl (Status_eof ''end''), s)),
         ss_exec = (\<lambda>cmd s. (Inr [Msg_data (as_bytes (take 3 out)), Msg_exit_status 0, Msg_data (as_bytes (drop 3 out))], ()))\<rparr>;
       (b, t) = sftp_new ses list_lru ''h'' ''/d/'' ()
   in map_option fst (sftp_list_dir b ''blobs'' t) =
        Some (Inr [\<lparr>de_name = ''a'' @ [tab] @ ''b'', de_size = 4096, de_is_dir = True\<rparr>])"
proof -
  let ?e = "\<lparr>de_name = ''a'' @ [tab] @ ''b'', de_size = 4096, de_is_dir = True\<rparr>"
  let ?out = "''d'' @ [tab] @ ''4096'' @ [tab] @ ''a'' @ [tab] @ ''b'' @ [newline]"
  have line: "concat (map (\<lambda>e. found_line e @ [newline]) [?e]) = ?out"
    by (simp add: found_line_def show_radix.simps digit_char_def char_of_def bit_iff_odd drop_bit_eq_div)
  have utf8: "from_utf8_lossy (as_bytes ?out) = ?out"
    by (rule from_utf8_lossy_ascii) (simp add: blank_chars)
  let ?msgs = "[Msg_data (as_bytes (take 3 ?out)), Msg_exit_status 0, Msg_data (as_bytes (drop 3 ?out))]"
  obtain ses :: "unit session" where ses: "ses = \<lparr>ss_open = (\<lambda>p s. (Inl (Session_error ''no''), s)), ss_close = (\<lambda>h s. (Inr (), s)),
         ss_read = (\<lambda>h at n s. (Inr [], s)), ss_stat = (\<lambda>p s. (Inr None, s)), ss_opendir = (\<lambda>p s. (Inr p, s)),
         ss_readdir = (\<lambda>h s. (Inl (Status_eof ''end''), s)), ss_exec = (\<lambda>cmd s. (Inr ?msgs, ()))\<rparr>" by blast
  obtain b t where new: "sftp_new ses list_lru ''h'' ''/d/'' () = (b, t)" by fastforce
  have "ss_exec (sb_session b) (find_command (sftp_path b ''blobs'')) (session_state t) = (Inr ?msgs, ())"
    using new by (auto simp: sftp_new_def ses)
  from find_listing_roundtrip [OF this, of "[?e]", unfolded line, OF _ _ _ utf8]
  have "sftp_list_dir b ''blobs'' t = Some (Inr [?e], t\<lparr>session_state := ()\<rparr>)"
    by (simp add: blank_chars as_bytes_def char_of_def bit_iff_odd drop_bit_eq_div)
  then show ?thesis using new unfolding ses Let_def by simp
qed

text \<open>
  A listing falls back to the protocol.  When \<open>find\<close> cannot be run on the server, or ends in failure
  or without a status, the listing is everything the server gives for the directory over the protocol
  until it says that there is no more, in its order, without \<open>.\<close> and \<open>..\<close>, and the directory is closed.
\<close>

theorem listing_falls_back:
  assumes "ss_exec (sb_session b) (find_command (sftp_path b rel)) (session_state t) = (found, s1)"
    and "\<forall>msgs. found = Inr msgs \<longrightarrow> snd (collect msgs [] None) \<noteq> Some 0"
    and "ss_opendir (sb_session b) (sftp_path b rel) s1 = (Inr dir, s2)" and "gives (sb_session b) dir s2 fss s3"
  shows "sftp_list_dir b rel t =
    Some (Inr (concat (map sftp_entries fss)), t\<lparr>session_state := snd (ss_close (sb_session b) dir s3)\<rparr>)"
proof -
  have "\<exists>e. list_dir_via_find b (sftp_path b rel) t = (Inl e, t\<lparr>session_state := s1\<rparr>)"
  proof (cases found)
    case (Inr msgs)
    with assms(1,2) show ?thesis
      by (cases "collect msgs [] None") (simp add: list_dir_via_find_def asked_def ask_def action_simps map_err_def)
  qed (use assms(1) in \<open>simp add: list_dir_via_find_def asked_def ask_def action_simps map_err_def\<close>)
  then obtain e where find: "list_dir_via_find b (sftp_path b rel) t = (Inl e, t\<lparr>session_state := s1\<rparr>)" by blast
  have "list_dir_via_sftp b (sftp_path b rel) (t\<lparr>session_state := s1\<rparr>) =
      readdir_all b (sftp_path b rel) dir [] (t\<lparr>session_state := s2\<rparr>)"
    using assms(3) by (simp add: list_dir_via_sftp_def with_context_def asked_def ask_def action_simps map_err_def)
  also have "\<dots> = Some (Inr (concat (map sftp_entries fss)), t\<lparr>session_state := snd (ss_close (sb_session b) dir s3)\<rparr>)"
    using readdir_all_collects [OF assms(4), of "t\<lparr>session_state := s2\<rparr>"] by simp
  finally show ?thesis using find by (simp add: sftp_list_dir_def)
qed

theorem listing_falls_back_witness:
  "let ses = \<lparr>ss_open = (\<lambda>p s. (Inl (Session_error ''no''), s)), ss_close = (\<lambda>h s. (Inr (), s)),
         ss_read = (\<lambda>h at n s. (Inr [], s)), ss_stat = (\<lambda>p s. (Inr None, s)), ss_opendir = (\<lambda>p s. (Inr p, 1)),
         ss_readdir = (\<lambda>h s. if s = 0 then (Inl (Status_eof ''end''), s)
            else (Inr [\<lparr>sf_filename = ''.'', sf_size = None, sf_is_dir = True\<rparr>, \<lparr>sf_filename = ''f'', sf_size = Some 9, sf_is_dir = False\<rparr>], s - 1)),
         ss_exec = (\<lambda>cmd s. (Inr [Msg_exit_status 127], s))\<rparr>;
       (b, t) = sftp_new ses list_lru ''h'' ''/d/'' (0 :: nat)
   in map_option fst (sftp_list_dir b ''blobs'' t) =
        Some (Inr [\<lparr>de_name = ''f'', de_size = 9, de_is_dir = False\<rparr>])"
proof -
  let ?fs = "[\<lparr>sf_filename = ''.'', sf_size = None, sf_is_dir = True\<rparr>, \<lparr>sf_filename = ''f'', sf_size = Some 9, sf_is_dir = False\<rparr>]"
  obtain ses :: "nat session" where ses: "ses = \<lparr>ss_open = (\<lambda>p s. (Inl (Session_error ''no''), s)), ss_close = (\<lambda>h s. (Inr (), s)),
         ss_read = (\<lambda>h at n s. (Inr [], s)), ss_stat = (\<lambda>p s. (Inr None, s)), ss_opendir = (\<lambda>p s. (Inr p, 1)),
         ss_readdir = (\<lambda>h s. if s = 0 then (Inl (Status_eof ''end''), s) else (Inr ?fs, s - 1)),
         ss_exec = (\<lambda>cmd s. (Inr [Msg_exit_status 127], s))\<rparr>" by blast
  obtain b t where new: "sftp_new ses list_lru ''h'' ''/d/'' 0 = (b, t)" by fastforce
  then have b: "sb_session b = ses" "session_state t = 0" by (auto simp: sftp_new_def)
  have "gives ses dir 0 [] 0" for dir by (rule gives.no_more) (simp add: ses)
  then have gives: "gives (sb_session b) dir 1 [?fs] 0" for dir unfolding b by (rule gives.some_more [rotated]) (simp add: ses)
  have "sftp_list_dir b ''blobs'' t = Some (Inr (concat (map sftp_entries [?fs])), t\<lparr>session_state := snd (ss_close (sb_session b) (sftp_path b ''blobs'') 0)\<rparr>)"
    by (rule listing_falls_back [OF _ _ _ gives, where found = "Inr [Msg_exit_status 127]"]) (simp_all add: b ses)
  then show ?thesis using new unfolding ses Let_def by (simp add: sftp_entries_def)
qed

text \<open>
  A source URL leads to its host.  A URL with a user, a host and a port that does not name a local
  file is read as that directory of that host, and its destination splits into exactly that user, host
  and port; the host may contain colons.
\<close>

theorem source_url_splits:
  assumes "\<not> exists_locally (''sftp://'' @ user @ ''@'' @ host @ '':'' @ show_dec (unat port) @ ''/'' @ dir)"
    and "CHR ''@'' \<notin> set user" and "CHR ''/'' \<notin> set user" and "CHR ''/'' \<notin> set host"
  shows "\<exists>destination.
    parse_source exists_locally (''sftp://'' @ user @ ''@'' @ host @ '':'' @ show_dec (unat port) @ ''/'' @ dir) =
      Sftp destination (''/'' @ dir) \<and>
    split_destination destination = (Some user, host, Some port)"
proof -
  let ?hp = "host @ '':'' @ show_dec (unat port)"
  let ?rest = "user @ ''@'' @ ?hp"
  have slash: "\<forall>c \<in> set ?rest. c \<noteq> CHR ''/''" using assms(3,4) show_dec_chars_not [of "CHR ''/''"] by auto
  have "takeWhile (\<lambda>c. c \<noteq> CHR ''/'') (?rest @ ''/'' @ dir) = ?rest @ takeWhile (\<lambda>c. c \<noteq> CHR ''/'') (''/'' @ dir)"
    by (rule takeWhile_append2) (use slash in blast)
  moreover have "dropWhile (\<lambda>c. c \<noteq> CHR ''/'') (?rest @ ''/'' @ dir) = dropWhile (\<lambda>c. c \<noteq> CHR ''/'') (''/'' @ dir)"
    by (rule dropWhile_append2) (use slash in blast)
  ultimately have "parse_source exists_locally (''sftp://'' @ ?rest @ ''/'' @ dir) = Sftp (''ssh://'' @ ?rest) (''/'' @ dir)"
    using assms(1) by (simp add: parse_source_def strip_prefix_def)
  moreover have "split_once CHR ''@'' ?rest = Some (user, ?hp)" using split_once_append [OF assms(2), of ?hp] by simp
  moreover have "rsplit_once CHR '':'' ?hp = Some (host, show_dec (unat port))"
    using rsplit_once_append [of "CHR '':''" "show_dec (unat port)" host] show_dec_chars_not [of "CHR '':''"] by simp
  ultimately show ?thesis
    by (simp add: split_destination_def strip_prefix_def parse_u16_show)
qed

theorem source_url_splits_witness:
  "\<exists>destination. parse_source (\<lambda>_. False) ''sftp://me@host:22/data'' = Sftp destination ''/data'' \<and>
     split_destination destination = (Some ''me'', ''host'', Some 22)"
  using source_url_splits [of "\<lambda>_. False" "''me''" "''host''" 22 "''data''"]
  by (simp add: show_radix.simps digit_char_def char_of_def bit_iff_odd drop_bit_eq_div)

end
