(* ===== verification/Win_Fs.thy ===== *)
theory Win_Fs
  imports Virtual_Tree
begin

text \<open>
  The WinFsp front end (\<open>src/winfs.rs\<close>): paths are resolved from the root on every open, links are the
  directories they point at, and names may be spelled in any case.  A file name is the text that its
  wide string converts to; the security descriptor and the directory buffer are the system's, the
  buffer with its operations as a parameter.  Loading the DLL and mounting are calls into the system.
\<close>

section \<open>Definitions\<close>

definition SECTOR_SIZE :: u64 where
  "SECTOR_SIZE = 512"

definition SECTORS_PER_ALLOCATION_UNIT :: u64 where
  "SECTORS_PER_ALLOCATION_UNIT = 1"

definition ALLOCATION_UNIT :: u64 where
  "ALLOCATION_UNIT = SECTOR_SIZE * SECTORS_PER_ALLOCATION_UNIT"

text \<open>The codes that the front end uses by name; the crate has others of its own.\<close>

datatype nt_status =
    STATUS_OBJECT_NAME_NOT_FOUND
  | STATUS_NOT_A_DIRECTORY
  | STATUS_FILE_INVALID
  | STATUS_ACCESS_DENIED
  | STATUS_IO_DEVICE_ERROR
  | STATUS_FILE_CORRUPT_ERROR
  | STATUS_END_OF_FILE
  | Other_status u32

datatype win_failure =
    Nt nt_status
  | Win_panic

fun class_status :: "error_class \<Rightarrow> nt_status" where
  "class_status Class_missing = STATUS_FILE_INVALID"
| "class_status Class_no_key = STATUS_ACCESS_DENIED"
| "class_status Class_io = STATUS_IO_DEVICE_ERROR"
| "class_status Class_bad_data = STATUS_FILE_CORRUPT_ERROR"

fun status :: "tree_error \<Rightarrow> nt_status" where
  "status NotFound = STATUS_OBJECT_NAME_NOT_FOUND"
| "status NotADirectory = STATUS_NOT_A_DIRECTORY"
| "status (Read r) = class_status (read_error_class r)"

fun to_status :: "tree_failure \<Rightarrow> win_failure" where
  "to_status (Tree_error e) = Nt (status e)"
| "to_status Tree_panic = Win_panic"

definition UNIX_EPOCH_IN_TICKS :: u64 where
  "UNIX_EPOCH_IN_TICKS = 116444736000000000"

definition saturating_add :: "u64 \<Rightarrow> nat \<Rightarrow> u64" where
  "saturating_add a n = of_nat (min (unat a + n) 18446744073709551615)"

definition filetime :: "system_time \<Rightarrow> u64" where
  "filetime t =
     (let ticks = (fst t * 1000000000 + snd t) div 100
      in saturating_add UNIX_EPOCH_IN_TICKS (min ticks 18446744073709551615))"

definition FILE_ATTRIBUTE_READONLY :: u32 where
  "FILE_ATTRIBUTE_READONLY = 1"

definition FILE_ATTRIBUTE_DIRECTORY :: u32 where
  "FILE_ATTRIBUTE_DIRECTORY = 0x10"

record file_info =
  fi_attributes :: u32
  fi_reparse_tag :: u32
  fi_file_size :: u64
  fi_allocation_size :: u64
  fi_creation_time :: u64
  fi_last_access_time :: u64
  fi_last_write_time :: u64
  fi_change_time :: u64
  fi_index_number :: u64
  fi_hard_links :: u32
  fi_ea_size :: u32

unbundle bit_operations_syntax

definition attributes :: "meta \<Rightarrow> u32" where
  "attributes mt =
     (if m_kind mt = Dir \<or> m_kind mt = Symlink then FILE_ATTRIBUTE_DIRECTORY OR FILE_ATTRIBUTE_READONLY
      else FILE_ATTRIBUTE_READONLY)"

definition div_ceil :: "u64 \<Rightarrow> u64 \<Rightarrow> u64" where
  "div_ceil a b = (if a mod b = 0 then a div b else a div b + 1)"

definition fill_info :: "meta \<Rightarrow> file_info" where
  "fill_info mt =
     (let time = filetime (m_mtime mt)
      in \<lparr>fi_attributes = attributes mt, fi_reparse_tag = 0, fi_file_size = m_size mt,
          fi_allocation_size = div_ceil (m_size mt) ALLOCATION_UNIT * ALLOCATION_UNIT,
          fi_creation_time = time, fi_last_access_time = time, fi_last_write_time = time, fi_change_time = time,
          fi_index_number = 0, fi_hard_links = 0, fi_ea_size = 0\<rparr>)"

subsection \<open>Paths\<close>

definition win_resolve :: "env \<Rightarrow> tree_key \<Rightarrow> tree_key" where
  "win_resolve env key =
     (case key of
        Latest d \<Rightarrow> (case latest (env_index env) d of Some b \<Rightarrow> Version b | None \<Rightarrow> key)
      | DateLink b \<Rightarrow> Version b
      | _ \<Rightarrow> key)"

definition ascii_lower :: "char \<Rightarrow> char" where
  "ascii_lower c = (let n = of_char c :: nat in if 65 \<le> n \<and> n \<le> 90 then char_of (n + 32) else c)"

definition eq_ignore_ascii_case :: "string \<Rightarrow> string \<Rightarrow> bool" where
  "eq_ignore_ascii_case a b \<longleftrightarrow> map ascii_lower a = map ascii_lower b"

definition lookup_insensitive :: "env \<Rightarrow> tree_key \<Rightarrow> string \<Rightarrow> tree_key tree_run" where
  "lookup_insensitive env dir name =
     abind (entries env dir) (\<lambda>es.
     pure (ok_or (Tree_error NotFound)
       (map_option e_key (List.find (\<lambda>e. eq_ignore_ascii_case (from_utf8_lossy (e_name e)) name) es))))"

fun resolve_components :: "env \<Rightarrow> tree_key \<Rightarrow> string list \<Rightarrow> tree_key tree_run" where
  "resolve_components env key [] = ret (win_resolve env key)"
| "resolve_components env key (c # cs) =
     (if c = ''.'' then resolve_components env key cs
      else if c = ''..'' then abind (tree_parent env key) (\<lambda>up. resolve_components env up cs)
      else
        let dir = win_resolve env key in
        abind (tree_lookup env dir (as_bytes c)) (\<lambda>found.
        case found of
          Some k \<Rightarrow> resolve_components env k cs
        | None \<Rightarrow> abind (lookup_insensitive env dir c) (\<lambda>k. resolve_components env k cs)))"

definition resolve_path :: "env \<Rightarrow> string \<Rightarrow> tree_key tree_run" where
  "resolve_path env p =
     resolve_components env Root (filter (\<lambda>c. c \<noteq> []) (split_all (CHR 0x5C) p))"

subsection \<open>Operations\<close>

type_synonym 'a win_run = "(store, win_failure, 'a) action"

definition win_lift :: "'a tree_run \<Rightarrow> 'a win_run" where
  "win_lift m = (\<lambda>s. map_prod (map_err to_status) id (m s))"

definition win_meta :: "env \<Rightarrow> tree_key \<Rightarrow> meta win_run" where
  "win_meta env key = win_lift (tree_meta env key)"

text \<open>A buffer that is long enough gets a copy of the descriptor.\<close>

definition copy_security :: "bytes \<Rightarrow> bytes option \<Rightarrow> bytes option" where
  "copy_security sec buf =
     map_option (\<lambda>d. if length sec \<le> length d then sec @ drop (length sec) d else d) buf"

record file_security =
  fsec_reparse :: bool
  fsec_size :: u64
  fsec_attributes :: u32

definition get_security_by_name :: "env \<Rightarrow> bytes \<Rightarrow> string \<Rightarrow> bytes option \<Rightarrow> (file_security \<times> bytes option) win_run" where
  "get_security_by_name env sec p buf =
     abind (win_lift (resolve_path env p)) (\<lambda>key.
     abind (win_meta env key) (\<lambda>mt.
     ret (\<lparr>fsec_reparse = False, fsec_size = of_nat (length sec), fsec_attributes = attributes mt\<rparr>,
          copy_security sec buf)))"

record 'd win_context =
  wc_key :: tree_key
  wc_kind :: kind
  wc_dir :: 'd

definition win_open :: "env \<Rightarrow> 'd \<Rightarrow> string \<Rightarrow> (file_info \<times> 'd win_context) win_run" where
  "win_open env new_buffer p =
     abind (win_lift (resolve_path env p)) (\<lambda>key.
     abind (win_meta env key) (\<lambda>mt.
     ret (fill_info mt, \<lparr>wc_key = key, wc_kind = m_kind mt, wc_dir = new_buffer\<rparr>)))"

definition get_file_info :: "env \<Rightarrow> 'd win_context \<Rightarrow> file_info win_run" where
  "get_file_info env ctx = abind (win_meta env (wc_key ctx)) (\<lambda>mt. ret (fill_info mt))"

definition get_security :: "bytes \<Rightarrow> bytes option \<Rightarrow> (u64 \<times> bytes option) win_run" where
  "get_security sec buf = ret (of_nat (length sec), copy_security sec buf)"

definition win_read :: "env \<Rightarrow> 'd win_context \<Rightarrow> bytes \<Rightarrow> u64 \<Rightarrow> (u32 \<times> bytes) win_run" where
  "win_read env ctx buffer offset =
     abind (win_lift (tree_locate env (wc_key ctx))) (\<lambda>loc.
     let size = fr_size (loc_record loc) in
     if size \<le> offset then fail (Nt STATUS_END_OF_FILE)
     else
       let want = min (length buffer) (unat (size - offset)) in
       abind (win_lift (tree_read env loc offset want)) (\<lambda>data.
       if length data \<le> length buffer
       then ret (of_nat (length data), data @ drop (length data) buffer)
       else fail Win_panic))"

subsection \<open>Directories\<close>

text \<open>
  The directory buffer of an open directory.  It can be acquired for filling as long as it has not been
  filled; entries are written to it, in which the name may be refused; it is released whichever way the
  filling ends; and it serves the pages.
\<close>

record 'd dir_buffer =
  db_acquire :: "'d \<Rightarrow> 'd option"
  db_write :: "string \<Rightarrow> file_info \<Rightarrow> 'd \<Rightarrow> (u32 + unit) \<times> 'd"
  db_release :: "'d \<Rightarrow> 'd"
  db_read :: "string option \<Rightarrow> nat \<Rightarrow> 'd \<Rightarrow> bytes"

record 'd win_state =
  ws_store :: store
  ws_dir :: 'd

type_synonym ('d, 'a) dir_run = "('d win_state, win_failure, 'a) action"

definition on_store :: "'a win_run \<Rightarrow> ('d, 'a) dir_run" where
  "on_store m = (\<lambda>w. case m (ws_store w) of (r, s) \<Rightarrow> (r, w\<lparr>ws_store := s\<rparr>))"

definition write_entry :: "'d dir_buffer \<Rightarrow> string \<Rightarrow> meta \<Rightarrow> ('d, unit) dir_run" where
  "write_entry ops name mt = (\<lambda>w.
     case db_write ops name (fill_info mt) (ws_dir w) of
       (r, d) \<Rightarrow> (map_err (\<lambda>e. Nt (Other_status e)) r, w\<lparr>ws_dir := d\<rparr>))"

text \<open>\<open>unwrap_or\<close> on a result: an error gives the other value, a panic does not.\<close>

definition meta_or :: "meta \<Rightarrow> meta win_run \<Rightarrow> meta win_run" where
  "meta_or mt m = (\<lambda>s. case m s of (Inl (Nt e), s') \<Rightarrow> (Inr mt, s') | (r, s') \<Rightarrow> (r, s'))"

definition write_dots :: "env \<Rightarrow> 'd dir_buffer \<Rightarrow> tree_key \<Rightarrow> ('d, unit) dir_run" where
  "write_dots env ops key =
     (if key = Root then ret ()
      else
        abind (on_store (win_meta env key)) (\<lambda>this.
        abind (write_entry ops ''.'' this) (\<lambda>_.
        abind (on_store (win_lift (tree_parent env key))) (\<lambda>up.
        abind (on_store (meta_or this (win_meta env (win_resolve env up)))) (\<lambda>pm.
        write_entry ops ''..'' pm)))))"

fun write_entries :: "env \<Rightarrow> 'd dir_buffer \<Rightarrow> tree_entry list \<Rightarrow> ('d, unit) dir_run" where
  "write_entries env ops [] = ret ()"
| "write_entries env ops (e # es) =
     abind (on_store (meta_or \<lparr>m_kind = e_kind e, m_size = 0, m_mtime = UNIX_EPOCH\<rparr>
       (win_meta env (win_resolve env (e_key e))))) (\<lambda>mt.
     abind (write_entry ops (from_utf8_lossy (e_name e)) mt) (\<lambda>_.
     write_entries env ops es))"

definition fill_directory :: "env \<Rightarrow> 'd dir_buffer \<Rightarrow> tree_key \<Rightarrow> ('d, unit) dir_run" where
  "fill_directory env ops key =
     abind (on_store (win_lift (entries env key))) (\<lambda>es.
     abind (write_dots env ops key) (\<lambda>_.
     write_entries env ops es))"

definition read_directory :: "env \<Rightarrow> 'd dir_buffer \<Rightarrow> tree_key \<Rightarrow> kind \<Rightarrow> string option \<Rightarrow> nat \<Rightarrow> ('d, bytes) dir_run" where
  "read_directory env ops key kind marker len =
     (if kind \<noteq> Dir then fail (Nt STATUS_NOT_A_DIRECTORY)
      else (\<lambda>w.
        case db_acquire ops (ws_dir w) of
          None \<Rightarrow> (Inr (db_read ops marker len (ws_dir w)), w)
        | Some d \<Rightarrow>
            (case fill_directory env ops key (w\<lparr>ws_dir := d\<rparr>) of
               (Inl e, w') \<Rightarrow> (Inl e, w'\<lparr>ws_dir := db_release ops (ws_dir w')\<rparr>)
             | (Inr _, w') \<Rightarrow>
                 let w'' = w'\<lparr>ws_dir := db_release ops (ws_dir w')\<rparr>
                 in (Inr (db_read ops marker len (ws_dir w'')), w''))))"

record volume_info =
  vi_total_size :: u64
  vi_free_size :: u64
  vi_label :: string

definition get_volume_info :: volume_info where
  "get_volume_info = \<lparr>vi_total_size = 0, vi_free_size = 0, vi_label = ''steam2''\<rparr>"

end
