(* ===== verification/Win_Safety.thy ===== *)
theory Win_Safety
  imports Win_Fs Fuse_Safety
begin

text \<open>
  The WinFsp front end over a good dump: every path resolves to a key of the dump or to an error, and no
  operation ends the process, the copy into the caller's buffer included.
\<close>

section \<open>Keys\<close>

definition tame :: "env \<Rightarrow> (string \<Rightarrow> bytes) \<Rightarrow> ('a \<Rightarrow> bool) \<Rightarrow> tree_failure + 'a \<Rightarrow> bool" where
  "tame env files P r \<longleftrightarrow>
     (case r of Inr x \<Rightarrow> P x | Inl e \<Rightarrow> e \<noteq> Tree_panic \<or> \<not> (reliable env \<and> all_intact env files))"

lemma tame_simps [simp]:
  "tame env files P (Inr x) = P x" "tame env files P (Inl (Tree_error e))"
  "tame env files P (Inl Tree_panic) = (\<not> (reliable env \<and> all_intact env files))"
  by (simp_all add: tame_def)

lemma sound_tame: "sound env files P r \<Longrightarrow> tame env files P r"
  by (auto simp: tame_def split: sum.splits)

definition tames :: "env \<Rightarrow> (string \<Rightarrow> bytes) \<Rightarrow> ('a \<Rightarrow> bool) \<Rightarrow> 'a tree_run \<Rightarrow> bool" where
  "tames env files P m \<longleftrightarrow> (\<forall>s. sat (store_inv env files (located_files env files)) store_frame m (\<lambda>r s. tame env files P r) s)"

lemma tames_abind:
  assumes "tames env files P m" and "\<And>x. P x \<Longrightarrow> tames env files Q (f x)"
  shows "tames env files Q (abind m f)"
  unfolding tames_def
  by (intro allI store_runs.sat_abind [OF spec [OF assms(1) [unfolded tames_def]]])
    (use assms(2) in \<open>auto simp: tame_def tames_def\<close>)

lemma tames_ret: "P x \<Longrightarrow> tames env files P (ret x)"
  by (auto simp: tames_def intro: store_runs.sat_ret)

lemma tames_sound:
  assumes "\<And>s. sat (store_inv env files (located_files env files)) store_frame m (\<lambda>r s. sound env files P r) s"
  shows "tames env files P m"
  unfolding tames_def by (intro allI, rule sat_weaken [OF assms]) (rule sound_tame)

lemma win_resolve_known:
  assumes "good_dump env files" and "known_key env files key"
  shows "known_key env files (win_resolve env key)"
proof (cases "\<exists>d. key = Latest d")
  case True
  then obtain d where d: "key = Latest d" "index_depot (env_index env) d \<noteq> None" using assms(2) by auto
  obtain b where "latest (env_index env) d = Some b" "unat b < length (blobs (env_index env))"
    using latest_some [OF good_dump_parts(2) [OF assms(1)] d(2)] by metis
  then show ?thesis by (simp add: d(1) win_resolve_def known_def)
next
  case False
  then show ?thesis using assms(2) by (cases key) (simp_all add: win_resolve_def)
qed

lemma tames_entries:
  assumes "good_dump env files" and "known_key env files key"
  shows "tames env files (\<lambda>es. \<forall>e \<in> set es. known_key env files (e_key e)) (entries env key)"
proof -
  note parts = good_dump_parts [OF assms(1)]
  show ?thesis
    unfolding tames_def
    by (intro allI, rule sat_weaken [OF sat_entries [OF parts(1,2) assms(2) parts(6) [OF assms(2)]]])
      (auto simp: tame_def opens_def listed_def split: sum.splits)
qed

lemma tames_lookup_insensitive:
  assumes "good_dump env files" and "known_key env files key"
  shows "tames env files (known_key env files) (lookup_insensitive env key name)"
  unfolding lookup_insensitive_def
proof (rule tames_abind [OF tames_entries [OF assms]])
  fix es assume es: "\<forall>e \<in> set es. known_key env files (e_key e)"
  show "tames env files (known_key env files) (pure (ok_or (Tree_error NotFound)
      (map_option e_key (List.find (\<lambda>e. eq_ignore_ascii_case (from_utf8_lossy (e_name e)) name) es))))"
    using es by (auto simp: tames_def find_Some_iff ok_or_def intro!: store_runs.sat_pure split: option.split)
qed

lemma tames_resolve_components:
  assumes "good_dump env files" and "known_key env files key"
  shows "tames env files (known_key env files) (resolve_components env key cs)"
  using assms(2)
proof (induction cs arbitrary: key)
  case Nil
  then show ?case using win_resolve_known [OF assms(1)] by (simp add: tames_ret)
next
  case (Cons c cs)
  note parts = good_dump_parts [OF assms(1)]
  have up: "tames env files (known_key env files) (tree_parent env key)"
    by (rule tames_sound [OF sat_tree_parent [OF assms(1) Cons.prems]])
  let ?dir = "win_resolve env key"
  have dir: "known_key env files ?dir" by (rule win_resolve_known [OF assms(1) Cons.prems])
  have look: "tames env files (\<lambda>found. \<forall>k. found = Some k \<longrightarrow> known_key env files k) (tree_lookup env ?dir (as_bytes c))"
    by (rule tames_sound [OF sat_tree_lookup [OF parts(1,2) dir]])
  have rest: "tames env files (known_key env files) (case found of
        Some k \<Rightarrow> resolve_components env k cs
      | None \<Rightarrow> abind (lookup_insensitive env ?dir c) (\<lambda>k. resolve_components env k cs))"
    if "\<forall>k. found = Some k \<longrightarrow> known_key env files k" for found
    using that Cons.IH tames_abind [OF tames_lookup_insensitive [OF assms(1) dir, of c] Cons.IH]
    by (cases found) simp_all
  show ?case
    using Cons.IH [OF Cons.prems] tames_abind [OF up Cons.IH] tames_abind [OF look rest]
    by (simp add: Let_def)
qed

section \<open>Operations\<close>

definition docile :: "env \<Rightarrow> (string \<Rightarrow> bytes) \<Rightarrow> ('a \<Rightarrow> bool) \<Rightarrow> win_failure + 'a \<Rightarrow> bool" where
  "docile env files P r \<longleftrightarrow>
     (case r of Inr x \<Rightarrow> P x | Inl e \<Rightarrow> e \<noteq> Win_panic \<or> \<not> (reliable env \<and> all_intact env files))"

lemma docile_simps [simp]:
  "docile env files P (Inr x) = P x" "docile env files P (Inl (Nt e))"
  "docile env files P (Inl Win_panic) = (\<not> (reliable env \<and> all_intact env files))"
  by (simp_all add: docile_def)

definition behaves :: "env \<Rightarrow> (string \<Rightarrow> bytes) \<Rightarrow> ('a \<Rightarrow> bool) \<Rightarrow> 'a win_run \<Rightarrow> bool" where
  "behaves env files P m \<longleftrightarrow> (\<forall>s. sat (store_inv env files (located_files env files)) store_frame m (\<lambda>r s. docile env files P r) s)"

lemma behaves_lift:
  assumes "tames env files P m"
  shows "behaves env files P (win_lift m)"
  unfolding behaves_def
proof (intro allI satI)
  fix s r s' assume inv: "store_inv env files (located_files env files) s" and run: "win_lift m s = (r, s')"
  obtain r0 s0 where m: "m s = (r0, s0)" by fastforce
  then have eq: "r = map_err to_status r0" "s' = s0" using run by (simp_all add: win_lift_def)
  from satD [OF spec [OF assms [unfolded tames_def]] inv m] show "store_inv env files (located_files env files) s' \<and> store_frame s s' \<and> docile env files P r"
    unfolding eq by (cases r0) (auto simp: tame_def docile_def elim: to_status.elims)
qed

lemma behaves_abind:
  assumes "behaves env files P m" and "\<And>x. P x \<Longrightarrow> behaves env files Q (f x)"
  shows "behaves env files Q (abind m f)"
  unfolding behaves_def
  by (intro allI store_runs.sat_abind [OF spec [OF assms(1) [unfolded behaves_def]]])
    (use assms(2) in \<open>auto simp: docile_def behaves_def\<close>)

lemma behaves_ret: "P x \<Longrightarrow> behaves env files P (ret x)"
  by (auto simp: behaves_def intro: store_runs.sat_ret)

lemma behaves_fail: "behaves env files P (fail (Nt e))"
  by (auto simp: behaves_def intro: store_runs.sat_fail)

lemma behaves_resolve_path:
  assumes "good_dump env files"
  shows "behaves env files (known_key env files) (win_lift (resolve_path env p))"
  unfolding resolve_path_def by (rule behaves_lift, rule tames_resolve_components [OF assms]) simp

lemma behaves_meta:
  assumes "good_dump env files" and "known_key env files key"
  shows "behaves env files (\<lambda>mt. m_kind mt = key_kind env files key) (win_meta env key)"
  unfolding win_meta_def
  by (rule behaves_lift, rule tames_sound, rule sat_tree_meta [OF good_dump_parts(1-3) [OF assms(1)] assms(2)])

lemma behaves_open:
  assumes "good_dump env files"
  shows "behaves env files (\<lambda>(_, ctx). known_key env files (wc_key ctx)) (win_open env d p)"
  unfolding win_open_def
  by (rule behaves_abind [OF behaves_resolve_path [OF assms]], rule behaves_abind [OF behaves_meta [OF assms]])
    (auto intro: behaves_ret)

lemma behaves_read:
  assumes "good_dump env files" and "known_key env files (wc_key ctx)" and "length buffer \<le> ISIZE_MAX"
  shows "behaves env files (\<lambda>(n, b). length b = length buffer) (win_read env ctx buffer off)"
proof -
  have locate: "behaves env files (\<lambda>loc. loc \<in> located_files env files) (win_lift (tree_locate env (wc_key ctx)))"
    by (rule behaves_lift, unfold tames_def, intro allI, rule sat_weaken [OF sat_tree_locate [OF assms(1,2)]]) (simp add: tame_def)
  have read: "behaves env files (\<lambda>d. length d \<le> length buffer)
      (win_lift (tree_read env loc off (min (length buffer) n)))" if "loc \<in> located_files env files" for loc n
    by (rule behaves_lift, unfold tames_def, intro allI, rule sat_weaken [OF sat_tree_read [OF assms(1) that]])
      (use assms(3) in \<open>auto simp: tame_def split: sum.splits\<close>)
  have copy: "behaves env files (\<lambda>(n, b). length b = length buffer)
      (if length d \<le> length buffer then ret (of_nat (length d), d @ drop (length d) buffer) else fail Win_panic)"
    if "length d \<le> length buffer" for d
    using that by (auto intro: behaves_ret)
  show ?thesis
    unfolding win_read_def Let_def
    by (rule behaves_abind [OF locate])
      (auto intro!: behaves_fail behaves_abind [OF read copy])
qed

section \<open>Directories\<close>

text \<open>The same over the state that has the directory buffer, whatever the buffer does.\<close>

definition fills :: "env \<Rightarrow> (string \<Rightarrow> bytes) \<Rightarrow> ('a \<Rightarrow> bool) \<Rightarrow> ('d, 'a) dir_run \<Rightarrow> bool" where
  "fills env files P m \<longleftrightarrow>
     (\<forall>w. sat (\<lambda>w. store_inv env files (located_files env files) (ws_store w)) (\<lambda>w w'. store_frame (ws_store w) (ws_store w'))
       m (\<lambda>r w. docile env files P r) w)"

interpretation dir_runs: run_logic "\<lambda>w. store_inv env files (located_files env files) (ws_store w)"
  "\<lambda>w w'. store_frame (ws_store w) (ws_store w')" for env files
  by unfold_locales (auto intro: store_runs.G_refl store_runs.G_trans)

lemma fills_abind:
  assumes "fills env files P m" and "\<And>x. P x \<Longrightarrow> fills env files Q (f x)"
  shows "fills env files Q (abind m f)"
  unfolding fills_def
  by (intro allI dir_runs.sat_abind [OF spec [OF assms(1) [unfolded fills_def]]])
    (use assms(2) in \<open>auto simp: docile_def fills_def\<close>)

lemma fills_ret: "P x \<Longrightarrow> fills env files P (ret x)"
  unfolding fills_def by (intro allI dir_runs.sat_ret) simp

lemma fills_on_store:
  assumes "behaves env files P m"
  shows "fills env files P (on_store m)"
  unfolding fills_def
proof (intro allI satI)
  fix w r w' assume inv: "store_inv env files (located_files env files) (ws_store w)" and run: "on_store m w = (r, w')"
  obtain s where m: "m (ws_store w) = (r, s)" "w' = w\<lparr>ws_store := s\<rparr>" using run by (auto simp: on_store_def split: prod.splits)
  from satD [OF spec [OF assms [unfolded behaves_def]] inv m(1)] m(2)
  show "store_inv env files (located_files env files) (ws_store w') \<and> store_frame (ws_store w) (ws_store w') \<and> docile env files P r"
    by simp
qed

lemma fills_write: "fills env files (\<lambda>_. True) (write_entry ops name mt)"
  unfolding fills_def
  by (auto simp: sat_def write_entry_def docile_def map_err_def store_runs.G_refl split: prod.splits sum.splits)

lemma behaves_meta_or:
  assumes "behaves env files P m" and "Q mt" and "\<And>x. P x \<Longrightarrow> Q x"
  shows "behaves env files Q (meta_or mt m)"
  unfolding behaves_def
proof (intro allI satI)
  fix s r s' assume inv: "store_inv env files (located_files env files) s" and run: "meta_or mt m s = (r, s')"
  obtain r0 s0 where m: "m s = (r0, s0)" by fastforce
  from satD [OF spec [OF assms(1) [unfolded behaves_def]] inv m] run m assms(2,3)
  show "store_inv env files (located_files env files) s' \<and> store_frame s s' \<and> docile env files Q r"
    by (auto simp: meta_or_def docile_def split: sum.splits win_failure.splits)
qed

lemma fills_entries:
  assumes "good_dump env files" and "\<forall>e \<in> set es. known_key env files (e_key e)"
  shows "fills env files (\<lambda>_. True) (write_entries env ops es)"
  using assms(2)
proof (induction es)
  case (Cons e es)
  have "known_key env files (win_resolve env (e_key e))" using win_resolve_known [OF assms(1)] Cons.prems by simp
  from behaves_meta [OF assms(1) this]
  have "fills env files (\<lambda>_. True) (on_store (meta_or mt (win_meta env (win_resolve env (e_key e)))))" for mt
    by (intro fills_on_store behaves_meta_or [where P = "\<lambda>x. m_kind x = key_kind env files (win_resolve env (e_key e))"]) simp_all
  then show ?case
    using Cons by (auto intro!: fills_abind [where P = "\<lambda>_. True"] fills_write)
qed (simp add: fills_ret)

lemma fills_dots:
  assumes "good_dump env files" and "known_key env files key"
  shows "fills env files (\<lambda>_. True) (write_dots env ops key)"
proof (cases "key = Root")
  case False
  have this_meta: "fills env files (\<lambda>_. True) (on_store (win_meta env key))"
    using fills_on_store [OF behaves_meta [OF assms]] by (auto simp: fills_def docile_def sat_def split: sum.splits)
  have up: "fills env files (known_key env files) (on_store (win_lift (tree_parent env key)))"
    by (intro fills_on_store behaves_lift tames_sound sat_tree_parent [OF assms])
  have up_meta: "fills env files (\<lambda>_. True) (on_store (meta_or mt (win_meta env (win_resolve env k))))"
    if "known_key env files k" for k mt
    by (intro fills_on_store behaves_meta_or [OF behaves_meta [OF assms(1) win_resolve_known [OF assms(1) that]]]) simp_all
  show ?thesis
    unfolding write_dots_def if_not_P [OF False]
    by (intro fills_abind [OF this_meta] fills_abind [OF fills_write] fills_abind [OF up] fills_abind [OF up_meta] fills_write)
qed (simp add: write_dots_def fills_ret)

lemma fills_directory:
  assumes "good_dump env files" and "known_key env files key"
  shows "fills env files (\<lambda>_. True) (fill_directory env ops key)"
  unfolding fill_directory_def
  by (rule fills_abind [OF fills_on_store [OF behaves_lift [OF tames_entries [OF assms]]]],
      rule fills_abind [OF fills_dots [OF assms]], rule fills_entries [OF assms(1)])

lemma fills_read_directory:
  assumes "good_dump env files" and "known_key env files key"
  shows "fills env files (\<lambda>_. True) (read_directory env ops key k marker len)"
proof (cases "k = Dir")
  case True
  show ?thesis
    unfolding fills_def
  proof (intro allI satI)
    fix w r w'
    assume inv: "store_inv env files (located_files env files) (ws_store w)"
      and run: "read_directory env ops key k marker len w = (r, w')"
    show "store_inv env files (located_files env files) (ws_store w') \<and> store_frame (ws_store w) (ws_store w') \<and>
        docile env files (\<lambda>_. True) r"
    proof (cases "db_acquire ops (ws_dir w)")
      case None
      then have "read_directory env ops key k marker len w = (Inr (db_read ops marker len (ws_dir w)), w)"
        by (simp add: read_directory_def True)
      with run have "r = Inr (db_read ops marker len (ws_dir w))" "w' = w" by (metis prod.inject)+
      with inv show ?thesis by (simp add: store_frame_def)
    next
      case (Some d)
      let ?w = "w\<lparr>ws_dir := d\<rparr>"
      obtain r1 w1 where fill: "fill_directory env ops key ?w = (r1, w1)" by fastforce
      note post = spec [OF fills_directory [OF assms, of ops, unfolded fills_def], of ?w, unfolded sat_def fill fst_conv snd_conv]
      have same: "ws_store (w\<lparr>ws_dir := d\<rparr>) = ws_store w" by simp
      from post [unfolded same] inv have kept: "store_inv env files (located_files env files) (ws_store w1)"
        "store_frame (ws_store w) (ws_store w1)" "docile env files (\<lambda>_. True) r1" by blast+
      have "read_directory env ops key k marker len w =
          (case r1 of
             Inl e \<Rightarrow> (Inl e, w1\<lparr>ws_dir := db_release ops (ws_dir w1)\<rparr>)
           | Inr _ \<Rightarrow> (Inr (db_read ops marker len (db_release ops (ws_dir w1))), w1\<lparr>ws_dir := db_release ops (ws_dir w1)\<rparr>))"
        by (cases r1) (simp_all add: read_directory_def Let_def True Some fill)
      with run have "w' = w1\<lparr>ws_dir := db_release ops (ws_dir w1)\<rparr>" "r = (case r1 of Inl e \<Rightarrow> Inl e | Inr _ \<Rightarrow> Inr (db_read ops marker len (db_release ops (ws_dir w1))))"
        by (cases r1; simp)+
      with kept(1,2) have "store_inv env files (located_files env files) (ws_store w')" "store_frame (ws_store w) (ws_store w')"
        by simp_all
      moreover have "docile env files (\<lambda>_. True) r" using kept(3) \<open>r = _\<close> by (cases r1) (simp_all add: docile_def)
      ultimately show ?thesis by blast
    qed
  qed
next
  case False
  then have refused: "read_directory env ops key k marker len = fail (Nt STATUS_NOT_A_DIRECTORY)" by (simp add: read_directory_def)
  show ?thesis unfolding refused fills_def by (intro allI satI) (simp add: fail_def store_frame_def docile_def, force)
qed

end
