(* ===== verification/Win_Properties.thy ===== *)
theory Win_Properties
  imports Win_Safety Fuse_Properties
begin

text \<open>
  What the WinFsp front end promises: files are found and read under their paths, nothing ends the
  process, and the sizes it reports are those of the files.
\<close>

section \<open>Files\<close>

text \<open>A name that a path can spell.\<close>

definition spellable :: "string \<Rightarrow> bool" where
  "spellable n \<longleftrightarrow> n \<noteq> [] \<and> CHR 0x5C \<notin> set n \<and> n \<noteq> ''.'' \<and> n \<noteq> ''..''"

definition win_path :: "string list \<Rightarrow> string" where
  "win_path ns = concat (map (\<lambda>n. CHR 0x5C # n) ns)"

lemma win_path_components:
  assumes "\<forall>n \<in> set ns. spellable n"
  shows "filter (\<lambda>c. c \<noteq> []) (split_all (CHR 0x5C) (win_path ns)) = ns"
proof -
  have "split_all (CHR 0x5C) ([] @ win_path ns) = [] # ns"
    unfolding win_path_def by (rule split_all_led) (use assms in \<open>auto simp: spellable_def\<close>)
  moreover have "filter (\<lambda>c. c \<noteq> []) ns = ns" using assms by (auto simp: spellable_def filter_id_conv)
  ultimately show ?thesis by simp
qed

lemma leads_plain: "leads env files key name k \<Longrightarrow> win_resolve env key = key"
  by (cases rule: leads.cases) (auto simp: win_resolve_def)

lemma resolve_leads:
  assumes "good_dump env files" and "reliable env" and "all_intact env files"
    and "path_leads env files key names key'" and "names = map as_bytes ns" and "\<forall>n \<in> set ns. spellable n"
    and "known_key env files key" and "store_inv env files (located_files env files) st"
  shows "\<exists>st'. resolve_components env key ns st = (Inr (win_resolve env key'), st') \<and>
    store_inv env files (located_files env files) st' \<and> store_frame st st'"
  using assms(4-)
proof (induction arbitrary: ns st rule: path_leads.induct)
  case (here key)
  then show ?case by (simp add: ret_def store_frame_def)
next
  case (further key name k names key')
  obtain n ns' where ns: "ns = n # ns'" "name = as_bytes n" "names = map as_bytes ns'"
    using further.prems(1) by (cases ns) auto
  from leads_lookup [OF assms(1-3) further.prems(3) further.hyps(1) further.prems(4)] obtain st1 where
    look: "tree_lookup env key name st = (Inr (Some k), st1)" by blast
  note parts = good_dump_parts [OF assms(1)]
  from satD [OF sat_tree_lookup [OF parts(1,2) further.prems(3)] further.prems(4) look]
  have st1: "store_inv env files (located_files env files) st1" "store_frame st st1" by blast+
  have k: "known_key env files k" by (rule leads_known [OF assms(1) further.prems(3) further.hyps(1)])
  from further.IH [OF ns(3) _ k st1(1)] further.prems(2) ns(1) obtain st2 where
    rest: "resolve_components env k ns' st1 = (Inr (win_resolve env key'), st2)"
      "store_inv env files (located_files env files) st2" "store_frame st1 st2" by auto
  have "n \<noteq> ''.''" "n \<noteq> ''..''" using further.prems(2) ns(1) by (simp_all add: spellable_def)
  then have "resolve_components env key ns st = (Inr (win_resolve env key'), st2)"
    using leads_plain [OF further.hyps(1)] look rest(1) by (simp add: ns abind_def del: tree_lookup.simps)
  with rest(2,3) st1(2) show ?case using store_runs.G_trans by blast
qed

text \<open>The size that a file's stat gives is that of its newest record.\<close>

lemma sat_file_meta:
  assumes "good_dump env files" and "known env b" and "manifest_of env files b = Some m"
    and "node_at m i = Some n" and "\<not> is_dir n" and "ancestry env files b bs"
    and "newest env files bs (node_file_id n) = Some loc"
  shows "sat (store_inv env files L) store_frame (tree_meta env (Node b i))
    (\<lambda>r s. r = Inr \<lparr>m_kind = File, m_size = fr_size (loc_record loc), m_mtime = blob_date env (loc_source loc)\<rparr> \<or>
      \<not> (reliable env \<and> all_intact env files)) s"
proof -
  note parts = good_dump_parts [OF assms(1)]
  have loc: "sat (store_inv env files L) store_frame (attempt (locate env b (node_file_id n)))
      (\<lambda>r s. r = Inr (Some loc) \<or> \<not> (reliable env \<and> all_intact env files)) s1" for s1
    by (rule sat_attempt [OF store_lift_table [OF sat_locate [OF parts(1-3) assms(2)]]])
      (use assms(7) ancestry_unique [OF assms(6)] in \<open>auto simp: located_def ok_or_def\<close>)
  have "sat (store_inv env files L) store_frame (node_meta env b m i)
      (\<lambda>r s. r = Inr \<lparr>m_kind = File, m_size = fr_size (loc_record loc), m_mtime = blob_date env (loc_source loc)\<rparr> \<or>
        \<not> (reliable env \<and> all_intact env files)) s1" for s1
    unfolding node_meta_def assms(4) option.case Let_def if_not_P [OF assms(5)]
    by (rule store_runs.sat_abind [OF loc]) (auto intro!: store_runs.sat_ret split: option.split prod.split)
  then show ?thesis
    unfolding tree_meta.simps
    by (intro store_runs.sat_abind [OF sat_manifest [OF parts(1,2) assms(2)]])
      (use assms(3) in \<open>auto simp: sound_def\<close>)
qed

lemma win_read_node:
  assumes "good_dump env files" and "reliable env" and "all_intact env files" and "known env b"
    and "manifest_of env files b = Some m" and "node_at m i = Some n" and "\<not> is_dir n"
    and "ancestry env files b bs" and "newest env files bs (node_file_id n) = Some loc" and "loc_dat loc = Some dat"
    and "stored_file env files kr loc F" and "key_settled st loc kr" and "length buffer \<le> ISIZE_MAX"
    and "store_inv env files (located_files env files) st" and "wc_key ctx = Node b i"
  shows "fst (win_read env ctx buffer off st) =
    (if unat off < length F
     then let d = take (length buffer) (drop (unat off) F) in Inr (of_nat (length d), d @ drop (length d) buffer)
     else Inl (Nt STATUS_END_OF_FILE))"
proof -
  note parts = good_dump_parts [OF assms(1)]
  let ?L = "located_files env files" and ?size = "fr_size (loc_record loc)"
  have loc: "loc \<in> ?L" using assms(4,8,9) by (auto simp: located_files_def)
  have F: "length F = unat ?size" using assms(11) by (simp add: stored_file_def)
  obtain r st1 where run: "tree_locate env (Node b i) st = (r, st1)" by fastforce
  from satD [OF sat_locate_node [OF assms(1,4-9)] assms(14) run] assms(2,3)
  have r: "r = Inr loc" and st1: "store_inv env files ?L st1" "store_frame st st1" by auto
  define want where "want = min (length buffer) (unat (?size - off))"
  have step: "win_read env ctx buffer off st =
      (if ?size \<le> off then fail (Nt STATUS_END_OF_FILE)
       else abind (win_lift (tree_read env loc off want)) (\<lambda>data.
         if length data \<le> length buffer then ret (of_nat (length data), data @ drop (length data) buffer)
         else fail Win_panic)) st1"
    using run r assms(15) by (simp add: win_read_def win_lift_def abind_def want_def Let_def del: tree_locate.simps)
  show ?thesis
  proof (cases "unat off < length F")
    case False
    then have "?size \<le> off" using F by (simp add: word_le_nat_alt)
    with False step show ?thesis by (simp add: fail_def)
  next
    case True
    then have off: "\<not> ?size \<le> off" using F by (simp add: word_le_nat_alt)
    then have diff: "unat (?size - off) = length F - unat off" using F by (simp add: unat_sub word_le_nat_alt)
    have "unat off + want < 18446744073709551616" "want \<le> ISIZE_MAX"
      using assms(13) True diff F unat_u64_less [of ?size] by (auto simp: want_def)
    moreover have "data_inv env files ?L st1" using st1(1) by (simp add: store_inv_def)
    ultimately have "fst (store_read env loc off want st1) = Inr (take want (drop (unat off) F))"
      using store_read_serves [OF parts(1,5,4) loc assms(10) located_dat [OF assms(1) loc assms(10)] _ _ _
          store_frame_settled [OF st1(2) assms(12)] assms(11,2)] by blast
    then obtain st2 where read: "tree_read env loc off want st1 = (Inr (take want (drop (unat off) F)), st2)"
      by (cases "store_read env loc off want st1") (simp add: tree_read_def lift_def)
    have "take want (drop (unat off) F) = take (length buffer) (drop (unat off) F)"
      by (simp add: want_def diff min_def)
    with step read off True show ?thesis by (simp add: win_lift_def abind_def ret_def Let_def)
  qed
qed

text \<open>
  C14: what a Windows mount serves.  On a good dump, opening a path of spellable names gives a handle of
  the file that the version has there, reported with its own size; a read through the handle fills the
  caller's buffer with the range of the file, cut off at its end, and past the end says so.
\<close>

theorem win_file_served:
  assumes "good_dump env files" and "reliable env" and "all_intact env files"
    and "path_leads env files Root (map as_bytes ns) (Node b i)" and "\<forall>n \<in> set ns. spellable n"
    and "known env b" and "manifest_of env files b = Some m"
    and "node_at m i = Some n" and "\<not> is_dir n" and "ancestry env files b bs"
    and "newest env files bs (node_file_id n) = Some loc" and "loc_dat loc = Some dat"
    and "stored_file env files kr loc F" and "key_settled st loc kr"
    and "store_inv env files (located_files env files) st" and "length buffer \<le> ISIZE_MAX"
  shows "\<exists>info ctx st'. win_open env dir_buf (win_path ns) st = (Inr (info, ctx), st') \<and>
    unat (fi_file_size info) = length F \<and>
    fst (win_read env ctx buffer off st') =
      (if unat off < length F
       then let d = take (length buffer) (drop (unat off) F) in Inr (of_nat (length d), d @ drop (length d) buffer)
       else Inl (Nt STATUS_END_OF_FILE))"
proof -
  let ?L = "located_files env files"
  have "known_key env files Root" by simp
  from resolve_leads [OF assms(1-4) refl assms(5) this assms(15)] obtain st1 where
    res: "resolve_components env Root ns st = (Inr (Node b i), st1)" and st1: "store_inv env files ?L st1" "store_frame st st1"
    by (auto simp: win_resolve_def)
  obtain rm st2 where meta: "tree_meta env (Node b i) st1 = (rm, st2)" by fastforce
  from satD [OF sat_file_meta [OF assms(1,6-11)] st1(1) meta] assms(2,3)
  have rm: "rm = Inr \<lparr>m_kind = File, m_size = fr_size (loc_record loc), m_mtime = blob_date env (loc_source loc)\<rparr>"
    and st2: "store_inv env files ?L st2" "store_frame st1 st2" by auto
  let ?mt = "\<lparr>m_kind = File, m_size = fr_size (loc_record loc), m_mtime = blob_date env (loc_source loc)\<rparr>"
  let ?ctx = "\<lparr>wc_key = Node b i, wc_kind = File, wc_dir = dir_buf\<rparr>"
  have "win_open env dir_buf (win_path ns) st = (Inr (fill_info ?mt, ?ctx), st2)"
    using res meta rm win_path_components [OF assms(5)]
    by (simp add: win_open_def resolve_path_def win_lift_def win_meta_def abind_def ret_def del: tree_meta.simps)
  moreover have "key_settled st2 loc kr" using store_frame_settled [OF st2(2) store_frame_settled [OF st1(2) assms(14)]] .
  moreover have "unat (fi_file_size (fill_info ?mt)) = length F"
    using assms(13) by (simp add: fill_info_def Let_def stored_file_def)
  ultimately show ?thesis
    using win_read_node [OF assms(1-3,6-13) _ assms(16) st2(1), of ?ctx off] by fastforce
qed

lemma spellable_names: "spellable (show_dec n)" "spellable (version_name bs ids b)"
proof -
  have ne: "show_dec k \<noteq> []" for k by (subst show_radix.simps) simp
  have "CHR 0x5C \<notin> set (show_dec n)" "CHR ''.'' \<notin> set (show_dec n)" using show_dec_chars [of n] by auto
  then show "spellable (show_dec n)" using ne by (auto simp: spellable_def)
  have "CHR 0x5C \<notin> set (version_name bs ids b)" "CHR ''.'' \<notin> set (version_name bs ids b)"
    by (rule version_name_letters; simp)+
  moreover have "version_name bs ids b \<noteq> []" using ne by (simp add: version_name_def Let_def)
  ultimately show "spellable (version_name bs ids b)" by (auto simp: spellable_def)
qed

lemma dump_names:
  "\<exists>ns. length ns = 3 \<and> (\<forall>n \<in> set ns. spellable n) \<and> path_leads dump_env dump_file Root (map as_bytes ns) (Node 1 3)"
proof -
  let ?v = "version_name (blobs dump_index) (sorted_ids (blobs dump_index) 7) 1"
  let ?ns = "[show_dec (unat (7 :: u32)), ?v, ''y'']"
  have d: "leads dump_env dump_file Root (as_bytes (show_dec (unat (7 :: u32)))) (Depot 7)"
    using leads.depot [of dump_env 7 dump_file] dump_depot by simp
  have v: "leads dump_env dump_file (Depot 7) (as_bytes ?v) (Version 1)"
    by (rule leads.version [OF _ dump_known(2)]) (simp_all add: dump_depot dump_entries dump_blob_def)
  have y: "as_bytes ''y'' = [0x79]" by (simp add: as_bytes_def)
  have "is_child sample_manifest 0 [0x79] 3"
    by (simp add: is_child_def sample_node_at sample_eval eval_simps)
  then have "child_by_name sample_manifest (root sample_manifest) [0x79] = Some 3"
    using child_by_name_iff [OF manifest_of_wf [OF dump_manifest_of(2)] sample_unique] by (simp add: sample_root)
  from leads.top [OF dump_known(2) dump_manifest_of(2) this]
  have "leads dump_env dump_file (Version 1) (as_bytes ''y'') (Node 1 3)" by (simp add: node_key_def sample_root y)
  with d v have "path_leads dump_env dump_file Root (map as_bytes ?ns) (Node 1 3)"
    by (simp only: list.map) (blast intro: path_leads.intros)
  moreover have "\<forall>n \<in> set ?ns. spellable n"
    using spellable_names by (simp add: spellable_def)
  ultimately show ?thesis by (intro exI [of _ ?ns]) simp
qed

theorem win_file_served_witness:
  "\<exists>ns info ctx st'. length ns = 3 \<and> win_open dump_env () (win_path ns) dump_store = (Inr (info, ctx), st') \<and>
     unat (fi_file_size info) = 20 \<and>
     fst (win_read dump_env ctx [0, 0, 0, 0] 18 st') = Inr (2, [28, 29, 0, 0])"
proof -
  from dump_names obtain ns where ns: "length ns = 3" "\<forall>n \<in> set ns. spellable n"
    "path_leads dump_env dump_file Root (map as_bytes ns) (Node 1 3)" by blast
  have new: "newest dump_env dump_file [1, 0] (node_file_id (sample_nodes ! 3)) = Some file_8"
    by (simp add: dump_own sample_nodes_def file_8_def)
  have regular: "\<not> is_dir (sample_nodes ! 3)" by (simp add: is_dir_def sample_nodes_def NO_FILE_def)
  have dat: "loc_dat file_8 = Some 0" by (simp add: file_8_def)
  have len: "length [0, 0, 0, 0 :: u8] \<le> ISIZE_MAX" by (simp add: ISIZE_MAX_def)
  from win_file_served [OF dump_good dump_reliable dump_intact ns(3,2) dump_known(2) dump_manifest_of(2)
      sample_node_at(4) regular dump_ancestry new dat file_8_stored file_8_settled dump_store_inv len, of "()" 18]
  show ?thesis using ns(1) by (fastforce simp: dat_0_parts dat_0_def drop_map)
qed

section \<open>Safety\<close>

text \<open>
  C15: nothing a Windows caller does ends the process.  On a good dump with a backend that does not fail,
  opening any path, asking for security or information, reading any range into any buffer and listing
  through any directory buffer return a result or a status; and what an open hands out is a key of the
  dump.
\<close>

theorem win_never_panics:
  assumes "good_dump env files" and "reliable env" and "all_intact env files"
    and "store_inv env files (located_files env files) st" and "known_key env files (wc_key ctx)"
    and "length buffer \<le> ISIZE_MAX"
  shows "fst (win_open env d p st) \<noteq> Inl Win_panic \<and> fst (get_security_by_name env sec p buf st) \<noteq> Inl Win_panic \<and>
    fst (get_file_info env ctx st) \<noteq> Inl Win_panic \<and> fst (win_read env ctx buffer off st) \<noteq> Inl Win_panic \<and>
    fst (read_directory env ops (wc_key ctx) (wc_kind ctx) marker len \<lparr>ws_store = st, ws_dir = wd\<rparr>) \<noteq> Inl Win_panic \<and>
    (\<forall>info c. fst (win_open env d p st) = Inr (info, c) \<longrightarrow> known_key env files (wc_key c))"
proof -
  have open_it: "docile env files (\<lambda>(_, c). known_key env files (wc_key c)) (fst (win_open env d p st))"
    using behaves_open [OF assms(1), of d p] assms(4) by (simp add: behaves_def sat_def)
  have sec: "docile env files (\<lambda>_. True) (fst (get_security_by_name env sec p buf st))"
  proof -
    have "behaves env files (\<lambda>_. True) (get_security_by_name env sec p buf)"
      unfolding get_security_by_name_def
      by (rule behaves_abind [OF behaves_resolve_path [OF assms(1)]], rule behaves_abind [OF behaves_meta [OF assms(1)]])
        (auto intro: behaves_ret)
    then show ?thesis using assms(4) by (simp add: behaves_def sat_def)
  qed
  have info: "docile env files (\<lambda>_. True) (fst (get_file_info env ctx st))"
  proof -
    have "behaves env files (\<lambda>_. True) (get_file_info env ctx)"
      unfolding get_file_info_def by (rule behaves_abind [OF behaves_meta [OF assms(1,5)]]) (auto intro: behaves_ret)
    then show ?thesis using assms(4) by (simp add: behaves_def sat_def)
  qed
  have read: "docile env files (\<lambda>(n, b). length b = length buffer) (fst (win_read env ctx buffer off st))"
    using behaves_read [OF assms(1,5,6), of off] assms(4) by (simp add: behaves_def sat_def)
  have dir: "docile env files (\<lambda>_. True) (fst (read_directory env ops (wc_key ctx) (wc_kind ctx) marker len \<lparr>ws_store = st, ws_dir = wd\<rparr>))"
    using fills_read_directory [OF assms(1,5), of ops "wc_kind ctx" marker len] assms(4)
    unfolding fills_def sat_def by (metis win_state.simps(1))
  show ?thesis
    using open_it sec info read dir assms(2,3) by (auto simp: docile_def split: sum.splits)
qed

theorem win_never_panics_witness:
  "fst (win_read dump_env \<lparr>wc_key = Version 1, wc_kind = Dir, wc_dir = ()\<rparr> [0, 0] 5 dump_store) \<noteq> Inl Win_panic"
proof -
  have "known_key dump_env dump_file (wc_key \<lparr>wc_key = Version 1, wc_kind = Dir, wc_dir = ()\<rparr>)" by (simp add: dump_known)
  moreover have "length [0, 0 :: u8] \<le> ISIZE_MAX" by (simp add: ISIZE_MAX_def)
  ultimately show ?thesis
    by (rule win_never_panics [OF dump_good dump_reliable dump_intact dump_store_inv, THEN conjunct2, THEN conjunct2,
          THEN conjunct2, THEN conjunct1])
qed

section \<open>Paths\<close>

text \<open>
  \<open>..\<close> leaves the depot.  In every depot, the path of its \<open>by-date\<close> directory followed by \<open>..\<close> is the
  root of the file system, not the depot, whose entry \<open>by-date\<close> is.
\<close>

theorem by_date_dot_dot_is_root:
  assumes "index_depot (env_index env) d \<noteq> None"
  shows "fst (resolve_path env (win_path [show_dec (unat d), ''by-date'', ''..'']) st) = Inr Root \<and>
    fst (resolve_path env (win_path [show_dec (unat d), ''by-date'']) st) = Inr (ByDate d) \<and>
    (\<exists>es. fst (entries env (Depot d) st) = Inr es \<and> ByDate d \<in> e_key ` set es)"
proof -
  have "split_all (CHR 0x5C) ([] @ win_path ns) = [] # ns" if "\<forall>n \<in> set ns. CHR 0x5C \<notin> set n" for ns
    unfolding win_path_def by (rule split_all_led) (use that in simp_all)
  moreover have "CHR 0x5C \<notin> set (show_dec (unat d))" "show_dec (unat d) \<noteq> []" "show_dec (unat d) \<noteq> ''.''"
    "show_dec (unat d) \<noteq> ''..''" using spellable_names(1) [of "unat d"] by (simp_all add: spellable_def)
  moreover have "from_utf8_lossy (as_bytes (show_dec (unat d))) = show_dec (unat d)"
    "from_utf8_lossy (as_bytes ''by-date'') = ''by-date''"
    using lossy_name [of "show_dec (unat d)"] lossy_name [of "''by-date''"] by simp_all
  ultimately show ?thesis
    using assms by (auto simp: resolve_path_def win_resolve_def abind_def ret_def Let_def image_iff)
qed

theorem by_date_dot_dot_is_root_witness:
  "fst (resolve_path dump_env (win_path [show_dec (unat (7 :: u32)), ''by-date'', ''..'']) dump_store) = Inr Root"
  using by_date_dot_dot_is_root [of dump_env 7 dump_store] dump_depot by simp

section \<open>Sizes and times\<close>

lemma round_up:
  fixes n :: nat
  shows "(if n mod 512 = 0 then n div 512 else n div 512 + 1) = (n + 511) div 512"
    and "n \<le> (n + 511) div 512 * 512" and "(n + 511) div 512 * 512 < n + 512"
proof -
  define q r where "q = n div 512" and "r = n mod 512"
  have n: "n = q * 512 + r" and r: "r < 512" by (simp_all add: q_def r_def)
  have "(n + 511) div 512 = (if r = 0 then q else q + 1)"
    using n r by (cases "r = 0") (auto intro!: div_nat_eqI)
  then show "(if n mod 512 = 0 then n div 512 else n div 512 + 1) = (n + 511) div 512"
    by (simp add: q_def r_def)
  have "(n + 511) div 512 * 512 + (n + 511) mod 512 = n + 511" "(n + 511) mod 512 < 512" by simp_all
  then show "n \<le> (n + 511) div 512 * 512" "(n + 511) div 512 * 512 < n + 512" by linarith+
qed

lemma allocation_size:
  fixes a :: u64
  shows "unat (div_ceil a 512 * 512) = (if unat a \<le> 18446744073709551104 then (unat a + 511) div 512 * 512 else 0)"
proof -
  define n where "n = unat a"
  have lt: "n < 18446744073709551616" unfolding n_def by (rule unat_u64_less)
  have "unat (a mod 512) = n mod 512" by (simp add: unat_mod n_def)
  then have zero: "a mod 512 = 0 \<longleftrightarrow> n mod 512 = 0" using unat_eq_0 [of "a mod 512"] by simp
  have d: "unat (a div 512) = n div 512" by (simp add: unat_div n_def)
  have small: "n div 512 < 36028797018963968" using lt by (simp add: less_mult_imp_div_less)
  have "unat (a div 512 + 1) = (unat (a div 512) + 1) mod 18446744073709551616" by (simp add: unat_word_ariths)
  also have "\<dots> = n div 512 + 1" unfolding d using small by simp
  finally have "unat (div_ceil a 512) = (if n mod 512 = 0 then n div 512 else n div 512 + 1)"
    using zero d by (simp add: div_ceil_def)
  also have "\<dots> = (n + 511) div 512" by (rule round_up(1))
  finally have q: "unat (div_ceil a 512) = (n + 511) div 512" .
  have "unat (div_ceil a 512 * 512) = (n + 511) div 512 * 512 mod 18446744073709551616"
    unfolding unat_word_ariths q by simp
  also have "\<dots> = (if n \<le> 18446744073709551104 then (n + 511) div 512 * 512 else 0)"
  proof (cases "n \<le> 18446744073709551104")
    case True
    then show ?thesis using round_up(3) [of n] by simp
  next
    case False
    then have "(n + 511) div 512 = 36028797018963968" using lt by (intro div_nat_eqI) simp_all
    with False show ?thesis by simp
  qed
  finally show ?thesis by (simp only: n_def)
qed

lemma saturating_add_unat: "unat (saturating_add a n) = min (unat a + n) 18446744073709551615"
  by (simp add: saturating_add_def unat_of_nat)

text \<open>
  Reported sizes and times are in range.  The allocation size of a file is the least multiple of the
  allocation unit that holds it, unless the size is within a unit of \<open>2 ^ 64\<close>, when it is 0; a time never
  goes below the Unix epoch, keeps the order of times, and is exact to 100 nanoseconds below its limit.
\<close>

theorem info_in_range:
  "(let a = unat (fi_allocation_size (fill_info mt)); n = unat (m_size mt)
    in a mod 512 = 0 \<and> (if n \<le> 2 ^ 64 - 512 then n \<le> a \<and> a < n + 512 else a = 0)) \<and>
   (let t = fi_last_write_time (fill_info mt); ticks = (fst (m_mtime mt) * 1000000000 + snd (m_mtime mt)) div 100
    in unat t = min (116444736000000000 + ticks) (2 ^ 64 - 1))"
proof -
  let ?n = "unat (m_size mt)" and ?ticks = "(fst (m_mtime mt) * 1000000000 + snd (m_mtime mt)) div 100"
  have unit: "ALLOCATION_UNIT = 512" by (simp add: ALLOCATION_UNIT_def SECTOR_SIZE_def SECTORS_PER_ALLOCATION_UNIT_def)
  have a: "unat (fi_allocation_size (fill_info mt)) = (if ?n \<le> 18446744073709551104 then (?n + 511) div 512 * 512 else 0)"
    using allocation_size [of "m_size mt"] by (simp add: fill_info_def Let_def unit)
  have t: "unat (fi_last_write_time (fill_info mt)) = min (116444736000000000 + min ?ticks 18446744073709551615) 18446744073709551615"
    by (simp add: fill_info_def Let_def filetime_def saturating_add_unat UNIX_EPOCH_IN_TICKS_def)
  have sizes: "(if ?n \<le> 18446744073709551104 then (?n + 511) div 512 * 512 else 0) mod 512 = 0 \<and>
      (if ?n \<le> 18446744073709551104
       then ?n \<le> (if ?n \<le> 18446744073709551104 then (?n + 511) div 512 * 512 else 0) \<and>
         (if ?n \<le> 18446744073709551104 then (?n + 511) div 512 * 512 else 0) < ?n + 512
       else (if ?n \<le> 18446744073709551104 then (?n + 511) div 512 * 512 else 0) = 0)" using round_up(2,3) [of ?n] by simp
  have times: "min (116444736000000000 + min ?ticks 18446744073709551615) 18446744073709551615 =
      min (116444736000000000 + ?ticks) (18446744073709551615 :: nat)" by (simp add: min_def)
  have bounds: "(2 :: nat) ^ 64 - 512 = 18446744073709551104" "(2 :: nat) ^ 64 - 1 = 18446744073709551615" by simp_all
  show ?thesis unfolding Let_def a t bounds by (rule conjI [OF sizes times])
qed

end
