(* ===== verification/Worker_Pool.thy ===== *)
theory Worker_Pool
  imports Prelude "HOL-Library.Multiset"
begin

text \<open>
  The worker threads of the commands (\<open>src/main.rs\<close>, \<open>verify\<close> and \<open>key_audit\<close>): a scope of threads that
  take items off an atomic counter and work on them until none is left.  A schedule says which thread
  moves next; a step takes an item or does one operation on what the threads share.  The law: whichever
  schedule ends the scope, every item has been worked on exactly once, and the outcomes add up.
\<close>

section \<open>Definitions\<close>

text \<open>
  What becomes of an operation of a thread: there is more to do on the item, the item is done, the
  process ends, or the operation never returns.
\<close>

datatype ('j, 's) progress = Continue 'j 's | Complete 's | Aborts | Hangs

datatype 'j worker = Idle | Busy 'j | Stopped | Hung

record ('j, 's) pool =
  next_item :: u64
  workers :: "'j worker list"
  shared :: 's

definition pool_new :: "nat \<Rightarrow> 's \<Rightarrow> ('j, 's) pool" where
  "pool_new jobs s = \<lparr>next_item = 0, workers = replicate (max jobs 1) Idle, shared = s\<rparr>"

definition put_worker :: "nat \<Rightarrow> 'j worker \<Rightarrow> ('j, 's) pool \<Rightarrow> ('j, 's) pool" where
  "put_worker w x p = p\<lparr>workers := (workers p)[w := x]\<rparr>"

fun settle :: "nat \<Rightarrow> ('j, 's) progress \<Rightarrow> ('j, 's) pool \<Rightarrow> ('j, 's) pool option" where
  "settle w (Continue j s) p = Some (put_worker w (Busy j) (p\<lparr>shared := s\<rparr>))"
| "settle w (Complete s) p = Some (put_worker w Idle (p\<lparr>shared := s\<rparr>))"
| "settle w Aborts p = None"
| "settle w Hangs p = Some (put_worker w Hung p)"

text \<open>One step of thread \<open>w\<close>; None is the end of the process.\<close>

definition pool_step ::
  "'i list \<Rightarrow> ('i \<Rightarrow> 's \<Rightarrow> ('j, 's) progress) \<Rightarrow> ('j \<Rightarrow> 's \<Rightarrow> ('j, 's) progress) \<Rightarrow> nat \<Rightarrow>
    ('j, 's) pool \<Rightarrow> ('j, 's) pool option" where
  "pool_step items start work w p =
     (if w < length (workers p) then
        case workers p ! w of
          Idle \<Rightarrow>
            (let i = unat (next_item p); p' = p\<lparr>next_item := next_item p + 1\<rparr> in
             if i < length items then settle w (start (items ! i) (shared p)) p'
             else Some (put_worker w Stopped p'))
        | Busy j \<Rightarrow> settle w (work j (shared p)) p
        | _ \<Rightarrow> Some p
      else Some p)"

fun pool_run ::
  "'i list \<Rightarrow> ('i \<Rightarrow> 's \<Rightarrow> ('j, 's) progress) \<Rightarrow> ('j \<Rightarrow> 's \<Rightarrow> ('j, 's) progress) \<Rightarrow> nat list \<Rightarrow>
    ('j, 's) pool \<Rightarrow> ('j, 's) pool option" where
  "pool_run items start work [] p = Some p"
| "pool_run items start work (w # ws) p =
     (case pool_step items start work w p of
        None \<Rightarrow> None
      | Some p' \<Rightarrow> pool_run items start work ws p')"

definition all_stopped :: "('j, 's) pool \<Rightarrow> bool" where
  "all_stopped p \<longleftrightarrow> list_all (\<lambda>x. x = Stopped) (workers p)"

text \<open>How a scope ends under a schedule: with a state, with the process, or not within it.\<close>

datatype 'a ending = Returned 'a | Process_ended | Still_running

definition scope :: "'i list \<Rightarrow> ('i \<Rightarrow> 's \<Rightarrow> ('j, 's) progress) \<Rightarrow> ('j \<Rightarrow> 's \<Rightarrow> ('j, 's) progress) \<Rightarrow>
    nat \<Rightarrow> nat list \<Rightarrow> 's \<Rightarrow> 's ending" where
  "scope items start work jobs sched s =
     (case pool_run items start work sched (pool_new jobs s) of
        None \<Rightarrow> Process_ended
      | Some p \<Rightarrow> if all_stopped p then Returned (shared p) else Still_running)"

section \<open>Sums over the threads\<close>

lemma sum_list_update_same:
  fixes f :: "'a \<Rightarrow> 'b :: comm_monoid_add"
  assumes "w < length xs"
  shows "sum_list (map f (xs[w := x])) + f (xs ! w) = sum_list (map f xs) + f x"
  using assms
proof (induction xs arbitrary: w)
  case (Cons y ys)
  show ?case
  proof (cases w)
    case (Suc v)
    with Cons have "sum_list (map f (ys[v := x])) + f (ys ! v) = sum_list (map f ys) + f x" by simp
    with Suc show ?thesis by (simp add: add.assoc)
  qed (simp add: ac_simps)
qed simp

text \<open>A multiset of pairs can be listed in the order of its first components.\<close>

lemma listed_in_order:
  "image_mset f D = mset xs \<Longrightarrow> \<exists>ys. mset ys = D \<and> map f ys = xs"
proof (induction xs arbitrary: D)
  case (Cons x xs)
  then have "image_mset f D = add_mset x (mset xs)" by simp
  then obtain d D' where D: "D = add_mset d D'" "f d = x" "image_mset f D' = mset xs"
    by (metis msed_map_invR)
  from Cons.IH [OF D(3)] obtain ys where "mset ys = D'" "map f ys = xs" by blast
  with D show ?case by (intro exI [of _ "d # ys"]) simp
qed simp

fun bag :: "'j worker \<Rightarrow> 'j multiset" where
  "bag (Busy j) = {#j#}"
| "bag _ = {#}"

definition halted :: "'j worker \<Rightarrow> nat" where
  "halted x = (if x = Stopped then 1 else 0)"

lemma halted_simps [simp]: "halted Stopped = 1" "x \<noteq> Stopped \<Longrightarrow> halted x = 0" "halted x \<le> 1"
  by (simp_all add: halted_def)

lemma halted_sum_le: "sum_list (map halted xs) \<le> length xs"
proof (induction xs)
  case (Cons x xs)
  then show ?case using halted_simps(3) [of x] by simp
qed simp

lemma halted_sum_less: "w < length xs \<Longrightarrow> xs ! w \<noteq> Stopped \<Longrightarrow> sum_list (map halted xs) < length xs"
proof (induction xs arbitrary: w)
  case (Cons y ys)
  show ?case
  proof (cases w)
    case 0
    with Cons show ?thesis using halted_sum_le [of ys] by simp
  next
    case (Suc v)
    with Cons have "sum_list (map halted ys) < length ys" by simp
    then show ?thesis using halted_simps(3) [of y] by simp
  qed
qed simp

section \<open>The law of the scope\<close>

text \<open>
  What the work on items has to satisfy.  \<open>on s i j\<close>: the thread that is at \<open>j\<close> works on item \<open>i\<close>; \<open>held\<close>
  is what it has added to the log so far, and \<open>R s i m\<close> says that \<open>m\<close> is a right outcome for the item.
  What is known of the shared state lasts along \<open>G\<close>; \<open>left\<close> bounds the operations to come.
\<close>

definition progresses ::
  "('s \<Rightarrow> bool) \<Rightarrow> ('s \<Rightarrow> 's \<Rightarrow> bool) \<Rightarrow> ('s \<Rightarrow> 'm) \<Rightarrow> ('s \<Rightarrow> 'i \<Rightarrow> 'j \<Rightarrow> bool) \<Rightarrow> ('j \<Rightarrow> 'm) \<Rightarrow>
    ('s \<Rightarrow> 'i \<Rightarrow> 'm \<Rightarrow> bool) \<Rightarrow> ('j \<Rightarrow> nat) \<Rightarrow> 's \<Rightarrow> 'i \<Rightarrow> 'm :: cancel_comm_monoid_add \<Rightarrow> nat \<Rightarrow> ('j, 's) progress \<Rightarrow> bool" where
  "progresses I G log on held R left s i h bound r \<longleftrightarrow>
     (case r of
        Continue j s' \<Rightarrow> I s' \<and> G s s' \<and> on s' i j \<and> log s' + h = log s + held j \<and> left j + 2 \<le> bound
      | Complete s' \<Rightarrow> I s' \<and> G s s' \<and> (\<exists>m. R s' i m \<and> log s' + h = log s + m)
      | _ \<Rightarrow> False)"

locale worker_pool =
  fixes items :: "'i list" and start :: "'i \<Rightarrow> 's \<Rightarrow> ('j, 's) progress" and work :: "'j \<Rightarrow> 's \<Rightarrow> ('j, 's) progress"
    and I :: "'s \<Rightarrow> bool" and G :: "'s \<Rightarrow> 's \<Rightarrow> bool" and log :: "'s \<Rightarrow> 'm :: cancel_comm_monoid_add"
    and on :: "'s \<Rightarrow> 'i \<Rightarrow> 'j \<Rightarrow> bool" and held :: "'j \<Rightarrow> 'm" and R :: "'s \<Rightarrow> 'i \<Rightarrow> 'm \<Rightarrow> bool"
    and left :: "'j \<Rightarrow> nat" and cost :: "'i \<Rightarrow> nat" and sane :: bool
  assumes G_refl: "G s s" and G_trans: "G s t \<Longrightarrow> G t u \<Longrightarrow> G s u"
    and on_mono: "G s s' \<Longrightarrow> on s i j \<Longrightarrow> on s' i j" and R_mono: "G s s' \<Longrightarrow> R s i m \<Longrightarrow> R s' i m"
    and start_progress: "sane \<Longrightarrow> I s \<Longrightarrow> i \<in> set items \<Longrightarrow>
      progresses I G log on held R left s i 0 (cost i) (start i s)"
    and work_progress: "sane \<Longrightarrow> I s \<Longrightarrow> i \<in> set items \<Longrightarrow> on s i j \<Longrightarrow>
      progresses I G log on held R left s i (held j) (left j + 1) (work j s)"
    and cost_pos: "0 < cost i"
begin

text \<open>What has been taken is done or in the hands of one thread each; the log is the sum of both.\<close>

definition accounted :: "'s \<Rightarrow> ('j, 's) pool \<Rightarrow> ('i \<times> 'm) multiset \<Rightarrow> ('i \<times> 'j) multiset \<Rightarrow> bool" where
  "accounted s0 p D B \<longleftrightarrow>
     image_mset fst D + image_mset fst B = mset (take (unat (next_item p)) items) \<and>
     (\<forall>(i, m) \<in># D. R (shared p) i m) \<and> (\<forall>(i, j) \<in># B. on (shared p) i j) \<and>
     image_mset snd B = sum_list (map bag (workers p)) \<and>
     log (shared p) = log s0 + (\<Sum>d \<in># D. snd d) + (\<Sum>b \<in># B. held (snd b))"

definition pool_inv :: "nat \<Rightarrow> 's \<Rightarrow> ('j, 's) pool \<Rightarrow> bool" where
  "pool_inv n s0 p \<longleftrightarrow>
     I (shared p) \<and> G s0 (shared p) \<and> length (workers p) = n \<and> Hung \<notin> set (workers p) \<and>
     length items + n < 18446744073709551616 \<and>
     unat (next_item p) \<le> length items + sum_list (map halted (workers p)) \<and>
     (Stopped \<in> set (workers p) \<longrightarrow> length items \<le> unat (next_item p)) \<and>
     (\<exists>D B. accounted s0 p D B)"

fun weigh :: "'j worker \<Rightarrow> nat" where
  "weigh Idle = 1"
| "weigh (Busy j) = left j + 2"
| "weigh _ = 0"

definition weight :: "('j, 's) pool \<Rightarrow> nat" where
  "weight p = sum_list (map cost (drop (unat (next_item p)) items)) + sum_list (map weigh (workers p))"

lemma new_inv:
  assumes "I s0" and "length items + max jobs 1 < 18446744073709551616"
  shows "pool_inv (max jobs 1) s0 (pool_new jobs s0)"
proof -
  have "sum_list (map bag (replicate n (Idle :: 'j worker))) = {#}" for n by (induction n) simp_all
  then have "accounted s0 (pool_new jobs s0) {#} {#}" by (simp add: accounted_def pool_new_def)
  with assms show ?thesis by (auto simp: pool_inv_def pool_new_def G_refl)
qed

text \<open>What is known of the items carries over to a later shared state.\<close>

lemma accounted_later:
  assumes "G (shared p) s'" and "accounted s0 p D B"
  shows "\<forall>(i, m) \<in># D. R s' i m" and "\<forall>(i, j) \<in># B. on s' i j"
  using assms R_mono on_mono by (fastforce simp: accounted_def)+

lemma idle_step:
  assumes "sane" and inv: "pool_inv n s0 p" and w: "w < length (workers p)" "workers p ! w = Idle"
  shows "\<exists>p'. pool_step items start work w p = Some p' \<and> pool_inv n s0 p' \<and> weight p' < weight p"
proof -
  let ?k = "unat (next_item p)" and ?p = "p\<lparr>next_item := next_item p + 1\<rparr>"
  have idle: "bag (workers p ! w) = {#}" "halted (workers p ! w) = 0" "weigh (workers p ! w) = 1" using w(2) by simp_all
  note sums = sum_list_update_same [OF w(1), of bag] sum_list_update_same [OF w(1), of halted]
    sum_list_update_same [OF w(1), of weigh]
  have "?k + 1 < 18446744073709551616"
    using inv halted_sum_less [OF w(1)] w(2) by (auto simp: pool_inv_def)
  then have k: "unat (next_item p + 1) = ?k + 1" by (simp add: unat_word_ariths)
  have mem: "x \<in> set ((workers p)[w := y]) \<Longrightarrow> x = y \<or> x \<in> set (workers p)" for x y
    using set_update_subset_insert [of "workers p" w y] by auto
  from inv obtain D B where acc: "accounted s0 p D B" by (auto simp: pool_inv_def)
  show ?thesis
  proof (cases "?k < length items")
    case False
    let ?q = "put_worker w Stopped ?p"
    have run: "pool_step items start work w p = Some ?q" using False w by (simp add: pool_step_def Let_def)
    have "accounted s0 ?q D B"
      using acc False k sums(1) idle by (simp add: accounted_def put_worker_def)
    moreover have "sum_list (map halted (workers ?q)) = sum_list (map halted (workers p)) + 1"
      using sums(2) [of Stopped] idle by (simp add: put_worker_def)
    ultimately have "pool_inv n s0 ?q"
      using inv False k mem [of Hung Stopped] by (auto simp: pool_inv_def put_worker_def)
    moreover have "weight ?q < weight p"
      using False k sums(3) [of Stopped] idle by (simp add: weight_def put_worker_def)
    ultimately show ?thesis using run by blast
  next
    case True
    define i where "i = items ! ?k"
    have i: "i \<in> set items" using True by (simp add: i_def)
    have run: "pool_step items start work w p = settle w (start i (shared p)) ?p"
      using True w by (simp add: pool_step_def Let_def i_def)
    have taken: "mset (take (?k + 1) items) = add_mset i (mset (take ?k items))"
      using True by (simp add: take_Suc_conv_app_nth i_def)
    have rest: "sum_list (map cost (drop ?k items)) = cost i + sum_list (map cost (drop (?k + 1) items))"
      using True by (simp add: Cons_nth_drop_Suc [symmetric] i_def)
    have pr: "progresses I G log on held R left (shared p) i 0 (cost i) (start i (shared p))"
      using start_progress [OF assms(1) _ i] inv by (simp add: pool_inv_def)
    have stop: "Stopped \<notin> set (workers p)" using inv True by (auto simp: pool_inv_def)
    have frame: "pool_inv n s0 (put_worker w x (?p\<lparr>shared := s'\<rparr>))"
      if "I s'" "G (shared p) s'" "x \<noteq> Stopped" "x \<noteq> Hung" "\<exists>D B. accounted s0 (put_worker w x (?p\<lparr>shared := s'\<rparr>)) D B" for s' x
      using that inv True k stop mem [of Hung x] mem [of Stopped x]
      by (auto simp: pool_inv_def put_worker_def intro: G_trans)
    show ?thesis
    proof (cases "start i (shared p)")
      case (Continue j s')
      let ?q = "put_worker w (Busy j) (?p\<lparr>shared := s'\<rparr>)"
      from pr Continue have j: "I s'" "G (shared p) s'" "on s' i j" "log s' = log (shared p) + held j" "left j + 2 \<le> cost i"
        by (auto simp: progresses_def)
      have "accounted s0 ?q D (add_mset (i, j) B)"
        using acc k taken sums(1) [of "Busy j"] idle j accounted_later [OF j(2) acc]
        by (auto simp: accounted_def put_worker_def ac_simps)
      with frame [OF j(1,2)] have "pool_inv n s0 ?q" by blast
      moreover have "weight ?q < weight p"
        using k rest sums(3) [of "Busy j"] idle j(5) by (simp add: weight_def put_worker_def)
      ultimately show ?thesis using run Continue by simp
    next
      case (Complete s')
      let ?q = "put_worker w Idle (?p\<lparr>shared := s'\<rparr>)"
      from pr Complete obtain m where j: "I s'" "G (shared p) s'" "R s' i m" "log s' = log (shared p) + m"
        by (auto simp: progresses_def)
      have "accounted s0 ?q (add_mset (i, m) D) B"
        using acc k taken sums(1) [of Idle] idle j accounted_later [OF j(2) acc]
        by (auto simp: accounted_def put_worker_def ac_simps)
      with frame [OF j(1,2)] have "pool_inv n s0 ?q" by blast
      moreover have "weight ?q < weight p"
        using k rest sums(3) [of Idle] idle cost_pos [of i] by (simp add: weight_def put_worker_def)
      ultimately show ?thesis using run Complete by simp
    qed (use pr in \<open>auto simp: progresses_def\<close>)
  qed
qed

lemma busy_step:
  assumes "sane" and inv: "pool_inv n s0 p" and w: "w < length (workers p)" "workers p ! w = Busy j"
  shows "\<exists>p'. pool_step items start work w p = Some p' \<and> pool_inv n s0 p' \<and> weight p' < weight p"
proof -
  have busy: "bag (workers p ! w) = {#j#}" "halted (workers p ! w) = 0" "weigh (workers p ! w) = left j + 2"
    using w(2) by simp_all
  note sums = sum_list_update_same [OF w(1), of bag] sum_list_update_same [OF w(1), of halted]
    sum_list_update_same [OF w(1), of weigh]
  from inv obtain D B where acc: "accounted s0 p D B" by (auto simp: pool_inv_def)
  have "j \<in># sum_list (map bag (workers p))" using w busy(1) by (auto simp: in_set_conv_nth intro!: bexI [of _ "workers p ! w"])
  then have "j \<in># image_mset snd B" using acc by (simp add: accounted_def)
  then obtain i where "(i, j) \<in># B" by auto
  then obtain B' where B: "B = add_mset (i, j) B'" by (blast dest: multi_member_split)
  have i: "i \<in> set items" and on: "on (shared p) i j"
  proof -
    have "i \<in># image_mset fst D + image_mset fst B" by (simp add: B)
    also have "image_mset fst D + image_mset fst B = mset (take (unat (next_item p)) items)"
      using acc by (simp add: accounted_def)
    finally show "i \<in> set items" by (auto dest: in_set_takeD)
    show "on (shared p) i j" using acc by (simp add: accounted_def B)
  qed
  have pr: "progresses I G log on held R left (shared p) i (held j) (left j + 1) (work j (shared p))"
    using work_progress [OF assms(1) _ i on] inv by (simp add: pool_inv_def)
  have run: "pool_step items start work w p = settle w (work j (shared p)) p"
    using w by (simp add: pool_step_def)
  have log: "log s' = log s0 + (\<Sum>d \<in># D. snd d) + (\<Sum>b \<in># B'. held (snd b)) + m" if "log s' + held j = log (shared p) + m" for s' m
  proof -
    have "log s' + held j = log s0 + (\<Sum>d \<in># D. snd d) + (\<Sum>b \<in># B'. held (snd b)) + m + held j"
      using that acc by (simp add: accounted_def B ac_simps)
    then show ?thesis by simp
  qed
  have bags: "sum_list (map bag ((workers p)[w := x])) = image_mset snd B' + bag x" for x
  proof -
    have "sum_list (map bag ((workers p)[w := x])) + {#j#} = image_mset snd B + bag x"
      using sums(1) [of x] busy(1) acc by (simp add: accounted_def)
    then show ?thesis by (simp add: B)
  qed
  have frame: "pool_inv n s0 (put_worker w x (p\<lparr>shared := s'\<rparr>))"
    if "I s'" "G (shared p) s'" "x \<noteq> Stopped" "x \<noteq> Hung" "\<exists>D B. accounted s0 (put_worker w x (p\<lparr>shared := s'\<rparr>)) D B" for s' x
    using that inv sums(2) [of x] busy set_update_subset_insert [of "workers p" w x]
    by (auto simp: pool_inv_def put_worker_def intro: G_trans)
  show ?thesis
  proof (cases "work j (shared p)")
    case (Continue j' s')
    let ?q = "put_worker w (Busy j') (p\<lparr>shared := s'\<rparr>)"
    from pr Continue have j': "I s'" "G (shared p) s'" "on s' i j'" "log s' + held j = log (shared p) + held j'" "left j' < left j"
      by (auto simp: progresses_def)
    have "accounted s0 ?q D (add_mset (i, j') B')"
      using acc j'(3) accounted_later [OF j'(2) acc] log [OF j'(4)]
      by (simp add: accounted_def put_worker_def B bags ac_simps)
    with frame [OF j'(1,2)] have "pool_inv n s0 ?q" by blast
    moreover have "weight ?q < weight p"
      using sums(3) [of "Busy j'"] busy j'(5) by (simp add: weight_def put_worker_def)
    ultimately show ?thesis using run Continue by simp
  next
    case (Complete s')
    let ?q = "put_worker w Idle (p\<lparr>shared := s'\<rparr>)"
    from pr Complete obtain m where m: "I s'" "G (shared p) s'" "R s' i m" "log s' + held j = log (shared p) + m"
      by (auto simp: progresses_def)
    have "accounted s0 ?q (add_mset (i, m) D) B'"
      using acc m(3) accounted_later [OF m(2) acc] log [OF m(4)]
      by (simp add: accounted_def put_worker_def B bags ac_simps)
    with frame [OF m(1,2)] have "pool_inv n s0 ?q" by blast
    moreover have "weight ?q < weight p"
      using sums(3) [of Idle] busy by (simp add: weight_def put_worker_def)
    ultimately show ?thesis using run Complete by simp
  qed (use pr in \<open>auto simp: progresses_def\<close>)
qed

lemma pool_step_inv:
  assumes "sane" and "pool_inv n s0 p"
  shows "\<exists>p'. pool_step items start work w p = Some p' \<and> pool_inv n s0 p' \<and> weight p' \<le> weight p \<and>
    (w < n \<longrightarrow> workers p ! w \<noteq> Stopped \<longrightarrow> weight p' < weight p)"
proof (cases "w < length (workers p)")
  case True
  have "workers p ! w \<noteq> Hung" using assms(2) nth_mem [OF True] by (auto simp: pool_inv_def)
  then show ?thesis
    using idle_step [OF assms True] busy_step [OF assms True] assms(2) True
    by (cases "workers p ! w") (auto simp: pool_step_def pool_inv_def intro: less_imp_le)
qed (use assms(2) in \<open>simp add: pool_step_def pool_inv_def\<close>)

lemma stopped_stays:
  assumes "pool_step items start work w p = Some p'" and "workers p ! v = Stopped"
  shows "workers p' ! v = Stopped"
proof -
  have "workers q ! v = Stopped"
    if "settle w r q0 = Some q" "workers q0 = workers p" "workers p ! w \<noteq> Stopped" for r q0 q
  proof -
    have "w \<noteq> v" using that(3) assms(2) by auto
    with that(1,2) assms(2) show ?thesis by (cases r) (auto simp: put_worker_def)
  qed
  moreover have "(workers p)[w := Stopped] ! v = Stopped" if "w < length (workers p)"
    using that assms(2) by (cases "w = v") simp_all
  ultimately show ?thesis
    using assms by (cases "workers p ! w") (auto simp: pool_step_def Let_def put_worker_def split: if_splits)
qed

text \<open>Every step of a thread that has not stopped uses up some of the weight.\<close>

lemma pool_run_inv:
  assumes "sane" and "pool_inv n s0 p" and "v < n"
  shows "\<exists>p'. pool_run items start work sched p = Some p' \<and> pool_inv n s0 p' \<and>
    (workers p' ! v \<noteq> Stopped \<longrightarrow> weight p' + count_list sched v \<le> weight p) \<and>
    (workers p ! v = Stopped \<longrightarrow> workers p' ! v = Stopped)"
  using assms(2)
proof (induction sched arbitrary: p)
  case (Cons w sched)
  from pool_step_inv [OF assms(1) Cons.prems, of w] obtain p1 where p1: "pool_step items start work w p = Some p1"
      "pool_inv n s0 p1" "weight p1 \<le> weight p" "w < n \<Longrightarrow> workers p ! w \<noteq> Stopped \<Longrightarrow> weight p1 < weight p" by blast
  from Cons.IH [OF p1(2)] obtain p' where p': "pool_run items start work sched p1 = Some p'" "pool_inv n s0 p'"
      "workers p' ! v \<noteq> Stopped \<longrightarrow> weight p' + count_list sched v \<le> weight p1"
      "workers p1 ! v = Stopped \<longrightarrow> workers p' ! v = Stopped" by blast
  have "workers p ! v = Stopped \<Longrightarrow> workers p' ! v = Stopped" using stopped_stays [OF p1(1)] p'(4) by blast
  moreover from this have "workers p' ! v \<noteq> Stopped \<Longrightarrow> weight p' + count_list (w # sched) v \<le> weight p"
    using p'(3) p1(3,4) assms(3) by (cases "w = v") fastforce+
  ultimately show ?case using p1(1) p'(1,2) by simp
qed simp

text \<open>A scope that has ended: each item has a right outcome, and the log has grown by all of them.\<close>

lemma ended_scope:
  assumes "sane" and "I s" and "length items + max jobs 1 < 18446744073709551616"
    and "scope items start work jobs sched s = Returned s'"
  shows "I s' \<and> G s s' \<and> (\<exists>ms. list_all2 (R s') items ms \<and> log s' = log s + sum_list ms)"
proof -
  note inv0 = new_inv [OF assms(2,3)]
  have "0 < max jobs 1" by simp
  from pool_run_inv [OF assms(1) inv0 this, of sched] obtain p where
    run: "pool_run items start work sched (pool_new jobs s) = Some p" and inv: "pool_inv (max jobs 1) s p" by blast
  then have stopped: "list_all (\<lambda>x. x = Stopped) (workers p)" and s': "s' = shared p"
    using assms(4) by (simp_all add: scope_def all_stopped_def split: if_splits)
  have n: "workers p \<noteq> []" using inv by (auto simp: pool_inv_def)
  then have "Stopped \<in> set (workers p)" using stopped by (cases "workers p") simp_all
  then have all: "take (unat (next_item p)) items = items" using inv by (simp add: pool_inv_def)
  have "sum_list (map bag ws) = {#}" if "list_all (\<lambda>x. x = Stopped) ws" for ws :: "'j worker list"
    using that by (induction ws) simp_all
  with inv stopped obtain D where D: "accounted s p D {#}" by (fastforce simp: pool_inv_def accounted_def)
  then have "image_mset fst D = mset items" by (simp add: accounted_def all)
  from listed_in_order [OF this] obtain ys where ys: "mset ys = D" "map fst ys = items" by blast
  have "list_all2 (R s') (map fst ys) (map snd ys)"
    using D ys(1) by (fastforce simp: accounted_def s' list_all2_map1 list_all2_map2 list_all2_same)
  moreover have "log s' = log s + sum_list (map snd ys)"
    using D by (simp add: accounted_def s' flip: ys(1)) (simp flip: sum_mset_sum_list)
  ultimately show ?thesis using inv ys(2) by (auto simp: pool_inv_def s')
qed

text \<open>A scope ends under every schedule that lets each thread move often enough.\<close>

definition enough :: "nat \<Rightarrow> nat" where
  "enough jobs = sum_list (map cost items) + max jobs 1 + 1"

lemma scope_ends:
  assumes "sane" and "I s" and "length items + max jobs 1 < 18446744073709551616"
    and often: "\<And>w. w < max jobs 1 \<Longrightarrow> enough jobs \<le> count_list sched w"
  shows "\<exists>s'. scope items start work jobs sched s = Returned s'"
proof -
  let ?p = "pool_new jobs s :: ('j, 's) pool"
  note inv0 = new_inv [OF assms(2,3)]
  have "sum_list (map weigh (replicate n Idle)) = n" for n by (induction n) simp_all
  then have weight: "weight ?p = sum_list (map cost items) + max jobs 1" by (simp add: weight_def pool_new_def)
  have "\<exists>p. pool_run items start work sched ?p = Some p \<and> pool_inv (max jobs 1) s p \<and> workers p ! v = Stopped"
    if "v < max jobs 1" for v
    using pool_run_inv [OF assms(1) inv0 that, of sched] often [OF that] weight by (fastforce simp: enough_def)
  then obtain p where "pool_run items start work sched ?p = Some p" "length (workers p) = max jobs 1"
    "\<And>v. v < max jobs 1 \<Longrightarrow> workers p ! v = Stopped"
    by (metis (no_types, lifting) option.inject pool_inv_def max.strict_coboundedI2 zero_less_one)
  then show ?thesis by (simp add: scope_def all_stopped_def list_all_length)
qed

end

end
