(* ===== verification/Verify_Command.thy ===== *)
theory Verify_Command
  imports Worker_Pool Block_Store
begin

text \<open>
  The command that reads every block of one version (\<open>src/main.rs\<close>, \<open>resolve_version\<close> and \<open>verify\<close>): any
  number of workers take the version's files, read them block by block through the store, and report the
  first failure of each.  An operation of the store is one step, and a schedule says which worker moves.
  The text of an error is left out: a line of the report has the path and the error.
\<close>

section \<open>Definitions\<close>

datatype command_error =
    Depot_not_in_dump u32
  | No_such_version u32 string
  | Store_error read_error
  | Failed_verification nat

definition resolve_version :: "env \<Rightarrow> u32 \<Rightarrow> string \<Rightarrow> command_error + blob_id" where
  "resolve_version env depot version =
     rbind (ok_or (Depot_not_in_dump depot) (index_depot (env_index env) depot)) (\<lambda>dep.
     ok_or (No_such_version depot version) (lookup_name dep version))"

datatype report_line =
    No_record string
  | Fail string read_error

record verify_state =
  vst_store :: store
  vst_blocks :: u64
  vst_report :: "(u32 \<times> report_line) list"

text \<open>A worker inside the loop over the blocks of a file: the node, its path, the record, the next block.\<close>

datatype verify_job = Reading u32 string file_loc nat

definition file_nodes :: "manifest \<Rightarrow> u32 list" where
  "file_nodes m = map of_nat (filter (\<lambda>i. \<not> is_dir (nodes m ! i)) [0..<length (nodes m)])"

definition verify_start ::
  "manifest \<Rightarrow> file_table \<Rightarrow> u32 \<Rightarrow> verify_state \<Rightarrow> (verify_job, verify_state) progress" where
  "verify_start m t node v =
     (case path m node of
        None \<Rightarrow> Hangs
      | Some p \<Rightarrow>
          (let shown = from_utf8_lossy p;
               f = (case node_at m node of Some n \<Rightarrow> node_file_id n | None \<Rightarrow> u32_max)
           in case table_get t f of
                None \<Rightarrow> Complete (v\<lparr>vst_report := vst_report v @ [(node, No_record shown)]\<rparr>)
              | Some loc \<Rightarrow> Continue (Reading node shown loc 0) v))"

fun verify_work :: "env \<Rightarrow> verify_job \<Rightarrow> verify_state \<Rightarrow> (verify_job, verify_state) progress" where
  "verify_work env (Reading node shown loc b) v =
     (if b < num_blocks (loc_record loc) then
        (let v1 = v\<lparr>vst_blocks := vst_blocks v + 1\<rparr> in
         case read_block env loc b (vst_store v1) of
           (Inr _, st) \<Rightarrow> Continue (Reading node shown loc (b + 1)) (v1\<lparr>vst_store := st\<rparr>)
         | (Inl (Error e), st) \<Rightarrow>
             Complete (v1\<lparr>vst_store := st, vst_report := vst_report v1 @ [(node, Fail shown e)]\<rparr>)
         | (Inl Panic, st) \<Rightarrow> Aborts)
      else Complete v)"

record verify_summary =
  vs_lines :: "report_line list"
  vs_files :: nat
  vs_blocks :: u64
  vs_failed :: nat

text \<open>The end of the command: the report in the order of the nodes, its lines counted as failures.\<close>

definition verify_end :: "verify_state \<Rightarrow> nat \<Rightarrow> (command_error + unit) \<times> verify_summary option \<times> store" where
  "verify_end v n =
     (let sorted = sort_key fst (vst_report v); failed = length sorted in
      (if failed = 0 then Inr () else Inl (Failed_verification failed),
       Some \<lparr>vs_lines = map snd sorted, vs_files = n, vs_blocks = vst_blocks v, vs_failed = failed\<rparr>, vst_store v))"

text \<open>
  What the command returns and prints, and the store it leaves.  \<open>path\<close> may not return, and then the
  worker that called it keeps the scope from ending.
\<close>

definition verify_version ::
  "env \<Rightarrow> u32 \<Rightarrow> string \<Rightarrow> nat \<Rightarrow> nat list \<Rightarrow> store \<Rightarrow>
    ((command_error + unit) \<times> verify_summary option \<times> store) ending" where
  "verify_version env depot version jobs sched s =
     (case resolve_version env depot version of
        Inl e \<Rightarrow> Returned (Inl e, None, s)
      | Inr b \<Rightarrow>
          (case abind (table env b) (\<lambda>t. abind (parsed env b) (\<lambda>p. ret (t, pb_manifest p))) s of
             (Inl Panic, s1) \<Rightarrow> Process_ended
           | (Inl (Error e), s1) \<Rightarrow> Returned (Inl (Store_error e), None, s1)
           | (Inr (t, m), s1) \<Rightarrow>
               (case scope (file_nodes m) (verify_start m t) (verify_work env) jobs sched
                   \<lparr>vst_store = s1, vst_blocks = 0, vst_report = []\<rparr> of
                  Process_ended \<Rightarrow> Process_ended
                | Still_running \<Rightarrow> Still_running
                | Returned v \<Rightarrow>
                    Returned (verify_end v (length (file_nodes m))))))"

end
