(* ===== verification/Verify_Reports.thy ===== *)
theory Verify_Reports
  imports Verify_Command File_Service
begin

text \<open>
  What the report of \<open>verify\<close> says of a version: the workers are a pool in the sense of \<open>Worker_Pool\<close>, with
  the store's invariant as theirs, and the outcome of a file is read off the dump alone once its key is
  settled.
\<close>

section \<open>The outcome of a block\<close>

definition missing_of :: "env \<Rightarrow> (string \<Rightarrow> bytes) \<Rightarrow> file_loc \<Rightarrow> read_error" where
  "missing_of env files loc =
     (let e = index_blob (env_index env) (loc_source loc)
      in MissingDat (bf_depot e) (bf_version e)
           (case parse_of env files (loc_source loc) of Inr p \<Rightarrow> vm_dat_crc (pb_meta p) | Inl _ \<Rightarrow> 0))"

definition block_outcome ::
  "env \<Rightarrow> (string \<Rightarrow> bytes) \<Rightarrow> key_resolution \<Rightarrow> file_loc \<Rightarrow> nat \<Rightarrow> failure + bytes" where
  "block_outcome env files kr loc i =
     (case loc_dat loc of
        None \<Rightarrow> Inl (Error (missing_of env files loc))
      | Some dat \<Rightarrow> block_value env files kr loc i)"

definition holds :: "env \<Rightarrow> (string \<Rightarrow> bytes) \<Rightarrow> store \<Rightarrow> file_loc \<Rightarrow> nat \<Rightarrow> bool" where
  "holds env files s loc i \<longleftrightarrow> (\<exists>kr. key_settled s loc kr \<and> is_ok (block_outcome env files kr loc i))"

definition breaks :: "env \<Rightarrow> (string \<Rightarrow> bytes) \<Rightarrow> store \<Rightarrow> file_loc \<Rightarrow> nat \<Rightarrow> read_error \<Rightarrow> bool" where
  "breaks env files s loc i e \<longleftrightarrow>
     (\<exists>kr. key_settled s loc kr \<and> block_outcome env files kr loc i = Inl (Error e)) \<or>
     (\<forall>kr. block_outcome env files kr loc i = Inl (Error e))"

lemma holds_mono: "store_frame s s' \<Longrightarrow> holds env files s loc i \<Longrightarrow> holds env files s' loc i"
  unfolding holds_def using store_frame_settled by blast

lemma breaks_mono: "store_frame s s' \<Longrightarrow> breaks env files s loc i e \<Longrightarrow> breaks env files s' loc i e"
  unfolding breaks_def using store_frame_settled by blast

lemma outcome_settled:
  assumes "key_settled s loc kr" and "key_settled s loc kr'"
  shows "block_outcome env files kr loc i = block_outcome env files kr' loc i"
  using settled_value_eq [OF assms] by (simp add: block_outcome_def split: option.split)

text \<open>What a worker sees of a block: that it holds, or how it breaks.\<close>

definition seen :: "env \<Rightarrow> (string \<Rightarrow> bytes) \<Rightarrow> file_loc \<Rightarrow> nat \<Rightarrow> failure + bytes \<Rightarrow> store \<Rightarrow> bool" where
  "seen env files loc i r s \<longleftrightarrow>
     (case r of
        Inr d \<Rightarrow> holds env files s loc i
      | Inl (Error e) \<Rightarrow> breaks env files s loc i e
      | Inl Panic \<Rightarrow> False)"

lemma sat_seen:
  assumes good: "good_dump env files" and ok: "reliable env" "all_intact env files"
    and loc: "loc \<in> located_files env files"
  shows "sat (store_inv env files (located_files env files)) store_frame (read_block env loc i) (seen env files loc i) s"
proof (cases "loc_dat loc")
  case None
  note parts = good_dump_parts [OF good]
  have src: "known env (loc_source loc)" by (rule located_source [OF parts(2) loc])
  have "sat (store_inv env files (located_files env files)) store_frame (dat_crc_or_zero env (loc_source loc))
      (\<lambda>r s. r = Inr (case parse_of env files (loc_source loc) of Inr p \<Rightarrow> vm_dat_crc (pb_meta p) | Inl _ \<Rightarrow> 0)) s"
    using store_lift_blob [OF sat_parsed [OF parts(1,2) src], of "located_files env files" s] ok src
    by (auto simp: sat_def dat_crc_or_zero_def yields_def all_intact_def split: prod.splits sum.splits failure.splits)
  then have "sat (store_inv env files (located_files env files)) store_frame (missing_dat env loc)
      (\<lambda>r s. r = Inr (missing_of env files loc)) s"
    unfolding missing_dat_def Let_def
    by (rule store_runs.sat_abind) (auto simp: missing_of_def Let_def intro!: store_runs.sat_ret)
  then have "sat (store_inv env files (located_files env files)) store_frame (need_dat env loc)
      (\<lambda>r s. r = Inl (Error (missing_of env files loc))) s"
    unfolding need_dat_def None option.case by (rule store_runs.sat_abind) (auto intro!: store_runs.sat_fail)
  then show ?thesis
    unfolding read_block_def
    by (rule store_runs.sat_abind) (auto simp: seen_def breaks_def block_outcome_def None)
next
  case (Some dat)
  note parts = good_dump_parts [OF good]
  have "seen env files loc i r s'" if post: "block_post env files loc i r s'" for r s'
  proof -
    have "r \<noteq> Inl Panic" using post located_value [OF loc] ok(1) unfolding block_post_def by metis
    moreover have out: "block_outcome env files kr loc i = block_value env files kr loc i" for kr
      by (simp add: block_outcome_def Some)
    ultimately show ?thesis
      using post ok(1) unfolding block_post_def seen_def holds_def breaks_def out
      by (cases r) (auto split: failure.splits, metis is_ok_simps(1))
  qed
  then show ?thesis
    using store_lift_data [OF sat_read_block [OF parts(1,4) loc Some located_dat [OF good loc Some]]]
    by (blast intro: sat_weaken)
qed

section \<open>The workers as a pool\<close>

definition file_of :: "manifest \<Rightarrow> u32 \<Rightarrow> u32" where
  "file_of m node = (case node_at m node of Some n \<Rightarrow> node_file_id n | None \<Rightarrow> u32_max)"

text \<open>The first failure among the blocks of a file, if any.\<close>

definition checked :: "env \<Rightarrow> (string \<Rightarrow> bytes) \<Rightarrow> store \<Rightarrow> file_loc \<Rightarrow> read_error option \<Rightarrow> bool" where
  "checked env files s loc r \<longleftrightarrow>
     (case r of
        None \<Rightarrow> \<forall>i < num_blocks (loc_record loc). holds env files s loc i
      | Some e \<Rightarrow> \<exists>i < num_blocks (loc_record loc).
          (\<forall>j < i. holds env files s loc j) \<and> breaks env files s loc i e)"

definition reported ::
  "env \<Rightarrow> (string \<Rightarrow> bytes) \<Rightarrow> manifest \<Rightarrow> file_table \<Rightarrow> verify_state \<Rightarrow> u32 \<Rightarrow> (u32 \<times> report_line) multiset \<Rightarrow> bool" where
  "reported env files m t v node res \<longleftrightarrow>
     (\<exists>p. path m node = Some p \<and>
        (case table_get t (file_of m node) of
           None \<Rightarrow> res = {#(node, No_record (from_utf8_lossy p))#}
         | Some loc \<Rightarrow> \<exists>r. checked env files (vst_store v) loc r \<and>
             res = (case r of None \<Rightarrow> {#} | Some e \<Rightarrow> {#(node, Fail (from_utf8_lossy p) e)#})))"

fun works_on :: "env \<Rightarrow> (string \<Rightarrow> bytes) \<Rightarrow> manifest \<Rightarrow> file_table \<Rightarrow> verify_state \<Rightarrow> u32 \<Rightarrow> verify_job \<Rightarrow> bool" where
  "works_on env files m t v node (Reading node' label loc b) \<longleftrightarrow>
     node' = node \<and> map_option from_utf8_lossy (path m node) = Some label \<and> table_get t (file_of m node) = Some loc \<and>
     b \<le> num_blocks (loc_record loc) \<and> (\<forall>j < b. holds env files (vst_store v) loc j)"

fun blocks_left :: "verify_job \<Rightarrow> nat" where
  "blocks_left (Reading node label loc b) = num_blocks (loc_record loc) - b"

definition file_cost :: "manifest \<Rightarrow> file_table \<Rightarrow> u32 \<Rightarrow> nat" where
  "file_cost m t node = (case table_get t (file_of m node) of None \<Rightarrow> 1 | Some loc \<Rightarrow> num_blocks (loc_record loc) + 2)"

text \<open>What the command needs: a good dump, records of it in the table, and paths that end.\<close>

definition verifiable :: "env \<Rightarrow> (string \<Rightarrow> bytes) \<Rightarrow> manifest \<Rightarrow> file_table \<Rightarrow> bool" where
  "verifiable env files m t \<longleftrightarrow>
     good_dump env files \<and> reliable env \<and> all_intact env files \<and>
     (\<forall>f loc. table_get t f = Some loc \<longrightarrow> loc \<in> located_files env files) \<and>
     (\<forall>node \<in> set (file_nodes m). path m node \<noteq> None)"

lemma checked_mono:
  assumes "store_frame s s'" and "checked env files s loc r"
  shows "checked env files s' loc r"
proof (cases r)
  case None
  with assms holds_mono [OF assms(1)] show ?thesis by (simp add: checked_def)
next
  case (Some e)
  with assms(2) obtain i where "i < num_blocks (loc_record loc)" "\<forall>j < i. holds env files s loc j" "breaks env files s loc i e"
    by (auto simp: checked_def)
  with Some holds_mono [OF assms(1)] breaks_mono [OF assms(1)] show ?thesis by (auto simp: checked_def)
qed

lemma reported_mono:
  assumes "store_frame (vst_store v) (vst_store v')" and "reported env files m t v node res"
  shows "reported env files m t v' node res"
  using assms(2) checked_mono [OF assms(1)] unfolding reported_def
  by (cases "table_get t (file_of m node)") (simp, simp, blast)

definition steps :: "env \<Rightarrow> (string \<Rightarrow> bytes) \<Rightarrow> manifest \<Rightarrow> file_table \<Rightarrow> verify_state \<Rightarrow> u32 \<Rightarrow> nat \<Rightarrow>
    (verify_job, verify_state) progress \<Rightarrow> bool" where
  "steps env files m t v node bound r \<longleftrightarrow>
     progresses (\<lambda>v. store_inv env files (located_files env files) (vst_store v))
       (\<lambda>v v'. store_frame (vst_store v) (vst_store v')) (\<lambda>v. mset (vst_report v)) (works_on env files m t)
       (\<lambda>j. {#}) (reported env files m t) blocks_left v node {#} bound r"

lemma steps_start:
  assumes "store_inv env files (located_files env files) (vst_store v)" and "path m node = Some p"
  shows "steps env files m t v node (file_cost m t node) (verify_start m t node v)"
proof (cases "table_get t (file_of m node)")
  case None
  then have "reported env files m t v' node {#(node, No_record (from_utf8_lossy p))#}" for v'
    by (simp add: reported_def assms(2))
  then show ?thesis
    using assms None by (auto simp: steps_def progresses_def verify_start_def file_of_def Let_def store_runs.G_refl)
next
  case (Some loc)
  then show ?thesis
    using assms by (auto simp: steps_def progresses_def verify_start_def file_of_def Let_def store_runs.G_refl file_cost_def)
qed

lemma steps_work:
  assumes "verifiable env files m t" and "store_inv env files (located_files env files) (vst_store v)"
    and on: "works_on env files m t v node (Reading node' label loc b)"
  shows "steps env files m t v node (num_blocks (loc_record loc) - b + 1) (verify_work env (Reading node' label loc b) v)"
proof -
  from on have node: "node' = node" and loc: "table_get t (file_of m node) = Some loc" by auto
  from on obtain p where p: "path m node = Some p" "label = from_utf8_lossy p" by auto
  have good: "good_dump env files" "reliable env" "all_intact env files" "loc \<in> located_files env files"
    using assms(1) loc by (auto simp: verifiable_def)
  have fin: "reported env files m t v' node (case r of None \<Rightarrow> {#} | Some e \<Rightarrow> {#(node, Fail label e)#})"
    if "checked env files (vst_store v') loc r" for v' r
    unfolding reported_def using p loc that by auto
  show ?thesis
  proof (cases "b < num_blocks (loc_record loc)")
    case False
    with on have "checked env files (vst_store v) loc None" by (simp add: checked_def)
    from fin [OF this] False assms(2) show ?thesis by (simp add: steps_def progresses_def store_runs.G_refl)
  next
    case True
    obtain r st where run: "read_block env loc b (vst_store v) = (r, st)" by fastforce
    from satD [OF sat_seen [OF good] assms(2) run] have
      st: "store_inv env files (located_files env files) st" "store_frame (vst_store v) st" "seen env files loc b r st" by auto
    have before: "\<forall>k < b. holds env files st loc k" using on holds_mono [OF st(2)] by simp
    show ?thesis
    proof (cases r)
      case (Inr d)
      then have "\<forall>k < Suc b. holds env files st loc k" using st(3) before by (auto simp: seen_def less_Suc_eq)
      with Inr True run st(1,2) on show ?thesis by (simp add: steps_def progresses_def)
    next
      case (Inl f)
      then obtain e where e: "f = Error e" "breaks env files st loc b e"
        using st(3) by (cases f) (auto simp: seen_def)
      then have "checked env files st loc (Some e)" using before True by (auto simp: checked_def)
      then have "reported env files m t v' node {#(node, Fail label e)#}" if "vst_store v' = st" for v'
        using fin [of v' "Some e"] that by simp
      then show ?thesis using e Inl True run st(1,2) by (auto simp: steps_def progresses_def node)
    qed
  qed
qed

interpretation verify_pool: worker_pool "file_nodes m" "verify_start m t" "verify_work env"
  "\<lambda>v. store_inv env files (located_files env files) (vst_store v)" "\<lambda>v v'. store_frame (vst_store v) (vst_store v')"
  "\<lambda>v. mset (vst_report v)" "works_on env files m t" "\<lambda>j. {#}" "reported env files m t" blocks_left "file_cost m t"
  "verifiable env files m t" for env files m t
proof (unfold_locales, goal_cases)
  case (1 s)
  show ?case by (rule store_runs.G_refl)
next
  case (2 s u w)
  then show ?case by (rule store_runs.G_trans)
next
  case (3 s s' i j)
  then show ?case using holds_mono by (cases j) auto
next
  case (4 s s' i mm)
  then show ?case by (rule reported_mono)
next
  case (5 v i)
  then obtain p where "path m i = Some p" by (auto simp: verifiable_def)
  from steps_start [OF 5(2) this] show ?case by (simp add: steps_def)
next
  case (6 v i j)
  then show ?case using steps_work [of env files m t v i] by (cases j) (simp add: steps_def)
next
  case (7 i)
  show ?case by (simp add: file_cost_def split: option.split)
qed

section \<open>The whole command\<close>

lemma resolved_known:
  assumes "good_dump env files" and "resolve_version env depot version = Inr b"
  shows "known env b"
proof -
  note parts = good_dump_parts [OF assms(1)]
  from assms(2) obtain dep where dep: "index_depot (env_index env) depot = Some dep" "lookup_name dep version = Some b"
    by (auto simp: resolve_version_def rbind_Inr_iff ok_or_def split: option.splits)
  note ix = closed_index_parts [OF parts(2)]
  have "dep = depot_of (blobs (env_index env)) depot" by (rule index_depot_eq [OF ix(1) dep(1)])
  then have "b \<in> set (sorted_ids (blobs (env_index env)) depot)"
    using lookup_name_depot_of [OF ix(2), of depot version b] parts(6) [of "Depot depot"] dep by auto
  then show ?thesis using sorted_ids_facts(2) [OF ix(2)] by (simp add: known_def)
qed

text \<open>What the command has in hand when it starts its workers.\<close>

lemma verify_setup:
  assumes good: "good_dump env files" "reliable env" "all_intact env files" and b: "known env b"
    and "ancestry env files b bs" and "manifest_of env files b = Some m"
    and "store_inv env files (located_files env files) s"
  shows "\<exists>t s1. abind (table env b) (\<lambda>t. abind (parsed env b) (\<lambda>p. ret (t, pb_manifest p))) s = (Inr (t, m), s1) \<and>
    table_get t = newest env files bs \<and> store_inv env files (located_files env files) s1 \<and> store_frame s s1"
proof -
  note parts = good_dump_parts [OF good(1)]
  let ?I = "store_inv env files (located_files env files)"
  have table: "sat ?I store_frame (table env b) (\<lambda>r s. \<exists>t. r = Inr t \<and> table_get t = newest env files bs) s"
    by (rule sat_weaken [OF store_lift_table [OF sat_table [OF parts(1-3) b]]])
      (use good(2,3) layered_get ancestry_unique [OF assms(5)] in
        \<open>auto simp: yields_all_def sound_table_def fun_eq_iff split: sum.splits\<close>)
  have parsed: "sat ?I store_frame (parsed env b) (\<lambda>r s. \<exists>p. r = Inr p \<and> pb_manifest p = m) s1" for s1
    by (rule sat_weaken [OF store_lift_blob [OF sat_parsed [OF parts(1,2) b]]])
      (use good(2,3) b assms(6) in \<open>auto simp: yields_def all_intact_def manifest_of_def split: sum.splits\<close>)
  have "sat ?I store_frame (abind (table env b) (\<lambda>t. abind (parsed env b) (\<lambda>p. ret (t, pb_manifest p))))
      (\<lambda>r s. \<exists>t. r = Inr (t, m) \<and> table_get t = newest env files bs) s"
    by (rule store_runs.sat_abind [OF table])
      (auto intro!: store_runs.sat_abind [OF parsed] store_runs.sat_ret)
  from satD [OF this assms(7)] show ?thesis
    by (cases "abind (table env b) (\<lambda>t. abind (parsed env b) (\<lambda>p. ret (t, pb_manifest p))) s") auto
qed

text \<open>A line, or none, for each node: what the nodes' multisets add up to, and the order of the report.\<close>

definition node_lines :: "u32 \<Rightarrow> report_line option \<Rightarrow> (u32 \<times> report_line) list" where
  "node_lines node r = (case r of None \<Rightarrow> [] | Some l \<Rightarrow> [(node, l)])"

lemma sum_node_lines:
  "length ns = length os \<Longrightarrow> sum_list (map2 (\<lambda>n r. mset (node_lines n r)) ns os) = mset (concat (map2 node_lines ns os))"
  by (induction ns os rule: list_induct2) simp_all

lemma fst_node_lines:
  "x \<in> set (concat (map2 node_lines ns os)) \<Longrightarrow> fst x \<in> set ns"
  by (auto simp: node_lines_def split: option.splits dest: set_zip_leftD)

lemma sort_node_lines:
  assumes "length ns = length os" and "sorted ns" and "distinct ns" and "mset xs = mset (concat (map2 node_lines ns os))"
  shows "sort_key fst xs = concat (map2 node_lines ns os)"
proof -
  let ?L = "concat (map2 node_lines ns os)"
  have "sorted (map fst ?L) \<and> distinct (map fst ?L)"
    using assms(1-3)
  proof (induction ns os rule: list_induct2)
    case (Cons n ns r os)
    then have rest: "sorted (map fst (concat (map2 node_lines ns os)))" "distinct (map fst (concat (map2 node_lines ns os)))"
      by simp_all
    have "set (map fst (concat (map2 node_lines ns os))) \<subseteq> set ns"
      unfolding set_map using fst_node_lines by (rule image_subsetI)
    moreover have "\<forall>x \<in> set ns. n \<le> x" "n \<notin> set ns" using Cons.prems by auto
    ultimately have "\<forall>x \<in> set (map fst (concat (map2 node_lines ns os))). n \<le> x"
      "n \<notin> set (map fst (concat (map2 node_lines ns os)))" by blast+
    with rest show ?case by (cases r) (simp_all add: node_lines_def [of n])
  qed simp
  moreover from this have "inj_on fst (set xs)" using mset_eq_setD [OF assms(4)] by (simp add: distinct_map)
  ultimately show ?thesis by (intro sort_key_inj_key_eq [OF assms(4)]) simp_all
qed

lemma snd_node_lines:
  "length ns = length os \<Longrightarrow> map snd (concat (map2 node_lines ns os)) = List.map_filter id os"
  by (induction ns os rule: list_induct2) (auto simp: node_lines_def map_filter_simps split: option.splits)

lemma file_nodes_sorted:
  assumes "length (nodes m) < 4294967296"
  shows "sorted (file_nodes m)" and "distinct (file_nodes m)"
    and "node \<in> set (file_nodes m) \<longleftrightarrow> (\<exists>n. node_at m node = Some n \<and> \<not> is_dir n)"
proof -
  let ?is = "filter (\<lambda>i. \<not> is_dir (nodes m ! i)) [0..<length (nodes m)]"
  have u: "unat (of_nat i :: u32) = i" if "i \<in> set ?is" for i using that assms by (simp add: unat_of_nat)
  have "map unat (file_nodes m) = ?is" unfolding file_nodes_def map_map by (rule map_idI) (use u in simp)
  moreover have "sorted ?is" by (rule sorted_wrt_filter) simp
  ultimately have "sorted (map unat (file_nodes m))" "distinct (map unat (file_nodes m))" by simp_all
  then show "sorted (file_nodes m)" "distinct (file_nodes m)"
    by (simp_all add: sorted_wrt_map word_le_nat_alt [symmetric] distinct_map)
  have "node \<in> set (file_nodes m) \<longleftrightarrow> unat node \<in> set ?is"
    unfolding file_nodes_def using u by (force intro: image_eqI [of _ _ "unat node"])
  then show "node \<in> set (file_nodes m) \<longleftrightarrow> (\<exists>n. node_at m node = Some n \<and> \<not> is_dir n)"
    by (auto simp: node_at_def nth_opt_def)
qed

text \<open>The judgement of a file of the version, in words of the dump.\<close>

definition judged ::
  "env \<Rightarrow> (string \<Rightarrow> bytes) \<Rightarrow> manifest \<Rightarrow> blob_id list \<Rightarrow> store \<Rightarrow> u32 \<Rightarrow> report_line option \<Rightarrow> bool" where
  "judged env files m bs s node l \<longleftrightarrow>
     (\<exists>p. path m node = Some p \<and>
        (case newest env files bs (file_of m node) of
           None \<Rightarrow> l = Some (No_record (from_utf8_lossy p))
         | Some loc \<Rightarrow> \<exists>r. checked env files s loc r \<and> l = map_option (Fail (from_utf8_lossy p)) r))"

lemma reported_judged:
  assumes "reported env files m t v node res" and "table_get t = newest env files bs"
  shows "\<exists>l. judged env files m bs (vst_store v) node l \<and> res = mset (node_lines node l)"
proof (cases "newest env files bs (file_of m node)")
  case None
  with assms show ?thesis by (auto simp: reported_def judged_def node_lines_def)
next
  case (Some loc)
  with assms obtain p r where "path m node = Some p" "checked env files (vst_store v) loc r"
    "res = (case r of None \<Rightarrow> {#} | Some e \<Rightarrow> {#(node, Fail (from_utf8_lossy p) e)#})"
    by (auto simp: reported_def)
  with Some show ?thesis
    by (intro exI [of _ "map_option (Fail (from_utf8_lossy p)) r"])
      (auto simp: judged_def node_lines_def split: option.splits)
qed

lemma reported_lines:
  assumes "list_all2 (reported env files m t v) ns ms" and "table_get t = newest env files bs"
  shows "\<exists>ls. list_all2 (judged env files m bs (vst_store v)) ns ls \<and> ms = map2 (\<lambda>n l. mset (node_lines n l)) ns ls"
  using assms(1)
proof (induction rule: list_all2_induct)
  case (Cons n ns x ms)
  from reported_judged [OF Cons.hyps(1) assms(2)] obtain l where
    "judged env files m bs (vst_store v) n l" "x = mset (node_lines n l)" by blast
  moreover from Cons.IH obtain ls where "list_all2 (judged env files m bs (vst_store v)) ns ls"
    "ms = map2 (\<lambda>n l. mset (node_lines n l)) ns ls" by blast
  ultimately show ?case by (intro exI [of _ "l # ls"]) simp
qed simp

text \<open>What the command needs of the version and of the number of its workers.\<close>

definition verify_input ::
  "env \<Rightarrow> (string \<Rightarrow> bytes) \<Rightarrow> u32 \<Rightarrow> string \<Rightarrow> nat \<Rightarrow> store \<Rightarrow> manifest \<Rightarrow> blob_id list \<Rightarrow> bool" where
  "verify_input env files depot version jobs s m bs \<longleftrightarrow>
     good_dump env files \<and> reliable env \<and> all_intact env files \<and>
     (\<exists>b. resolve_version env depot version = Inr b \<and> ancestry env files b bs \<and> manifest_of env files b = Some m) \<and>
     (\<forall>node \<in> set (file_nodes m). path m node \<noteq> None) \<and>
     length (file_nodes m) + max jobs 1 < 18446744073709551616 \<and>
     store_inv env files (located_files env files) s"

lemma verify_scope:
  assumes "verify_input env files depot version jobs s m bs"
  obtains t s1 where "verifiable env files m t" and "table_get t = newest env files bs"
    and "store_inv env files (located_files env files) s1" and "store_frame s s1"
    and "\<And>sched. verify_version env depot version jobs sched s =
      (case scope (file_nodes m) (verify_start m t) (verify_work env) jobs sched
          \<lparr>vst_store = s1, vst_blocks = 0, vst_report = []\<rparr> of
         Process_ended \<Rightarrow> Process_ended
       | Still_running \<Rightarrow> Still_running
       | Returned v \<Rightarrow> Returned (verify_end v (length (file_nodes m))))"
proof -
  from assms obtain b where good: "good_dump env files" "reliable env" "all_intact env files"
    and b: "resolve_version env depot version = Inr b" "ancestry env files b bs" "manifest_of env files b = Some m"
    and rest: "\<forall>node \<in> set (file_nodes m). path m node \<noteq> None" "store_inv env files (located_files env files) s"
    by (auto simp: verify_input_def)
  have known: "known env b" by (rule resolved_known [OF good(1) b(1)])
  from verify_setup [OF good known b(2,3) rest(2)] obtain t s1 where
    run: "abind (table env b) (\<lambda>t. abind (parsed env b) (\<lambda>p. ret (t, pb_manifest p))) s = (Inr (t, m), s1)"
    and t: "table_get t = newest env files bs" and s1: "store_inv env files (located_files env files) s1" "store_frame s s1"
    by blast
  have "verifiable env files m t"
    using good rest(1) known b(2) by (auto simp: verifiable_def t located_files_def)
  from that [OF this t s1] show ?thesis
    by (simp add: verify_version_def b(1) run)
qed

lemma verify_result:
  assumes "verify_input env files depot version jobs s m bs"
    and "verify_version env depot version jobs sched s = Returned (r, out, s')"
  obtains v ls where "out = Some v" and "store_inv env files (located_files env files) s'" and "store_frame s s'"
    and "list_all2 (judged env files m bs s') (file_nodes m) ls" and "vs_lines v = List.map_filter id ls"
    and "r = (if vs_lines v = [] then Inr () else Inl (Failed_verification (length (vs_lines v))))"
proof -
  obtain t s1 where t: "verifiable env files m t" "table_get t = newest env files bs"
    and s1: "store_inv env files (located_files env files) s1" "store_frame s s1"
    and run: "\<And>sched. verify_version env depot version jobs sched s =
      (case scope (file_nodes m) (verify_start m t) (verify_work env) jobs sched
          \<lparr>vst_store = s1, vst_blocks = 0, vst_report = []\<rparr> of
         Process_ended \<Rightarrow> Process_ended
       | Still_running \<Rightarrow> Still_running
       | Returned v \<Rightarrow> Returned (verify_end v (length (file_nodes m))))"
    by (rule verify_scope [OF assms(1)]) blast
  let ?v0 = "\<lparr>vst_store = s1, vst_blocks = 0, vst_report = []\<rparr>"
  from assms(2) [unfolded run] obtain v where
    v: "scope (file_nodes m) (verify_start m t) (verify_work env) jobs sched ?v0 = Returned v"
      "(r, out, s') = verify_end v (length (file_nodes m))"
    by (cases "scope (file_nodes m) (verify_start m t) (verify_work env) jobs sched ?v0") simp_all
  have "length (file_nodes m) + max jobs 1 < 18446744073709551616" using assms(1) by (simp add: verify_input_def)
  from verify_pool.ended_scope [OF t(1) _ this v(1)] s1(1) obtain ms where
    inv: "store_inv env files (located_files env files) (vst_store v)" "store_frame s1 (vst_store v)"
    and ms: "list_all2 (reported env files m t v) (file_nodes m) ms" "mset (vst_report v) = sum_list ms" by auto
  from reported_lines [OF ms(1) t(2)] obtain ls where ls: "list_all2 (judged env files m bs (vst_store v)) (file_nodes m) ls"
    "ms = map2 (\<lambda>n l. mset (node_lines n l)) (file_nodes m) ls" by blast
  note len = list_all2_lengthD [OF ls(1)]
  from assms(1) have "length (nodes m) < 4294967296"
    by (auto simp: verify_input_def wf_manifest_def dest!: manifest_of_wf)
  note order = file_nodes_sorted [OF this]
  have "sort_key fst (vst_report v) = concat (map2 node_lines (file_nodes m) ls)"
    by (rule sort_node_lines [OF len order(1,2)]) (simp add: ms(2) ls(2) sum_node_lines [OF len])
  then have lines: "map snd (sort_key fst (vst_report v)) = List.map_filter id ls" by (simp only: snd_node_lines [OF len])
  have "store_frame s (vst_store v)" by (rule store_runs.G_trans [OF s1(2) inv(2)])
  moreover have r: "r = (if sort_key fst (vst_report v) = [] then Inr () else Inl (Failed_verification (length (sort_key fst (vst_report v)))))"
    and s': "s' = vst_store v"
    and out: "out = Some \<lparr>vs_lines = map snd (sort_key fst (vst_report v)), vs_files = length (file_nodes m),
        vs_blocks = vst_blocks v, vs_failed = length (sort_key fst (vst_report v))\<rparr>"
    using v(2) by (simp_all add: verify_end_def Let_def del: length_sort)
  moreover have "sort_key fst (vst_report v) = [] \<longleftrightarrow> List.map_filter id ls = []"
    "length (sort_key fst (vst_report v)) = length (List.map_filter id ls)"
    by (metis lines map_is_Nil_conv, metis lines length_map)
  ultimately show ?thesis
    using inv(1) ls(1) lines by (intro that [OF out, of ls]) (simp_all only: verify_summary.simps)
qed

end
