(* ===== verification/Verify_Properties.thy ===== *)
theory Verify_Properties
  imports Verify_Reports Fuse_Properties
begin

text \<open>
  What \<open>verify\<close> promises: its report does not depend on the workers, a version it passes can be read, and
  it ends.
\<close>

section \<open>The report\<close>

text \<open>The report that one worker would make, read off the dump, with the settled key of each file.\<close>

definition first_error ::
  "env \<Rightarrow> (string \<Rightarrow> bytes) \<Rightarrow> key_resolution \<Rightarrow> file_loc \<Rightarrow> read_error option" where
  "first_error env files kr loc =
     (case List.map_filter (\<lambda>i. case block_outcome env files kr loc i of Inl (Error e) \<Rightarrow> Some e | _ \<Rightarrow> None)
         [0..<num_blocks (loc_record loc)] of
        [] \<Rightarrow> None
      | e # _ \<Rightarrow> Some e)"

definition verdict ::
  "env \<Rightarrow> (string \<Rightarrow> bytes) \<Rightarrow> (file_loc \<Rightarrow> key_resolution) \<Rightarrow> manifest \<Rightarrow> blob_id list \<Rightarrow> u32 \<Rightarrow> report_line option" where
  "verdict env files kr m bs node =
     (let label = from_utf8_lossy (the (path m node)) in
      case newest env files bs (file_of m node) of
        None \<Rightarrow> Some (No_record label)
      | Some loc \<Rightarrow> map_option (Fail label) (first_error env files (kr loc) loc))"

lemma checked_first_error:
  assumes "key_settled s loc kr" and "checked env files s loc r"
  shows "r = first_error env files kr loc"
proof -
  let ?f = "\<lambda>i. case block_outcome env files kr loc i of Inl (Error e) \<Rightarrow> Some e | _ \<Rightarrow> None"
  let ?n = "num_blocks (loc_record loc)"
  have ok: "?f i = None" if "holds env files s loc i" for i
  proof -
    from that obtain kr' where "key_settled s loc kr'" "is_ok (block_outcome env files kr' loc i)" by (auto simp: holds_def)
    then have "is_ok (block_outcome env files kr loc i)" using outcome_settled [OF assms(1)] by metis
    then show ?thesis by (cases "block_outcome env files kr loc i") simp_all
  qed
  show ?thesis
  proof (cases r)
    case None
    with assms(2) ok have "List.map_filter ?f [0..<?n] = []"
      by (auto simp: checked_def map_filter_def filter_empty_conv)
    with None show ?thesis by (simp add: first_error_def)
  next
    case (Some e)
    with assms(2) obtain i where i: "i < ?n" "\<forall>j < i. holds env files s loc j" "breaks env files s loc i e"
      by (auto simp: checked_def)
    have "block_outcome env files kr loc i = Inl (Error e)"
      using i(3) outcome_settled [OF assms(1)] by (auto simp: breaks_def)
    moreover have "List.map_filter ?f [0..<i] = []"
      using i(2) ok by (auto simp: map_filter_def filter_empty_conv)
    moreover have "[0..<?n] = [0..<i] @ i # [Suc i..<?n]"
      using i(1) upt_add_eq_append [of 0 i "?n - i"] upt_conv_Cons [OF i(1)] by simp
    ultimately have "List.map_filter ?f [0..<?n] = e # List.map_filter ?f [Suc i..<?n]"
      by (simp add: map_filter_def)
    with Some show ?thesis by (simp add: first_error_def)
  qed
qed

lemma judged_verdict:
  assumes "judged env files m bs s node l"
    and "\<And>loc. newest env files bs (file_of m node) = Some loc \<Longrightarrow> key_settled s loc (kr loc)"
  shows "l = verdict env files kr m bs node"
  using assms checked_first_error
  by (cases "newest env files bs (file_of m node)") (fastforce simp: judged_def verdict_def Let_def)+

lemma verify_report_lines:
  assumes "verify_input env files depot version jobs s m bs"
    and "\<forall>f loc. newest env files bs f = Some loc \<longrightarrow> key_settled s loc (kr loc)"
    and "verify_version env depot version jobs sched s = Returned (r, out, s')"
  shows "\<exists>v. out = Some v \<and> vs_lines v = List.map_filter (verdict env files kr m bs) (file_nodes m) \<and>
    r = (if vs_lines v = [] then Inr () else Inl (Failed_verification (length (vs_lines v))))"
proof -
  obtain v ls where v: "out = Some v" "store_frame s s'" "vs_lines v = List.map_filter id ls"
      "r = (if vs_lines v = [] then Inr () else Inl (Failed_verification (length (vs_lines v))))"
    and ls: "list_all2 (judged env files m bs s') (file_nodes m) ls"
    by (rule verify_result [OF assms(1,3)]) blast
  have "l = verdict env files kr m bs node" if "judged env files m bs s' node l" for node l
    using judged_verdict [OF that] assms(2) store_frame_settled [OF v(2)] by blast
  with ls have "list_all2 (\<lambda>node l. l = verdict env files kr m bs node) (file_nodes m) ls"
    by (rule list_all2_mono)
  then have "ls = map (verdict env files kr m bs) (file_nodes m)"
    by (simp add: list_all2_conv_all_nth list_eq_iff_nth_eq)
  then have "List.map_filter id ls = List.map_filter (verdict env files kr m bs) (file_nodes m)"
    by (simp add: map_filter_def filter_map comp_def)
  with v show ?thesis by simp
qed


section \<open>Files that pass\<close>

lemma settled_blocks:
  assumes "\<forall>i < n. holds env files s loc i"
  shows "\<exists>kr. (n \<noteq> 0 \<longrightarrow> key_settled s loc kr) \<and> (\<forall>i < n. is_ok (block_outcome env files kr loc i))"
proof (cases "n = 0")
  case False
  with assms obtain kr where kr: "key_settled s loc kr" by (auto simp: holds_def)
  have "is_ok (block_outcome env files kr loc i)" if "i < n" for i
    using assms that outcome_settled [OF kr] by (metis holds_def)
  with kr show ?thesis by blast
qed simp

lemma blocks_stored:
  assumes "cipher_in_place (env_codecs env)" and "unat (fr_size (loc_record loc)) \<le> ISIZE_MAX"
    and "\<And>i. i * BLOCK_SIZE < unat (fr_size (loc_record loc)) \<Longrightarrow> is_ok (block_value env files kr loc i)"
  shows "\<exists>F. stored_file env files kr loc F"
proof -
  let ?n = "unat (fr_size (loc_record loc))" and ?f = "file_byte env files kr loc"
  have "block_value env files kr loc i = Inr (take BLOCK_SIZE (drop (i * BLOCK_SIZE) (map ?f [0..<?n])))"
    if i: "i * BLOCK_SIZE < ?n" for i
  proof -
    from assms(3) [OF i] obtain d where d: "block_value env files kr loc i = Inr d" by (auto simp: is_ok_iff)
    have len: "length d = min BLOCK_SIZE (?n - i * BLOCK_SIZE)" by (rule block_value_exact [OF assms(1) d assms(2) i])
    have pos: "0 < BLOCK_SIZE" by (simp add: BLOCK_SIZE_def)
    have "d = map ?f [i * BLOCK_SIZE..<i * BLOCK_SIZE + length d]"
      using block_piece(1) [of env files kr loc "i * BLOCK_SIZE" d "length d"] d len pos by simp
    also have "\<dots> = take BLOCK_SIZE (drop (i * BLOCK_SIZE) (map ?f [0..<?n]))"
      using len i by (simp add: drop_map take_map take_upt min_def)
    finally show ?thesis using d by simp
  qed
  then show ?thesis by (intro exI [of _ "map ?f [0..<?n]"]) (simp add: stored_file_def)
qed

text \<open>A file whose blocks hold, and reach to its end, is served.\<close>

lemma held_file_served:
  assumes good: "good_dump env files" "reliable env" and loc: "loc \<in> located_files env files"
    and inv: "store_inv env files (located_files env files) s"
    and hold: "\<forall>i < num_blocks (loc_record loc). holds env files s loc i"
    and size: "unat (fr_size (loc_record loc)) \<le> num_blocks (loc_record loc) * BLOCK_SIZE"
      "unat (fr_size (loc_record loc)) \<le> ISIZE_MAX"
  shows "\<exists>F. length F = unat (fr_size (loc_record loc)) \<and>
    (\<forall>off len. unat off + len < 18446744073709551616 \<longrightarrow> len \<le> ISIZE_MAX \<longrightarrow>
       fst (store_read env loc off len s) = Inr (take len (drop (unat off) F)))"
proof (cases "num_blocks (loc_record loc) = 0")
  case True
  with size have "fr_size (loc_record loc) = 0" by (simp add: unat_eq_0 [symmetric])
  then show ?thesis by (intro exI [of _ "[]"]) (simp add: store_read_def ret_def)
next
  case False
  note parts = good_dump_parts [OF good(1)]
  from settled_blocks [OF hold] False obtain kr where kr: "key_settled s loc kr"
    and ok: "\<forall>i < num_blocks (loc_record loc). is_ok (block_outcome env files kr loc i)" by auto
  from ok False obtain dat where dat: "loc_dat loc = Some dat"
    by (cases "loc_dat loc") (auto simp: block_outcome_def)
  have "is_ok (block_value env files kr loc i)" if "i * BLOCK_SIZE < unat (fr_size (loc_record loc))" for i
  proof -
    have "i * BLOCK_SIZE < num_blocks (loc_record loc) * BLOCK_SIZE" using that size(1) by linarith
    then have "is_ok (block_outcome env files kr loc i)" using ok by (simp add: BLOCK_SIZE_def)
    then show ?thesis by (simp add: block_outcome_def dat)
  qed
  from blocks_stored [OF parts(5) size(2) this] obtain F where F: "stored_file env files kr loc F" by blast
  have "data_inv env files (located_files env files) s" using inv by (simp add: store_inv_def)
  from store_read_serves [OF parts(1,5,4) loc dat located_dat [OF good(1) loc dat] this _ _ kr F good(2)] F
  show ?thesis by (auto simp: stored_file_def)
qed


section \<open>The command ends\<close>

lemma verify_ends:
  assumes "verify_input env files depot version jobs s m bs"
  shows "\<exists>N. \<forall>sched. (\<forall>w < max jobs 1. N \<le> count_list sched w) \<longrightarrow>
    (\<exists>r. verify_version env depot version jobs sched s = Returned r)"
proof -
  obtain t s1 where t: "verifiable env files m t" and s1: "store_inv env files (located_files env files) s1"
    and run: "\<And>sched. verify_version env depot version jobs sched s =
      (case scope (file_nodes m) (verify_start m t) (verify_work env) jobs sched
          \<lparr>vst_store = s1, vst_blocks = 0, vst_report = []\<rparr> of
         Process_ended \<Rightarrow> Process_ended
       | Still_running \<Rightarrow> Still_running
       | Returned v \<Rightarrow> Returned (verify_end v (length (file_nodes m))))"
    by (rule verify_scope [OF assms]) blast
  have "length (file_nodes m) + max jobs 1 < 18446744073709551616" using assms by (simp add: verify_input_def)
  from verify_pool.scope_ends [OF t _ this, of "\<lparr>vst_store = s1, vst_blocks = 0, vst_report = []\<rparr>"] s1
  have "\<exists>v. scope (file_nodes m) (verify_start m t) (verify_work env) jobs sched
      \<lparr>vst_store = s1, vst_blocks = 0, vst_report = []\<rparr> = Returned v"
    if "\<forall>w < max jobs 1. verify_pool.enough m t jobs \<le> count_list sched w" for sched
    using that by simp
  then show ?thesis unfolding run by (intro exI [of _ "verify_pool.enough m t jobs"]) fastforce
qed

text \<open>
  \<open>verify\<close> ends.  There is a number of steps such that under every schedule in which each worker moves
  that often the command has returned: no worker waits for another, none ends the process, and none
  reads on for ever, as long as the path of every file ends at a root.
\<close>

theorem verify_finishes:
  assumes "verify_input env files depot version jobs s m bs"
  shows "\<exists>N. \<forall>sched. (\<forall>w < max jobs 1. N \<le> count_list sched w) \<longrightarrow>
    (\<exists>r. verify_version env depot version jobs sched s = Returned r)"
  by (rule verify_ends [OF assms])

section \<open>The small dump\<close>

definition dump_version :: "blob_id \<Rightarrow> string" where
  "dump_version b = version_name (blobs dump_index) (sorted_ids (blobs dump_index) 7) b"

lemma dump_resolves: "known dump_env b \<Longrightarrow> resolve_version dump_env 7 (dump_version b) = Inr b"
proof -
  assume "known dump_env b"
  then have b: "unat b < length (blobs dump_index)" "bf_depot (index_blob dump_index b) = 7"
    using dump_known(3) [of b] by (auto simp: known_def dump_entries dump_blob_def)
  note ix = closed_index_parts [OF dump_closed]
  from dump_depot obtain dep where dep: "index_depot dump_index 7 = Some dep" by auto
  have "lookup_name dep (dump_version b) = Some b"
    unfolding index_depot_eq(1) [OF ix(1) dep] dump_version_def
    using lookup_name_depot_of [OF ix(2)] dump_depot_tidy b sorted_ids_facts(2) [OF ix(2)] by (simp add: index_blob_def)
  with dep show ?thesis by (simp add: resolve_version_def ok_or_def)
qed

lemma sample_file_nodes: "file_nodes sample_manifest = [2, 3]"
  by (simp add: file_nodes_def sample_manifest_def written_manifest_def Let_def sample_nodes_def is_dir_def NO_FILE_def)

lemma sample_paths: "path sample_manifest 2 \<noteq> None" "path sample_manifest 3 \<noteq> None"
  by (simp_all add: path_def path_loop.simps sample_eval eval_simps)

lemma dump_verify_input:
  "verify_input dump_env dump_file 7 (dump_version 0) 2 dump_store sample_manifest [0]"
  "verify_input dump_env dump_file 7 (dump_version 1) 2 dump_store sample_manifest [1, 0]"
  unfolding verify_input_def
  using dump_good dump_reliable dump_intact dump_resolves dump_known dump_manifest_of dump_ancestry dump_store_inv sample_paths
  by (auto simp: sample_file_nodes ancestry_def dump_parents)

lemma taking_turns: "\<forall>w < max 2 (1 :: nat). N \<le> count_list (replicate N 0 @ replicate N 1) w"
proof -
  have "count_list (replicate N x) y = (if x = y then N else 0)" for x y :: nat by (induction N) auto
  then show ?thesis by (auto simp: less_2_cases_iff)
qed

lemma dump_schedule:
  "\<exists>sched r. verify_version dump_env 7 (dump_version 0) 2 sched dump_store = Returned r"
proof -
  from verify_ends [OF dump_verify_input(1)] obtain N where
    N: "\<And>sched. (\<forall>w < max 2 (1 :: nat). N \<le> count_list sched w) \<Longrightarrow> \<exists>r. verify_version dump_env 7 (dump_version 0) 2 sched dump_store = Returned r"
    by blast
  from N [OF taking_turns] show ?thesis by blast
qed

lemma dump_outcomes:
  "block_value dump_env dump_file kr (dump_loc 0 0 (dump_record 7 Compressed 0 10)) 0 = Inr (take 10 dat_0)"
  "block_value dump_env dump_file kr (dump_loc 0 0 (dump_record 8 Plain 10 20)) 0 = Inr (drop 10 dat_0)"
proof -
  show "block_value dump_env dump_file kr (dump_loc 0 0 (dump_record 7 Compressed 0 10)) 0 = Inr (take 10 dat_0)"
    by (simp add: block_value_def dump_span nth_opt_def span_of_def stored_def dump_entries dump_dat_def
        dump_files [simplified] dat_0_parts whole_span_def decode_block_def block_range_def Let_def inflate_def zlib_take_read_to_end_def
        chunk_checksum_def null_codecs_def ISIZE_MAX_def BLOCK_SIZE_def min_def)
qed (use file_8_block [of kr] in \<open>simp add: file_8_def\<close>)

lemma dump_verdicts:
  "List.map_filter (verdict dump_env dump_file kr sample_manifest [0]) (file_nodes sample_manifest) = []"
proof -
  have f: "file_of sample_manifest 2 = 7" "file_of sample_manifest 3 = 8"
    by (simp_all add: file_of_def sample_node_at sample_nodes_def)
  have e: "first_error dump_env dump_file kr (dump_loc 0 0 (dump_record 7 Compressed 0 10)) = None"
    "first_error dump_env dump_file kr (dump_loc 0 0 (dump_record 8 Plain 10 20)) = None" for kr
    by (simp_all add: first_error_def num_blocks_def block_outcome_def dump_outcomes map_filter_def)
  show ?thesis by (simp add: sample_file_nodes verdict_def f dump_own e map_filter_def Let_def)
qed

lemma dump_settled:
  "\<forall>f loc. newest dump_env dump_file [0] f = Some loc \<longrightarrow> key_settled dump_store loc ((\<lambda>_. No_key 0) loc)"
  by (auto simp: dump_own key_settled_def split: if_splits)

lemma dump_passes:
  "\<exists>sched v s'. verify_version dump_env 7 (dump_version 0) 2 sched dump_store = Returned (Inr (), Some v, s')"
proof -
  from dump_schedule obtain sched r out s' where
    run: "verify_version dump_env 7 (dump_version 0) 2 sched dump_store = Returned (r, out, s')" by (metis prod_cases3)
  from verify_report_lines [OF dump_verify_input(1) dump_settled run] obtain v where "out = Some v" "r = Inr ()"
    by (auto simp: dump_verdicts)
  with run show ?thesis by blast
qed



theorem verify_finishes_witness:
  "\<exists>sched r. verify_version dump_env 7 (dump_version 1) 2 sched dump_store = Returned r"
proof -
  from verify_finishes [OF dump_verify_input(2)] obtain N where
    N: "\<And>sched. (\<forall>w < max 2 (1 :: nat). N \<le> count_list sched w) \<Longrightarrow> \<exists>r. verify_version dump_env 7 (dump_version 1) 2 sched dump_store = Returned r"
    by blast
  from N [OF taking_turns] show ?thesis by blast
qed

end
