(* ===== verification/Audit_Command.thy ===== *)
theory Audit_Command
  imports Worker_Pool Block_Store
begin

text \<open>
  The command that finds out which keys decrypt which blobs (\<open>src/main.rs\<close>, \<open>key_audit\<close>): workers parse the
  blobs, look for an encrypted file, and probe its key; keys of other depots that decrypt a blob are
  appended to a file in the form that the key store loads.  The text of an error is a parameter, and so
  is what becomes of the output file when it is opened and written.
\<close>

section \<open>Definitions\<close>

definition audit_blobs :: "env \<Rightarrow> u32 option \<Rightarrow> blob_id list" where
  "audit_blobs env depot =
     concat (map (\<lambda>(d, dep). depot_blobs dep)
       (filter (\<lambda>(d, dep). case depot of None \<Rightarrow> True | Some w \<Rightarrow> w = d) (depots (env_index env))))"

text \<open>The counters count a blob at most once each, so they stay below \<open>2 ^ 32\<close>.\<close>

record audit_state =
  au_store :: store
  encrypted_blobs :: nat
  ok_blobs :: nat
  discovered_blobs :: nat
  unreadable_blobs :: nat
  no_key_blobs :: nat
  au_report :: "string list"
  au_found :: "string list"

datatype audit_job =
    Parsing blob_id
  | Locating blob_id u32
  | Probing blob_id file_loc

definition unreadable :: "(read_error \<Rightarrow> string) \<Rightarrow> env \<Rightarrow> blob_id \<Rightarrow> read_error \<Rightarrow> audit_state \<Rightarrow> audit_state" where
  "unreadable explain env b e a =
     a\<lparr>au_report := au_report a @ [''UNREADABLE '' @ file_name (index_blob (env_index env) b) @ '': '' @ explain e],
       unreadable_blobs := unreadable_blobs a + 1\<rparr>"

definition key_line :: "env \<Rightarrow> blob_id \<Rightarrow> key \<Rightarrow> string" where
  "key_line env b k =
     (let entry = index_blob (env_index env) b
      in show_dec (unat (bf_depot entry)) @ ''@'' @ hex8 (bf_crc entry) @ ''='' @ env_hex env k)"

definition found_text :: "env \<Rightarrow> blob_id \<Rightarrow> key \<Rightarrow> u32 \<Rightarrow> string" where
  "found_text env b k from =
     ''# '' @ file_name (index_blob (env_index env) b) @ '' (key of depot '' @ show_dec (unat from) @ '')'' @
     [char_of (10 :: nat)] @ key_line env b k"

definition discovered_line :: "env \<Rightarrow> blob_id \<Rightarrow> u32 \<Rightarrow> string" where
  "discovered_line env b from =
     ''DISCOVERED '' @ file_name (index_blob (env_index env) b) @ '' <- depot '' @ show_dec (unat from) @ [CHR 0x27] @ ''s key''"

definition no_key_line :: "env \<Rightarrow> blob_id \<Rightarrow> nat \<Rightarrow> string" where
  "no_key_line env b tried =
     ''NO KEY '' @ file_name (index_blob (env_index env) b) @ '' (tried '' @ show_dec tried @ '')''"

fun probed :: "env \<Rightarrow> blob_id \<Rightarrow> key_resolution \<Rightarrow> audit_state \<Rightarrow> audit_state" where
  "probed env b (Configured k) a = a\<lparr>ok_blobs := ok_blobs a + 1\<rparr>"
| "probed env b (Discovered k from) a =
     a\<lparr>discovered_blobs := discovered_blobs a + 1, au_report := au_report a @ [discovered_line env b from],
       au_found := au_found a @ [found_text env b k from]\<rparr>"
| "probed env b (No_key tried) a =
     a\<lparr>no_key_blobs := no_key_blobs a + 1, au_report := au_report a @ [no_key_line env b tried]\<rparr>"

definition audit_start :: "blob_id \<Rightarrow> audit_state \<Rightarrow> (audit_job, audit_state) progress" where
  "audit_start b a = Continue (Parsing b) a"

text \<open>The first record with encrypted blocks.\<close>

definition encrypted_record :: "parsed_blob \<Rightarrow> file_record option" where
  "encrypted_record p = List.find (\<lambda>r. is_encrypted (fr_mode r) \<and> blocks r \<noteq> []) (pb_records p)"

fun audit_work :: "(read_error \<Rightarrow> string) \<Rightarrow> env \<Rightarrow> audit_job \<Rightarrow> audit_state \<Rightarrow> (audit_job, audit_state) progress" where
  "audit_work explain env (Parsing b) a =
     (case parsed env b (au_store a) of
        (Inl Panic, st) \<Rightarrow> Aborts
      | (Inl (Error e), st) \<Rightarrow> Complete (unreadable explain env b e (a\<lparr>au_store := st\<rparr>))
      | (Inr p, st) \<Rightarrow>
          (case encrypted_record p of
             None \<Rightarrow> Complete (a\<lparr>au_store := st\<rparr>)
           | Some rec \<Rightarrow>
               Continue (Locating b (file_id rec)) (a\<lparr>au_store := st, encrypted_blobs := encrypted_blobs a + 1\<rparr>)))"
| "audit_work explain env (Locating b f) a =
     (case locate env b f (au_store a) of
        (Inl Panic, st) \<Rightarrow> Aborts
      | (Inl (Error e), st) \<Rightarrow> Complete (unreadable explain env b e (a\<lparr>au_store := st\<rparr>))
      | (Inr loc, st) \<Rightarrow> Continue (Probing b loc) (a\<lparr>au_store := st\<rparr>))"
| "audit_work explain env (Probing b loc) a =
     (case probe_key env loc (au_store a) of
        (Inl Panic, st) \<Rightarrow> Aborts
      | (Inl (Error e), st) \<Rightarrow> Complete (unreadable explain env b e (a\<lparr>au_store := st\<rparr>))
      | (Inr kr, st) \<Rightarrow> Complete (probed env b kr (a\<lparr>au_store := st\<rparr>)))"

text \<open>
  Appending the keys found: the \<open>n\<close>-th line is written whole, or \<open>torn n\<close> is Some number of its
  characters, and the error ends the command.
\<close>

fun append_lines :: "(nat \<Rightarrow> nat option) \<Rightarrow> nat \<Rightarrow> string list \<Rightarrow> string \<Rightarrow> bool \<times> string" where
  "append_lines torn n [] text = (True, text)"
| "append_lines torn n (l # ls) text =
     (case torn n of
        None \<Rightarrow> append_lines torn (Suc n) ls (text @ l @ [char_of (10 :: nat)])
      | Some k \<Rightarrow> (False, text @ take k (l @ [char_of (10 :: nat)])))"

datatype audit_error = Opening_failed string | Writing_failed

record audit_summary =
  as_lines :: "string list"
  as_written :: "nat option"
  as_counts :: "(nat \<times> nat \<times> nat \<times> nat \<times> nat) option"

text \<open>
  The end of the command: what it returns, what it has printed by then, the text it leaves in the output
  file if it has opened one, and the store.  \<open>opened\<close> is the text that the file has when it is opened, an
  empty one if it is created, or the error.  The counts are in the order in which they are printed.
\<close>

definition audit_end :: "string + string \<Rightarrow> (nat \<Rightarrow> nat option) \<Rightarrow> audit_state \<Rightarrow>
    (audit_error + unit) \<times> audit_summary \<times> string option \<times> store" where
  "audit_end opened torn a =
     (let found = au_found a;
          counts = Some (encrypted_blobs a, ok_blobs a, discovered_blobs a, no_key_blobs a, unreadable_blobs a);
          prints = \<lparr>as_lines = sort_key (map (of_char :: char \<Rightarrow> nat)) (au_report a), as_written = None, as_counts = None\<rparr>
      in if found = [] then (Inr (), prints\<lparr>as_counts := counts\<rparr>, None, au_store a)
         else
           (case opened of
              Inl e \<Rightarrow> (Inl (Opening_failed e), prints, None, au_store a)
            | Inr text \<Rightarrow>
                (case append_lines torn 0 found text of
                   (True, text') \<Rightarrow>
                     (Inr (), prints\<lparr>as_written := Some (length found), as_counts := counts\<rparr>, Some text', au_store a)
                 | (False, text') \<Rightarrow> (Inl Writing_failed, prints, Some text', au_store a))))"

definition audit_new :: "store \<Rightarrow> audit_state" where
  "audit_new s =
     \<lparr>au_store = s, encrypted_blobs = 0, ok_blobs = 0, discovered_blobs = 0, unreadable_blobs = 0,
      no_key_blobs = 0, au_report = [], au_found = []\<rparr>"

definition key_audit :: "(read_error \<Rightarrow> string) \<Rightarrow> env \<Rightarrow> u32 option \<Rightarrow> string + string \<Rightarrow> (nat \<Rightarrow> nat option) \<Rightarrow>
    nat \<Rightarrow> nat list \<Rightarrow> store \<Rightarrow> ((audit_error + unit) \<times> audit_summary \<times> string option \<times> store) ending" where
  "key_audit explain env depot opened torn jobs sched s =
     (case scope (audit_blobs env depot) audit_start (audit_work explain env) jobs sched (audit_new s) of
        Process_ended \<Rightarrow> Process_ended
      | Still_running \<Rightarrow> Still_running
      | Returned a \<Rightarrow> Returned (audit_end opened torn a))"

end
