(* ===== verification/Audit_Reports.thy ===== *)
theory Audit_Reports
  imports Audit_Command Verify_Reports
begin

text \<open>
  What \<open>key_audit\<close> leaves behind: its workers are a pool, what a blob adds to the counters, the report and
  the keys found is the outcome of the key resolution that the store remembers for it.
\<close>

section \<open>Probing\<close>

text \<open>Whether the first block of a file can be fetched whole.\<close>

definition probes :: "env \<Rightarrow> (string \<Rightarrow> bytes) \<Rightarrow> file_loc \<Rightarrow> bool" where
  "probes env files loc \<longleftrightarrow>
     (case (loc_dat loc, nth_opt (Checksum_Table.blocks (loc_record loc)) 0, block_span loc 0) of
        (Some dat, Some meta, Some (start, fin)) \<Rightarrow> is_ok (whole_span loc 0 start fin (span_of env files dat start fin))
      | _ \<Rightarrow> False)"

definition probe_ends :: "env \<Rightarrow> (string \<Rightarrow> bytes) \<Rightarrow> file_loc \<Rightarrow> failure + key_resolution \<Rightarrow> store \<Rightarrow> bool" where
  "probe_ends env files loc r s \<longleftrightarrow>
     (if probes env files loc then \<exists>kr. r = Inr kr \<and> resolved_keys s (loc_source loc) = Some kr
      else \<exists>e. r = Inl (Error e))"

lemma sat_probe_key:
  assumes good: "good_dump env files" and ok: "reliable env" "all_intact env files"
    and loc: "loc \<in> located_files env files"
  shows "sat (store_inv env files (located_files env files)) store_frame (probe_key env loc) (probe_ends env files loc) s"
proof (rule store_lift_data, cases "loc_dat loc")
  case None
  note parts = good_dump_parts [OF good]
  show "sat (data_inv env files (located_files env files)) data_frame (probe_key env loc) (probe_ends env files loc) s"
    unfolding probe_key_def
  proof (rule data_runs.sat_abind [OF sat_need_dat_missing [OF parts(1,2) located_source [OF parts(2) loc] None]])
    fix f s1 assume "\<not> is_ok (Inl f) \<and> calm env files (Inl f)"
    with ok None show "probe_ends env files loc (Inl f) s1" by (cases f) (auto simp: calm_def probe_ends_def probes_def)
  qed auto
next
  case (Some dat)
  note parts = good_dump_parts [OF good]
  let ?J = "data_inv env files (located_files env files)" and ?Q = "probe_ends env files loc"
  have need: "need_dat env loc = ret dat" by (simp add: need_dat_def Some)
  show "sat ?J data_frame (probe_key env loc) ?Q s"
  proof (cases "nth_opt (Checksum_Table.blocks (loc_record loc)) 0")
    case None
    then show ?thesis
      by (simp add: probe_key_def need sat_def action_simps data_frame_def probe_ends_def probes_def split: option.splits)
  next
    case (Some first)
    show ?thesis
    proof (cases "block_span loc 0")
      case None
      with Some show ?thesis
        by (simp add: probe_key_def need sat_def action_simps data_frame_def probe_ends_def probes_def split: option.splits)
    next
      case (Some sp)
      obtain start fin where sp: "sp = (start, fin)" by fastforce
      have le: "unat (fin - start) \<le> ISIZE_MAX" using located_span [OF loc] Some sp by blast
      have probe: "probe_key env loc = abind (dat_bytes env dat start fin) (\<lambda>raw.
          abind (pure (whole_span loc 0 start fin raw)) (\<lambda>raw.
          resolve_key env (loc_source loc) (fr_mode (loc_record loc), raw, checksum first)))"
        using \<open>nth_opt _ 0 = Some first\<close> Some sp by (simp add: probe_key_def need fun_eq_iff action_simps)
      have p: "probes env files loc \<longleftrightarrow> is_ok (whole_span loc 0 start fin (span_of env files dat start fin))"
        using \<open>loc_dat loc = Some dat\<close> \<open>nth_opt _ 0 = Some first\<close> Some sp by (simp add: probes_def)
      have key: "sat ?J data_frame (resolve_key env src smp) (\<lambda>r s. \<exists>kr. r = Inr kr \<and> resolved_keys s src = Some kr) s1" for src smp s1
        by (rule sat_weaken [OF sat_resolve_key]) blast
      have span: "sat ?J data_frame (abind (pure (whole_span loc 0 start fin (span_of env files dat start fin))) (\<lambda>raw.
          resolve_key env (loc_source loc) (fr_mode (loc_record loc), raw, checksum first))) ?Q s1" for s1
        by (rule data_runs.sat_abind [OF data_runs.sat_pure
              [where Q = "\<lambda>r s. r \<noteq> Inl Panic \<and> (is_ok r \<longleftrightarrow> probes env files loc)"]])
          (auto simp: no_panics p probe_ends_def intro: sat_weaken [OF key] failure.exhaust)
      show ?thesis
        unfolding probe
        by (rule data_runs.sat_abind [OF sat_dat_bytes [OF parts(1) located_dat [OF good loc \<open>loc_dat loc = Some dat\<close>] le]])
          (use span ok in \<open>auto simp: gives_def\<close>)
    qed
  qed
qed

section \<open>The workers as a pool\<close>

text \<open>What the workers add to: each increment of a counter, each line and each key is an event.\<close>

datatype audit_event = Enc | Okay | Disc | Unread | Nokey | Line string | Found string

definition events :: "audit_state \<Rightarrow> audit_event multiset" where
  "events a =
     replicate_mset (encrypted_blobs a) Enc + replicate_mset (ok_blobs a) Okay + replicate_mset (discovered_blobs a) Disc +
     replicate_mset (unreadable_blobs a) Unread + replicate_mset (no_key_blobs a) Nokey +
     image_mset Line (mset (au_report a)) + image_mset Found (mset (au_found a))"

fun key_events :: "env \<Rightarrow> blob_id \<Rightarrow> key_resolution \<Rightarrow> audit_event multiset" where
  "key_events env b (Configured k) = {#Okay#}"
| "key_events env b (Discovered k from) = {#Disc, Line (discovered_line env b from), Found (found_text env b k from)#}"
| "key_events env b (No_key tried) = {#Nokey, Line (no_key_line env b tried)#}"

definition unread_events :: "(read_error \<Rightarrow> string) \<Rightarrow> env \<Rightarrow> blob_id \<Rightarrow> read_error \<Rightarrow> audit_event multiset" where
  "unread_events explain env b e =
     {#Unread, Line (''UNREADABLE '' @ file_name (index_blob (env_index env) b) @ '': '' @ explain e)#}"

lemma events_steps:
  "events (probed env b kr a) = events a + key_events env b kr"
  "events (unreadable explain env b e a) = events a + unread_events explain env b e"
  "events (a\<lparr>au_store := st\<rparr>) = events a"
  "events (a\<lparr>au_store := st, encrypted_blobs := Suc (encrypted_blobs a)\<rparr>) = events a + {#Enc#}"
  by (cases kr; simp add: events_def unreadable_def unread_events_def)+

lemma audit_stores [simp]:
  "au_store (probed env b kr a) = au_store a" "au_store (unreadable explain env b e a) = au_store a"
  by (cases kr; simp add: unreadable_def)+

text \<open>The outcome of a blob, whose first encrypted file is its own.\<close>

definition first_readable :: "env \<Rightarrow> (string \<Rightarrow> bytes) \<Rightarrow> blob_id \<Rightarrow> file_record \<Rightarrow> bool" where
  "first_readable env files b rec =
     (case own_of env files b (file_id rec) of Some loc \<Rightarrow> probes env files loc | None \<Rightarrow> False)"

definition audited ::
  "(read_error \<Rightarrow> string) \<Rightarrow> env \<Rightarrow> (string \<Rightarrow> bytes) \<Rightarrow> audit_state \<Rightarrow> blob_id \<Rightarrow> audit_event multiset \<Rightarrow> bool" where
  "audited explain env files a b m \<longleftrightarrow>
     (\<exists>p. parse_of env files b = Inr p \<and>
        (case encrypted_record p of
           None \<Rightarrow> m = {#}
         | Some rec \<Rightarrow> \<exists>ev. m = add_mset Enc ev \<and>
             (if first_readable env files b rec
              then \<exists>kr. resolved_keys (au_store a) b = Some kr \<and> ev = key_events env b kr
              else \<exists>e. ev = unread_events explain env b e)))"

fun audits :: "env \<Rightarrow> (string \<Rightarrow> bytes) \<Rightarrow> blob_id \<Rightarrow> audit_job \<Rightarrow> bool" where
  "audits env files b (Parsing b') \<longleftrightarrow> b' = b"
| "audits env files b (Locating b' f) \<longleftrightarrow>
     b' = b \<and> (\<exists>p rec. parse_of env files b = Inr p \<and> encrypted_record p = Some rec \<and> f = file_id rec)"
| "audits env files b (Probing b' loc) \<longleftrightarrow>
     b' = b \<and> (\<exists>p rec. parse_of env files b = Inr p \<and> encrypted_record p = Some rec \<and>
       own_of env files b (file_id rec) = Some loc) \<and>
     loc \<in> located_files env files \<and> loc_source loc = b"

fun counted :: "audit_job \<Rightarrow> audit_event multiset" where
  "counted (Parsing b) = {#}"
| "counted _ = {#Enc#}"

fun phases_left :: "audit_job \<Rightarrow> nat" where
  "phases_left (Parsing b) = 2"
| "phases_left (Locating b f) = 1"
| "phases_left (Probing b loc) = 0"

definition audit_steps ::
  "(read_error \<Rightarrow> string) \<Rightarrow> env \<Rightarrow> (string \<Rightarrow> bytes) \<Rightarrow> audit_state \<Rightarrow> blob_id \<Rightarrow> audit_event multiset \<Rightarrow> nat \<Rightarrow>
    (audit_job, audit_state) progress \<Rightarrow> bool" where
  "audit_steps explain env files a b h bound r \<longleftrightarrow>
     progresses (\<lambda>a. store_inv env files (located_files env files) (au_store a))
       (\<lambda>a a'. store_frame (au_store a) (au_store a')) events (\<lambda>a. audits env files) counted
       (audited explain env files) phases_left a b h bound r"

definition auditable :: "env \<Rightarrow> (string \<Rightarrow> bytes) \<Rightarrow> bool" where
  "auditable env files \<longleftrightarrow> good_dump env files \<and> reliable env \<and> all_intact env files"

lemma audited_mono:
  assumes "store_frame (au_store a) (au_store a')" and "audited explain env files a b m"
  shows "audited explain env files a' b m"
proof -
  have "resolved_keys (au_store a') b = Some kr" if "resolved_keys (au_store a) b = Some kr" for kr
    using assms(1) that by (auto simp: store_frame_def map_le_def dom_def)
  with assms(2) show ?thesis unfolding audited_def by (fastforce split: option.splits)
qed

lemma audits_parsing:
  assumes "auditable env files" and "known env b" and inv: "store_inv env files (located_files env files) (au_store a)"
  shows "audit_steps explain env files a b {#} 3 (audit_work explain env (Parsing b) a)"
proof -
  note good = assms(1) [unfolded auditable_def] and parts = good_dump_parts
  obtain r st where run: "parsed env b (au_store a) = (r, st)" by fastforce
  have "sat (store_inv env files (located_files env files)) store_frame (parsed env b)
      (\<lambda>r s. \<exists>p. r = Inr p \<and> parse_of env files b = Inr p) (au_store a)"
    by (rule sat_weaken [OF store_lift_blob [OF sat_parsed [OF parts(1,2) assms(2)]]])
      (use good assms(2) in \<open>auto simp: yields_def all_intact_def split: sum.splits\<close>)
  from satD [OF this inv run] obtain p where p: "r = Inr p" "parse_of env files b = Inr p"
    and st: "store_inv env files (located_files env files) st" "store_frame (au_store a) st" by auto
  show ?thesis
  proof (cases "encrypted_record p")
    case None
    then have "audited explain env files a' b {#}" for a' using p by (simp add: audited_def)
    with None p st run show ?thesis by (auto simp: audit_steps_def progresses_def events_steps)
  next
    case (Some rec)
    with p st run show ?thesis by (auto simp: audit_steps_def progresses_def events_steps)
  qed
qed

lemma own_record:
  assumes "rec \<in> set rs"
  shows "\<exists>loc. own_map b dat rs (file_id rec) = Some loc \<and> loc_source loc = b"
proof -
  have "file_id rec \<in> dom (own_map b dat rs)"
    using assms
  proof (induction rs rule: rev_induct)
    case (snoc r rs)
    then show ?case by (auto simp: own_map_def)
  qed simp
  then obtain loc where "own_map b dat rs (file_id rec) = Some loc" by auto
  with own_map_Some [OF this] show ?thesis by (auto simp: file_loc_of_def)
qed

lemma audits_locating:
  assumes "auditable env files" and "known env b" and inv: "store_inv env files (located_files env files) (au_store a)"
    and on: "audits env files b (Locating b f)"
  shows "audit_steps explain env files a b {#Enc#} 2 (audit_work explain env (Locating b f) a)"
proof -
  note good = assms(1) [unfolded auditable_def] and parts = good_dump_parts
  from on obtain p rec where p: "parse_of env files b = Inr p" "encrypted_record p = Some rec" "f = file_id rec" by auto
  have "rec \<in> set (pb_records p)" using p(2) by (auto simp: encrypted_record_def find_Some_iff)
  from own_record [OF this] p obtain own where own: "own_of env files b f = Some own" "loc_source own = b"
    by (auto simp: own_of_def)
  obtain r st where run: "locate env b f (au_store a) = (r, st)" by fastforce
  from satD [OF store_lift_table [OF sat_locate [OF parts(1-3) assms(2)]] inv run] good
  obtain bs where r: "r = ok_or (Error (MissingRecord f)) (newest env files bs f)" and bs: "ancestry env files b bs"
    and st: "store_inv env files (located_files env files) st" "store_frame (au_store a) st"
    by (auto simp: located_def)
  obtain cs where "bs = b # cs" using bs by (cases bs) (auto simp: ancestry_def)
  with own have new: "newest env files bs f = Some own" by simp
  then have "own \<in> located_files env files" using bs assms(2) by (auto simp: located_files_def)
  with r new own st run p show ?thesis by (auto simp: audit_steps_def progresses_def events_steps ok_or_def)
qed

lemma audits_probing:
  assumes "auditable env files" and inv: "store_inv env files (located_files env files) (au_store a)"
    and on: "audits env files b (Probing b loc)"
  shows "audit_steps explain env files a b {#Enc#} 1 (audit_work explain env (Probing b loc) a)"
proof -
  note good = assms(1) [unfolded auditable_def]
  from on obtain p rec where p: "parse_of env files b = Inr p" "encrypted_record p = Some rec"
      "own_of env files b (file_id rec) = Some loc"
    and loc: "loc \<in> located_files env files" "loc_source loc = b" by auto
  obtain r st where run: "probe_key env loc (au_store a) = (r, st)" by fastforce
  from satD [OF sat_probe_key [OF _ _ _ loc(1)] inv run] good have
    st: "store_inv env files (located_files env files) st" "store_frame (au_store a) st"
    and r: "probe_ends env files loc r st" by auto
  show ?thesis
  proof (cases "probes env files loc")
    case True
    with r loc(2) obtain kr where kr: "r = Inr kr" "resolved_keys st b = Some kr" by (auto simp: probe_ends_def)
    then have "audited explain env files a' b (add_mset Enc (key_events env b kr))" if "au_store a' = st" for a'
      using p that True by (auto simp: audited_def first_readable_def)
    with kr st run show ?thesis by (auto simp: audit_steps_def progresses_def events_steps intro!: exI)
  next
    case False
    with r obtain e where e: "r = Inl (Error e)" by (auto simp: probe_ends_def)
    have "audited explain env files a' b (add_mset Enc (unread_events explain env b e))" for a'
      using p False by (auto simp: audited_def first_readable_def)
    with e st run show ?thesis by (auto simp: audit_steps_def progresses_def events_steps intro!: exI)
  qed
qed

lemma audit_blobs_known:
  assumes "closed_index (env_index env)" and "b \<in> set (audit_blobs env depot)"
  shows "known env b"
proof -
  from assms(2) obtain d dep where dep: "(d, dep) \<in> set (depots (env_index env))" "b \<in> set (depot_blobs dep)"
    by (auto simp: audit_blobs_def)
  have "ascending_keys (depots (env_index env))"
    using closed_index_parts(1) [OF assms(1)] by (simp add: index_inv_def)
  then have "distinct (map fst (depots (env_index env)))" by (simp add: ascending_keys_def strict_sorted_iff)
  with dep(1) have "index_depot (env_index env) d = Some dep" by (simp add: index_depot_def map_of_is_SomeI)
  from depot_blob_known(1) [OF assms(1) this dep(2)] show ?thesis .
qed

interpretation audit_pool: worker_pool "audit_blobs env depot" audit_start "audit_work explain env"
  "\<lambda>a. store_inv env files (located_files env files) (au_store a)" "\<lambda>a a'. store_frame (au_store a) (au_store a')"
  events "\<lambda>a. audits env files" counted "audited explain env files" phases_left "\<lambda>b. 4"
  "auditable env files" for explain env files depot
proof (unfold_locales, goal_cases)
  case (1 s)
  show ?case by (rule store_runs.G_refl)
next
  case (2 s u w)
  then show ?case by (rule store_runs.G_trans)
next
  case (4 s s' i m)
  then show ?case by (rule audited_mono)
next
  case (5 a b)
  then show ?case by (simp add: progresses_def audit_start_def store_runs.G_refl)
next
  case (6 a b j)
  have "known env b"
    using audit_blobs_known 6(1,3) good_dump_parts(2) unfolding auditable_def by blast
  with 6 audits_parsing [of env files b a explain] audits_locating [of env files b a _ explain]
    audits_probing [of env files a b _ explain]
  show ?case by (cases j) (auto simp: audit_steps_def numeral_2_eq_2 numeral_3_eq_3 simp del: audit_work.simps)
qed simp_all

section \<open>The whole command\<close>

definition audit_input :: "env \<Rightarrow> (string \<Rightarrow> bytes) \<Rightarrow> u32 option \<Rightarrow> nat \<Rightarrow> store \<Rightarrow> bool" where
  "audit_input env files depot jobs s \<longleftrightarrow>
     good_dump env files \<and> reliable env \<and> all_intact env files \<and>
     length (audit_blobs env depot) + max jobs 1 < 18446744073709551616 \<and>
     store_inv env files (located_files env files) s"

lemma audit_result:
  assumes "audit_input env files depot jobs s" and "key_audit explain env depot opened torn jobs sched s = Returned res"
  obtains a ms where "res = audit_end opened torn a" and "store_inv env files (located_files env files) (au_store a)"
    and "store_frame s (au_store a)" and "list_all2 (audited explain env files a) (audit_blobs env depot) ms"
    and "events a = sum_list ms"
proof -
  from assms(2) obtain a where a: "scope (audit_blobs env depot) audit_start (audit_work explain env) jobs sched (audit_new s) = Returned a"
      "res = audit_end opened torn a"
    by (cases "scope (audit_blobs env depot) audit_start (audit_work explain env) jobs sched (audit_new s)")
      (simp_all add: key_audit_def)
  have "auditable env files" "store_inv env files (located_files env files) (au_store (audit_new s))"
    "length (audit_blobs env depot) + max jobs 1 < 18446744073709551616"
    using assms(1) by (simp_all add: audit_input_def auditable_def audit_new_def)
  from audit_pool.ended_scope [OF this a(1)] obtain ms where
    "store_inv env files (located_files env files) (au_store a)" "store_frame (au_store (audit_new s)) (au_store a)"
    "list_all2 (audited explain env files a) (audit_blobs env depot) ms" "events a = events (audit_new s) + sum_list ms"
    by blast
  moreover have "events (audit_new s) = {#}" "au_store (audit_new s) = s" by (simp_all add: audit_new_def events_def)
  ultimately show ?thesis using that [OF a(2)] by simp
qed

lemma audit_ends:
  assumes "audit_input env files depot jobs s"
  shows "\<exists>N. \<forall>sched. (\<forall>w < max jobs 1. N \<le> count_list sched w) \<longrightarrow>
    (\<exists>r. key_audit explain env depot opened torn jobs sched s = Returned r)"
proof -
  have "auditable env files" "store_inv env files (located_files env files) (au_store (audit_new s))"
    "length (audit_blobs env depot) + max jobs 1 < 18446744073709551616"
    using assms by (simp_all add: audit_input_def auditable_def audit_new_def)
  note ends = audit_pool.scope_ends [OF this]
  have "\<exists>r. key_audit explain env depot opened torn jobs sched s = Returned r"
    if often: "\<forall>w < max jobs 1. audit_pool.enough env depot jobs \<le> count_list sched w" for sched
  proof -
    from ends [of sched] often obtain a where
      "scope (audit_blobs env depot) audit_start (audit_work explain env) jobs sched (audit_new s) = Returned a" by blast
    then have "key_audit explain env depot opened torn jobs sched s = Returned (audit_end opened torn a)"
      by (simp add: key_audit_def)
    then show ?thesis by blast
  qed
  then show ?thesis by blast
qed

end
