(* ===== verification/Audit_Properties.thy ===== *)
theory Audit_Properties
  imports Audit_Reports Verify_Properties
begin

text \<open>
  What \<open>key_audit\<close> promises: its counts add up, and the keys it writes are the keys a later run loads.
\<close>

section \<open>Counts\<close>

definition has_encrypted :: "env \<Rightarrow> (string \<Rightarrow> bytes) \<Rightarrow> blob_id \<Rightarrow> bool" where
  "has_encrypted env files b \<longleftrightarrow>
     (case parse_of env files b of Inr p \<Rightarrow> encrypted_record p \<noteq> None | Inl _ \<Rightarrow> False)"

definition unread_sample :: "env \<Rightarrow> (string \<Rightarrow> bytes) \<Rightarrow> blob_id \<Rightarrow> bool" where
  "unread_sample env files b \<longleftrightarrow>
     (case parse_of env files b of
        Inr p \<Rightarrow> (case encrypted_record p of Some rec \<Rightarrow> \<not> first_readable env files b rec | None \<Rightarrow> False)
      | Inl _ \<Rightarrow> False)"

fun is_line :: "audit_event \<Rightarrow> bool" where
  "is_line (Line l) = True"
| "is_line _ = False"

definition lines_in :: "audit_event multiset \<Rightarrow> nat" where
  "lines_in m = size (filter_mset is_line m)"

lemma count_sum_list: "count (sum_list ms) x = sum_list (map (\<lambda>m. count m x) ms)"
  by (induction ms) simp_all

lemma lines_in_sum_list: "lines_in (sum_list ms) = sum_list (map lines_in ms)"
  by (induction ms) (simp_all add: lines_in_def)

lemma events_counts:
  "count (events a) Enc = encrypted_blobs a" "count (events a) Okay = ok_blobs a" "count (events a) Disc = discovered_blobs a"
  "count (events a) Unread = unreadable_blobs a" "count (events a) Nokey = no_key_blobs a"
  "lines_in (events a) = length (au_report a)"
proof -
  have none: "count (image_mset Line M) x = 0" "count (image_mset Found N) x = 0" if "\<forall>l. x \<noteq> Line l \<and> x \<noteq> Found l" for M N x
    using that by (auto simp: count_eq_zero_iff)
  show "count (events a) Enc = encrypted_blobs a" "count (events a) Okay = ok_blobs a" "count (events a) Disc = discovered_blobs a"
    "count (events a) Unread = unreadable_blobs a" "count (events a) Nokey = no_key_blobs a"
    by (simp_all add: events_def none)
  show "lines_in (events a) = length (au_report a)"
    by (simp add: lines_in_def events_def filter_mset_image_mset comp_def)
qed

lemma audited_counts:
  assumes "audited explain env files a b m"
  shows "count m Enc = (if has_encrypted env files b then 1 else 0)"
    and "count m Unread = (if unread_sample env files b then 1 else 0)"
    and "count m Enc = count m Okay + count m Disc + count m Nokey + count m Unread"
    and "lines_in m = count m Disc + count m Nokey + count m Unread"
proof -
  have k: "count (key_events env b kr) Enc = 0" "lines_in (key_events env b kr) = count (key_events env b kr) Disc + count (key_events env b kr) Nokey"
    "count (key_events env b kr) Unread = 0"
    "count (key_events env b kr) Okay + count (key_events env b kr) Disc + count (key_events env b kr) Nokey = 1" for kr
    by (cases kr; simp add: lines_in_def)+
  have u: "count (unread_events explain env b e) x = (if x = Unread then 1 else 0)" if "\<not> is_line x" for e x
    using that by (auto simp: unread_events_def)
  have l: "lines_in (unread_events explain env b e) = 1" for e by (simp add: unread_events_def lines_in_def)
  show "count m Enc = (if has_encrypted env files b then 1 else 0)"
    "count m Unread = (if unread_sample env files b then 1 else 0)"
    "count m Enc = count m Okay + count m Disc + count m Nokey + count m Unread"
    "lines_in m = count m Disc + count m Nokey + count m Unread"
    using assms k u l by (auto simp: audited_def has_encrypted_def unread_sample_def lines_in_def split: option.splits if_splits)
qed

text \<open>
  The counts of \<open>key_audit\<close> add up.  However the workers are scheduled, when the command succeeds it has
  counted exactly the audited blobs that have a file with encrypted blocks, each of them once as
  decrypted by its configured key, by another key, by none, or as unreadable, which are those whose
  sample block cannot be fetched whole, and it has printed one line for each that is not decrypted by its configured key.
\<close>

theorem audit_counts:
  assumes "audit_input env files depot jobs s"
    and "key_audit explain env depot opened torn jobs sched s = Returned (Inr (), out, text, s')"
  shows "\<exists>e okay d n u. as_counts out = Some (e, okay, d, n, u) \<and>
    e = length (filter (has_encrypted env files) (audit_blobs env depot)) \<and>
    u = length (filter (unread_sample env files) (audit_blobs env depot)) \<and> e = okay + d + n + u \<and>
    length (as_lines out) = d + n + u"
proof -
  obtain a ms where a: "(Inr (), out, text, s') = audit_end opened torn a" "events a = sum_list ms"
    and ms: "list_all2 (audited explain env files a) (audit_blobs env depot) ms"
    by (rule audit_result [OF assms])
  from a(1) have out: "as_counts out = Some (encrypted_blobs a, ok_blobs a, discovered_blobs a, no_key_blobs a, unreadable_blobs a)"
    "length (as_lines out) = length (au_report a)"
    by (auto simp: audit_end_def Let_def split: if_splits sum.splits prod.splits bool.splits)
  from ms have "encrypted_blobs a = length (filter (has_encrypted env files) (audit_blobs env depot)) \<and>
      unreadable_blobs a = length (filter (unread_sample env files) (audit_blobs env depot)) \<and>
      encrypted_blobs a = ok_blobs a + discovered_blobs a + no_key_blobs a + unreadable_blobs a \<and>
      length (au_report a) = discovered_blobs a + no_key_blobs a + unreadable_blobs a"
    unfolding events_counts [of a, symmetric] a(2) count_sum_list lines_in_sum_list
  proof (induction rule: list_all2_induct)
    case (Cons b bs m ms)
    with audited_counts [OF Cons.hyps(1)] show ?case by auto
  qed simp
  with out show ?thesis by auto
qed

section \<open>Keys\<close>

text \<open>The texts found are those of audited blobs whose remembered key is another depot's.\<close>

definition found_for :: "env \<Rightarrow> (string \<Rightarrow> bytes) \<Rightarrow> store \<Rightarrow> blob_id \<Rightarrow> string \<Rightarrow> bool" where
  "found_for env files s b t \<longleftrightarrow>
     has_encrypted env files b \<and> (\<exists>k from. resolved_keys s b = Some (Discovered k from) \<and> t = found_text env b k from)"

fun finds :: "audit_event \<Rightarrow> string option" where
  "finds (Found t) = Some t"
| "finds _ = None"

definition texts_in :: "audit_event multiset \<Rightarrow> string multiset" where
  "texts_in m = image_mset (the \<circ> finds) (filter_mset (\<lambda>x. finds x \<noteq> None) m)"

lemma texts_in_add: "texts_in (m + n) = texts_in m + texts_in n" "texts_in {#} = {#}"
  by (simp_all add: texts_in_def)

lemma texts_in_events: "texts_in (events a) = mset (au_found a)"
proof -
  have r: "filter_mset P (replicate_mset n x) = (if P x then replicate_mset n x else {#})" for P n and x :: audit_event
    by (induction n) auto
  show ?thesis by (simp add: texts_in_def events_def filter_mset_image_mset comp_def r multiset.map_comp)
qed

lemma audited_texts:
  assumes "audited explain env files a b m"
  shows "texts_in m = {#} \<or> (\<exists>t. texts_in m = {#t#} \<and> found_for env files (au_store a) b t)"
proof -
  have "texts_in (key_events env b kr) = {#} \<or> (\<exists>k from. kr = Discovered k from \<and> texts_in (key_events env b kr) = {#found_text env b k from#})" for kr
    by (cases kr) (simp_all add: texts_in_def)
  moreover have "texts_in (unread_events explain env b e) = {#}" for e by (simp add: texts_in_def unread_events_def)
  moreover have "texts_in (add_mset Enc x) = texts_in x" for x by (simp add: texts_in_def)
  ultimately show ?thesis
    using assms by (fastforce simp: audited_def found_for_def has_encrypted_def texts_in_add split: option.splits if_splits)
qed

lemma found_blobs:
  assumes "list_all2 (audited explain env files a) bs ms" and "events a = sum_list ms"
  shows "\<exists>cs. mset cs \<subseteq># mset bs \<and> list_all2 (found_for env files (au_store a)) cs (au_found a)"
proof -
  have "\<exists>D. image_mset fst D \<subseteq># mset bs \<and> image_mset snd D = texts_in (sum_list ms) \<and>
      (\<forall>(b, t) \<in># D. found_for env files (au_store a) b t)"
    using assms(1)
  proof (induction rule: list_all2_induct)
    case Nil
    show ?case by (intro exI [of _ "{#}"]) (simp add: texts_in_add)
  next
    case (Cons b bs m ms)
    then obtain D where D: "image_mset fst D \<subseteq># mset bs" "image_mset snd D = texts_in (sum_list ms)"
      "\<forall>(b, t) \<in># D. found_for env files (au_store a) b t" by blast
    from audited_texts [OF Cons.hyps(1)] show ?case
    proof (elim disjE exE conjE)
      assume "texts_in m = {#}"
      with D show ?case
        by (intro exI [of _ D]) (simp add: texts_in_add subset_mset.order_trans [OF D(1)])
    next
      fix t assume "texts_in m = {#t#}" "found_for env files (au_store a) b t"
      with D show ?case by (intro exI [of _ "add_mset (b, t) D"]) (simp add: texts_in_add)
    qed
  qed
  then obtain D where D: "image_mset fst D \<subseteq># mset bs" "image_mset snd D = mset (au_found a)"
    "\<forall>(b, t) \<in># D. found_for env files (au_store a) b t"
    by (auto simp: assms(2) [symmetric] texts_in_events)
  from listed_in_order [OF D(2)] obtain ys where ys: "mset ys = D" "map snd ys = au_found a" by blast
  have "list_all2 (found_for env files (au_store a)) (map fst ys) (map snd ys)"
    using D(3) by (fastforce simp: list_all2_map1 list_all2_map2 list_all2_same simp flip: ys(1))
  with D(1) ys show ?thesis by (intro exI [of _ "map fst ys"]) auto
qed

text \<open>A text of complete lines, and what is appended to it.\<close>

lemma complete_lines:
  assumes "s = [] \<or> last s = c"
  shows "\<exists>ls. s = concat (map (\<lambda>l. l @ [c]) ls) \<and> (\<forall>l \<in> set ls. c \<notin> set l)"
  using assms
proof (induction "length s" arbitrary: s rule: less_induct)
  case less
  show ?case
  proof (cases "s = []")
    case False
    with less.prems have "c \<in> set s" using last_in_set by metis
    then obtain l r where s: "s = l @ c # r" "c \<notin> set l" by (meson split_list_first)
    then have "r = [] \<or> last r = c" using less.prems by (auto split: if_splits)
    from less.hyps [OF _ this] s obtain ls where "r = concat (map (\<lambda>l. l @ [c]) ls)" "\<forall>l \<in> set ls. c \<notin> set l" by auto
    with s show ?thesis by (intro exI [of _ "l # ls"]) simp
  qed (intro exI [of _ "[]"], simp)
qed

abbreviation newline :: char where
  "newline \<equiv> char_of (10 :: nat)"

lemma lines_appended:
  assumes "s = [] \<or> last s = newline" and "\<forall>l \<in> set ls. newline \<notin> set l"
  shows "lines (s @ concat (map (\<lambda>l. l @ [newline]) ls)) = lines s @ map strip_cr ls"
proof -
  from complete_lines [OF assms(1)] obtain os where os: "s = concat (map (\<lambda>l. l @ [newline]) os)"
    "\<forall>l \<in> set os. newline \<notin> set l" by blast
  then have "s @ concat (map (\<lambda>l. l @ [newline]) ls) = concat (map (\<lambda>l. l @ [newline]) (os @ ls))" by simp
  then show ?thesis using lines_text [of "os @ ls"] lines_text [of os] os assms(2) by auto
qed

lemma load_lines_append:
  "load_lines hexd xs ks = (None, ks') \<Longrightarrow> load_lines hexd (xs @ ys) ks = load_lines hexd ys ks'"
  by (induction hexd xs ks rule: load_lines.induct) (auto simp: Let_def split: if_splits sum.splits)

lemma append_lines_whole:
  "append_lines torn n ls text = (True, text') \<Longrightarrow> text' = text @ concat (map (\<lambda>l. l @ [newline]) ls)"
  by (induction torn n ls "text" rule: append_lines.induct) (auto split: option.splits)

text \<open>The two lines of a key found, and what loading them does.\<close>

definition comment_line :: "env \<Rightarrow> blob_id \<Rightarrow> u32 \<Rightarrow> string" where
  "comment_line env b from =
     ''# '' @ file_name (index_blob (env_index env) b) @ '' (key of depot '' @ show_dec (unat from) @ '')''"

definition target :: "env \<Rightarrow> blob_id \<Rightarrow> u32 \<times> u32" where
  "target env b = (bf_depot (index_blob (env_index env) b), bf_crc (index_blob (env_index env) b))"

lemma found_lines:
  "found_text env b k from @ [newline] = concat (map (\<lambda>l. l @ [newline]) [comment_line env b from, key_line env b k])"
  by (simp add: found_text_def comment_line_def)

lemma comment_skipped: "load_lines hexd (strip_cr (comment_line env b from) # ls) ks = load_lines hexd ls ks"
proof -
  let ?l = "comment_line env b from"
  have l: "?l \<noteq> []" "hd ?l = CHR ''#''" "last ?l = CHR '')''" by (simp_all add: comment_line_def)
  then have "trim ?l = ?l" by (intro trim_id) (simp add: graphic_def)
  moreover have "graphic CHR '')''" "\<not> graphic (char_of (13 :: nat))" by (simp_all add: graphic_def)
  then have "CHR '')'' \<noteq> char_of (13 :: nat)" by metis
  then have "strip_cr ?l = ?l" using l by (simp add: strip_cr_def)
  ultimately show ?thesis using l by simp
qed

lemma key_line_chars:
  assumes "\<forall>k. env_hex env k = hex_bytes k"
  shows "\<forall>c \<in> set (key_line env b k). graphic c" and "key_line env b k = blob_spec (fst (target env b)) (snd (target env b)) k"
proof -
  show "key_line env b k = blob_spec (fst (target env b)) (snd (target env b)) k"
    by (simp add: key_line_def blob_spec_def target_def assms Let_def)
  have "graphic CHR ''@''" "graphic CHR ''=''" by (simp_all add: graphic_def)
  moreover have "\<forall>c \<in> set (show_dec n) \<union> set (hex8 w) \<union> set (hex_bytes k). graphic c" for n w
    using dec_in_hex [of n] hex8_chars [of w] hex_bytes_chars [of k] hex_graphic by blast
  ultimately show "\<forall>c \<in> set (key_line env b k). graphic c"
    unfolding key_line_def Let_def by (auto simp: assms)
qed

lemma key_line_loads:
  assumes "\<forall>k. env_hex env k = hex_bytes k" and "hex_decodes hexd" and "length k = 16"
  shows "load_lines hexd (strip_cr (key_line env b k) # ls) ks =
    load_lines hexd ls (insert_for_blob (fst (target env b)) (snd (target env b)) k ks)"
proof -
  let ?l = "key_line env b k"
  note chars = key_line_chars [OF assms(1)]
  obtain c cs where c: "show_dec (unat (bf_depot (index_blob (env_index env) b))) = c # cs"
    by (cases "show_dec (unat (bf_depot (index_blob (env_index env) b)))") simp_all
  then have "c \<in> set ''0123456789abcdef''" using dec_in_hex [of "unat (bf_depot (index_blob (env_index env) b))"] by simp
  then have "c \<noteq> CHR ''#''" by auto
  with c have l: "?l \<noteq> []" "hd ?l \<noteq> CHR ''#''" by (simp_all add: key_line_def Let_def)
  have "\<not> graphic (char_of (13 :: nat))" by (simp add: graphic_def)
  then have "strip_cr ?l = ?l"
    using chars(1) [of b k] last_in_set [OF l(1)] by (metis strip_cr_def)
  moreover have "trim ?l = ?l" by (rule trim_graphic [OF chars(1)])
  ultimately show ?thesis using l insert_spec_blob [OF assms(2,3)] chars(2) [of b k] by simp
qed


lemma found_text_loads:
  assumes "\<forall>k. env_hex env k = hex_bytes k" and "hex_decodes hexd" and "length k = 16"
    and "newline \<notin> set (file_name (index_blob (env_index env) b))"
  shows "\<forall>l \<in> set [comment_line env b from, key_line env b k]. newline \<notin> set l"
    and "load_lines hexd (map strip_cr [comment_line env b from, key_line env b k] @ ls) ks =
      load_lines hexd ls (insert_for_blob (fst (target env b)) (snd (target env b)) k ks)"
proof -
  have no: "\<not> graphic newline" "newline \<noteq> CHR ''#''" "newline \<noteq> CHR '' ''" by (simp_all add: graphic_def char_of_def bit_simps)
  have "graphic c" if "c \<in> set (show_dec n)" for c n using that dec_in_hex [of n] hex_graphic by blast
  then have "newline \<notin> set (show_dec n)" for n using no by blast
  moreover have "newline \<notin> set '' (key of depot ''" "newline \<notin> set ''# ''" "newline \<notin> set '')''"
    by (simp_all add: char_of_def bit_simps)
  ultimately have "newline \<notin> set (comment_line env b from)" using assms(4) by (simp add: comment_line_def)
  then show "\<forall>l \<in> set [comment_line env b from, key_line env b k]. newline \<notin> set l"
    using key_line_chars(1) [OF assms(1)] no(1) by auto
  show "load_lines hexd (map strip_cr [comment_line env b from, key_line env b k] @ ls) ks =
      load_lines hexd ls (insert_for_blob (fst (target env b)) (snd (target env b)) k ks)"
    using comment_skipped key_line_loads [OF assms(1-3)] by (simp del: load_lines.simps)
qed

text \<open>The keys found, as they are inserted one after the other.\<close>

definition inserted :: "env \<Rightarrow> (blob_id \<times> key) list \<Rightarrow> key_store \<Rightarrow> key_store" where
  "inserted env ps ks = fold (\<lambda>(b, k). insert_for_blob (fst (target env b)) (snd (target env b)) k) ps ks"

lemma inserted_simps [simp]:
  "inserted env [] ks = ks"
  "inserted env ((b, k) # ps) ks = inserted env ps (insert_for_blob (fst (target env b)) (snd (target env b)) k ks)"
  by (simp_all add: inserted_def)

lemma inserted_keeps:
  assumes "get_for_blob ks (fst (target env b)) (snd (target env b)) = Some k"
    and "\<forall>(b', k') \<in> set ps. target env b' = target env b \<longrightarrow> k' = k"
  shows "get_for_blob (inserted env ps ks) (fst (target env b)) (snd (target env b)) = Some k"
  using assms
proof (induction ps arbitrary: ks)
  case (Cons p ps)
  obtain b' k' where p: "p = (b', k')" by fastforce
  have "get_for_blob (insert_for_blob (fst (target env b')) (snd (target env b')) k' ks) (fst (target env b)) (snd (target env b)) = Some k"
    using Cons.prems by (auto simp: p get_for_blob_def insert_for_blob_def key_get_def split: option.splits)
  from Cons.IH [OF this] Cons.prems(2) show ?case by (simp add: p)
qed simp

lemma inserted_gets:
  assumes "(b, k) \<in> set ps" and "\<forall>(b', k') \<in> set ps. target env b' = target env b \<longrightarrow> k' = k"
  shows "get_for_blob (inserted env ps ks) (fst (target env b)) (snd (target env b)) = Some k"
  using assms
proof (induction ps arbitrary: ks)
  case (Cons p ps)
  show ?case
  proof (cases "(b, k) \<in> set ps")
    case True
    with Cons show ?thesis by (cases p) simp
  next
    case False
    have "get_for_blob (insert_for_blob (fst (target env b)) (snd (target env b)) k ks) (fst (target env b)) (snd (target env b)) = Some k"
      by (simp add: get_for_blob_def insert_for_blob_def)
    from inserted_keeps [OF this, of ps] False Cons.prems show ?thesis by auto
  qed
qed simp

lemma found_lines_load:
  assumes hex: "\<forall>k. env_hex env k = hex_bytes k" "hex_decodes hexd"
    and "list_all2 (found_for env files s) cs found"
    and "\<forall>b \<in> set cs. \<forall>k from. has_encrypted env files b \<and> resolved_keys s b = Some (Discovered k from) \<longrightarrow> length k = 16"
    and "\<forall>b \<in> set cs. newline \<notin> set (file_name (index_blob (env_index env) b))"
  shows "\<exists>ls ps. concat (map (\<lambda>l. l @ [newline]) found) = concat (map (\<lambda>l. l @ [newline]) ls) \<and>
    (\<forall>l \<in> set ls. newline \<notin> set l) \<and> (\<forall>ks. load_lines hexd (map strip_cr ls) ks = (None, inserted env ps ks)) \<and>
    map fst ps = cs \<and> (\<forall>(b, k) \<in> set ps. \<exists>from. resolved_keys s b = Some (Discovered k from))"
  using assms(3-5)
proof (induction rule: list_all2_induct)
  case Nil
  show ?case by (intro exI [of _ "[]"]) simp
next
  case (Cons b cs t found)
  from Cons.hyps(1) obtain k d where k: "has_encrypted env files b" "resolved_keys s b = Some (Discovered k d)" "t = found_text env b k d"
    by (auto simp: found_for_def)
  then have len: "length k = 16" using Cons.prems(1) by (metis list.set_intros(1))
  have nl: "newline \<notin> set (file_name (index_blob (env_index env) b))" using Cons.prems by simp
  note two = found_text_loads [OF hex len nl]
  from Cons obtain ls ps where ls: "concat (map (\<lambda>l. l @ [newline]) found) = concat (map (\<lambda>l. l @ [newline]) ls)"
    "\<forall>l \<in> set ls. newline \<notin> set l" "\<And>ks. load_lines hexd (map strip_cr ls) ks = (None, inserted env ps ks)"
    "map fst ps = cs" "\<forall>(b, k) \<in> set ps. \<exists>from. resolved_keys s b = Some (Discovered k from)" by auto
  let ?ls = "[comment_line env b d, key_line env b k] @ ls"
  have "concat (map (\<lambda>l. l @ [newline]) (t # found)) = concat (map (\<lambda>l. l @ [newline]) ?ls)"
    using found_lines [of env b k d] ls(1) k(3) by simp
  moreover have "\<forall>l \<in> set ?ls. newline \<notin> set l" using two(1) [of d] ls(2) by auto
  moreover have "load_lines hexd (map strip_cr ?ls) ks = (None, inserted env ((b, k) # ps) ks)" for ks
    using two(2) [of d "map strip_cr ls" ks] ls(3) by simp
  ultimately show ?case using ls(4,5) k(2) by (intro exI [of _ ?ls] exI [of _ "(b, k) # ps"]) simp
qed

text \<open>
  C19: the keys that \<open>key_audit\<close> writes can be loaded.  Whenever the command succeeds and has written to
  the file, which held a text of complete lines that loads, then the text it leaves loads too, and it
  gives as many blobs as the command says it wrote, all of them audited, the key of the other depot
  that decrypts them.
\<close>

theorem audit_keys_load:
  assumes "audit_input env files depot jobs s"
    and "\<forall>k. env_hex env k = hex_bytes k" and "hex_decodes hexd"
    and "old = [] \<or> last old = newline" and "load_file hexd (Inr old) ks = (None, ks1)"
    and "\<forall>b \<in> set (audit_blobs env depot). newline \<notin> set (file_name (index_blob (env_index env) b))"
    and "inj_on (target env) (set (audit_blobs env depot))"
    and "key_audit explain env depot (Inr old) torn jobs sched s = Returned (Inr (), out, Some t, s')"
    and "\<forall>b \<in> set (audit_blobs env depot). \<forall>k from. has_encrypted env files b \<and> resolved_keys s' b = Some (Discovered k from) \<longrightarrow> length k = 16"
  shows "\<exists>cs ks2. mset cs \<subseteq># mset (audit_blobs env depot) \<and> as_written out = Some (length cs) \<and>
    load_file hexd (Inr t) ks = (None, ks2) \<and>
    (\<forall>b \<in> set cs. \<exists>k from. resolved_keys s' b = Some (Discovered k from) \<and>
       get_for_blob ks2 (bf_depot (index_blob (env_index env) b)) (bf_crc (index_blob (env_index env) b)) = Some k)"
proof -
  obtain a ms where a: "(Inr (), out, Some t, s') = audit_end (Inr old) torn a" "events a = sum_list ms"
    and ms: "list_all2 (audited explain env files a) (audit_blobs env depot) ms"
    by (rule audit_result [OF assms(1,8)])
  from a(1) have s': "s' = au_store a" and out: "as_written out = Some (length (au_found a))"
    and t: "append_lines torn 0 (au_found a) old = (True, t)"
    by (auto simp: audit_end_def Let_def split: if_splits sum.splits prod.splits bool.splits)
  from found_blobs [OF ms a(2)] obtain cs where cs: "mset cs \<subseteq># mset (audit_blobs env depot)"
    "list_all2 (found_for env files s') cs (au_found a)" by (auto simp: s')
  then have sub: "set cs \<subseteq> set (audit_blobs env depot)" using set_mset_mono by fastforce
  from found_lines_load [OF assms(2,3) cs(2)] sub assms(6,9) obtain ls ps where
    ls: "concat (map (\<lambda>l. l @ [newline]) (au_found a)) = concat (map (\<lambda>l. l @ [newline]) ls)"
      "\<forall>l \<in> set ls. newline \<notin> set l" "\<And>ks. load_lines hexd (map strip_cr ls) ks = (None, inserted env ps ks)"
    and ps: "map fst ps = cs" "\<forall>(b, k) \<in> set ps. \<exists>from. resolved_keys s' b = Some (Discovered k from)"
    by blast
  have "lines t = lines old @ map strip_cr ls"
    using append_lines_whole [OF t] lines_appended [OF assms(4) ls(2)] ls(1) by simp
  then have load: "load_file hexd (Inr t) ks = (None, inserted env ps ks1)"
    using load_lines_append assms(5) ls(3) by (simp add: load_file_def)
  have "get_for_blob (inserted env ps ks1) (fst (target env b)) (snd (target env b)) = Some k" if bk: "(b, k) \<in> set ps" for b k
  proof (rule inserted_gets [OF bk], clarify)
    fix b' k' assume b': "(b', k') \<in> set ps" "target env b' = target env b"
    then have "b' \<in> set cs" "b \<in> set cs" using ps(1) bk by force+
    then have "b' = b" using assms(7) b'(2) sub by (auto dest: inj_onD)
    moreover from ps(2) bk b'(1) obtain d d' where
      "resolved_keys s' b = Some (Discovered k d)" "resolved_keys s' b' = Some (Discovered k' d')" by blast
    ultimately show "k' = k" by simp
  qed
  then have "\<exists>k from. resolved_keys s' b = Some (Discovered k from) \<and>
       get_for_blob (inserted env ps ks1) (fst (target env b)) (snd (target env b)) = Some k" if "b \<in> set cs" for b
    using that ps by fastforce
  with cs load out list_all2_lengthD [OF cs(2)] show ?thesis
    by (intro exI [of _ cs] exI [of _ "inserted env ps ks1"]) (auto simp: target_def)
qed

section \<open>The small dump\<close>

lemma append_lines_untorn:
  "append_lines (\<lambda>_. None) n ls t = (True, t @ concat (map (\<lambda>l. l @ [newline]) ls))"
  by (induction ls arbitrary: n t) simp_all

lemma audit_succeeds:
  assumes "audit_input env files depot 2 s"
  shows "\<exists>sched out t s'. key_audit explain env depot (Inr old) (\<lambda>_. None) 2 sched s = Returned (Inr (), out, t, s')"
proof -
  from audit_ends [OF assms] obtain N where
    "\<And>sched. (\<forall>w < max 2 (1 :: nat). N \<le> count_list sched w) \<Longrightarrow>
      \<exists>r. key_audit explain env depot (Inr old) (\<lambda>_. None) 2 sched s = Returned r" by blast
  from this [OF taking_turns] obtain sched r where
    run: "key_audit explain env depot (Inr old) (\<lambda>_. None) 2 sched s = Returned r" by blast
  obtain a where r: "r = audit_end (Inr old) (\<lambda>_. None) a" by (rule audit_result [OF assms run])
  have "\<exists>out t s'. r = (Inr (), out, t, s')"
    unfolding r audit_end_def Let_def by (cases "au_found a = []") (simp_all add: append_lines_untorn)
  with run show ?thesis by blast
qed

lemma dump_audit_blobs: "distinct (audit_blobs dump_env None)" "set (audit_blobs dump_env None) = {0, 1}"
proof -
  note ix = closed_index_parts [OF dump_closed]
  from dump_depot obtain dep where dep: "index_depot dump_index 7 = Some dep" by auto
  have "ascending_keys (depots dump_index)" using ix(1) by (simp add: index_inv_def)
  then have "distinct (map fst (depots dump_index))" by (simp add: ascending_keys_def strict_sorted_iff)
  moreover have "fst p = 7" if "p \<in> set (depots dump_index)" for p
    using dump_depot_only [of "fst p"] weak_map_of_SomeI [of "fst p" "snd p"] that by (auto simp: index_depot_def)
  moreover have "(7, dep) \<in> set (depots dump_index)" using dep by (auto simp: index_depot_def dest: map_of_SomeD)
  ultimately have "depots dump_index = [(7, dep)]"
    by (cases "depots dump_index"; cases "tl (depots dump_index)") auto
  then have "audit_blobs dump_env None = depot_blobs dep" by (simp add: audit_blobs_def)
  moreover note loaded_depot [OF ix(1,2) dep]
  moreover have "{b. unat b < length (blobs dump_index) \<and> bf_depot (index_blob dump_index b) = 7} = {0, 1}"
    using dump_known by (auto simp: known_def dump_entries dump_blob_def)
  ultimately show "distinct (audit_blobs dump_env None)" "set (audit_blobs dump_env None) = {0, 1}" by simp_all
qed

lemma dump_two:
  assumes "\<not> P 0"
  shows "filter P (audit_blobs dump_env None) = (if P 1 then [1] else [])"
proof -
  let ?xs = "filter P (audit_blobs dump_env None)"
  have "distinct ?xs" "set ?xs = (if P 1 then {1} else {})" using dump_audit_blobs assms by auto
  then show ?thesis by (cases ?xs; cases "tl ?xs") (auto split: if_splits simp del: set_filter)
qed

lemma dump_samples:
  "has_encrypted dump_env dump_file 1" "\<not> has_encrypted dump_env dump_file 0"
  "\<not> unread_sample dump_env dump_file 1" "\<not> unread_sample dump_env dump_file 0"
proof -
  have "encrypted_record \<lparr>pb_meta = m, pb_manifest = n, pb_records = records_1\<rparr> = Some (dump_record 7 Encrypted 0 10)"
    "encrypted_record \<lparr>pb_meta = m, pb_manifest = n, pb_records = records_0\<rparr> = None" for m n
    by (simp_all add: encrypted_record_def records_0_def records_1_def dump_record_def)
  moreover have "file_id (dump_record 7 Encrypted 0 10) = 7" "Checksum_Table.blocks (dump_record 7 Encrypted 0 10) \<noteq> []"
    by (simp_all add: dump_record_def)
  then have "first_readable dump_env dump_file 1 (dump_record 7 Encrypted 0 10)"
    by (simp add: first_readable_def dump_own probes_def dump_span nth_opt_def span_of_def stored_def dump_entries dump_dat_def
        dump_files [simplified] dat_1_def whole_span_def)
  ultimately show "has_encrypted dump_env dump_file 1" "\<not> has_encrypted dump_env dump_file 0"
    "\<not> unread_sample dump_env dump_file 1" "\<not> unread_sample dump_env dump_file 0"
    by (simp_all add: has_encrypted_def unread_sample_def dump_parse_of)
qed

theorem audit_counts_witness:
  "\<exists>sched out t s' okay d n. key_audit (\<lambda>_. ''x'') dump_env None (Inr []) (\<lambda>_. None) 2 sched dump_store =
       Returned (Inr (), out, t, s') \<and>
     as_counts out = Some (1, okay, d, n, 0) \<and> okay + d + n = 1 \<and> length (as_lines out) = d + n"
proof -
  have size: "length (audit_blobs dump_env None) = 2" using distinct_card [OF dump_audit_blobs(1)] dump_audit_blobs(2) by simp
  then have input: "audit_input dump_env dump_file None 2 dump_store"
    using dump_good dump_reliable dump_intact dump_store_inv by (simp add: audit_input_def)
  from audit_succeeds [OF this] obtain sched out t s' where
    run: "key_audit (\<lambda>_. ''x'') dump_env None (Inr []) (\<lambda>_. None) 2 sched dump_store = Returned (Inr (), out, t, s')" by blast
  have "filter (has_encrypted dump_env dump_file) (audit_blobs dump_env None) = [1]"
    "filter (unread_sample dump_env dump_file) (audit_blobs dump_env None) = []"
    using dump_samples by (simp_all add: dump_two)
  with audit_counts [OF input run] obtain okay d n where
    "as_counts out = Some (1, okay, d, n, 0)" "okay + d + n = 1" "length (as_lines out) = d + n" by auto
  with run show ?thesis by blast
qed

lemma found_store_inv: "store_inv dump_env dump_file L (dump_store\<lparr>resolved_keys := [1 \<mapsto> Discovered dump_key 3]\<rparr>)"
  using dump_store_inv [of L]
  by (auto simp: store_inv_def table_inv_def data_inv_def blob_inv_def dump_store_def store_new_def byte_lru_new_def lru_unbounded_def)

lemma dump_finds:
  assumes "audit_input dump_env dump_file None 2 (dump_store\<lparr>resolved_keys := [1 \<mapsto> Discovered dump_key 3]\<rparr>)"
    and "key_audit explain dump_env None (Inr []) torn 2 sched (dump_store\<lparr>resolved_keys := [1 \<mapsto> Discovered dump_key 3]\<rparr>) =
      Returned (Inr (), out, t, s')"
  shows "t \<noteq> None" and "resolved_keys s' 1 = Some (Discovered dump_key 3)"
proof -
  obtain a ms where a: "(Inr (), out, t, s') = audit_end (Inr []) torn a" "events a = sum_list ms"
    and frame: "store_frame (dump_store\<lparr>resolved_keys := [1 \<mapsto> Discovered dump_key 3]\<rparr>) (au_store a)"
    and ms: "list_all2 (audited explain dump_env dump_file a) (audit_blobs dump_env None) ms"
    by (rule audit_result [OF assms])
  from frame have key: "resolved_keys (au_store a) 1 = Some (Discovered dump_key 3)"
    by (simp add: store_frame_def map_le_def)
  have "1 \<in> set (audit_blobs dump_env None)" using dump_audit_blobs(2) by simp
  then obtain i where "i < length (audit_blobs dump_env None)" "audit_blobs dump_env None ! i = 1"
    by (auto simp: in_set_conv_nth)
  with ms obtain m where m: "m \<in> set ms" "audited explain dump_env dump_file a 1 m"
    using list_all2_nthD list_all2_lengthD nth_mem by metis
  from m(2) dump_samples(1,3) key have "Found (found_text dump_env 1 dump_key 3) \<in># m"
    unfolding audited_def has_encrypted_def unread_sample_def by (auto split: option.splits)
  then have "Found (found_text dump_env 1 dump_key 3) \<in># events a"
    unfolding a(2) using m(1) by (induction ms) auto
  then have "au_found a \<noteq> []" by (auto simp: events_def split: if_splits)
  with a(1) key show "t \<noteq> None" "resolved_keys s' 1 = Some (Discovered dump_key 3)"
    by (auto simp: audit_end_def Let_def split: if_splits sum.splits prod.splits bool.splits)
qed

lemma dump_names_plain: "newline \<notin> set (file_name (index_blob dump_index 0))" "newline \<notin> set (file_name (index_blob dump_index 1))"
proof -
  have no: "\<not> graphic newline" by (simp add: graphic_def)
  have "graphic c" if "c \<in> set (show_dec n)" for c n using that dec_in_hex [of n] hex_graphic by blast
  moreover have "graphic c" if "c \<in> set (hex8 x)" for c x using that hex8_chars [of x] hex_graphic by blast
  ultimately have "newline \<notin> set (show_dec n)" "newline \<notin> set (hex8 x)" for n x using no by blast+
  moreover have "newline \<notin> set ''_x.blob''" by (simp add: char_of_def bit_simps)
  ultimately show "newline \<notin> set (file_name (index_blob dump_index 0))" "newline \<notin> set (file_name (index_blob dump_index 1))"
    by (auto simp: dump_entries dump_blob_def file_stem_def)
qed

lemma dump_targets: "inj_on (target dump_env) {0, 1}"
  by (simp add: target_def dump_entries dump_blob_def)

theorem audit_keys_load_witness:
  "\<exists>sched out t s' cs ks2. key_audit (\<lambda>_. ''x'') dump_env None (Inr []) (\<lambda>_. None) 2 sched
       (dump_store\<lparr>resolved_keys := [1 \<mapsto> Discovered dump_key 3]\<rparr>) = Returned (Inr (), out, Some t, s') \<and>
     as_written out = Some (length cs) \<and> load_file unhex (Inr t) key_store_new = (None, ks2) \<and>
     (\<forall>b \<in> set cs. \<exists>k from. resolved_keys s' b = Some (Discovered k from) \<and>
        get_for_blob ks2 (bf_depot (index_blob dump_index b)) (bf_crc (index_blob dump_index b)) = Some k)"
proof -
  let ?s = "dump_store\<lparr>resolved_keys := [1 \<mapsto> Discovered dump_key 3]\<rparr>"
  have size: "length (audit_blobs dump_env None) = 2" using distinct_card [OF dump_audit_blobs(1)] dump_audit_blobs(2) by simp
  then have input: "audit_input dump_env dump_file None 2 ?s"
    using dump_good dump_reliable dump_intact found_store_inv by (simp add: audit_input_def)
  from audit_succeeds [OF this] obtain sched out t s' where
    run: "key_audit (\<lambda>_. ''x'') dump_env None (Inr []) (\<lambda>_. None) 2 sched ?s = Returned (Inr (), out, t, s')" by blast
  with dump_finds [OF input run] obtain t' where t: "t = Some t'" by blast
  have keys: "\<forall>b \<in> set (audit_blobs dump_env None). \<forall>k from.
      has_encrypted dump_env dump_file b \<and> resolved_keys s' b = Some (Discovered k from) \<longrightarrow> length k = 16"
    using dump_samples(2) dump_finds(2) [OF input run] by (auto simp: dump_audit_blobs dump_key_def)
  have names: "\<forall>b \<in> set (audit_blobs dump_env None). newline \<notin> set (file_name (index_blob (env_index dump_env) b))"
    using dump_names_plain by (simp add: dump_audit_blobs)
  have inj: "inj_on (target dump_env) (set (audit_blobs dump_env None))" using dump_targets by (simp add: dump_audit_blobs)
  have hex: "\<forall>k. env_hex dump_env k = hex_bytes k" by (simp add: dump_env_def)
  have empty: "load_file unhex (Inr []) key_store_new = (None, key_store_new)" by (simp add: load_file_def lines_def split_all_def Let_def)
  from audit_keys_load [OF input hex unhex_decodes _ empty names inj run [unfolded t] keys] run t show ?thesis
    by (simp only: dump_env_simps) blast
qed

end
