(* ===== verification/Ssh_Connect.thy ===== *)
theory Ssh_Connect
  imports Sftp
begin

text \<open>
  How the SFTP backend gets its session (\<open>src/backend/sftp.rs\<close>, \<open>check_server_key\<close> to \<open>connect\<close>): the host's
  configuration, the server's key, and the keys of the agent and of the identity files, tried until the
  server accepts one.  The SSH library, its configuration reader, the agent, the environment and the file
  system are parameters, and a request to one of them may change the state of the world.
\<close>

section \<open>Definitions\<close>

subsection \<open>The server's key\<close>

datatype host_key = Public_host_key bytes | Certificate_host_key bytes

text \<open>What the \<open>known_hosts\<close> file says about a key.\<close>

datatype known_answer =
    Matches bool
  | Key_changed nat
  | No_answer string

definition check_server_key :: "(string \<Rightarrow> u16 \<Rightarrow> bytes \<Rightarrow> known_answer) \<Rightarrow> string \<Rightarrow> u16 \<Rightarrow> host_key \<Rightarrow> bool" where
  "check_server_key known_hosts host port hk =
     (case hk of
        Certificate_host_key _ \<Rightarrow> False
      | Public_host_key k \<Rightarrow>
          (case known_hosts host port k of
             Matches True \<Rightarrow> True
           | Matches False \<Rightarrow> False
           | Key_changed line \<Rightarrow> False
           | No_answer e \<Rightarrow> True))"

subsection \<open>The world\<close>

record ssh_config =
  sc_user :: "string option"
  sc_port :: "u16 option"
  sc_identity_file :: "string list option"
  sc_host :: string

datatype agent_identity = Agent_public_key bytes | Agent_certificate bytes

type_synonym ('s, 'a) request = "'s \<Rightarrow> (string + 'a) \<times> 's"

record 's ssh_world =
  sw_runtime :: "('s, unit) request"
  sw_parse_home :: "string \<Rightarrow> string + ssh_config"
  sw_default :: "string \<Rightarrow> ssh_config"
  sw_user :: "ssh_config \<Rightarrow> string"
  sw_hostname :: "ssh_config \<Rightarrow> string"
  sw_port :: "ssh_config \<Rightarrow> u16"
  sw_var :: "string \<Rightarrow> string option"
  sw_exists :: "string \<Rightarrow> bool"
  sw_known_hosts :: "string \<Rightarrow> u16 \<Rightarrow> bytes \<Rightarrow> known_answer"
  sw_stream :: "ssh_config \<Rightarrow> ('s, unit) request"
  sw_handshake :: "(host_key \<Rightarrow> bool) \<Rightarrow> ('s, unit) request"
  sw_agents :: "('s, unit) request list"
  sw_identities :: "('s, agent_identity list) request"
  sw_offer_agent_key :: "string \<Rightarrow> bytes \<Rightarrow> ('s, bool) request"
  sw_load_key :: "string \<Rightarrow> ('s, bytes) request"
  sw_offer_key :: "string \<Rightarrow> bytes \<Rightarrow> ('s, bool) request"
  sw_channel :: "('s, unit) request"
  sw_subsystem :: "('s, unit) request"
  sw_init :: "('s, unit) request"
  sw_session :: "'s session"

datatype connect_error =
    Building_runtime string
  | Connecting string u16 string
  | Ssh_handshake string string
  | Listing_identities string
  | No_key_accepted "string list"
  | Authenticating string string connect_error
  | Opening_channel string
  | Requesting_subsystem string
  | Sftp_handshake string

type_synonym ('s, 'a) ssh_run = "('s, connect_error, 'a) action"

definition request_or :: "(string \<Rightarrow> connect_error) \<Rightarrow> ('s, 'a) request \<Rightarrow> ('s, 'a) ssh_run" where
  "request_or err req = (\<lambda>s. case req s of (r, s') \<Rightarrow> (map_err err r, s'))"

definition request :: "('s, 'a) request \<Rightarrow> ('s, string + 'a) ssh_run" where
  "request req = advance req"

subsection \<open>Authentication\<close>

definition identity_files :: "'s ssh_world \<Rightarrow> ssh_config \<Rightarrow> string list" where
  "identity_files w cfg =
     (let home = (case sw_var w ''HOME'' of Some h \<Rightarrow> Some h | None \<Rightarrow> sw_var w ''USERPROFILE'');
          by_default =
            (case home of
               None \<Rightarrow> []
             | Some h \<Rightarrow>
                 filter (sw_exists w)
                   (map (\<lambda>n. path_join (path_join h ''.ssh'') n) [''id_ed25519'', ''id_ecdsa'', ''id_rsa'']))
      in case sc_identity_file cfg of
           Some files \<Rightarrow> if files \<noteq> [] then files else by_default
         | None \<Rightarrow> by_default)"

text \<open>The agents of the platform, the first that can be reached.\<close>

fun agent_client :: "('s, unit) request list \<Rightarrow> ('s, bool) ssh_run" where
  "agent_client [] = ret False"
| "agent_client (a # as) = abind (request a) (\<lambda>r. case r of Inr _ \<Rightarrow> ret True | Inl _ \<Rightarrow> agent_client as)"

fun offer_agent_keys :: "'s ssh_world \<Rightarrow> string \<Rightarrow> agent_identity list \<Rightarrow> ('s, bool) ssh_run" where
  "offer_agent_keys w user [] = ret False"
| "offer_agent_keys w user (Agent_certificate _ # ids) = offer_agent_keys w user ids"
| "offer_agent_keys w user (Agent_public_key k # ids) =
     abind (request (sw_offer_agent_key w user k)) (\<lambda>r.
       if r = Inr True then ret True else offer_agent_keys w user ids)"

fun offer_files :: "'s ssh_world \<Rightarrow> string \<Rightarrow> string list \<Rightarrow> ('s, bool) ssh_run" where
  "offer_files w user [] = ret False"
| "offer_files w user (p # ps) =
     abind (request (sw_load_key w p)) (\<lambda>r.
       case r of
         Inl _ \<Rightarrow> offer_files w user ps
       | Inr k \<Rightarrow>
           abind (request (sw_offer_key w user k)) (\<lambda>r.
             if r = Inr True then ret True else offer_files w user ps))"

definition authenticate :: "'s ssh_world \<Rightarrow> string \<Rightarrow> ssh_config \<Rightarrow> ('s, unit) ssh_run" where
  "authenticate w user cfg =
     abind (agent_client (sw_agents w)) (\<lambda>agent.
     abind (if agent
            then abind (request_or Listing_identities (sw_identities w)) (\<lambda>ids. offer_agent_keys w user ids)
            else ret False) (\<lambda>accepted.
     if accepted then ret ()
     else
       abind (offer_files w user (identity_files w cfg)) (\<lambda>accepted.
       if accepted then ret () else fail (No_key_accepted (identity_files w cfg)))))"

subsection \<open>The connection\<close>

text \<open>The user and the port of the destination replace those of the configuration.\<close>

definition configure :: "'s ssh_world \<Rightarrow> string \<Rightarrow> ssh_config" where
  "configure w destination =
     (let (user, host, port) = split_destination destination;
          cfg = (case sw_parse_home w host of Inr c \<Rightarrow> c | Inl _ \<Rightarrow> sw_default w host);
          cfg1 = (if user \<noteq> None then cfg\<lparr>sc_user := user\<rparr> else cfg)
      in if port \<noteq> None then cfg1\<lparr>sc_port := port\<rparr> else cfg1)"

definition in_authentication :: "string \<Rightarrow> string \<Rightarrow> ('s, unit) ssh_run \<Rightarrow> ('s, unit) ssh_run" where
  "in_authentication user host m = (\<lambda>s. case m s of (r, s') \<Rightarrow> (map_err (Authenticating user host) r, s'))"

definition connect :: "'s ssh_world \<Rightarrow> (string, string) lru_ops \<Rightarrow> string \<Rightarrow> string \<Rightarrow>
    ('s, 's sftp_backend \<times> 's sftp_state) ssh_run" where
  "connect w ops destination root =
     abind (request_or Building_runtime (sw_runtime w)) (\<lambda>_.
     let cfg = configure w destination;
         user = sw_user w cfg; host = sw_hostname w cfg; port = sw_port w cfg
     in
     abind (request_or (Connecting host port) (sw_stream w cfg)) (\<lambda>_.
     abind (request_or (Ssh_handshake host)
       (sw_handshake w (check_server_key (sw_known_hosts w) host port))) (\<lambda>_.
     abind (in_authentication user host (authenticate w user cfg)) (\<lambda>_.
     abind (request_or Opening_channel (sw_channel w)) (\<lambda>_.
     abind (request_or Requesting_subsystem (sw_subsystem w)) (\<lambda>_.
     abind (request_or Sftp_handshake (sw_init w)) (\<lambda>_.
     (\<lambda>s. (Inr (sftp_new (sw_session w) ops destination root s), s)))))))))"

section \<open>Properties\<close>

text \<open>
  What the SSH library promises: it shows the key that the server offers to the caller's check, and ends
  the handshake with an error when the check refuses it.
\<close>

definition honours_check :: "'s ssh_world \<Rightarrow> ('s \<Rightarrow> host_key) \<Rightarrow> bool" where
  "honours_check w offered \<longleftrightarrow>
     (\<forall>check s. \<not> check (offered s) \<longrightarrow> (\<exists>e. fst (sw_handshake w check s) = Inl e))"

text \<open>A key that is not to be trusted: \<open>known_hosts\<close> answers that it does not match or has changed, or it is a certificate.\<close>

definition untrusted :: "'s ssh_world \<Rightarrow> string \<Rightarrow> u16 \<Rightarrow> host_key \<Rightarrow> bool" where
  "untrusted w host port hk \<longleftrightarrow>
     (case hk of
        Certificate_host_key _ \<Rightarrow> True
      | Public_host_key k \<Rightarrow> sw_known_hosts w host port k = Matches False \<or> (\<exists>l. sw_known_hosts w host port k = Key_changed l))"

lemma check_untrusted: "check_server_key (sw_known_hosts w) host port hk \<longleftrightarrow> \<not> untrusted w host port hk"
  by (auto simp: check_server_key_def untrusted_def split: host_key.splits known_answer.splits bool.splits)

text \<open>
  C23: an untrusted server sees no key of ours.  When \<open>known_hosts\<close> answers that the key that the server
  offers does not match or has changed, or the key is a certificate, \<open>connect\<close> ends with the error of the
  handshake and leaves the world as the handshake left it: neither the agent nor an identity file is asked
  for, and nothing is offered.
\<close>

theorem untrusted_server_gets_nothing:
  assumes "honours_check w offered"
    and "sw_runtime w s0 = (Inr (), s1)" and "sw_stream w (configure w destination) s1 = (Inr (), s2)"
    and "untrusted w (sw_hostname w (configure w destination)) (sw_port w (configure w destination)) (offered s2)"
  shows "\<exists>e s3. connect w ops destination root s0 = (Inl (Ssh_handshake (sw_hostname w (configure w destination)) e), s3) \<and>
    s3 = snd (sw_handshake w (check_server_key (sw_known_hosts w) (sw_hostname w (configure w destination))
      (sw_port w (configure w destination))) s2)"
proof -
  let ?check = "check_server_key (sw_known_hosts w) (sw_hostname w (configure w destination)) (sw_port w (configure w destination))"
  have "\<not> ?check (offered s2)" using assms(4) by (simp add: check_untrusted)
  with assms(1) obtain e s3 where "sw_handshake w ?check s2 = (Inl e, s3)"
    unfolding honours_check_def by (metis prod.collapse)
  then show ?thesis by (simp add: connect_def Let_def action_simps request_or_def assms(2,3))
qed

section \<open>The keys that are offered\<close>

text \<open>The keys in the order in which they are offered, and the first that is accepted.\<close>

datatype offer = Of_agent bytes | Of_file string

fun agent_offers :: "agent_identity list \<Rightarrow> offer list" where
  "agent_offers [] = []"
| "agent_offers (Agent_certificate _ # ids) = agent_offers ids"
| "agent_offers (Agent_public_key k # ids) = Of_agent k # agent_offers ids"

fun make_offer :: "'s ssh_world \<Rightarrow> string \<Rightarrow> offer \<Rightarrow> 's \<Rightarrow> bool \<times> 's" where
  "make_offer w user (Of_agent k) s = (case sw_offer_agent_key w user k s of (r, s') \<Rightarrow> (r = Inr True, s'))"
| "make_offer w user (Of_file p) s =
     (case sw_load_key w p s of
        (Inl _, s') \<Rightarrow> (False, s')
      | (Inr k, s') \<Rightarrow> (case sw_offer_key w user k s' of (r, s'') \<Rightarrow> (r = Inr True, s'')))"

text \<open>Offers made one after the other, all of them refused.\<close>

fun all_refused :: "'s ssh_world \<Rightarrow> string \<Rightarrow> offer list \<Rightarrow> 's \<Rightarrow> 's \<Rightarrow> bool" where
  "all_refused w user [] s s' \<longleftrightarrow> s' = s"
| "all_refused w user (x # xs) s s' \<longleftrightarrow>
     (case make_offer w user x s of (acc, s1) \<Rightarrow> \<not> acc \<and> all_refused w user xs s1 s')"

definition offered_until :: "'s ssh_world \<Rightarrow> string \<Rightarrow> offer list \<Rightarrow> 's \<Rightarrow> bool \<Rightarrow> 's \<Rightarrow> bool" where
  "offered_until w user xs s acc s' \<longleftrightarrow>
     (if acc then \<exists>ys x zs s1. xs = ys @ x # zs \<and> all_refused w user ys s s1 \<and> make_offer w user x s1 = (True, s')
      else all_refused w user xs s s')"

lemma offered_until_Cons:
  "offered_until w user (x # xs) s acc s' \<longleftrightarrow>
     (case make_offer w user x s of
        (True, s1) \<Rightarrow> acc \<and> s' = s1
      | (False, s1) \<Rightarrow> offered_until w user xs s1 acc s')"
proof (cases "make_offer w user x s")
  case (Pair a s1)
  show ?thesis
  proof (cases a)
    case True
    have "\<exists>ys y zs t. x # xs = ys @ y # zs \<and> all_refused w user ys s t \<and> make_offer w user y t = (True, s1)"
      using Pair True by (intro exI [of _ "[]"]) auto
    moreover have "s' = s1" if "x # xs = ys @ y # zs" "all_refused w user ys s t" "make_offer w user y t = (True, s')" for ys y zs t
      using that Pair True by (cases ys) auto
    ultimately show ?thesis using Pair True by (auto simp: offered_until_def)
  next
    case False
    have "(\<exists>ys y zs t. x # xs = ys @ y # zs \<and> all_refused w user ys s t \<and> make_offer w user y t = (True, s')) \<longleftrightarrow>
        (\<exists>ys y zs t. xs = ys @ y # zs \<and> all_refused w user ys s1 t \<and> make_offer w user y t = (True, s'))" (is "?l \<longleftrightarrow> ?r")
    proof
      assume ?l
      then obtain ys y zs t where "x # xs = ys @ y # zs" "all_refused w user ys s t" "make_offer w user y t = (True, s')" by blast
      then show ?r using Pair False by (cases ys) auto
    next
      assume ?r
      then obtain ys y zs t where "xs = ys @ y # zs" "all_refused w user ys s1 t" "make_offer w user y t = (True, s')" by blast
      then show ?l using Pair False by (intro exI [of _ "x # ys"]) auto
    qed
    then show ?thesis using Pair False by (simp add: offered_until_def)
  qed
qed

lemma offer_agent_keys_order:
  "offer_agent_keys w user ids s = (r, s') \<Longrightarrow> \<exists>acc. r = Inr acc \<and> offered_until w user (agent_offers ids) s acc s'"
proof (induction w user ids arbitrary: s rule: offer_agent_keys.induct)
  case (1 w user)
  then show ?case by (intro exI [of _ False]) (simp add: action_simps offered_until_def)
next
  case (2 w user c ids)
  then show ?case by simp
next
  case (3 w user k ids)
  obtain q s1 where q: "sw_offer_agent_key w user k s = (q, s1)" by fastforce
  show ?case
  proof (cases "q = Inr True")
    case True
    with "3.prems" q show ?thesis by (intro exI [of _ True]) (simp add: action_simps request_def offered_until_Cons)
  next
    case False
    with "3.prems" q have "offer_agent_keys w user ids s1 = (r, s')" by (simp add: action_simps request_def)
    from "3.IH" [OF False this] False q show ?thesis by (simp add: offered_until_Cons)
  qed
qed

lemma offer_files_order:
  "offer_files w user ps s = (r, s') \<Longrightarrow> \<exists>acc. r = Inr acc \<and> offered_until w user (map Of_file ps) s acc s'"
proof (induction ps arbitrary: s)
  case Nil
  then show ?case by (intro exI [of _ False]) (simp add: action_simps offered_until_def)
next
  case (Cons p ps)
  obtain l s1 where l: "sw_load_key w p s = (l, s1)" by fastforce
  show ?case
  proof (cases l)
    case (Inl e)
    with Cons l show ?thesis by (simp add: action_simps request_def offered_until_Cons)
  next
    case (Inr k)
    obtain q s2 where q: "sw_offer_key w user k s1 = (q, s2)" by fastforce
    show ?thesis
    proof (cases "q = Inr True")
      case True
      with Cons.prems l Inr q show ?thesis
        by (intro exI [of _ True]) (simp add: action_simps request_def offered_until_Cons)
    next
      case False
      with Cons.prems l Inr q have "offer_files w user ps s2 = (r, s')" by (simp add: action_simps request_def)
      from Cons.IH [OF this] False l Inr q show ?thesis by (simp add: offered_until_Cons)
    qed
  qed
qed

lemma all_refused_append:
  "all_refused w user (xs @ ys) s s' \<longleftrightarrow> (\<exists>s1. all_refused w user xs s s1 \<and> all_refused w user ys s1 s')"
  by (induction xs arbitrary: s) (auto split: prod.splits)

lemma offered_until_append:
  assumes "all_refused w user xs s s1" and "offered_until w user ys s1 acc s'"
  shows "offered_until w user (xs @ ys) s acc s'"
proof (cases acc)
  case True
  with assms(2) obtain zs x us s2 where "ys = zs @ x # us" "all_refused w user zs s1 s2" "make_offer w user x s2 = (True, s')"
    by (auto simp: offered_until_def)
  moreover from this(2) assms(1) have "all_refused w user (xs @ zs) s s2" by (auto simp: all_refused_append)
  ultimately have "xs @ ys = (xs @ zs) @ x # us \<and> all_refused w user (xs @ zs) s s2 \<and> make_offer w user x s2 = (True, s')" by simp
  with True show ?thesis unfolding offered_until_def by (metis (full_types))
next
  case False
  with assms show ?thesis by (auto simp: offered_until_def all_refused_append)
qed

lemma offered_until_more: "offered_until w user xs s True s' \<Longrightarrow> offered_until w user (xs @ ys) s True s'"
  unfolding offered_until_def by fastforce

lemma agent_client_total: "agent_client as s = (r, s') \<Longrightarrow> \<exists>b. r = Inr b"
  by (induction as arbitrary: s) (auto simp: action_simps request_def split: sum.splits prod.splits)

text \<open>
  C24: the keys are offered in order, and the first that is accepted is the last that is offered.  Once an
  agent, if there is one, has listed its identities, \<open>authenticate\<close> offers its public keys and then
  those of the identity files that load, until the server accepts one; it succeeds exactly if one is
  accepted, and its error otherwise names the files it tried.
\<close>

theorem authenticate_in_order:
  assumes "agent_client (sw_agents w) s0 = (Inr agent, s1)"
    and "(if agent then sw_identities w s1 else (Inr [], s1)) = (Inr ids, s2)"
    and "authenticate w user cfg s0 = (r, s')"
  shows "\<exists>accepted. offered_until w user (agent_offers ids @ map Of_file (identity_files w cfg)) s2 accepted s' \<and>
    r = (if accepted then Inr () else Inl (No_key_accepted (identity_files w cfg)))"
proof -
  let ?m = "if agent then abind (request_or Listing_identities (sw_identities w)) (\<lambda>ids. offer_agent_keys w user ids) else ret False"
  obtain q s3 where q: "?m s1 = (q, s3)" by fastforce
  have keys: "\<exists>acc. q = Inr acc \<and> offered_until w user (agent_offers ids) s2 acc s3"
  proof (cases agent)
    case True
    with q assms(2) have "offer_agent_keys w user ids s2 = (q, s3)" by (simp add: action_simps request_or_def)
    then show ?thesis by (rule offer_agent_keys_order)
  next
    case False
    with q assms(2) show ?thesis by (auto simp: action_simps offered_until_def)
  qed
  then obtain acc where acc: "q = Inr acc" "offered_until w user (agent_offers ids) s2 acc s3" by blast
  show ?thesis
  proof (cases acc)
    case True
    with assms(1,3) q acc(1) have "r = Inr ()" "s' = s3" by (simp_all add: authenticate_def action_simps)
    with offered_until_more acc(2) True show ?thesis by (intro exI [of _ True]) simp
  next
    case False
    obtain f s4 where f: "offer_files w user (identity_files w cfg) s3 = (f, s4)" by fastforce
    from offer_files_order [OF f] obtain acc' where acc': "f = Inr acc'"
      "offered_until w user (map Of_file (identity_files w cfg)) s3 acc' s4" by blast
    have refused: "all_refused w user (agent_offers ids) s2 s3" using acc(2) False by (simp add: offered_until_def)
    from assms(1,3) q acc(1) False f acc'(1)
    have "r = (if acc' then Inr () else Inl (No_key_accepted (identity_files w cfg)))" "s' = s4"
      by (simp_all add: authenticate_def action_simps split: if_splits)
    with offered_until_append [OF refused acc'(2)] show ?thesis by blast
  qed
qed

text \<open>
  An agent that cannot list its identities ends the connection.  Then \<open>authenticate\<close> fails before an
  identity file is looked at, also when the server would accept the key of one.
\<close>

theorem failing_agent_hides_files:
  assumes "agent_client (sw_agents w) s0 = (Inr True, s1)" and "sw_identities w s1 = (Inl e, s2)"
  shows "authenticate w user cfg s0 = (Inl (Listing_identities e), s2)"
  using assms by (simp add: authenticate_def action_simps request_or_def)

section \<open>A small world\<close>

text \<open>
  The state counts the requests.  The server's key is known to be another one; the agent is there, and the
  server accepts the key of the file \<open>k\<close>.
\<close>

definition small_world :: "known_answer \<Rightarrow> string + agent_identity list \<Rightarrow> nat ssh_world" where
  "small_world known ids =
     \<lparr>sw_runtime = (\<lambda>s. (Inr (), s + 1)), sw_parse_home = (\<lambda>h. Inl ''none''),
      sw_default = (\<lambda>h. \<lparr>sc_user = None, sc_port = None, sc_identity_file = Some [''k''], sc_host = h\<rparr>),
      sw_user = (\<lambda>c. case sc_user c of Some u \<Rightarrow> u | None \<Rightarrow> ''me''), sw_hostname = sc_host,
      sw_port = (\<lambda>c. case sc_port c of Some p \<Rightarrow> p | None \<Rightarrow> 22), sw_var = Map.empty, sw_exists = (\<lambda>_. True),
      sw_known_hosts = (\<lambda>h p k. known), sw_stream = (\<lambda>c s. (Inr (), s + 1)),
      sw_handshake = (\<lambda>check s. (if check (Public_host_key [7]) then Inr () else Inl ''UnknownKey'', s + 1)),
      sw_agents = [\<lambda>s. (Inr (), s + 1)], sw_identities = (\<lambda>s. (ids, s + 1)),
      sw_offer_agent_key = (\<lambda>u k s. (Inr False, s + 1)), sw_load_key = (\<lambda>p s. (Inr [1], s + 1)),
      sw_offer_key = (\<lambda>u k s. (Inr True, s + 1)), sw_channel = (\<lambda>s. (Inr (), s + 1)),
      sw_subsystem = (\<lambda>s. (Inr (), s + 1)), sw_init = (\<lambda>s. (Inr (), s + 1)),
      sw_session =
        \<lparr>ss_open = (\<lambda>p s. (Inr p, s)), ss_close = (\<lambda>h s. (Inr (), s)), ss_read = (\<lambda>h a n s. (Inr [], s)),
         ss_stat = (\<lambda>p s. (Inr None, s)), ss_opendir = (\<lambda>p s. (Inr p, s)), ss_readdir = (\<lambda>h s. (Inr [], s)),
         ss_exec = (\<lambda>c s. (Inr [], s))\<rparr>\<rparr>"

theorem untrusted_server_gets_nothing_witness:
  "\<exists>e. connect (small_world (Key_changed 3) (Inr [])) list_lru ''host'' ''/data'' 0 = (Inl (Ssh_handshake ''host'' e), 3)"
proof -
  let ?w = "small_world (Key_changed 3) (Inr [])" and ?d = "''host''"
  have h: "honours_check ?w (\<lambda>_. Public_host_key [7])" by (simp add: honours_check_def small_world_def)
  have "split_destination ?d = (None, ''host'', None)"
    by (simp add: split_destination_def strip_prefix_def split_once_None rsplit_once_def)
  then have host: "sw_hostname ?w (configure ?w ?d) = ''host''" by (simp add: small_world_def configure_def)
  have "untrusted ?w (sw_hostname ?w (configure ?w ?d)) (sw_port ?w (configure ?w ?d)) ((\<lambda>_. Public_host_key [7]) (2 :: nat))"
    by (simp add: untrusted_def small_world_def)
  from untrusted_server_gets_nothing [OF h _ _ this, where ?s0.0 = 0 and ?s1.0 = 1 and ops = list_lru and root = "''/data''"]
  obtain e s3 where "connect ?w list_lru ?d ''/data'' 0 = (Inl (Ssh_handshake ''host'' e), s3)"
    "s3 = snd (sw_handshake ?w (check_server_key (sw_known_hosts ?w) ''host'' (sw_port ?w (configure ?w ?d))) 2)"
    unfolding host by (auto simp: small_world_def)
  moreover have "snd (sw_handshake ?w check 2) = 3" for check by (simp add: small_world_def)
  ultimately show ?thesis by auto
qed

theorem authenticate_in_order_witness:
  "\<exists>accepted s'. offered_until (small_world (Matches True) (Inr [Agent_public_key [9]])) ''me'' [Of_agent [9], Of_file ''k''] 2 accepted s' \<and>
     accepted = is_ok (fst (authenticate (small_world (Matches True) (Inr [Agent_public_key [9]])) ''me''
       \<lparr>sc_user = None, sc_port = None, sc_identity_file = Some [''k''], sc_host = ''host''\<rparr> 0))"
proof -
  let ?w = "small_world (Matches True) (Inr [Agent_public_key [9]])"
    and ?c = "\<lparr>sc_user = None, sc_port = None, sc_identity_file = Some [''k''], sc_host = ''host''\<rparr>"
  obtain r s' where run: "authenticate ?w ''me'' ?c 0 = (r, s')" by fastforce
  have "agent_client (sw_agents ?w) 0 = (Inr True, 1)" by (simp add: small_world_def action_simps request_def)
  note offers = authenticate_in_order [OF this(1) _ run]
  have "(if True then sw_identities ?w 1 else (Inr [], 1)) = (Inr [Agent_public_key [9]], 2)"
    by (simp add: small_world_def)
  from offers [OF this] obtain accepted where "offered_until ?w ''me'' (agent_offers [Agent_public_key [9]] @ map Of_file (identity_files ?w ?c)) 2 accepted s'"
    "r = (if accepted then Inr () else Inl (No_key_accepted (identity_files ?w ?c)))"
    by blast
  then show ?thesis unfolding run by (intro exI [of _ accepted] exI [of _ s']) (simp add: identity_files_def is_ok_def)
qed

theorem failing_agent_hides_files_witness:
  "authenticate (small_world (Matches True) (Inl ''refused'')) ''me''
     \<lparr>sc_user = None, sc_port = None, sc_identity_file = Some [''k''], sc_host = ''host''\<rparr> 0 = (Inl (Listing_identities ''refused''), 2) \<and>
   fst (sw_offer_key (small_world (Matches True) (Inl ''refused'')) ''me'' [1] 3) = Inr True"
  by (rule conjI, rule failing_agent_hides_files [where ?s1.0 = 1])
    (simp_all add: small_world_def action_simps request_def)

end
