(* ===== verification/Win_Host.thy ===== *)
theory Win_Host
  imports Win_Fs Worker_Pool
begin

text \<open>
  Mounting on Windows (\<open>src/winfs.rs\<close>, \<open>read_sddl\<close>, \<open>registry_install_dir\<close>, \<open>preload_winfsp\<close>, \<open>mount\<close> and
  \<open>ctrlc_channel\<close>): the DLL is found through the registry, the volume is created, mounted and started, and a
  Ctrl-C stops and unmounts it.  What the system answers is a parameter; the state is the list of what has
  happened to the volume.
\<close>

section \<open>Definitions\<close>

datatype arch = X86_64 | Aarch64 | Other_arch

fun WINFSP_DLL :: "arch \<Rightarrow> string" where
  "WINFSP_DLL X86_64 = ''winfsp-x64.dll''"
| "WINFSP_DLL Aarch64 = ''winfsp-a64.dll''"
| "WINFSP_DLL Other_arch = ''winfsp-x86.dll''"

definition SDDL :: string where
  "SDDL = ''O:BAG:BAD:P(A;;FRFX;;;WD)''"

definition CTRL_C_EVENT :: u32 where
  "CTRL_C_EVENT = 0"

record volume_params =
  vp_sector_size :: u16
  vp_sectors_per_allocation_unit :: u16
  vp_max_component_length :: u16
  vp_creation_time :: u64
  vp_serial_number :: u32
  vp_case_sensitive_search :: bool
  vp_case_preserved_names :: bool
  vp_unicode_on_disk :: bool
  vp_read_only :: bool
  vp_persistent_acls :: bool
  vp_post_cleanup_when_modified_only :: bool
  vp_file_info_timeout :: u32
  vp_filesystem_name :: string

text \<open>
  \<open>ws_registry\<close> is the buffer of 1024 units after the call and the size it reports, in bytes; \<open>ws_wide\<close> and \<open>ws_join\<close>
  are the conversion of wide strings and the joining of paths; a descriptor that converts to nothing is
  None; \<open>ws_console\<close> are the events that the console delivers, in order.
\<close>

record win_system =
  ws_arch :: arch
  ws_registry :: "string \<Rightarrow> (u16 list \<times> u32) option"
  ws_wide :: "u16 list \<Rightarrow> string"
  ws_join :: "string \<Rightarrow> string \<Rightarrow> string"
  ws_load_library :: "string \<Rightarrow> bool"
  ws_init :: "string + unit"
  ws_descriptor :: "string \<Rightarrow> string + bytes option"
  ws_now :: system_time
  ws_create :: "volume_params \<Rightarrow> bytes \<Rightarrow> string + unit"
  ws_mount :: "string \<Rightarrow> string + unit"
  ws_start :: "u32 \<Rightarrow> string + unit"
  ws_sender_set :: bool
  ws_set_handler :: "string + unit"
  ws_console :: "u32 list"

datatype host_event =
    Library_loaded string
  | Initialised
  | Volume_created volume_params bytes
  | Mounted_at string
  | Dispatching u32
  | Handler_installed
  | Stopped
  | Unmounted

datatype host_error =
    No_winfsp
  | Bad_descriptor string
  | Null_descriptor
  | Creating_volume string
  | Mounting_at string string
  | Starting_dispatcher string
  | Handler_there
  | Installing_handler string

datatype host_stop = Host_error host_error | Host_panic | Host_waits

type_synonym 'a host_run = "(host_event list, host_stop, 'a) action"

definition happens :: "host_event \<Rightarrow> unit host_run" where
  "happens e = modify (\<lambda>tr. tr @ [e])"

definition calls :: "string + unit \<Rightarrow> (string \<Rightarrow> host_error) \<Rightarrow> host_event \<Rightarrow> unit host_run" where
  "calls r err e = abind (pure (map_err (\<lambda>m. Host_error (err m)) r)) (\<lambda>_. happens e)"

definition read_sddl :: "win_system \<Rightarrow> string \<Rightarrow> bytes host_run" where
  "read_sddl sys sddl =
     abind (pure (map_err (\<lambda>m. Host_error (Bad_descriptor m)) (ws_descriptor sys sddl))) (\<lambda>d.
     pure (ok_or (Host_error Null_descriptor) d))"

text \<open>Slicing past the end of the buffer panics.\<close>

definition registry_install_dir :: "win_system \<Rightarrow> string \<Rightarrow> string option host_run" where
  "registry_install_dir sys subkey =
     (case ws_registry sys subkey of
        None \<Rightarrow> ret None
      | Some (buf, written) \<Rightarrow>
          (let len = unat written div 2; units = take len buf in
           if length buf < len then fail Host_panic
           else if 0 \<in> set units then ret (Some (ws_wide sys (takeWhile (\<lambda>u. u \<noteq> 0) units)))
           else ret None))"

definition preload_winfsp :: "win_system \<Rightarrow> string option host_run" where
  "preload_winfsp sys =
     abind (registry_install_dir sys (''SOFTWARE'' @ [CHR 0x5C] @ ''WOW6432Node'' @ [CHR 0x5C] @ ''WinFsp'')) (\<lambda>first.
     abind (if first \<noteq> None then ret first else registry_install_dir sys (''SOFTWARE'' @ [CHR 0x5C] @ ''WinFsp'')) (\<lambda>dir.
     case dir of
       None \<Rightarrow> ret None
     | Some d \<Rightarrow>
         (let dll = ws_join sys (ws_join sys d ''bin'') (WINFSP_DLL (ws_arch sys)) in
          if ws_load_library sys dll then abind (happens (Library_loaded dll)) (\<lambda>_. ret (Some dll)) else ret None)))"

definition volume :: "win_system \<Rightarrow> volume_params" where
  "volume sys =
     \<lparr>vp_sector_size = ucast SECTOR_SIZE, vp_sectors_per_allocation_unit = ucast SECTORS_PER_ALLOCATION_UNIT,
      vp_max_component_length = 255, vp_creation_time = filetime (ws_now sys), vp_serial_number = 0x53544d32,
      vp_case_sensitive_search = False, vp_case_preserved_names = True, vp_unicode_on_disk = True,
      vp_read_only = True, vp_persistent_acls = True, vp_post_cleanup_when_modified_only = True,
      vp_file_info_timeout = u32_max, vp_filesystem_name = ''steam2fs''\<rparr>"

definition ctrlc_channel :: "win_system \<Rightarrow> unit host_run" where
  "ctrlc_channel sys =
     (if ws_sender_set sys then fail (Host_error Handler_there)
      else calls (ws_set_handler sys) Installing_handler Handler_installed)"

text \<open>The console handler: whether it sends, and whether it says that it has handled the event.\<close>

definition ctrl_handler :: "u32 \<Rightarrow> bool \<times> bool" where
  "ctrl_handler event = (if event = CTRL_C_EVENT then (True, True) else (False, False))"

definition await_ctrl_c :: "win_system \<Rightarrow> unit host_run" where
  "await_ctrl_c sys = (if list_ex (\<lambda>e. fst (ctrl_handler e)) (ws_console sys) then ret () else fail Host_waits)"

definition mount_volume :: "win_system \<Rightarrow> string \<Rightarrow> nat \<Rightarrow> unit host_run" where
  "mount_volume sys mountpoint ts =
     abind (calls (ws_init sys) (\<lambda>_. No_winfsp) Initialised) (\<lambda>_.
     abind (read_sddl sys SDDL) (\<lambda>security.
     abind (calls (ws_create sys (volume sys) security) Creating_volume (Volume_created (volume sys) security)) (\<lambda>_.
     abind (calls (ws_mount sys mountpoint) (Mounting_at mountpoint) (Mounted_at mountpoint)) (\<lambda>_.
     abind (calls (ws_start sys (of_nat ts)) Starting_dispatcher (Dispatching (of_nat ts))) (\<lambda>_.
     abind (ctrlc_channel sys) (\<lambda>_.
     abind (await_ctrl_c sys) (\<lambda>_.
     abind (happens Stopped) (\<lambda>_.
     happens Unmounted))))))))"

definition win_mount_run :: "win_system \<Rightarrow> string \<Rightarrow> nat \<Rightarrow> unit host_run" where
  "win_mount_run sys mountpoint ts = abind (preload_winfsp sys) (\<lambda>_. mount_volume sys mountpoint ts)"

definition win_mount :: "win_system \<Rightarrow> string \<Rightarrow> nat \<Rightarrow> ((host_error + unit) \<times> host_event list) ending" where
  "win_mount sys mountpoint ts =
     (case win_mount_run sys mountpoint ts [] of
        (Inr _, tr) \<Rightarrow> Returned (Inr (), tr)
      | (Inl (Host_error e), tr) \<Rightarrow> Returned (Inl e, tr)
      | (Inl Host_panic, tr) \<Rightarrow> Process_ended
      | (Inl Host_waits, tr) \<Rightarrow> Still_running)"

section \<open>Properties\<close>

lemma preload_keeps:
  assumes "preload_winfsp sys tr = (r, tr')"
  shows "r \<noteq> Inl (Host_error e) \<and> r \<noteq> Inl Host_waits \<and>
    (\<exists>xs. tr' = tr @ xs \<and> (\<forall>x \<in> set xs. \<exists>dll. x = Library_loaded dll \<and> ws_load_library sys dll))"
  using assms
  by (auto simp: preload_winfsp_def registry_install_dir_def action_simps happens_def Let_def
      split: option.splits prod.splits if_splits sum.splits)

text \<open>What the mount itself does, one step after the other.\<close>

definition mount_steps :: "win_system \<Rightarrow> string \<Rightarrow> nat \<Rightarrow> bytes \<Rightarrow> host_event list" where
  "mount_steps sys mountpoint ts security =
     [Initialised, Volume_created (volume sys) security, Mounted_at mountpoint, Dispatching (of_nat ts), Handler_installed,
      Stopped, Unmounted]"

definition interrupted :: "win_system \<Rightarrow> bool" where
  "interrupted sys \<longleftrightarrow> CTRL_C_EVENT \<in> set (ws_console sys)"

lemma await_interrupted: "await_ctrl_c sys tr = (if interrupted sys then Inr () else Inl Host_waits, tr)"
  by (auto simp: await_ctrl_c_def interrupted_def ctrl_handler_def list_ex_iff action_simps split: if_splits)

text \<open>A run that goes through a beginning of one of the given lists of steps, and through all of it if it succeeds.\<close>

definition follows :: "win_system \<Rightarrow> unit host_run \<Rightarrow> host_event list set \<Rightarrow> bool" where
  "follows sys m Y \<longleftrightarrow>
     (\<forall>tr r tr'. m tr = (r, tr') \<longrightarrow> r \<noteq> Inl Host_panic \<and> (r = Inl Host_waits \<longrightarrow> \<not> interrupted sys) \<and>
        (\<exists>ys \<in> Y. \<exists>zs. tr' = tr @ zs \<and> prefix zs ys \<and> (r = Inr () \<longrightarrow> zs = ys \<and> interrupted sys)))"

lemma follows_mono:
  assumes "follows sys m Y" and "Y \<subseteq> Z"
  shows "follows sys m Z"
  unfolding follows_def
proof (intro allI impI)
  fix tr r tr' assume "m tr = (r, tr')"
  with assms(1) have "r \<noteq> Inl Host_panic" "r = Inl Host_waits \<longrightarrow> \<not> interrupted sys"
    "\<exists>ys \<in> Y. \<exists>zs. tr' = tr @ zs \<and> prefix zs ys \<and> (r = Inr () \<longrightarrow> zs = ys \<and> interrupted sys)"
    unfolding follows_def by blast+
  with assms(2) show "r \<noteq> Inl Host_panic \<and> (r = Inl Host_waits \<longrightarrow> \<not> interrupted sys) \<and>
      (\<exists>ys \<in> Z. \<exists>zs. tr' = tr @ zs \<and> prefix zs ys \<and> (r = Inr () \<longrightarrow> zs = ys \<and> interrupted sys))" by blast
qed

lemma follows_calls:
  assumes "follows sys m Y" and "Y \<noteq> {}"
  shows "follows sys (abind (calls c err e) (\<lambda>_. m)) ((#) e ` Y)"
  unfolding follows_def
proof (intro allI impI)
  fix tr r tr' assume run: "abind (calls c err e) (\<lambda>_. m) tr = (r, tr')"
  show "r \<noteq> Inl Host_panic \<and> (r = Inl Host_waits \<longrightarrow> \<not> interrupted sys) \<and>
      (\<exists>ys \<in> (#) e ` Y. \<exists>zs. tr' = tr @ zs \<and> prefix zs ys \<and> (r = Inr () \<longrightarrow> zs = ys \<and> interrupted sys))"
  proof (cases c)
    case (Inl x)
    with run assms(2) show ?thesis by (auto simp: calls_def action_simps)
  next
    case (Inr u)
    with run have "m (tr @ [e]) = (r, tr')" by (simp add: calls_def action_simps happens_def)
    with assms(1) show ?thesis unfolding follows_def by fastforce
  qed
qed

lemma follows_sddl:
  assumes "\<And>d. follows sys (m d) (Y d)" and "\<And>d. Y d \<noteq> {}"
  shows "follows sys (abind (read_sddl sys sddl) m) (\<Union>d. Y d)"
  unfolding follows_def
proof (intro allI impI)
  fix tr r tr' assume run: "abind (read_sddl sys sddl) m tr = (r, tr')"
  consider e where "r = Inl (Host_error e)" "tr' = tr" | d where "m d tr = (r, tr')"
    using run by (cases "ws_descriptor sys sddl"; cases "projr (ws_descriptor sys sddl)")
      (auto simp: read_sddl_def action_simps)
  then show "r \<noteq> Inl Host_panic \<and> (r = Inl Host_waits \<longrightarrow> \<not> interrupted sys) \<and>
      (\<exists>ys \<in> (\<Union>d. Y d). \<exists>zs. tr' = tr @ zs \<and> prefix zs ys \<and> (r = Inr () \<longrightarrow> zs = ys \<and> interrupted sys))"
  proof cases
    case 1
    then show ?thesis using assms(2) by fastforce
  next
    case (2 d)
    with assms(1) [of d] show ?thesis unfolding follows_def by blast
  qed
qed

lemma follows_end:
  "follows sys (abind (await_ctrl_c sys) (\<lambda>_. abind (happens Stopped) (\<lambda>_. happens Unmounted))) {[Stopped, Unmounted]}"
  by (auto simp: follows_def action_simps await_interrupted happens_def split: if_splits)

lemma follows_ctrlc:
  assumes "follows sys m Y" and "Y \<noteq> {}"
  shows "follows sys (abind (ctrlc_channel sys) (\<lambda>_. m)) ((#) Handler_installed ` Y)"
proof (cases "ws_sender_set sys")
  case True
  then show ?thesis using assms(2) by (auto simp: follows_def ctrlc_channel_def action_simps)
next
  case False
  then show ?thesis using follows_calls [OF assms] by (simp add: ctrlc_channel_def)
qed

lemma mount_follows: "follows sys (mount_volume sys mountpoint ts) (range (mount_steps sys mountpoint ts))"
proof (rule follows_mono)
  let ?Y = "\<lambda>security. (#) (Volume_created (volume sys) security) `
      ((#) (Mounted_at mountpoint) ` ((#) (Dispatching (of_nat ts)) ` ((#) Handler_installed ` {[Stopped, Unmounted]})))"
  show "follows sys (mount_volume sys mountpoint ts) ((#) Initialised ` (\<Union>security. ?Y security))"
    unfolding mount_volume_def by (intro follows_calls follows_sddl follows_ctrlc follows_end) simp_all
  show "(#) Initialised ` (\<Union>security. ?Y security) \<subseteq> range (mount_steps sys mountpoint ts)"
  proof
    fix x assume "x \<in> (#) Initialised ` (\<Union>security. ?Y security)"
    then obtain security where "x = mount_steps sys mountpoint ts security" by (auto simp: mount_steps_def)
    then show "x \<in> range (mount_steps sys mountpoint ts)" by (rule range_eqI)
  qed
qed


section \<open>A small system\<close>

definition small_system :: "u32 list \<Rightarrow> win_system" where
  "small_system console =
     \<lparr>ws_arch = X86_64, ws_registry = (\<lambda>k. None), ws_wide = (\<lambda>u. ''c''), ws_join = (\<lambda>a b. a @ b),
      ws_load_library = (\<lambda>_. False), ws_init = Inr (), ws_descriptor = (\<lambda>_. Inr (Some [1])), ws_now = (0, 0),
      ws_create = (\<lambda>_ _. Inr ()), ws_mount = (\<lambda>_. Inr ()), ws_start = (\<lambda>_. Inr ()), ws_sender_set = False,
      ws_set_handler = Inr (), ws_console = console\<rparr>"


end
