(* ===== verification/Inspect_Command.thy ===== *)
theory Inspect_Command
  imports Verify_Command
begin

text \<open>
  The command that prints what is known about a depot or one of its versions (\<open>src/main.rs\<close>, \<open>inspect\<close>).
  The state is the store with the lines printed so far; an error keeps what was printed before it.
\<close>

section \<open>Definitions\<close>

record inspect_state =
  ins_store :: store
  ins_out :: "string list"

datatype inspect_stop =
    Inspect_error command_error
  | Inspect_panic
  | Inspect_hangs

type_synonym 'a inspect_run = "(inspect_state, inspect_stop, 'a) action"

definition println :: "string \<Rightarrow> unit inspect_run" where
  "println l = modify (\<lambda>s. s\<lparr>ins_out := ins_out s @ [l]\<rparr>)"

fun inspect_failure :: "failure \<Rightarrow> inspect_stop" where
  "inspect_failure Panic = Inspect_panic"
| "inspect_failure (Error e) = Inspect_error (Store_error e)"

definition on_store :: "'a run \<Rightarrow> 'a inspect_run" where
  "on_store m = (\<lambda>s. case m (ins_store s) of (r, st) \<Rightarrow> (map_err inspect_failure r, s\<lparr>ins_store := st\<rparr>))"

text \<open>\<open>Result::ok\<close> of an operation of the store.\<close>

definition attempted :: "'a run \<Rightarrow> 'a option run" where
  "attempted m = (\<lambda>s. case m s of
     (Inl Panic, s') \<Rightarrow> (Inl Panic, s')
   | (Inl (Error e), s') \<Rightarrow> (Inr None, s')
   | (Inr x, s') \<Rightarrow> (Inr (Some x), s'))"

definition pad_right :: "nat \<Rightarrow> string \<Rightarrow> string" where
  "pad_right n s = s @ replicate (n - length s) CHR '' ''"

subsection \<open>A depot\<close>

definition depot_line :: "env \<Rightarrow> u32 \<Rightarrow> depot \<Rightarrow> string" where
  "depot_line env d dep =
     ''depot '' @ show_dec (unat d) @ '': '' @ show_dec (length (depot_blobs dep)) @ '' blobs, key '' @
     (if key_for env d \<noteq> None then ''known'' else ''UNKNOWN'')"

definition date_text :: "blob_file \<Rightarrow> string" where
  "date_text e = (case bf_date e of None \<Rightarrow> ''-'' | Some (secs, nanos) \<Rightarrow> format_stamp secs)"

definition dat_text :: "env \<Rightarrow> u32 \<Rightarrow> blob_id \<Rightarrow> parsed_blob \<Rightarrow> string" where
  "dat_text env d b p =
     (let idx = env_index env in
      case find_dat idx d (bf_version (index_blob idx b)) (vm_dat_crc (pb_meta p)) of
        Some i \<Rightarrow>
          ''dat '' @ show_dec (unat (df_size (index_dat idx i))) @ '' bytes'' @
          (if incomplete (index_dat idx i) then '' (incomplete)'' else [])
      | None \<Rightarrow> ''dat '' @ hex8 (vm_dat_crc (pb_meta p)) @ '' MISSING'')"

definition version_line :: "env \<Rightarrow> u32 \<Rightarrow> string \<Rightarrow> blob_id \<Rightarrow> parsed_blob option \<Rightarrow> string" where
  "version_line env d name b p =
     ''  '' @ pad_right 14 name @ '' '' @ date_text (index_blob (env_index env) b) @ ''  '' @
     (case p of Some p \<Rightarrow> dat_text env d b p | None \<Rightarrow> ''(blob unreadable)'')"

fun list_versions :: "env \<Rightarrow> u32 \<Rightarrow> (string \<times> blob_id) list \<Rightarrow> unit inspect_run" where
  "list_versions env d [] = ret ()"
| "list_versions env d ((name, b) # vs) =
     abind (on_store (attempted (parsed env b))) (\<lambda>p.
     abind (println (version_line env d name b p)) (\<lambda>_.
     list_versions env d vs))"

subsection \<open>A version\<close>

definition chain_head :: "nat \<Rightarrow> string" where
  "chain_head n = ''chain ('' @ show_dec n @ '' versions, root first):''"

definition dat_state :: "env \<Rightarrow> u32 \<Rightarrow> blob_id \<Rightarrow> parsed_blob \<Rightarrow> string" where
  "dat_state env d b p =
     (let idx = env_index env in
      case find_dat idx d (bf_version (index_blob idx b)) (vm_dat_crc (pb_meta p)) of
        Some i \<Rightarrow> if incomplete (index_dat idx i) then ''incomplete'' else ''ok''
      | None \<Rightarrow> ''MISSING'')"

definition chain_line :: "env \<Rightarrow> u32 \<Rightarrow> blob_id \<Rightarrow> parsed_blob \<Rightarrow> string" where
  "chain_line env d b p =
     (let e = index_blob (env_index env) b;
          prev = (case vm_prev (pb_meta p) of None \<Rightarrow> ''-'' | Some (v, c) \<Rightarrow> show_dec (unat v) @ ''-'' @ hex8 c)
      in ''  v'' @ pad_right 5 (show_dec (unat (bf_version e))) @ '' blob '' @ hex8 (bf_crc e) @
         '' prev '' @ pad_right 16 prev @ '' dat '' @ hex8 (vm_dat_crc (pb_meta p)) @ '' '' @
         pad_right 10 (dat_state env d b p) @ '' manifest app '' @ show_dec (unat (app_id (pb_manifest p))) @
         '' ver '' @ show_dec (unat (version_id (pb_manifest p))) @ '' nodes '' @ show_dec (length (nodes (pb_manifest p))) @
         '' records '' @ show_dec (length (pb_records p)))"

fun list_chain :: "env \<Rightarrow> u32 \<Rightarrow> blob_id list \<Rightarrow> unit inspect_run" where
  "list_chain env d [] = ret ()"
| "list_chain env d (b # bs) =
     abind (on_store (parsed env b)) (\<lambda>p.
     abind (println (chain_line env d b p)) (\<lambda>_.
     list_chain env d bs))"

definition files_of :: "manifest \<Rightarrow> node list" where
  "files_of m = filter (\<lambda>n. \<not> is_dir n) (nodes m)"

definition summary_line :: "string \<Rightarrow> manifest \<Rightarrow> file_table \<Rightarrow> string" where
  "summary_line version m t =
     (let located = filter (\<lambda>n. table_contains t (node_file_id n)) (files_of m);
          readable = filter (\<lambda>n. case table_get t (node_file_id n) of Some l \<Rightarrow> loc_dat l \<noteq> None | None \<Rightarrow> False) (files_of m)
      in ''version '' @ version @ '': '' @ show_dec (length (files_of m)) @ '' files, '' @
         show_dec (length located) @ '' with records, '' @ show_dec (length readable) @ '' with a dat present'')"

fun mode_text :: "mode \<Rightarrow> string" where
  "mode_text Plain = ''Plain''"
| "mode_text Compressed = ''Compressed''"
| "mode_text CompressedEncrypted = ''CompressedEncrypted''"
| "mode_text Encrypted = ''Encrypted''"

definition file_line :: "env \<Rightarrow> string \<Rightarrow> u32 \<Rightarrow> file_loc option \<Rightarrow> string" where
  "file_line env shown f found =
     ''  '' @ shown @ ''  id '' @ show_dec (unat f) @ '' '' @
     (case found of
        None \<Rightarrow> ''NO RECORD''
      | Some loc \<Rightarrow>
          mode_text (fr_mode (loc_record loc)) @ '' '' @ show_dec (unat (fr_size (loc_record loc))) @ '' bytes, '' @
          show_dec (num_blocks (loc_record loc)) @ '' blocks, from v'' @
          show_dec (unat (bf_version (index_blob (env_index env) (loc_source loc)))) @ '' '' @
          (if loc_dat loc \<noteq> None then [] else ''(dat missing)''))"

fun list_files :: "env \<Rightarrow> manifest \<Rightarrow> file_table \<Rightarrow> (nat \<times> node) list \<Rightarrow> unit inspect_run" where
  "list_files env m t [] = ret ()"
| "list_files env m t ((i, n) # rest) =
     (if is_dir n then list_files env m t rest
      else
        case path m (of_nat i) of
          None \<Rightarrow> fail Inspect_hangs
        | Some p \<Rightarrow>
            abind (println (file_line env (from_utf8_lossy p) (node_file_id n) (table_get t (node_file_id n)))) (\<lambda>_.
            list_files env m t rest))"

definition inspect_version :: "env \<Rightarrow> u32 \<Rightarrow> string \<Rightarrow> bool \<Rightarrow> unit inspect_run" where
  "inspect_version env d version list =
     abind (pure (map_err Inspect_error (resolve_version env d version))) (\<lambda>b.
     abind (on_store (chain env b)) (\<lambda>bs.
     abind (println (chain_head (length bs))) (\<lambda>_.
     abind (list_chain env d bs) (\<lambda>_.
     abind (on_store (table env b)) (\<lambda>t.
     abind (on_store (parsed env b)) (\<lambda>p.
     let m = pb_manifest p in
     abind (println (summary_line version m t)) (\<lambda>_.
     if list then list_files env m t (zip [0..<length (nodes m)] (nodes m)) else ret ())))))))"

definition inspect_depot :: "env \<Rightarrow> u32 \<Rightarrow> string option \<Rightarrow> bool \<Rightarrow> unit inspect_run" where
  "inspect_depot env d version list =
     abind (pure (ok_or (Inspect_error (Depot_not_in_dump d)) (index_depot (env_index env) d))) (\<lambda>dep.
     abind (println (depot_line env d dep)) (\<lambda>_.
     case version of
       None \<Rightarrow> list_versions env d (versions dep)
     | Some v \<Rightarrow> inspect_version env d v list))"

definition inspect :: "env \<Rightarrow> u32 \<Rightarrow> string option \<Rightarrow> bool \<Rightarrow> store \<Rightarrow>
    ((command_error + unit) \<times> string list \<times> store) ending" where
  "inspect env d version list s =
     (case inspect_depot env d version list \<lparr>ins_store = s, ins_out = []\<rparr> of
        (Inr _, t) \<Rightarrow> Returned (Inr (), ins_out t, ins_store t)
      | (Inl (Inspect_error e), t) \<Rightarrow> Returned (Inl e, ins_out t, ins_store t)
      | (Inl Inspect_panic, t) \<Rightarrow> Process_ended
      | (Inl Inspect_hangs, t) \<Rightarrow> Still_running)"

end
