(* ===== verification/Inspect_Properties.thy ===== *)
theory Inspect_Properties
  imports Inspect_Command Verify_Properties
begin

text \<open>
  What \<open>inspect\<close> prints is a function of the dump alone, whatever the caches hold: the operations of the
  store are run against their specifications, and the lines are those of the specification.
\<close>

section \<open>Operations of the store\<close>

definition inspectable :: "env \<Rightarrow> (string \<Rightarrow> bytes) \<Rightarrow> store \<Rightarrow> bool" where
  "inspectable env files s \<longleftrightarrow>
     good_dump env files \<and> reliable env \<and> all_intact env files \<and> store_inv env files (located_files env files) s"

lemma parsed_found:
  assumes "inspectable env files s" and "known env b"
  obtains p s' where "parsed env b s = (Inr p, s')" and "parse_of env files b = Inr p" and "inspectable env files s'"
proof -
  note good = assms(1) [unfolded inspectable_def]
  then have parts: "honest env files" "closed_index (env_index env)" "ranked env files" using good_dump_parts by blast+
  have inv: "store_inv env files (located_files env files) s" using good by simp
  obtain r s' where run: "parsed env b s = (r, s')" by fastforce
  have "sat (store_inv env files (located_files env files)) store_frame (parsed env b)
      (\<lambda>r s. \<exists>p. r = Inr p \<and> parse_of env files b = Inr p) s"
    by (rule sat_weaken [OF store_lift_blob [OF sat_parsed [OF parts(1,2) assms(2)]]])
      (use good assms(2) in \<open>auto simp: yields_def all_intact_def split: sum.splits\<close>)
  from satD [OF this inv run] that [of _ s'] run good show ?thesis by (auto simp: inspectable_def)
qed

lemma chain_found:
  assumes "inspectable env files s" and "known env b" and "ancestry env files b bs"
  obtains s' where "chain env b s = (Inr (rev bs), s')" and "inspectable env files s'"
proof -
  note good = assms(1) [unfolded inspectable_def]
  then have parts: "honest env files" "closed_index (env_index env)" "ranked env files" using good_dump_parts by blast+
  have inv: "store_inv env files (located_files env files) s" using good by simp
  obtain r s' where run: "chain env b s = (r, s')" by fastforce
  from satD [OF store_lift_blob [OF sat_chain [OF parts(1,2) assms(2)]] inv run] good
  obtain c where c: "r = Inr c" "complete_chain env files (rev c)" "last c = b"
    and s': "store_inv env files (located_files env files) s'" by (auto split: sum.splits)
  have "hd (rev c) = b" using c(3) by (simp add: hd_rev)
  from complete_ancestry [OF parts(2,3) c(2) this assms(2)] good have "ancestry env files b (rev c)" by blast
  with ancestry_unique [OF assms(3)] have "rev bs = c" by (metis rev_rev_ident)
  with that [of s'] run c(1) s' good show ?thesis by (simp add: inspectable_def)
qed

lemma table_found:
  assumes "inspectable env files s" and "known env b" and "ancestry env files b bs"
  obtains t s' where "table env b s = (Inr t, s')" and "table_get t = newest env files bs" and "inspectable env files s'"
proof -
  note good = assms(1) [unfolded inspectable_def]
  then have parts: "honest env files" "closed_index (env_index env)" "ranked env files" using good_dump_parts by blast+
  have inv: "store_inv env files (located_files env files) s" using good by simp
  obtain r s' where run: "table env b s = (r, s')" by fastforce
  have "sat (store_inv env files (located_files env files)) store_frame (table env b)
      (\<lambda>r s. \<exists>t. r = Inr t \<and> table_get t = newest env files bs) s"
    by (rule sat_weaken [OF store_lift_table [OF sat_table [OF parts(1-3) assms(2)]]])
      (use good layered_get ancestry_unique [OF assms(3)] in
        \<open>auto simp: yields_all_def sound_table_def fun_eq_iff split: sum.splits\<close>)
  from satD [OF this inv run] that [of _ s'] run good show ?thesis by (auto simp: inspectable_def)
qed

section \<open>The loops\<close>

text \<open>A run that succeeds, prints the given lines and leaves a store like the one it found.\<close>

definition prints :: "env \<Rightarrow> (string \<Rightarrow> bytes) \<Rightarrow> unit inspect_run \<Rightarrow> string list \<Rightarrow> bool" where
  "prints env files m ls \<longleftrightarrow>
     (\<forall>s out. inspectable env files s \<longrightarrow>
        (\<exists>s'. inspectable env files s' \<and> m \<lparr>ins_store = s, ins_out = out\<rparr> = (Inr (), \<lparr>ins_store = s', ins_out = out @ ls\<rparr>)))"

lemma printsD:
  assumes "prints env files m ls" and "inspectable env files s"
  obtains s' where "inspectable env files s'"
    and "m \<lparr>ins_store = s, ins_out = out\<rparr> = (Inr (), \<lparr>ins_store = s', ins_out = out @ ls\<rparr>)"
  using assms unfolding prints_def by blast

lemma prints_basic:
  "prints env files (ret ()) []"
  "prints env files (println l) [l]"
  by (simp_all add: prints_def action_simps println_def)

lemma prints_then:
  assumes "prints env files m ls" and "prints env files n ks"
  shows "prints env files (abind m (\<lambda>_. n)) (ls @ ks)"
  unfolding prints_def
proof (intro allI impI)
  fix s out assume "inspectable env files s"
  then obtain s1 where s1: "inspectable env files s1"
    "m \<lparr>ins_store = s, ins_out = out\<rparr> = (Inr (), \<lparr>ins_store = s1, ins_out = out @ ls\<rparr>)"
    by (rule printsD [OF assms(1)])
  obtain s2 where "inspectable env files s2"
    "n \<lparr>ins_store = s1, ins_out = out @ ls\<rparr> = (Inr (), \<lparr>ins_store = s2, ins_out = (out @ ls) @ ks\<rparr>)"
    by (rule printsD [OF assms(2) s1(1)])
  with s1 show "\<exists>s'. inspectable env files s' \<and>
      abind m (\<lambda>_. n) \<lparr>ins_store = s, ins_out = out\<rparr> = (Inr (), \<lparr>ins_store = s', ins_out = out @ ls @ ks\<rparr>)"
    by (simp add: action_simps)
qed

lemma prints_on_store:
  assumes "\<And>s. inspectable env files s \<Longrightarrow> \<exists>x s'. m s = (Inr x, s') \<and> inspectable env files s' \<and> prints env files (f x) ls"
  shows "prints env files (abind (on_store m) f) ls"
  unfolding prints_def
proof (intro allI impI)
  fix s out assume "inspectable env files s"
  with assms obtain x s1 where x: "m s = (Inr x, s1)" "inspectable env files s1" "prints env files (f x) ls" by blast
  obtain s2 where "inspectable env files s2"
    "f x \<lparr>ins_store = s1, ins_out = out\<rparr> = (Inr (), \<lparr>ins_store = s2, ins_out = out @ ls\<rparr>)"
    by (rule printsD [OF x(3,2)])
  with x(1) show "\<exists>s'. inspectable env files s' \<and>
      abind (on_store m) f \<lparr>ins_store = s, ins_out = out\<rparr> = (Inr (), \<lparr>ins_store = s', ins_out = out @ ls\<rparr>)"
    by (simp add: on_store_def action_simps map_err_def)
qed

lemma prints_parsed:
  assumes "known env b" and "\<And>p. parse_of env files b = Inr p \<Longrightarrow> prints env files (f p) ls"
  shows "prints env files (abind (on_store (parsed env b)) f) ls"
  by (rule prints_on_store) (metis assms(2) parsed_found [OF _ assms(1)])

lemma prints_attempt:
  assumes "known env b" and "prints env files (f (ok (parse_of env files b))) ls"
  shows "prints env files (abind (on_store (attempted (parsed env b))) f) ls"
proof (rule prints_on_store)
  fix s assume "inspectable env files s"
  then obtain p s1 where "parsed env b s = (Inr p, s1)" "parse_of env files b = Inr p" "inspectable env files s1"
    by (rule parsed_found [OF _ assms(1)])
  with assms(2) show "\<exists>x s'. attempted (parsed env b) s = (Inr x, s') \<and> inspectable env files s' \<and> prints env files (f x) ls"
    by (simp add: attempted_def ok_def)
qed

lemma prints_walk:
  assumes "known env b" and "ancestry env files b bs" and "prints env files (f (rev bs)) ls"
  shows "prints env files (abind (on_store (chain env b)) f) ls"
  by (rule prints_on_store) (metis assms(3) chain_found [OF _ assms(1,2)])

lemma prints_table:
  assumes "known env b" and "ancestry env files b bs"
    and "\<And>t. table_get t = newest env files bs \<Longrightarrow> prints env files (f t) ls"
  shows "prints env files (abind (on_store (table env b)) f) ls"
  by (rule prints_on_store) (metis assms(3) table_found [OF _ assms(1,2)])

lemma abind_pure: "abind (pure (Inr x)) f = f x"
  by (simp add: action_simps fun_eq_iff)

lemma prints_versions:
  assumes "\<forall>(name, b) \<in> set vs. known env b"
  shows "prints env files (list_versions env d vs) (map (\<lambda>(name, b). version_line env d name b (ok (parse_of env files b))) vs)"
  using assms
proof (induction env d vs rule: list_versions.induct)
  case (2 env d name b vs)
  then have "known env b" by simp
  from prints_attempt [OF this prints_then [OF prints_basic(2) "2.IH"]] "2.prems" show ?case by simp
qed (simp add: prints_basic)

lemma prints_chain:
  assumes "\<forall>b \<in> set bs. known env b"
  shows "prints env files (list_chain env d bs) (map (\<lambda>b. chain_line env d b (projr (parse_of env files b))) bs)"
  using assms
proof (induction env d bs rule: list_chain.induct)
  case (2 env d b bs)
  then have "known env b" by simp
  then show ?case
    unfolding list_chain.simps
  proof (rule prints_parsed)
    fix p assume "parse_of env files b = Inr p"
    with prints_then [OF prints_basic(2) "2.IH"] "2.prems"
    show "prints env files (abind (println (chain_line env d b p)) (\<lambda>_. list_chain env d bs))
        (map (\<lambda>b. chain_line env d b (projr (parse_of env files b))) (b # bs))" by simp
  qed
qed (simp add: prints_basic)

definition shown_path :: "manifest \<Rightarrow> nat \<Rightarrow> string" where
  "shown_path m i = from_utf8_lossy (case path m (of_nat i) of Some p \<Rightarrow> p | None \<Rightarrow> [])"

lemma prints_files:
  assumes "\<forall>(i, n) \<in> set ps. \<not> is_dir n \<longrightarrow> path m (of_nat i) \<noteq> None"
  shows "prints env files (list_files env m t ps)
    (map (\<lambda>(i, n). file_line env (shown_path m i) (node_file_id n) (table_get t (node_file_id n)))
      (filter (\<lambda>(i, n). \<not> is_dir n) ps))"
  using assms
proof (induction env m t ps rule: list_files.induct)
  case (2 env m t i n ps)
  show ?case
  proof (cases "is_dir n")
    case True
    with 2 show ?thesis by simp
  next
    case False
    with "2.prems" obtain p where p: "path m (of_nat i) = Some p" by auto
    from prints_then [OF prints_basic(2) "2.IH"(2) [OF False p]] "2.prems" False p
    show ?thesis by (simp add: shown_path_def)
  qed
qed (simp add: prints_basic)

section \<open>The whole command\<close>

definition version_report ::
  "env \<Rightarrow> (string \<Rightarrow> bytes) \<Rightarrow> u32 \<Rightarrow> string \<Rightarrow> bool \<Rightarrow> depot \<Rightarrow> blob_id list \<Rightarrow> manifest \<Rightarrow> string list" where
  "version_report env files d version list dep bs m =
     [depot_line env d dep, chain_head (length bs)] @
     map (\<lambda>b. chain_line env d b (projr (parse_of env files b))) (rev bs) @
     [summary_line version m (File_table (newest env files bs) None)] @
     (if list
      then map (\<lambda>(i, n). file_line env (shown_path m i) (node_file_id n) (newest env files bs (node_file_id n)))
        (filter (\<lambda>(i, n). \<not> is_dir n) (zip [0..<length (nodes m)] (nodes m)))
      else [])"

lemma flat_table: "table_get (File_table look None) = look"
  by (auto simp: fun_eq_iff split: option.splits)

lemma summary_by_lookup: "table_get t = look \<Longrightarrow> summary_line v m t = summary_line v m (File_table look None)"
  unfolding summary_line_def table_contains_def flat_table by (simp only:)

lemma prints_version:
  assumes good: "good_dump env files"
    and b: "resolve_version env d version = Inr b" "ancestry env files b bs" "manifest_of env files b = Some m"
    and paths: "list \<longrightarrow> (\<forall>(i, n) \<in> set (zip [0..<length (nodes m)] (nodes m)). \<not> is_dir n \<longrightarrow> path m (of_nat i) \<noteq> None)"
  shows "prints env files (inspect_version env d version list) (tl (version_report env files d version list dep bs m))"
proof -
  have b': "known env b" by (rule resolved_known [OF good b(1)])
  have known: "\<forall>b \<in> set (rev bs). known env b"
    using climbs_known [OF good_dump_parts(2) [OF good], of files bs] b(2) b' by (auto simp: ancestry_def)
  let ?f = "if list
      then map (\<lambda>(i, n). file_line env (shown_path m i) (node_file_id n) (newest env files bs (node_file_id n)))
        (filter (\<lambda>(i, n). \<not> is_dir n) (zip [0..<length (nodes m)] (nodes m)))
      else []"
  have listed: "prints env files (if list then list_files env m t (zip [0..<length (nodes m)] (nodes m)) else ret ()) ?f"
    if "table_get t = newest env files bs" for t
    using prints_files [of "zip [0..<length (nodes m)] (nodes m)" m env files t] paths prints_basic(1) that by simp
  have last: "prints env files (abind (println (summary_line version m t)) (\<lambda>_.
      if list then list_files env m t (zip [0..<length (nodes m)] (nodes m)) else ret ()))
      ([summary_line version m (File_table (newest env files bs) None)] @ ?f)" if "table_get t = newest env files bs" for t
    unfolding summary_by_lookup [OF that, symmetric] by (rule prints_then [OF prints_basic(2) listed [OF that]])
  have data: "prints env files (abind (on_store (table env b)) (\<lambda>t. abind (on_store (parsed env b)) (\<lambda>p.
      let m = pb_manifest p in
      abind (println (summary_line version m t)) (\<lambda>_.
      if list then list_files env m t (zip [0..<length (nodes m)] (nodes m)) else ret ()))))
      ([summary_line version m (File_table (newest env files bs) None)] @ ?f)"
  proof (rule prints_table [OF b' b(2)], rule prints_parsed [OF b'])
    fix t p assume "table_get t = newest env files bs" "parse_of env files b = Inr p"
    with last b(3) show "prints env files (let m = pb_manifest p in
      abind (println (summary_line version m t)) (\<lambda>_.
      if list then list_files env m t (zip [0..<length (nodes m)] (nodes m)) else ret ()))
      ([summary_line version m (File_table (newest env files bs) None)] @ ?f)"
      unfolding Let_def by (simp only: manifest_of_def sum.case option.inject)
  qed
  note chained = prints_then [OF prints_basic(2) prints_then [OF prints_chain [OF known] data]]
  have "prints env files (abind (on_store (chain env b)) (\<lambda>bs.
      abind (println (chain_head (length bs))) (\<lambda>_.
      abind (list_chain env d bs) (\<lambda>_.
      abind (on_store (table env b)) (\<lambda>t. abind (on_store (parsed env b)) (\<lambda>p.
      let m = pb_manifest p in
      abind (println (summary_line version m t)) (\<lambda>_.
      if list then list_files env m t (zip [0..<length (nodes m)] (nodes m)) else ret ())))))))
      (tl (version_report env files d version list dep bs m))"
    using chained [of "chain_head (length (rev bs))" d]
    by (intro prints_walk [OF b' b(2)]) (simp only: version_report_def length_rev append_Cons append_Nil list.sel)
  then show ?thesis unfolding inspect_version_def by (simp only: b(1) map_err_simps abind_pure)
qed

lemma inspect_prints:
  assumes "index_depot (env_index env) d = Some dep" and "inspectable env files s"
    and "prints env files (case version of None \<Rightarrow> list_versions env d (versions dep) | Some v \<Rightarrow> inspect_version env d v list) ls"
  shows "\<exists>s'. inspectable env files s' \<and> inspect env d version list s = Returned (Inr (), depot_line env d dep # ls, s')"
proof -
  obtain s' where s': "inspectable env files s'" "abind (println (depot_line env d dep)) (\<lambda>_.
      case version of None \<Rightarrow> list_versions env d (versions dep) | Some v \<Rightarrow> inspect_version env d v list)
      \<lparr>ins_store = s, ins_out = []\<rparr> = (Inr (), \<lparr>ins_store = s', ins_out = [] @ [depot_line env d dep] @ ls\<rparr>)"
    by (rule printsD [OF prints_then [OF prints_basic(2) assms(3)] assms(2)])
  then have "inspect_depot env d version list \<lparr>ins_store = s, ins_out = []\<rparr> =
      (Inr (), \<lparr>ins_store = s', ins_out = depot_line env d dep # ls\<rparr>)"
    unfolding inspect_depot_def assms(1) by (simp only: ok_or_simps abind_pure append_Cons append_Nil)
  with s'(1) show ?thesis unfolding inspect_def by simp
qed

text \<open>
  C21: what \<open>inspect\<close> prints of a version is what the dump has.  On a good dump it succeeds, and its lines
  are the depot, the chain from the root to the version, the numbers of files, of files with a record
  and of files whose dat is there, and, if asked, one line per file with its newest record on the
  chain or none, whatever the caches of the store held.
\<close>

theorem inspect_version_exact:
  assumes "inspectable env files s" and "index_depot (env_index env) d = Some dep"
    and "resolve_version env d version = Inr b" and "ancestry env files b bs" and "manifest_of env files b = Some m"
    and "list \<longrightarrow> (\<forall>(i, n) \<in> set (zip [0..<length (nodes m)] (nodes m)). \<not> is_dir n \<longrightarrow> path m (of_nat i) \<noteq> None)"
  shows "\<exists>s'. inspectable env files s' \<and>
    inspect env d (Some version) list s = Returned (Inr (), version_report env files d version list dep bs m, s')"
proof -
  have good: "good_dump env files" using assms(1) by (simp add: inspectable_def)
  have "depot_line env d dep # tl (version_report env files d version list dep bs m) = version_report env files d version list dep bs m"
    by (simp add: version_report_def)
  with inspect_prints [OF assms(2,1), where version = "Some version" and list = list] prints_version [OF good assms(3-6)] show ?thesis
    by (metis option.case(2))
qed

text \<open>The versions of a depot, each with its date and its dat.\<close>

theorem inspect_depot_exact:
  assumes "inspectable env files s" and "index_depot (env_index env) d = Some dep"
  shows "\<exists>s'. inspectable env files s' \<and> inspect env d None list s =
    Returned (Inr (), depot_line env d dep #
      map (\<lambda>(name, b). version_line env d name b (ok (parse_of env files b))) (versions dep), s')"
proof -
  have "closed_index (env_index env)" using assms(1) good_dump_parts(2) by (auto simp: inspectable_def)
  from depot_blob_known(1) [OF this assms(2)] have "\<forall>(name, b) \<in> set (versions dep). known env b"
    using versions_blobs by blast
  from inspect_prints [OF assms(2,1), where version = None and list = list, unfolded option.case, OF prints_versions [OF this]] show ?thesis .
qed

theorem inspect_version_exact_witness:
  "\<exists>dep s'. inspect dump_env 7 (Some (dump_version 1)) True dump_store =
     Returned (Inr (), version_report dump_env dump_file 7 (dump_version 1) True dep [1, 0] sample_manifest, s')"
proof -
  from dump_depot obtain dep where dep: "index_depot (env_index dump_env) 7 = Some dep" by auto
  have s: "inspectable dump_env dump_file dump_store"
    using dump_good dump_reliable dump_intact dump_store_inv by (simp add: inspectable_def)
  have "\<forall>(i, n) \<in> set (zip [0..<length (nodes sample_manifest)] (nodes sample_manifest)).
      \<not> is_dir n \<longrightarrow> path sample_manifest (of_nat i) \<noteq> None"
    using sample_paths by (simp add: sample_nodes_eq sample_nodes_def upt_rec is_dir_def NO_FILE_def)
  from inspect_version_exact [OF s dep dump_resolves [OF dump_known(2)] dump_ancestry dump_manifest_of(2), of True] this
  show ?thesis by blast
qed

end
