(* ===== verification/Open_Store.thy ===== *)
theory Open_Store
  imports Ssh_Connect Tree_Names
begin

text \<open>
  From the command line to a store (\<open>src/main.rs\<close>, \<open>SourceArgs\<close>, \<open>default_cache_dir\<close> and \<open>open_store\<close>, and
  \<open>open\<close> of \<open>src/backend/mod.rs\<close>): the backend of the source, its index, the keys in the order they are given,
  the cache directory and the sizes of the caches.  The process's environment, the operating system and
  the network are parameters.
\<close>

section \<open>Definitions\<close>

record source_args =
  arg_source :: string
  cache_dir :: "string option"
  no_blob_cache :: bool
  arg_keys :: "string list"
  keys_file :: "string option"
  no_verify :: bool
  no_key_search :: bool
  raw_cache_mb :: u64
  block_cache_mb :: u64

text \<open>
  What surrounds the process.  \<open>pr_over_time\<close> is what an open session answers to the \<open>n\<close>-th request of the
  store; \<open>pr_order\<close> are the overrides of a key store in the order in which its maps are iterated.
\<close>

record 's process =
  pr_var :: "string \<Rightarrow> string option"
  pr_exists :: "string \<Rightarrow> bool"
  pr_os :: os_view
  pr_read_text :: "string \<Rightarrow> string + string"
  pr_make_dirs :: "string \<Rightarrow> string + unit"
  pr_ssh :: "'s ssh_world"
  pr_net :: 's
  pr_handle_lru :: "(string, string) lru_ops"
  pr_over_time :: "'s sftp_backend \<Rightarrow> 's sftp_state \<Rightarrow> nat \<Rightarrow> backend"
  pr_hexd :: "string \<Rightarrow> bytes option"
  pr_order :: "key_store \<Rightarrow> ((u32 \<times> u32) \<times> key) list \<times> (u32 \<times> key) list"
  pr_libs :: env
  pr_cached :: disk

datatype open_error =
    Local_failed backend_error
  | Sftp_failed connect_error
  | Indexing index_error
  | Loading_keys string key_error
  | Bad_key key_error
  | No_cache_directory
  | Creating string string

definition backend_open :: "'s process \<Rightarrow> source \<Rightarrow> open_error + (nat \<Rightarrow> backend)" where
  "backend_open p src =
     (case src of
        Local base_dir \<Rightarrow> rbind (map_err Local_failed (local_new (pr_os p) base_dir)) (\<lambda>r. Inr (\<lambda>t. local_backend (pr_os p) r))
      | Sftp destination base_dir \<Rightarrow>
          rbind (map_err Sftp_failed (fst (connect (pr_ssh p) (pr_handle_lru p) destination base_dir (pr_net p))))
            (\<lambda>(b, st). Inr (pr_over_time p b st)))"

definition default_cache_dir :: "'s process \<Rightarrow> open_error + string" where
  "default_cache_dir p =
     (let var = pr_var p;
          home = (case var ''HOME'' of Some h \<Rightarrow> Some h | None \<Rightarrow> var ''USERPROFILE'');
          base =
            (case var ''XDG_CACHE_HOME'' of
               Some d \<Rightarrow> Some d
             | None \<Rightarrow>
                 (case var ''LOCALAPPDATA'' of
                    Some d \<Rightarrow> Some d
                  | None \<Rightarrow> map_option (\<lambda>h. path_join h ''.cache'') home))
      in rbind (ok_or No_cache_directory base) (\<lambda>b. Inr (path_join (path_join b ''steam2fs'') ''blobs'')))"

text \<open>The specifications of the command line, one after the other.\<close>

fun insert_specs :: "(string \<Rightarrow> bytes option) \<Rightarrow> string list \<Rightarrow> key_store \<Rightarrow> open_error + key_store" where
  "insert_specs hexd [] ks = Inr ks"
| "insert_specs hexd (spec # specs) ks =
     rbind (map_err Bad_key (insert_spec hexd spec ks)) (\<lambda>ks'. insert_specs hexd specs ks')"

definition load_keys :: "'s process \<Rightarrow> source_args \<Rightarrow> open_error + key_store" where
  "load_keys p args =
     rbind (case keys_file args of
         None \<Rightarrow> Inr key_store_new
       | Some f \<Rightarrow>
           (case load_file (pr_hexd p) (pr_read_text p f) key_store_new of
              (None, ks) \<Rightarrow> Inr ks
            | (Some e, ks) \<Rightarrow> Inl (Loading_keys f e)))
       (\<lambda>ks. insert_specs (pr_hexd p) (arg_keys args) ks)"

definition blob_cache :: "'s process \<Rightarrow> source_args \<Rightarrow> open_error + string option" where
  "blob_cache p args =
     rbind (if no_blob_cache args then Inr None
        else
          rbind (case cache_dir args of Some d \<Rightarrow> Inr d | None \<Rightarrow> default_cache_dir p) (\<lambda>d. Inr (Some d)))
       (\<lambda>dir.
       case dir of
         None \<Rightarrow> Inr None
       | Some d \<Rightarrow> rbind (map_err (Creating d) (pr_make_dirs p d)) (\<lambda>_. Inr (Some d)))"

definition config_of :: "source_args \<Rightarrow> string option \<Rightarrow> store_config" where
  "config_of args dir =
     \<lparr>blob_cache_dir = dir, raw_cache_bytes = push_bit 20 (raw_cache_mb args),
      block_cache_bytes = push_bit 20 (block_cache_mb args),
      verify = \<not> no_verify args, key_search = \<not> no_key_search args\<rparr>"

text \<open>
  Opening a store: the store, an error, or None where the process ends, as it does when a date of the
  dump overflows the clock.
\<close>

definition open_store :: "'s process \<Rightarrow> source_args \<Rightarrow> (open_error + env \<times> store) option" where
  "open_store p args =
     (case backend_open p (parse_source (pr_exists p) (arg_source args)) of
        Inl e \<Rightarrow> Some (Inl e)
      | Inr be \<Rightarrow>
          (case index_load (be 0) of
             Inl Clock_overflow \<Rightarrow> None
           | Inl (Listing d e) \<Rightarrow> Some (Inl (Indexing (Listing d e)))
           | Inr idx \<Rightarrow>
               Some (rbind (load_keys p args) (\<lambda>ks.
                 rbind (blob_cache p args) (\<lambda>dir.
                   let env = (pr_libs p)\<lparr>env_backend := be, env_index := idx, env_keys := ks,
                         env_blob_keys := fst (pr_order p ks), env_depot_keys := snd (pr_order p ks),
                         env_cfg := config_of args dir\<rparr>
                   in Inr (env, store_new env (pr_cached p)))))))"

section \<open>Cache sizes\<close>

lemma cache_bytes:
  "unat (push_bit 20 (mb :: u64)) = unat mb * 1048576 mod 18446744073709551616"
  by (simp add: push_bit_eq_mult unat_word_ariths)

text \<open>
  C25: the sizes of the caches.  A size in MiB below \<open>2 ^ 44\<close> is exact, and every larger one wraps round:
  \<open>2 ^ 44\<close> MiB is a cache of no bytes, which keeps nothing but empty values.
\<close>

theorem cache_size_wraps:
  "(unat (raw_cache_mb args) < 17592186044416 \<longrightarrow>
      unat (raw_cache_bytes (config_of args dir)) = unat (raw_cache_mb args) * 1048576) \<and>
   (unat (raw_cache_bytes (config_of args dir)) = unat (raw_cache_mb args) mod 17592186044416 * 1048576) \<and>
   (raw_cache_mb args = 17592186044416 \<longrightarrow> v \<noteq> [] \<longrightarrow>
      byte_lru_insert ops k v (byte_lru_new (raw_cache_bytes (config_of args dir))) =
      byte_lru_new (raw_cache_bytes (config_of args dir)))"
proof -
  have "unat (raw_cache_mb args) * 1048576 mod (17592186044416 * 1048576) = unat (raw_cache_mb args) mod 17592186044416 * 1048576"
    by (rule mult_mod_left [symmetric])
  then have wrap: "unat (raw_cache_bytes (config_of args dir)) = unat (raw_cache_mb args) mod 17592186044416 * 1048576"
    by (simp add: config_of_def cache_bytes)
  then have keeps: "unat (capacity (byte_lru_new (raw_cache_bytes (config_of args dir)))) < length v"
    if "raw_cache_mb args = 17592186044416" "v \<noteq> []"
    using that by (simp add: byte_lru_new_def)
  have "byte_lru_insert ops k v (byte_lru_new (raw_cache_bytes (config_of args dir))) =
      byte_lru_new (raw_cache_bytes (config_of args dir))" if "raw_cache_mb args = 17592186044416" "v \<noteq> []"
    unfolding byte_lru_insert_def if_P [OF keeps [OF that]] ..
  with wrap show ?thesis by simp
qed

definition wide_args :: "u64 \<Rightarrow> source_args" where
  "wide_args mb =
     \<lparr>arg_source = ''d'', cache_dir = None, no_blob_cache = True, arg_keys = [], keys_file = None, no_verify = False,
      no_key_search = False, raw_cache_mb = mb, block_cache_mb = mb\<rparr>"

theorem cache_size_wraps_witness:
  "unat (raw_cache_bytes (config_of (wide_args 256) None)) = 268435456 \<and>
   byte_lru_insert list_lru (0 :: nat) [1] (byte_lru_new (raw_cache_bytes (config_of (wide_args 17592186044416) None))) =
     byte_lru_new (raw_cache_bytes (config_of (wide_args 17592186044416) None))"
  using cache_size_wraps [of "wide_args 256" None "[]"]
    cache_size_wraps [of "wide_args 17592186044416" None "[1]" list_lru "0 :: nat"]
  by (simp add: wide_args_def)

section \<open>The order of the keys\<close>

lemma insert_specs_append:
  "insert_specs hexd (xs @ ys) ks = rbind (insert_specs hexd xs ks) (\<lambda>ks'. insert_specs hexd ys ks')"
  by (induction xs arbitrary: ks) (auto simp: rbind_def split: sum.splits)

section \<open>The store that is opened\<close>

text \<open>The files of a directory.\<close>

definition dir_files :: "os_view \<Rightarrow> string \<Rightarrow> string \<Rightarrow> bytes" where
  "dir_files os base_dir rel = (case os_open os (local_path base_dir rel) of Inr c \<Rightarrow> c | Inl _ \<Rightarrow> [])"

lemma local_honest:
  assumes "pread_documented os" and "env_backend env = (\<lambda>t. local_backend os base_dir)"
  shows "honest env (dir_files os base_dir)"
  unfolding honest_def
proof (intro allI, unfold_locales)
  fix t p c off n b
  assume c: "Some (dir_files os base_dir p) = Some c"
  show "b = take n (drop (unat off) c)" if run: "be_read_at (env_backend env t) p off n = Inr b"
  proof -
    have "local_read_at os base_dir p off n = Inr b" using run by (simp add: assms(2) local_backend_def)
    moreover from this c have "ok (os_open os (local_path base_dir p)) = Some c"
      by (cases "os_open os (local_path base_dir p)") (simp_all add: local_read_at_def dir_files_def ok_def)
    ultimately show ?thesis using local.read_at_range assms(1) by blast
  qed
  show "b = c" if "be_read_all (env_backend env t) p = Inr b"
    using that c by (simp add: assms(2) local_backend_def local_read_all_def dir_files_def)
qed

definition libs_documented :: "env \<Rightarrow> bool" where
  "libs_documented env \<longleftrightarrow>
     lru_documented (env_parsed_lru env) \<and> lru_documented (env_table_lru env) \<and> lru_documented (env_byte_lru env)"

lemma fresh_store:
  assumes "libs_documented env" and "rot_shows env files d"
    and "unat (raw_cache_bytes (env_cfg env)) < 9223372036854775808"
    and "unat (block_cache_bytes (env_cfg env)) < 9223372036854775808"
  shows "store_inv env files L (store_new env d)"
proof -
  have "blob_inv env files (store_new env d)"
    using assms(1,2) by (simp add: blob_inv_def store_new_def lru_inv_def lru_new_def libs_documented_def)
  then show ?thesis
    using assms byte_lru_new_inv [of "env_byte_lru env"]
    by (simp add: store_inv_def table_inv_def data_inv_def store_new_def lru_inv_def lru_new_def libs_documented_def
        byte_lru_new_def lru_unbounded_def)
qed

lemma opened_parts:
  assumes "open_store p args = Some (Inr (env, s))"
  obtains be idx ks dir where "backend_open p (parse_source (pr_exists p) (arg_source args)) = Inr be"
    and "index_load (be 0) = Inr idx" and "load_keys p args = Inr ks" and "blob_cache p args = Inr dir"
    and "env = (pr_libs p)\<lparr>env_backend := be, env_index := idx, env_keys := ks, env_blob_keys := fst (pr_order p ks),
      env_depot_keys := snd (pr_order p ks), env_cfg := config_of args dir\<rparr>"
    and "s = store_new env (pr_cached p)"
  using assms
  by (auto simp: open_store_def rbind_Inr_iff Let_def split: sum.splits index_error.splits)

lemma opened_store_inv:
  assumes "open_store p args = Some (Inr (env, s))" and "libs_documented (pr_libs p)"
    and "unat (raw_cache_mb args) < 8796093022208" and "unat (block_cache_mb args) < 8796093022208"
    and "rot_shows env files (pr_cached p)"
  shows "store_inv env files L s"
proof -
  obtain be idx ks dir where
    env: "env = (pr_libs p)\<lparr>env_backend := be, env_index := idx, env_keys := ks, env_blob_keys := fst (pr_order p ks),
      env_depot_keys := snd (pr_order p ks), env_cfg := config_of args dir\<rparr>"
    and s: "s = store_new env (pr_cached p)"
    by (rule opened_parts [OF assms(1)])
  have "unat (raw_cache_bytes (env_cfg env)) < 9223372036854775808" "unat (block_cache_bytes (env_cfg env)) < 9223372036854775808"
    using assms(3,4) by (simp_all add: env config_of_def cache_bytes)
  then show ?thesis
    unfolding s using assms(2,5) by (intro fresh_store) (simp_all add: env libs_documented_def)
qed

end
