(* ===== verification/Open_Properties.thy ===== *)
theory Open_Properties
  imports Open_Store Sample_Dump
begin

text \<open>
  What the commands can rely on when a store has been opened.  The witnesses open the small dump as a directory of an operating system that hands out one byte at a time, and as what a server has.
\<close>

section \<open>Properties\<close>

text \<open>
  The command line has the last word.  A key given last on the command line for a depot is the key
  that the store uses for the depot, whatever the keys file, the earlier specifications and the built-in
  table say.
\<close>

theorem last_key_wins:
  assumes "hex_decodes (pr_hexd p)" and "length k = 16" and "arg_keys args = specs @ [depot_spec d k]"
    and "load_keys p args = Inr ks"
  shows "key_get ks d = Some k"
proof -
  from assms(3,4) obtain ks1 where "insert_specs (pr_hexd p) [depot_spec d k] ks1 = Inr ks"
    by (auto simp: load_keys_def insert_specs_append rbind_Inr_iff)
  then have "ks = key_insert d k ks1" by (simp add: insert_spec_depot [OF assms(1,2)])
  then show ?thesis by (simp add: key_get_def key_insert_def)
qed

text \<open>
  C22: an opened store is ready.  When the source is a directory and opening it succeeds, the backend
  reads the files of that directory, the index is closed, and the caches of the store, the directory of
  cached blobs included, hold nothing but what the directory has, provided that damage to a cached blob
  shows.
\<close>

theorem opened_store_ready:
  assumes "open_store p args = Some (Inr (env, s))" and "parse_source (pr_exists p) (arg_source args) = Local dir"
    and "local_new (pr_os p) dir = Inr base_dir" and "pread_documented (pr_os p)" and "libs_documented (pr_libs p)"
    and "length (blobs (env_index env)) < 4294967296"
    and "unat (raw_cache_mb args) < 8796093022208" and "unat (block_cache_mb args) < 8796093022208"
    and "rot_shows env (dir_files (pr_os p) base_dir) (pr_cached p)"
  shows "honest env (dir_files (pr_os p) base_dir) \<and> closed_index (env_index env) \<and>
    store_inv env (dir_files (pr_os p) base_dir) L s \<and> (verify (env_cfg env) \<longleftrightarrow> \<not> no_verify args)"
proof -
  obtain be idx ks cached where be: "backend_open p (parse_source (pr_exists p) (arg_source args)) = Inr be"
    and idx: "index_load (be 0) = Inr idx"
    and env: "env = (pr_libs p)\<lparr>env_backend := be, env_index := idx, env_keys := ks, env_blob_keys := fst (pr_order p ks),
      env_depot_keys := snd (pr_order p ks), env_cfg := config_of args cached\<rparr>"
    and s: "s = store_new env (pr_cached p)"
    by (rule opened_parts [OF assms(1)])
  have "be = (\<lambda>t. local_backend (pr_os p) base_dir)" using be by (simp add: assms(2,3) backend_open_def)
  then have "honest env (dir_files (pr_os p) base_dir)" by (intro local_honest [OF assms(4)]) (simp add: env)
  moreover have "closed_index (env_index env)" using index_load_closed [OF idx] assms(6) by (simp add: env)
  moreover have "store_inv env (dir_files (pr_os p) base_dir) L s" by (rule opened_store_inv [OF assms(1,5,7,8,9)])
  ultimately show ?thesis by (simp add: env config_of_def)
qed

section \<open>A process\<close>

definition dump_meta :: "string \<Rightarrow> string \<Rightarrow> backend_error + (bytes \<times> (backend_error + os_meta))" where
  "dump_meta dir n =
     Inr (as_bytes n, Inr \<lparr>om_size = of_nat (length (dump_file (dir @ n))), om_is_dir = False, om_is_symlink = False\<rparr>)"

definition dump_os :: os_view where
  "dump_os =
     \<lparr>os_readdir = (\<lambda>p.
        if p = ''/d/blobs'' then Inr [dump_meta ''blobs/'' (file_stem 7 0 0xaa ''x'' @ ''.blob''),
          dump_meta ''blobs/'' (file_stem 7 1 0xbb ''x'' @ ''.blob'')]
        else Inr [dump_meta ''dats/'' (file_stem 7 0 0xd0 ''x'' @ ''.dat''),
          dump_meta ''dats/'' (file_stem 7 1 0xd1 ''x'' @ ''.dat'')]),
      os_stat = (\<lambda>_. Inl ''none''),
      os_open = (\<lambda>p. if p = ''/d/blobs_dates.txt'' then Inl ''none'' else Inr (dump_file (drop 3 p))),
      os_canonicalize = Inr, os_is_dir = (\<lambda>_. True),
      os_pread = (\<lambda>c off n. Inr (take (min n 1) (drop (unat off) c)))\<rparr>"

definition dump_process :: "(string \<Rightarrow> bool) \<Rightarrow> nat process" where
  "dump_process exists =
     \<lparr>pr_var = Map.empty, pr_exists = exists, pr_os = dump_os, pr_read_text = (\<lambda>_. Inl ''none''),
      pr_make_dirs = (\<lambda>_. Inr ()), pr_ssh = small_world (Matches True) (Inr []), pr_net = 0,
      pr_handle_lru = list_lru, pr_over_time = (\<lambda>_ _ _. dump_backend), pr_hexd = unhex,
      pr_order = (\<lambda>ks. ([], [(7, dump_key)])), pr_libs = dump_env, pr_cached = Map.empty\<rparr>"

definition dump_args :: "string \<Rightarrow> source_args" where
  "dump_args src =
     \<lparr>arg_source = src, cache_dir = Some ''/cache'', no_blob_cache = False, arg_keys = [depot_spec 7 dump_key],
      keys_file = None, no_verify = False, no_key_search = False, raw_cache_mb = 64, block_cache_mb = 64\<rparr>"

lemma dump_load_keys: "load_keys (dump_process ex) (dump_args src) = Inr (key_insert 7 dump_key key_store_new)"
  by (simp add: load_keys_def dump_process_def dump_args_def insert_spec_depot [OF unhex_decodes] dump_key_def)

lemma dump_blob_cache: "blob_cache (dump_process ex) (dump_args src) = Inr (Some ''/cache'')"
  by (simp add: blob_cache_def dump_process_def dump_args_def)

lemma dump_config: "config_of (dump_args src) (Some ''/cache'') = dump_cfg"
  by (simp add: config_of_def dump_args_def dump_cfg_def push_bit_eq_mult)

lemma dump_libs: "libs_documented dump_env"
  by (simp add: libs_documented_def list_lru_documented)

section \<open>From a directory\<close>

lemma dump_listed:
  "list_entries dump_os dir [dump_meta d (file_stem 7 v c ''x'' @ e), dump_meta d (file_stem 7 v' c' ''x'' @ e)] =
     Inr [dump_entry d (file_stem 7 v c ''x'' @ e), dump_entry d (file_stem 7 v' c' ''x'' @ e)]" if "ascii e"
proof -
  have "ascii (file_stem 7 v c ''x'' @ e)" for v c using that by (simp add: file_stem_def ascii_def [of "[]"])
  then have "from_utf8_lossy (as_bytes (file_stem 7 v c ''x'' @ e)) = file_stem 7 v c ''x'' @ e" for v c
    using lossy_name by blast
  then show ?thesis by (simp add: dump_meta_def dump_entry_def)
qed

lemma dump_dir_load: "index_load (local_backend dump_os ''/d'') = Inr dump_index"
proof -
  let ?b = "local_backend dump_os ''/d''"
  have path: "local_path ''/d'' (c # cs) = ''/d/'' @ c # cs" if "c \<noteq> CHR ''/''" for c cs
    using that by (simp add: local_path_def path_join_def)
  have e: "ascii ''.blob''" "ascii ''.dat''" by (simp_all add: ascii_def)
  have at: "local_path ''/d'' ''blobs'' = ''/d/blobs''" "local_path ''/d'' ''dats'' = ''/d/dats''" by (simp_all add: path)
  have l: "be_list_dir ?b rel = rbind (os_readdir dump_os (local_path ''/d'' rel)) (list_entries dump_os (local_path ''/d'' rel))" for rel
    by (simp add: local_backend_def local_list_dir_def Let_def)
  have "os_readdir dump_os ''/d/blobs'' = Inr [dump_meta ''blobs/'' (file_stem 7 0 0xaa ''x'' @ ''.blob''),
      dump_meta ''blobs/'' (file_stem 7 1 0xbb ''x'' @ ''.blob'')]"
    "os_readdir dump_os ''/d/dats'' = Inr [dump_meta ''dats/'' (file_stem 7 0 0xd0 ''x'' @ ''.dat''),
      dump_meta ''dats/'' (file_stem 7 1 0xd1 ''x'' @ ''.dat'')]" by (simp_all add: dump_os_def)
  then have "be_list_dir ?b ''blobs'' = be_list_dir dump_backend ''blobs''" "be_list_dir ?b ''dats'' = be_list_dir dump_backend ''dats''"
    unfolding l at by (simp_all only: rbind_simps dump_listed [OF e(1)] dump_listed [OF e(2)]) (simp_all add: dump_backend_def)
  moreover have "be_read_all ?b ''blobs_dates.txt'' = be_read_all dump_backend ''blobs_dates.txt''"
    by (simp add: local_backend_def local_read_all_def path dump_backend_def dump_os_def)
  ultimately have "index_load ?b = index_load dump_backend" by (simp add: index_load_def load_dates_def)
  then show ?thesis by (simp add: dump_load)
qed

lemma dump_dir_opens:
  "open_store (dump_process (\<lambda>_. True)) (dump_args ''/d'') =
     Some (Inr (dump_env\<lparr>env_backend := \<lambda>t. local_backend dump_os ''/d''\<rparr>,
       store_new (dump_env\<lparr>env_backend := \<lambda>t. local_backend dump_os ''/d''\<rparr>) Map.empty))"
proof -
  have "backend_open (dump_process (\<lambda>_. True)) (parse_source (pr_exists (dump_process (\<lambda>_. True))) (arg_source (dump_args ''/d''))) =
      Inr (\<lambda>t. local_backend dump_os ''/d'')"
    by (simp add: backend_open_def parse_source_def dump_process_def dump_args_def local_new_def dump_os_def)
  moreover have "dump_env\<lparr>env_backend := be, env_index := dump_index, env_keys := key_insert 7 dump_key key_store_new,
      env_blob_keys := [], env_depot_keys := [(7, dump_key)], env_cfg := dump_cfg\<rparr> = dump_env\<lparr>env_backend := be\<rparr>" for be
    by (simp add: dump_env_def)
  ultimately show ?thesis
    by (simp add: open_store_def dump_dir_load dump_load_keys dump_blob_cache dump_config Let_def)
      (simp add: dump_process_def)
qed

lemma dump_os_documented: "pread_documented dump_os"
proof -
  have "take (min n 1) xs = take 1 (take n xs)" for n and xs :: bytes by (simp only: take_take min.commute)
  then have "prefix (take (min n 1) xs) (take n xs)" for n and xs :: bytes by (simp only: take_is_prefix)
  moreover have "length (dump_file p) < 18446744073709551616" for p
    using dump_sizes by (simp add: dump_file_def dat_0_def dat_1_def)
  ultimately show ?thesis by (auto simp: pread_documented_def dump_os_def)
qed

theorem opened_store_ready_witness:
  "honest (dump_env\<lparr>env_backend := \<lambda>t. local_backend dump_os ''/d''\<rparr>) (dir_files dump_os ''/d'') \<and>
   store_inv (dump_env\<lparr>env_backend := \<lambda>t. local_backend dump_os ''/d''\<rparr>) (dir_files dump_os ''/d'') {}
     (store_new (dump_env\<lparr>env_backend := \<lambda>t. local_backend dump_os ''/d''\<rparr>) Map.empty)"
proof -
  have "parse_source (pr_exists (dump_process (\<lambda>_. True))) (arg_source (dump_args ''/d'')) = Local ''/d''"
    "local_new (pr_os (dump_process (\<lambda>_. True))) ''/d'' = Inr ''/d''" "pr_os (dump_process (\<lambda>_. True)) = dump_os"
    by (simp_all add: parse_source_def dump_process_def dump_args_def local_new_def dump_os_def)
  from opened_store_ready [OF dump_dir_opens this(1,2), unfolded this(3), OF dump_os_documented] show ?thesis
    by (simp add: dump_process_def dump_libs dump_args_def dump_index_parts rot_shows_def)
qed

theorem last_key_wins_witness: "key_get (key_insert 7 dump_key key_store_new) 7 = Some dump_key"
  using last_key_wins [of "dump_process (\<lambda>_. True)" dump_key "dump_args ''/d''" "[]" 7, OF _ _ _ dump_load_keys]
  by (simp add: dump_process_def dump_args_def unhex_decodes dump_key_def)

end
