(* ===== verification/Main_Command.thy ===== *)
theory Main_Command
  imports Open_Store Inspect_Command Audit_Command Fuse_Fs
begin

text \<open>
  The commands of the program (\<open>src/main.rs\<close>, \<open>Command\<close>, \<open>mount\<close> and \<open>main\<close>): each opens a store and hands it
  on.  The command line is parsed already; the FUSE session, which \<open>fuser\<close> runs until the file system is
  unmounted, is a parameter, as are the schedule of the workers and the files that \<open>key_audit\<close> appends to.
\<close>

section \<open>Definitions\<close>

datatype command =
    Mount source_args string bool nat
  | Inspect source_args u32 "string option" bool
  | Verify source_args u32 string nat
  | Key_audit source_args "u32 option" string nat

datatype mount_option =
    Read_only
  | Fs_name string
  | Subtype string
  | Default_permissions

record fuse_config =
  mount_options :: "mount_option list"
  acl_all :: bool
  n_threads :: nat

definition mount_config :: "bool \<Rightarrow> nat \<Rightarrow> fuse_config" where
  "mount_config allow_other ts =
     \<lparr>mount_options = [Read_only, Fs_name ''steam2fs'', Subtype ''steam2fs'', Default_permissions],
      acl_all = allow_other, n_threads = ts\<rparr>"

record 's outside =
  ou_process :: "'s process"
  ou_ids :: "u32 \<times> u32"
  ou_session :: "fuse_config \<Rightarrow> string \<Rightarrow> env \<Rightarrow> fs \<Rightarrow> string + unit"
  ou_explain :: "read_error \<Rightarrow> string"
  ou_output :: "string \<Rightarrow> string + string"
  ou_torn :: "nat \<Rightarrow> nat option"
  ou_sched :: "nat list"

datatype main_error =
    Open_failed open_error
  | Mount_failed string
  | Command_failed command_error
  | Audit_failed audit_error

datatype printed =
    Nothing
  | Inspected "string list"
  | Verified "verify_summary option"
  | Audited audit_summary "string option"

definition mount :: "'s outside \<Rightarrow> env \<Rightarrow> store \<Rightarrow> string \<Rightarrow> bool \<Rightarrow> nat \<Rightarrow> string + unit" where
  "mount w env s mountpoint allow_other ts =
     ou_session w (mount_config allow_other ts) mountpoint env (fs_new s (fst (ou_ids w)) (snd (ou_ids w)))"

fun command_source :: "command \<Rightarrow> source_args" where
  "command_source (Mount src mountpoint allow_other ts) = src"
| "command_source (Inspect src d version list) = src"
| "command_source (Verify src d version jobs) = src"
| "command_source (Key_audit src d out jobs) = src"

fun dispatch :: "'s outside \<Rightarrow> env \<Rightarrow> store \<Rightarrow> command \<Rightarrow> ((main_error + unit) \<times> printed) ending" where
  "dispatch w env s (Mount src mountpoint allow_other ts) =
     Returned (map_err Mount_failed (mount w env s mountpoint allow_other (max ts 1)), Nothing)"
| "dispatch w env s (Inspect src d version list) =
     (case inspect env d version list s of
        Returned (r, ls, st) \<Rightarrow> Returned (map_err Command_failed r, Inspected ls)
      | Process_ended \<Rightarrow> Process_ended
      | Still_running \<Rightarrow> Still_running)"
| "dispatch w env s (Verify src d version jobs) =
     (case verify_version env d version jobs (ou_sched w) s of
        Returned (r, v, st) \<Rightarrow> Returned (map_err Command_failed r, Verified v)
      | Process_ended \<Rightarrow> Process_ended
      | Still_running \<Rightarrow> Still_running)"
| "dispatch w env s (Key_audit src d out jobs) =
     (case key_audit (ou_explain w) env d (ou_output w out) (ou_torn w) jobs (ou_sched w) s of
        Returned (r, a, text, st) \<Rightarrow> Returned (map_err Audit_failed r, Audited a text)
      | Process_ended \<Rightarrow> Process_ended
      | Still_running \<Rightarrow> Still_running)"

definition main :: "'s outside \<Rightarrow> command \<Rightarrow> ((main_error + unit) \<times> printed) ending" where
  "main w c =
     (case open_store (ou_process w) (command_source c) of
        None \<Rightarrow> Process_ended
      | Some (Inl e) \<Rightarrow> Returned (Inl (Open_failed e), Nothing)
      | Some (Inr (env, s)) \<Rightarrow> dispatch w env s c)"

end
