(* ===== verification/Main_Properties.thy ===== *)
theory Main_Properties
  imports Main_Command Inspect_Properties Audit_Properties Open_Properties
begin

text \<open>
  The commands on an opened store: each of them comes to an end, whatever it is asked for.
\<close>

section \<open>Every command returns\<close>

text \<open>The paths of all files end at a root; a manifest whose parents form a cycle has none.\<close>

definition paths_end :: "env \<Rightarrow> (string \<Rightarrow> bytes) \<Rightarrow> bool" where
  "paths_end env files \<longleftrightarrow>
     (\<forall>b m. known env b \<longrightarrow> manifest_of env files b = Some m \<longrightarrow> (\<forall>node \<in> set (file_nodes m). path m node \<noteq> None))"

lemma resolved_facts:
  assumes "inspectable env files s" and "resolve_version env d version = Inr b"
  obtains bs m where "known env b" and "ancestry env files b bs" and "manifest_of env files b = Some m"
proof -
  note good = assms(1) [unfolded inspectable_def]
  then have parts: "honest env files" "closed_index (env_index env)" "ranked env files" using good_dump_parts by blast+
  have b: "known env b" using resolved_known assms(2) good by blast
  obtain r s' where run: "chain env b s = (r, s')" by fastforce
  have inv: "store_inv env files (located_files env files) s" using good by simp
  from satD [OF store_lift_blob [OF sat_chain [OF parts(1,2) b]] inv run] good
  obtain c where c: "complete_chain env files (rev c)" "last c = b" by (auto split: sum.splits)
  have "hd (rev c) = b" using c(2) by (simp add: hd_rev)
  from complete_ancestry [OF parts(2,3) c(1) this b] have "ancestry env files b (rev c)" .
  moreover obtain p where "parse_of env files b = Inr p" using good b by (auto simp: all_intact_def intact_def)
  ultimately show ?thesis using that b by (simp add: manifest_of_def)
qed

lemma inspect_returns:
  assumes "inspectable env files s" and "paths_end env files"
  shows "\<exists>r. inspect env d version list s = Returned r"
proof (cases "index_depot (env_index env) d")
  case None
  then show ?thesis by (simp add: inspect_def inspect_depot_def action_simps)
next
  case (Some dep)
  show ?thesis
  proof (cases version)
    case None
    with inspect_depot_exact [OF assms(1) Some] show ?thesis by blast
  next
    case v: (Some name)
    show ?thesis
    proof (cases "resolve_version env d name")
      case (Inl e)
      then show ?thesis
        by (simp add: inspect_def inspect_depot_def inspect_version_def v Some action_simps println_def)
    next
      case (Inr b)
      obtain bs m where b: "known env b" "ancestry env files b bs" "manifest_of env files b = Some m"
        by (rule resolved_facts [OF assms(1) Inr])
      have "path m (of_nat i) \<noteq> None" if "(i, n) \<in> set (zip [0..<length (nodes m)] (nodes m))" "\<not> is_dir n" for i n
      proof -
        have "of_nat i \<in> set (file_nodes m)" using that by (auto simp: file_nodes_def set_zip)
        then show ?thesis using assms(2) b(1,3) by (simp add: paths_end_def)
      qed
      then have paths: "list \<longrightarrow> (\<forall>(i, n) \<in> set (zip [0..<length (nodes m)] (nodes m)). \<not> is_dir n \<longrightarrow> path m (of_nat i) \<noteq> None)"
        by blast
      have good: "good_dump env files" using assms(1) by (simp add: inspectable_def)
      note prints = prints_version [OF good Inr b(2,3) paths, of dep]
      from inspect_prints [OF Some assms(1), where version = version and list = list, unfolded v option.case, OF prints]
      show ?thesis unfolding v by blast
    qed
  qed
qed

lemma verify_returns:
  assumes "inspectable env files s" and "paths_end env files" and "jobs + 4294967296 < 18446744073709551616"
  shows "\<exists>N. \<forall>sched. (\<forall>w < max jobs 1. N \<le> count_list sched w) \<longrightarrow> (\<exists>r. verify_version env d version jobs sched s = Returned r)"
proof (cases "resolve_version env d version")
  case (Inl e)
  then show ?thesis by (simp add: verify_version_def)
next
  case (Inr b)
  obtain bs m where b: "known env b" "ancestry env files b bs" "manifest_of env files b = Some m"
    by (rule resolved_facts [OF assms(1) Inr])
  have "length (nodes m) < 4294967296" using manifest_of_wf [OF b(3)] by (simp add: wf_manifest_def)
  moreover have "length (file_nodes m) \<le> length (nodes m)"
    unfolding file_nodes_def length_map by (rule order_trans [OF length_filter_le]) simp
  ultimately have "verify_input env files d version jobs s m bs"
    using assms b Inr by (auto simp: verify_input_def inspectable_def paths_end_def)
  then show ?thesis by (rule verify_ends)
qed

lemma audit_blobs_distinct:
  assumes "closed_index (env_index env)"
  shows "distinct (audit_blobs env d)"
proof -
  let ?P = "\<lambda>(e, dep). case d of None \<Rightarrow> True | Some w \<Rightarrow> w = e"
  note ix = closed_index_parts [OF assms]
  have "ascending_keys (depots (env_index env))" using ix(1) by (simp add: index_inv_def)
  then have keys: "distinct (map fst (depots (env_index env)))" by (simp add: ascending_keys_def strict_sorted_iff)
  have known: "index_depot (env_index env) e = Some dep" if "(e, dep) \<in> set (depots (env_index env))" for e dep
    using keys that by (simp add: index_depot_def)
  have "distinct (concat (map (\<lambda>(e, dep). depot_blobs dep) (filter ?P ds)))"
    if "distinct (map fst ds)" "set ds \<subseteq> set (depots (env_index env))" for ds
    using that
  proof (induction ds)
    case (Cons x ds)
    obtain e dep where x: "x = (e, dep)" by fastforce
    have own: "distinct (depot_blobs dep)" "\<forall>b \<in> set (depot_blobs dep). bf_depot (index_blob (env_index env) b) = e"
      using loaded_depot [OF ix known] Cons.prems(2) x by auto
    have "bf_depot (index_blob (env_index env) b) \<noteq> e"
      if "b \<in> set (concat (map (\<lambda>(e, dep). depot_blobs dep) (filter ?P ds)))" for b
    proof -
      from that obtain e' dep' where "(e', dep') \<in> set ds" "b \<in> set (depot_blobs dep')" by auto
      then show ?thesis using loaded_depot [OF ix known, of e' dep'] Cons.prems x by force
    qed
    with own Cons x show ?case by auto
  qed simp
  from this [OF keys] show ?thesis by (simp add: audit_blobs_def)
qed

lemma audit_returns:
  assumes "inspectable env files s" and "jobs + 4294967296 < 18446744073709551616"
  shows "\<exists>N. \<forall>sched. (\<forall>w < max jobs 1. N \<le> count_list sched w) \<longrightarrow>
    (\<exists>r. key_audit explain env d opened torn jobs sched s = Returned r)"
proof -
  have "closed_index (env_index env)" using assms(1) good_dump_parts(2) by (auto simp: inspectable_def)
  from distinct_card [OF audit_blobs_distinct [OF this]] have "length (audit_blobs env d) = card (set (audit_blobs env d))" by simp
  also have "\<dots> \<le> card (UNIV :: u32 set)" by (rule card_mono) simp_all
  also have "\<dots> = 4294967296" by (simp add: card_word)
  finally have "audit_input env files d jobs s" using assms by (auto simp: audit_input_def inspectable_def)
  then show ?thesis by (rule audit_ends)
qed

fun command_jobs :: "command \<Rightarrow> nat" where
  "command_jobs (Verify src d version jobs) = jobs"
| "command_jobs (Key_audit src d out jobs) = jobs"
| "command_jobs _ = 1"

lemma dispatch_returns:
  assumes "inspectable env files s" and "paths_end env files" and "command_jobs c + 4294967296 < 18446744073709551616"
  shows "\<exists>N. \<forall>sched. (\<forall>i < max (command_jobs c) 1. N \<le> count_list sched i) \<longrightarrow>
    (\<exists>r. dispatch (w\<lparr>ou_sched := sched\<rparr>) env s c = Returned r)"
proof (cases c)
  case (Mount src mountpoint allow ts)
  then show ?thesis by simp
next
  case (Inspect src d version list)
  from inspect_returns [OF assms(1,2), of d version list] show ?thesis by (auto simp: Inspect split: prod.splits)
next
  case (Verify src d version jobs)
  with verify_returns [OF assms(1,2), of jobs d version] assms(3) obtain N where
    N: "\<And>sched. \<forall>i < max jobs 1. N \<le> count_list sched i \<Longrightarrow> \<exists>r. verify_version env d version jobs sched s = Returned r" by auto
  show ?thesis
  proof (intro exI [of _ N] allI impI)
    fix sched assume "\<forall>i < max (command_jobs c) 1. N \<le> count_list sched i"
    with N [of sched] show "\<exists>r. dispatch (w\<lparr>ou_sched := sched\<rparr>) env s c = Returned r" by (auto simp: Verify split: prod.splits)
  qed
next
  case (Key_audit src d out jobs)
  with audit_returns [OF assms(1), of jobs "ou_explain w" d "ou_output w out" "ou_torn w"] assms(3) obtain N where
    N: "\<And>sched. \<forall>i < max jobs 1. N \<le> count_list sched i \<Longrightarrow>
      \<exists>r. key_audit (ou_explain w) env d (ou_output w out) (ou_torn w) jobs sched s = Returned r" by auto
  show ?thesis
  proof (intro exI [of _ N] allI impI)
    fix sched assume "\<forall>i < max (command_jobs c) 1. N \<le> count_list sched i"
    with N [of sched] show "\<exists>r. dispatch (w\<lparr>ou_sched := sched\<rparr>) env s c = Returned r" by (auto simp: Key_audit split: prod.splits)
  qed
qed

section \<open>The small dump, from a server\<close>

lemma dump_connects: "\<exists>b st t. connect (small_world (Matches True) (Inr [])) list_lru ''host'' ''/d'' 0 = (Inr (b, st), t)"
proof -
  have "split_destination ''host'' = (None, ''host'', None)"
    by (simp add: split_destination_def strip_prefix_def split_once_None rsplit_once_def)
  then show ?thesis
    by (simp add: connect_def small_world_def configure_def Let_def action_simps request_or_def request_def check_server_key_def
        in_authentication_def authenticate_def identity_files_def sftp_new_def)
qed

lemma dump_server_opens:
  "open_store (dump_process (\<lambda>_. False)) (dump_args ''host:/d'') = Some (Inr (dump_env, dump_store))"
proof -
  have "split_once CHR '':'' ''host:/d'' = Some (''host'', ''/d'')" using split_once_append [of "CHR '':''" "''host''" "''/d''"] by simp
  then have src: "parse_source (\<lambda>_. False) ''host:/d'' = Sftp ''host'' ''/d''"
    by (simp add: parse_source_def strip_prefix_def)
  from dump_connects obtain b st t where
    c: "connect (small_world (Matches True) (Inr [])) list_lru ''host'' ''/d'' 0 = (Inr (b, st), t)" by blast
  have "backend_open (dump_process (\<lambda>_. False)) (parse_source (pr_exists (dump_process (\<lambda>_. False))) (arg_source (dump_args ''host:/d''))) =
      Inr (\<lambda>t. dump_backend)"
    using c src by (simp add: backend_open_def dump_process_def dump_args_def)
  moreover have "dump_env\<lparr>env_backend := \<lambda>t. dump_backend, env_index := dump_index, env_keys := key_insert 7 dump_key key_store_new,
      env_blob_keys := [], env_depot_keys := [(7, dump_key)], env_cfg := dump_cfg\<rparr> = dump_env"
    by (simp add: dump_env_def)
  ultimately show ?thesis
    by (simp add: open_store_def dump_load dump_load_keys dump_blob_cache dump_config Let_def)
      (simp add: dump_process_def dump_store_def)
qed

end
