(* ===== verification/Spec2Isabelle.thy ===== *)
theory Spec2Isabelle
  imports Blob_Format Checksum_Table Dat_Chunk Manifest_Format Key_Store Byte_Lru Single_Flight
    Civil_Dates Backends Dump_Index Store_Properties Node_Flags Tree_Properties
    Fuse_Properties Sftp_Reads Sftp_Listings Win_Properties Verify_Properties Audit_Properties
    Ssh_Connect Win_Host Inspect_Properties Open_Properties Main_Properties
begin

text \<open>
  A verification library for steam2fs, which serves a dump of Steam 2 content (blobs that describe the
  versions of depots, and dats with their data) as a read-only file system and checks it.

  \<^bold>\<open>The program and its theories.\<close>  Files are named under \<open>src/src\<close>.

  \<^item> On-disk format (\<open>format/\<close>).  \<open>Format_Base\<close>: errors, block size and little-endian readers (\<open>mod.rs\<close>).
    \<open>Blob_Format\<close>: the key-value blobs (\<open>blob.rs\<close>: \<open>Blob::parse\<close>, \<open>decompress\<close>, \<open>VersionMeta\<close>).  \<open>Checksum_Table\<close>: the file
    records (\<open>checksums.rs\<close>).  \<open>Dat_Chunk\<close>: the four ways a block is stored (\<open>chunk.rs\<close>).  \<open>Manifest_Format\<close> and
    \<open>Node_Flags\<close>: the directory of a version and the flags of its nodes (\<open>manifest.rs\<close>).
  \<^item> Keys (\<open>keys/\<close>).  \<open>Key_Table_1\<close> to \<open>Key_Table_4\<close> are the built-in table row by row (\<open>table.rs\<close>), \<open>Key_Order\<close> its order,
    \<open>Key_Store\<close> the overrides, the specifications and the search (\<open>mod.rs\<close>).
  \<^item> Caches (\<open>cache.rs\<close>).  \<open>Byte_Lru\<close>: a cache bounded by its bytes.  \<open>Single_Flight\<close>: one thread at a time per key, as
    a step relation over the threads' positions.
  \<^item> Backends (\<open>backend/\<close>).  \<open>Backends\<close>: the trait as a record of operations, source strings, local directories
    (\<open>mod.rs\<close>, \<open>local.rs\<close>).  \<open>Sftp\<close>: handles, pipelined reads and the two listings over a session; \<open>Ssh_Connect\<close>: how
    the session comes about (\<open>sftp.rs\<close>).
  \<^item> Index (\<open>index.rs\<close>).  \<open>Civil_Dates\<close>: the calendar.  \<open>Dump_Index\<close>: names, dates, depots and versions.
  \<^item> Store (\<open>store.rs\<close>).  \<open>Store_Base\<close>: errors, configuration, the state and its locks.  \<open>Blob_Store\<close>: blobs, the cache
    directory and version chains.  \<open>File_Tables\<close>: the layered tables of records.  \<open>Block_Store\<close>: windows, keys, blocks
    and reads.
  \<^item> Tree (\<open>tree.rs\<close>).  \<open>Virtual_Tree\<close>: keys, listings, lookups, parents, links and attributes.
  \<^item> Front ends.  \<open>Fuse_Fs\<close>: inodes, open directories and the handlers of \<open>fs.rs\<close>.  \<open>Win_Fs\<close>: the callbacks of \<open>winfs.rs\<close>;
    \<open>Win_Host\<close>: loading the DLL, mounting and Ctrl-C.
  \<^item> Commands (\<open>main.rs\<close>).  \<open>Open_Store\<close>: from arguments to a store.  \<open>Worker_Pool\<close>: the scoped threads.
    \<open>Verify_Command\<close>, \<open>Audit_Command\<close>, \<open>Inspect_Command\<close>: one command each.  \<open>Main_Command\<close>: mounting and the dispatch.

  \<open>Prelude\<close> has the machine words, the result type \<open>'e + 'a\<close> with \<open>rbind\<close>, the collections of simplification rules and
  the lemmas that several components share; \<open>Rust_Text\<close> and \<open>Rust_Slice\<close> have what is used of \<open>str\<close> and of slices;
  \<open>Actions\<close> has state-passing actions, which keep what they changed when they fail, and the rules that compose
  statements \<open>sat I G m Q s\<close> about them.

  \<^bold>\<open>How the model corresponds to the code.\<close>  A \<open>struct\<close> is a record, an \<open>enum\<close> a datatype with the source's
  variants, \<open>Result\<close> a sum, and each function one definition, composed as in the code.  Integers of a fixed width
  are words and wrap; lengths and indices, which memory bounds, are \<open>nat\<close>, with the panic written out where the
  code would reserve more than \<open>isize::MAX\<close> bytes.  A panic aborts the process (\<open>panic = abort\<close>) and is a failure of its
  own, apart from the errors a function returns.  A \<open>str\<close> is the list of its UTF-8 bytes.  The store is one record behind
  its locks; a request to the backend or the disk takes a tick of a clock, and what is answered at a tick is
  arbitrary, so that a failing, slow or changing world is covered.  Threads appear where the code has them: in
  \<open>Single_Flight\<close> every critical section is a step, in \<open>Worker_Pool\<close> every operation of the store is one, and a list
  of thread numbers is the schedule.

  \<^bold>\<open>Parameters.\<close>  Third-party code is a parameter with its documented behaviour as a named hypothesis: the codecs
  (\<open>codecs\<close>), the \<open>lru\<close> crate (\<open>lru_documented\<close>), the operating system (\<open>pread_documented\<close>), an SFTP session, the SSH
  library (\<open>honours_check\<close>), the \<open>hex\<close> crate (\<open>hex_decodes\<close>), WinFsp's directory buffer, and the order in which a hash map is
  iterated.  \<open>Sample_Dump\<close> is a small dump of two versions on which the hypotheses hold; the witnesses evaluate on it.

  \<^bold>\<open>Contracts.\<close>  \<open>run_logic\<close> (a state moves along a preorder under an invariant) is interpreted for each layer of the
  store, the inode table, the file system and the directory buffer; \<open>value_cache\<close> for the \<open>lru\<close> crate and for \<open>ByteLru\<close>;
  \<open>ranged_reads\<close> for local files and for SFTP; \<open>ascending_table\<close> for the built-in keys; \<open>fs_frame\<close> for what the handlers
  keep; \<open>worker_pool\<close> for \<open>verify\<close> and for \<open>key_audit\<close>.

  \<^bold>\<open>What is shown.\<close>
  \<^item> Formats: written tables, manifests, blobs and blocks are read back; the parsers accept nothing out of range.
  \<^item> Store (\<open>Store_Properties\<close>): what is parsed is the dump's file, also when a cached copy has rotted; a cache write is
    atomic; chains end and are the ancestors; a lookup finds the newest record; a read returns the asked range of
    the stored file, verified block by block; when keys are settled, and how a damaged block settles them wrongly.
  \<^item> Tree (\<open>Tree_Kinds\<close>, \<open>Tree_Names\<close>, \<open>Tree_Properties\<close>): listings, lookups, kinds, links and parents agree.
  \<^item> Front ends (\<open>Fuse_Inodes\<close>, \<open>Fuse_Paging\<close>, \<open>Fuse_Safety\<close>, \<open>File_Service\<close>, \<open>Served_Files\<close>, \<open>Fuse_Properties\<close>, \<open>Win_Safety\<close>,
    \<open>Win_Properties\<close>, \<open>Win_Host\<close>): a path that is looked up is read as the file the version has there, inode numbers are stable,
    directories are paged without loss, on a good dump no request ends the process, and a Windows volume is
    stopped and unmounted in order.
  \<^item> SFTP (\<open>Sftp_Reads\<close>, \<open>Sftp_Listings\<close>): reads are exact however answers are cut; the listing command is safe to run
    and its output is read back; no key is offered to a server that is refused.
  \<^item> Commands (\<open>Verify_Reports\<close>, \<open>Verify_Properties\<close>, \<open>Audit_Reports\<close>, \<open>Audit_Properties\<close>, \<open>Inspect_Properties\<close>,
    \<open>Open_Properties\<close>, \<open>Main_Properties\<close>): reports are exact whatever the schedule and the caches, the keys that are
    written load, an opened store satisfies the invariants that all of this needs, and every command returns.

  \<^bold>\<open>Bounds and loops.\<close>  \<open>evict\<close> has fuel for one more round than there are entries, and each round removes one.  A chain
  is bounded by the code's own limit of 100000.  Splitting a string has fuel for its length.  The walk to the root
  of a manifest (\<open>path\<close>) and reading a remote directory may not end; they are partial functions, and what is claimed
  of them is claimed where they return.  Inode numbers are claimed distinct below \<open>2 ^ 63\<close> keys.  A command's scope is
  claimed to end under every schedule in which each worker moves often enough.

  \<^bold>\<open>Not modelled.\<close>  Logging; the parsing of the command line; the single-flight lock inside the sequential model of
  the store, which is a model of its own; the creation of directories beyond its result; memory limits other than the
  reservations above; keep-alive and timeouts of a session; the FUSE session and WinFsp's dispatcher, which call the
  handlers; the build script; the tests.
\<close>

section \<open>Every command returns\<close>


definition dump_outside :: "nat outside" where
  "dump_outside =
     \<lparr>ou_process = dump_process (\<lambda>_. False), ou_ids = (0, 0), ou_session = (\<lambda>_ _ _ _. Inr ()), ou_explain = (\<lambda>_. ''x''),
      ou_output = (\<lambda>_. Inr []), ou_torn = (\<lambda>_. None), ou_sched = []\<rparr>"

lemma dump_paths_end: "paths_end dump_env dump_file"
proof -
  have "m = sample_manifest" if "known dump_env b" "manifest_of dump_env dump_file b = Some m" for b m
    using dump_known(3) [OF that(1)] that(2) dump_manifest_of by auto
  then show ?thesis using sample_paths by (fastforce simp: paths_end_def sample_file_nodes)
qed


end
